(* ===== verification/Go_Prelude.thy ===== *)
theory Go_Prelude
  imports Main "HOL-Library.Char_ord" "HOL-Library.List_Lexorder" "HOL-Library.Finite_Map"
    "HOL-Library.Word"
begin

text \<open>
  What the components share of the Go language and of its standard library: strings as byte
  lists with the \<^verbatim>\<open>strings\<close> and \<^verbatim>\<open>strconv\<close> functions the sources call, the
  order-preserving duplicate filter that several loops of the sources are, and the facts about
  them that the component proofs rest on.

  A Go string is a byte sequence, so \<open>string\<close> (a list of 8-bit characters) is its exact
  counterpart: a code point beyond ASCII is the several bytes of its UTF-8 encoding. White space
  is the whole of \<^verbatim>\<open>unicode.IsSpace\<close>, by its encodings. Letter case is modelled on ASCII,
  together with the code points whose mapping lands in ASCII (the Kelvin sign, the dotted capital
  I, the long s), so a comparison with an ASCII literal is exact; other letters are left alone.
\<close>

named_theorems go_str \<open>equations that evaluate the string library\<close>
named_theorems go_trim \<open>facts about trimmed strings\<close>

type_synonym 'a outcome = "string + 'a"

abbreviation failing :: "string \<Rightarrow> 'a outcome" where
  "failing \<equiv> Inl"

abbreviation okay :: "'a \<Rightarrow> 'a outcome" where
  "okay \<equiv> Inr"

section \<open>White space: TrimSpace and Fields\<close>

text \<open>The white-space code points, by the length of their UTF-8 encoding.\<close>

definition space1 :: "char \<Rightarrow> bool" where
  "space1 c \<longleftrightarrow> c \<in> {CHR 0x20, CHR 0x09, CHR 0x0A, CHR 0x0B, CHR 0x0C, CHR 0x0D}"

definition space2 :: "char \<Rightarrow> char \<Rightarrow> bool" where
  "space2 c d \<longleftrightarrow> c = CHR 0xC2 \<and> (d = CHR 0x85 \<or> d = CHR 0xA0)"

definition space3 :: "char \<Rightarrow> char \<Rightarrow> char \<Rightarrow> bool" where
  "space3 c d e \<longleftrightarrow>
     c = CHR 0xE1 \<and> d = CHR 0x9A \<and> e = CHR 0x80
     \<or> c = CHR 0xE2 \<and> d = CHR 0x80
         \<and> (0x80 \<le> (of_char e :: nat) \<and> (of_char e :: nat) \<le> 0x8A
             \<or> e = CHR 0xA8 \<or> e = CHR 0xA9 \<or> e = CHR 0xAF)
     \<or> c = CHR 0xE2 \<and> d = CHR 0x81 \<and> e = CHR 0x9F
     \<or> c = CHR 0xE3 \<and> d = CHR 0x80 \<and> e = CHR 0x80"

text \<open>The length of the white-space encoding at the front of a byte sequence, 0 if there is none.\<close>

fun space_len :: "string \<Rightarrow> nat" where
  "space_len [] = 0"
| "space_len (c # s) =
     (if space1 c then 1
      else (case s of [] \<Rightarrow> 0
            | d # t \<Rightarrow> if space2 c d then 2
                else (case t of [] \<Rightarrow> 0 | e # _ \<Rightarrow> if space3 c d e then 3 else 0)))"

text \<open>The same at the end of a byte sequence, which is given reversed.\<close>

fun space_len_rev :: "string \<Rightarrow> nat" where
  "space_len_rev [] = 0"
| "space_len_rev (c # s) =
     (if space1 c then 1
      else (case s of [] \<Rightarrow> 0
            | d # t \<Rightarrow> if space2 d c then 2
                else (case t of [] \<Rightarrow> 0 | e # _ \<Rightarrow> if space3 e d c then 3 else 0)))"

declare space_len.simps [simp del, go_str] space_len_rev.simps [simp del, go_str]
  space1_def [go_str] space2_def [go_str] space3_def [go_str]

fun trim_left :: "string \<Rightarrow> string" where
  "trim_left [] = []"
| "trim_left (c # s) =
     (if space_len (c # s) = 0 then c # s else trim_left (drop (space_len (c # s) - 1) s))"

fun trim_rev :: "string \<Rightarrow> string" where
  "trim_rev [] = []"
| "trim_rev (c # s) =
     (if space_len_rev (c # s) = 0 then c # s else trim_rev (drop (space_len_rev (c # s) - 1) s))"

text \<open>\<^verbatim>\<open>strings.TrimSpace\<close>.\<close>

definition trim_space :: "string \<Rightarrow> string" where
  "trim_space s = rev (trim_rev (rev (trim_left s)))"

abbreviation blank :: "string \<Rightarrow> bool" where
  "blank s \<equiv> trim_space s = []"

text \<open>\<^verbatim>\<open>strings.Fields\<close>, the current field kept reversed.\<close>

fun fields_from :: "string \<Rightarrow> string \<Rightarrow> string list" where
  "fields_from cur [] = (if cur = [] then [] else [rev cur])"
| "fields_from cur (c # s) =
     (if space_len (c # s) = 0 then fields_from (c # cur) s
      else if cur = [] then fields_from [] (drop (space_len (c # s) - 1) s)
      else rev cur # fields_from [] (drop (space_len (c # s) - 1) s))"

definition str_fields :: "string \<Rightarrow> string list" where
  "str_fields s = fields_from [] s"

section \<open>Letter case\<close>

definition lower_byte :: "char \<Rightarrow> char" where
  "lower_byte c =
     (if 65 \<le> (of_char c :: nat) \<and> (of_char c :: nat) \<le> 90 then char_of ((of_char c :: nat) + 32) else c)"

text \<open>\<^verbatim>\<open>strings.ToLower\<close>: the Kelvin sign becomes k, the dotted capital I becomes i.\<close>

fun to_lower :: "string \<Rightarrow> string" where
  "to_lower [] = []"
| "to_lower (c # s) =
     (case s of
        d # t \<Rightarrow>
          if c = CHR 0xC4 \<and> d = CHR 0xB0 then CHR ''i'' # to_lower t
          else (case t of
                  e # u \<Rightarrow> if c = CHR 0xE2 \<and> d = CHR 0x84 \<and> e = CHR 0xAA then CHR ''k'' # to_lower u
                           else lower_byte c # to_lower s
                | [] \<Rightarrow> lower_byte c # to_lower s)
      | [] \<Rightarrow> [lower_byte c])"

text \<open>The folding key of \<^verbatim>\<open>strings.EqualFold\<close>: the long s folds to s, the Kelvin sign to k.\<close>

fun fold_key :: "string \<Rightarrow> string" where
  "fold_key [] = []"
| "fold_key (c # s) =
     (case s of
        d # t \<Rightarrow>
          if c = CHR 0xC5 \<and> d = CHR 0xBF then CHR ''s'' # fold_key t
          else (case t of
                  e # u \<Rightarrow> if c = CHR 0xE2 \<and> d = CHR 0x84 \<and> e = CHR 0xAA then CHR ''k'' # fold_key u
                           else lower_byte c # fold_key s
                | [] \<Rightarrow> lower_byte c # fold_key s)
      | [] \<Rightarrow> [lower_byte c])"

definition equal_fold :: "string \<Rightarrow> string \<Rightarrow> bool" where
  "equal_fold s t \<longleftrightarrow> fold_key s = fold_key t"

section \<open>Prefixes, splitting, joining\<close>

definition has_prefix :: "string \<Rightarrow> string \<Rightarrow> bool" where
  "has_prefix s p \<longleftrightarrow> take (length p) s = p"

definition has_suffix :: "string \<Rightarrow> string \<Rightarrow> bool" where
  "has_suffix s p \<longleftrightarrow> has_prefix (rev s) (rev p)"

definition trim_prefix :: "string \<Rightarrow> string \<Rightarrow> string" where
  "trim_prefix s p = (if has_prefix s p then drop (length p) s else s)"

fun contains_str :: "string \<Rightarrow> string \<Rightarrow> bool" where
  "contains_str [] p \<longleftrightarrow> p = []"
| "contains_str (c # s) p \<longleftrightarrow> has_prefix (c # s) p \<or> contains_str s p"

text \<open>\<^verbatim>\<open>strings.Split\<close> with a one-byte separator.\<close>

fun split_on :: "char \<Rightarrow> string \<Rightarrow> string list" where
  "split_on c [] = [[]]"
| "split_on c (x # s) =
     (if x = c then [] # split_on c s
      else (case split_on c s of [] \<Rightarrow> [[x]] | y # ys \<Rightarrow> (x # y) # ys))"

text \<open>\<^verbatim>\<open>strings.Join\<close>.\<close>

fun join_with :: "string \<Rightarrow> string list \<Rightarrow> string" where
  "join_with sep [] = []"
| "join_with sep [x] = x"
| "join_with sep (x # y # ys) = x @ sep @ join_with sep (y # ys)"

text \<open>\<^verbatim>\<open>strings.TrimRight(s, cutset)\<close> for a one-byte cutset.\<close>

definition trim_right_char :: "char \<Rightarrow> string \<Rightarrow> string" where
  "trim_right_char c s = rev (dropWhile (\<lambda>x. x = c) (rev s))"

section \<open>Decimal numbers\<close>

definition digit_char :: "nat \<Rightarrow> char" where
  "digit_char d = char_of (48 + d)"

definition is_digit :: "char \<Rightarrow> bool" where
  "is_digit c \<longleftrightarrow> 48 \<le> (of_char c :: nat) \<and> (of_char c :: nat) \<le> 57"

definition digit_val :: "char \<Rightarrow> nat" where
  "digit_val c = of_char c - 48"

fun show_nat :: "nat \<Rightarrow> string" where
  "show_nat n = (if n < 10 then [digit_char n] else show_nat (n div 10) @ [digit_char (n mod 10)])"

declare show_nat.simps [simp del]

text \<open>\<^verbatim>\<open>strconv.Itoa\<close> and \<^verbatim>\<open>strconv.FormatInt(_, 10)\<close>.\<close>

definition itoa :: "int \<Rightarrow> string" where
  "itoa i = (if i < 0 then ''-'' @ show_nat (nat (- i)) else show_nat (nat i))"

definition parse_digits :: "string \<Rightarrow> nat" where
  "parse_digits s = foldl (\<lambda>n c. 10 * n + digit_val c) 0 s"

text \<open>
  \<^verbatim>\<open>strconv.Atoi\<close> on a 64-bit platform: an optional sign, at least one digit, nothing else,
  and a value that fits an \<^verbatim>\<open>int64\<close>.
\<close>

definition int64_min :: int where
  "int64_min = - (2 ^ 63)"

definition int64_max :: int where
  "int64_max = 2 ^ 63 - 1"

definition atoi :: "string \<Rightarrow> int option" where
  "atoi s =
     (let neg = has_prefix s ''-'';
          body = (if neg \<or> has_prefix s ''+'' then drop 1 s else s);
          v = (if neg then - int (parse_digits body) else int (parse_digits body))
      in if body \<noteq> [] \<and> list_all is_digit body \<and> int64_min \<le> v \<and> v \<le> int64_max then Some v else None)"

section \<open>Duplicate filters\<close>

text \<open>
  The loops of the sources that keep a \<^verbatim>\<open>seen\<close> map next to an output slice keep the first
  occurrence of every key. \<open>first_occ\<close> is their common specification.
\<close>

fun first_occ :: "'a list \<Rightarrow> 'a list" where
  "first_occ [] = []"
| "first_occ (x # xs) = x # filter (\<lambda>y. y \<noteq> x) (first_occ xs)"

definition clean_list :: "string list \<Rightarrow> string list" where
  "clean_list xs = first_occ (filter (\<lambda>x. x \<noteq> []) (map trim_space xs))"

declare lower_byte_def [go_str] digit_char_def [go_str] is_digit_def [go_str] digit_val_def [go_str]
  show_nat.simps [go_str] itoa_def [go_str] has_prefix_def [go_str] has_suffix_def [go_str]
  trim_prefix_def [go_str] trim_space_def [go_str] equal_fold_def [go_str] str_fields_def [go_str]
  atoi_def [go_str] parse_digits_def [go_str] int64_min_def [go_str] int64_max_def [go_str]
  trim_right_char_def [go_str] char_of_def [go_str] bit_0 [go_str]

section \<open>Facts about trimming\<close>

lemma space_len_le: "space_len s \<le> length s"
  by (cases s) (auto simp: space_len.simps split: list.splits)

lemma space_len_rev_le: "space_len_rev s \<le> length s"
  by (cases s) (auto simp: space_len_rev.simps split: list.splits)

lemma space_len_take: "space_len s = 0 \<Longrightarrow> space_len (take k s) = 0"
  by (cases s; cases k) (auto simp: space_len.simps take_Cons' split: list.splits if_splits)

lemma space_len_rev_drop_prefix: "space_len_rev s = 0 \<Longrightarrow> space_len_rev (take k s) = 0"
  by (cases s; cases k) (auto simp: space_len_rev.simps take_Cons' split: list.splits if_splits)

lemma trim_left_id: "space_len s = 0 \<Longrightarrow> trim_left s = s"
  by (cases s) auto

lemma space_len_trim_left [simp]: "space_len (trim_left s) = 0"
  by (induction s rule: trim_left.induct) (auto simp: space_len.simps(1))

lemma trim_rev_id: "space_len_rev s = 0 \<Longrightarrow> trim_rev s = s"
  by (cases s) auto

lemma space_len_rev_trim_rev [simp]: "space_len_rev (trim_rev s) = 0"
  by (induction s rule: trim_rev.induct) (auto simp: space_len_rev.simps(1))

lemma drop_pred_Cons: "0 < n \<Longrightarrow> drop k (drop (n - Suc 0) s) = drop (k + n) (c # s)"
  by (cases n) (simp_all add: add.commute)

lemma rev_drop_rev: "rev (drop j (rev s)) = take (length s - j) s"
  by (simp add: rev_drop)

lemma trim_rev_suffix: "\<exists>k. trim_rev s = drop k s"
proof (induction s rule: trim_rev.induct)
  case (2 c s)
  then show ?case
    by (cases "space_len_rev (c # s) = 0")
      (auto simp: drop_pred_Cons [where c = c] simp del: drop_drop intro: exI [of _ 0])
qed simp

lemma trim_left_suffix: "\<exists>k. trim_left s = drop k s"
proof (induction s rule: trim_left.induct)
  case (2 c s)
  then show ?case
    by (cases "space_len (c # s) = 0")
      (auto simp: drop_pred_Cons [where c = c] simp del: drop_drop intro: exI [of _ 0])
qed simp

text \<open>A trimmed string is a contiguous part of the original one.\<close>

lemma trim_space_part: "\<exists>k n. trim_space s = take n (drop k s)"
proof -
  obtain k where k: "trim_left s = drop k s" using trim_left_suffix by blast
  obtain j where "trim_rev (rev (drop k s)) = drop j (rev (drop k s))" using trim_rev_suffix by blast
  then have "trim_space s = take (length (drop k s) - j) (drop k s)"
    unfolding trim_space_def k by (simp only: rev_drop_rev)
  then show ?thesis by blast
qed

lemma set_trim_space: "set (trim_space s) \<subseteq> set s"
proof -
  obtain k n where "trim_space s = take n (drop k s)" using trim_space_part by blast
  then show ?thesis using set_take_subset [of n "drop k s"] set_drop_subset [of k s] by auto
qed

lemma length_trim_space: "length (trim_space s) \<le> length s"
proof -
  obtain k n where "trim_space s = take n (drop k s)" using trim_space_part by blast
  then show ?thesis by simp
qed

lemma space_len_trim_space [simp]: "space_len (trim_space s) = 0"
proof -
  obtain j where "trim_rev (rev (trim_left s)) = drop j (rev (trim_left s))"
    using trim_rev_suffix by blast
  then have "trim_space s = take (length (trim_left s) - j) (trim_left s)"
    unfolding trim_space_def by (simp only: rev_drop_rev)
  then show ?thesis by (simp add: space_len_take)
qed

lemma space_len_rev_trim_space [simp]: "space_len_rev (rev (trim_space s)) = 0"
  by (simp add: trim_space_def)

lemma trim_space_id:
  "space_len s = 0 \<Longrightarrow> space_len_rev (rev s) = 0 \<Longrightarrow> trim_space s = s"
  by (simp add: trim_space_def trim_left_id trim_rev_id)

lemma trim_space_idem [simp, go_trim]: "trim_space (trim_space s) = trim_space s"
  by (simp add: trim_space_id)

lemma trim_space_Nil [simp, go_trim]: "trim_space [] = []"
  by (simp add: trim_space_def)

lemma not_blank_not_empty: "\<not> blank s \<Longrightarrow> s \<noteq> []"
  by auto

text \<open>A string that does not begin with white space is not blank, and lower case keeps that.\<close>

lemma space_len_append: "space_len xs \<noteq> 0 \<Longrightarrow> space_len (xs @ ys) \<noteq> 0"
  using space_len_take [of "xs @ ys" "length xs"] by auto

lemma whole_space: "space_len_rev (c # s) = Suc (length s) \<Longrightarrow> space_len (rev (c # s)) \<noteq> 0"
  by (auto simp: space_len.simps space_len_rev.simps split: list.splits if_splits)

lemma trim_rev_Nil: "trim_rev s = [] \<Longrightarrow> s \<noteq> [] \<Longrightarrow> space_len (rev s) \<noteq> 0"
proof (induction s rule: trim_rev.induct)
  case (2 c s)
  let ?n = "space_len_rev (c # s)" and ?r = "drop (space_len_rev (c # s) - 1) s"
  have n: "?n \<noteq> 0" "trim_rev ?r = []" using 2(2) by (auto split: if_splits)
  show ?case
  proof (cases "?r = []")
    case True
    then have "?n = Suc (length s)" using n(1) space_len_rev_le [of "c # s"] by auto
    then show ?thesis by (rule whole_space)
  next
    case False
    then have "space_len (rev ?r) \<noteq> 0" using 2(1) n by blast
    moreover have "rev (c # s) = rev ?r @ rev (take (?n - 1) s) @ [c]"
      by (metis append_assoc append_take_drop_id rev.simps(2) rev_append)
    ultimately show ?thesis using space_len_append by metis
  qed
qed simp

lemma trim_not_blank: "space_len s = 0 \<Longrightarrow> s \<noteq> [] \<Longrightarrow> trim_space s \<noteq> []"
  using trim_rev_Nil [of "rev s"] by (auto simp: trim_space_def trim_left_id)

lemma lower_byte_range: "lower_byte c = c \<or> 97 \<le> (of_char (lower_byte c) :: nat) \<and> (of_char (lower_byte c) :: nat) \<le> 122"
  by (auto simp: lower_byte_def of_char_of)

lemma to_lower_step:
  "to_lower (c # t) = lower_byte c # to_lower t \<or> (\<exists>u. to_lower (c # t) = CHR ''i'' # u) \<or> (\<exists>u. to_lower (c # t) = CHR ''k'' # u)"
  by (simp split: list.split)

lemma to_lower_Cons:
  assumes "to_lower s = b # u" and "\<not> (97 \<le> (of_char b :: nat) \<and> (of_char b :: nat) \<le> 122)"
  shows "\<exists>s'. s = b # s' \<and> u = to_lower s'"
proof -
  obtain c t where s: "s = c # t" using assms(1) by (cases s) auto
  have "b \<noteq> CHR ''i''" "b \<noteq> CHR ''k''" using assms(2) by auto
  then have "to_lower (c # t) = lower_byte c # to_lower t" using to_lower_step [of c t] assms(1) s by auto
  then have b: "b = lower_byte c" "u = to_lower t" using assms(1) s by (simp_all del: to_lower.simps)
  then have "b = c" using lower_byte_range [of c] assms(2) by auto
  with b s show ?thesis by simp
qed

lemma space_len_to_lower: "space_len s = 0 \<Longrightarrow> space_len (to_lower s) = 0"
proof (rule ccontr)
  assume s: "space_len s = 0" and "space_len (to_lower s) \<noteq> 0"
  then obtain c t where t: "to_lower s = c # t" "space_len (c # t) \<noteq> 0" by (cases "to_lower s") (auto simp: space_len.simps)
  have "space_len s \<noteq> 0"
  proof (cases "space1 c")
    case True
    then show ?thesis using to_lower_Cons [OF t(1)] by (auto simp: space1_def space_len.simps)
  next
    case False
    with t(2) obtain d u where u: "t = d # u" "space2 c d \<or> (\<exists>e v. u = e # v \<and> space3 c d e)"
      by (auto simp: space_len.simps split: list.splits if_splits)
    then have "\<not> (97 \<le> (of_char c :: nat) \<and> (of_char c :: nat) \<le> 122)" "\<not> (97 \<le> (of_char d :: nat) \<and> (of_char d :: nat) \<le> 122)"
      by (auto simp: space2_def space3_def)
    then obtain s1 s2 where s2: "s = c # s1" "s1 = d # s2" "u = to_lower s2" using to_lower_Cons t(1) u(1) by metis
    show ?thesis
    proof (cases "space2 c d")
      case False
      then obtain e v where e: "u = e # v" "space3 c d e" using u(2) by blast
      then have "\<not> (97 \<le> (of_char e :: nat) \<and> (of_char e :: nat) \<le> 122)" by (auto simp: space3_def)
      then obtain s3 where "s2 = e # s3" using to_lower_Cons e(1) s2(3) by metis
      with s2 e(2) show ?thesis by (simp add: space_len.simps)
    qed (use s2 in \<open>simp add: space_len.simps\<close>)
  qed
  with s show False by blast
qed

section \<open>Facts about the duplicate filter\<close>

lemma set_first_occ [simp]: "set (first_occ xs) = set xs"
  by (induction xs) auto

lemma distinct_first_occ [simp]: "distinct (first_occ xs)"
  by (induction xs) auto

lemma filter_neq_id: "x \<notin> set xs \<Longrightarrow> filter (\<lambda>y. y \<noteq> x) xs = xs"
  by (induction xs) auto

lemma first_occ_id: "distinct xs \<Longrightarrow> first_occ xs = xs"
  by (induction xs) (auto simp: filter_neq_id)

lemma first_occ_append:
  "first_occ (xs @ ys) = first_occ xs @ filter (\<lambda>y. y \<notin> set xs) (first_occ ys)"
  by (induction xs) (auto intro!: filter_cong)

lemma first_occ_filter: "first_occ (filter P xs) = filter P (first_occ xs)"
  by (induction xs) (auto simp: conj_commute intro!: filter_cong)

lemma length_first_occ: "length (first_occ xs) \<le> length xs"
  by (induction xs) (auto intro: le_trans [OF length_filter_le])

lemma clean_list_set: "set (clean_list xs) = trim_space ` set xs - {[]}"
  by (auto simp: clean_list_def)

lemma distinct_clean_list [simp]: "distinct (clean_list xs)"
  by (simp add: clean_list_def)

lemma clean_list_id:
  assumes "distinct xs" and "\<And>x. x \<in> set xs \<Longrightarrow> trim_space x = x \<and> x \<noteq> []"
  shows "clean_list xs = xs"
proof -
  have "map trim_space xs = xs" using assms(2) by (simp add: map_idI)
  moreover have "filter (\<lambda>x. x \<noteq> []) xs = xs" using assms(2) by (auto simp: filter_id_conv)
  ultimately show ?thesis using assms(1) by (simp add: clean_list_def first_occ_id)
qed

lemma clean_list_trimmed: "x \<in> set (clean_list xs) \<Longrightarrow> trim_space x = x \<and> x \<noteq> []"
  by (auto simp: clean_list_set)

lemma clean_list_idem [simp]: "clean_list (clean_list xs) = clean_list xs"
  by (rule clean_list_id) (auto dest: clean_list_trimmed)

text \<open>One round of a loop that skips blank and seen entries.\<close>

lemma clean_list_skip:
  "trim_space v = [] \<or> trim_space v \<in> S \<Longrightarrow>
     filter (\<lambda>x. x \<notin> S) (clean_list (v # vs)) = filter (\<lambda>x. x \<notin> S) (clean_list vs)"
  by (auto simp: clean_list_def intro!: filter_cong)

lemma clean_list_keep:
  "trim_space v \<noteq> [] \<Longrightarrow> trim_space v \<notin> S \<Longrightarrow>
     filter (\<lambda>x. x \<notin> S) (clean_list (v # vs))
     = trim_space v # filter (\<lambda>x. x \<notin> insert (trim_space v) S) (clean_list vs)"
  by (auto simp: clean_list_def intro!: filter_cong)

section \<open>Facts about splitting and numbers\<close>

lemma split_on_not_Nil [simp]: "split_on c s \<noteq> []"
  by (induction s) (auto split: list.splits)

lemma join_split_on: "join_with [c] (split_on c s) = s"
proof (induction s)
  case (Cons x s)
  then show ?case
    by (cases "split_on c s"; cases "tl (split_on c s)") auto
qed simp

lemma split_on_single: "c \<notin> set s \<Longrightarrow> split_on c s = [s]"
  by (induction s) auto

lemma split_on_append: "c \<notin> set x \<Longrightarrow> split_on c (x @ c # s) = x # split_on c s"
  by (induction x) auto

lemma split_on_join:
  "xs \<noteq> [] \<Longrightarrow> (\<And>x. x \<in> set xs \<Longrightarrow> c \<notin> set x) \<Longrightarrow> split_on c (join_with [c] xs) = xs"
  by (induction "[c]" xs rule: join_with.induct) (auto simp: split_on_single split_on_append)

lemma split_on_no_sep: "x \<in> set (split_on c s) \<Longrightarrow> c \<notin> set x"
  by (induction s arbitrary: x) (auto split: list.splits if_splits)

lemma digit_char_digit: "d < 10 \<Longrightarrow> is_digit (digit_char d)"
  by (simp add: is_digit_def digit_char_def)

lemma digit_val_char: "d < 10 \<Longrightarrow> digit_val (digit_char d) = d"
  by (simp add: digit_val_def digit_char_def)

lemma show_nat_not_Nil [simp]: "show_nat n \<noteq> []"
  by (subst show_nat.simps) simp

lemma show_nat_digits: "list_all is_digit (show_nat n)"
proof (induction n rule: show_nat.induct)
  case (1 n)
  then show ?case
    by (cases "n < 10") (simp_all add: show_nat.simps [of n] digit_char_digit)
qed

lemma parse_show_nat [simp]: "parse_digits (show_nat n) = n"
proof (induction n rule: show_nat.induct)
  case (1 n)
  then show ?case
    by (cases "n < 10") (simp_all add: show_nat.simps [of n] digit_val_char parse_digits_def)
qed

lemma digit_not_sign: "is_digit c \<Longrightarrow> c \<noteq> CHR ''-'' \<and> c \<noteq> CHR ''+''"
  by (auto simp: is_digit_def)

lemma show_nat_no_sign: "\<not> has_prefix (show_nat n) ''-''" "\<not> has_prefix (show_nat n) ''+''"
  using show_nat_digits [of n] by (cases "show_nat n"; auto simp: has_prefix_def dest: digit_not_sign)+

lemma atoi_show_nat: "int n \<le> int64_max \<Longrightarrow> atoi (show_nat n) = Some (int n)"
  using show_nat_digits [of n] show_nat_no_sign [of n]
  by (simp add: atoi_def Let_def int64_min_def)

text \<open>Formatting and parsing an \<^verbatim>\<open>int64\<close> is the identity.\<close>

lemma atoi_itoa: "int64_min \<le> i \<Longrightarrow> i \<le> int64_max \<Longrightarrow> atoi (itoa i) = Some i"
  using show_nat_digits [of "nat (- i)"]
  by (auto simp: itoa_def atoi_show_nat) (simp add: atoi_def Let_def has_prefix_def)

lemma show_nat_inj: "show_nat m = show_nat n \<longleftrightarrow> m = n"
  by (metis parse_show_nat)

text \<open>A string of digits has no white space around it.\<close>

lemma digit_no_space_byte:
  assumes "is_digit c"
  shows "\<not> space1 c" "\<not> space2 c d" "\<not> space3 c d e" "\<not> space2 d c" "\<not> space3 e d c"
  using assms by (auto simp: is_digit_def space1_def space2_def space3_def)

lemma digit_not_space: "is_digit c \<Longrightarrow> space_len (c # s) = 0"
  by (simp add: space_len.simps digit_no_space_byte split: list.splits)

lemma digit_not_space_rev: "is_digit c \<Longrightarrow> space_len_rev (c # s) = 0"
  by (simp add: space_len_rev.simps digit_no_space_byte split: list.splits)

lemma trim_show_nat [simp]: "trim_space (show_nat n) = show_nat n"
proof (rule trim_space_id)
  show "space_len (show_nat n) = 0"
    using show_nat_digits [of n] by (cases "show_nat n") (auto simp: digit_not_space)
  have "list_all is_digit (rev (show_nat n))" using show_nat_digits [of n] by simp
  then show "space_len_rev (rev (show_nat n)) = 0"
    by (cases "rev (show_nat n)") (auto simp: digit_not_space_rev space_len_rev.simps(1) simp del: rev_is_rev_conv)
qed

end
