(* ===== verification/Go_Value.thy ===== *)
theory Go_Value
  imports Go_Prelude
begin

text \<open>
  The dynamic values (\<^verbatim>\<open>any\<close>) that \<^verbatim>\<open>encoding/json\<close> decodes into and that the
  services edit in place: \<^verbatim>\<open>map[string]any\<close> as finite maps, \<^verbatim>\<open>[]any\<close> as lists, and the
  ordered structs the normaliser stores back into the document. A document on disk is the decoded
  value: encoding followed by decoding is \<open>reload\<close>, which turns every struct into a map.
  Numbers are \<^verbatim>\<open>float64\<close>: integral ones are \<open>VInt\<close>, the others carry their printed form.
\<close>

datatype goval =
    VNil
  | VBool bool
  | VInt int
  | VReal string
  | VStr string
  | VArr "goval list"
  | VMap "(string, goval) fmap"
  | VRec "(string \<times> goval) list"

type_synonym gomap = "(string, goval) fmap"

named_theorems go_val \<open>equations that evaluate dynamic values\<close>

section \<open>Printing\<close>

text \<open>
  \<^verbatim>\<open>%v\<close> of an integral \<^verbatim>\<open>float64\<close>: plain below a million, otherwise the shortest
  mantissa with a two-digit exponent.
\<close>

definition fmt_exponent :: "nat \<Rightarrow> string" where
  "fmt_exponent e = ''e+'' @ (if e < 10 then ''0'' else []) @ show_nat e"

definition fmt_float_nat :: "nat \<Rightarrow> string" where
  "fmt_float_nat n =
     (if n < 1000000 then show_nat n
      else (let ds = show_nat n; ms = trim_right_char CHR ''0'' ds
            in take 1 ms @ (if length ms > 1 then ''.'' @ drop 1 ms else []) @ fmt_exponent (length ds - 1)))"

definition fmt_float :: "int \<Rightarrow> string" where
  "fmt_float i = (if i < 0 then ''-'' @ fmt_float_nat (nat (- i)) else fmt_float_nat (nat i))"

definition fmt_entries :: "(string, string) fmap \<Rightarrow> string" where
  "fmt_entries m =
     join_with '' '' (map (\<lambda>k. k @ '':'' @ the (fmlookup m k)) (sorted_list_of_set (fset (fmdom m))))"

text \<open>\<^verbatim>\<open>fmt.Sprint\<close> and \<^verbatim>\<open>%v\<close>.\<close>

primrec fmt_v :: "goval \<Rightarrow> string" where
  "fmt_v VNil = ''<nil>''"
| "fmt_v (VBool b) = (if b then ''true'' else ''false'')"
| "fmt_v (VInt i) = fmt_float i"
| "fmt_v (VReal r) = r"
| "fmt_v (VStr s) = s"
| "fmt_v (VArr vs) = ''['' @ join_with '' '' (map fmt_v vs) @ '']''"
| "fmt_v (VMap m) = ''map['' @ fmt_entries (fmmap fmt_v m) @ '']''"
| "fmt_v (VRec fs) = CHR ''{'' # join_with '' '' (map snd (map (map_prod id fmt_v) fs)) @ [CHR 0x7D]"

text \<open>\<^verbatim>\<open>clusterconfig.getString\<close>.\<close>

definition getString :: "goval \<Rightarrow> string" where
  "getString v =
     (case v of
        VStr s \<Rightarrow> s
      | VInt i \<Rightarrow> itoa i
      | VReal r \<Rightarrow> r
      | VNil \<Rightarrow> []
      | _ \<Rightarrow> fmt_v v)"

section \<open>Documents\<close>

text \<open>\<^verbatim>\<open>json.Marshal\<close> followed by \<^verbatim>\<open>json.Unmarshal\<close> into \<^verbatim>\<open>any\<close>.\<close>

primrec reload :: "goval \<Rightarrow> goval" where
  "reload VNil = VNil"
| "reload (VBool b) = VBool b"
| "reload (VInt i) = VInt i"
| "reload (VReal r) = VReal r"
| "reload (VStr s) = VStr s"
| "reload (VArr vs) = VArr (map reload vs)"
| "reload (VMap m) = VMap (fmmap reload m)"
| "reload (VRec fs) = VMap (fmap_of_list (map (map_prod id reload) fs))"

section \<open>Map access\<close>

text \<open>\<^verbatim>\<open>m[k]\<close>: the zero value where the key is absent.\<close>

definition mget :: "gomap \<Rightarrow> string \<Rightarrow> goval" where
  "mget m k = (case fmlookup m k of Some v \<Rightarrow> v | None \<Rightarrow> VNil)"

fun as_map :: "goval \<Rightarrow> gomap option" where
  "as_map (VMap m) = Some m"
| "as_map _ = None"

fun as_list :: "goval \<Rightarrow> goval list option" where
  "as_list (VArr vs) = Some vs"
| "as_list _ = None"

abbreviation gets :: "gomap \<Rightarrow> string \<Rightarrow> string" where
  "gets m k \<equiv> getString (mget m k)"

text \<open>The string stored under a key by an assignment \<^verbatim>\<open>m[k] = s\<close>.\<close>

abbreviation puts :: "string \<Rightarrow> string \<Rightarrow> gomap \<Rightarrow> gomap" where
  "puts k s m \<equiv> fmupd k (VStr s) m"

text \<open>The child map \<^verbatim>\<open>ensureMap\<close> returns, and the parent it leaves behind.\<close>

definition submap :: "gomap \<Rightarrow> string \<Rightarrow> gomap" where
  "submap parent key = (case as_map (mget parent key) of Some m \<Rightarrow> m | None \<Rightarrow> fmempty)"

definition ensureMap :: "gomap \<Rightarrow> string \<Rightarrow> gomap \<times> gomap" where
  "ensureMap parent key = (submap parent key, fmupd key (VMap (submap parent key)) parent)"

text \<open>
  The child is a reference into the parent, so edits of the child are edits of the parent:
  \<open>edit_map\<close> is \<^verbatim>\<open>ensureMap\<close> followed by the edit \<open>f\<close> of the child.
\<close>

definition edit_map :: "string \<Rightarrow> (gomap \<Rightarrow> gomap) \<Rightarrow> gomap \<Rightarrow> gomap" where
  "edit_map key f parent =
     (let (child, parent') = ensureMap parent key in fmupd key (VMap (f child)) parent')"

declare mget_def [go_val] submap_def [go_val] ensureMap_def [go_val] edit_map_def [go_val]
  getString_def [go_val] fmt_float_def [go_val] fmt_float_nat_def [go_val] fmt_exponent_def [go_val]

section \<open>Facts\<close>

lemma mget_upd [simp]: "mget (fmupd k v m) k' = (if k = k' then v else mget m k')"
  by (simp add: mget_def)

lemma mget_drop [simp]: "mget (fmdrop k m) k' = (if k = k' then VNil else mget m k')"
  by (simp add: mget_def)

lemma mget_empty [simp]: "mget fmempty k = VNil"
  by (simp add: mget_def)

lemma fmlookup_mget: "fmlookup m k = Some v \<Longrightarrow> mget m k = v"
  by (simp add: mget_def)

lemma getString_simps [simp]:
  "getString (VStr s) = s" "getString VNil = []" "getString (VInt i) = itoa i" "getString (VReal r) = r"
  by (simp_all add: getString_def)

lemma submap_upd [simp]:
  "submap (fmupd k v m) k' = (if k = k' then (case as_map v of Some c \<Rightarrow> c | None \<Rightarrow> fmempty) else submap m k')"
  by (simp add: submap_def)

lemma submap_drop [simp]:
  "submap (fmdrop k m) k' = (if k = k' then fmempty else submap m k')"
  by (simp add: submap_def)

lemma submap_empty [simp]: "submap fmempty k = fmempty"
  by (simp add: submap_def)

lemma edit_map_eq: "edit_map key f parent = fmupd key (VMap (f (submap parent key))) parent"
  by (simp add: edit_map_def ensureMap_def)

lemma fmlookup_edit_map [simp]:
  "fmlookup (edit_map key f m) k = (if k = key then Some (VMap (f (submap m key))) else fmlookup m k)"
  by (auto simp: edit_map_eq)

lemma mget_edit_map [simp]:
  "mget (edit_map key f m) k = (if k = key then VMap (f (submap m key)) else mget m k)"
  by (simp add: mget_def)

lemma submap_edit_map [simp]:
  "submap (edit_map key f m) k = (if k = key then f (submap m key) else submap m k)"
  by (simp add: submap_def)

lemma mget_fmmap: "f VNil = VNil \<Longrightarrow> mget (fmmap f m) k = f (mget m k)"
  by (simp add: mget_def split: option.splits)

lemma mget_reload [simp]: "mget (fmmap reload m) k = reload (mget m k)"
  by (simp add: mget_fmmap)

lemma as_map_reload_Map: "as_map v = Some m \<Longrightarrow> as_map (reload v) = Some (fmmap reload m)"
  by (cases v) auto

text \<open>Reloading is idempotent, and the identity on values without structs.\<close>

primrec plain :: "goval \<Rightarrow> bool" where
  "plain VNil = True"
| "plain (VBool b) = True"
| "plain (VInt i) = True"
| "plain (VReal r) = True"
| "plain (VStr s) = True"
| "plain (VArr vs) = list_all id (map plain vs)"
| "plain (VMap m) = fmpred (\<lambda>_. id) (fmmap plain m)"
| "plain (VRec fs) = False"

lemma fmmap_idI: "(\<And>k v. fmlookup m k = Some v \<Longrightarrow> f v = v) \<Longrightarrow> fmmap f m = m"
proof (rule fmap_ext)
  fix k assume "\<And>k v. fmlookup m k = Some v \<Longrightarrow> f v = v"
  then show "fmlookup (fmmap f m) k = fmlookup m k" by (cases "fmlookup m k") auto
qed

lemma reload_plain: "plain v \<Longrightarrow> reload v = v"
proof (induction v)
  case (VArr vs)
  then show ?case by (simp add: list_all_iff map_idI)
next
  case (VMap m)
  then show ?case
    by (auto intro!: fmmap_idI simp: fmpred_iff fmran'_def)
qed auto

lemma plain_reload: "plain (reload v)"
proof (induction v)
  case (VMap m)
  then show ?case by (auto simp: fmpred_iff fmran'_def)
next
  case (VRec fs)
  have "plain (snd (map_prod id reload x))" if "x \<in> set fs" for x
    using VRec [of x "snd x"] that by (cases x) auto
  then show ?case
    by (auto simp: fmpred_iff fmlookup_of_list dest!: map_of_SomeD)
qed (auto simp: list_all_iff)

lemma reload_idem [simp]: "reload (reload v) = reload v"
  by (rule reload_plain) (rule plain_reload)

lemma getString_reload_scalar:
  "as_map v = None \<Longrightarrow> as_list v = None \<Longrightarrow> (\<And>fs. v \<noteq> VRec fs) \<Longrightarrow> getString (reload v) = getString v"
  by (cases v) (auto simp: getString_def)

text \<open>Maps without structs, and the operations that keep them so.\<close>

definition plain_map :: "gomap \<Rightarrow> bool" where
  "plain_map m \<longleftrightarrow> (\<forall>k v. fmlookup m k = Some v \<longrightarrow> plain v)"

lemma plain_VMap [simp]: "plain (VMap m) \<longleftrightarrow> plain_map m"
  by (auto simp: plain_map_def fmpred_iff)

declare plain.simps(7) [simp del]

lemma plain_map_empty [simp]: "plain_map fmempty"
  by (simp add: plain_map_def)

lemma plain_map_upd: "plain v \<Longrightarrow> plain_map m \<Longrightarrow> plain_map (fmupd k v m)"
  by (auto simp: plain_map_def)

lemma plain_map_drop: "plain_map m \<Longrightarrow> plain_map (fmdrop k m)"
  by (auto simp: plain_map_def)

lemma plain_map_filter: "plain_map m \<Longrightarrow> plain_map (fmfilter P m)"
  by (auto simp: plain_map_def split: if_splits)

lemma plain_mget: "plain_map m \<Longrightarrow> plain (mget m k)"
  by (auto simp: plain_map_def mget_def split: option.splits)

lemma plain_submap: "plain_map m \<Longrightarrow> plain_map (submap m k)"
  using plain_mget [of m k] by (cases "mget m k") (auto simp: submap_def)

lemma reload_plain_map: "plain_map m \<Longrightarrow> fmmap reload m = m"
  by (rule fmmap_idI) (simp add: plain_map_def reload_plain)

lemma plain_map_reload: "plain_map (fmmap reload m)"
  by (auto simp: plain_map_def plain_reload)

lemmas plain_intros = plain_map_upd plain_map_drop plain_map_filter plain_map_empty plain_submap plain_mget

text \<open>A struct read back as a map.\<close>

lemma as_map_reload_VRec [simp]:
  "as_map (reload (VRec fs)) = Some (fmap_of_list (map (map_prod id reload) fs))"
  by simp

lemma fmlookup_fields: "fmlookup (fmap_of_list (map (map_prod id reload) fs)) k = map_option reload (map_of fs k)"
  by (induction fs) (auto simp: fmlookup_of_list)

lemma mget_fields: "mget (fmap_of_list (map (map_prod id reload) fs)) k = reload (case map_of fs k of Some v \<Rightarrow> v | None \<Rightarrow> VNil)"
  by (simp add: mget_def fmlookup_fields split: option.splits)

lemma submap_fields:
  "submap (fmap_of_list (map (map_prod id reload) fs)) k =
     (case map_of fs k of Some v \<Rightarrow> (case as_map (reload v) of Some m \<Rightarrow> m | None \<Rightarrow> fmempty) | None \<Rightarrow> fmempty)"
  by (simp add: submap_def mget_fields split: option.splits)

end
