(* ===== verification/Pcs_Cluster.thy ===== *)
theory Pcs_Cluster
  imports Go_Value
begin

text \<open>
  The PCS cluster node list of \<^verbatim>\<open>internal/model/cube/cluster_config.go\<close>: cleaning and
  counting of address lists, the bound of sixteen hosts, the decoding and encoding of the
  \<^verbatim>\<open>hostname1 \<dots> hostname16\<close> slots, and the normalisation of an apply request. The locale
  \<open>slot_codec\<close> states the contract of such a slot encoding; this theory interprets it on the
  model's own codec, the cluster configuration service on its codec.
\<close>

definition PCSClusterMaxHosts :: nat where
  "PCSClusterMaxHosts = 16"

section \<open>Lists of nodes\<close>

fun normalize_pcs_loop :: "string list \<Rightarrow> string list \<Rightarrow> string list \<Rightarrow> string list" where
  "normalize_pcs_loop seen out [] = out"
| "normalize_pcs_loop seen out (v # vs) =
     (let value = trim_space v
      in if value = [] then normalize_pcs_loop seen out vs
         else if value \<in> set seen then normalize_pcs_loop seen out vs
         else (let out' = out @ [value]
               in if length out' \<ge> PCSClusterMaxHosts then out'
                  else normalize_pcs_loop (value # seen) out' vs))"

definition NormalizePCSClusterList :: "string list \<Rightarrow> string list" where
  "NormalizePCSClusterList values = normalize_pcs_loop [] [] values"

fun count_pcs_loop :: "nat \<Rightarrow> string list \<Rightarrow> nat \<Rightarrow> string list \<Rightarrow> nat" where
  "count_pcs_loop limit seen count [] = count"
| "count_pcs_loop limit seen count (v # vs) =
     (let value = trim_space v
      in if value = [] then count_pcs_loop limit seen count vs
         else if value \<in> set seen then count_pcs_loop limit seen count vs
         else if limit > 0 \<and> count + 1 \<ge> limit then count + 1
         else count_pcs_loop limit (value # seen) (count + 1) vs)"

definition countPCSClusterList :: "string list \<Rightarrow> nat \<Rightarrow> nat" where
  "countPCSClusterList values limit = count_pcs_loop limit [] 0 values"

definition CountPCSClusterList :: "string list \<Rightarrow> nat" where
  "CountPCSClusterList values = countPCSClusterList values 0"

definition ValidatePCSClusterList :: "string list \<Rightarrow> nat \<Rightarrow> unit outcome" where
  "ValidatePCSClusterList values minimum =
     (let count = countPCSClusterList values (PCSClusterMaxHosts + 1)
      in if count < minimum
         then failing (''pcs_cluster_list requires at least '' @ show_nat minimum @ '' host(s)'')
         else if count > PCSClusterMaxHosts
         then failing (''pcs_cluster_list supports up to '' @ show_nat PCSClusterMaxHosts @ '' hosts'')
         else okay ())"

definition pcsHostnameAt :: "string list \<Rightarrow> nat \<Rightarrow> string" where
  "pcsHostnameAt values index = (if index \<ge> length values then [] else values ! index)"

section \<open>The slot encoding\<close>

record ClusterPCSClusterConfig =
  Hostname1 :: string
  Hostname2 :: string
  Hostname3 :: string
  Hostnames :: "string list"

definition hostname_key :: "nat \<Rightarrow> string" where
  "hostname_key i = ''hostname'' @ show_nat i"

definition pcsStringFromAny :: "goval \<Rightarrow> string" where
  "pcsStringFromAny v = (case v of VNil \<Rightarrow> [] | VStr s \<Rightarrow> s | _ \<Rightarrow> fmt_v v)"

definition stringSliceFromAny :: "goval \<Rightarrow> string list" where
  "stringSliceFromAny v = (case v of VArr items \<Rightarrow> map pcsStringFromAny items | _ \<Rightarrow> [])"

text \<open>The loop over \<^verbatim>\<open>hostname1 \<dots> hostname16\<close>, with the printing function of the caller.\<close>

definition slot_values :: "(goval \<Rightarrow> string) \<Rightarrow> gomap \<Rightarrow> string list" where
  "slot_values pr raw =
     List.map_filter (\<lambda>i. map_option pr (fmlookup raw (hostname_key i))) [1..<PCSClusterMaxHosts + 1]"

definition pcs_raw_values :: "gomap \<Rightarrow> string list" where
  "pcs_raw_values raw =
     (case fmlookup raw ''hostnames'' of Some v \<Rightarrow> stringSliceFromAny v | None \<Rightarrow> [])
     @ slot_values pcsStringFromAny raw"

definition pcs_UnmarshalJSON :: "goval \<Rightarrow> ClusterPCSClusterConfig outcome" where
  "pcs_UnmarshalJSON data =
     (case (case data of VMap raw \<Rightarrow> Some raw | VNil \<Rightarrow> Some fmempty | _ \<Rightarrow> None) of
        None \<Rightarrow> failing ''cannot unmarshal into map''
      | Some raw \<Rightarrow>
          (let hostnames = NormalizePCSClusterList (pcs_raw_values raw)
           in okay \<lparr>Hostname1 = pcsHostnameAt hostnames 0, Hostname2 = pcsHostnameAt hostnames 1,
                    Hostname3 = pcsHostnameAt hostnames 2, Hostnames = hostnames\<rparr>))"

definition HostnameList :: "ClusterPCSClusterConfig \<Rightarrow> string list" where
  "HostnameList c =
     NormalizePCSClusterList
       (if Hostnames c = [] then [Hostname1 c, Hostname2 c, Hostname3 c] else Hostnames c)"

text \<open>Assignments \<^verbatim>\<open>out[hostname_i] = v\<close> for consecutive slots from \<open>i\<close> on.\<close>

fun write_slots :: "nat \<Rightarrow> string list \<Rightarrow> gomap \<Rightarrow> gomap" where
  "write_slots i [] m = m"
| "write_slots i (v # vs) m = write_slots (Suc i) vs (puts (hostname_key i) v m)"

definition fill_slots :: "string list \<Rightarrow> gomap \<Rightarrow> gomap" where
  "fill_slots hostnames m =
     write_slots (length hostnames + 1) (replicate (3 - length hostnames) []) (write_slots 1 hostnames m)"

definition pcs_MarshalJSON :: "ClusterPCSClusterConfig \<Rightarrow> goval" where
  "pcs_MarshalJSON c = VMap (fill_slots (HostnameList c) fmempty)"

section \<open>The apply request\<close>

record ClusterCCVMConfig =
  CCVM_IP :: string
  CCVM_CIDR :: string
  CCVM_GW :: string
  CCVM_DNS :: string

record ClusterMngtNicConfig =
  Nic_CIDR :: string
  Nic_GW :: string
  Nic_DNS :: string

record ClusterHost =
  Index :: string
  Hostname :: string
  Ablecube :: string
  ScvmMngt :: string
  AblecubePn :: string
  Scvm :: string
  ScvmCn :: string

record ClusterApplyRequest =
  Action :: string
  Option :: string
  Type :: string
  CCVM :: "ClusterCCVMConfig option"
  MngtNic :: "ClusterMngtNicConfig option"
  Security :: "string option"
  CCVMMngtIP :: string
  MngtNicCIDR :: string
  MngtNicGW :: string
  MngtNicDNS :: string
  PCSClusterList :: "string list"
  JSONString :: "goval list option"
  CopyOption :: string
  ExcludeHostname :: string
  RemoveHostname :: string
  TargetHostname :: string
  NewHostname :: string
  ExternalTimeserver :: string
  DeprecatedExtenalTimeserver :: string
  StorageNetwork :: string
  DeprecatedIscsiStorage :: string
  Hosts :: "ClusterHost list"
  ExistingHostnames :: "string list"

text \<open>
  \<open>JSONString\<close> is \<open>None\<close> for the empty string and otherwise the list the text decodes to.
  Encoding one host drops the optional fields that are empty (\<^verbatim>\<open>omitempty\<close>).
\<close>

definition opt_field :: "string \<Rightarrow> string \<Rightarrow> (string \<times> goval) list" where
  "opt_field k s = (if s = [] then [] else [(k, VStr s)])"

definition marshal_host :: "ClusterHost \<Rightarrow> goval" where
  "marshal_host h =
     VRec ([(''index'', VStr (Index h)), (''hostname'', VStr (Hostname h)), (''ablecube'', VStr (Ablecube h))]
       @ opt_field ''scvmMngt'' (ScvmMngt h) @ opt_field ''ablecubePn'' (AblecubePn h)
       @ opt_field ''scvm'' (Scvm h) @ opt_field ''scvmCn'' (ScvmCn h))"

definition or_else :: "string \<Rightarrow> string \<Rightarrow> string" where
  "or_else s d = (if s = [] then d else s)"

definition norm_aliases :: "ClusterApplyRequest \<Rightarrow> ClusterApplyRequest" where
  "norm_aliases r =
     (let r1 = (if RemoveHostname r = [] \<and> TargetHostname r \<noteq> []
                then r\<lparr>RemoveHostname := TargetHostname r\<rparr> else r);
          r2 = (if ExternalTimeserver r1 = [] \<and> DeprecatedExtenalTimeserver r1 \<noteq> []
                then r1\<lparr>ExternalTimeserver := DeprecatedExtenalTimeserver r1,
                        DeprecatedExtenalTimeserver := []\<rparr> else r1)
      in if StorageNetwork r2 = [] \<and> DeprecatedIscsiStorage r2 \<noteq> []
         then r2\<lparr>StorageNetwork := DeprecatedIscsiStorage r2, DeprecatedIscsiStorage := []\<rparr> else r2)"

definition norm_ccvm :: "ClusterApplyRequest \<Rightarrow> ClusterApplyRequest" where
  "norm_ccvm r =
     (case CCVM r of None \<Rightarrow> r
      | Some c \<Rightarrow> r\<lparr>CCVMMngtIP := or_else (CCVMMngtIP r) (CCVM_IP c),
                   MngtNicCIDR := or_else (MngtNicCIDR r) (CCVM_CIDR c),
                   MngtNicDNS := or_else (MngtNicDNS r) (CCVM_DNS c),
                   MngtNicGW := or_else (MngtNicGW r) (CCVM_GW c)\<rparr>)"

definition norm_mngt_nic :: "ClusterApplyRequest \<Rightarrow> ClusterApplyRequest" where
  "norm_mngt_nic r =
     (case MngtNic r of None \<Rightarrow> r
      | Some n \<Rightarrow> r\<lparr>MngtNicCIDR := or_else (Nic_CIDR n) (MngtNicCIDR r),
                   MngtNicGW := or_else (Nic_GW n) (MngtNicGW r),
                   MngtNicDNS := or_else (Nic_DNS n) (MngtNicDNS r)\<rparr>)"

text \<open>\<^verbatim>\<open>ClusterApplyRequest.Normalize\<close>; encoding strings cannot fail, so there is no error.\<close>

definition Normalize :: "ClusterApplyRequest \<Rightarrow> ClusterApplyRequest" where
  "Normalize r =
     (let r' = norm_mngt_nic (norm_ccvm (norm_aliases r))
      in if JSONString r' = None \<and> Hosts r' \<noteq> []
         then r'\<lparr>JSONString := Some (map (\<lambda>h. reload (marshal_host h)) (Hosts r'))\<rparr> else r')"

section \<open>Cleaning and counting\<close>

lemma normalize_pcs_loop_spec:
  assumes "length out < PCSClusterMaxHosts"
  shows "normalize_pcs_loop seen out vs =
    take PCSClusterMaxHosts (out @ filter (\<lambda>v. v \<notin> set seen) (clean_list vs))"
  using assms
proof (induction seen out vs rule: normalize_pcs_loop.induct)
  case (1 seen out)
  then show ?case by (simp add: clean_list_def)
next
  case (2 seen out v vs)
  note skip = "2.IH"(1) [OF refl] "2.IH"(2) [OF refl] and keep = "2.IH"(3) [OF refl _ _ refl]
  show ?case
  proof (cases "trim_space v = [] \<or> trim_space v \<in> set seen")
    case True
    with skip "2.prems" show ?thesis by (cases "trim_space v = []") (auto simp: Let_def clean_list_skip)
  next
    case False
    with keep "2.prems" show ?thesis by (auto simp: Let_def clean_list_keep take_Cons')
  qed
qed

lemma NormalizePCSClusterList_spec:
  "NormalizePCSClusterList vs = take PCSClusterMaxHosts (clean_list vs)"
  by (simp add: NormalizePCSClusterList_def normalize_pcs_loop_spec PCSClusterMaxHosts_def)

lemma clean_list_take: "clean_list (take n (clean_list vs)) = take n (clean_list vs)"
proof (rule clean_list_id)
  fix x assume "x \<in> set (take n (clean_list vs))"
  then show "trim_space x = x \<and> x \<noteq> []" by (meson clean_list_trimmed in_set_takeD)
qed simp

lemma NormalizePCSClusterList_idem [simp]:
  "NormalizePCSClusterList (NormalizePCSClusterList vs) = NormalizePCSClusterList vs"
  by (simp add: NormalizePCSClusterList_spec clean_list_take)

lemma length_NormalizePCSClusterList: "length (NormalizePCSClusterList vs) \<le> PCSClusterMaxHosts"
  by (simp add: NormalizePCSClusterList_spec)

lemma count_pcs_loop_spec:
  assumes "limit = 0 \<or> count < limit"
  shows "count_pcs_loop limit seen count vs =
    (let n = count + length (filter (\<lambda>v. v \<notin> set seen) (clean_list vs))
     in if limit = 0 then n else min limit n)"
  using assms
proof (induction limit seen count vs rule: count_pcs_loop.induct)
  case (1 limit seen count)
  then show ?case by (auto simp: clean_list_def)
next
  case (2 limit seen count v vs)
  note skip = "2.IH"(1) [OF refl] "2.IH"(2) [OF refl] and keep = "2.IH"(3) [OF refl]
  show ?case
  proof (cases "trim_space v = [] \<or> trim_space v \<in> set seen")
    case True
    with skip "2.prems" show ?thesis by (cases "trim_space v = []") (auto simp: Let_def clean_list_skip)
  next
    case False
    with keep "2.prems" show ?thesis by (auto simp: Let_def clean_list_keep)
  qed
qed

lemma countPCSClusterList_spec:
  "countPCSClusterList vs limit =
     (if limit = 0 then length (clean_list vs) else min limit (length (clean_list vs)))"
  by (simp add: countPCSClusterList_def count_pcs_loop_spec Let_def)

section \<open>Slots\<close>

lemma hostname_key_inj [simp]: "hostname_key i = hostname_key j \<longleftrightarrow> i = j"
  by (simp add: hostname_key_def show_nat_inj)

lemma hostname_key_not_hostnames [simp]: "hostname_key i \<noteq> ''hostnames''"
proof
  assume "hostname_key i = ''hostnames''"
  then have "show_nat i = ''s''" by (simp add: hostname_key_def)
  with show_nat_digits [of i] show False by (simp add: is_digit_def)
qed

lemma fmlookup_write_slots:
  "fmlookup (write_slots i vs m) (hostname_key j) =
     (if i \<le> j \<and> j < i + length vs then Some (VStr (vs ! (j - i))) else fmlookup m (hostname_key j))"
proof (induction i vs m arbitrary: j rule: write_slots.induct)
  case (2 i v vs m)
  then show ?case by (cases "j = i") (auto simp: nth_Cons' Suc_diff_le)
qed auto

lemma fmlookup_write_slots_other:
  "(\<And>j. k \<noteq> hostname_key j) \<Longrightarrow> fmlookup (write_slots i vs m) k = fmlookup m k"
  by (induction i vs m rule: write_slots.induct) auto

lemma fmlookup_fill_slots:
  "fmlookup (fill_slots ys m) (hostname_key j) =
     (if 1 \<le> j \<and> j \<le> length ys then Some (VStr (ys ! (j - 1)))
      else if length ys < j \<and> j \<le> 3 then Some (VStr []) else fmlookup m (hostname_key j))"
  by (auto simp: fill_slots_def fmlookup_write_slots)

lemma fmlookup_fill_slots_other:
  "(\<And>j. k \<noteq> hostname_key j) \<Longrightarrow> fmlookup (fill_slots ys m) k = fmlookup m k"
  by (simp add: fill_slots_def fmlookup_write_slots_other)

lemma plain_map_write_slots: "plain_map m \<Longrightarrow> plain_map (write_slots i vs m)"
  by (induction i vs m rule: write_slots.induct) (auto simp: plain_map_upd)

lemma plain_map_fill_slots: "plain_map m \<Longrightarrow> plain_map (fill_slots ys m)"
  by (simp add: fill_slots_def plain_map_write_slots)

lemma map_filter_append: "List.map_filter f (xs @ ys) = List.map_filter f xs @ List.map_filter f ys"
  by (simp add: List.map_filter_def)

lemma map_filter_slots:
  "(\<And>j. 1 \<le> j \<Longrightarrow> j \<le> length ys \<Longrightarrow> f j = Some (ys ! (j - 1))) \<Longrightarrow> List.map_filter f [1..<Suc (length ys)] = ys"
proof (induction ys rule: rev_induct)
  case Nil
  then show ?case by (simp add: List.map_filter_def)
next
  case (snoc y ys)
  have "List.map_filter f [1..<Suc (length ys)] = ys"
    by (rule snoc.IH) (auto simp: snoc.prems nth_append)
  moreover have "f (Suc (length ys)) = Some y" using snoc.prems [of "Suc (length ys)"] by simp
  ultimately show ?case by (simp add: map_filter_append)
qed

lemma clean_list_append_blank:
  assumes "\<And>x. x \<in> set bs \<Longrightarrow> blank x"
  shows "clean_list (ys @ bs) = clean_list ys"
proof -
  have "filter (\<lambda>x. x \<noteq> []) (map trim_space bs) = []" using assms by (auto simp: filter_empty_conv)
  then show ?thesis by (simp add: clean_list_def)
qed

text \<open>
  Reading back the slots a filled map holds gives the cleaned list, whatever the map held before,
  as long as no slot past the written ones is left over.
\<close>

lemma slot_values_fill_slots:
  assumes pr: "\<And>s. pr (VStr s) = s" and len: "length ys \<le> PCSClusterMaxHosts"
    and clear: "\<And>j. 1 \<le> j \<Longrightarrow> j \<le> PCSClusterMaxHosts \<Longrightarrow> fmlookup m (hostname_key j) = None"
  shows "\<exists>bs. slot_values pr (fill_slots ys m) = ys @ bs \<and> (\<forall>b \<in> set bs. b = [])"
proof -
  let ?f = "\<lambda>i. map_option pr (fmlookup (fill_slots ys m) (hostname_key i))"
  have split: "[1..<PCSClusterMaxHosts + 1] = [1..<Suc (length ys)] @ [Suc (length ys)..<PCSClusterMaxHosts + 1]"
    using len upt_add_eq_append [of 1 "Suc (length ys)" "PCSClusterMaxHosts - length ys"] by simp
  have "List.map_filter ?f [1..<Suc (length ys)] = ys"
    by (rule map_filter_slots) (simp add: fmlookup_fill_slots pr)
  moreover have "\<forall>b \<in> set (List.map_filter ?f [Suc (length ys)..<PCSClusterMaxHosts + 1]). b = []"
    by (auto simp: List.map_filter_def fmlookup_fill_slots pr clear simp del: upt_Suc split: if_splits)
  ultimately show ?thesis
    unfolding slot_values_def split by (simp only: map_filter_append) blast
qed

section \<open>The codec contract\<close>

text \<open>
  A slot codec writes a node list into a document and reads it back: the stored list is the
  cleaned list, and only the cleaned list matters.
\<close>

locale slot_codec =
  fixes enc :: "string list \<Rightarrow> 'd" and dec :: "'d \<Rightarrow> string list"
  assumes dec_enc: "dec (enc xs) = NormalizePCSClusterList xs"
    and enc_norm: "enc (NormalizePCSClusterList xs) = enc xs"
begin

lemma enc_dec_enc: "enc (dec (enc xs)) = enc xs"
  by (simp add: dec_enc enc_norm)

lemma dec_distinct: "distinct (dec (enc xs))"
  by (simp add: dec_enc NormalizePCSClusterList_spec)

lemma dec_bounded: "length (dec (enc xs)) \<le> PCSClusterMaxHosts"
  by (simp add: dec_enc length_NormalizePCSClusterList)

lemma dec_member: "x \<in> set (dec (enc xs)) \<Longrightarrow> x \<in> trim_space ` set xs \<and> x \<noteq> []"
  using in_set_takeD [of x PCSClusterMaxHosts "clean_list xs"]
  by (auto simp: dec_enc NormalizePCSClusterList_spec clean_list_set)

lemma enc_eq_iff: "enc xs = enc ys \<longleftrightarrow> NormalizePCSClusterList xs = NormalizePCSClusterList ys"
  by (metis dec_enc enc_norm)

end

definition pcs_config_of :: "string list \<Rightarrow> ClusterPCSClusterConfig" where
  "pcs_config_of xs = \<lparr>Hostname1 = [], Hostname2 = [], Hostname3 = [], Hostnames = xs\<rparr>"

definition pcs_decode :: "goval \<Rightarrow> string list" where
  "pcs_decode v = (case pcs_UnmarshalJSON v of Inl _ \<Rightarrow> [] | Inr c \<Rightarrow> HostnameList c)"

lemma Normalize_three: "NormalizePCSClusterList xs = [] \<Longrightarrow> NormalizePCSClusterList [[], [], []] = []"
  by (simp add: NormalizePCSClusterList_spec clean_list_def)

lemma HostnameList_config_of [simp]: "HostnameList (pcs_config_of xs) = NormalizePCSClusterList xs"
  by (simp add: HostnameList_def pcs_config_of_def NormalizePCSClusterList_spec clean_list_def)

lemma HostnameList_clean:
  "HostnameList \<lparr>Hostname1 = pcsHostnameAt ys 0, Hostname2 = pcsHostnameAt ys 1,
      Hostname3 = pcsHostnameAt ys 2, Hostnames = ys\<rparr> = NormalizePCSClusterList ys"
  by (simp add: HostnameList_def pcsHostnameAt_def NormalizePCSClusterList_spec clean_list_def)

lemma pcs_raw_values_fill:
  assumes "length ys \<le> PCSClusterMaxHosts"
  shows "NormalizePCSClusterList (pcs_raw_values (fill_slots ys fmempty)) = NormalizePCSClusterList ys"
proof -
  obtain bs where bs: "slot_values pcsStringFromAny (fill_slots ys fmempty) = ys @ bs" "\<forall>b \<in> set bs. b = []"
    using slot_values_fill_slots [of pcsStringFromAny ys fmempty] assms by (auto simp: pcsStringFromAny_def)
  have "fmlookup (fill_slots ys fmempty) ''hostnames'' = None"
    using fmlookup_fill_slots_other [of "''hostnames''" ys fmempty] hostname_key_not_hostnames
    by (metis fmempty_lookup)
  moreover have "clean_list (ys @ bs) = clean_list ys"
    by (rule clean_list_append_blank) (use bs in auto)
  ultimately show ?thesis
    using bs by (simp add: pcs_raw_values_def NormalizePCSClusterList_spec)
qed

lemma pcs_decode_encode:
  "pcs_decode (pcs_MarshalJSON c) = HostnameList c"
proof -
  have "length (HostnameList c) \<le> PCSClusterMaxHosts"
    by (simp add: HostnameList_def length_NormalizePCSClusterList)
  then have "NormalizePCSClusterList (pcs_raw_values (fill_slots (HostnameList c) fmempty)) = HostnameList c"
    by (simp add: pcs_raw_values_fill) (simp add: HostnameList_def)
  then have "pcs_decode (pcs_MarshalJSON c) = NormalizePCSClusterList (HostnameList c)"
    by (simp add: pcs_decode_def pcs_MarshalJSON_def pcs_UnmarshalJSON_def Let_def
        HostnameList_clean [unfolded One_nat_def])
  then show ?thesis by (simp add: HostnameList_def)
qed

interpretation pcs_model: slot_codec "\<lambda>xs. pcs_MarshalJSON (pcs_config_of xs)" pcs_decode
  by unfold_locales (simp_all add: pcs_decode_encode, simp add: pcs_MarshalJSON_def)

section \<open>Properties\<close>

text \<open>
  Cleaning a PCS node list keeps the first occurrence of every non-blank trimmed entry in order
  and stops at sixteen: the loop with its \<^verbatim>\<open>seen\<close> map and early exit is the specification
  \<open>take 16 (clean_list values)\<close>, so the result is duplicate free, bounded, and stable under a
  second cleaning.
\<close>

theorem NormalizePCSClusterList_correct:
  "NormalizePCSClusterList values = take 16 (clean_list values)
   \<and> distinct (NormalizePCSClusterList values)
   \<and> NormalizePCSClusterList (NormalizePCSClusterList values) = NormalizePCSClusterList values"
  by (simp add: NormalizePCSClusterList_spec PCSClusterMaxHosts_def
      clean_list_take [where n = 16])

text \<open>
  Validation accepts a node list exactly when its number of distinct non-blank entries lies
  between the minimum and sixteen, although counting stops at the seventeenth entry.
\<close>

theorem ValidatePCSClusterList_exact:
  assumes "minimum \<le> 16"
  shows "ValidatePCSClusterList values minimum = okay () \<longleftrightarrow>
    minimum \<le> length (clean_list values) \<and> length (clean_list values) \<le> 16"
  using assms
  by (auto simp: ValidatePCSClusterList_def countPCSClusterList_spec PCSClusterMaxHosts_def Let_def)

theorem ValidatePCSClusterList_exact_witness:
  "(3::nat) \<le> 16 \<and> ValidatePCSClusterList [''a'', ''b'', '' a'', ''c''] 3 = okay ()"
proof -
  have "length (clean_list [''a'', ''b'', '' a'', ''c'']) = 3" by code_simp
  then show ?thesis
    using ValidatePCSClusterList_exact [of 3 "[''a'', ''b'', '' a'', ''c'']"] by simp
qed

text \<open>
  Encoding a PCS configuration into the \<^verbatim>\<open>hostname1 \<dots>\<close> slots and decoding the slots
  again gives the same node list, and encoding that result gives the same document.
\<close>

theorem pcs_slots_roundtrip:
  "\<exists>c'. pcs_UnmarshalJSON (pcs_MarshalJSON c) = okay c' \<and> HostnameList c' = HostnameList c
    \<and> pcs_MarshalJSON c' = pcs_MarshalJSON c"
proof -
  obtain c' where c': "pcs_UnmarshalJSON (pcs_MarshalJSON c) = okay c'"
    by (simp add: pcs_UnmarshalJSON_def pcs_MarshalJSON_def Let_def)
  then have "HostnameList c' = HostnameList c"
    using pcs_decode_encode [of c] by (simp add: pcs_decode_def)
  with c' show ?thesis by (simp add: pcs_MarshalJSON_def)
qed

end
