(* ===== verification/Cluster_Normalize.thy ===== *)
theory Cluster_Normalize
  imports Pcs_Cluster
begin

text \<open>
  The normaliser of \<^verbatim>\<open>cluster.json\<close> in
  \<^verbatim>\<open>internal/service/clusterconfig/cluster_config.go\<close>: \<^verbatim>\<open>NormalizeClusterJSON\<close> and the
  helpers it is made of. It runs before every save and after many loads, so its main properties
  are that a stored document is a fixed point, that it keeps what it does not manage, and that the
  fields it writes have the shape the readers expect. The root map is updated in place by the
  source; the model returns the new root. Integral numbers are taken within the range that a
  \<^verbatim>\<open>float64\<close> represents exactly.
\<close>

section \<open>Scalars\<close>

definition GFSDefaultJournalSizeMB :: int where
  "GFSDefaultJournalSizeMB = 512"

definition GFSDefaultResourceGroupSizeMB :: int where
  "GFSDefaultResourceGroupSizeMB = 1024"

definition normalizeGFSSize :: "goval \<Rightarrow> int \<Rightarrow> int" where
  "normalizeGFSSize v fallback =
     (case atoi (trim_space (getString v)) of
        None \<Rightarrow> fallback
      | Some normalized \<Rightarrow> if normalized \<le> 0 then fallback else normalized)"

definition normalizeStorageNetwork :: "string \<Rightarrow> string" where
  "normalizeStorageNetwork val = (if equal_fold (trim_space val) ''true'' then ''true'' else ''false'')"

definition normalizeBoolString :: "goval \<Rightarrow> string \<Rightarrow> string" where
  "normalizeBoolString v fallback =
     (let normalized = to_lower (trim_space (getString v))
      in if normalized = ''true'' \<or> normalized = ''false'' then normalized
         else if normalized = [] then fallback
         else getString v)"

section \<open>The PCS slots of a document\<close>

definition isPCSClusterHostnameKey :: "string \<Rightarrow> bool" where
  "isPCSClusterHostnameKey key \<longleftrightarrow>
     has_prefix key ''hostname''
     \<and> (case atoi (trim_prefix key ''hostname'') of None \<Rightarrow> False | Some index \<Rightarrow> index > 0)"

definition pcsStringSliceFromAny :: "goval \<Rightarrow> string list" where
  "pcsStringSliceFromAny v = (case v of VArr items \<Rightarrow> map getString items | _ \<Rightarrow> [])"

definition collectPCSClusterValues :: "gomap \<Rightarrow> string list" where
  "collectPCSClusterValues pcsCluster =
     NormalizePCSClusterList
       ((case fmlookup pcsCluster ''hostnames'' of Some raw \<Rightarrow> pcsStringSliceFromAny raw | None \<Rightarrow> [])
        @ slot_values getString pcsCluster)"

definition clearPCSClusterValues :: "gomap \<Rightarrow> gomap" where
  "clearPCSClusterValues pcsCluster = fmfilter (\<lambda>key. \<not> isPCSClusterHostnameKey key) pcsCluster"

definition writePCSClusterValues :: "gomap \<Rightarrow> string list \<Rightarrow> gomap" where
  "writePCSClusterValues pcsCluster vals =
     (let hostnames = NormalizePCSClusterList vals
      in fmdrop ''hostnames'' (fill_slots hostnames (clearPCSClusterValues pcsCluster)))"

definition normalizePCSClusterMap :: "gomap \<Rightarrow> gomap" where
  "normalizePCSClusterMap pcsCluster = writePCSClusterValues pcsCluster (collectPCSClusterValues pcsCluster)"

section \<open>Hosts\<close>

definition isHCIClusterType :: "string \<Rightarrow> bool" where
  "isHCIClusterType clusterType \<longleftrightarrow>
     to_lower (trim_space clusterType) \<in> {''ablestack-hci'', ''ablestack-hci-filesystem''}"

definition getHosts :: "gomap \<Rightarrow> gomap list" where
  "getHosts cfg = (case as_list (mget cfg ''hosts'') of None \<Rightarrow> [] | Some raw \<Rightarrow> List.map_filter as_map raw)"

definition setHosts :: "gomap list \<Rightarrow> gomap \<Rightarrow> gomap" where
  "setHosts hosts cfg = fmupd ''hosts'' (VArr (map VMap hosts)) cfg"

definition orderedHostVM :: "gomap \<Rightarrow> goval" where
  "orderedHostVM host =
     VRec [(''index'', VStr (gets host ''index'')), (''hostname'', VStr (gets host ''hostname'')),
           (''ablecube'', VStr (gets host ''ablecube''))]"

definition orderedHostHCI :: "gomap \<Rightarrow> goval" where
  "orderedHostHCI host =
     VRec [(''index'', VStr (gets host ''index'')), (''hostname'', VStr (gets host ''hostname'')),
           (''ablecube'', VStr (gets host ''ablecube'')), (''ablecubePn'', VStr (gets host ''ablecubePn'')),
           (''scvmMngt'', VStr (gets host ''scvmMngt'')), (''scvm'', VStr (gets host ''scvm'')),
           (''scvmCn'', VStr (gets host ''scvmCn''))]"

definition buildOrderedHosts :: "gomap \<Rightarrow> goval list" where
  "buildOrderedHosts cfg =
     map (if isHCIClusterType (gets cfg ''type'') then orderedHostHCI else orderedHostVM) (getHosts cfg)"

section \<open>The cluster section\<close>

definition inherit_nic :: "gomap \<Rightarrow> string \<Rightarrow> gomap \<Rightarrow> gomap" where
  "inherit_nic ccvm key mngtNic =
     (if gets mngtNic key = [] \<and> gets ccvm key \<noteq> [] then puts key (gets ccvm key) mngtNic else mngtNic)"

definition merged_nic :: "gomap \<Rightarrow> gomap" where
  "merged_nic cfg =
     (let ccvm = submap cfg ''ccvm''
      in inherit_nic ccvm ''dns'' (inherit_nic ccvm ''gw'' (inherit_nic ccvm ''cidr'' (submap cfg ''mngtNic''))))"

definition first_of :: "gomap \<Rightarrow> string \<Rightarrow> string \<Rightarrow> string" where
  "first_of cfg key legacy = (if gets cfg key = [] then gets cfg legacy else gets cfg key)"

text \<open>The prose stored next to the GFS sizes (Korean, in its UTF-8 bytes).\<close>

definition GFSJournalSizeDescription :: string where
  "GFSJournalSizeDescription =
      ''MB ''
      @ [CHR 0xEB, CHR 0x8B, CHR 0xA8, CHR 0xEC, CHR 0x9C, CHR 0x84]
      @ ''. 2''
      @ [CHR 0xEC, CHR 0x9D, CHR 0x98]
      @ '' ''
      @ [CHR 0xEA, CHR 0xB1, CHR 0xB0, CHR 0xEB, CHR 0x93, CHR 0xAD, CHR 0xEC, CHR 0xA0, CHR 0x9C, CHR 0xEA, CHR 0xB3, CHR 0xB1]
      @ '' ''
      @ [CHR 0xEA, CHR 0xB0, CHR 0x92, CHR 0xEC, CHR 0x9C, CHR 0xBC, CHR 0xEB, CHR 0xA1, CHR 0x9C]
      @ '' ''
      @ [CHR 0xEC, CHR 0x84, CHR 0xA4, CHR 0xEC, CHR 0xA0, CHR 0x95, CHR 0xED, CHR 0x95, CHR 0x98, CHR 0xEB, CHR 0xA9, CHR 0xB0]
      @ '' ''
      @ [CHR 0xED, CHR 0x97, CHR 0x88, CHR 0xEC, CHR 0x9A, CHR 0xA9]
      @ '' ''
      @ [CHR 0xEB, CHR 0xB2, CHR 0x94, CHR 0xEC, CHR 0x9C, CHR 0x84, CHR 0xEB, CHR 0x8A, CHR 0x94]
      @ '' 8MB~1024MB''
      @ [CHR 0xEC, CHR 0x9E, CHR 0x85, CHR 0xEB, CHR 0x8B, CHR 0x88, CHR 0xEB, CHR 0x8B, CHR 0xA4]
      @ ''. ''
      @ [CHR 0xEC, CHR 0x98, CHR 0x88]
      @ '': 128MB, 256MB, 512MB''"

definition GFSResourceGroupDescription :: string where
  "GFSResourceGroupDescription =
      ''MB ''
      @ [CHR 0xEB, CHR 0x8B, CHR 0xA8, CHR 0xEC, CHR 0x9C, CHR 0x84]
      @ ''. 2''
      @ [CHR 0xEC, CHR 0x9D, CHR 0x98]
      @ '' ''
      @ [CHR 0xEA, CHR 0xB1, CHR 0xB0, CHR 0xEB, CHR 0x93, CHR 0xAD, CHR 0xEC, CHR 0xA0, CHR 0x9C, CHR 0xEA, CHR 0xB3, CHR 0xB1]
      @ '' ''
      @ [CHR 0xEA, CHR 0xB0, CHR 0x92, CHR 0xEC, CHR 0x9C, CHR 0xBC, CHR 0xEB, CHR 0xA1, CHR 0x9C]
      @ '' ''
      @ [CHR 0xEC, CHR 0x84, CHR 0xA4, CHR 0xEC, CHR 0xA0, CHR 0x95, CHR 0xED, CHR 0x95, CHR 0x98, CHR 0xEB, CHR 0xA9, CHR 0xB0]
      @ '' ''
      @ [CHR 0xED, CHR 0x97, CHR 0x88, CHR 0xEC, CHR 0x9A, CHR 0xA9]
      @ '' ''
      @ [CHR 0xEB, CHR 0xB2, CHR 0x94, CHR 0xEC, CHR 0x9C, CHR 0x84, CHR 0xEB, CHR 0x8A, CHR 0x94]
      @ '' 32MB~2048MB''
      @ [CHR 0xEC, CHR 0x9E, CHR 0x85, CHR 0xEB, CHR 0x8B, CHR 0x88, CHR 0xEB, CHR 0x8B, CHR 0xA4]
      @ ''.''"

definition gfs_section :: "gomap \<Rightarrow> goval" where
  "gfs_section cfg =
     (let gfs = submap cfg ''gfs''
      in VRec [(''journal_size_mb'', VInt (normalizeGFSSize (mget gfs ''journal_size_mb'') GFSDefaultJournalSizeMB)),
               (''journal_size_description'', VStr GFSJournalSizeDescription),
               (''resource_group_size_mb'',
                VInt (normalizeGFSSize (mget gfs ''resource_group_size_mb'') GFSDefaultResourceGroupSizeMB)),
               (''resource_group_size_description'', VStr GFSResourceGroupDescription)])"

text \<open>\<^verbatim>\<open>hostType\<close> is \<^verbatim>\<open>omitempty\<close>, so the struct is given by the fields it encodes to.\<close>

definition orderedClusterConfig :: "gomap \<Rightarrow> goval" where
  "orderedClusterConfig cfg =
     (let ccvm = submap cfg ''ccvm''; mngtNic = merged_nic cfg
      in VRec ([(''type'', VStr (gets cfg ''type''))]
           @ opt_field ''hostType'' (gets cfg ''hostType'')
           @ [(''backup_path'', VStr (gets cfg ''backup_path'')),
              (''ccvm'', VRec [(''ip'', VStr (gets ccvm ''ip''))]),
              (''mngtNic'', VRec [(''cidr'', VStr (gets mngtNic ''cidr'')), (''gw'', VStr (gets mngtNic ''gw'')),
                                  (''dns'', VStr (gets mngtNic ''dns''))]),
              (''pcsCluster'', VMap (normalizePCSClusterMap (submap cfg ''pcsCluster''))),
              (''gfs'', gfs_section cfg),
              (''hosts'', VArr (buildOrderedHosts cfg)),
              (''external_timeserver'', VStr (first_of cfg ''external_timeserver'' ''extenal_timeserver'')),
              (''storage_network'',
               VStr (normalizeStorageNetwork (first_of cfg ''storage_network'' ''iscsi_storage'')))]))"

section \<open>The system profile and the token\<close>

definition inherit_token :: "gomap \<Rightarrow> gomap \<Rightarrow> gomap" where
  "inherit_token legacySecurity security =
     (if gets security ''internal_token'' = []
      then puts ''internal_token'' (gets legacySecurity ''internal_token'') security else security)"

text \<open>A pair of the root and of the system profile map that is edited next to it.\<close>

type_synonym profile_state = "gomap \<times> gomap"

definition take_legacy_security :: "profile_state \<Rightarrow> profile_state" where
  "take_legacy_security rp =
     (let (root, profile) = rp
      in case as_map (mget profile ''security'') of
           None \<Rightarrow> (root, profile)
         | Some legacy \<Rightarrow> (edit_map ''security'' (inherit_token legacy) root, fmdrop ''security'' profile))"

definition adopt_section :: "string \<Rightarrow> profile_state \<Rightarrow> profile_state" where
  "adopt_section key rp =
     (let (root, profile) = rp
      in case as_map (mget root key) of
           None \<Rightarrow> (root, profile)
         | Some section \<Rightarrow>
             (fmdrop key root,
              if fmlookup profile key = None then fmupd key (VMap section) profile else profile))"

definition adopt_wall :: "gomap \<Rightarrow> gomap \<Rightarrow> gomap" where
  "adopt_wall monitoring bootstrap =
     (if gets monitoring ''wall'' \<noteq> [] \<and> gets bootstrap ''wall'' = []
      then puts ''wall'' (gets monitoring ''wall'') bootstrap else bootstrap)"

definition adopt_monitoring :: "profile_state \<Rightarrow> profile_state" where
  "adopt_monitoring rp =
     (let (root, profile) = rp
      in case as_map (mget root ''monitoring'') of
           None \<Rightarrow> (root, profile)
         | Some monitoring \<Rightarrow>
             (fmdrop ''monitoring'' root,
              if gets monitoring ''wall'' \<noteq> [] then edit_map ''bootstrap'' (adopt_wall monitoring) profile
              else profile))"

definition orderedBootstrap :: "gomap \<Rightarrow> goval" where
  "orderedBootstrap profile =
     (let pruned = fmdrop ''pfmp'' (submap profile ''bootstrap'');
          bootstrap = (case as_map (mget profile ''monitoring'') of
                         None \<Rightarrow> pruned | Some monitoring \<Rightarrow> adopt_wall monitoring pruned)
      in VRec (map (\<lambda>k. (k, VStr (normalizeBoolString (mget bootstrap k) ''false'')))
           [''scvm'', ''ccvm'', ''wall'', ''gfs_configure'', ''local_configure'']))"

definition orderedLicense :: "gomap \<Rightarrow> goval" where
  "orderedLicense profile =
     (let license = submap profile ''license''
      in VRec [(''status'', VStr (normalizeBoolString (mget license ''status'') ''false'')),
               (''type'', VStr (gets license ''type''))])"

definition orderedSecurityPatch :: "gomap \<Rightarrow> goval" where
  "orderedSecurityPatch profile =
     VRec [(''status'', VStr (normalizeBoolString (mget (submap profile ''security_patch'') ''status'') ''false''))]"

definition collect_profile :: "gomap \<Rightarrow> profile_state" where
  "collect_profile root =
     (let (profile, root') = ensureMap root ''systemProfile''
      in adopt_monitoring (adopt_section ''security_patch'' (adopt_section ''license''
           (adopt_section ''bootstrap'' (take_legacy_security (root', profile))))))"

definition orderedSystemProfile :: "gomap \<Rightarrow> goval" where
  "orderedSystemProfile profile =
     VRec [(''bootstrap'', orderedBootstrap profile), (''license'', orderedLicense profile),
           (''security_patch'', orderedSecurityPatch profile)]"

definition normalizeSystemProfile :: "gomap \<Rightarrow> gomap" where
  "normalizeSystemProfile root =
     (let (root', profile) = collect_profile root
      in fmupd ''systemProfile'' (orderedSystemProfile profile) root')"

definition default_token :: "gomap \<Rightarrow> gomap" where
  "default_token security =
     (if fmlookup security ''internal_token'' = None then puts ''internal_token'' [] security else security)"

definition normalizeSecurity :: "gomap \<Rightarrow> gomap" where
  "normalizeSecurity root =
     (let root' = (case as_map (mget root ''systemProfile'') of
            None \<Rightarrow> root
          | Some systemProfile \<Rightarrow>
              (case as_map (mget systemProfile ''security'') of
                 None \<Rightarrow> root
               | Some legacy \<Rightarrow>
                   fmupd ''systemProfile'' (VMap (fmdrop ''security'' systemProfile))
                     (edit_map ''security'' (inherit_token legacy) root)))
      in edit_map ''security'' default_token root')"

text \<open>A root without a \<^verbatim>\<open>clusterConfig\<close> map is returned as it is.\<close>

definition NormalizeClusterJSON :: "gomap \<Rightarrow> gomap" where
  "NormalizeClusterJSON root =
     (case as_map (mget root ''clusterConfig'') of
        None \<Rightarrow> root
      | Some cfg \<Rightarrow>
          normalizeSecurity (normalizeSystemProfile (fmupd ''clusterConfig'' (orderedClusterConfig cfg) root)))"

text \<open>The document a save leaves on disk, as the next load decodes it.\<close>

definition stored :: "gomap \<Rightarrow> gomap" where
  "stored root = fmmap reload (NormalizeClusterJSON root)"

section \<open>Scalars are stable\<close>

lemma normalizeGFSSize_pos: "0 < fallback \<Longrightarrow> 0 < normalizeGFSSize v fallback"
  by (auto simp: normalizeGFSSize_def split: option.splits)

lemma atoi_bound: "atoi s = Some i \<Longrightarrow> i \<le> int64_max"
  by (auto simp: atoi_def Let_def split: if_splits)

lemma normalizeGFSSize_max: "fallback \<le> int64_max \<Longrightarrow> normalizeGFSSize v fallback \<le> int64_max"
  by (auto simp: normalizeGFSSize_def dest: atoi_bound split: option.splits)

lemma trim_itoa_pos: "0 \<le> i \<Longrightarrow> trim_space (itoa i) = itoa i"
  by (simp add: itoa_def)

lemma normalizeGFSSize_stable:
  assumes "0 < fallback" "fallback \<le> int64_max"
  shows "normalizeGFSSize (VInt (normalizeGFSSize v fallback)) fallback = normalizeGFSSize v fallback"
proof -
  let ?n = "normalizeGFSSize v fallback"
  have n: "0 < ?n" "?n \<le> int64_max" using assms normalizeGFSSize_pos normalizeGFSSize_max by auto
  then have "atoi (trim_space (itoa ?n)) = Some ?n"
    by (simp add: trim_itoa_pos atoi_itoa int64_min_def)
  with n show ?thesis by (simp add: normalizeGFSSize_def [of "VInt ?n"])
qed

lemma normalizeStorageNetwork_cases:
  "normalizeStorageNetwork s = ''true'' \<or> normalizeStorageNetwork s = ''false''"
  by (simp add: normalizeStorageNetwork_def)

lemma normalizeStorageNetwork_stable [simp]:
  "normalizeStorageNetwork (normalizeStorageNetwork s) = normalizeStorageNetwork s"
proof -
  have "normalizeStorageNetwork ''true'' = ''true''" "normalizeStorageNetwork ''false'' = ''false''"
    by (simp_all add: normalizeStorageNetwork_def go_str)
  then show ?thesis using normalizeStorageNetwork_cases [of s] by auto
qed

lemma normalizeStorageNetwork_not_Nil [simp]: "normalizeStorageNetwork s \<noteq> []"
  using normalizeStorageNetwork_cases [of s] by auto

lemma normalizeBoolString_stable [simp]:
  "normalizeBoolString (VStr (normalizeBoolString v ''false'')) ''false'' = normalizeBoolString v ''false''"
proof -
  have lit: "to_lower (trim_space ''true'') = ''true''" "to_lower (trim_space ''false'') = ''false''"
    by (simp_all add: go_str)
  show ?thesis
    by (auto simp: normalizeBoolString_def [of v] Let_def lit) (simp_all add: normalizeBoolString_def lit)
qed

section \<open>The slots of a document\<close>

lemma atoi_show_nat_iff: "atoi (show_nat n) = (if int n \<le> int64_max then Some (int n) else None)"
  using show_nat_digits [of n] show_nat_no_sign [of n]
  by (auto simp: atoi_def Let_def int64_min_def)

lemma isPCSClusterHostnameKey_key [simp]:
  "isPCSClusterHostnameKey (hostname_key j) \<longleftrightarrow> 1 \<le> j \<and> int j \<le> int64_max"
  by (auto simp: isPCSClusterHostnameKey_def hostname_key_def has_prefix_def trim_prefix_def atoi_show_nat_iff)

lemma cleared_slot:
  "1 \<le> j \<Longrightarrow> j \<le> PCSClusterMaxHosts \<Longrightarrow> fmlookup (clearPCSClusterValues m) (hostname_key j) = None"
  by (simp add: clearPCSClusterValues_def PCSClusterMaxHosts_def int64_max_def)

lemma fmlookup_writePCS:
  "fmlookup (writePCSClusterValues m xs) k =
     (if k = ''hostnames'' then None
      else fmlookup (fill_slots (NormalizePCSClusterList xs) (clearPCSClusterValues m)) k)"
  by (auto simp: writePCSClusterValues_def Let_def)

lemma slot_values_writePCS: "slot_values pr (writePCSClusterValues m xs)
    = slot_values pr (fill_slots (NormalizePCSClusterList xs) (clearPCSClusterValues m))"
  by (simp add: slot_values_def fmlookup_writePCS)

lemma collect_writePCS: "collectPCSClusterValues (writePCSClusterValues m xs) = NormalizePCSClusterList xs"
proof -
  obtain bs where bs: "slot_values getString (writePCSClusterValues m xs) = NormalizePCSClusterList xs @ bs"
      "\<forall>b \<in> set bs. b = []"
    using slot_values_fill_slots [of getString "NormalizePCSClusterList xs" "clearPCSClusterValues m"]
    by (auto simp: slot_values_writePCS length_NormalizePCSClusterList cleared_slot)
  have "clean_list (NormalizePCSClusterList xs @ bs) = clean_list (NormalizePCSClusterList xs)"
    by (rule clean_list_append_blank) (use bs in auto)
  with bs show ?thesis
    by (simp add: collectPCSClusterValues_def fmlookup_writePCS)
      (simp add: NormalizePCSClusterList_spec clean_list_take)
qed

interpretation pcs_doc: slot_codec "writePCSClusterValues m" collectPCSClusterValues for m
  by unfold_locales (simp_all add: collect_writePCS, simp add: writePCSClusterValues_def Let_def)

lemma fmlookup_clear_other:
  assumes "\<And>j. 1 \<le> j \<Longrightarrow> j \<le> PCSClusterMaxHosts \<Longrightarrow> k \<noteq> hostname_key j" and "k \<noteq> ''hostnames''"
  shows "fmlookup (writePCSClusterValues m xs) k = fmlookup (clearPCSClusterValues m) k"
proof (cases "\<exists>j. k = hostname_key j")
  case True
  then obtain j where j: "k = hostname_key j" by blast
  with assms have "\<not> (1 \<le> j \<and> j \<le> PCSClusterMaxHosts)" by blast
  then have "\<not> (1 \<le> j \<and> j \<le> length (NormalizePCSClusterList xs))" "\<not> (length (NormalizePCSClusterList xs) < j \<and> j \<le> 3)"
    using length_NormalizePCSClusterList [of xs] by (auto simp: PCSClusterMaxHosts_def)
  then show ?thesis using assms(2) by (auto simp: fmlookup_writePCS fmlookup_fill_slots j)
next
  case False
  with assms(2) show ?thesis by (simp add: fmlookup_writePCS fmlookup_fill_slots_other)
qed

lemma writePCS_writePCS: "writePCSClusterValues (writePCSClusterValues m xs) ys = writePCSClusterValues m ys"
proof (rule fmap_ext)
  fix k
  show "fmlookup (writePCSClusterValues (writePCSClusterValues m xs) ys) k = fmlookup (writePCSClusterValues m ys) k"
  proof (cases "k = ''hostnames'' \<or> (\<exists>j. 1 \<le> j \<and> j \<le> PCSClusterMaxHosts \<and> k = hostname_key j)")
    case True
    then show ?thesis by (auto simp: fmlookup_writePCS fmlookup_fill_slots cleared_slot)
  next
    case False
    then have "fmlookup (writePCSClusterValues m' zs) k = fmlookup (clearPCSClusterValues m') k" for m' zs
      by (intro fmlookup_clear_other) auto
    then show ?thesis by (simp add: clearPCSClusterValues_def)
  qed
qed

lemma normalizePCSClusterMap_idem [simp]:
  "normalizePCSClusterMap (normalizePCSClusterMap m) = normalizePCSClusterMap m"
  by (simp add: normalizePCSClusterMap_def writePCS_writePCS collect_writePCS)
    (simp add: pcs_doc.enc_norm)

lemma plain_map_writePCS: "plain_map m \<Longrightarrow> plain_map (writePCSClusterValues m xs)"
  by (simp add: writePCSClusterValues_def Let_def clearPCSClusterValues_def plain_intros plain_map_fill_slots)

lemma plain_map_normalizePCS: "plain_map m \<Longrightarrow> plain_map (normalizePCSClusterMap m)"
  by (simp add: normalizePCSClusterMap_def plain_map_writePCS)

section \<open>The cluster section is stable\<close>

text \<open>The cluster section as the next load sees it.\<close>

abbreviation stored_cfg :: "gomap \<Rightarrow> gomap" where
  "stored_cfg cfg \<equiv> (case as_map (reload (orderedClusterConfig cfg)) of Some m \<Rightarrow> m | None \<Rightarrow> fmempty)"

lemma orderedClusterConfig_VRec: "\<exists>fs. orderedClusterConfig cfg = VRec fs"
  by (simp add: orderedClusterConfig_def Let_def)

lemma mget_stored_cfg:
  "gets (stored_cfg cfg) ''type'' = gets cfg ''type''"
  "gets (stored_cfg cfg) ''hostType'' = gets cfg ''hostType''"
  "gets (stored_cfg cfg) ''backup_path'' = gets cfg ''backup_path''"
  "gets (submap (stored_cfg cfg) ''ccvm'') ''ip'' = gets (submap cfg ''ccvm'') ''ip''"
  "mget (stored_cfg cfg) ''hosts'' = VArr (map reload (buildOrderedHosts cfg))"
  "gets (stored_cfg cfg) ''external_timeserver'' = first_of cfg ''external_timeserver'' ''extenal_timeserver''"
  "gets (stored_cfg cfg) ''extenal_timeserver'' = []"
  "gets (stored_cfg cfg) ''storage_network'' = normalizeStorageNetwork (first_of cfg ''storage_network'' ''iscsi_storage'')"
  "submap (stored_cfg cfg) ''gfs'' = (case as_map (reload (gfs_section cfg)) of Some m \<Rightarrow> m | None \<Rightarrow> fmempty)"
  by (simp_all add: orderedClusterConfig_def Let_def opt_field_def mget_fields submap_fields
      del: list.map map_append)

lemma submap_stored_pcs:
  "plain_map cfg \<Longrightarrow> submap (stored_cfg cfg) ''pcsCluster'' = normalizePCSClusterMap (submap cfg ''pcsCluster'')"
  by (simp add: orderedClusterConfig_def Let_def opt_field_def submap_fields del: list.map map_append)
    (simp add: reload_plain_map plain_map_normalizePCS plain_submap)

lemma merged_nic_stored:
  "gets (merged_nic (stored_cfg cfg)) ''cidr'' = gets (merged_nic cfg) ''cidr''"
  "gets (merged_nic (stored_cfg cfg)) ''gw'' = gets (merged_nic cfg) ''gw''"
  "gets (merged_nic (stored_cfg cfg)) ''dns'' = gets (merged_nic cfg) ''dns''"
  by (simp_all add: orderedClusterConfig_def merged_nic_def [of "fmap_of_list _"] inherit_nic_def [of "fmap_of_list _"]
      Let_def opt_field_def mget_fields submap_fields del: list.map map_append)

lemma getHosts_stored:
  "getHosts (stored_cfg cfg) = map (\<lambda>h. case as_map (reload h) of Some m \<Rightarrow> m | None \<Rightarrow> fmempty) (buildOrderedHosts cfg)"
proof -
  have "\<forall>h \<in> set (buildOrderedHosts cfg). as_map (reload h) \<noteq> None"
    by (auto simp: buildOrderedHosts_def orderedHostHCI_def orderedHostVM_def split: if_splits)
  moreover have "List.map_filter as_map (map reload hs) = map (\<lambda>h. case as_map (reload h) of Some m \<Rightarrow> m | None \<Rightarrow> fmempty) hs"
    if "\<forall>h \<in> set hs. as_map (reload h) \<noteq> None" for hs
    using that by (induction hs) auto
  ultimately show ?thesis by (simp add: getHosts_def mget_stored_cfg)
qed

lemma ordered_host_stable:
  "reload (orderedHostHCI (case as_map (reload (orderedHostHCI h)) of Some m \<Rightarrow> m | None \<Rightarrow> fmempty)) = reload (orderedHostHCI h)"
  "reload (orderedHostVM (case as_map (reload (orderedHostVM h)) of Some m \<Rightarrow> m | None \<Rightarrow> fmempty)) = reload (orderedHostVM h)"
  by (simp_all add: orderedHostHCI_def orderedHostVM_def mget_fields del: list.map)

lemma buildOrderedHosts_stored:
  "map reload (buildOrderedHosts (stored_cfg cfg)) = map reload (buildOrderedHosts cfg)"
  by (simp add: buildOrderedHosts_def [of "stored_cfg cfg"] mget_stored_cfg getHosts_stored)
    (auto simp: buildOrderedHosts_def ordered_host_stable comp_def)

lemma gfs_section_stored: "reload (gfs_section (stored_cfg cfg)) = reload (gfs_section cfg)"
  by (simp add: gfs_section_def mget_stored_cfg Let_def mget_fields normalizeGFSSize_stable
      GFSDefaultJournalSizeMB_def GFSDefaultResourceGroupSizeMB_def int64_max_def del: list.map)

lemma orderedClusterConfig_stable:
  assumes "plain_map cfg"
  shows "reload (orderedClusterConfig (stored_cfg cfg)) = reload (orderedClusterConfig cfg)"
proof -
  define c' where "c' = stored_cfg cfg"
  note facts = mget_stored_cfg [of cfg, folded c'_def] submap_stored_pcs [OF assms, folded c'_def]
    merged_nic_stored [of cfg, folded c'_def] buildOrderedHosts_stored [of cfg, folded c'_def]
    gfs_section_stored [of cfg, folded c'_def]
  have "first_of c' ''external_timeserver'' ''extenal_timeserver'' = first_of cfg ''external_timeserver'' ''extenal_timeserver''"
    by (simp add: first_of_def [of c'] facts)
  moreover have "normalizeStorageNetwork (first_of c' ''storage_network'' ''iscsi_storage'')
      = normalizeStorageNetwork (first_of cfg ''storage_network'' ''iscsi_storage'')"
    by (simp add: first_of_def [of c'] facts)
  ultimately have "reload (orderedClusterConfig c') = reload (orderedClusterConfig cfg)"
    by (simp add: orderedClusterConfig_def Let_def facts opt_field_def)
  then show ?thesis by (simp add: c'_def)
qed

section \<open>The system profile is stable\<close>

definition adopted_keys :: "string list" where
  "adopted_keys = [''bootstrap'', ''license'', ''security_patch'', ''monitoring'']"

text \<open>What collecting the profile leaves of the root.\<close>

lemma fst_adopt_section:
  "fmlookup (fst (adopt_section key rp)) k =
     (if k = key \<and> as_map (mget (fst rp) key) \<noteq> None then None else fmlookup (fst rp) k)"
  by (cases rp) (auto simp: adopt_section_def split: option.splits)

lemma fst_adopt_monitoring:
  "fmlookup (fst (adopt_monitoring rp)) k =
     (if k = ''monitoring'' \<and> as_map (mget (fst rp) ''monitoring'') \<noteq> None then None else fmlookup (fst rp) k)"
  by (cases rp) (auto simp: adopt_monitoring_def split: option.splits)

lemma mget_cong: "fmlookup m k = fmlookup n k \<Longrightarrow> mget m k = mget n k"
  by (simp add: mget_def)

lemma fst_take_legacy_security:
  "k \<noteq> ''security'' \<Longrightarrow> fmlookup (fst (take_legacy_security rp)) k = fmlookup (fst rp) k"
  by (cases rp) (auto simp: take_legacy_security_def split: option.splits)

lemma submap_cong: "fmlookup m k = fmlookup n k \<Longrightarrow> submap m k = submap n k"
  by (simp add: submap_def mget_def)

lemma mget_fst_adopt_section:
  "mget (fst (adopt_section key rp)) k =
     (if k = key \<and> as_map (mget (fst rp) key) \<noteq> None then VNil else mget (fst rp) k)"
  by (cases rp) (auto simp: adopt_section_def split: option.splits)

lemma fst_collect_profile:
  assumes "k \<notin> {''security'', ''systemProfile''}"
  shows "fmlookup (fst (collect_profile root)) k =
    (if k \<in> set adopted_keys \<and> as_map (mget root k) \<noteq> None then None else fmlookup root k)"
proof -
  define rp where "rp = take_legacy_security (fmupd ''systemProfile'' (VMap (submap root ''systemProfile'')) root,
    submap root ''systemProfile'')"
  have rp: "fmlookup (fst rp) k = fmlookup root k" "mget (fst rp) k = mget root k"
    using assms by (auto simp: rp_def mget_def fst_take_legacy_security)
  have "collect_profile root = adopt_monitoring (adopt_section ''security_patch'' (adopt_section ''license''
      (adopt_section ''bootstrap'' rp)))"
    by (simp add: collect_profile_def ensureMap_def rp_def)
  moreover consider "k = ''bootstrap''" | "k = ''license''" | "k = ''security_patch''" | "k = ''monitoring''"
    | "k \<notin> set adopted_keys" by (auto simp: adopted_keys_def)
  then have "fmlookup (fst (adopt_monitoring (adopt_section ''security_patch'' (adopt_section ''license''
      (adopt_section ''bootstrap'' rp))))) k =
    (if k \<in> set adopted_keys \<and> as_map (mget (fst rp) k) \<noteq> None then None else fmlookup (fst rp) k)"
    by cases (simp_all add: fst_adopt_monitoring fst_adopt_section mget_fst_adopt_section adopted_keys_def)
  ultimately show ?thesis by (simp only: rp)
qed

lemma fst_collect_profile_security:
  "submap (fst (collect_profile root)) ''security'' =
     (case as_map (mget (submap root ''systemProfile'') ''security'') of
        None \<Rightarrow> submap root ''security''
      | Some legacy \<Rightarrow> inherit_token legacy (submap root ''security''))"
proof -
  have "submap (fst (collect_profile root)) ''security'' =
      submap (fst (take_legacy_security (fmupd ''systemProfile'' (VMap (submap root ''systemProfile'')) root,
        submap root ''systemProfile''))) ''security''"
    by (rule submap_cong) (simp add: collect_profile_def ensureMap_def fst_adopt_monitoring fst_adopt_section)
  then show ?thesis by (simp add: take_legacy_security_def split: option.splits)
qed

text \<open>The value under every key of a normalised root.\<close>

lemma fmlookup_normalized:
  assumes "as_map (mget root ''clusterConfig'') = Some cfg"
  shows "fmlookup (NormalizeClusterJSON root) k =
    (let root1 = fmupd ''clusterConfig'' (orderedClusterConfig cfg) root; rp = collect_profile root1
     in if k = ''clusterConfig'' then Some (orderedClusterConfig cfg)
        else if k = ''systemProfile'' then Some (orderedSystemProfile (snd rp))
        else if k = ''security'' then Some (VMap (default_token (submap (fst rp) ''security'')))
        else if k \<in> set adopted_keys \<and> as_map (mget root k) \<noteq> None then None
        else fmlookup root k)"
  using assms
  by (simp add: NormalizeClusterJSON_def normalizeSystemProfile_def normalizeSecurity_def Let_def
      orderedSystemProfile_def fst_collect_profile adopted_keys_def split_beta)

lemma collect_profile_trivial:
  assumes "as_map (mget (submap root ''systemProfile'') ''security'') = None"
    and "\<And>k. k \<in> set adopted_keys \<Longrightarrow> as_map (mget root k) = None"
  shows "snd (collect_profile root) = submap root ''systemProfile''"
  using assms
  by (simp add: collect_profile_def ensureMap_def take_legacy_security_def adopt_section_def
      adopt_monitoring_def adopted_keys_def)

text \<open>The profile as the next load sees it.\<close>

abbreviation stored_profile :: "gomap \<Rightarrow> gomap" where
  "stored_profile profile \<equiv> (case as_map (reload (orderedSystemProfile profile)) of Some m \<Rightarrow> m | None \<Rightarrow> fmempty)"

lemma stored_profile_sections:
  "mget (stored_profile p) ''security'' = VNil"
  "mget (stored_profile p) ''monitoring'' = VNil"
  "submap (stored_profile p) ''bootstrap'' = (case as_map (reload (orderedBootstrap p)) of Some m \<Rightarrow> m | None \<Rightarrow> fmempty)"
  "submap (stored_profile p) ''license'' = (case as_map (reload (orderedLicense p)) of Some m \<Rightarrow> m | None \<Rightarrow> fmempty)"
  "submap (stored_profile p) ''security_patch'' = (case as_map (reload (orderedSecurityPatch p)) of Some m \<Rightarrow> m | None \<Rightarrow> fmempty)"
  by (simp_all add: orderedSystemProfile_def mget_fields submap_fields del: list.map)

lemma orderedBootstrap_stable: "reload (orderedBootstrap (stored_profile p)) = reload (orderedBootstrap p)"
proof -
  define b where "b = (case as_map (mget p ''monitoring'') of
      None \<Rightarrow> fmdrop ''pfmp'' (submap p ''bootstrap'')
    | Some monitoring \<Rightarrow> adopt_wall monitoring (fmdrop ''pfmp'' (submap p ''bootstrap'')))"
  have b: "orderedBootstrap p = VRec (map (\<lambda>k. (k, VStr (normalizeBoolString (mget b k) ''false'')))
      [''scvm'', ''ccvm'', ''wall'', ''gfs_configure'', ''local_configure''])"
    by (simp add: orderedBootstrap_def b_def Let_def)
  define sp where "sp = stored_profile p"
  have sp: "mget sp ''monitoring'' = VNil"
    "submap sp ''bootstrap'' = (case as_map (reload (orderedBootstrap p)) of Some m \<Rightarrow> m | None \<Rightarrow> fmempty)"
    by (simp_all add: sp_def stored_profile_sections)
  have "reload (orderedBootstrap sp) = reload (orderedBootstrap p)"
    by (simp add: orderedBootstrap_def [of sp] sp Let_def) (simp add: b mget_def)
  then show ?thesis by (simp add: sp_def)
qed

lemma orderedSystemProfile_stable:
  "reload (orderedSystemProfile (stored_profile p)) = reload (orderedSystemProfile p)"
proof -
  define sp where "sp = stored_profile p"
  note facts = stored_profile_sections [of p, folded sp_def]
  have "reload (orderedBootstrap sp) = reload (orderedBootstrap p)"
    by (simp add: sp_def orderedBootstrap_stable)
  moreover have "reload (orderedLicense sp) = reload (orderedLicense p)"
    by (simp add: orderedLicense_def facts Let_def mget_def)
  moreover have "reload (orderedSecurityPatch sp) = reload (orderedSecurityPatch p)"
    by (simp add: orderedSecurityPatch_def facts Let_def mget_def)
  ultimately have "reload (orderedSystemProfile sp) = reload (orderedSystemProfile p)"
    by (simp add: orderedSystemProfile_def)
  then show ?thesis by (simp add: sp_def)
qed

lemma default_token_stable:
  "default_token (fmmap reload (default_token s)) = fmmap reload (default_token s)"
  by (cases "fmlookup s ''internal_token''") (simp_all add: default_token_def)

section \<open>Properties\<close>

text \<open>A root that was decoded from a document holds no structs.\<close>

lemma adopted_gone:
  assumes "plain_map root" and "as_map (mget root ''clusterConfig'') = Some cfg" and "k \<in> set adopted_keys"
  shows "as_map (mget (stored root) k) = None"
proof -
  have look: "fmlookup (NormalizeClusterJSON root) k = (if as_map (mget root k) \<noteq> None then None else fmlookup root k)"
    using assms(2,3) by (auto simp: fmlookup_normalized Let_def adopted_keys_def)
  have "as_map (reload (mget root k)) = as_map (mget root k)"
    using plain_mget [OF assms(1), of k] by (simp add: reload_plain)
  then show ?thesis
    by (cases "as_map (mget root k)") (auto simp: stored_def mget_def look split: option.splits)
qed

lemma stored_lookup:
  assumes "as_map (mget root ''clusterConfig'') = Some cfg"
  shows "fmlookup (stored root) ''clusterConfig'' = Some (reload (orderedClusterConfig cfg))"
    and "\<exists>p. fmlookup (stored root) ''systemProfile'' = Some (reload (orderedSystemProfile p))"
    and "\<exists>s. fmlookup (stored root) ''security'' = Some (VMap (fmmap reload (default_token s)))"
  using assms by (auto simp: stored_def fmlookup_normalized Let_def)

lemma stored_other:
  assumes "plain_map root" and "as_map (mget root ''clusterConfig'') = Some cfg"
    and "k \<notin> {''clusterConfig'', ''systemProfile'', ''security''}" and "as_map (mget root k) = None \<or> k \<notin> set adopted_keys"
  shows "fmlookup (stored root) k = fmlookup root k"
  using assms by (auto simp: stored_def fmlookup_normalized Let_def plain_map_def reload_plain
      split: if_splits option.splits intro!: option.map_ident_strong)

lemma plain_map_stored: "plain_map (stored root)"
  by (simp add: stored_def plain_map_reload)

lemma stored_idem_cfg:
  assumes "plain_map root" and "as_map (mget root ''clusterConfig'') = Some cfg"
  shows "stored (stored root) = stored root"
proof (rule fmap_ext)
  fix k
  obtain p s where look: "fmlookup (stored root) ''clusterConfig'' = Some (reload (orderedClusterConfig cfg))"
      "fmlookup (stored root) ''systemProfile'' = Some (reload (orderedSystemProfile p))"
      "fmlookup (stored root) ''security'' = Some (VMap (fmmap reload (default_token s)))"
    using stored_lookup [OF assms(2)] by blast
  obtain fs where fs: "orderedClusterConfig cfg = VRec fs" using orderedClusterConfig_VRec by blast
  have cfg': "as_map (mget (stored root) ''clusterConfig'') = Some (stored_cfg cfg)"
    using look by (simp add: mget_def fs)
  have prof: "submap (stored root) ''systemProfile'' = stored_profile p"
    using look by (simp add: submap_def mget_def)
  have plain_cfg: "plain_map cfg"
    using plain_mget [OF assms(1), of "''clusterConfig''"] assms(2) by (cases "mget root ''clusterConfig''") auto
  let ?r1 = "fmupd ''clusterConfig'' (orderedClusterConfig (stored_cfg cfg)) (stored root)"
  have no_legacy: "mget (submap ?r1 ''systemProfile'') ''security'' = VNil"
    by (simp add: prof stored_profile_sections)
  have "as_map (mget ?r1 j) = None" if "j \<in> set adopted_keys" for j
    using adopted_gone [OF assms that] that by (auto simp: adopted_keys_def)
  with no_legacy have snd_cp: "snd (collect_profile ?r1) = stored_profile p"
    by (subst collect_profile_trivial) (simp_all add: prof)
  have fst_cp: "submap (fst (collect_profile ?r1)) ''security'' = fmmap reload (default_token s)"
    using look no_legacy by (simp add: fst_collect_profile_security submap_def [of "stored root"] mget_def [of "stored root"])
  show "fmlookup (stored (stored root)) k = fmlookup (stored root) k"
  proof (cases "k \<in> {''clusterConfig'', ''systemProfile'', ''security''}")
    case True
    then show ?thesis
      unfolding stored_def [of "stored root"]
      by (auto simp: fmlookup_normalized [OF cfg'] Let_def snd_cp fst_cp look
          orderedClusterConfig_stable [OF plain_cfg] orderedSystemProfile_stable default_token_stable
          reload_plain_map plain_map_reload)
  next
    case False
    then show ?thesis
      using stored_other [OF plain_map_stored cfg'] adopted_gone [OF assms] by auto
  qed
qed

text \<open>
  C35. Saving normalises the document into a fixed point: loading what a save wrote and saving it
  again leaves the file unchanged, for every decoded document whose GFS sizes a
  \<^verbatim>\<open>float64\<close> represents exactly.
\<close>

theorem NormalizeClusterJSON_fixpoint:
  assumes "plain_map root"
    and "\<And>size. size \<in> {''journal_size_mb'', ''resource_group_size_mb''} \<Longrightarrow>
      normalizeGFSSize (mget (submap (submap root ''clusterConfig'') ''gfs'') size) 1 \<le> 2 ^ 53"
  shows "stored (stored root) = stored root"
proof (cases "as_map (mget root ''clusterConfig'')")
  case None
  with assms(1) show ?thesis by (simp add: stored_def NormalizeClusterJSON_def reload_plain_map)
next
  case (Some cfg)
  with assms(1) show ?thesis by (rule stored_idem_cfg)
qed

text \<open>A small document with legacy keys, used by the witnesses.\<close>

definition sample_host :: gomap where
  "sample_host =
     puts ''index'' ''1'' (puts ''hostname'' ''cube1'' (puts ''ablecube'' ''10.0.0.1''
       (puts ''ablecubePn'' ''100.0.0.1'' (puts ''scvmMngt'' ''10.0.0.11'' (puts ''scvm'' ''100.0.0.11''
         (puts ''scvmCn'' ''100.1.0.11'' fmempty))))))"

definition sample_cfg :: "string \<Rightarrow> gomap" where
  "sample_cfg typ =
     puts ''type'' typ (fmupd ''hosts'' (VArr [VMap sample_host])
       (fmupd ''ccvm'' (VMap (puts ''ip'' ''10.0.0.10'' (puts ''cidr'' ''16'' fmempty)))
         (fmupd ''pcsCluster'' (VMap (puts ''hostname1'' ''10.0.0.1'' fmempty)) fmempty)))"

definition sample_root :: "string \<Rightarrow> gomap" where
  "sample_root typ =
     fmupd ''clusterConfig'' (VMap (sample_cfg typ))
       (fmupd ''bootstrap'' (VMap (puts ''scvm'' ''TRUE'' fmempty))
         (fmupd ''systemProfile'' (VMap (fmupd ''security'' (VMap (puts ''internal_token'' ''tok'' fmempty)) fmempty))
           fmempty))"

lemma plain_sample_root: "plain_map (sample_root typ)"
  by (simp add: sample_root_def sample_cfg_def sample_host_def plain_map_upd)

theorem NormalizeClusterJSON_fixpoint_witness:
  "plain_map (sample_root ''ablestack-hci'')
   \<and> stored (stored (sample_root ''ablestack-hci'')) = stored (sample_root ''ablestack-hci'')"
proof -
  have "normalizeGFSSize (mget (submap (submap (sample_root ''ablestack-hci'') ''clusterConfig'') ''gfs'') size) 1 \<le> 2 ^ 53"
    for size
    by (simp add: sample_root_def sample_cfg_def normalizeGFSSize_def atoi_def has_prefix_def)
  then show ?thesis
    using NormalizeClusterJSON_fixpoint [of "sample_root ''ablestack-hci''"] plain_sample_root by simp
qed

text \<open>
  Normalisation keeps every top-level key it does not manage, and the key a legacy document
  used for a section it now keeps in the system profile is gone exactly when that key held a map.
\<close>

theorem NormalizeClusterJSON_frame:
  assumes "as_map (mget root ''clusterConfig'') = Some cfg"
    and "k \<notin> {''clusterConfig'', ''systemProfile'', ''security''}"
  shows "fmlookup (NormalizeClusterJSON root) k =
    (if k \<in> set adopted_keys \<and> as_map (mget root k) \<noteq> None then None else fmlookup root k)"
  using assms by (auto simp: fmlookup_normalized Let_def)

theorem NormalizeClusterJSON_frame_witness:
  "fmlookup (NormalizeClusterJSON (sample_root ''ablestack-vm'')) ''bootstrap'' = None
   \<and> fmlookup (NormalizeClusterJSON (sample_root ''ablestack-vm'')) ''comment'' = None"
  using NormalizeClusterJSON_frame [of "sample_root ''ablestack-vm''" "sample_cfg ''ablestack-vm''" "''bootstrap''"]
    NormalizeClusterJSON_frame [of "sample_root ''ablestack-vm''" "sample_cfg ''ablestack-vm''" "''comment''"]
  by (simp add: sample_root_def adopted_keys_def)

text \<open>
  The internal token survives normalisation: a token at the root is kept, an empty or missing
  one is replaced by the token a legacy system profile carried, and the field always exists
  afterwards.
\<close>

theorem NormalizeClusterJSON_token:
  assumes "as_map (mget root ''clusterConfig'') = Some cfg"
  shows "\<exists>security. fmlookup (NormalizeClusterJSON root) ''security'' = Some (VMap security)
    \<and> fmlookup security ''internal_token'' \<noteq> None
    \<and> gets security ''internal_token'' =
        (if gets (submap root ''security'') ''internal_token'' \<noteq> []
         then gets (submap root ''security'') ''internal_token''
         else gets (submap (submap root ''systemProfile'') ''security'') ''internal_token'')"
proof -
  let ?s = "submap (fst (collect_profile (fmupd ''clusterConfig'' (orderedClusterConfig cfg) root))) ''security''"
  have dt: "fmlookup (default_token s) ''internal_token'' \<noteq> None"
    "gets (default_token s) ''internal_token'' = gets s ''internal_token''" for s
    by (auto simp: default_token_def mget_def)
  have "gets ?s ''internal_token'' = (if gets (submap root ''security'') ''internal_token'' \<noteq> []
         then gets (submap root ''security'') ''internal_token''
         else gets (submap (submap root ''systemProfile'') ''security'') ''internal_token'')"
    by (auto simp: fst_collect_profile_security inherit_token_def submap_def [of "submap root ''systemProfile''"]
        split: option.splits)
  with assms dt [of ?s] show ?thesis by (simp add: fmlookup_normalized Let_def)
qed

theorem NormalizeClusterJSON_token_witness:
  "as_map (mget (sample_root ''ablestack-vm'') ''clusterConfig'') = Some (sample_cfg ''ablestack-vm'')
   \<and> (\<exists>security. fmlookup (NormalizeClusterJSON (sample_root ''ablestack-vm'')) ''security'' = Some (VMap security)
        \<and> gets security ''internal_token'' = ''tok'')"
  using NormalizeClusterJSON_token [of "sample_root ''ablestack-vm''" "sample_cfg ''ablestack-vm''"]
  by (auto simp: sample_root_def)

end
