(* ===== verification/Hosts_File.thy ===== *)
theory Hosts_File
  imports Cluster_Normalize
begin

text \<open>
  The \<^verbatim>\<open>/etc/hosts\<close> editor of \<^verbatim>\<open>internal/service/clusterconfig/cluster_config.go\<close>:
  reading and writing the lines, removing entries by address or name, and rebuilding the cluster's
  entries from \<^verbatim>\<open>cluster.json\<close>. The abstract view of the file is name resolution: the first
  line that mentions a name decides. The locale \<open>hosts_table\<close> is the contract a resolver relies on.
\<close>

section \<open>Lines\<close>

abbreviation newline :: char where
  "newline \<equiv> CHR 0x0A"

definition readHostsLines :: "string \<Rightarrow> string list" where
  "readHostsLines content = split_on newline (trim_right_char newline content)"

definition writeHostsLines :: "string list \<Rightarrow> string" where
  "writeHostsLines lines =
     (let content = join_with [newline] lines
      in if has_suffix content [newline] then content else content @ [newline])"

text \<open>A line as the filter reads it: no entry for a comment, a blank line or a single field.\<close>

definition hosts_entry :: "string \<Rightarrow> (string \<times> string list) option" where
  "hosts_entry line =
     (let trimmed = trim_space line
      in if trimmed = [] \<or> has_prefix trimmed ''#'' then None
         else (case str_fields trimmed of ip # n # ns \<Rightarrow> Some (ip, n # ns) | _ \<Rightarrow> None))"

definition keep_line :: "string list \<Rightarrow> string list \<Rightarrow> string \<Rightarrow> bool" where
  "keep_line removeIPs removeNames line =
     (case hosts_entry line of
        None \<Rightarrow> True
      | Some (ip, names) \<Rightarrow> ip \<notin> set removeIPs \<and> \<not> list_ex (\<lambda>n. n \<in> set removeNames) names)"

text \<open>The key sets of the two Go maps are lists here; a nil map is the empty list.\<close>

definition filterHostsLines :: "string list \<Rightarrow> string list \<Rightarrow> string list \<Rightarrow> string list" where
  "filterHostsLines lines removeIPs removeNames =
     (if removeIPs = [] \<and> removeNames = [] then lines else filter (keep_line removeIPs removeNames) lines)"

definition formatHostsEntry :: "string \<Rightarrow> string list \<Rightarrow> string" where
  "formatHostsEntry ip names =
     (if ip = [] \<or> names = [] then [] else ip @ CHR 0x09 # join_with '' '' names)"

definition updateHostsFile :: "string list \<Rightarrow> string list \<Rightarrow> string list \<Rightarrow> string \<Rightarrow> string" where
  "updateHostsFile removeIPs removeNames addEntries content =
     writeHostsLines (filterHostsLines (readHostsLines content) removeIPs removeNames @ addEntries)"

section \<open>Rebuilding the cluster's entries\<close>

definition is_vm_type :: "string \<Rightarrow> bool" where
  "is_vm_type typ \<longleftrightarrow> equal_fold typ ''ablestack-vm'' \<or> equal_fold typ ''ablestack-standalone''"

definition vm_host_lines :: "string \<Rightarrow> string \<Rightarrow> gomap \<Rightarrow> string list \<Rightarrow> string list" where
  "vm_host_lines storageNetwork hostname host lines =
     (let index = gets host ''index''; ablecubeIP = gets host ''ablecube'';
          ablecubePnIP = gets host ''ablecubePn''; hostName = gets host ''hostname'';
          storage = equal_fold storageNetwork ''true'';
          removeNames = [hostName, ablecubeIP] @ (if storage then [ablecubePnIP] else []);
          kept = filterHostsLines lines [] removeNames
      in if hostname = hostName
         then kept @ [formatHostsEntry ablecubeIP [hostName, ''ablecube'']]
           @ (if storage then [formatHostsEntry ablecubePnIP [''pn-ablecube'' @ index, ''pn-ablecube'']] else [])
         else kept @ [formatHostsEntry ablecubeIP [hostName]]
           @ (if storage then [formatHostsEntry ablecubePnIP [''pn-ablecube'' @ index]] else []))"

definition hci_remove_ips :: "gomap \<Rightarrow> string list" where
  "hci_remove_ips host =
     [gets host ''ablecube'', gets host ''scvmMngt'', gets host ''ablecubePn'', gets host ''scvm'', gets host ''scvmCn'']"

definition hci_remove_names :: "gomap \<Rightarrow> string list" where
  "hci_remove_names host =
     (let index = gets host ''index''
      in [gets host ''hostname'', ''scvm'' @ index @ ''-mngt'', ''pn-ablecube'' @ index, ''scvm'' @ index,
          ''cn-scvm'' @ index])"

text \<open>The address and the names of the five entries a host of a hyperconverged cluster gets.\<close>

definition hci_entries :: "string \<Rightarrow> gomap \<Rightarrow> (string \<times> string list) list" where
  "hci_entries hostname host =
     (let index = gets host ''index''; hostName = gets host ''hostname''; scvmName = ''scvm'' @ index;
          localAblecube = (hostname = hostName); localSCVM = (hostname = scvmName);
          alias = (\<lambda>b a. if b then [a] else [])
      in [(gets host ''ablecube'', hostName # alias localAblecube ''ablecube''),
          (gets host ''scvmMngt'', (scvmName @ ''-mngt'') # alias (localAblecube \<or> localSCVM) ''scvm-mngt''),
          (gets host ''ablecubePn'', (''pn-ablecube'' @ index) # alias (localAblecube \<or> localSCVM) ''pn-ablecube''),
          (gets host ''scvm'', scvmName # alias (localAblecube \<or> localSCVM) ''scvm''),
          (gets host ''scvmCn'', (''cn-scvm'' @ index) # alias (localAblecube \<or> localSCVM) ''cn-scvm'')])"

definition hci_host_lines :: "string \<Rightarrow> gomap \<Rightarrow> string list \<Rightarrow> string list" where
  "hci_host_lines hostname host lines =
     filterHostsLines lines (hci_remove_ips host) (hci_remove_names host)
     @ map (\<lambda>(ip, names). formatHostsEntry ip names) (hci_entries hostname host)"

fun host_loop :: "string \<Rightarrow> string \<Rightarrow> string \<Rightarrow> gomap list \<Rightarrow> string list \<Rightarrow> string list" where
  "host_loop typ storageNetwork hostname [] lines = lines"
| "host_loop typ storageNetwork hostname (host # hosts) lines =
     host_loop typ storageNetwork hostname hosts
       (if is_vm_type typ then vm_host_lines storageNetwork hostname host lines
        else hci_host_lines hostname host lines)"

definition ccvm_lines :: "gomap \<Rightarrow> string list \<Rightarrow> string list" where
  "ccvm_lines cfg lines =
     (let ccvmIP = gets (submap cfg ''ccvm'') ''ip''
      in if ccvmIP = [] then lines
         else filterHostsLines lines [ccvmIP] [''ccvm-mngt'', ''ccvm'']
           @ [formatHostsEntry ccvmIP [''ccvm-mngt'', ''ccvm'']])"

text \<open>\<^verbatim>\<open>changeHosts\<close>, from the old content of the file to the new one.\<close>

definition changeHosts :: "string \<Rightarrow> string \<Rightarrow> string \<Rightarrow> gomap \<Rightarrow> string \<Rightarrow> string" where
  "changeHosts typ storageNetwork hostname cfg content =
     (let lines = readHostsLines content;
          lines' = (if is_vm_type typ \<and> length lines > 2 then take 2 lines else lines)
      in writeHostsLines (host_loop typ storageNetwork hostname (getHosts cfg) (ccvm_lines cfg lines')))"

section \<open>Resolution\<close>

definition mentions :: "string \<Rightarrow> string \<Rightarrow> bool" where
  "mentions name line = (case hosts_entry line of None \<Rightarrow> False | Some (ip, names) \<Rightarrow> name \<in> set names)"

definition resolve_line :: "string list \<Rightarrow> string \<Rightarrow> string option" where
  "resolve_line lines name = find (mentions name) lines"

definition resolve :: "string list \<Rightarrow> string \<Rightarrow> string option" where
  "resolve lines name = Option.bind (resolve_line lines name) (\<lambda>line. map_option fst (hosts_entry line))"

text \<open>A token: printable ASCII without white space and not a comment.\<close>

definition hosts_token :: "string \<Rightarrow> bool" where
  "hosts_token t \<longleftrightarrow> t \<noteq> [] \<and> list_all (\<lambda>c. 33 \<le> (of_char c :: nat) \<and> (of_char c :: nat) < 127) t
     \<and> \<not> has_prefix t ''#''"

section \<open>Fields of a formatted entry\<close>

lemma printable_no_space:
  assumes "33 \<le> (of_char c :: nat)" "(of_char c :: nat) < 127"
  shows "\<not> space1 c" "\<not> space2 c d" "\<not> space3 c d e" "\<not> space2 d c" "\<not> space3 e d c"
  using assms by (auto simp: space1_def space2_def space3_def)

lemma printable_space_len:
  "33 \<le> (of_char c :: nat) \<Longrightarrow> (of_char c :: nat) < 127 \<Longrightarrow> space_len (c # s) = 0"
  "33 \<le> (of_char c :: nat) \<Longrightarrow> (of_char c :: nat) < 127 \<Longrightarrow> space_len_rev (c # s) = 0"
  by (simp_all add: space_len.simps space_len_rev.simps printable_no_space split: list.splits)

lemma fields_from_printable:
  "list_all (\<lambda>c. 33 \<le> (of_char c :: nat) \<and> (of_char c :: nat) < 127) t \<Longrightarrow>
     fields_from cur (t @ s) = fields_from (rev t @ cur) s"
  by (induction t arbitrary: cur) (auto simp: printable_space_len)

lemma space_len_blank [simp]: "space_len (CHR '' '' # s) = 1" "space_len (CHR 0x09 # s) = 1"
  by (simp_all add: space_len.simps space1_def)

lemma fields_join:
  "names \<noteq> [] \<Longrightarrow> (\<And>n. n \<in> set names \<Longrightarrow> hosts_token n) \<Longrightarrow> fields_from [] (join_with '' '' names) = names"
proof (induction "'' ''" names rule: join_with.induct)
  case (2 x)
  then have "fields_from [] (x @ []) = [x]" by (subst fields_from_printable) (auto simp: hosts_token_def)
  then show ?case by simp
next
  case (3 x y ys)
  then have "hosts_token x" by simp
  then have "fields_from [] (x @ CHR '' '' # join_with '' '' (y # ys)) = x # fields_from [] (join_with '' '' (y # ys))"
    by (subst fields_from_printable) (auto simp: hosts_token_def)
  with 3 show ?case by simp
qed simp

lemma join_with_last_printable:
  "names \<noteq> [] \<Longrightarrow> (\<And>n. n \<in> set names \<Longrightarrow> hosts_token n) \<Longrightarrow> \<exists>s c. join_with '' '' names = s @ [c] \<and> 33 \<le> (of_char c :: nat) \<and> (of_char c :: nat) < 127"
proof (induction "'' ''" names rule: join_with.induct)
  case (2 x)
  then have "x \<noteq> []" "list_all (\<lambda>c. 33 \<le> (of_char c :: nat) \<and> (of_char c :: nat) < 127) x" by (auto simp: hosts_token_def)
  then show ?case by (cases x rule: rev_cases) auto
next
  case (3 x y ys)
  then obtain s c where "join_with '' '' (y # ys) = s @ [c]" "33 \<le> (of_char c :: nat)" "(of_char c :: nat) < 127"
    by auto
  then show ?case by (intro exI [of _ "x @ '' '' @ s"] exI [of _ c]) simp
qed simp

lemma hosts_entry_format:
  assumes "hosts_token ip" and "names \<noteq> []" and "\<And>n. n \<in> set names \<Longrightarrow> hosts_token n"
  shows "hosts_entry (formatHostsEntry ip names) = Some (ip, names)"
proof -
  let ?l = "ip @ CHR 0x09 # join_with '' '' names"
  obtain c t where ip: "ip = c # t" "33 \<le> (of_char c :: nat)" "(of_char c :: nat) < 127" "c \<noteq> CHR ''#''"
    using assms(1) by (cases ip) (auto simp: hosts_token_def has_prefix_def)
  obtain s d where last: "join_with '' '' names = s @ [d]" "33 \<le> (of_char d :: nat)" "(of_char d :: nat) < 127"
    using join_with_last_printable [OF assms(2,3)] by blast
  have trim: "trim_space ?l = ?l"
    by (rule trim_space_id) (simp_all add: ip(1) last printable_space_len [OF ip(2,3)] printable_space_len [OF last(2,3)])
  have "str_fields ?l = ip # names"
    using assms(1) fields_join [OF assms(2,3)]
    by (simp add: str_fields_def) (subst fields_from_printable, auto simp: hosts_token_def)
  moreover have "\<not> has_prefix ?l ''#''" using ip by (simp add: has_prefix_def)
  moreover have "ip \<noteq> []" using assms(1) by (simp add: hosts_token_def)
  ultimately show ?thesis
    using assms(2) by (auto simp: hosts_entry_def formatHostsEntry_def trim Let_def split: list.splits)
qed

lemma hosts_entry_Nil [simp]: "hosts_entry [] = None"
  by (simp add: hosts_entry_def)

section \<open>What a filter keeps\<close>

lemma find_filter: "find P xs = Some x \<Longrightarrow> Q x \<Longrightarrow> find P (filter Q xs) = Some x"
  by (induction xs) (auto split: if_splits)

lemma find_append: "find P (xs @ ys) = (case find P xs of Some x \<Rightarrow> Some x | None \<Rightarrow> find P ys)"
  by (induction xs) auto

lemma find_none_filter: "(\<And>x. Q x \<Longrightarrow> \<not> P x) \<Longrightarrow> find P (filter Q xs) = None"
  by (induction xs) auto

lemma mentions_removed: "n \<in> set names \<Longrightarrow> keep_line ips names line \<Longrightarrow> \<not> mentions n line"
  by (auto simp: keep_line_def mentions_def list_ex_iff split: option.splits)

lemma filterHostsLines_filter:
  "ips \<noteq> [] \<or> names \<noteq> [] \<Longrightarrow> filterHostsLines lines ips names = filter (keep_line ips names) lines"
  by (auto simp: filterHostsLines_def)

lemma resolve_line_removed:
  "n \<in> set names \<Longrightarrow> find (mentions n) (filterHostsLines lines ips names) = None"
  by (subst filterHostsLines_filter) (auto intro!: find_none_filter dest: mentions_removed)

lemma resolve_line_kept:
  "resolve_line lines n = Some l \<Longrightarrow> keep_line ips names l \<Longrightarrow>
     resolve_line (filterHostsLines lines ips names @ extra) n = Some l"
  by (auto simp: resolve_line_def filterHostsLines_def find_append find_filter)

text \<open>Well-formed entries: tokens only, and no name twice.\<close>

definition good_entries :: "(string \<times> string list) list \<Rightarrow> bool" where
  "good_entries es \<longleftrightarrow>
     list_all (\<lambda>(ip, names). hosts_token ip \<and> names \<noteq> [] \<and> list_all hosts_token names) es
     \<and> distinct (concat (map snd es))"

abbreviation entry_line :: "string \<times> string list \<Rightarrow> string" where
  "entry_line e \<equiv> formatHostsEntry (fst e) (snd e)"

lemma mentions_format:
  "hosts_token ip \<Longrightarrow> names \<noteq> [] \<Longrightarrow> list_all hosts_token names \<Longrightarrow>
     mentions n (formatHostsEntry ip names) \<longleftrightarrow> n \<in> set names"
  by (simp add: mentions_def hosts_entry_format list_all_iff)

lemma find_good_entry:
  "good_entries es \<Longrightarrow> e \<in> set es \<Longrightarrow> n \<in> set (snd e) \<Longrightarrow>
     find (mentions n) (map entry_line es) = Some (entry_line e)"
proof (induction es)
  case (Cons a es)
  then have a: "hosts_token (fst a)" "snd a \<noteq> []" "list_all hosts_token (snd a)" and es: "good_entries es"
    by (auto simp: good_entries_def split_beta)
  show ?case
  proof (cases "e = a")
    case True
    with Cons.prems a show ?thesis by (simp add: mentions_format)
  next
    case False
    with Cons.prems have "e \<in> set es" by simp
    moreover from this have "n \<notin> set (snd a)" using Cons.prems by (fastforce simp: good_entries_def)
    ultimately show ?thesis using a es Cons.prems Cons.IH by (simp add: mentions_format)
  qed
qed simp

section \<open>The contract of a rebuilding step\<close>

text \<open>
  A step for one host installs lines for the host's own names and drops the lines that clash with
  the host. Running the steps of hosts that do not clash leaves every host's names resolved.
\<close>

locale hosts_table =
  fixes step :: "'h \<Rightarrow> string list \<Rightarrow> string list"
    and entries :: "'h \<Rightarrow> (string \<times> string list) list"
    and owned :: "'h \<Rightarrow> string list"
    and survives :: "'h \<Rightarrow> string \<Rightarrow> bool"
  assumes installs: "good_entries (entries h) \<Longrightarrow> e \<in> set (entries h) \<Longrightarrow> n \<in> set (snd e) \<Longrightarrow> n \<in> set (owned h) \<Longrightarrow>
      resolve_line (step h lines) n = Some (entry_line e)"
    and keeps: "resolve_line lines n = Some l \<Longrightarrow> survives h l \<Longrightarrow> resolve_line (step h lines) n = Some l"
begin

definition compatible :: "'h \<Rightarrow> 'h \<Rightarrow> bool" where
  "compatible h h' \<longleftrightarrow> (\<forall>e \<in> set (entries h). survives h' (entry_line e))"

lemma keeps_all:
  "resolve_line lines n = Some l \<Longrightarrow> (\<And>h. h \<in> set hs \<Longrightarrow> survives h l) \<Longrightarrow> resolve_line (fold step hs lines) n = Some l"
  by (induction hs arbitrary: lines) (auto intro: keeps)

lemma installs_all:
  assumes "sorted_wrt compatible hs" and "h \<in> set hs" and "good_entries (entries h)"
    and "e \<in> set (entries h)" and "n \<in> set (snd e)" and "n \<in> set (owned h)"
  shows "resolve_line (fold step hs lines) n = Some (entry_line e)"
  using assms(1,2)
proof (induction hs arbitrary: lines)
  case (Cons a hs)
  show ?case
  proof (cases "h \<in> set hs")
    case True
    with Cons show ?thesis by simp
  next
    case False
    with Cons.prems have "a = h" by simp
    with Cons.prems assms(4) have "\<And>h'. h' \<in> set hs \<Longrightarrow> survives h' (entry_line e)"
      by (auto simp: compatible_def)
    then show ?thesis
      using \<open>a = h\<close> assms(3-6) by (auto intro!: keeps_all installs)
  qed
qed simp

end

interpretation hci: hosts_table "hci_host_lines hostname" "hci_entries hostname" hci_remove_names
    "\<lambda>h. keep_line (hci_remove_ips h) (hci_remove_names h)" for hostname
proof unfold_locales
  fix h e n lines
  assume "good_entries (hci_entries hostname h)" "e \<in> set (hci_entries hostname h)" "n \<in> set (snd e)"
    "n \<in> set (hci_remove_names h)"
  then show "resolve_line (hci_host_lines hostname h lines) n = Some (entry_line e)"
    by (simp add: resolve_line_def hci_host_lines_def find_append resolve_line_removed split_beta' find_good_entry)
next
  fix lines n l h
  assume "resolve_line lines n = Some l" "keep_line (hci_remove_ips h) (hci_remove_names h) l"
  then show "resolve_line (hci_host_lines hostname h lines) n = Some l"
    by (simp add: hci_host_lines_def resolve_line_kept)
qed

text \<open>For a plain VM cluster a host owns its own name; the private address line is extra.\<close>

definition vm_entries :: "string \<Rightarrow> gomap \<Rightarrow> (string \<times> string list) list" where
  "vm_entries hostname host =
     [(gets host ''ablecube'', gets host ''hostname'' # (if hostname = gets host ''hostname'' then [''ablecube''] else []))]"

definition vm_owned :: "gomap \<Rightarrow> string list" where
  "vm_owned host = [gets host ''hostname'']"

definition vm_removed :: "string \<Rightarrow> gomap \<Rightarrow> string list" where
  "vm_removed storageNetwork host =
     [gets host ''hostname'', gets host ''ablecube'']
     @ (if equal_fold storageNetwork ''true'' then [gets host ''ablecubePn''] else [])"

lemma vm_host_lines_shape:
  "\<exists>extra. vm_host_lines st hostname h lines =
     filterHostsLines lines [] (vm_removed st h) @ map entry_line (vm_entries hostname h) @ extra"
  by (simp add: vm_host_lines_def vm_removed_def vm_entries_def Let_def)

interpretation vm: hosts_table "vm_host_lines st hostname" "vm_entries hostname" vm_owned
    "\<lambda>h. keep_line [] (vm_removed st h)" for st hostname
proof unfold_locales
  fix h e n lines
  assume *: "good_entries (vm_entries hostname h)" "e \<in> set (vm_entries hostname h)" "n \<in> set (snd e)"
    "n \<in> set (vm_owned h)"
  obtain extra where "vm_host_lines st hostname h lines =
     filterHostsLines lines [] (vm_removed st h) @ map entry_line (vm_entries hostname h) @ extra"
    using vm_host_lines_shape by blast
  moreover have "n \<in> set (vm_removed st h)" using * by (simp add: vm_owned_def vm_removed_def)
  ultimately show "resolve_line (vm_host_lines st hostname h lines) n = Some (entry_line e)"
    using find_good_entry [OF *(1-3)] by (simp add: resolve_line_def find_append resolve_line_removed)
next
  fix lines n l h
  assume "resolve_line lines n = Some l" "keep_line [] (vm_removed st h) l"
  moreover obtain extra where "vm_host_lines st hostname h lines = filterHostsLines lines [] (vm_removed st h) @ extra"
    using vm_host_lines_shape by blast
  ultimately show "resolve_line (vm_host_lines st hostname h lines) n = Some l"
    by (simp add: resolve_line_kept)
qed

section \<open>Writing and reading back\<close>

lemma trim_right_char_append_same [simp]: "trim_right_char c (s @ [c]) = trim_right_char c s"
  by (simp add: trim_right_char_def)

lemma trim_right_char_last: "x \<noteq> c \<Longrightarrow> trim_right_char c (s @ [x]) = s @ [x]"
  by (simp add: trim_right_char_def)

lemma join_with_snoc: "xs \<noteq> [] \<Longrightarrow> join_with sep (xs @ [x]) = join_with sep xs @ sep @ x"
  by (induction sep xs rule: join_with.induct) auto

lemma trim_written: "trim_right_char newline (writeHostsLines lines) = trim_right_char newline (join_with [newline] lines)"
  by (simp add: writeHostsLines_def Let_def)

lemma find_read_write:
  assumes "\<And>l. l \<in> set lines \<Longrightarrow> newline \<notin> set l" and "\<not> P []"
  shows "find P (readHostsLines (writeHostsLines lines)) = find P lines"
  using assms
proof (induction lines rule: rev_induct)
  case Nil
  then show ?case by (simp add: readHostsLines_def trim_written) (simp add: trim_right_char_def)
next
  case (snoc x xs)
  show ?case
  proof (cases x rule: rev_cases)
    case Nil
    show ?thesis
    proof (cases "xs = []")
      case True
      with Nil snoc.prems show ?thesis
        by (simp add: readHostsLines_def trim_written) (simp add: trim_right_char_def)
    next
      case False
      then have "readHostsLines (writeHostsLines (xs @ [x])) = readHostsLines (writeHostsLines xs)"
        using Nil by (simp add: readHostsLines_def trim_written join_with_snoc)
      with snoc Nil show ?thesis by (simp add: find_append split: option.splits)
    qed
  next
    case (snoc y c)
    then have c: "c \<noteq> newline" using snoc.prems(1) [of x] by auto
    obtain z where "join_with [newline] (xs @ [x]) = z @ [c]"
      using snoc by (cases "xs = []") (simp_all add: join_with_snoc)
    then have "readHostsLines (writeHostsLines (xs @ [x])) = xs @ [x]"
      using split_on_join [of "xs @ [x]" newline] snoc.prems(1) c
      by (simp add: readHostsLines_def trim_written trim_right_char_last)
    then show ?thesis by simp
  qed
qed

lemma token_no_newline: "hosts_token t \<Longrightarrow> newline \<notin> set t"
  by (auto simp: hosts_token_def list_all_iff)

lemma join_no_newline: "(\<And>n. n \<in> set names \<Longrightarrow> newline \<notin> set n) \<Longrightarrow> newline \<notin> set (join_with '' '' names)"
  by (induction "'' ''" names rule: join_with.induct) auto

definition one_line :: "string \<Rightarrow> bool" where
  "one_line l \<longleftrightarrow> newline \<notin> set l"

lemma one_line_format: "one_line ip \<Longrightarrow> list_all one_line names \<Longrightarrow> one_line (formatHostsEntry ip names)"
  using join_no_newline [of names] by (auto simp: one_line_def formatHostsEntry_def list_all_iff)

lemma one_line_filter: "list_all one_line lines \<Longrightarrow> list_all one_line (filterHostsLines lines ips names)"
  by (auto simp: filterHostsLines_def list_all_iff)

lemma one_line_token: "hosts_token t \<Longrightarrow> one_line t"
  by (simp add: one_line_def token_no_newline)

lemma one_line_read: "list_all one_line (readHostsLines content)"
  by (auto simp: list_all_iff one_line_def readHostsLines_def dest: split_on_no_sep)

lemma one_line_entries: "good_entries es \<Longrightarrow> list_all one_line (map entry_line es)"
  unfolding good_entries_def list_all_iff
  by (auto intro!: one_line_format simp: list_all_iff) (force intro: one_line_token dest: bspec)+

lemma one_line_ccvm:
  "list_all one_line lines \<Longrightarrow> one_line (gets (submap cfg ''ccvm'') ''ip'') \<Longrightarrow> list_all one_line (ccvm_lines cfg lines)"
  by (auto simp: ccvm_lines_def Let_def one_line_filter intro!: one_line_format) (simp_all add: one_line_def)

lemma host_loop_hci:
  "\<not> is_vm_type typ \<Longrightarrow> host_loop typ st hostname hosts lines = fold (hci_host_lines hostname) hosts lines"
  by (induction hosts arbitrary: lines) auto

lemma host_loop_vm:
  "is_vm_type typ \<Longrightarrow> host_loop typ st hostname hosts lines = fold (vm_host_lines st hostname) hosts lines"
  by (induction hosts arbitrary: lines) auto

lemma one_line_hci_fold:
  "list_all one_line lines \<Longrightarrow> (\<And>h. h \<in> set hosts \<Longrightarrow> good_entries (hci_entries hostname h)) \<Longrightarrow>
     list_all one_line (fold (hci_host_lines hostname) hosts lines)"
  by (induction hosts arbitrary: lines)
    (auto simp: hci_host_lines_def one_line_filter one_line_entries split_beta')

lemma resolve_of_line:
  assumes "resolve_line lines n = Some (entry_line e)" and "good_entries es" and "e \<in> set es"
  shows "resolve lines n = Some (fst e)"
proof -
  have "hosts_token (fst e)" "snd e \<noteq> []" "list_all hosts_token (snd e)"
    using assms(2,3) by (auto simp: good_entries_def list_all_iff split_beta)
  then show ?thesis using assms(1) by (simp add: resolve_def hosts_entry_format list_all_iff)
qed

lemma resolve_read_write:
  "list_all one_line lines \<Longrightarrow> resolve (readHostsLines (writeHostsLines lines)) n = resolve lines n"
  by (simp add: resolve_def resolve_line_def find_read_write list_all_iff one_line_def mentions_def)

section \<open>Names after a rebuild\<close>

lemma changeHosts_names:
  assumes "\<not> is_vm_type typ"
    and "\<And>h. h \<in> set (getHosts cfg) \<Longrightarrow> good_entries (hci_entries hostname h)"
    and "sorted_wrt (\<lambda>h h'. \<forall>e \<in> set (hci_entries hostname h).
           keep_line (hci_remove_ips h') (hci_remove_names h') (entry_line e)) (getHosts cfg)"
    and "one_line (gets (submap cfg ''ccvm'') ''ip'')"
    and "host \<in> set (getHosts cfg)" and "(ip, names) \<in> set (hci_entries hostname host)"
    and "n \<in> set names" and "n \<in> set (hci_remove_names host)"
  shows "resolve (readHostsLines (changeHosts typ storageNetwork hostname cfg content)) n = Some ip"
proof -
  let ?start = "ccvm_lines cfg (readHostsLines content)"
  have lines: "list_all one_line (fold (hci_host_lines hostname) (getHosts cfg) ?start)"
    using assms(2,4) by (intro one_line_hci_fold one_line_ccvm one_line_read)
  have "sorted_wrt (hci.compatible hostname) (getHosts cfg)"
    by (rule sorted_wrt_mono_rel [OF _ assms(3)]) (simp add: hci.compatible_def)
  then have "resolve_line (fold (hci_host_lines hostname) (getHosts cfg) ?start) n = Some (entry_line (ip, names))"
    using hci.installs_all [of hostname "getHosts cfg" host "(ip, names)" n ?start] assms(2,5-8) by simp
  then have "resolve (fold (hci_host_lines hostname) (getHosts cfg) ?start) n = Some ip"
    using resolve_of_line [of _ n "(ip, names)", OF _ assms(2) [OF assms(5)] assms(6)] by simp
  then show ?thesis
    using assms(1) lines by (simp add: changeHosts_def Let_def host_loop_hci resolve_read_write)
qed

text \<open>
  The entries that a host gets in the hosts file of a node, and what the loop does away with when it comes
  to a host; hosts that follow one another must leave the entries of the earlier ones alone.
\<close>

definition host_entries :: "string \<Rightarrow> string \<Rightarrow> gomap \<Rightarrow> (string \<times> string list) list" where
  "host_entries typ hostname h = (if is_vm_type typ then vm_entries hostname h else hci_entries hostname h)"

definition spares :: "string \<Rightarrow> string \<Rightarrow> gomap \<Rightarrow> string \<Rightarrow> bool" where
  "spares typ storageNetwork h line \<longleftrightarrow>
     (if is_vm_type typ then keep_line [] (vm_removed storageNetwork h) line
      else keep_line (hci_remove_ips h) (hci_remove_names h) line)"

lemma one_line_vm_fold:
  "list_all one_line lines \<Longrightarrow> (\<And>h. h \<in> set hosts \<Longrightarrow> good_entries (vm_entries hostname h) \<and> gets h ''ablecubePn'' = []) \<Longrightarrow>
     list_all one_line (fold (vm_host_lines st hostname) hosts lines)"
proof (induction hosts arbitrary: lines)
  case (Cons h hosts)
  have h: "good_entries (vm_entries hostname h)" "gets h ''ablecubePn'' = []" using Cons.prems(2) by auto
  have "list_all one_line (map entry_line (vm_entries hostname h))" using h(1) by (rule one_line_entries)
  moreover have "one_line []" by (simp add: one_line_def)
  moreover have "formatHostsEntry [] names = []" for names by (simp add: formatHostsEntry_def)
  ultimately have "list_all one_line (vm_host_lines st hostname h lines)"
    using Cons.prems(1) h(2)
    by (cases "hostname = gets h ''hostname''") (simp_all add: vm_host_lines_def vm_entries_def one_line_filter Let_def)
  then show ?case using Cons.IH Cons.prems(2) by simp
qed simp

lemma changeHosts_own_name:
  assumes "\<And>h. h \<in> set (getHosts cfg) \<Longrightarrow> good_entries (host_entries typ hostname h)"
    and "sorted_wrt (\<lambda>h h'. \<forall>e \<in> set (host_entries typ hostname h). spares typ st h' (entry_line e)) (getHosts cfg)"
    and "one_line (gets (submap cfg ''ccvm'') ''ip'')"
    and "\<And>h. is_vm_type typ \<Longrightarrow> h \<in> set (getHosts cfg) \<Longrightarrow> gets h ''ablecubePn'' = []"
    and "host \<in> set (getHosts cfg)"
  shows "resolve (readHostsLines (changeHosts typ st hostname cfg content)) (gets host ''hostname'') = Some (gets host ''ablecube'')"
proof (cases "is_vm_type typ")
  case False
  define names where "names = (if hostname = gets host ''hostname'' then [''ablecube''] else [])"
  have "(gets host ''ablecube'', gets host ''hostname'' # names) \<in> set (hci_entries hostname host)"
    by (simp add: hci_entries_def names_def Let_def)
  moreover have "gets host ''hostname'' \<in> set (hci_remove_names host)" by (simp add: hci_remove_names_def Let_def)
  ultimately show ?thesis
    using changeHosts_names [OF False, of cfg hostname host "gets host ''ablecube''" "gets host ''hostname'' # names" "gets host ''hostname''" st content]
      assms False by (simp add: host_entries_def spares_def)
next
  case True
  let ?lines = "readHostsLines content"
  define start where "start = ccvm_lines cfg (if length ?lines > 2 then take 2 ?lines else ?lines)"
  have "list_all one_line ?lines" by (rule one_line_read)
  then have "list_all one_line (if length ?lines > 2 then take 2 ?lines else ?lines)" by (auto simp: list_all_iff dest: in_set_takeD)
  then have begins: "list_all one_line start" unfolding start_def using assms(3) by (rule one_line_ccvm)
  have good: "\<And>h. h \<in> set (getHosts cfg) \<Longrightarrow> good_entries (vm_entries hostname h)" using assms(1) True by (simp add: host_entries_def)
  have lines: "list_all one_line (fold (vm_host_lines st hostname) (getHosts cfg) start)"
    using begins good assms(4) [OF True] by (intro one_line_vm_fold) auto
  have "sorted_wrt (vm.compatible hostname st) (getHosts cfg)"
    by (rule sorted_wrt_mono_rel [OF _ assms(2)]) (simp add: vm.compatible_def host_entries_def spares_def True)
  moreover obtain e where e: "vm_entries hostname host = [e]" "fst e = gets host ''ablecube''" "gets host ''hostname'' \<in> set (snd e)"
    by (simp add: vm_entries_def)
  ultimately have "resolve_line (fold (vm_host_lines st hostname) (getHosts cfg) start) (gets host ''hostname'') = Some (entry_line e)"
    using vm.installs_all [of hostname st "getHosts cfg" host e "gets host ''hostname''" start] good [OF assms(5)] assms(5) by (simp add: vm_owned_def)
  then have "resolve (fold (vm_host_lines st hostname) (getHosts cfg) start) (gets host ''hostname'') = Some (gets host ''ablecube'')"
    using resolve_of_line [of _ "gets host ''hostname''" e, OF _ good [OF assms(5)]] e by simp
  then show ?thesis using True lines by (simp add: changeHosts_def Let_def host_loop_vm resolve_read_write start_def [symmetric] del: if_split)
qed

section \<open>Properties\<close>

text \<open>
  After the hosts file has been rebuilt for a hyperconverged cluster, every host's own names
  (the host name, its storage VM, management, private and cluster network names) resolve to the
  addresses \<^verbatim>\<open>cluster.json\<close> gives for that host, whatever the file held before, provided that
  the names and addresses are well formed and no host clashes with an earlier one.
\<close>

theorem changeHosts_resolves:
  assumes "\<not> is_vm_type typ"
    and "\<And>h. h \<in> set (getHosts cfg) \<Longrightarrow> good_entries (hci_entries hostname h)"
    and "sorted_wrt (\<lambda>h h'. \<forall>e \<in> set (hci_entries hostname h).
           keep_line (hci_remove_ips h') (hci_remove_names h') (entry_line e)) (getHosts cfg)"
    and "one_line (gets (submap cfg ''ccvm'') ''ip'')"
    and "host \<in> set (getHosts cfg)" and "(ip, names) \<in> set (hci_entries hostname host)"
    and "n \<in> set names" and "n \<in> set (hci_remove_names host)"
  shows "resolve (readHostsLines (changeHosts typ storageNetwork hostname cfg content)) n = Some ip"
  by (rule changeHosts_names [OF assms])

theorem changeHosts_resolves_witness:
  "resolve (readHostsLines (changeHosts ''ablestack-hci'' ''false'' ''cube1'' (sample_cfg ''ablestack-hci'')
     (''127.0.0.1 localhost'' @ [newline] @ ''9.9.9.9 cube1 old'' @ [newline]))) ''cube1'' = Some ''10.0.0.1''"
proof -
  let ?c = "sample_cfg ''ablestack-hci''"
  have hosts: "getHosts ?c = [sample_host]" by (simp add: sample_cfg_def getHosts_def)
  have es: "hci_entries ''cube1'' sample_host =
      [(''10.0.0.1'', [''cube1'', ''ablecube'']), (''10.0.0.11'', [''scvm1-mngt'', ''scvm-mngt'']),
       (''100.0.0.1'', [''pn-ablecube1'', ''pn-ablecube'']), (''100.0.0.11'', [''scvm1'', ''scvm'']),
       (''100.1.0.11'', [''cn-scvm1'', ''cn-scvm''])]"
    by (simp add: hci_entries_def sample_host_def Let_def)
  have good: "good_entries (hci_entries ''cube1'' sample_host)"
    unfolding es by code_simp
  have "\<not> is_vm_type ''ablestack-hci''" by code_simp
  moreover have "one_line (gets (submap ?c ''ccvm'') ''ip'')" by (simp add: sample_cfg_def one_line_def)
  moreover have "''cube1'' \<in> set (hci_remove_names sample_host)" by (simp add: hci_remove_names_def sample_host_def Let_def)
  ultimately show ?thesis
    using changeHosts_resolves [of "''ablestack-hci''" ?c "''cube1''" sample_host "''10.0.0.1''" "[''cube1'', ''ablecube'']" "''cube1''"]
      good by (simp add: hosts es)
qed

text \<open>
  Removing entries drops exactly the lines whose address or one of whose names is listed;
  comments, blank lines, single fields and the order of the rest are kept, and a second removal
  with the same lists changes nothing.
\<close>

theorem filterHostsLines_exact:
  "filterHostsLines lines ips names = filter (keep_line ips names) lines
   \<and> (hosts_entry line = None \<longrightarrow> keep_line ips names line)
   \<and> filterHostsLines (filterHostsLines lines ips names) ips names = filterHostsLines lines ips names"
proof -
  have "keep_line [] [] l" for l by (auto simp: keep_line_def list_ex_iff split: option.splits)
  then have "filterHostsLines lines ips names = filter (keep_line ips names) lines" for lines
    by (auto simp: filterHostsLines_def)
  moreover have "hosts_entry line = None \<longrightarrow> keep_line ips names line" by (simp add: keep_line_def)
  ultimately show ?thesis by simp
qed

theorem filterHostsLines_exact_witness:
  "filterHostsLines [''# cube1'', ''10.0.0.1 cube1'', ''10.0.0.2 cube2''] [''10.0.0.1''] [] = [''# cube1'', ''10.0.0.2 cube2'']
   \<and> hosts_entry ''# cube1'' = None \<and> keep_line [''10.0.0.1''] [] ''# cube1''"
proof -
  have "filter (keep_line [''10.0.0.1''] []) [''# cube1'', ''10.0.0.1 cube1'', ''10.0.0.2 cube2''] = [''# cube1'', ''10.0.0.2 cube2'']"
    by code_simp
  moreover have "hosts_entry ''# cube1'' = None" by code_simp
  ultimately show ?thesis
    using filterHostsLines_exact [of "[''# cube1'', ''10.0.0.1 cube1'', ''10.0.0.2 cube2'']" "[''10.0.0.1'']" "[]" "''# cube1''"]
    by simp
qed

end
