(* ===== verification/Cluster_Apply.thy ===== *)
theory Cluster_Apply
  imports Hosts_File
begin

text \<open>
  The actions of \<^verbatim>\<open>internal/service/clusterconfig/cluster_config.go\<close>: argument parsing, insert,
  remove, reset, check and the fan-out actions, over a state that holds \<^verbatim>\<open>cluster.json\<close>,
  \<^verbatim>\<open>/etc/hosts\<close>, the other files the service appends to and the commands it runs. Remote nodes,
  command output and operating system error texts are parameters. A document that is the JSON
  literal \<^verbatim>\<open>null\<close> is not modelled.
\<close>

section \<open>State\<close>

text \<open>The file \<^verbatim>\<open>cluster.json\<close>: absent, not decodable, only white space, or the decoded document.\<close>

datatype doc_state = NoDoc | BadDoc | BlankDoc | Doc gomap

text \<open>
  What becomes of one call of \<^verbatim>\<open>os.WriteFile\<close>, which truncates the file and then writes to it: the
  text arrives, the file cannot be opened and stays as it is, only the first bytes of the text
  arrive, or all of it arrives and the error is reported on closing. The last three are errors.
\<close>

datatype write_fate = Written | Refused | Cut nat | Unconfirmed

text \<open>
  The fates of the writes to come are part of the state, for the document and for the hosts file;
  a write for which the list has no entry succeeds.
\<close>

record world =
  w_doc :: doc_state
  w_doc_writes :: "write_fate list"
  w_hosts :: "string option"
  w_hosts_writes :: "write_fate list"
  w_fstab :: "string option"
  w_sysctl :: "string option"
  w_etc_writable :: bool
  w_hugepages :: bool
  w_log :: "string list list"

abbreviation w_doc_writable :: "world \<Rightarrow> bool" where
  "w_doc_writable w \<equiv> w_doc_writes w = []"

abbreviation w_hosts_writable :: "world \<Rightarrow> bool" where
  "w_hosts_writable w \<equiv> w_hosts_writes w = []"

record env =
  e_hostname :: string
  e_ovs_active :: bool
  e_nwfilters :: string
  e_lsmod :: string
  e_hosts_err :: string
  e_doc_err :: string

record Result =
  Code :: int
  Val :: string

text \<open>A JSON text: empty, only white space, not decodable, or the value it decodes to.\<close>

datatype json_text = JEmpty | JBlank | JInvalid | JDoc goval

record Args =
  aAction :: string
  aHostType :: string
  aType :: string
  aCCVMMngtIP :: string
  aMngtNicCIDR :: string
  aMngtNicGW :: string
  aMngtNicDNS :: string
  aPCSClusterList :: "string list"
  aJSONString :: json_text
  aCopyOption :: string
  aExcludeHostname :: string
  aRemoveHostname :: string
  aExternalTimeserver :: string
  aStorageNetwork :: string
  aInternalToken :: string
  aVerbose :: nat
  aHuman :: bool

definition resultOK :: "string \<Rightarrow> Result" where
  "resultOK message = \<lparr>Code = 200, Val = message\<rparr>"

definition resultError :: "string \<Rightarrow> Result" where
  "resultError message = \<lparr>Code = 500, Val = message\<rparr>"

definition run_cmd :: "string list \<Rightarrow> world \<Rightarrow> world" where
  "run_cmd cmd w = w\<lparr>w_log := w_log w @ [cmd]\<rparr>"

section \<open>Command line\<close>

datatype 'a parsed = Parsed 'a | ParseError string | ShowVersion

definition isFlag :: "string \<Rightarrow> bool" where
  "isFlag token = has_prefix token ''-''"

definition isVerboseBundle :: "string \<Rightarrow> bool" where
  "isVerboseBundle token \<longleftrightarrow>
     has_prefix token ''-'' \<and> length token \<ge> 3 \<and> list_all (\<lambda>r. r = CHR ''v'') (drop 1 token)"

definition countVerbose :: "string \<Rightarrow> nat" where
  "countVerbose token = length (filter (\<lambda>r. r = CHR ''v'') token)"

text \<open>
  \<^verbatim>\<open>requireValue\<close> and \<^verbatim>\<open>consumeValues\<close> on the rest of the argument vector: the value and what
  follows it.
\<close>

definition requireValue :: "string \<Rightarrow> string list \<Rightarrow> (string \<times> string list) outcome" where
  "requireValue flag rest =
     (case rest of [] \<Rightarrow> failing (''missing value for '' @ flag) | v # rest' \<Rightarrow> okay (v, rest'))"

definition consumeValues :: "string \<Rightarrow> string list \<Rightarrow> (string list \<times> string list) outcome" where
  "consumeValues flag rest =
     (let vals = takeWhile (\<lambda>t. \<not> isFlag t) rest
      in if vals = [] then failing (''missing values for '' @ flag)
         else okay (vals, dropWhile (\<lambda>t. \<not> isFlag t) rest))"

text \<open>The field a flag with one value sets.\<close>

definition value_flag :: "(string \<Rightarrow> json_text) \<Rightarrow> string \<Rightarrow> (string \<Rightarrow> Args \<Rightarrow> Args) option" where
  "value_flag read_json token =
     (if token \<in> {''-t'', ''--type''} then Some (\<lambda>v a. a\<lparr>aType := v\<rparr>)
      else if token \<in> {''-cmi'', ''--ccvm-mngt-ip''} then Some (\<lambda>v a. a\<lparr>aCCVMMngtIP := v\<rparr>)
      else if token \<in> {''-mnc'', ''--mngt-nic-cidr''} then Some (\<lambda>v a. a\<lparr>aMngtNicCIDR := v\<rparr>)
      else if token \<in> {''-mng'', ''--mngt-nic-gw''} then Some (\<lambda>v a. a\<lparr>aMngtNicGW := v\<rparr>)
      else if token \<in> {''-mnd'', ''--mngt-nic-dns''} then Some (\<lambda>v a. a\<lparr>aMngtNicDNS := v\<rparr>)
      else if token \<in> {''-js'', ''--json-string''} then Some (\<lambda>v a. a\<lparr>aJSONString := read_json v\<rparr>)
      else if token \<in> {''-co'', ''--copy-option''} then Some (\<lambda>v a. a\<lparr>aCopyOption := v\<rparr>)
      else if token \<in> {''-eh'', ''--exclude-hostname''} then Some (\<lambda>v a. a\<lparr>aExcludeHostname := v\<rparr>)
      else if token \<in> {''-rh'', ''--remove-hostname''} then Some (\<lambda>v a. a\<lparr>aRemoveHostname := v\<rparr>)
      else if token \<in> {''-ets'', ''--extenal-timeserver'', ''--external-timeserver''}
        then Some (\<lambda>v a. a\<lparr>aExternalTimeserver := v\<rparr>)
      else if token \<in> {''-is'', ''--storage-network'', ''--iscsi-storage''}
        then Some (\<lambda>v a. a\<lparr>aStorageNetwork := v\<rparr>)
      else None)"

lemma length_consumed [termination_simp]:
  "consumeValues flag rest = Inr (vals, rest') \<Longrightarrow> length rest' < Suc (length rest)"
  using length_dropWhile_le [of "\<lambda>t. \<not> isFlag t" rest] by (auto simp: consumeValues_def Let_def split: if_splits)

lemma length_required [termination_simp]:
  "requireValue flag rest = Inr (v, rest') \<Longrightarrow> length rest' < Suc (length rest)"
  by (auto simp: requireValue_def split: list.splits)

fun parse_flags :: "(string \<Rightarrow> json_text) \<Rightarrow> Args \<Rightarrow> string list \<Rightarrow> Args parsed" where
  "parse_flags read_json args [] = Parsed args"
| "parse_flags read_json args (token # rest) =
     (case value_flag read_json token of
        Some set_field \<Rightarrow>
          (case requireValue token rest of
             Inl err \<Rightarrow> ParseError err
           | Inr (v, rest') \<Rightarrow> parse_flags read_json (set_field v args) rest')
      | None \<Rightarrow>
          if token \<in> {''-pcl'', ''--pcs-cluster-list''} then
            (case consumeValues token rest of
               Inl err \<Rightarrow> ParseError err
             | Inr (vals, rest') \<Rightarrow>
                 parse_flags read_json (args\<lparr>aPCSClusterList := aPCSClusterList args @ vals\<rparr>) rest')
          else if token \<in> {''-H'', ''--Human''} then parse_flags read_json (args\<lparr>aHuman := True\<rparr>) rest
          else if token \<in> {''-V'', ''--Version''} then ShowVersion
          else if token \<in> {''-v'', ''--verbose''} then parse_flags read_json (args\<lparr>aVerbose := aVerbose args + 1\<rparr>) rest
          else if isVerboseBundle token
            then parse_flags read_json (args\<lparr>aVerbose := aVerbose args + countVerbose token\<rparr>) rest
          else ParseError (''unknown flag: '' @ token))"

definition empty_args :: "string \<Rightarrow> Args" where
  "empty_args action =
     \<lparr>aAction = action, aHostType = [], aType = [], aCCVMMngtIP = [], aMngtNicCIDR = [], aMngtNicGW = [],
      aMngtNicDNS = [], aPCSClusterList = [], aJSONString = JEmpty, aCopyOption = [], aExcludeHostname = [],
      aRemoveHostname = [], aExternalTimeserver = [], aStorageNetwork = [], aInternalToken = [],
      aVerbose = 0, aHuman = False\<rparr>"

definition parseArgs :: "(string \<Rightarrow> json_text) \<Rightarrow> string list \<Rightarrow> Args parsed" where
  "parseArgs read_json argv =
     (case argv of
        prog # action # rest \<Rightarrow> parse_flags read_json ((empty_args action)\<lparr>aCopyOption := ''hostOnly''\<rparr>) rest
      | _ \<Rightarrow> ParseError ''action is required'')"

section \<open>Documents and host parameters\<close>

definition loadClusterJSON :: "world \<Rightarrow> (gomap \<times> gomap) option" where
  "loadClusterJSON w =
     (case w_doc w of
        Doc root \<Rightarrow> (let (cfg, root') = ensureMap root ''clusterConfig'' in Some (root', cfg))
      | _ \<Rightarrow> None)"

text \<open>
  Writing the document: on the right the state after a write without an error, on the left the
  state an error leaves. Nothing of a JSON text before its end decodes, and the empty file counts
  as blank.
\<close>

definition write_doc :: "gomap \<Rightarrow> world \<Rightarrow> world + world" where
  "write_doc doc w =
     (case w_doc_writes w of
        [] \<Rightarrow> Inr (w\<lparr>w_doc := Doc doc\<rparr>)
      | fate # fates \<Rightarrow>
          (let w' = w\<lparr>w_doc_writes := fates\<rparr>
           in case fate of
                Written \<Rightarrow> Inr (w'\<lparr>w_doc := Doc doc\<rparr>)
              | Refused \<Rightarrow> Inl w'
              | Cut n \<Rightarrow> Inl (w'\<lparr>w_doc := (if n = 0 then BlankDoc else BadDoc)\<rparr>)
              | Unconfirmed \<Rightarrow> Inl (w'\<lparr>w_doc := Doc doc\<rparr>)))"

definition saveClusterJSON :: "gomap \<Rightarrow> world \<Rightarrow> world + world" where
  "saveClusterJSON root w = write_doc (stored root) w"

definition host_param :: "gomap \<Rightarrow> ClusterHost" where
  "host_param item =
     \<lparr>Index = gets item ''index'', Hostname = gets item ''hostname'', Ablecube = gets item ''ablecube'',
      ScvmMngt = gets item ''scvmMngt'', AblecubePn = gets item ''ablecubePn'', Scvm = gets item ''scvm'',
      ScvmCn = gets item ''scvmCn''\<rparr>"

text \<open>Decoding into \<^verbatim>\<open>[]map[string]any\<close>: null is the nil slice, a null element the nil map.\<close>

definition item_map :: "goval \<Rightarrow> gomap option" where
  "item_map v = (case v of VMap m \<Rightarrow> Some m | VNil \<Rightarrow> Some fmempty | _ \<Rightarrow> None)"

definition parseHostParams :: "json_text \<Rightarrow> ClusterHost list option" where
  "parseHostParams text =
     (case text of
        JEmpty \<Rightarrow> Some []
      | JBlank \<Rightarrow> Some []
      | JInvalid \<Rightarrow> None
      | JDoc VNil \<Rightarrow> Some []
      | JDoc (VArr items) \<Rightarrow>
          if list_all (\<lambda>v. item_map v \<noteq> None) items
          then Some (map host_param (List.map_filter item_map items)) else None
      | JDoc _ \<Rightarrow> None)"

definition renumberHostIndexes :: "gomap list \<Rightarrow> gomap list" where
  "renumberHostIndexes hosts = map (\<lambda>(i, host). puts ''index'' (show_nat (i + 1)) host) (enumerate 0 hosts)"

definition updatePCSCluster :: "string list \<Rightarrow> gomap \<Rightarrow> gomap" where
  "updatePCSCluster pcsList cfg =
     (if pcsList = [] then cfg else edit_map ''pcsCluster'' (\<lambda>pcs. writePCSClusterValues pcs pcsList) cfg)"

definition removed_values :: "gomap \<Rightarrow> string list" where
  "removed_values host =
     filter (\<lambda>v. v \<noteq> [])
       (map (\<lambda>key. to_lower (trim_space (gets host key)))
         [''hostname'', ''ablecube'', ''ablecubePn'', ''scvmMngt'', ''scvm'', ''scvmCn''])"

definition filterRemovedPCSClusterValues :: "string list \<Rightarrow> gomap \<Rightarrow> string list" where
  "filterRemovedPCSClusterValues vals host =
     filter (\<lambda>v. to_lower (trim_space v) \<notin> set (removed_values host)) vals"

definition minPCSClusterHostsForType :: "string \<Rightarrow> nat" where
  "minPCSClusterHostsForType clusterType =
     (if equal_fold (trim_space clusterType) ''ablestack-standalone'' then 0
      else if isHCIClusterType clusterType then 3 else 1)"

definition validatePCSClusterInput :: "Args \<Rightarrow> unit outcome" where
  "validatePCSClusterInput args =
     ValidatePCSClusterList (aPCSClusterList args) (minPCSClusterHostsForType (aType args))"

definition put_unless_empty :: "string \<Rightarrow> string \<Rightarrow> gomap \<Rightarrow> gomap" where
  "put_unless_empty key s m = (if s = [] then m else puts key s m)"

definition updateMngtNic :: "Args \<Rightarrow> gomap \<Rightarrow> gomap" where
  "updateMngtNic args cfg =
     edit_map ''ccvm'' (\<lambda>ccvm. fmdrop ''dns'' (fmdrop ''gw'' (fmdrop ''cidr'' ccvm)))
       (edit_map ''mngtNic''
         (\<lambda>nic. put_unless_empty ''dns'' (aMngtNicDNS args)
           (put_unless_empty ''gw'' (aMngtNicGW args) (put_unless_empty ''cidr'' (aMngtNicCIDR args) nic))) cfg)"

section \<open>The system files\<close>

definition append_etc :: "string option \<Rightarrow> bool \<Rightarrow> string \<Rightarrow> string option" where
  "append_etc file writable content =
     (case file of Some old \<Rightarrow> Some (if writable then old @ content else old) | None \<Rightarrow> None)"

definition hugepage_entry :: string where
  "hugepage_entry = newline # ''hugetlbfs /hugepages hugetlbfs defaults 0 0'' @ [newline]"

definition ensureHugePageFS :: "world \<Rightarrow> world" where
  "ensureHugePageFS w =
     (let w1 = w\<lparr>w_hugepages := True\<rparr>;
          w2 = (case w_fstab w1 of
                  None \<Rightarrow> w1
                | Some fstab \<Rightarrow>
                    if contains_str fstab '' /hugepages '' then w1
                    else w1\<lparr>w_fstab := append_etc (Some fstab) (w_etc_writable w1) hugepage_entry\<rparr>)
      in run_cmd [''mount'', ''-a''] w2)"

definition bridge_settings :: "string list" where
  "bridge_settings =
     [''net.bridge.bridge-nf-call-arptables'', ''net.bridge.bridge-nf-call-iptables'',
      ''net.bridge.bridge-nf-call-ip6tables'']"

definition applyNetworkFilter :: "env \<Rightarrow> world \<Rightarrow> world" where
  "applyNetworkFilter e w =
     (if e_ovs_active e then w
      else
        (let w1 = (if contains_str (e_nwfilters e) ''allow-all'' then w
                   else run_cmd [''virsh'', ''nwfilter-define'', ''--file'', ''/usr/local/sbin/nwfilter-allow-all.xml''] w);
             w2 = (if contains_str (e_lsmod e) ''br_netfilter'' then w1 else run_cmd [''modprobe'', ''br_netfilter''] w1);
             existing = (case w_sysctl w2 of Some s \<Rightarrow> s | None \<Rightarrow> []);
             additions = filter (\<lambda>key. \<not> contains_str existing key) bridge_settings;
             w3 = (if additions = [] then w2
                   else w2\<lparr>w_sysctl := append_etc (w_sysctl w2) (w_etc_writable w2)
                          (concat (map (\<lambda>key. newline # key @ ''=1'') additions))\<rparr>)
         in run_cmd [''sysctl'', ''-p''] w3))"

section \<open>Applying the hosts file\<close>

definition write_hosts :: "string \<Rightarrow> world \<Rightarrow> world + world" where
  "write_hosts text w =
     (case w_hosts_writes w of
        [] \<Rightarrow> Inr (w\<lparr>w_hosts := Some text\<rparr>)
      | fate # fates \<Rightarrow>
          (let w' = w\<lparr>w_hosts_writes := fates\<rparr>
           in case fate of
                Written \<Rightarrow> Inr (w'\<lparr>w_hosts := Some text\<rparr>)
              | Refused \<Rightarrow> Inl w'
              | Cut n \<Rightarrow> Inl (w'\<lparr>w_hosts := Some (take n text)\<rparr>)
              | Unconfirmed \<Rightarrow> Inl (w'\<lparr>w_hosts := Some text\<rparr>)))"

definition changeHosts_io :: "env \<Rightarrow> Args \<Rightarrow> gomap \<Rightarrow> world \<Rightarrow> Result \<times> world" where
  "changeHosts_io e args cfg w =
     (case w_hosts w of
        None \<Rightarrow> (resultError (e_hosts_err e), w)
      | Some content \<Rightarrow>
          (case write_hosts (changeHosts (aType args) (aStorageNetwork args) (e_hostname e) cfg content) w of
             Inr w' \<Rightarrow> (resultOK ''hosts file config success.'', w')
           | Inl w' \<Rightarrow> (resultError (e_hosts_err e), w')))"

definition applyHosts :: "env \<Rightarrow> string \<Rightarrow> Args \<Rightarrow> gomap \<Rightarrow> world \<Rightarrow> Result \<times> world" where
  "applyHosts e action args cfg w =
     (if action = ''hostOnly'' then changeHosts_io e args cfg w else (resultError ''invalid hosts action'', w))"

definition runHostAction :: "env \<Rightarrow> Args \<Rightarrow> string \<Rightarrow> world \<Rightarrow> Result \<times> world" where
  "runHostAction e args action w =
     (case loadClusterJSON w of
        None \<Rightarrow> (resultError ''cluster.json read error'', w)
      | Some (root, cfg) \<Rightarrow> applyHosts e action args cfg w)"

fun retry_hosts :: "nat \<Rightarrow> env \<Rightarrow> Args \<Rightarrow> string \<Rightarrow> world \<Rightarrow> Result \<times> world" where
  "retry_hosts 0 e args copyOption w = runHostAction e args copyOption w"
| "retry_hosts (Suc n) e args copyOption w =
     (let (result, w') = runHostAction e args copyOption w
      in if Code result = 200 then (result, w') else retry_hosts n e args copyOption w')"

definition retryHostsApply :: "env \<Rightarrow> Args \<Rightarrow> string \<Rightarrow> world \<Rightarrow> Result \<times> world" where
  "retryHostsApply e args copyOption w = retry_hosts 2 e args copyOption w"

definition updateHosts_io :: "string list \<Rightarrow> string list \<Rightarrow> world \<Rightarrow> world + world" where
  "updateHosts_io removeIPs removeNames w =
     (case w_hosts w of
        None \<Rightarrow> Inl w
      | Some content \<Rightarrow> write_hosts (updateHostsFile removeIPs removeNames [] content) w)"

section \<open>Insert\<close>

definition vm_fields :: "string \<Rightarrow> ClusterHost \<Rightarrow> gomap \<Rightarrow> gomap" where
  "vm_fields storageNetwork param host =
     (let base = puts ''ablecube'' (Ablecube param) (puts ''hostname'' (Hostname param) (puts ''index'' (Index param) host))
      in if storageNetwork \<noteq> [] \<and> equal_fold storageNetwork ''true''
         then puts ''ablecubePn'' (AblecubePn param) base else base)"

definition hci_fields :: "ClusterHost \<Rightarrow> gomap \<Rightarrow> gomap" where
  "hci_fields param host =
     puts ''scvmCn'' (ScvmCn param) (puts ''scvm'' (Scvm param) (puts ''ablecubePn'' (AblecubePn param)
       (puts ''scvmMngt'' (ScvmMngt param) (puts ''ablecube'' (Ablecube param)
         (puts ''hostname'' (Hostname param) (puts ''index'' (Index param) host))))))"

text \<open>
  One round of the loop over the parameters: the first host with the parameter's name is
  overwritten; if there is none, a new host is appended where \<open>append_new\<close> allows it.
\<close>

fun upsert_host :: "(ClusterHost \<Rightarrow> gomap \<Rightarrow> gomap) \<Rightarrow> bool \<Rightarrow> ClusterHost \<Rightarrow> gomap list \<Rightarrow> gomap list" where
  "upsert_host set_fields append_new param [] = (if append_new then [set_fields param fmempty] else [])"
| "upsert_host set_fields append_new param (host # hosts) =
     (if gets host ''hostname'' = Hostname param then set_fields param host # hosts
      else host # upsert_host set_fields append_new param hosts)"

definition insert_hosts :: "Args \<Rightarrow> ClusterHost list \<Rightarrow> gomap list \<Rightarrow> gomap list" where
  "insert_hosts args params hosts =
     (if is_vm_type (aType args)
      then fold (upsert_host (vm_fields (aStorageNetwork args)) (aStorageNetwork args \<noteq> [])) params hosts
      else fold (upsert_host hci_fields True) params hosts)"

definition insert_scalars :: "Args \<Rightarrow> gomap \<Rightarrow> gomap" where
  "insert_scalars args cfg =
     (let c1 = put_unless_empty ''type'' (aType args) cfg;
          c2 = (if equal_fold (aHostType args) ''add'' then puts ''hostType'' ''add'' c1
                else if trim_space (aHostType args) \<noteq> [] then puts ''hostType'' ''new'' c1 else c1);
          c3 = (if aCCVMMngtIP args = [] then c2 else edit_map ''ccvm'' (puts ''ip'' (aCCVMMngtIP args)) c2);
          c4 = put_unless_empty ''external_timeserver'' (aExternalTimeserver args) c3
      in updateMngtNic args (updatePCSCluster (aPCSClusterList args) c4))"

definition insert_cfg :: "Args \<Rightarrow> gomap \<Rightarrow> gomap outcome" where
  "insert_cfg args cfg =
     (let c1 = insert_scalars args cfg;
          with_hosts = (if aJSONString args = JEmpty then okay c1
            else (case parseHostParams (aJSONString args) of
                    None \<Rightarrow> failing ''invalid json string''
                  | Some params \<Rightarrow> okay (setHosts (insert_hosts args params (getHosts c1)) c1)))
      in case with_hosts of
           Inl err \<Rightarrow> failing err
         | Inr c2 \<Rightarrow> okay (if is_vm_type (aType args) then put_unless_empty ''storage_network'' (aStorageNetwork args) c2
                          else c2))"

definition enable_timer :: "string \<Rightarrow> world \<Rightarrow> world" where
  "enable_timer typ w =
     (if equal_fold typ ''ablestack-vm'' then run_cmd [''systemctl'', ''enable'', ''--now'', ''auto-umount.timer''] w
      else if equal_fold typ ''ablestack-hci'' then run_cmd [''systemctl'', ''enable'', ''--now'', ''cleanup-rbd.timer''] w
      else w)"

definition put_token :: "string \<Rightarrow> gomap \<Rightarrow> gomap" where
  "put_token token root =
     (if trim_space token = [] then root else edit_map ''security'' (puts ''internal_token'' (trim_space token)) root)"

definition insert_config :: "env \<Rightarrow> Args \<Rightarrow> world \<Rightarrow> Result \<times> world" where
  "insert_config e args w0 =
     (let w = applyNetworkFilter e w0
      in case (if aPCSClusterList args = [] then okay () else validatePCSClusterInput args) of
           Inl err \<Rightarrow> (resultError err, w)
         | Inr _ \<Rightarrow>
             (case loadClusterJSON w of
                None \<Rightarrow> (resultError ''cluster.json read error'', w)
              | Some (root, cfg) \<Rightarrow>
                  (case insert_cfg args cfg of
                     Inl err \<Rightarrow> (resultError err, w)
                   | Inr cfg' \<Rightarrow>
                       (case saveClusterJSON (fmupd ''clusterConfig'' (VMap cfg') (put_token (aInternalToken args) root)) w of
                          Inl w' \<Rightarrow> (resultError (e_doc_err e), w')
                        | Inr w' \<Rightarrow>
                            (let (result, w'') = retryHostsApply e args (aCopyOption args) (enable_timer (aType args) w')
                             in if Code result \<noteq> 200 then (result, w'')
                                else (resultOK ''Cluster Config insert Success'', w''))))))"

section \<open>Remove\<close>

fun find_host :: "string \<Rightarrow> nat \<Rightarrow> gomap list \<Rightarrow> (nat \<times> gomap) option" where
  "find_host name i [] = None"
| "find_host name i (host # hosts) =
     (if gets host ''hostname'' = name then Some (i, host) else find_host name (Suc i) hosts)"

definition remove_names_hci :: "nat \<Rightarrow> gomap \<Rightarrow> string list" where
  "remove_names_hci found target =
     (let targetIndex = (if gets target ''index'' = [] then show_nat (found + 1) else gets target ''index'')
      in [gets target ''hostname'', ''scvm'' @ targetIndex @ ''-mngt'', ''pn-ablecube'' @ targetIndex,
          ''ablecube'' @ targetIndex @ ''-pn'', ''scvm'' @ targetIndex, ''cn-scvm'' @ targetIndex,
          ''scvm'' @ targetIndex @ ''-cn''])"

definition drop_pcs_host :: "gomap \<Rightarrow> gomap \<Rightarrow> gomap" where
  "drop_pcs_host target cfg =
     edit_map ''pcsCluster''
       (\<lambda>pcs. writePCSClusterValues pcs (filterRemovedPCSClusterValues (collectPCSClusterValues pcs) target)) cfg"

definition remove_done :: Result where
  "remove_done = resultOK ''Cluster Config remove Success''"

definition remove_found_hci :: "env \<Rightarrow> Args \<Rightarrow> gomap \<Rightarrow> gomap \<Rightarrow> nat \<Rightarrow> gomap \<Rightarrow> world \<Rightarrow> Result \<times> world" where
  "remove_found_hci e args root cfg found target w =
     (case updateHosts_io (hci_remove_ips target) (remove_names_hci found target) w of
        Inl w1 \<Rightarrow> (resultError (e_hosts_err e), w1)
      | Inr w1 \<Rightarrow>
          (let hosts = getHosts cfg;
               hosts' = renumberHostIndexes (take found hosts @ drop (found + 1) hosts)
           in case saveClusterJSON (fmupd ''clusterConfig'' (VMap (setHosts hosts' cfg)) root) w1 of
                Inl w2 \<Rightarrow> (resultError (e_doc_err e), w2)
              | Inr w2 \<Rightarrow>
                  (let (result, w3) = retryHostsApply e args (aCopyOption args) w2
                   in if Code result \<noteq> 200 then (result, w3) else (remove_done, w3))))"

definition remove_found_vm :: "env \<Rightarrow> Args \<Rightarrow> gomap \<Rightarrow> gomap \<Rightarrow> gomap \<Rightarrow> world \<Rightarrow> Result \<times> world" where
  "remove_found_vm e args root cfg target w =
     (let filtered = filter (\<lambda>host. gets host ''hostname'' \<noteq> aRemoveHostname args) (getHosts cfg);
          hosts' = renumberHostIndexes filtered; targetIP = gets target ''ablecube''
      in case saveClusterJSON (fmupd ''clusterConfig'' (VMap (setHosts hosts' cfg)) root) w of
           Inl w1 \<Rightarrow> (resultError (e_doc_err e), w1)
         | Inr w1 \<Rightarrow>
             if targetIP = [] then (remove_done, w1)
             else (case updateHosts_io [targetIP] [] w1 of
                     Inl w2 \<Rightarrow> (resultError (e_hosts_err e), w2)
                   | Inr w2 \<Rightarrow> (remove_done, w2)))"

definition removeHost :: "env \<Rightarrow> Args \<Rightarrow> world \<Rightarrow> Result \<times> world" where
  "removeHost e args w =
     (if aRemoveHostname args = [] then (resultError ''target hostname required'', w)
      else (case loadClusterJSON w of
         None \<Rightarrow> (resultError ''cluster.json read error'', w)
       | Some (root, cfg) \<Rightarrow>
           (case find_host (aRemoveHostname args) 0 (getHosts cfg) of
              Some (found, target) \<Rightarrow>
                (let cfg' = drop_pcs_host target cfg
                 in if isHCIClusterType (aType args) then remove_found_hci e args root cfg' found target w
                    else remove_found_vm e args root cfg' target w)
            | None \<Rightarrow>
                (case saveClusterJSON root w of
                   Inl w1 \<Rightarrow> (resultError (e_doc_err e), w1)
                 | Inr w1 \<Rightarrow>
                     if isHCIClusterType (aType args)
                     then (let (result, w2) = retryHostsApply e args (aCopyOption args) w1
                           in if Code result \<noteq> 200 then (result, w2) else (remove_done, w2))
                     else (remove_done, w1)))))"

section \<open>Reset, check and the fan-out actions\<close>

definition reset_cfg :: "gomap \<Rightarrow> gomap" where
  "reset_cfg cfg =
     (let c1 = puts ''backup_path'' [] (puts ''type'' [] cfg);
          c2 = edit_map ''ccvm'' (\<lambda>ccvm. fmdrop ''dns'' (fmdrop ''gw'' (fmdrop ''cidr'' (puts ''ip'' [] ccvm)))) c1;
          c3 = edit_map ''mngtNic'' (\<lambda>nic. puts ''dns'' [] (puts ''gw'' [] (puts ''cidr'' [] nic))) c2;
          c4 = fmdrop ''extenal_timeserver'' (puts ''external_timeserver'' [] c3);
          c5 = edit_map ''pcsCluster'' (\<lambda>pcs. writePCSClusterValues pcs []) c4
      in puts ''storage_network'' ''false'' (fmupd ''hosts'' (VArr []) c5))"

definition resetClusterConfig :: "env \<Rightarrow> world \<Rightarrow> Result \<times> world" where
  "resetClusterConfig e w =
     (case loadClusterJSON w of
        None \<Rightarrow> (resultError ''cluster.json read error'', w)
      | Some (root, cfg) \<Rightarrow>
          (case saveClusterJSON (fmupd ''clusterConfig'' (VMap (reset_cfg cfg)) root) w of
             Inl w' \<Rightarrow> (resultError (e_doc_err e), w')
           | Inr w' \<Rightarrow> (resultOK ''Cluster Config reset Success'', w')))"

text \<open>\<open>reachable\<close> answers whether the health request to a node succeeds.\<close>

definition checkAPITarget :: "(string \<Rightarrow> bool) \<Rightarrow> string \<Rightarrow> bool" where
  "checkAPITarget reachable host \<longleftrightarrow> host \<noteq> [] \<and> reachable host"

definition pingCheck :: "(string \<Rightarrow> bool) \<Rightarrow> Args \<Rightarrow> Result" where
  "pingCheck reachable args =
     (if aJSONString args = JEmpty then resultError ''json string required''
      else (case parseHostParams (aJSONString args) of
              None \<Rightarrow> resultError ''invalid json string''
            | Some params \<Rightarrow>
                (case find (\<lambda>param. \<not> checkAPITarget reachable (Ablecube param)) params of
                   Some param \<Rightarrow> resultError (''The ping test failed. Check ablecube hosts network IPs. : '' @ Ablecube param)
                 | None \<Rightarrow> resultOK ''Cluster Config PingCheck Success'')))"

text \<open>
  \<open>order\<close> is the order in which Go iterates over the target set, \<open>call\<close> the outcome of the
  apply request to a node: \<open>None\<close> if the request itself failed.
\<close>

definition scvm_targets :: "ClusterHost list \<Rightarrow> string list" where
  "scvm_targets params =
     first_occ (filter (\<lambda>t. t \<noteq> []) (concat (map (\<lambda>param. [Ablecube param, ScvmMngt param]) params)))"

definition all_targets :: "Args \<Rightarrow> ClusterHost list \<Rightarrow> string list" where
  "all_targets args params =
     first_occ (filter (\<lambda>t. t \<noteq> [])
       (concat (map (\<lambda>param. Ablecube param #
            (if equal_fold (aType args) ''ablestack-hci'' \<and> aExcludeHostname args \<noteq> Hostname param
             then [ScvmMngt param] else [])) params) @ [aCCVMMngtIP args]))"

fun fan_out :: "(string \<Rightarrow> Args \<Rightarrow> Result option) \<Rightarrow> Args \<Rightarrow> string list \<Rightarrow> string option" where
  "fan_out call args [] = None"
| "fan_out call args (target # targets) =
     (case call target args of
        Some ret \<Rightarrow> if Code ret = 200 then fan_out call args targets else Some target
      | None \<Rightarrow> Some target)"

definition insertScvmHost ::
  "(string list \<Rightarrow> string list) \<Rightarrow> (string \<Rightarrow> Args \<Rightarrow> Result option) \<Rightarrow> Args \<Rightarrow> Result" where
  "insertScvmHost order call args =
     (if aJSONString args = JEmpty then resultError ''json string required''
      else if aCCVMMngtIP args = [] then resultError ''ccvm mngt ip required''
      else (case validatePCSClusterInput args of
              Inl err \<Rightarrow> resultError err
            | Inr _ \<Rightarrow>
                (case parseHostParams (aJSONString args) of
                   None \<Rightarrow> resultError ''invalid json string''
                 | Some params \<Rightarrow>
                     (case fan_out call args (order (scvm_targets params)) of
                        Some target \<Rightarrow>
                          resultError (''insertScvmHost Failed to modify cluster_config and hosts file. : '' @ target)
                      | None \<Rightarrow> resultOK ''Cluster Config insertScvmHost Success''))))"

definition insertAllHost ::
  "(string list \<Rightarrow> string list) \<Rightarrow> (string \<Rightarrow> Args \<Rightarrow> Result option) \<Rightarrow> Args \<Rightarrow> world \<Rightarrow> Result \<times> world" where
  "insertAllHost order call args w =
     (if aJSONString args = JEmpty then (resultError ''json string required'', w)
      else if aCCVMMngtIP args = [] then (resultError ''ccvm mngt ip required'', w)
      else (case validatePCSClusterInput args of
              Inl err \<Rightarrow> (resultError err, w)
            | Inr _ \<Rightarrow>
                if \<not> equal_fold (aType args) ''ablestack-hci'' \<and> aStorageNetwork args = []
                then (resultError ''storage network required'', w)
                else (case parseHostParams (aJSONString args) of
                   None \<Rightarrow> (resultError ''invalid json string'', w)
                 | Some params \<Rightarrow>
                     (let w' = run_cmd [''chmod'', ''777'', ''/var/lib/libvirt/images/ccvm-cloudinit.iso'']
                                 (run_cmd [''touch'', ''/var/lib/libvirt/images/ccvm-cloudinit.iso''] w)
                      in case fan_out call args (order (all_targets args params)) of
                           Some target \<Rightarrow>
                             (resultError (''insertAllHost Failed to modify cluster_config and hosts file. : '' @ target), w')
                         | None \<Rightarrow> (resultOK ''Cluster Config insertAllHost Success'', w')))))"

section \<open>The entry points\<close>

record network =
  n_order :: "string list \<Rightarrow> string list"
  n_call :: "string \<Rightarrow> Args \<Rightarrow> Result option"
  n_reachable :: "string \<Rightarrow> bool"

definition applyArgs :: "env \<Rightarrow> network \<Rightarrow> Args \<Rightarrow> world \<Rightarrow> Result \<times> world" where
  "applyArgs e net args w0 =
     (let w = ensureHugePageFS w0
      in if aAction args = ''insert'' then
           (let (reset, w1) = resetClusterConfig e w
            in if Code reset \<noteq> 200 then (reset, w1) else insert_config e args w1)
         else if aAction args = ''insertScvmHost'' then (insertScvmHost (n_order net) (n_call net) args, w)
         else if aAction args = ''insertAllHost'' then insertAllHost (n_order net) (n_call net) args w
         else if aAction args = ''remove'' then removeHost e args w
         else if aAction args = ''check'' then (pingCheck (n_reachable net) args, w)
         else if aAction args = ''reset'' then resetClusterConfig e w
         else (resultError ''invalid action'', w))"

definition request_args :: "string \<Rightarrow> ClusterApplyRequest \<Rightarrow> Args" where
  "request_args action req =
     \<lparr>aAction = action, aHostType = Option req, aType = Type req, aCCVMMngtIP = CCVMMngtIP req,
      aMngtNicCIDR = MngtNicCIDR req, aMngtNicGW = MngtNicGW req, aMngtNicDNS = MngtNicDNS req,
      aPCSClusterList = PCSClusterList req,
      aJSONString = (case JSONString req of None \<Rightarrow> JEmpty | Some items \<Rightarrow> JDoc (VArr items)),
      aCopyOption = CopyOption req, aExcludeHostname = ExcludeHostname req, aRemoveHostname = RemoveHostname req,
      aExternalTimeserver = ExternalTimeserver req, aStorageNetwork = StorageNetwork req,
      aInternalToken = (case Security req of None \<Rightarrow> [] | Some t \<Rightarrow> trim_space t), aVerbose = 0, aHuman = False\<rparr>"

definition ApplyLocal :: "env \<Rightarrow> network \<Rightarrow> string \<Rightarrow> ClusterApplyRequest \<Rightarrow> world \<Rightarrow> Result \<times> world" where
  "ApplyLocal e net action req w = applyArgs e net (request_args action (Normalize req)) w"

end
