(* ===== verification/Cluster_Apply_Facts.thy ===== *)
theory Cluster_Apply_Facts
  imports Cluster_Apply
begin

text \<open>
  What the actions of the cluster configuration service guarantee: the document a successful
  reset, insert or remove leaves on disk, the retries and the fan-out, and the command line.
\<close>

section \<open>The stored document\<close>

lemma submap_stored_config:
  "submap (stored (fmupd ''clusterConfig'' (VMap cfg) root)) ''clusterConfig'' = stored_cfg cfg"
  using stored_lookup(1) [of "fmupd ''clusterConfig'' (VMap cfg) root" cfg] by (simp add: submap_def mget_def)

lemma stored_hci_hosts:
  "isHCIClusterType (gets cfg ''type'') \<Longrightarrow>
     getHosts (stored_cfg cfg) = map (\<lambda>h. hci_fields (host_param h) fmempty) (getHosts cfg)"
  by (auto simp: getHosts_stored buildOrderedHosts_def orderedHostHCI_def hci_fields_def host_param_def intro: fmap_ext)

lemma map_filter_cong: "(\<And>x. x \<in> set xs \<Longrightarrow> f x = g x) \<Longrightarrow> List.map_filter f xs = List.map_filter g xs"
  by (auto simp: List.map_filter_def intro!: map_cong filter_cong)

lemma slot_values_reload:
  "slot_values getString (fmmap reload (writePCSClusterValues m xs)) = slot_values getString (writePCSClusterValues m xs)"
  unfolding slot_values_def
  by (rule map_filter_cong)
    (auto simp: fmlookup_writePCS fmlookup_fill_slots cleared_slot simp del: upt_Suc)

lemma collect_stored_pcs:
  "collectPCSClusterValues (submap (stored_cfg cfg) ''pcsCluster'') = collectPCSClusterValues (submap cfg ''pcsCluster'')"
proof -
  have "submap (stored_cfg cfg) ''pcsCluster'' = fmmap reload (normalizePCSClusterMap (submap cfg ''pcsCluster''))"
    by (simp add: orderedClusterConfig_def Let_def opt_field_def submap_fields del: list.map map_append)
  moreover have "collectPCSClusterValues (fmmap reload (writePCSClusterValues m xs)) = collectPCSClusterValues (writePCSClusterValues m xs)"
    for m xs
    by (simp add: collectPCSClusterValues_def slot_values_reload fmlookup_writePCS)
  ultimately show ?thesis
    by (simp add: normalizePCSClusterMap_def collect_writePCS) (simp add: collectPCSClusterValues_def)
qed

lemma getHosts_upd [simp]: "k \<noteq> ''hosts'' \<Longrightarrow> getHosts (fmupd k v m) = getHosts m"
  by (simp add: getHosts_def)

lemma getHosts_edit [simp]: "k \<noteq> ''hosts'' \<Longrightarrow> getHosts (edit_map k f m) = getHosts m"
  by (simp add: getHosts_def)

lemma getHosts_drop [simp]: "k \<noteq> ''hosts'' \<Longrightarrow> getHosts (fmdrop k m) = getHosts m"
  by (simp add: getHosts_def)

lemma getHosts_setHosts [simp]: "getHosts (setHosts hosts cfg) = hosts"
  by (induction hosts) (auto simp: setHosts_def getHosts_def)


lemma mget_setHosts [simp]: "k \<noteq> ''hosts'' \<Longrightarrow> mget (setHosts hosts cfg) k = mget cfg k"
  by (simp add: setHosts_def)

section \<open>Frames\<close>

text \<open>The steps around the document leave the document, the hosts file and the permissions alone.\<close>

abbreviation same_docs :: "world \<Rightarrow> world \<Rightarrow> bool" where
  "same_docs w w' \<equiv> w_doc w' = w_doc w \<and> w_doc_writes w' = w_doc_writes w \<and> w_hosts w' = w_hosts w
     \<and> w_hosts_writes w' = w_hosts_writes w"

lemma same_docs_run: "same_docs w (run_cmd cmd w)"
  by (simp add: run_cmd_def)

lemma same_docs_hugepages: "same_docs w (ensureHugePageFS w)"
  by (auto simp: ensureHugePageFS_def run_cmd_def Let_def split: option.splits)

lemma same_docs_filter: "same_docs w (applyNetworkFilter e w)"
  by (auto simp: applyNetworkFilter_def run_cmd_def Let_def)

lemma same_docs_timer: "same_docs w (enable_timer typ w)"
  by (simp add: enable_timer_def run_cmd_def)

lemmas frames = same_docs_hugepages same_docs_filter same_docs_timer same_docs_run

section \<open>Writing a file\<close>

lemma write_ok [simp]:
  "w_doc_writes w = [] \<Longrightarrow> write_doc doc w = Inr (w\<lparr>w_doc := Doc doc\<rparr>)"
  "w_hosts_writes w = [] \<Longrightarrow> write_hosts text w = Inr (w\<lparr>w_hosts := Some text\<rparr>)"
  by (simp_all add: write_doc_def write_hosts_def)

lemma saveClusterJSON_ok:
  "w_doc_writable w \<Longrightarrow> saveClusterJSON root w = Inr (w\<lparr>w_doc := Doc (stored root)\<rparr>)"
  by (simp add: saveClusterJSON_def)

lemma write_doc_saved: "write_doc doc w = Inr w' \<Longrightarrow> w_doc w' = Doc doc"
  by (auto simp: write_doc_def Let_def split: list.splits write_fate.splits)

text \<open>A write without an error is all there; after an error the file is old, new or cut off.\<close>

definition torn :: "doc_state \<Rightarrow> bool" where
  "torn d \<longleftrightarrow> d = BlankDoc \<or> d = BadDoc"

definition breaks_off :: "write_fate \<Rightarrow> bool" where
  "breaks_off fate \<longleftrightarrow> (case fate of Cut _ \<Rightarrow> True | _ \<Rightarrow> False)"

abbreviation unbroken :: "world \<Rightarrow> bool" where
  "unbroken w \<equiv> list_all (\<lambda>fate. \<not> breaks_off fate) (w_doc_writes w)"

lemma write_doc_failed:
  "write_doc doc w = Inl w' \<Longrightarrow>
     w_doc w' = w_doc w \<or> w_doc w' = Doc doc \<or> torn (w_doc w') \<and> breaks_off (hd (w_doc_writes w)) \<and> w_doc_writes w \<noteq> []"
  by (auto simp: write_doc_def torn_def breaks_off_def Let_def split: list.splits write_fate.splits if_splits)

lemma write_doc_cut:
  "w_doc_writes w = Cut n # fates \<Longrightarrow>
     write_doc doc w = Inl (w\<lparr>w_doc_writes := fates, w_doc := (if n = 0 then BlankDoc else BadDoc)\<rparr>)"
  by (simp add: write_doc_def Let_def)

lemma write_doc_unbroken:
  assumes "unbroken w"
  shows "write_doc doc w = Inl w' \<Longrightarrow> unbroken w' \<and> (w_doc w' = w_doc w \<or> w_doc w' = Doc doc)"
    and "write_doc doc w = Inr w' \<Longrightarrow> unbroken w' \<and> w_doc w' = Doc doc"
  using assms
  by (auto simp: write_doc_def breaks_off_def Let_def split: list.splits write_fate.splits)

lemma write_hosts_frame:
  "write_hosts text w = Inl w' \<Longrightarrow> w_doc w' = w_doc w \<and> w_doc_writes w' = w_doc_writes w"
  "write_hosts text w = Inr w' \<Longrightarrow> w_doc w' = w_doc w \<and> w_doc_writes w' = w_doc_writes w"
  by (auto simp: write_hosts_def Let_def split: list.splits write_fate.splits)

section \<open>Retries\<close>

lemma retry_hosts_invariant:
  assumes "\<And>w. P w \<Longrightarrow> P (snd (runHostAction e args action w))" and "P w"
  shows "P (snd (retry_hosts n e args action w))"
  using assms(2)
proof (induction n arbitrary: w)
  case (Suc n)
  then have "P (snd (runHostAction e args action w))" by (intro assms(1))
  with Suc.IH show ?case by (auto simp: Let_def split_beta)
qed (simp add: assms(1))

lemma runHostAction_frame:
  "w_doc (snd (runHostAction e args action w)) = w_doc w
   \<and> w_doc_writes (snd (runHostAction e args action w)) = w_doc_writes w"
  by (auto simp: runHostAction_def applyHosts_def changeHosts_io_def dest: write_hosts_frame split: option.splits sum.splits)

lemma retry_frame:
  "w_doc (snd (retryHostsApply e args action w)) = w_doc w
   \<and> w_doc_writes (snd (retryHostsApply e args action w)) = w_doc_writes w"
  unfolding retryHostsApply_def
  by (rule retry_hosts_invariant [where P = "\<lambda>v. w_doc v = w_doc w \<and> w_doc_writes v = w_doc_writes w"])
    (simp_all add: runHostAction_frame)

lemma retryHostsApply_ok:
  assumes "w_doc w = Doc root" and "w_hosts w = Some content" and "w_hosts_writable w"
  shows "retryHostsApply e args ''hostOnly'' w =
    (resultOK ''hosts file config success.'',
     w\<lparr>w_hosts := Some (changeHosts (aType args) (aStorageNetwork args) (e_hostname e) (submap root ''clusterConfig'') content)\<rparr>)"
  using assms
  by (simp add: retryHostsApply_def numeral_2_eq_2 runHostAction_def loadClusterJSON_def ensureMap_def
      applyHosts_def changeHosts_io_def resultOK_def)

section \<open>Reset and insert\<close>

lemma loadClusterJSON_Doc:
  "w_doc w = Doc root \<Longrightarrow>
     loadClusterJSON w = Some (fmupd ''clusterConfig'' (VMap (submap root ''clusterConfig'')) root, submap root ''clusterConfig'')"
  by (simp add: loadClusterJSON_def ensureMap_def)

lemma fmupd_twice [simp]: "fmupd k v (fmupd k u m) = fmupd k v m"
  by (rule fmap_ext) auto

definition reset_doc :: "gomap \<Rightarrow> gomap" where
  "reset_doc root = stored (fmupd ''clusterConfig'' (VMap (reset_cfg (submap root ''clusterConfig''))) root)"

lemma resetClusterConfig_ok:
  assumes "w_doc w = Doc root" and "w_doc_writable w"
  shows "resetClusterConfig e w = (resultOK ''Cluster Config reset Success'', w\<lparr>w_doc := Doc (reset_doc root)\<rparr>)"
  using assms by (simp add: resetClusterConfig_def loadClusterJSON_Doc saveClusterJSON_ok reset_doc_def)

lemma Normalize_Nil: "NormalizePCSClusterList [] = []"
  by (simp add: NormalizePCSClusterList_spec clean_list_def)

lemma collect_empty: "collectPCSClusterValues (writePCSClusterValues m []) = []"
  by (simp add: collect_writePCS Normalize_Nil)

lemma reset_doc_cfg:
  "gets (submap (reset_doc root) ''clusterConfig'') ''type'' = []"
  "getHosts (submap (reset_doc root) ''clusterConfig'') = []"
  "collectPCSClusterValues (submap (submap (reset_doc root) ''clusterConfig'') ''pcsCluster'') = []"
  "gets (submap (submap (reset_doc root) ''clusterConfig'') ''ccvm'') ''ip'' = []"
  "gets (submap (reset_doc root) ''clusterConfig'') ''external_timeserver'' = []"
  "gets (submap (reset_doc root) ''clusterConfig'') ''storage_network'' = ''false''"
  by (simp_all add: reset_doc_def submap_stored_config mget_stored_cfg getHosts_stored collect_stored_pcs)
    (simp_all add: reset_cfg_def Let_def collect_empty first_of_def normalizeStorageNetwork_def buildOrderedHosts_def getHosts_def go_str)

lemma getHosts_insert_scalars [simp]: "getHosts (insert_scalars args cfg) = getHosts cfg"
  by (simp add: insert_scalars_def updateMngtNic_def updatePCSCluster_def put_unless_empty_def Let_def)

text \<open>Parameters with distinct names, inserted one after the other, become hosts in their order.\<close>

lemma upsert_host_new:
  "Hostname param \<notin> set (map (\<lambda>h. gets h ''hostname'') hosts) \<Longrightarrow>
     upsert_host set_fields True param hosts = hosts @ [set_fields param fmempty]"
  by (induction hosts) auto

lemma fold_upsert_new:
  assumes "\<And>p. gets (set_fields p fmempty) ''hostname'' = Hostname p"
    and "distinct (map (\<lambda>h. gets h ''hostname'') hosts @ map Hostname params)"
  shows "fold (upsert_host set_fields True) params hosts = hosts @ map (\<lambda>p. set_fields p fmempty) params"
  using assms(2)
proof (induction params arbitrary: hosts)
  case (Cons p ps)
  then have "upsert_host set_fields True p hosts = hosts @ [set_fields p fmempty]" by (intro upsert_host_new) auto
  moreover have "distinct (map (\<lambda>h. gets h ''hostname'') (hosts @ [set_fields p fmempty]) @ map Hostname ps)"
    using Cons.prems by (auto simp: assms(1))
  ultimately show ?case using Cons.IH [of "hosts @ [set_fields p fmempty]"] by simp
qed simp

lemma gets_hci_fields:
  "gets (hci_fields p m) ''hostname'' = Hostname p"
  "host_param (hci_fields p m) = p"
  by (simp_all add: hci_fields_def host_param_def)

lemma insert_cfg_hci:
  assumes "\<not> is_vm_type (aType args)" and "parseHostParams (aJSONString args) = Some params"
    and "distinct (map Hostname params)" and "getHosts cfg = []"
  shows "\<exists>cfg'. insert_cfg args cfg = Inr cfg' \<and> getHosts cfg' = map (\<lambda>p. hci_fields p fmempty) params
     \<and> (\<forall>k. k \<noteq> ''hosts'' \<longrightarrow> mget cfg' k = mget (insert_scalars args cfg) k)"
proof -
  have "insert_hosts args params [] = map (\<lambda>p. hci_fields p fmempty) params"
    using fold_upsert_new [of hci_fields "[]" params] assms(1,3) by (simp add: insert_hosts_def gets_hci_fields)
  moreover have "aJSONString args = JEmpty \<Longrightarrow> params = []" using assms(2) by (simp add: parseHostParams_def)
  ultimately show ?thesis using assms by (auto simp: insert_cfg_def Let_def)
qed


lemma insert_scalars_fields:
  "aType args \<noteq> [] \<Longrightarrow> gets (insert_scalars args cfg) ''type'' = aType args"
  "submap (insert_scalars args cfg) ''pcsCluster'' =
     (if aPCSClusterList args = [] then submap cfg ''pcsCluster''
      else writePCSClusterValues (submap cfg ''pcsCluster'') (aPCSClusterList args))"
  "gets (submap (insert_scalars args cfg) ''ccvm'') ''ip'' =
     (if aCCVMMngtIP args = [] then gets (submap cfg ''ccvm'') ''ip'' else aCCVMMngtIP args)"
  by (simp_all add: insert_scalars_def updateMngtNic_def updatePCSCluster_def put_unless_empty_def Let_def)

lemma submap_mget: "mget m k = mget n k \<Longrightarrow> submap m k = submap n k"
  by (simp add: submap_def)

lemma insert_config_ok:
  assumes doc: "w_doc w = Doc root" "w_doc_writable w" "w_hosts w = Some content" "w_hosts_writable w"
    and pcs: "aPCSClusterList args = [] \<or> validatePCSClusterInput args = Inr ()"
    and cfg: "insert_cfg args (submap root ''clusterConfig'') = Inr cfg'"
    and copy: "aCopyOption args = ''hostOnly''"
  shows "\<exists>w' doc. insert_config e args w = (resultOK ''Cluster Config insert Success'', w') \<and> w_doc w' = Doc doc
     \<and> submap doc ''clusterConfig'' = stored_cfg cfg'
     \<and> w_hosts w' = Some (changeHosts (aType args) (aStorageNetwork args) (e_hostname e) (stored_cfg cfg') content)"
proof -
  define w1 where "w1 = applyNetworkFilter e w"
  define root' where "root' = put_token (aInternalToken args) (fmupd ''clusterConfig'' (VMap (submap root ''clusterConfig'')) root)"
  define doc where "doc = stored (fmupd ''clusterConfig'' (VMap cfg') root')"
  define w2 where "w2 = enable_timer (aType args) (w1\<lparr>w_doc := Doc doc\<rparr>)"
  have w1: "w_doc w1 = Doc root" "w_doc_writable w1" "w_hosts w1 = Some content" "w_hosts_writable w1"
    using doc by (simp_all add: w1_def frames)
  then have w2: "w_doc w2 = Doc doc" "w_hosts w2 = Some content" "w_hosts_writable w2"
    by (simp_all add: w2_def frames)
  have cfg_doc: "submap doc ''clusterConfig'' = stored_cfg cfg'" by (simp add: doc_def submap_stored_config)
  have pcs': "(if aPCSClusterList args = [] then okay () else validatePCSClusterInput args) = Inr ()"
    using pcs by auto
  have save: "saveClusterJSON (fmupd ''clusterConfig'' (VMap cfg') root') w1 = Inr (w1\<lparr>w_doc := Doc doc\<rparr>)"
    using w1 by (simp add: saveClusterJSON_ok doc_def)
  have "insert_config e args w = (resultOK ''Cluster Config insert Success'', w2\<lparr>w_hosts := Some (changeHosts (aType args)
      (aStorageNetwork args) (e_hostname e) (submap doc ''clusterConfig'') content)\<rparr>)"
    unfolding insert_config_def Let_def pcs' w1_def [symmetric] loadClusterJSON_Doc [OF w1(1)] sum.case option.case
      prod.case cfg root'_def [symmetric] save w2_def [symmetric] copy retryHostsApply_ok [OF w2]
    by (simp add: resultOK_def)
  with w2 cfg_doc show ?thesis by simp
qed


section \<open>Remove\<close>

abbreviation host_names :: "gomap list \<Rightarrow> string list" where
  "host_names hosts \<equiv> map (\<lambda>h. gets h ''hostname'') hosts"

lemma find_host_SomeD:
  "find_host name i hosts = Some (j, t) \<Longrightarrow>
     i \<le> j \<and> t \<in> set hosts \<and> gets t ''hostname'' = name
     \<and> (distinct (host_names hosts) \<longrightarrow>
          take (j - i) hosts @ drop (Suc (j - i)) hosts = filter (\<lambda>h. gets h ''hostname'' \<noteq> name) hosts)"
proof (induction name i hosts rule: find_host.induct)
  case (2 name i host hosts)
  show ?case
  proof (cases "gets host ''hostname'' = name")
    case True
    with 2 have "i = j" "t = host" by auto
    moreover have "filter (\<lambda>h. gets h ''hostname'' \<noteq> name) hosts = hosts" if "distinct (host_names (host # hosts))"
      using that True by (force simp: filter_id_conv image_iff)
    ultimately show ?thesis using True by auto
  next
    case False
    with 2 have "Suc i \<le> j" by auto
    then have "j - i = Suc (j - Suc i)" by simp
    with 2 False show ?thesis by auto
  qed
qed simp

lemma find_host_None: "find_host name i hosts = None \<longleftrightarrow> name \<notin> set (host_names hosts)"
  by (induction name i hosts rule: find_host.induct) auto

lemma renumber_fields:
  "host_names (renumberHostIndexes hosts) = host_names hosts"
  "map (\<lambda>h. gets h ''index'') (renumberHostIndexes hosts) = map show_nat [1..<length hosts + 1]"
  "length (renumberHostIndexes hosts) = length hosts"
  by (auto simp: renumberHostIndexes_def enumerate_eq_zip intro!: nth_equalityI simp del: upt_Suc)

lemma stored_host_fields:
  assumes "key \<in> {''index'', ''hostname'', ''ablecube''}"
  shows "map (\<lambda>h. gets h key) (getHosts (stored_cfg cfg)) = map (\<lambda>h. gets h key) (getHosts cfg)"
  using assms by (auto simp: getHosts_stored buildOrderedHosts_def orderedHostHCI_def orderedHostVM_def mget_fields
      simp del: list.map)

lemma Normalize_filter: "NormalizePCSClusterList (filter P (NormalizePCSClusterList xs)) = filter P (NormalizePCSClusterList xs)"
proof -
  let ?ys = "filter P (NormalizePCSClusterList xs)"
  have "clean_list ?ys = ?ys"
    by (rule clean_list_id) (auto simp: NormalizePCSClusterList_spec dest!: in_set_takeD dest: clean_list_trimmed)
  moreover have "length ?ys \<le> PCSClusterMaxHosts"
    using length_filter_le [of P "NormalizePCSClusterList xs"] length_NormalizePCSClusterList [of xs] by linarith
  ultimately show ?thesis by (simp add: NormalizePCSClusterList_spec [of ?ys])
qed

lemma collect_is_normal: "\<exists>xs. collectPCSClusterValues m = NormalizePCSClusterList xs"
  by (auto simp: collectPCSClusterValues_def)

lemma collect_drop_pcs_host:
  "collectPCSClusterValues (submap (drop_pcs_host target cfg) ''pcsCluster'') =
     filterRemovedPCSClusterValues (collectPCSClusterValues (submap cfg ''pcsCluster'')) target"
  using collect_is_normal [of "submap cfg ''pcsCluster''"]
  by (auto simp: drop_pcs_host_def collect_writePCS filterRemovedPCSClusterValues_def Normalize_filter)


lemma saved_removed:
  assumes "find_host name 0 (getHosts cfg) = Some (found, target)"
    and "hosts' = filter (\<lambda>h. gets h ''hostname'' \<noteq> name) (getHosts cfg)"
    and "doc = stored (fmupd ''clusterConfig'' (VMap (setHosts (renumberHostIndexes hosts') (drop_pcs_host target cfg))) root)"
  shows "host_names (getHosts (submap doc ''clusterConfig'')) = filter (\<lambda>n. n \<noteq> name) (host_names (getHosts cfg))"
    and "map (\<lambda>h. gets h ''index'') (getHosts (submap doc ''clusterConfig'')) = map show_nat [1..<length hosts' + 1]"
    and "collectPCSClusterValues (submap (submap doc ''clusterConfig'') ''pcsCluster'') =
      filterRemovedPCSClusterValues (collectPCSClusterValues (submap cfg ''pcsCluster'')) target"
proof -
  let ?c = "setHosts (renumberHostIndexes hosts') (drop_pcs_host target cfg)"
  have doc: "submap doc ''clusterConfig'' = stored_cfg ?c" by (simp add: assms(3) submap_stored_config)
  show "host_names (getHosts (submap doc ''clusterConfig'')) = filter (\<lambda>n. n \<noteq> name) (host_names (getHosts cfg))"
    by (simp add: doc stored_host_fields renumber_fields assms(2) filter_map comp_def)
  show "map (\<lambda>h. gets h ''index'') (getHosts (submap doc ''clusterConfig'')) = map show_nat [1..<length hosts' + 1]"
    by (simp add: doc stored_host_fields renumber_fields del: upt_Suc)
  have "submap ?c ''pcsCluster'' = submap (drop_pcs_host target cfg) ''pcsCluster''"
    by (rule submap_mget) simp
  then show "collectPCSClusterValues (submap (submap doc ''clusterConfig'') ''pcsCluster'') =
      filterRemovedPCSClusterValues (collectPCSClusterValues (submap cfg ''pcsCluster'')) target"
    by (simp add: doc collect_stored_pcs collect_drop_pcs_host)
qed

text \<open>The document both branches of a removal save.\<close>

lemma removeHost_saves:
  assumes "aRemoveHostname args \<noteq> []" and "w_doc w = Doc root" and "w_doc_writable w"
    and "w_hosts w = Some content" and "w_hosts_writable w" and "aCopyOption args = ''hostOnly''"
    and "find_host (aRemoveHostname args) 0 (getHosts (submap root ''clusterConfig'')) = Some (found, target)"
    and "distinct (host_names (getHosts (submap root ''clusterConfig'')))"
  shows "\<exists>w'. removeHost e args w = (remove_done, w')
     \<and> w_doc w' = Doc (stored (fmupd ''clusterConfig'' (VMap (setHosts (renumberHostIndexes
          (filter (\<lambda>h. gets h ''hostname'' \<noteq> aRemoveHostname args) (getHosts (submap root ''clusterConfig''))))
          (drop_pcs_host target (submap root ''clusterConfig'')))) root))"
proof -
  have rest: "take found (getHosts (submap root ''clusterConfig'')) @ drop (Suc found) (getHosts (submap root ''clusterConfig''))
      = filter (\<lambda>h. gets h ''hostname'' \<noteq> aRemoveHostname args) (getHosts (submap root ''clusterConfig''))"
    using find_host_SomeD [OF assms(7)] assms(8) by simp
  have hosts: "getHosts (drop_pcs_host target cfg) = getHosts cfg" for cfg
    by (simp add: drop_pcs_host_def)
  show ?thesis
    using assms(1-7)
    by (simp add: removeHost_def loadClusterJSON_Doc Let_def remove_found_hci_def remove_found_vm_def hosts rest
        updateHosts_io_def saveClusterJSON_ok retryHostsApply_ok) (simp add: resultOK_def)
qed

section \<open>Fan-out and command line\<close>

lemma fan_out_None:
  "fan_out call args targets = None \<longleftrightarrow> (\<forall>t \<in> set targets. \<exists>r. call t args = Some r \<and> Code r = 200)"
  by (induction targets) (auto split: option.splits)

lemma fan_out_Some:
  "fan_out call args targets = Some t \<Longrightarrow>
     \<exists>pre post. targets = pre @ t # post \<and> (\<forall>u \<in> set pre. \<exists>r. call u args = Some r \<and> Code r = 200)
       \<and> \<not> (\<exists>r. call t args = Some r \<and> Code r = 200)"
proof (induction targets)
  case (Cons u us)
  show ?case
  proof (cases "\<exists>r. call u args = Some r \<and> Code r = 200")
    case True
    with Cons obtain pre post where "us = pre @ t # post" "\<forall>u \<in> set pre. \<exists>r. call u args = Some r \<and> Code r = 200"
      "\<not> (\<exists>r. call t args = Some r \<and> Code r = 200)" by auto
    with True show ?thesis by - (rule exI [of _ "u # pre"], rule exI [of _ post], auto)
  next
    case False
    with Cons.prems have "t = u" by (auto split: option.splits if_splits)
    with False show ?thesis by - (rule exI [of _ "[]"], rule exI [of _ us], auto)
  qed
qed simp


text \<open>The flags that give an \<open>Args\<close> value back on the command line.\<close>

definition render_args :: "string \<Rightarrow> Args \<Rightarrow> string list" where
  "render_args js args =
     [''-t'', aType args, ''-cmi'', aCCVMMngtIP args, ''-mnc'', aMngtNicCIDR args, ''-mng'', aMngtNicGW args,
      ''-mnd'', aMngtNicDNS args, ''-js'', js, ''-co'', aCopyOption args, ''-eh'', aExcludeHostname args,
      ''-rh'', aRemoveHostname args, ''-ets'', aExternalTimeserver args, ''-is'', aStorageNetwork args]
     @ (if aPCSClusterList args = [] then [] else ''-pcl'' # aPCSClusterList args)
     @ (if aHuman args then [''-H''] else []) @ replicate (aVerbose args) ''-v''"

lemma parse_verbose:
  "parse_flags read_json args (replicate n ''-v'') = Parsed (args\<lparr>aVerbose := aVerbose args + n\<rparr>)"
  by (induction n arbitrary: args) (simp_all add: value_flag_def)

lemma consumeValues_all:
  assumes "vals \<noteq> []" and "list_all (\<lambda>v. \<not> isFlag v) vals" and "rest = [] \<or> isFlag (hd rest)"
  shows "consumeValues flag (vals @ rest) = Inr (vals, rest)"
proof -
  have "takeWhile (\<lambda>t. \<not> isFlag t) (vals @ rest) = vals" "dropWhile (\<lambda>t. \<not> isFlag t) (vals @ rest) = rest"
    using assms(2,3) by (induction vals) (auto simp: dropWhile_eq_self_iff takeWhile_eq_Nil_iff)
  with assms(1) show ?thesis by (simp add: consumeValues_def)
qed

lemma parse_human:
  "parse_flags read_json args ((if b then [''-H''] else []) @ replicate n ''-v'') =
     Parsed (args\<lparr>aHuman := b \<or> aHuman args, aVerbose := aVerbose args + n\<rparr>)"
  by (simp add: parse_verbose value_flag_def)

lemma parse_pcs:
  assumes "list_all (\<lambda>v. \<not> isFlag v) vals" and "rest = [] \<or> isFlag (hd rest)" and "aPCSClusterList args = []"
  shows "parse_flags read_json args ((if vals = [] then [] else ''-pcl'' # vals) @ rest) =
    parse_flags read_json (args\<lparr>aPCSClusterList := vals\<rparr>) rest"
  using assms by (cases args) (auto simp: value_flag_def consumeValues_all)


section \<open>The result of an insert\<close>

lemma insert_hci_result:
  assumes "aAction args = ''insert''" and "isHCIClusterType (aType args)" and "\<not> is_vm_type (aType args)"
    and "w_doc w = Doc root" and "w_doc_writable w" and "w_hosts w = Some content" and "w_hosts_writable w"
    and "aCopyOption args = ''hostOnly''"
    and "aPCSClusterList args = [] \<or> validatePCSClusterInput args = Inr ()"
    and "parseHostParams (aJSONString args) = Some params" and "distinct (map Hostname params)"
  shows "\<exists>w' doc cfg. applyArgs e net args w = (resultOK ''Cluster Config insert Success'', w')
     \<and> w_doc w' = Doc doc \<and> cfg = submap doc ''clusterConfig''
     \<and> getHosts cfg = map (\<lambda>p. hci_fields p fmempty) params \<and> gets cfg ''type'' = aType args
     \<and> collectPCSClusterValues (submap cfg ''pcsCluster'') = NormalizePCSClusterList (aPCSClusterList args)
     \<and> gets (submap cfg ''ccvm'') ''ip'' = aCCVMMngtIP args
     \<and> w_hosts w' = Some (changeHosts (aType args) (aStorageNetwork args) (e_hostname e) cfg content)"
proof -
  define w1 where "w1 = (ensureHugePageFS w)\<lparr>w_doc := Doc (reset_doc root)\<rparr>"
  define cfg0 where "cfg0 = submap (reset_doc root) ''clusterConfig''"
  have w1: "w_doc w1 = Doc (reset_doc root)" "w_doc_writable w1" "w_hosts w1 = Some content" "w_hosts_writable w1"
    using assms(4-7) by (simp_all add: w1_def frames)
  have "aType args \<noteq> []" using assms(2) by (auto simp: isHCIClusterType_def)
  note scalars = insert_scalars_fields(1) [OF this, of cfg0] insert_scalars_fields(2,3) [of args cfg0]
  obtain cfg' where cfg': "insert_cfg args cfg0 = Inr cfg'" "getHosts cfg' = map (\<lambda>p. hci_fields p fmempty) params"
      "\<And>k. k \<noteq> ''hosts'' \<Longrightarrow> mget cfg' k = mget (insert_scalars args cfg0) k"
    using insert_cfg_hci [OF assms(3,10,11), of cfg0] reset_doc_cfg(2) [of root] by (auto simp: cfg0_def)
  then have sub: "submap cfg' k = submap (insert_scalars args cfg0) k" if "k \<noteq> ''hosts''" for k
    using that by (intro submap_mget) auto
  obtain w' doc where res: "insert_config e args w1 = (resultOK ''Cluster Config insert Success'', w')" "w_doc w' = Doc doc"
      "submap doc ''clusterConfig'' = stored_cfg cfg'"
      "w_hosts w' = Some (changeHosts (aType args) (aStorageNetwork args) (e_hostname e) (stored_cfg cfg') content)"
    using insert_config_ok [OF w1 assms(9) cfg'(1) [unfolded cfg0_def] assms(8)] by blast
  have "applyArgs e net args w = insert_config e args w1"
    using assms(1) resetClusterConfig_ok [of "ensureHugePageFS w" root e] assms(4,5)
    by (simp add: applyArgs_def frames w1_def) (simp add: resultOK_def)
  moreover have "gets (stored_cfg cfg') ''type'' = aType args"
    by (simp add: mget_stored_cfg cfg'(3) scalars)
  moreover from this have "getHosts (stored_cfg cfg') = map (\<lambda>p. hci_fields p fmempty) params"
    using assms(2) by (subst stored_hci_hosts) (simp_all add: mget_stored_cfg cfg'(2) gets_hci_fields comp_def)
  moreover have "collectPCSClusterValues (submap (stored_cfg cfg') ''pcsCluster'') = NormalizePCSClusterList (aPCSClusterList args)"
    using reset_doc_cfg(3) [of root, folded cfg0_def] Normalize_Nil
    by (simp add: collect_stored_pcs sub scalars collect_writePCS)
  moreover have "gets (submap (stored_cfg cfg') ''ccvm'') ''ip'' = aCCVMMngtIP args"
    using reset_doc_cfg(4) [of root, folded cfg0_def] by (simp add: mget_stored_cfg sub scalars)
  ultimately show ?thesis using res by auto
qed


section \<open>An insert of either kind of cluster\<close>

text \<open>
  The type of an insert: hyper-converged, or one of the virtual machine types, for which new hosts are
  taken only along with a storage network.
\<close>

definition storable :: "Args \<Rightarrow> bool" where
  "storable args \<longleftrightarrow> isHCIClusterType (aType args) \<and> \<not> is_vm_type (aType args)
     \<or> is_vm_type (aType args) \<and> \<not> isHCIClusterType (aType args) \<and> aStorageNetwork args \<noteq> []"

text \<open>What the document keeps of a host: a virtual machine cluster keeps its name and address.\<close>

definition stored_host :: "string \<Rightarrow> ClusterHost \<Rightarrow> gomap" where
  "stored_host typ p = (if is_vm_type typ then vm_fields [] p fmempty else hci_fields p fmempty)"

lemma stored_host_get [simp]:
  "gets (stored_host typ p) ''hostname'' = Hostname p" "gets (stored_host typ p) ''ablecube'' = Ablecube p"
  "gets (stored_host typ p) ''index'' = Index p"
  by (simp_all add: stored_host_def vm_fields_def hci_fields_def)

lemma stored_vm_hosts:
  "\<not> isHCIClusterType (gets cfg ''type'') \<Longrightarrow>
     getHosts (stored_cfg cfg) = map (\<lambda>h. vm_fields [] (host_param h) fmempty) (getHosts cfg)"
  by (auto simp: getHosts_stored buildOrderedHosts_def orderedHostVM_def vm_fields_def host_param_def intro: fmap_ext)

lemma gets_vm_fields:
  "gets (vm_fields sn p m) ''hostname'' = Hostname p"
  "vm_fields [] (host_param (vm_fields sn p m)) n = vm_fields [] p n"
  by (simp_all add: vm_fields_def host_param_def Let_def)

lemma insert_cfg_any:
  assumes "storable args" and "parseHostParams (aJSONString args) = Some params"
    and "distinct (map Hostname params)" and "getHosts cfg = []"
  defines "set_fields \<equiv> if is_vm_type (aType args) then vm_fields (aStorageNetwork args) else hci_fields"
  shows "\<exists>cfg'. insert_cfg args cfg = Inr cfg' \<and> getHosts cfg' = map (\<lambda>p. set_fields p fmempty) params
     \<and> (\<forall>k. k \<notin> {''hosts'', ''storage_network''} \<longrightarrow> mget cfg' k = mget (insert_scalars args cfg) k)"
proof -
  have "insert_hosts args params [] = map (\<lambda>p. set_fields p fmempty) params"
    using fold_upsert_new [of set_fields "[]" params] assms(1,3)
    by (auto simp: insert_hosts_def set_fields_def storable_def gets_hci_fields gets_vm_fields)
  moreover have "aJSONString args = JEmpty \<Longrightarrow> params = []" using assms(2) by (simp add: parseHostParams_def)
  ultimately show ?thesis using assms(2,4) by (auto simp: insert_cfg_def put_unless_empty_def Let_def)
qed

lemma insert_result:
  assumes "aAction args = ''insert''" and "storable args"
    and "w_doc w = Doc root" and "w_doc_writable w" and "w_hosts w = Some content" and "w_hosts_writable w"
    and "aCopyOption args = ''hostOnly''"
    and "aPCSClusterList args = [] \<or> validatePCSClusterInput args = Inr ()"
    and "parseHostParams (aJSONString args) = Some params" and "distinct (map Hostname params)"
  shows "\<exists>w' doc cfg. applyArgs e net args w = (resultOK ''Cluster Config insert Success'', w')
     \<and> w_doc w' = Doc doc \<and> cfg = submap doc ''clusterConfig''
     \<and> getHosts cfg = map (stored_host (aType args)) params \<and> gets cfg ''type'' = aType args
     \<and> gets (submap cfg ''ccvm'') ''ip'' = aCCVMMngtIP args
     \<and> w_hosts w' = Some (changeHosts (aType args) (aStorageNetwork args) (e_hostname e) cfg content)"
proof -
  define w1 where "w1 = (ensureHugePageFS w)\<lparr>w_doc := Doc (reset_doc root)\<rparr>"
  define cfg0 where "cfg0 = submap (reset_doc root) ''clusterConfig''"
  have w1: "w_doc w1 = Doc (reset_doc root)" "w_doc_writable w1" "w_hosts w1 = Some content" "w_hosts_writable w1"
    using assms(3-6) by (simp_all add: w1_def frames)
  have "aType args \<noteq> []" using assms(2) by (auto simp: storable_def isHCIClusterType_def is_vm_type_def equal_fold_def)
  note scalars = insert_scalars_fields(1) [OF this, of cfg0] insert_scalars_fields(2,3) [of args cfg0]
  obtain cfg' where cfg': "insert_cfg args cfg0 = Inr cfg'"
      "getHosts cfg' = map (\<lambda>p. (if is_vm_type (aType args) then vm_fields (aStorageNetwork args) else hci_fields) p fmempty) params"
      "\<And>k. k \<noteq> ''hosts'' \<Longrightarrow> k \<noteq> ''storage_network'' \<Longrightarrow> mget cfg' k = mget (insert_scalars args cfg0) k"
    using insert_cfg_any [OF assms(2,9,10), of cfg0] reset_doc_cfg(2) [of root] by (auto simp: cfg0_def)
  then have sub: "submap cfg' ''ccvm'' = submap (insert_scalars args cfg0) ''ccvm''" by (intro submap_mget) auto
  obtain w' doc where res: "insert_config e args w1 = (resultOK ''Cluster Config insert Success'', w')" "w_doc w' = Doc doc"
      "submap doc ''clusterConfig'' = stored_cfg cfg'"
      "w_hosts w' = Some (changeHosts (aType args) (aStorageNetwork args) (e_hostname e) (stored_cfg cfg') content)"
    using insert_config_ok [OF w1 assms(8) cfg'(1) [unfolded cfg0_def] assms(7)] by blast
  have "applyArgs e net args w = insert_config e args w1"
    using assms(1) resetClusterConfig_ok [of "ensureHugePageFS w" root e] assms(3,4)
    by (simp add: applyArgs_def frames w1_def) (simp add: resultOK_def)
  moreover have kept_type: "gets (stored_cfg cfg') ''type'' = aType args" "gets cfg' ''type'' = aType args"
    by (simp_all add: mget_stored_cfg cfg'(3) scalars)
  moreover have "getHosts (stored_cfg cfg') = map (stored_host (aType args)) params"
    using assms(2) kept_type(2)
    by (auto simp: storable_def stored_hci_hosts stored_vm_hosts cfg'(2) gets_hci_fields gets_vm_fields stored_host_def)
  moreover have "gets (submap (stored_cfg cfg') ''ccvm'') ''ip'' = aCCVMMngtIP args"
    using reset_doc_cfg(4) [of root, folded cfg0_def] by (simp add: mget_stored_cfg sub scalars)
  ultimately show ?thesis using res by auto
qed

section \<open>Properties\<close>

text \<open>
  A reset of a readable, writable configuration succeeds and leaves a document with no cluster
  type, no hosts, an empty node list, no CCVM address, no time server and no storage network,
  without touching the hosts file.
\<close>

theorem resetClusterConfig_clears:
  assumes "w_doc w = Doc root" and "w_doc_writable w"
  shows "\<exists>doc. resetClusterConfig e w = (resultOK ''Cluster Config reset Success'', w\<lparr>w_doc := Doc doc\<rparr>)
     \<and> gets (submap doc ''clusterConfig'') ''type'' = [] \<and> getHosts (submap doc ''clusterConfig'') = []
     \<and> collectPCSClusterValues (submap (submap doc ''clusterConfig'') ''pcsCluster'') = []
     \<and> gets (submap (submap doc ''clusterConfig'') ''ccvm'') ''ip'' = []
     \<and> gets (submap doc ''clusterConfig'') ''external_timeserver'' = []
     \<and> gets (submap doc ''clusterConfig'') ''storage_network'' = ''false''"
  using resetClusterConfig_ok [OF assms] reset_doc_cfg [of root] by blast

text \<open>A node with a document and a hosts file, used by the witnesses.\<close>

definition sample_world :: "gomap \<Rightarrow> world" where
  "sample_world root =
     \<lparr>w_doc = Doc root, w_doc_writes = [], w_hosts = Some ''127.0.0.1 localhost'', w_hosts_writes = [],
      w_fstab = None, w_sysctl = None, w_etc_writable = True, w_hugepages = False, w_log = []\<rparr>"

definition sample_env :: env where
  "sample_env =
     \<lparr>e_hostname = ''cube1'', e_ovs_active = False, e_nwfilters = [], e_lsmod = [], e_hosts_err = ''hosts'', e_doc_err = ''doc''\<rparr>"

definition sample_net :: network where
  "sample_net = \<lparr>n_order = (\<lambda>ts. ts), n_call = (\<lambda>t args. Some (resultOK t)), n_reachable = (\<lambda>h. True)\<rparr>"

theorem resetClusterConfig_clears_witness:
  "\<exists>doc. resetClusterConfig sample_env (sample_world (sample_root ''ablestack-hci'')) =
       (resultOK ''Cluster Config reset Success'', (sample_world (sample_root ''ablestack-hci''))\<lparr>w_doc := Doc doc\<rparr>)
     \<and> getHosts (submap doc ''clusterConfig'') = []"
  using resetClusterConfig_clears [of "sample_world (sample_root ''ablestack-hci'')" "sample_root ''ablestack-hci''" sample_env]
  by (auto simp: sample_world_def)

text \<open>
  An insert of hyper-converged hosts with distinct names replaces the configuration: it
  succeeds, the stored hosts are exactly the given ones in their order, the stored type and node
  list are the given ones, and the hosts file is the one computed from the stored configuration.
\<close>

theorem applyArgs_insert_hci:
  assumes "aAction args = ''insert''" and "isHCIClusterType (aType args)" and "\<not> is_vm_type (aType args)"
    and "w_doc w = Doc root" and "w_doc_writable w" and "w_hosts w = Some content" and "w_hosts_writable w"
    and "aCopyOption args = ''hostOnly''"
    and "aPCSClusterList args = [] \<or> validatePCSClusterInput args = Inr ()"
    and "parseHostParams (aJSONString args) = Some params" and "distinct (map Hostname params)"
  shows "\<exists>w' doc cfg. applyArgs e net args w = (resultOK ''Cluster Config insert Success'', w')
     \<and> w_doc w' = Doc doc \<and> cfg = submap doc ''clusterConfig''
     \<and> map host_param (getHosts cfg) = params \<and> gets cfg ''type'' = aType args
     \<and> collectPCSClusterValues (submap cfg ''pcsCluster'') = NormalizePCSClusterList (aPCSClusterList args)
     \<and> gets (submap cfg ''ccvm'') ''ip'' = aCCVMMngtIP args
     \<and> w_hosts w' = Some (changeHosts (aType args) (aStorageNetwork args) (e_hostname e) cfg content)"
proof -
  have "map host_param (map (\<lambda>p. hci_fields p fmempty) params) = params" by (simp add: gets_hci_fields comp_def)
  with insert_hci_result [OF assms, of e net] show ?thesis by (elim exE conjE) (intro exI conjI, assumption+, simp_all)
qed

definition sample_args :: "string \<Rightarrow> Args" where
  "sample_args action =
     (empty_args action)\<lparr>aType := ''ablestack-hci'', aCopyOption := ''hostOnly'', aCCVMMngtIP := ''10.0.0.10'',
       aPCSClusterList := [''cube1'', ''cube2'', ''cube3''], aJSONString := JDoc (VArr [VMap sample_host]),
       aRemoveHostname := ''cube1''\<rparr>"

lemma sample_types: "isHCIClusterType ''ablestack-hci''" "\<not> is_vm_type ''ablestack-hci''"
  by code_simp+

lemma sample_pcs: "validatePCSClusterInput (sample_args action) = Inr ()"
proof -
  have "ValidatePCSClusterList [''cube1'', ''cube2'', ''cube3''] (minPCSClusterHostsForType ''ablestack-hci'') = Inr ()"
    by code_simp
  then show ?thesis by (simp add: validatePCSClusterInput_def sample_args_def)
qed

theorem applyArgs_insert_hci_witness:
  "\<exists>w' doc cfg. applyArgs sample_env sample_net (sample_args ''insert'') (sample_world (sample_root ''ablestack-vm'')) =
       (resultOK ''Cluster Config insert Success'', w')
     \<and> w_doc w' = Doc doc \<and> cfg = submap doc ''clusterConfig'' \<and> map host_param (getHosts cfg) = [host_param sample_host]"
proof -
  have "parseHostParams (aJSONString (sample_args ''insert'')) = Some [host_param sample_host]"
    by (simp add: sample_args_def parseHostParams_def item_map_def List.map_filter_def)
  moreover have "aAction (sample_args ''insert'') = ''insert''" "aType (sample_args ''insert'') = ''ablestack-hci''"
      "aCopyOption (sample_args ''insert'') = ''hostOnly''" "distinct (map Hostname [host_param sample_host])"
    by (simp_all add: sample_args_def empty_args_def)
  moreover have "w_doc (sample_world (sample_root ''ablestack-vm'')) = Doc (sample_root ''ablestack-vm'')"
      "w_doc_writable (sample_world r)" "w_hosts (sample_world r) = Some ''127.0.0.1 localhost''" "w_hosts_writable (sample_world r)" for r
    by (simp_all add: sample_world_def)
  ultimately show ?thesis
    using applyArgs_insert_hci [of "sample_args ''insert''" "sample_world (sample_root ''ablestack-vm'')" "sample_root ''ablestack-vm''"
        "''127.0.0.1 localhost''" "[host_param sample_host]" sample_env sample_net] sample_types sample_pcs [of "''insert''"]
    by simp (elim exE conjE, intro exI conjI, assumption+)
qed

text \<open>
  An insert whose node list is rejected reports the validation error, and by then the
  configuration has already been reset: the old hosts are gone.
\<close>

theorem applyArgs_insert_rejected:
  assumes "aAction args = ''insert''" and "w_doc w = Doc root" and "w_doc_writable w"
    and "aPCSClusterList args \<noteq> []" and "validatePCSClusterInput args = Inl err"
  shows "\<exists>w' doc. applyArgs e net args w = (resultError err, w') \<and> w_doc w' = Doc doc
     \<and> getHosts (submap doc ''clusterConfig'') = [] \<and> gets (submap doc ''clusterConfig'') ''type'' = []"
proof -
  define w1 where "w1 = (ensureHugePageFS w)\<lparr>w_doc := Doc (reset_doc root)\<rparr>"
  have "applyArgs e net args w = insert_config e args w1"
    using assms(1) resetClusterConfig_ok [of "ensureHugePageFS w" root e] assms(2,3)
    by (simp add: applyArgs_def frames w1_def) (simp add: resultOK_def)
  moreover have "insert_config e args w1 = (resultError err, applyNetworkFilter e w1)"
    using assms(4,5) by (simp add: insert_config_def)
  moreover have "w_doc (applyNetworkFilter e w1) = Doc (reset_doc root)" by (simp add: frames w1_def)
  ultimately show ?thesis using reset_doc_cfg(1,2) [of root] by auto
qed

theorem applyArgs_insert_rejected_witness:
  "\<exists>w' doc. applyArgs sample_env sample_net ((sample_args ''insert'')\<lparr>aPCSClusterList := [''cube1'']\<rparr>)
       (sample_world (sample_root ''ablestack-hci'')) =
       (resultError ''pcs_cluster_list requires at least 3 host(s)'', w')
     \<and> w_doc w' = Doc doc \<and> getHosts (submap doc ''clusterConfig'') = []"
proof -
  have "ValidatePCSClusterList [''cube1''] (minPCSClusterHostsForType ''ablestack-hci'') =
      Inl ''pcs_cluster_list requires at least 3 host(s)''"
    by code_simp
  then show ?thesis
    using applyArgs_insert_rejected [of "(sample_args ''insert'')\<lparr>aPCSClusterList := [''cube1'']\<rparr>"
        "sample_world (sample_root ''ablestack-hci'')" "sample_root ''ablestack-hci''" _ sample_env sample_net]
    by (simp add: sample_args_def sample_world_def empty_args_def validatePCSClusterInput_def) blast
qed


text \<open>
  Removing a host of the configuration drops exactly that host: the other names keep their
  order, the indexes are renumbered from one without gaps, and the node list loses exactly the
  entries that name the host or one of its addresses.
\<close>

theorem removeHost_exact:
  assumes "aRemoveHostname args \<noteq> []" and "w_doc w = Doc root" and "w_doc_writable w"
    and "w_hosts w = Some content" and "w_hosts_writable w" and "aCopyOption args = ''hostOnly''"
    and "cfg = submap root ''clusterConfig''" and "distinct (host_names (getHosts cfg))"
    and "find_host (aRemoveHostname args) 0 (getHosts cfg) = Some (found, target)"
  shows "\<exists>w' doc cfg'. removeHost e args w = (resultOK ''Cluster Config remove Success'', w') \<and> w_doc w' = Doc doc
     \<and> cfg' = submap doc ''clusterConfig''
     \<and> host_names (getHosts cfg') = filter (\<lambda>n. n \<noteq> aRemoveHostname args) (host_names (getHosts cfg))
     \<and> map (\<lambda>h. gets h ''index'') (getHosts cfg') = map show_nat [1..<length (getHosts cfg') + 1]
     \<and> collectPCSClusterValues (submap cfg' ''pcsCluster'') =
         filter (\<lambda>v. to_lower (trim_space v) \<notin> set (removed_values target)) (collectPCSClusterValues (submap cfg ''pcsCluster''))"
proof -
  define hosts' where "hosts' = filter (\<lambda>h. gets h ''hostname'' \<noteq> aRemoveHostname args) (getHosts cfg)"
  define doc where "doc = stored (fmupd ''clusterConfig'' (VMap (setHosts (renumberHostIndexes hosts') (drop_pcs_host target cfg))) root)"
  obtain w' where w': "removeHost e args w = (remove_done, w')" "w_doc w' = Doc doc"
    using removeHost_saves [OF assms(1-6), of found target e] assms(7-9) by (auto simp: doc_def hosts'_def)
  note saved = saved_removed [OF assms(9) hosts'_def doc_def]
  have "length (getHosts (submap doc ''clusterConfig'')) = length hosts'"
    using arg_cong [OF saved(2), of length] by (simp del: upt_Suc)
  with saved w' show ?thesis by (auto simp: remove_done_def filterRemovedPCSClusterValues_def)
qed

theorem removeHost_exact_witness:
  "\<exists>w' doc. removeHost sample_env (sample_args ''remove'') (sample_world (sample_root ''ablestack-hci'')) =
       (resultOK ''Cluster Config remove Success'', w') \<and> w_doc w' = Doc doc
     \<and> host_names (getHosts (submap doc ''clusterConfig'')) = []"
proof -
  have hosts: "getHosts (sample_cfg ''ablestack-hci'') = [sample_host]"
    by (simp add: sample_cfg_def getHosts_def List.map_filter_def)
  have name: "gets sample_host ''hostname'' = ''cube1''" by (simp add: sample_host_def)
  have cfg: "sample_cfg ''ablestack-hci'' = submap (sample_root ''ablestack-hci'') ''clusterConfig''" by (simp add: sample_root_def)
  have args: "aRemoveHostname (sample_args ''remove'') = ''cube1''" "aCopyOption (sample_args ''remove'') = ''hostOnly''"
    by (simp_all add: sample_args_def)
  have w: "w_doc (sample_world r) = Doc r" "w_doc_writable (sample_world r)"
      "w_hosts (sample_world r) = Some ''127.0.0.1 localhost''" "w_hosts_writable (sample_world r)" for r
    by (simp_all add: sample_world_def)
  show ?thesis
    using removeHost_exact [OF _ w args(2) cfg, of 0 sample_host sample_env] hosts name args(1)
    by simp (elim exE conjE, intro exI conjI, assumption+)
qed

text \<open>
  The hosts file is written at most three times: with a readable document and hosts file the
  change succeeds exactly if one of the next three writes arrives without an error.
\<close>

lemma runHostAction_attempt:
  assumes "w_doc w = Doc root" and "w_hosts w \<noteq> None"
  shows "Code (fst (runHostAction e args ''hostOnly'' w)) = 200 \<longleftrightarrow> w_hosts_writes w = [] \<or> hd (w_hosts_writes w) = Written"
    and "w_hosts_writes w \<noteq> [] \<Longrightarrow> w_hosts_writes (snd (runHostAction e args ''hostOnly'' w)) = tl (w_hosts_writes w)"
    and "w_hosts (snd (runHostAction e args ''hostOnly'' w)) \<noteq> None"
  using assms
  by (auto simp: runHostAction_def loadClusterJSON_Doc applyHosts_def changeHosts_io_def write_hosts_def Let_def
      resultOK_def resultError_def split: list.splits write_fate.splits)

theorem retryHostsApply_three:
  assumes "w_doc w = Doc root" and "w_hosts w \<noteq> None"
  shows "Code (fst (retryHostsApply e args ''hostOnly'' w)) = 200 \<longleftrightarrow>
     length (w_hosts_writes w) < 3 \<or> Written \<in> set (take 3 (w_hosts_writes w))"
proof -
  have "Code (fst (retry_hosts n e args ''hostOnly'' v)) = 200 \<longleftrightarrow>
      length (w_hosts_writes v) \<le> n \<or> Written \<in> set (take (Suc n) (w_hosts_writes v))"
    if "w_doc v = Doc root" "w_hosts v \<noteq> None" for n v
    using that
  proof (induction n arbitrary: v)
    case 0
    then show ?case using runHostAction_attempt(1) [of v root e args] by (cases "w_hosts_writes v") auto
  next
    case (Suc n)
    let ?v = "snd (runHostAction e args ''hostOnly'' v)"
    note attempt = runHostAction_attempt [OF Suc.prems, of e args]
    have "w_doc ?v = Doc root" using Suc.prems(1) by (simp add: runHostAction_frame)
    from Suc.IH [OF this attempt(3)] show ?case
      using attempt(1,2) by (cases "w_hosts_writes v") (auto simp: Let_def split_beta)
  qed
  from this [OF assms, of 2] show ?thesis by (auto simp: retryHostsApply_def numeral_3_eq_3)
qed

text \<open>
  With every precondition met, the fan-out insert succeeds exactly when the CCVM, every host
  and, on hyper-converged clusters, the storage VM of every host but the excluded one accepted
  the configuration, whatever order the target set is visited in.
\<close>

theorem insertAllHost_iff:
  assumes "aJSONString args \<noteq> JEmpty" and "aCCVMMngtIP args \<noteq> []" and "validatePCSClusterInput args = Inr ()"
    and "equal_fold (aType args) ''ablestack-hci'' \<or> aStorageNetwork args \<noteq> []"
    and "parseHostParams (aJSONString args) = Some params" and "\<And>ts. set (order ts) = set ts"
  shows "Code (fst (insertAllHost order call args w)) = 200 \<longleftrightarrow>
    (let accepted = (\<lambda>t. \<exists>r. call t args = Some r \<and> Code r = 200)
     in accepted (aCCVMMngtIP args)
        \<and> (\<forall>p \<in> set params. Ablecube p = [] \<or> accepted (Ablecube p))
        \<and> (equal_fold (aType args) ''ablestack-hci'' \<longrightarrow>
             (\<forall>p \<in> set params. aExcludeHostname args = Hostname p \<or> ScvmMngt p = [] \<or> accepted (ScvmMngt p))))"
proof -
  define acc where "acc t \<longleftrightarrow> (\<exists>r. call t args = Some r \<and> Code r = 200)" for t
  have "Code (fst (insertAllHost order call args w)) = 200 \<longleftrightarrow> fan_out call args (order (all_targets args params)) = None"
    using assms(1-5)
    by (auto simp: insertAllHost_def Let_def resultOK_def resultError_def split: option.splits)
  also have "\<dots> \<longleftrightarrow> (\<forall>t \<in> set (all_targets args params). acc t)"
    by (simp add: fan_out_None assms(6) acc_def)
  finally show ?thesis using assms(2) unfolding Let_def acc_def [symmetric] by (auto simp: all_targets_def split: if_splits)
qed

theorem insertAllHost_iff_witness:
  "Code (fst (insertAllHost (\<lambda>ts. rev ts) (\<lambda>t args. Some (resultOK t)) (sample_args ''insertAllHost'') (sample_world fmempty))) = 200"
proof -
  have "parseHostParams (aJSONString (sample_args ''insertAllHost'')) = Some [host_param sample_host]"
    by (simp add: sample_args_def parseHostParams_def item_map_def List.map_filter_def)
  moreover have "equal_fold ''ablestack-hci'' ''ablestack-hci''" by (simp add: equal_fold_def)
  ultimately show ?thesis
    using insertAllHost_iff [of "sample_args ''insertAllHost''" "[host_param sample_host]" "\<lambda>ts. rev ts" "\<lambda>t args. Some (resultOK t)" "sample_world fmempty"]
      sample_pcs [of "''insertAllHost''"]
    by (simp add: sample_args_def empty_args_def resultOK_def)
qed

text \<open>
  The command line can express every request: the flags rendered from a set of arguments are
  parsed back to those arguments, as long as no node name looks like a flag.
\<close>

theorem parseArgs_render:
  assumes "list_all (\<lambda>v. \<not> isFlag v) (aPCSClusterList args)"
    and "aHostType args = []" and "aInternalToken args = []" and "read_json js = aJSONString args"
  shows "parseArgs read_json (prog # aAction args # render_args js args) = Parsed args"
proof -
  let ?tail = "(if aHuman args then [''-H''] else []) @ replicate (aVerbose args) ''-v''"
  have tail: "?tail = [] \<or> isFlag (hd ?tail)"
    by (cases "aVerbose args") (auto simp: isFlag_def has_prefix_def)
  have "parse_flags read_json a (render_args js args) =
      Parsed (a\<lparr>aType := aType args, aCCVMMngtIP := aCCVMMngtIP args, aMngtNicCIDR := aMngtNicCIDR args,
        aMngtNicGW := aMngtNicGW args, aMngtNicDNS := aMngtNicDNS args, aPCSClusterList := aPCSClusterList args,
        aJSONString := read_json js, aCopyOption := aCopyOption args, aExcludeHostname := aExcludeHostname args,
        aRemoveHostname := aRemoveHostname args, aExternalTimeserver := aExternalTimeserver args,
        aStorageNetwork := aStorageNetwork args, aHuman := aHuman args \<or> aHuman a, aVerbose := aVerbose a + aVerbose args\<rparr>)"
    if "aPCSClusterList a = []" for a
    unfolding render_args_def append_assoc
    by (simp add: value_flag_def requireValue_def parse_pcs [OF assms(1) tail] that parse_human del: append_assoc)
  then show ?thesis using assms(2-4) by (cases args) (simp add: parseArgs_def empty_args_def)
qed


theorem parseArgs_render_witness:
  "parseArgs (\<lambda>s. JDoc (VArr [VMap sample_host])) (''cluster_config'' # ''insert'' # render_args ''hosts'' (sample_args ''insert'')) =
     Parsed (sample_args ''insert'')"
proof -
  have "list_all (\<lambda>v. \<not> isFlag v) (aPCSClusterList (sample_args ''insert''))" "aHostType (sample_args ''insert'') = []"
      "aInternalToken (sample_args ''insert'') = []" "aJSONString (sample_args ''insert'') = JDoc (VArr [VMap sample_host])"
      "aAction (sample_args ''insert'') = ''insert''"
    by (simp_all add: sample_args_def empty_args_def isFlag_def has_prefix_def)
  then show ?thesis
    using parseArgs_render [of "sample_args ''insert''" "\<lambda>s. JDoc (VArr [VMap sample_host])" "''hosts''" "''cluster_config''"]
    by metis
qed

end
