(* ===== verification/Internal_Token.thy ===== *)
theory Internal_Token
  imports Cluster_Apply
begin

text \<open>
  The internal token of \<^verbatim>\<open>internal/service/security/security.go\<close> that nodes present to each
  other, and its reader in \<^verbatim>\<open>internal/service/clusterconfig\<close>. The environment and the random
  source are parameters; a save is a temporary file, a rename and a change of mode, each of which
  may fail.
\<close>

section \<open>State and errors\<close>

datatype save_fault = MkdirFault | WriteFault bool | RenameFault | ChmodFault

datatype token_error =
    ReadError
  | ManagedByEnvironment
  | TokenRequired
  | RandomError
  | SaveError save_fault

record store =
  s_doc :: doc_state
  s_tmp :: bool
  s_private :: bool

text \<open>The environment a process sees: an unset variable reads as the empty string.\<close>

type_synonym getenv = "string \<Rightarrow> string"

section \<open>Reading\<close>

definition clusterString :: "goval \<Rightarrow> string" where
  "clusterString v = (case v of VNil \<Rightarrow> [] | _ \<Rightarrow> trim_space (fmt_v v))"

definition mapFromAny :: "goval \<Rightarrow> gomap option" where
  "mapFromAny v =
     (case v of
        VMap m \<Rightarrow> Some m
      | VNil \<Rightarrow> None
      | _ \<Rightarrow> as_map (reload v))"

definition envInternalToken :: "getenv \<Rightarrow> string" where
  "envInternalToken env =
     (if trim_space (env ''CUBE_INTERNAL_TOKEN'') \<noteq> [] then trim_space (env ''CUBE_INTERNAL_TOKEN'')
      else trim_space (env ''ABLESTACK_INTERNAL_TOKEN''))"

definition loadClusterRoot :: "doc_state \<Rightarrow> gomap option" where
  "loadClusterRoot doc =
     (case doc of
        NoDoc \<Rightarrow> None
      | BadDoc \<Rightarrow> None
      | BlankDoc \<Rightarrow> Some (NormalizeClusterJSON fmempty)
      | Doc root \<Rightarrow> Some (NormalizeClusterJSON root))"

definition internalTokenFromRoot :: "gomap \<Rightarrow> string" where
  "internalTokenFromRoot root =
     (case as_map (mget root ''security'') of
        None \<Rightarrow> []
      | Some securityMap \<Rightarrow> clusterString (mget securityMap ''internal_token''))"

definition GetInternalToken :: "getenv \<Rightarrow> store \<Rightarrow> token_error + string" where
  "GetInternalToken env st =
     (if envInternalToken env \<noteq> [] then Inr (envInternalToken env)
      else (case loadClusterRoot (s_doc st) of
              None \<Rightarrow> Inl ReadError
            | Some root \<Rightarrow> Inr (internalTokenFromRoot root)))"

definition ValidateInternalToken :: "getenv \<Rightarrow> string \<Rightarrow> store \<Rightarrow> bool" where
  "ValidateInternalToken env actual st =
     (case GetInternalToken env st of
        Inl err \<Rightarrow> False
      | Inr expected \<Rightarrow>
          (let expected' = trim_space expected; actual' = trim_space actual
           in if expected' = [] \<or> actual' = [] then False else expected' = actual'))"

definition MaskToken :: "string \<Rightarrow> string" where
  "MaskToken token =
     (let t = trim_space token
      in if t = [] then []
         else if length t \<le> 4 then ''****''
         else ''****'' @ drop (length t - 4) t)"

text \<open>The reader of the cluster configuration service: no normalisation, and a missing token is printed.\<close>

definition readInternalToken :: "getenv \<Rightarrow> store \<Rightarrow> string" where
  "readInternalToken env st =
     (if trim_space (env ''CUBE_INTERNAL_TOKEN'') \<noteq> [] then trim_space (env ''CUBE_INTERNAL_TOKEN'')
      else if trim_space (env ''ABLESTACK_INTERNAL_TOKEN'') \<noteq> [] then trim_space (env ''ABLESTACK_INTERNAL_TOKEN'')
      else (case s_doc st of
              Doc root \<Rightarrow>
                (case as_map (mget root ''security'') of
                   None \<Rightarrow> []
                 | Some securityMap \<Rightarrow> trim_space (fmt_v (mget securityMap ''internal_token'')))
            | _ \<Rightarrow> []))"

section \<open>Writing\<close>

text \<open>\<open>fault\<close> is the step of the save that fails, if any.\<close>

definition saveClusterRoot :: "save_fault option \<Rightarrow> gomap \<Rightarrow> store \<Rightarrow> (token_error + unit) \<times> store" where
  "saveClusterRoot fault root st =
     (let doc = Doc (stored root)
      in case fault of
           Some MkdirFault \<Rightarrow> (Inl (SaveError MkdirFault), st)
         | Some (WriteFault partial) \<Rightarrow> (Inl (SaveError (WriteFault partial)), st\<lparr>s_tmp := partial \<or> s_tmp st\<rparr>)
         | Some RenameFault \<Rightarrow> (Inl (SaveError RenameFault), st\<lparr>s_tmp := False\<rparr>)
         | Some ChmodFault \<Rightarrow> (Inl (SaveError ChmodFault), st\<lparr>s_doc := doc, s_tmp := False\<rparr>)
         | None \<Rightarrow> (Inr (), st\<lparr>s_doc := doc, s_tmp := False, s_private := True\<rparr>))"

definition saveInternalToken :: "save_fault option \<Rightarrow> gomap \<Rightarrow> string \<Rightarrow> store \<Rightarrow> (token_error + unit) \<times> store" where
  "saveInternalToken fault root token st =
     saveClusterRoot fault (edit_map ''security'' (puts ''internal_token'' (trim_space token)) root) st"

text \<open>\<open>gen\<close> is the outcome of \<^verbatim>\<open>GenerateToken\<close>: no value if the random source fails.\<close>

definition EnsureInternalToken ::
  "getenv \<Rightarrow> string option \<Rightarrow> save_fault option \<Rightarrow> store \<Rightarrow> (token_error + (string \<times> bool)) \<times> store" where
  "EnsureInternalToken env gen fault st =
     (if envInternalToken env \<noteq> [] then (Inr (envInternalToken env, False), st)
      else (case loadClusterRoot (s_doc st) of
              None \<Rightarrow> (Inl ReadError, st)
            | Some root \<Rightarrow>
                if internalTokenFromRoot root \<noteq> [] then (Inr (internalTokenFromRoot root, False), st)
                else (case gen of
                        None \<Rightarrow> (Inl RandomError, st)
                      | Some token \<Rightarrow>
                          (case saveInternalToken fault root token st of
                             (Inl err, st') \<Rightarrow> (Inl err, st')
                           | (Inr _, st') \<Rightarrow> (Inr (token, True), st')))))"

definition RotateInternalToken ::
  "getenv \<Rightarrow> string option \<Rightarrow> save_fault option \<Rightarrow> store \<Rightarrow> (token_error + string) \<times> store" where
  "RotateInternalToken env gen fault st =
     (if envInternalToken env \<noteq> [] then (Inl ManagedByEnvironment, st)
      else (case loadClusterRoot (s_doc st) of
              None \<Rightarrow> (Inl ReadError, st)
            | Some root \<Rightarrow>
                (case gen of
                   None \<Rightarrow> (Inl RandomError, st)
                 | Some token \<Rightarrow>
                     (case saveInternalToken fault root token st of
                        (Inl err, st') \<Rightarrow> (Inl err, st')
                      | (Inr _, st') \<Rightarrow> (Inr token, st')))))"

definition SetInternalToken :: "getenv \<Rightarrow> save_fault option \<Rightarrow> string \<Rightarrow> store \<Rightarrow> (token_error + unit) \<times> store" where
  "SetInternalToken env fault token st =
     (if envInternalToken env \<noteq> [] then (Inl ManagedByEnvironment, st)
      else if trim_space token = [] then (Inl TokenRequired, st)
      else (case loadClusterRoot (s_doc st) of
              None \<Rightarrow> (Inl ReadError, st)
            | Some root \<Rightarrow> saveInternalToken fault root (trim_space token) st))"

section \<open>Targets\<close>

definition clusterConfigMap :: "gomap \<Rightarrow> gomap option" where
  "clusterConfigMap root =
     (case mapFromAny (mget root ''clusterConfig'') of
        Some cfg \<Rightarrow> Some cfg
      | None \<Rightarrow> if fmlookup root ''type'' \<noteq> None then Some root else None)"

fun target_loop :: "string list \<Rightarrow> goval list \<Rightarrow> string list" where
  "target_loop seen [] = []"
| "target_loop seen (raw # rawHosts) =
     (case as_map raw of
        None \<Rightarrow> target_loop seen rawHosts
      | Some host \<Rightarrow>
          (let target = clusterString (mget host ''ablecube'')
           in if target = [] \<or> target \<in> set seen then target_loop seen rawHosts
              else target # target_loop (target # seen) rawHosts))"

definition ClusterAblecubeTargets :: "store \<Rightarrow> token_error + string list" where
  "ClusterAblecubeTargets st =
     (case loadClusterRoot (s_doc st) of
        None \<Rightarrow> Inl ReadError
      | Some root \<Rightarrow>
          (case clusterConfigMap root of
             None \<Rightarrow> Inr []
           | Some cfg \<Rightarrow>
               (case as_list (mget cfg ''hosts'') of
                  None \<Rightarrow> Inr []
                | Some rawHosts \<Rightarrow> Inr (target_loop [] rawHosts))))"


section \<open>The token through normalisation\<close>

lemma clusterString_VStr [simp]: "clusterString (VStr t) = trim_space t"
  by (simp add: clusterString_def)

lemma envInternalToken_trimmed [simp]: "trim_space (envInternalToken env) = envInternalToken env"
  by (simp add: envInternalToken_def)

lemma clusterString_trimmed [simp]: "trim_space (clusterString v) = clusterString v"
  by (auto simp: clusterString_def split: goval.splits)

lemma internalTokenFromRoot_trimmed [simp]: "trim_space (internalTokenFromRoot root) = internalTokenFromRoot root"
  by (simp add: internalTokenFromRoot_def split: option.splits)

lemma GetInternalToken_trimmed: "GetInternalToken env st = Inr t \<Longrightarrow> trim_space t = t"
  by (auto simp: GetInternalToken_def split: if_splits option.splits)

text \<open>A string token at the root survives a load.\<close>

lemma normalize_keeps_token:
  assumes "fmlookup root ''security'' = Some (VMap sec)" and "mget sec ''internal_token'' = VStr t" and "t \<noteq> []"
  shows "internalTokenFromRoot (NormalizeClusterJSON root) = trim_space t"
proof (cases "as_map (mget root ''clusterConfig'')")
  case None
  with assms show ?thesis by (simp add: NormalizeClusterJSON_def internalTokenFromRoot_def mget_def [of root])
next
  case (Some cfg)
  let ?r1 = "fmupd ''clusterConfig'' (orderedClusterConfig cfg) root"
  have "submap ?r1 ''security'' = sec" using assms(1) by (simp add: submap_def mget_def)
  then have "submap (fst (collect_profile ?r1)) ''security'' = sec"
    using assms(2,3) by (simp add: fst_collect_profile_security inherit_token_def split: option.splits)
  moreover have "fmlookup sec ''internal_token'' = Some (VStr t)"
    using assms(2) by (simp add: mget_def split: option.splits)
  ultimately show ?thesis
    by (simp add: internalTokenFromRoot_def mget_def [of "NormalizeClusterJSON root"] fmlookup_normalized [OF Some] Let_def
        default_token_def assms(2))
qed

lemma stored_token:
  assumes "trim_space t \<noteq> []"
  shows "internalTokenFromRoot (NormalizeClusterJSON (stored (edit_map ''security'' (puts ''internal_token'' (trim_space t))
    (NormalizeClusterJSON root)))) = trim_space t"
proof -
  let ?r = "edit_map ''security'' (puts ''internal_token'' (trim_space t)) (NormalizeClusterJSON root)"
  have "as_map (mget (NormalizeClusterJSON root) ''clusterConfig'') = None"
  proof (cases "as_map (mget root ''clusterConfig'')")
    case None
    then show ?thesis by (simp add: NormalizeClusterJSON_def)
  next
    case (Some cfg)
    obtain fs where "orderedClusterConfig cfg = VRec fs" using orderedClusterConfig_VRec by blast
    then show ?thesis by (simp add: mget_def fmlookup_normalized [OF Some] Let_def)
  qed
  then have "stored ?r = fmmap reload ?r" by (simp add: stored_def NormalizeClusterJSON_def)
  moreover have "internalTokenFromRoot (NormalizeClusterJSON (fmmap reload ?r)) = trim_space (trim_space t)"
    using assms
    by (intro normalize_keeps_token [where sec = "fmmap reload (puts ''internal_token'' (trim_space t)
      (submap (NormalizeClusterJSON root) ''security''))"]) (simp_all del: fmmap_fmupd)
  ultimately show ?thesis by simp
qed

lemma loaded_normalized: "loadClusterRoot doc = Some root \<Longrightarrow> \<exists>r. root = NormalizeClusterJSON r"
  by (auto simp: loadClusterRoot_def split: doc_state.splits)

section \<open>The store contract\<close>

text \<open>
  A token store promises that a saved token is the one the next load returns. Validation against
  such a store accepts exactly the saved token, so a rotation revokes every other token.
\<close>

locale token_store =
  fixes load :: "'st \<Rightarrow> string option" and save :: "string \<Rightarrow> 'st \<Rightarrow> 'st option"
  assumes save_load: "trim_space t \<noteq> [] \<Longrightarrow> save t st = Some st' \<Longrightarrow> load st' = Some (trim_space t)"
begin

definition accepts :: "'st \<Rightarrow> string \<Rightarrow> bool" where
  "accepts st actual \<longleftrightarrow>
     (case load st of None \<Rightarrow> False | Some t \<Rightarrow> trim_space t \<noteq> [] \<and> trim_space actual = trim_space t)"

lemma accepts_saved:
  "trim_space t \<noteq> [] \<Longrightarrow> save t st = Some st' \<Longrightarrow> accepts st' actual \<longleftrightarrow> trim_space actual = trim_space t"
  using save_load [of t st st'] by (simp add: accepts_def)

lemma revokes:
  "trim_space t \<noteq> [] \<Longrightarrow> save t st = Some st' \<Longrightarrow> trim_space old \<noteq> trim_space t \<Longrightarrow> \<not> accepts st' old"
  by (simp add: accepts_saved)

lemma last_save_wins:
  "trim_space t \<noteq> [] \<Longrightarrow> trim_space u \<noteq> [] \<Longrightarrow> save t st = Some st' \<Longrightarrow> save u st' = Some st'' \<Longrightarrow>
     accepts st'' actual \<longleftrightarrow> trim_space actual = trim_space u"
  by (simp add: accepts_saved)

end

definition load_token :: "store \<Rightarrow> string option" where
  "load_token st = map_option internalTokenFromRoot (loadClusterRoot (s_doc st))"

definition save_token :: "string \<Rightarrow> store \<Rightarrow> store option" where
  "save_token t st =
     (case loadClusterRoot (s_doc st) of
        None \<Rightarrow> None
      | Some root \<Rightarrow> (case saveInternalToken None root t st of (Inr _, st') \<Rightarrow> Some st' | _ \<Rightarrow> None))"

interpretation cluster_store: token_store load_token save_token
proof unfold_locales
  fix t st st'
  assume t: "trim_space t \<noteq> []" and "save_token t st = Some st'"
  then obtain root where root: "loadClusterRoot (s_doc st) = Some root"
      "s_doc st' = Doc (stored (edit_map ''security'' (puts ''internal_token'' (trim_space t)) root))"
    by (auto simp: save_token_def saveInternalToken_def saveClusterRoot_def Let_def split: option.splits)
  moreover obtain r where "root = NormalizeClusterJSON r" using loaded_normalized [OF root(1)] by blast
  ultimately show "load_token st' = Some (trim_space t)"
    by (simp add: load_token_def loadClusterRoot_def stored_token [OF t])
qed

text \<open>Validation without a token in the environment is acceptance by the store.\<close>

lemma validate_accepts:
  "envInternalToken env = [] \<Longrightarrow> ValidateInternalToken env actual st \<longleftrightarrow> cluster_store.accepts st actual"
  by (auto simp: ValidateInternalToken_def GetInternalToken_def cluster_store.accepts_def load_token_def Let_def
      split: option.splits)

lemma save_token_ok:
  "loadClusterRoot (s_doc st) = Some root \<Longrightarrow> saveInternalToken None root t st = (Inr (), st') \<Longrightarrow> save_token t st = Some st'"
  by (simp add: save_token_def)

lemma save_succeeds:
  "fst (saveInternalToken fault root t st) = Inr u \<Longrightarrow> fault = None"
  by (auto simp: saveInternalToken_def saveClusterRoot_def Let_def split: option.splits save_fault.splits)

lemma target_loop_spec:
  "target_loop seen raws =
     filter (\<lambda>t. t \<notin> set seen)
       (first_occ (filter (\<lambda>t. t \<noteq> []) (map (\<lambda>h. clusterString (mget h ''ablecube'')) (List.map_filter as_map raws))))"
proof (induction seen raws rule: target_loop.induct)
  case (2 seen raw raws)
  show ?case
  proof (cases "as_map raw")
    case None
    with 2(1) show ?thesis by (simp add: List.map_filter_simps)
  next
    case (Some host)
    then show ?thesis
      using 2(2) [OF Some refl] 2(3) [OF Some refl]
      by (auto simp: List.map_filter_simps Let_def intro!: filter_cong)
  qed
qed (simp add: List.map_filter_simps)


section \<open>Properties\<close>

text \<open>
  A rotation that succeeds makes the new token the only one that validates: exactly the
  strings that trim to it are accepted afterwards, so every earlier token is revoked.
\<close>

theorem RotateInternalToken_revokes:
  assumes "gen = Some token" and "trim_space token \<noteq> []" and "RotateInternalToken env gen fault st = (Inr t, st')"
  shows "t = token \<and> s_private st' \<and> (ValidateInternalToken env actual st' \<longleftrightarrow> trim_space actual = trim_space token)"
proof -
  obtain root where root: "envInternalToken env = []" "loadClusterRoot (s_doc st) = Some root" "t = token"
      "\<exists>u. saveInternalToken fault root token st = (Inr u, st')"
    using assms(1,3) by (auto simp: RotateInternalToken_def split: if_splits option.splits prod.splits sum.splits)
  with save_succeeds [of fault root token st] have save: "saveInternalToken None root token st = (Inr (), st')" by auto
  then have "s_private st'" by (auto simp: saveInternalToken_def saveClusterRoot_def Let_def)
  with root cluster_store.accepts_saved [OF assms(2) save_token_ok [OF root(2) save]] validate_accepts [OF root(1)]
  show ?thesis by simp
qed

definition sample_store :: "gomap \<Rightarrow> store" where
  "sample_store root = \<lparr>s_doc = Doc root, s_tmp = False, s_private = False\<rparr>"

lemma no_env: "envInternalToken (\<lambda>_. []) = []"
  by (simp add: envInternalToken_def)

theorem RotateInternalToken_revokes_witness:
  "\<exists>st'. RotateInternalToken (\<lambda>_. []) (Some ''new-token'') None (sample_store (sample_root ''ablestack-hci'')) = (Inr ''new-token'', st')
     \<and> ValidateInternalToken (\<lambda>_. []) ''new-token'' st' \<and> \<not> ValidateInternalToken (\<lambda>_. []) ''tok'' st'"
proof -
  obtain st' where st': "RotateInternalToken (\<lambda>_. []) (Some ''new-token'') None (sample_store (sample_root ''ablestack-hci'')) = (Inr ''new-token'', st')"
    by (simp add: RotateInternalToken_def no_env sample_store_def loadClusterRoot_def saveInternalToken_def saveClusterRoot_def)
  have trim: "trim_space ''new-token'' = ''new-token''" "trim_space ''tok'' = ''tok''" by code_simp+
  then show ?thesis
    using RotateInternalToken_revokes [OF refl _ st', of "''new-token''"] RotateInternalToken_revokes [OF refl _ st', of "''tok''"] st'
    by simp
qed

text \<open>
  Ensuring the token is stable: a call that returned a token is followed by calls that return
  the same token, report that nothing was created and change nothing, and validation accepts it.
\<close>

theorem EnsureInternalToken_stable:
  assumes "EnsureInternalToken env gen fault st = (Inr (t, created), st')"
    and "\<And>token. gen = Some token \<Longrightarrow> trim_space token = token \<and> token \<noteq> []"
  shows "EnsureInternalToken env gen' fault' st' = (Inr (t, False), st') \<and> ValidateInternalToken env t st'"
proof (cases "envInternalToken env = []")
  case False
  with assms(1) show ?thesis
    by (auto simp: EnsureInternalToken_def ValidateInternalToken_def GetInternalToken_def)
next
  case True
  with assms(1) obtain root where root: "loadClusterRoot (s_doc st) = Some root"
    by (auto simp: EnsureInternalToken_def split: option.splits)
  have "load_token st' = Some t \<and> t \<noteq> [] \<and> trim_space t = t"
  proof (cases "internalTokenFromRoot root = []")
    case False
    with True assms(1) root show ?thesis by (auto simp: EnsureInternalToken_def load_token_def)
  next
    case empty: True
    with True assms(1) root have gen: "gen = Some t" and "\<exists>u. saveInternalToken fault root t st = (Inr u, st')"
      by (auto simp: EnsureInternalToken_def split: option.splits prod.splits sum.splits)
    with save_succeeds [of fault root t st] have save: "saveInternalToken None root t st = (Inr (), st')" by auto
    with gen assms(2) [of t] show ?thesis
      using cluster_store.save_load [OF _ save_token_ok [OF root save]] by simp
  qed
  with True show ?thesis
    by (auto simp: EnsureInternalToken_def load_token_def ValidateInternalToken_def GetInternalToken_def)
qed

theorem EnsureInternalToken_stable_witness:
  "\<exists>st'. EnsureInternalToken (\<lambda>_. []) (Some ''fresh'') None (sample_store fmempty) = (Inr (''fresh'', True), st')
     \<and> EnsureInternalToken (\<lambda>_. []) (Some ''other'') None st' = (Inr (''fresh'', False), st')"
proof -
  have "internalTokenFromRoot (NormalizeClusterJSON fmempty) = []"
    by (simp add: NormalizeClusterJSON_def internalTokenFromRoot_def)
  then obtain st' where st': "EnsureInternalToken (\<lambda>_. []) (Some ''fresh'') None (sample_store fmempty) = (Inr (''fresh'', True), st')"
    by (simp add: EnsureInternalToken_def no_env sample_store_def loadClusterRoot_def saveInternalToken_def saveClusterRoot_def)
  have "trim_space ''fresh'' = ''fresh''" by code_simp
  then show ?thesis
    using EnsureInternalToken_stable [OF st', of "Some ''other''" None] st' by simp
qed

text \<open>
  Validation fails closed: a token is accepted exactly when the expected token can be read, is
  not blank and equals the presented one after trimming; a blank presented token, an unreadable or
  undecodable document and a document without a token accept nothing.
\<close>

theorem ValidateInternalToken_exact:
  "(ValidateInternalToken env actual st \<longleftrightarrow>
      (\<exists>expected. GetInternalToken env st = Inr expected \<and> expected \<noteq> [] \<and> trim_space actual = expected))
   \<and> \<not> ValidateInternalToken env [] st"
proof -
  have "trim_space expected = expected" if "GetInternalToken env st = Inr expected" for expected
    using that by (rule GetInternalToken_trimmed)
  then show ?thesis by (auto simp: ValidateInternalToken_def Let_def split: sum.splits)
qed

text \<open>
  A save is atomic: whichever step fails, the document on disk is either the old one or the
  complete new one, and it is the new one exactly if the failure came after the rename or there
  was none.
\<close>

theorem saveClusterRoot_atomic:
  "s_doc (snd (saveClusterRoot fault root st)) =
     (if fault = None \<or> fault = Some ChmodFault then Doc (stored root) else s_doc st)
   \<and> (fst (saveClusterRoot fault root st) = Inr () \<longleftrightarrow> fault = None)"
  by (auto simp: saveClusterRoot_def Let_def split: option.splits save_fault.splits)

text \<open>
  Masking shows at most the last four characters of a token, and nothing of a token of up to
  four characters: the masked form of a token that is not blank is four stars and a suffix.
\<close>

theorem MaskToken_reveals:
  assumes "trim_space token \<noteq> []"
  shows "\<exists>hidden shown. trim_space token = hidden @ shown \<and> MaskToken token = ''****'' @ shown \<and> length shown \<le> 4
     \<and> (length (trim_space token) \<le> 4 \<longrightarrow> shown = []) \<and> (length (trim_space token) > 4 \<longrightarrow> length shown = 4)"
proof (cases "length (trim_space token) \<le> 4")
  case True
  with assms show ?thesis by (intro exI [of _ "trim_space token"] exI [of _ "[]"]) (simp add: MaskToken_def)
next
  case False
  let ?n = "length (trim_space token) - 4"
  show ?thesis
    using False assms
    by (intro exI [of _ "take ?n (trim_space token)"] exI [of _ "drop ?n (trim_space token)"]) (simp add: MaskToken_def Let_def)
qed

theorem MaskToken_reveals_witness:
  "MaskToken ''abcdefgh'' = ''****efgh''
   \<and> (\<exists>hidden shown. trim_space ''abcdefgh'' = hidden @ shown \<and> MaskToken ''abcdefgh'' = ''****'' @ shown \<and> length shown \<le> 4)"
proof -
  have "trim_space ''abcdefgh'' = ''abcdefgh''" "MaskToken ''abcdefgh'' = ''****efgh''" by code_simp+
  then show ?thesis using MaskToken_reveals [of "''abcdefgh''"] by auto
qed

text \<open>
  The fan-out targets of a readable configuration are the addresses of its hosts, without
  blanks and duplicates, in the order of their first occurrence.
\<close>

theorem ClusterAblecubeTargets_exact:
  assumes "s_doc st = Doc root" and "as_map (mget root ''clusterConfig'') = Some cfg"
  shows "ClusterAblecubeTargets st = Inr (clean_list (map (\<lambda>h. gets h ''ablecube'') (getHosts cfg)))"
proof -
  let ?n = "NormalizeClusterJSON root"
  have "mget ?n ''clusterConfig'' = orderedClusterConfig cfg"
    by (simp add: mget_def fmlookup_normalized [OF assms(2)] Let_def)
  moreover obtain fs where "orderedClusterConfig cfg = VRec fs" using orderedClusterConfig_VRec by blast
  ultimately have "clusterConfigMap ?n = Some (stored_cfg cfg)"
    by (simp add: clusterConfigMap_def mapFromAny_def)
  moreover have "List.map_filter as_map (map reload (buildOrderedHosts cfg)) = getHosts (stored_cfg cfg)"
    by (simp add: getHosts_def mget_stored_cfg)
  moreover have "map (\<lambda>h. clusterString (mget h ''ablecube'')) (getHosts (stored_cfg cfg)) =
      map trim_space (map (\<lambda>h. gets h ''ablecube'') (getHosts cfg))"
    by (auto simp: getHosts_stored buildOrderedHosts_def orderedHostHCI_def orderedHostVM_def mget_fields simp del: list.map)
  ultimately show ?thesis
    using assms(1) by (simp add: ClusterAblecubeTargets_def loadClusterRoot_def mget_stored_cfg target_loop_spec clean_list_def)
qed

theorem ClusterAblecubeTargets_exact_witness:
  "ClusterAblecubeTargets (sample_store (sample_root ''ablestack-hci'')) = Inr [''10.0.0.1'']"
proof -
  have "getHosts (sample_cfg ''ablestack-hci'') = [sample_host]" "gets sample_host ''ablecube'' = ''10.0.0.1''"
    by (simp_all add: sample_cfg_def getHosts_def List.map_filter_def sample_host_def)
  moreover have "clean_list [''10.0.0.1''] = [''10.0.0.1'']" by code_simp
  ultimately show ?thesis
    using ClusterAblecubeTargets_exact [of "sample_store (sample_root ''ablestack-hci'')" "sample_root ''ablestack-hci''"
        "sample_cfg ''ablestack-hci''"]
    by (simp add: sample_store_def sample_root_def)
qed

text \<open>
  The two readers of the token disagree on a document whose security section has no token: the
  security service reads no token, the cluster configuration service sends the text
  \<^verbatim>\<open><nil>\<close>.
\<close>

theorem readInternalToken_nil:
  assumes "envInternalToken env = []" and "s_doc st = Doc root" and "as_map (mget root ''clusterConfig'') = None"
    and "as_map (mget root ''security'') = Some sec" and "fmlookup sec ''internal_token'' = None"
  shows "GetInternalToken env st = Inr [] \<and> readInternalToken env st = ''<nil>''"
proof -
  have "trim_space ''<nil>'' = ''<nil>''" by code_simp
  moreover have "trim_space (env ''CUBE_INTERNAL_TOKEN'') = [] \<and> trim_space (env ''ABLESTACK_INTERNAL_TOKEN'') = []"
    using assms(1) by (simp add: envInternalToken_def split: if_splits)
  ultimately show ?thesis
    using assms
    by (simp add: GetInternalToken_def readInternalToken_def loadClusterRoot_def NormalizeClusterJSON_def
        internalTokenFromRoot_def mget_def [of sec] clusterString_def)
qed

theorem readInternalToken_nil_witness:
  "readInternalToken (\<lambda>_. []) (sample_store (fmupd ''security'' (VMap fmempty) fmempty)) = ''<nil>''"
  using readInternalToken_nil [of "\<lambda>_. []" "sample_store (fmupd ''security'' (VMap fmempty) fmempty)"
      "fmupd ''security'' (VMap fmempty) fmempty" fmempty]
  by (simp add: no_env sample_store_def)

end
