(* ===== verification/Go_Base64.thy ===== *)
theory Go_Base64
  imports Go_Prelude
begin

text \<open>
  \<^verbatim>\<open>encoding/base64\<close> on byte strings: the raw URL encoding of the access tokens and the
  padded standard encoding of the licence files. Decoding skips line breaks and ignores the unused
  bits of the last character, as the Go decoder does.
\<close>

definition url_alphabet :: string where
  "url_alphabet = ''ABCDEFGHIJKLMNOPQRSTUVWXYZabcdefghijklmnopqrstuvwxyz0123456789-_''"

definition std_alphabet :: string where
  "std_alphabet = ''ABCDEFGHIJKLMNOPQRSTUVWXYZabcdefghijklmnopqrstuvwxyz0123456789+/''"

abbreviation byte :: "char \<Rightarrow> nat" where
  "byte c \<equiv> of_char c"

abbreviation byte_char :: "nat \<Rightarrow> char" where
  "byte_char n \<equiv> char_of n"

fun sextets :: "string \<Rightarrow> nat list" where
  "sextets [] = []"
| "sextets [a] = [byte a div 4, byte a mod 4 * 16]"
| "sextets [a, b] = [byte a div 4, byte a mod 4 * 16 + byte b div 16, byte b mod 16 * 4]"
| "sextets (a # b # c # s) =
     [byte a div 4, byte a mod 4 * 16 + byte b div 16, byte b mod 16 * 4 + byte c div 64, byte c mod 64] @ sextets s"

fun unsextets :: "nat list \<Rightarrow> string option" where
  "unsextets [] = Some []"
| "unsextets [w] = None"
| "unsextets [w, x] = Some [byte_char (w * 4 + x div 16)]"
| "unsextets [w, x, y] = Some [byte_char (w * 4 + x div 16), byte_char (x mod 16 * 16 + y div 4)]"
| "unsextets (w # x # y # z # ns) =
     map_option (\<lambda>s. [byte_char (w * 4 + x div 16), byte_char (x mod 16 * 16 + y div 4), byte_char (y mod 4 * 64 + z)] @ s)
       (unsextets ns)"

fun index_of :: "'a \<Rightarrow> 'a list \<Rightarrow> nat option" where
  "index_of x [] = None"
| "index_of x (y # ys) = (if x = y then Some 0 else map_option Suc (index_of x ys))"

fun letters_to :: "string \<Rightarrow> string \<Rightarrow> nat list option" where
  "letters_to alphabet [] = Some []"
| "letters_to alphabet (c # s) =
     (case (index_of c alphabet, letters_to alphabet s) of (Some n, Some ns) \<Rightarrow> Some (n # ns) | _ \<Rightarrow> None)"

definition no_breaks :: "string \<Rightarrow> string" where
  "no_breaks s = filter (\<lambda>c. c \<noteq> CHR 0x0A \<and> c \<noteq> CHR 0x0D) s"

definition raw_url_encode :: "string \<Rightarrow> string" where
  "raw_url_encode s = map (\<lambda>n. url_alphabet ! n) (sextets s)"

definition raw_url_decode :: "string \<Rightarrow> string option" where
  "raw_url_decode s = Option.bind (letters_to url_alphabet (no_breaks s)) unsextets"

definition std_encode :: "string \<Rightarrow> string" where
  "std_encode s =
     map (\<lambda>n. std_alphabet ! n) (sextets s)
     @ (if length s mod 3 = 1 then ''=='' else if length s mod 3 = 2 then ''='' else [])"

text \<open>The padding has to complete the last group of four.\<close>

definition std_decode :: "string \<Rightarrow> string option" where
  "std_decode s =
     (let t = no_breaks s;
          body = (if has_suffix t ''=='' then take (length t - 2) t
                  else if has_suffix t ''='' then take (length t - 1) t else t)
      in if length t mod 4 \<noteq> 0 then None
         else Option.bind (letters_to std_alphabet body) unsextets)"

section \<open>Facts\<close>

lemma byte_less [simp]: "byte c < 256"
  using nat_of_char_less_256 [of c] by simp

lemma sextet_bounds:
  "byte a div 4 < 64" "byte a div 16 < 16" "byte a div 64 < 4"
  "byte a mod 4 * 16 < 64" "byte a mod 16 * 4 < 64"
  "n < 16 \<Longrightarrow> byte a mod 4 * 16 + n < 64" "m < 4 \<Longrightarrow> byte a mod 16 * 4 + m < 64"
  using byte_less [of a] mod_less_divisor [of 4 "byte a"] mod_less_divisor [of 16 "byte a"]
  by (simp_all add: div_less_iff_less_mult del: mod_less_divisor)

lemma sextets_bound: "\<forall>n \<in> set (sextets s). n < 64"
  by (induction s rule: sextets.induct) (simp_all add: sextet_bounds)

lemma char_join:
  "byte_char (byte a div 4 * 4 + (byte a mod 4 * 16 + n) div 16) = a" if "n < 16"
proof -
  have "byte a div 4 * 4 + (byte a mod 4 * 16 + n) div 16 = byte a" using that by simp
  then show ?thesis by simp
qed

lemma char_join2:
  "byte_char ((byte a mod 4 * 16 + byte b div 16) mod 16 * 16 + (byte b mod 16 * 4 + n) div 4) = b" if "n < 4"
proof -
  have "byte b div 16 < 16" by (simp add: div_less_iff_less_mult)
  then have "(byte a mod 4 * 16 + byte b div 16) mod 16 * 16 + (byte b mod 16 * 4 + n) div 4 = byte b"
    using that by simp
  then show ?thesis by simp
qed

lemma char_join3: "byte_char ((byte b mod 16 * 4 + byte c div 64) mod 4 * 64 + byte c mod 64) = c"
proof -
  have "byte c div 64 < 4" by (simp add: div_less_iff_less_mult)
  then have "(byte b mod 16 * 4 + byte c div 64) mod 4 * 64 + byte c mod 64 = byte c" by simp
  then show ?thesis by simp
qed

lemma unsextets_sextets: "unsextets (sextets s) = Some s"
proof (induction s rule: sextets.induct)
  case (2 a)
  then show ?case using char_join [of 0 a] by simp
next
  case (3 a b)
  then show ?case using char_join [of "byte b div 16" a] char_join2 [of 0 a b] by (simp add: div_less_iff_less_mult)
next
  case (4 a b c s)
  then show ?case
    using char_join [of "byte b div 16" a] char_join2 [of "byte c div 64" a b] char_join3 [of b c]
    by (simp add: div_less_iff_less_mult)
qed simp

lemma index_of_nth: "distinct xs \<Longrightarrow> n < length xs \<Longrightarrow> index_of (xs ! n) xs = Some n"
proof (induction xs arbitrary: n)
  case (Cons x xs)
  then show ?case by (cases n) auto
qed simp

lemma letters_to_map:
  assumes "distinct alphabet" and "\<forall>n \<in> set ns. n < length alphabet"
  shows "letters_to alphabet (map (\<lambda>n. alphabet ! n) ns) = Some ns"
  using assms(2) by (induction ns) (auto simp: index_of_nth assms(1))

lemma alphabets:
  "distinct url_alphabet" "length url_alphabet = 64" "distinct std_alphabet" "length std_alphabet = 64"
  by code_simp+

lemma url_plain: "c \<in> set url_alphabet \<Longrightarrow> c \<noteq> CHR 0x0A \<and> c \<noteq> CHR 0x0D \<and> c \<noteq> CHR ''.''"
  by (auto simp: url_alphabet_def)

lemma raw_url_encode_chars: "set (raw_url_encode s) \<subseteq> set url_alphabet"
  using sextets_bound [of s] by (auto simp: raw_url_encode_def alphabets)

lemma no_dot_encode: "CHR ''.'' \<notin> set (raw_url_encode s)"
  using raw_url_encode_chars [of s] url_plain by blast

lemma raw_url_decode_encode [simp]: "raw_url_decode (raw_url_encode s) = Some s"
proof -
  have "no_breaks (raw_url_encode s) = raw_url_encode s"
    unfolding no_breaks_def using raw_url_encode_chars [of s] url_plain by (intro filter_True) blast
  then show ?thesis
    using letters_to_map [of url_alphabet "sextets s"] sextets_bound [of s]
    by (simp add: raw_url_decode_def alphabets raw_url_encode_def [symmetric] unsextets_sextets)
qed

lemma raw_url_encode_inj: "raw_url_encode s = raw_url_encode t \<longleftrightarrow> s = t"
  using raw_url_decode_encode by (metis option.inject)

end
