(* ===== verification/License_Service.thy ===== *)
theory License_Service
  imports Go_Base64
begin

text \<open>
  \<^verbatim>\<open>internal/service/licenseservice/license.go\<close>: the licence file of a node, its validation,
  its registration and the secret derived from it. The block cipher, the key derivation, the hash
  and the JSON decoding of the licence are parameters, as are the clock, the machine id and the
  operating system faults; base64, the padding, the dates and the file selection are modelled.
  Paths are given for a machine id that is a plain file name.
\<close>

section \<open>Data\<close>

record Info =
  LicenseKey :: string
  Issued :: string
  Expired :: string
  LicStatus :: string
  OEM :: string
  ProductName :: string
  ProductVersion :: string

record Status =
  Active :: bool
  StatusText :: string
  StExpired :: string
  StIssued :: string
  StOEM :: string
  FilePath :: string
  Message :: string

text \<open>The sentinel errors; \<open>ErrInvalid\<close> and \<open>OtherError\<close> carry what was wrapped.\<close>

datatype license_error =
    ErrNoLicense
  | ErrInvalid string
  | ErrExpired
  | ErrNotYetValid
  | ErrInactive
  | ErrLicenseKey
  | OtherError string

text \<open>The error text; a rejected date is reported by its value.\<close>

fun error_text :: "license_error \<Rightarrow> string" where
  "error_text ErrNoLicense = ''registered license not found''"
| "error_text (ErrInvalid s) = ''invalid license: '' @ s"
| "error_text ErrExpired = ''license expired''"
| "error_text ErrNotYetValid = ''license not yet valid''"
| "error_text ErrInactive = ''license inactive''"
| "error_text ErrLicenseKey = ''license_key required''"
| "error_text (OtherError s) = s"

record crypto =
  c_scrypt :: "nat \<Rightarrow> string option"
  c_cbc :: "string \<Rightarrow> string \<Rightarrow> string \<Rightarrow> string"
  c_info :: "string \<Rightarrow> Info option"
  c_hmac :: "string \<Rightarrow> string \<Rightarrow> string"

record license_dir =
  l_exists :: bool
  l_listable :: bool
  l_files :: "(string, string) fmap"
  l_subdirs :: "string list"

datatype register_fault = LMkdirFault | LWriteFault "string option" | LChmodFault | LRenameFault

section \<open>Dates\<close>

type_synonym date = "nat \<times> nat \<times> nat"

definition is_leap :: "nat \<Rightarrow> bool" where
  "is_leap y \<longleftrightarrow> y mod 4 = 0 \<and> (y mod 100 \<noteq> 0 \<or> y mod 400 = 0)"

definition days_in :: "nat \<Rightarrow> nat \<Rightarrow> nat" where
  "days_in m y = (if m = 2 then (if is_leap y then 29 else 28) else if m \<in> {4, 6, 9, 11} then 30 else 31)"

text \<open>\<^verbatim>\<open>time.ParseInLocation\<close> with the layout \<^verbatim>\<open>2006-01-02\<close>.\<close>

definition parse_date :: "string \<Rightarrow> date option" where
  "parse_date s =
     (case s of
        [a, b, c, d, x, e, f, y, g, h] \<Rightarrow>
          if list_all is_digit [a, b, c, d, e, f, g, h] \<and> x = CHR ''-'' \<and> y = CHR ''-''
          then (let year = parse_digits [a, b, c, d]; month = parse_digits [e, f]; day = parse_digits [g, h]
                in if 1 \<le> month \<and> month \<le> 12 \<and> 1 \<le> day \<and> day \<le> days_in month year then Some (year, month, day) else None)
          else None
      | _ \<Rightarrow> None)"

fun date_before :: "date \<Rightarrow> date \<Rightarrow> bool" where
  "date_before (y, m, d) (y', m', d') \<longleftrightarrow> y < y' \<or> y = y' \<and> (m < m' \<or> m = m' \<and> d < d')"

definition ValidateActive :: "date \<Rightarrow> Info \<Rightarrow> license_error + unit" where
  "ValidateActive today info =
     (if trim_space (LicenseKey info) = [] then Inl ErrLicenseKey
      else if Issued info = [] \<or> Expired info = [] then Inl (ErrInvalid ''issued or expired date missing'')
      else if trim_space (LicStatus info) \<noteq> [] \<and> \<not> equal_fold (trim_space (LicStatus info)) ''active'' then Inl ErrInactive
      else (case parse_date (Issued info) of
              None \<Rightarrow> Inl (ErrInvalid (Issued info))
            | Some issued \<Rightarrow>
                (case parse_date (Expired info) of
                   None \<Rightarrow> Inl (ErrInvalid (Expired info))
                 | Some expired \<Rightarrow>
                     if date_before today issued then Inl ErrNotYetValid
                     else if date_before expired today then Inl ErrExpired
                     else Inr ())))"

section \<open>Decoding\<close>

definition authSecretContext :: string where
  "authSecretContext = ''ablestack-api-auth-v1''"

definition DeriveAuthSecret :: "crypto \<Rightarrow> string \<Rightarrow> license_error + string" where
  "DeriveAuthSecret c licenseKey =
     (if trim_space licenseKey = [] then Inl ErrLicenseKey
      else Inr (raw_url_encode (c_hmac c (trim_space licenseKey) authSecretContext)))"

definition DecodeContent :: "string \<Rightarrow> license_error + string" where
  "DecodeContent encoded =
     (if trim_space encoded = [] then Inl (OtherError ''license content required'')
      else (case std_decode (trim_space encoded) of
              None \<Rightarrow> Inl (OtherError ''illegal base64 data'')
            | Some raw \<Rightarrow> Inr (trim_space raw)))"

definition pkcs7Unpad :: "string \<Rightarrow> nat \<Rightarrow> license_error + string" where
  "pkcs7Unpad data blockSize =
     (if length data = 0 \<or> length data mod blockSize \<noteq> 0 then Inl (OtherError ''invalid padding size'')
      else (let padLen = byte (last data)
            in if padLen = 0 \<or> padLen > blockSize \<or> padLen > length data then Inl (OtherError ''invalid padding'')
               else if list_all (\<lambda>v. byte v = padLen) (drop (length data - padLen) data)
               then Inr (take (length data - padLen) data)
               else Inl (OtherError ''invalid padding'')))"

definition DecryptInfo :: "crypto \<Rightarrow> string \<Rightarrow> license_error + Info" where
  "DecryptInfo c base64Content =
     (case (c_scrypt c 32, c_scrypt c 16) of
        (Some key, Some iv) \<Rightarrow>
          (case std_decode (trim_space base64Content) of
             None \<Rightarrow> Inl (OtherError ''illegal base64 data'')
           | Some encryptedBytes \<Rightarrow>
               if length key \<notin> {16, 24, 32} then Inl (OtherError ''invalid key size'')
               else if length encryptedBytes mod 16 \<noteq> 0 then Inl (OtherError ''invalid encrypted size'')
               else (case pkcs7Unpad (c_cbc c key iv encryptedBytes) 16 of
                       Inl err \<Rightarrow> Inl err
                     | Inr plain \<Rightarrow>
                         (case c_info c plain of None \<Rightarrow> Inl (OtherError ''invalid json'') | Some info \<Rightarrow> Inr info)))
      | _ \<Rightarrow> Inl (OtherError ''scrypt''))"

section \<open>The current licence\<close>

definition ReadMachineID :: "string option \<Rightarrow> license_error + string" where
  "ReadMachineID machine =
     (case machine of None \<Rightarrow> Inl (OtherError ''machine-id'') | Some raw \<Rightarrow> Inr (trim_space raw))"

definition license_path :: "string \<Rightarrow> string \<Rightarrow> string" where
  "license_path hostUUID name = ''/usr/share/'' @ hostUUID @ ''/'' @ name"

definition file_names :: "license_dir \<Rightarrow> string list" where
  "file_names dir = sorted_list_of_set (fset (fmdom (l_files dir)))"

definition selected_file :: "string option \<Rightarrow> license_dir \<Rightarrow> license_error + (string \<times> string)" where
  "selected_file machine dir =
     (case ReadMachineID machine of
        Inl err \<Rightarrow> Inl err
      | Inr hostUUID \<Rightarrow>
          if \<not> l_exists dir then Inl ErrNoLicense
          else if \<not> l_listable dir then Inl (OtherError ''read dir'')
          else if file_names dir = [] then Inl ErrNoLicense
          else Inr (hostUUID, last (sort (file_names dir))))"

definition CurrentLicenseFile :: "string option \<Rightarrow> license_dir \<Rightarrow> license_error + string" where
  "CurrentLicenseFile machine dir =
     (case selected_file machine dir of Inl err \<Rightarrow> Inl err | Inr (hostUUID, name) \<Rightarrow> Inr (license_path hostUUID name))"

definition CurrentInfo :: "crypto \<Rightarrow> string option \<Rightarrow> license_dir \<Rightarrow> license_error + (Info \<times> string)" where
  "CurrentInfo c machine dir =
     (case selected_file machine dir of
        Inl err \<Rightarrow> Inl err
      | Inr (hostUUID, name) \<Rightarrow>
          (case fmlookup (l_files dir) name of
             None \<Rightarrow> Inl (OtherError ''read file'')
           | Some raw \<Rightarrow>
               (case DecryptInfo c (trim_space raw) of
                  Inl err \<Rightarrow> Inl err
                | Inr info \<Rightarrow> Inr (info, license_path hostUUID name))))"

definition CurrentStatus :: "crypto \<Rightarrow> string option \<Rightarrow> date \<Rightarrow> license_dir \<Rightarrow> license_error + Status" where
  "CurrentStatus c machine today dir =
     (case CurrentInfo c machine dir of
        Inl err \<Rightarrow> Inl err
      | Inr (info, path) \<Rightarrow>
          (let status = \<lparr>Active = True, StatusText = ''active'', StExpired = Expired info, StIssued = Issued info,
                 StOEM = OEM info, FilePath = path, Message = []\<rparr>
           in case ValidateActive today info of
                Inr _ \<Rightarrow> Inr status
              | Inl err \<Rightarrow> Inr (status\<lparr>Active := False, StatusText := ''inactive'', Message := error_text err\<rparr>)))"

definition CurrentAuthSecret :: "crypto \<Rightarrow> string option \<Rightarrow> date \<Rightarrow> license_dir \<Rightarrow> license_error + string" where
  "CurrentAuthSecret c machine today dir =
     (case CurrentInfo c machine dir of
        Inl err \<Rightarrow> Inl err
      | Inr (info, path) \<Rightarrow>
          (case ValidateActive today info of Inl err \<Rightarrow> Inl err | Inr _ \<Rightarrow> DeriveAuthSecret c (LicenseKey info)))"

definition HasActiveLicense :: "crypto \<Rightarrow> string option \<Rightarrow> date \<Rightarrow> license_dir \<Rightarrow> bool" where
  "HasActiveLicense c machine today dir =
     (case CurrentAuthSecret c machine today dir of Inl _ \<Rightarrow> False | Inr _ \<Rightarrow> True)"

section \<open>Registration\<close>

text \<open>\<^verbatim>\<open>filepath.Base\<close>.\<close>

definition path_base :: "string \<Rightarrow> string" where
  "path_base path =
     (if path = [] then ''.''
      else (let stripped = trim_right_char CHR ''/'' path
            in if stripped = [] then ''/'' else last (split_on CHR ''/'' stripped)))"

definition temp_name :: "string \<Rightarrow> nat \<Rightarrow> string" where
  "temp_name filename nano = ''.'' @ filename @ ''.tmp.'' @ show_nat nano"

text \<open>
  \<open>keep\<close> names the entries the operating system does not let the service remove. The rename
  fails if the name is that of a directory; \<^verbatim>\<open>/\<close> names the licence directory itself.
\<close>

definition write_license ::
  "register_fault option \<Rightarrow> (string \<Rightarrow> bool) \<Rightarrow> nat \<Rightarrow> string \<Rightarrow> string \<Rightarrow> license_dir \<Rightarrow> (license_error + unit) \<times> license_dir" where
  "write_license fault keep nano filename content dir =
     (case fault of
        Some (LWriteFault left) \<Rightarrow>
          (Inl (OtherError ''write''),
           (case left of None \<Rightarrow> dir | Some part \<Rightarrow> dir\<lparr>l_files := fmupd (temp_name filename nano) part (l_files dir)\<rparr>))
      | Some LChmodFault \<Rightarrow> (Inl (OtherError ''chmod''), dir\<lparr>l_files := fmdrop (temp_name filename nano) (l_files dir)\<rparr>)
      | _ \<Rightarrow>
          if fault = Some LRenameFault \<or> filename = ''/'' \<or> filename \<in> set (l_subdirs dir)
          then (Inl (OtherError ''rename''), dir\<lparr>l_files := fmdrop (temp_name filename nano) (l_files dir)\<rparr>)
          else (let files = fmupd filename content (fmdrop (temp_name filename nano) (l_files dir))
                in (Inr (), dir\<lparr>l_files := if l_listable dir then fmfilter (\<lambda>name. name = filename \<or> keep name) files else files\<rparr>)))"

definition Register ::
  "crypto \<Rightarrow> string option \<Rightarrow> date \<Rightarrow> register_fault option \<Rightarrow> (string \<Rightarrow> bool) \<Rightarrow> nat \<Rightarrow> string \<Rightarrow> string \<Rightarrow> license_dir
     \<Rightarrow> (license_error + Status) \<times> license_dir" where
  "Register c machine today fault keep nano encodedContent filename dir =
     (case DecodeContent encodedContent of
        Inl err \<Rightarrow> (Inl (ErrInvalid (error_text err)), dir)
      | Inr licenseContent \<Rightarrow>
          (case DecryptInfo c licenseContent of
             Inl err \<Rightarrow> (Inl (ErrInvalid (error_text err)), dir)
           | Inr info \<Rightarrow>
               (case ValidateActive today info of
                  Inl err \<Rightarrow> (Inl err, dir)
                | Inr _ \<Rightarrow>
                    (case ReadMachineID machine of
                       Inl err \<Rightarrow> (Inl err, dir)
                     | Inr hostUUID \<Rightarrow>
                         if fault = Some LMkdirFault then (Inl (OtherError ''mkdir''), dir)
                         else (let dir1 = dir\<lparr>l_exists := True\<rparr>; trimmed = trim_space filename;
                                   name = (if trimmed \<noteq> [] then path_base trimmed else trimmed)
                               in if name = [] \<or> name = ''.'' \<or> name = ''..''
                                  then (Inl (OtherError ''license filename required''), dir1)
                                  else (case write_license fault keep nano name licenseContent dir1 of
                                          (Inl err, dir2) \<Rightarrow> (Inl err, dir2)
                                        | (Inr _, dir2) \<Rightarrow>
                                            (Inr \<lparr>Active = True, StatusText = ''active'', StExpired = Expired info,
                                               StIssued = Issued info, StOEM = OEM info, FilePath = license_path hostUUID name, Message = []\<rparr>, dir2)))))))"


section \<open>Facts\<close>

lemma date_before_total: "\<not> date_before a b \<and> \<not> date_before b a \<longleftrightarrow> a = b"
  by (cases a, cases b) auto

lemma write_license_ok:
  assumes "write_license fault keep nano name content dir = (Inr u, dir')" and "l_listable dir"
    and "\<And>n. \<not> keep n"
  shows "l_files dir' = fmupd name content fmempty \<and> l_listable dir' \<and> l_exists dir' = l_exists dir"
proof -
  have "fmfilter (\<lambda>n. n = name) (fmupd name content m) = fmupd name content fmempty" for m
    by (rule fmap_ext) auto
  with assms show ?thesis
    by (auto simp: write_license_def Let_def split: option.splits register_fault.splits if_splits)
qed

lemma Register_steps:
  assumes "Register c machine today fault keep nano encoded filename dir = (Inr st, dir')"
  shows "\<exists>content info uuid name. DecodeContent encoded = Inr content \<and> DecryptInfo c content = Inr info
     \<and> ValidateActive today info = Inr () \<and> ReadMachineID machine = Inr uuid
     \<and> write_license fault keep nano name content (dir\<lparr>l_exists := True\<rparr>) = (Inr (), dir')
     \<and> FilePath st = license_path uuid name"
  using assms
  by (auto simp: Register_def Let_def split: sum.splits prod.splits if_splits)

lemma DecodeContent_trimmed: "DecodeContent encoded = Inr content \<Longrightarrow> trim_space content = content"
  by (auto simp: DecodeContent_def split: if_splits option.splits)

lemma selected_single:
  assumes "l_files dir = fmupd name content fmempty" and "l_exists dir" and "l_listable dir" and "ReadMachineID machine = Inr uuid"
  shows "selected_file machine dir = Inr (uuid, name)"
  using assms by (simp add: selected_file_def file_names_def)

section \<open>Properties\<close>

text \<open>
  A licence is active exactly if its key is not blank, its status is blank or
  \<^verbatim>\<open>active\<close> in any case, both dates are calendar dates and today lies between them, both
  ends included.
\<close>

theorem ValidateActive_exact:
  "ValidateActive today info = Inr () \<longleftrightarrow>
     trim_space (LicenseKey info) \<noteq> []
     \<and> (trim_space (LicStatus info) = [] \<or> equal_fold (trim_space (LicStatus info)) ''active'')
     \<and> (\<exists>issued expired. parse_date (Issued info) = Some issued \<and> parse_date (Expired info) = Some expired
          \<and> (issued = today \<or> date_before issued today) \<and> (today = expired \<or> date_before today expired))"
proof -
  have "\<not> date_before a b \<longleftrightarrow> b = a \<or> date_before b a" for a b
    by (cases a, cases b) auto
  moreover have "parse_date [] = None" by (simp add: parse_date_def)
  ultimately show ?thesis by (auto simp: ValidateActive_def split: option.splits)
qed

text \<open>
  Removing the padding succeeds exactly on data of whole blocks that ends in \<open>n\<close> bytes of
  value \<open>n\<close>, with \<open>n\<close> between one and the block size, and returns what precedes them.
\<close>

theorem pkcs7Unpad_exact:
  "pkcs7Unpad data 16 = Inr body \<longleftrightarrow>
     (\<exists>n. 1 \<le> n \<and> n \<le> 16 \<and> data = body @ replicate n (byte_char n) \<and> length data mod 16 = 0)"
proof
  assume *: "pkcs7Unpad data 16 = Inr body"
  let ?n = "byte (last data)"
  from * have n: "data \<noteq> []" "length data mod 16 = 0" "1 \<le> ?n" "?n \<le> 16" "?n \<le> length data"
    "body = take (length data - ?n) data" "\<forall>v \<in> set (drop (length data - ?n) data). byte v = ?n"
    by (auto simp: pkcs7Unpad_def Let_def list_all_iff split: if_splits)
  then have "\<forall>v \<in> set (drop (length data - ?n) data). v = byte_char ?n" by (metis char_of_char)
  then have pad: "drop (length data - ?n) data = replicate ?n (byte_char ?n)"
    using n(5) by (intro replicate_eqI) auto
  have "data = body @ replicate ?n (byte_char ?n)"
    unfolding n(6) by (subst pad [symmetric]) (rule append_take_drop_id [symmetric])
  then show "\<exists>n. 1 \<le> n \<and> n \<le> 16 \<and> data = body @ replicate n (byte_char n) \<and> length data mod 16 = 0"
    by (intro exI [of _ ?n] conjI n(2-4))
next
  assume "\<exists>n. 1 \<le> n \<and> n \<le> 16 \<and> data = body @ replicate n (byte_char n) \<and> length data mod 16 = 0"
  then obtain n where n: "1 \<le> n" "n \<le> 16" "data = body @ replicate n (byte_char n)" "length data mod 16 = 0"
    by (elim exE conjE)
  then have "byte (last data) = n" "data \<noteq> []" by (auto simp: last_replicate)
  with n show "pkcs7Unpad data 16 = Inr body" by (auto simp: pkcs7Unpad_def Let_def list_all_iff)
qed

text \<open>
  After a registration that succeeds, and whose clean-up removed the other files, the
  registered licence is the current one: the selected file is the one reported, its contents
  decrypt to the registered licence and the signing secret is derived from its key.
\<close>

theorem Register_current:
  assumes "Register c machine today fault keep nano encoded filename dir = (Inr st, dir')"
    and "l_listable dir" and "\<And>n. \<not> keep n"
  shows "\<exists>info. CurrentInfo c machine dir' = Inr (info, FilePath st)
     \<and> CurrentAuthSecret c machine today dir' = DeriveAuthSecret c (LicenseKey info)
     \<and> HasActiveLicense c machine today dir' \<and> CurrentLicenseFile machine dir' = Inr (FilePath st)"
proof -
  obtain content info uuid name where r: "DecodeContent encoded = Inr content" "DecryptInfo c content = Inr info"
      "ValidateActive today info = Inr ()" "ReadMachineID machine = Inr uuid"
      "write_license fault keep nano name content (dir\<lparr>l_exists := True\<rparr>) = (Inr (), dir')"
      "FilePath st = license_path uuid name"
    using Register_steps [OF assms(1)] by blast
  have files: "l_files dir' = fmupd name content fmempty" "l_listable dir'" "l_exists dir'"
    using write_license_ok [OF r(5)] assms(2,3) by simp_all
  have sel: "selected_file machine dir' = Inr (uuid, name)"
    by (rule selected_single [OF files(1,3,2) r(4)])
  have info: "CurrentInfo c machine dir' = Inr (info, FilePath st)"
    by (simp add: CurrentInfo_def sel files DecodeContent_trimmed [OF r(1)] r)
  have "trim_space (LicenseKey info) \<noteq> []" using r(3) by (auto simp: ValidateActive_def split: if_splits)
  with info r sel show ?thesis
    by (simp add: CurrentAuthSecret_def HasActiveLicense_def DeriveAuthSecret_def CurrentLicenseFile_def)
qed

text \<open>A cipher that leaves its input alone and a licence that is valid for one year, used by the witnesses.\<close>

definition sample_info :: Info where
  "sample_info =
     \<lparr>LicenseKey = ''key'', Issued = ''2024-01-01'', Expired = ''2024-12-31'', LicStatus = ''Active'', OEM = [],
      ProductName = [], ProductVersion = []\<rparr>"

definition sample_crypto :: crypto where
  "sample_crypto =
     \<lparr>c_scrypt = (\<lambda>n. Some (replicate n CHR ''k'')), c_cbc = (\<lambda>key iv data. data),
      c_info = (\<lambda>text. if text = [] then Some sample_info else None), c_hmac = (\<lambda>key msg. key @ msg)\<rparr>"

definition sample_content :: string where
  "sample_content = std_encode (std_encode (replicate 16 (CHR 0x10)))"

definition sample_dir :: license_dir where
  "sample_dir = \<lparr>l_exists = True, l_listable = True, l_files = fmupd ''old.lic'' ''old'' fmempty, l_subdirs = []\<rparr>"

lemma sample_license:
  "DecodeContent sample_content = Inr (std_encode (replicate 16 (CHR 0x10)))"
  "DecryptInfo sample_crypto (std_encode (replicate 16 (CHR 0x10))) = Inr sample_info"
  "ValidateActive (2024, 2, 29) sample_info = Inr ()" "ValidateActive (2025, 1, 1) sample_info = Inl ErrExpired"
  "trim_space ''id'' = ''id''" "trim_space ''new.lic'' = ''new.lic''" "path_base ''new.lic'' = ''new.lic''"
  by code_simp+

theorem Register_current_witness:
  "\<exists>st dir' info. Register sample_crypto (Some ''id'') (2024, 2, 29) None (\<lambda>_. False) 1 sample_content ''new.lic'' sample_dir = (Inr st, dir')
     \<and> CurrentInfo sample_crypto (Some ''id'') dir' = Inr (info, FilePath st)
     \<and> HasActiveLicense sample_crypto (Some ''id'') (2024, 2, 29) dir'"
proof -
  obtain st dir' where reg: "Register sample_crypto (Some ''id'') (2024, 2, 29) None (\<lambda>_. False) 1 sample_content ''new.lic'' sample_dir = (Inr st, dir')"
    by (simp add: Register_def sample_license ReadMachineID_def write_license_def sample_dir_def Let_def)
  then show ?thesis
    using Register_current [OF reg] by (simp add: sample_dir_def) blast
qed

text \<open>
  A rejected registration never replaces the current licence: no file of the directory is
  changed or removed, apart from a temporary file of this registration.
\<close>

theorem Register_rejected:
  assumes "Register c machine today fault keep nano encoded filename dir = (Inl err, dir')"
  shows "\<exists>tmp. \<forall>n. n \<noteq> tmp \<longrightarrow> fmlookup (l_files dir') n = fmlookup (l_files dir) n"
proof -
  have written: "\<exists>tmp. \<forall>n. n \<noteq> tmp \<longrightarrow> fmlookup (l_files d') n = fmlookup (l_files d) n"
    if "write_license fault keep nano name content d = (Inl e, d')" for name content d e d'
    using that
    by (intro exI [of _ "temp_name name nano"])
      (auto simp: write_license_def Let_def split: option.splits register_fault.splits if_splits)
  from assms show ?thesis
    by (auto simp: Register_def Let_def split: sum.splits prod.splits if_splits dest!: written) blast
qed


theorem Register_rejected_witness:
  "\<exists>dir' tmp. Register sample_crypto (Some ''id'') (2025, 1, 1) None (\<lambda>_. False) 1 sample_content ''new.lic'' sample_dir = (Inl ErrExpired, dir')
     \<and> (\<forall>n. n \<noteq> tmp \<longrightarrow> fmlookup (l_files dir') n = fmlookup (l_files sample_dir) n)"
proof -
  have reg: "Register sample_crypto (Some ''id'') (2025, 1, 1) None (\<lambda>_. False) 1 sample_content ''new.lic'' sample_dir = (Inl ErrExpired, sample_dir)"
    by (simp add: Register_def sample_license del: One_nat_def)
  show ?thesis using Register_rejected [OF reg] reg by blast
qed

end
