(* ===== verification/Auth_Service.thy ===== *)
theory Auth_Service
  imports Internal_Token License_Service
begin

text \<open>
  Access control: the tokens and Linux accounts of
  \<^verbatim>\<open>internal/service/authservice/authservice.go\<close> and the login, the request gate and the
  cluster-wide token rotation of \<^verbatim>\<open>internal/handler/auth/auth.go\<close>. The JSON encoding of a
  claim, the password hashes, the output of \<^verbatim>\<open>id\<close>, the clock and the network are
  parameters. Request bodies are given decoded, with their keys spelled as in the struct tags.
\<close>

section \<open>Data\<close>

record Config =
  AllowedUsers :: "string list"
  AllowedGroups :: "string list"
  AccessTokenTTLSeconds :: int

record TokenClaim =
  Subject :: string
  Role :: string
  Use :: string
  IssuedAt :: int
  Expires :: int

record IssuedToken =
  TokenType :: string
  AccessToken :: string
  Authorization :: string
  ExpiresIn :: int
  TSubject :: string

datatype auth_error =
    SubjectRequired
  | LicenseRequired license_error
  | HeaderRequired
  | BearerRequired
  | InvalidToken
  | TokenExpired
  | LinuxUserRequired
  | InvalidLinuxUser
  | LinuxUserNotAllowed

text \<open>The configuration file: absent, only white space, not decodable, or its contents.\<close>

datatype auth_file = NoConfig | BlankConfig | BadConfig | ConfigDoc Config

record system =
  y_env :: getenv
  y_config :: auth_file
  y_groups :: "string \<Rightarrow> string option"
  y_shadow :: "string option"
  y_yescrypt :: "string \<Rightarrow> string \<Rightarrow> string option"
  y_crypt :: "string \<Rightarrow> string \<Rightarrow> bool"
  y_crypto :: crypto
  y_encode :: "TokenClaim \<Rightarrow> string"
  y_decode :: "string \<Rightarrow> TokenClaim option"
  y_machine :: "string option"
  y_today :: date
  y_now :: int
  y_dir :: license_dir
  y_store :: store

section \<open>Configuration\<close>

definition empty_config :: Config where
  "empty_config = \<lparr>AllowedUsers = [], AllowedGroups = [], AccessTokenTTLSeconds = 0\<rparr>"

definition LoadConfig :: "system \<Rightarrow> Config" where
  "LoadConfig y = (case y_config y of ConfigDoc cfg \<Rightarrow> cfg | _ \<Rightarrow> empty_config)"

definition AuthRequired :: "system \<Rightarrow> bool" where
  "AuthRequired y =
     (let v = to_lower (trim_space (y_env y ''ABLESTACK_AUTH_REQUIRED''))
      in if v \<in> {''1'', ''true'', ''yes'', ''on''} then True
         else if v \<in> {''0'', ''false'', ''no'', ''off''} then False
         else True)"

text \<open>Durations are 64-bit nanosecond counts that wrap around.\<close>

definition second :: int where
  "second = 1000000000"

definition duration :: "int \<Rightarrow> int" where
  "duration seconds = sint (word_of_int (seconds * second) :: 64 word)"

definition DefaultAccessTokenTTL :: int where
  "DefaultAccessTokenTTL = 3600 * second"

definition AccessTokenTTL :: "system \<Rightarrow> int" where
  "AccessTokenTTL y =
     (let raw = trim_space (y_env y ''ABLESTACK_ACCESS_TOKEN_TTL_SECONDS'');
          fallback = (if AccessTokenTTLSeconds (LoadConfig y) > 0 then duration (AccessTokenTTLSeconds (LoadConfig y))
                      else DefaultAccessTokenTTL)
      in if raw = [] then fallback
         else (case atoi raw of
                 Some seconds \<Rightarrow> if seconds > 0 then duration seconds else fallback
               | None \<Rightarrow> fallback))"

section \<open>Tokens\<close>

definition tokenUseAccess :: string where
  "tokenUseAccess = ''access''"

definition ExistingSigningSecret :: "system \<Rightarrow> auth_error + string" where
  "ExistingSigningSecret y =
     (case CurrentAuthSecret (y_crypto y) (y_machine y) (y_today y) (y_dir y) of
        Inr secret \<Rightarrow> Inr secret
      | Inl err \<Rightarrow> Inl (LicenseRequired err))"

definition sign :: "system \<Rightarrow> string \<Rightarrow> string \<Rightarrow> string" where
  "sign y text secret = raw_url_encode (c_hmac (y_crypto y) secret text)"

text \<open>The encoded header \<^verbatim>\<open>alg\<close>: \<^verbatim>\<open>HS256\<close>, \<^verbatim>\<open>typ\<close>: \<^verbatim>\<open>JWT\<close>.\<close>

definition token_header :: string where
  "token_header =
     (let q = (\<lambda>s. CHR 0x22 # s @ [CHR 0x22])
      in CHR 0x7B # q ''alg'' @ '':'' @ q ''HS256'' @ '','' @ q ''typ'' @ '':'' @ q ''JWT'' @ [CHR 0x7D])"

definition signToken :: "system \<Rightarrow> TokenClaim \<Rightarrow> string \<Rightarrow> string" where
  "signToken y claim secret =
     (let text = raw_url_encode token_header @ ''.'' @ raw_url_encode (y_encode y claim)
      in text @ ''.'' @ sign y text secret)"

text \<open>\<^verbatim>\<open>ExpiresIn\<close> truncates the duration to whole seconds.\<close>

definition IssueAccessToken :: "system \<Rightarrow> string \<Rightarrow> auth_error + IssuedToken" where
  "IssueAccessToken y subject0 =
     (let subject = trim_space subject0
      in if subject = [] then Inl SubjectRequired
         else (case ExistingSigningSecret y of
                 Inl err \<Rightarrow> Inl err
               | Inr secret \<Rightarrow>
                   (let ttl = AccessTokenTTL y;
                        claim = \<lparr>Subject = subject, Role = ''admin'', Use = tokenUseAccess, IssuedAt = y_now y div second,
                                 Expires = (y_now y + ttl) div second\<rparr>;
                        token = signToken y claim secret
                    in Inr \<lparr>TokenType = ''Bearer'', AccessToken = token, Authorization = ''Bearer'' @ '' '' @ token,
                            ExpiresIn = (if ttl < 0 then - (- ttl div second) else ttl div second), TSubject = subject\<rparr>)))"

definition VerifyToken :: "system \<Rightarrow> string \<Rightarrow> string \<Rightarrow> auth_error + TokenClaim" where
  "VerifyToken y token secret =
     (case split_on CHR ''.'' token of
        [header, body, signature] \<Rightarrow>
          if sign y (header @ ''.'' @ body) secret \<noteq> signature then Inl InvalidToken
          else (case raw_url_decode body of
                  None \<Rightarrow> Inl InvalidToken
                | Some payload \<Rightarrow>
                    (case y_decode y payload of
                       None \<Rightarrow> Inl InvalidToken
                     | Some claim \<Rightarrow>
                         if Use claim \<noteq> tokenUseAccess \<or> Expires claim \<le> y_now y div second then Inl TokenExpired
                         else Inr claim))
      | _ \<Rightarrow> Inl InvalidToken)"

section \<open>Linux accounts\<close>

definition IsSafeLinuxUsername :: "string \<Rightarrow> bool" where
  "IsSafeLinuxUsername username \<longleftrightarrow>
     username \<noteq> [] \<and> length username \<le> 128
     \<and> list_all (\<lambda>r. \<not> (r = CHR '':'' \<or> r = CHR ''/'' \<or> r = CHR 0x5C \<or> byte r \<le> 31 \<or> byte r = 127)) username"

definition LinuxUserGroups :: "system \<Rightarrow> string \<Rightarrow> string list" where
  "LinuxUserGroups y username =
     (case y_groups y username of None \<Rightarrow> [] | Some out \<Rightarrow> map trim_space (filter (\<lambda>f. trim_space f \<noteq> []) (str_fields out)))"

definition LinuxAccountAllowed :: "system \<Rightarrow> string \<Rightarrow> Config \<Rightarrow> bool" where
  "LinuxAccountAllowed y username cfg =
     (if AllowedUsers cfg = [] \<and> AllowedGroups cfg = [] then True
      else if list_ex (\<lambda>allowed. trim_space allowed = ''*'' \<or> trim_space allowed = username) (AllowedUsers cfg) then True
      else if AllowedGroups cfg = [] then False
      else (let groups = LinuxUserGroups y username;
                allowedGroups = filter (\<lambda>g. g \<noteq> []) (map trim_space (AllowedGroups cfg))
            in if groups = [] then False else list_ex (\<lambda>g. g \<in> set allowedGroups) groups))"

text \<open>The lines of a scanner: without line ends, and without an empty last line.\<close>

definition scan_lines :: "string \<Rightarrow> string list" where
  "scan_lines content =
     (let raw = split_on CHR 0x0A content; kept = (if last raw = [] then butlast raw else raw)
      in map (\<lambda>l. if l \<noteq> [] \<and> last l = CHR 0x0D then butlast l else l) kept)"

datatype shadow_error = ShadowUnreadable | AccountLocked | AccountNotFound

fun shadow_scan :: "string \<Rightarrow> string list \<Rightarrow> shadow_error + string" where
  "shadow_scan username [] = Inl AccountNotFound"
| "shadow_scan username (line # lines) =
     (case split_on CHR '':'' line of
        name # field # rest \<Rightarrow>
          if name \<noteq> username then shadow_scan username lines
          else (let hash = trim_space field
                in if hash = [] \<or> has_prefix hash ''!'' \<or> has_prefix hash ''*'' then Inl AccountLocked else Inr hash)
      | _ \<Rightarrow> shadow_scan username lines)"

definition readLinuxShadowHash :: "string option \<Rightarrow> string \<Rightarrow> shadow_error + string" where
  "readLinuxShadowHash file username =
     (case file of None \<Rightarrow> Inl ShadowUnreadable | Some content \<Rightarrow> shadow_scan username (scan_lines content))"

definition verifyLinuxPasswordHash :: "system \<Rightarrow> string \<Rightarrow> string \<Rightarrow> bool" where
  "verifyLinuxPasswordHash y hash password =
     (if has_prefix hash ''$y$''
      then (case y_yescrypt y password hash of None \<Rightarrow> False | Some candidate \<Rightarrow> candidate = hash)
      else y_crypt y hash password)"

definition verifyLinuxShadowPassword :: "system \<Rightarrow> string \<Rightarrow> string \<Rightarrow> bool" where
  "verifyLinuxShadowPassword y username password =
     (case readLinuxShadowHash (y_shadow y) username of
        Inl err \<Rightarrow> False
      | Inr hash \<Rightarrow> verifyLinuxPasswordHash y hash password)"

definition VerifyLinuxCredentials :: "system \<Rightarrow> string \<Rightarrow> string \<Rightarrow> bool" where
  "VerifyLinuxCredentials y username0 password =
     (let username = trim_space username0
      in if username = [] \<or> password = [] \<or> \<not> IsSafeLinuxUsername username then False
         else if \<not> LinuxAccountAllowed y username (LoadConfig y) then False
         else verifyLinuxShadowPassword y username password)"

definition IssueAccessTokenForLinuxUser :: "system \<Rightarrow> string \<Rightarrow> auth_error + IssuedToken" where
  "IssueAccessTokenForLinuxUser y username0 =
     (let username = trim_space username0
      in if username = [] then Inl LinuxUserRequired
         else if \<not> IsSafeLinuxUsername username then Inl InvalidLinuxUser
         else if \<not> LinuxAccountAllowed y username (LoadConfig y) then Inl LinuxUserNotAllowed
         else IssueAccessToken y username)"

section \<open>Requests\<close>

record request =
  r_method :: string
  r_path :: string
  r_headers :: "(string \<times> string list) list"
  r_body :: "json_text option"

text \<open>\<^verbatim>\<open>Header.Get\<close>: the first value of a canonical key.\<close>

definition get_header :: "request \<Rightarrow> string \<Rightarrow> string" where
  "get_header req key = (case map_of (r_headers req) key of Some (v # vs) \<Rightarrow> v | _ \<Rightarrow> [])"

definition InternalTokenHeader :: string where
  "InternalTokenHeader = ''X-Cube-Internal-Token''"

definition ClaimsFromRequest :: "system \<Rightarrow> request \<Rightarrow> auth_error + TokenClaim" where
  "ClaimsFromRequest y req =
     (let authHeader = trim_space (get_header req ''Authorization'')
      in if authHeader = [] then Inl HeaderRequired
         else (case str_fields authHeader of
                 [scheme, token] \<Rightarrow>
                   if \<not> equal_fold scheme ''Bearer'' then Inl BearerRequired
                   else (case ExistingSigningSecret y of Inl err \<Rightarrow> Inl err | Inr secret \<Rightarrow> VerifyToken y token secret)
               | _ \<Rightarrow> Inl BearerRequired))"

definition isPublicPath :: "string \<Rightarrow> bool" where
  "isPublicPath path \<longleftrightarrow>
     path = ''/api/v1/auth/login'' \<or> path = ''/api/v1/health'' \<or> path = ''/health'' \<or> path = ''/api/v1/cube/license''
     \<or> has_prefix path ''/api/v1/swagger'' \<or> has_prefix path ''/swagger''"

definition requireActiveLicense :: "system \<Rightarrow> string \<Rightarrow> auth_error + unit" where
  "requireActiveLicense y path =
     (if path = ''/api/v1/cube/license'' \<or> path = ''/api/v1/auth/login'' \<or> path = ''/api/v1/health'' \<or> path = ''/health''
         \<or> has_prefix path ''/api/v1/swagger'' \<or> has_prefix path ''/swagger'' then Inr ()
      else (case CurrentAuthSecret (y_crypto y) (y_machine y) (y_today y) (y_dir y) of
              Inl err \<Rightarrow> Inl (LicenseRequired err)
            | Inr _ \<Rightarrow> Inr ()))"

definition hasCubeInternalHeader :: "(string \<times> string list) list \<Rightarrow> bool" where
  "hasCubeInternalHeader header =
     list_ex (\<lambda>(key, vals). equal_fold key InternalTokenHeader
       \<or> (has_prefix (to_lower key) ''x-cube-'' \<and> list_ex (\<lambda>v. trim_space v \<noteq> []) vals)) header"

text \<open>Decoding into a string field: absent and null leave it empty.\<close>

definition string_field :: "goval \<Rightarrow> string option" where
  "string_field v = (case v of VStr s \<Rightarrow> Some s | VNil \<Rightarrow> Some [] | _ \<Rightarrow> None)"

definition bootstrap_payload :: "json_text \<Rightarrow> (string \<times> string) option" where
  "bootstrap_payload body =
     (case body of
        JDoc VNil \<Rightarrow> Some ([], [])
      | JDoc (VMap m) \<Rightarrow>
          (case (string_field (mget m ''action''),
                 (case mget m ''security'' of
                    VNil \<Rightarrow> Some []
                  | VMap s \<Rightarrow> string_field (mget s ''internal_token'')
                  | _ \<Rightarrow> None)) of
             (Some action, Some token) \<Rightarrow> Some (action, token)
           | _ \<Rightarrow> None)
      | _ \<Rightarrow> None)"

definition allowClusterApplyLocalBootstrap :: "system \<Rightarrow> request \<Rightarrow> bool" where
  "allowClusterApplyLocalBootstrap y req =
     (if r_method req \<noteq> ''POST'' \<or> r_path req \<noteq> ''/api/v1/cube/cluster/apply-local'' then False
      else (case GetInternalToken (y_env y) (y_store y) of
              Inl err \<Rightarrow> False
            | Inr currentToken \<Rightarrow>
                if trim_space currentToken \<noteq> [] then False
                else (let headerToken = trim_space (get_header req InternalTokenHeader)
                      in if length headerToken < 16 then False
                         else (case r_body req of
                                 None \<Rightarrow> False
                               | Some body \<Rightarrow>
                                   (case bootstrap_payload body of
                                      None \<Rightarrow> False
                                    | Some (action, token) \<Rightarrow>
                                        if \<not> equal_fold (trim_space action) ''insert'' then False
                                        else trim_space token = headerToken)))))"

datatype gate = Next | Abort nat

definition Middleware :: "system \<Rightarrow> request \<Rightarrow> gate" where
  "Middleware y req =
     (if r_method req = ''OPTIONS'' \<or> isPublicPath (r_path req) then Next
      else (case requireActiveLicense y (r_path req) of
              Inl err \<Rightarrow> Abort 403
            | Inr _ \<Rightarrow>
                if hasCubeInternalHeader (r_headers req)
                then (if \<not> ValidateInternalToken (y_env y) (get_header req InternalTokenHeader) (y_store y)
                      then (if allowClusterApplyLocalBootstrap y req then Next else Abort 401)
                      else Next)
                else if \<not> AuthRequired y then Next
                else (case ClaimsFromRequest y req of Inl err \<Rightarrow> Abort 401 | Inr claim \<Rightarrow> Next)))"

section \<open>Handlers\<close>

definition isLicenseAccessError :: "auth_error \<Rightarrow> bool" where
  "isLicenseAccessError err =
     (case err of
        LicenseRequired e \<Rightarrow> (case e of OtherError s \<Rightarrow> False | _ \<Rightarrow> True)
      | _ \<Rightarrow> False)"

text \<open>The login request, if the body could be bound, and the status with the token issued.\<close>

definition Login :: "system \<Rightarrow> (string \<times> string) option \<Rightarrow> nat \<times> IssuedToken option" where
  "Login y body =
     (case body of
        None \<Rightarrow> (400, None)
      | Some (ID, password) \<Rightarrow>
          if \<not> VerifyLinuxCredentials y ID password then (401, None)
          else (case IssueAccessToken y (trim_space ID) of
                  Inl err \<Rightarrow> (if isLicenseAccessError err then 403 else 500, None)
                | Inr token \<Rightarrow> (200, Some token)))"

definition Me :: "system \<Rightarrow> request \<Rightarrow> nat \<times> TokenClaim option" where
  "Me y req = (case ClaimsFromRequest y req of Inl err \<Rightarrow> (401, None) | Inr claim \<Rightarrow> (200, Some claim))"

definition ApplyInternalToken ::
  "getenv \<Rightarrow> save_fault option \<Rightarrow> string \<Rightarrow> string option \<Rightarrow> store \<Rightarrow> nat \<times> store" where
  "ApplyInternalToken env fault header body st =
     (if \<not> ValidateInternalToken env header st then (401, st)
      else (case body of
              None \<Rightarrow> (400, st)
            | Some token \<Rightarrow>
                if trim_space token = [] then (400, st)
                else (case SetInternalToken env fault token st of
                        (Inl err, st') \<Rightarrow> (500, st')
                      | (Inr _, st') \<Rightarrow> (200, st'))))"


section \<open>Rotation across the cluster\<close>

text \<open>
  A peer is delivered the request, cannot be reached, or refuses it for want of a licence. The
  gate in front of the handler checks the same token as the handler.
\<close>

datatype delivery = Delivered | Unreachable | Unlicensed

record peer =
  p_env :: getenv
  p_store :: store
  p_fault :: "save_fault option"
  p_delivery :: delivery

type_synonym peers = "(string, peer) fmap"

definition apply_peer :: "string \<Rightarrow> string \<Rightarrow> peer \<Rightarrow> nat \<times> peer" where
  "apply_peer oldToken newToken p =
     (case p_delivery p of
        Unreachable \<Rightarrow> (500, p)
      | Unlicensed \<Rightarrow> (403, p)
      | Delivered \<Rightarrow>
          (let (code, st) = ApplyInternalToken (p_env p) (p_fault p) oldToken (Some newToken) (p_store p)
           in (code, p\<lparr>p_store := st\<rparr>)))"

definition applyInternalTokenToTarget :: "string \<Rightarrow> string \<Rightarrow> string \<Rightarrow> peers \<Rightarrow> nat \<times> peers" where
  "applyInternalTokenToTarget target oldToken newToken net =
     (case fmlookup net target of
        None \<Rightarrow> (500, net)
      | Some p \<Rightarrow> (let (code, p') = apply_peer oldToken newToken p in (code, fmupd target p' net)))"

text \<open>\<open>is_local\<close> is \<^verbatim>\<open>security.IsLocalTarget\<close>, which asks for the interfaces of the node.\<close>

fun applyInternalTokenToTargets ::
  "(string \<Rightarrow> bool) \<Rightarrow> string list \<Rightarrow> string \<Rightarrow> string \<Rightarrow> peers \<Rightarrow> (string \<times> nat) list \<times> peers" where
  "applyInternalTokenToTargets is_local [] oldToken newToken net = ([], net)"
| "applyInternalTokenToTargets is_local (target # targets) oldToken newToken net =
     (if is_local target then applyInternalTokenToTargets is_local targets oldToken newToken net
      else (let (code, net1) = applyInternalTokenToTarget target oldToken newToken net;
                (results, net2) = applyInternalTokenToTargets is_local targets oldToken newToken net1
            in ((target, code) # results, net2)))"

record rotation =
  o_local :: "string \<Rightarrow> bool"
  o_first :: "string option"
  o_next :: "string option"
  o_fault1 :: "save_fault option"
  o_fault2 :: "save_fault option"

text \<open>
  The handler: the caller's claim, the environment, the current token, a fresh one, the targets,
  the peers, and the local store only if every peer took the new token.
\<close>

definition rotate_cluster :: "system \<Rightarrow> request \<Rightarrow> rotation \<Rightarrow> peers \<Rightarrow> nat \<times> store \<times> peers" where
  "rotate_cluster y req rot net =
     (case ClaimsFromRequest y req of
        Inl err \<Rightarrow> (401, y_store y, net)
      | Inr claim \<Rightarrow>
          if trim_space (y_env y ''CUBE_INTERNAL_TOKEN'') \<noteq> [] \<or> trim_space (y_env y ''ABLESTACK_INTERNAL_TOKEN'') \<noteq> []
          then (409, y_store y, net)
          else (case EnsureInternalToken (y_env y) (o_first rot) (o_fault1 rot) (y_store y) of
                  (Inl err, st1) \<Rightarrow> (500, st1, net)
                | (Inr (oldToken, created), st1) \<Rightarrow>
                    (case o_next rot of
                       None \<Rightarrow> (500, st1, net)
                     | Some newToken \<Rightarrow>
                         (case ClusterAblecubeTargets st1 of
                            Inl err \<Rightarrow> (500, st1, net)
                          | Inr targets \<Rightarrow>
                              (let (results, net') = applyInternalTokenToTargets (o_local rot) targets oldToken newToken net
                               in if list_ex (\<lambda>(t, code). code \<ge> 300) results then (500, st1, net')
                                  else (case SetInternalToken (y_env y) (o_fault2 rot) newToken st1 of
                                          (Inl err, st2) \<Rightarrow> (500, st2, net')
                                        | (Inr _, st2) \<Rightarrow> (200, st2, net')))))))"


section \<open>Facts: tokens\<close>

lemma split_token:
  assumes "CHR ''.'' \<notin> set a" "CHR ''.'' \<notin> set b" "CHR ''.'' \<notin> set c"
  shows "split_on CHR ''.'' (a @ ''.'' @ b @ ''.'' @ c) = [a, b, c]"
  using assms by (simp add: split_on_append split_on_single)

lemma split_three: "split_on CHR ''.'' token = [a, b, c] \<Longrightarrow> token = a @ ''.'' @ b @ ''.'' @ c"
  using join_split_on [of "CHR ''.''" token] by simp

lemma VerifyToken_signed:
  assumes "y_decode y' (y_encode y claim) = Some claim" and "y_crypto y' = y_crypto y"
  shows "VerifyToken y' (signToken y claim secret) secret =
    (if Use claim \<noteq> tokenUseAccess \<or> Expires claim \<le> y_now y' div second then Inl TokenExpired else Inr claim)"
proof -
  have "split_on CHR ''.'' (signToken y claim secret) =
      [raw_url_encode token_header, raw_url_encode (y_encode y claim),
       sign y (raw_url_encode token_header @ ''.'' @ raw_url_encode (y_encode y claim)) secret]"
    by (simp add: signToken_def Let_def sign_def split_on_append split_on_single no_dot_encode)
  with assms show ?thesis by (simp add: VerifyToken_def sign_def)
qed

lemma VerifyToken_sound:
  assumes "VerifyToken y token secret = Inr claim"
  shows "\<exists>header body payload. token = header @ ''.'' @ body @ ''.'' @ sign y (header @ ''.'' @ body) secret
     \<and> raw_url_decode body = Some payload \<and> y_decode y payload = Some claim
     \<and> Use claim = tokenUseAccess \<and> Expires claim > y_now y div second"
proof -
  obtain header body where *: "split_on CHR ''.'' token = [header, body, sign y (header @ ''.'' @ body) secret]"
      "\<exists>payload. raw_url_decode body = Some payload \<and> y_decode y payload = Some claim"
      "Use claim = tokenUseAccess" "Expires claim > y_now y div second"
    using assms by (auto simp: VerifyToken_def split: list.splits if_splits option.splits)
  with split_three [OF *(1)] show ?thesis by blast
qed

text \<open>A token is one word of printable characters, so it survives the Authorization header.\<close>

lemma url_printable: "c \<in> set url_alphabet \<Longrightarrow> 33 \<le> (of_char c :: nat) \<and> (of_char c :: nat) < 127"
proof -
  have "list_all (\<lambda>c. 33 \<le> (of_char c :: nat) \<and> (of_char c :: nat) < 127) url_alphabet" by code_simp
  then show "c \<in> set url_alphabet \<Longrightarrow> 33 \<le> (of_char c :: nat) \<and> (of_char c :: nat) < 127" by (auto simp: list_all_iff)
qed

lemma encode_printable: "list_all (\<lambda>c. 33 \<le> (of_char c :: nat) \<and> (of_char c :: nat) < 127) (raw_url_encode s)"
  using raw_url_encode_chars [of s] url_printable by (fastforce simp: list_all_iff)

lemma token_word: "hosts_token (signToken y claim secret)"
proof -
  have head: "\<exists>r. raw_url_encode token_header = CHR ''e'' # r"
  proof -
    have "take 1 (raw_url_encode token_header) = ''e''" by code_simp
    then show ?thesis by (cases "raw_url_encode token_header") auto
  qed
  then show ?thesis
    using encode_printable
    by (auto simp: hosts_token_def signToken_def Let_def sign_def has_prefix_def list_all_append)
qed

lemma bearer_fields:
  assumes "hosts_token t"
  shows "trim_space (''Bearer'' @ '' '' @ t) = ''Bearer'' @ '' '' @ t" and "str_fields (''Bearer'' @ '' '' @ t) = [''Bearer'', t]"
proof -
  have words: "\<And>n. n \<in> set [''Bearer'', t] \<Longrightarrow> hosts_token n"
    using assms by (auto simp: hosts_token_def has_prefix_def)
  obtain u d where last: "t = u @ [d]" "33 \<le> (of_char d :: nat)" "(of_char d :: nat) < 127"
    using assms by (cases t rule: rev_cases) (auto simp: hosts_token_def)
  show "trim_space (''Bearer'' @ '' '' @ t) = ''Bearer'' @ '' '' @ t"
    by (rule trim_space_id) (simp_all add: last printable_space_len [OF last(2,3)] printable_space_len)
  show "str_fields (''Bearer'' @ '' '' @ t) = [''Bearer'', t]"
    using fields_join [of "[''Bearer'', t]", OF _ words] by (simp add: str_fields_def)
qed

lemma claims_of_issued:
  assumes "get_header req ''Authorization'' = ''Bearer'' @ '' '' @ signToken y claim secret"
    and "ExistingSigningSecret y' = Inr secret" and "y_decode y' (y_encode y claim) = Some claim" and "y_crypto y' = y_crypto y"
  shows "ClaimsFromRequest y' req =
    (if Use claim \<noteq> tokenUseAccess \<or> Expires claim \<le> y_now y' div second then Inl TokenExpired else Inr claim)"
proof -
  note word = bearer_fields [OF token_word [of y claim secret]]
  have "equal_fold ''Bearer'' ''Bearer''" by (simp add: equal_fold_def)
  with word show ?thesis
    unfolding ClaimsFromRequest_def assms(1) word(1) Let_def by (simp add: word(2) [simplified] assms(2) VerifyToken_signed [OF assms(3,4)])
qed

section \<open>Facts: rotation\<close>

lemma set_token_validates:
  assumes "SetInternalToken env fault new st = (Inr u, st')" and "trim_space new \<noteq> []"
  shows "ValidateInternalToken env actual st' \<longleftrightarrow> trim_space actual = trim_space new"
proof -
  obtain root where root: "envInternalToken env = []" "loadClusterRoot (s_doc st) = Some root"
      "saveInternalToken fault root (trim_space new) st = (Inr u, st')"
    using assms by (auto simp: SetInternalToken_def split: if_splits option.splits)
  with save_succeeds [of fault root "trim_space new" st] have "saveInternalToken None root (trim_space new) st = (Inr (), st')" by auto
  with cluster_store.accepts_saved [OF _ save_token_ok [OF root(2)], of "trim_space new" st' actual] assms(2) validate_accepts [OF root(1)]
  show ?thesis by simp
qed

lemma target_other: "u \<noteq> t \<Longrightarrow> fmlookup (snd (applyInternalTokenToTarget t old new net)) u = fmlookup net u"
  by (auto simp: applyInternalTokenToTarget_def split: option.splits prod.splits)

lemma targets_other:
  "u \<notin> set ts \<Longrightarrow> fmlookup (snd (applyInternalTokenToTargets is_local ts old new net)) u = fmlookup net u"
  by (induction ts arbitrary: net) (auto simp: split_beta Let_def target_other)

lemma target_cong:
  "fmlookup net t = fmlookup net' t \<Longrightarrow>
     fst (applyInternalTokenToTarget t old new net) = fst (applyInternalTokenToTarget t old new net')
     \<and> fmlookup (snd (applyInternalTokenToTarget t old new net)) t = fmlookup (snd (applyInternalTokenToTarget t old new net')) t"
  by (auto simp: applyInternalTokenToTarget_def split: option.splits prod.splits)

text \<open>Every remote target is visited once, with the peer it had at the start.\<close>

lemma targets_visit:
  assumes "distinct ts" and "t \<in> set ts" and "\<not> is_local t"
  shows "(t, fst (applyInternalTokenToTarget t old new net)) \<in> set (fst (applyInternalTokenToTargets is_local ts old new net))
     \<and> fmlookup (snd (applyInternalTokenToTargets is_local ts old new net)) t =
         fmlookup (snd (applyInternalTokenToTarget t old new net)) t"
  using assms
proof (induction ts arbitrary: net)
  case (Cons u ts)
  show ?case
  proof (cases "is_local u")
    case True
    with Cons show ?thesis by auto
  next
    case False
    show ?thesis
    proof (cases "t = u")
      case True
      with False Cons.prems show ?thesis by (auto simp: split_beta Let_def targets_other)
    next
      case t: False
      with Cons.prems have "t \<in> set ts" "distinct ts" by auto
      with Cons.IH [of "snd (applyInternalTokenToTarget u old new net)"] Cons.prems(3) False
        target_cong [OF target_other [OF t, of old new net]]
      show ?thesis by (auto simp: split_beta Let_def)
    qed
  qed
qed simp

lemma apply_peer_ok:
  assumes "apply_peer old new p = (code, p')" and "code < 300" and "trim_space new \<noteq> []"
  shows "code = 200 \<and> (ValidateInternalToken (p_env p') actual (p_store p') \<longleftrightarrow> trim_space actual = trim_space new)"
proof -
  obtain st u where "SetInternalToken (p_env p) (p_fault p) new (p_store p) = (Inr u, st)" "p' = p\<lparr>p_store := st\<rparr>" "code = 200"
    using assms(1,2)
    by (auto simp: apply_peer_def ApplyInternalToken_def split: delivery.splits if_splits sum.splits prod.splits)
  then show ?thesis using set_token_validates [OF _ assms(3)] by simp
qed


section \<open>Properties\<close>

lemma require_license_iff:
  "\<not> isPublicPath path \<Longrightarrow> requireActiveLicense y path = Inr () \<longleftrightarrow> (\<exists>secret. ExistingSigningSecret y = Inr secret)"
  by (auto simp: requireActiveLicense_def isPublicPath_def ExistingSigningSecret_def split: sum.splits)

text \<open>
  C30. The request gate is sound: once a token is configured and authentication is not switched off,
  a request to a protected path passes only if the licence is active and the request carries either
  the internal token or a bearer token that is signed with the secret of the licence, is an access
  token and has not expired.
\<close>

theorem Middleware_sound:
  assumes "Middleware y req = Next" and "r_method req \<noteq> ''OPTIONS''" and "\<not> isPublicPath (r_path req)" and "AuthRequired y"
    and "GetInternalToken (y_env y) (y_store y) = Inr expected" and "expected \<noteq> []"
  shows "\<exists>secret. CurrentAuthSecret (y_crypto y) (y_machine y) (y_today y) (y_dir y) = Inr secret
     \<and> (trim_space (get_header req InternalTokenHeader) = expected
        \<or> (\<exists>header body payload claim.
             str_fields (trim_space (get_header req ''Authorization'')) !  1 = header @ ''.'' @ body @ ''.'' @ sign y (header @ ''.'' @ body) secret
             \<and> raw_url_decode body = Some payload \<and> y_decode y payload = Some claim
             \<and> Use claim = ''access'' \<and> y_now y div second < Expires claim))"
proof -
  have trimmed: "trim_space expected = expected" by (rule GetInternalToken_trimmed [OF assms(5)])
  have no_bootstrap: "\<not> allowClusterApplyLocalBootstrap y req"
    using assms(5,6) trimmed by (simp add: allowClusterApplyLocalBootstrap_def)
  obtain secret where secret: "ExistingSigningSecret y = Inr secret"
    using assms(1-3) require_license_iff [OF assms(3), of y] by (auto simp: Middleware_def split: sum.splits)
  then have auth: "CurrentAuthSecret (y_crypto y) (y_machine y) (y_today y) (y_dir y) = Inr secret"
    by (simp add: ExistingSigningSecret_def split: sum.splits)
  show ?thesis
  proof (cases "hasCubeInternalHeader (r_headers req)")
    case True
    with assms(1-3) no_bootstrap have "ValidateInternalToken (y_env y) (get_header req InternalTokenHeader) (y_store y)"
      by (auto simp: Middleware_def split: sum.splits if_splits)
    with assms(5) trimmed have "trim_space (get_header req InternalTokenHeader) = expected"
      by (auto simp: ValidateInternalToken_def Let_def split: if_splits)
    with auth show ?thesis by blast
  next
    case False
    with assms(1-4) obtain claim where "ClaimsFromRequest y req = Inr claim"
      by (auto simp: Middleware_def split: sum.splits if_splits)
    then obtain scheme token where token: "str_fields (trim_space (get_header req ''Authorization'')) = [scheme, token]"
        "VerifyToken y token secret = Inr claim"
      using secret by (auto simp: ClaimsFromRequest_def Let_def split: if_splits list.splits)
    with VerifyToken_sound [OF token(2)] auth show ?thesis by (auto simp: tokenUseAccess_def)
  qed
qed

text \<open>
  A login that succeeds is honest about the account: the name is safe, the account is allowed,
  its password entry exists, is not locked and matches, and the licence is active.
\<close>

theorem Login_requires:
  assumes "Login y (Some (ID, password)) = (200, Some tok)"
  shows "IsSafeLinuxUsername (trim_space ID) \<and> password \<noteq> [] \<and> LinuxAccountAllowed y (trim_space ID) (LoadConfig y)
     \<and> (\<exists>hash. readLinuxShadowHash (y_shadow y) (trim_space ID) = Inr hash \<and> hash \<noteq> [] \<and> \<not> has_prefix hash ''!''
          \<and> \<not> has_prefix hash ''*'' \<and> verifyLinuxPasswordHash y hash password)
     \<and> HasActiveLicense (y_crypto y) (y_machine y) (y_today y) (y_dir y)"
proof -
  have scan: "hash \<noteq> [] \<and> \<not> has_prefix hash ''!'' \<and> \<not> has_prefix hash ''*''" if "shadow_scan user lines = Inr hash" for user lines hash
    using that by (induction user lines rule: shadow_scan.induct) (auto simp: Let_def split: list.splits if_splits)
  have "VerifyLinuxCredentials y ID password" "\<exists>t. IssueAccessToken y (trim_space ID) = Inr t"
    using assms by (auto simp: Login_def split: if_splits sum.splits)
  moreover from this(2) have "HasActiveLicense (y_crypto y) (y_machine y) (y_today y) (y_dir y)"
    by (auto simp: IssueAccessToken_def ExistingSigningSecret_def HasActiveLicense_def Let_def split: if_splits sum.splits)
  ultimately show ?thesis
    by (auto simp: VerifyLinuxCredentials_def verifyLinuxShadowPassword_def readLinuxShadowHash_def Let_def
        split: if_splits sum.splits option.splits dest: scan)
qed

text \<open>
  C31. The token of a login authenticates its user until it expires and not longer: a later request
  that presents it passes the gate and is answered with the user's claim exactly while the clock
  is before the expiry, as long as the licence still gives the same secret and the claim survives
  its encoding.
\<close>

theorem Login_grants:
  assumes "Login y (Some (ID, password)) = (200, Some tok)"
    and "y' = y\<lparr>y_now := t\<rparr>" and "expiry = (y_now y + AccessTokenTTL y) div second"
    and "claim = \<lparr>Subject = trim_space ID, Role = ''admin'', Use = ''access'', IssuedAt = y_now y div second, Expires = expiry\<rparr>"
    and "y_decode y (y_encode y claim) = Some claim"
    and "get_header req ''Authorization'' = Authorization tok" and "\<not> hasCubeInternalHeader (r_headers req)"
  shows "Me y' req = (if t div second < expiry then (200, Some claim) else (401, None))
     \<and> (t div second < expiry \<longrightarrow> Middleware y' req = Next)"
proof -
  obtain secret where secret: "ExistingSigningSecret y = Inr secret" and subj: "trim_space ID \<noteq> []"
    using assms(1) by (auto simp: Login_def IssueAccessToken_def Let_def split: if_splits sum.splits)
  have tok: "Authorization tok = ''Bearer'' @ '' '' @ signToken y claim secret"
    using assms(1) secret subj by (auto simp: Login_def IssueAccessToken_def Let_def assms(3,4) tokenUseAccess_def split: if_splits)
  have secret': "ExistingSigningSecret y' = Inr secret" using secret by (simp add: assms(2) ExistingSigningSecret_def)
  have dec: "y_decode y' (y_encode y claim) = Some claim" "y_crypto y' = y_crypto y"
    using assms(2,5) by simp_all
  have cl: "ClaimsFromRequest y' req = (if expiry \<le> t div second then Inl TokenExpired else Inr claim)"
    using claims_of_issued [OF trans [OF assms(6) tok] secret' dec] by (simp add: assms(2,4) tokenUseAccess_def)
  have gate: "Middleware y' req = Next" if "t div second < expiry"
    using cl that assms(7) require_license_iff [of "r_path req" y'] secret' by (auto simp: Middleware_def split: sum.splits)
  show ?thesis using cl gate by (auto simp: Me_def)
qed


text \<open>A node with a licence and one account, used by the witnesses.\<close>

definition sample_system :: "gomap \<Rightarrow> system" where
  "sample_system root =
     \<lparr>y_env = (\<lambda>_. []), y_config = NoConfig, y_groups = (\<lambda>_. None), y_shadow = Some ''root:$6$salt:1'',
      y_yescrypt = (\<lambda>_ _. None), y_crypt = (\<lambda>hash pw. pw = ''secret''), y_crypto = sample_crypto,
      y_encode = (\<lambda>c. Subject c),
      y_decode = (\<lambda>s. Some \<lparr>Subject = s, Role = ''admin'', Use = ''access'', IssuedAt = 5, Expires = 3605\<rparr>),
      y_machine = Some ''id'', y_today = (2024, 2, 29), y_now = 5 * second,
      y_dir = \<lparr>l_exists = True, l_listable = True, l_files = fmupd ''a.lic'' (std_encode (replicate 16 (CHR 0x10))) fmempty, l_subdirs = []\<rparr>,
      y_store = sample_store root\<rparr>"

lemma sample_secret: "\<exists>secret. ExistingSigningSecret (sample_system root) = Inr secret"
proof -
  have trim: "trim_space (std_encode (replicate 16 (CHR 0x10))) = std_encode (replicate 16 (CHR 0x10))" by code_simp
  have key: "trim_space (LicenseKey sample_info) \<noteq> []" by code_simp
  show ?thesis
    by (simp add: ExistingSigningSecret_def sample_system_def CurrentAuthSecret_def CurrentInfo_def trim
        selected_single [where name = "''a.lic''" and content = "std_encode (replicate 16 (CHR 0x10))" and uuid = "''id''"]
        ReadMachineID_def sample_license DeriveAuthSecret_def key)
qed

lemma sample_ttl: "AccessTokenTTL (sample_system root) = 3600 * second"
  by (simp add: AccessTokenTTL_def sample_system_def LoadConfig_def empty_config_def DefaultAccessTokenTTL_def)

lemma sample_fields:
  "y_config (sample_system root) = NoConfig" "y_shadow (sample_system root) = Some ''root:$6$salt:1''"
  "y_crypt (sample_system root) hash pw = (pw = ''secret'')" "y_env (sample_system root) = (\<lambda>_. [])"
  "y_store (sample_system root) = sample_store root"
  by (simp_all add: sample_system_def)

lemma sample_login: "\<exists>tok. Login (sample_system root) (Some (''root'', ''secret'')) = (200, Some tok)"
proof -
  have facts: "IsSafeLinuxUsername ''root''" "trim_space ''root'' = ''root''"
    "readLinuxShadowHash (Some ''root:$6$salt:1'') ''root'' = Inr ''$6$salt''" "has_prefix ''$6$salt'' ''$y$'' = False"
    by code_simp+
  have "VerifyLinuxCredentials (sample_system root) ''root'' ''secret''"
    by (simp add: VerifyLinuxCredentials_def facts sample_fields LinuxAccountAllowed_def LoadConfig_def empty_config_def
        verifyLinuxShadowPassword_def verifyLinuxPasswordHash_def)
  moreover obtain secret where "ExistingSigningSecret (sample_system root) = Inr secret" using sample_secret by blast
  then have "\<exists>t. IssueAccessToken (sample_system root) (trim_space ''root'') = Inr t"
    by (simp add: IssueAccessToken_def facts Let_def)
  ultimately show ?thesis by (auto simp: Login_def)
qed

theorem Login_requires_witness:
  "\<exists>tok. Login (sample_system fmempty) (Some (''root'', ''secret'')) = (200, Some tok)
     \<and> HasActiveLicense sample_crypto (Some ''id'') (2024, 2, 29) (y_dir (sample_system fmempty))"
proof -
  obtain tok where tok: "Login (sample_system fmempty) (Some (''root'', ''secret'')) = (200, Some tok)" using sample_login by blast
  from Login_requires [OF tok]
  have "HasActiveLicense (y_crypto (sample_system fmempty)) (y_machine (sample_system fmempty)) (y_today (sample_system fmempty))
      (y_dir (sample_system fmempty))" by blast
  with tok show ?thesis by (simp add: sample_system_def)
qed

definition sample_request :: "string \<Rightarrow> request" where
  "sample_request authorization =
     \<lparr>r_method = ''GET'', r_path = ''/api/v1/cube/hosts'', r_headers = [(''Authorization'', [authorization])], r_body = Some JEmpty\<rparr>"

lemma sample_no_cube: "\<not> hasCubeInternalHeader (r_headers (sample_request a))"
proof -
  have "\<not> equal_fold ''Authorization'' InternalTokenHeader" "\<not> has_prefix (to_lower ''Authorization'') ''x-cube-''" by code_simp+
  then show ?thesis by (simp add: hasCubeInternalHeader_def sample_request_def)
qed

theorem Login_grants_witness:
  "\<exists>tok claim. Login (sample_system fmempty) (Some (''root'', ''secret'')) = (200, Some tok)
     \<and> Me ((sample_system fmempty)\<lparr>y_now := 100 * second\<rparr>) (sample_request (Authorization tok)) = (200, Some claim)
     \<and> Me ((sample_system fmempty)\<lparr>y_now := 9000 * second\<rparr>) (sample_request (Authorization tok)) = (401, None)
     \<and> Subject claim = ''root''"
proof -
  obtain tok where tok: "Login (sample_system fmempty) (Some (''root'', ''secret'')) = (200, Some tok)" using sample_login by blast
  have name: "trim_space ''root'' = ''root''" by code_simp
  let ?claim = "\<lparr>Subject = ''root'', Role = ''admin'', Use = ''access'', IssuedAt = 5, Expires = 3605\<rparr>"
  have expiry: "(3605::int) = (y_now (sample_system fmempty) + AccessTokenTTL (sample_system fmempty)) div second"
    unfolding sample_ttl by (simp add: sample_system_def second_def)
  have claim: "?claim = \<lparr>Subject = trim_space ''root'', Role = ''admin'', Use = ''access'',
      IssuedAt = y_now (sample_system fmempty) div second, Expires = 3605\<rparr>"
    unfolding name by (simp add: sample_system_def second_def)
  have codec: "y_decode (sample_system fmempty) (y_encode (sample_system fmempty) ?claim) = Some ?claim"
    by (simp add: sample_system_def)
  have header: "get_header (sample_request (Authorization tok)) ''Authorization'' = Authorization tok"
    by (simp add: get_header_def sample_request_def)
  note grants = Login_grants [OF tok refl expiry claim codec header sample_no_cube]
  show ?thesis
    using grants [of "100 * second"] grants [of "9000 * second"] tok by (intro exI [of _ tok] exI [of _ ?claim]) (simp add: second_def)
qed

theorem Middleware_sound_witness:
  "Middleware (sample_system (fmupd ''security'' (VMap (puts ''internal_token'' ''tok'' fmempty)) fmempty))
     ((sample_request [])\<lparr>r_headers := [(''X-Cube-Internal-Token'', [''tok''])]\<rparr>) = Next
   \<and> (\<exists>secret. CurrentAuthSecret sample_crypto (Some ''id'') (2024, 2, 29) (y_dir (sample_system fmempty)) = Inr secret)"
proof -
  let ?root = "fmupd ''security'' (VMap (puts ''internal_token'' ''tok'' fmempty)) fmempty"
  let ?y = "sample_system ?root" and ?req = "(sample_request [])\<lparr>r_headers := [(''X-Cube-Internal-Token'', [''tok''])]\<rparr>"
  obtain secret where secret: "ExistingSigningSecret ?y = Inr secret" using sample_secret by blast
  have trim: "trim_space ''tok'' = ''tok''" by code_simp
  then have get: "GetInternalToken (y_env ?y) (y_store ?y) = Inr ''tok''"
    by (simp add: sample_fields GetInternalToken_def no_env sample_store_def loadClusterRoot_def NormalizeClusterJSON_def
        internalTokenFromRoot_def)
  have path: "\<not> isPublicPath (r_path ?req)" "r_method ?req \<noteq> ''OPTIONS''"
    by (simp_all add: sample_request_def isPublicPath_def has_prefix_def)
  have auth: "AuthRequired ?y" by (simp add: AuthRequired_def sample_fields)
  have "hasCubeInternalHeader (r_headers ?req)"
    by (simp add: hasCubeInternalHeader_def InternalTokenHeader_def equal_fold_def)
  moreover have "get_header ?req InternalTokenHeader = ''tok''" by (simp add: get_header_def InternalTokenHeader_def)
  then have "ValidateInternalToken (y_env ?y) (get_header ?req InternalTokenHeader) (y_store ?y)"
    by (simp add: ValidateInternalToken_def get trim)
  ultimately have pass: "Middleware ?y ?req = Next"
    using require_license_iff [OF path(1), of ?y] secret path by (auto simp: Middleware_def split: sum.splits)
  have "\<exists>secret. CurrentAuthSecret (y_crypto ?y) (y_machine ?y) (y_today ?y) (y_dir ?y) = Inr secret"
    using Middleware_sound [OF pass path(2,1) auth get] by blast
  with pass show ?thesis by (simp add: sample_system_def)
qed


lemma distinct_targets: "ClusterAblecubeTargets st = Inr ts \<Longrightarrow> distinct ts"
  by (auto simp: ClusterAblecubeTargets_def target_loop_spec split: option.splits)

lemma rotate_cluster_steps:
  assumes "rotate_cluster y req rot net = (200, st', net')"
  shows "\<exists>old created st1 new ts results u. EnsureInternalToken (y_env y) (o_first rot) (o_fault1 rot) (y_store y) = (Inr (old, created), st1)
     \<and> o_next rot = Some new \<and> ClusterAblecubeTargets st1 = Inr ts
     \<and> applyInternalTokenToTargets (o_local rot) ts old new net = (results, net')
     \<and> (\<forall>t code. (t, code) \<in> set results \<longrightarrow> code < 300)
     \<and> SetInternalToken (y_env y) (o_fault2 rot) new st1 = (Inr u, st')"
  using assms
  by (auto simp: rotate_cluster_def list_ex_iff not_le split: sum.splits if_splits prod.splits option.splits)

text \<open>
  C34. A rotation that reports success leaves the whole cluster on the new token: the local node
  and every remote target of the configuration accept exactly the new token.
\<close>

theorem rotate_cluster_agrees:
  assumes "rotate_cluster y req rot net = (200, st', net')" and "o_next rot = Some new" and "trim_space new \<noteq> []"
    and "EnsureInternalToken (y_env y) (o_first rot) (o_fault1 rot) (y_store y) = (Inr old, st1)"
    and "ClusterAblecubeTargets st1 = Inr ts"
  shows "(ValidateInternalToken (y_env y) actual st' \<longleftrightarrow> trim_space actual = trim_space new)
     \<and> (\<forall>t \<in> set ts. o_local rot t \<or> (\<exists>p. fmlookup net' t = Some p
          \<and> (ValidateInternalToken (p_env p) actual (p_store p) \<longleftrightarrow> trim_space actual = trim_space new)))"
proof (intro conjI ballI)
  obtain oldToken results u where steps: "fst old = oldToken"
      "applyInternalTokenToTargets (o_local rot) ts oldToken new net = (results, net')"
      "\<forall>t code. (t, code) \<in> set results \<longrightarrow> code < 300" "SetInternalToken (y_env y) (o_fault2 rot) new st1 = (Inr u, st')"
    using rotate_cluster_steps [OF assms(1)] assms(2,4,5) by auto
  show "ValidateInternalToken (y_env y) actual st' \<longleftrightarrow> trim_space actual = trim_space new"
    by (rule set_token_validates [OF steps(4) assms(3)])
  fix t assume t: "t \<in> set ts"
  show "o_local rot t \<or> (\<exists>p. fmlookup net' t = Some p
      \<and> (ValidateInternalToken (p_env p) actual (p_store p) \<longleftrightarrow> trim_space actual = trim_space new))"
  proof (cases "o_local rot t")
    case False
    with targets_visit [OF distinct_targets [OF assms(5)] t, of "o_local rot" oldToken new net] steps(2,3)
    have visit: "fst (applyInternalTokenToTarget t oldToken new net) < 300"
        "fmlookup net' t = fmlookup (snd (applyInternalTokenToTarget t oldToken new net)) t"
      by auto
    then obtain p where p: "fmlookup net t = Some p"
      by (auto simp: applyInternalTokenToTarget_def split: option.splits)
    obtain code p' where ap: "apply_peer oldToken new p = (code, p')" by (cases "apply_peer oldToken new p")
    with visit p have "code < 300" "fmlookup net' t = Some p'" by (auto simp: applyInternalTokenToTarget_def)
    with apply_peer_ok [OF ap _ assms(3)] show ?thesis by blast
  qed simp
qed

text \<open>
  A peer that no longer accepts the local token blocks every rotation: while some remote
  target rejects the token this node holds, no rotation succeeds and the node keeps its token. An
  interrupted rotation leaves exactly this state behind, since the peers that took the new token
  reject the old one.
\<close>

theorem rotate_cluster_stuck:
  assumes "GetInternalToken (y_env y) (y_store y) = Inr old" and "old \<noteq> []" and "ClusterAblecubeTargets (y_store y) = Inr ts"
    and "t \<in> set ts" and "\<not> o_local rot t" and "fmlookup net t = Some p"
    and "\<not> ValidateInternalToken (p_env p) old (p_store p)"
  shows "fst (rotate_cluster y req rot net) \<noteq> 200 \<and> fst (snd (rotate_cluster y req rot net)) = y_store y"
proof -
  have ensure: "\<exists>c. EnsureInternalToken (y_env y) (o_first rot) (o_fault1 rot) (y_store y) = (Inr (old, c), y_store y)"
    using assms(1,2) by (auto simp: EnsureInternalToken_def GetInternalToken_def split: if_splits option.splits)
  have rejected: "fst (applyInternalTokenToTarget t old new net) \<ge> 300" for new
    using assms(6,7) by (auto simp: applyInternalTokenToTarget_def apply_peer_def ApplyInternalToken_def split: delivery.splits)
  have blocked: "list_ex (\<lambda>(t, code). code \<ge> 300) (fst (applyInternalTokenToTargets (o_local rot) ts old new net))" for new
    using targets_visit [OF distinct_targets [OF assms(3)] assms(4), of "o_local rot" old new net] assms(5) rejected [of new]
    by (auto simp: list_ex_iff)
  show ?thesis
    using ensure blocked assms(3)
    by (auto simp: rotate_cluster_def split_beta Let_def split: sum.splits option.splits)
qed

definition sample_peer :: "string \<Rightarrow> peer" where
  "sample_peer token =
     \<lparr>p_env = (\<lambda>_. []), p_store = sample_store (fmupd ''security'' (VMap (puts ''internal_token'' token fmempty)) fmempty),
      p_fault = None, p_delivery = Delivered\<rparr>"

definition two_node_root :: gomap where
  "two_node_root =
     fmupd ''security'' (VMap (puts ''internal_token'' ''old'' fmempty))
       (fmupd ''type'' (VStr ''ablestack-vm'') (fmupd ''hosts'' (VArr [VMap (puts ''ablecube'' ''10.0.0.2'' fmempty)]) fmempty))"

lemma trim_old_new: "trim_space ''old'' = ''old''" "trim_space ''new'' = ''new''" "trim_space ''10.0.0.2'' = ''10.0.0.2''"
  by code_simp+

lemma peer_token: "GetInternalToken (\<lambda>_. []) (sample_store (fmupd ''security'' (VMap (puts ''internal_token'' t fmempty)) fmempty)) = Inr (trim_space t)"
  by (simp add: GetInternalToken_def no_env sample_store_def loadClusterRoot_def NormalizeClusterJSON_def internalTokenFromRoot_def)

lemma two_node:
  "GetInternalToken (\<lambda>_. []) (sample_store two_node_root) = Inr ''old''"
  "ClusterAblecubeTargets (sample_store two_node_root) = Inr [''10.0.0.2'']"
  by (simp_all add: GetInternalToken_def no_env sample_store_def loadClusterRoot_def NormalizeClusterJSON_def two_node_root_def
      internalTokenFromRoot_def trim_old_new ClusterAblecubeTargets_def clusterConfigMap_def mapFromAny_def)

theorem rotate_cluster_stuck_witness:
  "fst (rotate_cluster (sample_system two_node_root) (sample_request [])
     \<lparr>o_local = (\<lambda>_. False), o_first = None, o_next = Some ''third'', o_fault1 = None, o_fault2 = None\<rparr>
     (fmupd ''10.0.0.2'' (sample_peer ''new'') fmempty)) \<noteq> 200"
proof -
  have "\<not> ValidateInternalToken (p_env (sample_peer ''new'')) ''old'' (p_store (sample_peer ''new''))"
    by (simp add: sample_peer_def ValidateInternalToken_def peer_token trim_old_new)
  then show ?thesis
    using rotate_cluster_stuck [of "sample_system two_node_root" "''old''" "[''10.0.0.2'']" "''10.0.0.2''"
        "\<lparr>o_local = (\<lambda>_. False), o_first = None, o_next = Some ''third'', o_fault1 = None, o_fault2 = None\<rparr>"
        "fmupd ''10.0.0.2'' (sample_peer ''new'') fmempty" "sample_peer ''new''" "sample_request []"] two_node
    by (simp add: sample_fields)
qed


lemma sample_claims:
  "\<exists>tok claim. Login (sample_system root) (Some (''root'', ''secret'')) = (200, Some tok)
     \<and> ClaimsFromRequest (sample_system root) (sample_request (Authorization tok)) = Inr claim"
proof -
  let ?y = "sample_system root"
  obtain secret where secret: "ExistingSigningSecret ?y = Inr secret" using sample_secret by blast
  obtain tok where tok: "Login ?y (Some (''root'', ''secret'')) = (200, Some tok)" using sample_login by blast
  let ?claim = "\<lparr>Subject = ''root'', Role = ''admin'', Use = tokenUseAccess, IssuedAt = 5, Expires = 3605\<rparr>"
  have name: "trim_space ''root'' = ''root''" by code_simp
  have vals: "y_now ?y div second = 5" "(y_now ?y + AccessTokenTTL ?y) div second = 3605"
    unfolding sample_ttl by (simp_all add: sample_system_def second_def)
  have "Authorization tok = ''Bearer'' @ '' '' @ signToken ?y ?claim secret"
    using tok secret name vals by (auto simp: Login_def IssueAccessToken_def Let_def split: if_splits)
  then have header: "get_header (sample_request (Authorization tok)) ''Authorization'' = ''Bearer'' @ '' '' @ signToken ?y ?claim secret"
    by (simp add: get_header_def sample_request_def)
  have "y_decode ?y (y_encode ?y ?claim) = Some ?claim" by (simp add: sample_system_def tokenUseAccess_def)
  from claims_of_issued [OF header secret this refl] vals have "ClaimsFromRequest ?y (sample_request (Authorization tok)) = Inr ?claim"
    by simp
  with tok show ?thesis by blast
qed

lemma set_token_done:
  assumes "loadClusterRoot (s_doc st) = Some root" and "trim_space token \<noteq> []"
  shows "\<exists>st'. SetInternalToken (\<lambda>_. []) None token st = (Inr (), st')"
  using assms by (simp add: SetInternalToken_def no_env saveInternalToken_def saveClusterRoot_def)

theorem rotate_cluster_agrees_witness:
  "\<exists>(tok :: IssuedToken) st' net'. rotate_cluster (sample_system two_node_root) (sample_request (Authorization tok))
       \<lparr>o_local = (\<lambda>_. False), o_first = None, o_next = Some ''new'', o_fault1 = None, o_fault2 = None\<rparr>
       (fmupd ''10.0.0.2'' (sample_peer ''old'') fmempty) = (200, st', net')
     \<and> ValidateInternalToken (\<lambda>_. []) ''new'' st'"
proof -
  let ?y = "sample_system two_node_root" and ?st = "sample_store two_node_root"
  let ?rot = "\<lparr>o_local = (\<lambda>_. False), o_first = None, o_next = Some ''new'', o_fault1 = None, o_fault2 = None\<rparr>"
  let ?net = "fmupd ''10.0.0.2'' (sample_peer ''old'') fmempty"
  obtain tok :: IssuedToken and claim where claim: "ClaimsFromRequest ?y (sample_request (Authorization tok)) = Inr claim"
    using sample_claims by blast
  have ensure: "EnsureInternalToken (\<lambda>_. []) None None ?st = (Inr (''old'', False), ?st)"
    using two_node(1) by (auto simp: EnsureInternalToken_def GetInternalToken_def no_env split: option.splits)
  obtain pst where pst: "SetInternalToken (\<lambda>_. []) None ''new'' (p_store (sample_peer ''old'')) = (Inr (), pst)"
    using set_token_done [of "p_store (sample_peer ''old'')" _ "''new''"] by (auto simp: sample_peer_def sample_store_def loadClusterRoot_def trim_old_new)
  obtain st' where st': "SetInternalToken (\<lambda>_. []) None ''new'' ?st = (Inr (), st')"
    using set_token_done [of ?st _ "''new''"] by (auto simp: sample_store_def loadClusterRoot_def trim_old_new)
  have "ValidateInternalToken (\<lambda>_. []) ''old'' (p_store (sample_peer ''old''))"
    by (simp add: sample_peer_def ValidateInternalToken_def peer_token trim_old_new)
  then have "apply_peer ''old'' ''new'' (sample_peer ''old'') = (200, (sample_peer ''old'')\<lparr>p_store := pst\<rparr>)"
    using pst by (simp add: apply_peer_def sample_peer_def) (simp add: ApplyInternalToken_def trim_old_new)
  then have rot: "rotate_cluster ?y (sample_request (Authorization tok)) ?rot ?net =
      (200, st', fmupd ''10.0.0.2'' ((sample_peer ''old'')\<lparr>p_store := pst\<rparr>) ?net)"
    using claim ensure two_node(2) st'
    by (simp add: rotate_cluster_def sample_fields applyInternalTokenToTarget_def)
  have "ValidateInternalToken (y_env ?y) ''new'' st'"
    using rotate_cluster_agrees [OF rot, of "''new''" "(''old'', False)" ?st "[''10.0.0.2'']" "''new''"] ensure two_node(2)
    by (simp add: sample_fields trim_old_new)
  with rot show ?thesis by (auto simp: sample_fields)
qed

lemma atoi_Nil: "atoi [] = None"
  by (simp add: atoi_def has_prefix_def)

lemma duration_exact: "duration s = s * second \<longleftrightarrow> - 9223372036 \<le> s \<and> s \<le> 9223372036"
proof -
  have "sint (word_of_int x :: 64 word) = x \<longleftrightarrow> - (2 ^ 63) \<le> x \<and> x < 2 ^ 63" for x
    using signed_take_bit_int_eq_self_iff [of 63 x] by (simp add: sint_sbintrunc')
  then have "duration s = s * second \<longleftrightarrow> - (2 ^ 63) \<le> s * second \<and> s * second < 2 ^ 63"
    by (simp only: duration_def)
  also have "\<dots> \<longleftrightarrow> - 9223372036 \<le> s \<and> s \<le> 9223372036" by (auto simp: second_def)
  finally show ?thesis .
qed

text \<open>
  A lifetime given in the environment is taken at its value exactly up to 9223372036 seconds;
  beyond that the 64-bit nanosecond count wraps around.
\<close>

theorem AccessTokenTTL_exact:
  assumes "atoi (trim_space (y_env y ''ABLESTACK_ACCESS_TOKEN_TTL_SECONDS'')) = Some s" and "s > 0"
  shows "AccessTokenTTL y = s * second \<longleftrightarrow> s \<le> 9223372036"
proof -
  have "trim_space (y_env y ''ABLESTACK_ACCESS_TOKEN_TTL_SECONDS'') \<noteq> []"
    using assms(1) atoi_Nil by auto
  with assms have "AccessTokenTTL y = duration s" by (simp add: AccessTokenTTL_def Let_def)
  with duration_exact [of s] assms(2) show ?thesis by simp
qed

theorem AccessTokenTTL_exact_witness:
  "AccessTokenTTL ((sample_system fmempty)\<lparr>y_env := (\<lambda>_. ''60'')\<rparr>) = 60 * second
   \<and> AccessTokenTTL ((sample_system fmempty)\<lparr>y_env := (\<lambda>_. ''9223372037'')\<rparr>) \<noteq> 9223372037 * second"
proof -
  have "trim_space ''60'' = ''60''" "trim_space ''9223372037'' = ''9223372037''" by code_simp+
  moreover have "atoi ''60'' = Some 60" "atoi ''9223372037'' = Some 9223372037" by (simp_all add: go_str)
  ultimately show ?thesis
    using AccessTokenTTL_exact [of "(sample_system fmempty)\<lparr>y_env := (\<lambda>_. ''60'')\<rparr>" 60]
      AccessTokenTTL_exact [of "(sample_system fmempty)\<lparr>y_env := (\<lambda>_. ''9223372037'')\<rparr>" 9223372037]
    by simp
qed

text \<open>
  The one exception of the gate is narrow: a request is let through without a valid token only
  if no token is configured yet, it is the local apply of an insert, its header carries at least
  sixteen characters and the body brings that same token.
\<close>

theorem bootstrap_exception:
  assumes "allowClusterApplyLocalBootstrap y req"
  shows "r_method req = ''POST'' \<and> r_path req = ''/api/v1/cube/cluster/apply-local''
     \<and> GetInternalToken (y_env y) (y_store y) = Inr [] \<and> 16 \<le> length (trim_space (get_header req ''X-Cube-Internal-Token''))
     \<and> (\<exists>body action token. r_body req = Some body \<and> bootstrap_payload body = Some (action, token)
          \<and> equal_fold (trim_space action) ''insert''
          \<and> trim_space token = trim_space (get_header req ''X-Cube-Internal-Token''))"
proof -
  obtain cur where "GetInternalToken (y_env y) (y_store y) = Inr cur" "trim_space cur = []"
    using assms by (auto simp: allowClusterApplyLocalBootstrap_def split: if_splits sum.splits)
  with GetInternalToken_trimmed have "GetInternalToken (y_env y) (y_store y) = Inr []" by metis
  with assms show ?thesis
    by (auto simp: allowClusterApplyLocalBootstrap_def InternalTokenHeader_def Let_def split: if_splits option.splits prod.splits)
qed

theorem bootstrap_exception_witness:
  "allowClusterApplyLocalBootstrap (sample_system fmempty)
     \<lparr>r_method = ''POST'', r_path = ''/api/v1/cube/cluster/apply-local'',
      r_headers = [(''X-Cube-Internal-Token'', [''0123456789abcdef''])],
      r_body = Some (JDoc (VMap (puts ''action'' ''insert''
        (fmupd ''security'' (VMap (puts ''internal_token'' ''0123456789abcdef'' fmempty)) fmempty))))\<rparr>
   \<and> GetInternalToken (\<lambda>_. []) (sample_store fmempty) = Inr []"
proof -
  let ?req = "\<lparr>r_method = ''POST'', r_path = ''/api/v1/cube/cluster/apply-local'',
      r_headers = [(''X-Cube-Internal-Token'', [''0123456789abcdef''])],
      r_body = Some (JDoc (VMap (puts ''action'' ''insert''
        (fmupd ''security'' (VMap (puts ''internal_token'' ''0123456789abcdef'' fmempty)) fmempty))))\<rparr>"
  have trim: "trim_space ''0123456789abcdef'' = ''0123456789abcdef''" "equal_fold (trim_space ''insert'') ''insert''" by code_simp+
  have get: "GetInternalToken (\<lambda>_. []) (sample_store fmempty) = Inr []"
    by (simp add: GetInternalToken_def no_env sample_store_def loadClusterRoot_def NormalizeClusterJSON_def internalTokenFromRoot_def)
  have "allowClusterApplyLocalBootstrap (sample_system fmempty) ?req"
    by (simp add: allowClusterApplyLocalBootstrap_def sample_fields get get_header_def InternalTokenHeader_def trim
        bootstrap_payload_def string_field_def)
  with bootstrap_exception [OF this] show ?thesis by (simp add: sample_fields)
qed

end
