(* ===== verification/Glue_Validation.thy ===== *)
theory Glue_Validation
  imports Hosts_File
begin

text \<open>
  The input checks of \<^verbatim>\<open>internal/service/glueservice/validation.go\<close>, which stand before
  every Ceph, RBD, SMB, NVMe-oF and iSCSI command. The patterns are anchored character classes over
  ASCII, so a match is a check of every byte; \<^verbatim>\<open>net.ParseIP\<close> and \<^verbatim>\<open>net.ParseCIDR\<close>
  are modelled as their parsers.
\<close>

section \<open>Patterns\<close>

definition is_alnum :: "char \<Rightarrow> bool" where
  "is_alnum c \<longleftrightarrow>
     (let n = (of_char c :: nat) in (48 \<le> n \<and> n \<le> 57) \<or> (65 \<le> n \<and> n \<le> 90) \<or> (97 \<le> n \<and> n \<le> 122))"

definition is_hex :: "char \<Rightarrow> bool" where
  "is_hex c \<longleftrightarrow>
     (let n = (of_char c :: nat) in (48 \<le> n \<and> n \<le> 57) \<or> (65 \<le> n \<and> n \<le> 70) \<or> (97 \<le> n \<and> n \<le> 102))"

text \<open>One or more characters that are letters, digits or in the given list.\<close>

definition word_of :: "string \<Rightarrow> string \<Rightarrow> bool" where
  "word_of extra s \<longleftrightarrow> s \<noteq> [] \<and> list_all (\<lambda>c. is_alnum c \<or> c \<in> set extra) s"

definition poolNamePattern :: "string \<Rightarrow> bool" where
  "poolNamePattern = word_of ''._-''"

definition imageNamePattern :: "string \<Rightarrow> bool" where
  "imageNamePattern = word_of ''._-''"

definition imageRefPattern :: "string \<Rightarrow> bool" where
  "imageRefPattern = word_of ''._/-''"

definition cephNamePattern :: "string \<Rightarrow> bool" where
  "cephNamePattern = word_of ''._:-''"

definition serviceNamePattern :: "string \<Rightarrow> bool" where
  "serviceNamePattern = word_of ''._:-''"

definition serviceTypePattern :: "string \<Rightarrow> bool" where
  "serviceTypePattern = word_of ''._-''"

definition rgwNamePattern :: "string \<Rightarrow> bool" where
  "rgwNamePattern = word_of ''._@:-''"

definition bucketNamePattern :: "string \<Rightarrow> bool" where
  "bucketNamePattern = word_of ''._-''"

definition nqnPattern :: "string \<Rightarrow> bool" where
  "nqnPattern = word_of ''._:-''"

definition uuidPattern :: "string \<Rightarrow> bool" where
  "uuidPattern s \<longleftrightarrow> s \<noteq> [] \<and> list_all (\<lambda>c. is_hex c \<or> c = CHR ''-'') s"

definition containerImagePattern :: "string \<Rightarrow> bool" where
  "containerImagePattern = word_of ''._:/-''"

definition smbNamePattern :: "string \<Rightarrow> bool" where
  "smbNamePattern = word_of ''._-''"

definition smbUsernamePattern :: "string \<Rightarrow> bool" where
  "smbUsernamePattern = word_of ''._@+-''"

definition smbPathPattern :: "string \<Rightarrow> bool" where
  "smbPathPattern s \<longleftrightarrow> has_prefix s ''/'' \<and> list_all (\<lambda>c. is_alnum c \<or> c \<in> set ''._/@:+-'') (drop 1 s)"

definition smbRealmPattern :: "string \<Rightarrow> bool" where
  "smbRealmPattern s \<longleftrightarrow>
     (case s of [] \<Rightarrow> False | c # t \<Rightarrow> is_alnum c \<and> list_all (\<lambda>c. is_alnum c \<or> c \<in> set ''._-'') t)"

definition iscsiIQNPattern :: "string \<Rightarrow> bool" where
  "iscsiIQNPattern = word_of ''._:-''"

definition iscsiUserPattern :: "string \<Rightarrow> bool" where
  "iscsiUserPattern = word_of ''._@+-''"

section \<open>Addresses\<close>

definition valid_octet :: "string \<Rightarrow> bool" where
  "valid_octet t \<longleftrightarrow> t \<noteq> [] \<and> list_all is_digit t \<and> parse_digits t \<le> 255 \<and> (length t = 1 \<or> hd t \<noteq> CHR ''0'')"

definition parse_v4 :: "string \<Rightarrow> bool" where
  "parse_v4 s \<longleftrightarrow> (let parts = split_on CHR ''.'' s in length parts = 4 \<and> list_all valid_octet parts)"

text \<open>
  The loop over the groups of an IPv6 address: how many of the eight groups are left, and whether
  the double colon was seen.
\<close>

definition v6_end :: "nat \<Rightarrow> bool \<Rightarrow> bool" where
  "v6_end left ellipsis = (if left = 0 then \<not> ellipsis else ellipsis)"

fun v6_loop :: "nat \<Rightarrow> bool \<Rightarrow> string \<Rightarrow> bool" where
  "v6_loop 0 ellipsis s = (s = [] \<and> \<not> ellipsis)"
| "v6_loop (Suc left) ellipsis s =
     (let digits = length (takeWhile is_hex s); rest = drop digits s
      in if digits = 0 \<or> digits > 4 then False
         else (case rest of
                 [] \<Rightarrow> v6_end left ellipsis
               | c # t \<Rightarrow>
                   if c = CHR ''.'' then (ellipsis \<or> left = 1) \<and> 1 \<le> left \<and> parse_v4 s \<and> v6_end (left - 1) ellipsis
                   else if c = CHR '':'' then
                     (case t of
                        [] \<Rightarrow> False
                      | d # u \<Rightarrow>
                          if d = CHR '':'' then \<not> ellipsis \<and> (if u = [] then v6_end left True else v6_loop left True u)
                          else v6_loop left ellipsis t)
                   else False))"

definition parse_v6 :: "string \<Rightarrow> bool" where
  "parse_v6 s =
     (if has_prefix s ''::'' then drop 2 s = [] \<or> v6_loop 8 True (drop 2 s) else v6_loop 8 False s)"

text \<open>The number of address bits; none if the text is not an address without a zone.\<close>

definition ip_bits :: "string \<Rightarrow> nat option" where
  "ip_bits s =
     (case dropWhile (\<lambda>c. c \<noteq> CHR ''.'' \<and> c \<noteq> CHR '':'' \<and> c \<noteq> CHR 0x25) s of
        [] \<Rightarrow> None
      | c # t \<Rightarrow>
          if c = CHR ''.'' then (if parse_v4 s then Some 32 else None)
          else if c = CHR '':'' then (if CHR 0x25 \<notin> set s \<and> parse_v6 s then Some 128 else None)
          else None)"

definition ParseIP :: "string \<Rightarrow> bool" where
  "ParseIP s \<longleftrightarrow> ip_bits s \<noteq> None"

definition ParseCIDR :: "string \<Rightarrow> bool" where
  "ParseCIDR s \<longleftrightarrow>
     CHR ''/'' \<in> set s
     \<and> (let addr = takeWhile (\<lambda>c. c \<noteq> CHR ''/'') s; mask = drop 1 (dropWhile (\<lambda>c. c \<noteq> CHR ''/'') s)
        in case ip_bits addr of
             None \<Rightarrow> False
           | Some bits \<Rightarrow> mask \<noteq> [] \<and> list_all is_digit mask \<and> parse_digits mask \<le> bits)"

section \<open>Checks\<close>

definition named :: "string \<Rightarrow> string \<Rightarrow> string" where
  "named field fallback = (if trim_space field = [] then fallback else trim_space field)"

definition ValidatePoolName :: "string \<Rightarrow> unit outcome" where
  "ValidatePoolName value =
     (let v = trim_space value
      in if v = [] then failing ''pool_name is required''
         else if \<not> poolNamePattern v then failing ''invalid pool_name''
         else okay ())"

definition ValidateImageName :: "string \<Rightarrow> unit outcome" where
  "ValidateImageName value =
     (let v = trim_space value
      in if v = [] then failing ''image_name is required''
         else if \<not> imageNamePattern v then failing ''invalid image_name''
         else okay ())"

definition ValidateImageRef :: "string \<Rightarrow> unit outcome" where
  "ValidateImageRef value =
     (let v = trim_space value
      in if v = [] then failing ''image_name is required''
         else if \<not> imageRefPattern v then failing ''invalid image_name''
         else okay ())"

definition ValidateServiceName :: "string \<Rightarrow> unit outcome" where
  "ValidateServiceName value =
     (let v = trim_space value
      in if v = [] then failing ''service_name is required''
         else if \<not> serviceNamePattern v then failing ''invalid service_name''
         else okay ())"

definition ValidateBucketName :: "string \<Rightarrow> unit outcome" where
  "ValidateBucketName value =
     (let v = trim_space value
      in if v = [] then failing ''bucket_name is required''
         else if \<not> bucketNamePattern v then failing ''invalid bucket_name''
         else okay ())"

definition ValidateNQN :: "string \<Rightarrow> unit outcome" where
  "ValidateNQN value =
     (let v = trim_space value
      in if v = [] then failing ''subsystem_nqn_id is required''
         else if \<not> nqnPattern v then failing ''invalid subsystem_nqn_id''
         else okay ())"

definition ValidateNamespaceUUID :: "string \<Rightarrow> unit outcome" where
  "ValidateNamespaceUUID value =
     (let v = trim_space value
      in if v = [] then failing ''namespace_uuid is required''
         else if \<not> uuidPattern v then failing ''invalid namespace_uuid''
         else okay ())"

definition ValidateContainerImage :: "string \<Rightarrow> unit outcome" where
  "ValidateContainerImage value =
     (let v = trim_space value
      in if v = [] then failing ''image is required''
         else if \<not> containerImagePattern v then failing ''invalid image''
         else okay ())"

definition ValidateSMBFolderName :: "string \<Rightarrow> unit outcome" where
  "ValidateSMBFolderName value =
     (let v = trim_space value
      in if v = [] then failing ''folder_name is required''
         else if \<not> smbNamePattern v then failing ''invalid folder_name''
         else okay ())"

definition ValidateSMBUsername :: "string \<Rightarrow> unit outcome" where
  "ValidateSMBUsername value =
     (let v = trim_space value
      in if v = [] then failing ''username is required''
         else if \<not> smbUsernamePattern v then failing ''invalid username''
         else okay ())"

definition ValidateSMBRealm :: "string \<Rightarrow> unit outcome" where
  "ValidateSMBRealm value =
     (let v = trim_space value
      in if v = [] then failing ''realm is required''
         else if \<not> smbRealmPattern v then failing ''invalid realm''
         else okay ())"


definition ValidateCephName :: "string \<Rightarrow> string \<Rightarrow> unit outcome" where
  "ValidateCephName field value =
     (let f = named field ''name''; v = trim_space value
      in if v = [] then failing (f @ '' is required'')
         else if \<not> cephNamePattern v then failing (''invalid '' @ f)
         else okay ())"

definition ValidateRGWName :: "string \<Rightarrow> string \<Rightarrow> unit outcome" where
  "ValidateRGWName field value =
     (let f = named field ''name''; v = trim_space value
      in if v = [] then failing (f @ '' is required'')
         else if \<not> rgwNamePattern v then failing (''invalid '' @ f)
         else okay ())"

definition ValidateServiceToken :: "string \<Rightarrow> unit outcome" where
  "ValidateServiceToken value =
     (let v = trim_space value
      in if v = [] then okay ()
         else if \<not> serviceTypePattern v then failing ''invalid service_type''
         else okay ())"

definition ValidateServiceControl :: "string \<Rightarrow> unit outcome" where
  "ValidateServiceControl value =
     (if to_lower (trim_space value) \<in> {''start'', ''stop'', ''restart'', ''redeploy''} then okay ()
      else failing ''control must be one of start, stop, restart, redeploy'')"

definition ValidateOptionalNQN :: "string \<Rightarrow> unit outcome" where
  "ValidateOptionalNQN value = (if trim_space value = [] then okay () else ValidateNQN (trim_space value))"

definition ValidateIPAddress :: "string \<Rightarrow> string \<Rightarrow> unit outcome" where
  "ValidateIPAddress field value =
     (let f = named field ''ip''; v = trim_space value
      in if v = [] then failing (f @ '' is required'')
         else if \<not> ParseIP v then failing (''invalid '' @ f)
         else okay ())"

definition ValidateIPOrCIDR :: "string \<Rightarrow> string \<Rightarrow> unit outcome" where
  "ValidateIPOrCIDR field value =
     (let f = named field ''ip''; v = trim_space value
      in if v = [] then failing (f @ '' is required'')
         else if ParseIP v then okay ()
         else if ParseCIDR v then okay ()
         else failing (''invalid '' @ f))"

definition ValidateCIDR :: "string \<Rightarrow> string \<Rightarrow> unit outcome" where
  "ValidateCIDR field value =
     (let f = named field ''cidr''; v = trim_space value
      in if v = [] then failing (f @ '' is required'')
         else if \<not> ParseCIDR v then failing (''invalid '' @ f)
         else okay ())"

definition ValidatePort :: "string \<Rightarrow> unit outcome" where
  "ValidatePort value =
     (let v = trim_space value
      in if v = [] then failing ''port is required''
         else (case atoi v of
                 None \<Rightarrow> failing ''port must be between 1 and 65535''
               | Some port \<Rightarrow> if port < 1 \<or> port > 65535 then failing ''port must be between 1 and 65535'' else okay ()))"

definition ValidateSMBSecurityType :: "string \<Rightarrow> unit outcome" where
  "ValidateSMBSecurityType value =
     (if to_lower (trim_space value) \<in> {''normal'', ''ads''} then okay ()
      else failing ''sec_type must be one of normal, ads'')"

definition ValidateSMBCachePolicy :: "string \<Rightarrow> unit outcome" where
  "ValidateSMBCachePolicy value =
     (if to_lower (trim_space value) \<in> {''true'', ''false''} then okay ()
      else failing ''cache_policy must be one of true, false'')"

definition control_free :: "string \<Rightarrow> bool" where
  "control_free v \<longleftrightarrow> list_all (\<lambda>c. c \<noteq> CHR 0x00 \<and> c \<noteq> CHR 0x0D \<and> c \<noteq> CHR 0x0A) v"

definition ValidateSMBPassword :: "string \<Rightarrow> unit outcome" where
  "ValidateSMBPassword value =
     (let v = trim_space value
      in if v = [] then failing ''password is required''
         else if \<not> control_free v then failing ''invalid password''
         else okay ())"

definition hasParentPathSegment :: "string \<Rightarrow> bool" where
  "hasParentPathSegment value = list_ex (\<lambda>part. part = ''..'') (split_on CHR ''/'' value)"

definition ValidateSMBPath :: "string \<Rightarrow> string \<Rightarrow> unit outcome" where
  "ValidateSMBPath field value =
     (let f = named field ''path''; v = trim_space value
      in if v = [] then failing (f @ '' is required'')
         else if v = ''/'' \<or> \<not> smbPathPattern v \<or> hasParentPathSegment v then failing (''invalid '' @ f)
         else okay ())"

definition ValidateISCSIIQN :: "string \<Rightarrow> string \<Rightarrow> unit outcome" where
  "ValidateISCSIIQN field value =
     (let f = named field ''iqn_id''; v = trim_space value
      in if v = [] then failing (f @ '' is required'')
         else if \<not> has_prefix (to_lower v) ''iqn.'' \<or> \<not> iscsiIQNPattern v then failing (''invalid '' @ f)
         else okay ())"

definition ValidateISCSIUser :: "string \<Rightarrow> string \<Rightarrow> bool \<Rightarrow> unit outcome" where
  "ValidateISCSIUser field value required =
     (let f = named field ''user''; v = trim_space value
      in if v = [] then (if required then failing (f @ '' is required'') else okay ())
         else if length v < 3 \<or> length v > 64 \<or> \<not> iscsiUserPattern v then failing (''invalid '' @ f)
         else okay ())"

definition ValidateISCSISecret :: "string \<Rightarrow> string \<Rightarrow> bool \<Rightarrow> unit outcome" where
  "ValidateISCSISecret field value required =
     (let f = named field ''password''; v = trim_space value
      in if v = [] then (if required then failing (f @ '' is required'') else okay ())
         else if \<not> control_free v then failing (''invalid '' @ f)
         else okay ())"


section \<open>The contract of a name check\<close>

text \<open>
  The characters that no shell, no option parser and no Ceph name treats specially inside a word. A
  name check promises that what it accepts, once trimmed, is made of these, and that it judges the
  trimmed text.
\<close>

definition plain_char :: "char \<Rightarrow> bool" where
  "plain_char c \<longleftrightarrow> is_alnum c \<or> c \<in> set ''._-/:@+''"

lemma plain_char_printable: "plain_char c \<Longrightarrow> 33 \<le> (of_char c :: nat) \<and> (of_char c :: nat) < 127"
  by (auto simp: plain_char_def is_alnum_def Let_def)

lemma hex_plain: "is_hex c \<Longrightarrow> plain_char c"
  by (auto simp: plain_char_def is_alnum_def is_hex_def Let_def)

definition meta_chars :: string where
  "meta_chars = [CHR 0x20, CHR 0x09, CHR 0x0A, CHR 0x0D, CHR 0x00, CHR 0x22, CHR 0x27, CHR 0x60, CHR 0x24, CHR 0x3B, CHR 0x26,
     CHR 0x7C, CHR 0x3C, CHR 0x3E, CHR 0x28, CHR 0x29, CHR 0x2A, CHR 0x3F, CHR 0x5C, CHR 0x7E, CHR 0x23, CHR 0x25, CHR 0x3D, CHR 0x2C]"

lemma meta_not_plain: "c \<in> set meta_chars \<Longrightarrow> \<not> plain_char c"
proof -
  have "list_all (\<lambda>c. \<not> plain_char c) meta_chars" by code_simp
  then show "c \<in> set meta_chars \<Longrightarrow> \<not> plain_char c" by (auto simp: list_all_iff)
qed

locale word_check =
  fixes check :: "string \<Rightarrow> unit outcome"
  assumes accepted: "check v = okay () \<Longrightarrow> trim_space v \<noteq> [] \<and> list_all plain_char (trim_space v)"
    and trims: "check (trim_space v) = check v"
begin

lemma one_word: "check v = okay () \<Longrightarrow> str_fields (trim_space v) = [trim_space v]"
proof -
  assume "check v = okay ()"
  then have v: "trim_space v \<noteq> []" "list_all (\<lambda>c. 33 \<le> (of_char c :: nat) \<and> (of_char c :: nat) < 127) (trim_space v)"
    using accepted [of v] plain_char_printable by (auto simp: list_all_iff)
  have "fields_from [] (trim_space v @ []) = [trim_space v]"
    using v by (subst fields_from_printable) (simp_all add: v)
  then show "str_fields (trim_space v) = [trim_space v]" by (simp add: str_fields_def)
qed

lemma no_meta: "check v = okay () \<Longrightarrow> set (trim_space v) \<inter> set meta_chars = {}"
  using accepted [of v] meta_not_plain by (auto simp: list_all_iff)

lemma rejects_meta: "c \<in> set (trim_space v) \<Longrightarrow> c \<in> set meta_chars \<Longrightarrow> check v \<noteq> okay ()"
  using no_meta by blast

end

lemma word_of_plain: "word_of extra s \<Longrightarrow> (\<And>c. c \<in> set extra \<Longrightarrow> plain_char c) \<Longrightarrow> list_all plain_char s"
  by (auto simp: word_of_def list_all_iff plain_char_def)

lemma pattern_plain:
  "poolNamePattern s \<Longrightarrow> list_all plain_char s"
  "imageNamePattern s \<Longrightarrow> list_all plain_char s"
  "imageRefPattern s \<Longrightarrow> list_all plain_char s"
  "cephNamePattern s \<Longrightarrow> list_all plain_char s"
  "serviceNamePattern s \<Longrightarrow> list_all plain_char s"
  "bucketNamePattern s \<Longrightarrow> list_all plain_char s"
  "nqnPattern s \<Longrightarrow> list_all plain_char s"
  "uuidPattern s \<Longrightarrow> list_all plain_char s"
  "containerImagePattern s \<Longrightarrow> list_all plain_char s"
  "smbNamePattern s \<Longrightarrow> list_all plain_char s"
  "smbUsernamePattern s \<Longrightarrow> list_all plain_char s"
  "smbPathPattern s \<Longrightarrow> list_all plain_char s"
  "smbRealmPattern s \<Longrightarrow> list_all plain_char s"
  "iscsiIQNPattern s \<Longrightarrow> list_all plain_char s"
  "iscsiUserPattern s \<Longrightarrow> list_all plain_char s"
  "rgwNamePattern s \<Longrightarrow> list_all plain_char s"
proof -
  have "list_all plain_char ''._-/:@+''" by code_simp
  then have extra: "c \<in> set ''._-/:@+'' \<Longrightarrow> plain_char c" for c by (simp only: list_all_iff Ball_def)
  show "poolNamePattern s \<Longrightarrow> list_all plain_char s"
    "imageNamePattern s \<Longrightarrow> list_all plain_char s"
    "imageRefPattern s \<Longrightarrow> list_all plain_char s"
    "cephNamePattern s \<Longrightarrow> list_all plain_char s"
    "serviceNamePattern s \<Longrightarrow> list_all plain_char s"
    "bucketNamePattern s \<Longrightarrow> list_all plain_char s"
    "nqnPattern s \<Longrightarrow> list_all plain_char s"
    "containerImagePattern s \<Longrightarrow> list_all plain_char s"
    "smbNamePattern s \<Longrightarrow> list_all plain_char s"
    "smbUsernamePattern s \<Longrightarrow> list_all plain_char s"
    "iscsiIQNPattern s \<Longrightarrow> list_all plain_char s"
    "iscsiUserPattern s \<Longrightarrow> list_all plain_char s"
    "rgwNamePattern s \<Longrightarrow> list_all plain_char s"
    unfolding poolNamePattern_def imageNamePattern_def imageRefPattern_def cephNamePattern_def serviceNamePattern_def bucketNamePattern_def nqnPattern_def containerImagePattern_def smbNamePattern_def smbUsernamePattern_def iscsiIQNPattern_def iscsiUserPattern_def rgwNamePattern_def
    by (erule word_of_plain, rule extra, auto)+
  show "uuidPattern s \<Longrightarrow> list_all plain_char s" by (auto simp: uuidPattern_def list_all_iff hex_plain extra)
  show "smbPathPattern s \<Longrightarrow> list_all plain_char s"
    by (cases s) (auto simp: smbPathPattern_def has_prefix_def list_all_iff plain_char_def)
  show "smbRealmPattern s \<Longrightarrow> list_all plain_char s"
    by (auto simp: smbRealmPattern_def list_all_iff plain_char_def split: list.splits)
qed

lemmas check_simps = pattern_plain Let_def ValidatePoolName_def ValidateImageName_def ValidateImageRef_def ValidateServiceName_def ValidateBucketName_def ValidateNQN_def ValidateNamespaceUUID_def ValidateContainerImage_def ValidateSMBFolderName_def ValidateSMBUsername_def ValidateSMBRealm_def ValidateCephName_def ValidateRGWName_def ValidateSMBPath_def ValidateISCSIIQN_def ValidateISCSIUser_def

interpretation pool_check: word_check "ValidatePoolName"
  by unfold_locales (auto simp: check_simps split: if_splits list.splits)

interpretation image_check: word_check "ValidateImageName"
  by unfold_locales (auto simp: check_simps split: if_splits list.splits)

interpretation image_ref_check: word_check "ValidateImageRef"
  by unfold_locales (auto simp: check_simps split: if_splits list.splits)

interpretation service_check: word_check "ValidateServiceName"
  by unfold_locales (auto simp: check_simps split: if_splits list.splits)

interpretation bucket_check: word_check "ValidateBucketName"
  by unfold_locales (auto simp: check_simps split: if_splits list.splits)

interpretation nqn_check: word_check "ValidateNQN"
  by unfold_locales (auto simp: check_simps split: if_splits list.splits)

interpretation uuid_check: word_check "ValidateNamespaceUUID"
  by unfold_locales (auto simp: check_simps split: if_splits list.splits)

interpretation container_check: word_check "ValidateContainerImage"
  by unfold_locales (auto simp: check_simps split: if_splits list.splits)

interpretation folder_check: word_check "ValidateSMBFolderName"
  by unfold_locales (auto simp: check_simps split: if_splits list.splits)

interpretation smb_user_check: word_check "ValidateSMBUsername"
  by unfold_locales (auto simp: check_simps split: if_splits list.splits)

interpretation realm_check: word_check "ValidateSMBRealm"
  by unfold_locales (auto simp: check_simps split: if_splits list.splits)

interpretation ceph_check: word_check "ValidateCephName field" for field
  by unfold_locales (auto simp: check_simps split: if_splits list.splits)

interpretation rgw_check: word_check "ValidateRGWName field" for field
  by unfold_locales (auto simp: check_simps split: if_splits list.splits)

interpretation smb_path_check: word_check "ValidateSMBPath field" for field
  by unfold_locales (auto simp: check_simps split: if_splits list.splits)

interpretation iqn_check: word_check "ValidateISCSIIQN field" for field
  by unfold_locales (auto simp: check_simps split: if_splits list.splits)

interpretation iscsi_user_check: word_check "\<lambda>v. ValidateISCSIUser field v True" for field
  by unfold_locales (auto simp: check_simps split: if_splits list.splits)


section \<open>Octets\<close>

lemma digit_char_val: "is_digit c \<Longrightarrow> digit_char (digit_val c) = c"
proof -
  assume c: "is_digit c"
  then have "(of_char c :: nat) = 48 + digit_val c" by (auto simp: is_digit_def digit_val_def)
  then show "digit_char (digit_val c) = c" by (simp add: digit_char_def flip: \<open>(of_char c :: nat) = 48 + digit_val c\<close>)
qed

lemma digit_char_zero: "digit_char 0 = CHR ''0''"
  by code_simp

lemma parse_digits_snoc: "parse_digits (t @ [c]) = 10 * parse_digits t + digit_val c"
  by (simp add: parse_digits_def)

lemma digit_val_less: "is_digit c \<Longrightarrow> digit_val c < 10"
  by (auto simp: is_digit_def digit_val_def)

lemma show_parse_digits:
  "t \<noteq> [] \<Longrightarrow> list_all is_digit t \<Longrightarrow> length t = 1 \<or> hd t \<noteq> CHR ''0'' \<Longrightarrow>
     show_nat (parse_digits t) = t \<and> (hd t \<noteq> CHR ''0'' \<longrightarrow> 0 < parse_digits t)"
proof (induction t rule: rev_induct)
  case (snoc c t)
  then have c: "is_digit c" "digit_val c < 10" by (auto simp: digit_val_less)
  show ?case
  proof (cases "t = []")
    case True
    have "c \<noteq> CHR ''0'' \<Longrightarrow> 0 < digit_val c" using c digit_char_val [OF c(1)] by (cases "digit_val c") (auto simp: digit_char_zero)
    with True c show ?thesis by (auto simp: parse_digits_def digit_char_val show_nat.simps)
  next
    case False
    with snoc have t: "show_nat (parse_digits t) = t" "0 < parse_digits t" by auto
    with c show ?thesis
      by (subst show_nat.simps) (auto simp: parse_digits_snoc digit_char_val)
  qed
qed simp

lemma show_nat_hd: "0 < n \<Longrightarrow> hd (show_nat n) \<noteq> CHR ''0''"
proof (induction n rule: show_nat.induct)
  case (1 n)
  show ?case
  proof (cases "n < 10")
    case True
    then have "digit_val (digit_char n) = n" by (rule digit_val_char)
    moreover have "digit_val CHR ''0'' = 0" by (simp add: digit_val_def)
    ultimately show ?thesis using 1(2) True by (subst show_nat.simps) auto
  next
    case False
    with 1 show ?thesis by (subst show_nat.simps) auto
  qed
qed

lemma show_nat_short: "length (show_nat n) = 1 \<or> hd (show_nat n) \<noteq> CHR ''0''"
  using show_nat_hd [of n] by (cases "n = 0") (auto simp: show_nat.simps)

lemma valid_octet_iff: "valid_octet t \<longleftrightarrow> (\<exists>n \<le> 255. t = show_nat n)"
proof
  assume "valid_octet t"
  with show_parse_digits [of t] show "\<exists>n \<le> 255. t = show_nat n"
    by (intro exI [of _ "parse_digits t"]) (auto simp: valid_octet_def)
next
  assume "\<exists>n \<le> 255. t = show_nat n"
  with show_nat_digits show_nat_short show "valid_octet t" by (auto simp: valid_octet_def)
qed


lemma parse_v4_iff:
  "parse_v4 s \<longleftrightarrow> (\<exists>a b c d. a \<le> 255 \<and> b \<le> 255 \<and> c \<le> 255 \<and> d \<le> 255 \<and> s = join_with ''.'' (map show_nat [a, b, c, d]))"
proof
  assume "parse_v4 s"
  then obtain w x y z where parts: "split_on CHR ''.'' s = [w, x, y, z]" "list_all valid_octet [w, x, y, z]"
    by (auto simp: parse_v4_def Let_def length_Suc_conv numeral_eq_Suc)
  then obtain a b c d where abcd: "a \<le> 255" "b \<le> 255" "c \<le> 255" "d \<le> 255"
      "w = show_nat a" "x = show_nat b" "y = show_nat c" "z = show_nat d"
    by (auto simp: valid_octet_iff)
  with join_split_on [of "CHR ''.''" s] parts(1) have "s = join_with ''.'' (map show_nat [a, b, c, d])" by simp
  with abcd show "\<exists>a b c d. a \<le> 255 \<and> b \<le> 255 \<and> c \<le> 255 \<and> d \<le> 255 \<and> s = join_with ''.'' (map show_nat [a, b, c, d])"
    by blast
next
  assume "\<exists>a b c d. a \<le> 255 \<and> b \<le> 255 \<and> c \<le> 255 \<and> d \<le> 255 \<and> s = join_with ''.'' (map show_nat [a, b, c, d])"
  then obtain a b c d where s: "a \<le> 255" "b \<le> 255" "c \<le> 255" "d \<le> 255" "s = join_with ''.'' (map show_nat [a, b, c, d])" by blast
  have dot: "CHR ''.'' \<notin> set (show_nat n)" for n
    using show_nat_digits [of n] by (auto simp: list_all_iff is_digit_def)
  have "split_on CHR ''.'' s = map show_nat [a, b, c, d]"
    using s(5) by (simp add: split_on_append split_on_single dot)
  with s show "parse_v4 s" by (auto simp: parse_v4_def valid_octet_iff)
qed

section \<open>Properties\<close>

text \<open>The checks for values that reach a command line as one argument.\<close>

definition name_checks :: "(string \<Rightarrow> unit outcome) list" where
  "name_checks =
     [ValidatePoolName, ValidateImageName, ValidateImageRef, ValidateServiceName, ValidateBucketName, ValidateNQN,
      ValidateNamespaceUUID, ValidateContainerImage, ValidateSMBFolderName, ValidateSMBUsername, ValidateSMBRealm,
      ValidateCephName [], ValidateRGWName [], ValidateISCSIIQN [], \<lambda>v. ValidateISCSIUser [] v True]"

lemma name_checks_word_check: "check \<in> set name_checks \<Longrightarrow> word_check check"
  by (auto simp: name_checks_def
      intro: pool_check.word_check_axioms image_check.word_check_axioms image_ref_check.word_check_axioms
        service_check.word_check_axioms bucket_check.word_check_axioms nqn_check.word_check_axioms uuid_check.word_check_axioms
        container_check.word_check_axioms folder_check.word_check_axioms smb_user_check.word_check_axioms
        realm_check.word_check_axioms ceph_check.word_check_axioms rgw_check.word_check_axioms iqn_check.word_check_axioms
        iscsi_user_check.word_check_axioms)

text \<open>
  Whatever a name check accepts is, once trimmed, a single word without white space, quotes,
  substitution, redirection, globbing or control characters, so it cannot end an argument or start
  a new command.
\<close>

theorem name_checks_safe:
  assumes "check \<in> set name_checks" and "check v = okay ()"
  shows "str_fields (trim_space v) = [trim_space v] \<and> set (trim_space v) \<inter> set meta_chars = {}"
  using word_check.one_word [OF name_checks_word_check [OF assms(1)] assms(2)]
    word_check.no_meta [OF name_checks_word_check [OF assms(1)] assms(2)] by blast

theorem name_checks_safe_witness:
  "ValidatePoolName '' rbd-pool.1 '' = okay () \<and> str_fields (trim_space '' rbd-pool.1 '') = [trim_space '' rbd-pool.1 '']"
proof -
  have "ValidatePoolName '' rbd-pool.1 '' = okay ()" by code_simp
  then show ?thesis using name_checks_safe [of ValidatePoolName "'' rbd-pool.1 ''"] by (simp add: name_checks_def)
qed

text \<open>A name check does not look at the position of a dash: a name may look like an option.\<close>

lemma option_like_name: "ValidatePoolName ''--force'' = okay ()"
  by code_simp

text \<open>
  An accepted SMB path is absolute, is not the root itself and never steps up: none of its
  segments is the parent directory.
\<close>

theorem ValidateSMBPath_confined:
  assumes "ValidateSMBPath field v = okay ()"
  shows "has_prefix (trim_space v) ''/'' \<and> trim_space v \<noteq> ''/'' \<and> ''..'' \<notin> set (split_on CHR ''/'' (trim_space v))
     \<and> str_fields (trim_space v) = [trim_space v]"
  using assms smb_path_check.one_word [OF assms]
  by (auto simp: ValidateSMBPath_def Let_def hasParentPathSegment_def list_ex_iff smbPathPattern_def split: if_splits)

theorem ValidateSMBPath_confined_witness:
  "ValidateSMBPath ''path'' ''/fs/share'' = okay () \<and> ''..'' \<notin> set (split_on CHR ''/'' (trim_space ''/fs/share''))
   \<and> ValidateSMBPath ''path'' ''/fs/../etc'' \<noteq> okay ()"
proof -
  have "ValidateSMBPath ''path'' ''/fs/share'' = okay ()" "ValidateSMBPath ''path'' ''/fs/../etc'' \<noteq> okay ()" by code_simp+
  then show ?thesis using ValidateSMBPath_confined [of "''path''" "''/fs/share''"] by blast
qed

text \<open>
  Without a colon, an address is accepted exactly if it is a dotted quad of decimal bytes
  without leading zeros.
\<close>

theorem ValidateIPAddress_quad:
  assumes "CHR '':'' \<notin> set (trim_space v)"
  shows "ValidateIPAddress field v = okay () \<longleftrightarrow>
    (\<exists>a b c d. a \<le> 255 \<and> b \<le> 255 \<and> c \<le> 255 \<and> d \<le> 255 \<and> trim_space v = join_with ''.'' (map show_nat [a, b, c, d]))"
proof -
  let ?s = "trim_space v" and ?stop = "\<lambda>c. c \<noteq> CHR ''.'' \<and> c \<noteq> CHR '':'' \<and> c \<noteq> CHR 0x25"
  have only_v4: "ParseIP ?s \<Longrightarrow> parse_v4 ?s"
  proof -
    assume ip: "ParseIP ?s"
    then obtain c t where ct: "dropWhile ?stop ?s = c # t"
      by (cases "dropWhile ?stop ?s") (auto simp: ParseIP_def ip_bits_def)
    then have "c \<in> set ?s" by (metis list.set_intros(1) set_dropWhileD)
    with assms ip ct show "parse_v4 ?s" by (auto simp: ParseIP_def ip_bits_def split: if_splits)
  qed
  have v4_parses: "parse_v4 ?s \<Longrightarrow> ParseIP ?s"
  proof -
    assume v4: "parse_v4 ?s"
    then obtain a rest where s: "?s = show_nat a @ CHR ''.'' # rest" by (auto simp: parse_v4_iff)
    have "list_all ?stop (show_nat a)" using show_nat_digits [of a] by (auto simp: list_all_iff is_digit_def)
    then have "dropWhile ?stop ?s = CHR ''.'' # rest" unfolding s by (simp add: dropWhile_append2 list_all_iff)
    with v4 show "ParseIP ?s" by (simp add: ParseIP_def ip_bits_def)
  qed
  have "parse_v4 [] = False" by code_simp
  with only_v4 v4_parses have "ValidateIPAddress field v = okay () \<longleftrightarrow> parse_v4 ?s"
    by (auto simp: ValidateIPAddress_def Let_def split: if_splits)
  then show ?thesis by (simp only: parse_v4_iff)
qed

theorem ValidateIPAddress_quad_witness:
  "ValidateIPAddress ''ip'' ''10.0.0.7'' = okay ()
   \<and> (\<exists>a b c d. trim_space ''10.0.0.7'' = join_with ''.'' (map show_nat [a, b, c, d]))"
proof -
  have "trim_space ''10.0.0.7'' = ''10.0.0.7''" "ValidateIPAddress ''ip'' ''10.0.0.7'' = okay ()" by code_simp+
  then show ?thesis using ValidateIPAddress_quad [of "''10.0.0.7''" "''ip''"] by auto
qed

text \<open>
  A port is accepted exactly if the trimmed text is a decimal number from 1 to 65535; in
  particular the printed form of a number is accepted exactly in that range.
\<close>

theorem ValidatePort_exact:
  "(ValidatePort v = okay () \<longleftrightarrow> (\<exists>p. atoi (trim_space v) = Some p \<and> 1 \<le> p \<and> p \<le> 65535))
   \<and> (ValidatePort (itoa (int n)) = okay () \<longleftrightarrow> 1 \<le> n \<and> n \<le> 65535)"
proof -
  have nil: "atoi [] = None" by (simp add: atoi_def has_prefix_def)
  have exact: "ValidatePort w = okay () \<longleftrightarrow> (\<exists>p. atoi (trim_space w) = Some p \<and> 1 \<le> p \<and> p \<le> 65535)" for w
    using nil by (cases "trim_space w = []") (auto simp: ValidatePort_def Let_def split: option.splits if_splits)
  have "atoi (show_nat n) = (if int n \<le> int64_max then Some (int n) else None)"
    using show_nat_digits [of n] show_nat_no_sign [of n] by (auto simp: atoi_def Let_def int64_min_def)
  then show ?thesis by (simp add: exact itoa_def int64_max_def)
qed

end
