(* ===== verification/Controller_Sched.thy ===== *)
theory Controller_Sched
  imports Main
begin

text \<open>
  The status scheduler of \<^verbatim>\<open>internal/service/controller/controller.go\<close> as a transition system.
  The scheduler goroutine of \<^verbatim>\<open>Start\<close>, the handler goroutines it spawns and the callers of
  \<^verbatim>\<open>StatusRegister\<close> and \<^verbatim>\<open>Stop\<close> interleave; one step is one critical section or one
  channel operation. A handler is known by its code pointer, the key of
  \<^verbatim>\<open>runningHandlers\<close>. Panics of a handler are recovered, so its end is one event.
\<close>

section \<open>State\<close>

type_synonym key = nat

text \<open>Where the goroutine of \<^verbatim>\<open>Start\<close> is.\<close>

datatype phase =
    Stopped
  | Entering
  | Dispatching "key list"
  | Starting key "key list"
  | Selecting
  | Draining

text \<open>A worker runs its handler, or has deleted its key and not yet left the wait group.\<close>

datatype worker = Running key | Leaving key

record controller =
  handlers :: "key list"
  runningHandlers :: "key set"
  workers :: "worker list"
  started :: bool
  cancelled :: bool
  where_is :: phase

definition init_controller :: controller where
  "init_controller =
     \<lparr>handlers = [], runningHandlers = {}, workers = [], started = False, cancelled = False, where_is = Stopped\<rparr>"

section \<open>Operations\<close>

definition StatusRegister :: "key option \<Rightarrow> controller \<Rightarrow> controller" where
  "StatusRegister fn c = (case fn of None \<Rightarrow> c | Some k \<Rightarrow> c\<lparr>handlers := handlers c @ [k]\<rparr>)"

text \<open>The first critical section of \<^verbatim>\<open>Start\<close>: a second caller returns at once.\<close>

definition Start_enter :: "controller \<Rightarrow> controller" where
  "Start_enter c = (if started c then c else c\<lparr>started := True, cancelled := False, where_is := Entering\<rparr>)"

definition startHandler :: "key \<Rightarrow> controller \<Rightarrow> controller" where
  "startHandler k c =
     (if k \<in> runningHandlers c then c
      else c\<lparr>runningHandlers := insert k (runningHandlers c), workers := workers c @ [Running k]\<rparr>)"

definition Stop_cancel :: "controller \<Rightarrow> controller" where
  "Stop_cancel c = (if started c then c\<lparr>cancelled := True\<rparr> else c)"

section \<open>Steps\<close>

text \<open>
  The steps of the scheduler goroutine and of the workers on their own, and all steps: those of the callers,
  the ticks of the timer, which the goroutine may take even after a cancel, and its own.
\<close>

inductive own_step :: "controller \<Rightarrow> controller \<Rightarrow> bool" where
  snapshot: "where_is c = Entering \<Longrightarrow> own_step c (c\<lparr>where_is := Dispatching (handlers c)\<rparr>)"
| dispatch_end: "where_is c = Dispatching [] \<Longrightarrow> own_step c (c\<lparr>where_is := Selecting\<rparr>)"
| dispatch_cancel: "where_is c = Dispatching (k # ks) \<Longrightarrow> cancelled c \<Longrightarrow> own_step c (c\<lparr>where_is := Selecting\<rparr>)"
| dispatch_next: "where_is c = Dispatching (k # ks) \<Longrightarrow> \<not> cancelled c \<Longrightarrow> own_step c (c\<lparr>where_is := Starting k ks\<rparr>)"
| spawn: "where_is c = Starting k ks \<Longrightarrow> own_step c ((startHandler k c)\<lparr>where_is := Dispatching ks\<rparr>)"
| handler_end: "i < length (workers c) \<Longrightarrow> workers c ! i = Running k \<Longrightarrow>
    own_step c (c\<lparr>runningHandlers := runningHandlers c - {k}, workers := (workers c)[i := Leaving k]\<rparr>)"
| worker_done: "i < length (workers c) \<Longrightarrow> workers c ! i = Leaving k \<Longrightarrow>
    own_step c (c\<lparr>workers := take i (workers c) @ drop (Suc i) (workers c)\<rparr>)"
| ctx_done: "where_is c = Selecting \<Longrightarrow> cancelled c \<Longrightarrow> own_step c (c\<lparr>where_is := Draining\<rparr>)"
| drained: "where_is c = Draining \<Longrightarrow> workers c = [] \<Longrightarrow>
    own_step c (c\<lparr>started := False, where_is := Stopped\<rparr>)"

definition tick_step :: "controller \<Rightarrow> controller \<Rightarrow> bool" where
  "tick_step c c' \<longleftrightarrow> where_is c = Selecting \<and> c' = c\<lparr>where_is := Dispatching (handlers c)\<rparr>"

definition call_step :: "controller \<Rightarrow> controller \<Rightarrow> bool" where
  "call_step c c' \<longleftrightarrow> (\<exists>fn. c' = StatusRegister fn c) \<or> c' = Start_enter c \<or> c' = Stop_cancel c"

inductive sched_step :: "controller \<Rightarrow> controller \<Rightarrow> bool" where
  called: "call_step c c' \<Longrightarrow> sched_step c c'"
| tick: "tick_step c c' \<Longrightarrow> sched_step c c'"
| own: "own_step c c' \<Longrightarrow> sched_step c c'"

inductive reachable :: "controller \<Rightarrow> bool" where
  reach_init: "reachable init_controller"
| reach_step: "reachable c \<Longrightarrow> sched_step c c' \<Longrightarrow> reachable c'"

section \<open>The invariant\<close>

fun active_key :: "worker \<Rightarrow> key option" where
  "active_key (Running k) = Some k"
| "active_key (Leaving k) = None"

abbreviation active :: "controller \<Rightarrow> key list" where
  "active c \<equiv> List.map_filter active_key (workers c)"

text \<open>
  The keys marked as running are exactly those of the handlers that run, each of them once; a
  stopped scheduler has no workers, and it is draining only after a cancel.
\<close>

definition sched_inv :: "controller \<Rightarrow> bool" where
  "sched_inv c \<longleftrightarrow>
     distinct (active c) \<and> set (active c) = runningHandlers c
     \<and> (where_is c = Stopped \<longleftrightarrow> \<not> started c) \<and> (\<not> started c \<longrightarrow> workers c = [])
     \<and> (where_is c = Draining \<longrightarrow> cancelled c)"

lemma map_filter_snoc: "List.map_filter f (xs @ ys) = List.map_filter f xs @ List.map_filter f ys"
  by (simp add: List.map_filter_def)

lemma map_filter_split: "i < length xs \<Longrightarrow>
    List.map_filter f xs = List.map_filter f (take i xs) @ List.map_filter f [xs ! i] @ List.map_filter f (drop (Suc i) xs)"
  by (metis append_Cons append_Nil id_take_nth_drop map_filter_snoc)

lemma active_end:
  assumes "i < length ws" and "ws ! i = Running k"
  shows "List.map_filter active_key (ws[i := Leaving k]) =
    List.map_filter active_key (take i ws) @ List.map_filter active_key (drop (Suc i) ws)"
    and "List.map_filter active_key ws =
    List.map_filter active_key (take i ws) @ k # List.map_filter active_key (drop (Suc i) ws)"
  using assms map_filter_split [of i ws active_key]
  by (simp_all add: upd_conv_take_nth_drop map_filter_snoc List.map_filter_simps)

lemma active_done:
  assumes "i < length ws" and "ws ! i = Leaving k"
  shows "List.map_filter active_key (take i ws @ drop (Suc i) ws) = List.map_filter active_key ws"
  using assms map_filter_split [of i ws active_key] by (simp add: map_filter_snoc List.map_filter_simps)

lemma sched_inv_init: "sched_inv init_controller"
  by (simp add: sched_inv_def init_controller_def List.map_filter_simps)

lemma own_inv: "own_step c c' \<Longrightarrow> sched_inv c \<Longrightarrow> sched_inv c'"
proof (induction rule: own_step.induct)
  case (spawn c k ks)
  then show ?case by (auto simp: sched_inv_def startHandler_def map_filter_snoc List.map_filter_simps)
next
  case (handler_end i c k)
  then show ?case using active_end [OF handler_end(1,2)] by (auto simp: sched_inv_def)
next
  case (worker_done i c k)
  then show ?case using active_done [OF worker_done(1,2)] by (auto simp: sched_inv_def)
qed (auto simp: sched_inv_def)

lemma call_inv: "call_step c c' \<Longrightarrow> sched_inv c \<Longrightarrow> sched_inv c'"
  by (auto simp: call_step_def sched_inv_def StatusRegister_def Start_enter_def Stop_cancel_def split: option.splits)

lemma tick_inv: "tick_step c c' \<Longrightarrow> sched_inv c \<Longrightarrow> sched_inv c'"
  by (auto simp: tick_step_def sched_inv_def)

lemma sched_inv_step: "sched_step c c' \<Longrightarrow> sched_inv c \<Longrightarrow> sched_inv c'"
  by (erule sched_step.cases) (auto intro: own_inv call_inv tick_inv)

lemma reachable_inv: "reachable c \<Longrightarrow> sched_inv c"
  by (induction rule: reachable.induct) (auto intro: sched_inv_init sched_inv_step)


section \<open>Draining\<close>

text \<open>How many steps of their own the scheduler and the workers have left at most once it is cancelled.\<close>

fun phase_rank :: "phase \<Rightarrow> nat" where
  "phase_rank Stopped = 0"
| "phase_rank Draining = 1"
| "phase_rank Selecting = 2"
| "phase_rank (Dispatching ks) = 3"
| "phase_rank Entering = 4"
| "phase_rank (Starting k ks) = 6"

fun worker_rank :: "worker \<Rightarrow> nat" where
  "worker_rank (Running k) = 2"
| "worker_rank (Leaving k) = 1"

definition drain_rank :: "controller \<Rightarrow> nat" where
  "drain_rank c = phase_rank (where_is c) + sum_list (map worker_rank (workers c))"

definition stopping :: "controller \<Rightarrow> bool" where
  "stopping c \<longleftrightarrow> sched_inv c \<and> (where_is c = Stopped \<or> started c \<and> cancelled c)"

lemma rank_worker_update:
  "i < length ws \<Longrightarrow> ws ! i = Running k \<Longrightarrow> sum_list (map worker_rank (ws[i := Leaving k])) < sum_list (map worker_rank ws)"
  by (induction ws arbitrary: i) (auto split: nat.splits simp: nth_Cons)

lemma rank_worker_remove:
  "i < length ws \<Longrightarrow> ws ! i = Leaving k \<Longrightarrow>
     sum_list (map worker_rank (take i ws @ drop (Suc i) ws)) < sum_list (map worker_rank ws)"
proof -
  assume i: "i < length ws" "ws ! i = Leaving k"
  then have "ws = take i ws @ Leaving k # drop (Suc i) ws" by (metis id_take_nth_drop)
  then have "sum_list (map worker_rank ws) = sum_list (map worker_rank (take i ws @ Leaving k # drop (Suc i) ws))" by simp
  then show ?thesis by simp
qed

text \<open>Every own step of a cancelled scheduler uses up rank, and as long as it is not stopped there is one.\<close>

lemma own_descends: "own_step c c' \<Longrightarrow> stopping c \<Longrightarrow> drain_rank c' < drain_rank c"
proof (induction rule: own_step.induct)
  case (spawn c k ks)
  then show ?case by (auto simp: drain_rank_def startHandler_def)
next
  case (handler_end i c k)
  then show ?case using rank_worker_update [OF handler_end(1,2)] by (simp add: drain_rank_def)
next
  case (worker_done i c k)
  then show ?case using rank_worker_remove [OF worker_done(1,2)] by (simp add: drain_rank_def)
qed (auto simp: drain_rank_def stopping_def)

lemma own_enabled:
  assumes "stopping c" and "where_is c \<noteq> Stopped"
  shows "\<exists>c'. own_step c c'"
proof (cases "where_is c")
  case (Dispatching ks)
  then show ?thesis using assms by (cases ks) (auto simp: stopping_def intro: dispatch_end dispatch_cancel)
next
  case Selecting
  then show ?thesis using assms by (auto simp: stopping_def intro: ctx_done)
next
  case Draining
  show ?thesis
  proof (cases "workers c")
    case Nil
    then show ?thesis using Draining by (auto intro: drained)
  next
    case (Cons w ws)
    then show ?thesis using handler_end [of 0 c] worker_done [of 0 c] by (cases w) auto
  qed
qed (use assms in \<open>auto intro: snapshot spawn\<close>)

lemma own_stopping: "own_step c c' \<Longrightarrow> stopping c \<Longrightarrow> stopping c'"
  using own_inv [of c c'] by (auto simp: stopping_def startHandler_def elim: own_step.cases)

lemma call_stopping:
  "call_step c c' \<Longrightarrow> stopping c \<Longrightarrow> where_is c \<noteq> Stopped \<Longrightarrow>
     stopping c' \<and> drain_rank c' = drain_rank c \<and> where_is c' = where_is c \<and> runningHandlers c' = runningHandlers c"
  using call_inv [of c c']
  by (auto simp: call_step_def stopping_def drain_rank_def StatusRegister_def Start_enter_def Stop_cancel_def split: option.splits)

lemma tick_stopping:
  "tick_step c c' \<Longrightarrow> stopping c \<Longrightarrow> stopping c' \<and> drain_rank c' = Suc (drain_rank c) \<and> runningHandlers c' = runningHandlers c
     \<and> (\<exists>ks. where_is c' = Dispatching ks)"
  using tick_inv [of c c'] by (auto simp: tick_step_def stopping_def drain_rank_def)

text \<open>
  Any run up to the stop: with \<open>n\<close> own steps and \<open>t\<close> ticks, and with callers that register, start or stop at will.
\<close>

inductive run_of :: "controller \<Rightarrow> nat \<Rightarrow> nat \<Rightarrow> controller \<Rightarrow> bool" for c where
  run_start: "run_of c 0 0 c"
| run_own: "run_of c n t c1 \<Longrightarrow> own_step c1 c2 \<Longrightarrow> run_of c (Suc n) t c2"
| run_tick: "run_of c n t c1 \<Longrightarrow> tick_step c1 c2 \<Longrightarrow> run_of c n (Suc t) c2"
| run_call: "run_of c n t c1 \<Longrightarrow> where_is c1 \<noteq> Stopped \<Longrightarrow> call_step c1 c2 \<Longrightarrow> run_of c n t c2"

text \<open>The handler whose turn has come, past the last look at the context, is the only one that can still be started.\<close>

definition next_up :: "controller \<Rightarrow> key set" where
  "next_up c = (case where_is c of Starting k ks \<Rightarrow> {k} | _ \<Rightarrow> {})"

lemma own_starts:
  "own_step c c' \<Longrightarrow> stopping c \<Longrightarrow>
     runningHandlers c' \<union> next_up c' \<subseteq> runningHandlers c \<union> next_up c"
  by (induction rule: own_step.induct) (auto simp: next_up_def startHandler_def stopping_def split: phase.splits if_splits)

lemma run_bounded:
  assumes "run_of c n t c'" and "stopping c"
  shows "stopping c' \<and> n + drain_rank c' \<le> drain_rank c + t
    \<and> runningHandlers c' \<union> next_up c' \<subseteq> runningHandlers c \<union> next_up c"
  using assms
proof (induction rule: run_of.induct)
  case (run_own n t c1 c2)
  then show ?case using own_stopping own_descends own_starts by (fastforce simp: le_less_trans)
next
  case (run_tick n t c1 c2)
  then show ?case using tick_stopping [of c1 c2] by (auto simp: next_up_def)
next
  case (run_call n t c1 c2)
  then show ?case using call_stopping [of c1 c2] by (auto simp: next_up_def)
qed simp

section \<open>A dispatch round\<close>

definition dispatchHandlers :: "key list \<Rightarrow> controller \<Rightarrow> controller" where
  "dispatchHandlers ks c = fold startHandler ks c"

lemma startHandler_frame [simp]:
  "cancelled (startHandler k c) = cancelled c" "where_is (startHandler k c) = where_is c" "started (startHandler k c) = started c"
  by (simp_all add: startHandler_def)

lemma startHandler_where: "startHandler k (c\<lparr>where_is := ph\<rparr>) = (startHandler k c)\<lparr>where_is := ph\<rparr>"
  by (simp add: startHandler_def)

lemma dispatch_steps:
  "\<not> cancelled c \<Longrightarrow> where_is c = Dispatching ks \<Longrightarrow> sched_step\<^sup>*\<^sup>* c ((dispatchHandlers ks c)\<lparr>where_is := Selecting\<rparr>)"
proof (induction ks arbitrary: c)
  case Nil
  then show ?case by (auto simp: dispatchHandlers_def intro: own dispatch_end)
next
  case (Cons k ks)
  let ?c1 = "c\<lparr>where_is := Starting k ks\<rparr>" and ?c2 = "(startHandler k c)\<lparr>where_is := Dispatching ks\<rparr>"
  have "sched_step c ?c1" using Cons.prems by (intro own dispatch_next) auto
  moreover have "sched_step ?c1 ?c2" using own [OF spawn [of ?c1 k ks]] by (simp add: startHandler_where)
  moreover have "sched_step\<^sup>*\<^sup>* ?c2 ((dispatchHandlers ks ?c2)\<lparr>where_is := Selecting\<rparr>)" by (rule Cons.IH) (simp_all add: Cons.prems)
  moreover have "(dispatchHandlers ks ?c2)\<lparr>where_is := Selecting\<rparr> = (dispatchHandlers (k # ks) c)\<lparr>where_is := Selecting\<rparr>"
  proof -
    have "dispatchHandlers ks (d\<lparr>where_is := ph\<rparr>) = (dispatchHandlers ks d)\<lparr>where_is := ph\<rparr>" for d ph
      unfolding dispatchHandlers_def by (induction ks arbitrary: d) (simp_all add: startHandler_where)
    then show ?thesis by (simp add: dispatchHandlers_def)
  qed
  ultimately show ?case by (metis converse_rtranclp_into_rtranclp)
qed

lemma dispatch_running: "runningHandlers (dispatchHandlers ks c) = runningHandlers c \<union> set ks"
  unfolding dispatchHandlers_def by (induction ks arbitrary: c) (auto simp: startHandler_def)

section \<open>Properties\<close>

text \<open>
  C36. A handler is never active twice: in every reachable state at most one worker runs a given
  handler, and a handler is marked as running exactly while a worker runs it.
\<close>

theorem no_overlap:
  assumes "reachable c"
  shows "count_list (workers c) (Running k) \<le> 1 \<and> (k \<in> runningHandlers c \<longleftrightarrow> Running k \<in> set (workers c))"
proof -
  have key: "count_list ws (Running k) = count_list (List.map_filter active_key ws) k" for ws
  proof (induction ws)
    case (Cons w ws)
    then show ?case by (cases w) (simp_all add: List.map_filter_simps)
  qed (simp add: List.map_filter_simps)
  have mem: "k \<in> set (List.map_filter active_key ws) \<longleftrightarrow> Running k \<in> set ws" for ws
  proof (induction ws)
    case (Cons w ws)
    then show ?case by (cases w) (auto simp: List.map_filter_simps)
  qed (simp add: List.map_filter_simps)
  have inv: "distinct (active c)" "set (active c) = runningHandlers c"
    using reachable_inv [OF assms] by (auto simp: sched_inv_def)
  have "distinct xs \<Longrightarrow> count_list xs k \<le> 1" for xs
    by (induction xs) (auto simp: count_list_0_iff)
  with inv(1) have "count_list (active c) k \<le> 1" by blast
  with key mem inv(2) show ?thesis by auto
qed

text \<open>One handler registered and running, used by the witnesses.\<close>

definition sample_running :: controller where
  "sample_running =
     \<lparr>handlers = [7], runningHandlers = {7}, workers = [Running 7], started = True, cancelled = False, where_is = Selecting\<rparr>"

lemma reachable_rtranclp: "reachable c \<Longrightarrow> sched_step\<^sup>*\<^sup>* c c' \<Longrightarrow> reachable c'"
  by (rotate_tac, induction rule: rtranclp_induct) (auto intro: reach_step)

lemma reachable_sample: "reachable sample_running"
proof -
  let ?c1 = "StatusRegister (Some 7) init_controller"
  let ?c2 = "Start_enter ?c1"
  let ?c3 = "?c2\<lparr>where_is := Dispatching (handlers ?c2)\<rparr>"
  have "reachable ?c1" by (rule reach_step [OF reach_init called]) (auto simp: call_step_def)
  then have "reachable ?c2" by (rule reach_step [OF _ called]) (auto simp: call_step_def)
  then have "reachable ?c3" by (rule reach_step [OF _ own [OF snapshot]]) (simp add: Start_enter_def StatusRegister_def init_controller_def)
  moreover have "sched_step\<^sup>*\<^sup>* ?c3 ((dispatchHandlers [7] ?c3)\<lparr>where_is := Selecting\<rparr>)"
    by (rule dispatch_steps) (simp_all add: Start_enter_def StatusRegister_def init_controller_def)
  moreover have "(dispatchHandlers [7] ?c3)\<lparr>where_is := Selecting\<rparr> = sample_running"
    by (simp add: dispatchHandlers_def startHandler_def Start_enter_def StatusRegister_def init_controller_def sample_running_def)
  ultimately show ?thesis using reachable_rtranclp by metis
qed

theorem no_overlap_witness:
  "reachable sample_running \<and> count_list (workers sample_running) (Running 7) \<le> 1 \<and> 7 \<in> runningHandlers sample_running"
  using no_overlap [OF reachable_sample, of 7] reachable_sample by (simp add: sample_running_def)

text \<open>
  C37. What is left of a run after a stop is bounded: in whatever way it goes on, and whoever registers,
  starts or stops in between, the scheduler and its workers take at most as many steps of their own, the
  return of a handler among them, as the rank of the state at the stop and the ticks that the timer still
  wins against the cancelled context; as long as the scheduler is not stopped it
  or a worker has such a step; at most the one handler whose turn had come is still started; and when it is
  stopped no worker is left and no handler is marked.
\<close>

theorem stop_drains:
  assumes "reachable c" and "started c" and "run_of (Stop_cancel c) n t c'"
  shows "n \<le> drain_rank (Stop_cancel c) + t
     \<and> runningHandlers c' \<subseteq> runningHandlers c \<union> next_up c
     \<and> (if where_is c' = Stopped then \<not> started c' \<and> workers c' = [] \<and> runningHandlers c' = {}
        else \<exists>c''. own_step c' c'')"
proof -
  have "call_step c (Stop_cancel c)" by (simp add: call_step_def)
  then have "stopping (Stop_cancel c)"
    using call_inv [OF _ reachable_inv [OF assms(1)]] assms(2) by (auto simp: stopping_def) (simp_all add: Stop_cancel_def)
  note run = run_bounded [OF assms(3) this]
  have "next_up (Stop_cancel c) = next_up c" "runningHandlers (Stop_cancel c) = runningHandlers c"
    by (simp_all add: Stop_cancel_def next_up_def)
  moreover have "\<not> started c' \<and> workers c' = [] \<and> runningHandlers c' = {}" if "where_is c' = Stopped"
    using run that by (auto simp: stopping_def sched_inv_def List.map_filter_simps)
  moreover have "\<exists>c''. own_step c' c''" if "where_is c' \<noteq> Stopped" using own_enabled run that by blast
  ultimately show ?thesis using run by auto
qed

theorem stop_drains_witness:
  "\<exists>c'. run_of (Stop_cancel sample_running) 4 0 c' \<and> where_is c' = Stopped \<and> workers c' = [] \<and> runningHandlers c' = {}"
proof -
  let ?c0 = "Stop_cancel sample_running"
  let ?c1 = "?c0\<lparr>where_is := Draining\<rparr>"
  let ?c2 = "?c1\<lparr>runningHandlers := runningHandlers ?c1 - {7}, workers := (workers ?c1)[0 := Leaving 7]\<rparr>"
  let ?c3 = "?c2\<lparr>workers := take 0 (workers ?c2) @ drop (Suc 0) (workers ?c2)\<rparr>"
  let ?c4 = "?c3\<lparr>started := False, where_is := Stopped\<rparr>"
  have "own_step ?c0 ?c1" by (rule ctx_done) (simp_all add: Stop_cancel_def sample_running_def)
  moreover have "own_step ?c1 ?c2" by (rule handler_end) (simp_all add: Stop_cancel_def sample_running_def)
  moreover have "own_step ?c2 ?c3" by (rule worker_done) (simp_all add: Stop_cancel_def sample_running_def)
  moreover have "own_step ?c3 ?c4" by (rule drained) (simp_all add: Stop_cancel_def sample_running_def)
  ultimately have run: "run_of ?c0 (Suc (Suc (Suc (Suc 0)))) 0 ?c4" by (blast intro: run_start run_own)
  have "started sample_running" by (simp add: sample_running_def)
  from stop_drains [OF reachable_sample this run] run show ?thesis
    by (intro exI [of _ ?c4]) (simp add: numeral_eq_Suc)
qed

text \<open>
  A dispatch round that is not cancelled implements its specification: the steps lead to the
  state in which every handler of the snapshot that was not active has been started once, and all
  of them are marked as running.
\<close>

theorem dispatch_refines:
  assumes "where_is c = Dispatching ks" and "\<not> cancelled c"
  shows "sched_step\<^sup>*\<^sup>* c ((dispatchHandlers ks c)\<lparr>where_is := Selecting\<rparr>)
     \<and> runningHandlers (dispatchHandlers ks c) = runningHandlers c \<union> set ks"
  using dispatch_steps [OF assms(2,1)] dispatch_running by blast

theorem dispatch_refines_witness:
  "sched_step\<^sup>*\<^sup>* (sample_running\<lparr>where_is := Dispatching [7, 8, 8]\<rparr>)
     ((dispatchHandlers [7, 8, 8] (sample_running\<lparr>where_is := Dispatching [7, 8, 8]\<rparr>))\<lparr>where_is := Selecting\<rparr>)"
  using dispatch_refines [of "sample_running\<lparr>where_is := Dispatching [7, 8, 8]\<rparr>" "[7, 8, 8]"] by (simp add: sample_running_def)

end
