(* ===== verification/Polling.thy ===== *)
theory Polling
  imports Main
begin

text \<open>
  The contract of the loops that wait for another machine: probe, pause while the answer is not final,
  and give up at the first probe after the deadline. The left case of a probe is what is reported if
  time is up. The asynchronous jobs and the system VMs of the cloud manager
  (\<^verbatim>\<open>moldservice/bootstrap_execute.go\<close>) and the health of a node that was just deployed
  (\<^verbatim>\<open>handler/cube/deploy_run.go\<close>) are waited for this way.
\<close>

locale bounded_poll =
  fixes probe :: "'s \<Rightarrow> ('r + 'r) \<times> 's" and pause :: "'s \<Rightarrow> 's" and clock :: "'s \<Rightarrow> nat" and asked :: "'s \<Rightarrow> nat"
    and deadline :: nat and interval :: nat and poll :: "'s \<Rightarrow> 'r \<times> 's"
  assumes poll_eq: "poll s =
      (case probe s of
         (Inr out, s1) \<Rightarrow> (out, s1)
       | (Inl late, s1) \<Rightarrow> if clock s1 > deadline then (late, s1) else poll (pause s1))"
    and probe_clock: "clock s \<le> clock (snd (probe s))"
    and probe_asked: "asked (snd (probe s)) \<le> Suc (asked s)"
    and pause_clock: "clock (pause s) = clock s + interval"
    and pause_asked: "asked (pause s) = asked s"
    and interval_pos: "0 < interval"
begin

text \<open>The rounds of the loop, as an induction over the time left.\<close>

lemma poll_induct [case_names final late again]:
  assumes final: "\<And>s out s1. probe s = (Inr out, s1) \<Longrightarrow> P s (out, s1)"
    and late: "\<And>s late s1. probe s = (Inl late, s1) \<Longrightarrow> clock s1 > deadline \<Longrightarrow> P s (late, s1)"
    and again: "\<And>s late s1. probe s = (Inl late, s1) \<Longrightarrow> clock s1 \<le> deadline \<Longrightarrow> P (pause s1) (poll (pause s1)) \<Longrightarrow> P s (poll (pause s1))"
  shows "P s (poll s)"
proof (induction "Suc deadline - clock s" arbitrary: s rule: less_induct)
  case less
  obtain a s1 where p: "probe s = (a, s1)" by (cases "probe s")
  have clk: "clock s \<le> clock s1" using probe_clock [of s] p by simp
  show ?case
  proof (cases a)
    case (Inr out)
    with p final show ?thesis by (subst poll_eq) simp
  next
    case (Inl l)
    have "P (pause s1) (poll (pause s1))" if "clock s1 \<le> deadline"
      using less [of "pause s1"] that clk interval_pos by (auto simp: pause_clock)
    with p Inl late again show ?thesis by (subst poll_eq) simp
  qed
qed

lemma poll_bound:
  "asked (snd (poll s)) \<le> asked s + (if clock s > deadline then 1 else (deadline - clock s) div interval + 2)"
proof (induction rule: poll_induct [where P = "\<lambda>s out. asked (snd out) \<le> asked s + (if clock s > deadline then 1 else (deadline - clock s) div interval + 2)"])
  case (final s out s1)
  then show ?case using probe_asked [of s] by simp
next
  case (late s late s1)
  then show ?case using probe_asked [of s] by simp
next
  case (again s late s1)
  have a: "clock s \<le> clock s1" "asked s1 \<le> Suc (asked s)" using probe_clock [of s] probe_asked [of s] again(1) by simp_all
  show ?case
  proof (cases "clock s1 + interval > deadline")
    case True
    then show ?thesis using again(2,3) a by (simp add: pause_clock pause_asked)
  next
    case False
    then have "deadline - clock s \<ge> deadline - (clock s1 + interval) + interval" using a by simp
    then have "((deadline - (clock s1 + interval)) + interval) div interval \<le> (deadline - clock s) div interval" by (rule div_le_mono)
    moreover have "((deadline - (clock s1 + interval)) + interval) div interval = (deadline - (clock s1 + interval)) div interval + 1"
      using interval_pos by (intro div_add_self2) simp
    ultimately have "(deadline - (clock s1 + interval)) div interval + 1 \<le> (deadline - clock s) div interval" by linarith
    then show ?thesis using False again(2,3) a by (simp add: pause_clock pause_asked)
  qed
qed

lemma poll_rel:
  assumes "\<And>s. R s (snd (probe s))" and "\<And>s. R s (pause s)" and "\<And>a b c. R a b \<Longrightarrow> R b c \<Longrightarrow> R a c"
  shows "R s (snd (poll s))"
proof (rule poll_induct [where P = "\<lambda>s out. R s (snd out)"])
  have last: "R s s1" if "probe s = (x, s1)" for s x s1 using assms(1) [of s] that by simp
  show "R s (snd (out, s1))" if "probe s = (Inr out, s1)" for s out s1 using last [OF that] by simp
  show "R s (snd (late, s1))" if "probe s = (Inl late, s1)" for s late s1 using last [OF that] by simp
  show "R s (snd (poll (pause s1)))" if "probe s = (Inl late, s1)" "R (pause s1) (snd (poll (pause s1)))" for s late s1
    using assms(1) [of s] assms(2,3) that by (metis snd_conv)
qed

text \<open>The result is that of the last probe: a final answer, or one after the deadline.\<close>

lemma poll_result:
  "\<exists>s' a. probe s' = (a, snd (poll s)) \<and> (a = Inr (fst (poll s)) \<or> a = Inl (fst (poll s)) \<and> clock (snd (poll s)) > deadline)"
  by (rule poll_induct [where P = "\<lambda>s out. \<exists>s' a. probe s' = (a, snd out) \<and> (a = Inr (fst out) \<or> a = Inl (fst out) \<and> clock (snd out) > deadline)"])
    auto

end

end
