(* ===== verification/Job_Store.thy ===== *)
theory Job_Store
  imports Go_Value
begin

text \<open>
  The contract of the two in-memory job stores, of the bootstrap jobs
  (\<^verbatim>\<open>internal/handler/mold/bootstrap_job.go\<close>) and of the deployment jobs
  (\<^verbatim>\<open>internal/handler/cube/deploy_run.go\<close>): a map of jobs by id, the ids in the order of
  creation, and a limit beyond which the oldest jobs are dropped. Both stores are instances.
\<close>

section \<open>Tracked jobs\<close>

definition tracked :: "nat \<Rightarrow> string list \<Rightarrow> (string, 'j) fmap \<Rightarrow> bool" where
  "tracked limit ids m \<longleftrightarrow> distinct ids \<and> set ids = fset (fmdom m) \<and> length ids \<le> limit"

lemma tracked_empty [simp]: "tracked limit [] fmempty"
  by (simp add: tracked_def)

lemma trackedD:
  assumes "tracked limit ids m"
  shows "distinct ids" "set ids = fset (fmdom m)" "length ids \<le> limit" "k \<in> set ids \<longleftrightarrow> fmlookup m k \<noteq> None"
  using assms by (auto simp: tracked_def fmlookup_dom_iff)

lemma length_found: "(\<And>k. k \<in> set ks \<Longrightarrow> fmlookup m k \<noteq> None) \<Longrightarrow> length (List.map_filter (fmlookup m) ks) = length ks"
  by (induction ks) (auto simp: List.map_filter_simps split: option.split)

section \<open>The contract\<close>

locale job_store =
  fixes jobs_of :: "'s \<Rightarrow> (string, 'j) fmap" and order_of :: "'s \<Rightarrow> string list" and limit :: nat
    and drop_oldest :: "'s \<Rightarrow> 's" and prune :: "'s \<Rightarrow> 's"
    and push :: "string \<Rightarrow> 'j \<Rightarrow> 's \<Rightarrow> 's" and amend :: "string \<Rightarrow> ('j \<Rightarrow> 'j) \<Rightarrow> 's \<Rightarrow> 's"
  assumes prune_eq: "prune s = (if length (order_of s) > limit then prune (drop_oldest s) else s)"
    and drop_order: "order_of (drop_oldest s) = tl (order_of s)"
    and drop_jobs: "jobs_of (drop_oldest s) = fmdrop (hd (order_of s)) (jobs_of s)"
    and push_order: "order_of (push k j s) = order_of s @ [k]"
    and push_jobs: "jobs_of (push k j s) = fmupd k j (jobs_of s)"
    and amend_order: "order_of (amend k f s) = order_of s"
    and amend_lookup: "fmlookup (jobs_of (amend k f s)) k' = (if k' = k then map_option f (fmlookup (jobs_of s) k) else fmlookup (jobs_of s) k')"
    and limit_pos: "0 < limit"
begin

text \<open>The loop of the pruning, as an induction over the number of ids.\<close>

lemma prune_induct [case_names small big]:
  assumes small: "\<And>s. length (order_of s) \<le> limit \<Longrightarrow> P s s"
    and big: "\<And>s x xs. order_of s = x # xs \<Longrightarrow> limit \<le> length xs \<Longrightarrow> P (drop_oldest s) (prune (drop_oldest s)) \<Longrightarrow> P s (prune (drop_oldest s))"
  shows "P s (prune s)"
proof (induction "length (order_of s)" arbitrary: s rule: less_induct)
  case less
  show ?case
  proof (cases "length (order_of s) \<le> limit")
    case True
    with small show ?thesis by (subst prune_eq) simp
  next
    case False
    then obtain x xs where s: "order_of s = x # xs" by (cases "order_of s") auto
    with False less big show ?thesis by (subst prune_eq) (simp add: drop_order)
  qed
qed

lemma order_prune: "order_of (prune s) = drop (length (order_of s) - limit) (order_of s)"
proof (induction rule: prune_induct [where P = "\<lambda>s out. order_of out = drop (length (order_of s) - limit) (order_of s)"])
  case (big s x xs)
  then show ?case by (simp add: drop_order Suc_diff_le)
qed simp

lemma lookup_prune:
  assumes "distinct (order_of s)"
  shows "fmlookup (jobs_of (prune s)) k =
       (if k \<in> set (order_of s) \<and> k \<notin> set (order_of (prune s)) then None else fmlookup (jobs_of s) k)"
proof -
  let ?P = "\<lambda>s out. distinct (order_of s) \<longrightarrow> fmlookup (jobs_of out) k =
       (if k \<in> set (order_of s) \<and> k \<notin> set (order_of out) then None else fmlookup (jobs_of s) k)"
  have "?P s (prune s)"
  proof (induction rule: prune_induct [where P = ?P])
    case (big s x xs)
    have "x \<notin> set (order_of (prune (drop_oldest s)))" if "distinct (order_of s)"
      using that big(1) by (auto simp: order_prune drop_order dest: in_set_dropD)
    with big show ?case by (auto simp: drop_order drop_jobs)
  qed simp
  with assms show ?thesis by simp
qed

lemma tracked_prune:
  assumes "distinct (order_of s)" and "set (order_of s) = fset (fmdom (jobs_of s))"
  shows "tracked limit (order_of (prune s)) (jobs_of (prune s))"
proof -
  have "set (order_of (prune s)) \<subseteq> set (order_of s)" by (auto simp: order_prune dest: in_set_dropD)
  then have "set (order_of (prune s)) = fset (fmdom (jobs_of (prune s)))"
    using assms by (auto simp: lookup_prune fmlookup_dom_iff split: if_splits)
  with assms(1) show ?thesis by (simp add: tracked_def order_prune)
qed

lemma tracked_add:
  assumes "tracked limit (order_of s) (jobs_of s)" and "k \<notin> fset (fmdom (jobs_of s))"
  shows "tracked limit (order_of (prune (push k j s))) (jobs_of (prune (push k j s)))"
  by (rule tracked_prune) (use assms in \<open>auto simp: tracked_def push_order push_jobs\<close>)

text \<open>What is found after a job was added: the new job, or a job that was there before.\<close>

lemma lookup_add:
  assumes "tracked limit (order_of s) (jobs_of s)" and "k \<notin> fset (fmdom (jobs_of s))"
    and "fmlookup (jobs_of (prune (push k j s))) k' = Some job"
  shows "if k' = k then job = j else fmlookup (jobs_of s) k' = Some job"
proof -
  have "distinct (order_of (push k j s))" using assms(1,2) by (auto simp: tracked_def push_order)
  from lookup_prune [OF this, of k'] assms(3) show ?thesis by (auto simp: push_jobs split: if_splits)
qed

lemma added:
  assumes "tracked limit (order_of s) (jobs_of s)" and "k \<notin> fset (fmdom (jobs_of s))"
  shows "fmlookup (jobs_of (prune (push k j s))) k = Some j" "\<exists>older. order_of (prune (push k j s)) = older @ [k]"
proof -
  have dist: "distinct (order_of (push k j s))" using assms by (auto simp: tracked_def push_order)
  show ord: "\<exists>older. order_of (prune (push k j s)) = older @ [k]"
    using assms(1) limit_pos by (simp add: tracked_def order_prune push_order)
  then show "fmlookup (jobs_of (prune (push k j s))) k = Some j"
    using lookup_prune [OF dist, of k] by (auto simp: push_jobs)
qed

lemma tracked_amend:
  assumes "tracked limit (order_of s) (jobs_of s)"
  shows "tracked limit (order_of (amend k f s)) (jobs_of (amend k f s))"
proof -
  have "fset (fmdom (jobs_of (amend k f s))) = fset (fmdom (jobs_of s))"
    by (auto simp: fmlookup_dom_iff amend_lookup split: if_splits)
  with assms show ?thesis by (simp add: tracked_def amend_order)
qed

end

end
