(* ===== verification/Bootstrap_Plan.thy ===== *)
theory Bootstrap_Plan
  imports Cluster_Apply
begin

text \<open>
  The plan of a bootstrap of the cloud manager: the request of
  \<^verbatim>\<open>internal/model/mold/bootstrap.go\<close>, the values taken from \<^verbatim>\<open>cluster.json\<close> by
  \<^verbatim>\<open>internal/service/moldservice/bootstrap_request.go\<close> and \<^verbatim>\<open>cluster_config.go\<close>, and the
  ordered steps with their missing inputs of \<^verbatim>\<open>bootstrap_plan.go\<close>.
\<close>

section \<open>Requests\<close>

record MoldAuthRequest =
  au_Username :: string
  au_Password :: string
  au_Domain :: string
  au_Response :: string

record ZoneRequest =
  zn_Name :: string
  zn_DNS1 :: string
  zn_DNS2 :: string
  zn_InternalDNS1 :: string
  zn_InternalDNS2 :: string
  zn_NetworkType :: string
  zn_GuestCIDRAddress :: string
  zn_Domain :: string
  zn_LocalStorageEnabled :: string
  zn_SecurityGroupEnabled :: string

record PhysicalNetworkRequest =
  pn_Name :: string
  pn_BroadcastDomainRange :: string
  pn_IsolationMethods :: string
  pn_NetworkSpeed :: string
  pn_VLAN :: string
  pn_Tags :: string

record PodRequest =
  pod_Name :: string
  pod_Gateway :: string
  pod_Netmask :: string
  pod_StartIP :: string
  pod_EndIP :: string

record PublicIPRangeRequest =
  ip_Gateway :: string
  ip_Netmask :: string
  ip_StartIP :: string
  ip_EndIP :: string

record ClusterRequest =
  cl_Name :: string
  cl_ClusterType :: string
  cl_Hypervisor :: string
  cl_Arch :: string

record HostRequest =
  hr_URL :: string
  hr_Username :: string
  hr_Password :: string
  hr_Hypervisor :: string
  hr_HostTags :: string

record PrimaryStorageRequest =
  ps_Name :: string
  ps_URL :: string
  ps_Scope :: string
  ps_Provider :: string
  ps_Protocol :: string
  ps_Hypervisor :: string
  ps_Tags :: string
  ps_RADOSMonitors :: string
  ps_RADOSPool :: string
  ps_RADOSUser :: string
  ps_KRBDPath :: string
  ps_DetailsProvider :: string
  ps_AutoRBDSecret :: bool
  ps_CephKeyHosts :: "string list"

record SecondaryStorageRequest =
  ss_Name :: string
  ss_Provider :: string
  ss_URL :: string

record SecondaryStagingStoreRequest =
  sg_URL :: string
  sg_Provider :: string
  sg_Scope :: string

record BootstrapRequest =
  q_Auth :: MoldAuthRequest
  q_Zone :: ZoneRequest
  q_PhysicalNetwork :: PhysicalNetworkRequest
  q_Pod :: PodRequest
  q_PublicIP :: PublicIPRangeRequest
  q_Cluster :: ClusterRequest
  q_Hosts :: "HostRequest list"
  q_PrimaryStorage :: PrimaryStorageRequest
  q_SecondaryStorage :: SecondaryStorageRequest
  q_SecondaryStagingStore :: "SecondaryStagingStoreRequest option"

section \<open>Plan values\<close>

record BootstrapPlanStep =
  p_Name :: string
  p_Command :: string
  p_VerifyCommand :: string
  p_ResultKey :: string
  p_RequiredInputs :: "string list"
  p_MissingInputs :: "string list"
  p_SuccessCriteria :: "string list"
  p_ErrorFields :: "string list"
  p_Notes :: "string list"

record BootstrapPlanValue =
  v_Ready :: bool
  v_Steps :: "BootstrapPlanStep list"
  v_MissingInputs :: "string list"
  v_Notes :: "string list"

section \<open>Normalisation of a request\<close>

text \<open>
  The first rune in upper case. As for \<open>to_lower\<close>, case is that of ASCII with the code points whose
  upper case is in ASCII: the long s and the dotless i.
\<close>

definition upper_byte :: "char \<Rightarrow> char" where
  "upper_byte c =
     (if 0x61 \<le> (of_char c :: nat) \<and> (of_char c :: nat) \<le> 0x7A then char_of ((of_char c :: nat) - 32) else c)"

fun upper_first :: "string \<Rightarrow> string" where
  "upper_first [] = []"
| "upper_first (c # s) =
     (case s of
        d # t \<Rightarrow>
          if c = CHR 0xC5 \<and> d = CHR 0xBF then CHR ''S'' # t
          else if c = CHR 0xC4 \<and> d = CHR 0xB1 then CHR ''I'' # t
          else upper_byte c # s
      | [] \<Rightarrow> [upper_byte c])"

definition normalizeBootstrapName :: "string \<Rightarrow> string \<Rightarrow> string" where
  "normalizeBootstrapName name fallback =
     (let trimmed = trim_space name
      in upper_first (to_lower (if trimmed = [] then fallback else trimmed)))"

definition NormalizeBootstrapRequest :: "BootstrapRequest \<Rightarrow> BootstrapRequest" where
  "NormalizeBootstrapRequest req =
     req\<lparr>q_Zone := (q_Zone req)\<lparr>zn_Name := normalizeBootstrapName (zn_Name (q_Zone req)) ''Zone''\<rparr>,
         q_PhysicalNetwork :=
           (q_PhysicalNetwork req)\<lparr>pn_Name := normalizeBootstrapName (pn_Name (q_PhysicalNetwork req)) ''Physicalnetwork''\<rparr>,
         q_Pod := (q_Pod req)\<lparr>pod_Name := normalizeBootstrapName (pod_Name (q_Pod req)) ''Pod''\<rparr>,
         q_Cluster := (q_Cluster req)\<lparr>cl_Name := normalizeBootstrapName (cl_Name (q_Cluster req)) ''Cluster''\<rparr>,
         q_PrimaryStorage :=
           (if trim_space (ps_Name (q_PrimaryStorage req)) = [] then (q_PrimaryStorage req)\<lparr>ps_Name := ''Primarystorage''\<rparr>
            else q_PrimaryStorage req)\<rparr>"

section \<open>The plan\<close>

definition bootstrapResultKey :: "string \<Rightarrow> string" where
  "bootstrapResultKey stepName =
     (case map_of
        [(''wait_mold_api_ready'', ''api_ready''),
         (''login_admin'', ''session''),
         (''create_zone'', ''zone''),
         (''create_physical_network'', ''physical_network''),
         (''add_traffic_types'', ''traffic_types''),
         (''enable_physical_network'', ''physical_network''),
         (''enable_network_providers'', ''network_providers''),
         (''create_pod'', ''pod''),
         (''create_public_ip_range'', ''public_ip_range''),
         (''create_cluster'', ''cluster''),
         (''sync_host_ssh_trust'', ''host_ssh_trust''),
         (''add_host'', ''hosts''),
         (''add_primary_storage'', ''primary_storage''),
         (''add_secondary_storage'', ''secondary_storage''),
         (''add_secondary_staging_store'', ''secondary_staging_store''),
         (''enable_zone'', ''zone''),
         (''wait_system_vm_running'', ''system_vms''),
         (''final_health_check'', ''resources'')] stepName of
        Some key \<Rightarrow> key | None \<Rightarrow> stepName)"

definition bootstrapSuccessCriteria :: "string \<Rightarrow> string list" where
  "bootstrapSuccessCriteria stepName =
     (case map_of
        [(''wait_mold_api_ready'',
          [''listCapabilities returns a successful response'']),
         (''login_admin'',
          [''loginresponse.sessionkey is present'',
           ''listCapabilities succeeds with the sessionkey'']),
         (''create_zone'',
          [''createZone returns a zone id or an existing zone is found'',
           ''listZones returns the zone by name/id'']),
         (''create_physical_network'',
          [''createPhysicalNetwork returns a physical network id or an existing physical network is found'',
           ''listPhysicalNetworks returns the physical network by name/id'']),
         (''add_traffic_types'',
          [''Management, Guest and Public traffic types exist'',
           ''listTrafficTypes returns kvmnetworklabel=bridge0 for every traffic type'']),
         (''enable_physical_network'',
          [''updatePhysicalNetwork state=Enabled succeeds'',
           ''listPhysicalNetworks returns state=Enabled'']),
         (''enable_network_providers'',
          [''VirtualRouter and VpcVirtualRouter elements are enabled'',
           ''listNetworkServiceProviders returns state=Enabled for both providers'']),
         (''create_pod'',
          [''createPod returns a pod id or an existing pod is found'',
           ''listPods returns the pod by name/id'']),
         (''create_public_ip_range'',
          [''createVlanIpRange creates an untagged public range'',
           ''listVlanIpRanges returns the requested start/end IP range'']),
         (''create_cluster'',
          [''addCluster returns a cluster id or an existing cluster is found'',
           ''listClusters returns the cluster by name/id'']),
         (''sync_host_ssh_trust'',
          [''cloud@ccvm public key is present on every clusterConfig.hosts[].ablecube host'',
           ''CCVM can connect to every host with the CloudStack management private key'']),
         (''add_host'',
          [''addHost returns a host id or an existing host is found'',
           ''listHosts returns each host'',
           ''each host reaches Up/Enabled state when expected'']),
         (''add_primary_storage'',
          [''createStoragePool returns a storage pool id or an existing pool is found'',
           ''listStoragePools returns the pool'',
           ''pool state is Up when expected'']),
         (''add_secondary_storage'',
          [''addImageStore returns an image store id or an existing image store is found'',
           ''listImageStores returns the NFS secondary storage'']),
         (''add_secondary_staging_store'',
          [''createSecondaryStagingStore returns a staging store id or an existing staging store is found'',
           ''listSecondaryStagingStores returns the staging store'']),
         (''enable_zone'',
          [''updateZone allocationstate=Enabled succeeds'',
           ''listZones returns allocationstate=Enabled for the zone'']),
         (''wait_system_vm_running'',
          [''listSystemVms returns expected system VMs'',
           ''expected system VMs are Running'']),
         (''final_health_check'',
          [''Zone, physical network, traffic types, providers, Pod, public IP range, cluster, hosts and storage are returned by their list APIs'',
           ''failed resources include step-level error details''])] stepName of
        Some criteria \<Rightarrow> criteria | None \<Rightarrow> [])"

definition bootstrapErrorFields :: "string \<Rightarrow> string \<Rightarrow> string list" where
  "bootstrapErrorFields command verifyCommand =
     [''step'', ''command'', ''code'', ''error_code'', ''error_text'', ''message'', ''raw'']
     @ (if trim_space verifyCommand \<noteq> [] \<and> verifyCommand \<noteq> command then [''verify_command''] else [])"

record requirement =
  rq_path :: string
  rq_value :: string
  rq_missing :: bool
  rq_computed :: bool
  rq_note :: string

definition required :: "string \<Rightarrow> string \<Rightarrow> requirement" where
  "required path v = \<lparr>rq_path = path, rq_value = v, rq_missing = (trim_space v = []), rq_computed = False, rq_note = []\<rparr>"

definition computed :: "string \<Rightarrow> string \<Rightarrow> requirement" where
  "computed path note = \<lparr>rq_path = path, rq_value = [], rq_missing = False, rq_computed = True, rq_note = note\<rparr>"

text \<open>A requirement that is known to be missing.\<close>

definition absent :: "string \<Rightarrow> requirement" where
  "absent path = \<lparr>rq_path = path, rq_value = [], rq_missing = True, rq_computed = False, rq_note = []\<rparr>"

definition planStep :: "string \<Rightarrow> string \<Rightarrow> string \<Rightarrow> requirement list \<Rightarrow> BootstrapPlanStep" where
  "planStep name command verifyCommand requirements =
     \<lparr>p_Name = name, p_Command = command, p_VerifyCommand = verifyCommand, p_ResultKey = bootstrapResultKey name,
      p_RequiredInputs = map rq_path requirements,
      p_MissingInputs = map rq_path (filter rq_missing requirements),
      p_SuccessCriteria = bootstrapSuccessCriteria name,
      p_ErrorFields = bootstrapErrorFields command verifyCommand,
      p_Notes = map rq_note (filter (\<lambda>r. rq_computed r \<and> trim_space (rq_note r) \<noteq> []) requirements)\<rparr>"

text \<open>A step given as a struct literal: the contracts are filled in later.\<close>

definition literal_step :: "string \<Rightarrow> string \<Rightarrow> string \<Rightarrow> string list \<Rightarrow> string list \<Rightarrow> BootstrapPlanStep" where
  "literal_step name command verifyCommand inputs notes =
     \<lparr>p_Name = name, p_Command = command, p_VerifyCommand = verifyCommand, p_ResultKey = [], p_RequiredInputs = inputs,
      p_MissingInputs = [], p_SuccessCriteria = [], p_ErrorFields = [], p_Notes = notes\<rparr>"

definition host_requirements :: "BootstrapRequest \<Rightarrow> nat \<times> HostRequest \<Rightarrow> requirement list" where
  "host_requirements req = (\<lambda>(i, host).
     let prefix = ''hosts['' @ show_nat i @ '']''
     in [required (prefix @ ''.url'') (hr_URL host), required (prefix @ ''.username'') (hr_Username host)]
        @ (if trim_space (hr_Hypervisor host) = [] \<and> trim_space (cl_Hypervisor (q_Cluster req)) = []
           then [absent (prefix @ ''.hypervisor or cluster.hypervisor'')] else []))"

definition hostPlanStep :: "BootstrapRequest \<Rightarrow> BootstrapPlanStep" where
  "hostPlanStep req =
     planStep ''add_host'' ''addHost'' ''listHosts''
       ([computed ''hosts[].zoneid'' ''zoneid is resolved from create_zone/listZones'',
         computed ''hosts[].podid'' ''podid is resolved from create_pod/listPods'',
         computed ''hosts[].clusterid'' ''clusterid is resolved from create_cluster/listClusters'']
        @ (if q_Hosts req = [] then [absent ''hosts[].url'', absent ''hosts[].username'']
           else concat (map (host_requirements req) (enumerate 0 (q_Hosts req)))))"

definition primaryStorageURLRequirement :: "PrimaryStorageRequest \<Rightarrow> requirement" where
  "primaryStorageURLRequirement storage =
     (if ps_AutoRBDSecret storage
      then computed ''primary_storage.url'' ''RBD URL and client.admin secret are resolved from cluster.json and a configured host at runtime''
      else required ''primary_storage.url'' (ps_URL storage))"

definition wait_mold_api_ready_step :: BootstrapPlanStep where
  "wait_mold_api_ready_step =
     literal_step ''wait_mold_api_ready'' ''listCapabilities'' ''listCapabilities''
       []
       [''clusterConfig.ccvm.ip resolves the Mold endpoint; no infrastructure input is required for this step.'']"

definition login_admin_step :: BootstrapPlanStep where
  "login_admin_step =
     literal_step ''login_admin'' ''login'' ''listCapabilities''
       [''auth.username optional; default admin'',
        ''auth.password optional; default password'',
        ''auth.domain optional; default /'']
       [''Password change is intentionally not part of this flow.'']"

definition create_zone_step :: "BootstrapRequest \<Rightarrow> BootstrapPlanStep" where
  "create_zone_step req =
     planStep ''create_zone'' ''createZone'' ''listZones''
       [required ''zone.name'' (zn_Name (q_Zone req)),
        required ''zone.dns1'' (zn_DNS1 (q_Zone req)),
        required ''zone.internaldns1'' (zn_InternalDNS1 (q_Zone req)),
        required ''zone.networktype'' (zn_NetworkType (q_Zone req))]"

definition create_physical_network_step :: "BootstrapRequest \<Rightarrow> BootstrapPlanStep" where
  "create_physical_network_step req =
     planStep ''create_physical_network'' ''createPhysicalNetwork'' ''listPhysicalNetworks''
       [required ''physical_network.name'' (pn_Name (q_PhysicalNetwork req)),
        computed ''physical_network.zoneid'' ''zoneid is resolved from create_zone/listZones'']"

definition add_traffic_types_step :: BootstrapPlanStep where
  "add_traffic_types_step =
     planStep ''add_traffic_types'' ''addTrafficType'' ''listTrafficTypes''
       [computed ''traffic_types.physicalnetworkid'' ''physicalnetworkid is resolved from create_physical_network/listPhysicalNetworks'',
        computed ''traffic_types.traffictype'' ''Management, Guest and Public are fixed traffic types'',
        computed ''traffic_types.kvmnetworklabel'' ''bridge0 is used for every KVM traffic type'']"

definition enable_physical_network_step :: BootstrapPlanStep where
  "enable_physical_network_step =
     planStep ''enable_physical_network'' ''updatePhysicalNetwork'' ''listPhysicalNetworks''
       [computed ''physical_network.id'' ''physicalnetworkid is resolved from create_physical_network/listPhysicalNetworks'',
        computed ''physical_network.state'' ''state=Enabled'']"

definition enable_network_providers_step :: BootstrapPlanStep where
  "enable_network_providers_step =
     planStep ''enable_network_providers'' ''configureVirtualRouterElement,updateNetworkServiceProvider'' ''listVirtualRouterElements,listNetworkServiceProviders''
       [computed ''network_providers'' ''VirtualRouter and VpcVirtualRouter are enabled automatically'']"

definition create_pod_step :: "BootstrapRequest \<Rightarrow> BootstrapPlanStep" where
  "create_pod_step req =
     planStep ''create_pod'' ''createPod'' ''listPods''
       [required ''pod.name'' (pod_Name (q_Pod req)),
        required ''pod.gateway'' (pod_Gateway (q_Pod req)),
        required ''pod.netmask'' (pod_Netmask (q_Pod req)),
        required ''pod.startip'' (pod_StartIP (q_Pod req)),
        required ''pod.endip'' (pod_EndIP (q_Pod req)),
        computed ''pod.zoneid'' ''zoneid is resolved from create_zone/listZones'']"

definition create_public_ip_range_step :: "BootstrapRequest \<Rightarrow> BootstrapPlanStep" where
  "create_public_ip_range_step req =
     planStep ''create_public_ip_range'' ''createVlanIpRange'' ''listVlanIpRanges''
       [required ''public_ip.gateway'' (ip_Gateway (q_PublicIP req)),
        required ''public_ip.netmask'' (ip_Netmask (q_PublicIP req)),
        required ''public_ip.startip'' (ip_StartIP (q_PublicIP req)),
        required ''public_ip.endip'' (ip_EndIP (q_PublicIP req)),
        computed ''public_ip.zoneid'' ''zoneid is resolved from create_zone/listZones'',
        computed ''public_ip.physicalnetworkid'' ''physicalnetworkid is resolved from create_physical_network/listPhysicalNetworks'',
        computed ''public_ip.forvirtualnetwork'' ''forvirtualnetwork=true'']"

definition create_cluster_step :: "BootstrapRequest \<Rightarrow> BootstrapPlanStep" where
  "create_cluster_step req =
     planStep ''create_cluster'' ''addCluster'' ''listClusters''
       [required ''cluster.name'' (cl_Name (q_Cluster req)),
        required ''cluster.clustertype'' (cl_ClusterType (q_Cluster req)),
        required ''cluster.hypervisor'' (cl_Hypervisor (q_Cluster req)),
        computed ''cluster.zoneid'' ''zoneid is resolved from create_zone/listZones'',
        computed ''cluster.podid'' ''podid is resolved from create_pod/listPods'']"

definition sync_host_ssh_trust_step :: BootstrapPlanStep where
  "sync_host_ssh_trust_step =
     planStep ''sync_host_ssh_trust'' ''ensure cloud@ccvm authorized key'' ''ssh BatchMode connection''
       [computed ''clusterConfig.hosts[].ablecube'' ''all ablecube targets are read from cluster.json'',
        computed ''cloudstack management public key'' ''/var/cloudstack/management/.ssh/id_rsa.pub is read on CCVM'']"

definition add_primary_storage_step :: "BootstrapRequest \<Rightarrow> BootstrapPlanStep" where
  "add_primary_storage_step req =
     planStep ''add_primary_storage'' ''createStoragePool'' ''listStoragePools''
       [required ''primary_storage.name'' (ps_Name (q_PrimaryStorage req)),
        primaryStorageURLRequirement (q_PrimaryStorage req),
        computed ''primary_storage.zoneid'' ''zoneid is resolved from create_zone/listZones'',
        computed ''primary_storage.podid'' ''podid is resolved from create_pod/listPods'',
        computed ''primary_storage.clusterid'' ''clusterid is resolved from create_cluster/listClusters'']"

definition add_secondary_storage_step :: "BootstrapRequest \<Rightarrow> BootstrapPlanStep" where
  "add_secondary_storage_step req =
     planStep ''add_secondary_storage'' ''addImageStore'' ''listImageStores''
       [required ''secondary_storage.url'' (ss_URL (q_SecondaryStorage req)),
        computed ''secondary_storage.zoneid'' ''zoneid is resolved from create_zone/listZones'']"

definition enable_zone_step :: BootstrapPlanStep where
  "enable_zone_step =
     literal_step ''enable_zone'' ''updateZone'' ''listZones''
       [''zone.id computed from create_zone/listZones'',
        ''allocationstate=Enabled'']
       []"

definition wait_system_vm_running_step :: BootstrapPlanStep where
  "wait_system_vm_running_step =
     literal_step ''wait_system_vm_running'' ''listSystemVms'' ''listSystemVms''
       [''zone.id computed from create_zone/listZones'']
       [''Poll until Console Proxy VM and Secondary Storage VM are Running when those system VMs are expected.'']"

definition final_health_check_step :: BootstrapPlanStep where
  "final_health_check_step =
     literal_step ''final_health_check'' []
       ''listZones,listPhysicalNetworks,listTrafficTypes,listNetworkServiceProviders,listVirtualRouterElements,listPods,listVlanIpRanges,listClusters,listHosts,listStoragePools,listImageStores,listSystemVms''
       []
       [''Every created resource is verified again by list APIs, not by create API success alone.'']"

definition plan_steps :: "BootstrapRequest \<Rightarrow> BootstrapPlanStep list" where
  "plan_steps req =
     [wait_mold_api_ready_step, login_admin_step, create_zone_step req, create_physical_network_step req, add_traffic_types_step,
      enable_physical_network_step, enable_network_providers_step, create_pod_step req, create_public_ip_range_step req,
      create_cluster_step req, sync_host_ssh_trust_step, hostPlanStep req, add_primary_storage_step req,
      add_secondary_storage_step req, enable_zone_step, wait_system_vm_running_step, final_health_check_step]"

definition staging_step :: "SecondaryStagingStoreRequest \<Rightarrow> BootstrapPlanStep" where
  "staging_step staging =
     planStep ''add_secondary_staging_store'' ''createSecondaryStagingStore'' ''listSecondaryStagingStores''
       [required ''secondary_staging_store.url'' (sg_URL staging),
        computed ''secondary_staging_store.zoneid'' ''zoneid is resolved from create_zone/listZones'']"

text \<open>The loop inserts before the first step with the name, or at the end if there is none.\<close>

fun insertBeforeStep :: "BootstrapPlanStep list \<Rightarrow> string \<Rightarrow> BootstrapPlanStep \<Rightarrow> BootstrapPlanStep list" where
  "insertBeforeStep [] before step = [step]"
| "insertBeforeStep (current # steps) before step =
     (if p_Name current = before then step # current # steps else current # insertBeforeStep steps before step)"

definition with_contract :: "BootstrapPlanStep \<Rightarrow> BootstrapPlanStep" where
  "with_contract step =
     step\<lparr>p_ResultKey := if p_ResultKey step = [] then bootstrapResultKey (p_Name step) else p_ResultKey step,
          p_SuccessCriteria := if p_SuccessCriteria step = [] then bootstrapSuccessCriteria (p_Name step) else p_SuccessCriteria step,
          p_ErrorFields :=
            if p_ErrorFields step = [] then bootstrapErrorFields (p_Command step) (p_VerifyCommand step) else p_ErrorFields step\<rparr>"

definition applyBootstrapPlanContracts :: "BootstrapPlanStep list \<Rightarrow> BootstrapPlanStep list" where
  "applyBootstrapPlanContracts steps = map with_contract steps"

text \<open>The inner loop over the missing inputs of one step, with the inputs already seen.\<close>

fun dedupe_loop :: "string list \<Rightarrow> string list \<Rightarrow> string list" where
  "dedupe_loop [] seen = seen"
| "dedupe_loop (i # is) seen =
     (let input = trim_space i
      in if input = [] \<or> input \<in> set seen then dedupe_loop is seen else dedupe_loop is (seen @ [input]))"

definition dedupeMissingInputs :: "BootstrapPlanStep list \<Rightarrow> string list" where
  "dedupeMissingInputs steps = fold (\<lambda>step. dedupe_loop (p_MissingInputs step)) steps []"

definition BuildBootstrapPlan :: "BootstrapRequest \<Rightarrow> BootstrapPlanValue" where
  "BuildBootstrapPlan request =
     (let req = NormalizeBootstrapRequest request;
          steps = (case q_SecondaryStagingStore req of
                     None \<Rightarrow> plan_steps req
                   | Some staging \<Rightarrow> insertBeforeStep (plan_steps req) ''enable_zone'' (staging_step staging));
          contracted = applyBootstrapPlanContracts steps;
          missing = dedupeMissingInputs contracted
      in \<lparr>v_Ready = (missing = []), v_Steps = contracted, v_MissingInputs = missing,
          v_Notes = [''Initial password change is excluded from this flow.'',
                     ''create steps should be implemented as ensure operations: list first, create if missing, then list again.'',
                     ''zoneid, podid, clusterid are runtime IDs captured from earlier create/list responses and are not user inputs.'']\<rparr>)"

section \<open>Values from the cluster configuration\<close>

text \<open>The fields of \<^verbatim>\<open>ClusterConfigSection\<close> that the bootstrap reads.\<close>

record ClusterConfigSection =
  sec_Type :: string
  sec_CCVM_IP :: string
  sec_Hosts :: "ClusterHost list"

datatype plan_error =
    ReadClusterError
  | ClusterConfigRequired
  | ErrMissingCCVMIP
  | UnsupportedType string

text \<open>
  Decoding a JSON value into a string field and into a host. Null leaves the zero value, other
  types are errors.
\<close>

definition decode_string :: "goval \<Rightarrow> string option" where
  "decode_string v = (case v of VStr s \<Rightarrow> Some s | VNil \<Rightarrow> Some [] | _ \<Rightarrow> None)"

definition decode_host :: "goval \<Rightarrow> ClusterHost option" where
  "decode_host v =
     Option.bind (item_map v) (\<lambda>m.
     Option.bind (decode_string (mget m ''index'')) (\<lambda>index.
     Option.bind (decode_string (mget m ''hostname'')) (\<lambda>hostname.
     Option.bind (decode_string (mget m ''ablecube'')) (\<lambda>ablecube.
     Option.bind (decode_string (mget m ''scvmMngt'')) (\<lambda>scvmMngt.
     Option.bind (decode_string (mget m ''ablecubePn'')) (\<lambda>ablecubePn.
     Option.bind (decode_string (mget m ''scvm'')) (\<lambda>scvm.
     Option.bind (decode_string (mget m ''scvmCn'')) (\<lambda>scvmCn.
       Some \<lparr>Index = index, Hostname = hostname, Ablecube = ablecube, ScvmMngt = scvmMngt, AblecubePn = ablecubePn,
             Scvm = scvm, ScvmCn = scvmCn\<rparr>))))))))"

fun decode_hosts :: "goval list \<Rightarrow> ClusterHost list option" where
  "decode_hosts [] = Some []"
| "decode_hosts (v # vs) = Option.bind (decode_host v) (\<lambda>h. map_option ((#) h) (decode_hosts vs))"

text \<open>
  The section of a normalised document. The normaliser writes the keys with their exact spelling and
  the remaining fields with the types of the struct, so only the fields that are read can matter.
\<close>

definition decode_section :: "goval \<Rightarrow> ClusterConfigSection option" where
  "decode_section v =
     Option.bind (item_map v) (\<lambda>m.
     Option.bind (decode_string (mget m ''type'')) (\<lambda>typ.
     Option.bind (Option.bind (item_map (mget m ''ccvm'')) (\<lambda>ccvm. decode_string (mget ccvm ''ip''))) (\<lambda>ip.
     Option.bind (case mget m ''hosts'' of VNil \<Rightarrow> Some [] | VArr vs \<Rightarrow> decode_hosts vs | _ \<Rightarrow> None) (\<lambda>hosts.
       Some \<lparr>sec_Type = typ, sec_CCVM_IP = ip, sec_Hosts = hosts\<rparr>))))"

definition LoadClusterConfigSection :: "doc_state \<Rightarrow> ClusterConfigSection option" where
  "LoadClusterConfigSection d =
     (case d of
        Doc root \<Rightarrow> Option.bind (fmlookup (NormalizeClusterJSON root) ''clusterConfig'') (\<lambda>rawCfg. decode_section (reload rawCfg))
      | _ \<Rightarrow> None)"

text \<open>The loop over the hosts: the request, the address and the monitor name of each host with an address.\<close>

fun default_hosts :: "nat \<Rightarrow> ClusterHost list \<Rightarrow> (HostRequest \<times> string \<times> string) list" where
  "default_hosts i [] = []"
| "default_hosts i (host # hosts) =
     (let ip = trim_space (Ablecube host); index = trim_space (Index host)
      in (if ip = [] then []
          else [(\<lparr>hr_URL = ''http://'' @ ip, hr_Username = ''root'', hr_Password = [], hr_Hypervisor = ''KVM'', hr_HostTags = ''compute''\<rparr>,
                 ip, ''scvm'' @ (if index = [] then show_nat (i + 1) else index))])
         @ default_hosts (i + 1) hosts)"

definition rbd_storage :: "string list \<Rightarrow> string list \<Rightarrow> PrimaryStorageRequest" where
  "rbd_storage monitors cephKeyHosts =
     \<lparr>ps_Name = ''Primary Storage(RBD)'', ps_URL = [], ps_Scope = ''cluster'', ps_Provider = ''ABLESTACK'', ps_Protocol = ''Glue Block'',
      ps_Hypervisor = ''KVM'', ps_Tags = ''Primary Storage(RBD)'', ps_RADOSMonitors = join_with '','' monitors, ps_RADOSPool = ''rbd'',
      ps_RADOSUser = ''admin'', ps_KRBDPath = ''/dev/rbd'', ps_DetailsProvider = ''ABLESTACK'', ps_AutoRBDSecret = True,
      ps_CephKeyHosts = cephKeyHosts\<rparr>"

definition mount_storage :: "string \<Rightarrow> PrimaryStorageRequest" where
  "mount_storage mountPath =
     \<lparr>ps_Name = ''Primary Storage(Glue)'', ps_URL = ''SharedMountPoint://localhost'' @ mountPath, ps_Scope = ''cluster'',
      ps_Provider = ''DefaultPrimary'', ps_Protocol = ''SharedMountPoint'', ps_Hypervisor = ''KVM'', ps_Tags = ''Primary Storage(Glue)'',
      ps_RADOSMonitors = [], ps_RADOSPool = [], ps_RADOSUser = [], ps_KRBDPath = [], ps_DetailsProvider = [], ps_AutoRBDSecret = False,
      ps_CephKeyHosts = []\<rparr>"

definition ApplyClusterBootstrapDefaults ::
  "BootstrapRequest \<Rightarrow> ClusterConfigSection option \<Rightarrow> plan_error + BootstrapRequest" where
  "ApplyClusterBootstrapDefaults request config =
     (case config of
        None \<Rightarrow> Inl ClusterConfigRequired
      | Some cfg \<Rightarrow>
          (let req0 = NormalizeBootstrapRequest request;
               req1 = req0\<lparr>q_PhysicalNetwork := (q_PhysicalNetwork req0)\<lparr>pn_VLAN := ''1-1''\<rparr>\<rparr>;
               ccvmIP = trim_space (sec_CCVM_IP cfg);
               found = default_hosts 0 (sec_Hosts cfg);
               typ = to_lower (trim_space (sec_Type cfg));
               req2 = req1\<lparr>q_SecondaryStorage := \<lparr>ss_Name = ''Secondary Storage'', ss_Provider = ''NFS'', ss_URL = ''nfs://'' @ ccvmIP\<rparr>,
                           q_Hosts := map fst found\<rparr>
           in if ccvmIP = [] then Inl ErrMissingCCVMIP
              else if typ = ''ablestack-hci''
              then Inr (req2\<lparr>q_PrimaryStorage := rbd_storage (map (snd \<circ> snd) found) (map (fst \<circ> snd) found)\<rparr>)
              else if typ \<in> {''ablestack-vm'', ''ablestack-hci-filesystem'', ''ablestack-standalone''}
              then Inr (req2\<lparr>q_PrimaryStorage :=
                     mount_storage (if equal_fold (trim_space (sec_Type cfg)) ''ablestack-standalone'' then ''/mnt/glue'' else ''/mnt/glue-gfs'')\<rparr>)
              else Inl (UnsupportedType (sec_Type cfg))))"

definition PrepareBootstrapRequest :: "BootstrapRequest \<Rightarrow> doc_state \<Rightarrow> plan_error + BootstrapRequest" where
  "PrepareBootstrapRequest req d =
     (case LoadClusterConfigSection d of
        None \<Rightarrow> Inl ReadClusterError
      | Some cfg \<Rightarrow> ApplyClusterBootstrapDefaults req (Some cfg))"

section \<open>Facts about names\<close>

lemma upper_byte_range: "upper_byte c = c \<or> 65 \<le> (of_char (upper_byte c) :: nat) \<and> (of_char (upper_byte c) :: nat) \<le> 90"
  by (auto simp: upper_byte_def of_char_of)

lemma letter_no_space:
  assumes "65 \<le> (of_char c :: nat)" and "(of_char c :: nat) \<le> 122"
  shows "space_len (c # s) = 0"
proof -
  have "\<not> space1 c" using assms by (auto simp: space1_def)
  moreover have "c \<noteq> CHR 0xC2" "c \<noteq> CHR 0xE1" "c \<noteq> CHR 0xE2" "c \<noteq> CHR 0xE3" using assms by auto
  then have "\<not> space2 c d" "\<not> space3 c d e" for d e by (simp_all add: space2_def space3_def)
  ultimately show ?thesis by (simp add: space_len.simps split: list.split)
qed

lemma upper_first_step:
  "upper_first (c # s) = upper_byte c # s \<or> (\<exists>t. upper_first (c # s) = CHR ''S'' # t) \<or> (\<exists>t. upper_first (c # s) = CHR ''I'' # t)"
  by (simp split: list.split)

lemma space_len_upper_first: "space_len s = 0 \<Longrightarrow> space_len (upper_first s) = 0"
proof (cases s)
  case (Cons c t)
  assume "space_len s = 0"
  then show ?thesis
    using upper_first_step [of c t] upper_byte_range [of c] letter_no_space [of "upper_byte c" t] letter_no_space [of "CHR ''S''"]
      letter_no_space [of "CHR ''I''"] Cons by (auto simp del: upper_first.simps)
qed simp

lemma upper_first_Nil [simp]: "upper_first s = [] \<longleftrightarrow> s = []"
  by (cases s) (auto split: list.split)

lemma to_lower_Nil [simp]: "to_lower s = [] \<longleftrightarrow> s = []"
  by (cases s) (auto split: list.split)

lemma normalized_name: "space_len fallback = 0 \<Longrightarrow> fallback \<noteq> [] \<Longrightarrow> trim_space (normalizeBootstrapName name fallback) \<noteq> []"
  by (intro trim_not_blank) (simp_all add: normalizeBootstrapName_def Let_def space_len_upper_first space_len_to_lower)

section \<open>Facts about missing inputs\<close>

lemma dedupe_loop_append: "dedupe_loop (xs @ ys) seen = dedupe_loop ys (dedupe_loop xs seen)"
  by (induction xs seen rule: dedupe_loop.induct) (simp_all add: Let_def)

lemma dedupe_loop_clean: "dedupe_loop is seen = seen @ filter (\<lambda>x. x \<notin> set seen) (clean_list is)"
proof (induction "is" seen rule: dedupe_loop.induct)
  case (2 i "is" seen)
  show ?case
  proof (cases "trim_space i = [] \<or> trim_space i \<in> set seen")
    case True
    then show ?thesis using 2(1) clean_list_skip [OF True] by (simp add: Let_def)
  next
    case False
    then show ?thesis using 2(2) clean_list_keep [of i "set seen" "is"] by (simp add: Let_def)
  qed
qed (simp add: clean_list_def)

lemma dedupe_clean: "dedupeMissingInputs steps = clean_list (concat (map p_MissingInputs steps))"
proof -
  have "fold (\<lambda>step. dedupe_loop (p_MissingInputs step)) steps seen = dedupe_loop (concat (map p_MissingInputs steps)) seen" for seen
    by (induction steps arbitrary: seen) (simp_all add: dedupe_loop_append)
  then show ?thesis by (simp add: dedupeMissingInputs_def dedupe_loop_clean)
qed

text \<open>Whether a step lacks nothing.\<close>

definition complete :: "BootstrapPlanStep \<Rightarrow> bool" where
  "complete step \<longleftrightarrow> list_all blank (p_MissingInputs step)"

lemma no_missing: "dedupeMissingInputs steps = [] \<longleftrightarrow> list_all complete steps"
proof -
  have "clean_list xs = [] \<longleftrightarrow> list_all blank xs" for xs
    using clean_list_set [of xs] by (simp add: list_all_iff set_empty [symmetric] del: set_empty) auto
  then show ?thesis by (auto simp: dedupe_clean complete_def list_all_iff)
qed

lemma complete_contract [simp]: "complete (with_contract step) = complete step"
  by (simp add: complete_def with_contract_def)

lemma complete_insert: "list_all complete (insertBeforeStep steps before step) \<longleftrightarrow> complete step \<and> list_all complete steps"
  by (induction steps) auto

lemma complete_literal [simp]: "complete (literal_step name command verify inputs notes)"
  by (simp add: complete_def literal_step_def)

lemma complete_planStep:
  "list_all (\<lambda>r. \<not> blank (rq_path r)) rs \<Longrightarrow> complete (planStep name command verify rs) \<longleftrightarrow> list_all (\<lambda>r. \<not> rq_missing r) rs"
  by (induction rs) (auto simp: complete_def planStep_def)

lemma letter_path: "65 \<le> (of_char c :: nat) \<Longrightarrow> (of_char c :: nat) \<le> 122 \<Longrightarrow> trim_space (c # s) \<noteq> []"
  by (intro trim_not_blank letter_no_space) simp_all

lemmas requirement_simps = required_def computed_def absent_def primaryStorageURLRequirement_def

lemma complete_zone: "complete (create_zone_step req) \<longleftrightarrow>
    \<not> blank (zn_Name (q_Zone req)) \<and> \<not> blank (zn_DNS1 (q_Zone req)) \<and> \<not> blank (zn_InternalDNS1 (q_Zone req)) \<and> \<not> blank (zn_NetworkType (q_Zone req))"
  by (simp add: create_zone_step_def complete_planStep requirement_simps letter_path)

lemma complete_network: "complete (create_physical_network_step req) \<longleftrightarrow> \<not> blank (pn_Name (q_PhysicalNetwork req))"
  by (simp add: create_physical_network_step_def complete_planStep requirement_simps letter_path)

lemma complete_pod: "complete (create_pod_step req) \<longleftrightarrow>
    \<not> blank (pod_Name (q_Pod req)) \<and> \<not> blank (pod_Gateway (q_Pod req)) \<and> \<not> blank (pod_Netmask (q_Pod req))
    \<and> \<not> blank (pod_StartIP (q_Pod req)) \<and> \<not> blank (pod_EndIP (q_Pod req))"
  by (simp add: create_pod_step_def complete_planStep requirement_simps letter_path)

lemma complete_public: "complete (create_public_ip_range_step req) \<longleftrightarrow>
    \<not> blank (ip_Gateway (q_PublicIP req)) \<and> \<not> blank (ip_Netmask (q_PublicIP req))
    \<and> \<not> blank (ip_StartIP (q_PublicIP req)) \<and> \<not> blank (ip_EndIP (q_PublicIP req))"
  by (simp add: create_public_ip_range_step_def complete_planStep requirement_simps letter_path)

lemma complete_cluster: "complete (create_cluster_step req) \<longleftrightarrow>
    \<not> blank (cl_Name (q_Cluster req)) \<and> \<not> blank (cl_ClusterType (q_Cluster req)) \<and> \<not> blank (cl_Hypervisor (q_Cluster req))"
  by (simp add: create_cluster_step_def complete_planStep requirement_simps letter_path)

lemma complete_storage: "complete (add_primary_storage_step req) \<longleftrightarrow>
    \<not> blank (ps_Name (q_PrimaryStorage req)) \<and> (ps_AutoRBDSecret (q_PrimaryStorage req) \<or> \<not> blank (ps_URL (q_PrimaryStorage req)))"
  by (simp add: add_primary_storage_step_def complete_planStep requirement_simps letter_path)

lemma complete_secondary: "complete (add_secondary_storage_step req) \<longleftrightarrow> \<not> blank (ss_URL (q_SecondaryStorage req))"
  by (simp add: add_secondary_storage_step_def complete_planStep requirement_simps letter_path)

lemma complete_staging: "complete (staging_step staging) \<longleftrightarrow> \<not> blank (sg_URL staging)"
  by (simp add: staging_step_def complete_planStep requirement_simps letter_path)

lemma complete_fixed:
  "complete wait_mold_api_ready_step" "complete login_admin_step" "complete add_traffic_types_step" "complete enable_physical_network_step"
  "complete enable_network_providers_step" "complete sync_host_ssh_trust_step" "complete enable_zone_step"
  "complete wait_system_vm_running_step" "complete final_health_check_step"
  by (simp_all add: wait_mold_api_ready_step_def login_admin_step_def add_traffic_types_step_def enable_physical_network_step_def
      enable_network_providers_step_def sync_host_ssh_trust_step_def enable_zone_step_def wait_system_vm_running_step_def
      final_health_check_step_def complete_planStep requirement_simps letter_path)

lemma complete_host: "complete (hostPlanStep req) \<longleftrightarrow>
    q_Hosts req \<noteq> [] \<and> (\<forall>h \<in> set (q_Hosts req). \<not> blank (hr_URL h) \<and> \<not> blank (hr_Username h)
      \<and> (\<not> blank (hr_Hypervisor h) \<or> \<not> blank (cl_Hypervisor (q_Cluster req))))"
proof -
  have paths: "list_all (\<lambda>r. \<not> blank (rq_path r)) (host_requirements req ih)" for ih
    by (cases ih) (simp add: host_requirements_def requirement_simps letter_path Let_def)
  have missing: "list_all (\<lambda>r. \<not> rq_missing r) (host_requirements req ih) \<longleftrightarrow>
      \<not> blank (hr_URL (snd ih)) \<and> \<not> blank (hr_Username (snd ih))
      \<and> (\<not> blank (hr_Hypervisor (snd ih)) \<or> \<not> blank (cl_Hypervisor (q_Cluster req)))" for ih
    by (cases ih) (simp add: host_requirements_def requirement_simps Let_def)
  have all: "list_all P (concat (map f xs)) \<longleftrightarrow> (\<forall>x \<in> set xs. list_all P (f x))" for P f and xs :: "(nat \<times> HostRequest) list"
    by (induction xs) auto
  have enum: "(\<forall>x \<in> set (enumerate 0 hs). P (snd x)) \<longleftrightarrow> (\<forall>h \<in> set hs. P h)" for P and hs :: "HostRequest list"
    by (metis (no_types, lifting) image_iff list.set_map map_snd_enumerate)
  show ?thesis
    using enum [of "q_Hosts req" "\<lambda>h. \<not> blank (hr_URL h) \<and> \<not> blank (hr_Username h)
        \<and> (\<not> blank (hr_Hypervisor h) \<or> \<not> blank (cl_Hypervisor (q_Cluster req)))"]
    by (simp add: hostPlanStep_def complete_planStep requirement_simps letter_path all missing paths)
qed

section \<open>Facts about the steps\<close>

lemma names_contract [simp]: "p_Name (with_contract step) = p_Name step"
  by (simp add: with_contract_def)

lemma names_insert:
  "map p_Name (insertBeforeStep steps before step) =
     takeWhile (\<lambda>n. n \<noteq> before) (map p_Name steps) @ p_Name step # dropWhile (\<lambda>n. n \<noteq> before) (map p_Name steps)"
  by (induction steps) auto

lemma names_plan_steps:
  "map p_Name (plan_steps req) =
     [''wait_mold_api_ready'', ''login_admin'', ''create_zone'', ''create_physical_network'', ''add_traffic_types'',
      ''enable_physical_network'', ''enable_network_providers'', ''create_pod'', ''create_public_ip_range'', ''create_cluster'',
      ''sync_host_ssh_trust'', ''add_host'', ''add_primary_storage'', ''add_secondary_storage'', ''enable_zone'',
      ''wait_system_vm_running'', ''final_health_check'']"
  by (simp add: plan_steps_def planStep_def literal_step_def wait_mold_api_ready_step_def login_admin_step_def create_zone_step_def
      create_physical_network_step_def add_traffic_types_step_def enable_physical_network_step_def enable_network_providers_step_def
      create_pod_step_def create_public_ip_range_step_def create_cluster_step_def sync_host_ssh_trust_step_def hostPlanStep_def
      add_primary_storage_step_def add_secondary_storage_step_def enable_zone_step_def wait_system_vm_running_step_def
      final_health_check_step_def)

definition plan_names :: "bool \<Rightarrow> string list" where
  "plan_names staging =
     [''wait_mold_api_ready'', ''login_admin'', ''create_zone'', ''create_physical_network'', ''add_traffic_types'',
      ''enable_physical_network'', ''enable_network_providers'', ''create_pod'', ''create_public_ip_range'', ''create_cluster'',
      ''sync_host_ssh_trust'', ''add_host'', ''add_primary_storage'', ''add_secondary_storage'']
     @ (if staging then [''add_secondary_staging_store''] else [])
     @ [''enable_zone'', ''wait_system_vm_running'', ''final_health_check'']"

lemma normalized_staging [simp]: "q_SecondaryStagingStore (NormalizeBootstrapRequest req) = q_SecondaryStagingStore req"
  by (simp add: NormalizeBootstrapRequest_def)

lemma names_plan: "map p_Name (v_Steps (BuildBootstrapPlan req)) = plan_names (q_SecondaryStagingStore req \<noteq> None)"
proof (cases "q_SecondaryStagingStore req")
  case None
  then show ?thesis
    by (simp add: BuildBootstrapPlan_def Let_def applyBootstrapPlanContracts_def comp_def names_plan_steps plan_names_def)
next
  case (Some staging)
  then have "map p_Name (v_Steps (BuildBootstrapPlan req)) =
      map p_Name (insertBeforeStep (plan_steps (NormalizeBootstrapRequest req)) ''enable_zone'' (staging_step staging))"
    by (simp add: BuildBootstrapPlan_def Let_def applyBootstrapPlanContracts_def comp_def)
  also have "\<dots> = plan_names True"
    by (simp add: names_insert names_plan_steps plan_names_def staging_step_def planStep_def)
  finally show ?thesis using Some by simp
qed

lemma distinct_plan_names: "distinct (plan_names staging)"
  by (simp add: plan_names_def)


lemma criteria_known: "n \<in> set (plan_names staging) \<Longrightarrow> bootstrapSuccessCriteria n \<noteq> [] \<and> bootstrapResultKey n \<noteq> []"
proof -
  have "list_all (\<lambda>n. bootstrapSuccessCriteria n \<noteq> [] \<and> bootstrapResultKey n \<noteq> []) (plan_names True)" by code_simp
  moreover assume "n \<in> set (plan_names staging)"
  then have "n \<in> set (plan_names True)" by (auto simp: plan_names_def split: if_splits)
  ultimately show ?thesis by (simp add: list_all_iff)
qed

lemma contract_fields:
  "bootstrapSuccessCriteria (p_Name step) \<noteq> [] \<and> bootstrapResultKey (p_Name step) \<noteq> [] \<Longrightarrow>
     p_ResultKey (with_contract step) \<noteq> [] \<and> p_SuccessCriteria (with_contract step) \<noteq> [] \<and> p_ErrorFields (with_contract step) \<noteq> []"
  by (simp add: with_contract_def bootstrapErrorFields_def)

text \<open>The inputs a request has to give whatever the cluster is.\<close>

definition user_inputs :: "BootstrapRequest \<Rightarrow> string list" where
  "user_inputs req =
     [zn_DNS1 (q_Zone req), zn_InternalDNS1 (q_Zone req), zn_NetworkType (q_Zone req),
      pod_Gateway (q_Pod req), pod_Netmask (q_Pod req), pod_StartIP (q_Pod req), pod_EndIP (q_Pod req),
      ip_Gateway (q_PublicIP req), ip_Netmask (q_PublicIP req), ip_StartIP (q_PublicIP req), ip_EndIP (q_PublicIP req),
      cl_ClusterType (q_Cluster req), cl_Hypervisor (q_Cluster req)]"

text \<open>The inputs that the cluster configuration can give.\<close>

definition cluster_inputs :: "BootstrapRequest \<Rightarrow> bool" where
  "cluster_inputs req \<longleftrightarrow>
     q_Hosts req \<noteq> [] \<and> list_all (\<lambda>h. \<not> blank (hr_URL h) \<and> \<not> blank (hr_Username h)) (q_Hosts req)
     \<and> (ps_AutoRBDSecret (q_PrimaryStorage req) \<or> \<not> blank (ps_URL (q_PrimaryStorage req)))
     \<and> \<not> blank (ss_URL (q_SecondaryStorage req))"

lemma ready_complete:
  "v_Ready (BuildBootstrapPlan req) \<longleftrightarrow> list_all complete (plan_steps (NormalizeBootstrapRequest req))
     \<and> (\<forall>staging. q_SecondaryStagingStore req = Some staging \<longrightarrow> \<not> blank (sg_URL staging))"
proof -
  have "list_all complete (map with_contract steps) = list_all complete steps" for steps
    by (simp add: list.pred_map comp_def)
  then show ?thesis
    by (auto simp: BuildBootstrapPlan_def Let_def applyBootstrapPlanContracts_def no_missing complete_insert complete_staging split: option.splits)
qed

lemma plan_ready_iff:
  "v_Ready (BuildBootstrapPlan req) \<longleftrightarrow> list_all (\<lambda>v. \<not> blank v) (user_inputs req) \<and> cluster_inputs req
     \<and> (\<forall>staging. q_SecondaryStagingStore req = Some staging \<longrightarrow> \<not> blank (sg_URL staging))"
proof -
  let ?r = "NormalizeBootstrapRequest req"
  have names: "\<not> blank (zn_Name (q_Zone ?r))" "\<not> blank (pn_Name (q_PhysicalNetwork ?r))" "\<not> blank (pod_Name (q_Pod ?r))" "\<not> blank (cl_Name (q_Cluster ?r))"
    by (simp_all add: NormalizeBootstrapRequest_def normalized_name letter_no_space)
  have storage: "\<not> blank (ps_Name (q_PrimaryStorage ?r))" by (simp add: NormalizeBootstrapRequest_def letter_path)
  have same: "q_Hosts ?r = q_Hosts req" "ps_URL (q_PrimaryStorage ?r) = ps_URL (q_PrimaryStorage req)"
      "ps_AutoRBDSecret (q_PrimaryStorage ?r) = ps_AutoRBDSecret (q_PrimaryStorage req)" "q_SecondaryStorage ?r = q_SecondaryStorage req"
      "user_inputs ?r = user_inputs req"
    by (simp_all add: NormalizeBootstrapRequest_def user_inputs_def)
  have "list_all complete (plan_steps ?r) \<longleftrightarrow> list_all (\<lambda>v. \<not> blank v) (user_inputs ?r) \<and> cluster_inputs ?r"
    unfolding plan_steps_def
    by (auto simp: complete_fixed complete_zone complete_network complete_pod complete_public complete_cluster complete_storage
        complete_secondary complete_host names storage user_inputs_def cluster_inputs_def list_all_iff)
  then show ?thesis using ready_complete [of req] by (simp add: same cluster_inputs_def)
qed

section \<open>Facts about the values of the cluster\<close>

text \<open>The host a normalised entry decodes to.\<close>

definition section_host :: "bool \<Rightarrow> gomap \<Rightarrow> ClusterHost" where
  "section_host hci host =
     (if hci then host_param host
      else (host_param host)\<lparr>ScvmMngt := [], AblecubePn := [], Scvm := [], ScvmCn := []\<rparr>)"

lemma decode_ordered_host:
  "decode_host (reload (orderedHostHCI host)) = Some (section_host True host)"
  "decode_host (reload (orderedHostVM host)) = Some (section_host False host)"
  by (simp_all add: decode_host_def orderedHostHCI_def orderedHostVM_def item_map_def mget_fields decode_string_def
      section_host_def host_param_def del: list.map)

lemma decode_hosts_map: "(\<And>v. v \<in> set vs \<Longrightarrow> decode_host (f v) = Some (g v)) \<Longrightarrow> decode_hosts (map f vs) = Some (map g vs)"
  by (induction vs) auto

lemma decode_ordered:
  "decode_section (reload (orderedClusterConfig cfg)) =
     Some \<lparr>sec_Type = gets cfg ''type'', sec_CCVM_IP = gets (submap cfg ''ccvm'') ''ip'',
           sec_Hosts = map (section_host (isHCIClusterType (gets cfg ''type''))) (getHosts cfg)\<rparr>"
proof -
  have hosts: "decode_hosts (map reload (buildOrderedHosts cfg)) = Some (map (section_host (isHCIClusterType (gets cfg ''type''))) (getHosts cfg))"
    by (cases "isHCIClusterType (gets cfg ''type'')") (simp_all add: buildOrderedHosts_def comp_def decode_ordered_host decode_hosts_map)
  obtain fs where fs: "orderedClusterConfig cfg = VRec fs" using orderedClusterConfig_VRec by blast
  let ?m = "fmap_of_list (map (map_prod id reload) fs)"
  have m: "mget ?m ''type'' = VStr (gets cfg ''type'')"
      "mget ?m ''ccvm'' = reload (VRec [(''ip'', VStr (gets (submap cfg ''ccvm'') ''ip''))])"
      "mget ?m ''hosts'' = VArr (map reload (buildOrderedHosts cfg))"
    using fs by (auto simp: orderedClusterConfig_def Let_def opt_field_def mget_fields simp del: list.map map_append reload.simps(8))
  show ?thesis
    by (simp add: decode_section_def fs item_map_def m hosts decode_string_def)
qed

lemma LoadClusterConfigSection_map:
  assumes "as_map (mget root ''clusterConfig'') = Some cfg"
  shows "LoadClusterConfigSection (Doc root) =
     Some \<lparr>sec_Type = gets cfg ''type'', sec_CCVM_IP = gets (submap cfg ''ccvm'') ''ip'',
           sec_Hosts = map (section_host (isHCIClusterType (gets cfg ''type''))) (getHosts cfg)\<rparr>"
  by (simp add: LoadClusterConfigSection_def fmlookup_normalized [OF assms] Let_def decode_ordered)

lemma default_hosts_fst:
  "map fst (default_hosts i hosts) =
     map (\<lambda>h. \<lparr>hr_URL = ''http://'' @ trim_space (Ablecube h), hr_Username = ''root'', hr_Password = [], hr_Hypervisor = ''KVM'', hr_HostTags = ''compute''\<rparr>)
       (filter (\<lambda>h. \<not> blank (Ablecube h)) hosts)"
  by (induction i hosts rule: default_hosts.induct) (simp_all add: Let_def)

abbreviation supported_type :: "string \<Rightarrow> bool" where
  "supported_type typ \<equiv>
     to_lower (trim_space typ) \<in> {''ablestack-hci'', ''ablestack-vm'', ''ablestack-hci-filesystem'', ''ablestack-standalone''}"

lemma defaults_succeed:
  "(\<exists>req'. ApplyClusterBootstrapDefaults req (Some cfg) = Inr req') \<longleftrightarrow> \<not> blank (sec_CCVM_IP cfg) \<and> supported_type (sec_Type cfg)"
  by (simp add: ApplyClusterBootstrapDefaults_def Let_def)

lemma defaults_hosts:
  "ApplyClusterBootstrapDefaults req (Some cfg) = Inr req' \<Longrightarrow> q_Hosts req' = map fst (default_hosts 0 (sec_Hosts cfg))"
  by (auto simp: ApplyClusterBootstrapDefaults_def Let_def split: if_splits)

lemma defaults_storage:
  "ApplyClusterBootstrapDefaults req (Some cfg) = Inr req' \<Longrightarrow>
     (ps_AutoRBDSecret (q_PrimaryStorage req') \<or> \<not> blank (ps_URL (q_PrimaryStorage req'))) \<and> \<not> blank (ss_URL (q_SecondaryStorage req'))"
  by (auto simp: ApplyClusterBootstrapDefaults_def Let_def rbd_storage_def mount_storage_def letter_path split: if_splits)

lemma defaults_inputs:
  "ApplyClusterBootstrapDefaults req (Some cfg) = Inr req' \<Longrightarrow>
     user_inputs req' = user_inputs req \<and> q_SecondaryStagingStore req' = q_SecondaryStagingStore req"
  by (auto simp: ApplyClusterBootstrapDefaults_def Let_def NormalizeBootstrapRequest_def user_inputs_def split: if_splits)

lemma defaults_ready:
  assumes "ApplyClusterBootstrapDefaults req (Some cfg) = Inr req'"
  shows "v_Ready (BuildBootstrapPlan req') \<longleftrightarrow> list_all (\<lambda>v. \<not> blank v) (user_inputs req)
     \<and> list_ex (\<lambda>h. \<not> blank (Ablecube h)) (sec_Hosts cfg)
     \<and> (\<forall>staging. q_SecondaryStagingStore req = Some staging \<longrightarrow> \<not> blank (sg_URL staging))"
proof -
  have "cluster_inputs req' \<longleftrightarrow> list_ex (\<lambda>h. \<not> blank (Ablecube h)) (sec_Hosts cfg)"
    using defaults_storage [OF assms]
    by (auto simp: cluster_inputs_def defaults_hosts [OF assms] default_hosts_fst list_all_iff list_ex_iff letter_path filter_empty_conv)
  then show ?thesis using defaults_inputs [OF assms] by (simp add: plan_ready_iff)
qed

section \<open>Properties\<close>

text \<open>
  What the cluster document settles and what the caller still has to give. The defaults apply
  exactly if the document has a CCVM address and a supported type; the plan built from the result is
  then ready exactly if the zone, pod, public range and cluster inputs are given, the document has a
  host with an address, and a requested staging store has its URL. The hosts to add are those of the
  document with an address, in order.
\<close>

theorem PrepareBootstrapRequest_ready:
  assumes "as_map (mget root ''clusterConfig'') = Some cfg"
  shows "((\<exists>req'. PrepareBootstrapRequest req (Doc root) = Inr req') \<longleftrightarrow>
          \<not> blank (gets (submap cfg ''ccvm'') ''ip'') \<and> supported_type (gets cfg ''type''))
     \<and> (\<forall>req'. PrepareBootstrapRequest req (Doc root) = Inr req' \<longrightarrow>
          (v_Ready (BuildBootstrapPlan req') \<longleftrightarrow> list_all (\<lambda>v. \<not> blank v) (user_inputs req)
             \<and> list_ex (\<lambda>h. \<not> blank (gets h ''ablecube'')) (getHosts cfg)
             \<and> (\<forall>staging. q_SecondaryStagingStore req = Some staging \<longrightarrow> \<not> blank (sg_URL staging)))
          \<and> map hr_URL (q_Hosts req') =
             map (\<lambda>h. ''http://'' @ trim_space (gets h ''ablecube'')) (filter (\<lambda>h. \<not> blank (gets h ''ablecube'')) (getHosts cfg)))"
proof -
  have addr: "Ablecube (section_host hci h) = gets h ''ablecube''" for hci h by (simp add: section_host_def host_param_def)
  show ?thesis
    using defaults_ready [of req] defaults_hosts [of req]
    by (auto simp: PrepareBootstrapRequest_def LoadClusterConfigSection_map [OF assms] defaults_succeed [simplified] default_hosts_fst
        addr list_ex_iff filter_map comp_def)
qed

definition sample_bootstrap :: BootstrapRequest where
  "sample_bootstrap =
     \<lparr>q_Auth = \<lparr>au_Username = [], au_Password = [], au_Domain = [], au_Response = []\<rparr>,
      q_Zone = \<lparr>zn_Name = [], zn_DNS1 = ''8.8.8.8'', zn_DNS2 = [], zn_InternalDNS1 = ''10.0.0.1'', zn_InternalDNS2 = [],
                 zn_NetworkType = ''Advanced'', zn_GuestCIDRAddress = [], zn_Domain = [], zn_LocalStorageEnabled = [], zn_SecurityGroupEnabled = []\<rparr>,
      q_PhysicalNetwork = \<lparr>pn_Name = [], pn_BroadcastDomainRange = [], pn_IsolationMethods = [], pn_NetworkSpeed = [], pn_VLAN = [], pn_Tags = []\<rparr>,
      q_Pod = \<lparr>pod_Name = [], pod_Gateway = ''10.0.0.1'', pod_Netmask = ''255.255.0.0'', pod_StartIP = ''10.0.1.1'', pod_EndIP = ''10.0.1.9''\<rparr>,
      q_PublicIP = \<lparr>ip_Gateway = ''10.0.0.1'', ip_Netmask = ''255.255.0.0'', ip_StartIP = ''10.0.2.1'', ip_EndIP = ''10.0.2.9''\<rparr>,
      q_Cluster = \<lparr>cl_Name = [], cl_ClusterType = ''CloudManaged'', cl_Hypervisor = ''KVM'', cl_Arch = []\<rparr>,
      q_Hosts = [], q_PrimaryStorage = mount_storage [], q_SecondaryStorage = \<lparr>ss_Name = [], ss_Provider = [], ss_URL = []\<rparr>,
      q_SecondaryStagingStore = None\<rparr>"

lemma sample_inputs: "list_all (\<lambda>v. \<not> blank v) (user_inputs sample_bootstrap)" "q_SecondaryStagingStore sample_bootstrap = None"
proof -
  have "list_all (\<lambda>v. \<not> blank v)
      [''8.8.8.8'', ''10.0.0.1'', ''Advanced'', ''10.0.0.1'', ''255.255.0.0'', ''10.0.1.1'', ''10.0.1.9'', ''10.0.0.1'', ''255.255.0.0'',
       ''10.0.2.1'', ''10.0.2.9'', ''CloudManaged'', ''KVM'']" by code_simp
  then show "list_all (\<lambda>v. \<not> blank v) (user_inputs sample_bootstrap)" "q_SecondaryStagingStore sample_bootstrap = None"
    by (simp_all add: user_inputs_def sample_bootstrap_def)
qed

lemma sample_section:
  "as_map (mget (sample_root typ) ''clusterConfig'') = Some (sample_cfg typ)" "getHosts (sample_cfg typ) = [sample_host]"
  "gets sample_host ''ablecube'' = ''10.0.0.1''" "gets (submap (sample_cfg typ) ''ccvm'') ''ip'' = ''10.0.0.10''"
  "gets (sample_cfg typ) ''type'' = typ" "\<not> blank ''10.0.0.1''" "\<not> blank ''10.0.0.10''" "supported_type ''ablestack-hci''"
  "trim_space ''10.0.0.1'' = ''10.0.0.1''"
proof -
  show "\<not> blank ''10.0.0.1''" "\<not> blank ''10.0.0.10''" "supported_type ''ablestack-hci''" "trim_space ''10.0.0.1'' = ''10.0.0.1''" by code_simp+
qed (simp_all add: sample_root_def sample_cfg_def getHosts_def sample_host_def)

theorem PrepareBootstrapRequest_ready_witness:
  "\<exists>req'. PrepareBootstrapRequest sample_bootstrap (Doc (sample_root ''ablestack-hci'')) = Inr req'
     \<and> v_Ready (BuildBootstrapPlan req') \<and> map hr_URL (q_Hosts req') = [''http://10.0.0.1'']"
  using PrepareBootstrapRequest_ready [OF sample_section(1), of sample_bootstrap "''ablestack-hci''"] sample_inputs sample_section by auto

lemma sample_prepared:
  "\<exists>req'. PrepareBootstrapRequest sample_bootstrap (Doc (sample_root ''ablestack-hci'')) = Inr req'
     \<and> v_Ready (BuildBootstrapPlan req') \<and> q_SecondaryStagingStore req' = None"
proof -
  have load: "LoadClusterConfigSection (Doc (sample_root ''ablestack-hci'')) =
      Some \<lparr>sec_Type = ''ablestack-hci'', sec_CCVM_IP = ''10.0.0.10'', sec_Hosts = [section_host (isHCIClusterType ''ablestack-hci'') sample_host]\<rparr>"
    by (simp add: LoadClusterConfigSection_map [OF sample_section(1)] sample_section)
  then obtain req' where req': "PrepareBootstrapRequest sample_bootstrap (Doc (sample_root ''ablestack-hci'')) = Inr req'"
      "ApplyClusterBootstrapDefaults sample_bootstrap
         (Some \<lparr>sec_Type = ''ablestack-hci'', sec_CCVM_IP = ''10.0.0.10'', sec_Hosts = [section_host (isHCIClusterType ''ablestack-hci'') sample_host]\<rparr>) = Inr req'"
    using defaults_succeed sample_section by (fastforce simp: PrepareBootstrapRequest_def)
  have "\<not> blank (Ablecube (section_host hci sample_host))" for hci
    using sample_section(3,6) by (simp add: section_host_def host_param_def)
  then show ?thesis using req' defaults_ready [OF req'(2)] defaults_inputs [OF req'(2)] sample_inputs by auto
qed

end
