(* ===== verification/Bootstrap_Jobs.thy ===== *)
theory Bootstrap_Jobs
  imports Job_Store Bootstrap_Plan
begin

text \<open>
  The bootstrap jobs of \<^verbatim>\<open>internal/handler/mold/bootstrap_job.go\<close>: the start of a job from a
  request, the bounded in-memory store, and the goroutine of every job as a process that interleaves
  with the others. One step is one locked operation of the store; what a bootstrap step returns, the
  clock (in nanoseconds, never running backwards) and the fresh random job ids are choices of the
  environment. The store hands out copies, so jobs are values. The log lines are left out.
\<close>

section \<open>Data\<close>

record ResourceResult =
  res_ID :: string
  res_Name :: string
  res_URL :: string
  res_State :: string
  res_Status :: string
  res_VerifiedBy :: string
  res_Raw :: goval

record BootstrapError =
  err_Step :: string
  err_Method :: string
  err_Endpoint :: string
  err_Command :: string
  err_VerifyCommand :: string
  err_HTTPStatus :: int
  err_HTTPBody :: string
  err_SessionKeyAttached :: bool
  err_Code :: int
  err_ErrorCode :: string
  err_ErrorText :: string
  err_Message :: string
  err_Raw :: goval

record BootstrapStepResult =
  r_Name :: string
  r_Command :: string
  r_VerifyCommand :: string
  r_ResultKey :: string
  r_Status :: string
  r_Created :: bool
  r_Existing :: bool
  r_Verified :: bool
  r_VerifiedBy :: string
  r_Resource :: "ResourceResult option"
  r_Resources :: "ResourceResult list"
  r_RawResponse :: goval
  r_VerifyResponse :: goval
  r_Error :: "BootstrapError option"

record BootstrapJobStep =
  s_Name :: string
  s_Command :: string
  s_VerifyCommand :: string
  s_ResultKey :: string
  s_Status :: string
  s_Message :: string
  s_StartedAt :: "nat option"
  s_FinishedAt :: "nat option"
  s_DurationMS :: nat
  s_Result :: "BootstrapStepResult option"
  s_Error :: "BootstrapError option"

record BootstrapResourceResults =
  g_Zone :: "ResourceResult option"
  g_PhysicalNetwork :: "ResourceResult option"
  g_TrafficTypes :: "ResourceResult list"
  g_NetworkProviders :: "ResourceResult list"
  g_Pod :: "ResourceResult option"
  g_PublicIPRange :: "ResourceResult option"
  g_Cluster :: "ResourceResult option"
  g_Hosts :: "ResourceResult list"
  g_PrimaryStorage :: "ResourceResult option"
  g_SecondaryStorage :: "ResourceResult option"
  g_SecondaryStagingStore :: "ResourceResult option"
  g_SystemVMs :: "ResourceResult list"

record BootstrapJob =
  j_JobID :: string
  j_Status :: string
  j_CurrentStep :: string
  j_Message :: string
  j_CreatedAt :: nat
  j_StartedAt :: "nat option"
  j_FinishedAt :: "nat option"
  j_Steps :: "BootstrapJobStep list"
  j_Resources :: BootstrapResourceResults
  j_Error :: "BootstrapError option"

definition bootstrapJobLimit :: nat where
  "bootstrapJobLimit = 50"

definition no_resources :: BootstrapResourceResults where
  "no_resources =
     \<lparr>g_Zone = None, g_PhysicalNetwork = None, g_TrafficTypes = [], g_NetworkProviders = [], g_Pod = None,
      g_PublicIPRange = None, g_Cluster = None, g_Hosts = [], g_PrimaryStorage = None, g_SecondaryStorage = None,
      g_SecondaryStagingStore = None, g_SystemVMs = []\<rparr>"

section \<open>The store\<close>

record bootstrapJobStore =
  jobs :: "(string, BootstrapJob) fmap"
  order :: "string list"

definition newBootstrapJobStore :: bootstrapJobStore where
  "newBootstrapJobStore = \<lparr>jobs = fmempty, order = []\<rparr>"

function pruneLocked :: "bootstrapJobStore \<Rightarrow> bootstrapJobStore" where
  "pruneLocked s =
     (if length (order s) > bootstrapJobLimit
      then pruneLocked \<lparr>jobs = fmdrop (hd (order s)) (jobs s), order = tl (order s)\<rparr>
      else s)"
  by pat_completeness auto
termination
  by (relation "measure (\<lambda>s. length (order s))") (auto simp: bootstrapJobLimit_def)

declare pruneLocked.simps [simp del]

definition new_step :: "BootstrapPlanStep \<Rightarrow> BootstrapJobStep" where
  "new_step step =
     \<lparr>s_Name = p_Name step, s_Command = p_Command step, s_VerifyCommand = p_VerifyCommand step, s_ResultKey = p_ResultKey step,
      s_Status = ''pending'', s_Message = [], s_StartedAt = None, s_FinishedAt = None, s_DurationMS = 0, s_Result = None,
      s_Error = None\<rparr>"

definition new_job :: "string \<Rightarrow> nat \<Rightarrow> BootstrapPlanValue \<Rightarrow> BootstrapJob" where
  "new_job jobID now plan =
     \<lparr>j_JobID = jobID, j_Status = ''queued'', j_CurrentStep = [], j_Message = ''queued'', j_CreatedAt = now, j_StartedAt = None,
      j_FinishedAt = None, j_Steps = map new_step (v_Steps plan), j_Resources = no_resources, j_Error = None\<rparr>"

definition create :: "string \<Rightarrow> nat \<Rightarrow> BootstrapPlanValue \<Rightarrow> bootstrapJobStore \<Rightarrow> BootstrapJob \<times> bootstrapJobStore" where
  "create jobID now plan s =
     (let job = new_job jobID now plan
      in (job, pruneLocked \<lparr>jobs = fmupd jobID job (jobs s), order = order s @ [jobID]\<rparr>))"

definition get :: "string \<Rightarrow> bootstrapJobStore \<Rightarrow> BootstrapJob option" where
  "get jobID s = fmlookup (jobs s) jobID"

definition list_jobs :: "bootstrapJobStore \<Rightarrow> BootstrapJob list" where
  "list_jobs s = List.map_filter (\<lambda>jobID. fmlookup (jobs s) jobID) (rev (order s))"

definition update :: "string \<Rightarrow> (BootstrapJob \<Rightarrow> BootstrapJob) \<Rightarrow> bootstrapJobStore \<Rightarrow> bootstrapJobStore" where
  "update jobID f s =
     (case fmlookup (jobs s) jobID of None \<Rightarrow> s | Some job \<Rightarrow> s\<lparr>jobs := fmupd jobID (f job) (jobs s)\<rparr>)"

section \<open>Starting a job\<close>

definition serviceError :: "plan_error \<Rightarrow> nat" where
  "serviceError err = (if err = ErrMissingCCVMIP then 400 else 500)"

text \<open>
  The handler: the status code and the store. The body is absent if it does not decode, the job id is
  the fresh one.
\<close>

definition StartBootstrap ::
  "BootstrapRequest option \<Rightarrow> doc_state \<Rightarrow> string \<Rightarrow> nat \<Rightarrow> bootstrapJobStore \<Rightarrow> nat \<times> bootstrapJobStore" where
  "StartBootstrap body d jobID now s =
     (case body of
        None \<Rightarrow> (400, s)
      | Some request \<Rightarrow>
          (case PrepareBootstrapRequest request d of
             Inl err \<Rightarrow> (serviceError err, s)
           | Inr req \<Rightarrow>
               (let plan = BuildBootstrapPlan req
                in if \<not> v_Ready plan then (400, s) else (202, snd (create jobID now plan s)))))"

section \<open>Edits of a job\<close>

definition resultMessage :: "BootstrapStepResult \<Rightarrow> string" where
  "resultMessage result =
     (case r_Error result of Some e \<Rightarrow> err_Message e | None \<Rightarrow> if r_Verified result then ''verified'' else ''ok'')"

text \<open>The loops over the steps change the first one with the name.\<close>

fun edit_step :: "string \<Rightarrow> (BootstrapJobStep \<Rightarrow> BootstrapJobStep) \<Rightarrow> BootstrapJobStep list \<Rightarrow> BootstrapJobStep list" where
  "edit_step name f [] = []"
| "edit_step name f (s # ss) = (if s_Name s \<noteq> name then s # edit_step name f ss else f s # ss)"

definition step_running :: "nat \<Rightarrow> BootstrapJobStep \<Rightarrow> BootstrapJobStep" where
  "step_running now s = s\<lparr>s_Status := ''running'', s_Message := ''running'', s_StartedAt := Some now\<rparr>"

definition step_finished :: "nat \<Rightarrow> BootstrapStepResult \<Rightarrow> BootstrapJobStep \<Rightarrow> BootstrapJobStep" where
  "step_finished now result s =
     (let started = (case s_StartedAt s of None \<Rightarrow> now | Some t \<Rightarrow> t)
      in s\<lparr>s_StartedAt := Some started, s_Status := r_Status result, s_Message := resultMessage result, s_FinishedAt := Some now,
           s_DurationMS := (now - started) div 1000000, s_Result := Some result, s_Error := r_Error result\<rparr>)"

definition markBootstrapStepRunning :: "nat \<Rightarrow> string \<Rightarrow> BootstrapJob \<Rightarrow> BootstrapJob" where
  "markBootstrapStepRunning now name job = job\<lparr>j_Steps := edit_step name (step_running now) (j_Steps job)\<rparr>"

definition markBootstrapStepFinished :: "nat \<Rightarrow> string \<Rightarrow> BootstrapStepResult \<Rightarrow> BootstrapJob \<Rightarrow> BootstrapJob" where
  "markBootstrapStepFinished now name result job = job\<lparr>j_Steps := edit_step name (step_finished now result) (j_Steps job)\<rparr>"

definition merge_many :: "string \<Rightarrow> ResourceResult list \<Rightarrow> BootstrapResourceResults \<Rightarrow> BootstrapResourceResults" where
  "merge_many key rs g =
     (if key = ''traffic_types'' then g\<lparr>g_TrafficTypes := g_TrafficTypes g @ rs\<rparr>
      else if key = ''network_providers'' then g\<lparr>g_NetworkProviders := g_NetworkProviders g @ rs\<rparr>
      else if key = ''hosts'' then g\<lparr>g_Hosts := g_Hosts g @ rs\<rparr>
      else if key = ''system_vms'' then g\<lparr>g_SystemVMs := g_SystemVMs g @ rs\<rparr>
      else g)"

definition merge_one :: "string \<Rightarrow> ResourceResult \<Rightarrow> BootstrapResourceResults \<Rightarrow> BootstrapResourceResults" where
  "merge_one key r g =
     (if key = ''zone'' then g\<lparr>g_Zone := Some r\<rparr>
      else if key = ''physical_network'' then g\<lparr>g_PhysicalNetwork := Some r\<rparr>
      else if key = ''public_ip_range'' then g\<lparr>g_PublicIPRange := Some r\<rparr>
      else if key = ''pod'' then g\<lparr>g_Pod := Some r\<rparr>
      else if key = ''cluster'' then g\<lparr>g_Cluster := Some r\<rparr>
      else if key = ''hosts'' then g\<lparr>g_Hosts := g_Hosts g @ [r]\<rparr>
      else if key = ''primary_storage'' then g\<lparr>g_PrimaryStorage := Some r\<rparr>
      else if key = ''secondary_storage'' then g\<lparr>g_SecondaryStorage := Some r\<rparr>
      else if key = ''secondary_staging_store'' then g\<lparr>g_SecondaryStagingStore := Some r\<rparr>
      else if key = ''system_vms'' then g\<lparr>g_SystemVMs := g_SystemVMs g @ [r]\<rparr>
      else g)"

definition mergeBootstrapResource :: "BootstrapStepResult \<Rightarrow> BootstrapJob \<Rightarrow> BootstrapJob" where
  "mergeBootstrapResource result job =
     (let g1 = (if r_Resources result \<noteq> [] then merge_many (r_ResultKey result) (r_Resources result) (j_Resources job)
                else j_Resources job)
      in job\<lparr>j_Resources := (case r_Resource result of None \<Rightarrow> g1 | Some r \<Rightarrow> merge_one (r_ResultKey result) r g1)\<rparr>)"

definition job_started :: "nat \<Rightarrow> BootstrapJob \<Rightarrow> BootstrapJob" where
  "job_started now job = job\<lparr>j_Status := ''running'', j_Message := ''mold bootstrap job started'', j_StartedAt := Some now\<rparr>"

definition job_step :: "nat \<Rightarrow> string \<Rightarrow> BootstrapJob \<Rightarrow> BootstrapJob" where
  "job_step now name job = markBootstrapStepRunning now name (job\<lparr>j_CurrentStep := name\<rparr>)"

definition job_step_done :: "nat \<Rightarrow> string \<Rightarrow> BootstrapStepResult \<Rightarrow> BootstrapJob \<Rightarrow> BootstrapJob" where
  "job_step_done now name result job = mergeBootstrapResource result (markBootstrapStepFinished now name result job)"

definition job_failed :: "nat \<Rightarrow> nat \<Rightarrow> string \<Rightarrow> BootstrapStepResult \<Rightarrow> BootstrapError \<Rightarrow> BootstrapJob \<Rightarrow> BootstrapJob" where
  "job_failed now later name result e job =
     (markBootstrapStepFinished now name result job)
       \<lparr>j_Status := ''failed'', j_Message := ''mold bootstrap job failed'' @ '': '' @ err_Message e, j_CurrentStep := [],
        j_Error := Some e, j_FinishedAt := Some later\<rparr>"

definition job_succeeded :: "nat \<Rightarrow> BootstrapJob \<Rightarrow> BootstrapJob" where
  "job_succeeded now job =
     job\<lparr>j_Status := ''succeeded'', j_Message := ''mold bootstrap job succeeded'', j_CurrentStep := [], j_FinishedAt := Some now\<rparr>"

section \<open>Processes\<close>

text \<open>Where the goroutine of a job is: the names of the steps still to run.\<close>

datatype process = Queued | Fetching | Looping "string list" | Executing string "string list" | Finished

record mold =
  m_store :: bootstrapJobStore
  m_procs :: "(string, process) fmap"

inductive mold_step :: "mold \<Rightarrow> mold \<Rightarrow> bool" where
  start: "jobID \<notin> fset (fmdom (m_procs m)) \<Longrightarrow> StartBootstrap body d jobID now (m_store m) = (202, s) \<Longrightarrow>
    mold_step m \<lparr>m_store = s, m_procs = fmupd jobID Queued (m_procs m)\<rparr>"
| run: "fmlookup (m_procs m) jobID = Some Queued \<Longrightarrow>
    mold_step m \<lparr>m_store = update jobID (job_started now) (m_store m), m_procs = fmupd jobID Fetching (m_procs m)\<rparr>"
| fetch: "fmlookup (m_procs m) jobID = Some Fetching \<Longrightarrow> get jobID (m_store m) = Some job \<Longrightarrow>
    mold_step m (m\<lparr>m_procs := fmupd jobID (Looping (map s_Name (j_Steps job))) (m_procs m)\<rparr>)"
| fetch_gone: "fmlookup (m_procs m) jobID = Some Fetching \<Longrightarrow> get jobID (m_store m) = None \<Longrightarrow>
    mold_step m (m\<lparr>m_procs := fmupd jobID Finished (m_procs m)\<rparr>)"
| next_step: "fmlookup (m_procs m) jobID = Some (Looping (name # names)) \<Longrightarrow>
    mold_step m \<lparr>m_store = update jobID (job_step now name) (m_store m), m_procs = fmupd jobID (Executing name names) (m_procs m)\<rparr>"
| step_ok: "fmlookup (m_procs m) jobID = Some (Executing name names) \<Longrightarrow> r_Error result = None \<Longrightarrow>
    mold_step m \<lparr>m_store = update jobID (job_step_done now name result) (m_store m), m_procs = fmupd jobID (Looping names) (m_procs m)\<rparr>"
| step_failed: "fmlookup (m_procs m) jobID = Some (Executing name names) \<Longrightarrow> r_Error result = Some e \<Longrightarrow>
    mold_step m \<lparr>m_store = update jobID (job_failed now later name result e) (m_store m), m_procs = fmupd jobID Finished (m_procs m)\<rparr>"
| finish: "fmlookup (m_procs m) jobID = Some (Looping []) \<Longrightarrow>
    mold_step m \<lparr>m_store = update jobID (job_succeeded now) (m_store m), m_procs = fmupd jobID Finished (m_procs m)\<rparr>"

inductive mold_reachable :: "mold \<Rightarrow> bool" where
  mold_init: "mold_reachable \<lparr>m_store = newBootstrapJobStore, m_procs = fmempty\<rparr>"
| mold_next: "mold_reachable m \<Longrightarrow> mold_step m m' \<Longrightarrow> mold_reachable m'"


section \<open>The store is bounded\<close>

definition store_inv :: "bootstrapJobStore \<Rightarrow> bool" where
  "store_inv s \<longleftrightarrow> tracked bootstrapJobLimit (order s) (jobs s)"

lemma lookup_update:
  "fmlookup (jobs (update jobID f s)) k = (if k = jobID then map_option f (fmlookup (jobs s) jobID) else fmlookup (jobs s) k)"
  by (auto simp: update_def split: option.splits)

interpretation mold_jobs: job_store jobs order bootstrapJobLimit "\<lambda>s. \<lparr>jobs = fmdrop (hd (order s)) (jobs s), order = tl (order s)\<rparr>"
    pruneLocked "\<lambda>k job s. \<lparr>jobs = fmupd k job (jobs s), order = order s @ [k]\<rparr>" update
proof
  show "pruneLocked s =
      (if length (order s) > bootstrapJobLimit then pruneLocked \<lparr>jobs = fmdrop (hd (order s)) (jobs s), order = tl (order s)\<rparr> else s)" for s
    by (rule pruneLocked.simps)
  show "order (update k f s) = order s" for k f s by (simp add: update_def split: option.split)
qed (simp_all add: lookup_update bootstrapJobLimit_def)

lemma create_push:
  "snd (create jobID now plan s) = pruneLocked \<lparr>jobs = fmupd jobID (new_job jobID now plan) (jobs s), order = order s @ [jobID]\<rparr>"
  by (simp add: create_def Let_def)

lemma store_inv_create: "store_inv s \<Longrightarrow> jobID \<notin> fset (fmdom (jobs s)) \<Longrightarrow> store_inv (snd (create jobID now plan s))"
  unfolding store_inv_def create_push by (rule mold_jobs.tracked_add)

lemma store_inv_update: "store_inv s \<Longrightarrow> store_inv (update jobID f s)"
  unfolding store_inv_def by (rule mold_jobs.tracked_amend)

lemma lookup_create:
  "store_inv s \<Longrightarrow> jobID \<notin> fset (fmdom (jobs s)) \<Longrightarrow> fmlookup (jobs (snd (create jobID now plan s))) k = Some job \<Longrightarrow>
     if k = jobID then job = new_job jobID now plan else fmlookup (jobs s) k = Some job"
  unfolding store_inv_def create_push by (rule mold_jobs.lookup_add)

section \<open>What a process knows of its job\<close>

definition step_pending :: "BootstrapJobStep \<Rightarrow> bool" where
  "step_pending s \<longleftrightarrow> s_Status s = ''pending'' \<and> s_FinishedAt s = None \<and> s_Error s = None"

definition step_ok_done :: "BootstrapJobStep \<Rightarrow> bool" where
  "step_ok_done s \<longleftrightarrow> s_FinishedAt s \<noteq> None \<and> s_Result s \<noteq> None \<and> s_Error s = None"

text \<open>Finished steps, the step in hand, and pending steps.\<close>

definition split_at_step :: "BootstrapJobStep list \<Rightarrow> (BootstrapJobStep \<Rightarrow> bool) \<Rightarrow> string list \<Rightarrow> bool" where
  "split_at_step steps P names \<longleftrightarrow>
     (\<exists>before s after. steps = before @ s # after \<and> list_all step_ok_done before \<and> P s \<and> list_all step_pending after
        \<and> map s_Name after = names)"

definition failed_job :: "BootstrapJob \<Rightarrow> bool" where
  "failed_job job \<longleftrightarrow>
     j_Status job = ''failed'' \<and> j_FinishedAt job \<noteq> None \<and> j_Error job \<noteq> None
     \<and> (\<exists>names. split_at_step (j_Steps job) (\<lambda>s. s_FinishedAt s \<noteq> None \<and> s_Error s = j_Error job) names)"

definition succeeded_job :: "BootstrapJob \<Rightarrow> bool" where
  "succeeded_job job \<longleftrightarrow>
     j_Status job = ''succeeded'' \<and> j_FinishedAt job \<noteq> None \<and> list_all step_ok_done (j_Steps job)"

fun job_ok :: "process \<Rightarrow> BootstrapJob \<Rightarrow> bool" where
  "job_ok Queued job \<longleftrightarrow> j_Status job = ''queued'' \<and> list_all step_pending (j_Steps job)"
| "job_ok Fetching job \<longleftrightarrow> j_Status job = ''running'' \<and> list_all step_pending (j_Steps job)"
| "job_ok (Looping names) job \<longleftrightarrow> j_Status job = ''running''
     \<and> (\<exists>before after. j_Steps job = before @ after \<and> list_all step_ok_done before \<and> list_all step_pending after
          \<and> map s_Name after = names)"
| "job_ok (Executing name names) job \<longleftrightarrow> j_Status job = ''running'' \<and> j_CurrentStep job = name
     \<and> split_at_step (j_Steps job) (\<lambda>s. s_Name s = name \<and> s_Status s = ''running'') names"
| "job_ok Finished job \<longleftrightarrow> succeeded_job job \<or> failed_job job"

definition named_once :: "BootstrapJob \<Rightarrow> bool" where
  "named_once job \<longleftrightarrow> distinct (map s_Name (j_Steps job))"

lemma edit_step_at:
  "s_Name s = name \<Longrightarrow> name \<notin> set (map s_Name before) \<Longrightarrow> edit_step name f (before @ s # after) = before @ f s # after"
  by (induction before) auto

lemma edit_step_names: "(\<And>s. s_Name (f s) = s_Name s) \<Longrightarrow> map s_Name (edit_step name f ss) = map s_Name ss"
  by (induction ss) auto

lemma step_names [simp]: "s_Name (step_running now s) = s_Name s" "s_Name (step_finished now result s) = s_Name s"
  by (simp_all add: step_running_def step_finished_def Let_def)

lemma named_once_edits:
  "named_once (job_started now job) = named_once job" "named_once (job_step now name job) = named_once job"
  "named_once (job_step_done now name result job) = named_once job" "named_once (job_failed now later name result e job) = named_once job"
  "named_once (job_succeeded now job) = named_once job"
  by (simp_all add: named_once_def job_started_def job_step_def job_step_done_def job_failed_def job_succeeded_def Let_def
      markBootstrapStepRunning_def markBootstrapStepFinished_def mergeBootstrapResource_def edit_step_names)

lemma ok_next_step:
  assumes "job_ok (Looping (name # names)) job" and "named_once job"
  shows "job_ok (Executing name names) (job_step now name job)"
proof -
  obtain before s after where st: "j_Steps job = before @ s # after" "list_all step_ok_done before" "list_all step_pending after"
      "s_Name s = name" "map s_Name after = names"
    using assms(1) by (auto simp: map_eq_Cons_conv)
  then have "edit_step name (step_running now) (j_Steps job) = before @ step_running now s # after"
    using assms(2) by (auto simp: named_once_def intro!: edit_step_at)
  moreover have "s_Status (step_running now s) = ''running''" by (simp add: step_running_def)
  ultimately show ?thesis
    using assms(1) st by (auto simp: job_step_def markBootstrapStepRunning_def split_at_step_def) (metis step_names(1))
qed

lemma executing_step:
  assumes "job_ok (Executing name names) job" and "named_once job"
  shows "\<exists>before s after. edit_step name (step_finished now result) (j_Steps job) = before @ step_finished now result s # after
     \<and> list_all step_ok_done before \<and> list_all step_pending after \<and> map s_Name after = names"
proof -
  obtain before s after where st: "j_Steps job = before @ s # after" "list_all step_ok_done before" "list_all step_pending after"
      "s_Name s = name" "map s_Name after = names"
    using assms(1) by (auto simp: split_at_step_def)
  then have "edit_step name (step_finished now result) (j_Steps job) = before @ step_finished now result s # after"
    using assms(2) by (auto simp: named_once_def intro!: edit_step_at)
  with st show ?thesis by blast
qed

lemma ok_step_done:
  assumes "job_ok (Executing name names) job" and "named_once job" and "r_Error result = None"
  shows "job_ok (Looping names) (job_step_done now name result job)"
proof -
  obtain before s after where st: "edit_step name (step_finished now result) (j_Steps job) = before @ step_finished now result s # after"
      "list_all step_ok_done before" "list_all step_pending after" "map s_Name after = names"
    using executing_step [OF assms(1,2)] by blast
  moreover have "step_ok_done (step_finished now result s)"
    using assms(3) by (simp add: step_ok_done_def step_finished_def Let_def)
  moreover have "j_Steps (job_step_done now name result job) = (before @ [step_finished now result s]) @ after"
      "j_Status (job_step_done now name result job) = j_Status job"
    using st(1) by (simp_all add: job_step_done_def mergeBootstrapResource_def markBootstrapStepFinished_def Let_def)
  moreover have "j_Status job = ''running''" using assms(1) by simp
  ultimately show ?thesis
    unfolding job_ok.simps by (intro conjI exI [of _ "before @ [step_finished now result s]"] exI [of _ after]) simp_all
qed

lemma ok_failed:
  assumes "job_ok (Executing name names) job" and "named_once job" and "r_Error result = Some e"
  shows "failed_job (job_failed now later name result e job)"
proof -
  obtain before s after where st: "edit_step name (step_finished now result) (j_Steps job) = before @ step_finished now result s # after"
      "list_all step_ok_done before" "list_all step_pending after"
    using executing_step [OF assms(1,2)] by blast
  moreover have "s_FinishedAt (step_finished now result s) \<noteq> None \<and> s_Error (step_finished now result s) = Some e"
    using assms(3) by (simp add: step_finished_def Let_def)
  ultimately show ?thesis
    by (auto simp: failed_job_def split_at_step_def job_failed_def markBootstrapStepFinished_def)
qed

lemma new_step_fields [simp]: "s_Name (new_step x) = p_Name x" "step_pending (new_step x)"
  by (simp_all add: new_step_def step_pending_def)

lemma ok_new:
  assumes "distinct (map p_Name (v_Steps plan))"
  shows "job_ok Queued (new_job jobID now plan)" and "named_once (new_job jobID now plan)"
proof -
  have "map s_Name (map new_step (v_Steps plan)) = map p_Name (v_Steps plan)" by simp
  with assms show "job_ok Queued (new_job jobID now plan)" "named_once (new_job jobID now plan)"
    by (simp_all add: new_job_def named_once_def list_all_iff del: map_map)
qed

section \<open>The invariant\<close>

definition mold_inv :: "mold \<Rightarrow> bool" where
  "mold_inv m \<longleftrightarrow>
     store_inv (m_store m)
     \<and> (\<forall>jobID job. fmlookup (jobs (m_store m)) jobID = Some job \<longrightarrow>
          named_once job \<and> (\<exists>p. fmlookup (m_procs m) jobID = Some p \<and> job_ok p job))"

lemma mold_invD:
  assumes "mold_inv m" and "fmlookup (jobs (m_store m)) jobID = Some job"
  shows "named_once job" and "\<exists>p. fmlookup (m_procs m) jobID = Some p \<and> job_ok p job"
  using assms unfolding mold_inv_def by blast+

lemma mold_inv_ok:
  "mold_inv m \<Longrightarrow> fmlookup (jobs (m_store m)) jobID = Some job \<Longrightarrow> fmlookup (m_procs m) jobID = Some p \<Longrightarrow> job_ok p job"
  using mold_invD(2) [of m jobID job] by auto

text \<open>A process that edits its own job and moves on keeps the invariant if the edit does.\<close>

lemma mold_inv_edit:
  assumes "mold_inv m" and "fmlookup (m_procs m) jobID = Some p"
    and "\<And>job. job_ok p job \<Longrightarrow> named_once job \<Longrightarrow> job_ok p' (f job) \<and> named_once (f job)"
  shows "mold_inv \<lparr>m_store = update jobID f (m_store m), m_procs = fmupd jobID p' (m_procs m)\<rparr>"
proof -
  have "named_once job \<and> (\<exists>q. fmlookup (fmupd jobID p' (m_procs m)) k = Some q \<and> job_ok q job)"
    if k: "fmlookup (jobs (update jobID f (m_store m))) k = Some job" for k job
  proof (cases "k = jobID")
    case True
    with k obtain old where old: "fmlookup (jobs (m_store m)) jobID = Some old" "job = f old" by (auto simp: lookup_update)
    with assms(1,2) have "job_ok p old" "named_once old" by (simp_all add: mold_inv_ok mold_invD(1))
    with assms(3) [of old] old(2) True show ?thesis by simp
  next
    case False
    with k mold_invD [OF assms(1), of k job] show ?thesis by (simp add: lookup_update)
  qed
  with assms(1) show ?thesis by (auto simp: mold_inv_def store_inv_update)
qed

lemma mold_inv_create:
  assumes "mold_inv m" and "jobID \<notin> fset (fmdom (m_procs m))" and "distinct (map p_Name (v_Steps plan))"
  shows "mold_inv \<lparr>m_store = snd (create jobID now plan (m_store m)), m_procs = fmupd jobID Queued (m_procs m)\<rparr>"
proof -
  have inv: "store_inv (m_store m)" using assms(1) by (simp add: mold_inv_def)
  have fresh: "jobID \<notin> fset (fmdom (jobs (m_store m)))"
    using mold_invD(2) [OF assms(1)] assms(2) by (fastforce simp: fmlookup_dom_iff)
  have "named_once job \<and> (\<exists>q. fmlookup (fmupd jobID Queued (m_procs m)) k = Some q \<and> job_ok q job)"
    if k: "fmlookup (jobs (snd (create jobID now plan (m_store m)))) k = Some job" for k job
    using lookup_create [OF inv fresh k] ok_new [OF assms(3), of jobID now] mold_invD [OF assms(1), of k job]
    by (cases "k = jobID") simp_all
  with store_inv_create [OF inv fresh] show ?thesis by (auto simp: mold_inv_def)
qed

lemma mold_inv_procs:
  assumes "mold_inv m" and "\<And>job. fmlookup (jobs (m_store m)) jobID = Some job \<Longrightarrow> job_ok p' job"
  shows "mold_inv (m\<lparr>m_procs := fmupd jobID p' (m_procs m)\<rparr>)"
proof -
  have "named_once job \<and> (\<exists>q. fmlookup (fmupd jobID p' (m_procs m)) k = Some q \<and> job_ok q job)"
    if "fmlookup (jobs (m_store m)) k = Some job" for k job
    using mold_invD [OF assms(1) that] assms(2) that by (cases "k = jobID") simp_all
  with assms(1) show ?thesis by (simp add: mold_inv_def)
qed

lemma StartBootstrap_accepted:
  assumes "StartBootstrap body d jobID now s = (202, s')"
  shows "\<exists>plan. distinct (map p_Name (v_Steps plan)) \<and> s' = snd (create jobID now plan s)"
proof -
  obtain req where "s' = snd (create jobID now (BuildBootstrapPlan req) s)"
    using assms by (auto simp: StartBootstrap_def serviceError_def Let_def split: option.splits sum.splits if_splits)
  then show ?thesis using names_plan [of req] distinct_plan_names by metis
qed

lemma mold_inv_step: "mold_step m m' \<Longrightarrow> mold_inv m \<Longrightarrow> mold_inv m'"
proof (induction rule: mold_step.induct)
  case (start jobID m body d now s)
  then show ?case using StartBootstrap_accepted [OF start(2)] mold_inv_create by blast
next
  case (run m jobID now)
  show ?case
    by (rule mold_inv_edit [OF run(2,1)]) (simp add: named_once_edits, simp add: job_started_def)
next
  case (fetch m jobID job)
  then have "job_ok Fetching job" by (intro mold_inv_ok) (simp_all add: get_def)
  then have "j_Status job = ''running''" "j_Steps job = [] @ j_Steps job" "list_all step_ok_done []"
      "list_all step_pending (j_Steps job)" by simp_all
  then have "job_ok (Looping (map s_Name (j_Steps job))) job" unfolding job_ok.simps by blast
  with fetch(2) mold_inv_procs [OF fetch(3), of jobID "Looping (map s_Name (j_Steps job))"] show ?case by (simp add: get_def)
next
  case (fetch_gone m jobID)
  with mold_inv_procs [OF fetch_gone(3), of jobID Finished] show ?case by (simp add: get_def)
next
  case (next_step m jobID name names now)
  show ?case by (rule mold_inv_edit [OF next_step(2,1)]) (simp only: named_once_edits ok_next_step simp_thms)
next
  case (step_ok m jobID name names result now)
  show ?case by (rule mold_inv_edit [OF step_ok(3,1)]) (simp only: named_once_edits ok_step_done [OF _ _ step_ok(2)] simp_thms)
next
  case (step_failed m jobID name names result e now later)
  show ?case
    by (rule mold_inv_edit [OF step_failed(3,1)])
      (simp only: named_once_edits job_ok.simps(5) ok_failed [OF _ _ step_failed(2)] simp_thms)
next
  case (finish m jobID now)
  show ?case
    by (rule mold_inv_edit [OF finish(2,1)])
      (simp add: named_once_edits, auto simp: job_succeeded_def succeeded_job_def)
qed

lemma mold_inv_reachable: "mold_reachable m \<Longrightarrow> mold_inv m"
proof (induction rule: mold_reachable.induct)
  case mold_init
  then show ?case by (simp add: mold_inv_def store_inv_def newBootstrapJobStore_def)
qed (rule mold_inv_step)


section \<open>Properties\<close>

text \<open>
  The reported status of a job is true in every reachable state: a succeeded job has finished
  every step without an error; a failed job has exactly one failed step, whose error it reports,
  everything before it finished and everything after it untouched.
\<close>

theorem job_status_truthful:
  assumes "mold_reachable m" and "get jobID (m_store m) = Some job"
  shows "(j_Status job = ''succeeded'' \<longrightarrow> j_FinishedAt job \<noteq> None \<and> list_all step_ok_done (j_Steps job))
     \<and> (j_Status job = ''failed'' \<longrightarrow> j_FinishedAt job \<noteq> None
          \<and> (\<exists>before s after e. j_Steps job = before @ s # after \<and> list_all step_ok_done before \<and> s_Error s = Some e
               \<and> j_Error job = Some e \<and> list_all step_pending after))"
proof -
  have job: "fmlookup (jobs (m_store m)) jobID = Some job" using assms(2) by (simp add: get_def)
  obtain p where "job_ok p job" using mold_invD(2) [OF mold_inv_reachable [OF assms(1)] job] by blast
  then consider "j_Status job \<notin> {''succeeded'', ''failed''}" | "succeeded_job job" | "failed_job job"
    by (cases p) auto
  then show ?thesis
  proof cases
    case 3
    then obtain e where e: "j_Error job = Some e" by (auto simp: failed_job_def)
    with 3 obtain before s after where "j_Steps job = before @ s # after" "list_all step_ok_done before" "s_Error s = Some e"
        "list_all step_pending after" by (auto simp: failed_job_def split_at_step_def)
    with e 3 show ?thesis by (simp add: failed_job_def) blast
  qed (auto simp: succeeded_job_def)
qed

text \<open>
  Steps run one at a time and in order: while a job is running, its steps are finished ones,
  then at most one running step, which is the current step of the job, then pending ones.
\<close>

theorem job_steps_in_order:
  assumes "mold_reachable m" and "get jobID (m_store m) = Some job" and "j_Status job = ''running''"
  shows "\<exists>before active after. j_Steps job = before @ active @ after \<and> list_all step_ok_done before \<and> list_all step_pending after
     \<and> (active = [] \<or> (\<exists>s. active = [s] \<and> s_Status s = ''running'' \<and> s_Name s = j_CurrentStep job))"
proof -
  have job: "fmlookup (jobs (m_store m)) jobID = Some job" using assms(2) by (simp add: get_def)
  obtain p where p: "job_ok p job" using mold_invD(2) [OF mold_inv_reachable [OF assms(1)] job] by blast
  show ?thesis
  proof (cases p)
    case (Executing name names)
    with p obtain before s after where "j_Steps job = before @ [s] @ after" "list_all step_ok_done before" "list_all step_pending after"
        "s_Status s = ''running''" "s_Name s = j_CurrentStep job" by (auto simp: split_at_step_def)
    then show ?thesis by blast
  next
    case (Looping names)
    with p obtain before after where "j_Steps job = before @ [] @ after" "list_all step_ok_done before" "list_all step_pending after"
      by auto
    then show ?thesis by blast
  next
    case Fetching
    with p have "j_Steps job = [] @ [] @ j_Steps job" "list_all step_ok_done []" "list_all step_pending (j_Steps job)" by simp_all
    then show ?thesis by blast
  qed (use p assms(3) in \<open>auto simp: succeeded_job_def failed_job_def\<close>)
qed

text \<open>
  The store never holds more than fifty jobs, its listing shows each stored job once, newest
  first, and a new job is always in it.
\<close>

theorem store_bounded:
  assumes "mold_reachable m"
  shows "length (order (m_store m)) \<le> 50 \<and> length (list_jobs (m_store m)) = length (order (m_store m))
     \<and> (\<forall>jobID. jobID \<notin> fset (fmdom (m_procs m)) \<longrightarrow>
          get jobID (snd (create jobID now plan (m_store m))) = Some (new_job jobID now plan)
          \<and> hd (list_jobs (snd (create jobID now plan (m_store m)))) = new_job jobID now plan)"
proof -
  note inv = mold_inv_reachable [OF assms]
  have st: "tracked bootstrapJobLimit (order (m_store m)) (jobs (m_store m))" using inv by (simp add: mold_inv_def store_inv_def)
  have "length (list_jobs (m_store m)) = length (order (m_store m))"
    using length_found [of "rev (order (m_store m))" "jobs (m_store m)"] trackedD(4) [OF st] by (simp add: list_jobs_def)
  moreover have "get k (snd (create k now plan (m_store m))) = Some (new_job k now plan)
      \<and> hd (list_jobs (snd (create k now plan (m_store m)))) = new_job k now plan"
    if fresh: "k \<notin> fset (fmdom (m_procs m))" for k
  proof -
    have "k \<notin> fset (fmdom (jobs (m_store m)))" using fresh mold_invD(2) [OF inv] by (fastforce simp: fmlookup_dom_iff)
    note new = mold_jobs.added [OF st this, of "new_job k now plan"]
    obtain older where "order (snd (create k now plan (m_store m))) = older @ [k]" using new(2) unfolding create_push by blast
    with new(1) show ?thesis by (simp add: create_push get_def list_jobs_def List.map_filter_simps)
  qed
  ultimately show ?thesis using trackedD(3) [OF st] by (simp add: bootstrapJobLimit_def)
qed

text \<open>A run of one job up to the execution of its first step, used by the witnesses.\<close>

definition sample_error :: BootstrapError where
  "sample_error =
     \<lparr>err_Step = ''wait_mold_api_ready'', err_Method = ''GET'', err_Endpoint = [], err_Command = ''listCapabilities'', err_VerifyCommand = [],
      err_HTTPStatus = 0, err_HTTPBody = [], err_SessionKeyAttached = False, err_Code = 0, err_ErrorCode = [], err_ErrorText = [],
      err_Message = ''mold api request failed'', err_Raw = VNil\<rparr>"

definition sample_failure :: BootstrapStepResult where
  "sample_failure =
     \<lparr>r_Name = ''wait_mold_api_ready'', r_Command = ''listCapabilities'', r_VerifyCommand = ''listCapabilities'', r_ResultKey = ''api_ready'',
      r_Status = ''failed'', r_Created = False, r_Existing = False, r_Verified = False, r_VerifiedBy = [], r_Resource = None,
      r_Resources = [], r_RawResponse = VNil, r_VerifyResponse = VNil, r_Error = Some sample_error\<rparr>"

definition one_job :: "BootstrapJob \<Rightarrow> process \<Rightarrow> mold" where
  "one_job job p = \<lparr>m_store = \<lparr>jobs = fmupd ''j'' job fmempty, order = [''j'']\<rparr>, m_procs = fmupd ''j'' p fmempty\<rparr>"

lemma fmupd_again [simp]: "fmupd k v (fmupd k u m) = fmupd k v m"
  by (rule fmap_ext) auto

lemma one_job_fields [simp]:
  "get ''j'' (m_store (one_job job p)) = Some job" "fmlookup (m_procs (one_job job p)) ''j'' = Some p"
  "\<lparr>m_store = update ''j'' f (m_store (one_job job p)), m_procs = fmupd ''j'' q (m_procs (one_job job p))\<rparr> = one_job (f job) q"
  "(one_job job p)\<lparr>m_procs := fmupd ''j'' q (m_procs (one_job job p))\<rparr> = one_job job q"
  by (simp_all add: one_job_def get_def update_def)

lemma sample_start:
  "\<exists>plan rest. mold_reachable (one_job (new_job ''j'' 0 plan) Queued) \<and> map p_Name (v_Steps plan) = ''wait_mold_api_ready'' # rest"
proof -
  obtain req where req: "PrepareBootstrapRequest sample_bootstrap (Doc (sample_root ''ablestack-hci'')) = Inr req"
      "v_Ready (BuildBootstrapPlan req)" using sample_prepared by blast
  let ?plan = "BuildBootstrapPlan req" and ?m = "\<lparr>m_store = newBootstrapJobStore, m_procs = fmempty\<rparr> :: mold"
  have small: "pruneLocked s = s" if "length (order s) \<le> 50" for s
    using that by (subst pruneLocked.simps) (simp add: bootstrapJobLimit_def)
  have new: "snd (create ''j'' 0 ?plan (m_store ?m)) = \<lparr>jobs = fmupd ''j'' (new_job ''j'' 0 ?plan) fmempty, order = [''j'']\<rparr>"
    by (simp add: create_def Let_def newBootstrapJobStore_def small)
  have "StartBootstrap (Some sample_bootstrap) (Doc (sample_root ''ablestack-hci'')) ''j'' 0 (m_store ?m) =
      (202, snd (create ''j'' 0 ?plan (m_store ?m)))"
    using req by (simp add: StartBootstrap_def Let_def)
  from mold_next [OF mold_init start [OF _ this]] have "mold_reachable (one_job (new_job ''j'' 0 ?plan) Queued)"
    by (simp add: one_job_def new [simplified])
  moreover obtain rest where "map p_Name (v_Steps ?plan) = ''wait_mold_api_ready'' # rest"
    using names_plan [of req] by (simp add: plan_names_def)
  ultimately show ?thesis by (intro exI conjI)
qed

lemma sample_run:
  "\<exists>plan rest. map p_Name (v_Steps plan) = ''wait_mold_api_ready'' # rest
     \<and> mold_reachable (one_job (job_step 2 ''wait_mold_api_ready'' (job_started 1 (new_job ''j'' 0 plan))) (Executing ''wait_mold_api_ready'' rest))"
proof -
  obtain plan rest where r: "mold_reachable (one_job (new_job ''j'' 0 plan) Queued)"
      and names: "map p_Name (v_Steps plan) = ''wait_mold_api_ready'' # rest" using sample_start by (elim exE conjE)
  let ?job = "job_started 1 (new_job ''j'' 0 plan)"
  have steps: "map s_Name (j_Steps ?job) = ''wait_mold_api_ready'' # rest" using names by (simp add: job_started_def new_job_def comp_def)
  from mold_next [OF r run [where jobID = "''j''" and now = 1]] have "mold_reachable (one_job ?job Fetching)" by simp
  from mold_next [OF this fetch [where jobID = "''j''" and job = ?job]]
  have "mold_reachable (one_job ?job (Looping (''wait_mold_api_ready'' # rest)))" unfolding steps one_job_fields by blast
  from mold_next [OF this next_step [where jobID = "''j''" and name = "''wait_mold_api_ready''" and names = rest and now = 2]]
  have "mold_reachable (one_job (job_step 2 ''wait_mold_api_ready'' ?job) (Executing ''wait_mold_api_ready'' rest))" by simp
  with names show ?thesis by (intro exI conjI)
qed

theorem job_steps_in_order_witness:
  "\<exists>m job. mold_reachable m \<and> get ''j'' (m_store m) = Some job \<and> j_Status job = ''running''
     \<and> (\<exists>before active after. j_Steps job = before @ active @ after \<and> list_all step_ok_done before \<and> list_all step_pending after)"
proof -
  obtain plan rest where m: "mold_reachable (one_job (job_step 2 ''wait_mold_api_ready'' (job_started 1 (new_job ''j'' 0 plan)))
      (Executing ''wait_mold_api_ready'' rest))" (is "mold_reachable (one_job ?job ?p)") using sample_run by blast
  have run: "j_Status ?job = ''running''" by (simp add: job_step_def markBootstrapStepRunning_def job_started_def)
  show ?thesis using job_steps_in_order [OF m _ run, of "''j''"] m run one_job_fields(1) by blast
qed

theorem job_status_truthful_witness:
  "\<exists>m job. mold_reachable m \<and> get ''j'' (m_store m) = Some job \<and> j_Status job = ''failed''
     \<and> (\<exists>before s after. j_Steps job = before @ s # after \<and> s_Error s = Some sample_error \<and> list_all step_pending after)"
proof -
  obtain plan rest where m: "mold_reachable (one_job (job_step 2 ''wait_mold_api_ready'' (job_started 1 (new_job ''j'' 0 plan)))
      (Executing ''wait_mold_api_ready'' rest))" (is "mold_reachable (one_job ?job ?p)") using sample_run by blast
  let ?failed = "job_failed 3 4 ''wait_mold_api_ready'' sample_failure sample_error ?job"
  have "mold_step (one_job ?job ?p) (one_job ?failed Finished)"
    using step_failed [of "one_job ?job ?p" "''j''" "''wait_mold_api_ready''" rest sample_failure sample_error 3 4]
    by (simp add: sample_failure_def)
  with m have r: "mold_reachable (one_job ?failed Finished)" by (rule mold_next)
  have "j_Status ?failed = ''failed''" "j_Error ?failed = Some sample_error" by (simp_all add: job_failed_def)
  with job_status_truthful [OF r one_job_fields(1)] obtain before s after where
    "j_Steps ?failed = before @ s # after" "s_Error s = Some sample_error" "list_all step_pending after" by auto
  with r \<open>j_Status ?failed = ''failed''\<close> show ?thesis by (intro exI [of _ "one_job ?failed Finished"] exI [of _ ?failed]) auto
qed

theorem store_bounded_witness:
  "\<exists>m. mold_reachable m \<and> get ''k'' (snd (create ''k'' 9 (BuildBootstrapPlan sample_bootstrap) (m_store m))) =
     Some (new_job ''k'' 9 (BuildBootstrapPlan sample_bootstrap))"
proof -
  obtain job p where m: "mold_reachable (one_job job p)" using sample_run by blast
  moreover have "''k'' \<notin> fset (fmdom (m_procs (one_job job p)))" by (simp add: one_job_def)
  ultimately show ?thesis using store_bounded [OF m, of 9 "BuildBootstrapPlan sample_bootstrap"] by blast
qed

end
