(* ===== verification/Mold_Client.thy ===== *)
theory Mold_Client
  imports Internal_Token Bootstrap_Plan
begin

text \<open>
  The client of the cloud manager's API: \<^verbatim>\<open>internal/service/moldservice/mold.go\<close> and the
  endpoint lookup of \<^verbatim>\<open>cluster_config.go\<close>. The server is a function of its own state: it answers
  a request with a reply and takes some time for it. The requests sent are recorded. A request is
  given by its method, the endpoint and the form values, which the query string or the body encode;
  a body is given with the value it decodes to.
\<close>

section \<open>The outside\<close>

type_synonym form = "(string, string) fmap"

record api_request =
  ar_method :: string
  ar_endpoint :: string
  ar_values :: form

datatype http_body = JsonError string | JsonValue goval

text \<open>No reply at all, a reply whose body cannot be read, or a status with the text and its value.\<close>

datatype reply = NoReply string | BrokenBody string | Reply int string http_body

type_synonym 'c server = "api_request \<Rightarrow> 'c \<Rightarrow> reply \<times> nat \<times> 'c"

text \<open>The state of the server, the requests sent so far, and the clock in nanoseconds.\<close>

record 'c net =
  k_cloud :: 'c
  k_sent :: "api_request list"
  k_time :: nat

text \<open>
  What a process sees besides the network: the environment, the cluster document, the iteration order
  of a map, the \<^verbatim>\<open>%.0f\<close> form and the integer part of a number that is not integral, whether
  the endpoint parses, the host of a URL and of a host-port pair, \<^verbatim>\<open>time.ParseDuration\<close> and the
  quoted form of a string.
\<close>

record mold_env =
  me_getenv :: getenv
  me_doc :: doc_state
  me_doc_error :: string
  me_order :: "gomap \<Rightarrow> string list"
  me_fmt0 :: "string \<Rightarrow> string"
  me_trunc :: "string \<Rightarrow> int"
  me_url_error :: "string \<Rightarrow> string option"
  me_url_hostname :: "string \<Rightarrow> string option"
  me_split_host :: "string \<Rightarrow> string option"
  me_duration :: "string \<Rightarrow> int option"
  me_quote :: "string \<Rightarrow> string"

section \<open>Values\<close>

fun firstNonEmpty :: "string list \<Rightarrow> string" where
  "firstNonEmpty [] = []"
| "firstNonEmpty (v # vs) = (if trim_space v \<noteq> [] then trim_space v else firstNonEmpty vs)"

definition stringValue :: "mold_env \<Rightarrow> goval \<Rightarrow> string" where
  "stringValue e v =
     (case v of
        VStr s \<Rightarrow> trim_space s
      | VInt i \<Rightarrow> trim_space (itoa i)
      | VReal r \<Rightarrow> trim_space (me_fmt0 e r)
      | VNil \<Rightarrow> []
      | _ \<Rightarrow> trim_space (fmt_v v))"

text \<open>\<^verbatim>\<open>fmt.Sscanf\<close> with \<^verbatim>\<open>%d\<close>: a sign and the digits that follow; zero if there are none or too many.\<close>

definition scan_int :: "string \<Rightarrow> int" where
  "scan_int s =
     (let sign = (if has_prefix s ''-'' \<or> has_prefix s ''+'' then take 1 s else []);
          digits = takeWhile is_digit (drop (length sign) s)
      in case atoi (sign @ digits) of Some i \<Rightarrow> i | None \<Rightarrow> 0)"

definition intValue :: "mold_env \<Rightarrow> goval \<Rightarrow> int" where
  "intValue e v =
     (case v of VInt i \<Rightarrow> i | VReal r \<Rightarrow> me_trunc e r | VStr s \<Rightarrow> scan_int (trim_space s) | _ \<Rightarrow> 0)"

definition truncateBody :: "string \<Rightarrow> string" where
  "truncateBody raw =
     (let v = trim_space raw in if length v \<le> 1024 then v else take 1024 v @ ''...'')"

definition form_get :: "form \<Rightarrow> string \<Rightarrow> string" where
  "form_get vals k = (case fmlookup vals k of Some v \<Rightarrow> v | None \<Rightarrow> [])"

section \<open>Errors\<close>

datatype sentinel = MissingCCVMIP | ErrMoldAPIRequest | ErrMoldErrorResponse | ErrInvalidMoldResponse | ErrMissingMoldSession

fun sentinel_text :: "sentinel \<Rightarrow> string" where
  "sentinel_text MissingCCVMIP = ''clusterConfig.ccvm.ip required''"
| "sentinel_text ErrMoldAPIRequest = ''mold api request failed''"
| "sentinel_text ErrMoldErrorResponse = ''mold api error response''"
| "sentinel_text ErrInvalidMoldResponse = ''invalid mold api response''"
| "sentinel_text ErrMissingMoldSession = ''mold sessionkey not found''"

record APIError =
  a_Kind :: "sentinel option"
  a_Method :: string
  a_Endpoint :: string
  a_Command :: string
  a_Code :: int
  a_ErrorCode :: string
  a_ErrorText :: string
  a_Raw :: goval
  a_HTTPStatus :: int
  a_HTTPBody :: string
  a_VerifyCommand :: string
  a_SessionKeySet :: bool

text \<open>An error is an API error, a sentinel, bare or with the text it wraps, or another error by its text.\<close>

datatype mold_error = Api APIError | Sentinel sentinel "string option" | Plain string

definition api_error_text :: "APIError \<Rightarrow> string" where
  "api_error_text a =
     (let message = firstNonEmpty [a_ErrorText a, a_HTTPBody a, ''unknown mold error'']
      in case a_Kind a of Some k \<Rightarrow> sentinel_text k @ '': '' @ message | None \<Rightarrow> message)"

fun mold_error_text :: "mold_error \<Rightarrow> string" where
  "mold_error_text (Api a) = api_error_text a"
| "mold_error_text (Sentinel s None) = sentinel_text s"
| "mold_error_text (Sentinel s (Some t)) = sentinel_text s @ '': '' @ t"
| "mold_error_text (Plain t) = t"

fun APIErrorFrom :: "mold_error \<Rightarrow> APIError option" where
  "APIErrorFrom (Api a) = Some a"
| "APIErrorFrom _ = None"

definition own_error :: "mold_env \<Rightarrow> gomap \<Rightarrow> bool" where
  "own_error e m \<longleftrightarrow> stringValue e (mget m ''errortext'') \<noteq> [] \<or> stringValue e (mget m ''errorcode'') \<noteq> []"

fun first_some :: "'a option list \<Rightarrow> 'a option" where
  "first_some [] = None"
| "first_some (None # xs) = first_some xs"
| "first_some (Some x # xs) = Some x"

text \<open>The search looks at a map before its children, and at the children in the iteration order.\<close>

primrec findNestedMoldError :: "mold_env \<Rightarrow> goval \<Rightarrow> gomap option" where
  "findNestedMoldError e VNil = None"
| "findNestedMoldError e (VBool b) = None"
| "findNestedMoldError e (VInt i) = None"
| "findNestedMoldError e (VReal r) = None"
| "findNestedMoldError e (VStr s) = None"
| "findNestedMoldError e (VArr vs) = first_some (map (findNestedMoldError e) vs)"
| "findNestedMoldError e (VMap m) =
     (if own_error e m then Some m
      else first_some (List.map_filter (fmlookup (fmmap (findNestedMoldError e) m)) (me_order e m)))"
| "findNestedMoldError e (VRec fs) = None"

definition apiErrorFromMap :: "mold_env \<Rightarrow> string \<Rightarrow> gomap \<Rightarrow> gomap \<Rightarrow> APIError" where
  "apiErrorFromMap e command errResponse raw =
     (let errorCode = stringValue e (mget errResponse ''errorcode'')
      in \<lparr>a_Kind = Some ErrMoldErrorResponse, a_Method = [], a_Endpoint = [], a_Command = command,
          a_Code = intValue e (mget errResponse ''errorcode''), a_ErrorCode = errorCode,
          a_ErrorText = firstNonEmpty [stringValue e (mget errResponse ''errortext''), errorCode,
            stringValue e (mget errResponse ''uuidList''), ''unknown mold error''],
          a_Raw = VMap raw, a_HTTPStatus = 0, a_HTTPBody = [], a_VerifyCommand = [], a_SessionKeySet = False\<rparr>)"

definition extractMoldAPIError :: "mold_env \<Rightarrow> string \<Rightarrow> gomap \<Rightarrow> APIError option" where
  "extractMoldAPIError e command body =
     (case as_map (mget body ''errorresponse'') of
        Some errResponse \<Rightarrow> Some (apiErrorFromMap e command errResponse body)
      | None \<Rightarrow> map_option (\<lambda>nested. apiErrorFromMap e command nested body) (findNestedMoldError e (VMap body)))"

definition enrichAPIError :: "string \<Rightarrow> string \<Rightarrow> form \<Rightarrow> APIError \<Rightarrow> APIError" where
  "enrichAPIError method endpoint vals a =
     a\<lparr>a_Method := method, a_Endpoint := trim_space endpoint, a_SessionKeySet := \<not> blank (form_get vals ''sessionkey'')\<rparr>"

section \<open>Calls\<close>

fun json_kind :: "goval \<Rightarrow> string" where
  "json_kind (VStr s) = ''string''"
| "json_kind (VBool b) = ''bool''"
| "json_kind (VInt i) = ''number''"
| "json_kind (VReal r) = ''number''"
| "json_kind (VArr vs) = ''array''"
| "json_kind _ = ''object''"

text \<open>Decoding into \<^verbatim>\<open>map[string]any\<close>; null is the nil map.\<close>

definition decode_object :: "http_body \<Rightarrow> string + gomap" where
  "decode_object body =
     (case body of
        JsonError msg \<Rightarrow> Inl msg
      | JsonValue v \<Rightarrow>
          (case item_map v of
             Some m \<Rightarrow> Inr m
           | None \<Rightarrow> Inl (''json: cannot unmarshal '' @ json_kind v @ '' into Go value of type map[string]interface {}'')))"

record Client =
  c_endpoint :: string
  c_ccvmIP :: string
  c_sessionKey :: string

definition plain_http_error :: "string \<Rightarrow> string \<Rightarrow> string \<Rightarrow> form \<Rightarrow> int \<Rightarrow> string \<Rightarrow> APIError" where
  "plain_http_error method endpoint command vals status raw =
     \<lparr>a_Kind = Some ErrMoldAPIRequest, a_Method = method, a_Endpoint = endpoint, a_Command = command, a_Code = 0, a_ErrorCode = [],
      a_ErrorText = truncateBody raw, a_Raw = VNil, a_HTTPStatus = status, a_HTTPBody = truncateBody raw, a_VerifyCommand = [],
      a_SessionKeySet = (\<not> blank (form_get vals ''sessionkey''))\<rparr>"

text \<open>What the reply to a request means.\<close>

definition read_reply :: "mold_env \<Rightarrow> string \<Rightarrow> string \<Rightarrow> form \<Rightarrow> reply \<Rightarrow> mold_error + gomap" where
  "read_reply e method endpoint vals r =
     (let command = trim_space (form_get vals ''command'')
      in case r of
           NoReply msg \<Rightarrow> Inl (Sentinel ErrMoldAPIRequest (Some msg))
         | BrokenBody msg \<Rightarrow> Inl (Plain msg)
         | Reply status raw body \<Rightarrow>
             if status < 200 \<or> status \<ge> 300
             then Inl (Api (case decode_object body of
                              Inl _ \<Rightarrow> plain_http_error method endpoint command vals status raw
                            | Inr out \<Rightarrow>
                                (case extractMoldAPIError e command out of
                                   None \<Rightarrow> plain_http_error method endpoint command vals status raw
                                 | Some a \<Rightarrow> enrichAPIError method endpoint vals
                                     (a\<lparr>a_Kind := Some ErrMoldAPIRequest, a_HTTPStatus := status, a_HTTPBody := truncateBody raw\<rparr>))))
             else (case decode_object body of
                     Inl msg \<Rightarrow> Inl (Sentinel ErrInvalidMoldResponse (Some msg))
                   | Inr out \<Rightarrow>
                       (case extractMoldAPIError e command out of
                          None \<Rightarrow> Inr out
                        | Some a \<Rightarrow> Inl (Api (enrichAPIError method endpoint vals a)))))"

definition call :: "mold_env \<Rightarrow> 'c server \<Rightarrow> Client \<Rightarrow> string \<Rightarrow> form \<Rightarrow> 'c net \<Rightarrow> (mold_error + gomap) \<times> 'c net" where
  "call e srv c method vals k =
     (let endpoint = trim_space (c_endpoint c)
      in if endpoint = [] then (Inl (Sentinel ErrInvalidMoldResponse (Some ''endpoint required'')), k)
         else (case me_url_error e endpoint of
                 Some msg \<Rightarrow> (Inl (Plain msg), k)
               | None \<Rightarrow>
                   (let req = \<lparr>ar_method = method, ar_endpoint = endpoint, ar_values = vals\<rparr>;
                        (r, elapsed, cloud) = srv req (k_cloud k)
                    in (read_reply e method endpoint vals r,
                        \<lparr>k_cloud = cloud, k_sent = k_sent k @ [req], k_time = k_time k + elapsed\<rparr>))))"

record AuthConfig =
  ac_Username :: string
  ac_Password :: string
  ac_Domain :: string
  ac_Response :: string

definition DefaultAuthConfig :: AuthConfig where
  "DefaultAuthConfig = \<lparr>ac_Username = ''admin'', ac_Password = ''password'', ac_Domain = ''/'', ac_Response = ''json''\<rparr>"

definition WithDefaults :: "AuthConfig \<Rightarrow> AuthConfig" where
  "WithDefaults a =
     a\<lparr>ac_Username := if blank (ac_Username a) then ac_Username DefaultAuthConfig else ac_Username a,
       ac_Password := if blank (ac_Password a) then ac_Password DefaultAuthConfig else ac_Password a,
       ac_Domain := if blank (ac_Domain a) then ac_Domain DefaultAuthConfig else ac_Domain a,
       ac_Response := if blank (ac_Response a) then ac_Response DefaultAuthConfig else ac_Response a\<rparr>"

definition NewClient :: "string \<Rightarrow> string \<Rightarrow> Client" where
  "NewClient endpoint ccvmIP = \<lparr>c_endpoint = trim_space endpoint, c_ccvmIP = trim_space ccvmIP, c_sessionKey = []\<rparr>"

record Session =
  se_Endpoint :: string
  se_CCVMIP :: string
  se_SessionKey :: string
  se_LoginResponse :: gomap

definition login_form :: "AuthConfig \<Rightarrow> form" where
  "login_form auth =
     (let a = WithDefaults auth
      in fmap_of_list [(''command'', ''login''), (''username'', trim_space (ac_Username a)), (''password'', ac_Password a),
           (''domain'', trim_space (ac_Domain a)), (''response'', trim_space (ac_Response a))])"

text \<open>The session a reply to a login carries.\<close>

definition login_key :: "mold_env \<Rightarrow> gomap \<Rightarrow> mold_error + string" where
  "login_key e body =
     (case as_map (mget body ''loginresponse'') of
        None \<Rightarrow> Inl (Sentinel ErrInvalidMoldResponse (Some ''loginresponse missing''))
      | Some loginResponse \<Rightarrow>
          (let sessionKey = stringValue e (mget loginResponse ''sessionkey'')
           in if sessionKey = [] then Inl (Sentinel ErrMissingMoldSession None) else Inr sessionKey))"

definition Login :: "mold_env \<Rightarrow> 'c server \<Rightarrow> Client \<Rightarrow> AuthConfig \<Rightarrow> 'c net \<Rightarrow> (mold_error + Session \<times> Client) \<times> 'c net" where
  "Login e srv c auth k =
     (if blank (c_endpoint c) then (Inl (Sentinel ErrInvalidMoldResponse (Some ''endpoint required'')), k)
      else (case call e srv c ''POST'' (login_form auth) k of
              (Inl err, k') \<Rightarrow> (Inl err, k')
            | (Inr body, k') \<Rightarrow>
                (case login_key e body of
                   Inl err \<Rightarrow> (Inl err, k')
                 | Inr sessionKey \<Rightarrow>
                     (Inr (\<lparr>se_Endpoint = c_endpoint c, se_CCVMIP = c_ccvmIP c, se_SessionKey = sessionKey, se_LoginResponse = body\<rparr>,
                           c\<lparr>c_sessionKey := sessionKey\<rparr>), k'))))"

definition ListCapabilities :: "mold_env \<Rightarrow> 'c server \<Rightarrow> Client \<Rightarrow> string \<Rightarrow> 'c net \<Rightarrow> (mold_error + gomap) \<times> 'c net" where
  "ListCapabilities e srv c sessionKey k =
     (let key = (if blank sessionKey then trim_space (c_sessionKey c) else trim_space sessionKey)
      in if key = [] then (Inl (Sentinel ErrMissingMoldSession None), k)
         else call e srv c ''GET'' (fmap_of_list [(''command'', ''listCapabilities''), (''response'', ''json''), (''sessionkey'', key)]) k)"

text \<open>The form values of a command: the caller's, the command, a response format and the session key.\<close>

definition command_form :: "Client \<Rightarrow> string \<Rightarrow> string \<Rightarrow> form \<Rightarrow> form" where
  "command_form c command sessionKey params =
     (let p1 = fmupd ''command'' command params;
          p2 = (if form_get p1 ''response'' = [] then fmupd ''response'' ''json'' p1 else p1)
      in if \<not> blank sessionKey then fmupd ''sessionkey'' (trim_space sessionKey) p2
         else if \<not> blank (c_sessionKey c) then fmupd ''sessionkey'' (trim_space (c_sessionKey c)) p2
         else p2)"

text \<open>The callers pass the methods GET and POST.\<close>

definition CallCommand ::
  "mold_env \<Rightarrow> 'c server \<Rightarrow> Client \<Rightarrow> string \<Rightarrow> string \<Rightarrow> string \<Rightarrow> form \<Rightarrow> 'c net \<Rightarrow> (mold_error + gomap) \<times> 'c net" where
  "CallCommand e srv c method command sessionKey params k =
     (if blank command then (Inl (Sentinel ErrInvalidMoldResponse (Some ''command required'')), k)
      else call e srv c (if blank method then ''GET'' else method) (command_form c (trim_space command) sessionKey params) k)"

definition LoginAndListCapabilities ::
  "mold_env \<Rightarrow> 'c server \<Rightarrow> Client \<Rightarrow> AuthConfig \<Rightarrow> 'c net \<Rightarrow> (mold_error + Session \<times> gomap) \<times> 'c net" where
  "LoginAndListCapabilities e srv c auth k =
     (case Login e srv c auth k of
        (Inl err, k') \<Rightarrow> (Inl err, k')
      | (Inr (session, c'), k') \<Rightarrow>
          (case ListCapabilities e srv c' [] k' of
             (Inl err, k'') \<Rightarrow> (Inl err, k'')
           | (Inr capabilities, k'') \<Rightarrow> (Inr (session, capabilities), k'')))"

text \<open>The endpoint and the CCVM address, from the document or the environment.\<close>

definition ResolveMoldEndpointFromCluster :: "mold_env \<Rightarrow> mold_error + (string \<times> string)" where
  "ResolveMoldEndpointFromCluster e =
     (case LoadClusterConfigSection (me_doc e) of
        None \<Rightarrow> Inl (Plain (me_doc_error e))
      | Some cfg \<Rightarrow>
          (let ccvmIP = trim_space (sec_CCVM_IP cfg);
               override = trim_space (me_getenv e ''ABLESTACK_MOLD_ENDPOINT'');
               scheme = firstNonEmpty [me_getenv e ''ABLESTACK_MOLD_API_SCHEME'', ''http''];
               port = firstNonEmpty [me_getenv e ''ABLESTACK_MOLD_API_PORT'', ''8080''];
               path = firstNonEmpty [me_getenv e ''ABLESTACK_MOLD_API_PATH'', ''/client/api'']
           in if override \<noteq> [] then Inr (override, ccvmIP)
              else if ccvmIP = [] then Inl (Sentinel MissingCCVMIP None)
              else Inr (scheme @ ''://'' @ ccvmIP @ '':'' @ port @ (if has_prefix path ''/'' then path else ''/'' @ path), ccvmIP)))"

section \<open>Errors inside a reply\<close>

text \<open>The maps a value holds, at any depth, through maps and lists.\<close>

inductive inside :: "goval \<Rightarrow> goval \<Rightarrow> bool" where
  here: "inside v v"
| in_arr: "u \<in> set vs \<Longrightarrow> inside v u \<Longrightarrow> inside v (VArr vs)"
| in_map: "fmlookup m k = Some u \<Longrightarrow> inside v u \<Longrightarrow> inside v (VMap m)"

inductive_simps inside_simps:
  "inside v VNil" "inside v (VBool b)" "inside v (VInt i)" "inside v (VReal r)" "inside v (VStr s)" "inside v (VArr vs)"
  "inside v (VMap m)" "inside v (VRec fs)"

text \<open>The iteration order of a map visits its keys.\<close>

definition visits_keys :: "mold_env \<Rightarrow> bool" where
  "visits_keys e \<longleftrightarrow> (\<forall>m. set (me_order e m) = fset (fmdom m))"

lemma first_some_None [simp]: "first_some xs = None \<longleftrightarrow> (\<forall>x \<in> set xs. x = None)"
  by (induction xs rule: first_some.induct) auto

lemma set_map_filter: "set (List.map_filter f xs) = {y. \<exists>x \<in> set xs. f x = Some y}"
  by (induction xs) (auto simp: List.map_filter_simps split: option.splits)

lemma findNested_None:
  assumes "visits_keys e"
  shows "findNestedMoldError e v = None \<longleftrightarrow> (\<forall>m. inside (VMap m) v \<longrightarrow> \<not> own_error e m)"
proof (induction v)
  case (VArr vs)
  then show ?case by (auto simp: inside_simps)
next
  case (VMap m)
  have keys: "set (me_order e m) = fset (fmdom m)" using assms by (simp add: visits_keys_def)
  have "(\<forall>x \<in> set (List.map_filter (fmlookup (fmmap (findNestedMoldError e) m)) (me_order e m)). x = None) \<longleftrightarrow>
      (\<forall>k u. fmlookup m k = Some u \<longrightarrow> findNestedMoldError e u = None)"
    unfolding set_map_filter keys by (auto intro: fmdomI)
  also have "\<dots> \<longleftrightarrow> (\<forall>k u. fmlookup m k = Some u \<longrightarrow> (\<forall>m'. inside (VMap m') u \<longrightarrow> \<not> own_error e m'))"
    using VMap fmran'I by metis
  finally show ?case by (auto simp: inside_simps)
qed (auto simp: inside_simps)

lemma call_success:
  assumes "call e srv c method vals k = (Inr body, k')"
  shows "\<exists>req status raw v elapsed. req = \<lparr>ar_method = method, ar_endpoint = trim_space (c_endpoint c), ar_values = vals\<rparr>
     \<and> k_sent k' = k_sent k @ [req] \<and> srv req (k_cloud k) = (Reply status raw (JsonValue v), elapsed, k_cloud k')
     \<and> 200 \<le> status \<and> status < 300 \<and> item_map v = Some body \<and> extractMoldAPIError e (trim_space (form_get vals ''command'')) body = None"
  using assms
  by (auto simp: call_def read_reply_def decode_object_def Let_def
      split: if_splits option.splits prod.splits reply.splits sum.splits http_body.splits)

lemma call_appends:
  "call e srv c method vals k = (res, k') \<Longrightarrow>
     k' = k \<or> k_sent k' = k_sent k @ [\<lparr>ar_method = method, ar_endpoint = trim_space (c_endpoint c), ar_values = vals\<rparr>] \<and> k_time k \<le> k_time k'"
  by (auto simp: call_def Let_def split: if_splits option.splits prod.splits)

lemma form_get_upd [simp]: "form_get (fmupd k v f) k' = (if k = k' then v else form_get f k')"
  by (simp add: form_get_def)

lemma command_form_fields:
  "form_get (command_form c command key params) ''command'' = command"
  "form_get (command_form c command key params) ''response'' \<noteq> []"
  "\<not> blank (c_sessionKey c) \<Longrightarrow> form_get (command_form c command [] params) ''sessionkey'' = trim_space (c_sessionKey c)"
  by (auto simp: command_form_def Let_def)

section \<open>Properties\<close>

text \<open>
  A call succeeds exactly if the server answers with a status of the 200s and a JSON object (or
  null) that holds, at no depth, a map with an error text or an error code and no error response; the
  result is that object, and exactly one request has been sent.
\<close>

theorem call_exact:
  assumes "visits_keys e" and "\<not> blank (c_endpoint c)" and "me_url_error e (trim_space (c_endpoint c)) = None"
    and "req = \<lparr>ar_method = method, ar_endpoint = trim_space (c_endpoint c), ar_values = vals\<rparr>"
    and "srv req (k_cloud k) = (r, elapsed, cloud)"
  shows "\<exists>res. call e srv c method vals k = (res, \<lparr>k_cloud = cloud, k_sent = k_sent k @ [req], k_time = k_time k + elapsed\<rparr>)
     \<and> (\<forall>body. res = Inr body \<longleftrightarrow>
          (\<exists>status raw v. r = Reply status raw (JsonValue v) \<and> 200 \<le> status \<and> status < 300 \<and> item_map v = Some body)
          \<and> as_map (mget body ''errorresponse'') = None \<and> (\<forall>m. inside (VMap m) (VMap body) \<longrightarrow> \<not> own_error e m))"
proof -
  have clean: "extractMoldAPIError e cmd body = None \<longleftrightarrow>
      as_map (mget body ''errorresponse'') = None \<and> (\<forall>m. inside (VMap m) (VMap body) \<longrightarrow> \<not> own_error e m)" for cmd body
    using findNested_None [OF assms(1)] by (simp add: extractMoldAPIError_def del: findNestedMoldError.simps split: option.split)
  have "call e srv c method vals k = (read_reply e method (trim_space (c_endpoint c)) vals r,
      \<lparr>k_cloud = cloud, k_sent = k_sent k @ [req], k_time = k_time k + elapsed\<rparr>)"
    using assms(2-5) by (simp add: call_def Let_def)
  moreover have "read_reply e method ep vals r = Inr body \<longleftrightarrow>
      (\<exists>status raw v. r = Reply status raw (JsonValue v) \<and> 200 \<le> status \<and> status < 300 \<and> item_map v = Some body)
      \<and> extractMoldAPIError e (trim_space (form_get vals ''command'')) body = None" for ep body
    by (auto simp: read_reply_def decode_object_def Let_def split: reply.splits http_body.splits option.splits if_splits)
  ultimately show ?thesis unfolding clean by (intro exI conjI) auto
qed

text \<open>
  A login hands its key to every later command: each command sent by the client of a successful
  login, without a key of its own, is one request that carries the command and the session key the
  server gave.
\<close>

theorem Login_authenticates:
  assumes "Login e srv c auth k = (Inr (session, c'), k')" and "\<not> blank command" and "me_url_error e (trim_space (c_endpoint c)) = None"
  shows "\<exists>body req. extractMoldAPIError e ''login'' body = None \<and> login_key e body = Inr (se_SessionKey session) \<and> se_SessionKey session \<noteq> []
     \<and> k_sent (snd (CallCommand e srv c' method command [] params k2)) = k_sent k2 @ [req]
     \<and> form_get (ar_values req) ''command'' = trim_space command \<and> form_get (ar_values req) ''sessionkey'' = trim_space (se_SessionKey session)"
proof -
  obtain body where b: "call e srv c ''POST'' (login_form auth) k = (Inr body, k')" "login_key e body = Inr (se_SessionKey session)"
      "c' = c\<lparr>c_sessionKey := se_SessionKey session\<rparr>" "\<not> blank (c_endpoint c)"
    using assms(1) by (auto simp: Login_def split: if_splits prod.splits sum.splits)
  have cmd: "trim_space (form_get (login_form auth) ''command'') = ''login''"
  proof -
    have "trim_space ''login'' = ''login''" by code_simp
    then show ?thesis by (simp add: login_form_def form_get_def Let_def fmlookup_of_list)
  qed
  have ext: "extractMoldAPIError e ''login'' body = None" using call_success [OF b(1)] cmd by auto
  have key: "se_SessionKey session \<noteq> []" "trim_space (se_SessionKey session) = se_SessionKey session"
  proof -
    show "se_SessionKey session \<noteq> []" using b(2) by (auto simp: login_key_def Let_def split: option.splits if_splits)
    have "trim_space (stringValue e v) = stringValue e v" for v by (cases v) (simp_all add: stringValue_def)
    then show "trim_space (se_SessionKey session) = se_SessionKey session"
      using b(2) by (auto simp: login_key_def Let_def dest!: sym [of _ "se_SessionKey session"] split: option.splits if_splits)
  qed
  have "k_sent (snd (CallCommand e srv c' method command [] params k2)) =
      k_sent k2 @ [\<lparr>ar_method = (if blank method then ''GET'' else method), ar_endpoint = trim_space (c_endpoint c'),
        ar_values = command_form c' (trim_space command) [] params\<rparr>]"
    using assms(2,3) b(3,4) by (auto simp: CallCommand_def call_def Let_def split: prod.splits)
  then show ?thesis
    using ext b(2,3) key command_form_fields [of c' "trim_space command"] by auto
qed

text \<open>A server that hands out a session and answers every other command with an empty object.\<close>

definition sample_mold :: mold_env where
  "sample_mold =
     \<lparr>me_getenv = (\<lambda>_. []), me_doc = Doc (sample_root ''ablestack-hci''), me_doc_error = [],
      me_order = (\<lambda>m. sorted_list_of_set (fset (fmdom m))), me_fmt0 = (\<lambda>r. r), me_trunc = (\<lambda>_. 0), me_url_error = (\<lambda>_. None),
      me_url_hostname = (\<lambda>_. None), me_split_host = (\<lambda>_. None), me_duration = (\<lambda>_. None), me_quote = (\<lambda>s. s)\<rparr>"

definition session_reply :: gomap where
  "session_reply = fmupd ''loginresponse'' (VMap (puts ''sessionkey'' ''k1'' fmempty)) fmempty"

definition sample_server :: "unit server" where
  "sample_server req c =
     (Reply 200 [] (JsonValue (VMap (if form_get (ar_values req) ''command'' = ''login'' then session_reply else fmempty))), 1, ())"

definition sample_client :: Client where
  "sample_client = NewClient ''http://10.0.0.10:8080/client/api'' ''10.0.0.10''"

definition idle_net :: "unit net" where
  "idle_net = \<lparr>k_cloud = (), k_sent = [], k_time = 0\<rparr>"

lemma sample_mold_fields: "visits_keys sample_mold" "me_url_error sample_mold x = None"
  by (simp_all add: sample_mold_def visits_keys_def)

lemma sample_endpoint: "trim_space (c_endpoint sample_client) = ''http://10.0.0.10:8080/client/api''"
proof -
  have "trim_space ''http://10.0.0.10:8080/client/api'' = ''http://10.0.0.10:8080/client/api''" by code_simp
  then show ?thesis by (simp add: sample_client_def NewClient_def)
qed

lemma no_error_empty: "inside (VMap m) (VMap fmempty) \<Longrightarrow> \<not> own_error e m"
  by (auto simp: inside_simps own_error_def stringValue_def)

theorem call_exact_witness:
  "\<exists>k'. call sample_mold sample_server sample_client ''GET'' (fmupd ''command'' ''listZones'' fmempty) idle_net = (Inr fmempty, k')
     \<and> length (k_sent k') = 1"
proof -
  let ?req = "\<lparr>ar_method = ''GET'', ar_endpoint = trim_space (c_endpoint sample_client), ar_values = fmupd ''command'' ''listZones'' fmempty\<rparr>"
  have srv: "sample_server ?req (k_cloud idle_net) = (Reply 200 [] (JsonValue (VMap fmempty)), 1, ())"
    by (simp add: sample_server_def form_get_def)
  have ep: "\<not> blank (c_endpoint sample_client)" by (simp add: sample_endpoint)
  show ?thesis
    using call_exact [where e = sample_mold and srv = sample_server and c = sample_client and k = idle_net and req = ?req,
        OF sample_mold_fields(1) ep sample_mold_fields(2) refl srv] no_error_empty
    by (auto simp: item_map_def idle_net_def)
qed

lemma sample_no_error: "extractMoldAPIError sample_mold ''login'' session_reply = None"
proof -
  have "m = session_reply \<or> m = puts ''sessionkey'' ''k1'' fmempty" if "inside (VMap m) (VMap session_reply)" for m
    using that by (auto simp: inside_simps session_reply_def split: if_splits)
  moreover have "\<not> own_error sample_mold session_reply" "\<not> own_error sample_mold (puts ''sessionkey'' ''k1'' fmempty)"
    by (simp_all add: own_error_def stringValue_def session_reply_def)
  ultimately have "\<not> own_error sample_mold m" if "inside (VMap m) (VMap session_reply)" for m
    using that by blast
  then have "findNestedMoldError sample_mold (VMap session_reply) = None"
    using findNested_None [OF sample_mold_fields(1)] by blast
  then show ?thesis by (simp add: extractMoldAPIError_def session_reply_def del: findNestedMoldError.simps)
qed

lemma sample_mold_login:
  "\<exists>session c' k'. Login sample_mold sample_server sample_client auth idle_net = (Inr (session, c'), k') \<and> se_SessionKey session = ''k1''"
proof -
  have trims: "trim_space ''login'' = ''login''" "trim_space ''k1'' = ''k1''" by code_simp+
  have cmd: "form_get (login_form auth) ''command'' = ''login''"
    by (simp add: login_form_def form_get_def Let_def fmlookup_of_list)
  have "\<exists>k'. call sample_mold sample_server sample_client ''POST'' (login_form auth) idle_net = (Inr session_reply, k')"
    using sample_no_error
    by (simp add: call_def sample_endpoint Let_def sample_mold_fields sample_server_def cmd trims read_reply_def decode_object_def item_map_def)
  moreover have "login_key sample_mold session_reply = Inr ''k1''"
    by (simp add: login_key_def session_reply_def stringValue_def trims)
  ultimately show ?thesis by (auto simp: Login_def sample_endpoint)
qed

theorem Login_authenticates_witness:
  "\<exists>session c' k' req. Login sample_mold sample_server sample_client DefaultAuthConfig idle_net = (Inr (session, c'), k')
     \<and> k_sent (snd (CallCommand sample_mold sample_server c' ''GET'' ''listZones'' [] fmempty k')) = k_sent k' @ [req]
     \<and> form_get (ar_values req) ''sessionkey'' = ''k1''"
proof -
  obtain session c' k' where l: "Login sample_mold sample_server sample_client DefaultAuthConfig idle_net = (Inr (session, c'), k')"
      "se_SessionKey session = ''k1''" using sample_mold_login by blast
  have "\<not> blank ''listZones''" "trim_space ''k1'' = ''k1''" by code_simp+
  with Login_authenticates [OF l(1), of "''listZones''" "''GET''" fmempty k'] l show ?thesis
    by (auto simp: sample_mold_fields)
qed

end
