(* ===== verification/Ssh_Trust.thy ===== *)
theory Ssh_Trust
  imports Go_Prelude
begin

text \<open>
  The authorised keys of a host: \<^verbatim>\<open>internal/service/sshtrust/sshtrust.go\<close> and the handler
  \<^verbatim>\<open>internal/handler/cube/ssh_trust.go\<close>. Files are a map from paths to contents. The parser,
  the printer and the fingerprint of the package \<^verbatim>\<open>golang.org/x/crypto/ssh\<close> are arguments; a
  key is given by its wire form. A write replaces the file as a whole or fails: the new content goes
  to a temporary file that is renamed over the old one.
\<close>

section \<open>Keys\<close>

type_synonym ssh_key = string

text \<open>\<^verbatim>\<open>ssh.ParseAuthorizedKey\<close> with the key and the comment, \<^verbatim>\<open>ssh.MarshalAuthorizedKey\<close> and \<^verbatim>\<open>ssh.FingerprintSHA256\<close>.\<close>

record ssh_lib =
  ssh_parse :: "string \<Rightarrow> string + ssh_key \<times> string"
  ssh_marshal :: "ssh_key \<Rightarrow> string"
  ssh_fingerprint :: "ssh_key \<Rightarrow> string"

definition DefaultIdentifier :: string where
  "DefaultIdentifier = ''cloud@ccvm''"

definition DefaultAuthorizedKeysPath :: string where
  "DefaultAuthorizedKeysPath = ''/root/.ssh/authorized_keys''"

definition ManagementSSHDir :: "(string \<Rightarrow> string) \<Rightarrow> string" where
  "ManagementSSHDir env =
     (let v = trim_space (env ''ABLESTACK_CLOUDSTACK_SSH_DIR'') in if v \<noteq> [] then v else ''/var/cloudstack/management/.ssh'')"

definition ManagementPublicKeyPath :: "(string list \<Rightarrow> string) \<Rightarrow> (string \<Rightarrow> string) \<Rightarrow> string" where
  "ManagementPublicKeyPath joinPath env = joinPath [ManagementSSHDir env, ''id_rsa.pub'']"

definition ManagementPrivateKeyPath :: "(string list \<Rightarrow> string) \<Rightarrow> (string \<Rightarrow> string) \<Rightarrow> string" where
  "ManagementPrivateKeyPath joinPath env = joinPath [ManagementSSHDir env, ''id_rsa'']"

definition normalizeIdentifier :: "string \<Rightarrow> string" where
  "normalizeIdentifier identifier = (let v = trim_space identifier in if v \<noteq> [] then v else DefaultIdentifier)"

definition NormalizePublicKey :: "ssh_lib \<Rightarrow> string \<Rightarrow> string \<Rightarrow> string + string \<times> string" where
  "NormalizePublicKey lib raw identifier =
     (case ssh_parse lib (trim_space raw) of
        Inl err \<Rightarrow> Inl (''invalid OpenSSH public key: '' @ err)
      | Inr (key, comment) \<Rightarrow>
          Inr (trim_space (ssh_marshal lib key) @ '' '' @ normalizeIdentifier identifier, ssh_fingerprint lib key))"

definition ReadManagementPublicKey :: "ssh_lib \<Rightarrow> (string \<Rightarrow> string + string) \<Rightarrow> string \<Rightarrow> string + string \<times> string" where
  "ReadManagementPublicKey lib readFile path =
     (case readFile path of
        Inl err \<Rightarrow> Inl (''read CloudStack management public key: '' @ err)
      | Inr raw \<Rightarrow> NormalizePublicKey lib raw DefaultIdentifier)"

section \<open>The file\<close>

text \<open>\<^verbatim>\<open>bytes.ReplaceAll\<close> of a line feed with a carriage return before it.\<close>

fun unix_lines :: "string \<Rightarrow> string" where
  "unix_lines (a # b # s) = (if a = CHR 13 \<and> b = CHR 10 then CHR 10 # unix_lines s else a # unix_lines (b # s))"
| "unix_lines s = s"

definition splitLines :: "string \<Rightarrow> string list" where
  "splitLines raw = (let trimmed = trim_space (unix_lines raw) in if trimmed = [] then [] else split_on (CHR 10) trimmed)"

definition write_content :: "string list \<Rightarrow> string" where
  "write_content lines = (if lines = [] then [] else join_with [CHR 10] lines @ [CHR 10])"

text \<open>The files, why a file that exists cannot be read, and why a file cannot be replaced.\<close>

record key_files =
  kf_files :: "string \<rightharpoonup> string"
  kf_unreadable :: "string \<Rightarrow> string option"
  kf_readonly :: "string \<Rightarrow> string option"

record trust_result =
  tr_Present :: bool
  tr_Changed :: bool
  tr_Fingerprint :: string

definition no_trust :: trust_result where
  "no_trust = \<lparr>tr_Present = False, tr_Changed = False, tr_Fingerprint = []\<rparr>"

definition read_keys :: "string \<Rightarrow> key_files \<Rightarrow> string + string option" where
  "read_keys path fs =
     (case kf_files fs path of
        None \<Rightarrow> Inr None
      | Some raw \<Rightarrow> (case kf_unreadable fs path of Some err \<Rightarrow> Inl err | None \<Rightarrow> Inr (Some raw)))"

definition writeAuthorizedKeysAtomic :: "string \<Rightarrow> string list \<Rightarrow> key_files \<Rightarrow> (string + unit) \<times> key_files" where
  "writeAuthorizedKeysAtomic path lines fs =
     (case kf_readonly fs path of
        Some err \<Rightarrow> (Inl err, fs)
      | None \<Rightarrow> (Inr (), fs\<lparr>kf_files := (kf_files fs)(path \<mapsto> write_content lines)\<rparr>))"

text \<open>The key of a line that carries the identifier as its comment.\<close>

definition line_key :: "ssh_lib \<Rightarrow> string \<Rightarrow> string \<Rightarrow> ssh_key option" where
  "line_key lib identifier line =
     (case ssh_parse lib line of
        Inl _ \<Rightarrow> None
      | Inr (key, comment) \<Rightarrow> if trim_space comment = identifier then Some key else None)"

text \<open>The loop over the lines: the lines kept, whether the key was seen, and the fingerprint.\<close>

fun update_lines :: "ssh_lib \<Rightarrow> string \<Rightarrow> string \<Rightarrow> bool \<Rightarrow> bool \<Rightarrow> string \<Rightarrow> string list \<Rightarrow> string list \<times> bool \<times> string" where
  "update_lines lib identifier normalized remove unchanged fingerprint [] = ([], unchanged, fingerprint)"
| "update_lines lib identifier normalized remove unchanged fingerprint (line # lines) =
     (case line_key lib identifier line of
        Some key \<Rightarrow>
          (if \<not> remove \<and> trim_space line = normalized \<and> \<not> unchanged
           then (let (out, u, f) = update_lines lib identifier normalized remove True (ssh_fingerprint lib key) lines
                 in (normalized # out, u, f))
           else update_lines lib identifier normalized remove unchanged fingerprint lines)
      | None \<Rightarrow>
          (let (out, u, f) = update_lines lib identifier normalized remove unchanged fingerprint lines
           in (line # out, u, f)))"

definition updateAuthorizedKeys ::
  "ssh_lib \<Rightarrow> string \<Rightarrow> string \<Rightarrow> string \<Rightarrow> string \<Rightarrow> bool \<Rightarrow> key_files \<Rightarrow> (string + trust_result) \<times> key_files" where
  "updateAuthorizedKeys lib path identifier normalized fingerprint remove fs =
     (case read_keys path fs of
        Inl err \<Rightarrow> (Inl err, fs)
      | Inr raw \<Rightarrow>
          (let lines = (case raw of None \<Rightarrow> [] | Some s \<Rightarrow> splitLines s);
               (kept, unchanged, fp) = update_lines lib identifier normalized remove False fingerprint lines;
               out = (if \<not> remove \<and> \<not> unchanged then kept @ [normalized] else kept);
               changed = (join_with [CHR 10] lines \<noteq> join_with [CHR 10] out);
               result = \<lparr>tr_Present = (\<not> remove), tr_Changed = changed, tr_Fingerprint = fp\<rparr>
           in if changed
              then (case writeAuthorizedKeysAtomic path out fs of (Inl err, fs') \<Rightarrow> (Inl err, fs') | (Inr _, fs') \<Rightarrow> (Inr result, fs'))
              else (Inr result, fs)))"

definition EnsureAuthorizedKey :: "ssh_lib \<Rightarrow> string \<Rightarrow> string \<Rightarrow> string \<Rightarrow> key_files \<Rightarrow> (string + trust_result) \<times> key_files" where
  "EnsureAuthorizedKey lib path rawKey identifier fs =
     (let idf = normalizeIdentifier identifier
      in case NormalizePublicKey lib rawKey idf of
           Inl err \<Rightarrow> (Inl err, fs)
         | Inr (normalized, fingerprint) \<Rightarrow> updateAuthorizedKeys lib path idf normalized fingerprint False fs)"

definition RemoveAuthorizedKey :: "ssh_lib \<Rightarrow> string \<Rightarrow> string \<Rightarrow> key_files \<Rightarrow> (string + trust_result) \<times> key_files" where
  "RemoveAuthorizedKey lib path identifier fs = updateAuthorizedKeys lib path (normalizeIdentifier identifier) [] [] True fs"

definition Status :: "ssh_lib \<Rightarrow> string \<Rightarrow> string \<Rightarrow> key_files \<Rightarrow> string + trust_result" where
  "Status lib path identifier fs =
     (case read_keys path fs of
        Inl err \<Rightarrow> Inl err
      | Inr None \<Rightarrow> Inr no_trust
      | Inr (Some raw) \<Rightarrow>
          (case List.map_filter (line_key lib (normalizeIdentifier identifier)) (splitLines raw) of
             [] \<Rightarrow> Inr no_trust
           | key # _ \<Rightarrow> Inr \<lparr>tr_Present = True, tr_Changed = False, tr_Fingerprint = ssh_fingerprint lib key\<rparr>))"

section \<open>The handler\<close>

record SSHTrustRequest =
  sq_Action :: string
  sq_PublicKey :: string
  sq_Identifier :: string

record SSHTrustResponse =
  sr_Code :: int
  sr_Action :: string
  sr_Identifier :: string
  sr_Message :: string
  sr_Present :: bool
  sr_Changed :: bool
  sr_Fingerprint :: string

text \<open>An error answers with its code and message.\<close>

definition trust_reply :: "string \<Rightarrow> string \<Rightarrow> string + trust_result \<Rightarrow> (int \<times> string) + SSHTrustResponse" where
  "trust_reply action identifier res =
     (case res of
        Inl err \<Rightarrow> Inl (500, err)
      | Inr result \<Rightarrow>
          Inr \<lparr>sr_Code = 200, sr_Action = action, sr_Identifier = identifier, sr_Message = ''ssh trust key '' @ action @ '' complete'',
               sr_Present = tr_Present result, sr_Changed = tr_Changed result, sr_Fingerprint = tr_Fingerprint result\<rparr>)"

definition SSHTrust :: "ssh_lib \<Rightarrow> SSHTrustRequest option \<Rightarrow> key_files \<Rightarrow> ((int \<times> string) + SSHTrustResponse) \<times> key_files" where
  "SSHTrust lib body fs =
     (case body of
        None \<Rightarrow> (Inl (400, ''invalid request''), fs)
      | Some req \<Rightarrow>
          (let a = to_lower (trim_space (sq_Action req));
               action = (if a = [] then ''ensure'' else a);
               i = trim_space (sq_Identifier req);
               identifier = (if i = [] then DefaultIdentifier else i);
               path = DefaultAuthorizedKeysPath
           in if identifier \<noteq> DefaultIdentifier then (Inl (400, ''identifier must be cloud@ccvm''), fs)
              else if action = ''ensure''
              then (if trim_space (sq_PublicKey req) = [] then (Inl (400, ''public_key required''), fs)
                    else (let (res, fs') = EnsureAuthorizedKey lib path (sq_PublicKey req) identifier fs
                          in (trust_reply action identifier res, fs')))
              else if action = ''status'' then (trust_reply action identifier (Status lib path identifier fs), fs)
              else if action = ''remove''
              then (let (res, fs') = RemoveAuthorizedKey lib path identifier fs in (trust_reply action identifier res, fs'))
              else (Inl (400, ''action must be ensure, status or remove''), fs)))"

section \<open>White space around lines\<close>

text \<open>The encoding of one white-space character, and the bytes that continue an encoding.\<close>

definition ws :: "string \<Rightarrow> bool" where
  "ws x \<longleftrightarrow> x \<noteq> [] \<and> space_len x = length x"

lemma space_len_bound: "space_len s \<le> 3"
  by (cases s) (auto simp: space_len.simps split: list.splits)

lemma ws_cases:
  "ws x \<Longrightarrow> (\<exists>c. x = [c] \<and> space1 c) \<or> (\<exists>c d. x = [c, d] \<and> \<not> space1 c \<and> space2 c d) \<or> (\<exists>c d e. x = [c, d, e] \<and> \<not> space1 c \<and> \<not> space2 c d \<and> space3 c d e)"
  using space_len_bound [of x]
  by (auto simp: ws_def space_len.simps length_Suc_conv neq_Nil_conv split: list.splits if_splits)

lemma ws_front: "ws x \<Longrightarrow> space_len (x @ s) = length x"
  by (drule ws_cases) (auto simp: space_len.simps)

definition cont :: "char \<Rightarrow> bool" where
  "cont c \<longleftrightarrow> 0x80 \<le> (of_char c :: nat) \<and> (of_char c :: nat) < 0xC0"

lemma space_cont:
  "space1 c \<Longrightarrow> \<not> cont c" "space2 c d \<Longrightarrow> \<not> cont c" "space2 c d \<Longrightarrow> cont d" "space3 c d e \<Longrightarrow> \<not> cont c" "space3 c d e \<Longrightarrow> cont d"
  "space3 c d e \<Longrightarrow> cont e"
  by (auto simp: space1_def space2_def space3_def cont_def)

lemma space_excl:
  "space2 c d \<Longrightarrow> \<not> space1 c \<and> \<not> space1 d"
  "space3 c d e \<Longrightarrow> \<not> space1 c \<and> \<not> space1 d \<and> \<not> space1 e \<and> \<not> space2 c d \<and> \<not> space2 d e"
proof -
  show "\<not> space1 c \<and> \<not> space1 d" if "space2 c d"
    using that space_cont(1,3) by (auto simp: space1_def space2_def)
  assume s: "space3 c d e"
  have "\<not> space1 c" "\<not> space2 c d" using s by (auto simp: space1_def space2_def space3_def)
  then show "\<not> space1 c \<and> \<not> space1 d \<and> \<not> space1 e \<and> \<not> space2 c d \<and> \<not> space2 d e"
    using space_cont(5,6) [OF s] space_cont(1,2) by blast
qed

lemma ws_back: "ws x \<Longrightarrow> space_len_rev (rev x @ s) = length x"
  by (drule ws_cases) (auto simp: space_len_rev.simps dest: space_excl)

lemma ws_take: "space_len s \<noteq> 0 \<Longrightarrow> ws (take (space_len s) s)"
  by (cases s) (auto simp: ws_def space_len.simps split: list.splits if_splits)

lemma ws_take_rev: "space_len_rev s \<noteq> 0 \<Longrightarrow> ws (rev (take (space_len_rev s) s))"
  by (cases s) (auto simp: ws_def space_len.simps space_len_rev.simps split: list.splits if_splits dest: space_excl)

lemma ws_first: "ws x \<Longrightarrow> \<exists>c y. x = c # y \<and> \<not> cont c"
  by (drule ws_cases) (auto dest: space_cont)

lemma ws_sync:
  assumes "ws x" and "s \<noteq> []" and "space_len s = 0"
  shows "space_len (s @ x) = 0"
proof -
  obtain c y where x: "x = c # y" "\<not> cont c" using ws_first [OF assms(1)] by blast
  have no: "\<not> space2 a c" "\<not> space3 a c d" "\<not> space3 a b c" for a b d using x(2) space_cont by blast+
  show ?thesis
    using assms(2,3) no by (cases s) (auto simp: x(1) space_len.simps split: list.splits if_splits)
qed

lemma trim_left_ws: "ws x \<Longrightarrow> trim_left (x @ s) = trim_left s"
proof -
  assume w: "ws x"
  then obtain c y where x: "x = c # y" by (cases x) (auto simp: ws_def)
  have "space_len (c # y @ s) = Suc (length y)" using ws_front [OF w, of s] x by simp
  then show ?thesis by (simp add: x)
qed

lemma trim_rev_ws: "ws x \<Longrightarrow> trim_rev (rev x @ s) = trim_rev s"
proof -
  assume w: "ws x"
  then obtain c y where x: "rev x = c # y" by (cases "rev x") (auto simp: ws_def)
  have "space_len_rev (c # y @ s) = Suc (length y)" using ws_back [OF w, of s] x arg_cong [OF x, of length] by simp
  then show ?thesis by (simp add: x)
qed

lemma trim_left_append_ws: "ws x \<Longrightarrow> trim_left (s @ x) = (if trim_left s = [] then [] else trim_left s @ x)"
proof (induction s rule: trim_left.induct)
  case 1
  then show ?case using trim_left_ws [of x "[]"] by simp
next
  case (2 c s)
  show ?case
  proof (cases "space_len (c # s) = 0")
    case True
    then have "space_len (c # s @ x) = 0" using ws_sync [OF 2(2), of "c # s"] by simp
    with True show ?thesis by simp
  next
    case False
    let ?n = "space_len (c # s)"
    have "ws (take ?n (c # s))" using ws_take [OF False] .
    from ws_front [OF this, of "drop ?n (c # s) @ x"] have n: "space_len (c # s @ x) = ?n"
      using space_len_le [of "c # s"] by (simp add: append_assoc [symmetric] del: append_assoc)
    have "?n - 1 \<le> length s" using space_len_le [of "c # s"] by simp
    with 2(1) [OF False 2(2)] False n show ?thesis by simp
  qed
qed

lemma trim_space_ws: "ws x \<Longrightarrow> trim_space (x @ s) = trim_space s" "ws x \<Longrightarrow> trim_space (s @ x) = trim_space s"
  by (simp_all add: trim_space_def trim_left_ws trim_left_append_ws trim_rev_ws)


text \<open>The entries of a file: its lines without the space around them, blank ones left out.\<close>

definition entries :: "string \<Rightarrow> string list" where
  "entries s = filter (\<lambda>l. l \<noteq> []) (map trim_space (split_on (CHR 10) s))"

text \<open>A text that has the same entries and no longer lines.\<close>

definition tidier :: "string \<Rightarrow> string \<Rightarrow> bool" where
  "tidier s s' \<longleftrightarrow> entries s' = entries s
     \<and> (\<forall>l' \<in> set (split_on (CHR 10) s'). \<not> blank l' \<longrightarrow> (\<exists>l \<in> set (split_on (CHR 10) s). trim_space l' = trim_space l \<and> length l' \<le> length l))"

lemma tidier_refl: "tidier s s"
  by (auto simp: tidier_def)

lemma tidier_trans: "tidier a b \<Longrightarrow> tidier b c \<Longrightarrow> tidier a c"
  unfolding tidier_def by (metis le_trans)

lemma split_on_prefix: "c \<notin> set x \<Longrightarrow> split_on c (x @ s) = (x @ hd (split_on c s)) # tl (split_on c s)"
proof (induction x)
  case (Cons a x)
  then show ?case by (auto split: list.split)
qed simp

lemma split_on_suffix: "c \<notin> set x \<Longrightarrow> split_on c (s @ x) = butlast (split_on c s) @ [last (split_on c s) @ x]"
  by (induction s) (auto simp: split_on_single split: list.splits)

lemma split_on_snoc: "split_on c (s @ [c]) = split_on c s @ [[]]"
  by (induction s) (auto split: list.splits)

lemma ws_newline: "ws x \<Longrightarrow> CHR 10 \<in> set x \<Longrightarrow> x = [CHR 10]"
  by (drule ws_cases) (auto simp: space2_def space3_def)

lemma tidier_front: "ws x \<Longrightarrow> tidier (x @ s) s"
proof (cases "CHR 10 \<in> set x")
  case True
  moreover assume "ws x"
  ultimately have "x = [CHR 10]" using ws_newline by blast
  then show ?thesis by (auto simp: tidier_def entries_def)
next
  case False
  assume w: "ws x"
  obtain y ys where y: "split_on (CHR 10) s = y # ys" by (cases "split_on (CHR 10) s") auto
  then show ?thesis
    by (auto simp: tidier_def entries_def split_on_prefix [OF False] trim_space_ws [OF w])
qed

lemma tidier_back: "ws x \<Longrightarrow> tidier (s @ x) s"
proof (cases "CHR 10 \<in> set x")
  case True
  moreover assume "ws x"
  ultimately have "x = [CHR 10]" using ws_newline by blast
  then show ?thesis by (auto simp: tidier_def entries_def split_on_snoc)
next
  case False
  assume w: "ws x"
  obtain ys y where y: "split_on (CHR 10) s = ys @ [y]" by (cases "split_on (CHR 10) s" rule: rev_cases) auto
  then show ?thesis
    by (auto simp: tidier_def entries_def split_on_suffix [OF False] trim_space_ws [OF w])
qed

lemma tidier_trim_left: "tidier s (trim_left s)"
proof (induction s rule: trim_left.induct)
  case (2 c s)
  let ?n = "space_len (c # s)"
  show ?case
  proof (cases "?n = 0")
    case False
    have "take ?n (c # s) @ drop ?n (c # s) = c # s" by (rule append_take_drop_id)
    moreover have "drop ?n (c # s) = drop (?n - 1) s" using False by (simp add: drop_Cons')
    ultimately have "tidier (c # s) (drop (?n - 1) s)" using tidier_front [OF ws_take [OF False]] by metis
    with 2 False show ?thesis by (auto intro: tidier_trans)
  qed (simp add: tidier_refl)
qed (simp add: tidier_refl)

lemma tidier_trim_rev: "tidier (rev s) (rev (trim_rev s))"
proof (induction s rule: trim_rev.induct)
  case (2 c s)
  let ?n = "space_len_rev (c # s)"
  show ?case
  proof (cases "?n = 0")
    case False
    have "rev (drop ?n (c # s)) @ rev (take ?n (c # s)) = rev (c # s)" by (metis append_take_drop_id rev_append)
    moreover have "drop ?n (c # s) = drop (?n - 1) s" using False by (simp add: drop_Cons')
    ultimately have "tidier (rev (c # s)) (rev (drop (?n - 1) s))" using tidier_back [OF ws_take_rev [OF False]] by metis
    with 2 False show ?thesis by (auto intro: tidier_trans)
  qed (simp add: tidier_refl)
qed (simp add: tidier_refl)

lemma tidier_trim: "tidier s (trim_space s)"
  using tidier_trans [OF tidier_trim_left tidier_trim_rev [of "rev (trim_left s)", simplified]] by (simp add: trim_space_def)

lemma unix_rel:
  "list_all2 (\<lambda>y y'. y' = y \<or> y' = y @ [CHR 13]) (split_on (CHR 10) (unix_lines s)) (split_on (CHR 10) s)"
proof (induction s rule: unix_lines.induct)
  case (1 a b s)
  show ?case
  proof (cases "a = CHR 13 \<and> b = CHR 10")
    case True
    then show ?thesis using 1(1) by simp
  next
    case False
    from 1(2) [OF False] obtain y ys z zs where
      "split_on (CHR 10) (unix_lines (b # s)) = y # ys" "split_on (CHR 10) (b # s) = z # zs" "z = y \<or> z = y @ [CHR 13]"
      "list_all2 (\<lambda>y y'. y' = y \<or> y' = y @ [CHR 13]) ys zs"
      by (cases "split_on (CHR 10) (unix_lines (b # s))"; cases "split_on (CHR 10) (b # s)") (auto simp del: split_on.simps)
    with False show ?thesis by (auto simp del: split_on.simps(2) [of _ b] simp: split_on.simps(2) [of _ a])
  qed
qed (simp_all add: list_all2_same)

lemma tidier_unix: "tidier s (unix_lines s)"
proof -
  have cr: "trim_space (y @ [CHR 13]) = trim_space y" for y
    by (rule trim_space_ws) (simp add: ws_def space_len.simps space1_def)
  have "map trim_space (split_on (CHR 10) (unix_lines s)) = map trim_space (split_on (CHR 10) s)"
    using unix_rel [of s] by (auto simp: list_all2_conv_all_nth cr intro!: nth_equalityI)
  moreover have "\<exists>l \<in> set (split_on (CHR 10) s). trim_space l' = trim_space l \<and> length l' \<le> length l"
    if "l' \<in> set (split_on (CHR 10) (unix_lines s))" for l'
  proof -
    from that obtain i where i: "i < length (split_on (CHR 10) (unix_lines s))" "l' = split_on (CHR 10) (unix_lines s) ! i"
      by (auto simp: in_set_conv_nth)
    let ?l = "split_on (CHR 10) s ! i"
    have "?l \<in> set (split_on (CHR 10) s)" "?l = l' \<or> ?l = l' @ [CHR 13]"
      using list_all2_nthD [OF unix_rel i(1)] list_all2_lengthD [OF unix_rel [of s]] i by auto
    then show ?thesis using cr by (intro bexI [of _ ?l]) auto
  qed
  ultimately show ?thesis by (simp add: tidier_def entries_def)
qed


lemma entries_lines: "entries raw = filter (\<lambda>l. l \<noteq> []) (map trim_space (splitLines raw))"
proof -
  have "tidier raw (trim_space (unix_lines raw))" using tidier_trans [OF tidier_unix tidier_trim] .
  then have "entries raw = entries (trim_space (unix_lines raw))" by (simp add: tidier_def)
  then show ?thesis by (simp add: splitLines_def Let_def entries_def)
qed

lemma splitLines_part:
  assumes "l' \<in> set (splitLines raw)" and "\<not> blank l'"
  shows "\<exists>l \<in> set (split_on (CHR 10) raw). trim_space l' = trim_space l \<and> length l' \<le> length l"
proof -
  have "tidier raw (trim_space (unix_lines raw))" using tidier_trans [OF tidier_unix tidier_trim] .
  with assms show ?thesis by (auto simp: tidier_def splitLines_def Let_def split: if_splits)
qed

lemma splitLines_newline: "l \<in> set (splitLines raw) \<Longrightarrow> CHR 10 \<notin> set l"
  by (auto simp: splitLines_def Let_def dest: split_on_no_sep split: if_splits)

lemma split_written:
  assumes "\<And>l. l \<in> set ls \<Longrightarrow> CHR 10 \<notin> set l"
  shows "split_on (CHR 10) (write_content ls) = ls @ [[]]"
  using split_on_join [of ls "CHR 10"] assms by (simp add: write_content_def split_on_snoc)

lemma entries_join:
  assumes "\<And>l. l \<in> set ls \<Longrightarrow> CHR 10 \<notin> set l"
  shows "entries (join_with [CHR 10] ls) = filter (\<lambda>l. l \<noteq> []) (map trim_space ls)"
    "entries (write_content ls) = filter (\<lambda>l. l \<noteq> []) (map trim_space ls)"
proof -
  have "split_on (CHR 10) (join_with [CHR 10] ls) = ls" if "ls \<noteq> []" using split_on_join [OF that] assms by blast
  then show "entries (join_with [CHR 10] ls) = filter (\<lambda>l. l \<noteq> []) (map trim_space ls)" by (cases "ls = []") (simp_all add: entries_def)
  show "entries (write_content ls) = filter (\<lambda>l. l \<noteq> []) (map trim_space ls)" by (simp add: entries_def split_written assms)
qed

section \<open>The update\<close>

text \<open>
  What the code relies on from the ssh package: the parser cuts its input at the first carriage return
  and ignores white space around a line, so that space around a line without carriage returns does not
  matter to it; it does not take a blank line for a key, and reads back the printed key with a comment;
  a printed key is one line that begins with the name of its type.
\<close>

definition ssh_laws :: "ssh_lib \<Rightarrow> bool" where
  "ssh_laws lib \<longleftrightarrow>
     (\<forall>l. CHR 13 \<notin> set l \<longrightarrow> ssh_parse lib (trim_space l) = ssh_parse lib l) \<and> (\<exists>err. ssh_parse lib [] = Inl err)
     \<and> (\<forall>key. ssh_parse lib (trim_space (ssh_marshal lib key) @ '' '' @ DefaultIdentifier) = Inr (key, DefaultIdentifier))
     \<and> (\<forall>key. CHR 10 \<notin> set (trim_space (ssh_marshal lib key)) \<and> CHR 13 \<notin> set (trim_space (ssh_marshal lib key))
          \<and> (\<exists>c s. trim_space (ssh_marshal lib key) = c # s \<and> 97 \<le> (of_char c :: nat) \<and> (of_char c :: nat) \<le> 122))"

abbreviation managed :: "ssh_lib \<Rightarrow> string \<Rightarrow> bool" where
  "managed lib l \<equiv> line_key lib DefaultIdentifier l \<noteq> None"

text \<open>A text whose carriage returns all stand before line feeds.\<close>

definition plain_lines :: "string \<Rightarrow> bool" where
  "plain_lines raw \<longleftrightarrow> CHR 13 \<notin> set (unix_lines raw)"

lemma set_unix_lines: "set (unix_lines s) \<subseteq> insert (CHR 10) (set s)"
  by (induction s rule: unix_lines.induct) auto

lemma split_on_set: "l \<in> set (split_on c s) \<Longrightarrow> set l \<subseteq> set s"
  by (induction s arbitrary: l) (fastforce split: list.splits if_splits)+

lemma splitLines_plain: "plain_lines raw \<Longrightarrow> l \<in> set (splitLines raw) \<Longrightarrow> CHR 13 \<notin> set l"
  unfolding plain_lines_def splitLines_def Let_def
  using split_on_set [of l "CHR 10" "trim_space (unix_lines raw)"] set_trim_space [of "unix_lines raw"]
  by (auto split: if_splits)

lemma plain_written: "(\<And>l. l \<in> set ls \<Longrightarrow> CHR 13 \<notin> set l) \<Longrightarrow> plain_lines (write_content ls)"
proof -
  assume "\<And>l. l \<in> set ls \<Longrightarrow> CHR 13 \<notin> set l"
  then have "CHR 13 \<notin> set (join_with [CHR 10] ls)" by (induction ls rule: induct_list012) auto
  then show ?thesis using set_unix_lines [of "write_content ls"] by (auto simp: plain_lines_def write_content_def)
qed

lemma update_lines_facts:
  assumes "rm \<or> line_key lib idf nm = Some key" and "\<And>l. CHR 13 \<notin> set l \<Longrightarrow> line_key lib idf (trim_space l) = line_key lib idf l"
  shows "update_lines lib idf nm rm u f ls = (out, u', f') \<Longrightarrow> \<forall>l \<in> set ls. CHR 13 \<notin> set l \<Longrightarrow>
     filter (\<lambda>l. line_key lib idf l = None) out = filter (\<lambda>l. line_key lib idf l = None) ls \<and> set out \<subseteq> insert nm (set ls)
     \<and> filter (\<lambda>l. line_key lib idf l \<noteq> None) out = (if u' \<and> \<not> u then [nm] else [])
     \<and> (u \<longrightarrow> u') \<and> (rm \<longrightarrow> u' = u) \<and> (f' = f \<or> f' = ssh_fingerprint lib key)"
proof (induction ls arbitrary: u f out u' f')
  case (Cons l ls)
  show ?case
  proof (cases "line_key lib idf l")
    case None
    then obtain out1 where o: "update_lines lib idf nm rm u f ls = (out1, u', f')" "out = l # out1"
      using Cons.prems by (auto split: prod.splits)
    with Cons.IH [OF o(1)] Cons.prems(2) None show ?thesis by auto
  next
    case (Some k)
    show ?thesis
    proof (cases "\<not> rm \<and> trim_space l = nm \<and> \<not> u")
      case True
      then obtain out1 where o: "update_lines lib idf nm rm True (ssh_fingerprint lib k) ls = (out1, u', f')" "out = nm # out1"
        using Cons.prems Some by (auto split: prod.splits)
      have "line_key lib idf nm = Some k" using True Some assms(2) [of l] Cons.prems(2) by simp
      with Cons.IH [OF o(1)] o(2) Some True assms(1) Cons.prems(2) show ?thesis by auto
    next
      case False
      then have o: "update_lines lib idf nm rm u f ls = (out, u', f')" using Cons.prems Some by (auto split: if_splits)
      show ?thesis using Cons.IH [OF o] Cons.prems(2) Some by auto
    qed
  qed
qed simp

definition key_content :: "string \<Rightarrow> key_files \<Rightarrow> string" where
  "key_content path fs = (case kf_files fs path of None \<Rightarrow> [] | Some s \<Rightarrow> s)"

definition key_line :: "ssh_lib \<Rightarrow> ssh_key \<Rightarrow> string" where
  "key_line lib key = trim_space (ssh_marshal lib key) @ '' '' @ DefaultIdentifier"

lemma identifier_trimmed: "trim_space DefaultIdentifier = DefaultIdentifier" "normalizeIdentifier DefaultIdentifier = DefaultIdentifier"
  by code_simp+

lemma line_key_trim: "ssh_laws lib \<Longrightarrow> CHR 13 \<notin> set l \<Longrightarrow> line_key lib idf (trim_space l) = line_key lib idf l"
  by (simp add: line_key_def ssh_laws_def)

lemma line_key_blank: "ssh_laws lib \<Longrightarrow> line_key lib idf [] = None"
  by (auto simp: line_key_def ssh_laws_def)

lemma blank_unmanaged: "ssh_laws lib \<Longrightarrow> CHR 13 \<notin> set l \<Longrightarrow> blank l \<Longrightarrow> line_key lib idf l = None"
  using line_key_trim [of lib l idf] line_key_blank [of lib idf] by simp

lemma key_line_facts:
  assumes "ssh_laws lib"
  shows "line_key lib DefaultIdentifier (key_line lib key) = Some key" "CHR 10 \<notin> set (key_line lib key)"
    "trim_space (key_line lib key) = key_line lib key" "CHR 13 \<notin> set (key_line lib key)"
proof -
  obtain c s where c: "trim_space (ssh_marshal lib key) = c # s" "97 \<le> (of_char c :: nat)" "(of_char c :: nat) \<le> 122"
      "CHR 10 \<notin> set (trim_space (ssh_marshal lib key))" "CHR 13 \<notin> set (trim_space (ssh_marshal lib key))"
      "ssh_parse lib (trim_space (ssh_marshal lib key) @ '' '' @ DefaultIdentifier) = Inr (key, DefaultIdentifier)"
    using assms unfolding ssh_laws_def by metis
  show "line_key lib DefaultIdentifier (key_line lib key) = Some key"
    using c(6) by (simp add: line_key_def key_line_def identifier_trimmed)
  show "CHR 10 \<notin> set (key_line lib key)" "CHR 13 \<notin> set (key_line lib key)"
    using c(4,5) by (simp_all add: key_line_def DefaultIdentifier_def)
  have "\<not> space1 c" "\<not> space2 c d" "\<not> space3 c d e" for d e using c(2,3) by (auto simp: space1_def space2_def space3_def)
  then have "space_len (key_line lib key) = 0" using c(1) by (auto simp: key_line_def space_len.simps split: list.split)
  moreover have "space_len_rev (rev (key_line lib key)) = 0"
    by (simp add: key_line_def DefaultIdentifier_def space_len_rev.simps space1_def space2_def space3_def)
  ultimately show "trim_space (key_line lib key) = key_line lib key" by (rule trim_space_id)
qed

lemma filter_entries:
  assumes "ssh_laws lib" and "\<And>l. l \<in> set ls \<Longrightarrow> CHR 13 \<notin> set l"
  shows "filter (\<lambda>l. line_key lib idf l \<noteq> None) (filter (\<lambda>l. l \<noteq> []) (map trim_space ls)) = map trim_space (filter (\<lambda>l. line_key lib idf l \<noteq> None) ls)"
    "filter (\<lambda>l. line_key lib idf l = None) (filter (\<lambda>l. l \<noteq> []) (map trim_space ls)) =
       filter (\<lambda>l. l \<noteq> []) (map trim_space (filter (\<lambda>l. line_key lib idf l = None) ls))"
  using assms(2) line_key_trim [OF assms(1)] blank_unmanaged [OF assms(1)] by (induction ls) auto

text \<open>One successful update: the entries of the file, those with the identifier and the others.\<close>

lemma update_spec:
  assumes laws: "ssh_laws lib" and upd: "updateAuthorizedKeys lib path DefaultIdentifier nm fp rm fs = (Inr res, fs')"
    and key: "rm \<and> nm = [] \<or> \<not> rm \<and> nm = key_line lib key \<and> fp = ssh_fingerprint lib key"
    and plain: "plain_lines (key_content path fs)"
  shows "filter (\<lambda>l. \<not> managed lib l) (entries (key_content path fs')) = filter (\<lambda>l. \<not> managed lib l) (entries (key_content path fs))"
    "filter (managed lib) (entries (key_content path fs')) = (if rm then [] else [nm])"
    "tr_Present res = (\<not> rm)" "\<not> rm \<Longrightarrow> tr_Fingerprint res = ssh_fingerprint lib key"
    "kf_unreadable fs' = kf_unreadable fs"
    "fs' = fs \<and> \<not> tr_Changed res \<or> (\<exists>out. kf_files fs' path = Some (write_content out) \<and> filter (managed lib) out = (if rm then [] else [nm])
       \<and> (\<forall>l \<in> set out. CHR 10 \<notin> set l \<and> CHR 13 \<notin> set l))"
    "plain_lines (key_content path fs')"
proof -
  let ?lines = "splitLines (key_content path fs)"
  obtain kept u f' where k: "update_lines lib DefaultIdentifier nm rm False fp ?lines = (kept, u, f')"
    by (cases "update_lines lib DefaultIdentifier nm rm False fp ?lines")
  define out where "out = (if \<not> rm \<and> \<not> u then kept @ [nm] else kept)"
  have nmk: "rm \<or> line_key lib DefaultIdentifier nm = Some key" using key key_line_facts(1) [OF laws] by blast
  have plain_ls: "CHR 13 \<notin> set l" if "l \<in> set ?lines" for l using splitLines_plain [OF plain that] .
  note facts = update_lines_facts [OF nmk line_key_trim [OF laws] k ballI [OF plain_ls]]
  have fs': "fs' = fs \<and> join_with [CHR 10] ?lines = join_with [CHR 10] out \<or> fs' = fs\<lparr>kf_files := (kf_files fs)(path \<mapsto> write_content out)\<rparr>"
    and res: "tr_Present res = (\<not> rm)" "tr_Fingerprint res = f'"
    using upd k unfolding updateAuthorizedKeys_def read_keys_def key_content_def writeAuthorizedKeysAtomic_def out_def
    by (auto simp: Let_def splitLines_def split: option.splits if_splits)
  have from_lines: "l = nm \<or> l \<in> set ?lines" if "l \<in> set out" for l
    using that facts by (auto simp: out_def split: if_splits)
  have "CHR 10 \<notin> set nm" "CHR 13 \<notin> set nm" using key key_line_facts(2,4) [OF laws] by auto
  then have nonl: "CHR 10 \<notin> set l" and nocr: "CHR 13 \<notin> set l" if "l \<in> set out" for l
    using from_lines [OF that] splitLines_newline plain_ls by blast+
  have ent: "entries (key_content path fs') = filter (\<lambda>l. l \<noteq> []) (map trim_space out)"
    using fs'
  proof
    assume "fs' = fs \<and> join_with [CHR 10] ?lines = join_with [CHR 10] out"
    moreover have "entries (key_content path fs) = entries (join_with [CHR 10] ?lines)"
      using entries_join(1) [OF splitLines_newline] entries_lines by simp
    ultimately show ?thesis using entries_join(1) [OF nonl] by simp
  next
    assume "fs' = fs\<lparr>kf_files := (kf_files fs)(path \<mapsto> write_content out)\<rparr>"
    then show ?thesis using entries_join(2) [OF nonl] by (simp add: key_content_def)
  qed
  have out: "filter (\<lambda>l. line_key lib DefaultIdentifier l = None) out = filter (\<lambda>l. line_key lib DefaultIdentifier l = None) ?lines"
    "filter (\<lambda>l. line_key lib DefaultIdentifier l \<noteq> None) out = (if rm then [] else [nm])"
    using facts nmk by (auto simp: out_def)
  show "filter (\<lambda>l. \<not> managed lib l) (entries (key_content path fs')) = filter (\<lambda>l. \<not> managed lib l) (entries (key_content path fs))"
    unfolding ent entries_lines [of "key_content path fs"] by (simp only: not_not filter_entries(2) [OF laws nocr] filter_entries(2) [OF laws plain_ls] out)
  show "filter (managed lib) (entries (key_content path fs')) = (if rm then [] else [nm])"
    using key key_line_facts(3) [OF laws] unfolding ent
    by (auto simp: filter_entries(1) [OF laws nocr, simplified] out [simplified])
  show "tr_Present res = (\<not> rm)" by (rule res)
  show "tr_Fingerprint res = ssh_fingerprint lib key" if "\<not> rm" using that res facts key by auto
  show "kf_unreadable fs' = kf_unreadable fs" using fs' by auto
  show "fs' = fs \<and> \<not> tr_Changed res \<or> (\<exists>out. kf_files fs' path = Some (write_content out) \<and> filter (managed lib) out = (if rm then [] else [nm])
     \<and> (\<forall>l \<in> set out. CHR 10 \<notin> set l \<and> CHR 13 \<notin> set l))"
  proof (cases "tr_Changed res")
    case True
    then have "kf_files fs' path = Some (write_content out)"
      using upd k unfolding updateAuthorizedKeys_def read_keys_def key_content_def writeAuthorizedKeysAtomic_def out_def
      by (auto simp: Let_def splitLines_def split: option.splits if_splits)
    then show ?thesis using out(2) nonl nocr by auto
  next
    case False
    then have "fs' = fs"
      using upd k unfolding updateAuthorizedKeys_def read_keys_def key_content_def writeAuthorizedKeysAtomic_def out_def
      by (auto simp: Let_def splitLines_def split: option.splits if_splits)
    with False show ?thesis by simp
  qed
  show "plain_lines (key_content path fs')"
    using fs' plain plain_written [of out] nocr by (auto simp: key_content_def)
qed


lemma status_entries:
  assumes "ssh_laws lib" and "plain_lines raw"
  shows "List.map_filter (line_key lib idf) (splitLines raw) = List.map_filter (line_key lib idf) (filter (\<lambda>l. line_key lib idf l \<noteq> None) (entries raw))"
proof -
  have "List.map_filter (line_key lib idf) ls = List.map_filter (line_key lib idf) (map trim_space (filter (\<lambda>l. line_key lib idf l \<noteq> None) ls))"
    if "\<And>l. l \<in> set ls \<Longrightarrow> CHR 13 \<notin> set l" for ls
    using that line_key_trim [OF assms(1)] by (induction ls) (auto simp: List.map_filter_simps split: option.split)
  then show ?thesis unfolding entries_lines using splitLines_plain [OF assms(2)] filter_entries(1) [OF assms(1)] by simp
qed

lemma status_spec:
  assumes "ssh_laws lib" and "kf_unreadable fs path = None" and "plain_lines (key_content path fs)"
  shows "Status lib path DefaultIdentifier fs =
     (case List.map_filter (line_key lib DefaultIdentifier) (filter (managed lib) (entries (key_content path fs))) of
        [] \<Rightarrow> Inr no_trust
      | key # _ \<Rightarrow> Inr \<lparr>tr_Present = True, tr_Changed = False, tr_Fingerprint = ssh_fingerprint lib key\<rparr>)"
proof (cases "kf_files fs path")
  case None
  moreover have "entries [] = []" by (simp add: entries_def)
  ultimately show ?thesis by (simp add: Status_def read_keys_def key_content_def List.map_filter_simps)
next
  case (Some raw)
  then show ?thesis
    using assms(2,3) status_entries [OF assms(1), of raw DefaultIdentifier] by (simp add: Status_def read_keys_def key_content_def identifier_trimmed)
qed

text \<open>A file whose only line with the identifier is the key's line, unpadded, is left alone.\<close>

lemma update_lines_same:
  assumes "\<And>l. l \<in> set ls \<Longrightarrow> managed lib l \<Longrightarrow> l = key_line lib key" and "ssh_laws lib"
    and "length (filter (managed lib) ls) + (if u then 1 else 0) = 1"
  shows "fst (update_lines lib DefaultIdentifier (key_line lib key) False u f ls) = ls \<and> fst (snd (update_lines lib DefaultIdentifier (key_line lib key) False u f ls))"
  using assms
proof (induction ls arbitrary: u f)
  case (Cons l ls)
  show ?case
  proof (cases "line_key lib DefaultIdentifier l")
    case None
    then show ?thesis using Cons.IH [of u f] Cons.prems by (auto simp: split_beta Let_def)
  next
    case (Some k)
    then have l: "l = key_line lib key" "\<not> u" using Cons.prems(1) [of l] Cons.prems(3) by (auto split: if_splits)
    then show ?thesis
      using Cons.IH [of True "ssh_fingerprint lib k"] Cons.prems Some key_line_facts(3) [OF assms(2)] by (auto simp: split_beta Let_def)
  qed
qed (auto split: if_splits)


lemma trim_space_length: "length l \<le> length (trim_space l) \<Longrightarrow> trim_space l = l"
proof -
  assume h: "length l \<le> length (trim_space l)"
  obtain k n where t: "trim_space l = take n (drop k l)" using trim_space_part by blast
  then show ?thesis using h by (cases l; cases k) auto
qed

lemma reread_line:
  assumes laws: "ssh_laws lib" and out: "filter (managed lib) out = [key_line lib key]" and nonl: "\<forall>l \<in> set out. CHR 10 \<notin> set l \<and> CHR 13 \<notin> set l"
    and l: "l \<in> set (splitLines (write_content out))" "managed lib l"
  shows "l = key_line lib key"
proof -
  have cr: "CHR 13 \<notin> set l" using splitLines_plain [OF plain_written l(1)] nonl by blast
  then have "\<not> blank l" using blank_unmanaged [OF laws, of l DefaultIdentifier] l(2) by auto
  then obtain x where x: "x \<in> set (out @ [[]])" "trim_space l = trim_space x" "length l \<le> length x"
    using splitLines_part [OF l(1)] split_written [of out] nonl by auto
  have "CHR 13 \<notin> set x" using x(1) nonl by auto
  with cr have "managed lib x" using l(2) x(2) line_key_trim [OF laws] by metis
  then have "x \<in> set (filter (managed lib) out)" using x(1) line_key_blank [OF laws] by auto
  then have "x = key_line lib key" by (simp only: out) simp
  then show ?thesis using x key_line_facts(3) [OF laws] trim_space_length [of l] by metis
qed

lemma update_again:
  assumes laws: "ssh_laws lib" and readable: "kf_unreadable fs path = None"
    and upd: "updateAuthorizedKeys lib path DefaultIdentifier (key_line lib key) (ssh_fingerprint lib key) False fs = (Inr res, fs')"
    and plain: "plain_lines (key_content path fs)"
  shows "\<exists>res'. updateAuthorizedKeys lib path DefaultIdentifier (key_line lib key) (ssh_fingerprint lib key) False fs' = (Inr res', fs') \<and> \<not> tr_Changed res'"
proof -
  note spec = update_spec [OF laws upd _ plain, of key, simplified]
  consider "fs' = fs" "\<not> tr_Changed res"
    | out where "kf_files fs' path = Some (write_content out)" "filter (managed lib) out = [key_line lib key]" "\<forall>l \<in> set out. CHR 10 \<notin> set l \<and> CHR 13 \<notin> set l"
    using spec(6) by auto
  then show ?thesis
  proof cases
    case 1
    with upd show ?thesis by blast
  next
    case 2
    let ?ls = "splitLines (write_content out)"
    have c: "key_content path fs' = write_content out" using 2(1) by (simp add: key_content_def)
    have "map trim_space (filter (managed lib) ?ls) = [key_line lib key]"
      using spec(2) filter_entries(1) [OF laws splitLines_plain] spec(7) unfolding c entries_lines [of "write_content out"] by simp
    then have "length (filter (managed lib) ?ls) = 1" using arg_cong [of _ _ length] by fastforce
    then have same: "fst (update_lines lib DefaultIdentifier (key_line lib key) False False (ssh_fingerprint lib key) ?ls) = ?ls"
        "fst (snd (update_lines lib DefaultIdentifier (key_line lib key) False False (ssh_fingerprint lib key) ?ls))"
      using update_lines_same [of ?ls lib key False] reread_line [OF laws 2(2,3)] laws by auto
    have "kf_unreadable fs' path = None" using spec(5) readable by simp
    with 2(1) same show ?thesis
      by (auto simp: updateAuthorizedKeys_def read_keys_def Let_def split_beta)
  qed
qed


text \<open>What a request to ensure or to remove comes down to, on any files.\<close>

lemma ensure_request:
  assumes "SSHTrust lib (Some req) fs = (Inr resp, fs')" and "sr_Action resp = ''ensure''"
  shows "\<exists>key c. ssh_parse lib (trim_space (sq_PublicKey req)) = Inr (key, c)
     \<and> (\<forall>fs. SSHTrust lib (Some req) fs =
          (let (res, fs') = updateAuthorizedKeys lib DefaultAuthorizedKeysPath DefaultIdentifier (key_line lib key) (ssh_fingerprint lib key) False fs
           in (trust_reply ''ensure'' DefaultIdentifier res, fs')))"
proof -
  have a: "(if to_lower (trim_space (sq_Action req)) = [] then ''ensure'' else to_lower (trim_space (sq_Action req))) = ''ensure''"
      "(if trim_space (sq_Identifier req) = [] then DefaultIdentifier else trim_space (sq_Identifier req)) = DefaultIdentifier"
      "trim_space (sq_PublicKey req) \<noteq> []"
    using assms by (auto simp: SSHTrust_def Let_def trust_reply_def split: if_splits sum.splits prod.splits)
  obtain key c where k: "ssh_parse lib (trim_space (sq_PublicKey req)) = Inr (key, c)"
    using assms a
    by (auto simp: SSHTrust_def Let_def trust_reply_def EnsureAuthorizedKey_def NormalizePublicKey_def split: sum.splits prod.splits)
  have "SSHTrust lib (Some req) fs =
      (let (res, fs') = updateAuthorizedKeys lib DefaultAuthorizedKeysPath DefaultIdentifier (key_line lib key) (ssh_fingerprint lib key) False fs
       in (trust_reply ''ensure'' DefaultIdentifier res, fs'))" for fs
    using a k by (simp add: SSHTrust_def Let_def EnsureAuthorizedKey_def NormalizePublicKey_def identifier_trimmed key_line_def)
  with k show ?thesis by blast
qed

section \<open>Properties\<close>

text \<open>
  C29. Registering a key: afterwards the file has exactly one entry with the identifier, the printed key;
  the other entries are the same, in the same order; a status request reports the key's fingerprint;
  and the same request again changes nothing. The file has carriage returns only before line feeds.
\<close>

theorem trust_ensured:
  assumes "ssh_laws lib" and "kf_unreadable fs DefaultAuthorizedKeysPath = None" and "plain_lines (key_content DefaultAuthorizedKeysPath fs)"
    and "SSHTrust lib (Some req) fs = (Inr resp, fs')" and "sr_Action resp = ''ensure''"
  shows "\<exists>key c again. ssh_parse lib (trim_space (sq_PublicKey req)) = Inr (key, c)
     \<and> filter (managed lib) (entries (key_content DefaultAuthorizedKeysPath fs')) = [key_line lib key]
     \<and> filter (\<lambda>l. \<not> managed lib l) (entries (key_content DefaultAuthorizedKeysPath fs'))
         = filter (\<lambda>l. \<not> managed lib l) (entries (key_content DefaultAuthorizedKeysPath fs))
     \<and> Status lib DefaultAuthorizedKeysPath DefaultIdentifier fs'
         = Inr \<lparr>tr_Present = True, tr_Changed = False, tr_Fingerprint = ssh_fingerprint lib key\<rparr>
     \<and> sr_Present resp \<and> sr_Fingerprint resp = ssh_fingerprint lib key
     \<and> SSHTrust lib (Some req) fs' = (Inr again, fs') \<and> \<not> sr_Changed again"
proof -
  let ?p = DefaultAuthorizedKeysPath
  obtain key c where k: "ssh_parse lib (trim_space (sq_PublicKey req)) = Inr (key, c)"
      "\<And>fs. SSHTrust lib (Some req) fs =
          (let (res, fs') = updateAuthorizedKeys lib ?p DefaultIdentifier (key_line lib key) (ssh_fingerprint lib key) False fs
           in (trust_reply ''ensure'' DefaultIdentifier res, fs'))"
    using ensure_request [OF assms(4,5)] by blast
  obtain res where u: "updateAuthorizedKeys lib ?p DefaultIdentifier (key_line lib key) (ssh_fingerprint lib key) False fs = (Inr res, fs')"
      "sr_Present resp = tr_Present res" "sr_Fingerprint resp = tr_Fingerprint res"
    using assms(4) unfolding k(2) by (auto simp: trust_reply_def Let_def split: prod.splits sum.splits)
  have spec: "filter (managed lib) (entries (key_content ?p fs')) = [key_line lib key]"
      "filter (\<lambda>l. \<not> managed lib l) (entries (key_content ?p fs')) = filter (\<lambda>l. \<not> managed lib l) (entries (key_content ?p fs))"
      "tr_Present res" "tr_Fingerprint res = ssh_fingerprint lib key" "kf_unreadable fs' ?p = None" "plain_lines (key_content ?p fs')"
    using update_spec [OF assms(1) u(1) _ assms(3), of key] assms(2) by simp_all
  have "Status lib ?p DefaultIdentifier fs' = Inr \<lparr>tr_Present = True, tr_Changed = False, tr_Fingerprint = ssh_fingerprint lib key\<rparr>"
    unfolding status_spec [OF assms(1) spec(5,6)] spec(1) by (simp add: List.map_filter_simps key_line_facts [OF assms(1)])
  moreover obtain again where "SSHTrust lib (Some req) fs' = (Inr again, fs')" "\<not> sr_Changed again"
    using update_again [OF assms(1,2) u(1) assms(3)] unfolding k(2) by (auto simp: trust_reply_def)
  ultimately show ?thesis using k(1) spec u by metis
qed

text \<open>
  Removing: afterwards no entry carries the identifier, the other entries are the same, in the same
  order, and a status request reports no key.
\<close>

theorem trust_removed:
  assumes "ssh_laws lib" and "kf_unreadable fs DefaultAuthorizedKeysPath = None" and "plain_lines (key_content DefaultAuthorizedKeysPath fs)"
    and "SSHTrust lib (Some req) fs = (Inr resp, fs')" and "sr_Action resp = ''remove''"
  shows "entries (key_content DefaultAuthorizedKeysPath fs') = filter (\<lambda>l. \<not> managed lib l) (entries (key_content DefaultAuthorizedKeysPath fs))
     \<and> Status lib DefaultAuthorizedKeysPath DefaultIdentifier fs' = Inr no_trust \<and> \<not> sr_Present resp"
proof -
  let ?p = DefaultAuthorizedKeysPath
  obtain res where u: "updateAuthorizedKeys lib ?p DefaultIdentifier [] [] True fs = (Inr res, fs')" "sr_Present resp = tr_Present res"
    using assms(4,5)
    by (auto simp: SSHTrust_def Let_def trust_reply_def RemoveAuthorizedKey_def identifier_trimmed split: if_splits sum.splits prod.splits)
  have spec: "filter (managed lib) (entries (key_content ?p fs')) = []"
      "filter (\<lambda>l. \<not> managed lib l) (entries (key_content ?p fs')) = filter (\<lambda>l. \<not> managed lib l) (entries (key_content ?p fs))"
      "\<not> tr_Present res" "kf_unreadable fs' ?p = None" "plain_lines (key_content ?p fs')"
    using update_spec [OF assms(1) u(1) _ assms(3)] assms(2) by simp_all
  have "filter (\<lambda>l. \<not> managed lib l) (entries (key_content ?p fs')) = entries (key_content ?p fs')"
    using spec(1) by (auto simp: filter_empty_conv filter_id_conv)
  moreover have "Status lib ?p DefaultIdentifier fs' = Inr no_trust"
    unfolding status_spec [OF assms(1) spec(4,5)] spec(1) by (simp add: List.map_filter_simps)
  ultimately show ?thesis using spec u by simp
qed


section \<open>Samples\<close>

text \<open>A library that satisfies the laws: a key is printed as letters, two for each byte.\<close>

definition hex_pair :: "char \<Rightarrow> string" where
  "hex_pair c = [char_of (97 + (of_char c :: nat) div 16), char_of (97 + (of_char c :: nat) mod 16)]"

fun unhex :: "string \<Rightarrow> string" where
  "unhex (a # b # s) = char_of (((of_char a :: nat) - 97) * 16 + ((of_char b :: nat) - 97)) # unhex s"
| "unhex s = []"

definition sample_ssh :: ssh_lib where
  "sample_ssh =
     \<lparr>ssh_parse = (\<lambda>l. let t = trim_space l
        in if has_prefix t ''k'' \<and> has_suffix t '' cloud@ccvm''
           then Inr (unhex (take (length t - 12) (drop 1 t)), DefaultIdentifier) else Inl ''no key''),
      ssh_marshal = (\<lambda>key. ''k'' @ concat (map hex_pair key) @ [CHR 10]), ssh_fingerprint = (\<lambda>key. ''SHA256:'' @ key)\<rparr>"

lemma unhex_pairs: "unhex (concat (map hex_pair key)) = key"
proof (induction key)
  case (Cons c key)
  have "(of_char c :: nat) < 256" by simp
  then have "(of_char c :: nat) div 16 < 16" using less_mult_imp_div_less [of "of_char c :: nat" 16 16] by simp
  then show ?case using Cons by (simp add: hex_pair_def of_char_of)
qed simp

lemma hex_letters: "c \<in> set (concat (map hex_pair key)) \<Longrightarrow> 97 \<le> (of_char c :: nat) \<and> (of_char c :: nat) \<le> 122"
proof -
  have "97 \<le> (of_char c :: nat) \<and> (of_char c :: nat) \<le> 122" if "c \<in> set (hex_pair d)" for d
  proof -
    have "(of_char d :: nat) < 256" by simp
    then have "(of_char d :: nat) div 16 < 16" using less_mult_imp_div_less [of "of_char d :: nat" 16 16] by simp
    then show ?thesis using that by (auto simp: hex_pair_def of_char_of)
  qed
  then show "c \<in> set (concat (map hex_pair key)) \<Longrightarrow> 97 \<le> (of_char c :: nat) \<and> (of_char c :: nat) \<le> 122" by auto
qed

lemma letter_not_space:
  assumes "97 \<le> (of_char c :: nat)" and "(of_char c :: nat) \<le> 122"
  shows "space_len (c # s) = 0" "space_len_rev (c # s) = 0"
proof -
  have "\<not> space1 c" "\<not> space2 c d" "\<not> space3 c d e" "\<not> space2 d c" "\<not> space3 d e c" for d e
    using assms by (auto simp: space1_def space2_def space3_def)
  then show "space_len (c # s) = 0" "space_len_rev (c # s) = 0"
    by (auto simp: space_len.simps space_len_rev.simps split: list.split)
qed

lemma sample_marshal: "trim_space (ssh_marshal sample_ssh key) = ''k'' @ concat (map hex_pair key)"
proof -
  let ?x = "''k'' @ concat (map hex_pair key)"
  obtain c s where r: "rev ?x = c # s" by (cases "rev ?x") auto
  then have "c \<in> set ?x" by (metis list.set_intros(1) set_rev)
  then have "97 \<le> (of_char c :: nat) \<and> (of_char c :: nat) \<le> 122" using hex_letters [of c key] by auto
  then have "space_len_rev (rev ?x) = 0" using letter_not_space(2) unfolding r by blast
  moreover have "space_len ?x = 0" using letter_not_space(1) [of "CHR ''k''"] by simp
  ultimately have "trim_space ?x = ?x" by (rule trim_space_id [rotated])
  moreover have "ws [CHR 10]" by (simp add: ws_def space_len.simps space1_def)
  ultimately show ?thesis using trim_space_ws(2) [of "[CHR 10]" ?x] by (simp add: sample_ssh_def)
qed

lemma sample_laws: "ssh_laws sample_ssh"
proof -
  have read: "ssh_parse sample_ssh (''k'' @ concat (map hex_pair key) @ '' '' @ DefaultIdentifier) = Inr (key, DefaultIdentifier)" for key
  proof -
    let ?t = "''k'' @ concat (map hex_pair key) @ '' '' @ DefaultIdentifier"
    have "space_len ?t = 0" using letter_not_space(1) [of "CHR ''k''"] by simp
    moreover have "space_len_rev (rev ?t) = 0" using letter_not_space(2) [of "CHR ''m''"] by (simp add: DefaultIdentifier_def)
    ultimately have "trim_space ?t = ?t" by (rule trim_space_id)
    then show ?thesis by (simp add: sample_ssh_def Let_def has_prefix_def has_suffix_def DefaultIdentifier_def unhex_pairs)
  qed
  have "CHR 10 \<notin> set (concat (map hex_pair key))" "CHR 13 \<notin> set (concat (map hex_pair key))" for key
    using hex_letters [of "CHR 10" key] hex_letters [of "CHR 13" key] by auto
  then show ?thesis
    using read unfolding ssh_laws_def sample_marshal
    by (auto simp: sample_ssh_def Let_def has_prefix_def)
qed

definition sample_files :: key_files where
  "sample_files =
     \<lparr>kf_files = [DefaultAuthorizedKeysPath \<mapsto> ''ssh-rsa AAAA admin'' @ [CHR 10] @ ''kab cloud@ccvm'' @ [CHR 10]], kf_unreadable = (\<lambda>_. None), kf_readonly = (\<lambda>_. None)\<rparr>"

definition sample_trust :: "string \<Rightarrow> SSHTrustRequest" where
  "sample_trust action = \<lparr>sq_Action = action, sq_PublicKey = ''kcd cloud@ccvm'', sq_Identifier = []\<rparr>"

lemma sample_ensure: "\<exists>resp fs'. SSHTrust sample_ssh (Some (sample_trust ''ensure'')) sample_files = (Inr resp, fs') \<and> sr_Action resp = ''ensure''"
proof -
  have "(case fst (SSHTrust sample_ssh (Some (sample_trust ''ensure'')) sample_files) of Inl _ \<Rightarrow> False | Inr resp \<Rightarrow> sr_Action resp = ''ensure'')"
    by code_simp
  then show ?thesis by (auto split: sum.splits simp: prod_eq_iff)
qed

lemma sample_remove: "\<exists>resp fs'. SSHTrust sample_ssh (Some (sample_trust ''remove'')) sample_files = (Inr resp, fs') \<and> sr_Action resp = ''remove''"
proof -
  have "(case fst (SSHTrust sample_ssh (Some (sample_trust ''remove'')) sample_files) of Inl _ \<Rightarrow> False | Inr resp \<Rightarrow> sr_Action resp = ''remove'')"
    by code_simp
  then show ?thesis by (auto split: sum.splits simp: prod_eq_iff)
qed

theorem trust_ensured_witness:
  "\<exists>resp fs' key. SSHTrust sample_ssh (Some (sample_trust ''ensure'')) sample_files = (Inr resp, fs')
     \<and> filter (managed sample_ssh) (entries (key_content DefaultAuthorizedKeysPath fs')) = [key_line sample_ssh key]"
proof -
  obtain resp fs' where s: "SSHTrust sample_ssh (Some (sample_trust ''ensure'')) sample_files = (Inr resp, fs')" "sr_Action resp = ''ensure''"
    using sample_ensure by blast
  have "kf_unreadable sample_files DefaultAuthorizedKeysPath = None" "plain_lines (key_content DefaultAuthorizedKeysPath sample_files)"
    by code_simp+
  from trust_ensured [OF sample_laws this s] s(1) show ?thesis by blast
qed

theorem trust_removed_witness:
  "\<exists>resp fs'. SSHTrust sample_ssh (Some (sample_trust ''remove'')) sample_files = (Inr resp, fs')
     \<and> Status sample_ssh DefaultAuthorizedKeysPath DefaultIdentifier fs' = Inr no_trust"
proof -
  obtain resp fs' where s: "SSHTrust sample_ssh (Some (sample_trust ''remove'')) sample_files = (Inr resp, fs')" "sr_Action resp = ''remove''"
    using sample_remove by blast
  have "kf_unreadable sample_files DefaultAuthorizedKeysPath = None" "plain_lines (key_content DefaultAuthorizedKeysPath sample_files)"
    by code_simp+
  from trust_removed [OF sample_laws this s] s(1) show ?thesis by blast
qed

end
