(* ===== verification/Bootstrap_Execute.thy ===== *)
theory Bootstrap_Execute
  imports Bootstrap_Jobs Mold_Client Ssh_Trust
begin

text \<open>
  The steps of a bootstrap: \<^verbatim>\<open>internal/service/moldservice/bootstrap_execute.go\<close>. A runtime holds
  the request, the client, the session, the ids found so far and the network; a step is a function
  of the runtime that yields a result and the runtime it leaves. Every early return of the source is
  the left case of a sum. The context is the background context the job handler passes, which is
  never cancelled. The ssh commands and the calls to the hosts' own API are arguments.
\<close>

section \<open>Runtime\<close>

record 'c runtime =
  x_req :: BootstrapRequest
  x_client :: "Client option"
  x_session :: Session
  x_endpoint :: string
  x_ccvmIP :: string
  x_zoneID :: string
  x_physicalNetworkID :: string
  x_podID :: string
  x_clusterID :: string
  x_primaryStorageID :: string
  x_secondaryStorageID :: string
  x_secondaryStagingStoreID :: string
  x_net :: "'c net"

definition no_session :: Session where
  "no_session = \<lparr>se_Endpoint = [], se_CCVMIP = [], se_SessionKey = [], se_LoginResponse = fmempty\<rparr>"

definition NewBootstrapRuntime :: "BootstrapRequest \<Rightarrow> 'c net \<Rightarrow> 'c runtime" where
  "NewBootstrapRuntime req k =
     \<lparr>x_req = NormalizeBootstrapRequest req, x_client = None, x_session = no_session, x_endpoint = [], x_ccvmIP = [], x_zoneID = [],
      x_physicalNetworkID = [], x_podID = [], x_clusterID = [], x_primaryStorageID = [], x_secondaryStorageID = [],
      x_secondaryStagingStoreID = [], x_net = k\<rparr>"

record moldHostTrustTarget =
  ht_Hostname :: string
  ht_Target :: string

record moldHostTrustResult =
  hx_Hostname :: string
  hx_Target :: string
  hx_Code :: int
  hx_Changed :: bool
  hx_Fingerprint :: string
  hx_Message :: string

text \<open>
  The tools of a runtime: the environment and the server; which files exist; the output or error of
  \<^verbatim>\<open>ceph auth get-key\<close> over ssh with an identity to a host; reading a file, joining a path and the
  ssh library; the hosts of the cluster document, or why it cannot be read or decoded; the token
  store; the answer of a host's API to a trust request; a temporary directory, the key scan of a port
  and host, writing the scanned keys, and an ssh run with its combined output.
\<close>

datatype trust_answer = NoAnswer string | Answer int string "SSHTrustResponse option" string

record 'c tools =
  t_env :: mold_env
  t_srv :: "'c server"
  t_isfile :: "string \<Rightarrow> bool"
  t_ceph :: "string \<Rightarrow> string \<Rightarrow> string + string"
  t_readFile :: "string \<Rightarrow> string + string"
  t_joinPath :: "string list \<Rightarrow> string"
  t_lib :: ssh_lib
  t_hosts :: "string + ClusterHost list"
  t_store :: store
  t_store_error :: string
  t_post :: "string \<Rightarrow> string \<Rightarrow> SSHTrustRequest \<Rightarrow> trust_answer"
  t_mkdtemp :: "string + string"
  t_keyscan :: "int \<Rightarrow> string \<Rightarrow> string option \<times> string"
  t_writeFile :: "string \<Rightarrow> string \<Rightarrow> string option"
  t_ssh :: "string list \<Rightarrow> string option \<times> string"

section \<open>Sequencing\<close>

definition andThen :: "('e + 'a) \<times> 's \<Rightarrow> ('a \<Rightarrow> 's \<Rightarrow> ('e + 'b) \<times> 's) \<Rightarrow> ('e + 'b) \<times> 's" where
  "andThen p f = (case p of (Inl err, s) \<Rightarrow> (Inl err, s) | (Inr v, s) \<Rightarrow> f v s)"

definition onError :: "('e \<Rightarrow> 'f) \<Rightarrow> ('e + 'a) \<times> 's \<Rightarrow> ('f + 'a) \<times> 's" where
  "onError g p = (case p of (Inl err, s) \<Rightarrow> (Inl (g err), s) | (Inr v, s) \<Rightarrow> (Inr v, s))"

section \<open>Client and session\<close>

definition ensureClient :: "'c tools \<Rightarrow> 'c runtime \<Rightarrow> (mold_error + Client) \<times> 'c runtime" where
  "ensureClient t r =
     (case x_client r of
        Some c \<Rightarrow> (Inr c, r)
      | None \<Rightarrow>
          (case ResolveMoldEndpointFromCluster (t_env t) of
             Inl err \<Rightarrow> (Inl err, r)
           | Inr (endpoint, ccvmIP) \<Rightarrow>
               (Inr (NewClient endpoint ccvmIP),
                r\<lparr>x_endpoint := endpoint, x_ccvmIP := ccvmIP, x_client := Some (NewClient endpoint ccvmIP)\<rparr>)))"

definition auth_config :: "BootstrapRequest \<Rightarrow> AuthConfig" where
  "auth_config req =
     \<lparr>ac_Username = au_Username (q_Auth req), ac_Password = au_Password (q_Auth req), ac_Domain = au_Domain (q_Auth req),
      ac_Response = au_Response (q_Auth req)\<rparr>"

text \<open>\<^verbatim>\<open>r.client.Login\<close> and the assignment of the session.\<close>

definition login_runtime :: "'c tools \<Rightarrow> Client \<Rightarrow> 'c runtime \<Rightarrow> (mold_error + Client) \<times> 'c runtime" where
  "login_runtime t c r =
     (case Login (t_env t) (t_srv t) c (auth_config (x_req r)) (x_net r) of
        (Inl err, k) \<Rightarrow> (Inl err, r\<lparr>x_net := k\<rparr>)
      | (Inr (session, c'), k) \<Rightarrow> (Inr c', r\<lparr>x_client := Some c', x_session := session, x_net := k\<rparr>))"

definition ensureSession :: "'c tools \<Rightarrow> 'c runtime \<Rightarrow> (mold_error + Client) \<times> 'c runtime" where
  "ensureSession t r =
     andThen (ensureClient t r) (\<lambda>c r1.
       if \<not> blank (se_SessionKey (x_session r1)) then (Inr c, r1) else login_runtime t c r1)"

text \<open>\<^verbatim>\<open>r.client.CallCommand\<close> with the stored session key.\<close>

definition run_command :: "'c tools \<Rightarrow> Client \<Rightarrow> string \<Rightarrow> string \<Rightarrow> form \<Rightarrow> 'c runtime \<Rightarrow> (mold_error + gomap) \<times> 'c runtime" where
  "run_command t c method command params r =
     (let (res, k) = CallCommand (t_env t) (t_srv t) c method command [] params (x_net r) in (res, r\<lparr>x_net := k\<rparr>))"

definition callList :: "'c tools \<Rightarrow> string \<Rightarrow> form \<Rightarrow> 'c runtime \<Rightarrow> (mold_error + gomap) \<times> 'c runtime" where
  "callList t command params r = andThen (ensureSession t r) (\<lambda>c. run_command t c ''GET'' command params)"

section \<open>Asynchronous commands\<close>

primrec findStringKey :: "mold_env \<Rightarrow> string list \<Rightarrow> goval \<Rightarrow> string" where
  "findStringKey e keys VNil = []"
| "findStringKey e keys (VBool b) = []"
| "findStringKey e keys (VInt i) = []"
| "findStringKey e keys (VReal r) = []"
| "findStringKey e keys (VStr s) = []"
| "findStringKey e keys (VArr vs) = concat (take 1 (filter (\<lambda>s. s \<noteq> []) (map (findStringKey e keys) vs)))"
| "findStringKey e keys (VMap m) =
     concat (take 1 (filter (\<lambda>s. s \<noteq> [])
       (map (\<lambda>k. stringValue e (mget m k)) keys @ List.map_filter (fmlookup (fmmap (findStringKey e keys) m)) (me_order e m))))"
| "findStringKey e keys (VRec fs) = []"

text \<open>The map under the key, or else the first map of the body.\<close>

definition responseMap :: "mold_env \<Rightarrow> gomap \<Rightarrow> string \<Rightarrow> gomap option" where
  "responseMap e body responseKey =
     (case as_map (mget body responseKey) of
        Some resp \<Rightarrow> Some resp
      | None \<Rightarrow> first_some (map (\<lambda>k. as_map (mget body k)) (me_order e body)))"

definition asyncJobStatus :: "mold_env \<Rightarrow> gomap \<Rightarrow> int" where
  "asyncJobStatus e body =
     (case responseMap e body ''queryasyncjobresultresponse'' of None \<Rightarrow> 0 | Some resp \<Rightarrow> intValue e (mget resp ''jobstatus''))"

definition durationFromEnv :: "mold_env \<Rightarrow> string \<Rightarrow> nat \<Rightarrow> nat" where
  "durationFromEnv e key fallback =
     (let raw = trim_space (me_getenv e key)
      in if raw = [] then fallback
         else (case me_duration e raw of None \<Rightarrow> fallback | Some d \<Rightarrow> if d \<le> 0 then fallback else nat d))"

definition seconds :: "nat \<Rightarrow> nat" where
  "seconds n = n * 1000000000"

definition sleepContext :: "nat \<Rightarrow> 'c runtime \<Rightarrow> 'c runtime" where
  "sleepContext d r = r\<lparr>x_net := (x_net r)\<lparr>k_time := k_time (x_net r) + (if d = 0 then seconds 1 else d)\<rparr>\<rparr>"

text \<open>A failed call with the value reported next to it.\<close>

type_synonym fault = "mold_error \<times> goval"

lemma call_time: "k_time k \<le> k_time (snd (call e srv c method vals k))"
  by (auto simp: call_def Let_def split: prod.splits option.splits)

lemma run_command_time: "k_time (x_net r) \<le> k_time (x_net (snd (run_command t c method command params r)))"
  by (simp add: run_command_def CallCommand_def call_time split_beta Let_def)

text \<open>The switch on the status of a job: none while it is pending.\<close>

definition job_outcome :: "mold_env \<Rightarrow> string \<Rightarrow> gomap \<Rightarrow> (fault + gomap) option" where
  "job_outcome e jobID resp =
     (let status = asyncJobStatus e resp
      in if status = 0 then None
         else if status = 1 then Some (Inr resp)
         else if status = 2
         then Some (Inl (Api \<lparr>a_Kind = Some ErrMoldErrorResponse, a_Method = [], a_Endpoint = [], a_Command = ''queryAsyncJobResult'',
                           a_Code = 0, a_ErrorCode = [],
                           a_ErrorText = firstNonEmpty [findStringKey e [''errortext''] (VMap resp), ''async job failed''],
                           a_Raw = VMap resp, a_HTTPStatus = 0, a_HTTPBody = [], a_VerifyCommand = [], a_SessionKeySet = False\<rparr>,
                         VMap resp))
         else Some (Inl (Plain (''queryAsyncJobResult returned unknown jobstatus='' @ itoa status @ '' for job '' @ jobID), VMap resp)))"

function poll_loop :: "'c tools \<Rightarrow> Client \<Rightarrow> nat \<Rightarrow> nat \<Rightarrow> string \<Rightarrow> 'c runtime \<Rightarrow> (fault + gomap) \<times> 'c runtime" where
  "poll_loop t c deadline interval jobID r =
     (let (res, r1) = run_command t c ''GET'' ''queryAsyncJobResult'' (fmupd ''jobid'' jobID fmempty) r
      in case res of
           Inl err \<Rightarrow> (Inl (err, VNil), r1)
         | Inr resp \<Rightarrow>
             (case job_outcome (t_env t) jobID resp of
                Some out \<Rightarrow> (out, r1)
              | None \<Rightarrow>
                  if k_time (x_net r1) > deadline then (Inl (Plain (''timed out waiting for async job '' @ jobID), VMap resp), r1)
                  else poll_loop t c deadline interval jobID (sleepContext interval r1)))"
  by pat_completeness auto
termination
proof (relation "measure (\<lambda>(t, c, deadline, interval, jobID, r). Suc deadline - k_time (x_net r))")
  fix t :: "'c tools" and c deadline interval jobID and r :: "'c runtime" and p res r1 resp
  assume p: "p = run_command t c ''GET'' ''queryAsyncJobResult'' (fmupd ''jobid'' jobID fmempty) r" "(res, r1) = p"
    and alive: "\<not> deadline < k_time (x_net r1)"
  have "r1 = snd p" using p(2) by (metis snd_conv)
  then have "k_time (x_net r) \<le> k_time (x_net r1)" using p(1) run_command_time by blast
  then show "((t, c, deadline, interval, jobID, sleepContext interval r1), t, c, deadline, interval, jobID, r)
      \<in> measure (\<lambda>(t, c, deadline, interval, jobID, r). Suc deadline - k_time (x_net r))"
    using alive by (auto simp: sleepContext_def seconds_def)
qed simp

declare poll_loop.simps [simp del]

definition pollAsyncJob :: "'c tools \<Rightarrow> Client \<Rightarrow> string \<Rightarrow> 'c runtime \<Rightarrow> (fault + gomap) \<times> 'c runtime" where
  "pollAsyncJob t c jobID r =
     (let timeout = durationFromEnv (t_env t) ''ABLESTACK_MOLD_ASYNC_TIMEOUT'' (seconds 1800);
          interval = durationFromEnv (t_env t) ''ABLESTACK_MOLD_ASYNC_POLL_INTERVAL'' (seconds 5)
      in poll_loop t c (k_time (x_net r) + timeout) interval jobID r)"

text \<open>The error of a job names the command that started it.\<close>

definition async_fault :: "string \<Rightarrow> fault \<Rightarrow> fault" where
  "async_fault command f =
     (case fst f of
        Api a \<Rightarrow> (Api (a\<lparr>a_Command := command, a_VerifyCommand := ''queryAsyncJobResult''\<rparr>), snd f)
      | _ \<Rightarrow> f)"

definition applyCommand :: "'c tools \<Rightarrow> string \<Rightarrow> form \<Rightarrow> 'c runtime \<Rightarrow> (fault + gomap) \<times> 'c runtime" where
  "applyCommand t command params r =
     andThen (onError (\<lambda>err. (err, VNil)) (ensureSession t r)) (\<lambda>c r1.
     andThen (onError (\<lambda>err. (err, VNil)) (run_command t c ''POST'' command params r1)) (\<lambda>resp r2.
       let jobID = findStringKey (t_env t) [''jobid'', ''jobId'', ''asyncjobid''] (VMap resp)
       in if jobID = [] then (Inr resp, r2)
          else onError (async_fault command) (pollAsyncJob t c jobID r2)))"

section \<open>Items of a list response\<close>

definition setParam :: "string \<times> string \<Rightarrow> form \<Rightarrow> form" where
  "setParam = (\<lambda>(key, v) vals. if \<not> blank v then fmupd key (trim_space v) vals else vals)"

definition form_params :: "(string \<times> string) list \<Rightarrow> form" where
  "form_params kvs = fold setParam kvs fmempty"

definition listItems :: "mold_env \<Rightarrow> gomap \<Rightarrow> string \<Rightarrow> string \<Rightarrow> gomap list" where
  "listItems e body responseKey itemKey =
     (case responseMap e body responseKey of
        None \<Rightarrow> []
      | Some resp \<Rightarrow>
          (case mget resp itemKey of VArr vs \<Rightarrow> List.map_filter as_map vs | VMap m \<Rightarrow> [m] | _ \<Rightarrow> []))"

definition findListItem :: "mold_env \<Rightarrow> gomap \<Rightarrow> string \<Rightarrow> string \<Rightarrow> (gomap \<Rightarrow> bool) \<Rightarrow> gomap option" where
  "findListItem e body responseKey itemKey match = List.find match (listItems e body responseKey itemKey)"

definition resourceFromItem :: "mold_env \<Rightarrow> gomap \<Rightarrow> string \<Rightarrow> ResourceResult" where
  "resourceFromItem e item verifiedBy =
     (let sv = (\<lambda>k. stringValue e (mget item k))
      in \<lparr>res_ID = sv ''id'', res_Name = firstNonEmpty [sv ''name'', sv ''displayname''],
          res_URL = firstNonEmpty [sv ''url'', sv ''path''], res_State = firstNonEmpty [sv ''allocationstate'', sv ''state''],
          res_Status = firstNonEmpty [sv ''status'', sv ''state''], res_VerifiedBy = verifiedBy, res_Raw = VMap item\<rparr>)"

definition matchIDOrName :: "mold_env \<Rightarrow> string \<Rightarrow> string \<Rightarrow> gomap \<Rightarrow> bool" where
  "matchIDOrName e rid name item \<longleftrightarrow>
     \<not> blank rid \<and> equal_fold (stringValue e (mget item ''id'')) (trim_space rid)
     \<or> \<not> blank name \<and> equal_fold (stringValue e (mget item ''name'')) (trim_space name)"

definition trim_brackets :: "string \<Rightarrow> string" where
  "trim_brackets s = rev (dropWhile (\<lambda>c. c \<in> set ''[]'') (rev (dropWhile (\<lambda>c. c \<in> set ''[]'') s)))"

definition hostAddress :: "mold_env \<Rightarrow> string \<Rightarrow> string" where
  "hostAddress e raw =
     (let v = trim_space raw
      in if v = [] then []
         else (case me_url_hostname e v of
                 Some host \<Rightarrow> host
               | None \<Rightarrow> (case me_split_host e v of Some host \<Rightarrow> host | None \<Rightarrow> trim_brackets v)))"

definition matchHost :: "mold_env \<Rightarrow> string \<Rightarrow> gomap \<Rightarrow> bool" where
  "matchHost e rawURL item \<longleftrightarrow>
     hostAddress e rawURL \<noteq> []
     \<and> list_ex (\<lambda>k. equal_fold (hostAddress e (stringValue e (mget item k))) (hostAddress e rawURL)
          \<or> equal_fold (trim_space (stringValue e (mget item k))) (hostAddress e rawURL)) [''ipaddress'', ''name'', ''url'', ''hostname'']"

definition matchURL :: "mold_env \<Rightarrow> string \<Rightarrow> gomap \<Rightarrow> bool" where
  "matchURL e url item \<longleftrightarrow>
     (let want = trim_right_char CHR ''/'' (trim_space url)
      in want \<noteq> [] \<and> list_ex (\<lambda>k. equal_fold (trim_right_char CHR ''/'' (trim_space (stringValue e (mget item k)))) want) [''url'', ''path'', ''name''])"

definition boolValue :: "goval \<Rightarrow> bool" where
  "boolValue v =
     (case v of
        VBool b \<Rightarrow> b
      | VStr s \<Rightarrow> equal_fold (trim_space s) ''true'' \<or> trim_space s = ''1''
      | VInt i \<Rightarrow> i \<noteq> 0
      | VReal r \<Rightarrow> True
      | _ \<Rightarrow> False)"

text \<open>A field of an item, compared without case.\<close>

definition field_is :: "mold_env \<Rightarrow> string \<Rightarrow> string \<Rightarrow> gomap \<Rightarrow> bool" where
  "field_is e k want item \<longleftrightarrow> equal_fold (stringValue e (mget item k)) want"

section \<open>Finding resources\<close>

type_synonym found = "gomap \<times> gomap option"

type_synonym 'c finder = "'c runtime \<Rightarrow> (mold_error + found) \<times> 'c runtime"

definition find_by :: "'c tools \<Rightarrow> string \<Rightarrow> (string \<times> string) list \<Rightarrow> string \<Rightarrow> string \<Rightarrow> (gomap \<Rightarrow> bool) \<Rightarrow> 'c finder" where
  "find_by t command kvs responseKey itemKey match r =
     andThen (callList t command (form_params kvs) r) (\<lambda>resp r1. (Inr (resp, findListItem (t_env t) resp responseKey itemKey match), r1))"

definition findZone :: "'c tools \<Rightarrow> 'c finder" where
  "findZone t r =
     find_by t ''listZones'' [(''name'', zn_Name (q_Zone (x_req r))), (''id'', x_zoneID r)] ''listzonesresponse'' ''zone''
       (matchIDOrName (t_env t) (x_zoneID r) (zn_Name (q_Zone (x_req r)))) r"

definition findPhysicalNetwork :: "'c tools \<Rightarrow> 'c finder" where
  "findPhysicalNetwork t r =
     find_by t ''listPhysicalNetworks'' [(''zoneid'', x_zoneID r)] ''listphysicalnetworksresponse'' ''physicalnetwork''
       (matchIDOrName (t_env t) (x_physicalNetworkID r) (pn_Name (q_PhysicalNetwork (x_req r)))) r"

definition findTrafficType :: "'c tools \<Rightarrow> string \<Rightarrow> 'c finder" where
  "findTrafficType t trafficType r =
     find_by t ''listTrafficTypes'' [(''physicalnetworkid'', x_physicalNetworkID r), (''traffictype'', trafficType)]
       ''listtraffictypesresponse'' ''traffictype'' (field_is (t_env t) ''traffictype'' trafficType) r"

definition findNetworkProvider :: "'c tools \<Rightarrow> string \<Rightarrow> 'c finder" where
  "findNetworkProvider t name r =
     find_by t ''listNetworkServiceProviders'' [(''physicalnetworkid'', x_physicalNetworkID r), (''name'', name)]
       ''listnetworkserviceprovidersresponse'' ''networkserviceprovider'' (field_is (t_env t) ''name'' name) r"

definition findVirtualRouterElement :: "'c tools \<Rightarrow> string \<Rightarrow> 'c finder" where
  "findVirtualRouterElement t providerID r =
     find_by t ''listVirtualRouterElements'' [(''nspid'', providerID)] ''listvirtualrouterelementsresponse'' ''virtualrouterelement''
       (\<lambda>_. True) r"

definition findPublicIPRange :: "'c tools \<Rightarrow> 'c finder" where
  "findPublicIPRange t r =
     find_by t ''listVlanIpRanges'' [(''zoneid'', x_zoneID r), (''physicalnetworkid'', x_physicalNetworkID r)]
       ''listvlaniprangesresponse'' ''vlaniprange''
       (\<lambda>item. stringValue (t_env t) (mget item ''startip'') = ip_StartIP (q_PublicIP (x_req r))
          \<and> stringValue (t_env t) (mget item ''endip'') = ip_EndIP (q_PublicIP (x_req r))) r"

definition findPod :: "'c tools \<Rightarrow> 'c finder" where
  "findPod t r =
     find_by t ''listPods'' [(''zoneid'', x_zoneID r), (''name'', pod_Name (q_Pod (x_req r))), (''id'', x_podID r)]
       ''listpodsresponse'' ''pod'' (matchIDOrName (t_env t) (x_podID r) (pod_Name (q_Pod (x_req r)))) r"

definition findCluster :: "'c tools \<Rightarrow> 'c finder" where
  "findCluster t r =
     find_by t ''listClusters''
       [(''zoneid'', x_zoneID r), (''podid'', x_podID r), (''name'', cl_Name (q_Cluster (x_req r))), (''id'', x_clusterID r)]
       ''listclustersresponse'' ''cluster'' (matchIDOrName (t_env t) (x_clusterID r) (cl_Name (q_Cluster (x_req r)))) r"

definition findHost :: "'c tools \<Rightarrow> HostRequest \<Rightarrow> 'c finder" where
  "findHost t host r =
     find_by t ''listHosts'' [(''zoneid'', x_zoneID r), (''podid'', x_podID r), (''clusterid'', x_clusterID r)]
       ''listhostsresponse'' ''host'' (matchHost (t_env t) (hr_URL host)) r"

definition findPrimaryStorage :: "'c tools \<Rightarrow> 'c finder" where
  "findPrimaryStorage t r =
     (let storage = q_PrimaryStorage (x_req r)
      in find_by t ''listStoragePools''
           [(''zoneid'', x_zoneID r), (''podid'', x_podID r), (''clusterid'', x_clusterID r), (''name'', ps_Name storage)]
           ''liststoragepoolsresponse'' ''storagepool''
           (\<lambda>item. matchIDOrName (t_env t) (x_primaryStorageID r) (ps_Name storage) item \<or> matchURL (t_env t) (ps_URL storage) item) r)"

definition findSecondaryStorage :: "'c tools \<Rightarrow> 'c finder" where
  "findSecondaryStorage t r =
     find_by t ''listImageStores'' [(''zoneid'', x_zoneID r)] ''listimagestoresresponse'' ''imagestore''
       (\<lambda>item. matchIDOrName (t_env t) (x_secondaryStorageID r) [] item
          \<or> matchURL (t_env t) (ss_URL (q_SecondaryStorage (x_req r))) item) r"

definition findSecondaryStagingStore :: "'c tools \<Rightarrow> SecondaryStagingStoreRequest \<Rightarrow> 'c finder" where
  "findSecondaryStagingStore t staging r =
     find_by t ''listSecondaryStagingStores'' [(''zoneid'', x_zoneID r)] ''listsecondarystagingstoresresponse'' ''secondarystagingstore''
       (\<lambda>item. matchIDOrName (t_env t) (x_secondaryStagingStoreID r) [] item \<or> matchURL (t_env t) (sg_URL staging) item) r"

definition listSystemVMs :: "'c tools \<Rightarrow> 'c runtime \<Rightarrow> (mold_error + gomap \<times> gomap list) \<times> 'c runtime" where
  "listSystemVMs t r =
     andThen (callList t ''listSystemVms'' (form_params [(''zoneid'', x_zoneID r)]) r) (\<lambda>resp r1.
       (Inr (resp, listItems (t_env t) resp ''listsystemvmsresponse'' ''systemvm''), r1))"

definition allSystemVMsRunning :: "mold_env \<Rightarrow> gomap list \<Rightarrow> bool" where
  "allSystemVMsRunning e items \<longleftrightarrow> list_all (field_is e ''state'' ''Running'') items \<and> items \<noteq> []"

section \<open>Required ids\<close>

definition requireZoneID :: "'c runtime \<Rightarrow> string + unit" where
  "requireZoneID r = (if blank (x_zoneID r) then Inl ''zone id required before this step'' else Inr ())"

definition requireZonePodID :: "'c runtime \<Rightarrow> string + unit" where
  "requireZonePodID r =
     (case requireZoneID r of
        Inl err \<Rightarrow> Inl err
      | Inr _ \<Rightarrow> if blank (x_podID r) then Inl ''pod id required before this step'' else Inr ())"

definition requirePhysicalNetworkID :: "'c runtime \<Rightarrow> string + unit" where
  "requirePhysicalNetworkID r =
     (case requireZoneID r of
        Inl err \<Rightarrow> Inl err
      | Inr _ \<Rightarrow> if blank (x_physicalNetworkID r) then Inl ''physical network id required before this step'' else Inr ())"

definition requireZonePodPhysicalNetworkID :: "'c runtime \<Rightarrow> string + unit" where
  "requireZonePodPhysicalNetworkID r = (case requireZonePodID r of Inl err \<Rightarrow> Inl err | Inr _ \<Rightarrow> requirePhysicalNetworkID r)"

definition requireZonePodClusterID :: "'c runtime \<Rightarrow> string + unit" where
  "requireZonePodClusterID r =
     (case requireZonePodID r of
        Inl err \<Rightarrow> Inl err
      | Inr _ \<Rightarrow> if blank (x_clusterID r) then Inl ''cluster id required before this step'' else Inr ())"

section \<open>Results\<close>

record stepResultOptions =
  o_Resource :: "ResourceResult option"
  o_Resources :: "ResourceResult list"
  o_Raw :: goval
  o_Verify :: goval
  o_Created :: bool
  o_Existing :: bool

definition no_options :: stepResultOptions where
  "no_options = \<lparr>o_Resource = None, o_Resources = [], o_Raw = VNil, o_Verify = VNil, o_Created = False, o_Existing = False\<rparr>"

definition succeededStep :: "BootstrapJobStep \<Rightarrow> stepResultOptions \<Rightarrow> BootstrapStepResult" where
  "succeededStep step opts =
     \<lparr>r_Name = s_Name step, r_Command = s_Command step, r_VerifyCommand = s_VerifyCommand step, r_ResultKey = s_ResultKey step,
      r_Status = ''succeeded'', r_Created = o_Created opts, r_Existing = o_Existing opts, r_Verified = True,
      r_VerifiedBy = s_VerifyCommand step, r_Resource = o_Resource opts, r_Resources = o_Resources opts, r_RawResponse = o_Raw opts,
      r_VerifyResponse = o_Verify opts, r_Error = None\<rparr>"

definition step_error :: "BootstrapJobStep \<Rightarrow> mold_error \<Rightarrow> goval \<Rightarrow> BootstrapError" where
  "step_error step err raw =
     (let message = mold_error_text err;
          base = \<lparr>err_Step = s_Name step, err_Method = [], err_Endpoint = [], err_Command = s_Command step,
                  err_VerifyCommand = s_VerifyCommand step, err_HTTPStatus = 0, err_HTTPBody = [], err_SessionKeyAttached = False,
                  err_Code = 0, err_ErrorCode = [], err_ErrorText = message, err_Message = message, err_Raw = raw\<rparr>
      in case APIErrorFrom err of
           None \<Rightarrow> base
         | Some a \<Rightarrow>
             base\<lparr>err_Command := firstNonEmpty [a_Command a, s_Command step],
                  err_VerifyCommand := firstNonEmpty [a_VerifyCommand a, s_VerifyCommand step],
                  err_Method := a_Method a, err_Endpoint := a_Endpoint a, err_HTTPStatus := a_HTTPStatus a, err_HTTPBody := a_HTTPBody a,
                  err_SessionKeyAttached := a_SessionKeySet a, err_Code := a_Code a, err_ErrorCode := a_ErrorCode a,
                  err_ErrorText := firstNonEmpty [a_ErrorText a, a_HTTPBody a, message],
                  err_Raw := (if a_Raw a \<noteq> VNil then a_Raw a else raw)\<rparr>)"

definition failedStep :: "BootstrapJobStep \<Rightarrow> mold_error \<Rightarrow> goval \<Rightarrow> BootstrapStepResult" where
  "failedStep step err raw =
     \<lparr>r_Name = s_Name step, r_Command = s_Command step, r_VerifyCommand = s_VerifyCommand step, r_ResultKey = s_ResultKey step,
      r_Status = ''failed'', r_Created = False, r_Existing = False, r_Verified = False, r_VerifiedBy = [], r_Resource = None,
      r_Resources = [], r_RawResponse = raw, r_VerifyResponse = VNil, r_Error = Some (step_error step err raw)\<rparr>"

definition withVerifyCommand :: "string \<Rightarrow> mold_error \<Rightarrow> mold_error" where
  "withVerifyCommand verifyCommand err =
     (case err of Api a \<Rightarrow> Api (a\<lparr>a_VerifyCommand := verifyCommand\<rparr>) | _ \<Rightarrow> err)"

section \<open>Bodies of steps\<close>

text \<open>The loops of the steps: each round extends the progress or leaves with a fault.\<close>

primrec each :: "('x \<Rightarrow> 'p \<Rightarrow> 's \<Rightarrow> ('e + 'p) \<times> 's) \<Rightarrow> 'x list \<Rightarrow> 'p \<Rightarrow> 's \<Rightarrow> ('e + 'p) \<times> 's" where
  "each f [] p s = (Inr p, s)"
| "each f (x # xs) p s = andThen (f x p s) (each f xs)"

definition finish :: "BootstrapJobStep \<Rightarrow> (fault + stepResultOptions) \<times> 'c runtime \<Rightarrow> BootstrapStepResult \<times> 'c runtime" where
  "finish step p =
     (case p of (Inl (err, raw), r) \<Rightarrow> (failedStep step err raw, r) | (Inr opts, r) \<Rightarrow> (succeededStep step opts, r))"

definition require :: "('c runtime \<Rightarrow> string + unit) \<Rightarrow> 'c runtime \<Rightarrow> (fault + unit) \<times> 'c runtime" where
  "require chk r = (case chk r of Inl err \<Rightarrow> (Inl (Plain err, VNil), r) | Inr _ \<Rightarrow> (Inr (), r))"

definition look :: "'c finder \<Rightarrow> 'c runtime \<Rightarrow> (fault + found) \<times> 'c runtime" where
  "look finder r = onError (\<lambda>err. (err, VNil)) (finder r)"

definition look_again :: "string \<Rightarrow> 'c finder \<Rightarrow> 'c runtime \<Rightarrow> (fault + found) \<times> 'c runtime" where
  "look_again verifyBy finder r = onError (\<lambda>err. (withVerifyCommand verifyBy err, VNil)) (finder r)"

text \<open>
  The shape that the steps which ensure one resource share: look for it; report an acceptable one as
  existing; otherwise send the command and look again.
\<close>

record 'c goal =
  g_find :: "'c finder"
  g_accept :: "gomap \<Rightarrow> bool"
  g_verifyBy :: string
  g_shape :: "ResourceResult \<Rightarrow> ResourceResult"
  g_adopt :: "string \<Rightarrow> 'c runtime \<Rightarrow> 'c runtime"
  g_command :: string
  g_params :: "mold_error + (string \<times> string) list"
  g_created :: bool
  g_missing :: string

definition accepted :: "(gomap \<Rightarrow> bool) \<Rightarrow> gomap option \<Rightarrow> gomap option" where
  "accepted P item = (case item of Some it \<Rightarrow> if P it then Some it else None | None \<Rightarrow> None)"

definition reconcile :: "'c tools \<Rightarrow> 'c goal \<Rightarrow> 'c runtime \<Rightarrow> (fault + stepResultOptions) \<times> 'c runtime" where
  "reconcile t g r =
     andThen (look (g_find g) r) (\<lambda>(verify, item) r1.
       case accepted (g_accept g) item of
         Some it \<Rightarrow>
           (let resource = g_shape g (resourceFromItem (t_env t) it (g_verifyBy g))
            in (Inr (no_options\<lparr>o_Resource := Some resource, o_Existing := True, o_Verify := VMap verify\<rparr>), g_adopt g (res_ID resource) r1))
       | None \<Rightarrow>
           (case g_params g of
              Inl err \<Rightarrow> (Inl (err, VNil), r1)
            | Inr kvs \<Rightarrow>
                andThen (applyCommand t (g_command g) (form_params kvs) r1) (\<lambda>raw r2.
                andThen (look_again (g_verifyBy g) (g_find g) r2) (\<lambda>(verify, item) r3.
                  case accepted (g_accept g) item of
                    None \<Rightarrow> (Inl (Plain (g_missing g), VMap verify), r3)
                  | Some it \<Rightarrow>
                      (let resource = g_shape g (resourceFromItem (t_env t) it (g_verifyBy g))
                       in (Inr (no_options\<lparr>o_Resource := Some resource, o_Created := g_created g, o_Raw := VMap raw, o_Verify := VMap verify\<rparr>),
                           g_adopt g (res_ID resource) r3))))))"

definition any_item :: "gomap \<Rightarrow> bool" where
  "any_item item = True"

definition ensureZone :: "'c tools \<Rightarrow> 'c runtime \<Rightarrow> (fault + stepResultOptions) \<times> 'c runtime" where
  "ensureZone t r =
     andThen (onError (\<lambda>err. (err, VNil)) (ensureSession t r)) (\<lambda>_ r1.
       let z = q_Zone (x_req r1)
       in reconcile t
            \<lparr>g_find = findZone t, g_accept = any_item, g_verifyBy = ''listZones'', g_shape = (\<lambda>res. res),
             g_adopt = (\<lambda>rid r. r\<lparr>x_zoneID := rid\<rparr>), g_command = ''createZone'',
             g_params = Inr [(''name'', zn_Name z), (''dns1'', zn_DNS1 z), (''dns2'', zn_DNS2 z), (''internaldns1'', zn_InternalDNS1 z),
               (''internaldns2'', zn_InternalDNS2 z), (''networktype'', zn_NetworkType z), (''guestcidraddress'', zn_GuestCIDRAddress z),
               (''domain'', zn_Domain z), (''localstorageenabled'', zn_LocalStorageEnabled z),
               (''securitygroupenabled'', zn_SecurityGroupEnabled z)],
             g_created = True, g_missing = ''createZone succeeded but listZones did not return zone '' @ me_quote (t_env t) (zn_Name z)\<rparr> r1)"

definition ensurePhysicalNetwork :: "'c tools \<Rightarrow> 'c runtime \<Rightarrow> (fault + stepResultOptions) \<times> 'c runtime" where
  "ensurePhysicalNetwork t r =
     andThen (require requireZoneID r) (\<lambda>_ r1.
       let n = q_PhysicalNetwork (x_req r1)
       in reconcile t
            \<lparr>g_find = findPhysicalNetwork t, g_accept = any_item, g_verifyBy = ''listPhysicalNetworks'', g_shape = (\<lambda>res. res),
             g_adopt = (\<lambda>rid r. r\<lparr>x_physicalNetworkID := rid\<rparr>), g_command = ''createPhysicalNetwork'',
             g_params = Inr [(''zoneid'', x_zoneID r1), (''name'', pn_Name n), (''broadcastdomainrange'', pn_BroadcastDomainRange n),
               (''isolationmethods'', pn_IsolationMethods n), (''networkspeed'', pn_NetworkSpeed n), (''vlan'', pn_VLAN n), (''tags'', pn_Tags n)],
             g_created = True,
             g_missing = ''createPhysicalNetwork succeeded but listPhysicalNetworks did not return physical network '' @ me_quote (t_env t) (pn_Name n)\<rparr> r1)"

definition ensurePod :: "'c tools \<Rightarrow> 'c runtime \<Rightarrow> (fault + stepResultOptions) \<times> 'c runtime" where
  "ensurePod t r =
     andThen (require requireZoneID r) (\<lambda>_ r1.
       let p = q_Pod (x_req r1)
       in reconcile t
            \<lparr>g_find = findPod t, g_accept = any_item, g_verifyBy = ''listPods'', g_shape = (\<lambda>res. res),
             g_adopt = (\<lambda>rid r. r\<lparr>x_podID := rid\<rparr>), g_command = ''createPod'',
             g_params = Inr [(''zoneid'', x_zoneID r1), (''name'', pod_Name p), (''gateway'', pod_Gateway p), (''netmask'', pod_Netmask p),
               (''startip'', pod_StartIP p), (''endip'', pod_EndIP p)],
             g_created = True, g_missing = ''createPod succeeded but listPods did not return pod '' @ me_quote (t_env t) (pod_Name p)\<rparr> r1)"

definition ensurePublicIPRange :: "'c tools \<Rightarrow> 'c runtime \<Rightarrow> (fault + stepResultOptions) \<times> 'c runtime" where
  "ensurePublicIPRange t r =
     andThen (require requireZonePodPhysicalNetworkID r) (\<lambda>_ r1.
       let ip = q_PublicIP (x_req r1); range = ip_StartIP ip @ ''-'' @ ip_EndIP ip
       in reconcile t
            \<lparr>g_find = findPublicIPRange t, g_accept = any_item, g_verifyBy = ''listVlanIpRanges'', g_shape = (\<lambda>res. res\<lparr>res_Name := range\<rparr>),
             g_adopt = (\<lambda>rid r. r), g_command = ''createVlanIpRange'',
             g_params = Inr [(''zoneid'', x_zoneID r1), (''physicalnetworkid'', x_physicalNetworkID r1), (''gateway'', ip_Gateway ip),
               (''netmask'', ip_Netmask ip), (''startip'', ip_StartIP ip), (''endip'', ip_EndIP ip), (''forvirtualnetwork'', ''true'')],
             g_created = True, g_missing = ''createVlanIpRange succeeded but listVlanIpRanges did not return '' @ range\<rparr> r1)"

definition ensureCluster :: "'c tools \<Rightarrow> 'c runtime \<Rightarrow> (fault + stepResultOptions) \<times> 'c runtime" where
  "ensureCluster t r =
     andThen (require requireZonePodID r) (\<lambda>_ r1.
       let c = q_Cluster (x_req r1)
       in reconcile t
            \<lparr>g_find = findCluster t, g_accept = any_item, g_verifyBy = ''listClusters'', g_shape = (\<lambda>res. res),
             g_adopt = (\<lambda>rid r. r\<lparr>x_clusterID := rid\<rparr>), g_command = ''addCluster'',
             g_params = Inr [(''zoneid'', x_zoneID r1), (''podid'', x_podID r1), (''clustername'', cl_Name c), (''clustertype'', cl_ClusterType c),
               (''hypervisor'', cl_Hypervisor c), (''arch'', cl_Arch c)],
             g_created = True, g_missing = ''addCluster succeeded but listClusters did not return cluster '' @ me_quote (t_env t) (cl_Name c)\<rparr> r1)"

definition resolveMoldHostSSHKey :: "'c tools \<Rightarrow> string" where
  "resolveMoldHostSSHKey t =
     (let configured = trim_space (me_getenv (t_env t) ''ABLESTACK_MOLD_HOST_SSH_KEY'')
      in if configured \<noteq> [] then configured
         else (case List.find (t_isfile t) [''/var/cloudstack/management/.ssh/id_rsa'', ''/var/lib/cloudstack/management/.ssh/id_rsa'', ''/root/.ssh/id_rsa''] of
                 Some candidate \<Rightarrow> candidate
               | None \<Rightarrow> ''/var/cloudstack/management/.ssh/id_rsa''))"

text \<open>The loop of \<^verbatim>\<open>fetchCephAdminKey\<close>: the first key that is not blank, or the last error.\<close>

fun ceph_loop :: "(string \<Rightarrow> string + string) \<Rightarrow> string option \<Rightarrow> string list \<Rightarrow> string option + string" where
  "ceph_loop run lastErr [] = Inl lastErr"
| "ceph_loop run lastErr (host # hosts) =
     (if trim_space host = [] then ceph_loop run lastErr hosts
      else (case run (trim_space host) of
              Inl err \<Rightarrow> ceph_loop run (Some err) hosts
            | Inr output \<Rightarrow>
                if trim_space output \<noteq> [] then Inr (trim_space output) else ceph_loop run (Some ''empty client.admin key'') hosts))"

definition fetchCephAdminKey :: "'c tools \<Rightarrow> string list \<Rightarrow> mold_error + string" where
  "fetchCephAdminKey t hosts =
     (if hosts = [] then Inl (Plain ''clusterConfig.hosts[].ablecube required to read client.admin key'')
      else (case ceph_loop (t_ceph t (resolveMoldHostSSHKey t)) None hosts of
              Inr secret \<Rightarrow> Inr secret
            | Inl lastErr \<Rightarrow>
                Inl (Plain (''failed to read Ceph client.admin key from configured hosts using '' @ resolveMoldHostSSHKey t @ '': ''
                  @ (case lastErr of Some err \<Rightarrow> err | None \<Rightarrow> ''%!w(<nil>)'')))))"

definition resolvePrimaryStorageURL :: "'c tools \<Rightarrow> 'c runtime \<Rightarrow> mold_error + string" where
  "resolvePrimaryStorageURL t r =
     (let storage = q_PrimaryStorage (x_req r)
      in if \<not> ps_AutoRBDSecret storage then Inr (trim_space (ps_URL storage))
         else if trim_space (ps_RADOSMonitors storage) = [] \<or> trim_space (ps_RADOSPool storage) = [] \<or> trim_space (ps_RADOSUser storage) = []
         then Inl (Plain ''automatic Glue Block configuration requires monitors, pool and user'')
         else (case fetchCephAdminKey t (ps_CephKeyHosts storage) of
                 Inl err \<Rightarrow> Inl err
               | Inr secret \<Rightarrow>
                   Inr (''rbd://'' @ ps_RADOSUser storage @ '':'' @ secret @ ''@'' @ ps_RADOSMonitors storage @ ''/''
                     @ trim_prefix (ps_RADOSPool storage) ''/'')))"

definition ensurePrimaryStorage :: "'c tools \<Rightarrow> 'c runtime \<Rightarrow> (fault + stepResultOptions) \<times> 'c runtime" where
  "ensurePrimaryStorage t r =
     andThen (require requireZonePodClusterID r) (\<lambda>_ r1.
       let s = q_PrimaryStorage (x_req r1)
       in reconcile t
            \<lparr>g_find = findPrimaryStorage t, g_accept = any_item, g_verifyBy = ''listStoragePools'', g_shape = (\<lambda>res. res),
             g_adopt = (\<lambda>rid r. r\<lparr>x_primaryStorageID := rid\<rparr>), g_command = ''createStoragePool'',
             g_params =
               (case resolvePrimaryStorageURL t r1 of
                  Inl err \<Rightarrow> Inl err
                | Inr storageURL \<Rightarrow>
                    Inr [(''zoneid'', x_zoneID r1), (''podid'', x_podID r1), (''clusterid'', x_clusterID r1), (''name'', ps_Name s),
                      (''url'', storageURL), (''scope'', firstNonEmpty [ps_Scope s, ''cluster'']),
                      (''provider'', firstNonEmpty [ps_Provider s, ''DefaultPrimary'']),
                      (''hypervisor'', firstNonEmpty [ps_Hypervisor s, cl_Hypervisor (q_Cluster (x_req r1))]), (''tags'', ps_Tags s),
                      (''krbdPath'', ps_KRBDPath s), (''details[0].provider'', ps_DetailsProvider s)]),
             g_created = True,
             g_missing = ''createStoragePool succeeded but listStoragePools did not return storage pool '' @ me_quote (t_env t) (ps_Name s)\<rparr> r1)"

definition ensureSecondaryStorage :: "'c tools \<Rightarrow> 'c runtime \<Rightarrow> (fault + stepResultOptions) \<times> 'c runtime" where
  "ensureSecondaryStorage t r =
     andThen (require requireZoneID r) (\<lambda>_ r1.
       let s = q_SecondaryStorage (x_req r1)
       in reconcile t
            \<lparr>g_find = findSecondaryStorage t, g_accept = any_item, g_verifyBy = ''listImageStores'', g_shape = (\<lambda>res. res),
             g_adopt = (\<lambda>rid r. r\<lparr>x_secondaryStorageID := rid\<rparr>), g_command = ''addImageStore'',
             g_params = Inr [(''zoneid'', x_zoneID r1), (''url'', ss_URL s), (''name'', firstNonEmpty [ss_Name s, ''Secondary Storage'']),
               (''provider'', firstNonEmpty [ss_Provider s, ''NFS''])],
             g_created = True,
             g_missing = ''addImageStore succeeded but listImageStores did not return secondary storage '' @ me_quote (t_env t) (ss_URL s)\<rparr> r1)"

definition ensureSecondaryStagingStore :: "'c tools \<Rightarrow> 'c runtime \<Rightarrow> (fault + stepResultOptions) \<times> 'c runtime" where
  "ensureSecondaryStagingStore t r =
     (case q_SecondaryStagingStore (x_req r) of
        None \<Rightarrow>
          (Inr (no_options\<lparr>o_Existing := True,
             o_Verify := VMap (fmupd ''skipped'' (VStr ''secondary_staging_store not requested'') fmempty)\<rparr>), r)
      | Some s \<Rightarrow>
          andThen (require requireZoneID r) (\<lambda>_ r1.
            reconcile t
              \<lparr>g_find = findSecondaryStagingStore t s, g_accept = any_item, g_verifyBy = ''listSecondaryStagingStores'', g_shape = (\<lambda>res. res),
               g_adopt = (\<lambda>rid r. r\<lparr>x_secondaryStagingStoreID := rid\<rparr>), g_command = ''createSecondaryStagingStore'',
               g_params = Inr [(''zoneid'', x_zoneID r1), (''url'', sg_URL s), (''provider'', firstNonEmpty [sg_Provider s, ''NFS'']),
                 (''scope'', firstNonEmpty [sg_Scope s, ''zone''])],
               g_created = True,
               g_missing = ''createSecondaryStagingStore succeeded but listSecondaryStagingStores did not return staging store ''
                 @ me_quote (t_env t) (sg_URL s)\<rparr> r1))"

definition enablePhysicalNetwork :: "'c tools \<Rightarrow> 'c runtime \<Rightarrow> (fault + stepResultOptions) \<times> 'c runtime" where
  "enablePhysicalNetwork t r =
     andThen (require requirePhysicalNetworkID r) (\<lambda>_ r1.
       reconcile t
         \<lparr>g_find = findPhysicalNetwork t, g_accept = field_is (t_env t) ''state'' ''Enabled'', g_verifyBy = ''listPhysicalNetworks'',
          g_shape = (\<lambda>res. res), g_adopt = (\<lambda>rid r. r), g_command = ''updatePhysicalNetwork'',
          g_params = Inr [(''id'', x_physicalNetworkID r1), (''state'', ''Enabled'')],
          g_created = True, g_missing = ''physical network was not verified with state=Enabled''\<rparr> r1)"

definition enableZone :: "'c tools \<Rightarrow> 'c runtime \<Rightarrow> (fault + stepResultOptions) \<times> 'c runtime" where
  "enableZone t r =
     andThen (require requireZoneID r) (\<lambda>_ r1.
       reconcile t
         \<lparr>g_find = findZone t, g_accept = field_is (t_env t) ''allocationstate'' ''Enabled'', g_verifyBy = ''listZones'',
          g_shape = (\<lambda>res. res), g_adopt = (\<lambda>rid r. r), g_command = ''updateZone'',
          g_params = Inr [(''id'', x_zoneID r1), (''allocationstate'', ''Enabled'')],
          g_created = False,
          g_missing = ''updateZone succeeded but listZones did not return allocationstate=Enabled for zone ''
            @ me_quote (t_env t) (zn_Name (q_Zone (x_req r1)))\<rparr> r1)"

section \<open>Steps that loop\<close>

record progress =
  pg_resources :: "ResourceResult list"
  pg_changed :: bool
  pg_raw :: "goval list"
  pg_verify :: "goval list"

definition no_progress :: progress where
  "no_progress = \<lparr>pg_resources = [], pg_changed = False, pg_raw = [], pg_verify = []\<rparr>"

text \<open>A command of a round, with its response as the list of responses; a round without one adds none.\<close>

definition change :: "'c tools \<Rightarrow> string \<Rightarrow> (string \<times> string) list \<Rightarrow> 'c runtime \<Rightarrow> (fault + goval list) \<times> 'c runtime" where
  "change t command kvs r = andThen (applyCommand t command (form_params kvs) r) (\<lambda>resp r1. (Inr [VMap resp], r1))"

definition no_change :: "'c runtime \<Rightarrow> (fault + goval list) \<times> 'c runtime" where
  "no_change r = (Inr [], r)"

definition advance :: "ResourceResult \<Rightarrow> goval list \<Rightarrow> goval list \<Rightarrow> progress \<Rightarrow> progress" where
  "advance resource raw verify p =
     p\<lparr>pg_resources := pg_resources p @ [resource], pg_changed := (pg_changed p \<or> raw \<noteq> []), pg_raw := pg_raw p @ raw,
       pg_verify := pg_verify p @ verify\<rparr>"

definition bridged :: "mold_env \<Rightarrow> gomap \<Rightarrow> bool" where
  "bridged e = field_is e ''kvmnetworklabel'' ''bridge0''"

definition traffic_fix :: "'c tools \<Rightarrow> string \<Rightarrow> gomap option \<Rightarrow> 'c runtime \<Rightarrow> (fault + goval list) \<times> 'c runtime" where
  "traffic_fix t trafficType item r =
     (case item of
        None \<Rightarrow> change t ''addTrafficType''
          [(''physicalnetworkid'', x_physicalNetworkID r), (''traffictype'', trafficType), (''kvmnetworklabel'', ''bridge0'')] r
      | Some it \<Rightarrow>
          if bridged (t_env t) it then no_change r
          else change t ''updateTrafficType'' [(''id'', stringValue (t_env t) (mget it ''id'')), (''kvmnetworklabel'', ''bridge0'')] r)"

definition traffic_round :: "'c tools \<Rightarrow> string \<Rightarrow> progress \<Rightarrow> 'c runtime \<Rightarrow> (fault + progress) \<times> 'c runtime" where
  "traffic_round t trafficType p r =
     andThen (look (findTrafficType t trafficType) r) (\<lambda>(before, item) r1.
     andThen (traffic_fix t trafficType item r1) (\<lambda>raw r2.
     andThen (look_again ''listTrafficTypes'' (findTrafficType t trafficType) r2) (\<lambda>(after, item) r3.
       case accepted (bridged (t_env t)) item of
         None \<Rightarrow> (Inl (Plain (''traffic type '' @ trafficType @ '' was not verified with kvmnetworklabel=bridge0''), VMap after), r3)
       | Some it \<Rightarrow> (Inr (advance (resourceFromItem (t_env t) it ''listTrafficTypes'') raw [VMap before, VMap after] p), r3))))"

definition loop_options :: "(goval list \<Rightarrow> goval) \<Rightarrow> progress \<Rightarrow> stepResultOptions" where
  "loop_options arr p =
     no_options\<lparr>o_Resources := pg_resources p, o_Created := pg_changed p, o_Existing := \<not> pg_changed p, o_Raw := arr (pg_raw p),
       o_Verify := arr (pg_verify p)\<rparr>"

definition trafficTypes :: "string list" where
  "trafficTypes = [''Management'', ''Guest'', ''Public'']"

definition ensureTrafficTypes :: "'c tools \<Rightarrow> 'c runtime \<Rightarrow> (fault + stepResultOptions) \<times> 'c runtime" where
  "ensureTrafficTypes t r =
     andThen (require requirePhysicalNetworkID r) (\<lambda>_ r1.
     andThen (each (traffic_round t) trafficTypes no_progress r1) (\<lambda>p r2. (Inr (loop_options VArr p), r2)))"

definition enabled_element :: "gomap \<Rightarrow> bool" where
  "enabled_element element = boolValue (mget element ''enabled'')"

definition element_fix :: "'c tools \<Rightarrow> gomap \<Rightarrow> 'c runtime \<Rightarrow> (fault + goval list) \<times> 'c runtime" where
  "element_fix t el r =
     (if enabled_element el then no_change r
      else change t ''configureVirtualRouterElement'' [(''id'', stringValue (t_env t) (mget el ''id'')), (''enabled'', ''true'')] r)"

definition provider_fix :: "'c tools \<Rightarrow> gomap \<Rightarrow> 'c runtime \<Rightarrow> (fault + goval list) \<times> 'c runtime" where
  "provider_fix t prov r =
     (if field_is (t_env t) ''state'' ''Enabled'' prov then no_change r
      else change t ''updateNetworkServiceProvider'' [(''id'', stringValue (t_env t) (mget prov ''id'')), (''state'', ''Enabled'')] r)"

definition provider_round :: "'c tools \<Rightarrow> string \<Rightarrow> progress \<Rightarrow> 'c runtime \<Rightarrow> (fault + progress) \<times> 'c runtime" where
  "provider_round t providerName p r =
     andThen (look (findNetworkProvider t providerName) r) (\<lambda>(providerResponse, provider) r1.
       case provider of
         None \<Rightarrow> (Inl (Plain (''network provider '' @ providerName @ '' not found''), VMap providerResponse), r1)
       | Some prov \<Rightarrow>
           (let providerID = stringValue (t_env t) (mget prov ''id'')
            in andThen (look (findVirtualRouterElement t providerID) r1) (\<lambda>(elementResponse, element) r2.
                 case element of
                   None \<Rightarrow> (Inl (Plain (''virtual router element for provider '' @ providerName @ '' not found''), VMap elementResponse), r2)
                 | Some el \<Rightarrow>
                     andThen (element_fix t el r2) (\<lambda>raw1 r3.
                     andThen (provider_fix t prov r3) (\<lambda>raw2 r4.
                     andThen (look_again ''listNetworkServiceProviders'' (findNetworkProvider t providerName) r4) (\<lambda>(providerResponse', provider') r5.
                     andThen (look_again ''listVirtualRouterElements'' (findVirtualRouterElement t providerID) r5) (\<lambda>(elementResponse', element') r6.
                       let verify = [VMap providerResponse, VMap elementResponse, VMap providerResponse', VMap elementResponse']
                       in case (accepted (field_is (t_env t) ''state'' ''Enabled'') provider', accepted enabled_element element') of
                            (Some prov', Some _) \<Rightarrow>
                              (Inr (advance (resourceFromItem (t_env t) prov' ''listNetworkServiceProviders'') (raw1 @ raw2) verify p), r6)
                          | _ \<Rightarrow> (Inl (Plain (''network provider '' @ providerName @ '' was not fully enabled''), VArr (pg_verify p @ verify)), r6))))))))"

definition providerNames :: "string list" where
  "providerNames = [''VirtualRouter'', ''VpcVirtualRouter'']"

definition enableNetworkProviders :: "'c tools \<Rightarrow> 'c runtime \<Rightarrow> (fault + stepResultOptions) \<times> 'c runtime" where
  "enableNetworkProviders t r =
     andThen (require requirePhysicalNetworkID r) (\<lambda>_ r1.
     andThen (each (provider_round t) providerNames no_progress r1) (\<lambda>p r2. (Inr (loop_options VArr p), r2)))"

definition host_params :: "HostRequest \<Rightarrow> 'c runtime \<Rightarrow> (string \<times> string) list" where
  "host_params host r =
     [(''zoneid'', x_zoneID r), (''podid'', x_podID r), (''clusterid'', x_clusterID r), (''url'', hr_URL host), (''username'', hr_Username host),
      (''password'', hr_Password host), (''hypervisor'', firstNonEmpty [hr_Hypervisor host, cl_Hypervisor (q_Cluster (x_req r))]),
      (''hosttags'', hr_HostTags host)]"

definition host_round :: "'c tools \<Rightarrow> HostRequest \<Rightarrow> progress \<Rightarrow> 'c runtime \<Rightarrow> (fault + progress) \<times> 'c runtime" where
  "host_round t host p r =
     andThen (look (findHost t host) r) (\<lambda>(before, item) r1.
       case item of
         Some it \<Rightarrow> (Inr (advance (resourceFromItem (t_env t) it ''listHosts'') [] [VMap before] p), r1)
       | None \<Rightarrow>
           andThen (change t ''addHost'' (host_params host r1) r1) (\<lambda>raw r2.
           andThen (look_again ''listHosts'' (findHost t host) r2) (\<lambda>(after, item) r3.
             case item of
               None \<Rightarrow> (Inl (Plain (''addHost succeeded but listHosts did not return host '' @ me_quote (t_env t) (hr_URL host)),
                          VArr (pg_verify p @ [VMap before, VMap after])), r3)
             | Some it \<Rightarrow> (Inr (advance (resourceFromItem (t_env t) it ''listHosts'') raw [VMap before, VMap after] p), r3))))"

text \<open>A slice that was never appended to is nil.\<close>

definition slice :: "goval list \<Rightarrow> goval" where
  "slice vs = (if vs = [] then VNil else VArr vs)"

definition ensureHosts :: "'c tools \<Rightarrow> 'c runtime \<Rightarrow> (fault + stepResultOptions) \<times> 'c runtime" where
  "ensureHosts t r =
     andThen (require requireZonePodClusterID r) (\<lambda>_ r1.
     andThen (each (host_round t) (q_Hosts (x_req r1)) no_progress r1) (\<lambda>p r2. (Inr (loop_options slice p), r2)))"

section \<open>Readiness, login and waiting\<close>

definition probe_maps :: "string \<Rightarrow> string \<Rightarrow> gomap" where
  "probe_maps endpoint ccvmIP = fmap_of_list [(''endpoint'', VStr endpoint), (''ccvm_ip'', VStr ccvmIP)]"

definition waitMoldAPIReady :: "'c tools \<Rightarrow> 'c runtime \<Rightarrow> (fault + stepResultOptions) \<times> 'c runtime" where
  "waitMoldAPIReady t r =
     (case ResolveMoldEndpointFromCluster (t_env t) of
        Inl err \<Rightarrow> (Inl (err, VNil), r)
      | Inr (endpoint, ccvmIP) \<Rightarrow>
          (let c = NewClient endpoint ccvmIP;
               (res, r1) = run_command t c ''GET'' ''listCapabilities'' fmempty
                 (r\<lparr>x_endpoint := endpoint, x_ccvmIP := ccvmIP, x_client := Some c\<rparr>);
               succeed = (\<lambda>raw. Inr (no_options\<lparr>
                 o_Resource := Some \<lparr>res_ID = [], res_Name = ''mold_api'', res_URL = endpoint, res_State = [], res_Status = ''responding'',
                   res_VerifiedBy = ''listCapabilities'', res_Raw = VMap (fmap_of_list [(''ccvm_ip'', VStr ccvmIP), (''probe'', raw)])\<rparr>,
                 o_Raw := VMap (probe_maps endpoint ccvmIP), o_Verify := raw\<rparr>))
           in (case res of
                 Inr raw \<Rightarrow> succeed (VMap raw)
               | Inl err \<Rightarrow>
                   (case APIErrorFrom err of
                      None \<Rightarrow> Inl (err, VNil)
                    | Some a \<Rightarrow>
                        if a_Raw a = VNil then Inl (err, VNil)
                        else succeed (case as_map (a_Raw a) of Some m \<Rightarrow> VMap m | None \<Rightarrow> VNil)), r1)))"

definition loginAdmin :: "'c tools \<Rightarrow> 'c runtime \<Rightarrow> (fault + stepResultOptions) \<times> 'c runtime" where
  "loginAdmin t r =
     andThen (onError (\<lambda>err. (err, VNil)) (ensureClient t r)) (\<lambda>c r1.
     andThen (onError (\<lambda>err. (err, VNil)) (login_runtime t c r1)) (\<lambda>c' r2.
       let (res, k) = ListCapabilities (t_env t) (t_srv t) c' [] (x_net r2); r3 = r2\<lparr>x_net := k\<rparr>; session = x_session r2
       in case res of
            Inl err \<Rightarrow> (Inl (withVerifyCommand ''listCapabilities'' err, VNil), r3)
          | Inr capabilities \<Rightarrow>
              (Inr (no_options\<lparr>
                 o_Resource := Some \<lparr>res_ID = [], res_Name = ''session'', res_URL = [], res_State = [], res_Status = ''authenticated'',
                   res_VerifiedBy = ''listCapabilities'',
                   res_Raw = VMap (fmupd ''capabilities'' (VMap capabilities) (probe_maps (se_Endpoint session) (se_CCVMIP session)))\<rparr>,
                 o_Raw := VMap (probe_maps (se_Endpoint session) (se_CCVMIP session)), o_Verify := VMap capabilities\<rparr>), r3)))"

section \<open>What a piece of a step may do\<close>

text \<open>
  From one runtime to the next, the clock does not go back, the request is the same, and the requests
  sent have a method and a command out of a set.
\<close>

definition request_kind :: "api_request \<Rightarrow> string \<times> string" where
  "request_kind q = (ar_method q, form_get (ar_values q) ''command'')"

definition within :: "(string \<times> string) set \<Rightarrow> 'c runtime \<Rightarrow> 'c runtime \<Rightarrow> bool" where
  "within W r r' \<longleftrightarrow>
     k_time (x_net r) \<le> k_time (x_net r') \<and> x_req r' = x_req r
     \<and> (\<exists>new. k_sent (x_net r') = k_sent (x_net r) @ new \<and> request_kind ` set new \<subseteq> W)"

text \<open>A login or a read.\<close>

definition quiet :: "(string \<times> string) set" where
  "quiet = insert (''POST'', ''login'') ({''GET''} \<times> UNIV)"

lemma within_refl [simp]: "within W r r"
  by (simp add: within_def)

lemma within_trans: "within W r r1 \<Longrightarrow> within W r1 r2 \<Longrightarrow> within W r r2"
  by (fastforce simp: within_def)

lemma within_mono: "within V r r' \<Longrightarrow> V \<subseteq> W \<Longrightarrow> within W r r'"
  by (fastforce simp: within_def)

lemma within_andThen:
  "within W r (snd p) \<Longrightarrow> (\<And>v r1. p = (Inr v, r1) \<Longrightarrow> within W r1 (snd (f v r1))) \<Longrightarrow> within W r (snd (andThen p f))"
  by (cases p; cases "fst p") (auto simp: andThen_def intro: within_trans)

lemma snd_onError [simp]: "snd (onError g p) = snd p"
  by (cases p; cases "fst p") (auto simp: onError_def)

lemma within_call:
  assumes "(meth, form_get vals ''command'') \<in> W"
  shows "within W r (r\<lparr>x_net := snd (call e srv c meth vals (x_net r))\<rparr>)"
proof -
  obtain res k where "call e srv c meth vals (x_net r) = (res, k)" by (cases "call e srv c meth vals (x_net r)")
  with call_appends [OF this] assms show ?thesis by (auto simp: within_def request_kind_def)
qed

lemma net_same [simp]: "r\<lparr>x_net := x_net r\<rparr> = r"
  by (cases r) simp

lemma within_run_command:
  assumes "meth \<noteq> []" and "\<not> blank meth" and "(meth, trim_space command) \<in> W"
  shows "within W r (snd (run_command t c meth command vals r))"
  using assms within_call [of meth "command_form c (trim_space command) [] vals" W r "t_env t" "t_srv t" c]
  by (simp add: run_command_def CallCommand_def command_form_fields split_beta Let_def)

lemma methods_not_blank [simp]: "trim_space ''GET'' \<noteq> []" "trim_space ''POST'' \<noteq> []"
  by code_simp+

lemma within_read: "within quiet r (snd (run_command t c ''GET'' command vals r))"
  by (rule within_run_command) (simp_all add: quiet_def)

lemma within_ensureClient: "within W r (snd (ensureClient t r))"
  by (auto simp: ensureClient_def within_def split: option.split sum.split)

lemma Login_net:
  "snd (Login e srv c auth k) = (if blank (c_endpoint c) then k else snd (call e srv c ''POST'' (login_form auth) k))"
  by (auto simp: Login_def split: prod.split sum.split)

lemma login_command: "form_get (login_form auth) ''command'' = ''login''"
  by (simp add: login_form_def form_get_def Let_def fmlookup_of_list)

lemma within_login_runtime: "within quiet r (snd (login_runtime t c r))"
proof -
  let ?L = "Login (t_env t) (t_srv t) c (auth_config (x_req r)) (x_net r)"
  have "within quiet r (r\<lparr>x_net := snd ?L\<rparr>)"
    using within_call [of "''POST''" "login_form (auth_config (x_req r))" quiet r "t_env t" "t_srv t" c] by (simp add: Login_net login_command quiet_def)
  then show ?thesis by (auto simp: login_runtime_def within_def split: prod.splits sum.splits)
qed

lemma within_ensureSession: "within quiet r (snd (ensureSession t r))"
  unfolding ensureSession_def by (rule within_andThen) (auto simp: within_ensureClient within_login_runtime)

lemma within_callList: "within quiet r (snd (callList t command kvs r))"
  unfolding callList_def by (rule within_andThen) (auto simp: within_ensureSession within_read)

lemma within_listSystemVMs: "within quiet r (snd (listSystemVMs t r))"
  unfolding listSystemVMs_def by (rule within_andThen) (auto simp: within_callList)

function wait_loop :: "'c tools \<Rightarrow> nat \<Rightarrow> nat \<Rightarrow> 'c runtime \<Rightarrow> (fault + stepResultOptions) \<times> 'c runtime" where
  "wait_loop t deadline interval r =
     (let (res, r1) = listSystemVMs t r
      in case res of
           Inl err \<Rightarrow> (Inl (err, VNil), r1)
         | Inr (resp, items) \<Rightarrow>
             if items \<noteq> [] \<and> allSystemVMsRunning (t_env t) items
             then (Inr (no_options\<lparr>o_Resources := map (\<lambda>item. resourceFromItem (t_env t) item ''listSystemVms'') items, o_Verify := VMap resp\<rparr>), r1)
             else if k_time (x_net r1) > deadline
             then (Inl (Plain ''timed out waiting for system VMs to reach Running state'', VMap resp), r1)
             else wait_loop t deadline interval (sleepContext interval r1))"
  by pat_completeness auto
termination
proof (relation "measure (\<lambda>(t, deadline, interval, r). Suc deadline - k_time (x_net r))")
  fix t :: "'c tools" and deadline interval and r :: "'c runtime" and p res r1
  assume p: "p = listSystemVMs t r" "(res, r1) = p" and alive: "\<not> deadline < k_time (x_net r1)"
  have "within quiet r r1" using within_listSystemVMs [of r t] p by (metis snd_conv)
  then show "((t, deadline, interval, sleepContext interval r1), t, deadline, interval, r)
      \<in> measure (\<lambda>(t, deadline, interval, r). Suc deadline - k_time (x_net r))"
    using alive by (auto simp: sleepContext_def seconds_def within_def)
qed simp

declare wait_loop.simps [simp del]

definition waitSystemVMRunning :: "'c tools \<Rightarrow> 'c runtime \<Rightarrow> (fault + stepResultOptions) \<times> 'c runtime" where
  "waitSystemVMRunning t r =
     andThen (require requireZoneID r) (\<lambda>_ r1.
       let timeout = durationFromEnv (t_env t) ''ABLESTACK_MOLD_SYSTEM_VM_TIMEOUT'' (seconds 1200);
           interval = durationFromEnv (t_env t) ''ABLESTACK_MOLD_SYSTEM_VM_POLL_INTERVAL'' (seconds 10)
       in wait_loop t (k_time (x_net r1) + timeout) interval r1)"

section \<open>The final check\<close>

type_synonym health = "ResourceResult list \<times> gomap"

definition healthy :: "string \<Rightarrow> 'c finder \<Rightarrow> (gomap \<Rightarrow> bool) \<Rightarrow> string \<Rightarrow> 'c runtime \<Rightarrow> (fault + gomap \<times> gomap) \<times> 'c runtime" where
  "healthy verifyBy finder accept missing r =
     andThen (look_again verifyBy finder r) (\<lambda>(resp, item) r1.
       case accepted accept item of
         None \<Rightarrow> (Inl (Plain (''final health check failed: '' @ missing), VMap resp), r1)
       | Some it \<Rightarrow> (Inr (resp, it), r1))"

definition health_check ::
  "'c tools \<Rightarrow> string \<Rightarrow> 'c finder \<Rightarrow> (gomap \<Rightarrow> bool) \<Rightarrow> string \<Rightarrow> string \<Rightarrow> health \<Rightarrow> 'c runtime \<Rightarrow> (fault + health) \<times> 'c runtime" where
  "health_check t verifyBy finder accept missing key h r =
     andThen (healthy verifyBy finder accept missing r) (\<lambda>(resp, item) r1.
       (Inr (fst h @ [resourceFromItem (t_env t) item verifyBy], fmupd key (VMap resp) (snd h)), r1))"

definition health_provider :: "'c tools \<Rightarrow> string \<Rightarrow> health \<Rightarrow> 'c runtime \<Rightarrow> (fault + health) \<times> 'c runtime" where
  "health_provider t providerName h r =
     andThen (healthy ''listNetworkServiceProviders'' (findNetworkProvider t providerName) (field_is (t_env t) ''state'' ''Enabled'')
                (''enabled network provider '' @ providerName @ '' not found'') r) (\<lambda>(resp, item) r1.
     andThen (healthy ''listVirtualRouterElements'' (findVirtualRouterElement t (stringValue (t_env t) (mget item ''id''))) enabled_element
                (''virtual router element for '' @ providerName @ '' is not enabled'') r1) (\<lambda>(elementResp, element) r2.
       (Inr (fst h @ [resourceFromItem (t_env t) item ''listNetworkServiceProviders''],
             fmupd ''virtual_router_elements'' (VMap elementResp) (fmupd ''network_providers'' (VMap resp) (snd h))), r2)))"

definition health_checks :: "'c tools \<Rightarrow> BootstrapRequest \<Rightarrow> (health \<Rightarrow> 'c runtime \<Rightarrow> (fault + health) \<times> 'c runtime) list" where
  "health_checks t req =
     (let e = t_env t; q = me_quote e
      in [health_check t ''listZones'' (findZone t) any_item (''zone '' @ q (zn_Name (q_Zone req)) @ '' not found'') ''zones'',
          health_check t ''listPhysicalNetworks'' (findPhysicalNetwork t) (field_is e ''state'' ''Enabled'')
            (''enabled physical network '' @ q (pn_Name (q_PhysicalNetwork req)) @ '' not found'') ''physical_networks'']
         @ map (\<lambda>tt. health_check t ''listTrafficTypes'' (findTrafficType t tt) (bridged e)
             (''traffic type '' @ tt @ '' with bridge0 not found'') ''traffic_types'') trafficTypes
         @ map (health_provider t) providerNames
         @ [health_check t ''listPods'' (findPod t) any_item (''pod '' @ q (pod_Name (q_Pod req)) @ '' not found'') ''pods'',
            health_check t ''listVlanIpRanges'' (findPublicIPRange t) any_item
              (''public IP range '' @ ip_StartIP (q_PublicIP req) @ ''-'' @ ip_EndIP (q_PublicIP req) @ '' not found'') ''public_ip_ranges'',
            health_check t ''listClusters'' (findCluster t) any_item (''cluster '' @ q (cl_Name (q_Cluster req)) @ '' not found'') ''clusters'']
         @ map (\<lambda>host. health_check t ''listHosts'' (findHost t host) any_item (''host '' @ q (hr_URL host) @ '' not found'') ''hosts'')
             (q_Hosts req)
         @ [health_check t ''listStoragePools'' (findPrimaryStorage t) any_item
              (''primary storage '' @ q (ps_Name (q_PrimaryStorage req)) @ '' not found'') ''storage_pools'',
            health_check t ''listImageStores'' (findSecondaryStorage t) any_item
              (''secondary storage '' @ q (ss_URL (q_SecondaryStorage req)) @ '' not found'') ''image_stores'']
         @ (case q_SecondaryStagingStore req of
              None \<Rightarrow> []
            | Some s \<Rightarrow>
                [health_check t ''listSecondaryStagingStores'' (findSecondaryStagingStore t s) any_item
                   (''secondary staging store '' @ q (sg_URL s) @ '' not found'') ''secondary_staging_stores'']))"

definition finalHealthCheck :: "'c tools \<Rightarrow> 'c runtime \<Rightarrow> (fault + stepResultOptions) \<times> 'c runtime" where
  "finalHealthCheck t r =
     andThen (require requireZonePodClusterID r) (\<lambda>_ r1.
     andThen (each (\<lambda>chk. chk) (health_checks t (x_req r1)) ([], fmempty) r1) (\<lambda>(results, raw) r2.
       (Inr (no_options\<lparr>o_Resources := results, o_Verify := VMap raw\<rparr>), r2)))"

section \<open>Trust between the hosts\<close>

definition moldHostAPIURL :: "mold_env \<Rightarrow> string \<Rightarrow> string" where
  "moldHostAPIURL e target =
     (let scheme = trim_space (me_getenv e ''ABLESTACK_API_SCHEME''); port = trim_space (me_getenv e ''ABLESTACK_API_PORT'')
      in (if scheme = [] then ''http'' else scheme) @ ''://'' @ target @ '':'' @ (if port = [] then ''18090'' else port))"

definition moldHostSSHPort :: "mold_env \<Rightarrow> int" where
  "moldHostSSHPort e =
     (case atoi (firstNonEmpty [me_getenv e ''ABLESTACK_SSH_PORT'', me_getenv e ''SSH_PORT'']) of
        None \<Rightarrow> 22
      | Some port \<Rightarrow> if port < 1 \<or> port > 65535 then 22 else port)"

text \<open>The loop over the hosts of the document: the first host with each address.\<close>

fun trust_targets :: "string list \<Rightarrow> ClusterHost list \<Rightarrow> moldHostTrustTarget list" where
  "trust_targets seen [] = []"
| "trust_targets seen (host # hosts) =
     (let target = trim_space (Ablecube host)
      in if target = [] \<or> target \<in> set seen then trust_targets seen hosts
         else \<lparr>ht_Hostname = trim_space (Hostname host), ht_Target = target\<rparr> # trust_targets (target # seen) hosts)"

definition loadMoldHostTrustTargets :: "'c tools \<Rightarrow> string + moldHostTrustTarget list" where
  "loadMoldHostTrustTargets t = (case t_hosts t of Inl err \<Rightarrow> Inl err | Inr hosts \<Rightarrow> Inr (trust_targets [] hosts))"

definition new_trust_result :: "moldHostTrustTarget \<Rightarrow> string \<Rightarrow> moldHostTrustResult" where
  "new_trust_result target fingerprint =
     \<lparr>hx_Hostname = ht_Hostname target, hx_Target = ht_Target target, hx_Code = 0, hx_Changed = False, hx_Fingerprint = fingerprint, hx_Message = []\<rparr>"

definition ensureMoldHostTrust :: "'c tools \<Rightarrow> moldHostTrustTarget \<Rightarrow> string \<Rightarrow> string \<Rightarrow> moldHostTrustResult" where
  "ensureMoldHostTrust t target publicKey token =
     (case t_post t (moldHostAPIURL (t_env t) (ht_Target target) @ ''/api/v1/cube/ssh/trust'') token
             \<lparr>sq_Action = ''ensure'', sq_PublicKey = publicKey, sq_Identifier = DefaultIdentifier\<rparr> of
        NoAnswer err \<Rightarrow> (new_trust_result target [])\<lparr>hx_Message := err\<rparr>
      | Answer code raw decoded status \<Rightarrow>
          (let r1 = (new_trust_result target [])\<lparr>hx_Code := code\<rparr>;
               r2 = (case decoded of
                       None \<Rightarrow> r1
                     | Some d \<Rightarrow> r1\<lparr>hx_Changed := sr_Changed d, hx_Fingerprint := sr_Fingerprint d, hx_Message := sr_Message d\<rparr>);
               r3 = (if hx_Message r2 = [] then r2\<lparr>hx_Message := trim_space raw\<rparr> else r2)
           in if hx_Message r3 = [] then r3\<lparr>hx_Message := status\<rparr> else r3))"

definition ssh_args :: "mold_env \<Rightarrow> string \<Rightarrow> string \<Rightarrow> string \<Rightarrow> string list" where
  "ssh_args e key knownHosts target =
     [''-p'', itoa (moldHostSSHPort e), ''-i'', key, ''-o'', ''BatchMode=yes'', ''-o'', ''IdentitiesOnly=yes'', ''-o'', ''ConnectTimeout=10'',
      ''-o'', ''StrictHostKeyChecking=yes'', ''-o'', ''UserKnownHostsFile='' @ knownHosts, ''root@'' @ target, ''true'']"

definition verifyMoldHostSSH :: "'c tools \<Rightarrow> moldHostTrustTarget \<Rightarrow> string \<Rightarrow> moldHostTrustResult" where
  "verifyMoldHostSSH t target fingerprint =
     (let result = new_trust_result target fingerprint; e = t_env t
      in case t_mkdtemp t of
           Inl err \<Rightarrow> result\<lparr>hx_Message := err\<rparr>
         | Inr tempDir \<Rightarrow>
             (let knownHosts = t_joinPath t [tempDir, ''known_hosts''];
                  (scanErr, scanOutput) = t_keyscan t (moldHostSSHPort e) (ht_Target target)
              in if scanErr \<noteq> None \<or> trim_space scanOutput = []
                 then result\<lparr>hx_Message := firstNonEmpty [case scanErr of None \<Rightarrow> [] | Some err \<Rightarrow> err, ''ssh-keyscan returned no host key'']\<rparr>
                 else (case t_writeFile t knownHosts scanOutput of
                         Some err \<Rightarrow> result\<lparr>hx_Message := err\<rparr>
                       | None \<Rightarrow>
                           (case t_ssh t (ssh_args e (ManagementPrivateKeyPath (t_joinPath t) (me_getenv e)) knownHosts (ht_Target target)) of
                              (Some err, output) \<Rightarrow> result\<lparr>hx_Message := firstNonEmpty [trim_space output, err]\<rparr>
                            | (None, output) \<Rightarrow> result\<lparr>hx_Code := 200, hx_Message := ''CCVM CloudStack management SSH access verified''\<rparr>))))"

definition trust_value :: "moldHostTrustResult \<Rightarrow> goval" where
  "trust_value x =
     VRec [(''hostname'', VStr (hx_Hostname x)), (''target'', VStr (hx_Target x)), (''code'', VInt (hx_Code x)),
       (''changed'', VBool (hx_Changed x)), (''fingerprint'', VStr (hx_Fingerprint x)), (''message'', VStr (hx_Message x))]"

text \<open>The two loops: the results so far, and the message of the first failure.\<close>

fun trust_loop ::
  "(moldHostTrustTarget \<Rightarrow> moldHostTrustResult) \<Rightarrow> (moldHostTrustResult \<Rightarrow> bool) \<Rightarrow> moldHostTrustTarget list
     \<Rightarrow> moldHostTrustResult list \<times> (moldHostTrustTarget \<times> string) option" where
  "trust_loop f ok [] = ([], None)"
| "trust_loop f ok (target # targets) =
     (let result = f target
      in if ok result then (let (results, failure) = trust_loop f ok targets in (result # results, failure))
         else ([result], Some (target, hx_Message result)))"

text \<open>What was registered and verified, and the error if there is one.\<close>

definition reconcileHostSSHTrust :: "'c tools \<Rightarrow> goval \<times> goval \<times> mold_error option" where
  "reconcileHostSSHTrust t =
     (case ReadManagementPublicKey (t_lib t) (t_readFile t) (ManagementPublicKeyPath (t_joinPath t) (me_getenv (t_env t))) of
        Inl err \<Rightarrow> (VNil, VNil, Some (Plain err))
      | Inr (publicKey, fingerprint) \<Rightarrow>
          (case loadMoldHostTrustTargets t of
             Inl err \<Rightarrow> (VNil, VNil, Some (Plain err))
           | Inr targets \<Rightarrow>
               if targets = [] then (VNil, VNil, Some (Plain ''clusterConfig.hosts[].ablecube required''))
               else (case GetInternalToken (me_getenv (t_env t)) (t_store t) of
                       Inl _ \<Rightarrow> (VNil, VNil, Some (Plain (''read internal token: '' @ t_store_error t)))
                     | Inr token \<Rightarrow>
                         (let (registered, failure) = trust_loop
                                (\<lambda>target. let result = ensureMoldHostTrust t target publicKey token
                                          in if hx_Fingerprint result = [] then result\<lparr>hx_Fingerprint := fingerprint\<rparr> else result)
                                (\<lambda>result. 200 \<le> hx_Code result \<and> hx_Code result < 300) targets
                          in case failure of
                               Some (target, message) \<Rightarrow>
                                 (VArr (map trust_value registered), VNil,
                                  Some (Plain (''register cloud@ccvm on '' @ ht_Target target @ '' failed: '' @ message)))
                             | None \<Rightarrow>
                                 (let (verified, failure) = trust_loop (\<lambda>target. verifyMoldHostSSH t target fingerprint)
                                        (\<lambda>result. hx_Code result = 200) targets
                                  in (VArr (map trust_value registered), VArr (map trust_value verified),
                                      map_option (\<lambda>(target, message).
                                        Plain (''verify CCVM SSH access to '' @ ht_Target target @ '' failed: '' @ message)) failure))))))"

definition syncHostSSHTrust :: "'c tools \<Rightarrow> 'c runtime \<Rightarrow> (fault + stepResultOptions) \<times> 'c runtime" where
  "syncHostSSHTrust t r =
     (case reconcileHostSSHTrust t of
        (registered, verified, Some err) \<Rightarrow>
          (Inl (err, VMap (fmap_of_list [(''registration'', registered), (''verification'', verified)])), r)
      | (registered, verified, None) \<Rightarrow> (Inr (no_options\<lparr>o_Raw := registered, o_Verify := verified\<rparr>), r))"

section \<open>Dispatch\<close>

definition step_body :: "'c tools \<Rightarrow> string \<Rightarrow> 'c runtime \<Rightarrow> (fault + stepResultOptions) \<times> 'c runtime" where
  "step_body t name =
     (if name = ''wait_mold_api_ready'' then waitMoldAPIReady t
      else if name = ''login_admin'' then loginAdmin t
      else if name = ''create_zone'' then ensureZone t
      else if name = ''create_physical_network'' then ensurePhysicalNetwork t
      else if name = ''add_traffic_types'' then ensureTrafficTypes t
      else if name = ''enable_physical_network'' then enablePhysicalNetwork t
      else if name = ''enable_network_providers'' then enableNetworkProviders t
      else if name = ''create_pod'' then ensurePod t
      else if name = ''create_public_ip_range'' then ensurePublicIPRange t
      else if name = ''create_cluster'' then ensureCluster t
      else if name = ''sync_host_ssh_trust'' then syncHostSSHTrust t
      else if name = ''add_host'' then ensureHosts t
      else if name = ''add_primary_storage'' then ensurePrimaryStorage t
      else if name = ''add_secondary_storage'' then ensureSecondaryStorage t
      else if name = ''add_secondary_staging_store'' then ensureSecondaryStagingStore t
      else if name = ''enable_zone'' then enableZone t
      else if name = ''wait_system_vm_running'' then waitSystemVMRunning t
      else if name = ''final_health_check'' then finalHealthCheck t
      else (\<lambda>r. (Inl (Plain (''unknown mold bootstrap step: '' @ name), VNil), r)))"

definition RunStep :: "'c tools \<Rightarrow> BootstrapJobStep \<Rightarrow> 'c runtime \<Rightarrow> BootstrapStepResult \<times> 'c runtime" where
  "RunStep t step r = finish step (step_body t (s_Name step) r)"

end
