(* ===== verification/Bootstrap_Run.thy ===== *)
theory Bootstrap_Run
  imports Polling Bootstrap_Execute
begin

text \<open>
  What the steps of a bootstrap do to the cloud manager: which requests they send, how often they
  ask, what success means, and how the job handler of
  \<^verbatim>\<open>internal/handler/mold/bootstrap_job.go\<close> runs them in order.
\<close>

section \<open>The handler's loop\<close>

fun run_steps ::
  "'c tools \<Rightarrow> string \<Rightarrow> BootstrapJobStep list \<Rightarrow> 'c runtime \<Rightarrow> bootstrapJobStore \<Rightarrow> bootstrapJobStore \<times> 'c runtime" where
  "run_steps t jobID [] r s = (update jobID (job_succeeded (k_time (x_net r))) s, r)"
| "run_steps t jobID (step # steps) r s =
     (let s1 = update jobID (job_step (k_time (x_net r)) (s_Name step)) s;
          (result, r1) = RunStep t step r;
          now = k_time (x_net r1)
      in case r_Error result of
           Some err \<Rightarrow> (update jobID (job_failed now now (s_Name step) result err) s1, r1)
         | None \<Rightarrow> run_steps t jobID steps r1 (update jobID (job_step_done now (s_Name step) result) s1))"

definition runBootstrapJob ::
  "'c tools \<Rightarrow> string \<Rightarrow> BootstrapRequest \<Rightarrow> 'c net \<Rightarrow> bootstrapJobStore \<Rightarrow> bootstrapJobStore \<times> 'c runtime" where
  "runBootstrapJob t jobID req k s =
     (let s1 = update jobID (job_started (k_time k)) s; r = NewBootstrapRuntime req k
      in case get jobID s1 of None \<Rightarrow> (s1, r) | Some job \<Rightarrow> run_steps t jobID (j_Steps job) r s1)"

section \<open>Requests of a step\<close>

text \<open>The commands a step may send as changes.\<close>

definition step_commands :: "string \<Rightarrow> string list" where
  "step_commands name =
     (if name = ''wait_mold_api_ready'' then []
      else if name = ''login_admin'' then []
      else if name = ''create_zone'' then [''createZone'']
      else if name = ''create_physical_network'' then [''createPhysicalNetwork'']
      else if name = ''add_traffic_types'' then [''addTrafficType'', ''updateTrafficType'']
      else if name = ''enable_physical_network'' then [''updatePhysicalNetwork'']
      else if name = ''enable_network_providers'' then [''configureVirtualRouterElement'', ''updateNetworkServiceProvider'']
      else if name = ''create_pod'' then [''createPod'']
      else if name = ''create_public_ip_range'' then [''createVlanIpRange'']
      else if name = ''create_cluster'' then [''addCluster'']
      else if name = ''sync_host_ssh_trust'' then []
      else if name = ''add_host'' then [''addHost'']
      else if name = ''add_primary_storage'' then [''createStoragePool'']
      else if name = ''add_secondary_storage'' then [''addImageStore'']
      else if name = ''add_secondary_staging_store'' then [''createSecondaryStagingStore'']
      else if name = ''enable_zone'' then [''updateZone'']
      else if name = ''wait_system_vm_running'' then []
      else if name = ''final_health_check'' then []
      else [])"

definition changes :: "string list \<Rightarrow> (string \<times> string) set" where
  "changes cs = quiet \<union> {''POST''} \<times> set cs"

lemma within_sleep: "within W r (sleepContext d r)"
  by (simp add: sleepContext_def within_def)

section \<open>Polling\<close>

text \<open>The two loops that wait for the cloud manager are instances of \<open>bounded_poll\<close>.\<close>

abbreviation clock :: "'c runtime \<Rightarrow> nat" where
  "clock r \<equiv> k_time (x_net r)"

text \<open>How often a command was sent.\<close>

definition asked :: "string \<Rightarrow> 'c runtime \<Rightarrow> nat" where
  "asked command r = length (filter (\<lambda>q. form_get (ar_values q) ''command'' = command) (k_sent (x_net r)))"

definition pause_time :: "nat \<Rightarrow> nat" where
  "pause_time d = (if d = 0 then seconds 1 else d)"

definition poll_probe :: "'c tools \<Rightarrow> Client \<Rightarrow> string \<Rightarrow> 'c runtime \<Rightarrow> ((fault + gomap) + (fault + gomap)) \<times> 'c runtime" where
  "poll_probe t c jobID r =
     (let (res, r1) = run_command t c ''GET'' ''queryAsyncJobResult'' (fmupd ''jobid'' jobID fmempty) r
      in (case res of
            Inl err \<Rightarrow> Inr (Inl (err, VNil))
          | Inr resp \<Rightarrow>
              (case job_outcome (t_env t) jobID resp of
                 Some out \<Rightarrow> Inr out
               | None \<Rightarrow> Inl (Inl (Plain (''timed out waiting for async job '' @ jobID), VMap resp))), r1))"

lemma asked_within: "within W r r' \<Longrightarrow> asked command r \<le> asked command r'"
  by (auto simp: within_def asked_def)

lemma asked_call:
  "asked command (r\<lparr>x_net := snd (call e srv c method vals (x_net r))\<rparr>) \<le> Suc (asked command r)"
proof -
  obtain res k where "call e srv c method vals (x_net r) = (res, k)" by (cases "call e srv c method vals (x_net r)")
  with call_appends [OF this] show ?thesis by (auto simp: asked_def)
qed

lemma asked_run_command: "asked name (snd (run_command t c method command vals r)) \<le> Suc (asked name r)"
  by (simp add: run_command_def CallCommand_def split_beta Let_def asked_call)

interpretation job_poll: bounded_poll "poll_probe t c jobID" "sleepContext d" clock "asked name" deadline "pause_time d" "poll_loop t c deadline d jobID"
  for t c jobID d name deadline
proof
  show "poll_loop t c deadline d jobID s =
      (case poll_probe t c jobID s of
         (Inr out, s1) \<Rightarrow> (out, s1)
       | (Inl late, s1) \<Rightarrow> if clock s1 > deadline then (late, s1) else poll_loop t c deadline d jobID (sleepContext d s1))" for s
    by (subst poll_loop.simps) (auto simp: poll_probe_def split: prod.split sum.split option.split)
  show "clock s \<le> clock (snd (poll_probe t c jobID s))" for s
    using run_command_time by (simp add: poll_probe_def split_beta)
  show "asked name (snd (poll_probe t c jobID s)) \<le> Suc (asked name s)" for s
    by (simp add: poll_probe_def split_beta asked_run_command)
qed (simp_all add: sleepContext_def pause_time_def asked_def seconds_def)

definition wait_probe :: "'c tools \<Rightarrow> 'c runtime \<Rightarrow> ((fault + stepResultOptions) + (fault + stepResultOptions)) \<times> 'c runtime" where
  "wait_probe t r =
     (let (res, r1) = listSystemVMs t r
      in (case res of
            Inl err \<Rightarrow> Inr (Inl (err, VNil))
          | Inr (resp, items) \<Rightarrow>
              if items \<noteq> [] \<and> allSystemVMsRunning (t_env t) items
              then Inr (Inr (no_options\<lparr>o_Resources := map (\<lambda>item. resourceFromItem (t_env t) item ''listSystemVms'') items, o_Verify := VMap resp\<rparr>))
              else Inl (Inl (Plain ''timed out waiting for system VMs to reach Running state'', VMap resp)), r1))"

lemma asked_ensureSession: "name \<noteq> ''login'' \<Longrightarrow> asked name (snd (ensureSession t r)) = asked name r"
proof -
  assume n: "name \<noteq> ''login''"
  have call: "asked name (r\<lparr>x_net := snd (call e srv c m (login_form auth) (x_net r))\<rparr>) = asked name r" for r :: "'a runtime" and e srv c m auth
  proof -
    obtain res k where "call e srv c m (login_form auth) (x_net r) = (res, k)" by (cases "call e srv c m (login_form auth) (x_net r)")
    with call_appends [OF this] n show ?thesis by (auto simp: asked_def login_command)
  qed
  have login: "asked name (snd (login_runtime t c r)) = asked name r" for c r
  proof -
    have "asked name (r\<lparr>x_net := snd (Login (t_env t) (t_srv t) c (auth_config (x_req r)) (x_net r))\<rparr>) = asked name r"
      using call by (simp add: Login_net)
    then show ?thesis by (auto simp: login_runtime_def asked_def split: prod.splits sum.splits)
  qed
  have client: "asked name (snd (ensureClient t r)) = asked name r" for r
    by (auto simp: ensureClient_def asked_def split: option.split sum.split)
  obtain a r1 where c: "ensureClient t r = (a, r1)" by (cases "ensureClient t r")
  then show ?thesis
    using client [of r] login by (cases a) (auto simp: ensureSession_def andThen_def)
qed

lemma asked_listSystemVMs: "name \<noteq> ''login'' \<Longrightarrow> asked name (snd (listSystemVMs t r)) \<le> Suc (asked name r)"
proof -
  assume n: "name \<noteq> ''login''"
  obtain a r1 where s: "ensureSession t r = (a, r1)" by (cases "ensureSession t r")
  have "asked name r1 = asked name r" using asked_ensureSession [OF n, of t r] s by simp
  moreover have "snd (listSystemVMs t r) = snd (callList t ''listSystemVms'' (form_params [(''zoneid'', x_zoneID r)]) r)"
    by (simp add: listSystemVMs_def andThen_def split: prod.split sum.split)
  ultimately show ?thesis
    by (cases a) (simp_all add: callList_def s andThen_def le_trans [OF asked_run_command])
qed

interpretation vm_poll: bounded_poll "wait_probe t" "sleepContext d" clock "asked ''listSystemVms''" deadline "pause_time d" "wait_loop t deadline d"
  for t d deadline
proof
  show "wait_loop t deadline d s =
      (case wait_probe t s of
         (Inr out, s1) \<Rightarrow> (out, s1)
       | (Inl late, s1) \<Rightarrow> if clock s1 > deadline then (late, s1) else wait_loop t deadline d (sleepContext d s1))" for s
    by (subst wait_loop.simps) (auto simp: wait_probe_def split: prod.split sum.split)
  show "clock s \<le> clock (snd (wait_probe t s))" for s
    using within_listSystemVMs [of s t] by (simp add: wait_probe_def split_beta within_def)
  show "asked ''listSystemVms'' (snd (wait_probe t s)) \<le> Suc (asked ''listSystemVms'' s)" for s
    by (simp add: wait_probe_def split_beta asked_listSystemVMs)
qed (simp_all add: sleepContext_def pause_time_def asked_def seconds_def)

lemma within_poll_loop: "within quiet r (snd (poll_loop t c deadline d jobID r))"
proof (rule job_poll.poll_rel [where R = "within quiet"])
  show "within quiet s (snd (poll_probe t c jobID s))" for s by (simp add: poll_probe_def split_beta within_read)
qed (auto intro: within_sleep within_trans)

lemma within_wait_loop: "within quiet r (snd (wait_loop t deadline d r))"
proof (rule vm_poll.poll_rel [where R = "within quiet"])
  show "within quiet s (snd (wait_probe t s))" for s by (simp add: wait_probe_def split_beta within_listSystemVMs)
qed (auto intro: within_sleep within_trans)

lemma quiet_changes: "within quiet r r' \<Longrightarrow> within (changes cs) r r'"
  by (erule within_mono) (simp add: changes_def)

lemma within_applyCommand:
  assumes "trim_space command = command" and "command \<in> set cs"
  shows "within (changes cs) r (snd (applyCommand t command vals r))"
proof -
  have post: "within (changes cs) r (snd (run_command t c ''POST'' command vals r))" for c and r :: "'a runtime"
    using assms by (intro within_run_command) (auto simp: changes_def)
  show ?thesis
    unfolding applyCommand_def
    by (intro within_andThen)
      (auto simp: Let_def pollAsyncJob_def simp del: findStringKey.simps intro: quiet_changes within_ensureSession within_poll_loop post)
qed

lemmas finder_defs = findZone_def findPhysicalNetwork_def findTrafficType_def findNetworkProvider_def findVirtualRouterElement_def
  findPublicIPRange_def findPod_def findCluster_def findHost_def findPrimaryStorage_def findSecondaryStorage_def findSecondaryStagingStore_def

lemma within_find_by: "within quiet r (snd (find_by t command kvs responseKey itemKey match r))"
  unfolding find_by_def by (rule within_andThen) (auto simp: within_callList)

lemma within_finders:
  "within quiet r (snd (findZone t r))" "within quiet r (snd (findPhysicalNetwork t r))" "within quiet r (snd (findTrafficType t s r))"
  "within quiet r (snd (findNetworkProvider t s r))" "within quiet r (snd (findVirtualRouterElement t s r))"
  "within quiet r (snd (findPublicIPRange t r))" "within quiet r (snd (findPod t r))" "within quiet r (snd (findCluster t r))"
  "within quiet r (snd (findHost t h r))" "within quiet r (snd (findPrimaryStorage t r))" "within quiet r (snd (findSecondaryStorage t r))"
  "within quiet r (snd (findSecondaryStagingStore t g r))"
  by (simp_all add: finder_defs within_find_by Let_def)

text \<open>
  A body is lawful for some commands if it changes nothing with any other command, and nothing at all
  if it reports what existed.
\<close>

definition lawful :: "string list \<Rightarrow> 'c runtime \<Rightarrow> (fault + stepResultOptions) \<times> 'c runtime \<Rightarrow> bool" where
  "lawful cs r p \<longleftrightarrow>
     within (changes cs) r (snd p) \<and> (\<forall>opts. fst p = Inr opts \<longrightarrow> o_Existing opts \<longrightarrow> within quiet r (snd p))"

lemma lawful_quiet: "within quiet r (snd p) \<Longrightarrow> lawful cs r p"
  by (simp add: lawful_def quiet_changes)

lemma lawful_andThen:
  assumes "within quiet r (snd p)" and "\<And>v r1. p = (Inr v, r1) \<Longrightarrow> lawful cs r1 (f v r1)"
  shows "lawful cs r (andThen p f)"
  unfolding lawful_def
proof (intro conjI allI impI)
  show "within (changes cs) r (snd (andThen p f))"
    using assms(2) by (intro within_andThen [OF quiet_changes [OF assms(1)]]) (simp add: lawful_def)
  show "within quiet r (snd (andThen p f))" if "fst (andThen p f) = Inr opts" "o_Existing opts" for opts
    using assms that by (cases p; cases "fst p") (auto simp: andThen_def lawful_def intro: within_trans)
qed

lemma within_require: "within W r (snd (require chk r))"
  by (simp add: require_def split: sum.split)

lemma within_look: "within W r (snd (fd r)) \<Longrightarrow> within W r (snd (look fd r))"
  "within W r (snd (fd r)) \<Longrightarrow> within W r (snd (look_again verifyBy fd r))"
  by (simp_all add: look_def look_again_def)

lemma reconcile_cases:
  assumes "\<And>r. within quiet r (snd (g_find g r))" and "trim_space (g_command g) = g_command g"
    and adopt: "\<And>rid r. x_net (g_adopt g rid r) = x_net r \<and> x_req (g_adopt g rid r) = x_req r"
  shows "within (changes [g_command g]) r (snd (reconcile t g r))"
    "fst (reconcile t g r) = Inr opts \<Longrightarrow> o_Existing opts \<Longrightarrow> within quiet r (snd (reconcile t g r))"
proof -
  have adopts: "within W r (g_adopt g rid r)" for W rid r using adopt by (simp add: within_def)
  have first: "within quiet r (snd (look (g_find g) r))" using assms(1) by (simp add: within_look)
  show "within (changes [g_command g]) r (snd (reconcile t g r))"
    unfolding reconcile_def
    by (intro within_andThen)
      (auto simp: Let_def assms adopts within_look split: option.split sum.split
        intro!: within_andThen within_look within_applyCommand quiet_changes [OF assms(1)])
  assume "fst (reconcile t g r) = Inr opts" "o_Existing opts"
  then show "within quiet r (snd (reconcile t g r))"
    using first adopts unfolding reconcile_def
    by (auto simp: andThen_def no_options_def Let_def split: prod.splits sum.splits option.splits intro: within_trans)
qed

lemma lawful_reconcile:
  assumes "\<And>r. within quiet r (snd (g_find g r))" and "trim_space (g_command g) = g_command g"
    and "\<And>rid r. x_net (g_adopt g rid r) = x_net r \<and> x_req (g_adopt g rid r) = x_req r"
  shows "lawful [g_command g] r (reconcile t g r)"
  using reconcile_cases [OF assms] by (simp add: lawful_def)

text \<open>A round of a loop records that it changed something.\<close>

definition lawful_round :: "string list \<Rightarrow> (progress \<Rightarrow> 'c runtime \<Rightarrow> (fault + progress) \<times> 'c runtime) \<Rightarrow> bool" where
  "lawful_round cs f \<longleftrightarrow>
     (\<forall>p r. within (changes cs) r (snd (f p r))
        \<and> (\<forall>p' r'. f p r = (Inr p', r') \<longrightarrow> (pg_changed p \<longrightarrow> pg_changed p') \<and> (\<not> pg_changed p' \<longrightarrow> within quiet r r')))"

lemma lawful_each:
  assumes "\<And>x. x \<in> set xs \<Longrightarrow> lawful_round cs (f x)"
  shows "lawful_round cs (each f xs)"
  using assms
proof (induction xs)
  case Nil
  then show ?case by (simp add: lawful_round_def)
next
  case (Cons x xs)
  then have x: "lawful_round cs (f x)" and xs: "lawful_round cs (each f xs)" by simp_all
  show ?case
    unfolding lawful_round_def
  proof (intro allI conjI impI)
    fix p r
    show "within (changes cs) r (snd (each f (x # xs) p r))"
      using x xs by (auto simp: lawful_round_def intro: within_andThen)
    fix p' r'
    assume "each f (x # xs) p r = (Inr p', r')"
    then obtain p1 r1 where h: "f x p r = (Inr p1, r1)" "each f xs p1 r1 = (Inr p', r')"
      by (auto simp: andThen_def split: prod.splits sum.splits)
    show "pg_changed p'" if "pg_changed p" using x xs h that unfolding lawful_round_def by blast
    show "within quiet r r'" if "\<not> pg_changed p'"
      using x xs h that unfolding lawful_round_def by (metis within_trans)
  qed
qed

lemma lawful_loop:
  assumes "lawful_round cs f"
  shows "lawful cs r (andThen (f no_progress r) (\<lambda>p r1. (Inr (loop_options arr p), r1)))"
proof -
  have pure: "snd (andThen p (\<lambda>p r1. (Inr (loop_options arr p), r1))) = snd p" for p :: "(fault + progress) \<times> 'a runtime"
    by (simp add: andThen_def split: prod.split sum.split)
  show ?thesis
    using assms unfolding lawful_def lawful_round_def pure
    by (auto simp: andThen_def loop_options_def no_options_def split: prod.splits sum.splits)
qed

lemma commands_trimmed:
  "\<forall>c \<in> set [''createZone'', ''createPhysicalNetwork'', ''addTrafficType'', ''updateTrafficType'', ''updatePhysicalNetwork'',
     ''configureVirtualRouterElement'', ''updateNetworkServiceProvider'', ''createPod'', ''createVlanIpRange'', ''addCluster'', ''addHost'',
     ''createStoragePool'', ''addImageStore'', ''createSecondaryStagingStore'', ''updateZone''].
     trim_space c = c"
  by code_simp

lemma andThen_Inr: "andThen p f = (Inr v, r') \<longleftrightarrow> (\<exists>u r1. p = (Inr u, r1) \<and> f u r1 = (Inr v, r'))"
  by (cases p; cases "fst p") (auto simp: andThen_def)

lemma look_quiet:
  assumes "\<And>r. within quiet r (snd (fd r))"
  shows "look fd r = (res, r1) \<Longrightarrow> within quiet r r1" "look_again v fd r = (res, r1) \<Longrightarrow> within quiet r r1"
  using assms [of r] by (metis snd_conv snd_onError look_def look_again_def)+

lemma within_change: "trim_space c = c \<Longrightarrow> c \<in> set cs \<Longrightarrow> within (changes cs) r (snd (change t c kvs r))"
  unfolding change_def by (rule within_andThen) (auto simp: within_applyCommand)

lemma change_result: "change t c kvs r = (Inr raw, r1) \<Longrightarrow> raw \<noteq> []"
  by (auto simp: change_def andThen_def split: prod.splits sum.splits)

lemma advance_changed [simp]: "pg_changed (advance x raw verify p) \<longleftrightarrow> pg_changed p \<or> raw \<noteq> []"
  by (simp add: advance_def)

lemma fix_quiet:
  "traffic_fix t tt item r = (Inr [], r1) \<Longrightarrow> r1 = r" "element_fix t el r = (Inr [], r1) \<Longrightarrow> r1 = r" "provider_fix t prov r = (Inr [], r1) \<Longrightarrow> r1 = r"
  by (auto simp: traffic_fix_def element_fix_def provider_fix_def no_change_def dest: change_result split: option.splits if_splits)

lemma within_fix:
  "within (changes [''addTrafficType'', ''updateTrafficType'']) r (snd (traffic_fix t tt item r))"
  "within (changes [''configureVirtualRouterElement'', ''updateNetworkServiceProvider'']) r (snd (element_fix t el r))"
  "within (changes [''configureVirtualRouterElement'', ''updateNetworkServiceProvider'']) r (snd (provider_fix t prov r))"
  using commands_trimmed
  by (auto simp: traffic_fix_def element_fix_def provider_fix_def no_change_def split: option.split intro!: within_change)

lemma within_looks:
  "(\<And>r. within quiet r (snd (fd r))) \<Longrightarrow> within (changes cs) r (snd (look fd r))"
  "(\<And>r. within quiet r (snd (fd r))) \<Longrightarrow> within (changes cs) r (snd (look_again v fd r))"
  by (simp_all add: within_look quiet_changes)

lemma lawful_traffic_round: "lawful_round [''addTrafficType'', ''updateTrafficType''] (traffic_round t tt)"
  unfolding lawful_round_def
proof (intro allI conjI impI)
  fix p and r r' :: "'a runtime" and p'
  show "within (changes [''addTrafficType'', ''updateTrafficType'']) r (snd (traffic_round t tt p r))"
    unfolding traffic_round_def
    by (auto split: option.split intro!: within_andThen within_looks within_finders within_fix)
  assume "traffic_round t tt p r = (Inr p', r')"
  then obtain a item r1 raw r2 b where h: "look (findTrafficType t tt) r = (Inr (a, item), r1)" "traffic_fix t tt item r1 = (Inr raw, r2)"
      "look_again ''listTrafficTypes'' (findTrafficType t tt) r2 = (Inr b, r')" and p': "pg_changed p' \<longleftrightarrow> pg_changed p \<or> raw \<noteq> []"
    unfolding traffic_round_def by (auto simp: andThen_Inr split: option.splits)
  show "pg_changed p'" if "pg_changed p" using that p' by simp
  show "within quiet r r'" if "\<not> pg_changed p'"
  proof -
    have "r2 = r1" using that p' h(2) fix_quiet(1) by blast
    moreover have "within quiet r r1" "within quiet r2 r'"
      using h(1,3) look_quiet [of "findTrafficType t tt", OF within_finders(3)] by blast+
    ultimately show ?thesis using within_trans by blast
  qed
qed

lemma lawful_provider_round:
  "lawful_round [''configureVirtualRouterElement'', ''updateNetworkServiceProvider''] (provider_round t name)"
  unfolding lawful_round_def
proof (intro allI conjI impI)
  fix p and r r' :: "'a runtime" and p'
  show "within (changes [''configureVirtualRouterElement'', ''updateNetworkServiceProvider'']) r (snd (provider_round t name p r))"
    unfolding provider_round_def
    by (auto simp: Let_def split: option.split intro!: within_andThen within_looks within_finders within_fix)
  assume "provider_round t name p r = (Inr p', r')"
  then obtain a prov r1 b el r2 raw1 r3 raw2 r4 c r5 d where
      h: "look (findNetworkProvider t name) r = (Inr (a, Some prov), r1)"
        "look (findVirtualRouterElement t (stringValue (t_env t) (mget prov ''id''))) r1 = (Inr (b, Some el), r2)"
        "element_fix t el r2 = (Inr raw1, r3)" "provider_fix t prov r3 = (Inr raw2, r4)"
        "look_again ''listNetworkServiceProviders'' (findNetworkProvider t name) r4 = (Inr c, r5)"
        "look_again ''listVirtualRouterElements'' (findVirtualRouterElement t (stringValue (t_env t) (mget prov ''id''))) r5 = (Inr d, r')"
      and p': "pg_changed p' \<longleftrightarrow> pg_changed p \<or> raw1 @ raw2 \<noteq> []"
    unfolding provider_round_def by (auto simp: andThen_Inr Let_def split: option.splits)
  show "pg_changed p'" if "pg_changed p" using that p' by simp
  show "within quiet r r'" if "\<not> pg_changed p'"
  proof -
    have raw: "raw1 = []" "raw2 = []" using that p' by auto
    have "r4 = r2" using h(3,4) fix_quiet(2,3) unfolding raw by blast
    moreover have "within quiet r r1" "within quiet r4 r5"
      using h(1,5) look_quiet [of "findNetworkProvider t name", OF within_finders(4)] by blast+
    moreover have "within quiet r1 r2" "within quiet r5 r'"
      using h(2,6) look_quiet [of "findVirtualRouterElement t (stringValue (t_env t) (mget prov ''id''))", OF within_finders(5)] by blast+
    ultimately show ?thesis using within_trans by blast
  qed
qed

lemma lawful_host_round: "lawful_round [''addHost''] (host_round t host)"
  unfolding lawful_round_def
proof (intro allI conjI impI)
  fix p and r r' :: "'a runtime" and p'
  show "within (changes [''addHost'']) r (snd (host_round t host p r))"
    unfolding host_round_def using commands_trimmed
    by (auto split: option.split intro!: within_andThen within_looks within_finders within_change)
  assume h: "host_round t host p r = (Inr p', r')"
  then show "pg_changed p'" if "pg_changed p"
    using that unfolding host_round_def by (auto simp: andThen_Inr split: option.splits)
  show "within quiet r r'" if "\<not> pg_changed p'"
  proof -
    obtain a item r1 where l: "look (findHost t host) r = (Inr (a, item), r1)" using h unfolding host_round_def by (auto simp: andThen_Inr)
    have "r' = r1"
    proof (cases item)
      case (Some it)
      with h l show ?thesis by (simp add: host_round_def andThen_def)
    next
      case None
      with h l obtain raw r2 where "change t ''addHost'' (host_params host r1) r1 = (Inr raw, r2)" "pg_changed p' \<longleftrightarrow> pg_changed p \<or> raw \<noteq> []"
        by (auto simp: host_round_def andThen_Inr split: option.splits)
      with change_result that show ?thesis by blast
    qed
    then show ?thesis using l look_quiet [of "findHost t host", OF within_finders(9)] by blast
  qed
qed

lemma require_guard: "(\<And>v r1. lawful cs r1 (f v r1)) \<Longrightarrow> lawful cs r (andThen (require chk r) f)"
  by (rule lawful_andThen) (simp_all add: within_require)

lemma lawful_goal:
  assumes "trim_space c = c" and "\<And>r. within quiet r (snd (fd r))"
    and "\<And>rid r. x_net (adopt rid r) = x_net r \<and> x_req (adopt rid r) = x_req r"
  shows "lawful [c] r (reconcile t \<lparr>g_find = fd, g_accept = acc, g_verifyBy = v, g_shape = sh, g_adopt = adopt, g_command = c, g_params = ps,
     g_created = cr, g_missing = m\<rparr> r)"
  using lawful_reconcile [where g = "\<lparr>g_find = fd, g_accept = acc, g_verifyBy = v, g_shape = sh, g_adopt = adopt, g_command = c, g_params = ps,
     g_created = cr, g_missing = m\<rparr>"] assms by simp

lemma lawful_ensureZone: "lawful [''createZone''] r (ensureZone t r)"
  unfolding ensureZone_def Let_def using commands_trimmed
  by (intro lawful_andThen lawful_goal) (simp_all add: within_ensureSession within_finders)

lemma lawful_resource_steps:
  "lawful [''createPhysicalNetwork''] r (ensurePhysicalNetwork t r)"
  "lawful [''createPod''] r (ensurePod t r)"
  "lawful [''createVlanIpRange''] r (ensurePublicIPRange t r)"
  "lawful [''addCluster''] r (ensureCluster t r)"
  "lawful [''createStoragePool''] r (ensurePrimaryStorage t r)"
  "lawful [''addImageStore''] r (ensureSecondaryStorage t r)"
  "lawful [''updatePhysicalNetwork''] r (enablePhysicalNetwork t r)"
  "lawful [''updateZone''] r (enableZone t r)"
  unfolding ensurePhysicalNetwork_def ensurePod_def ensurePublicIPRange_def ensureCluster_def ensurePrimaryStorage_def
    ensureSecondaryStorage_def enablePhysicalNetwork_def enableZone_def Let_def
  using commands_trimmed by (intro require_guard lawful_goal; simp add: within_finders)+

lemma lawful_staging: "lawful [''createSecondaryStagingStore''] r (ensureSecondaryStagingStore t r)"
proof (cases "q_SecondaryStagingStore (x_req r)")
  case None
  then show ?thesis by (simp add: ensureSecondaryStagingStore_def lawful_quiet)
next
  case (Some s)
  have "trim_space ''createSecondaryStagingStore'' = ''createSecondaryStagingStore''" using commands_trimmed by simp
  then show ?thesis
    unfolding ensureSecondaryStagingStore_def Some option.case by (intro require_guard lawful_goal) (simp_all add: within_finders)
qed

lemma lawful_loop_steps:
  "lawful [''addTrafficType'', ''updateTrafficType''] r (ensureTrafficTypes t r)"
  "lawful [''configureVirtualRouterElement'', ''updateNetworkServiceProvider''] r (enableNetworkProviders t r)"
  "lawful [''addHost''] r (ensureHosts t r)"
  unfolding ensureTrafficTypes_def enableNetworkProviders_def ensureHosts_def
  by (intro require_guard lawful_loop lawful_each lawful_traffic_round lawful_provider_round lawful_host_round)+

lemma within_each:
  assumes "\<And>x p r. x \<in> set xs \<Longrightarrow> within W r (snd (f x p r))"
  shows "within W r (snd (each f xs p r))"
  using assms by (induction xs arbitrary: p r) (auto intro: within_andThen)

lemma within_healthy: "(\<And>r. within quiet r (snd (fd r))) \<Longrightarrow> within quiet r (snd (healthy v fd acc m r))"
  unfolding healthy_def by (auto split: option.split intro!: within_andThen within_look)

lemma within_health_checks:
  assumes "chk \<in> set (health_checks t req)"
  shows "within quiet r (snd (chk h r))"
proof -
  have "within quiet r (snd (health_check t v fd acc m key h r))" if "\<And>r. within quiet r (snd (fd r))" for v fd acc m key
    unfolding health_check_def using that by (auto intro!: within_andThen within_healthy)
  moreover have "within quiet r (snd (health_provider t name h r))" for name
    unfolding health_provider_def by (auto intro!: within_andThen within_healthy within_finders)
  ultimately show ?thesis
    using assms unfolding health_checks_def Let_def by (auto simp: within_finders split: option.splits)
qed

lemma quiet_steps:
  "within quiet r (snd (waitMoldAPIReady t r))" "within quiet r (snd (loginAdmin t r))" "within quiet r (snd (syncHostSSHTrust t r))"
  "within quiet r (snd (waitSystemVMRunning t r))" "within quiet r (snd (finalHealthCheck t r))"
proof -
  show "within quiet r (snd (syncHostSSHTrust t r))"
    by (simp add: syncHostSSHTrust_def split: prod.split option.split)
  show "within quiet r (snd (waitSystemVMRunning t r))"
    unfolding waitSystemVMRunning_def Let_def by (intro within_andThen within_require within_wait_loop)
  show "within quiet r (snd (finalHealthCheck t r))"
    unfolding finalHealthCheck_def
    by (intro within_andThen within_require within_each) (auto intro: within_health_checks)
  show "within quiet r (snd (loginAdmin t r))"
  proof -
    have caps: "within quiet r (r\<lparr>x_net := snd (ListCapabilities (t_env t) (t_srv t) c [] (x_net r))\<rparr>)" for c and r :: "'a runtime"
      using within_call [of "''GET''" _ quiet r "t_env t" "t_srv t" c] by (simp add: ListCapabilities_def quiet_def Let_def)
    show ?thesis
      unfolding loginAdmin_def using caps
      by (auto simp: Let_def within_ensureClient within_login_runtime split_beta split: sum.split intro!: within_andThen)
  qed
  show "within quiet r (snd (waitMoldAPIReady t r))"
  proof -
    have "within quiet r (r\<lparr>x_endpoint := a, x_ccvmIP := b, x_client := c\<rparr>)" for a b c by (simp add: within_def)
    from within_trans [OF this within_read] show ?thesis
      unfolding waitMoldAPIReady_def by (auto simp: Let_def split_beta split: sum.split)
  qed
qed

lemma lawful_if:
  "(c \<Longrightarrow> lawful a r (f r)) \<Longrightarrow> (\<not> c \<Longrightarrow> lawful b r (g r)) \<Longrightarrow> lawful (if c then a else b) r ((if c then f else g) r)"
  by simp

lemma lawful_step: "lawful (step_commands name) r (step_body t name r)"
  unfolding step_body_def step_commands_def
  by (intro lawful_if lawful_ensureZone lawful_resource_steps lawful_staging lawful_loop_steps lawful_quiet quiet_steps) simp

lemma reconcile_success:
  assumes "reconcile t g r = (Inr opts, r')"
  shows "\<exists>r0 r1 resp item. g_find g r0 = (Inr (resp, Some item), r1) \<and> g_accept g item
     \<and> o_Resource opts = Some (g_shape g (resourceFromItem (t_env t) item (g_verifyBy g))) \<and> o_Verify opts = VMap resp
     \<and> r' = g_adopt g (res_ID (g_shape g (resourceFromItem (t_env t) item (g_verifyBy g)))) r1
     \<and> (o_Existing opts \<or> o_Created opts = g_created g) \<and> \<not> (o_Existing opts \<and> o_Created opts)"
proof -
  have look: "g_find g s = (Inr x, s')" if "look (g_find g) s = (Inr x, s') \<or> look_again v (g_find g) s = (Inr x, s')" for s x s' v
    using that by (cases "g_find g s"; cases "fst (g_find g s)") (auto simp: look_def look_again_def onError_def)
  have acc: "accepted (g_accept g) item = Some it \<longleftrightarrow> item = Some it \<and> g_accept g it" for item it
    by (auto simp: accepted_def split: option.splits if_splits)
  obtain verify item r1 where l: "look (g_find g) r = (Inr (verify, item), r1)"
    using assms by (auto simp: reconcile_def andThen_Inr)
  show ?thesis
  proof (cases "accepted (g_accept g) item")
    case (Some it)
    then have "g_find g r = (Inr (verify, Some it), r1)" "g_accept g it" using look l acc by auto
    with assms l Some show ?thesis
      by (intro exI [of _ r] exI [of _ r1] exI [of _ verify] exI [of _ it]) (auto simp: reconcile_def andThen_def no_options_def Let_def)
  next
    case None
    then obtain kvs raw r2 verify' it r3 where a: "look_again (g_verifyBy g) (g_find g) r2 = (Inr (verify', Some it), r3)" "g_accept g it"
      "opts = no_options\<lparr>o_Resource := Some (g_shape g (resourceFromItem (t_env t) it (g_verifyBy g))), o_Created := g_created g,
         o_Raw := VMap raw, o_Verify := VMap verify'\<rparr>"
      "r' = g_adopt g (res_ID (g_shape g (resourceFromItem (t_env t) it (g_verifyBy g)))) r3"
      using assms l by (auto simp: reconcile_def andThen_Inr Let_def acc split: sum.splits option.splits)
    then have "g_find g r2 = (Inr (verify', Some it), r3)" using look by blast
    with a show ?thesis
      by (intro exI [of _ r2] exI [of _ r3] exI [of _ verify'] exI [of _ it]) (auto simp: no_options_def)
  qed
qed

text \<open>The steps that ensure one resource and keep its id, with the search and the field of the id.\<close>

definition resource_steps :: "'c tools \<Rightarrow> (string \<times> 'c finder \<times> ('c runtime \<Rightarrow> string)) list" where
  "resource_steps t =
     [(''create_zone'', findZone t, x_zoneID), (''create_physical_network'', findPhysicalNetwork t, x_physicalNetworkID),
      (''create_pod'', findPod t, x_podID), (''create_cluster'', findCluster t, x_clusterID),
      (''add_primary_storage'', findPrimaryStorage t, x_primaryStorageID),
      (''add_secondary_storage'', findSecondaryStorage t, x_secondaryStorageID)]"

lemma goal_found:
  assumes "reconcile t g r = (Inr opts, r')" and "g_shape g = (\<lambda>res. res)" and "g_created g"
    and "\<And>rid r. x_net (g_adopt g rid r) = x_net r" and "\<And>rid r. ident (g_adopt g rid r) = rid"
  shows "\<exists>r0 r1 resp item res. g_find g r0 = (Inr (resp, Some item), r1) \<and> x_net r1 = x_net r'
     \<and> ident r' = stringValue (t_env t) (mget item ''id'') \<and> o_Verify opts = VMap resp
     \<and> o_Resource opts = Some res \<and> res_ID res = ident r' \<and> res_Raw res = VMap item \<and> (o_Created opts \<longleftrightarrow> \<not> o_Existing opts)"
proof -
  obtain r0 r1 resp item where f: "g_find g r0 = (Inr (resp, Some item), r1)" "o_Verify opts = VMap resp"
      "o_Resource opts = Some (resourceFromItem (t_env t) item (g_verifyBy g))"
      "r' = g_adopt g (res_ID (resourceFromItem (t_env t) item (g_verifyBy g))) r1" "o_Created opts \<longleftrightarrow> \<not> o_Existing opts"
    using reconcile_success [OF assms(1)] assms(2,3) by auto
  moreover have "res_ID (resourceFromItem (t_env t) item (g_verifyBy g)) = stringValue (t_env t) (mget item ''id'')"
      "res_Raw (resourceFromItem (t_env t) item (g_verifyBy g)) = VMap item" by (simp_all add: resourceFromItem_def Let_def)
  ultimately show ?thesis
    using assms(4,5) by (intro exI [of _ r0] exI [of _ r1] exI [of _ resp] exI [of _ item]) auto
qed

lemma RunStep_ok:
  assumes "RunStep t step r = (result, r')" and "r_Error result = None"
  shows "\<exists>opts. step_body t (s_Name step) r = (Inr opts, r') \<and> result = succeededStep step opts"
  using assms by (auto simp: RunStep_def finish_def failedStep_def split: prod.splits sum.splits)

lemma duration_pos: "0 < fallback \<Longrightarrow> 0 < durationFromEnv e key fallback"
  by (auto simp: durationFromEnv_def Let_def split: option.split)

lemma resource_step_found:
  assumes "(name, fd, ident) \<in> set (resource_steps t)" and "step_body t name r = (Inr opts, r')"
  shows "\<exists>r0 r1 resp item res. fd r0 = (Inr (resp, Some item), r1) \<and> x_net r1 = x_net r'
     \<and> ident r' = stringValue (t_env t) (mget item ''id'') \<and> o_Verify opts = VMap resp
     \<and> o_Resource opts = Some res \<and> res_ID res = ident r' \<and> res_Raw res = VMap item \<and> (o_Created opts \<longleftrightarrow> \<not> o_Existing opts)"
proof -
  obtain g s where "reconcile t g s = (Inr opts, r')" "g_find g = fd" "g_shape g = (\<lambda>res. res)" "g_created g"
      "\<And>rid r. x_net (g_adopt g rid r) = x_net r" "\<And>rid r. ident (g_adopt g rid r) = rid"
    using assms unfolding resource_steps_def step_body_def
    by (auto simp: ensureZone_def ensurePhysicalNetwork_def ensurePod_def ensureCluster_def ensurePrimaryStorage_def ensureSecondaryStorage_def
        andThen_Inr Let_def)
  then show ?thesis using goal_found [of t g s opts r' ident] by metis
qed

lemma each_rounds:
  assumes "each f xs p r = (Inr p', r')"
  shows "\<forall>x \<in> set xs. \<exists>p0 r0 p1 r1. f x p0 r0 = (Inr p1, r1)"
  using assms by (induction xs arbitrary: p r) (auto simp: andThen_Inr)

lemma each_counts:
  assumes "each f xs p r = (Inr p', r')" and "\<And>x p r p' r'. x \<in> set xs \<Longrightarrow> f x p r = (Inr p', r') \<Longrightarrow> m p' = Suc (m p)"
  shows "m p' = m p + length xs"
  using assms
proof (induction xs arbitrary: p r)
  case (Cons x xs)
  then obtain p1 r1 where h: "f x p r = (Inr p1, r1)" "each f xs p1 r1 = (Inr p', r')" by (auto simp: andThen_Inr)
  have "m p1 = Suc (m p)" by (rule Cons.prems(2) [OF _ h(1)]) simp
  moreover have "m p' = m p1 + length xs" by (rule Cons.IH [OF h(2)], rule Cons.prems(2)) simp_all
  ultimately show ?case by simp
qed simp

lemma healthy_found:
  "healthy v fd acc m r = (Inr (resp, item), r') \<Longrightarrow> fd r = (Inr (resp, Some item), r') \<and> acc item"
  by (cases "fd r"; cases "fst (fd r)")
    (auto simp: healthy_def look_again_def onError_def andThen_def accepted_def split: option.splits if_splits)

lemma health_check_found:
  "health_check t v fd acc m key h r = (Inr h', r') \<Longrightarrow> \<exists>resp item. fd r = (Inr (resp, Some item), r') \<and> acc item"
  unfolding health_check_def by (auto simp: andThen_Inr dest: healthy_found)

lemma health_counts:
  assumes "chk \<in> set (health_checks t req)" and "chk h r = (Inr h', r')"
  shows "length (fst h') = Suc (length (fst h))"
proof -
  have "length (fst h') = Suc (length (fst h))" if "health_check t v fd acc m key h r = (Inr h', r')" for v fd acc m key
    using that by (auto simp: health_check_def andThen_Inr)
  moreover have "length (fst h') = Suc (length (fst h))" if "health_provider t name h r = (Inr h', r')" for name
    using that by (auto simp: health_provider_def andThen_Inr)
  ultimately show ?thesis
    using assms unfolding health_checks_def Let_def by (auto split: option.splits)
qed

lemma length_health_checks:
  "length (health_checks t req) = 12 + length (q_Hosts req) + (case q_SecondaryStagingStore req of None \<Rightarrow> 0 | Some _ \<Rightarrow> 1)"
  by (simp add: health_checks_def Let_def trafficTypes_def providerNames_def split: option.split)

text \<open>The searches of the final check, with what their item has to satisfy.\<close>

definition health_searches :: "'c tools \<Rightarrow> BootstrapRequest \<Rightarrow> ('c finder \<times> (gomap \<Rightarrow> bool)) list" where
  "health_searches t req =
     [(findZone t, any_item), (findPhysicalNetwork t, field_is (t_env t) ''state'' ''Enabled''), (findPod t, any_item),
      (findPublicIPRange t, any_item), (findCluster t, any_item), (findPrimaryStorage t, any_item), (findSecondaryStorage t, any_item)]
     @ map (\<lambda>tt. (findTrafficType t tt, bridged (t_env t))) trafficTypes
     @ map (\<lambda>host. (findHost t host, any_item)) (q_Hosts req)"

lemma health_search_check:
  assumes "(fd, acc) \<in> set (health_searches t req)"
  shows "\<exists>v m key. health_check t v fd acc m key \<in> set (health_checks t req)"
  using assms unfolding health_searches_def health_checks_def Let_def by (auto simp: image_iff) blast+

section \<open>The loop as a process\<close>

lemma run_steps_refines:
  assumes "fmlookup (m_procs m) jobID = Some (Looping (map s_Name steps))"
  shows "mold_step\<^sup>*\<^sup>* m \<lparr>m_store = fst (run_steps t jobID steps r (m_store m)), m_procs = fmupd jobID Finished (m_procs m)\<rparr>"
  using assms
proof (induction steps arbitrary: r m)
  case Nil
  then show ?case using finish [of m jobID] by auto
next
  case (Cons step steps)
  obtain result r1 where run: "RunStep t step r = (result, r1)" by (cases "RunStep t step r")
  let ?s1 = "update jobID (job_step (clock r) (s_Name step)) (m_store m)"
  let ?m1 = "\<lparr>m_store = ?s1, m_procs = fmupd jobID (Executing (s_Name step) (map s_Name steps)) (m_procs m)\<rparr>"
  have step1: "mold_step m ?m1" using Cons.prems next_step by simp
  have proc: "fmlookup (m_procs ?m1) jobID = Some (Executing (s_Name step) (map s_Name steps))" by simp
  show ?case
  proof (cases "r_Error result")
    case (Some err)
    with step_failed [OF proc Some, of "clock r1" "clock r1"] step1 run show ?thesis
      by (auto simp: Let_def intro: converse_rtranclp_into_rtranclp)
  next
    case None
    let ?s2 = "update jobID (job_step_done (clock r1) (s_Name step) result) ?s1"
    let ?m2 = "\<lparr>m_store = ?s2, m_procs = fmupd jobID (Looping (map s_Name steps)) (m_procs m)\<rparr>"
    have "mold_step ?m1 ?m2" using step_ok [OF proc None, of "clock r1"] by simp
    moreover have "mold_step\<^sup>*\<^sup>* ?m2 \<lparr>m_store = fst (run_steps t jobID steps r1 ?s2), m_procs = fmupd jobID Finished (m_procs m)\<rparr>"
      using Cons.IH [of ?m2 r1] by simp
    ultimately show ?thesis using step1 run None by (auto simp: Let_def intro: converse_rtranclp_into_rtranclp)
  qed
qed

definition ended :: "BootstrapJob \<Rightarrow> bool" where
  "ended job \<longleftrightarrow> j_CurrentStep job = [] \<and> j_FinishedAt job \<noteq> None
     \<and> (j_Status job = ''succeeded'' \<or> j_Status job = ''failed'' \<and> j_Error job \<noteq> None)"

lemma get_update: "get k (update jobID f s) = (if k = jobID then map_option f (get jobID s) else get k s)"
  by (simp add: get_def lookup_update)

lemma run_steps_ends:
  "get jobID s = Some job \<Longrightarrow> \<exists>job'. get jobID (fst (run_steps t jobID steps r s)) = Some job' \<and> ended job'"
proof (induction steps arbitrary: r s job)
  case Nil
  then show ?case by (simp add: get_update ended_def job_succeeded_def)
next
  case (Cons step steps)
  obtain result r1 where run: "RunStep t step r = (result, r1)" by (cases "RunStep t step r")
  show ?case
  proof (cases "r_Error result")
    case (Some err)
    with run Cons.prems show ?thesis by (simp add: Let_def get_update ended_def job_failed_def)
  next
    case None
    with run Cons.prems Cons.IH show ?thesis by (simp add: Let_def get_update)
  qed
qed

lemma get_run_steps_other: "k \<noteq> jobID \<Longrightarrow> get k (fst (run_steps t jobID steps r s)) = get k s"
proof (induction steps arbitrary: r s)
  case (Cons step steps)
  obtain result r1 where "RunStep t step r = (result, r1)" by (cases "RunStep t step r")
  with Cons show ?case by (simp add: Let_def get_update split: option.split)
qed (simp add: get_update)

section \<open>Properties\<close>

text \<open>
  C8. A step sends only reads, logins and its own commands; a step that reports its resource as existing
  has changed nothing.
\<close>

theorem RunStep_requests:
  assumes "RunStep t step r = (result, r')"
  shows "\<exists>new. k_sent (x_net r') = k_sent (x_net r) @ new
     \<and> (\<forall>q \<in> set new. ar_method q = ''GET''
          \<or> ar_method q = ''POST'' \<and> form_get (ar_values q) ''command'' \<in> insert ''login'' (set (step_commands (s_Name step))))
     \<and> (r_Existing result \<longrightarrow> (\<forall>q \<in> set new. ar_method q = ''GET'' \<or> form_get (ar_values q) ''command'' = ''login''))"
proof -
  let ?p = "step_body t (s_Name step) r"
  have r': "r' = snd ?p" using assms by (auto simp: RunStep_def finish_def split: prod.splits sum.splits)
  obtain new where n: "k_sent (x_net r') = k_sent (x_net r) @ new" "request_kind ` set new \<subseteq> changes (step_commands (s_Name step))"
    using lawful_step [of "s_Name step" r t] unfolding r' lawful_def within_def by blast
  have "request_kind ` set new \<subseteq> quiet" if existing: "r_Existing result"
  proof -
    obtain opts where "fst ?p = Inr opts" "o_Existing opts"
      using assms existing by (auto simp: RunStep_def finish_def failedStep_def succeededStep_def split: prod.splits sum.splits)
    then have "within quiet r r'" using lawful_step [of "s_Name step" r t] r' by (simp add: lawful_def)
    with n(1) show ?thesis by (auto simp: within_def)
  qed
  with n show ?thesis by (intro exI [of _ new]) (auto simp: request_kind_def changes_def quiet_def image_subset_iff)
qed

text \<open>
  C9. A step that ensures a resource succeeds only if its last search returned an item that matches: the
  runtime then holds that item's id, the result carries the item and the response, and says either
  that the resource existed or that it was created.
\<close>

theorem ensure_step_verified:
  assumes "(s_Name step, fd, ident) \<in> set (resource_steps t)" and "RunStep t step r = (result, r')" and "r_Error result = None"
  shows "\<exists>r0 r1 resp item res. fd r0 = (Inr (resp, Some item), r1) \<and> x_net r1 = x_net r'
     \<and> ident r' = stringValue (t_env t) (mget item ''id'') \<and> r_VerifyResponse result = VMap resp
     \<and> r_Resource result = Some res \<and> res_ID res = ident r' \<and> res_Raw res = VMap item \<and> (r_Created result \<longleftrightarrow> \<not> r_Existing result)"
proof -
  obtain opts where o: "step_body t (s_Name step) r = (Inr opts, r')" "result = succeededStep step opts"
    using RunStep_ok [OF assms(2,3)] by blast
  show ?thesis using resource_step_found [OF assms(1) o(1)] unfolding o(2) succeededStep_def by simp
qed

text \<open>
  Waiting is bounded: a job is asked for at most twice more often than the poll interval fits into
  the timeout, and so are the system VMs.
\<close>

theorem polling_bounded:
  "asked ''queryAsyncJobResult'' (snd (pollAsyncJob t c jobID r)) \<le> asked ''queryAsyncJobResult'' r
       + durationFromEnv (t_env t) ''ABLESTACK_MOLD_ASYNC_TIMEOUT'' (seconds 1800)
         div durationFromEnv (t_env t) ''ABLESTACK_MOLD_ASYNC_POLL_INTERVAL'' (seconds 5) + 2
   \<and> asked ''listSystemVms'' (snd (waitSystemVMRunning t r)) \<le> asked ''listSystemVms'' r
       + durationFromEnv (t_env t) ''ABLESTACK_MOLD_SYSTEM_VM_TIMEOUT'' (seconds 1200)
         div durationFromEnv (t_env t) ''ABLESTACK_MOLD_SYSTEM_VM_POLL_INTERVAL'' (seconds 10) + 2"
proof -
  have pause: "pause_time (durationFromEnv e key (seconds (Suc n))) = durationFromEnv e key (seconds (Suc n))" for e key n
    using duration_pos [of "seconds (Suc n)" e key] by (simp add: pause_time_def seconds_def)
  have "seconds 5 = seconds (Suc 4)" "seconds 10 = seconds (Suc 9)" by simp_all
  note pauses = pause [of _ _ 4, folded this(1)] pause [of _ _ 9, folded this(2)]
  let ?d = "\<lambda>key n. durationFromEnv (t_env t) key (seconds n)"
  have "asked ''queryAsyncJobResult'' (snd (poll_loop t c (clock r + ?d ''ABLESTACK_MOLD_ASYNC_TIMEOUT'' 1800) (?d ''ABLESTACK_MOLD_ASYNC_POLL_INTERVAL'' 5) jobID r))
      \<le> asked ''queryAsyncJobResult'' r + ?d ''ABLESTACK_MOLD_ASYNC_TIMEOUT'' 1800 div ?d ''ABLESTACK_MOLD_ASYNC_POLL_INTERVAL'' 5 + 2"
    using job_poll.poll_bound [where t = t and c = c and jobID = jobID and s = r and name = "''queryAsyncJobResult''"
        and deadline = "clock r + ?d ''ABLESTACK_MOLD_ASYNC_TIMEOUT'' 1800" and d = "?d ''ABLESTACK_MOLD_ASYNC_POLL_INTERVAL'' 5"]
    unfolding pauses by simp
  moreover have "asked ''listSystemVms'' (snd (wait_loop t (clock r + ?d ''ABLESTACK_MOLD_SYSTEM_VM_TIMEOUT'' 1200) (?d ''ABLESTACK_MOLD_SYSTEM_VM_POLL_INTERVAL'' 10) r))
      \<le> asked ''listSystemVms'' r + ?d ''ABLESTACK_MOLD_SYSTEM_VM_TIMEOUT'' 1200 div ?d ''ABLESTACK_MOLD_SYSTEM_VM_POLL_INTERVAL'' 10 + 2"
    using vm_poll.poll_bound [where t = t and s = r
        and deadline = "clock r + ?d ''ABLESTACK_MOLD_SYSTEM_VM_TIMEOUT'' 1200" and d = "?d ''ABLESTACK_MOLD_SYSTEM_VM_POLL_INTERVAL'' 10"]
    unfolding pauses by simp
  ultimately show ?thesis
    by (simp add: pollAsyncJob_def waitSystemVMRunning_def Let_def andThen_def require_def split: sum.split)
qed

text \<open>
  A final check that succeeds has seen everything: it returns one resource for each of the twelve
  fixed checks, each host and the staging store; every search found an item, the physical network
  enabled and the traffic types on the bridge; and it sent nothing but reads and logins.
\<close>

theorem final_check_complete:
  assumes "s_Name step = ''final_health_check''" and "RunStep t step r = (result, r')" and "r_Error result = None"
  shows "length (r_Resources result) = 12 + length (q_Hosts (x_req r)) + (case q_SecondaryStagingStore (x_req r) of None \<Rightarrow> 0 | Some _ \<Rightarrow> 1)
     \<and> (\<forall>(fd, acc) \<in> set (health_searches t (x_req r)). \<exists>r0 resp item r1. fd r0 = (Inr (resp, Some item), r1) \<and> acc item)
     \<and> within quiet r r'"
proof -
  obtain opts where o: "finalHealthCheck t r = (Inr opts, r')" "result = succeededStep step opts"
    using RunStep_ok [OF assms(2,3)] assms(1) by (auto simp: step_body_def)
  then obtain results raw where e: "each (\<lambda>chk. chk) (health_checks t (x_req r)) ([], fmempty) r = (Inr (results, raw), r')"
      "r_Resources result = results"
    by (auto simp: finalHealthCheck_def andThen_Inr require_def no_options_def succeededStep_def split: sum.splits)
  have "length (fst (results, raw)) = length (fst ([] :: ResourceResult list, fmempty :: gomap)) + length (health_checks t (x_req r))"
    by (rule each_counts [OF e(1), where m = "\<lambda>h. length (fst h)"]) (rule health_counts)
  moreover have "\<exists>r0 resp item r1. fd r0 = (Inr (resp, Some item), r1) \<and> acc item" if "(fd, acc) \<in> set (health_searches t (x_req r))" for fd acc
    using health_search_check [OF that] each_rounds [OF e(1)] health_check_found by metis
  moreover have "within quiet r r'" using quiet_steps(5) [of r t] o(1) by simp
  ultimately show ?thesis using e(2) by (auto simp: length_health_checks)
qed

text \<open>
  C15. The handler's run of a job is a run of the process model: from a queued job, the loop with the
  real steps reaches, by the transitions of the model, the store it leaves with the job's process
  finished.
\<close>

theorem runBootstrapJob_refines:
  assumes "fmlookup (m_procs m) jobID = Some Queued"
  shows "mold_step\<^sup>*\<^sup>* m \<lparr>m_store = fst (runBootstrapJob t jobID req k (m_store m)), m_procs = fmupd jobID Finished (m_procs m)\<rparr>"
proof -
  let ?s1 = "update jobID (job_started (k_time k)) (m_store m)"
  let ?m1 = "\<lparr>m_store = ?s1, m_procs = fmupd jobID Fetching (m_procs m)\<rparr>"
  have start: "mold_step m ?m1" using run [OF assms] by simp
  show ?thesis
  proof (cases "get jobID ?s1")
    case None
    then have "mold_step ?m1 \<lparr>m_store = ?s1, m_procs = fmupd jobID Finished (m_procs m)\<rparr>" using fetch_gone [of ?m1 jobID] by simp
    with start None show ?thesis by (auto simp: runBootstrapJob_def Let_def intro: converse_rtranclp_into_rtranclp)
  next
    case (Some job)
    let ?m2 = "\<lparr>m_store = ?s1, m_procs = fmupd jobID (Looping (map s_Name (j_Steps job))) (m_procs m)\<rparr>"
    have "mold_step ?m1 ?m2" using fetch [of ?m1 jobID job] Some by simp
    moreover have "mold_step\<^sup>*\<^sup>* ?m2 \<lparr>m_store = fst (runBootstrapJob t jobID req k (m_store m)), m_procs = fmupd jobID Finished (m_procs m)\<rparr>"
      using run_steps_refines [of ?m2 jobID "j_Steps job" t "NewBootstrapRuntime req k"] Some by (simp add: runBootstrapJob_def Let_def)
    ultimately show ?thesis using start by (auto intro: converse_rtranclp_into_rtranclp)
  qed
qed

text \<open>
  C16. Every run of a job ends, whatever the server answers: the job is then succeeded, or failed with
  its error, with no current step and a finish time, and no other job is touched.
\<close>

theorem runBootstrapJob_ends:
  assumes "get jobID s = Some job"
  shows "\<exists>job'. get jobID (fst (runBootstrapJob t jobID req k s)) = Some job' \<and> j_CurrentStep job' = [] \<and> j_FinishedAt job' \<noteq> None
     \<and> (j_Status job' = ''succeeded'' \<or> j_Status job' = ''failed'' \<and> j_Error job' \<noteq> None)
     \<and> (\<forall>other. other \<noteq> jobID \<longrightarrow> get other (fst (runBootstrapJob t jobID req k s)) = get other s)"
proof -
  let ?s1 = "update jobID (job_started (k_time k)) s"
  have run: "fst (runBootstrapJob t jobID req k s) = fst (run_steps t jobID (j_Steps (job_started (k_time k) job)) (NewBootstrapRuntime req k) ?s1)"
    using assms by (simp add: runBootstrapJob_def Let_def get_update)
  obtain job' where "get jobID (fst (runBootstrapJob t jobID req k s)) = Some job'" "ended job'"
    using run_steps_ends [of jobID ?s1 "job_started (k_time k) job" t "j_Steps (job_started (k_time k) job)" "NewBootstrapRuntime req k"] assms
    unfolding run by (auto simp: get_update)
  moreover have "get other (fst (runBootstrapJob t jobID req k s)) = get other s" if "other \<noteq> jobID" for other
    using that unfolding run by (simp add: get_run_steps_other get_update)
  ultimately show ?thesis by (auto simp: ended_def)
qed

section \<open>Samples\<close>

text \<open>A server with one zone, and a runtime that has logged in and knows the zone's id.\<close>

definition zone_item :: gomap where
  "zone_item = puts ''id'' ''z1'' fmempty"

definition zone_reply :: gomap where
  "zone_reply = fmupd ''listzonesresponse'' (VMap (fmupd ''zone'' (VArr [VMap zone_item]) fmempty)) fmempty"

definition zone_server :: "unit server" where
  "zone_server req c = (Reply 200 [] (JsonValue (VMap zone_reply)), 1, ())"

definition sample_tools :: "unit tools" where
  "sample_tools =
     \<lparr>t_env = sample_mold, t_srv = zone_server, t_isfile = (\<lambda>_. True), t_ceph = (\<lambda>_ _. Inr ''k''), t_readFile = (\<lambda>_. Inr []),
      t_joinPath = join_with ''/'', t_lib = \<lparr>ssh_parse = (\<lambda>_. Inl ''no key''), ssh_marshal = (\<lambda>k. k), ssh_fingerprint = (\<lambda>k. k)\<rparr>,
      t_hosts = Inr [], t_store = \<lparr>s_doc = NoDoc, s_tmp = False, s_private = True\<rparr>, t_store_error = [], t_post = (\<lambda>_ _ _. NoAnswer []),
      t_mkdtemp = Inr ''/tmp'', t_keyscan = (\<lambda>_ _. (None, [])), t_writeFile = (\<lambda>_ _. None), t_ssh = (\<lambda>_. (None, []))\<rparr>"

definition zone_runtime :: "unit runtime" where
  "zone_runtime =
     (NewBootstrapRuntime sample_bootstrap idle_net)
       \<lparr>x_client := Some (sample_client\<lparr>c_sessionKey := ''k1''\<rparr>), x_session := no_session\<lparr>se_SessionKey := ''k1''\<rparr>, x_zoneID := ''z1''\<rparr>"

definition named_step :: "string \<Rightarrow> BootstrapJobStep" where
  "named_step name =
     \<lparr>s_Name = name, s_Command = [], s_VerifyCommand = [], s_ResultKey = [], s_Status = ''pending'', s_Message = [], s_StartedAt = None,
      s_FinishedAt = None, s_DurationMS = 0, s_Result = None, s_Error = None\<rparr>"

lemma zone_clean: "extractMoldAPIError sample_mold command zone_reply = None"
proof -
  have "\<not> own_error sample_mold m" if "inside (VMap m) (VMap zone_reply)" for m
    using that by (auto simp: inside_simps zone_reply_def zone_item_def own_error_def stringValue_def split: if_splits)
  then have "findNestedMoldError sample_mold (VMap zone_reply) = None"
    using findNested_None [OF sample_mold_fields(1)] by blast
  then show ?thesis by (simp add: extractMoldAPIError_def zone_reply_def del: findNestedMoldError.simps)
qed

lemma zone_facts: "trim_space ''k1'' = ''k1''" "trim_space ''z1'' = ''z1''" "trim_space ''listZones'' = ''listZones''" "equal_fold ''z1'' ''z1''"
  by code_simp+

lemma zone_found: "\<exists>r1. findZone sample_tools zone_runtime = (Inr (zone_reply, Some zone_item), r1)"
proof -
  have call: "\<exists>k. call sample_mold zone_server (sample_client\<lparr>c_sessionKey := ''k1''\<rparr>) ''GET'' vals idle_net = (Inr zone_reply, k)" for vals
    using sample_endpoint
    by (auto simp: call_def Let_def sample_mold_fields zone_server_def read_reply_def decode_object_def item_map_def zone_clean)
  have item: "findListItem sample_mold zone_reply ''listzonesresponse'' ''zone'' (matchIDOrName sample_mold ''z1'' nm) = Some zone_item" for nm
    by (simp add: findListItem_def listItems_def responseMap_def zone_reply_def zone_item_def matchIDOrName_def stringValue_def zone_facts
        List.map_filter_simps)
  obtain k where "call sample_mold zone_server (sample_client\<lparr>c_sessionKey := ''k1''\<rparr>) ''GET''
      (command_form (sample_client\<lparr>c_sessionKey := ''k1''\<rparr>) ''listZones'' []
        (form_params [(''name'', zn_Name (q_Zone (NormalizeBootstrapRequest sample_bootstrap))), (''id'', ''z1'')])) idle_net = (Inr zone_reply, k)"
    using call by blast
  then show ?thesis
    by (simp add: findZone_def find_by_def callList_def ensureSession_def ensureClient_def zone_runtime_def andThen_def zone_facts
        run_command_def CallCommand_def sample_tools_def NewBootstrapRuntime_def item)
qed

lemma sample_zone_step:
  "\<exists>result r'. RunStep sample_tools (named_step ''create_zone'') zone_runtime = (result, r') \<and> r_Error result = None \<and> r_Existing result"
proof -
  obtain r1 where f: "findZone sample_tools zone_runtime = (Inr (zone_reply, Some zone_item), r1)" using zone_found by blast
  have "ensureSession sample_tools zone_runtime = (Inr (sample_client\<lparr>c_sessionKey := ''k1''\<rparr>), zone_runtime)"
    by (simp add: ensureSession_def ensureClient_def andThen_def zone_runtime_def zone_facts)
  then show ?thesis
    by (simp add: RunStep_def step_body_def named_step_def ensureZone_def andThen_def onError_def reconcile_def look_def f accepted_def any_item_def
        finish_def succeededStep_def no_options_def Let_def)
qed

theorem RunStep_requests_witness:
  "\<exists>result r' new. RunStep sample_tools (named_step ''create_zone'') zone_runtime = (result, r') \<and> r_Existing result
     \<and> k_sent (x_net r') = k_sent (x_net zone_runtime) @ new
     \<and> (\<forall>q \<in> set new. ar_method q = ''GET'' \<or> form_get (ar_values q) ''command'' = ''login'')"
proof -
  obtain result r' where s: "RunStep sample_tools (named_step ''create_zone'') zone_runtime = (result, r')" "r_Existing result"
    using sample_zone_step by blast
  with RunStep_requests [OF s(1)] show ?thesis by blast
qed

theorem ensure_step_verified_witness:
  "\<exists>result r' res item. RunStep sample_tools (named_step ''create_zone'') zone_runtime = (result, r')
     \<and> r_Resource result = Some res \<and> res_Raw res = VMap item \<and> x_zoneID r' = stringValue sample_mold (mget item ''id'')"
proof -
  obtain result r' where s: "RunStep sample_tools (named_step ''create_zone'') zone_runtime = (result, r')" "r_Error result = None"
    using sample_zone_step by blast
  have m: "(s_Name (named_step ''create_zone''), findZone sample_tools, x_zoneID) \<in> set (resource_steps sample_tools)"
    by (simp add: named_step_def resource_steps_def)
  from ensure_step_verified [OF m s] obtain res item where
    "r_Resource result = Some res" "res_Raw res = VMap item" "x_zoneID r' = stringValue (t_env sample_tools) (mget item ''id'')" by blast
  with s(1) show ?thesis by (intro exI [of _ result] exI [of _ r'] exI [of _ res] exI [of _ item]) (simp add: sample_tools_def)
qed

definition queued_mold :: mold where
  "queued_mold =
     \<lparr>m_store = snd (create ''j'' 0 (BuildBootstrapPlan sample_bootstrap) newBootstrapJobStore), m_procs = fmupd ''j'' Queued fmempty\<rparr>"

theorem runBootstrapJob_refines_witness:
  "mold_step\<^sup>*\<^sup>* queued_mold
     \<lparr>m_store = fst (runBootstrapJob sample_tools ''j'' sample_bootstrap idle_net (m_store queued_mold)),
      m_procs = fmupd ''j'' Finished (m_procs queued_mold)\<rparr>"
  by (rule runBootstrapJob_refines) (simp add: queued_mold_def)

theorem runBootstrapJob_ends_witness:
  "\<exists>job'. get ''j'' (fst (runBootstrapJob sample_tools ''j'' sample_bootstrap idle_net (m_store queued_mold))) = Some job'
     \<and> j_CurrentStep job' = [] \<and> j_Status job' \<in> {''succeeded'', ''failed''}"
proof -
  have "get ''j'' (m_store queued_mold) = Some (new_job ''j'' 0 (BuildBootstrapPlan sample_bootstrap))"
    by (simp add: queued_mold_def create_def get_def newBootstrapJobStore_def pruneLocked.simps bootstrapJobLimit_def Let_def)
  from runBootstrapJob_ends [OF this, of sample_tools sample_bootstrap idle_net] show ?thesis by auto
qed

text \<open>A server that lists one complete item of every kind, and a runtime that knows the ids.\<close>

definition full_item :: "string \<Rightarrow> string \<Rightarrow> gomap" where
  "full_item name tt =
     fmap_of_list [(''id'', VStr ''z1''), (''name'', VStr name), (''state'', VStr ''Enabled''), (''startip'', VStr ''10.0.2.1''),
       (''endip'', VStr ''10.0.2.9''), (''kvmnetworklabel'', VStr ''bridge0''), (''traffictype'', VStr tt), (''enabled'', VBool True),
       (''url'', VStr ''nfs://s/secondary'')]"

definition full_items :: goval where
  "full_items =
     VArr [VMap (full_item ''VirtualRouter'' ''Management''), VMap (full_item ''VpcVirtualRouter'' ''Guest''), VMap (full_item ''x'' ''Public'')]"

definition full_list :: gomap where
  "full_list =
     fmap_of_list (map (\<lambda>k. (k, full_items)) [''zone'', ''physicalnetwork'', ''traffictype'', ''networkserviceprovider'', ''virtualrouterelement'',
       ''pod'', ''vlaniprange'', ''cluster'', ''storagepool'', ''imagestore''])"

definition full_reply :: gomap where
  "full_reply = fmupd ''r'' (VMap full_list) fmempty"

definition full_tools :: "unit tools" where
  "full_tools = sample_tools\<lparr>t_srv := (\<lambda>req c. (Reply 200 [] (JsonValue (VMap full_reply)), 1, ()))\<rparr>"

definition known :: "unit runtime \<Rightarrow> bool" where
  "known r \<longleftrightarrow> x_client r = Some (sample_client\<lparr>c_sessionKey := ''k1''\<rparr>) \<and> se_SessionKey (x_session r) = ''k1'' \<and> x_zoneID r = ''z1''
     \<and> x_physicalNetworkID r = ''z1'' \<and> x_podID r = ''z1'' \<and> x_clusterID r = ''z1'' \<and> x_primaryStorageID r = ''z1''
     \<and> x_secondaryStorageID r = ''z1'' \<and> q_Hosts (x_req r) = [] \<and> q_SecondaryStagingStore (x_req r) = None
     \<and> ip_StartIP (q_PublicIP (x_req r)) = ''10.0.2.1'' \<and> ip_EndIP (q_PublicIP (x_req r)) = ''10.0.2.9''"

lemma inside_values: "inside v (VMap (fmap_of_list xs)) \<Longrightarrow> v = VMap (fmap_of_list xs) \<or> (\<exists>u \<in> snd ` set xs. inside v u)"
  by (fastforce simp: inside_simps(7) fmlookup_of_list dest!: map_of_SomeD)

lemma full_clean: "extractMoldAPIError sample_mold command full_reply = None"
proof -
  have own: "\<not> own_error sample_mold (full_item nm tt)" "\<not> own_error sample_mold full_list" "\<not> own_error sample_mold full_reply" for nm tt
    by (simp_all add: full_item_def full_list_def full_reply_def own_error_def stringValue_def mget_def fmlookup_of_list)
  have item: "m = full_item nm tt" if "inside (VMap m) (VMap (full_item nm tt))" for m nm tt
    using inside_values [OF that [unfolded full_item_def]] by (auto simp: full_item_def inside_simps)
  have list: "m = full_list \<or> (\<exists>nm tt. m = full_item nm tt)" if "inside (VMap m) (VMap full_list)" for m
    using inside_values [OF that [unfolded full_list_def]] by (auto simp: full_list_def full_items_def inside_simps(6) dest: item)
  have "\<not> own_error sample_mold m" if "inside (VMap m) (VMap full_reply)" for m
  proof -
    have "m = full_reply \<or> inside (VMap m) (VMap full_list)"
      using that by (rule inside.cases) (auto simp: full_reply_def split: if_splits)
    then show ?thesis using own list [of m] by metis
  qed
  then have "findNestedMoldError sample_mold (VMap full_reply) = None"
    using findNested_None [OF sample_mold_fields(1)] by blast
  then show ?thesis by (simp add: extractMoldAPIError_def full_reply_def del: findNestedMoldError.simps)
qed

lemma full_find:
  assumes "known r" and "\<not> blank command" and "responseKey \<noteq> ''r''" and "mget full_list itemKey = full_items"
    and "List.find match [full_item ''VirtualRouter'' ''Management'', full_item ''VpcVirtualRouter'' ''Guest'', full_item ''x'' ''Public''] = Some item"
  shows "\<exists>k. find_by full_tools command kvs responseKey itemKey match r = (Inr (full_reply, Some item), r\<lparr>x_net := k\<rparr>)"
proof -
  obtain k where k: "call sample_mold (t_srv full_tools) (sample_client\<lparr>c_sessionKey := ''k1''\<rparr>) ''GET''
      (command_form (sample_client\<lparr>c_sessionKey := ''k1''\<rparr>) (trim_space command) [] (form_params kvs)) (x_net r) = (Inr full_reply, k)"
    using sample_endpoint
    by (auto simp: call_def Let_def sample_mold_fields full_tools_def read_reply_def decode_object_def item_map_def full_clean)
  have "responseMap sample_mold full_reply responseKey = Some full_list"
    using assms(3) by (simp add: responseMap_def full_reply_def sample_mold_def)
  then have item: "findListItem sample_mold full_reply responseKey itemKey match = Some item"
    using assms(4,5) by (simp add: findListItem_def listItems_def full_items_def List.map_filter_simps)
  have env: "t_env full_tools = sample_mold" by (simp add: full_tools_def sample_tools_def)
  show ?thesis
    using assms(1,2) k item unfolding find_by_def callList_def ensureSession_def ensureClient_def
    by (intro exI [of _ k]) (simp add: known_def andThen_def zone_facts run_command_def CallCommand_def env)
qed

lemma full_values:
  "trim_space ''z1'' = ''z1''" "equal_fold ''z1'' ''z1''" "equal_fold ''Enabled'' ''Enabled''" "equal_fold ''bridge0'' ''bridge0''"
  "trim_space ''Enabled'' = ''Enabled''" "trim_space ''bridge0'' = ''bridge0''" "trim_space ''10.0.2.1'' = ''10.0.2.1''"
  "trim_space ''10.0.2.9'' = ''10.0.2.9''" "trim_space ''Management'' = ''Management''" "trim_space ''Guest'' = ''Guest''"
  "trim_space ''Public'' = ''Public''" "trim_space ''VirtualRouter'' = ''VirtualRouter''" "trim_space ''VpcVirtualRouter'' = ''VpcVirtualRouter''"
  "equal_fold s s"
  by (code_simp+)

lemma full_lists: "k \<in> {''zone'', ''physicalnetwork'', ''traffictype'', ''networkserviceprovider'', ''virtualrouterelement'',
       ''pod'', ''vlaniprange'', ''cluster'', ''storagepool'', ''imagestore''} \<Longrightarrow> mget full_list k = full_items"
  by (auto simp: mget_def full_list_def fmlookup_of_list)

lemma full_commands:
  "\<forall>c \<in> set [''listZones'', ''listPhysicalNetworks'', ''listTrafficTypes'', ''listNetworkServiceProviders'', ''listVirtualRouterElements'', ''listPods'',
     ''listVlanIpRanges'', ''listClusters'', ''listStoragePools'', ''listImageStores'']. trim_space c \<noteq> []"
  by code_simp

lemma known_net [simp]: "known (r\<lparr>x_net := k\<rparr>) = known r"
  by (simp add: known_def)

definition finds :: "unit runtime \<Rightarrow> unit finder \<Rightarrow> (gomap \<Rightarrow> bool) \<Rightarrow> bool" where
  "finds r fd acc \<longleftrightarrow> (\<exists>resp item k. fd r = (Inr (resp, Some item), r\<lparr>x_net := k\<rparr>) \<and> acc item)"

lemma findsI:
  assumes "known r" and "fd r = find_by full_tools command kvs responseKey itemKey match r" and "command \<in> set [''listZones'', ''listPhysicalNetworks'', ''listTrafficTypes'', ''listNetworkServiceProviders'',
      ''listVirtualRouterElements'', ''listPods'', ''listVlanIpRanges'', ''listClusters'', ''listStoragePools'', ''listImageStores'']"
    and "responseKey \<noteq> ''r''"
    and "itemKey \<in> {''zone'', ''physicalnetwork'', ''traffictype'', ''networkserviceprovider'', ''virtualrouterelement'',
       ''pod'', ''vlaniprange'', ''cluster'', ''storagepool'', ''imagestore''}"
    and "List.find match [full_item ''VirtualRouter'' ''Management'', full_item ''VpcVirtualRouter'' ''Guest'', full_item ''x'' ''Public''] = Some item"
    and "acc item"
  shows "finds r fd acc"
proof -
  have "\<not> blank command" using full_commands assms(3) by blast
  from full_find [OF assms(1) this assms(4) full_lists [OF assms(5)] assms(6)] assms(2,7) show ?thesis unfolding finds_def by metis
qed

lemma full_fields:
  "mget (full_item nm tt) ''id'' = VStr ''z1''" "mget (full_item nm tt) ''name'' = VStr nm" "mget (full_item nm tt) ''state'' = VStr ''Enabled''"
  "mget (full_item nm tt) ''startip'' = VStr ''10.0.2.1''" "mget (full_item nm tt) ''endip'' = VStr ''10.0.2.9''"
  "mget (full_item nm tt) ''kvmnetworklabel'' = VStr ''bridge0''" "mget (full_item nm tt) ''traffictype'' = VStr tt"
  "mget (full_item nm tt) ''enabled'' = VBool True"
  by (simp_all add: full_item_def mget_def fmlookup_of_list)

lemma full_names: "\<not> equal_fold ''Management'' ''Guest''" "\<not> equal_fold ''Management'' ''Public''" "\<not> equal_fold ''Guest'' ''Public''"
  "\<not> equal_fold ''VirtualRouter'' ''VpcVirtualRouter''"
  by code_simp+

lemma full_ids:
  assumes "known r"
  shows "finds r (findZone full_tools) any_item" "finds r (findPhysicalNetwork full_tools) (field_is sample_mold ''state'' ''Enabled'')"
    "finds r (findPod full_tools) any_item" "finds r (findPublicIPRange full_tools) any_item" "finds r (findCluster full_tools) any_item"
    "finds r (findPrimaryStorage full_tools) any_item" "finds r (findSecondaryStorage full_tools) any_item"
    "finds r (findVirtualRouterElement full_tools pid) enabled_element"
proof -
  have env: "t_env full_tools = sample_mold" by (simp add: full_tools_def sample_tools_def)
  have k: "x_zoneID r = ''z1''" "x_physicalNetworkID r = ''z1''" "x_podID r = ''z1''" "x_clusterID r = ''z1''" "x_primaryStorageID r = ''z1''"
      "x_secondaryStorageID r = ''z1''" "ip_StartIP (q_PublicIP (x_req r)) = ''10.0.2.1''" "ip_EndIP (q_PublicIP (x_req r)) = ''10.0.2.9''"
    using assms by (simp_all add: known_def)
  note ev = env k matchIDOrName_def stringValue_def full_fields full_values any_item_def field_is_def enabled_element_def boolValue_def
  show "finds r (findZone full_tools) any_item"
    by (rule findsI [where fd = "findZone full_tools" and item = "full_item ''VirtualRouter'' ''Management''", OF assms findZone_def]) (simp_all add: ev)
  show "finds r (findPhysicalNetwork full_tools) (field_is sample_mold ''state'' ''Enabled'')"
    by (rule findsI [where fd = "findPhysicalNetwork full_tools" and item = "full_item ''VirtualRouter'' ''Management''", OF assms findPhysicalNetwork_def]) (simp_all add: ev)
  show "finds r (findPod full_tools) any_item"
    by (rule findsI [where fd = "findPod full_tools" and item = "full_item ''VirtualRouter'' ''Management''", OF assms findPod_def]) (simp_all add: ev)
  show "finds r (findPublicIPRange full_tools) any_item"
    by (rule findsI [where fd = "findPublicIPRange full_tools" and item = "full_item ''VirtualRouter'' ''Management''", OF assms findPublicIPRange_def]) (simp_all add: ev)
  show "finds r (findCluster full_tools) any_item"
    by (rule findsI [where fd = "findCluster full_tools" and item = "full_item ''VirtualRouter'' ''Management''", OF assms findCluster_def]) (simp_all add: ev)
  show "finds r (findPrimaryStorage full_tools) any_item"
    by (rule findsI [where fd = "findPrimaryStorage full_tools" and item = "full_item ''VirtualRouter'' ''Management''", OF assms findPrimaryStorage_def [unfolded Let_def]]) (simp_all add: ev)
  show "finds r (findSecondaryStorage full_tools) any_item"
    by (rule findsI [where fd = "findSecondaryStorage full_tools" and item = "full_item ''VirtualRouter'' ''Management''", OF assms findSecondaryStorage_def]) (simp_all add: ev)
  show "finds r (findVirtualRouterElement full_tools pid) enabled_element"
    by (rule findsI [where fd = "findVirtualRouterElement full_tools pid" and item = "full_item ''VirtualRouter'' ''Management''", OF assms findVirtualRouterElement_def]) (simp_all add: ev)
qed

lemma full_traffic: "known r \<Longrightarrow> tt \<in> set trafficTypes \<Longrightarrow> finds r (findTrafficType full_tools tt) (bridged sample_mold)"
proof -
  assume r: "known r" and "tt \<in> set trafficTypes"
  then consider "tt = ''Management''" | "tt = ''Guest''" | "tt = ''Public''" by (auto simp: trafficTypes_def)
  moreover have env: "t_env full_tools = sample_mold" by (simp add: full_tools_def sample_tools_def)
  note ev = env stringValue_def full_fields full_values full_names bridged_def field_is_def
  ultimately show ?thesis
  proof cases
    case 1
    show ?thesis unfolding 1
      by (rule findsI [where fd = "findTrafficType full_tools ''Management''" and item = "full_item ''VirtualRouter'' ''Management''", OF r findTrafficType_def]) (simp_all add: ev)
  next
    case 2
    show ?thesis unfolding 2
      by (rule findsI [where fd = "findTrafficType full_tools ''Guest''" and item = "full_item ''VpcVirtualRouter'' ''Guest''", OF r findTrafficType_def]) (simp_all add: ev)
  next
    case 3
    show ?thesis unfolding 3
      by (rule findsI [where fd = "findTrafficType full_tools ''Public''" and item = "full_item ''x'' ''Public''", OF r findTrafficType_def]) (simp_all add: ev)
  qed
qed

lemma full_provider: "known r \<Longrightarrow> name \<in> set providerNames \<Longrightarrow> finds r (findNetworkProvider full_tools name) (field_is sample_mold ''state'' ''Enabled'')"
proof -
  assume r: "known r" and "name \<in> set providerNames"
  then consider "name = ''VirtualRouter''" | "name = ''VpcVirtualRouter''" by (auto simp: providerNames_def)
  moreover have env: "t_env full_tools = sample_mold" by (simp add: full_tools_def sample_tools_def)
  note ev = env stringValue_def full_fields full_values full_names field_is_def
  ultimately show ?thesis
  proof cases
    case 1
    show ?thesis unfolding 1
      by (rule findsI [where fd = "findNetworkProvider full_tools ''VirtualRouter''" and item = "full_item ''VirtualRouter'' ''Management''", OF r findNetworkProvider_def]) (simp_all add: ev)
  next
    case 2
    show ?thesis unfolding 2
      by (rule findsI [where fd = "findNetworkProvider full_tools ''VpcVirtualRouter''" and item = "full_item ''VpcVirtualRouter'' ''Guest''", OF r findNetworkProvider_def]) (simp_all add: ev)
  qed
qed

lemma finds_healthy: "finds r fd acc \<Longrightarrow> known r \<Longrightarrow> \<exists>resp item r'. healthy v fd acc m r = (Inr (resp, item), r') \<and> known r'"
  by (auto simp: finds_def healthy_def look_again_def onError_def andThen_def accepted_def)

lemma full_check:
  assumes "chk \<in> set (health_checks full_tools req)" and "known r" and "q_Hosts req = []" and "q_SecondaryStagingStore req = None"
  shows "\<exists>h' r'. chk h r = (Inr h', r') \<and> known r'"
proof -
  have plain: "\<exists>h' r'. health_check full_tools v fd acc m key h r = (Inr h', r') \<and> known r'" if "finds r fd acc" for v fd acc m key
    using finds_healthy [OF that assms(2), of v m] by (auto simp: health_check_def andThen_def)
  have prov: "\<exists>h' r'. health_provider full_tools name h r = (Inr h', r') \<and> known r'" if name: "name \<in> set providerNames" for name
  proof -
    have env: "t_env full_tools = sample_mold" by (simp add: full_tools_def sample_tools_def)
    obtain resp item r1 where 1: "healthy ''listNetworkServiceProviders'' (findNetworkProvider full_tools name) (field_is sample_mold ''state'' ''Enabled'')
        (''enabled network provider '' @ name @ '' not found'') r = (Inr (resp, item), r1)" "known r1"
      using finds_healthy [OF full_provider [OF assms(2) name] assms(2)] by metis
    obtain resp' item' r2 where 2: "healthy ''listVirtualRouterElements'' (findVirtualRouterElement full_tools (stringValue sample_mold (mget item ''id'')))
        enabled_element (''virtual router element for '' @ name @ '' is not enabled'') r1 = (Inr (resp', item'), r2)" "known r2"
      using finds_healthy [OF full_ids(8) [OF 1(2)] 1(2)] by metis
    show ?thesis using 1(1) 2 unfolding health_provider_def env by (simp add: andThen_def)
  qed
  have env: "t_env full_tools = sample_mold" by (simp add: full_tools_def sample_tools_def)
  show ?thesis
    using assms plain prov full_ids [OF assms(2)] full_traffic [OF assms(2)] unfolding health_checks_def Let_def env
    by (auto simp del: append.simps)
qed

definition full_runtime :: "unit runtime" where
  "full_runtime =
     zone_runtime\<lparr>x_req := sample_bootstrap\<lparr>q_Hosts := [], q_SecondaryStagingStore := None\<rparr>, x_physicalNetworkID := ''z1'', x_podID := ''z1'',
       x_clusterID := ''z1'', x_primaryStorageID := ''z1'', x_secondaryStorageID := ''z1''\<rparr>"

lemma each_succeeds:
  assumes "\<And>x p r. x \<in> set xs \<Longrightarrow> I r \<Longrightarrow> \<exists>p' r'. f x p r = (Inr p', r') \<and> I r'" and "I r"
  shows "\<exists>p' r'. each f xs p r = (Inr p', r') \<and> I r'"
  using assms
proof (induction xs arbitrary: p r)
  case (Cons x xs)
  then obtain p1 r1 where h: "f x p r = (Inr p1, r1)" "I r1" by (meson list.set_intros(1))
  then show ?case using Cons.IH [of r1 p1] Cons.prems(1) by (auto simp: andThen_def)
qed simp

theorem final_check_complete_witness:
  "\<exists>result r'. RunStep full_tools (named_step ''final_health_check'') full_runtime = (result, r') \<and> r_Error result = None
     \<and> length (r_Resources result) = 12 \<and> within quiet full_runtime r'"
proof -
  have k: "known full_runtime" "q_Hosts (x_req full_runtime) = []" "q_SecondaryStagingStore (x_req full_runtime) = None"
    by (simp_all add: known_def full_runtime_def zone_runtime_def sample_bootstrap_def)
  then have "\<exists>h' r'. each (\<lambda>chk. chk) (health_checks full_tools (x_req full_runtime)) ([], fmempty) full_runtime = (Inr h', r') \<and> known r'"
    by (intro each_succeeds full_check)
  then obtain h' r' where e: "each (\<lambda>chk. chk) (health_checks full_tools (x_req full_runtime)) ([], fmempty) full_runtime = (Inr h', r')" by blast
  have "requireZonePodClusterID full_runtime = Inr ()"
    by (simp add: full_runtime_def zone_runtime_def zone_facts requireZonePodClusterID_def requireZonePodID_def requireZoneID_def)
  with e obtain result where r: "RunStep full_tools (named_step ''final_health_check'') full_runtime = (result, r')" "r_Error result = None"
    by (cases h') (simp add: RunStep_def finish_def step_body_def named_step_def finalHealthCheck_def require_def andThen_def succeededStep_def)
  from final_check_complete [OF _ r] k(2,3) r show ?thesis by (auto simp: named_step_def)
qed

end
