(* ===== verification/Storage_Requests.thy ===== *)
theory Storage_Requests
  imports Bootstrap_Plan
begin

text \<open>
  The storage requests of \<^verbatim>\<open>internal/handler/cube\<close>: their structs and how
  \<^verbatim>\<open>gfs_manage.go\<close>, \<^verbatim>\<open>rbd_manage.go\<close> and \<^verbatim>\<open>local_manage.go\<close> check and normalise
  them before anything is run. A request that was normalised on one node is normalised again on the
  node it is forwarded to.
\<close>

section \<open>Data\<close>

record GFSManageVolumeGroup =
  vg_VGName :: string
  vg_LVName :: string

record GFSManageStonithDevice =
  sd_IPAddr :: string
  sd_IPPort :: string
  sd_Login :: string
  sd_Passwd :: string
  sd_Host :: string
  sd_Hostname :: string

record GFSManageRequest =
  gf_Action :: string
  gf_Disk :: string
  gf_Disks :: "string list"
  gf_VGName :: string
  gf_LVName :: string
  gf_GFSName :: string
  gf_MountPoint :: string
  gf_VolumeGroups :: "GFSManageVolumeGroup list"
  gf_ClusterName :: string
  gf_ClusterUser :: string
  gf_ClusterPassword :: string
  gf_NonStopCheck :: string
  gf_UseLVMLockd :: "bool option"
  gf_Control :: string
  gf_Stonith :: "GFSManageStonithDevice list"

record RBDManageRequest =
  rq_Action :: string
  rq_Size :: int
  rq_ImageName :: string
  rq_Images :: "string list"
  rq_PoolName :: string
  rq_ImagePrefix :: string

record LocalManageRequest =
  lm_Action :: string
  lm_Disk :: string
  lm_Disks :: "string list"

text \<open>The zero value of the request struct.\<close>

definition no_gfs :: GFSManageRequest where
  "no_gfs =
     \<lparr>gf_Action = [], gf_Disk = [], gf_Disks = [], gf_VGName = [], gf_LVName = [], gf_GFSName = [], gf_MountPoint = [],
      gf_VolumeGroups = [], gf_ClusterName = [], gf_ClusterUser = [], gf_ClusterPassword = [], gf_NonStopCheck = [],
      gf_UseLVMLockd = None, gf_Control = [], gf_Stonith = []\<rparr>"

definition gfsManageDefaultCluster :: string where "gfsManageDefaultCluster = ''cloudcenter_cluster''"

definition gfsManageDefaultPCSUser :: string where "gfsManageDefaultPCSUser = ''hacluster''"

definition gfsManageDefaultPCSPass :: string where "gfsManageDefaultPCSPass = ''password''"

section \<open>Lists of values\<close>

text \<open>The loop is the one of \<open>dedupeMissingInputs\<close>: blank and seen values are skipped.\<close>

definition normalizeStringSlice :: "string list \<Rightarrow> string list" where
  "normalizeStringSlice vs = dedupe_loop vs []"

definition splitCommaValues :: "string \<Rightarrow> string list" where
  "splitCommaValues v =
     (if trim_space v = [] then []
      else filter (\<lambda>item. item \<noteq> []) (map trim_space (split_on CHR '','' v)))"

fun volume_group_loop :: "GFSManageVolumeGroup list \<Rightarrow> string list \<Rightarrow> GFSManageVolumeGroup list \<Rightarrow> GFSManageVolumeGroup list" where
  "volume_group_loop [] seen out = out"
| "volume_group_loop (v # vs) seen out =
     (let vg = trim_space (vg_VGName v); lv = trim_space (vg_LVName v); key = vg @ ''|'' @ lv
      in if vg = [] \<or> lv = [] then volume_group_loop vs seen out
         else if key \<in> set seen then volume_group_loop vs seen out
         else volume_group_loop vs (seen @ [key]) (out @ [v\<lparr>vg_VGName := vg, vg_LVName := lv\<rparr>]))"

definition normalizeGFSManageVolumeGroups :: "GFSManageVolumeGroup list \<Rightarrow> string \<Rightarrow> string \<Rightarrow> GFSManageVolumeGroup list" where
  "normalizeGFSManageVolumeGroups vs vgName lvName =
     volume_group_loop (if vgName \<noteq> [] \<or> lvName \<noteq> [] then vs @ [\<lparr>vg_VGName = vgName, vg_LVName = lvName\<rparr>] else vs) [] []"

definition trim_device :: "GFSManageStonithDevice \<Rightarrow> GFSManageStonithDevice" where
  "trim_device v =
     (let port = trim_space (sd_IPPort v)
      in \<lparr>sd_IPAddr = trim_space (sd_IPAddr v), sd_IPPort = if port = [] then ''623'' else port, sd_Login = trim_space (sd_Login v),
          sd_Passwd = trim_space (sd_Passwd v), sd_Host = trim_space (sd_Host v), sd_Hostname = trim_space (sd_Hostname v)\<rparr>)"

definition normalizeGFSManageStonithDevices :: "GFSManageStonithDevice list \<Rightarrow> GFSManageStonithDevice list" where
  "normalizeGFSManageStonithDevices vs = filter (\<lambda>v. sd_IPAddr v \<noteq> []) (map trim_device vs)"

section \<open>GFS requests\<close>

definition gfs_actions :: "string list" where
  "gfs_actions =
     [''init-pcs-cluster'', ''create-gfs'', ''modify-lvm-conf'', ''set-cluster-password'', ''partprobe'', ''lvmdevices-add'',
      ''resource-cleanup'', ''prepare-gfs-node'', ''check-host'', ''configure-stonith'', ''check-stonith'', ''check-ipmi'',
      ''set-alert'', ''prepare-alert-file'', ''list-gfs'', ''delete-gfs'', ''rescan'', ''extend'', ''scan'', ''add-extend'']"

text \<open>The switch on the action, with what its cases set besides.\<close>

definition gfs_switch :: "GFSManageRequest \<Rightarrow> GFSManageRequest outcome" where
  "gfs_switch req =
     (let action = to_lower (trim_space (gf_Action req))
      in if action = ''init'' then Inr (req\<lparr>gf_Action := ''init-pcs-cluster''\<rparr>)
         else if action \<notin> set gfs_actions then Inl ''unsupported action''
         else if action = ''modify-lvm-conf''
         then Inr (req\<lparr>gf_Action := action, gf_UseLVMLockd := if gf_UseLVMLockd req = None then Some True else gf_UseLVMLockd req\<rparr>)
         else if action = ''check-stonith''
         then (let control = to_lower (trim_space (gf_Control req))
               in Inr (req\<lparr>gf_Action := action, gf_Control := if control = [] then ''check'' else control\<rparr>))
         else Inr (req\<lparr>gf_Action := action\<rparr>))"

definition gfs_trim :: "GFSManageRequest \<Rightarrow> GFSManageRequest" where
  "gfs_trim req =
     req\<lparr>gf_Disk := trim_space (gf_Disk req),
         gf_Disks := normalizeStringSlice (gf_Disks req @ splitCommaValues (trim_space (gf_Disk req))),
         gf_VGName := trim_space (gf_VGName req), gf_LVName := trim_space (gf_LVName req), gf_GFSName := trim_space (gf_GFSName req),
         gf_MountPoint := trim_space (gf_MountPoint req), gf_ClusterName := trim_space (gf_ClusterName req),
         gf_ClusterUser := trim_space (gf_ClusterUser req), gf_ClusterPassword := trim_space (gf_ClusterPassword req)\<rparr>"

definition contains_any :: "string \<Rightarrow> string \<Rightarrow> bool" where
  "contains_any s chars \<longleftrightarrow> list_ex (\<lambda>c. c \<in> set chars) s"

definition line_chars :: string where
  "line_chars = [CHR 0x00, CHR 0x0D, CHR 0x0A]"

definition gfs_named :: "GFSManageRequest \<Rightarrow> GFSManageRequest" where
  "gfs_named req =
     req\<lparr>gf_ClusterName := or_else (gf_ClusterName req) gfsManageDefaultCluster,
         gf_ClusterUser := or_else (gf_ClusterUser req) gfsManageDefaultPCSUser,
         gf_ClusterPassword := or_else (gf_ClusterPassword req) gfsManageDefaultPCSPass\<rparr>"

definition gfs_cluster :: "GFSManageRequest \<Rightarrow> GFSManageRequest outcome" where
  "gfs_cluster req =
     (if gf_Action req \<in> {''init-pcs-cluster'', ''create-gfs'', ''set-cluster-password''}
      then (let r = gfs_named req
            in if contains_any (gf_ClusterUser r) (CHR '':'' # line_chars) then Inl ''invalid cluster_user''
               else if contains_any (gf_ClusterPassword r) line_chars then Inl ''invalid cluster_password''
               else if contains_any (gf_ClusterName r) line_chars then Inl ''invalid cluster_name''
               else Inr r)
      else Inr req)"

definition gfs_lists :: "GFSManageRequest \<Rightarrow> GFSManageRequest" where
  "gfs_lists req =
     req\<lparr>gf_NonStopCheck := to_lower (trim_space (gf_NonStopCheck req)),
         gf_VolumeGroups := normalizeGFSManageVolumeGroups (gf_VolumeGroups req) (gf_VGName req) (gf_LVName req),
         gf_Stonith := normalizeGFSManageStonithDevices (gf_Stonith req)\<rparr>"

definition gfs_create_defaults :: "GFSManageRequest \<Rightarrow> GFSManageRequest" where
  "gfs_create_defaults req =
     (if gf_Action req = ''create-gfs''
      then req\<lparr>gf_VGName := or_else (gf_VGName req) ''vg_glue'', gf_LVName := or_else (gf_LVName req) ''lv_glue'',
               gf_GFSName := or_else (gf_GFSName req) ''glue-gfs'', gf_MountPoint := or_else (gf_MountPoint req) ''/mnt/glue-gfs''\<rparr>
      else req)"

text \<open>What is missing for the action, in the order of the checks.\<close>

definition gfs_missing :: "GFSManageRequest \<Rightarrow> string option" where
  "gfs_missing r =
     (let action = gf_Action r
      in if action = ''init-pcs-cluster'' \<and> gf_Disks r \<noteq> [] \<and> gf_VolumeGroups r = []
         then Some ''volume_groups or vg_name/lv_name required when disks are provided''
         else if action = ''lvmdevices-add'' \<and> gf_Disks r = [] then Some ''disks required''
         else if action = ''check-stonith'' \<and> gf_Control r \<notin> {''check'', ''enable'', ''disable'', ''security-disable'', ''security-enable''}
         then Some ''unsupported stonith control''
         else if action \<in> {''check-ipmi'', ''configure-stonith''} \<and> gf_Stonith r = [] then Some ''stonith required''
         else if action = ''create-gfs'' \<and> gf_Disks r = [] then Some ''disks required''
         else if action = ''delete-gfs'' \<and> (gf_GFSName r = [] \<or> gf_VGName r = [] \<or> gf_LVName r = [] \<or> gf_Disks r = [])
         then Some ''disks, gfs_name, vg_name and lv_name required''
         else if action \<in> {''rescan'', ''extend''} \<and> (gf_VGName r = [] \<or> gf_LVName r = [] \<or> gf_MountPoint r = [])
         then Some ''vg_name, lv_name and mount_point required''
         else if action = ''add-extend''
           \<and> (gf_VGName r = [] \<or> gf_LVName r = [] \<or> gf_MountPoint r = [] \<or> gf_GFSName r = [] \<or> gf_Disks r = [])
         then Some ''disks, gfs_name, vg_name, lv_name and mount_point required''
         else None)"

definition gfs_check :: "GFSManageRequest \<Rightarrow> GFSManageRequest outcome" where
  "gfs_check req =
     (let r = gfs_create_defaults req
      in case gfs_missing r of Some message \<Rightarrow> Inl message | None \<Rightarrow> Inr r)"

definition normalizeGFSManageRequest :: "GFSManageRequest \<Rightarrow> GFSManageRequest outcome" where
  "normalizeGFSManageRequest req =
     (case gfs_switch req of
        Inl err \<Rightarrow> Inl err
      | Inr r1 \<Rightarrow>
          (case gfs_cluster (gfs_trim r1) of
             Inl err \<Rightarrow> Inl err
           | Inr r2 \<Rightarrow> gfs_check (gfs_lists r2)))"

section \<open>RBD and local storage requests\<close>

definition rbdManageDefaultPool :: string where "rbdManageDefaultPool = ''rbd''"

definition rbdManageDefaultPrefix :: string where "rbdManageDefaultPrefix = ''gfs''"

definition normalizeRBDManageRequest :: "RBDManageRequest \<Rightarrow> bool \<Rightarrow> RBDManageRequest outcome" where
  "normalizeRBDManageRequest req localRequest =
     (let action = to_lower (trim_space (rq_Action req))
      in if action \<notin> {''create'', ''delete''} then Inl ''unsupported action''
         else (let r = req\<lparr>rq_Action := action, rq_PoolName := or_else (trim_space (rq_PoolName req)) rbdManageDefaultPool,
                           rq_ImagePrefix := or_else (trim_space (rq_ImagePrefix req)) rbdManageDefaultPrefix,
                           rq_ImageName := trim_space (rq_ImageName req)\<rparr>
               in if action = ''create'' \<and> \<not> localRequest \<and> rq_Size r \<le> 0 then Inl ''size required''
                  else if action = ''create'' \<and> localRequest \<and> rq_Images r = [] then Inl ''images required''
                  else if action = ''delete'' \<and> trim_space (rq_ImageName r) = [] \<and> rq_Images r = []
                  then Inl ''image_name or images required''
                  else Inr r))"

definition normalizeLocalManageRequest :: "LocalManageRequest \<Rightarrow> LocalManageRequest outcome" where
  "normalizeLocalManageRequest req =
     (let action = to_lower (trim_space (lm_Action req));
          name = (if action \<in> {''create-local-disk'', ''create''} then ''create-local-disk''
                  else if action \<in> {''local-disk-status'', ''status''} then ''local-disk-status''
                  else if action = ''reset'' then ''reset'' else []);
          disk = trim_space (lm_Disk req);
          r = \<lparr>lm_Action = name, lm_Disk = disk, lm_Disks = normalizeStringSlice (lm_Disks req @ splitCommaValues disk)\<rparr>
      in if name = [] then Inl ''unsupported action''
         else if name = ''create-local-disk'' \<and> lm_Disks r = [] then Inl ''disks required''
         else Inr r)"

section \<open>Facts about the lists\<close>

lemma normalizeStringSlice_clean: "normalizeStringSlice vs = clean_list vs"
  by (simp add: normalizeStringSlice_def dedupe_loop_clean)

lemma clean_list_more: "clean_list (xs @ ys) = clean_list xs @ filter (\<lambda>y. y \<notin> set (clean_list xs)) (clean_list ys)"
  by (auto simp: clean_list_def first_occ_append intro!: filter_cong)

lemma clean_list_again: "set (clean_list ys) \<subseteq> set (clean_list xs) \<Longrightarrow> clean_list (clean_list xs @ ys) = clean_list xs"
  by (auto simp: clean_list_more filter_empty_conv)

definition group_key :: "GFSManageVolumeGroup \<Rightarrow> string" where
  "group_key v = vg_VGName v @ ''|'' @ vg_LVName v"

definition clean_groups :: "GFSManageVolumeGroup list \<Rightarrow> bool" where
  "clean_groups ws \<longleftrightarrow> distinct (map group_key ws)
     \<and> (\<forall>w \<in> set ws. trim_space (vg_VGName w) = vg_VGName w \<and> trim_space (vg_LVName w) = vg_LVName w \<and> vg_VGName w \<noteq> [] \<and> vg_LVName w \<noteq> [])"

definition trim_group :: "GFSManageVolumeGroup \<Rightarrow> GFSManageVolumeGroup" where
  "trim_group v = v\<lparr>vg_VGName := trim_space (vg_VGName v), vg_LVName := trim_space (vg_LVName v)\<rparr>"

lemma volume_group_step:
  "volume_group_loop (v # vs) (map group_key out) out =
     (if blank (vg_VGName v) \<or> blank (vg_LVName v) \<or> group_key (trim_group v) \<in> set (map group_key out)
      then volume_group_loop vs (map group_key out) out
      else volume_group_loop vs (map group_key (out @ [trim_group v])) (out @ [trim_group v]))"
  by (simp add: Let_def group_key_def trim_group_def)

declare volume_group_loop.simps(2) [simp del]

lemma clean_groups_snoc:
  "clean_groups out \<Longrightarrow> \<not> blank (vg_VGName v) \<Longrightarrow> \<not> blank (vg_LVName v) \<Longrightarrow> group_key (trim_group v) \<notin> set (map group_key out) \<Longrightarrow>
     clean_groups (out @ [trim_group v])"
  by (auto simp: clean_groups_def trim_group_def)

lemma volume_group_clean:
  "clean_groups out \<Longrightarrow>
     clean_groups (volume_group_loop vs (map group_key out) out)
     \<and> set out \<subseteq> set (volume_group_loop vs (map group_key out) out)
     \<and> (\<forall>v \<in> set vs. blank (vg_VGName v) \<or> blank (vg_LVName v)
          \<or> group_key (trim_group v) \<in> group_key ` set (volume_group_loop vs (map group_key out) out))"
proof (induction vs arbitrary: out)
  case (Cons v vs)
  show ?case
  proof (cases "blank (vg_VGName v) \<or> blank (vg_LVName v) \<or> group_key (trim_group v) \<in> set (map group_key out)")
    case True
    then show ?thesis using Cons.IH [OF Cons.prems] unfolding volume_group_step if_P [OF True] by fastforce
  next
    case False
    then have "clean_groups (out @ [trim_group v])" using clean_groups_snoc [OF Cons.prems] by blast
    from Cons.IH [OF this] show ?thesis unfolding volume_group_step if_not_P [OF False] by auto
  qed
qed simp

lemma volume_group_prefix:
  "clean_groups (out @ ws) \<Longrightarrow>
     volume_group_loop (ws @ vs) (map group_key out) out = volume_group_loop vs (map group_key (out @ ws)) (out @ ws)"
proof (induction ws arbitrary: out)
  case (Cons w ws)
  then have w: "trim_group w = w" "\<not> (blank (vg_VGName w) \<or> blank (vg_LVName w) \<or> group_key (trim_group w) \<in> set (map group_key out))"
    by (auto simp: clean_groups_def trim_group_def)
  show ?case using Cons.IH [of "out @ [w]"] Cons.prems unfolding append_Cons volume_group_step if_not_P [OF w(2)] by (simp add: w(1))
qed simp

lemma clean_groups_Nil [simp]: "clean_groups []"
  by (simp add: clean_groups_def)

lemma groups_clean: "clean_groups (normalizeGFSManageVolumeGroups vs vg lv)"
  using volume_group_clean [of "[]"] by (simp add: normalizeGFSManageVolumeGroups_def)

lemma groups_again:
  "normalizeGFSManageVolumeGroups (normalizeGFSManageVolumeGroups vs vg lv) vg lv = normalizeGFSManageVolumeGroups vs vg lv"
proof -
  let ?x = "\<lparr>vg_VGName = vg, vg_LVName = lv\<rparr>"
  let ?xs = "if vg \<noteq> [] \<or> lv \<noteq> [] then [?x] else []"
  define ws where "ws = volume_group_loop (vs @ ?xs) [] []"
  have ws: "normalizeGFSManageVolumeGroups vs vg lv = ws" by (simp add: normalizeGFSManageVolumeGroups_def ws_def)
  have clean: "clean_groups ws" using groups_clean [of vs vg lv] by (simp add: ws)
  have "volume_group_loop (ws @ ?xs) [] [] = volume_group_loop ?xs (map group_key ws) ws"
    using volume_group_prefix [of "[]" ws ?xs] clean by simp
  also have "\<dots> = ws"
  proof (cases "vg \<noteq> [] \<or> lv \<noteq> []")
    case True
    have "?x \<in> set (vs @ ?xs)" using True by simp
    with volume_group_clean [of "[]" "vs @ ?xs"]
    have "blank (vg_VGName ?x) \<or> blank (vg_LVName ?x) \<or> group_key (trim_group ?x) \<in> group_key ` set ws"
      unfolding ws_def clean_groups_Nil by (metis list.simps(8) clean_groups_Nil)
    then have "blank (vg_VGName ?x) \<or> blank (vg_LVName ?x) \<or> group_key (trim_group ?x) \<in> set (map group_key ws)" by simp
    then show ?thesis using True unfolding if_P [OF True] volume_group_step by simp
  qed simp
  finally have "volume_group_loop (ws @ ?xs) [] [] = ws" .
  then show ?thesis unfolding ws by (auto simp: normalizeGFSManageVolumeGroups_def split: if_splits)
qed

lemma stonith_again [simp]:
  "normalizeGFSManageStonithDevices (normalizeGFSManageStonithDevices vs) = normalizeGFSManageStonithDevices vs"
proof -
  have again: "trim_device (trim_device v) = trim_device v" for v
  proof -
    have "trim_space ''623'' = ''623''" by (simp add: go_str)
    then show ?thesis by (simp add: trim_device_def Let_def)
  qed
  have "map trim_device (filter P (map trim_device vs)) = filter P (map trim_device vs)" for P
    by (induction vs) (simp_all add: again)
  then show ?thesis by (simp add: normalizeGFSManageStonithDevices_def)
qed

section \<open>Properties\<close>

lemma split_comma_clean: "x \<in> set (splitCommaValues v) \<Longrightarrow> trim_space x = x \<and> x \<noteq> []"
  by (auto simp: splitCommaValues_def split: if_splits)

lemma disks_again:
  "normalizeStringSlice (normalizeStringSlice (ds @ splitCommaValues d) @ splitCommaValues d) = normalizeStringSlice (ds @ splitCommaValues d)"
  unfolding normalizeStringSlice_clean by (rule clean_list_again) (auto simp: clean_list_set)

lemma gfs_actions_plain:
  "action \<in> set gfs_actions \<Longrightarrow> to_lower (trim_space action) = action \<and> action \<noteq> ''init''"
  by (simp add: gfs_actions_def, elim disjE) (simp_all add: go_str)

lemma gfs_switch_okD:
  assumes "gfs_switch req = Inr r"
  shows "gf_Action r \<in> set gfs_actions" and "gf_Action r = ''modify-lvm-conf'' \<longrightarrow> gf_UseLVMLockd r \<noteq> None"
    and "gf_Action r \<noteq> ''check-stonith'' \<longrightarrow> gf_Control r = gf_Control req"
  using assms by (auto simp: gfs_switch_def gfs_actions_def Let_def split: if_splits)

lemma gfs_switch_again:
  assumes "gf_Action r \<in> set gfs_actions" and "gf_Action r = ''modify-lvm-conf'' \<longrightarrow> gf_UseLVMLockd r \<noteq> None"
    and "gf_Action r = ''check-stonith'' \<longrightarrow> gf_Control r \<in> {''check'', ''enable'', ''disable'', ''security-disable'', ''security-enable''}"
  shows "gfs_switch r = Inr r"
proof -
  have a: "to_lower (trim_space (gf_Action r)) = gf_Action r" "gf_Action r \<noteq> ''init''"
    using gfs_actions_plain [OF assms(1)] by blast+
  have "to_lower (trim_space (gf_Control r)) = gf_Control r \<and> gf_Control r \<noteq> []" if "gf_Action r = ''check-stonith''"
    using assms(3) that by (auto simp: go_str)
  with a assms(1,2) show ?thesis by (auto simp: gfs_switch_def Let_def)
qed

lemma normalize_gfsD:
  assumes "normalizeGFSManageRequest req = Inr r"
  obtains r1 r2 where "gfs_switch req = Inr r1" "gfs_cluster (gfs_trim r1) = Inr r2" "r = gfs_create_defaults (gfs_lists r2)"
    "gfs_missing r = None"
  using assms by (auto simp: normalizeGFSManageRequest_def gfs_check_def Let_def split: sum.splits option.splits)

lemma trim_or_else: "trim_space s = s \<Longrightarrow> trim_space d = d \<Longrightarrow> trim_space (or_else s d) = or_else s d"
  by (simp add: or_else_def)

lemma or_else_again: "d \<noteq> [] \<Longrightarrow> or_else (or_else s d) d = or_else s d"
  by (simp add: or_else_def)

lemma gfs_named_again [simp]: "gfs_named (gfs_named r) = gfs_named r"
  by (simp add: gfs_named_def or_else_again gfsManageDefaultCluster_def gfsManageDefaultPCSUser_def gfsManageDefaultPCSPass_def)

lemma gfs_named_trimmed:
  "trim_space (gf_ClusterName r) = gf_ClusterName r \<Longrightarrow> trim_space (gf_ClusterName (gfs_named r)) = gf_ClusterName (gfs_named r)"
  "trim_space (gf_ClusterUser r) = gf_ClusterUser r \<Longrightarrow> trim_space (gf_ClusterUser (gfs_named r)) = gf_ClusterUser (gfs_named r)"
  "trim_space (gf_ClusterPassword r) = gf_ClusterPassword r \<Longrightarrow> trim_space (gf_ClusterPassword (gfs_named r)) = gf_ClusterPassword (gfs_named r)"
proof -
  have "trim_space gfsManageDefaultCluster = gfsManageDefaultCluster" "trim_space gfsManageDefaultPCSUser = gfsManageDefaultPCSUser"
      "trim_space gfsManageDefaultPCSPass = gfsManageDefaultPCSPass"
    by (simp_all add: gfsManageDefaultCluster_def gfsManageDefaultPCSUser_def gfsManageDefaultPCSPass_def go_str)
  then show "trim_space (gf_ClusterName r) = gf_ClusterName r \<Longrightarrow> trim_space (gf_ClusterName (gfs_named r)) = gf_ClusterName (gfs_named r)"
      "trim_space (gf_ClusterUser r) = gf_ClusterUser r \<Longrightarrow> trim_space (gf_ClusterUser (gfs_named r)) = gf_ClusterUser (gfs_named r)"
      "trim_space (gf_ClusterPassword r) = gf_ClusterPassword r \<Longrightarrow> trim_space (gf_ClusterPassword (gfs_named r)) = gf_ClusterPassword (gfs_named r)"
    by (simp_all add: gfs_named_def trim_or_else)
qed

lemma gfs_cluster_ok:
  "gfs_cluster r = Inr r2 \<longleftrightarrow>
     (if gf_Action r \<in> {''init-pcs-cluster'', ''create-gfs'', ''set-cluster-password''}
      then r2 = gfs_named r \<and> \<not> contains_any (gf_ClusterUser r2) (CHR '':'' # line_chars)
        \<and> \<not> contains_any (gf_ClusterPassword r2) line_chars \<and> \<not> contains_any (gf_ClusterName r2) line_chars
      else r2 = r)"
proof (cases "gf_Action r \<in> {''init-pcs-cluster'', ''create-gfs'', ''set-cluster-password''}")
  case True
  then show ?thesis unfolding gfs_cluster_def Let_def if_P [OF True] by (simp split: if_split) blast
next
  case False
  then show ?thesis unfolding gfs_cluster_def if_not_P [OF False] by blast
qed

lemma gfs_cluster_okD:
  assumes "gfs_cluster r1 = Inr r2"
  shows "r2 = r1\<lparr>gf_ClusterName := gf_ClusterName r2, gf_ClusterUser := gf_ClusterUser r2, gf_ClusterPassword := gf_ClusterPassword r2\<rparr>"
    and "trim_space (gf_ClusterName r1) = gf_ClusterName r1 \<Longrightarrow> trim_space (gf_ClusterName r2) = gf_ClusterName r2"
    and "trim_space (gf_ClusterUser r1) = gf_ClusterUser r1 \<Longrightarrow> trim_space (gf_ClusterUser r2) = gf_ClusterUser r2"
    and "trim_space (gf_ClusterPassword r1) = gf_ClusterPassword r1 \<Longrightarrow> trim_space (gf_ClusterPassword r2) = gf_ClusterPassword r2"
    and "gfs_cluster r2 = Inr r2"
proof -
  consider "r2 = gfs_named r1" | "r2 = r1" using assms unfolding gfs_cluster_ok by (metis (full_types))
  note r2 = this
  show "r2 = r1\<lparr>gf_ClusterName := gf_ClusterName r2, gf_ClusterUser := gf_ClusterUser r2, gf_ClusterPassword := gf_ClusterPassword r2\<rparr>"
    by (rule r2) (simp_all add: gfs_named_def)
  show "trim_space (gf_ClusterName r2) = gf_ClusterName r2" if "trim_space (gf_ClusterName r1) = gf_ClusterName r1"
    by (rule r2) (simp_all add: gfs_named_trimmed that)
  show "trim_space (gf_ClusterUser r2) = gf_ClusterUser r2" if "trim_space (gf_ClusterUser r1) = gf_ClusterUser r1"
    by (rule r2) (simp_all add: gfs_named_trimmed that)
  show "trim_space (gf_ClusterPassword r2) = gf_ClusterPassword r2" if "trim_space (gf_ClusterPassword r1) = gf_ClusterPassword r1"
    by (rule r2) (simp_all add: gfs_named_trimmed that)
  have "gf_Action r2 = gf_Action r1" by (rule r2) (simp_all add: gfs_named_def)
  with assms show "gfs_cluster r2 = Inr r2" unfolding gfs_cluster_ok by (metis (full_types) gfs_named_again)
qed

lemma gfs_cluster_other:
  assumes "gfs_cluster r = Inr r" and "gf_Action r' = gf_Action r" and "gf_ClusterName r' = gf_ClusterName r"
    and "gf_ClusterUser r' = gf_ClusterUser r" and "gf_ClusterPassword r' = gf_ClusterPassword r"
  shows "gfs_cluster r' = Inr r'"
proof -
  have "gfs_named r' = r' \<longleftrightarrow> gfs_named r = r" using assms(3-5) by (cases r; cases r') (simp add: gfs_named_def)
  with assms show ?thesis unfolding gfs_cluster_ok by (metis (full_types))
qed

lemma create_defaults_trimmed:
  "trim_space ''vg_glue'' = ''vg_glue''" "trim_space ''lv_glue'' = ''lv_glue''" "trim_space ''glue-gfs'' = ''glue-gfs''"
  "trim_space ''/mnt/glue-gfs'' = ''/mnt/glue-gfs''"
  by (simp_all add: go_str)

lemma gfs_fields:
  assumes "normalizeGFSManageRequest req = Inr r"
  shows "gf_Action r \<in> set gfs_actions" "gfs_switch r = Inr r" "gfs_trim r = r" "gfs_cluster r = Inr r" "gfs_create_defaults r = r"
    "gfs_missing r = None" "normalizeGFSManageStonithDevices (gf_Stonith r) = gf_Stonith r"
    "gf_Action r \<noteq> ''create-gfs'' \<Longrightarrow> normalizeGFSManageVolumeGroups (gf_VolumeGroups r) (gf_VGName r) (gf_LVName r) = gf_VolumeGroups r"
proof -
  obtain r1 r2 where sw: "gfs_switch req = Inr r1" and cl: "gfs_cluster (gfs_trim r1) = Inr r2" and r: "r = gfs_create_defaults (gfs_lists r2)"
      and miss: "gfs_missing r = None"
    by (rule normalize_gfsD [OF assms])
  note c = gfs_cluster_okD [OF cl]
  have r2: "r2 = (gfs_trim r1)\<lparr>gf_ClusterName := gf_ClusterName r2, gf_ClusterUser := gf_ClusterUser r2, gf_ClusterPassword := gf_ClusterPassword r2\<rparr>"
    by (rule c(1))
  have r2': "gf_Action r2 = gf_Action r1" "gf_UseLVMLockd r2 = gf_UseLVMLockd r1" "gf_Control r2 = gf_Control r1"
      "gf_Disk r2 = trim_space (gf_Disk r1)" "gf_Disks r2 = normalizeStringSlice (gf_Disks r1 @ splitCommaValues (trim_space (gf_Disk r1)))"
      "trim_space (gf_VGName r2) = gf_VGName r2" "trim_space (gf_LVName r2) = gf_LVName r2" "trim_space (gf_GFSName r2) = gf_GFSName r2"
      "trim_space (gf_MountPoint r2) = gf_MountPoint r2"
    by (subst r2, simp add: gfs_trim_def)+
  have tr: "trim_space (gf_ClusterName r2) = gf_ClusterName r2" "trim_space (gf_ClusterUser r2) = gf_ClusterUser r2"
      "trim_space (gf_ClusterPassword r2) = gf_ClusterPassword r2"
    by (rule c(2-4), simp add: gfs_trim_def)+
  have f: "gf_Action r = gf_Action r1" "gf_UseLVMLockd r = gf_UseLVMLockd r1" "gf_Control r = gf_Control r1" "gf_Disk r = gf_Disk r2"
      "gf_Disks r = gf_Disks r2" "gf_ClusterName r = gf_ClusterName r2" "gf_ClusterUser r = gf_ClusterUser r2"
      "gf_ClusterPassword r = gf_ClusterPassword r2" "gf_Stonith r = normalizeGFSManageStonithDevices (gf_Stonith r2)"
    by (simp_all add: r gfs_create_defaults_def gfs_lists_def r2')
  show "gfs_missing r = None" by (rule miss)
  show act: "gf_Action r \<in> set gfs_actions" using gfs_switch_okD(1) [OF sw] f(1) by simp
  have "gf_Action r = ''check-stonith'' \<longrightarrow> gf_Control r \<in> {''check'', ''enable'', ''disable'', ''security-disable'', ''security-enable''}"
    using miss by (auto simp: gfs_missing_def Let_def split: if_splits)
  with act gfs_switch_okD(2) [OF sw] f(1,2) show "gfs_switch r = Inr r" by (intro gfs_switch_again) simp_all
  have "trim_space (gf_VGName r) = gf_VGName r" "trim_space (gf_LVName r) = gf_LVName r" "trim_space (gf_GFSName r) = gf_GFSName r"
      "trim_space (gf_MountPoint r) = gf_MountPoint r"
    using r2'(6-9) by (auto simp: r gfs_create_defaults_def gfs_lists_def intro!: trim_or_else create_defaults_trimmed)
  then show "gfs_trim r = r" using tr f r2'(4,5) disks_again [of "gf_Disks r1" "trim_space (gf_Disk r1)"] by (cases r) (simp add: gfs_trim_def)
  show "gfs_cluster r = Inr r" by (rule gfs_cluster_other [OF c(5)]) (use f r2'(1) in simp_all)
  show "gfs_create_defaults r = r" by (simp add: r gfs_create_defaults_def or_else_def)
  show "normalizeGFSManageStonithDevices (gf_Stonith r) = gf_Stonith r" by (simp add: f)
  show "normalizeGFSManageVolumeGroups (gf_VolumeGroups r) (gf_VGName r) (gf_LVName r) = gf_VolumeGroups r" if "gf_Action r \<noteq> ''create-gfs''"
    using that f(1) r2'(1) by (simp add: r gfs_create_defaults_def gfs_lists_def groups_again)
qed

text \<open>
  A request that was accepted is accepted again by the node it is forwarded to, and means the
  same there: only the letter case of the non-stop flag and, for the creation of a file system whose
  names were left to the defaults, the list of volume groups may differ.
\<close>

theorem normalizeGFSManageRequest_stable:
  assumes "normalizeGFSManageRequest req = Inr r"
  shows "\<exists>r'. normalizeGFSManageRequest r = Inr r' \<and> r' = r\<lparr>gf_NonStopCheck := gf_NonStopCheck r', gf_VolumeGroups := gf_VolumeGroups r'\<rparr>
     \<and> (gf_Action r \<noteq> ''create-gfs'' \<longrightarrow> gf_VolumeGroups r' = gf_VolumeGroups r)"
proof -
  note f = gfs_fields [OF assms]
  define r' where "r' = gfs_lists r"
  have r': "r' = r\<lparr>gf_NonStopCheck := gf_NonStopCheck r', gf_VolumeGroups := gf_VolumeGroups r'\<rparr>"
    using f(7) by (cases r) (simp add: r'_def gfs_lists_def)
  have groups: "gf_VolumeGroups r' = gf_VolumeGroups r" if "gf_Action r \<noteq> ''create-gfs''"
    using f(8) [OF that] by (simp add: r'_def gfs_lists_def)
  have same: "gfs_create_defaults (r\<lparr>gf_NonStopCheck := n, gf_VolumeGroups := g\<rparr>) = r\<lparr>gf_NonStopCheck := n, gf_VolumeGroups := g\<rparr>" for n g
    using f(5) by (cases r; cases "gf_Action r = ''create-gfs''") (simp_all add: gfs_create_defaults_def)
  have miss: "gfs_missing (r\<lparr>gf_NonStopCheck := n, gf_VolumeGroups := g\<rparr>) = None"
    if "gf_Action r \<noteq> ''create-gfs'' \<longrightarrow> g = gf_VolumeGroups r" for n g
  proof (cases "gf_Action r = ''create-gfs''")
    case True
    with f(6) show ?thesis by (cases "gf_Disks r = []") (simp_all add: gfs_missing_def Let_def)
  next
    case False
    with that have g: "g = gf_VolumeGroups r" by simp
    have "gfs_missing (r\<lparr>gf_NonStopCheck := n, gf_VolumeGroups := g\<rparr>) = gfs_missing r" 
      by (simp add: gfs_missing_def Let_def g cong: if_cong)
    with f(6) show ?thesis by simp
  qed
  have "gfs_check r' = Inr r'"
    using same miss groups by (subst (1 2) r') (auto simp: gfs_check_def Let_def)
  then have "normalizeGFSManageRequest r = Inr r'" using f(2-4) by (simp add: normalizeGFSManageRequest_def r'_def)
  with r' groups show ?thesis by blast
qed

definition alert_request :: GFSManageRequest where
  "alert_request = no_gfs\<lparr>gf_Action := ''set-alert''\<rparr>"

lemma alert_accepted: "normalizeGFSManageRequest alert_request = Inr alert_request"
  by (simp add: alert_request_def no_gfs_def normalizeGFSManageRequest_def gfs_switch_def gfs_actions_def gfs_trim_def gfs_cluster_def
      gfs_lists_def gfs_check_def gfs_create_defaults_def gfs_missing_def normalizeGFSManageVolumeGroups_def
      normalizeGFSManageStonithDevices_def normalizeStringSlice_def splitCommaValues_def go_str)

theorem normalizeGFSManageRequest_stable_witness:
  "\<exists>r'. normalizeGFSManageRequest alert_request = Inr r' \<and> gf_VolumeGroups r' = gf_VolumeGroups alert_request \<and> gf_Action r' = ''set-alert''"
proof -
  have a: "gf_Action alert_request = ''set-alert''" by (simp add: alert_request_def no_gfs_def)
  obtain r' where r: "normalizeGFSManageRequest alert_request = Inr r'"
      "r' = alert_request\<lparr>gf_NonStopCheck := gf_NonStopCheck r', gf_VolumeGroups := gf_VolumeGroups r'\<rparr>"
      "gf_Action alert_request \<noteq> ''create-gfs'' \<longrightarrow> gf_VolumeGroups r' = gf_VolumeGroups alert_request"
    using normalizeGFSManageRequest_stable [OF alert_accepted] by blast
  have "gf_Action r' = ''set-alert''" by (subst r(2)) (simp add: a)
  with r(1,3) a show ?thesis by simp
qed

end
