(* ===== verification/Deploy_Jobs.thy ===== *)
theory Deploy_Jobs
  imports Job_Store Storage_Requests
begin

text \<open>
  The deployment jobs of \<^verbatim>\<open>internal/handler/cube/deploy_run.go\<close>: the request, the selection of the
  steps, the store that takes a new job only while none is active, and the goroutine of a job as a
  process. One step of the system is one locked operation of the store; what a deployment step
  reports, the clock (in nanoseconds) and the fresh random job ids are choices of the environment. The
  store hands out copies, so jobs are values.
\<close>

section \<open>Data\<close>

record SystemFlag =
  fl_Depth1 :: string
  fl_Depth2 :: string
  fl_Value :: string

text \<open>
  What a step leaves as its output: nothing, a text, a number, a response (as the value it encodes
  to), a list, named parts, or flags of the system profile.
\<close>

datatype step_output =
    ONil
  | OText string
  | ONum int
  | OBody goval
  | OItems "step_output list"
  | OParts "(string \<times> step_output) list"
  | OFlags "SystemFlag list"

record CCVMCloudInitCreateRequest =
  ci_SNNIC :: string
  ci_SNIP :: string
  ci_SNPrefix :: int
  ci_SNGW :: string
  ci_SNDNS :: string

record CCVMLifecycleRequest =
  lc_Action :: string
  lc_Disk :: string
  lc_Destroy :: bool
  lc_Purge :: bool

text \<open>
  The SCVM and CCVM definitions and the settings of the monitoring are handed on as they are, apart
  from the action.
\<close>

record CCVMMonitoringConfigRequest =
  mo_Action :: string
  mo_Settings :: goval

record DeployRunRequest =
  dr_Mode :: string
  dr_Only :: "string list"
  dr_Skip :: "string list"
  dr_ForceReset :: bool
  dr_LicenseContent :: string
  dr_Licenses :: "(string, string) fmap"
  dr_LicenseFilename :: string
  dr_RunBootstrapScript :: "bool option"
  dr_TargetHostnames :: "string list"
  dr_JoinExistingSCVMCluster :: bool
  dr_Cluster :: "ClusterApplyRequest option"
  dr_SCVMByHost :: "(string \<times> goval) list"
  dr_GFS :: "GFSManageRequest option"
  dr_RBD :: "RBDManageRequest option"
  dr_Local :: "LocalManageRequest option"
  dr_CCVMCloudInit :: "CCVMCloudInitCreateRequest option"
  dr_CCVMXML :: "goval option"
  dr_CCVMLifecycle :: "CCVMLifecycleRequest option"
  dr_Monitoring :: "CCVMMonitoringConfigRequest option"
  dr_UpdateSystemProfile :: "bool option"

text \<open>
  \<open>dr_SCVMByHost\<close> is the map with distinct keys, in the order of the iteration over it.
\<close>

record DeployRunStepResult =
  ds_Name :: string
  ds_Status :: string
  ds_Message :: string
  ds_StartedAt :: "nat option"
  ds_FinishedAt :: "nat option"
  ds_DurationMS :: nat
  ds_Output :: step_output

record DeployRunJob =
  dj_JobID :: string
  dj_Status :: string
  dj_Mode :: string
  dj_OSType :: string
  dj_CurrentStep :: string
  dj_Message :: string
  dj_CreatedAt :: nat
  dj_StartedAt :: "nat option"
  dj_FinishedAt :: "nat option"
  dj_Steps :: "DeployRunStepResult list"

record DeployRunStartResponse =
  ds_Code :: nat
  ds_JobID :: string
  ds_JobStatus :: string
  ds_Note :: string
  ds_Steps :: "DeployRunStepResult list"

record deployRunStepOutcome =
  oc_Status :: string
  oc_Message :: string
  oc_Output :: step_output

definition deployRunJobLimit :: nat where
  "deployRunJobLimit = 50"

section \<open>Selecting the steps\<close>

definition normalizeDeployRunMode :: "string \<Rightarrow> string" where
  "normalizeDeployRunMode mode =
     (let m = to_lower (trim_space mode)
      in if m = [] \<or> m = ''all'' then ''all'' else if m = ''partial'' then ''partial'' else ''all'')"

definition normalizeDeployOSType :: "string \<Rightarrow> string" where
  "normalizeDeployOSType osType = to_lower (trim_space osType)"

definition allSteps :: "string list" where
  "allSteps =
     [''license_apply'', ''cluster_apply'', ''scvm_prepare'', ''scvm_bootstrap'', ''rbd_prepare'', ''storage_prepare'',
      ''local_prepare'', ''ccvm_prepare'', ''ccvm_bootstrap'', ''monitoring_prepare'', ''system_profile'']"

definition step_aliases :: "(string list \<times> string) list" where
  "step_aliases =
     [([''license'', ''license_register'', ''license_apply''], ''license_apply''),
      ([''cluster'', ''cluster_config'', ''cluster_apply''], ''cluster_apply''),
      ([''scvm'', ''storage_vm'', ''storage_vm_prepare'', ''scvm_prepare''], ''scvm_prepare''),
      ([''scvm_bootstrap'', ''storage_vm_bootstrap''], ''scvm_bootstrap''),
      ([''rbd'', ''rbd_create'', ''rbd_map'', ''rbd_prepare''], ''rbd_prepare''),
      ([''storage'', ''gfs'', ''gfs_prepare'', ''storage_prepare''], ''storage_prepare''),
      ([''local'', ''local_storage'', ''local_prepare''], ''local_prepare''),
      ([''ccvm'', ''cloud_vm'', ''cloud_vm_prepare'', ''ccvm_prepare''], ''ccvm_prepare''),
      ([''ccvm_bootstrap'', ''cloud_vm_bootstrap''], ''ccvm_bootstrap''),
      ([''monitoring'', ''wall'', ''wall_config'', ''monitoring_prepare''], ''monitoring_prepare''),
      ([''profile'', ''system'', ''system_config'', ''system_profile''], ''system_profile'')]"

fun switch_name :: "string \<Rightarrow> (string list \<times> string) list \<Rightarrow> string" where
  "switch_name s [] = []"
| "switch_name s ((names, step) # cases') = (if s \<in> set names then step else switch_name s cases')"

definition normalizeDeployRunStepName :: "string \<Rightarrow> string" where
  "normalizeDeployRunStepName step =
     switch_name (map (\<lambda>c. if c = CHR ''-'' \<or> c = CHR '' '' then CHR ''_'' else c) (to_lower (trim_space step))) step_aliases"

definition isKnownDeployRunStep :: "string \<Rightarrow> bool" where
  "isKnownDeployRunStep step \<longleftrightarrow> step \<in> set allSteps"

text \<open>
  The two fields are checked in the order of the iteration over a map of two entries, which is
  either.
\<close>

fun unsupported_step :: "string \<Rightarrow> string list \<Rightarrow> string option" where
  "unsupported_step field [] = None"
| "unsupported_step field (v # vs) =
     (if normalizeDeployRunStepName v = [] then Some (''unsupported '' @ field @ '' step: '' @ trim_space v) else unsupported_step field vs)"

definition validateDeployRunSelection :: "bool \<Rightarrow> DeployRunRequest \<Rightarrow> string option" where
  "validateDeployRunSelection only_first req =
     (let mode = to_lower (trim_space (dr_Mode req));
          only = unsupported_step ''only'' (dr_Only req);
          skip = unsupported_step ''skip'' (dr_Skip req)
      in if mode \<noteq> [] \<and> mode \<noteq> ''all'' \<and> mode \<noteq> ''partial'' then Some ''mode must be all or partial''
         else if only_first then (if only \<noteq> None then only else skip)
         else if skip \<noteq> None then skip else only)"

fun step_index :: "string \<Rightarrow> string list \<Rightarrow> nat \<Rightarrow> nat option" where
  "step_index s [] i = None"
| "step_index s (x # xs) i = (if x = s then Some i else step_index s xs (Suc i))"

definition insertDeployRunRBDPrepare :: "string list \<Rightarrow> DeployRunRequest \<Rightarrow> string list" where
  "insertDeployRunRBDPrepare steps req =
     (if dr_RBD req = None then steps
      else case step_index ''storage_prepare'' steps 0 of
          None \<Rightarrow> steps
        | Some i \<Rightarrow> if ''rbd_prepare'' \<in> set steps then steps else take i steps @ ''rbd_prepare'' # drop i steps)"

fun select_loop :: "string list \<Rightarrow> string list \<Rightarrow> string list \<Rightarrow> string list" where
  "select_loop skip [] out = out"
| "select_loop skip (s # ss) out =
     (if s \<in> set skip then select_loop skip ss out
      else if s \<in> set out then select_loop skip ss out
      else select_loop skip ss (out @ [s]))"

definition selectedDeployRunSteps :: "DeployRunRequest \<Rightarrow> string list" where
  "selectedDeployRunSteps req =
     (let selected = (if dr_Only req \<noteq> []
                      then insertDeployRunRBDPrepare (filter isKnownDeployRunStep (map normalizeDeployRunStepName (dr_Only req))) req
                      else allSteps);
          skip = filter (\<lambda>s. s \<noteq> []) (map normalizeDeployRunStepName (dr_Skip req))
      in select_loop skip selected [])"

definition deployRunStepExplicit :: "DeployRunRequest \<Rightarrow> string \<Rightarrow> bool" where
  "deployRunStepExplicit req step \<longleftrightarrow> list_ex (\<lambda>v. normalizeDeployRunStepName v = step) (dr_Only req)"

section \<open>The store\<close>

record deployRunJobStore =
  d_jobs :: "(string, DeployRunJob) fmap"
  d_order :: "string list"

definition newDeployRunJobStore :: deployRunJobStore where
  "newDeployRunJobStore = \<lparr>d_jobs = fmempty, d_order = []\<rparr>"

function pruneLocked_deploy :: "deployRunJobStore \<Rightarrow> deployRunJobStore" where
  "pruneLocked_deploy s =
     (if length (d_order s) > deployRunJobLimit
      then pruneLocked_deploy \<lparr>d_jobs = fmdrop (hd (d_order s)) (d_jobs s), d_order = tl (d_order s)\<rparr>
      else s)"
  by pat_completeness auto
termination
  by (relation "measure (\<lambda>s. length (d_order s))") (auto simp: deployRunJobLimit_def)

declare pruneLocked_deploy.simps [simp del]

definition active_job :: "DeployRunJob \<Rightarrow> bool" where
  "active_job job \<longleftrightarrow> dj_Status job = ''queued'' \<or> dj_Status job = ''running''"

definition pending_result :: "string \<Rightarrow> DeployRunStepResult" where
  "pending_result step =
     \<lparr>ds_Name = step, ds_Status = ''pending'', ds_Message = [], ds_StartedAt = None, ds_FinishedAt = None, ds_DurationMS = 0, ds_Output = ONil\<rparr>"

definition new_deploy_job :: "string \<Rightarrow> nat \<Rightarrow> DeployRunRequest \<Rightarrow> string list \<Rightarrow> DeployRunJob" where
  "new_deploy_job jobID now req steps =
     \<lparr>dj_JobID = jobID, dj_Status = ''queued'', dj_Mode = normalizeDeployRunMode (dr_Mode req),
      dj_OSType = (case dr_Cluster req of None \<Rightarrow> [] | Some c \<Rightarrow> normalizeDeployOSType (Type c)),
      dj_CurrentStep = [], dj_Message = [], dj_CreatedAt = now, dj_StartedAt = None, dj_FinishedAt = None,
      dj_Steps = map pending_result steps\<rparr>"

definition push_deploy :: "string \<Rightarrow> DeployRunJob \<Rightarrow> deployRunJobStore \<Rightarrow> deployRunJobStore" where
  "push_deploy jobID job s = \<lparr>d_jobs = fmupd jobID job (d_jobs s), d_order = d_order s @ [jobID]\<rparr>"

definition createIfIdle ::
  "string \<Rightarrow> nat \<Rightarrow> DeployRunRequest \<Rightarrow> string list \<Rightarrow> deployRunJobStore \<Rightarrow> DeployRunJob option \<times> deployRunJobStore" where
  "createIfIdle jobID now req steps s =
     (let job = new_deploy_job jobID now req steps
      in if fBex (fmran (d_jobs s)) active_job then (None, s)
         else (Some job, pruneLocked_deploy (push_deploy jobID job s)))"

definition get_deploy :: "string \<Rightarrow> deployRunJobStore \<Rightarrow> DeployRunJob option" where
  "get_deploy jobID s = fmlookup (d_jobs s) jobID"

definition list_deploy :: "deployRunJobStore \<Rightarrow> DeployRunJob list" where
  "list_deploy s = List.map_filter (fmlookup (d_jobs s)) (rev (d_order s))"

definition update_deploy :: "string \<Rightarrow> (DeployRunJob \<Rightarrow> DeployRunJob) \<Rightarrow> deployRunJobStore \<Rightarrow> deployRunJobStore" where
  "update_deploy jobID f s =
     (case fmlookup (d_jobs s) jobID of None \<Rightarrow> s | Some job \<Rightarrow> s\<lparr>d_jobs := fmupd jobID (f job) (d_jobs s)\<rparr>)"

section \<open>The handlers\<close>

text \<open>A refusal is its status code and message. The body is absent if it does not decode.\<close>

definition StartDeployRun ::
  "bool \<Rightarrow> DeployRunRequest option \<Rightarrow> string \<Rightarrow> nat \<Rightarrow> deployRunJobStore \<Rightarrow> (nat \<times> string + DeployRunStartResponse) \<times> deployRunJobStore" where
  "StartDeployRun only_first body jobID now s =
     (case body of
        None \<Rightarrow> (Inl (400, ''invalid request''), s)
      | Some req \<Rightarrow>
          (case validateDeployRunSelection only_first req of
             Some err \<Rightarrow> (Inl (400, err), s)
           | None \<Rightarrow>
               (let steps = selectedDeployRunSteps req
                in if steps = [] then (Inl (400, ''no steps to run''), s)
                   else (case createIfIdle jobID now req steps s of
                           (None, s') \<Rightarrow> (Inl (409, ''another deploy job is already queued or running''), s')
                         | (Some job, s') \<Rightarrow>
                             (Inr \<lparr>ds_Code = 202, ds_JobID = dj_JobID job, ds_JobStatus = dj_Status job,
                                   ds_Note = ''deploy job started'', ds_Steps = dj_Steps job\<rparr>, s')))))"

definition GetDeployRunJob :: "string \<Rightarrow> deployRunJobStore \<Rightarrow> nat \<times> string + DeployRunJob" where
  "GetDeployRunJob jobID s =
     (case get_deploy (trim_space jobID) s of None \<Rightarrow> Inl (404, ''job not found'') | Some job \<Rightarrow> Inr job)"

definition ListDeployRunJobs :: "deployRunJobStore \<Rightarrow> DeployRunJob list" where
  "ListDeployRunJobs s = list_deploy s"

section \<open>Edits of a job\<close>

fun edit_deploy_step :: "string \<Rightarrow> (DeployRunStepResult \<Rightarrow> DeployRunStepResult) \<Rightarrow> DeployRunStepResult list \<Rightarrow> DeployRunStepResult list" where
  "edit_deploy_step name f [] = []"
| "edit_deploy_step name f (s # ss) = (if ds_Name s \<noteq> name then s # edit_deploy_step name f ss else f s # ss)"

definition markDeployRunStepRunning :: "nat \<Rightarrow> string \<Rightarrow> DeployRunJob \<Rightarrow> DeployRunJob" where
  "markDeployRunStepRunning now step job =
     job\<lparr>dj_Steps := edit_deploy_step step
           (\<lambda>s. s\<lparr>ds_Status := ''running'', ds_StartedAt := Some now, ds_Message := ''running''\<rparr>) (dj_Steps job)\<rparr>"

definition finished_result :: "nat \<Rightarrow> deployRunStepOutcome \<Rightarrow> DeployRunStepResult \<Rightarrow> DeployRunStepResult" where
  "finished_result now outcome s =
     (let started = (case ds_StartedAt s of None \<Rightarrow> now | Some t \<Rightarrow> t)
      in s\<lparr>ds_StartedAt := Some started, ds_Status := oc_Status outcome, ds_Message := oc_Message outcome, ds_FinishedAt := Some now,
           ds_DurationMS := (now - started) div 1000000, ds_Output := oc_Output outcome\<rparr>)"

definition markDeployRunStepFinished :: "nat \<Rightarrow> string \<Rightarrow> deployRunStepOutcome \<Rightarrow> DeployRunJob \<Rightarrow> DeployRunJob" where
  "markDeployRunStepFinished now step outcome job =
     job\<lparr>dj_Steps := edit_deploy_step step (finished_result now outcome) (dj_Steps job)\<rparr>"

text \<open>The updates that \<^verbatim>\<open>runDeployRunJob\<close> applies to its job.\<close>

definition deploy_started :: "nat \<Rightarrow> DeployRunJob \<Rightarrow> DeployRunJob" where
  "deploy_started now job = job\<lparr>dj_Status := ''running'', dj_StartedAt := Some now, dj_Message := ''deploy job started''\<rparr>"

definition deploy_step_begins :: "nat \<Rightarrow> string \<Rightarrow> DeployRunJob \<Rightarrow> DeployRunJob" where
  "deploy_step_begins now step job = markDeployRunStepRunning now step (job\<lparr>dj_CurrentStep := step\<rparr>)"

definition failed_outcome :: "string \<Rightarrow> deployRunStepOutcome \<Rightarrow> deployRunStepOutcome" where
  "failed_outcome err outcome = \<lparr>oc_Status = ''failed'', oc_Message = err, oc_Output = oc_Output outcome\<rparr>"

definition deploy_failed :: "nat \<Rightarrow> nat \<Rightarrow> string \<Rightarrow> string \<Rightarrow> deployRunStepOutcome \<Rightarrow> DeployRunJob \<Rightarrow> DeployRunJob" where
  "deploy_failed now later step err outcome job =
     (markDeployRunStepFinished now step (failed_outcome err outcome) job)
       \<lparr>dj_Status := ''failed'', dj_CurrentStep := [], dj_Message := ''deploy job failed'' @ '': '' @ err, dj_FinishedAt := Some later\<rparr>"

definition deploy_succeeded :: "nat \<Rightarrow> DeployRunJob \<Rightarrow> DeployRunJob" where
  "deploy_succeeded now job =
     job\<lparr>dj_Status := ''succeeded'', dj_CurrentStep := [], dj_Message := ''deploy job succeeded'', dj_FinishedAt := Some now\<rparr>"

section \<open>Processes\<close>

text \<open>Where the goroutine of a job is: the steps still to run.\<close>

datatype deploy_process =
    DQueued "string list"
  | DLooping "string list"
  | DExecuting string "string list"
  | DFinished

record deployment =
  p_store :: deployRunJobStore
  p_procs :: "(string, deploy_process) fmap"

definition step_report :: "deployRunStepOutcome \<Rightarrow> bool" where
  "step_report outcome \<longleftrightarrow> oc_Status outcome = ''succeeded'' \<or> oc_Status outcome = ''skipped''"

inductive deploy_step :: "deployment \<Rightarrow> deployment \<Rightarrow> bool" where
  d_start: "jobID \<notin> fset (fmdom (p_procs d)) \<Longrightarrow> StartDeployRun only_first (Some req) jobID now (p_store d) = (Inr resp, s) \<Longrightarrow>
    deploy_step d \<lparr>p_store = s, p_procs = fmupd jobID (DQueued (selectedDeployRunSteps req)) (p_procs d)\<rparr>"
| d_run: "fmlookup (p_procs d) jobID = Some (DQueued steps) \<Longrightarrow>
    deploy_step d \<lparr>p_store = update_deploy jobID (deploy_started now) (p_store d), p_procs = fmupd jobID (DLooping steps) (p_procs d)\<rparr>"
| d_next: "fmlookup (p_procs d) jobID = Some (DLooping (step # steps)) \<Longrightarrow>
    deploy_step d \<lparr>p_store = update_deploy jobID (deploy_step_begins now step) (p_store d), p_procs = fmupd jobID (DExecuting step steps) (p_procs d)\<rparr>"
| d_step: "fmlookup (p_procs d) jobID = Some (DExecuting step steps) \<Longrightarrow> step_report outcome \<Longrightarrow>
    deploy_step d \<lparr>p_store = update_deploy jobID (markDeployRunStepFinished now step outcome) (p_store d), p_procs = fmupd jobID (DLooping steps) (p_procs d)\<rparr>"
| d_fail: "fmlookup (p_procs d) jobID = Some (DExecuting step steps) \<Longrightarrow>
    deploy_step d \<lparr>p_store = update_deploy jobID (deploy_failed now later step err outcome) (p_store d), p_procs = fmupd jobID DFinished (p_procs d)\<rparr>"
| d_finish: "fmlookup (p_procs d) jobID = Some (DLooping []) \<Longrightarrow>
    deploy_step d \<lparr>p_store = update_deploy jobID (deploy_succeeded now) (p_store d), p_procs = fmupd jobID DFinished (p_procs d)\<rparr>"

inductive deploy_reachable :: "deployment \<Rightarrow> bool" where
  deploy_init: "deploy_reachable \<lparr>p_store = newDeployRunJobStore, p_procs = fmempty\<rparr>"
| deploy_next: "deploy_reachable d \<Longrightarrow> deploy_step d d' \<Longrightarrow> deploy_reachable d'"

section \<open>Facts about the selection\<close>

lemma select_loop_spec: "select_loop skip ss out = out @ filter (\<lambda>s. s \<notin> set out) (first_occ (filter (\<lambda>s. s \<notin> set skip) ss))"
proof (induction skip ss out rule: select_loop.induct)
  case (2 skip s ss out)
  consider "s \<in> set skip" | "s \<notin> set skip" "s \<in> set out" | "s \<notin> set skip" "s \<notin> set out" by blast
  then show ?case by cases (use 2 in \<open>auto intro!: filter_cong\<close>)
qed simp

lemma switch_name_cases: "switch_name s cases' = [] \<or> switch_name s cases' \<in> snd ` set cases'"
  by (induction s cases' rule: switch_name.induct) auto

lemma normalized_step: "normalizeDeployRunStepName s = [] \<or> normalizeDeployRunStepName s \<in> set allSteps"
proof -
  have "snd ` set step_aliases = set allSteps" by (simp add: step_aliases_def allSteps_def)
  then show ?thesis using switch_name_cases [of _ step_aliases] by (simp add: normalizeDeployRunStepName_def)
qed

lemma steps_not_Nil: "[] \<notin> set allSteps"
  by (simp add: allSteps_def)

lemma distinct_allSteps: "distinct allSteps"
  by (simp add: allSteps_def)

lemma step_index_SomeD:
  "step_index s xs i = Some j \<Longrightarrow> \<exists>k. j = i + k \<and> s \<notin> set (take k xs) \<and> (\<exists>rest. drop k xs = s # rest)"
proof (induction s xs i arbitrary: j rule: step_index.induct)
  case (2 s x xs i)
  show ?case
  proof (cases "x = s")
    case True
    with 2(2) show ?thesis by (intro exI [of _ 0]) simp
  next
    case False
    with 2 obtain k where "j = Suc i + k" "s \<notin> set (take k xs)" "\<exists>rest. drop k xs = s # rest" by auto
    with False show ?thesis by (intro exI [of _ "Suc k"]) simp
  qed
qed simp

lemma step_index_None: "step_index s xs i = None \<longleftrightarrow> s \<notin> set xs"
  by (induction s xs i rule: step_index.induct) auto

lemma set_insert_rbd:
  "set (insertDeployRunRBDPrepare steps req) =
     set steps \<union> (if dr_RBD req \<noteq> None \<and> ''storage_prepare'' \<in> set steps then {''rbd_prepare''} else {})"
proof (cases "step_index ''storage_prepare'' steps 0")
  case None
  then have "''storage_prepare'' \<notin> set steps" using step_index_None by metis
  with None show ?thesis by (simp add: insertDeployRunRBDPrepare_def)
next
  case (Some i)
  then have "''storage_prepare'' \<in> set steps" by (metis step_index_None option.distinct(1))
  moreover have "set (take i steps) \<union> set (drop i steps) = set steps" by (metis append_take_drop_id set_append)
  ultimately show ?thesis using Some by (auto simp: insertDeployRunRBDPrepare_def)
qed

lemma select_split:
  assumes "s \<notin> set skip" "r \<notin> set skip" "r \<noteq> s" "s \<notin> set pre" "r \<notin> set pre" "r \<notin> set post"
  shows "\<exists>a b. select_loop skip (pre @ r # s # post) [] = a @ r # s # b"
  using assms by (auto simp: select_loop_spec first_occ_append filter_empty_conv)

lemma selected_spec:
  "selectedDeployRunSteps req =
     select_loop (filter (\<lambda>s. s \<noteq> []) (map normalizeDeployRunStepName (dr_Skip req)))
       (if dr_Only req \<noteq> []
        then insertDeployRunRBDPrepare (filter isKnownDeployRunStep (map normalizeDeployRunStepName (dr_Only req))) req
        else allSteps) []"
  by (simp add: selectedDeployRunSteps_def Let_def)

lemma distinct_selected: "distinct (selectedDeployRunSteps req)"
  by (simp add: selected_spec select_loop_spec)

text \<open>
  The selection is what the request asks for: without a list all steps in the order of the
  program, with one the steps it names, and never a skipped one; no step is selected twice, the mode
  has no influence. If the request describes an image but names only the storage step, the step that
  creates the image is put right before it.
\<close>

theorem selectedDeployRunSteps_exact:
  "set (selectedDeployRunSteps req) =
     (if dr_Only req = [] then set allSteps
      else normalizeDeployRunStepName ` set (dr_Only req) - {[]}
           \<union> (if dr_RBD req \<noteq> None \<and> ''storage_prepare'' \<in> normalizeDeployRunStepName ` set (dr_Only req) then {''rbd_prepare''} else {}))
     - normalizeDeployRunStepName ` set (dr_Skip req)
   \<and> distinct (selectedDeployRunSteps req)
   \<and> (dr_Only req = [] \<longrightarrow>
        selectedDeployRunSteps req = filter (\<lambda>s. s \<notin> normalizeDeployRunStepName ` set (dr_Skip req)) allSteps)
   \<and> (dr_RBD req \<noteq> None \<and> ''rbd_prepare'' \<notin> normalizeDeployRunStepName ` set (dr_Only req)
        \<and> {''rbd_prepare'', ''storage_prepare''} \<subseteq> set (selectedDeployRunSteps req) \<longrightarrow>
        (\<exists>a b. selectedDeployRunSteps req = a @ ''rbd_prepare'' # ''storage_prepare'' # b))"
proof -
  let ?n = normalizeDeployRunStepName
  let ?skip = "filter (\<lambda>s. s \<noteq> []) (map ?n (dr_Skip req))"
  let ?only = "filter isKnownDeployRunStep (map ?n (dr_Only req))"
  let ?sel = "if dr_Only req \<noteq> [] then insertDeployRunRBDPrepare ?only req else allSteps"
  have only: "set ?only = ?n ` set (dr_Only req) - {[]}"
    using normalized_step steps_not_Nil by (auto simp: isKnownDeployRunStep_def)
  have known: "[] \<notin> set ?sel" using only steps_not_Nil by (auto simp: set_insert_rbd)
  have "set (selectedDeployRunSteps req) = set ?sel - set ?skip"
    by (auto simp: selected_spec select_loop_spec)
  also have "\<dots> = set ?sel - ?n ` set (dr_Skip req)" using known by auto
  finally have set: "set (selectedDeployRunSteps req) = set ?sel - ?n ` set (dr_Skip req)" .
  have "set ?sel = (if dr_Only req = [] then set allSteps
      else ?n ` set (dr_Only req) - {[]} \<union> (if dr_RBD req \<noteq> None \<and> ''storage_prepare'' \<in> ?n ` set (dr_Only req) then {''rbd_prepare''} else {}))"
    using only by (simp add: set_insert_rbd)
  with set have 1: "set (selectedDeployRunSteps req) = (if dr_Only req = [] then set allSteps
      else ?n ` set (dr_Only req) - {[]} \<union> (if dr_RBD req \<noteq> None \<and> ''storage_prepare'' \<in> ?n ` set (dr_Only req) then {''rbd_prepare''} else {}))
      - ?n ` set (dr_Skip req)" by simp
  have "filter (\<lambda>s. s \<notin> set ?skip) allSteps = filter (\<lambda>s. s \<notin> ?n ` set (dr_Skip req)) allSteps"
    using steps_not_Nil by (auto intro!: filter_cong)
  then have 2: "selectedDeployRunSteps req = filter (\<lambda>s. s \<notin> ?n ` set (dr_Skip req)) allSteps" if "dr_Only req = []"
    using that distinct_allSteps by (simp add: selected_spec select_loop_spec first_occ_id)
  have 3: "\<exists>a b. selectedDeployRunSteps req = a @ ''rbd_prepare'' # ''storage_prepare'' # b"
    if rbd: "dr_RBD req \<noteq> None" "''rbd_prepare'' \<notin> ?n ` set (dr_Only req)"
      and sel: "{''rbd_prepare'', ''storage_prepare''} \<subseteq> set (selectedDeployRunSteps req)"
  proof -
    have skip: "''rbd_prepare'' \<notin> set ?skip" "''storage_prepare'' \<notin> set ?skip" using sel by (auto simp: set)
    obtain pre post where "?sel = pre @ ''rbd_prepare'' # ''storage_prepare'' # post"
        "''storage_prepare'' \<notin> set pre" "''rbd_prepare'' \<notin> set pre" "''rbd_prepare'' \<notin> set post"
    proof (cases "dr_Only req = []")
      case True
      have "allSteps = [''license_apply'', ''cluster_apply'', ''scvm_prepare'', ''scvm_bootstrap''] @ ''rbd_prepare'' # ''storage_prepare''
          # [''local_prepare'', ''ccvm_prepare'', ''ccvm_bootstrap'', ''monitoring_prepare'', ''system_profile'']"
        by (simp add: allSteps_def)
      with True show ?thesis
        by (intro that [of "[''license_apply'', ''cluster_apply'', ''scvm_prepare'', ''scvm_bootstrap'']"
              "[''local_prepare'', ''ccvm_prepare'', ''ccvm_bootstrap'', ''monitoring_prepare'', ''system_profile'']"]) simp_all
    next
      case False
      have no: "''rbd_prepare'' \<notin> set ?only" using rbd(2) only by blast
      have "''storage_prepare'' \<in> set ?only"
        using sel False by (auto simp: set set_insert_rbd)
      then obtain i where i: "step_index ''storage_prepare'' ?only 0 = Some i" by (metis step_index_None option.exhaust)
      then obtain rest where split: "''storage_prepare'' \<notin> set (take i ?only)" "drop i ?only = ''storage_prepare'' # rest"
        using step_index_SomeD [OF i] by auto
      have "''rbd_prepare'' \<notin> set (take i ?only)" "''rbd_prepare'' \<notin> set (drop i ?only)"
        using no by (meson in_set_takeD, meson in_set_dropD)
      moreover have "?sel = take i ?only @ ''rbd_prepare'' # ''storage_prepare'' # rest"
        using False rbd(1) i no split(2) unfolding insertDeployRunRBDPrepare_def by (simp only: if_True if_False option.case not_False_eq_True)
      ultimately show ?thesis using split by (intro that [of "take i ?only" rest]) simp_all
    qed
    with select_split [OF skip(2,1)] show ?thesis by (simp add: selected_spec)
  qed
  show ?thesis using 1 2 3 distinct_selected by blast
qed

section \<open>What a process knows of its job\<close>

definition result_waiting :: "DeployRunStepResult \<Rightarrow> bool" where
  "result_waiting s \<longleftrightarrow> ds_Status s = ''pending'' \<and> ds_StartedAt s = None \<and> ds_FinishedAt s = None"

definition result_done :: "DeployRunStepResult \<Rightarrow> bool" where
  "result_done s \<longleftrightarrow> (ds_Status s = ''succeeded'' \<or> ds_Status s = ''skipped'') \<and> ds_StartedAt s \<noteq> None \<and> ds_FinishedAt s \<noteq> None"

definition around_step :: "DeployRunStepResult list \<Rightarrow> (DeployRunStepResult \<Rightarrow> bool) \<Rightarrow> string list \<Rightarrow> bool" where
  "around_step results P steps \<longleftrightarrow>
     (\<exists>before s after. results = before @ s # after \<and> list_all result_done before \<and> P s \<and> list_all result_waiting after
        \<and> map ds_Name after = steps)"

definition deploy_ended :: "DeployRunJob \<Rightarrow> bool" where
  "deploy_ended job \<longleftrightarrow> dj_FinishedAt job \<noteq> None \<and> dj_CurrentStep job = [] \<and>
     (dj_Status job = ''succeeded'' \<and> list_all result_done (dj_Steps job)
      \<or> dj_Status job = ''failed''
        \<and> (\<exists>steps. around_step (dj_Steps job)
              (\<lambda>s. ds_Status s = ''failed'' \<and> ds_FinishedAt s \<noteq> None \<and> dj_Message job = ''deploy job failed: '' @ ds_Message s) steps))"

fun deploy_ok :: "deploy_process \<Rightarrow> DeployRunJob \<Rightarrow> bool" where
  "deploy_ok (DQueued steps) job \<longleftrightarrow> dj_Status job = ''queued'' \<and> list_all result_waiting (dj_Steps job) \<and> map ds_Name (dj_Steps job) = steps"
| "deploy_ok (DLooping steps) job \<longleftrightarrow> dj_Status job = ''running''
     \<and> (\<exists>before after. dj_Steps job = before @ after \<and> list_all result_done before \<and> list_all result_waiting after
          \<and> map ds_Name after = steps)"
| "deploy_ok (DExecuting step steps) job \<longleftrightarrow> dj_Status job = ''running'' \<and> dj_CurrentStep job = step
     \<and> around_step (dj_Steps job) (\<lambda>s. ds_Name s = step \<and> ds_Status s = ''running'' \<and> ds_StartedAt s \<noteq> None) steps"
| "deploy_ok DFinished job \<longleftrightarrow> deploy_ended job"

definition steps_once :: "DeployRunJob \<Rightarrow> bool" where
  "steps_once job \<longleftrightarrow> distinct (map ds_Name (dj_Steps job))"

lemma edit_deploy_at:
  "ds_Name s = name \<Longrightarrow> name \<notin> set (map ds_Name before) \<Longrightarrow> edit_deploy_step name f (before @ s # after) = before @ f s # after"
  by (induction before) auto

lemma edit_deploy_names: "(\<And>s. ds_Name (f s) = ds_Name s) \<Longrightarrow> map ds_Name (edit_deploy_step name f ss) = map ds_Name ss"
  by (induction ss) auto

lemma finished_name [simp]: "ds_Name (finished_result now outcome s) = ds_Name s"
  by (simp add: finished_result_def Let_def)

lemma steps_once_edits:
  "steps_once (deploy_started now job) = steps_once job" "steps_once (deploy_step_begins now step job) = steps_once job"
  "steps_once (markDeployRunStepFinished now step outcome job) = steps_once job"
  "steps_once (deploy_failed now later step err outcome job) = steps_once job" "steps_once (deploy_succeeded now job) = steps_once job"
  by (simp_all add: steps_once_def deploy_started_def deploy_step_begins_def markDeployRunStepRunning_def markDeployRunStepFinished_def
      deploy_failed_def deploy_succeeded_def edit_deploy_names)

lemma around_edit:
  assumes "around_step results P steps" and "distinct (map ds_Name results)" and "\<And>s. P s \<Longrightarrow> ds_Name s = name"
  shows "around_step (edit_deploy_step name f results) (\<lambda>s'. \<exists>s. P s \<and> s' = f s) steps"
proof -
  obtain before s after where r: "results = before @ s # after" "list_all result_done before" "P s" "list_all result_waiting after"
      "map ds_Name after = steps" using assms(1) unfolding around_step_def by blast
  have n: "ds_Name s = name" "name \<notin> set (map ds_Name before)" using assms(2) assms(3) [OF r(3)] r(1) by auto
  show ?thesis unfolding around_step_def r(1) edit_deploy_at [OF n] using r(2-5) by blast
qed

lemma around_stepI:
  "list_all result_done before \<Longrightarrow> P s \<Longrightarrow> list_all result_waiting after \<Longrightarrow> map ds_Name after = steps \<Longrightarrow>
     around_step (before @ s # after) P steps"
  unfolding around_step_def by blast

lemma around_mono: "around_step results P steps \<Longrightarrow> (\<And>s. P s \<Longrightarrow> Q s) \<Longrightarrow> around_step results Q steps"
  unfolding around_step_def by blast

lemma around_pass:
  assumes "around_step results P steps" and "\<And>s. P s \<Longrightarrow> result_done s"
  shows "\<exists>before after. results = before @ after \<and> list_all result_done before \<and> list_all result_waiting after \<and> map ds_Name after = steps"
proof -
  obtain before s after where "results = (before @ [s]) @ after" "list_all result_done (before @ [s])" "list_all result_waiting after"
      "map ds_Name after = steps" using assms unfolding around_step_def by auto
  then show ?thesis by blast
qed

lemma deploy_ok_run:
  assumes "deploy_ok (DQueued steps) job"
  shows "deploy_ok (DLooping steps) (deploy_started now job)"
  unfolding deploy_ok.simps
proof (intro conjI)
  show "\<exists>before after. dj_Steps (deploy_started now job) = before @ after \<and> list_all result_done before \<and> list_all result_waiting after
      \<and> map ds_Name after = steps"
    by (rule exI [of _ "[]"], rule exI [of _ "dj_Steps job"]) (use assms in \<open>simp add: deploy_started_def\<close>)
qed (simp add: deploy_started_def)

lemma deploy_ok_next:
  assumes "deploy_ok (DLooping (step # steps)) job" and "steps_once job"
  shows "deploy_ok (DExecuting step steps) (deploy_step_begins now step job)"
proof -
  obtain before s after where r: "dj_Steps job = before @ s # after" "list_all result_done before" "list_all result_waiting after"
      "ds_Name s = step" "map ds_Name after = steps" and st: "dj_Status job = ''running''" using assms(1) by (auto simp: map_eq_Cons_conv)
  have n: "step \<notin> set (map ds_Name before)" using assms(2) r(1,4) by (auto simp: steps_once_def)
  have "around_step (edit_deploy_step step (\<lambda>s. s\<lparr>ds_Status := ''running'', ds_StartedAt := Some now, ds_Message := ''running''\<rparr>) (dj_Steps job))
      (\<lambda>s. ds_Name s = step \<and> ds_Status s = ''running'' \<and> ds_StartedAt s \<noteq> None) steps"
    unfolding r(1) edit_deploy_at [OF r(4) n] by (rule around_stepI) (use r in simp_all)
  then show ?thesis using st by (simp add: deploy_step_begins_def markDeployRunStepRunning_def)
qed

lemma deploy_ok_step:
  assumes "deploy_ok (DExecuting step steps) job" and "steps_once job" and "step_report outcome"
  shows "deploy_ok (DLooping steps) (markDeployRunStepFinished now step outcome job)"
proof -
  have "around_step (dj_Steps job) (\<lambda>s. ds_Name s = step \<and> ds_Status s = ''running'' \<and> ds_StartedAt s \<noteq> None) steps" using assms(1) by simp
  then have "around_step (edit_deploy_step step (finished_result now outcome) (dj_Steps job))
      (\<lambda>s'. \<exists>s. (ds_Name s = step \<and> ds_Status s = ''running'' \<and> ds_StartedAt s \<noteq> None) \<and> s' = finished_result now outcome s) steps"
    by (rule around_edit) (use assms(2) in \<open>simp_all add: steps_once_def\<close>)
  then have "\<exists>before after. edit_deploy_step step (finished_result now outcome) (dj_Steps job) = before @ after
      \<and> list_all result_done before \<and> list_all result_waiting after \<and> map ds_Name after = steps"
    by (rule around_pass) (use assms(3) in \<open>auto simp: result_done_def finished_result_def Let_def step_report_def\<close>)
  with assms(1) show ?thesis by (simp add: markDeployRunStepFinished_def)
qed

lemma deploy_ok_fail:
  assumes "deploy_ok (DExecuting step steps) job" and "steps_once job"
  shows "deploy_ok DFinished (deploy_failed now later step err outcome job)"
proof -
  have "around_step (dj_Steps job) (\<lambda>s. ds_Name s = step \<and> ds_Status s = ''running'' \<and> ds_StartedAt s \<noteq> None) steps" using assms(1) by simp
  then have "around_step (edit_deploy_step step (finished_result now (failed_outcome err outcome)) (dj_Steps job))
      (\<lambda>s'. \<exists>s. (ds_Name s = step \<and> ds_Status s = ''running'' \<and> ds_StartedAt s \<noteq> None) \<and> s' = finished_result now (failed_outcome err outcome) s) steps"
    by (rule around_edit) (use assms(2) in \<open>simp_all add: steps_once_def\<close>)
  then have "around_step (edit_deploy_step step (finished_result now (failed_outcome err outcome)) (dj_Steps job))
      (\<lambda>s. ds_Status s = ''failed'' \<and> ds_FinishedAt s \<noteq> None \<and> ds_Message s = err) steps"
    by (rule around_mono) (auto simp: finished_result_def failed_outcome_def Let_def)
  then have "around_step (dj_Steps (deploy_failed now later step err outcome job))
      (\<lambda>s. ds_Status s = ''failed'' \<and> ds_FinishedAt s \<noteq> None
         \<and> dj_Message (deploy_failed now later step err outcome job) = ''deploy job failed: '' @ ds_Message s) steps"
    unfolding deploy_failed_def markDeployRunStepFinished_def by (simp, elim around_mono) simp
  moreover have "dj_FinishedAt (deploy_failed now later step err outcome job) \<noteq> None" "dj_CurrentStep (deploy_failed now later step err outcome job) = []"
      "dj_Status (deploy_failed now later step err outcome job) = ''failed''" by (simp_all add: deploy_failed_def)
  ultimately show ?thesis unfolding deploy_ok.simps deploy_ended_def by blast
qed

lemma deploy_ok_finish: "deploy_ok (DLooping []) job \<Longrightarrow> deploy_ok DFinished (deploy_succeeded now job)"
  by (auto simp: deploy_ended_def deploy_succeeded_def)

lemma deploy_ok_active: "deploy_ok p job \<Longrightarrow> active_job job \<longleftrightarrow> p \<noteq> DFinished"
  by (cases p) (auto simp: active_job_def deploy_ended_def)

section \<open>The invariant\<close>

lemma lookup_update_deploy:
  "fmlookup (d_jobs (update_deploy jobID f s)) k = (if k = jobID then map_option f (fmlookup (d_jobs s) jobID) else fmlookup (d_jobs s) k)"
  by (auto simp: update_deploy_def split: option.splits)

interpretation deploy_jobs: job_store d_jobs d_order deployRunJobLimit
    "\<lambda>s. \<lparr>d_jobs = fmdrop (hd (d_order s)) (d_jobs s), d_order = tl (d_order s)\<rparr>" pruneLocked_deploy push_deploy update_deploy
proof
  show "pruneLocked_deploy s =
      (if length (d_order s) > deployRunJobLimit then pruneLocked_deploy \<lparr>d_jobs = fmdrop (hd (d_order s)) (d_jobs s), d_order = tl (d_order s)\<rparr>
       else s)" for s
    by (rule pruneLocked_deploy.simps)
  show "d_order (update_deploy k f s) = d_order s" for k f s by (simp add: update_deploy_def split: option.split)
qed (simp_all add: lookup_update_deploy push_deploy_def deployRunJobLimit_def)

definition deploy_inv :: "deployment \<Rightarrow> bool" where
  "deploy_inv d \<longleftrightarrow>
     tracked deployRunJobLimit (d_order (p_store d)) (d_jobs (p_store d))
     \<and> (\<forall>jobID job. fmlookup (d_jobs (p_store d)) jobID = Some job \<longrightarrow>
          steps_once job \<and> (\<exists>p. fmlookup (p_procs d) jobID = Some p \<and> deploy_ok p job))
     \<and> (\<forall>jobID p. fmlookup (p_procs d) jobID = Some p \<longrightarrow> p \<noteq> DFinished \<longrightarrow> fmlookup (d_jobs (p_store d)) jobID \<noteq> None)
     \<and> (\<forall>a b p q. fmlookup (p_procs d) a = Some p \<longrightarrow> fmlookup (p_procs d) b = Some q \<longrightarrow> p \<noteq> DFinished \<longrightarrow> q \<noteq> DFinished \<longrightarrow> a = b)"

lemma deploy_invD:
  assumes "deploy_inv d"
  shows "tracked deployRunJobLimit (d_order (p_store d)) (d_jobs (p_store d))"
    and "fmlookup (d_jobs (p_store d)) jobID = Some job \<Longrightarrow> steps_once job \<and> (\<exists>p. fmlookup (p_procs d) jobID = Some p \<and> deploy_ok p job)"
    and "fmlookup (p_procs d) jobID = Some p \<Longrightarrow> p \<noteq> DFinished \<Longrightarrow> fmlookup (d_jobs (p_store d)) jobID \<noteq> None"
    and "fmlookup (p_procs d) a = Some p \<Longrightarrow> fmlookup (p_procs d) b = Some q \<Longrightarrow> p \<noteq> DFinished \<Longrightarrow> q \<noteq> DFinished \<Longrightarrow> a = b"
  using assms unfolding deploy_inv_def by blast+

lemma active_process:
  assumes "deploy_inv d" and "fmlookup (d_jobs (p_store d)) jobID = Some job" and "active_job job"
  shows "\<exists>p. fmlookup (p_procs d) jobID = Some p \<and> p \<noteq> DFinished"
  using deploy_invD(2) [OF assms(1,2)] deploy_ok_active assms(3) by blast

lemma deploy_inv_edit:
  assumes "deploy_inv d" and "fmlookup (p_procs d) jobID = Some p" and "p \<noteq> DFinished"
    and "\<And>job. steps_once job \<Longrightarrow> deploy_ok p job \<Longrightarrow> steps_once (f job) \<and> deploy_ok p' (f job)"
  shows "deploy_inv \<lparr>p_store = update_deploy jobID f (p_store d), p_procs = fmupd jobID p' (p_procs d)\<rparr>"
proof -
  let ?d = "\<lparr>p_store = update_deploy jobID f (p_store d), p_procs = fmupd jobID p' (p_procs d)\<rparr>"
  have jobs': "steps_once job \<and> (\<exists>q. fmlookup (p_procs ?d) k = Some q \<and> deploy_ok q job)"
    if k: "fmlookup (d_jobs (p_store ?d)) k = Some job" for k job
  proof (cases "k = jobID")
    case True
    with k obtain old where old: "fmlookup (d_jobs (p_store d)) jobID = Some old" "job = f old" by (auto simp: lookup_update_deploy)
    with deploy_invD(2) [OF assms(1) old(1)] assms(2) have "steps_once old \<and> deploy_ok p old" by auto
    with assms(4) [of old] old(2) True show ?thesis by simp
  next
    case False
    with k deploy_invD(2) [OF assms(1), of k job] show ?thesis by (simp add: lookup_update_deploy)
  qed
  have kept: "fmlookup (d_jobs (p_store ?d)) k \<noteq> None" if "fmlookup (p_procs ?d) k = Some q" "q \<noteq> DFinished" for k q
    using deploy_invD(3) [OF assms(1)] that assms(2,3) by (auto simp: lookup_update_deploy split: if_splits)
  have was: "\<exists>q'. fmlookup (p_procs d) k = Some q' \<and> q' \<noteq> DFinished" if "fmlookup (p_procs ?d) k = Some q" "q \<noteq> DFinished" for k q
    using that assms(2,3) by (auto split: if_splits)
  have one: "a = b" if "fmlookup (p_procs ?d) a = Some q" "fmlookup (p_procs ?d) b = Some r" "q \<noteq> DFinished" "r \<noteq> DFinished" for a b q r
    using was [OF that(1,3)] was [OF that(2,4)] deploy_invD(4) [OF assms(1)] by blast
  show ?thesis
    unfolding deploy_inv_def using deploy_jobs.tracked_amend [OF deploy_invD(1) [OF assms(1)]] jobs' kept one by (auto simp del: fmupd_lookup)
qed

lemma StartDeployRun_accepted:
  assumes "StartDeployRun only_first (Some req) jobID now s = (Inr resp, s')"
  shows "s' = pruneLocked_deploy (push_deploy jobID (new_deploy_job jobID now req (selectedDeployRunSteps req)) s)"
    and "\<not> fBex (fmran (d_jobs s)) active_job" and "selectedDeployRunSteps req \<noteq> []"
  using assms by (auto simp: StartDeployRun_def createIfIdle_def Let_def split: option.splits if_splits prod.splits)

lemma no_active: "\<not> fBex (fmran (d_jobs s)) active_job \<longleftrightarrow> (\<forall>k job. fmlookup (d_jobs s) k = Some job \<longrightarrow> \<not> active_job job)"
  by (auto simp: fmlookup_ran_iff)

lemma new_deploy_ok: "distinct steps \<Longrightarrow> steps_once (new_deploy_job jobID now req steps) \<and> deploy_ok (DQueued steps) (new_deploy_job jobID now req steps)"
  by (auto simp: steps_once_def new_deploy_job_def comp_def pending_result_def list_all_iff result_waiting_def)

lemma deploy_inv_start:
  assumes "deploy_inv d" and fresh: "jobID \<notin> fset (fmdom (p_procs d))"
    and "StartDeployRun only_first (Some req) jobID now (p_store d) = (Inr resp, s)"
  shows "deploy_inv \<lparr>p_store = s, p_procs = fmupd jobID (DQueued (selectedDeployRunSteps req)) (p_procs d)\<rparr>"
proof -
  let ?new = "new_deploy_job jobID now req (selectedDeployRunSteps req)" and ?q = "DQueued (selectedDeployRunSteps req)"
  note s = StartDeployRun_accepted(1) [OF assms(3)]
  note idle = StartDeployRun_accepted(2) [OF assms(3), unfolded no_active]
  have tracked: "tracked deployRunJobLimit (d_order (p_store d)) (d_jobs (p_store d))" by (rule deploy_invD(1) [OF assms(1)])
  have free: "fmlookup (d_jobs (p_store d)) jobID = None"
    using deploy_invD(2) [OF assms(1), of jobID] fresh by (cases "fmlookup (d_jobs (p_store d)) jobID") (auto simp: fmlookup_dom_iff)
  then have dom: "jobID \<notin> fset (fmdom (d_jobs (p_store d)))" by (simp add: fmlookup_dom_iff)
  have all_done: "p = DFinished" if pk: "fmlookup (p_procs d) k = Some p" for k p
  proof (rule ccontr)
    assume p: "p \<noteq> DFinished"
    then obtain job where job: "fmlookup (d_jobs (p_store d)) k = Some job" using deploy_invD(3) [OF assms(1) pk] by blast
    then obtain q where "fmlookup (p_procs d) k = Some q" "deploy_ok q job" using deploy_invD(2) [OF assms(1) job] by blast
    with pk p deploy_ok_active have "active_job job" by simp
    with idle job show False by blast
  qed
  have found: "fmlookup (d_jobs s) jobID = Some ?new" unfolding s by (rule deploy_jobs.added(1) [OF tracked dom])
  have jobs': "steps_once job \<and> (\<exists>p. fmlookup (fmupd jobID ?q (p_procs d)) k = Some p \<and> deploy_ok p job)"
    if k: "fmlookup (d_jobs s) k = Some job" for k job
    using deploy_jobs.lookup_add [OF tracked dom k [unfolded s]] new_deploy_ok [OF distinct_selected, of jobID now req req]
      deploy_invD(2) [OF assms(1), of k job] by (auto split: if_splits)
  have only: "k = jobID" if "fmlookup (fmupd jobID ?q (p_procs d)) k = Some p" "p \<noteq> DFinished" for k p
    using that all_done by (auto split: if_splits)
  have kept: "fmlookup (d_jobs s) k \<noteq> None" if "fmlookup (fmupd jobID ?q (p_procs d)) k = Some p" "p \<noteq> DFinished" for k p
    using only [OF that] found by simp
  have one: "a = b" if "fmlookup (fmupd jobID ?q (p_procs d)) a = Some p" "fmlookup (fmupd jobID ?q (p_procs d)) b = Some q" "p \<noteq> DFinished" "q \<noteq> DFinished"
    for a b p q using only [OF that(1,3)] only [OF that(2,4)] by simp
  show ?thesis
    unfolding deploy_inv_def using deploy_jobs.tracked_add [OF tracked dom, of ?new] jobs' kept one by (auto simp: s simp del: fmupd_lookup)
qed

lemma deploy_inv_step: "deploy_step d d' \<Longrightarrow> deploy_inv d \<Longrightarrow> deploy_inv d'"
proof (induction rule: deploy_step.induct)
  case (d_start jobID d only_first req now resp s)
  then show ?case by (intro deploy_inv_start)
next
  case (d_run d jobID steps now)
  show ?case by (rule deploy_inv_edit [OF d_run(2,1)]) (simp, simp only: steps_once_edits deploy_ok_run simp_thms)
next
  case (d_next d jobID step steps now)
  show ?case by (rule deploy_inv_edit [OF d_next(2,1)]) (simp, simp only: steps_once_edits deploy_ok_next simp_thms)
next
  case (d_step d jobID step steps outcome now)
  show ?case by (rule deploy_inv_edit [OF d_step(3,1)]) (simp, simp only: steps_once_edits deploy_ok_step [OF _ _ d_step(2)] simp_thms)
next
  case (d_fail d jobID step steps now later err outcome)
  show ?case by (rule deploy_inv_edit [OF d_fail(2,1)]) (simp, simp only: steps_once_edits deploy_ok_fail simp_thms)
next
  case (d_finish d jobID now)
  show ?case by (rule deploy_inv_edit [OF d_finish(2,1)]) (simp, simp only: steps_once_edits deploy_ok_finish simp_thms)
qed

lemma deploy_inv_reachable: "deploy_reachable d \<Longrightarrow> deploy_inv d"
proof (induction rule: deploy_reachable.induct)
  case deploy_init
  then show ?case by (simp add: deploy_inv_def newDeployRunJobStore_def)
qed (rule deploy_inv_step)

section \<open>Properties\<close>

text \<open>
  C18. At most one deployment is active at any time: two stored jobs that are queued or running are the
  same job, a valid request is refused with a conflict exactly while there is one, and no limit of the
  store ever drops the active job.
\<close>

theorem one_deployment:
  assumes "deploy_reachable d"
  shows "(\<forall>a b ja jb. get_deploy a (p_store d) = Some ja \<and> active_job ja \<and> get_deploy b (p_store d) = Some jb \<and> active_job jb \<longrightarrow> a = b)
     \<and> (validateDeployRunSelection only_first req = None \<and> selectedDeployRunSteps req \<noteq> [] \<longrightarrow>
          (fst (StartDeployRun only_first (Some req) jobID now (p_store d)) = Inl (409, ''another deploy job is already queued or running'')
           \<longleftrightarrow> (\<exists>k job. get_deploy k (p_store d) = Some job \<and> active_job job)))
     \<and> (\<forall>k p. fmlookup (p_procs d) k = Some p \<and> p \<noteq> DFinished \<longrightarrow> (\<exists>job. get_deploy k (p_store d) = Some job \<and> active_job job))
     \<and> length (d_order (p_store d)) \<le> 50"
proof -
  note inv = deploy_inv_reachable [OF assms]
  have one: "a = b" if "get_deploy a (p_store d) = Some ja" "active_job ja" "get_deploy b (p_store d) = Some jb" "active_job jb" for a b ja jb
    using active_process [OF inv] deploy_invD(4) [OF inv] that unfolding get_deploy_def by metis
  have refused: "fst (StartDeployRun only_first (Some req) jobID now (p_store d)) = Inl (409, ''another deploy job is already queued or running'')
      \<longleftrightarrow> (\<exists>k job. get_deploy k (p_store d) = Some job \<and> active_job job)"
    if "validateDeployRunSelection only_first req = None" "selectedDeployRunSteps req \<noteq> []"
    using that no_active [of "p_store d"] by (auto simp: StartDeployRun_def createIfIdle_def Let_def get_deploy_def split: if_splits)
  have kept: "\<exists>job. get_deploy k (p_store d) = Some job \<and> active_job job" if p: "fmlookup (p_procs d) k = Some p" "p \<noteq> DFinished" for k p
  proof -
    obtain job where job: "fmlookup (d_jobs (p_store d)) k = Some job" using deploy_invD(3) [OF inv p] by blast
    with deploy_invD(2) [OF inv job] p deploy_ok_active show ?thesis by (auto simp: get_deploy_def)
  qed
  show ?thesis using one refused kept deploy_invD(1) [OF inv] by (auto simp: tracked_def deployRunJobLimit_def)
qed

text \<open>
  C19. What a deployment job reports is true in every reachable state: its steps run one at a time and
  in order; if it succeeded every step succeeded or was skipped; if it failed, exactly one step did, the
  job reports its message, and nothing after it was touched.
\<close>

theorem deploy_report_truthful:
  assumes "deploy_reachable d" and "get_deploy jobID (p_store d) = Some job"
  shows "(dj_Status job = ''succeeded'' \<longrightarrow> dj_FinishedAt job \<noteq> None \<and> list_all result_done (dj_Steps job))
     \<and> (dj_Status job = ''failed'' \<longrightarrow> dj_FinishedAt job \<noteq> None
          \<and> (\<exists>before s after. dj_Steps job = before @ s # after \<and> list_all result_done before \<and> ds_Status s = ''failed''
               \<and> dj_Message job = ''deploy job failed: '' @ ds_Message s \<and> list_all result_waiting after))
     \<and> (dj_Status job = ''running'' \<longrightarrow>
          (\<exists>before active after. dj_Steps job = before @ active @ after \<and> list_all result_done before \<and> list_all result_waiting after
             \<and> (active = [] \<or> (\<exists>s. active = [s] \<and> ds_Status s = ''running'' \<and> ds_Name s = dj_CurrentStep job))))
     \<and> distinct (map ds_Name (dj_Steps job))"
proof -
  have job: "fmlookup (d_jobs (p_store d)) jobID = Some job" using assms(2) by (simp add: get_deploy_def)
  obtain p where p: "deploy_ok p job" "steps_once job" using deploy_invD(2) [OF deploy_inv_reachable [OF assms(1)] job] by blast
  show ?thesis
  proof (cases p)
    case (DQueued steps)
    with p show ?thesis by (auto simp: steps_once_def)
  next
    case (DLooping steps)
    with p obtain before after where "dj_Steps job = before @ [] @ after" "list_all result_done before" "list_all result_waiting after" by auto
    then have "\<exists>before active after. dj_Steps job = before @ active @ after \<and> list_all result_done before \<and> list_all result_waiting after
        \<and> (active = [] \<or> (\<exists>s. active = [s] \<and> ds_Status s = ''running'' \<and> ds_Name s = dj_CurrentStep job))" by blast
    with DLooping p show ?thesis by (simp add: steps_once_def)
  next
    case (DExecuting step steps)
    with p obtain before s after where "dj_Steps job = before @ [s] @ after" "list_all result_done before" "list_all result_waiting after"
        "ds_Status s = ''running''" "ds_Name s = dj_CurrentStep job" by (auto simp: around_step_def)
    then have "\<exists>before active after. dj_Steps job = before @ active @ after \<and> list_all result_done before \<and> list_all result_waiting after
        \<and> (active = [] \<or> (\<exists>s. active = [s] \<and> ds_Status s = ''running'' \<and> ds_Name s = dj_CurrentStep job))" by blast
    with DExecuting p show ?thesis by (simp add: steps_once_def)
  next
    case DFinished
    with p have ended: "deploy_ended job" by simp
    have "\<exists>before s after. dj_Steps job = before @ s # after \<and> list_all result_done before \<and> ds_Status s = ''failed''
        \<and> dj_Message job = ''deploy job failed: '' @ ds_Message s \<and> list_all result_waiting after" if "dj_Status job = ''failed''"
    proof -
      have "\<exists>steps. around_step (dj_Steps job) (\<lambda>s. ds_Status s = ''failed'' \<and> ds_FinishedAt s \<noteq> None
          \<and> dj_Message job = ''deploy job failed: '' @ ds_Message s) steps"
        using ended that unfolding deploy_ended_def by simp
      then show ?thesis unfolding around_step_def by blast
    qed
    with ended p(2) show ?thesis by (auto simp: deploy_ended_def steps_once_def)
  qed
qed

section \<open>A deployment that was started\<close>

definition profile_request :: DeployRunRequest where
  "profile_request =
     \<lparr>dr_Mode = ''partial'', dr_Only = [''system''], dr_Skip = [], dr_ForceReset = False, dr_LicenseContent = [], dr_Licenses = fmempty,
      dr_LicenseFilename = [], dr_RunBootstrapScript = None, dr_TargetHostnames = [], dr_JoinExistingSCVMCluster = False,
      dr_Cluster = None, dr_SCVMByHost = [], dr_GFS = None, dr_RBD = None, dr_Local = None, dr_CCVMCloudInit = None, dr_CCVMXML = None,
      dr_CCVMLifecycle = None, dr_Monitoring = None, dr_UpdateSystemProfile = None\<rparr>"

definition profile_job :: DeployRunJob where
  "profile_job = new_deploy_job ''deploy-1'' 7 profile_request [''system_profile'']"

definition started_deployment :: deployment where
  "started_deployment =
     \<lparr>p_store = \<lparr>d_jobs = fmupd ''deploy-1'' profile_job fmempty, d_order = [''deploy-1'']\<rparr>,
      p_procs = fmupd ''deploy-1'' (DQueued [''system_profile'']) fmempty\<rparr>"

lemma profile_selection: "selectedDeployRunSteps profile_request = [''system_profile''] \<and> validateDeployRunSelection True profile_request = None"
  by (simp add: profile_request_def selectedDeployRunSteps_def validateDeployRunSelection_def normalizeDeployRunStepName_def step_aliases_def
      isKnownDeployRunStep_def allSteps_def insertDeployRunRBDPrepare_def go_str)

lemma started_reachable: "deploy_reachable started_deployment"
proof -
  have "StartDeployRun True (Some profile_request) ''deploy-1'' 7 newDeployRunJobStore
      = (Inr \<lparr>ds_Code = 202, ds_JobID = ''deploy-1'', ds_JobStatus = ''queued'', ds_Note = ''deploy job started'',
              ds_Steps = [pending_result ''system_profile'']\<rparr>, p_store started_deployment)"
    by (simp add: StartDeployRun_def profile_selection createIfIdle_def Let_def newDeployRunJobStore_def push_deploy_def started_deployment_def
        pruneLocked_deploy.simps deployRunJobLimit_def profile_job_def) (simp add: new_deploy_job_def)
  then have "StartDeployRun True (Some profile_request) ''deploy-1'' 7 (p_store \<lparr>p_store = newDeployRunJobStore, p_procs = fmempty\<rparr>)
      = (Inr \<lparr>ds_Code = 202, ds_JobID = ''deploy-1'', ds_JobStatus = ''queued'', ds_Note = ''deploy job started'',
              ds_Steps = [pending_result ''system_profile'']\<rparr>, p_store started_deployment)" by simp
  from deploy_next [OF deploy_init d_start [OF _ this]] show ?thesis by (simp add: profile_selection) (simp add: started_deployment_def)
qed

lemma started_lookup:
  "get_deploy ''deploy-1'' (p_store started_deployment) = Some profile_job"
  "fmlookup (p_procs started_deployment) ''deploy-1'' = Some (DQueued [''system_profile''])"
  by (simp_all add: get_deploy_def started_deployment_def)

theorem selectedDeployRunSteps_exact_witness:
  "selectedDeployRunSteps (profile_request\<lparr>dr_Only := [], dr_Skip := [''rbd'']\<rparr>)
     = filter (\<lambda>s. s \<notin> normalizeDeployRunStepName ` set [''rbd'']) allSteps"
  using selectedDeployRunSteps_exact [of "profile_request\<lparr>dr_Only := [], dr_Skip := [''rbd'']\<rparr>"] by simp

theorem one_deployment_witness:
  "fst (StartDeployRun True (Some profile_request) ''deploy-2'' 9 (p_store started_deployment))
     = Inl (409, ''another deploy job is already queued or running'')"
proof -
  have "active_job profile_job" by (simp add: active_job_def profile_job_def new_deploy_job_def)
  with one_deployment [OF started_reachable, of True profile_request "''deploy-2''" 9] started_lookup(1) profile_selection
  show ?thesis by (metis list.distinct(1))
qed

theorem deploy_report_truthful_witness: "distinct (map ds_Name (dj_Steps profile_job))"
  using deploy_report_truthful [OF started_reachable started_lookup(1)] by blast

end
