(* ===== verification/Cloud_Init.thy ===== *)
theory Cloud_Init
  imports Deploy_Jobs Go_Base64 Mold_Client
begin

text \<open>
  The cloud-init images of the control VMs: \<^verbatim>\<open>gencloudinit.go\<close>,
  \<^verbatim>\<open>create_cloudinit_common.go\<close>, \<^verbatim>\<open>ccvm_cloudinit.go\<close> and \<^verbatim>\<open>scvm_cloudinit.go\<close> of
  \<^verbatim>\<open>internal/handler/cube\<close>. Modelled are the request, its checks, and the two documents that are
  written to the image: the network configuration and the user data with every file the VM is given.
  The YAML text, the ISO tool and the directories are left out; files are read through a function from
  a path to an error or the content.
\<close>

section \<open>Data\<close>

record DeployConfig = ClusterConfigSection +
  dc_StorageNetwork :: string
  dc_MngtNic :: ClusterMngtNicConfig

record GenCloudInitRequest =
  gc_Type :: string
  gc_ISOPath :: string
  gc_Hostname :: string
  gc_PubKey :: string
  gc_PrivKey :: string
  gc_Hosts :: string
  gc_MgmtNIC :: string
  gc_MgmtIP :: string
  gc_MgmtPrefix :: int
  gc_MgmtGW :: string
  gc_DNS :: string
  gc_SNNIC :: string
  gc_SNIP :: string
  gc_SNPrefix :: int
  gc_SNGW :: string
  gc_SNDNS :: string
  gc_PNNIC :: string
  gc_PNIP :: string
  gc_PNPrefix :: int
  gc_CNNIC :: string
  gc_CNIP :: string
  gc_CNPrefix :: int
  gc_Master :: bool

text \<open>A network device with its one static subnet; a number that is left out is zero.\<close>

record network_device =
  nd_name :: string
  nd_address :: string
  nd_gateway :: "string option"
  nd_dns :: "string list"
  nd_mtu :: nat

record vm_user =
  us_name :: string
  us_homedir :: "string option"
  us_groups :: "string list"
  us_lock_passwd :: bool
  us_plain_text_passwd :: string
  us_ssh_authorized_keys :: "string list"
  us_sudo :: "string option"

record write_file =
  wf_content :: string
  wf_owner :: string
  wf_path :: string
  wf_permissions :: string

record user_data =
  ud_disable_root :: bool
  ud_ssh_pwauth :: bool
  ud_users :: "vm_user list"
  ud_write_files :: "write_file list"
  ud_bootcmd :: "string list list"
  ud_runcmd :: "string list list"

section \<open>Requests\<close>

definition cloudInitHostsPath :: string where "cloudInitHostsPath = ''/etc/hosts''"

definition cloudInitPrivKeyPath :: string where "cloudInitPrivKeyPath = ''/root/.ssh/id_rsa''"

definition cloudInitPubKeyPath :: string where "cloudInitPubKeyPath = ''/root/.ssh/id_rsa.pub''"

definition cloudInitMgmtNIC :: string where "cloudInitMgmtNIC = ''enp0s20''"

definition no_cloud_init :: GenCloudInitRequest where
  "no_cloud_init =
     \<lparr>gc_Type = [], gc_ISOPath = [], gc_Hostname = [], gc_PubKey = [], gc_PrivKey = [], gc_Hosts = [], gc_MgmtNIC = [], gc_MgmtIP = [],
      gc_MgmtPrefix = 0, gc_MgmtGW = [], gc_DNS = [], gc_SNNIC = [], gc_SNIP = [], gc_SNPrefix = 0, gc_SNGW = [], gc_SNDNS = [],
      gc_PNNIC = [], gc_PNIP = [], gc_PNPrefix = 0, gc_CNNIC = [], gc_CNIP = [], gc_CNPrefix = 0, gc_Master = False\<rparr>"

definition parseCloudInitPrefix :: "string \<Rightarrow> int outcome" where
  "parseCloudInitPrefix v =
     (let v' = trim_space v
      in if v' = [] then Inl ''mngtNic.cidr required''
         else (case atoi v' of
                 None \<Rightarrow> Inl ''invalid mngtNic.cidr''
               | Some prefix \<Rightarrow> if prefix \<le> 0 then Inl ''invalid mngtNic.cidr'' else Inr prefix))"

definition cloud_init_trim :: "GenCloudInitRequest \<Rightarrow> GenCloudInitRequest" where
  "cloud_init_trim req =
     req\<lparr>gc_ISOPath := trim_space (gc_ISOPath req), gc_Hostname := trim_space (gc_Hostname req), gc_PubKey := trim_space (gc_PubKey req),
         gc_PrivKey := trim_space (gc_PrivKey req), gc_Hosts := trim_space (gc_Hosts req), gc_MgmtNIC := trim_space (gc_MgmtNIC req),
         gc_MgmtIP := trim_space (gc_MgmtIP req), gc_MgmtGW := trim_space (gc_MgmtGW req), gc_DNS := trim_space (gc_DNS req),
         gc_SNNIC := trim_space (gc_SNNIC req), gc_SNIP := trim_space (gc_SNIP req), gc_SNGW := trim_space (gc_SNGW req),
         gc_SNDNS := trim_space (gc_SNDNS req), gc_PNNIC := trim_space (gc_PNNIC req), gc_PNIP := trim_space (gc_PNIP req),
         gc_CNNIC := trim_space (gc_CNNIC req), gc_CNIP := trim_space (gc_CNIP req)\<rparr>"

text \<open>Whether any field of the service network is given.\<close>

definition service_network :: "GenCloudInitRequest \<Rightarrow> bool" where
  "service_network req \<longleftrightarrow> gc_SNNIC req \<noteq> [] \<or> gc_SNIP req \<noteq> [] \<or> gc_SNPrefix req \<noteq> 0 \<or> gc_SNGW req \<noteq> [] \<or> gc_SNDNS req \<noteq> []"

definition normalizeGenCloudInitRequest :: "GenCloudInitRequest \<Rightarrow> GenCloudInitRequest outcome" where
  "normalizeGenCloudInitRequest req =
     (let type' = to_lower (trim_space (gc_Type req))
      in if type' \<noteq> ''ccvm'' \<and> type' \<noteq> ''scvm'' then Inl ''type must be ccvm or scvm''
         else (let r = cloud_init_trim (req\<lparr>gc_Type := type'\<rparr>)
               in if gc_ISOPath r = [] \<or> gc_Hostname r = [] \<or> gc_PubKey r = [] \<or> gc_PrivKey r = [] \<or> gc_Hosts r = []
                  then Inl ''iso_path, hostname, pubkey, privkey and hosts are required''
                  else if gc_MgmtNIC r = [] \<or> gc_MgmtIP r = [] \<or> gc_MgmtPrefix r \<le> 0
                  then Inl ''mgmt_nic, mgmt_ip and mgmt_prefix are required''
                  else (let r2 = r\<lparr>gc_PNPrefix := if gc_PNPrefix r = 0 then 24 else gc_PNPrefix r,
                                   gc_CNPrefix := if gc_CNPrefix r = 0 then 24 else gc_CNPrefix r\<rparr>
                        in if type' = ''scvm'' \<and> (gc_PNNIC r2 = [] \<or> gc_PNIP r2 = [] \<or> gc_CNNIC r2 = [] \<or> gc_CNIP r2 = [])
                           then Inl ''pn_nic, pn_ip, cn_nic and cn_ip are required for scvm''
                           else if type' = ''ccvm'' \<and> service_network r2 \<and> (gc_SNNIC r2 = [] \<or> gc_SNIP r2 = [] \<or> gc_SNPrefix r2 \<le> 0)
                           then Inl ''sn_nic, sn_ip and sn_prefix are required when ccvm service network is provided''
                           else Inr r2)))"

definition normalizeCCVMCloudInitCreateRequest :: "CCVMCloudInitCreateRequest \<Rightarrow> CCVMCloudInitCreateRequest outcome" where
  "normalizeCCVMCloudInitCreateRequest req =
     (let r = req\<lparr>ci_SNNIC := trim_space (ci_SNNIC req), ci_SNIP := trim_space (ci_SNIP req), ci_SNGW := trim_space (ci_SNGW req),
                  ci_SNDNS := trim_space (ci_SNDNS req)\<rparr>;
          given = (ci_SNNIC r \<noteq> [] \<or> ci_SNIP r \<noteq> [] \<or> ci_SNPrefix r \<noteq> 0 \<or> ci_SNGW r \<noteq> [] \<or> ci_SNDNS r \<noteq> [])
      in if \<not> given then Inr r
         else if ci_SNNIC r = [] \<or> ci_SNIP r = [] \<or> ci_SNPrefix r \<le> 0
         then Inl ''sn_nic, sn_ip and sn_prefix are required when service network is provided''
         else Inr r)"

definition buildCreateCCVMCloudInitRequest :: "DeployConfig option \<Rightarrow> CCVMCloudInitCreateRequest \<Rightarrow> GenCloudInitRequest outcome" where
  "buildCreateCCVMCloudInitRequest cfg req =
     (case cfg of
        None \<Rightarrow> Inl ''cluster config not found''
      | Some c \<Rightarrow>
          (case parseCloudInitPrefix (Nic_CIDR (dc_MngtNic c)) of
             Inl err \<Rightarrow> Inl err
           | Inr prefix \<Rightarrow>
               if trim_space (sec_CCVM_IP c) = [] then Inl ''ccvm.ip required''
               else normalizeGenCloudInitRequest
                 (no_cloud_init\<lparr>gc_Type := ''ccvm'', gc_ISOPath := ''/var/lib/libvirt/images/ccvm-cloudinit.iso'', gc_Hostname := ''ccvm'',
                    gc_PubKey := cloudInitPubKeyPath, gc_PrivKey := cloudInitPrivKeyPath, gc_Hosts := cloudInitHostsPath,
                    gc_MgmtNIC := cloudInitMgmtNIC, gc_MgmtIP := trim_space (sec_CCVM_IP c), gc_MgmtPrefix := prefix,
                    gc_MgmtGW := trim_space (Nic_GW (dc_MngtNic c)), gc_DNS := trim_space (Nic_DNS (dc_MngtNic c)),
                    gc_SNNIC := ci_SNNIC req, gc_SNIP := ci_SNIP req, gc_SNPrefix := ci_SNPrefix req, gc_SNGW := ci_SNGW req,
                    gc_SNDNS := ci_SNDNS req\<rparr>)))"

definition isGenCloudInitHCI :: "DeployConfig option \<Rightarrow> bool" where
  "isGenCloudInitHCI cfg =
     (case cfg of None \<Rightarrow> False
      | Some c \<Rightarrow> to_lower (trim_space (sec_Type c)) \<in> {''ablestack-hci'', ''ablestack-hci-filesystem''})"

text \<open>
  The host that the program runs on: by the name that the system reports, else by an address of its
  own. The system's name and the test for a local address are arguments.
\<close>

definition matchesLocalHostname :: "string \<Rightarrow> string \<Rightarrow> string \<Rightarrow> bool" where
  "matchesLocalHostname hostname full short =
     (let h = to_lower (trim_space hostname)
      in if h = [] then False
         else (let hostShort = hd (split_on CHR ''.'' h) in h = full \<or> h = short \<or> hostShort = full \<or> hostShort = short))"

definition findSelfHost :: "string \<Rightarrow> (string \<Rightarrow> bool) \<Rightarrow> DeployConfig option \<Rightarrow> ClusterHost outcome" where
  "findSelfHost osName isLocalTarget cfg =
     (case cfg of
        None \<Rightarrow> Inl ''cluster config not found''
      | Some c \<Rightarrow>
          (let name = trim_space osName; short = to_lower (hd (split_on CHR ''.'' name)); full = to_lower name
           in case List.find (\<lambda>host. matchesLocalHostname (Hostname host) full short) (sec_Hosts c) of
                Some host \<Rightarrow> Inr host
              | None \<Rightarrow>
                  (case List.find (\<lambda>host. list_ex (\<lambda>t. isLocalTarget (trim_space t))
                          [Ablecube host, ScvmMngt host, AblecubePn host, Scvm host, ScvmCn host]) (sec_Hosts c) of
                     Some host \<Rightarrow> Inr host
                   | None \<Rightarrow> Inl ''self host not found in cluster.json'')))"


definition buildCreateSCVMCloudInitRequest ::
  "string \<Rightarrow> (string \<Rightarrow> bool) \<Rightarrow> DeployConfig option \<Rightarrow> GenCloudInitRequest outcome" where
  "buildCreateSCVMCloudInitRequest osName isLocalTarget cfg =
     (case cfg of
        None \<Rightarrow> Inl ''cluster config not found''
      | Some c \<Rightarrow>
          if \<not> isGenCloudInitHCI cfg then Inl ''scvm cloudinit requires hci cluster type''
          else (case findSelfHost osName isLocalTarget cfg of
                  Inl err \<Rightarrow> Inl err
                | Inr host \<Rightarrow>
                    (let index = trim_space (Index host)
                     in if index = [] then Inl ''hosts[].index required for self host''
                        else (case parseCloudInitPrefix (Nic_CIDR (dc_MngtNic c)) of
                                Inl err \<Rightarrow> Inl err
                              | Inr prefix \<Rightarrow>
                                  normalizeGenCloudInitRequest
                                    (no_cloud_init\<lparr>gc_Type := ''scvm'', gc_ISOPath := ''/var/lib/libvirt/images/scvm-cloudinit.iso'',
                                       gc_Hostname := ''scvm'' @ index, gc_PubKey := cloudInitPubKeyPath, gc_PrivKey := cloudInitPrivKeyPath,
                                       gc_Hosts := cloudInitHostsPath, gc_MgmtNIC := cloudInitMgmtNIC, gc_MgmtIP := trim_space (ScvmMngt host),
                                       gc_MgmtPrefix := prefix, gc_MgmtGW := trim_space (Nic_GW (dc_MngtNic c)),
                                       gc_DNS := trim_space (Nic_DNS (dc_MngtNic c)), gc_PNNIC := ''enp0s21'', gc_PNIP := trim_space (Scvm host),
                                       gc_PNPrefix := prefix, gc_CNNIC := ''enp0s22'', gc_CNIP := trim_space (ScvmCn host),
                                       gc_CNPrefix := prefix\<rparr>)))))"

definition ccvmCloudInitCopyTargets :: "DeployConfig option \<Rightarrow> string list \<times> string" where
  "ccvmCloudInitCopyTargets cfg =
     (case cfg of
        None \<Rightarrow> ([], ''hosts[].ablecubePn'')
      | Some c \<Rightarrow>
          (let useAblecube = (equal_fold (trim_space (sec_Type c)) ''ablestack-vm''
                              \<and> \<not> equal_fold (trim_space (dc_StorageNetwork c)) ''true'');
               targetOf = (\<lambda>host. trim_space (if useAblecube then Ablecube host else AblecubePn host))
           in (dedupe_loop (filter (\<lambda>t. t \<noteq> []) (map targetOf (sec_Hosts c))) [],
               if useAblecube then ''hosts[].ablecube'' else ''hosts[].ablecubePn'')))"

section \<open>The network configuration\<close>

definition genCloudInitPhysicalDevice :: "string \<Rightarrow> string \<Rightarrow> int \<Rightarrow> string \<Rightarrow> string \<Rightarrow> nat \<Rightarrow> network_device" where
  "genCloudInitPhysicalDevice name ip prefix gateway dns mtu =
     \<lparr>nd_name = name, nd_address = ip @ ''/'' @ itoa prefix, nd_gateway = if gateway \<noteq> [] then Some gateway else None,
      nd_dns = if dns \<noteq> [] then [dns] else [], nd_mtu = mtu\<rparr>"

definition buildGenCloudInitNetworkConfig :: "GenCloudInitRequest \<Rightarrow> network_device list outcome" where
  "buildGenCloudInitNetworkConfig req =
     (let management = genCloudInitPhysicalDevice (gc_MgmtNIC req) (gc_MgmtIP req) (gc_MgmtPrefix req) (gc_MgmtGW req) (gc_DNS req) 0
      in if gc_Type req = ''ccvm''
         then Inr (management # (if gc_SNNIC req \<noteq> []
                    then [genCloudInitPhysicalDevice (gc_SNNIC req) (gc_SNIP req) (gc_SNPrefix req) (gc_SNGW req) (gc_SNDNS req) 0] else []))
         else if gc_Type req = ''scvm''
         then Inr [management, genCloudInitPhysicalDevice (gc_PNNIC req) (gc_PNIP req) (gc_PNPrefix req) [] [] 9000,
                   genCloudInitPhysicalDevice (gc_CNNIC req) (gc_CNIP req) (gc_CNPrefix req) [] [] 9000]
         else Inl ''unsupported type'')"

section \<open>Paths\<close>

text \<open>\<^verbatim>\<open>filepath.Clean\<close>: the parts of the path on a stack.\<close>

fun clean_parts :: "bool \<Rightarrow> string list \<Rightarrow> string list \<Rightarrow> string list" where
  "clean_parts rooted [] stack = rev stack"
| "clean_parts rooted (p # ps) stack =
     (if p = [] \<or> p = ''.'' then clean_parts rooted ps stack
      else if p = ''..'' then (if stack \<noteq> [] \<and> hd stack \<noteq> ''..'' then clean_parts rooted ps (tl stack)
                             else if rooted then clean_parts rooted ps stack else clean_parts rooted ps (p # stack))
      else clean_parts rooted ps (p # stack))"

definition path_clean :: "string \<Rightarrow> string" where
  "path_clean p =
     (if p = [] then ''.''
      else (let rooted = (hd p = CHR ''/''); body = join_with ''/'' (clean_parts rooted (split_on CHR ''/'' p) [])
            in if rooted then ''/'' @ body else if body = [] then ''.'' else body))"

definition path_join :: "string list \<Rightarrow> string" where
  "path_join elems = (let given = filter (\<lambda>e. e \<noteq> []) elems in if given = [] then [] else path_clean (join_with ''/'' given))"

definition resolveEnvPath :: "getenv \<Rightarrow> string \<Rightarrow> string" where
  "resolveEnvPath env name = trim_space (env name)"

definition resolveAbleStackConfigPath :: "getenv \<Rightarrow> string" where
  "resolveAbleStackConfigPath env = (let base = resolveEnvPath env ''ABLESTACK_CONFIG_PATH'' in if base \<noteq> [] then base else ''/etc/ablestack'')"

definition resolveAbleStackPropertyFile :: "getenv \<Rightarrow> string \<Rightarrow> string" where
  "resolveAbleStackPropertyFile env name = path_join [path_join [resolveAbleStackConfigPath env, ''properties''], name]"

definition configuredAPIPort :: "getenv \<Rightarrow> string" where
  "configuredAPIPort env = (let port = trim_space (env ''ABLESTACK_API_PORT'') in if port = [] then ''18090'' else port)"

section \<open>The user data\<close>

text \<open>The environment of the process and the files it can read.\<close>

record host_files =
  hf_getenv :: getenv
  hf_read :: "string \<Rightarrow> string outcome"

definition genCloudInitWriteFile :: "string \<Rightarrow> string \<Rightarrow> string \<Rightarrow> string \<Rightarrow> write_file" where
  "genCloudInitWriteFile path owner permissions content' =
     \<lparr>wf_content = std_encode content', wf_owner = owner, wf_path = path, wf_permissions = permissions\<rparr>"

definition plain_user :: "string \<Rightarrow> string \<Rightarrow> vm_user" where
  "plain_user name key =
     \<lparr>us_name = name, us_homedir = None, us_groups = [], us_lock_passwd = False, us_plain_text_passwd = ''Ablecloud1!'',
      us_ssh_authorized_keys = [key], us_sudo = None\<rparr>"

definition genCloudInitBaseUserData :: "string \<Rightarrow> string \<Rightarrow> string \<Rightarrow> bool \<Rightarrow> user_data" where
  "genCloudInitBaseUserData pubKey privKey hosts hci =
     \<lparr>ud_disable_root = False, ud_ssh_pwauth = True,
      ud_users =
        (if hci then [(plain_user ''ceph'' pubKey)\<lparr>us_homedir := Some ''/var/lib/ceph'', us_groups := [''wheel''], us_sudo := Some ''ALL=(ALL) NOPASSWD:ALL''\<rparr>] else [])
        @ [(plain_user ''ablecloud'' pubKey)\<lparr>us_groups := [''wheel''], us_sudo := Some ''ALL=(ALL) NOPASSWD:ALL''\<rparr>, plain_user ''root'' pubKey],
      ud_write_files =
        [genCloudInitWriteFile ''/root/.ssh/id_rsa.pub'' ''root:root'' ''0644'' pubKey,
         genCloudInitWriteFile ''/root/.ssh/id_rsa'' ''root:root'' ''0600'' privKey]
        @ (if hci then [genCloudInitWriteFile ''/var/lib/ceph/.ssh/id_rsa.pub'' ''ceph:ceph'' ''0644'' pubKey,
                        genCloudInitWriteFile ''/var/lib/ceph/.ssh/id_rsa'' ''ceph:ceph'' ''0600'' privKey] else [])
        @ [genCloudInitWriteFile ''/home/ablecloud/.ssh/id_rsa.pub'' ''ablecloud:ablecloud'' ''0644'' pubKey,
           genCloudInitWriteFile ''/home/ablecloud/.ssh/id_rsa'' ''ablecloud:ablecloud'' ''0600'' privKey,
           genCloudInitWriteFile ''/etc/hosts'' ''root:root'' ''0644'' hosts],
      ud_bootcmd = [], ud_runcmd = []\<rparr>"

fun read_first :: "(string \<Rightarrow> string outcome) \<Rightarrow> string \<Rightarrow> string list \<Rightarrow> string option" where
  "read_first read base [] = None"
| "read_first read base (c # cs) = (case read (path_join [base, c]) of Inr text \<Rightarrow> Some text | Inl err \<Rightarrow> read_first read base cs)"

definition readGenCloudInitPluginFile :: "host_files \<Rightarrow> string list \<Rightarrow> string outcome" where
  "readGenCloudInitPluginFile h candidates =
     (case read_first (hf_read h) (resolveAbleStackConfigPath (hf_getenv h)) candidates of
        Some text \<Rightarrow> Inr text
      | None \<Rightarrow> Inl (''config file not found: '' @ join_with '', '' candidates))"

definition appendGenCloudInitPluginFile ::
  "host_files \<Rightarrow> string \<Rightarrow> string \<Rightarrow> string \<Rightarrow> string list \<Rightarrow> user_data \<Rightarrow> user_data outcome" where
  "appendGenCloudInitPluginFile h targetPath owner permissions candidates u =
     (case readGenCloudInitPluginFile h candidates of
        Inl err \<Rightarrow> Inl err
      | Inr text \<Rightarrow> Inr (u\<lparr>ud_write_files := ud_write_files u @ [genCloudInitWriteFile targetPath owner permissions text]\<rparr>))"

fun append_files :: "host_files \<Rightarrow> (string \<times> string \<times> string \<times> string list) list \<Rightarrow> user_data \<Rightarrow> user_data outcome" where
  "append_files h [] u = Inr u"
| "append_files h ((path, owner, permissions, candidates) # fs) u =
     (case appendGenCloudInitPluginFile h path owner permissions candidates u of
        Inl err \<Rightarrow> Inl err
      | Inr u' \<Rightarrow> append_files h fs u')"

definition appendGenCloudInitManagementSSHFiles :: "string \<Rightarrow> string \<Rightarrow> user_data \<Rightarrow> user_data" where
  "appendGenCloudInitManagementSSHFiles pubKey privKey u =
     u\<lparr>ud_write_files := ud_write_files u
         @ [genCloudInitWriteFile ''/var/cloudstack/management/.ssh/id_rsa.pub'' ''cloud:cloud'' ''0644'' pubKey,
            genCloudInitWriteFile ''/var/cloudstack/management/.ssh/id_rsa'' ''cloud:cloud'' ''0600'' privKey]\<rparr>"

definition firewall_command :: "string \<Rightarrow> string" where
  "firewall_command port =
     ''if command -v firewall-cmd >/dev/null 2>&1; then systemctl enable --now firewalld.service >/dev/null 2>&1 || true; firewall-cmd --permanent --add-port=''
     @ port @ ''/tcp >/dev/null 2>&1 || true; firewall-cmd --add-port='' @ port @ ''/tcp >/dev/null 2>&1 || true; fi''"

definition appendGenCloudInitCCVMRunCommands :: "host_files \<Rightarrow> user_data \<Rightarrow> user_data" where
  "appendGenCloudInitCCVMRunCommands h u =
     u\<lparr>ud_runcmd := [[''/bin/bash'', ''-lc'', firewall_command (configuredAPIPort (hf_getenv h))],
                     [''/usr/bin/systemctl'', ''enable'', ''--now'', ''ablestack-api.service'']]\<rparr>"

definition ccvm_files :: "host_files \<Rightarrow> (string \<times> string \<times> string \<times> string list) list" where
  "ccvm_files h =
     [(''/usr/local/sbin/security_patch.sh'', ''root:root'', ''0755'', [''shell/host/security_patch.sh'', ''shell/security_patch.sh'']),
      (''/root/bootstrap.sh'', ''root:root'', ''0777'', [''shell/host/ccvm_bootstrap.sh'', ''shell/ccvm_bootstrap.sh'']),
      (resolveAbleStackPropertyFile (hf_getenv h) ''cluster.json'', ''root:root'', ''0600'', [''properties/cluster.json''])]"

definition appendGenCloudInitCCVMFiles :: "host_files \<Rightarrow> string \<Rightarrow> string \<Rightarrow> user_data \<Rightarrow> user_data outcome" where
  "appendGenCloudInitCCVMFiles h pubKey privKey u =
     append_files h (ccvm_files h) (appendGenCloudInitCCVMRunCommands h (appendGenCloudInitManagementSSHFiles pubKey privKey u))"

definition scvm_files :: "host_files \<Rightarrow> (string \<times> string \<times> string \<times> string list) list" where
  "scvm_files h =
     [(''/root/bootstrap.sh'', ''root:root'', ''0777'', [''shell/host/scvm_bootstrap.sh'', ''shell/scvm_bootstrap.sh'']),
      (''/usr/local/bin/ipcorrector'', ''root:root'', ''0777'', [''shell/host/ipcorrector'']),
      (resolveAbleStackPropertyFile (hf_getenv h) ''cluster.json'', ''root:root'', ''0777'', [''properties/cluster.json'']),
      (''/usr/local/sbin/security_patch.sh'', ''root:root'', ''0755'', [''shell/host/security_patch.sh'', ''shell/security_patch.sh''])]"

definition appendGenCloudInitSCVMFiles :: "host_files \<Rightarrow> bool \<Rightarrow> user_data \<Rightarrow> user_data outcome" where
  "appendGenCloudInitSCVMFiles h hci u =
     (case (if hci then append_files h (scvm_files h) (u\<lparr>ud_bootcmd := [[''/usr/bin/systemctl'', ''enable'', ''--now'', ''cockpit.socket'']]\<rparr>)
            else Inr u) of
        Inl err \<Rightarrow> Inl err
      | Inr u' \<Rightarrow> Inr (u'\<lparr>ud_runcmd := [[''/usr/bin/sh'', ''/usr/local/sbin/sortEth.sh''],
                                       [''/usr/bin/systemctl'', ''enable'', ''--now'', ''cockpit.service'']]\<rparr>))"

definition normalizeGenCloudInitPubKey :: "string \<Rightarrow> string" where
  "normalizeGenCloudInitPubKey key =
     join_with '' '' (str_fields (map (\<lambda>c. if c = CHR 0x0A then CHR '' '' else c) (filter (\<lambda>c. c \<noteq> CHR 0x0D) key)))"

definition buildGenCloudInitUserData :: "host_files \<Rightarrow> GenCloudInitRequest \<Rightarrow> DeployConfig option \<Rightarrow> user_data outcome" where
  "buildGenCloudInitUserData h req cfg =
     (case hf_read h (gc_PubKey req) of
        Inl err \<Rightarrow> Inl err
      | Inr pubKeyRaw \<Rightarrow>
          (case hf_read h (gc_PrivKey req) of
             Inl err \<Rightarrow> Inl err
           | Inr privKey \<Rightarrow>
               (case hf_read h (gc_Hosts req) of
                  Inl err \<Rightarrow> Inl err
                | Inr hosts \<Rightarrow>
                    (let pubKey = normalizeGenCloudInitPubKey pubKeyRaw;
                         u = genCloudInitBaseUserData pubKey privKey hosts (isGenCloudInitHCI cfg)
                     in if gc_Type req = ''ccvm'' then appendGenCloudInitCCVMFiles h pubKey privKey u
                        else if gc_Type req = ''scvm'' then appendGenCloudInitSCVMFiles h (isGenCloudInitHCI cfg) u
                        else Inl ''unsupported type''))))"

section \<open>Facts about the encoding and the paths\<close>

lemma length_sextets:
  "length (sextets s) mod 4 = (if length s mod 3 = 0 then 0 else length s mod 3 + 1)"
  by (induction s rule: sextets.induct) (auto simp: mod_Suc)

lemma std_chars: "c \<in> set std_alphabet \<Longrightarrow> c \<noteq> CHR 0x0A \<and> c \<noteq> CHR 0x0D \<and> c \<noteq> CHR ''=''"
  by (auto simp: std_alphabet_def)

lemma std_decode_encode [simp]: "std_decode (std_encode s) = Some s"
proof -
  define body where "body = map (\<lambda>n. std_alphabet ! n) (sextets s)"
  define pad where "pad = (if length s mod 3 = 1 then ''=='' else if length s mod 3 = 2 then ''='' else [])"
  have enc: "std_encode s = body @ pad" by (simp add: std_encode_def body_def pad_def)
  have chars: "\<forall>c \<in> set body. c \<noteq> CHR 0x0A \<and> c \<noteq> CHR 0x0D \<and> c \<noteq> CHR ''=''"
    unfolding body_def using sextets_bound [of s] by (auto intro!: std_chars simp: alphabets)
  then have breaks: "no_breaks (body @ pad) = body @ pad"
    unfolding no_breaks_def by (intro filter_True) (auto simp: pad_def split: if_splits)
  have len: "length (body @ pad) mod 4 = 0"
  proof -
    have b: "length body mod 4 = (if length s mod 3 = 0 then 0 else length s mod 3 + 1)" using length_sextets [of s] by (simp add: body_def)
    have "length s mod 3 < 3" by simp
    then consider "length s mod 3 = 0" | "length s mod 3 = 1" | "length s mod 3 = 2" by linarith
    then show ?thesis using b by cases (simp_all add: pad_def, presburger+)
  qed
  have letters: "letters_to std_alphabet body = Some (sextets s)"
    unfolding body_def using sextets_bound [of s] by (intro letters_to_map) (simp_all add: alphabets)
  have tail: "rev body = c # cs \<Longrightarrow> c \<noteq> CHR ''=''" for c cs using chars by (metis list.set_intros(1) set_rev)
  have "(if has_suffix (body @ pad) ''=='' then take (length (body @ pad) - 2) (body @ pad)
      else if has_suffix (body @ pad) ''='' then take (length (body @ pad) - 1) (body @ pad) else body @ pad) = body"
    using tail by (cases "rev body") (auto simp: pad_def has_suffix_def has_prefix_def)
  with breaks len letters show ?thesis by (simp add: enc std_decode_def Let_def unsextets_sextets)
qed

lemma split_on_last: "c \<notin> set b \<Longrightarrow> split_on c (a @ c # b) = split_on c a @ [b]"
  by (induction a) (auto simp: split_on_single split: list.splits)

lemma clean_parts_snoc:
  "b \<noteq> [] \<Longrightarrow> b \<noteq> ''.'' \<Longrightarrow> b \<noteq> ''..'' \<Longrightarrow> \<exists>pre. clean_parts rooted (ps @ [b]) stack = pre @ [b]"
  by (induction rooted ps stack rule: clean_parts.induct) auto

lemma join_with_last: "\<exists>pre. join_with sep (xs @ [b]) = pre @ b"
proof (induction xs)
  case (Cons x xs)
  then obtain pre where "join_with sep (xs @ [b]) = pre @ b" by blast
  then have "join_with sep ((x # xs) @ [b]) = (x @ sep @ pre) @ b" by (cases "xs @ [b]") auto
  then show ?case by blast
qed simp

text \<open>A path that ends in a plain name keeps it.\<close>

lemma path_join_last:
  assumes "CHR ''/'' \<notin> set b" "b \<noteq> []" "b \<noteq> ''.''" "b \<noteq> ''..''"
  shows "\<exists>pre. path_join [a, b] = pre @ b"
proof -
  have name: "\<exists>pre. path_clean p = pre @ b" if p: "p \<noteq> []" "split_on CHR ''/'' p = ps @ [b]" for p ps
  proof -
    obtain qs where qs: "clean_parts (hd p = CHR ''/'') (ps @ [b]) [] = qs @ [b]" using clean_parts_snoc [OF assms(2-4)] by blast
    obtain pre where "join_with ''/'' (qs @ [b]) = pre @ b" using join_with_last by blast
    with p qs assms(2) show ?thesis by (auto simp: path_clean_def Let_def)
  qed
  show ?thesis
  proof (cases "a = []")
    case True
    have "split_on CHR ''/'' b = [] @ [b]" using split_on_single assms(1) by simp
    from name [OF assms(2) this] show ?thesis using True assms(2) by (simp add: path_join_def)
  next
    case False
    have "split_on CHR ''/'' (a @ ''/'' @ b) = split_on CHR ''/'' a @ [b]" using split_on_last [OF assms(1), of a] by simp
    from name [OF _ this] show ?thesis using False assms(2) by (simp add: path_join_def)
  qed
qed

lemma cluster_path: "\<exists>pre. resolveAbleStackPropertyFile env ''cluster.json'' = pre @ ''cluster.json''"
  unfolding resolveAbleStackPropertyFile_def by (rule path_join_last) simp_all

section \<open>Properties\<close>

definition private_key_paths :: "string list" where
  "private_key_paths =
     [''/root/.ssh/id_rsa'', ''/var/lib/ceph/.ssh/id_rsa'', ''/home/ablecloud/.ssh/id_rsa'', ''/var/cloudstack/management/.ssh/id_rsa'']"

lemma private_not_json: "pre @ ''cluster.json'' \<notin> set private_key_paths"
proof
  assume "pre @ ''cluster.json'' \<in> set private_key_paths"
  moreover have "list_all (\<lambda>p. last p = CHR ''a'') private_key_paths" by (simp add: private_key_paths_def)
  ultimately have "last (pre @ ''cluster.json'') = CHR ''a''" by (simp only: list_all_iff)
  then show False by simp
qed

text \<open>A private key is where it belongs, readable by its owner only.\<close>

definition key_kept :: "string \<Rightarrow> write_file \<Rightarrow> bool" where
  "key_kept privKey f \<longleftrightarrow>
     (wf_path f \<in> set private_key_paths \<longrightarrow> wf_permissions f = ''0600'' \<and> std_decode (wf_content f) = Some privKey)"

lemma append_files_kept:
  "append_files h fs u = Inr u' \<Longrightarrow> list_all (key_kept k) (ud_write_files u) \<Longrightarrow>
     list_all (\<lambda>(path, _). path \<notin> set private_key_paths) fs \<Longrightarrow> list_all (key_kept k) (ud_write_files u')"
proof (induction h fs u rule: append_files.induct)
  case (2 h path owner permissions candidates fs u)
  obtain body where t: "appendGenCloudInitPluginFile h path owner permissions candidates u =
      Inr (u\<lparr>ud_write_files := ud_write_files u @ [genCloudInitWriteFile path owner permissions body]\<rparr>)"
    using 2(2) by (auto simp: appendGenCloudInitPluginFile_def split: sum.splits)
  with 2 show ?case by (auto simp: key_kept_def genCloudInitWriteFile_def)
qed simp

lemma append_files_grows: "append_files h fs u = Inr u' \<Longrightarrow> set (ud_write_files u) \<subseteq> set (ud_write_files u')"
proof (induction h fs u rule: append_files.induct)
  case (2 h path owner permissions candidates fs u)
  then show ?case by (fastforce simp: appendGenCloudInitPluginFile_def split: sum.splits)
qed simp

lemma append_files_file:
  "append_files h fs u = Inr u' \<Longrightarrow> (path, owner, permissions, candidates) \<in> set fs \<Longrightarrow>
     \<exists>text. readGenCloudInitPluginFile h candidates = Inr text \<and> genCloudInitWriteFile path owner permissions text \<in> set (ud_write_files u')"
proof (induction h fs u rule: append_files.induct)
  case (2 h p w m cs fs u)
  obtain u1 where u1: "appendGenCloudInitPluginFile h p w m cs u = Inr u1" "append_files h fs u1 = Inr u'"
    using 2(2) by (auto split: sum.splits)
  show ?case
  proof (cases "(path, owner, permissions, candidates) \<in> set fs")
    case True
    with 2(1) u1 show ?thesis by blast
  next
    case False
    with 2(3) have e: "path = p" "owner = w" "permissions = m" "candidates = cs" by auto
    from u1(1) obtain body where "readGenCloudInitPluginFile h cs = Inr body" "genCloudInitWriteFile p w m body \<in> set (ud_write_files u1)"
      by (auto simp: appendGenCloudInitPluginFile_def split: sum.splits)
    with append_files_grows [OF u1(2)] e show ?thesis by blast
  qed
qed simp

lemma base_kept: "list_all (key_kept k) (ud_write_files (genCloudInitBaseUserData pub k hosts hci))"
  by (auto simp: genCloudInitBaseUserData_def key_kept_def private_key_paths_def genCloudInitWriteFile_def)

lemma base_root_key: "genCloudInitWriteFile ''/root/.ssh/id_rsa'' ''root:root'' ''0600'' k \<in> set (ud_write_files (genCloudInitBaseUserData pub k hosts hci))"
  by (simp add: genCloudInitBaseUserData_def)

lemma plugin_paths:
  "list_all (\<lambda>(path, _). path \<notin> set private_key_paths) (ccvm_files h)" "list_all (\<lambda>(path, _). path \<notin> set private_key_paths) (scvm_files h)"
proof -
  have "resolveAbleStackPropertyFile (hf_getenv h) ''cluster.json'' \<notin> set private_key_paths" using cluster_path private_not_json by metis
  then show "list_all (\<lambda>(path, _). path \<notin> set private_key_paths) (ccvm_files h)" "list_all (\<lambda>(path, _). path \<notin> set private_key_paths) (scvm_files h)"
    by (auto simp: ccvm_files_def scvm_files_def private_key_paths_def)
qed

text \<open>What is asked of the files of an image: the private keys, the key of root, and the mode of the cluster document.\<close>

definition image_files :: "host_files \<Rightarrow> string \<Rightarrow> string option \<Rightarrow> user_data \<Rightarrow> bool" where
  "image_files h privKey mode u \<longleftrightarrow>
     list_all (key_kept privKey) (ud_write_files u) \<and> list_ex (\<lambda>f. wf_path f = ''/root/.ssh/id_rsa'') (ud_write_files u)
     \<and> (case mode of None \<Rightarrow> True
        | Some m \<Rightarrow> (case readGenCloudInitPluginFile h [''properties/cluster.json''] of
             Inl err \<Rightarrow> False
           | Inr body \<Rightarrow> genCloudInitWriteFile (resolveAbleStackPropertyFile (hf_getenv h) ''cluster.json'') ''root:root'' m body \<in> set (ud_write_files u)))"

lemma base_image: "image_files h k None (genCloudInitBaseUserData pub k hosts hci)"
  using base_kept bexI [OF _ base_root_key [of k pub hosts hci]] by (simp add: image_files_def list_ex_iff genCloudInitWriteFile_def)

lemma appended_image:
  assumes "append_files h fs v = Inr u" and "image_files h k None v" and "list_all (\<lambda>(path, _). path \<notin> set private_key_paths) fs"
    and "(resolveAbleStackPropertyFile (hf_getenv h) ''cluster.json'', ''root:root'', mode, [''properties/cluster.json'']) \<in> set fs"
  shows "image_files h k (Some mode) u"
  using append_files_kept [OF assms(1) _ assms(3)] append_files_grows [OF assms(1)] append_files_file [OF assms(1,4)] assms(2)
  by (auto simp: image_files_def list_ex_iff)

lemma ccvm_image:
  assumes "appendGenCloudInitCCVMFiles h pub k b = Inr u" and "image_files h k None b"
  shows "image_files h k (Some ''0600'') u"
proof (rule appended_image [OF _ _ plugin_paths(1)])
  let ?v = "appendGenCloudInitCCVMRunCommands h (appendGenCloudInitManagementSSHFiles pub k b)"
  show "append_files h (ccvm_files h) ?v = Inr u" using assms(1) by (simp add: appendGenCloudInitCCVMFiles_def)
  show "image_files h k None ?v"
    using assms(2) by (auto simp: image_files_def appendGenCloudInitCCVMRunCommands_def appendGenCloudInitManagementSSHFiles_def key_kept_def
        genCloudInitWriteFile_def private_key_paths_def)
qed (simp add: ccvm_files_def)

lemma scvm_image:
  assumes "appendGenCloudInitSCVMFiles h hci b = Inr u" and "image_files h k None b"
  shows "image_files h k (if hci then Some ''0777'' else None) u"
proof (cases hci)
  case True
  let ?v = "b\<lparr>ud_bootcmd := [[''/usr/bin/systemctl'', ''enable'', ''--now'', ''cockpit.socket'']]\<rparr>"
  obtain w where a: "append_files h (scvm_files h) ?v = Inr w" and w: "ud_write_files u = ud_write_files w"
    using assms(1) True by (auto simp: appendGenCloudInitSCVMFiles_def split: sum.splits)
  have "image_files h k (Some ''0777'') w"
    by (rule appended_image [OF a _ plugin_paths(2)]) (use assms(2) in \<open>simp_all add: image_files_def scvm_files_def\<close>)
  then have "image_files h k (Some ''0777'') u" unfolding image_files_def w .
  with True show ?thesis by simp
next
  case False
  with assms show ?thesis by (auto simp: appendGenCloudInitSCVMFiles_def image_files_def)
qed

text \<open>
  C26. The image of a control VM gives every private key file the key of the host and a mode for its
  owner only, and always has the key of root. The cluster document, which holds the internal token, is
  stored for its owner only in the CCVM, but in the SCVM of an HCI cluster it is stored with mode 0777:
  any user of that VM can read and change it.
\<close>

theorem cloud_init_secrets:
  assumes "buildGenCloudInitUserData h req cfg = Inr u" and "hf_read h (gc_PrivKey req) = Inr privKey"
  shows "list_all (\<lambda>f. wf_path f \<in> set private_key_paths \<longrightarrow> wf_permissions f = ''0600'' \<and> std_decode (wf_content f) = Some privKey) (ud_write_files u)
     \<and> (\<exists>f \<in> set (ud_write_files u). wf_path f = ''/root/.ssh/id_rsa'')
     \<and> (gc_Type req = ''ccvm'' \<or> gc_Type req = ''scvm'' \<and> isGenCloudInitHCI cfg \<longrightarrow>
          (\<exists>f \<in> set (ud_write_files u). \<exists>text. readGenCloudInitPluginFile h [''properties/cluster.json''] = Inr text
             \<and> wf_path f = resolveAbleStackPropertyFile (hf_getenv h) ''cluster.json'' \<and> std_decode (wf_content f) = Some text
             \<and> wf_permissions f = (if gc_Type req = ''ccvm'' then ''0600'' else ''0777'')))"
proof -
  obtain raw hosts where read: "hf_read h (gc_PubKey req) = Inr raw" "hf_read h (gc_Hosts req) = Inr hosts"
    using assms by (simp add: buildGenCloudInitUserData_def split: sum.splits)
  let ?pub = "normalizeGenCloudInitPubKey raw"
  let ?mode = "if gc_Type req = ''ccvm'' then Some ''0600'' else if gc_Type req = ''scvm'' \<and> isGenCloudInitHCI cfg then Some ''0777'' else None"
  have image: "image_files h privKey ?mode u"
    using assms read ccvm_image [OF _ base_image, of h ?pub privKey ?pub hosts "isGenCloudInitHCI cfg" u]
      scvm_image [OF _ base_image, of h "isGenCloudInitHCI cfg" ?pub privKey hosts "isGenCloudInitHCI cfg" u]
    by (auto simp: buildGenCloudInitUserData_def Let_def split: if_splits)
  have doc: "\<exists>f \<in> set (ud_write_files u). \<exists>text. readGenCloudInitPluginFile h [''properties/cluster.json''] = Inr text
      \<and> wf_path f = resolveAbleStackPropertyFile (hf_getenv h) ''cluster.json'' \<and> std_decode (wf_content f) = Some text
      \<and> wf_permissions f = (if gc_Type req = ''ccvm'' then ''0600'' else ''0777'')"
    if vm: "gc_Type req = ''ccvm'' \<or> gc_Type req = ''scvm'' \<and> isGenCloudInitHCI cfg"
  proof -
    obtain body where "readGenCloudInitPluginFile h [''properties/cluster.json''] = Inr body"
        "genCloudInitWriteFile (resolveAbleStackPropertyFile (hf_getenv h) ''cluster.json'') ''root:root''
           (if gc_Type req = ''ccvm'' then ''0600'' else ''0777'') body \<in> set (ud_write_files u)"
      using image vm by (cases "readGenCloudInitPluginFile h [''properties/cluster.json'']") (auto simp: image_files_def)
    then show ?thesis by (intro bexI exI [of _ body] conjI) (simp_all only: genCloudInitWriteFile_def write_file.simps std_decode_encode)
  qed
  show ?thesis using image doc unfolding image_files_def list_all_iff list_ex_iff key_kept_def by blast
qed

lemma cloud_init_trim_again: "cloud_init_trim (cloud_init_trim req) = cloud_init_trim req"
  by (simp add: cloud_init_trim_def)

lemma cloud_init_trim_other:
  "cloud_init_trim (r\<lparr>gc_Type := t\<rparr>) = (cloud_init_trim r)\<lparr>gc_Type := t\<rparr>"
  "cloud_init_trim (r\<lparr>gc_PNPrefix := p, gc_CNPrefix := q\<rparr>) = (cloud_init_trim r)\<lparr>gc_PNPrefix := p, gc_CNPrefix := q\<rparr>"
  by (simp_all add: cloud_init_trim_def)

text \<open>
  A request that passed the checks stays as it is when it is checked again, and always gives a
  network configuration: one device for the management network, for an SCVM the two storage devices
  with jumbo frames, for a CCVM one for the service network exactly if its device is given; every
  device has a name and an address.
\<close>

theorem cloud_init_network:
  assumes "normalizeGenCloudInitRequest req = Inr r"
  shows "normalizeGenCloudInitRequest r = Inr r
     \<and> (\<exists>devices. buildGenCloudInitNetworkConfig r = Inr (genCloudInitPhysicalDevice (gc_MgmtNIC r) (gc_MgmtIP r) (gc_MgmtPrefix r) (gc_MgmtGW r) (gc_DNS r) 0 # devices)
          \<and> 0 < gc_MgmtPrefix r
          \<and> map nd_mtu devices = (if gc_Type r = ''scvm'' then [9000, 9000] else if gc_SNNIC r \<noteq> [] then [0] else [])
          \<and> (\<forall>d \<in> set devices. nd_name d \<noteq> [] \<and> (\<exists>ip prefix. ip \<noteq> [] \<and> prefix \<noteq> 0 \<and> nd_address d = ip @ ''/'' @ itoa prefix))
          \<and> gc_MgmtNIC r \<noteq> [] \<and> gc_MgmtIP r \<noteq> [])"
proof -
  let ?type = "to_lower (trim_space (gc_Type req))"
  define t where "t = cloud_init_trim (req\<lparr>gc_Type := ?type\<rparr>)"
  have type': "?type = ''ccvm'' \<or> ?type = ''scvm''"
    using assms by (auto simp: normalizeGenCloudInitRequest_def Let_def split: if_splits)
  have tt: "gc_Type t = ?type" "cloud_init_trim t = t" by (simp_all add: t_def cloud_init_trim_again) (simp add: cloud_init_trim_def)
  have ok: "r = t\<lparr>gc_PNPrefix := if gc_PNPrefix t = 0 then 24 else gc_PNPrefix t, gc_CNPrefix := if gc_CNPrefix t = 0 then 24 else gc_CNPrefix t\<rparr>"
      "\<not> (gc_ISOPath t = [] \<or> gc_Hostname t = [] \<or> gc_PubKey t = [] \<or> gc_PrivKey t = [] \<or> gc_Hosts t = [])"
      "\<not> (gc_MgmtNIC t = [] \<or> gc_MgmtIP t = [] \<or> gc_MgmtPrefix t \<le> 0)"
      "?type = ''scvm'' \<longrightarrow> gc_PNNIC r \<noteq> [] \<and> gc_PNIP r \<noteq> [] \<and> gc_CNNIC r \<noteq> [] \<and> gc_CNIP r \<noteq> []"
      "?type = ''ccvm'' \<longrightarrow> service_network r \<longrightarrow> gc_SNNIC r \<noteq> [] \<and> gc_SNIP r \<noteq> [] \<and> 0 < gc_SNPrefix r"
    using assms unfolding normalizeGenCloudInitRequest_def Let_def t_def [symmetric] by (auto split: if_splits)
  have f: "gc_Type r = ?type" "cloud_init_trim r = r" "gc_PNPrefix r \<noteq> 0" "gc_CNPrefix r \<noteq> 0"
      "\<not> (gc_ISOPath r = [] \<or> gc_Hostname r = [] \<or> gc_PubKey r = [] \<or> gc_PrivKey r = [] \<or> gc_Hosts r = [])"
      "\<not> (gc_MgmtNIC r = [] \<or> gc_MgmtIP r = [] \<or> gc_MgmtPrefix r \<le> 0)"
    using ok(2,3) tt by (simp_all add: ok(1) cloud_init_trim_other)
  have plain: "to_lower (trim_space (gc_Type r)) = gc_Type r" using type' f(1) by (elim disjE) (simp_all add: go_str)
  have same: "cloud_init_trim (r\<lparr>gc_Type := gc_Type r\<rparr>) = r" using f(2) by simp
  have "normalizeGenCloudInitRequest r = Inr r"
  proof -
    have "\<not> (gc_Type r \<noteq> ''ccvm'' \<and> gc_Type r \<noteq> ''scvm'')" using type' f(1) by simp
    moreover have "r\<lparr>gc_PNPrefix := if gc_PNPrefix r = 0 then 24 else gc_PNPrefix r, gc_CNPrefix := if gc_CNPrefix r = 0 then 24 else gc_CNPrefix r\<rparr> = r"
      using f(3,4) by simp
    moreover have "\<not> (gc_Type r = ''scvm'' \<and> (gc_PNNIC r = [] \<or> gc_PNIP r = [] \<or> gc_CNNIC r = [] \<or> gc_CNIP r = []))"
      using ok(4) f(1) by metis
    moreover have "\<not> (gc_Type r = ''ccvm'' \<and> service_network r \<and> (gc_SNNIC r = [] \<or> gc_SNIP r = [] \<or> gc_SNPrefix r \<le> 0))"
      using ok(5) f(1) by (metis not_le)
    ultimately show ?thesis using f(5,6) unfolding normalizeGenCloudInitRequest_def Let_def plain same by (simp only: if_False)
  qed
  moreover have "\<exists>devices. buildGenCloudInitNetworkConfig r = Inr (genCloudInitPhysicalDevice (gc_MgmtNIC r) (gc_MgmtIP r) (gc_MgmtPrefix r) (gc_MgmtGW r) (gc_DNS r) 0 # devices)
      \<and> map nd_mtu devices = (if gc_Type r = ''scvm'' then [9000, 9000] else if gc_SNNIC r \<noteq> [] then [0] else [])
      \<and> (\<forall>d \<in> set devices. nd_name d \<noteq> [] \<and> (\<exists>ip prefix. ip \<noteq> [] \<and> prefix \<noteq> 0 \<and> nd_address d = ip @ ''/'' @ itoa prefix))"
  proof (cases "?type = ''scvm''")
    case True
    with f(1,3,4) ok(4) show ?thesis
      by (simp add: buildGenCloudInitNetworkConfig_def Let_def genCloudInitPhysicalDevice_def) blast
  next
    case False
    with type' have "?type = ''ccvm''" by blast
    then show ?thesis
    proof (cases "gc_SNNIC r = []")
      case True
      with \<open>?type = ''ccvm''\<close> f(1) show ?thesis by (simp add: buildGenCloudInitNetworkConfig_def Let_def)
    next
      case False
      then have "service_network r" by (simp add: service_network_def)
      with ok(5) \<open>?type = ''ccvm''\<close> have "gc_SNIP r \<noteq> [] \<and> 0 < gc_SNPrefix r" by metis
      then have "gc_SNIP r \<noteq> []" "gc_SNPrefix r \<noteq> 0" by simp_all
      with False \<open>?type = ''ccvm''\<close> f(1) show ?thesis
        by (simp add: buildGenCloudInitNetworkConfig_def Let_def genCloudInitPhysicalDevice_def) blast
    qed
  qed
  ultimately show ?thesis using f(6) by (auto simp: not_le)
qed

section \<open>Witnesses\<close>

definition ccvm_image_request :: GenCloudInitRequest where
  "ccvm_image_request =
     no_cloud_init\<lparr>gc_Type := ''ccvm'', gc_ISOPath := ''/tmp/a.iso'', gc_Hostname := ''ccvm'', gc_PubKey := ''/k.pub'', gc_PrivKey := ''/k'',
       gc_Hosts := ''/h'', gc_MgmtNIC := ''e1'', gc_MgmtIP := ''10.0.0.1'', gc_MgmtPrefix := 16, gc_PNPrefix := 24, gc_CNPrefix := 24\<rparr>"

definition same_files :: host_files where
  "same_files = \<lparr>hf_getenv = (\<lambda>name. []), hf_read = (\<lambda>path. Inr ''key'')\<rparr>"

lemma ccvm_image_accepted: "normalizeGenCloudInitRequest ccvm_image_request = Inr ccvm_image_request"
  by (simp add: normalizeGenCloudInitRequest_def Let_def ccvm_image_request_def no_cloud_init_def cloud_init_trim_def service_network_def go_str)

theorem cloud_init_network_witness:
  "\<exists>devices. buildGenCloudInitNetworkConfig ccvm_image_request
     = Inr (genCloudInitPhysicalDevice ''e1'' ''10.0.0.1'' 16 [] [] 0 # devices) \<and> devices = []"
proof -
  have f: "gc_MgmtNIC ccvm_image_request = ''e1''" "gc_MgmtIP ccvm_image_request = ''10.0.0.1''" "gc_MgmtPrefix ccvm_image_request = 16"
      "gc_MgmtGW ccvm_image_request = []" "gc_DNS ccvm_image_request = []" "gc_Type ccvm_image_request = ''ccvm''" "gc_SNNIC ccvm_image_request = []"
    by (simp_all add: ccvm_image_request_def no_cloud_init_def)
  from cloud_init_network [OF ccvm_image_accepted] show ?thesis by (auto simp: f)
qed

theorem cloud_init_secrets_witness:
  "\<exists>u. buildGenCloudInitUserData same_files ccvm_image_request None = Inr u
     \<and> (\<exists>f \<in> set (ud_write_files u). wf_path f = ''/root/.ssh/id_rsa'' \<and> wf_permissions f = ''0600'' \<and> std_decode (wf_content f) = Some ''key'')"
proof -
  have "\<exists>u. buildGenCloudInitUserData same_files ccvm_image_request None = Inr u"
    by (simp add: buildGenCloudInitUserData_def same_files_def ccvm_image_request_def appendGenCloudInitCCVMFiles_def ccvm_files_def
        appendGenCloudInitPluginFile_def readGenCloudInitPluginFile_def Let_def)
  then obtain u where u: "buildGenCloudInitUserData same_files ccvm_image_request None = Inr u" by blast
  have "hf_read same_files (gc_PrivKey ccvm_image_request) = Inr ''key''" by (simp add: same_files_def)
  note s = cloud_init_secrets [OF u this]
  then obtain f where f: "f \<in> set (ud_write_files u)" "wf_path f = ''/root/.ssh/id_rsa''" by blast
  have "''/root/.ssh/id_rsa'' \<in> set private_key_paths" by (simp add: private_key_paths_def)
  with s f have "wf_permissions f = ''0600'' \<and> std_decode (wf_content f) = Some ''key''" unfolding list_all_iff by metis
  with u f show ?thesis by blast
qed

end
