(* ===== verification/Deploy_Steps.thy ===== *)
theory Deploy_Steps
  imports Cloud_Init Polling
begin

text \<open>
  The steps of a deployment: the second half of \<^verbatim>\<open>internal/handler/cube/deploy_run.go\<close>. The
  operations of the other handlers that a step calls (licence fan-out, apply of the cluster document,
  RBD, GFS and local storage, the CCVM, the monitoring, the flags of the system profile) and the HTTP
  exchanges are functions of the outside, which answer a call, take some time for it and change the
  outside; the calls made are recorded. The proofs hold for all of their behaviours.
\<close>

section \<open>The outside\<close>

text \<open>
  A response as a step reads it: its code, its message and the printed form of its value; the body is
  what is passed on as the output.
\<close>

record response =
  rs_Code :: int
  rs_Message :: string
  rs_ValText :: string
  rs_Body :: goval

record RBDManageResponse = response +
  rb_ValImages :: "string list option"
  rb_ResultImages :: "string list list"

record BootstrapResponse = response +
  bs_Role :: string

record LicenseApplyRequest =
  la_Action :: string
  la_LicenseContent :: string
  la_Licenses :: "(string, string) fmap"
  la_Filename :: string
  la_Roles :: "string list"
  la_WaitForReady :: bool

text \<open>The fields of the bootstrap request that a deployment sets; the script fields stay empty.\<close>

record NodeBootstrapRequest =
  nb_RunScript :: "bool option"
  nb_LicenseContent :: string
  nb_Licenses :: "(string, string) fmap"
  nb_LicenseFilename :: string
  nb_TargetHostnames :: "string list"
  nb_JoinExistingCluster :: bool

record http_call =
  hq_Method :: string
  hq_URL :: string
  hq_Token :: "string option"
  hq_LocalHeader :: bool
  hq_Payload :: goval

text \<open>
  No response, or its status code, its status text, its body, and what the decoder of the caller makes
  of a body that is not empty.
\<close>

datatype http_answer = NoResponse string | Response int string string "response outcome"

datatype call =
    Http http_call
  | LicenseApply LicenseApplyRequest "DeployConfig option" string
  | ClusterApply ClusterApplyRequest
  | BootstrapRole NodeBootstrapRequest DeployConfig string string
  | RBDManage RBDManageRequest DeployConfig
  | GFSManage GFSManageRequest DeployConfig
  | LocalManage LocalManageRequest
  | GenCloudInit GenCloudInitRequest DeployConfig
  | CopyISO "string list"
  | CCVMXML goval DeployConfig
  | CCVMLifecycle CCVMLifecycleRequest DeployConfig
  | Monitoring CCVMMonitoringConfigRequest DeployConfig
  | SystemFlags "SystemFlag list" DeployConfig
  | Sleep nat

type_synonym ('w, 'a) service = "call \<Rightarrow> 'w \<Rightarrow> 'a \<times> nat \<times> 'w"

text \<open>
  What a deployment sees of its surroundings: the environment, the cluster document and the internal
  token at a moment, the OEM type of the current licence, why a URL does not parse, the check of a CCVM
  definition, and the operations that answer with a response, with images, with the role, with an HTTP
  answer, with an error only, or with an output and an error.
\<close>

record 'w services =
  sv_getenv :: getenv
  sv_config :: "'w \<Rightarrow> DeployConfig option"
  sv_token :: "'w \<Rightarrow> string option"
  sv_license_type :: "'w \<Rightarrow> string"
  sv_url_error :: "string \<Rightarrow> string option"
  sv_check_xml :: "goval \<Rightarrow> DeployConfig \<Rightarrow> goval outcome"
  sv_respond :: "('w, response) service"
  sv_rbd :: "('w, RBDManageResponse) service"
  sv_bootstrap :: "('w, BootstrapResponse) service"
  sv_http :: "('w, http_answer) service"
  sv_copy :: "('w, string option) service"
  sv_flags :: "('w, step_output \<times> string option) service"

record 'w site =
  si_world :: 'w
  si_time :: nat
  si_calls :: "call list"

definition perform :: "call \<Rightarrow> ('w, 'a) service \<Rightarrow> 'w site \<Rightarrow> 'a \<times> 'w site" where
  "perform c serve s =
     (let (a, t, w) = serve c (si_world s)
      in (a, \<lparr>si_world = w, si_time = si_time s + t, si_calls = si_calls s @ [c]\<rparr>))"

definition sleep :: "nat \<Rightarrow> 'w site \<Rightarrow> 'w site" where
  "sleep d s = s\<lparr>si_time := si_time s + d, si_calls := si_calls s @ [Sleep d]\<rparr>"

definition whole_seconds :: "nat \<Rightarrow> nat" where
  "whole_seconds n = n * 1000000000"

text \<open>\<^verbatim>\<open>time.Duration.String\<close> of whole seconds.\<close>

definition duration_text :: "nat \<Rightarrow> string" where
  "duration_text secs =
     (let h = secs div 3600; m = secs div 60 mod 60; s = secs mod 60
      in (if h > 0 then show_nat h @ ''h'' else []) @ (if secs \<ge> 60 then show_nat m @ ''m'' else []) @ show_nat s @ ''s'')"

section \<open>Outcomes\<close>

text \<open>What a step returns: an error if there is one, and the outcome.\<close>

type_synonym step_return = "string option \<times> deployRunStepOutcome"

definition deployRunSucceeded :: "string \<Rightarrow> step_output \<Rightarrow> deployRunStepOutcome" where
  "deployRunSucceeded message out = \<lparr>oc_Status = ''succeeded'', oc_Message = firstNonEmpty [message, ''ok''], oc_Output = out\<rparr>"

definition deployRunSkipped :: "string \<Rightarrow> step_output \<Rightarrow> deployRunStepOutcome" where
  "deployRunSkipped message out = \<lparr>oc_Status = ''skipped'', oc_Message = firstNonEmpty [message, ''skipped''], oc_Output = out\<rparr>"

definition success :: "string \<Rightarrow> step_output \<Rightarrow> step_return" where
  "success message out = (None, deployRunSucceeded message out)"

definition skipped :: "string \<Rightarrow> step_return" where
  "skipped message = (None, deployRunSkipped message ONil)"

definition failure :: "string \<Rightarrow> step_output \<Rightarrow> step_return" where
  "failure err out = (Some err, \<lparr>oc_Status = [], oc_Message = [], oc_Output = out\<rparr>)"

definition deployRunMissingInput :: "DeployRunRequest \<Rightarrow> string \<Rightarrow> string \<Rightarrow> step_return" where
  "deployRunMissingInput req step message =
     (if deployRunStepExplicit req step then failure message ONil else skipped message)"

definition read_error :: step_return where
  "read_error = failure ''failed to read cluster.json'' ONil"

text \<open>The common end of a step: the response decides, with defaults for the two messages.\<close>

definition by_response :: "string list \<Rightarrow> string list \<Rightarrow> response \<Rightarrow> step_output \<Rightarrow> step_return" where
  "by_response errs oks resp out =
     (if rs_Code resp \<noteq> 200 then failure (firstNonEmpty (rs_Message resp # errs)) out
      else success (firstNonEmpty (rs_Message resp # oks)) out)"

definition isHCITarget :: "string \<Rightarrow> bool" where
  "isHCITarget clusterType \<longleftrightarrow> to_lower clusterType = ''ablestack-hci'' \<or> to_lower clusterType = ''ablestack-hci-filesystem''"

section \<open>HTTP exchanges\<close>

definition buildTargetURL :: "getenv \<Rightarrow> string \<Rightarrow> string" where
  "buildTargetURL env target =
     (let scheme = (if env ''ABLESTACK_API_SCHEME'' = [] then ''http'' else env ''ABLESTACK_API_SCHEME'')
      in scheme @ ''://'' @ target @ '':'' @ configuredAPIPort env)"

definition attachInternalToken :: "'w services \<Rightarrow> 'w site \<Rightarrow> string option" where
  "attachInternalToken sv s =
     (case sv_token sv (si_world s) of None \<Rightarrow> None | Some token \<Rightarrow> if trim_space token = [] then None else Some token)"

definition zero_response :: response where
  "zero_response = \<lparr>rs_Code = 0, rs_Message = [], rs_ValText = [], rs_Body = VNil\<rparr>"

definition deployRunPostJSON :: "'w services \<Rightarrow> string \<Rightarrow> string \<Rightarrow> goval \<Rightarrow> 'w site \<Rightarrow> response outcome \<times> 'w site" where
  "deployRunPostJSON sv target path payload s =
     (let url = buildTargetURL (sv_getenv sv) target @ path
      in case sv_url_error sv url of
           Some err \<Rightarrow> (Inl err, s)
         | None \<Rightarrow>
             (let (answer, s1) = perform (Http \<lparr>hq_Method = ''POST'', hq_URL = url, hq_Token = attachInternalToken sv s,
                                               hq_LocalHeader = False, hq_Payload = payload\<rparr>) (sv_http sv) s
              in (case answer of
                    NoResponse err \<Rightarrow> Inl err
                  | Response status text raw decoded \<Rightarrow>
                      (let refused = firstNonEmpty [trim_space raw, text];
                           out = (if raw = [] then Inr zero_response else decoded)
                       in case out of
                            Inl err \<Rightarrow> Inl (if status \<ge> 300 then refused else err)
                          | Inr resp \<Rightarrow> if status \<ge> 300 then Inl refused else Inr resp), s1)))"

text \<open>The defaults of the target and the action in the answer only concern what is shown.\<close>

definition callSCVMUpdateRemote :: "'w services \<Rightarrow> string \<Rightarrow> goval \<Rightarrow> 'w site \<Rightarrow> response outcome \<times> 'w site" where
  "callSCVMUpdateRemote sv target payload s =
     (let url = buildTargetURL (sv_getenv sv) target @ ''/api/v1/cube/scvm/lifecycle''
      in case sv_url_error sv url of
           Some err \<Rightarrow> (Inl err, s)
         | None \<Rightarrow>
             (let (answer, s1) = perform (Http \<lparr>hq_Method = ''POST'', hq_URL = url, hq_Token = attachInternalToken sv s,
                                               hq_LocalHeader = True, hq_Payload = payload\<rparr>) (sv_http sv) s
              in (case answer of
                    NoResponse err \<Rightarrow> Inl err
                  | Response status text raw decoded \<Rightarrow>
                      (case decoded of
                         Inl err \<Rightarrow> Inl err
                       | Inr resp \<Rightarrow> Inr (if rs_Code resp = 0 then resp\<lparr>rs_Code := status\<rparr> else resp)), s1)))"

definition callHealthTarget :: "'w services \<Rightarrow> string \<Rightarrow> 'w site \<Rightarrow> string option \<times> 'w site" where
  "callHealthTarget sv target s =
     (if trim_space target = [] then (Some ''empty target'', s)
      else (let url = buildTargetURL (sv_getenv sv) target @ ''/api/v1/health''
            in case sv_url_error sv url of
                 Some err \<Rightarrow> (Some err, s)
               | None \<Rightarrow>
                   (let (answer, s1) = perform (Http \<lparr>hq_Method = ''GET'', hq_URL = url, hq_Token = attachInternalToken sv s,
                                                     hq_LocalHeader = False, hq_Payload = VNil\<rparr>) (sv_http sv) s
                    in (case answer of
                          NoResponse err \<Rightarrow> Some err
                        | Response status text raw decoded \<Rightarrow> if status \<ge> 300 then Some (''status: '' @ text) else None, s1))))"

section \<open>Waiting for a node\<close>

lemma perform_time: "si_time s \<le> si_time (snd (perform c serve s))"
  by (simp add: perform_def split_beta Let_def)

lemma callHealthTarget_time: "si_time s \<le> si_time (snd (callHealthTarget sv target s))"
  using perform_time by (auto simp: callHealthTarget_def Let_def split_beta split: option.split)

definition health_delay :: nat where "health_delay = whole_seconds 5"

text \<open>
  The loop of \<^verbatim>\<open>waitDeployRunAPIHealth\<close>, with the attempts made so far; it returns the last error.
  It ends because every pause takes five seconds of the time that is left.
\<close>

function health_loop :: "'w services \<Rightarrow> string \<Rightarrow> nat \<Rightarrow> nat \<times> 'w site \<Rightarrow> string option \<times> nat \<times> 'w site" where
  "health_loop sv target deadline (attempts, s) =
     (let (err, s1) = callHealthTarget sv target s; attempts1 = Suc attempts
      in case err of
           None \<Rightarrow> (None, attempts1, s1)
         | Some e \<Rightarrow>
             if si_time s1 + health_delay > deadline then (Some e, attempts1, s1)
             else health_loop sv target deadline (attempts1, sleep health_delay s1))"
  by pat_completeness auto
termination
proof (relation "measure (\<lambda>(sv, target, deadline, attempts, s). Suc deadline - si_time s)")
  fix sv :: "'w services" and target deadline attempts and s :: "'w site" and x err s1 attempts1 e
  assume a: "x = callHealthTarget sv target s" "(err, s1) = x" "\<not> deadline < si_time s1 + health_delay"
  have "si_time s \<le> si_time s1" using callHealthTarget_time [of s sv target] a(1,2) by (metis snd_conv)
  with a(3) show "((sv, target, deadline, attempts1, sleep health_delay s1), (sv, target, deadline, attempts, s))
      \<in> measure (\<lambda>(sv, target, deadline, attempts, s). Suc deadline - si_time s)"
    by (simp add: sleep_def health_delay_def whole_seconds_def)
qed simp

declare health_loop.simps [simp del]

definition health_report :: "string \<Rightarrow> string option \<Rightarrow> nat \<Rightarrow> (string \<times> step_output) list \<Rightarrow> step_output" where
  "health_report target err attempts extra =
     OParts ([(''target'', OText target), (''code'', ONum (if err = None then 200 else 500)),
              (''message'', OText (case err of None \<Rightarrow> ''ok'' | Some e \<Rightarrow> e)), (''attempts'', ONum (int attempts))] @ extra)"

definition no_target_report :: step_output where
  "no_target_report = OParts [(''target'', OText []), (''message'', OText ''empty target'')]"

definition waitDeployRunAPIHealth :: "'w services \<Rightarrow> string \<Rightarrow> 'w site \<Rightarrow> (step_output \<times> string option) \<times> 'w site" where
  "waitDeployRunAPIHealth sv target' s =
     (let target = trim_space target'
      in if target = [] then ((no_target_report, Some ''empty target''), s)
         else (let (err, attempts, s1) = health_loop sv target (si_time s + whole_seconds 300) (0, s)
               in ((health_report target err attempts [],
                    case err of None \<Rightarrow> None
                    | Some e \<Rightarrow> Some (target @ '' api health check failed after '' @ duration_text 300 @ '': '' @ e)), s1)))"

text \<open>The loop with a limit on the attempts: the attempts still allowed, and the last error.\<close>

fun policy_loop :: "'w services \<Rightarrow> string \<Rightarrow> nat \<Rightarrow> nat \<Rightarrow> nat \<Rightarrow> string \<Rightarrow> 'w site \<Rightarrow> (string option \<times> nat) \<times> 'w site" where
  "policy_loop sv target interval attempt 0 lastErr s = ((Some lastErr, attempt), s)"
| "policy_loop sv target interval attempt (Suc left) lastErr s =
     (let (err, s1) = callHealthTarget sv target s
      in case err of
           None \<Rightarrow> ((None, Suc attempt), s1)
         | Some e \<Rightarrow> policy_loop sv target interval (Suc attempt) left e (if left > 0 then sleep interval s1 else s1))"

text \<open>The interval is in whole seconds.\<close>

definition waitDeployRunAPIHealthWithPolicy ::
  "'w services \<Rightarrow> string \<Rightarrow> int \<Rightarrow> int \<Rightarrow> 'w site \<Rightarrow> (step_output \<times> string option) \<times> 'w site" where
  "waitDeployRunAPIHealthWithPolicy sv target' maxAttempts' interval' s =
     (let target = trim_space target'
      in if target = [] then ((no_target_report, Some ''empty target''), s)
         else (let maxAttempts = nat (if maxAttempts' \<le> 0 then 1 else maxAttempts'); interval = nat interval';
                   ((err, attempts), s1) = policy_loop sv target (whole_seconds interval) 0 maxAttempts [] s
               in ((health_report target err attempts [(''interval_seconds'', ONum (int interval))],
                    case err of None \<Rightarrow> None
                    | Some e \<Rightarrow> Some (target @ '' api health check failed after '' @ show_nat maxAttempts @ '' attempts at ''
                                      @ duration_text interval @ '' intervals: '' @ e)), s1)))"

section \<open>Licence, cluster document and SCVM\<close>

definition deployRunLicenseConfig :: "DeployRunRequest \<Rightarrow> DeployConfig option \<Rightarrow> DeployConfig option" where
  "deployRunLicenseConfig req current =
     (case dr_Cluster req of
        None \<Rightarrow> current
      | Some c \<Rightarrow>
          if Hosts c = [] then current
          else (let cfg = (case current of Some x \<Rightarrow> x
                           | None \<Rightarrow> \<lparr>sec_Type = [], sec_CCVM_IP = [], sec_Hosts = [], dc_StorageNetwork = [],
                                      dc_MngtNic = \<lparr>Nic_CIDR = [], Nic_GW = [], Nic_DNS = []\<rparr>\<rparr>);
                    cfg1 = cfg\<lparr>sec_Hosts := Hosts c, sec_Type := if trim_space (Type c) \<noteq> [] then trim_space (Type c) else sec_Type cfg\<rparr>
                in Some (case CCVM c of
                           Some v \<Rightarrow> if trim_space (CCVM_IP v) \<noteq> [] then cfg1\<lparr>sec_CCVM_IP := CCVM_IP v\<rparr> else cfg1
                         | None \<Rightarrow> cfg1)))"

definition license_request :: "DeployRunRequest \<Rightarrow> string list \<Rightarrow> bool \<Rightarrow> LicenseApplyRequest" where
  "license_request req roles ready =
     \<lparr>la_Action = ''register'', la_LicenseContent = dr_LicenseContent req, la_Licenses = dr_Licenses req,
      la_Filename = dr_LicenseFilename req, la_Roles = roles, la_WaitForReady = ready\<rparr>"

definition runDeployRunLicenseApply :: "'w services \<Rightarrow> DeployRunRequest \<Rightarrow> string \<Rightarrow> 'w site \<Rightarrow> step_return \<times> 'w site" where
  "runDeployRunLicenseApply sv req auth s =
     (let cfg = sv_config sv (si_world s)
      in if cfg = None \<and> fmdom (dr_Licenses req) = {||} \<and> trim_space (dr_LicenseContent req) = [] then (read_error, s)
         else (let (resp, s1) = perform (LicenseApply (license_request req [] False) (deployRunLicenseConfig req cfg) auth) (sv_respond sv) s
               in (by_response [''license apply failed''] [] resp (OBody (rs_Body resp)), s1)))"

definition runDeployRunClusterApply :: "'w services \<Rightarrow> DeployRunRequest \<Rightarrow> 'w site \<Rightarrow> step_return \<times> 'w site" where
  "runDeployRunClusterApply sv req s =
     (case dr_Cluster req of
        None \<Rightarrow> (deployRunMissingInput req ''cluster_apply'' ''cluster request required'', s)
      | Some c \<Rightarrow>
          (let (resp, s1) = perform (ClusterApply c) (sv_respond sv) s
           in (by_response [''cluster apply failed''] [] resp (OBody (rs_Body resp)), s1)))"

text \<open>The hosts that a list of names selects.\<close>

fun fields_func :: "(char \<Rightarrow> bool) \<Rightarrow> string \<Rightarrow> string \<Rightarrow> string list" where
  "fields_func P cur [] = (if cur = [] then [] else [rev cur])"
| "fields_func P cur (c # s) =
     (if P c then (if cur = [] then fields_func P [] s else rev cur # fields_func P [] s) else fields_func P (c # cur) s)"

definition splitLicenseApplyValues :: "string list \<Rightarrow> string list" where
  "splitLicenseApplyValues vs =
     concat (map (\<lambda>v. filter (\<lambda>part. part \<noteq> []) (map trim_space
       (fields_func (\<lambda>c. c \<in> {CHR '','', CHR '' '', CHR 0x09, CHR 0x0A, CHR 0x0D}) [] v))) vs)"

definition licenseApplyHostnameFilter :: "string list \<Rightarrow> string list" where
  "licenseApplyHostnameFilter vs = map to_lower (splitLicenseApplyValues vs)"

definition licenseApplyTargetFilterNames :: "string \<Rightarrow> string \<Rightarrow> ClusterHost \<Rightarrow> string list" where
  "licenseApplyTargetFilterNames role hostname host =
     [hostname, role, Hostname host, Index host, role @ trim_space (Index host)] @ (if role = ''ccvm'' then [''ccvm''] else [])"

definition licenseApplyTargetMatchesFilter :: "string \<Rightarrow> string \<Rightarrow> ClusterHost \<Rightarrow> string list \<Rightarrow> bool" where
  "licenseApplyTargetMatchesFilter role hostname host selection \<longleftrightarrow>
     selection = [] \<or> list_ex (\<lambda>candidate. to_lower (trim_space candidate) \<in> set selection) (licenseApplyTargetFilterNames role hostname host)"

definition licenseApplySCVMHostname :: "ClusterHost \<Rightarrow> string" where
  "licenseApplySCVMHostname host =
     (if trim_space (Index host) \<noteq> [] then ''scvm'' @ trim_space (Index host) else firstNonEmpty [Hostname host, ''scvm''])"

definition scvmXMLMapValue :: "(string \<times> goval) list \<Rightarrow> string \<Rightarrow> goval option" where
  "scvmXMLMapValue vs key' =
     (let key = trim_space key'
      in if key = [] then None
         else (case map_of vs key of
                 Some v \<Rightarrow> Some v
               | None \<Rightarrow> map_option snd (List.find (\<lambda>(k, v). to_lower (trim_space k) = to_lower key) vs)))"

fun first_value :: "(string \<times> goval) list \<Rightarrow> string list \<Rightarrow> goval option" where
  "first_value vs [] = None"
| "first_value vs (key # keys) = (case scvmXMLMapValue vs key of Some v \<Rightarrow> Some v | None \<Rightarrow> first_value vs keys)"

definition scvmXMLRequestForHost :: "(string \<times> goval) list \<Rightarrow> ClusterHost \<Rightarrow> goval option" where
  "scvmXMLRequestForHost vs host = first_value vs [Hostname host, Ablecube host, Index host, ''scvm'' @ trim_space (Index host)]"

text \<open>One exchange of the preparation: the part of the result it leaves, and an error.\<close>

definition exchange_end :: "string \<Rightarrow> string \<Rightarrow> response outcome \<Rightarrow> step_output \<times> string option" where
  "exchange_end name what answer =
     (case answer of
        Inl err \<Rightarrow> (OText err, Some (name @ what @ err))
      | Inr resp \<Rightarrow>
          (OBody (rs_Body resp),
           if rs_Code resp \<noteq> 200 then Some (name @ what @ firstNonEmpty [rs_Message resp, rs_ValText resp]) else None))"

definition setup_payload :: goval where
  "setup_payload = VMap (fmupd ''action'' (VStr ''setup'') fmempty)"

definition prepareSCVMOnHost ::
  "'w services \<Rightarrow> string \<Rightarrow> ClusterHost \<Rightarrow> goval \<Rightarrow> 'w site \<Rightarrow> (step_output \<times> string option) \<times> 'w site" where
  "prepareSCVMOnHost sv target host xmlReq s =
     (let name = firstNonEmpty [Hostname host, target];
          head = [(''hostname'', OText (Hostname host)), (''target'', OText target)];
          (answer1, s1) = deployRunPostJSON sv target ''/api/v1/cube/cloudinit/scvm/generate'' (VMap fmempty) s;
          (part1, err1) = exchange_end name '' scvm cloudinit failed: '' answer1;
          out1 = head @ [(''cloudinit'', part1)]
      in if err1 \<noteq> None then ((OParts out1, err1), s1)
         else (let (answer2, s2) = deployRunPostJSON sv target ''/api/v1/cube/scvm/xml'' xmlReq s1;
                   (part2, err2) = exchange_end name '' scvm xml failed: '' answer2;
                   out2 = out1 @ [(''xml'', part2)]
               in if err2 \<noteq> None then ((OParts out2, err2), s2)
                  else (let (answer3, s3) = callSCVMUpdateRemote sv target setup_payload s2;
                            (part3, err3) = exchange_end name '' scvm setup failed: '' answer3;
                            out3 = out2 @ [(''lifecycle'', part3)]
                        in if err3 \<noteq> None then ((OParts out3, err3), s3)
                           else (let scvmTarget = firstNonEmpty [ScvmMngt host, Scvm host];
                                     ((health, err4), s4) = waitDeployRunAPIHealthWithPolicy sv scvmTarget 5 20 s3
                                 in ((OParts (out3 @ [(''api_health'', health)]),
                                      map_option (\<lambda>e. firstNonEmpty [Hostname host, scvmTarget] @ '' scvm api health failed: '' @ e) err4), s4)))))"

fun scvm_prepare_loop ::
  "'w services \<Rightarrow> DeployRunRequest \<Rightarrow> string list \<Rightarrow> ClusterHost list \<Rightarrow> step_output list \<Rightarrow> 'w site \<Rightarrow>
     (string option \<times> step_output list) \<times> 'w site" where
  "scvm_prepare_loop sv req selection [] results s = ((None, results), s)"
| "scvm_prepare_loop sv req selection (host # hosts) results s =
     (if selection \<noteq> [] \<and> \<not> licenseApplyTargetMatchesFilter ''scvm'' (licenseApplySCVMHostname host) host selection
      then scvm_prepare_loop sv req selection hosts results s
      else if trim_space (Ablecube host) = [] then scvm_prepare_loop sv req selection hosts results s
      else (case scvmXMLRequestForHost (dr_SCVMByHost req) host of
              None \<Rightarrow> ((Some (''scvm config not found for host '' @ firstNonEmpty [Hostname host, trim_space (Ablecube host)]), results), s)
            | Some xmlReq \<Rightarrow>
                (let ((out, err), s1) = prepareSCVMOnHost sv (trim_space (Ablecube host)) host xmlReq s
                 in if err \<noteq> None then ((err, results @ [out]), s1)
                    else scvm_prepare_loop sv req selection hosts (results @ [out]) s1)))"

definition runDeployRunSCVMPrepare :: "'w services \<Rightarrow> DeployRunRequest \<Rightarrow> 'w site \<Rightarrow> step_return \<times> 'w site" where
  "runDeployRunSCVMPrepare sv req s =
     (case sv_config sv (si_world s) of
        None \<Rightarrow> (read_error, s)
      | Some cfg \<Rightarrow>
          if \<not> isHCITarget (sec_Type cfg) then (skipped (''scvm_prepare is not required for '' @ trim_space (sec_Type cfg)), s)
          else if dr_SCVMByHost req = [] then (deployRunMissingInput req ''scvm_prepare'' ''scvm_by_host required'', s)
          else (let ((err, results), s1) = scvm_prepare_loop sv req (licenseApplyHostnameFilter (dr_TargetHostnames req)) (sec_Hosts cfg) [] s
                in (case err of
                      Some e \<Rightarrow> failure e (OItems results)
                    | None \<Rightarrow> if results = [] then failure ''SCVM prepare target not found'' ONil
                              else success ''scvm prepare success'' (OItems results), s1)))"

definition bootstrapRequestFromDeployRun :: "DeployRunRequest \<Rightarrow> NodeBootstrapRequest" where
  "bootstrapRequestFromDeployRun req =
     \<lparr>nb_RunScript = dr_RunBootstrapScript req, nb_LicenseContent = dr_LicenseContent req, nb_Licenses = dr_Licenses req,
      nb_LicenseFilename = dr_LicenseFilename req, nb_TargetHostnames = dr_TargetHostnames req,
      nb_JoinExistingCluster = dr_JoinExistingSCVMCluster req\<rparr>"

definition bootstrapResponseToDeployOutcome :: "BootstrapResponse \<Rightarrow> step_return" where
  "bootstrapResponseToDeployOutcome resp =
     (if rs_Code resp = 200 then success (firstNonEmpty [rs_Message resp, bs_Role resp @ ''_bootstrap success'']) (OBody (rs_Body resp))
      else failure (firstNonEmpty [rs_Message resp, bs_Role resp @ ''_bootstrap failed'']) (OBody (rs_Body resp)))"

definition runDeployRunSCVMBootstrap ::
  "'w services \<Rightarrow> DeployRunRequest \<Rightarrow> string \<Rightarrow> string list \<Rightarrow> 'w site \<Rightarrow> step_return \<times> 'w site" where
  "runDeployRunSCVMBootstrap sv req auth executed s =
     (case sv_config sv (si_world s) of
        None \<Rightarrow> (read_error, s)
      | Some cfg \<Rightarrow>
          if \<not> isHCITarget (sec_Type cfg) then (skipped (''scvm_bootstrap is not required for '' @ trim_space (sec_Type cfg)), s)
          else if ''scvm_prepare'' \<notin> set executed \<and> \<not> deployRunStepExplicit req ''scvm_bootstrap''
          then (skipped ''scvm_bootstrap waits for scvm_prepare or explicit selection'', s)
          else (let (resp, s1) = perform (BootstrapRole (bootstrapRequestFromDeployRun req) cfg ''scvm'' auth) (sv_bootstrap sv) s
                in (bootstrapResponseToDeployOutcome resp, s1)))"

section \<open>Storage\<close>

text \<open>Besides what it returns, the step leaves the images for the storage step.\<close>

definition rbdManageResponseImages :: "RBDManageResponse \<Rightarrow> string list" where
  "rbdManageResponseImages resp =
     (case rb_ValImages resp of
        Some images \<Rightarrow> images
      | None \<Rightarrow> (case List.find (\<lambda>images. images \<noteq> []) (rb_ResultImages resp) of Some images \<Rightarrow> images | None \<Rightarrow> []))"

definition runDeployRunRBDPrepare ::
  "'w services \<Rightarrow> DeployRunRequest \<Rightarrow> string list \<Rightarrow> 'w site \<Rightarrow> step_return \<times> string list \<times> 'w site" where
  "runDeployRunRBDPrepare sv req images s =
     (case sv_config sv (si_world s) of
        None \<Rightarrow> (read_error, images, s)
      | Some cfg \<Rightarrow>
          if normalizeDeployOSType (sec_Type cfg) \<noteq> ''ablestack-hci-filesystem''
          then (skipped ''rbd_prepare is required for ablestack-hci-filesystem only'', images, s)
          else (case dr_RBD req of
                  None \<Rightarrow> (deployRunMissingInput req ''rbd_prepare'' ''rbd request required'', images, s)
                | Some rbd \<Rightarrow>
                    (case normalizeRBDManageRequest rbd False of
                       Inl err \<Rightarrow> (failure err ONil, images, s)
                     | Inr rbdReq \<Rightarrow>
                         if rq_Action rbdReq \<noteq> ''create'' then (failure ''rbd_prepare supports create action only'' ONil, images, s)
                         else (let (resp, s1) = perform (RBDManage rbdReq cfg) (sv_rbd sv) s
                               in if rs_Code resp \<noteq> 200
                                  then (failure (firstNonEmpty [rs_Message resp, rs_ValText resp, ''rbd prepare failed'']) (OBody (rs_Body resp)), images, s1)
                                  else (success (firstNonEmpty [rs_Message resp, ''rbd prepare success'']) (OBody (rs_Body resp)),
                                        normalizeStringSlice (rbdManageResponseImages resp), s1)))))"

text \<open>\<^verbatim>\<open>strings.Trim\<close> with one character.\<close>

definition trim_char :: "char \<Rightarrow> string \<Rightarrow> string" where
  "trim_char c s = rev (dropWhile (\<lambda>d. d = c) (rev (dropWhile (\<lambda>d. d = c) s)))"

definition gfs_base :: "GFSManageRequest \<Rightarrow> GFSManageRequest" where
  "gfs_base req =
     (let base = req\<lparr>gf_Action := ''init-pcs-cluster'', gf_ClusterName := or_else (gf_ClusterName req) gfsManageDefaultCluster,
                     gf_ClusterUser := or_else (gf_ClusterUser req) gfsManageDefaultPCSUser,
                     gf_ClusterPassword := or_else (gf_ClusterPassword req) gfsManageDefaultPCSPass,
                     gf_VGName := or_else (gf_VGName req) ''vg_glue'', gf_LVName := or_else (gf_LVName req) ''lv_glue'',
                     gf_GFSName := or_else (gf_GFSName req) ''glue-gfs'', gf_MountPoint := or_else (gf_MountPoint req) ''/mnt/glue-gfs''\<rparr>
      in base\<lparr>gf_VolumeGroups := normalizeGFSManageVolumeGroups (gf_VolumeGroups base) (gf_VGName base) (gf_LVName base)\<rparr>)"

definition rbd_devices :: "string list \<Rightarrow> string list" where
  "rbd_devices images =
     map (\<lambda>image. ''/dev/rbd/'' @ image) (filter (\<lambda>image. image \<noteq> []) (map (\<lambda>image. trim_char CHR ''/'' (trim_space image)) images))"

definition gfs_disks :: "GFSManageRequest \<Rightarrow> string \<Rightarrow> string list \<Rightarrow> string list outcome" where
  "gfs_disks base osType images =
     (let os = normalizeDeployOSType osType
      in if os = ''ablestack-hci-filesystem''
         then (if images = [] then Inl ''rbd_prepare did not return mapped images'' else Inr (rbd_devices images))
         else if os = ''ablestack-vm'' then Inr (normalizeStringSlice (gf_Disks base @ splitCommaValues (gf_Disk base)))
         else Inl (''GFS storage is not supported for '' @ osType))"

definition buildDeployRunGFSRequests :: "GFSManageRequest \<Rightarrow> string \<Rightarrow> string list \<Rightarrow> GFSManageRequest list outcome" where
  "buildDeployRunGFSRequests req osType images =
     (case gfs_disks (gfs_base req) osType images of
        Inl err \<Rightarrow> Inl err
      | Inr disks \<Rightarrow>
          (let base = (gfs_base req)\<lparr>gf_Disks := disks\<rparr>
           in if gf_Disks base = [] then Inl ''gfs disks required''
              else if gf_Stonith base = [] then Inl ''gfs stonith devices required''
              else Inr [base, no_gfs\<lparr>gf_Action := ''configure-stonith'', gf_Stonith := gf_Stonith base\<rparr>,
                        base\<lparr>gf_Action := ''create-gfs''\<rparr>, no_gfs\<lparr>gf_Action := ''set-alert''\<rparr>]))"

text \<open>A failed check names the action, which the check leaves as it is in these four requests.\<close>

fun storage_loop ::
  "'w services \<Rightarrow> DeployConfig \<Rightarrow> GFSManageRequest list \<Rightarrow> (string \<times> step_output) list \<Rightarrow> 'w site \<Rightarrow>
     (string option \<times> (string \<times> step_output) list) \<times> 'w site" where
  "storage_loop sv cfg [] out s = ((None, out), s)"
| "storage_loop sv cfg (req # reqs) out s =
     (case normalizeGFSManageRequest req of
        Inl err \<Rightarrow> ((Some (gf_Action req @ '' validation failed: '' @ err), out), s)
      | Inr gfsReq \<Rightarrow>
          (let (resp, s1) = perform (GFSManage gfsReq cfg) (sv_respond sv) s;
               out1 = out @ [(gf_Action gfsReq, OBody (rs_Body resp))]
           in if rs_Code resp \<noteq> 200
              then ((Some (gf_Action gfsReq @ '' failed: '' @ firstNonEmpty [rs_Message resp, rs_ValText resp, ''storage prepare failed'']), out1), s1)
              else storage_loop sv cfg reqs out1 s1))"

definition runDeployRunStoragePrepare ::
  "'w services \<Rightarrow> DeployRunRequest \<Rightarrow> string list \<Rightarrow> 'w site \<Rightarrow> step_return \<times> 'w site" where
  "runDeployRunStoragePrepare sv req images s =
     (case sv_config sv (si_world s) of
        None \<Rightarrow> (read_error, s)
      | Some cfg \<Rightarrow>
          (let osType = normalizeDeployOSType (sec_Type cfg)
           in if osType \<noteq> ''ablestack-vm'' \<and> osType \<noteq> ''ablestack-hci-filesystem''
              then (skipped (''storage_prepare is not required for '' @ trim_space (sec_Type cfg)), s)
              else (case dr_GFS req of
                      None \<Rightarrow> (deployRunMissingInput req ''storage_prepare'' ''gfs request required'', s)
                    | Some gfs \<Rightarrow>
                        (case buildDeployRunGFSRequests gfs osType images of
                           Inl err \<Rightarrow> (failure err ONil, s)
                         | Inr reqs \<Rightarrow>
                             (let ((err, out), s1) = storage_loop sv cfg reqs [] s
                              in (case err of Some e \<Rightarrow> failure e (OParts out) | None \<Rightarrow> success ''GFS storage prepare success'' (OParts out),
                                  s1))))))"

definition runDeployRunLocalPrepare :: "'w services \<Rightarrow> DeployRunRequest \<Rightarrow> 'w site \<Rightarrow> step_return \<times> 'w site" where
  "runDeployRunLocalPrepare sv req s =
     (case sv_config sv (si_world s) of
        None \<Rightarrow> (read_error, s)
      | Some cfg \<Rightarrow>
          if normalizeDeployOSType (sec_Type cfg) \<noteq> ''ablestack-standalone''
          then (skipped ''local_prepare is required for ablestack-standalone only'', s)
          else (case dr_Local req of
                  None \<Rightarrow> (deployRunMissingInput req ''local_prepare'' ''local request required'', s)
                | Some l \<Rightarrow>
                    (case normalizeLocalManageRequest l of
                       Inl err \<Rightarrow> (failure err ONil, s)
                     | Inr localReq \<Rightarrow>
                         (let (resp, s1) = perform (LocalManage localReq) (sv_respond sv) s
                          in (by_response [rs_ValText resp, ''local prepare failed''] [''local prepare success''] resp (OBody (rs_Body resp)), s1)))))"

section \<open>CCVM, monitoring and the system profile\<close>

definition error_response :: "int \<Rightarrow> string \<Rightarrow> response" where
  "error_response code message = zero_response\<lparr>rs_Code := code, rs_Message := message\<rparr>"

definition runCCVMCloudInitForDeploy :: "'w services \<Rightarrow> DeployConfig \<Rightarrow> CCVMCloudInitCreateRequest \<Rightarrow> 'w site \<Rightarrow> response \<times> 'w site" where
  "runCCVMCloudInitForDeploy sv cfg req' s =
     (case normalizeCCVMCloudInitCreateRequest req' of
        Inl err \<Rightarrow> (error_response 400 err, s)
      | Inr req \<Rightarrow>
          (case buildCreateCCVMCloudInitRequest (Some cfg) req of
             Inl err \<Rightarrow> (error_response 400 err, s)
           | Inr genReq \<Rightarrow>
               (let (targets, targetField) = ccvmCloudInitCopyTargets (Some cfg)
                in if targets = [] then (error_response 400 (targetField @ '' required''), s)
                   else (let (resp, s1) = perform (GenCloudInit genReq cfg) (sv_respond sv) s
                         in if rs_Code resp \<noteq> 200 then (resp, s1)
                            else (let (err, s2) = perform (CopyISO targets) (sv_copy sv) s1
                                  in (case err of
                                        Some e \<Rightarrow> resp\<lparr>rs_Code := 500, rs_Message := e\<rparr>
                                      | None \<Rightarrow> resp\<lparr>rs_Message := ''ccvm cloudinit iso create success''\<rparr>, s2))))))"

definition normalizeCCVMLifecycleRequest :: "CCVMLifecycleRequest \<Rightarrow> CCVMLifecycleRequest outcome" where
  "normalizeCCVMLifecycleRequest req =
     (let action = to_lower (trim_space (lc_Action req))
      in if action \<in> set [''initialize'', ''setup'', ''reset'', ''copy'', ''start'', ''stop'', ''restart'', ''delete'']
         then Inr (req\<lparr>lc_Action := action, lc_Disk := trim_space (lc_Disk req)\<rparr>)
         else Inl ''unsupported action'')"

definition no_ccvm_cloudinit :: CCVMCloudInitCreateRequest where
  "no_ccvm_cloudinit = \<lparr>ci_SNNIC = [], ci_SNIP = [], ci_SNPrefix = 0, ci_SNGW = [], ci_SNDNS = []\<rparr>"

text \<open>The parts of the step: each leaves the output so far and an error if it fails.\<close>

type_synonym part = "string option \<times> (string \<times> step_output) list"

definition ccvm_image_part :: "'w services \<Rightarrow> DeployConfig \<Rightarrow> DeployRunRequest \<Rightarrow> 'w site \<Rightarrow> part \<times> 'w site" where
  "ccvm_image_part sv cfg req s =
     (let cloudReq = (case dr_CCVMCloudInit req of Some r \<Rightarrow> r | None \<Rightarrow> no_ccvm_cloudinit);
          (resp, s1) = runCCVMCloudInitForDeploy sv cfg cloudReq s
      in ((if rs_Code resp \<noteq> 200 then Some (firstNonEmpty [rs_Message resp, ''ccvm cloudinit failed'']) else None,
           [(''cloudinit'', OBody (rs_Body resp))]), s1))"

definition ccvm_xml_part :: "'w services \<Rightarrow> DeployConfig \<Rightarrow> DeployRunRequest \<Rightarrow> (string \<times> step_output) list \<Rightarrow> 'w site \<Rightarrow> part \<times> 'w site" where
  "ccvm_xml_part sv cfg req out s =
     (case dr_CCVMXML req of
        None \<Rightarrow> ((None, out), s)
      | Some xml \<Rightarrow>
          (case sv_check_xml sv xml cfg of
             Inl err \<Rightarrow> ((Some err, out), s)
           | Inr xmlReq \<Rightarrow>
               (let (resp, s1) = perform (CCVMXML xmlReq cfg) (sv_respond sv) s
                in ((if rs_Code resp \<noteq> 200 then Some (firstNonEmpty [rs_Message resp, rs_ValText resp, ''ccvm xml failed'']) else None,
                     out @ [(''xml'', OBody (rs_Body resp))]), s1))))"

definition ccvm_lifecycle_part :: "'w services \<Rightarrow> DeployConfig \<Rightarrow> DeployRunRequest \<Rightarrow> (string \<times> step_output) list \<Rightarrow> 'w site \<Rightarrow> part \<times> 'w site" where
  "ccvm_lifecycle_part sv cfg req out s =
     (if dr_CCVMLifecycle req = None \<and> dr_CCVMXML req = None then ((None, out), s)
      else (case normalizeCCVMLifecycleRequest
               (case dr_CCVMLifecycle req of Some r \<Rightarrow> r | None \<Rightarrow> \<lparr>lc_Action = ''setup'', lc_Disk = [], lc_Destroy = False, lc_Purge = False\<rparr>) of
              Inl err \<Rightarrow> ((Some err, out), s)
            | Inr lifeReq \<Rightarrow>
                (let (resp, s1) = perform (CCVMLifecycle lifeReq cfg) (sv_respond sv) s
                 in ((if rs_Code resp \<noteq> 200 then Some (firstNonEmpty [rs_Message resp, rs_ValText resp, ''ccvm lifecycle failed'']) else None,
                      out @ [(''lifecycle'', OBody (rs_Body resp))]), s1))))"

definition ccvm_health_part :: "'w services \<Rightarrow> DeployConfig \<Rightarrow> (string \<times> step_output) list \<Rightarrow> 'w site \<Rightarrow> part \<times> 'w site" where
  "ccvm_health_part sv cfg out s =
     (let ((health, err), s1) = waitDeployRunAPIHealth sv (sec_CCVM_IP cfg) s
      in ((map_option (\<lambda>e. ''ccvm api health failed: '' @ e) err, out @ [(''api_health'', health)]), s1))"

definition and_part :: "part \<times> 'w site \<Rightarrow> ((string \<times> step_output) list \<Rightarrow> 'w site \<Rightarrow> part \<times> 'w site) \<Rightarrow> part \<times> 'w site" where
  "and_part p next_part = (case p of ((None, out), s) \<Rightarrow> next_part out s | ((Some err, out), s) \<Rightarrow> ((Some err, out), s))"

definition runDeployRunCCVMPrepare :: "'w services \<Rightarrow> DeployRunRequest \<Rightarrow> 'w site \<Rightarrow> step_return \<times> 'w site" where
  "runDeployRunCCVMPrepare sv req s =
     (case sv_config sv (si_world s) of
        None \<Rightarrow> (read_error, s)
      | Some cfg \<Rightarrow>
          if dr_CCVMCloudInit req = None \<and> dr_CCVMXML req = None \<and> dr_CCVMLifecycle req = None
          then (deployRunMissingInput req ''ccvm_prepare'' ''ccvm_cloudinit, ccvm_xml or ccvm_lifecycle required'', s)
          else (let ((err, out), s1) =
                  and_part (and_part (and_part (ccvm_image_part sv cfg req s) (ccvm_xml_part sv cfg req)) (ccvm_lifecycle_part sv cfg req))
                    (ccvm_health_part sv cfg)
                in (case err of Some e \<Rightarrow> failure e (OParts out) | None \<Rightarrow> success ''ccvm prepare success'' (OParts out), s1)))"

definition runDeployRunCCVMBootstrap ::
  "'w services \<Rightarrow> DeployRunRequest \<Rightarrow> string \<Rightarrow> string list \<Rightarrow> 'w site \<Rightarrow> step_return \<times> 'w site" where
  "runDeployRunCCVMBootstrap sv req auth executed s =
     (case sv_config sv (si_world s) of
        None \<Rightarrow> (read_error, s)
      | Some cfg \<Rightarrow>
          if ''ccvm_prepare'' \<notin> set executed \<and> \<not> deployRunStepExplicit req ''ccvm_bootstrap''
          then (skipped ''ccvm_bootstrap waits for ccvm_prepare or explicit selection'', s)
          else (let (lic, s1) = perform (LicenseApply (license_request req [''ccvm''] True) (Some cfg) auth) (sv_respond sv) s
                in if rs_Code lic \<noteq> 200
                   then (failure (firstNonEmpty [rs_Message lic, ''ccvm license apply failed'']) (OParts [(''license_apply'', OBody (rs_Body lic))]), s1)
                   else (let (resp, s2) = perform (BootstrapRole (bootstrapRequestFromDeployRun req) cfg ''ccvm'' auth) (sv_bootstrap sv) s1
                         in (bootstrapResponseToDeployOutcome resp, s2))))"

definition runDeployRunMonitoringPrepare ::
  "'w services \<Rightarrow> DeployRunRequest \<Rightarrow> string list \<Rightarrow> 'w site \<Rightarrow> step_return \<times> 'w site" where
  "runDeployRunMonitoringPrepare sv req executed s =
     (if ''ccvm_bootstrap'' \<notin> set executed \<and> \<not> deployRunStepExplicit req ''monitoring_prepare''
      then (skipped ''monitoring_prepare waits for ccvm_bootstrap or explicit selection'', s)
      else (case sv_config sv (si_world s) of
              None \<Rightarrow> (read_error, s)
            | Some cfg \<Rightarrow>
                (let m = (case dr_Monitoring req of
                            None \<Rightarrow> \<lparr>mo_Action = ''configure'', mo_Settings = VNil\<rparr>
                          | Some m \<Rightarrow> if trim_space (mo_Action m) = [] then m\<lparr>mo_Action := ''configure''\<rparr> else m);
                     (resp, s1) = perform (Monitoring m cfg) (sv_respond sv) s
                 in (by_response [''monitoring prepare failed''] [''monitoring prepare success''] resp (OBody (rs_Body resp)), s1))))"

definition flag :: "string \<Rightarrow> string \<Rightarrow> string \<Rightarrow> SystemFlag" where
  "flag depth1 depth2 v = \<lparr>fl_Depth1 = depth1, fl_Depth2 = depth2, fl_Value = v\<rparr>"

definition completed_flags :: "DeployConfig \<Rightarrow> string \<Rightarrow> string list \<Rightarrow> SystemFlag list" where
  "completed_flags cfg licenseType executed =
     (if ''license_apply'' \<in> set executed
      then flag ''license'' ''status'' ''true'' # (if licenseType \<noteq> [] then [flag ''license'' ''type'' licenseType] else []) else [])
     @ (if ''scvm_bootstrap'' \<in> set executed \<and> isHCITarget (sec_Type cfg) then [flag ''bootstrap'' ''scvm'' ''true''] else [])
     @ (if ''storage_prepare'' \<in> set executed
           \<and> normalizeDeployOSType (sec_Type cfg) \<in> {''ablestack-vm'', ''ablestack-hci-filesystem''}
        then [flag ''bootstrap'' ''gfs_configure'' ''true''] else [])
     @ (if ''local_prepare'' \<in> set executed \<and> normalizeDeployOSType (sec_Type cfg) = ''ablestack-standalone''
        then [flag ''bootstrap'' ''local_configure'' ''true''] else [])
     @ (if ''ccvm_bootstrap'' \<in> set executed then [flag ''bootstrap'' ''ccvm'' ''true''] else [])
     @ (if ''monitoring_prepare'' \<in> set executed then [flag ''bootstrap'' ''wall'' ''true''] else [])"

definition flag_key :: "SystemFlag \<Rightarrow> string" where
  "flag_key f = join_with ''|'' [fl_Depth1 f, fl_Depth2 f, fl_Value f]"

fun flag_loop :: "SystemFlag list \<Rightarrow> string list \<Rightarrow> SystemFlag list \<Rightarrow> SystemFlag list" where
  "flag_loop [] seen out = out"
| "flag_loop (f # fs) seen out =
     (if flag_key f \<in> set seen then flag_loop fs seen out else flag_loop fs (seen @ [flag_key f]) (out @ [f]))"

definition dedupeDeployRunSystemFlags :: "SystemFlag list \<Rightarrow> SystemFlag list" where
  "dedupeDeployRunSystemFlags flags = sort_key (\<lambda>f. join_with ''.'' [fl_Depth1 f, fl_Depth2 f]) (flag_loop flags [] [])"

definition runDeployRunSystemProfile :: "'w services \<Rightarrow> DeployRunRequest \<Rightarrow> string list \<Rightarrow> 'w site \<Rightarrow> step_return \<times> 'w site" where
  "runDeployRunSystemProfile sv req executed s =
     (if dr_UpdateSystemProfile req = Some False then (skipped ''system profile update disabled'', s)
      else (case sv_config sv (si_world s) of
              None \<Rightarrow> (read_error, s)
            | Some cfg \<Rightarrow>
                (let flags = dedupeDeployRunSystemFlags (completed_flags cfg (sv_license_type sv (si_world s)) executed)
                 in if flags = [] then (skipped ''no completed step flags to update'', s)
                    else (let ((results, err), s1) = perform (SystemFlags flags cfg) (sv_flags sv) s;
                              out = OParts [(''flags'', OFlags flags), (''results'', results)]
                          in (case err of Some e \<Rightarrow> failure e out | None \<Rightarrow> success ''system profile update success'' out, s1)))))"

section \<open>Running a job\<close>

definition runDeployRunStep ::
  "'w services \<Rightarrow> DeployRunRequest \<Rightarrow> string \<Rightarrow> string \<Rightarrow> string list \<Rightarrow> string list \<Rightarrow> 'w site \<Rightarrow> step_return \<times> string list \<times> 'w site" where
  "runDeployRunStep sv req step auth executed images s =
     (let keep = (\<lambda>(ret, s1). (ret, images, s1))
      in if step = ''license_apply'' then keep (runDeployRunLicenseApply sv req auth s)
         else if step = ''cluster_apply'' then keep (runDeployRunClusterApply sv req s)
         else if step = ''scvm_prepare'' then keep (runDeployRunSCVMPrepare sv req s)
         else if step = ''scvm_bootstrap'' then keep (runDeployRunSCVMBootstrap sv req auth executed s)
         else if step = ''rbd_prepare'' then runDeployRunRBDPrepare sv req images s
         else if step = ''storage_prepare'' then keep (runDeployRunStoragePrepare sv req images s)
         else if step = ''local_prepare'' then keep (runDeployRunLocalPrepare sv req s)
         else if step = ''ccvm_prepare'' then keep (runDeployRunCCVMPrepare sv req s)
         else if step = ''ccvm_bootstrap'' then keep (runDeployRunCCVMBootstrap sv req auth executed s)
         else if step = ''monitoring_prepare'' then keep (runDeployRunMonitoringPrepare sv req executed s)
         else if step = ''system_profile'' then keep (runDeployRunSystemProfile sv req executed s)
         else (failure ''unsupported deploy step'' ONil, images, s))"

fun run_deploy_steps ::
  "'w services \<Rightarrow> string \<Rightarrow> DeployRunRequest \<Rightarrow> string \<Rightarrow> string list \<Rightarrow> string list \<Rightarrow> string list \<Rightarrow> 'w site \<Rightarrow> deployRunJobStore \<Rightarrow>
     deployRunJobStore \<times> 'w site" where
  "run_deploy_steps sv jobID req auth [] executed images s st = (update_deploy jobID (deploy_succeeded (si_time s)) st, s)"
| "run_deploy_steps sv jobID req auth (step # steps) executed images s st =
     (let st1 = update_deploy jobID (deploy_step_begins (si_time s) step) st;
          ((err, outcome), images1, s1) = runDeployRunStep sv req step auth executed images s
      in case err of
           Some e \<Rightarrow> (update_deploy jobID (deploy_failed (si_time s1) (si_time s1) step e outcome) st1, s1)
         | None \<Rightarrow>
             run_deploy_steps sv jobID req auth steps (if oc_Status outcome = ''succeeded'' then executed @ [step] else executed) images1 s1
               (update_deploy jobID (markDeployRunStepFinished (si_time s1) step outcome) st1))"

definition runDeployRunJob ::
  "'w services \<Rightarrow> string \<Rightarrow> DeployRunRequest \<Rightarrow> string list \<Rightarrow> string \<Rightarrow> 'w site \<Rightarrow> deployRunJobStore \<Rightarrow> deployRunJobStore \<times> 'w site" where
  "runDeployRunJob sv jobID req steps auth s st =
     run_deploy_steps sv jobID req auth steps [] [] s (update_deploy jobID (deploy_started (si_time s)) st)"

end
