(* ===== verification/Deploy_Run.thy ===== *)
theory Deploy_Run
  imports Deploy_Steps
begin

text \<open>
  What a deployment does: which calls its steps make and when, that the run of a job is a run of the
  store's processes and ends, that what it writes to the system profile is true, that its storage
  requests pass the checks, and how long it waits for a node.
\<close>

section \<open>What a step returns\<close>

lemmas return_defs = success_def skipped_def failure_def deployRunSucceeded_def deployRunSkipped_def deployRunMissingInput_def
  read_error_def by_response_def bootstrapResponseToDeployOutcome_def

definition good_return :: "step_return \<Rightarrow> bool" where
  "good_return ret \<longleftrightarrow> (fst ret = None \<longrightarrow> step_report (snd ret))"

lemma good_returns [simp]:
  "good_return (success m out)" "good_return (skipped m)" "good_return (failure e out)" "good_return read_error"
  "good_return (deployRunMissingInput req step m)" "good_return (by_response errs oks resp out)"
  "good_return (bootstrapResponseToDeployOutcome r)"
  by (simp_all add: good_return_def return_defs step_report_def)

lemma good_license [simp]: "good_return (fst (runDeployRunLicenseApply sv req auth s))"
  by (simp add: runDeployRunLicenseApply_def Let_def split_beta split: option.split sum.split)

lemma good_cluster [simp]: "good_return (fst (runDeployRunClusterApply sv req s))"
  by (simp add: runDeployRunClusterApply_def Let_def split_beta split: option.split sum.split)

lemma good_scvm_prepare [simp]: "good_return (fst (runDeployRunSCVMPrepare sv req s))"
  by (simp add: runDeployRunSCVMPrepare_def Let_def split_beta split: option.split sum.split)

lemma good_scvm_bootstrap [simp]: "good_return (fst (runDeployRunSCVMBootstrap sv req auth executed s))"
  by (simp add: runDeployRunSCVMBootstrap_def Let_def split_beta split: option.split sum.split)

lemma good_rbd [simp]: "good_return (fst (runDeployRunRBDPrepare sv req images s))"
  by (simp add: runDeployRunRBDPrepare_def Let_def split_beta split: option.split sum.split)

lemma good_storage [simp]: "good_return (fst (runDeployRunStoragePrepare sv req images s))"
  by (simp add: runDeployRunStoragePrepare_def Let_def split_beta split: option.split sum.split)

lemma good_local [simp]: "good_return (fst (runDeployRunLocalPrepare sv req s))"
  by (simp add: runDeployRunLocalPrepare_def Let_def split_beta split: option.split sum.split)

lemma good_ccvm_prepare [simp]: "good_return (fst (runDeployRunCCVMPrepare sv req s))"
  by (simp add: runDeployRunCCVMPrepare_def Let_def split_beta split: option.split sum.split)

lemma good_ccvm_bootstrap [simp]: "good_return (fst (runDeployRunCCVMBootstrap sv req auth executed s))"
  by (simp add: runDeployRunCCVMBootstrap_def Let_def split_beta split: option.split sum.split)

lemma good_monitoring [simp]: "good_return (fst (runDeployRunMonitoringPrepare sv req executed s))"
  by (simp add: runDeployRunMonitoringPrepare_def Let_def split_beta split: option.split sum.split)

lemma good_profile [simp]: "good_return (fst (runDeployRunSystemProfile sv req executed s))"
  by (simp add: runDeployRunSystemProfile_def Let_def split_beta split: option.split sum.split)

lemma runDeployRunStep_report: "good_return (fst (runDeployRunStep sv req step auth executed images s))"
  by (simp add: runDeployRunStep_def Let_def split_beta)

section \<open>The run is a run of the processes\<close>

lemma run_steps_reach:
  "deploy_reachable d \<Longrightarrow> fmlookup (p_procs d) jobID = Some (DLooping steps) \<Longrightarrow>
     deploy_reachable \<lparr>p_store = fst (run_deploy_steps sv jobID req auth steps executed images s (p_store d)),
                       p_procs = fmupd jobID DFinished (p_procs d)\<rparr>"
proof (induction steps arbitrary: d executed images s)
  case Nil
  from deploy_next [OF Nil(1) d_finish [OF Nil(2), of "si_time s"]] show ?case by simp
next
  case (Cons step steps)
  let ?st1 = "update_deploy jobID (deploy_step_begins (si_time s) step) (p_store d)"
  let ?d1 = "\<lparr>p_store = ?st1, p_procs = fmupd jobID (DExecuting step steps) (p_procs d)\<rparr>"
  have r1: "deploy_reachable ?d1" by (rule deploy_next [OF Cons(2) d_next [OF Cons(3)]])
  have p1: "fmlookup (p_procs ?d1) jobID = Some (DExecuting step steps)" by simp
  obtain err outcome images1 s1 where run: "runDeployRunStep sv req step auth executed images s = ((err, outcome), images1, s1)"
    by (metis prod.exhaust)
  have again: "fmupd jobID q (fmupd jobID p m) = fmupd jobID q m" for p q and m :: "(string, deploy_process) fmap"
    by (rule fmap_ext) simp
  show ?case
  proof (cases err)
    case (Some e)
    from deploy_next [OF r1 d_fail [OF p1, of "si_time s1" "si_time s1" e outcome]] show ?thesis by (simp add: run Some again)
  next
    case None
    have "step_report outcome" using runDeployRunStep_report [of sv req step auth executed images s] None by (simp add: run good_return_def)
    from deploy_next [OF r1 d_step [OF p1 this, of "si_time s1"]]
    have r2: "deploy_reachable \<lparr>p_store = update_deploy jobID (markDeployRunStepFinished (si_time s1) step outcome) ?st1,
        p_procs = fmupd jobID (DLooping steps) (p_procs d)\<rparr>" by (simp add: again)
    from Cons.IH [OF r2] show ?thesis by (simp add: run None again)
  qed
qed

lemma run_job_reach:
  assumes "deploy_reachable d" and "fmlookup (p_procs d) jobID = Some (DQueued steps)"
  shows "deploy_reachable \<lparr>p_store = fst (runDeployRunJob sv jobID req steps auth s (p_store d)), p_procs = fmupd jobID DFinished (p_procs d)\<rparr>"
proof -
  let ?d1 = "\<lparr>p_store = update_deploy jobID (deploy_started (si_time s)) (p_store d), p_procs = fmupd jobID (DLooping steps) (p_procs d)\<rparr>"
  have "deploy_reachable ?d1" by (rule deploy_next [OF assms(1) d_run [OF assms(2)]])
  moreover have "fmlookup (p_procs ?d1) jobID = Some (DLooping steps)" by simp
  ultimately have "deploy_reachable \<lparr>p_store = fst (run_deploy_steps sv jobID req auth steps [] [] s (p_store ?d1)),
      p_procs = fmupd jobID DFinished (p_procs ?d1)\<rparr>" by (rule run_steps_reach)
  moreover have "fmupd jobID DFinished (p_procs ?d1) = fmupd jobID DFinished (p_procs d)" by (rule fmap_ext) simp
  ultimately show ?thesis by (simp add: runDeployRunJob_def)
qed

lemma get_update_deploy: "get_deploy k (update_deploy jobID f st) = (if k = jobID then map_option f (get_deploy jobID st) else get_deploy k st)"
  by (simp add: get_deploy_def lookup_update_deploy)

lemma run_keeps_job:
  "get_deploy jobID st \<noteq> None \<Longrightarrow> get_deploy jobID (fst (run_deploy_steps sv jobID req auth steps executed images s st)) \<noteq> None"
  by (induction steps arbitrary: executed images s st) (auto simp: Let_def split_beta get_update_deploy split: option.split)

text \<open>
  C17. A deployment always comes to its end, whatever its steps meet: the run of the accepted job is a
  run of the processes of the store and leaves the job succeeded or failed, with its time and no
  current step, and the next valid request is accepted.
\<close>

theorem deployment_ends:
  assumes "deploy_reachable d" and "fmlookup (p_procs d) jobID = Some (DQueued steps)"
    and st_def: "st = fst (runDeployRunJob sv jobID req steps auth s (p_store d))"
  shows "deploy_reachable \<lparr>p_store = st, p_procs = fmupd jobID DFinished (p_procs d)\<rparr>
     \<and> (\<exists>job. get_deploy jobID st = Some job \<and> dj_Status job \<in> {''succeeded'', ''failed''} \<and> dj_FinishedAt job \<noteq> None \<and> dj_CurrentStep job = [])
     \<and> (validateDeployRunSelection first req' = None \<and> selectedDeployRunSteps req' \<noteq> [] \<longrightarrow>
          (\<exists>resp st'. StartDeployRun first (Some req') k now st = (Inr resp, st')))"
proof -
  let ?d = "\<lparr>p_store = st, p_procs = fmupd jobID DFinished (p_procs d)\<rparr>"
  have reach: "deploy_reachable ?d" unfolding st_def by (rule run_job_reach [OF assms(1,2)])
  note inv = deploy_inv_reachable [OF assms(1)] and inv' = deploy_inv_reachable [OF reach]
  have "get_deploy jobID (p_store d) \<noteq> None" using deploy_invD(3) [OF inv assms(2)] by (simp add: get_deploy_def)
  then have "get_deploy jobID st \<noteq> None"
    unfolding st_def runDeployRunJob_def by (intro run_keeps_job) (simp add: get_update_deploy)
  then obtain job where job: "get_deploy jobID st = Some job" by blast
  have "deploy_ok DFinished job" using deploy_invD(2) [OF inv', of jobID job] job by (simp add: get_deploy_def)
  then have ended: "dj_Status job \<in> {''succeeded'', ''failed''} \<and> dj_FinishedAt job \<noteq> None \<and> dj_CurrentStep job = []"
    by (auto simp: deploy_ended_def)
  have idle: "\<not> fBex (fmran (d_jobs st)) active_job"
    unfolding no_active
  proof (intro allI impI notI)
    fix k job' assume k: "fmlookup (d_jobs st) k = Some job'" "active_job job'"
    then obtain p where p: "fmlookup (p_procs ?d) k = Some p" "p \<noteq> DFinished" using active_process [OF inv', of k job'] by auto
    then have "k \<noteq> jobID" "fmlookup (p_procs d) k = Some p" by (auto split: if_splits)
    with deploy_invD(4) [OF inv this(2) assms(2) p(2)] show False by simp
  qed
  then have "\<exists>resp st'. StartDeployRun first (Some req') k now st = (Inr resp, st')"
    if "validateDeployRunSelection first req' = None" "selectedDeployRunSteps req' \<noteq> []"
    using that by (simp add: StartDeployRun_def createIfIdle_def Let_def)
  with reach job ended show ?thesis by blast
qed

section \<open>The calls of a step\<close>

text \<open>
  The steps that a call can belong to, and what must have been \<open>earned\<close> before it: the roles
  are set up and the monitoring is configured only after the step that prepares them succeeded or when
  the request names the step, images are only created, and a flag is written only if its step succeeded.
\<close>

definition prepared :: "DeployRunRequest \<Rightarrow> (string \<Rightarrow> bool) \<Rightarrow> string \<Rightarrow> string \<Rightarrow> bool" where
  "prepared req earned prepare step \<longleftrightarrow> earned prepare \<or> deployRunStepExplicit req step"

definition earned_flag :: "(string \<Rightarrow> bool) \<Rightarrow> DeployConfig \<Rightarrow> SystemFlag \<Rightarrow> bool" where
  "earned_flag earned cfg f \<longleftrightarrow>
     fl_Depth1 f = ''license'' \<and> earned ''license_apply''
     \<or> f = flag ''bootstrap'' ''scvm'' ''true'' \<and> isHCITarget (sec_Type cfg) \<and> earned ''scvm_bootstrap''
     \<or> f = flag ''bootstrap'' ''gfs_configure'' ''true'' \<and> earned ''storage_prepare''
     \<or> f = flag ''bootstrap'' ''local_configure'' ''true'' \<and> earned ''local_prepare''
     \<or> f = flag ''bootstrap'' ''ccvm'' ''true'' \<and> earned ''ccvm_bootstrap''
     \<or> f = flag ''bootstrap'' ''wall'' ''true'' \<and> earned ''monitoring_prepare''"

definition deploy_gfs_actions :: "string list" where
  "deploy_gfs_actions = [''init-pcs-cluster'', ''configure-stonith'', ''create-gfs'', ''set-alert'']"

fun justified :: "DeployRunRequest \<Rightarrow> (string \<Rightarrow> bool) \<Rightarrow> string \<Rightarrow> call \<Rightarrow> bool" where
  "justified req earned step (Http q) \<longleftrightarrow> step \<in> {''scvm_prepare'', ''ccvm_prepare''}"
| "justified req earned step (Sleep d) \<longleftrightarrow> step \<in> {''scvm_prepare'', ''ccvm_prepare''}"
| "justified req earned step (LicenseApply r cfg auth) \<longleftrightarrow>
     step = ''license_apply'' \<and> la_Roles r = []
     \<or> step = ''ccvm_bootstrap'' \<and> la_Roles r = [''ccvm''] \<and> prepared req earned ''ccvm_prepare'' step"
| "justified req earned step (ClusterApply c) \<longleftrightarrow> step = ''cluster_apply'' \<and> dr_Cluster req = Some c"
| "justified req earned step (BootstrapRole r cfg role auth) \<longleftrightarrow>
     step = ''scvm_bootstrap'' \<and> role = ''scvm'' \<and> isHCITarget (sec_Type cfg) \<and> prepared req earned ''scvm_prepare'' step
     \<or> step = ''ccvm_bootstrap'' \<and> role = ''ccvm'' \<and> prepared req earned ''ccvm_prepare'' step"
| "justified req earned step (RBDManage r cfg) \<longleftrightarrow> step = ''rbd_prepare'' \<and> rq_Action r = ''create''"
| "justified req earned step (GFSManage r cfg) \<longleftrightarrow> step = ''storage_prepare'' \<and> gf_Action r \<in> set deploy_gfs_actions"
| "justified req earned step (LocalManage r) \<longleftrightarrow> step = ''local_prepare''"
| "justified req earned step (GenCloudInit r cfg) \<longleftrightarrow> step = ''ccvm_prepare''"
| "justified req earned step (CopyISO targets) \<longleftrightarrow> step = ''ccvm_prepare'' \<and> targets \<noteq> []"
| "justified req earned step (CCVMXML xml cfg) \<longleftrightarrow> step = ''ccvm_prepare'' \<and> dr_CCVMXML req \<noteq> None"
| "justified req earned step (CCVMLifecycle r cfg) \<longleftrightarrow> step = ''ccvm_prepare'' \<and> (dr_CCVMLifecycle req \<noteq> None \<or> dr_CCVMXML req \<noteq> None)"
| "justified req earned step (Monitoring m cfg) \<longleftrightarrow> step = ''monitoring_prepare'' \<and> prepared req earned ''ccvm_bootstrap'' step"
| "justified req earned step (SystemFlags flags cfg) \<longleftrightarrow>
     step = ''system_profile'' \<and> dr_UpdateSystemProfile req \<noteq> Some False \<and> flags \<noteq> [] \<and> list_all (earned_flag earned cfg) flags"

lemma earned_flag_mono: "earned_flag E cfg f \<Longrightarrow> (\<And>e. E e \<Longrightarrow> E' e) \<Longrightarrow> earned_flag E' cfg f"
  unfolding earned_flag_def by metis

lemma justified_mono: "justified req E step c \<Longrightarrow> (\<And>e. E e \<Longrightarrow> E' e) \<Longrightarrow> justified req E' step c"
  by (cases c) (auto simp: prepared_def list_all_iff intro: earned_flag_mono)

text \<open>The calls made between two moments.\<close>

definition made :: "(call \<Rightarrow> bool) \<Rightarrow> 'w site \<Rightarrow> 'w site \<Rightarrow> bool" where
  "made P s s' \<longleftrightarrow> (\<exists>cs. si_calls s' = si_calls s @ cs \<and> list_all P cs)"

lemma made_refl [simp]: "made P s s"
  by (simp add: made_def)

lemma made_trans: "made P s s1 \<Longrightarrow> made P s1 s2 \<Longrightarrow> made P s s2"
  by (auto simp: made_def)

lemma made_mono: "made P s s' \<Longrightarrow> (\<And>c. P c \<Longrightarrow> Q c) \<Longrightarrow> made Q s s'"
  by (auto simp: made_def list_all_iff)

lemma made_perform [simp]: "made P s s1 \<Longrightarrow> P c \<Longrightarrow> made P s (snd (perform c serve s1))"
  by (auto simp: made_def perform_def split_beta Let_def)

lemma made_sleep [simp]: "made P s s1 \<Longrightarrow> P (Sleep d) \<Longrightarrow> made P s (sleep d s1)"
  by (auto simp: made_def sleep_def)

lemma made_post: "(\<And>q. P (Http q)) \<Longrightarrow> made P s (snd (deployRunPostJSON sv target path payload s))"
  by (simp add: deployRunPostJSON_def Let_def split_beta split: option.split)

lemma made_update: "(\<And>q. P (Http q)) \<Longrightarrow> made P s (snd (callSCVMUpdateRemote sv target payload s))"
  by (simp add: callSCVMUpdateRemote_def Let_def split_beta split: option.split)

lemma made_health: "(\<And>q. P (Http q)) \<Longrightarrow> made P s (snd (callHealthTarget sv target s))"
  by (simp add: callHealthTarget_def Let_def split_beta split: option.split)

section \<open>Waiting for the health of a node\<close>

text \<open>One round of the loop over the state of the attempts: the left answer is the error reported after the deadline.\<close>

definition health_probe :: "'w services \<Rightarrow> string \<Rightarrow> nat \<times> 'w site \<Rightarrow> (string option + string option) \<times> nat \<times> 'w site" where
  "health_probe sv target = (\<lambda>(attempts, s).
     (let (err, s1) = callHealthTarget sv target s in (if err = None then Inr None else Inl err, Suc attempts, s1)))"

definition health_pause :: "nat \<times> 'w site \<Rightarrow> nat \<times> 'w site" where
  "health_pause = (\<lambda>(attempts, s). (attempts, sleep health_delay s))"

interpretation health_poll: bounded_poll "health_probe sv target" health_pause "si_time \<circ> snd" fst deadline health_delay
    "health_loop sv target (deadline + health_delay)"
  for sv :: "'w services" and target deadline
proof
  fix x :: "nat \<times> 'w site"
  obtain attempts s where x: "x = (attempts, s)" by (cases x)
  obtain err s1 where c: "callHealthTarget sv target s = (err, s1)" by (cases "callHealthTarget sv target s")
  show "health_loop sv target (deadline + health_delay) x =
      (case health_probe sv target x of
         (Inr out, s1) \<Rightarrow> (out, s1)
       | (Inl late, s1) \<Rightarrow>
           if (si_time \<circ> snd) s1 > deadline then (late, s1) else health_loop sv target (deadline + health_delay) (health_pause s1))"
    unfolding x by (subst health_loop.simps) (auto simp: c health_probe_def health_pause_def split: option.split)
  show "(si_time \<circ> snd) x \<le> (si_time \<circ> snd) (snd (health_probe sv target x))"
    using callHealthTarget_time [of s sv target] by (simp add: x c health_probe_def)
  show "fst (snd (health_probe sv target x)) \<le> Suc (fst x)" by (simp add: x c health_probe_def)
  show "(si_time \<circ> snd) (health_pause x) = (si_time \<circ> snd) x + health_delay" by (simp add: x health_pause_def sleep_def)
  show "fst (health_pause x) = fst x" by (simp add: x health_pause_def)
qed (simp add: health_delay_def whole_seconds_def)

lemma health_deadline: "t + whole_seconds 300 = (t + whole_seconds 295) + health_delay"
  by (simp add: whole_seconds_def health_delay_def)

lemma made_health_loop:
  assumes "\<And>q. P (Http q)" and "\<And>d. P (Sleep d)"
  shows "made P s (snd (snd (health_loop sv target (deadline + health_delay) (n, s))))"
proof -
  have "made P (snd (n, s)) (snd (snd (health_loop sv target (deadline + health_delay) (n, s))))"
    by (rule health_poll.poll_rel [where R = "\<lambda>x y. made P (snd x) (snd y)"])
      (auto simp: health_probe_def health_pause_def split_beta Let_def assms made_health intro: made_trans)
  then show ?thesis by simp
qed

lemma made_policy_loop:
  assumes "\<And>q. P (Http q)" and "\<And>d. P (Sleep d)"
  shows "made P s (snd (policy_loop sv target interval attempt left e s))"
proof (induction sv target interval attempt left e s rule: policy_loop.induct)
  case (2 sv target interval attempt left e s)
  obtain err s1 where c: "callHealthTarget sv target s = (err, s1)" by (cases "callHealthTarget sv target s")
  have m: "made P s s1" using made_health [of P s sv target] assms(1) c by simp
  show ?case
  proof (cases err)
    case (Some e1)
    have "made P (if left > 0 then sleep interval s1 else s1)
        (snd (policy_loop sv target interval (Suc attempt) left e1 (if left > 0 then sleep interval s1 else s1)))"
      using 2 c Some by metis
    moreover have "made P s (if left > 0 then sleep interval s1 else s1)" using m assms(2) by simp
    ultimately show ?thesis using made_trans by (fastforce simp: c Some)
  qed (simp add: c m)
qed simp

lemma made_wait:
  assumes "\<And>q. P (Http q)" and "\<And>d. P (Sleep d)"
  shows "made P s (snd (waitDeployRunAPIHealth sv target s))"
    and "made P s (snd (waitDeployRunAPIHealthWithPolicy sv target m i s))"
  by (simp_all add: waitDeployRunAPIHealth_def waitDeployRunAPIHealthWithPolicy_def Let_def split_beta health_deadline
      made_health_loop [of P, OF assms] made_policy_loop [of P, OF assms] del: policy_loop.simps)

text \<open>
  Waiting for a node is bounded: after a deployment of the CCVM at most 61 requests in five
  minutes, after that of an SCVM at most the attempts of the policy; both report the node healthy
  exactly when the last request was answered well.
\<close>

theorem health_wait_bounded:
  "fst (snd (health_loop sv target (si_time s + whole_seconds 300) (0, s))) \<le> 61
   \<and> (\<exists>s'. callHealthTarget sv target s' = (fst (health_loop sv target (si_time s + whole_seconds 300) (0, s)),
                                             snd (snd (health_loop sv target (si_time s + whole_seconds 300) (0, s)))))
   \<and> snd (fst (policy_loop sv target interval 0 (Suc left) e s)) \<le> Suc left
   \<and> (\<exists>s'. callHealthTarget sv target s' = (fst (fst (policy_loop sv target interval 0 (Suc left) e s)),
                                             snd (policy_loop sv target interval 0 (Suc left) e s)))"
proof -
  let ?r = "health_loop sv target (si_time s + whole_seconds 295 + health_delay) (0, s)"
  have n: "fst (snd ?r) \<le> 61"
    using health_poll.poll_bound [where sv = sv and target = target and deadline = "si_time s + whole_seconds 295" and s = "(0, s)"]
    by (simp add: whole_seconds_def health_delay_def)
  obtain x a where x: "health_probe sv target x = (a, snd ?r)" "a = Inr (fst ?r) \<or> a = Inl (fst ?r)"
    using health_poll.poll_result [where sv = sv and target = target and deadline = "si_time s + whole_seconds 295" and s = "(0, s)"] by blast
  then have h: "\<exists>s'. callHealthTarget sv target s' = (fst ?r, snd (snd ?r))"
    by (cases x) (auto simp: health_probe_def split_beta Let_def prod_eq_iff split: if_splits)
  have p: "snd (fst (policy_loop sv target interval attempt (Suc left) e s)) \<le> attempt + Suc left
      \<and> (\<exists>s'. callHealthTarget sv target s' = (fst (fst (policy_loop sv target interval attempt (Suc left) e s)),
                                                snd (policy_loop sv target interval attempt (Suc left) e s)))" for attempt e s
  proof (induction left arbitrary: attempt e s)
    case 0
    show ?case by (auto simp: split_beta Let_def prod_eq_iff split: option.split)
  next
    case (Suc left)
    obtain err s1 where c: "callHealthTarget sv target s = (err, s1)" by (cases "callHealthTarget sv target s")
    show ?case
    proof (cases err)
      case None
      with c show ?thesis by auto
    next
      case (Some e1)
      from Suc.IH [of "Suc attempt" e1 "sleep interval s1"] show ?thesis
        by (subst (1 2 3) policy_loop.simps(2)) (simp add: c Some del: policy_loop.simps)
    qed
  qed
  from n h p [of 0] show ?thesis by (simp only: health_deadline) simp
qed

section \<open>Every call belongs to its step\<close>

lemma made_then [simp]:
  assumes "\<And>q. P (Http q)" and "\<And>d. P (Sleep d)" and "made P s s1"
  shows "made P s (snd (deployRunPostJSON sv target path payload s1))" and "made P s (snd (callSCVMUpdateRemote sv target payload s1))"
    and "made P s (snd (waitDeployRunAPIHealth sv target s1))" and "made P s (snd (waitDeployRunAPIHealthWithPolicy sv target m i s1))"
  using assms made_trans [of P s s1] made_post [of P] made_update [of P] made_wait [of P] by metis+

lemma made_scvm_host:
  assumes "\<And>q. P (Http q)" and "\<And>d. P (Sleep d)"
  shows "made P s (snd (prepareSCVMOnHost sv target host xml s))"
  by (simp add: prepareSCVMOnHost_def Let_def split_beta assms)

lemma made_scvm_loop:
  assumes "\<And>q. P (Http q)" and "\<And>d. P (Sleep d)"
  shows "made P s (snd (scvm_prepare_loop sv req selection hosts results s))"
proof (induction hosts arbitrary: selection results s)
  case (Cons host hosts)
  then show ?case
    using made_trans [OF made_scvm_host [of P, OF assms] Cons.IH]
    by (auto simp: split_beta Let_def made_scvm_host assms split: option.split)
qed simp

lemma normalizeGFS_action:
  assumes "normalizeGFSManageRequest req = Inr r" and "gf_Action req \<in> set gfs_actions"
  shows "gf_Action r = gf_Action req"
proof -
  obtain r1 r2 where sw: "gfs_switch req = Inr r1" and cl: "gfs_cluster (gfs_trim r1) = Inr r2" and r: "r = gfs_create_defaults (gfs_lists r2)"
    using normalize_gfsD [OF assms(1)] by metis
  have "gf_Action r1 = gf_Action req"
    using sw gfs_actions_plain [OF assms(2)] assms(2) by (auto simp: gfs_switch_def Let_def split: if_splits)
  moreover have "gf_Action r2 = gf_Action (gfs_trim r1)" by (subst gfs_cluster_okD(1) [OF cl]) simp
  ultimately show ?thesis by (simp add: r gfs_trim_def gfs_create_defaults_def gfs_lists_def)
qed

lemma made_storage_loop:
  assumes "\<And>r cfg. gf_Action r \<in> set deploy_gfs_actions \<Longrightarrow> P (GFSManage r cfg)"
  shows "\<forall>r \<in> set reqs. gf_Action r \<in> set deploy_gfs_actions \<Longrightarrow> made P s (snd (storage_loop sv cfg reqs out s))"
proof (induction reqs arbitrary: out s)
  case (Cons req reqs)
  have known: "gf_Action req \<in> set gfs_actions" using Cons.prems by (auto simp: deploy_gfs_actions_def gfs_actions_def)
  show ?case
  proof (cases "normalizeGFSManageRequest req")
    case (Inr r)
    then have "gf_Action r \<in> set deploy_gfs_actions" using normalizeGFS_action [OF Inr known] Cons.prems by simp
    then have m: "made P s (snd (perform (GFSManage r cfg) (sv_respond sv) s))" by (simp add: assms)
    with made_trans [OF m Cons.IH] Cons.prems show ?thesis by (auto simp: Inr split_beta Let_def)
  qed simp
qed simp

lemma gfs_requests_actions:
  "buildDeployRunGFSRequests req osType images = Inr reqs \<Longrightarrow> map gf_Action reqs = deploy_gfs_actions"
  by (auto simp: buildDeployRunGFSRequests_def Let_def deploy_gfs_actions_def gfs_base_def split: sum.splits if_splits)

lemma made_and_part:
  "made P s (snd p) \<Longrightarrow> (\<And>out s1. made P s s1 \<Longrightarrow> made P s (snd (next_part out s1))) \<Longrightarrow> made P s (snd (and_part p next_part))"
  by (auto simp: and_part_def split: prod.split option.split)

abbreviation own_calls :: "DeployRunRequest \<Rightarrow> string list \<Rightarrow> string \<Rightarrow> 'w site \<Rightarrow> 'w site \<Rightarrow> bool" where
  "own_calls req executed step \<equiv> made (justified req (\<lambda>e. e \<in> set executed) step)"

lemma calls_license [simp]: "own_calls req executed ''license_apply'' s (snd (runDeployRunLicenseApply sv req auth s))"
  by (simp add: runDeployRunLicenseApply_def Let_def split_beta license_request_def)

lemma calls_cluster [simp]: "own_calls req executed ''cluster_apply'' s (snd (runDeployRunClusterApply sv req s))"
  by (simp add: runDeployRunClusterApply_def Let_def split_beta split: option.split)

lemma calls_scvm_prepare [simp]: "own_calls req executed ''scvm_prepare'' s (snd (runDeployRunSCVMPrepare sv req s))"
  by (simp add: runDeployRunSCVMPrepare_def Let_def split_beta made_scvm_loop split: option.split)

lemma calls_scvm_bootstrap [simp]: "own_calls req executed ''scvm_bootstrap'' s (snd (runDeployRunSCVMBootstrap sv req auth executed s))"
  by (simp add: runDeployRunSCVMBootstrap_def Let_def split_beta prepared_def split: option.split)

lemma calls_rbd [simp]: "own_calls req executed ''rbd_prepare'' s (snd (snd (runDeployRunRBDPrepare sv req images s)))"
  by (simp add: runDeployRunRBDPrepare_def Let_def split_beta split: option.split sum.split)

lemma calls_storage [simp]: "own_calls req executed ''storage_prepare'' s (snd (runDeployRunStoragePrepare sv req images s))"
proof -
  have "\<forall>r \<in> set reqs. gf_Action r \<in> set deploy_gfs_actions" if "buildDeployRunGFSRequests gfs osType images = Inr reqs" for gfs osType reqs
    using gfs_requests_actions [OF that] by (metis image_eqI set_map)
  then show ?thesis
    by (auto simp: runDeployRunStoragePrepare_def Let_def split_beta intro!: made_storage_loop split: option.split sum.split)
qed

lemma calls_local [simp]: "own_calls req executed ''local_prepare'' s (snd (runDeployRunLocalPrepare sv req s))"
  by (simp add: runDeployRunLocalPrepare_def Let_def split_beta split: option.split sum.split)

lemma calls_ccvm_image:
  "own_calls req executed ''ccvm_prepare'' s (snd (ccvm_image_part sv cfg req s))"
  by (simp add: ccvm_image_part_def runCCVMCloudInitForDeploy_def Let_def split_beta split: option.split sum.split)

lemma calls_ccvm_prepare [simp]: "own_calls req executed ''ccvm_prepare'' s (snd (runDeployRunCCVMPrepare sv req s))"
proof -
  have xml: "own_calls req executed ''ccvm_prepare'' s (snd (ccvm_xml_part sv cfg req out s1))"
    if "own_calls req executed ''ccvm_prepare'' s s1" for cfg out s1
    using that by (simp add: ccvm_xml_part_def Let_def split_beta split: option.split sum.split)
  have life: "own_calls req executed ''ccvm_prepare'' s (snd (ccvm_lifecycle_part sv cfg req out s1))"
    if "own_calls req executed ''ccvm_prepare'' s s1" for cfg out s1
    using that by (simp add: ccvm_lifecycle_part_def Let_def split_beta split: option.split sum.split)
  have health: "own_calls req executed ''ccvm_prepare'' s (snd (ccvm_health_part sv cfg out s1))"
    if "own_calls req executed ''ccvm_prepare'' s s1" for cfg out s1
    using that by (simp add: ccvm_health_part_def Let_def split_beta)
  show ?thesis
    by (auto simp: runDeployRunCCVMPrepare_def Let_def split_beta intro!: made_and_part xml life health calls_ccvm_image split: option.split)
qed

lemma calls_ccvm_bootstrap [simp]: "own_calls req executed ''ccvm_bootstrap'' s (snd (runDeployRunCCVMBootstrap sv req auth executed s))"
  by (simp add: runDeployRunCCVMBootstrap_def Let_def split_beta prepared_def license_request_def split: option.split)

lemma calls_monitoring [simp]: "own_calls req executed ''monitoring_prepare'' s (snd (runDeployRunMonitoringPrepare sv req executed s))"
  by (simp add: runDeployRunMonitoringPrepare_def Let_def split_beta prepared_def split: option.split)

lemma set_flag_loop: "set (flag_loop fs seen out) \<subseteq> set fs \<union> set out"
  by (induction fs seen out rule: flag_loop.induct) auto

lemma in_conditional: "x \<in> set (if c then xs else []) \<Longrightarrow> c \<and> x \<in> set xs"
  by (cases c) simp_all

lemma earned_flagI:
  "fl_Depth1 f = ''license'' \<Longrightarrow> E ''license_apply'' \<Longrightarrow> earned_flag E cfg f"
  "isHCITarget (sec_Type cfg) \<Longrightarrow> E ''scvm_bootstrap'' \<Longrightarrow> earned_flag E cfg (flag ''bootstrap'' ''scvm'' ''true'')"
  "E ''storage_prepare'' \<Longrightarrow> earned_flag E cfg (flag ''bootstrap'' ''gfs_configure'' ''true'')"
  "E ''local_prepare'' \<Longrightarrow> earned_flag E cfg (flag ''bootstrap'' ''local_configure'' ''true'')"
  "E ''ccvm_bootstrap'' \<Longrightarrow> earned_flag E cfg (flag ''bootstrap'' ''ccvm'' ''true'')"
  "E ''monitoring_prepare'' \<Longrightarrow> earned_flag E cfg (flag ''bootstrap'' ''wall'' ''true'')"
  by (simp_all add: earned_flag_def)

lemma license_flags:
  "f \<in> set (flag ''license'' a b # (if c then [flag ''license'' d e] else [])) \<Longrightarrow> fl_Depth1 f = ''license''"
  by (cases c) (auto simp: flag_def)

lemma completed_flags_earned:
  assumes "f \<in> set (completed_flags cfg licenseType executed)"
  shows "earned_flag (\<lambda>e. e \<in> set executed) cfg f"
proof -
  note I = earned_flagI [where E = "\<lambda>e. e \<in> set executed" and cfg = cfg]
  have one: "x \<in> set [y] \<Longrightarrow> earned_flag (\<lambda>e. e \<in> set executed) cfg y \<Longrightarrow> earned_flag (\<lambda>e. e \<in> set executed) cfg x" for x y by simp
  show ?thesis
    using assms unfolding completed_flags_def set_append
    apply -
    apply (elim UnE; drule in_conditional; elim conjE)
         apply (rule I(1), erule license_flags, assumption)
        apply (erule one, rule I(2), assumption, assumption)
       apply (erule one, rule I(3), assumption)
      apply (erule one, rule I(4), assumption)
     apply (erule one, rule I(5), assumption)
    apply (erule one, rule I(6), assumption)
    done
qed

lemma calls_profile [simp]: "own_calls req executed ''system_profile'' s (snd (runDeployRunSystemProfile sv req executed s))"
proof -
  have "list_all (earned_flag (\<lambda>e. e \<in> set executed) cfg) (dedupeDeployRunSystemFlags (completed_flags cfg t executed))" for cfg t
    using set_flag_loop [of "completed_flags cfg t executed" "[]" "[]"]
    by (auto simp: list_all_iff dedupeDeployRunSystemFlags_def intro: completed_flags_earned)
  then show ?thesis by (simp add: runDeployRunSystemProfile_def Let_def split_beta split: option.split)
qed

lemma calls_step: "own_calls req executed step s (snd (snd (runDeployRunStep sv req step auth executed images s)))"
  by (simp add: runDeployRunStep_def Let_def split_beta)

text \<open>What the job reports while its steps run: those that were executed succeeded, and no step runs twice.\<close>

definition reported :: "DeployRunJob \<Rightarrow> string \<Rightarrow> bool" where
  "reported job e \<longleftrightarrow> (\<exists>r \<in> set (dj_Steps job). ds_Name r = e \<and> ds_Status r = ''succeeded'')"

definition running_job :: "string list \<Rightarrow> string list \<Rightarrow> DeployRunJob \<Rightarrow> bool" where
  "running_job executed steps job \<longleftrightarrow> distinct steps \<and> distinct (map ds_Name (dj_Steps job)) \<and> set steps \<subseteq> ds_Name ` set (dj_Steps job)
     \<and> (\<forall>e \<in> set executed. e \<notin> set steps \<and> reported job e)"

lemma edit_deploy_other: "r \<in> set ss \<Longrightarrow> ds_Name r \<noteq> name \<Longrightarrow> r \<in> set (edit_deploy_step name f ss)"
  by (induction ss) auto

lemma edit_deploy_hit: "name \<in> ds_Name ` set ss \<Longrightarrow> \<exists>r \<in> set ss. ds_Name r = name \<and> f r \<in> set (edit_deploy_step name f ss)"
  by (induction ss) auto

lemma reported_edit:
  "reported job e \<Longrightarrow> e \<noteq> name \<Longrightarrow> dj_Steps job' = edit_deploy_step name f (dj_Steps job) \<Longrightarrow> reported job' e"
  unfolding reported_def using edit_deploy_other by metis

lemma running_edit:
  assumes "running_job executed (step # steps) job" and "dj_Steps job' = edit_deploy_step step f (dj_Steps job)"
    and "\<And>s. ds_Name (f s) = ds_Name s"
  shows "running_job executed (step # steps) job'" and "running_job executed steps job'"
proof -
  have names: "map ds_Name (dj_Steps job') = map ds_Name (dj_Steps job)" using assms(2,3) edit_deploy_names by simp
  then have "ds_Name ` set (dj_Steps job') = ds_Name ` set (dj_Steps job)" by (metis set_map)
  with assms(1) names show "running_job executed (step # steps) job'" "running_job executed steps job'"
    using reported_edit [OF _ _ assms(2)] by (auto simp: running_job_def)
qed

lemma finished_result_status: "ds_Status (finished_result now outcome s) = oc_Status outcome"
  by (simp add: finished_result_def Let_def)

lemma running_finish:
  assumes "running_job executed (step # steps) job" and "oc_Status outcome = ''succeeded''"
  shows "running_job (executed @ [step]) steps (markDeployRunStepFinished now step outcome job)"
proof -
  let ?job = "markDeployRunStepFinished now step outcome job"
  have s: "dj_Steps ?job = edit_deploy_step step (finished_result now outcome) (dj_Steps job)"
    by (simp add: markDeployRunStepFinished_def)
  have "step \<in> ds_Name ` set (dj_Steps job)" using assms(1) by (simp add: running_job_def)
  then have "reported ?job step"
    using edit_deploy_hit [of step "dj_Steps job" "finished_result now outcome"] assms(2)
    unfolding reported_def s by (metis finished_name finished_result_status)
  with running_edit(2) [OF assms(1) s] assms(1) show ?thesis by (auto simp: running_job_def)
qed

lemma made_own:
  assumes "own_calls req executed step s s1" and "step \<in> S" and "\<And>e. e \<in> set executed \<Longrightarrow> E e"
  shows "made (\<lambda>c. \<exists>step \<in> S. justified req E step c) s s1"
proof (rule made_mono [OF assms(1)])
  fix c assume c: "justified req (\<lambda>e. e \<in> set executed) step c"
  have "justified req E step c" by (rule justified_mono [OF c]) (rule assms(3))
  with assms(2) show "\<exists>step \<in> S. justified req E step c" by blast
qed

lemma run_calls:
  "get_deploy jobID st = Some job0 \<Longrightarrow> running_job executed steps job0 \<Longrightarrow>
     \<exists>job. get_deploy jobID (fst (run_deploy_steps sv jobID req auth steps executed images s st)) = Some job
       \<and> (\<forall>e. reported job0 e \<and> e \<notin> set steps \<longrightarrow> reported job e)
       \<and> made (\<lambda>c. \<exists>step \<in> set steps. justified req (reported job) step c) s
            (snd (run_deploy_steps sv jobID req auth steps executed images s st))"
proof (induction steps arbitrary: executed images s st job0)
  case Nil
  then show ?case by (simp add: get_update_deploy deploy_succeeded_def reported_def)
next
  case (Cons step steps)
  let ?st1 = "update_deploy jobID (deploy_step_begins (si_time s) step) st"
  let ?job1 = "deploy_step_begins (si_time s) step job0"
  have begins: "dj_Steps ?job1 = edit_deploy_step step
      (\<lambda>r. r\<lparr>ds_Status := ''running'', ds_StartedAt := Some (si_time s), ds_Message := ''running''\<rparr>) (dj_Steps job0)"
    by (simp add: deploy_step_begins_def markDeployRunStepRunning_def)
  have r1: "running_job executed (step # steps) ?job1" by (rule running_edit(1) [OF Cons.prems(2) begins]) simp
  obtain err outcome images1 s1 where run: "runDeployRunStep sv req step auth executed images s = ((err, outcome), images1, s1)"
    by (metis prod.exhaust)
  have own: "own_calls req executed step s s1" using calls_step [of req executed step s sv auth images] by (simp add: run)
  have early: "e \<noteq> step \<and> e \<notin> set steps \<and> reported job0 e" if "e \<in> set executed" for e
    using Cons.prems(2) that by (auto simp: running_job_def)
  show ?case
  proof (cases err)
    case (Some e)
    let ?job = "deploy_failed (si_time s1) (si_time s1) step e outcome ?job1"
    have "dj_Steps ?job = edit_deploy_step step (finished_result (si_time s1) (failed_outcome e outcome)) (dj_Steps ?job1)"
      by (simp add: deploy_failed_def markDeployRunStepFinished_def)
    then have kept: "reported ?job e'" if "reported job0 e'" "e' \<noteq> step" for e'
      using reported_edit [OF reported_edit [OF that begins] that(2)] by blast
    have "made (\<lambda>c. \<exists>step \<in> set (step # steps). justified req (reported ?job) step c) s s1"
      by (rule made_own [OF own]) (use early kept in simp_all)
    with kept show ?thesis by (simp add: run Some get_update_deploy Cons.prems(1))
  next
    case None
    let ?job2 = "markDeployRunStepFinished (si_time s1) step outcome ?job1"
    let ?st2 = "update_deploy jobID (markDeployRunStepFinished (si_time s1) step outcome) ?st1"
    let ?executed = "if oc_Status outcome = ''succeeded'' then executed @ [step] else executed"
    have ends: "dj_Steps ?job2 = edit_deploy_step step (finished_result (si_time s1) outcome) (dj_Steps ?job1)"
      by (simp add: markDeployRunStepFinished_def)
    have r2: "running_job ?executed steps ?job2"
      using running_finish [OF r1] running_edit(2) [OF r1 ends] by simp
    have g2: "get_deploy jobID ?st2 = Some ?job2" by (simp add: get_update_deploy Cons.prems(1))
    let ?run = "run_deploy_steps sv jobID req auth steps ?executed images1 s1 ?st2"
    obtain job where job: "get_deploy jobID (fst ?run) = Some job" "\<And>e. reported ?job2 e \<Longrightarrow> e \<notin> set steps \<Longrightarrow> reported job e"
        "made (\<lambda>c. \<exists>step \<in> set steps. justified req (reported job) step c) s1 (snd ?run)"
      using Cons.IH [OF g2 r2, of images1 s1] by blast
    have kept: "reported job e" if "reported job0 e" "e \<notin> set (step # steps)" for e
      using job(2) reported_edit [OF reported_edit [OF that(1) _ begins] _ ends] that(2) by simp
    have "made (\<lambda>c. \<exists>step \<in> set (step # steps). justified req (reported job) step c) s s1"
      by (rule made_own [OF own]) (use early kept in simp_all)
    then have "made (\<lambda>c. \<exists>step \<in> set (step # steps). justified req (reported job) step c) s (snd ?run)"
      by (rule made_trans) (rule made_mono [OF job(3)], simp)
    with job(1) kept show ?thesis by (auto simp: run None)
  qed
qed

text \<open>
  C7. A deployment touches nothing it was not asked to touch: every call of the run belongs to a step
  that was selected, the machines are set up, licensed and monitored only after the step that prepares
  them succeeded or because the request names the step, images are only created, and the system
  profile is told only of steps that the job reports as succeeded.
\<close>

theorem deployment_calls:
  assumes "deploy_reachable d" and "fmlookup (p_procs d) jobID = Some (DQueued steps)"
  shows "\<exists>job. get_deploy jobID (fst (runDeployRunJob sv jobID req steps auth s (p_store d))) = Some job
     \<and> made (\<lambda>c. \<exists>step \<in> set steps. justified req (reported job) step c) s
          (snd (runDeployRunJob sv jobID req steps auth s (p_store d)))"
proof -
  note inv = deploy_inv_reachable [OF assms(1)]
  obtain job where job: "fmlookup (d_jobs (p_store d)) jobID = Some job" using deploy_invD(3) [OF inv assms(2)] by auto
  have ok: "steps_once job" "deploy_ok (DQueued steps) job" using deploy_invD(2) [OF inv job] assms(2) by auto
  let ?job = "deploy_started (si_time s) job"
  have "running_job [] steps ?job"
    using ok by (auto simp: running_job_def deploy_started_def steps_once_def around_step_def)
  moreover have "get_deploy jobID (update_deploy jobID (deploy_started (si_time s)) (p_store d)) = Some ?job"
    using job by (simp add: get_update_deploy) (simp add: get_deploy_def)
  ultimately show ?thesis
    unfolding runDeployRunJob_def using run_calls [of jobID _ ?job "[]" steps sv req auth "[]" s] by blast
qed

section \<open>The requests of the storage step\<close>

lemma volume_groups_kept: "normalizeGFSManageVolumeGroups (normalizeGFSManageVolumeGroups vs vg lv) (trim_space vg) (trim_space lv) = []
    \<Longrightarrow> blank vg \<or> blank lv"
proof -
  assume empty: "normalizeGFSManageVolumeGroups (normalizeGFSManageVolumeGroups vs vg lv) (trim_space vg) (trim_space lv) = []"
  let ?x = "\<lparr>vg_VGName = trim_space vg, vg_LVName = trim_space lv\<rparr>"
  show "blank vg \<or> blank lv"
  proof (rule ccontr)
    assume names: "\<not> (blank vg \<or> blank lv)"
    then have "volume_group_loop (normalizeGFSManageVolumeGroups vs vg lv @ [?x]) [] [] = []"
      using empty by (simp add: normalizeGFSManageVolumeGroups_def)
    with volume_group_clean [of "[]" "normalizeGFSManageVolumeGroups vs vg lv @ [?x]"] names
    show False by simp
  qed
qed

lemma gfs_disks_clean: "gfs_disks base osType images = Inr disks \<Longrightarrow> d \<in> set disks \<Longrightarrow> \<not> blank d"
proof -
  assume ok: "gfs_disks base osType images = Inr disks" and d: "d \<in> set disks"
  consider "disks = rbd_devices images" | "disks = normalizeStringSlice (gf_Disks base @ splitCommaValues (gf_Disk base))"
    using ok by (auto simp: gfs_disks_def Let_def split: if_splits)
  then show "\<not> blank d"
  proof cases
    case 1
    with d obtain image where "d = ''/dev/rbd/'' @ image" by (auto simp: rbd_devices_def)
    moreover have "\<not> blank (''/dev/rbd/'' @ image)" by (rule trim_not_blank) (simp_all add: go_str)
    ultimately show ?thesis by simp
  next
    case 2
    with d show ?thesis by (auto simp: normalizeStringSlice_clean clean_list_set)
  qed
qed

lemma accept_named:
  assumes "gf_Action r \<in> {''init-pcs-cluster'', ''create-gfs''}" and "gfs_cluster (gfs_trim r) = Inr r2"
    and "\<exists>d \<in> set (gf_Disks r). \<not> blank d" and "\<not> blank (gf_VGName r)" and "\<not> blank (gf_LVName r)"
    and "\<exists>vs. gf_VolumeGroups r = normalizeGFSManageVolumeGroups vs (gf_VGName r) (gf_LVName r)"
  shows "\<exists>r'. normalizeGFSManageRequest r = Inr r'"
proof -
  have known: "gf_Action r \<in> set gfs_actions" using assms(1) by (auto simp: gfs_actions_def)
  have other: "gf_Action r \<noteq> ''modify-lvm-conf''" "gf_Action r \<noteq> ''check-stonith''" using assms(1) by auto
  have sw: "gfs_switch r = Inr r" by (rule gfs_switch_again) (use known other in simp_all)
  have r2: "r2 = (gfs_trim r)\<lparr>gf_ClusterName := gf_ClusterName r2, gf_ClusterUser := gf_ClusterUser r2, gf_ClusterPassword := gf_ClusterPassword r2\<rparr>"
    by (rule gfs_cluster_okD(1) [OF assms(2)])
  have f: "gf_Action r2 = gf_Action r" "gf_Disks r2 = normalizeStringSlice (gf_Disks r @ splitCommaValues (trim_space (gf_Disk r)))"
      "gf_VolumeGroups r2 = gf_VolumeGroups r" "gf_VGName r2 = trim_space (gf_VGName r)" "gf_LVName r2 = trim_space (gf_LVName r)"
    by (subst r2, simp add: gfs_trim_def)+
  have disks: "gf_Disks r2 \<noteq> []"
    using assms(3) by (auto simp: f normalizeStringSlice_clean clean_list_set simp flip: set_empty)
  have groups: "normalizeGFSManageVolumeGroups (gf_VolumeGroups r2) (gf_VGName r2) (gf_LVName r2) \<noteq> []"
    using volume_groups_kept assms(4-6) unfolding f by metis
  have "gfs_missing (gfs_create_defaults (gfs_lists r2)) = None"
  proof (cases "gf_Action r = ''init-pcs-cluster''")
    case True
    with groups f(1) show ?thesis by (simp add: gfs_missing_def gfs_create_defaults_def gfs_lists_def)
  next
    case False
    with assms(1) have "gf_Action r2 = ''create-gfs''" by (simp add: f(1))
    with disks show ?thesis by (simp add: gfs_missing_def gfs_create_defaults_def gfs_lists_def)
  qed
  then show ?thesis by (simp add: normalizeGFSManageRequest_def sw assms(2) gfs_check_def Let_def)
qed


lemma accept_fencing:
  assumes "\<exists>v \<in> set ds. \<not> blank (sd_IPAddr v)"
  shows "\<exists>r'. normalizeGFSManageRequest (no_gfs\<lparr>gf_Action := ''configure-stonith'', gf_Stonith := ds\<rparr>) = Inr r'"
proof -
  let ?r = "no_gfs\<lparr>gf_Action := ''configure-stonith'', gf_Stonith := ds\<rparr>"
  have sw: "gfs_switch ?r = Inr ?r" by (rule gfs_switch_again) (simp_all add: gfs_actions_def)
  obtain v where "v \<in> set ds" "\<not> blank (sd_IPAddr v)" using assms by blast
  then have "trim_device v \<in> set (normalizeGFSManageStonithDevices ds)"
    by (simp add: normalizeGFSManageStonithDevices_def) (simp add: trim_device_def Let_def)
  then have "normalizeGFSManageStonithDevices ds \<noteq> []" by auto
  then show ?thesis
    by (simp add: normalizeGFSManageRequest_def sw gfs_cluster_def gfs_trim_def gfs_check_def gfs_create_defaults_def gfs_lists_def
        gfs_missing_def Let_def)
qed

lemma gfs_disks_ceph:
  "gfs_disks base osType images = Inr disks \<Longrightarrow> normalizeDeployOSType osType = ''ablestack-hci-filesystem'' \<Longrightarrow> disks = rbd_devices images"
  by (simp add: gfs_disks_def split: if_splits)

text \<open>
  The storage step asks for what its nodes accept: the four requests that it builds come in the
  order of the setup, the two that name disks name the same ones, which for a hyperconverged cluster
  are the images just mapped, and none is refused by the check of the operation when the names are not
  blank, the credentials are legal and a fencing device has an address.
\<close>

theorem gfs_requests_accepted:
  assumes "buildDeployRunGFSRequests req osType images = Inr reqs"
    and "\<not> blank (gf_VGName (gfs_base req))" and "\<not> blank (gf_LVName (gfs_base req))"
    and "gfs_cluster (gfs_trim (gfs_base req)) = Inr named" and "\<exists>v \<in> set (gf_Stonith req). \<not> blank (sd_IPAddr v)"
  shows "map gf_Action reqs = [''init-pcs-cluster'', ''configure-stonith'', ''create-gfs'', ''set-alert'']
     \<and> (\<forall>r \<in> set reqs. \<exists>r'. normalizeGFSManageRequest r = Inr r')
     \<and> gf_Disks (reqs ! 0) \<noteq> [] \<and> gf_Disks (reqs ! 2) = gf_Disks (reqs ! 0)
     \<and> (normalizeDeployOSType osType = ''ablestack-hci-filesystem'' \<longrightarrow> gf_Disks (reqs ! 0) = rbd_devices images)"
proof -
  obtain disks where disks: "gfs_disks (gfs_base req) osType images = Inr disks" "disks \<noteq> []"
      and reqs: "reqs = [(gfs_base req)\<lparr>gf_Disks := disks\<rparr>, no_gfs\<lparr>gf_Action := ''configure-stonith'', gf_Stonith := gf_Stonith req\<rparr>,
        (gfs_base req)\<lparr>gf_Disks := disks, gf_Action := ''create-gfs''\<rparr>, alert_request]"
    using assms(1) by (auto simp: buildDeployRunGFSRequests_def Let_def gfs_base_def alert_request_def split: sum.splits if_splits)
  define base where "base = (gfs_base req)\<lparr>gf_Disks := disks\<rparr>"
  have base: "gf_Action base = ''init-pcs-cluster''" "gf_VGName base = gf_VGName (gfs_base req)" "gf_LVName base = gf_LVName (gfs_base req)"
      "gf_Disks base = disks" "\<exists>vs. gf_VolumeGroups base = normalizeGFSManageVolumeGroups vs (gf_VGName base) (gf_LVName base)"
    by (auto simp: base_def gfs_base_def Let_def)
  have d: "\<exists>d \<in> set disks. \<not> blank d" using disks(2) gfs_disks_clean [OF disks(1)] by (cases disks) auto
  have act: "gf_Action named = ''init-pcs-cluster''"
    by (subst gfs_cluster_okD(1) [OF assms(4)]) (simp add: gfs_trim_def gfs_base_def Let_def)
  note again = gfs_cluster_okD(5) [OF assms(4)]
  have cl: "gfs_cluster (gfs_trim r) = Inr (gfs_named (gfs_trim r))"
    if "gf_Action r \<in> {''init-pcs-cluster'', ''create-gfs''}" "gf_ClusterName r = gf_ClusterName base" "gf_ClusterUser r = gf_ClusterUser base"
      "gf_ClusterPassword r = gf_ClusterPassword base" for r
  proof -
    have c: "gf_ClusterName (gfs_named (gfs_trim r)) = gf_ClusterName named" "gf_ClusterUser (gfs_named (gfs_trim r)) = gf_ClusterUser named"
        "gf_ClusterPassword (gfs_named (gfs_trim r)) = gf_ClusterPassword named"
      using assms(4) act that(2-4) unfolding gfs_cluster_ok
      by (auto simp: gfs_named_def gfs_trim_def base_def gfs_base_def Let_def split: if_splits)
    show ?thesis using assms(4) that(1) act c unfolding gfs_cluster_ok by (auto simp: gfs_trim_def gfs_base_def Let_def split: if_splits)
  qed
  have first: "\<exists>r'. normalizeGFSManageRequest base = Inr r'"
    by (rule accept_named [OF _ cl]) (use base d assms(2,3) in auto)
  have third: "\<exists>r'. normalizeGFSManageRequest (base\<lparr>gf_Action := ''create-gfs''\<rparr>) = Inr r'"
    by (rule accept_named [OF _ cl]) (use base d assms(2,3) in auto)
  show ?thesis
    using first third accept_fencing [OF assms(5)] alert_accepted disks(2) gfs_requests_actions [OF assms(1)] gfs_disks_ceph [OF disks(1)]
    unfolding reqs base_def deploy_gfs_actions_def by simp
qed

section \<open>Witnesses\<close>

definition quiet_services :: "unit services" where
  "quiet_services =
     \<lparr>sv_getenv = (\<lambda>name. []), sv_config = (\<lambda>w. None), sv_token = (\<lambda>w. None), sv_license_type = (\<lambda>w. []), sv_url_error = (\<lambda>url. None),
      sv_check_xml = (\<lambda>xml cfg. Inr xml), sv_respond = (\<lambda>c w. (zero_response, 1, w)),
      sv_rbd = (\<lambda>c w. (\<lparr>rs_Code = 200, rs_Message = [], rs_ValText = [], rs_Body = VNil, rb_ValImages = None, rb_ResultImages = []\<rparr>, 1, w)),
      sv_bootstrap = (\<lambda>c w. (\<lparr>rs_Code = 200, rs_Message = [], rs_ValText = [], rs_Body = VNil, bs_Role = []\<rparr>, 1, w)),
      sv_http = (\<lambda>c w. (NoResponse ''refused'', 1, w)), sv_copy = (\<lambda>c w. (None, 1, w)), sv_flags = (\<lambda>c w. ((ONil, None), 1, w))\<rparr>"

definition profile_run :: "deployRunJobStore \<times> unit site" where
  "profile_run =
     runDeployRunJob quiet_services ''deploy-1'' profile_request [''system_profile''] [] \<lparr>si_world = (), si_time = 9, si_calls = []\<rparr>
       (p_store started_deployment)"

lemma profile_run_fst:
  "fst profile_run = fst (runDeployRunJob quiet_services ''deploy-1'' profile_request [''system_profile''] []
     \<lparr>si_world = (), si_time = 9, si_calls = []\<rparr> (p_store started_deployment))"
  by (simp add: profile_run_def)

theorem deployment_ends_witness:
  "\<exists>job. get_deploy ''deploy-1'' (fst profile_run) = Some job \<and> dj_Status job \<in> {''succeeded'', ''failed''}"
  using deployment_ends [OF started_reachable started_lookup(2) profile_run_fst, of True profile_request "''deploy-2''" 9]
  by blast

theorem deployment_calls_witness:
  "\<exists>job. get_deploy ''deploy-1'' (fst profile_run) = Some job
     \<and> made (\<lambda>c. justified profile_request (reported job) ''system_profile'' c) \<lparr>si_world = (), si_time = 9, si_calls = []\<rparr> (snd profile_run)"
  using deployment_calls [OF started_reachable started_lookup(2), of quiet_services profile_request "[]" "\<lparr>si_world = (), si_time = 9, si_calls = []\<rparr>"]
  by (simp add: profile_run_def)

definition image_request :: GFSManageRequest where
  "image_request =
     no_gfs\<lparr>gf_Stonith := [\<lparr>sd_IPAddr = ''10.0.0.9'', sd_IPPort = [], sd_Login = ''a'', sd_Passwd = ''b'', sd_Host = [], sd_Hostname = ''n1''\<rparr>]\<rparr>"

theorem gfs_requests_accepted_witness:
  "\<exists>reqs. buildDeployRunGFSRequests image_request ''ablestack-hci-filesystem'' [''rbd/gfs1''] = Inr reqs
     \<and> (\<exists>r'. normalizeGFSManageRequest (reqs ! 0) = Inr r') \<and> gf_Disks (reqs ! 0) = [''/dev/rbd/rbd/gfs1'']"
proof -
  have devices: "rbd_devices [''rbd/gfs1''] = [''/dev/rbd/rbd/gfs1'']" by (simp add: rbd_devices_def trim_char_def go_str)
  have os: "normalizeDeployOSType ''ablestack-hci-filesystem'' = ''ablestack-hci-filesystem''" by (simp add: normalizeDeployOSType_def go_str)
  have names: "gf_VGName (gfs_base image_request) = ''vg_glue''" "gf_LVName (gfs_base image_request) = ''lv_glue''"
    by (simp_all add: gfs_base_def image_request_def no_gfs_def or_else_def Let_def)
  have filled: "\<not> blank (gf_VGName (gfs_base image_request))" "\<not> blank (gf_LVName (gfs_base image_request))"
    unfolding names by (simp_all add: go_str)
  obtain reqs where reqs: "buildDeployRunGFSRequests image_request ''ablestack-hci-filesystem'' [''rbd/gfs1''] = Inr reqs"
    by (simp add: buildDeployRunGFSRequests_def gfs_disks_def os devices gfs_base_def image_request_def Let_def)
  have cluster: "gfs_cluster (gfs_trim (gfs_base image_request)) = Inr (gfs_named (gfs_trim (gfs_base image_request)))"
    unfolding gfs_cluster_ok
    by (simp add: gfs_named_def gfs_trim_def gfs_base_def image_request_def no_gfs_def or_else_def Let_def contains_any_def line_chars_def
        gfsManageDefaultCluster_def gfsManageDefaultPCSUser_def gfsManageDefaultPCSPass_def go_str)
  have fence: "\<exists>v \<in> set (gf_Stonith image_request). \<not> blank (sd_IPAddr v)" by (simp add: image_request_def go_str)
  note all = gfs_requests_accepted [OF reqs filled cluster fence]
  then have "reqs \<noteq> []" by auto
  then have "reqs ! 0 \<in> set reqs" by simp
  with all reqs os devices show ?thesis by metis
qed

end
