(* ===== verification/Cloud_Host_Remove.thy ===== *)
theory Cloud_Host_Remove
  imports Bootstrap_Execute
begin

text \<open>
  The removal of a host from the cloud manager: \<^verbatim>\<open>internal/service/moldservice/host_remove.go\<close>.
  It runs under a context with a deadline, which stops the calls that come after it. The wait for an
  asynchronous job selects between the end of the context, a timer and a ticker; when several are
  ready the choice is free, and it is an argument.
\<close>

section \<open>Reading a reply\<close>

fun nestedValue :: "goval \<Rightarrow> string list \<Rightarrow> goval" where
  "nestedValue v [] = v"
| "nestedValue v (key # keys) = (case v of VMap m \<Rightarrow> nestedValue (mget m key) keys | _ \<Rightarrow> VNil)"

definition nestedString :: "mold_env \<Rightarrow> gomap \<Rightarrow> string list \<Rightarrow> string" where
  "nestedString e root keys = stringValue e (nestedValue (VMap root) keys)"

text \<open>An item that is not an object has neither a name nor an address, and ends the search with nothing if it matches.\<close>

definition host_matches :: "mold_env \<Rightarrow> string \<Rightarrow> string \<Rightarrow> goval \<Rightarrow> bool" where
  "host_matches e hostname hostIP raw =
     (let item = (case as_map raw of Some m \<Rightarrow> m | None \<Rightarrow> fmempty);
          name = trim_space (stringValue e (mget item ''name'')); ip = trim_space (stringValue e (mget item ''ipaddress''))
      in hostname \<noteq> [] \<and> equal_fold name (trim_space hostname) \<or> hostIP \<noteq> [] \<and> ip = trim_space hostIP)"

definition listed_hosts :: "gomap \<Rightarrow> goval list" where
  "listed_hosts response =
     (case as_map (mget response ''listhostsresponse'') of
        None \<Rightarrow> []
      | Some wrapper \<Rightarrow> (case mget wrapper ''host'' of VArr items \<Rightarrow> items | _ \<Rightarrow> []))"

definition findCloudStackHost :: "mold_env \<Rightarrow> gomap \<Rightarrow> string \<Rightarrow> string \<Rightarrow> gomap option" where
  "findCloudStackHost e response hostname hostIP =
     (case List.find (host_matches e hostname hostIP) (listed_hosts response) of None \<Rightarrow> None | Some raw \<Rightarrow> as_map raw)"

section \<open>Calls under a context\<close>

datatype select_case = ContextDone | TimedOut | Ticked

text \<open>
  The server with its environment, the end of the context and the text of its error, which of the
  ready cases a \<^verbatim>\<open>select\<close> takes at a moment, and the printed form of a duration.
\<close>

record 'c removal =
  rv_env :: mold_env
  rv_srv :: "'c server"
  rv_deadline :: nat
  rv_context_error :: string
  rv_pick :: "nat \<Rightarrow> nat"
  rv_duration_text :: "nat \<Rightarrow> string"

definition command_within ::
  "'c removal \<Rightarrow> Client \<Rightarrow> string \<Rightarrow> string \<Rightarrow> string \<Rightarrow> form \<Rightarrow> 'c net \<Rightarrow> (mold_error + gomap) \<times> 'c net" where
  "command_within rv c method command key params k =
     (if k_time k \<ge> rv_deadline rv then (Inl (Sentinel ErrMoldAPIRequest (Some (rv_context_error rv))), k)
      else CallCommand (rv_env rv) (rv_srv rv) c method command key params k)"

lemma command_within_time: "k_time k \<le> k_time (snd (command_within rv c method command key params k))"
  by (simp add: command_within_def CallCommand_def call_time)

section \<open>Waiting for a job\<close>

definition hour :: nat where "hour = seconds 3600"

definition job_interval :: "mold_env \<Rightarrow> nat" where
  "job_interval e = durationFromEnv e ''ABLESTACK_MOLD_ASYNC_POLL_INTERVAL'' (seconds 5)"

definition job_timeout :: "mold_env \<Rightarrow> nat" where
  "job_timeout e = durationFromEnv e ''ABLESTACK_MOLD_HOST_REMOVE_TIMEOUT'' (2 * hour)"

lemma job_interval_pos: "0 < job_interval e"
  by (simp add: job_interval_def durationFromEnv_def seconds_def Let_def split: option.split)

text \<open>The moment at which a case is ready, and what is ready then, in the order of the source.\<close>

definition select_time :: "nat \<Rightarrow> nat \<Rightarrow> nat \<Rightarrow> nat \<Rightarrow> nat" where
  "select_time now context_end timer_end tick = max now (min context_end (min timer_end tick))"

definition select_ready :: "nat \<Rightarrow> nat \<Rightarrow> nat \<Rightarrow> nat \<Rightarrow> select_case list" where
  "select_ready at context_end timer_end tick =
     (if context_end \<le> at then [ContextDone] else []) @ (if timer_end \<le> at then [TimedOut] else []) @ (if tick \<le> at then [Ticked] else [])"

definition select_case :: "'c removal \<Rightarrow> nat \<Rightarrow> nat \<Rightarrow> nat \<Rightarrow> select_case" where
  "select_case rv at timer_end tick =
     (let ready = select_ready at (rv_deadline rv) timer_end tick in ready ! (rv_pick rv at mod length ready))"

text \<open>The ticks that nobody received are dropped: the next one comes at the next multiple of the interval.\<close>

definition next_tick :: "nat \<Rightarrow> nat \<Rightarrow> nat \<Rightarrow> nat" where
  "next_tick interval tick at = tick + interval * Suc ((at - tick) div interval)"

definition at_time :: "nat \<Rightarrow> 'c net \<Rightarrow> 'c net" where
  "at_time at k = k\<lparr>k_time := at\<rparr>"

text \<open>The switch on the status of a job: none while it is pending.\<close>

definition removal_status :: "mold_env \<Rightarrow> string \<Rightarrow> gomap \<Rightarrow> unit outcome option" where
  "removal_status e jobID response =
     (let status = nestedString e response [''queryasyncjobresultresponse'', ''jobstatus'']
      in if status = ''1'' then Some (Inr ())
         else if status = ''2''
         then Some (Inl (''CloudStack job '' @ jobID @ '' failed: ''
                         @ firstNonEmpty [nestedString e response [''queryasyncjobresultresponse'', ''jobresult'', ''errortext''], ''unknown error'']))
         else None)"

lemma select_ready_tick:
  "select_case rv at timer_end tick = Ticked \<Longrightarrow> rv_deadline rv \<le> at \<or> timer_end \<le> at \<or> tick \<le> at \<Longrightarrow> tick \<le> at"
proof -
  assume s: "select_case rv at timer_end tick = Ticked" and some: "rv_deadline rv \<le> at \<or> timer_end \<le> at \<or> tick \<le> at"
  let ?ready = "select_ready at (rv_deadline rv) timer_end tick"
  have "?ready \<noteq> []" using some by (auto simp: select_ready_def)
  then have "rv_pick rv at mod length ?ready < length ?ready" by simp
  then have "Ticked \<in> set ?ready" using s by (metis nth_mem select_case_def)
  then show "tick \<le> at" by (auto simp: select_ready_def split: if_splits)
qed

lemma select_time_ready:
  "rv_deadline rv \<le> select_time now (rv_deadline rv) timer_end tick \<or> timer_end \<le> select_time now (rv_deadline rv) timer_end tick
   \<or> tick \<le> select_time now (rv_deadline rv) timer_end tick"
  by (auto simp: select_time_def max_def min_def)

lemma next_tick_later: "0 < interval \<Longrightarrow> tick + interval \<le> next_tick interval tick at \<and> at < next_tick interval tick at"
proof -
  assume i: "0 < interval"
  have "at - tick < interval * Suc ((at - tick) div interval)" using i by (simp add: dividend_less_times_div)
  then show ?thesis by (simp add: next_tick_def)
qed

function job_loop :: "'c removal \<Rightarrow> Client \<Rightarrow> string \<Rightarrow> string \<Rightarrow> nat \<Rightarrow> nat \<Rightarrow> 'c net \<Rightarrow> unit outcome \<times> 'c net" where
  "job_loop rv c key jobID timer_end tick k =
     (let (res, k1) = command_within rv c ''GET'' ''queryAsyncJobResult'' key (fmupd ''jobid'' jobID fmempty) k
      in case res of
           Inl err \<Rightarrow> (Inl (mold_error_text err), k1)
         | Inr response \<Rightarrow>
             (case removal_status (rv_env rv) jobID response of
                Some out \<Rightarrow> (out, k1)
              | None \<Rightarrow>
                  (let at = select_time (k_time k1) (rv_deadline rv) timer_end tick; k2 = at_time at k1
                   in case select_case rv at timer_end tick of
                        ContextDone \<Rightarrow> (Inl (rv_context_error rv), k2)
                      | TimedOut \<Rightarrow>
                          (Inl (''CloudStack job '' @ jobID @ '' timed out after '' @ rv_duration_text rv (job_timeout (rv_env rv))), k2)
                      | Ticked \<Rightarrow> job_loop rv c key jobID timer_end (next_tick (job_interval (rv_env rv)) tick at) k2)))"
  by pat_completeness auto
termination
proof (relation "measure (\<lambda>(rv, c, key, jobID, timer_end, tick, k). if k_time k \<ge> rv_deadline rv then 0 else Suc (rv_deadline rv - tick))")
  fix rv :: "'c removal" and c key jobID timer_end tick and k :: "'c net" and p res k1 response at k2
  assume p: "p = command_within rv c ''GET'' ''queryAsyncJobResult'' key (fmupd ''jobid'' jobID fmempty) k" "(res, k1) = p" "res = Inr response"
    and at: "at = select_time (k_time k1) (rv_deadline rv) timer_end tick" "k2 = at_time at k1"
    and sel: "select_case rv at timer_end tick = Ticked"
  have alive: "k_time k < rv_deadline rv" using p by (auto simp: command_within_def split: if_splits)
  have tick: "tick \<le> at" by (rule select_ready_tick [OF sel]) (simp add: at(1) select_time_ready)
  have later: "tick < next_tick (job_interval (rv_env rv)) tick at"
    using next_tick_later [OF job_interval_pos, of tick "rv_env rv" at] job_interval_pos [of "rv_env rv"] by linarith
  have k2: "k_time k2 = at" by (simp add: at(2) at_time_def)
  have "rv_deadline rv - next_tick (job_interval (rv_env rv)) tick at < rv_deadline rv - tick" if "at < rv_deadline rv"
    using later tick that by linarith
  then show "((rv, c, key, jobID, timer_end, next_tick (job_interval (rv_env rv)) tick at, k2), rv, c, key, jobID, timer_end, tick, k)
      \<in> measure (\<lambda>(rv, c, key, jobID, timer_end, tick, k). if k_time k \<ge> rv_deadline rv then 0 else Suc (rv_deadline rv - tick))"
    using alive by (simp add: k2)
qed simp

declare job_loop.simps [simp del]

definition waitCloudStackJob :: "'c removal \<Rightarrow> Client \<Rightarrow> string \<Rightarrow> string \<Rightarrow> 'c net \<Rightarrow> unit outcome \<times> 'c net" where
  "waitCloudStackJob rv c key jobID k =
     job_loop rv c key jobID (k_time k + job_timeout (rv_env rv)) (k_time k + job_interval (rv_env rv)) k"

section \<open>Removing a host\<close>

record RemoveHostResult =
  rr_HostID :: string
  rr_Host :: "gomap option"
  rr_MaintenanceResponse :: "gomap option"
  rr_MaintenanceVerify :: "gomap option"
  rr_DeleteResponse :: "gomap option"
  rr_VerifyResponse :: "gomap option"

definition no_removal :: RemoveHostResult where
  "no_removal =
     \<lparr>rr_HostID = [], rr_Host = None, rr_MaintenanceResponse = None, rr_MaintenanceVerify = None, rr_DeleteResponse = None,
      rr_VerifyResponse = None\<rparr>"

text \<open>What a part returns: the result with an error, or a value.\<close>

type_synonym ('c, 'a) removal_part = "'c net \<Rightarrow> ((RemoveHostResult \<times> string) + 'a) \<times> 'c net"

definition resource_state :: "mold_env \<Rightarrow> gomap \<Rightarrow> string" where
  "resource_state e host = trim_space (stringValue e (mget host ''resourcestate''))"

definition in_maintenance :: "mold_env \<Rightarrow> gomap \<Rightarrow> bool" where
  "in_maintenance e host \<longleftrightarrow> equal_fold (resource_state e host) ''Maintenance''"

definition id_form :: "string \<Rightarrow> form" where
  "id_form hostID = fmupd ''id'' hostID fmempty"

definition login_part :: "'c removal \<Rightarrow> AuthConfig \<Rightarrow> ('c, Client \<times> string) removal_part" where
  "login_part rv auth k =
     (case ResolveMoldEndpointFromCluster (rv_env rv) of
        Inl err \<Rightarrow> (Inl (no_removal, mold_error_text err), k)
      | Inr (endpoint, ccvmIP) \<Rightarrow>
          if k_time k \<ge> rv_deadline rv then (Inl (no_removal, mold_error_text (Sentinel ErrMoldAPIRequest (Some (rv_context_error rv)))), k)
          else (case Login (rv_env rv) (rv_srv rv) (NewClient endpoint ccvmIP) auth k of
                  (Inl err, k1) \<Rightarrow> (Inl (no_removal, mold_error_text err), k1)
                | (Inr (session, c), k1) \<Rightarrow> (Inr (c, se_SessionKey session), k1)))"

text \<open>The job of the maintenance, if the reply names one.\<close>

definition maintenance_part :: "'c removal \<Rightarrow> Client \<Rightarrow> string \<Rightarrow> string \<Rightarrow> RemoveHostResult \<Rightarrow> ('c, RemoveHostResult) removal_part" where
  "maintenance_part rv c key hostname result k =
     (let failed = (\<lambda>text. ''prepareHostForMaintenance failed for '' @ hostname @ '': '' @ text)
      in case command_within rv c ''POST'' ''prepareHostForMaintenance'' key (id_form (rr_HostID result)) k of
           (Inl err, k1) \<Rightarrow> (Inl (result, failed (mold_error_text err)), k1)
         | (Inr maintenance, k1) \<Rightarrow>
             (let result1 = result\<lparr>rr_MaintenanceResponse := Some maintenance\<rparr>;
                  jobID = nestedString (rv_env rv) maintenance [''preparehostformaintenanceresponse'', ''jobid'']
              in if jobID = [] then (Inr result1, k1)
                 else (case waitCloudStackJob rv c key jobID k1 of
                         (Inl text, k2) \<Rightarrow> (Inl (result1, failed text), k2)
                       | (Inr _, k2) \<Rightarrow> (Inr result1, k2))))"

definition verify_maintenance_part ::
  "'c removal \<Rightarrow> Client \<Rightarrow> string \<Rightarrow> string \<Rightarrow> string \<Rightarrow> RemoveHostResult \<Rightarrow> ('c, RemoveHostResult) removal_part" where
  "verify_maintenance_part rv c key hostname hostIP result k =
     (case command_within rv c ''GET'' ''listHosts'' key (id_form (rr_HostID result)) k of
        (Inl err, k1) \<Rightarrow> (Inl (result, ''failed to verify maintenance state for '' @ hostname @ '': '' @ mold_error_text err), k1)
      | (Inr body, k1) \<Rightarrow>
          (let result1 = result\<lparr>rr_MaintenanceVerify := Some body\<rparr>
           in (case findCloudStackHost (rv_env rv) body hostname hostIP of
                 None \<Rightarrow> Inl (result1, ''host '' @ hostname @ '' disappeared before deleteHost'')
               | Some host \<Rightarrow>
                   if in_maintenance (rv_env rv) host then Inr result1
                   else Inl (result1, ''host '' @ hostname @ '' is not in Maintenance resource state after prepareHostForMaintenance: resourcestate=''
                                      @ firstNonEmpty [resource_state (rv_env rv) host, ''unknown'']), k1)))"

definition delete_part :: "'c removal \<Rightarrow> Client \<Rightarrow> string \<Rightarrow> string \<Rightarrow> bool \<Rightarrow> RemoveHostResult \<Rightarrow> ('c, RemoveHostResult) removal_part" where
  "delete_part rv c key hostname force result k =
     (case command_within rv c ''POST'' ''deleteHost'' key
             (fmupd ''forcedestroylocalstorage'' ''false'' (fmupd ''forced'' (if force then ''true'' else ''false'') (id_form (rr_HostID result)))) k of
        (Inl err, k1) \<Rightarrow> (Inl (result, mold_error_text err), k1)
      | (Inr deleted, k1) \<Rightarrow>
          (let result1 = result\<lparr>rr_DeleteResponse := Some deleted\<rparr>
           in (if boolValue (nestedValue (VMap deleted) [''deletehostresponse'', ''success'']) then Inr result1
               else Inl (result1, ''deleteHost did not report success for '' @ hostname @ '': ''
                                  @ firstNonEmpty [nestedString (rv_env rv) deleted [''deletehostresponse'', ''displaytext''], ''success=false'']), k1)))"

definition verify_gone_part ::
  "'c removal \<Rightarrow> Client \<Rightarrow> string \<Rightarrow> string \<Rightarrow> string \<Rightarrow> RemoveHostResult \<Rightarrow> ('c, RemoveHostResult) removal_part" where
  "verify_gone_part rv c key hostname hostIP result k =
     (case command_within rv c ''GET'' ''listHosts'' key (id_form (rr_HostID result)) k of
        (Inl err, k1) \<Rightarrow> (Inl (result, mold_error_text err), k1)
      | (Inr body, k1) \<Rightarrow>
          (let result1 = result\<lparr>rr_VerifyResponse := Some body\<rparr>
           in (if findCloudStackHost (rv_env rv) body hostname hostIP = None then Inr result1
               else Inl (result1, ''deleteHost completed but listHosts still returns '' @ hostname), k1)))"

text \<open>The host of the first list is taken if it is there, and the rest is done with its id.\<close>

definition remove_found ::
  "'c removal \<Rightarrow> Client \<Rightarrow> string \<Rightarrow> string \<Rightarrow> string \<Rightarrow> bool \<Rightarrow> gomap \<Rightarrow> ('c, RemoveHostResult) removal_part" where
  "remove_found rv c key hostname hostIP force host k =
     (let hostID = stringValue (rv_env rv) (mget host ''id''); result = no_removal\<lparr>rr_HostID := hostID, rr_Host := Some host\<rparr>
      in if hostID = [] then (Inl (no_removal, ''listHosts result has no host id for '' @ hostname), k)
         else andThen (if in_maintenance (rv_env rv) host then (Inr result, k) else maintenance_part rv c key hostname result k)
                (\<lambda>result1 k1. andThen (verify_maintenance_part rv c key hostname hostIP result1 k1)
                (\<lambda>result2 k2. andThen (delete_part rv c key hostname force result2 k2)
                   (verify_gone_part rv c key hostname hostIP))))"

definition RemoveHost :: "'c removal \<Rightarrow> AuthConfig \<Rightarrow> string \<Rightarrow> string \<Rightarrow> bool \<Rightarrow> ('c, RemoveHostResult) removal_part" where
  "RemoveHost rv auth hostname hostIP force k =
     andThen (login_part rv auth k) (\<lambda>(c, key) k1.
       case command_within rv c ''GET'' ''listHosts'' key (fmupd ''listall'' ''true'' fmempty) k1 of
         (Inl err, k2) \<Rightarrow> (Inl (no_removal, mold_error_text err), k2)
       | (Inr body, k2) \<Rightarrow>
           (case findCloudStackHost (rv_env rv) body hostname hostIP of
              None \<Rightarrow> (Inr (no_removal\<lparr>rr_VerifyResponse := Some body\<rparr>), k2)
            | Some host \<Rightarrow> remove_found rv c key hostname hostIP force host k2))"

section \<open>What is sent\<close>

lemma andThen_simps: "andThen (Inl err, s) f = (Inl err, s)" "andThen (Inr v, s) f = f v s"
  by (simp_all add: andThen_def)

definition command_of :: "api_request \<Rightarrow> string" where
  "command_of r = form_get (ar_values r) ''command''"

text \<open>The requests sent between two moments.\<close>

definition sent :: "(api_request \<Rightarrow> bool) \<Rightarrow> 'c net \<Rightarrow> 'c net \<Rightarrow> bool" where
  "sent P k k' \<longleftrightarrow> (\<exists>rs. k_sent k' = k_sent k @ rs \<and> list_all P rs)"

lemma sent_refl [simp]: "sent P k k"
  by (simp add: sent_def)

lemma sent_trans: "sent P k k1 \<Longrightarrow> sent P k1 k2 \<Longrightarrow> sent P k k2"
  by (auto simp: sent_def)

lemma sent_mono: "sent P k k' \<Longrightarrow> (\<And>r. P r \<Longrightarrow> Q r) \<Longrightarrow> sent Q k k'"
  by (auto simp: sent_def list_all_iff)

lemma sent_at_time [simp]: "sent P k (at_time t k1) \<longleftrightarrow> sent P k k1"
  by (simp add: sent_def at_time_def)

lemma k_time_at_time [simp]: "k_time (at_time t k) = t"
  by (simp add: at_time_def)

lemma command_within_sends:
  assumes "command_within rv c method command key params k = (res, k1)" and "trim_space command = command"
  shows "k_sent k1 = k_sent k
     \<or> (\<exists>m. k_sent k1 = k_sent k @ [\<lparr>ar_method = m, ar_endpoint = trim_space (c_endpoint c), ar_values = command_form c command key params\<rparr>])"
  using assms call_appends [of "rv_env rv" "rv_srv rv" c _ "command_form c command key params" k]
  by (auto simp: command_within_def CallCommand_def split: if_splits)

lemma sent_command:
  assumes "command_within rv c method command key params k = (res, k1)" and "trim_space command = command"
  shows "sent (\<lambda>r. command_of r = command) k k1"
  using command_within_sends [OF assms] by (auto simp: sent_def command_of_def command_form_fields)

lemma plain_commands:
  "trim_space ''listHosts'' = ''listHosts''" "trim_space ''prepareHostForMaintenance'' = ''prepareHostForMaintenance''"
  "trim_space ''queryAsyncJobResult'' = ''queryAsyncJobResult''" "trim_space ''deleteHost'' = ''deleteHost''"
  by code_simp+

lemma sent_job_loop: "sent (\<lambda>r. command_of r = ''queryAsyncJobResult'') k (snd (job_loop rv c key jobID timer_end tick k))"
proof (induction rv c key jobID timer_end tick k rule: job_loop.induct)
  case (1 rv c key jobID timer_end tick k)
  obtain res k1 where q: "command_within rv c ''GET'' ''queryAsyncJobResult'' key (fmupd ''jobid'' jobID fmempty) k = (res, k1)"
    by (metis prod.exhaust)
  note sq = sent_command [OF q plain_commands(3)]
  show ?case
  proof (cases res)
    case (Inl err)
    then show ?thesis using sq by (subst job_loop.simps) (simp add: q)
  next
    case (Inr response)
    let ?at = "select_time (k_time k1) (rv_deadline rv) timer_end tick"
    show ?thesis
    proof (cases "removal_status (rv_env rv) jobID response")
      case None
      note IH = 1 [OF q [symmetric] refl Inr None refl refl]
      show ?thesis
      proof (cases "select_case rv ?at timer_end tick")
        case Ticked
        have "sent (\<lambda>r. command_of r = ''queryAsyncJobResult'') k (at_time ?at k1)" using sq by simp
        from sent_trans [OF this IH [OF Ticked]] Ticked show ?thesis by (subst job_loop.simps) (simp add: q Inr None Let_def)
      qed (subst job_loop.simps, simp add: q Inr None Let_def sq)+
    qed (subst job_loop.simps, simp add: q Inr sq)
  qed
qed

definition quiet :: "api_request \<Rightarrow> bool" where
  "quiet r \<longleftrightarrow> command_of r \<in> {''login'', ''listHosts'', ''prepareHostForMaintenance'', ''queryAsyncJobResult''}"

lemma quiet_command:
  "command_within rv c method ''listHosts'' key params k = (res, k1) \<Longrightarrow> sent quiet k k1"
  "command_within rv c method ''prepareHostForMaintenance'' key params k = (res, k1) \<Longrightarrow> sent quiet k k1"
  by (drule sent_command, simp add: plain_commands, erule sent_mono, simp add: quiet_def)+

lemma quiet_wait: "sent quiet k (snd (waitCloudStackJob rv c key jobID k))"
  unfolding waitCloudStackJob_def by (rule sent_mono [OF sent_job_loop]) (simp add: quiet_def)

lemma quiet_login: "sent quiet k (snd (login_part rv auth k))"
proof -
  have form: "form_get (login_form auth) ''command'' = ''login''"
    by (simp add: login_form_def form_get_def Let_def fmlookup_of_list)
  have "sent quiet k (snd (Login e srv c auth k))" for e srv c
  proof -
    obtain res k1 where c: "call e srv c ''POST'' (login_form auth) k = (res, k1)" by (metis prod.exhaust)
    have "sent quiet k k1" using call_appends [OF c] by (auto simp: sent_def quiet_def command_of_def form)
    then show ?thesis by (simp add: Login_def c split: sum.split)
  qed
  then show ?thesis by (simp add: login_part_def split_beta split: sum.split prod.split)
qed

lemma quiet_maintenance:
  assumes "maintenance_part rv c key hostname result k = (ret, k1)"
  shows "sent quiet k k1" and "ret = Inr r \<Longrightarrow> rr_HostID r = rr_HostID result \<and> rr_Host r = rr_Host result"
proof -
  obtain res k0 where c: "command_within rv c ''POST'' ''prepareHostForMaintenance'' key (id_form (rr_HostID result)) k = (res, k0)"
    by (metis prod.exhaust)
  have "sent quiet k0 (snd (waitCloudStackJob rv c key jobID k0))" for jobID by (rule quiet_wait)
  then have "sent quiet k (snd (waitCloudStackJob rv c key jobID k0))" for jobID using quiet_command(2) [OF c] sent_trans by blast
  then show "sent quiet k k1"
    using assms quiet_command(2) [OF c] by (auto simp: maintenance_part_def c Let_def split: sum.splits if_splits prod.splits) (metis snd_conv)+
  show "rr_HostID r = rr_HostID result \<and> rr_Host r = rr_Host result" if "ret = Inr r"
    using assms that by (auto simp: maintenance_part_def c Let_def split: sum.splits if_splits prod.splits)
qed

lemma quiet_verify:
  assumes "verify_maintenance_part rv c key hostname hostIP result k = (ret, k1)"
  shows "sent quiet k k1"
    and "ret = Inr r \<Longrightarrow> rr_HostID r = rr_HostID result \<and> rr_Host r = rr_Host result
      \<and> (\<exists>body host. rr_MaintenanceVerify r = Some body \<and> findCloudStackHost (rv_env rv) body hostname hostIP = Some host
           \<and> in_maintenance (rv_env rv) host)"
proof -
  obtain res k0 where c: "command_within rv c ''GET'' ''listHosts'' key (id_form (rr_HostID result)) k = (res, k0)"
    by (metis prod.exhaust)
  show "sent quiet k k1"
    using assms quiet_command(1) [OF c] by (auto simp: verify_maintenance_part_def c Let_def split: sum.splits)
  show "rr_HostID r = rr_HostID result \<and> rr_Host r = rr_Host result
      \<and> (\<exists>body host. rr_MaintenanceVerify r = Some body \<and> findCloudStackHost (rv_env rv) body hostname hostIP = Some host
           \<and> in_maintenance (rv_env rv) host)" if "ret = Inr r"
    using assms that by (auto simp: verify_maintenance_part_def c Let_def split: sum.splits option.splits if_splits)
qed

lemma quiet_gone:
  assumes "verify_gone_part rv c key hostname hostIP result k = (ret, k1)"
  shows "sent quiet k k1"
    and "ret = Inr r \<or> ret = Inl (r, text) \<Longrightarrow> r = result\<lparr>rr_VerifyResponse := rr_VerifyResponse r\<rparr>"
    and "ret = Inr r \<Longrightarrow> \<exists>body. rr_VerifyResponse r = Some body \<and> findCloudStackHost (rv_env rv) body hostname hostIP = None"
proof -
  obtain res k0 where c: "command_within rv c ''GET'' ''listHosts'' key (id_form (rr_HostID result)) k = (res, k0)"
    by (metis prod.exhaust)
  show "sent quiet k k1"
    using assms quiet_command(1) [OF c] by (auto simp: verify_gone_part_def c Let_def split: sum.splits)
  show "r = result\<lparr>rr_VerifyResponse := rr_VerifyResponse r\<rparr>" if "ret = Inr r \<or> ret = Inl (r, text)"
    using assms that by (auto simp: verify_gone_part_def c Let_def split: sum.splits if_splits)
  show "\<exists>body. rr_VerifyResponse r = Some body \<and> findCloudStackHost (rv_env rv) body hostname hostIP = None" if "ret = Inr r"
    using assms that by (auto simp: verify_gone_part_def c Let_def split: sum.splits if_splits)
qed

section \<open>Properties\<close>

text \<open>The result of a part, with an error or without.\<close>

definition result_of :: "(RemoveHostResult \<times> string) + RemoveHostResult \<Rightarrow> RemoveHostResult" where
  "result_of ret = (case ret of Inl (r, text) \<Rightarrow> r | Inr r \<Rightarrow> r)"

text \<open>The one request that deletes: for the id found, with the choice of the caller, and never for a host out of maintenance.\<close>

definition deletion_ok :: "mold_env \<Rightarrow> string \<Rightarrow> string \<Rightarrow> bool \<Rightarrow> RemoveHostResult \<Rightarrow> api_request \<Rightarrow> bool" where
  "deletion_ok e hostname hostIP force result d \<longleftrightarrow>
     command_of d = ''deleteHost'' \<and> rr_HostID result \<noteq> [] \<and> form_get (ar_values d) ''id'' = rr_HostID result
     \<and> form_get (ar_values d) ''forced'' = (if force then ''true'' else ''false'') \<and> form_get (ar_values d) ''forcedestroylocalstorage'' = ''false''
     \<and> (\<exists>found. rr_Host result = Some found \<and> stringValue e (mget found ''id'') = rr_HostID result)
     \<and> (\<exists>body host. rr_MaintenanceVerify result = Some body \<and> findCloudStackHost e body hostname hostIP = Some host \<and> in_maintenance e host)"

lemma delete_sends:
  assumes "delete_part rv c key hostname force result k = (ret, k1)"
    and "rr_HostID result \<noteq> []" and "rr_Host result = Some found" and "stringValue (rv_env rv) (mget found ''id'') = rr_HostID result"
    and "rr_MaintenanceVerify result = Some body" and "findCloudStackHost (rv_env rv) body hostname hostIP = Some host" and "in_maintenance (rv_env rv) host"
  shows "\<exists>ds. k_sent k1 = k_sent k @ ds \<and> (ds = [] \<or> (\<exists>d. ds = [d] \<and> deletion_ok (rv_env rv) hostname hostIP force result d))
      \<and> (\<forall>r. ret = Inr r \<longrightarrow> ds \<noteq> [])"
    and "result_of ret = result\<lparr>rr_DeleteResponse := rr_DeleteResponse (result_of ret)\<rparr>"
proof -
  let ?form = "fmupd ''forcedestroylocalstorage'' ''false'' (fmupd ''forced'' (if force then ''true'' else ''false'') (id_form (rr_HostID result)))"
  obtain res k0 where c: "command_within rv c ''POST'' ''deleteHost'' key ?form k = (res, k0)" by (metis prod.exhaust)
  have k0: "k1 = k0" using assms(1) by (auto simp: delete_part_def c Let_def split: sum.splits)
  have form: "form_get (command_form c ''deleteHost'' key ?form) ''id'' = rr_HostID result"
      "form_get (command_form c ''deleteHost'' key ?form) ''forced'' = (if force then ''true'' else ''false'')"
      "form_get (command_form c ''deleteHost'' key ?form) ''forcedestroylocalstorage'' = ''false''"
    by (simp_all add: command_form_def Let_def id_form_def)
  have ok: "deletion_ok (rv_env rv) hostname hostIP force result
      \<lparr>ar_method = m, ar_endpoint = u, ar_values = command_form c ''deleteHost'' key ?form\<rparr>" for m u
    using assms(2-7) unfolding deletion_ok_def command_of_def by (simp add: form command_form_fields)
  have some: "k_sent k0 \<noteq> k_sent k" if "res = Inr deleted" for deleted
    using c that call_success [of "rv_env rv" "rv_srv rv" c _ "command_form c ''deleteHost'' key ?form" k deleted k0]
    by (auto simp: command_within_def CallCommand_def plain_commands split: if_splits)
  show "\<exists>ds. k_sent k1 = k_sent k @ ds \<and> (ds = [] \<or> (\<exists>d. ds = [d] \<and> deletion_ok (rv_env rv) hostname hostIP force result d))
      \<and> (\<forall>r. ret = Inr r \<longrightarrow> ds \<noteq> [])"
  proof -
    have ret: "\<exists>deleted. res = Inr deleted" if "ret = Inr r" for r
      using assms(1) that by (auto simp: delete_part_def c Let_def split: sum.splits)
    from command_within_sends [OF c plain_commands(4)] show ?thesis
    proof
      assume same: "k_sent k0 = k_sent k"
      then have "\<forall>r. ret \<noteq> Inr r" using ret some by blast
      with same show ?thesis by (intro exI [of _ "[]"]) (simp add: k0)
    next
      assume "\<exists>m. k_sent k0 = k_sent k @ [\<lparr>ar_method = m, ar_endpoint = trim_space (c_endpoint c), ar_values = command_form c ''deleteHost'' key ?form\<rparr>]"
      with ok k0 show ?thesis by blast
    qed
  qed
  show "result_of ret = result\<lparr>rr_DeleteResponse := rr_DeleteResponse (result_of ret)\<rparr>"
    using assms(1) by (auto simp: delete_part_def c Let_def result_of_def split: sum.splits if_splits)
qed

lemma deletion_ok_result:
  "deletion_ok e hostname hostIP force result d \<Longrightarrow> rr_HostID r = rr_HostID result \<Longrightarrow> rr_Host r = rr_Host result \<Longrightarrow>
     rr_MaintenanceVerify r = rr_MaintenanceVerify result \<Longrightarrow> deletion_ok e hostname hostIP force r d"
  by (simp add: deletion_ok_def)

text \<open>What a run of the removal did, from the requests it sent and the result it reports.\<close>

definition removal_ok :: "mold_env \<Rightarrow> string \<Rightarrow> string \<Rightarrow> bool \<Rightarrow> 'c net \<Rightarrow> (RemoveHostResult \<times> string) + RemoveHostResult \<Rightarrow> 'c net \<Rightarrow> bool" where
  "removal_ok e hostname hostIP force k ret k' \<longleftrightarrow>
     (\<exists>before ds after. k_sent k' = k_sent k @ before @ ds @ after \<and> list_all quiet before \<and> list_all quiet after
        \<and> (ds = [] \<or> (\<exists>d. ds = [d] \<and> deletion_ok e hostname hostIP force (result_of ret) d))
        \<and> (\<forall>r. ret = Inr r \<longrightarrow> (rr_HostID r \<noteq> [] \<longrightarrow> ds \<noteq> [])
             \<and> (\<exists>body. rr_VerifyResponse r = Some body \<and> findCloudStackHost e body hostname hostIP = None)))"

lemma removal_quiet: "sent quiet k k' \<Longrightarrow> (\<And>r. ret \<noteq> Inr r) \<Longrightarrow> removal_ok e hostname hostIP force k ret k'"
  unfolding removal_ok_def sent_def by (metis append_Nil2 list.pred_inject(1))

lemma removal_before:
  assumes "sent quiet k k1" and "removal_ok e hostname hostIP force k1 ret k'"
  shows "removal_ok e hostname hostIP force k ret k'"
proof -
  obtain rs where rs: "k_sent k1 = k_sent k @ rs" "list_all quiet rs" using assms(1) by (auto simp: sent_def)
  obtain before ds after where s: "k_sent k' = k_sent k1 @ before @ ds @ after" "list_all quiet before" "list_all quiet after"
      "ds = [] \<or> (\<exists>d. ds = [d] \<and> deletion_ok e hostname hostIP force (result_of ret) d)"
      "\<forall>r. ret = Inr r \<longrightarrow> (rr_HostID r \<noteq> [] \<longrightarrow> ds \<noteq> [])
         \<and> (\<exists>body. rr_VerifyResponse r = Some body \<and> findCloudStackHost e body hostname hostIP = None)"
    using assms(2) unfolding removal_ok_def by blast
  have "k_sent k' = k_sent k @ (rs @ before) @ ds @ after" using s(1) rs(1) by simp
  moreover have "list_all quiet (rs @ before)" using rs(2) s(2) by simp
  ultimately show ?thesis unfolding removal_ok_def using s(3-5) by blast
qed

lemma removal_last:
  assumes "rr_HostID result \<noteq> []" and "rr_Host result = Some found" and "stringValue (rv_env rv) (mget found ''id'') = rr_HostID result"
    and "rr_MaintenanceVerify result = Some body" and "findCloudStackHost (rv_env rv) body hostname hostIP = Some host" and "in_maintenance (rv_env rv) host"
    and "andThen (delete_part rv c key hostname force result k) (verify_gone_part rv c key hostname hostIP) = (ret, k')"
  shows "removal_ok (rv_env rv) hostname hostIP force k ret k'"
proof -
  obtain ret1 k1 where d: "delete_part rv c key hostname force result k = (ret1, k1)" by (metis prod.exhaust)
  note del = delete_sends [OF d assms(1-6)]
  obtain ds where ds: "k_sent k1 = k_sent k @ ds" "ds = [] \<or> (\<exists>d. ds = [d] \<and> deletion_ok (rv_env rv) hostname hostIP force result d)"
      "\<forall>r. ret1 = Inr r \<longrightarrow> ds \<noteq> []" using del(1) by blast
  show ?thesis
  proof (cases ret1)
    case (Inl e)
    then have r: "ret = Inl e" "k' = k1" using assms(7) by (simp_all add: andThen_def d)
    have eq: "result_of ret = result\<lparr>rr_DeleteResponse := rr_DeleteResponse (result_of ret)\<rparr>" using del(2) Inl r(1) by simp
    have keep: "rr_HostID (result_of ret) = rr_HostID result" "rr_Host (result_of ret) = rr_Host result"
        "rr_MaintenanceVerify (result_of ret) = rr_MaintenanceVerify result"
      by (subst eq, simp)+
    have "ds = [] \<or> (\<exists>d. ds = [d] \<and> deletion_ok (rv_env rv) hostname hostIP force (result_of ret) d)"
      using ds(2) deletion_ok_result keep by metis
    then show ?thesis unfolding removal_ok_def using ds(1) r by (intro exI [of _ "[]"] exI [of _ ds]) auto
  next
    case (Inr r1)
    have r1: "r1 = result\<lparr>rr_DeleteResponse := rr_DeleteResponse r1\<rparr>" using del(2) Inr by (simp add: result_of_def)
    have g: "verify_gone_part rv c key hostname hostIP r1 k1 = (ret, k')" using assms(7) by (simp add: andThen_def d Inr)
    note gone = quiet_gone [OF g]
    obtain rs where rs: "k_sent k' = k_sent k1 @ rs" "list_all quiet rs" using gone(1) by (auto simp: sent_def)
    have r: "result_of ret = r1\<lparr>rr_VerifyResponse := rr_VerifyResponse (result_of ret)\<rparr>"
      using gone(2) by (cases ret) (auto simp: result_of_def)
    have keep: "rr_HostID (result_of ret) = rr_HostID result" "rr_Host (result_of ret) = rr_Host result"
        "rr_MaintenanceVerify (result_of ret) = rr_MaintenanceVerify result"
      by (subst r, subst r1, simp)+
    have "ds = [] \<or> (\<exists>d. ds = [d] \<and> deletion_ok (rv_env rv) hostname hostIP force (result_of ret) d)"
      using ds(2) deletion_ok_result keep by metis
    moreover have "ds \<noteq> []" using ds(3) Inr by blast
    ultimately show ?thesis
      unfolding removal_ok_def using ds(1) rs gone(3) by (intro exI [of _ "[]"] exI [of _ ds] exI [of _ rs]) auto
  qed
qed

lemma removal_found:
  assumes "remove_found rv c key hostname hostIP force host k = (ret, k')"
  shows "removal_ok (rv_env rv) hostname hostIP force k ret k'"
proof -
  define hostID where "hostID = stringValue (rv_env rv) (mget host ''id'')"
  define result where "result = no_removal\<lparr>rr_HostID := hostID, rr_Host := Some host\<rparr>"
  show ?thesis
  proof (cases "hostID = []")
    case True
    then show ?thesis using assms by (intro removal_quiet) (auto simp: remove_found_def Let_def hostID_def)
  next
    case False
    let ?first = "if in_maintenance (rv_env rv) host then (Inr result, k) else maintenance_part rv c key hostname result k"
    obtain ret1 k1 where p1: "?first = (ret1, k1)" by (cases ?first)
    have q1: "sent quiet k k1"
      using p1 quiet_maintenance(1) [of rv c key hostname result k ret1 k1] by (auto split: if_splits)
    have f1: "rr_HostID r1 = hostID \<and> rr_Host r1 = Some host" if "ret1 = Inr r1" for r1
      using p1 quiet_maintenance(2) [of rv c key hostname result k ret1 k1] that by (auto simp: result_def split: if_splits)
    have body: "andThen (ret1, k1) (\<lambda>result1 k1. andThen (verify_maintenance_part rv c key hostname hostIP result1 k1)
        (\<lambda>result2 k2. andThen (delete_part rv c key hostname force result2 k2) (verify_gone_part rv c key hostname hostIP))) = (ret, k')"
    proof -
      have "remove_found rv c key hostname hostIP force host k = andThen ?first (\<lambda>result1 k1.
          andThen (verify_maintenance_part rv c key hostname hostIP result1 k1)
            (\<lambda>result2 k2. andThen (delete_part rv c key hostname force result2 k2) (verify_gone_part rv c key hostname hostIP)))"
        using False by (simp add: remove_found_def Let_def hostID_def result_def)
      with assms show ?thesis unfolding p1 by simp
    qed
    show ?thesis
    proof (cases ret1)
      case (Inl e)
      then show ?thesis using body q1 by (intro removal_quiet) (auto simp: andThen_simps)
    next
      case (Inr r1)
      obtain ret2 k2 where p2: "verify_maintenance_part rv c key hostname hostIP r1 k1 = (ret2, k2)" by (metis prod.exhaust)
      note v = quiet_verify [OF p2]
      have q2: "sent quiet k k2" using q1 v(1) sent_trans by blast
      show ?thesis
      proof (cases ret2)
        case (Inl e)
        then show ?thesis using body q2 unfolding \<open>ret1 = Inr r1\<close> andThen_simps p2 by (intro removal_quiet) (auto simp: andThen_simps)
      next
        case (Inr r2)
        have keep: "rr_HostID r2 = hostID" "rr_Host r2 = Some host"
          using v(2) [OF Inr] f1 [OF \<open>ret1 = Inr r1\<close>] by simp_all
        obtain b h where b: "rr_MaintenanceVerify r2 = Some b" "findCloudStackHost (rv_env rv) b hostname hostIP = Some h"
            "in_maintenance (rv_env rv) h" using v(2) [OF Inr] by blast
        have "andThen (delete_part rv c key hostname force r2 k2) (verify_gone_part rv c key hostname hostIP) = (ret, k')"
          using body unfolding \<open>ret1 = Inr r1\<close> andThen_simps p2 Inr .
        moreover have "rr_HostID r2 \<noteq> []" unfolding keep(1) by (rule False)
        moreover have "stringValue (rv_env rv) (mget host ''id'') = rr_HostID r2" unfolding keep(1) by (rule hostID_def [symmetric])
        ultimately have "removal_ok (rv_env rv) hostname hostIP force k2 ret k'" using keep(2) b by (intro removal_last)
        then show ?thesis by (rule removal_before [OF q2])
      qed
    qed
  qed
qed

text \<open>
  C10. A removal is guarded: besides reading, logging in and asking for maintenance it sends at most one
  request, the deletion of the host that the first list named, and that one only after the cloud manager
  confirmed the host in maintenance; without an error the last list does not name the host any more,
  and the deletion was sent unless the host was not there from the start.
\<close>

theorem RemoveHost_guarded:
  "removal_ok (rv_env rv) hostname hostIP force k (fst (RemoveHost rv auth hostname hostIP force k)) (snd (RemoveHost rv auth hostname hostIP force k))"
proof -
  obtain ret k1 where l: "login_part rv auth k = (ret, k1)" by (metis prod.exhaust)
  have q1: "sent quiet k k1" using quiet_login [of k rv auth] by (simp add: l)
  show ?thesis
  proof (cases ret)
    case (Inl e)
    then show ?thesis using q1 by (intro removal_quiet) (auto simp: RemoveHost_def andThen_def l)
  next
    case (Inr ck)
    then obtain c key where ck: "ret = Inr (c, key)" by (cases ck) simp
    obtain res k2 where q: "command_within rv c ''GET'' ''listHosts'' key (fmupd ''listall'' ''true'' fmempty) k1 = (res, k2)"
      by (metis prod.exhaust)
    have q2: "sent quiet k k2" using q1 quiet_command(1) [OF q] sent_trans by blast
    show ?thesis
    proof (cases res)
      case (Inl e)
      then show ?thesis using q2 by (intro removal_quiet) (auto simp: RemoveHost_def andThen_def l ck q)
    next
      case (Inr body)
      show ?thesis
      proof (cases "findCloudStackHost (rv_env rv) body hostname hostIP")
        case None
        have "removal_ok (rv_env rv) hostname hostIP force k2 (Inr (no_removal\<lparr>rr_VerifyResponse := Some body\<rparr>)) k2"
          unfolding removal_ok_def
          by (intro exI [of _ "[]"]) (simp add: None no_removal_def)
        with removal_before [OF q2] show ?thesis by (simp add: RemoveHost_def andThen_def l ck q Inr None)
      next
        case (Some host)
        have "removal_ok (rv_env rv) hostname hostIP force k2 (fst (remove_found rv c key hostname hostIP force host k2))
            (snd (remove_found rv c key hostname hostIP force host k2))"
          by (rule removal_found) simp
        with removal_before [OF q2] show ?thesis by (simp add: RemoveHost_def andThen_def l ck q Inr Some)
      qed
    qed
  qed
qed

lemma ticks_left:
  fixes i d t n :: nat
  assumes "0 < i" and "t < d" and "t + i \<le> n"
  shows "Suc ((d - n + i - 1) div i) \<le> (d - t + i - 1) div i"
proof (cases "i \<le> d - t")
  case True
  then have "(d - n + i - 1) + i \<le> d - t + i - 1" using assms by linarith
  then have "((d - n + i - 1) + i) div i \<le> (d - t + i - 1) div i" by (rule div_le_mono)
  then show ?thesis using assms(1) by (subst (asm) div_add_self2) simp_all
next
  case False
  then have "d - n = 0" "i \<le> d - t + i - 1" using assms by linarith+
  then show ?thesis using assms(1) by (simp add: Suc_le_eq div_greater_zero_iff)
qed

text \<open>
  The wait for a job ends whatever the server answers and however the ready cases are chosen: the
  job is asked for at most once more than ticks fit between the first tick and the end of the context.
\<close>

theorem job_wait_bounded:
  "length (k_sent (snd (job_loop rv c key jobID timer_end tick k)))
     \<le> length (k_sent k) + Suc ((rv_deadline rv - tick + job_interval (rv_env rv) - 1) div job_interval (rv_env rv))"
proof (induction rv c key jobID timer_end tick k rule: job_loop.induct)
  case (1 rv c key jobID timer_end tick k)
  let ?i = "job_interval (rv_env rv)" and ?d = "rv_deadline rv"
  obtain res k1 where q: "command_within rv c ''GET'' ''queryAsyncJobResult'' key (fmupd ''jobid'' jobID fmempty) k = (res, k1)"
    by (metis prod.exhaust)
  have one: "length (k_sent k1) \<le> Suc (length (k_sent k))" using command_within_sends [OF q plain_commands(3)] by auto
  show ?case
  proof (cases res)
    case (Inl err)
    then show ?thesis using one by (subst job_loop.simps) (simp add: q)
  next
    case (Inr response)
    let ?at = "select_time (k_time k1) ?d timer_end tick"
    show ?thesis
    proof (cases "removal_status (rv_env rv) jobID response")
      case None
      note IH = 1 [OF q [symmetric] refl Inr None refl refl]
      show ?thesis
      proof (cases "select_case rv ?at timer_end tick")
        case Ticked
        let ?next = "next_tick ?i tick ?at" and ?k2 = "at_time ?at k1"
        have step: "job_loop rv c key jobID timer_end tick k = job_loop rv c key jobID timer_end ?next ?k2"
          using Ticked by (subst job_loop.simps) (simp add: q Inr None Let_def)
        have tick: "tick \<le> ?at" by (rule select_ready_tick [OF Ticked]) (rule select_time_ready)
        have sent2: "length (k_sent ?k2) \<le> Suc (length (k_sent k))" using one by (simp add: at_time_def)
        show ?thesis
        proof (cases "?at < ?d")
          case True
          have i: "0 < ?i" by (rule job_interval_pos)
          have "tick + ?i \<le> ?next" using next_tick_later [OF i] by blast
          moreover have "tick < ?d" using tick True by simp
          ultimately have "Suc ((?d - ?next + ?i - 1) div ?i) \<le> (?d - tick + ?i - 1) div ?i" using ticks_left [OF i] by blast
          with IH [OF Ticked] sent2 show ?thesis unfolding step by linarith
        next
          case False
          then have "snd (job_loop rv c key jobID timer_end ?next ?k2) = ?k2"
            by (subst job_loop.simps) (simp add: command_within_def)
          with sent2 show ?thesis unfolding step by simp
        qed
      qed (subst job_loop.simps, simp add: q Inr None Let_def, use one in \<open>simp add: at_time_def\<close>)+
    qed (subst job_loop.simps, simp add: q Inr, use one in simp)
  qed
qed

end
