(* ===== verification/Net_IP.thy ===== *)
theory Net_IP
  imports Glue_Validation
begin

text \<open>
  Addresses as values: what \<^verbatim>\<open>net.ParseIP\<close> returns, in the sixteen byte form, as eight groups. The
  printed form of an address is only used as a key and is one to one, so the groups take its place.
  The recognisers of \<open>Glue_Validation\<close> are the domain of these parsers.
\<close>

type_synonym ip = "nat list"

definition hex_digit :: "char \<Rightarrow> nat" where
  "hex_digit c = (let n = of_char c in if n \<le> 57 then n - 48 else if n \<le> 70 then n - 55 else n - 87)"

definition parse_hex :: "string \<Rightarrow> nat" where
  "parse_hex = foldl (\<lambda>n c. 16 * n + hex_digit c) 0"

definition v4_groups :: "string \<Rightarrow> nat list" where
  "v4_groups s = (case map parse_digits (split_on CHR ''.'' s) of [a, b, c, d] \<Rightarrow> [256 * a + b, 256 * c + d] | _ \<Rightarrow> [])"

text \<open>Where the double colon stood, if it did; the groups it stands for are zero.\<close>

definition v6_expand :: "nat \<Rightarrow> nat list \<Rightarrow> nat option \<Rightarrow> ip option" where
  "v6_expand left groups ellipsis =
     (case ellipsis of
        None \<Rightarrow> if left = 0 then Some groups else None
      | Some p \<Rightarrow> if left = 0 then None else Some (take p groups @ replicate left 0 @ drop p groups))"

fun v6_value :: "nat \<Rightarrow> nat list \<Rightarrow> nat option \<Rightarrow> string \<Rightarrow> ip option" where
  "v6_value 0 groups ellipsis s = (if s = [] \<and> ellipsis = None then Some groups else None)"
| "v6_value (Suc left) groups ellipsis s =
     (let digits = length (takeWhile is_hex s); rest = drop digits s; groups' = groups @ [parse_hex (take digits s)]
      in if digits = 0 \<or> digits > 4 then None
         else (case rest of
                 [] \<Rightarrow> v6_expand left groups' ellipsis
               | c # t \<Rightarrow>
                   if c = CHR ''.'' then
                     (if (ellipsis \<noteq> None \<or> left = 1) \<and> 1 \<le> left \<and> parse_v4 s then v6_expand (left - 1) (groups @ v4_groups s) ellipsis else None)
                   else if c = CHR '':'' then
                     (case t of
                        [] \<Rightarrow> None
                      | d # u \<Rightarrow>
                          if d = CHR '':'' then
                            (if ellipsis \<noteq> None then None
                             else if u = [] then v6_expand left groups' (Some (length groups'))
                             else v6_value left groups' (Some (length groups')) u)
                          else v6_value left groups' ellipsis t)
                   else None))"

definition v6_parse :: "string \<Rightarrow> ip option" where
  "v6_parse s =
     (if has_prefix s ''::'' then (if drop 2 s = [] then Some (replicate 8 0) else v6_value 8 [] (Some 0) (drop 2 s))
      else v6_value 8 [] None s)"

definition ip_value :: "string \<Rightarrow> ip option" where
  "ip_value s =
     (case ip_bits s of
        None \<Rightarrow> None
      | Some bits \<Rightarrow> if bits = 32 then Some ([0, 0, 0, 0, 0, 65535] @ v4_groups s) else v6_parse s)"

section \<open>Domain and shape\<close>

lemma v6_expand_domain: "v6_expand left groups ellipsis = None \<longleftrightarrow> \<not> v6_end left (ellipsis \<noteq> None)"
  by (auto simp: v6_expand_def v6_end_def split: option.splits)

lemma v6_value_domain: "v6_value left groups ellipsis s = None \<longleftrightarrow> \<not> v6_loop left (ellipsis \<noteq> None) s"
proof (induction left groups ellipsis s rule: v6_value.induct)
  case (2 left groups ellipsis s)
  note unfold_once = v6_value.simps(2) [of left groups ellipsis s] v6_loop.simps(2) [of left "ellipsis \<noteq> None" s]
  let ?rest = "drop (length (takeWhile is_hex s)) s"
  show ?case
  proof (cases ?rest)
    case Nil
    then show ?thesis unfolding unfold_once by (simp add: Let_def v6_expand_domain)
  next
    case (Cons c t)
    show ?thesis
    proof (cases t)
      case Nil
      then show ?thesis unfolding unfold_once using Cons by (auto simp: Let_def v6_expand_domain)
    next
      case (Cons d u)
      then show ?thesis unfolding unfold_once using 2 \<open>?rest = c # t\<close>
        by (cases "c = CHR ''.''"; cases "c = CHR '':''"; cases ellipsis)
          (auto simp: Let_def v6_expand_domain simp del: v6_value.simps(2) v6_loop.simps(2))
    qed
  qed
qed simp

lemma v6_parse_domain: "v6_parse s = None \<longleftrightarrow> \<not> parse_v6 s"
  using v6_value_domain [of 8 "[]" "Some 0" "drop 2 s"] v6_value_domain [of 8 "[]" None s]
  by (simp add: v6_parse_def parse_v6_def)

lemma ip_bits_cases: "ip_bits s = Some b \<Longrightarrow> b = 32 \<and> parse_v4 s \<or> b = 128 \<and> parse_v6 s"
  by (auto simp: ip_bits_def split: list.splits if_splits)

lemma ip_value_domain: "ip_value s = None \<longleftrightarrow> \<not> ParseIP s"
  using v6_parse_domain [of s] by (auto simp: ip_value_def ParseIP_def split: option.split dest: ip_bits_cases)

section \<open>The addresses of a node\<close>

text \<open>
  The normal form of an address that may carry a prefix length, and membership in the set of the
  addresses of the node; both copies of the role guard have these functions.
\<close>

definition normalizeIP :: "string \<Rightarrow> ip option" where
  "normalizeIP value =
     (let v = trim_space value
      in if v = [] then None
         else ip_value (if CHR ''/'' \<in> set v \<and> ParseCIDR v then takeWhile (\<lambda>c. c \<noteq> CHR ''/'') v else v))"

definition localIPSet :: "string list \<Rightarrow> ip list" where
  "localIPSet addrs = List.map_filter normalizeIP addrs"

definition hasIP :: "ip list \<Rightarrow> string list \<Rightarrow> bool" where
  "hasIP localIPs values \<longleftrightarrow>
     list_ex (\<lambda>value. case normalizeIP value of None \<Rightarrow> False | Some ip \<Rightarrow> ip \<in> set localIPs) values"

definition isLocalTarget :: "string list \<Rightarrow> string \<Rightarrow> bool" where
  "isLocalTarget addrs target \<longleftrightarrow>
     (if target = [] then False
      else if target = ''127.0.0.1'' \<or> equal_fold target ''localhost'' then True
      else (case ip_value target of None \<Rightarrow> False | Some ip \<Rightarrow> Some ip \<in> set (map ip_value addrs)))"

lemma hasIP_blank: "blank value \<Longrightarrow> hasIP localIPs (value # values) = hasIP localIPs values"
  by (simp add: hasIP_def normalizeIP_def Let_def)

lemma hasIP_Nil [simp]: "\<not> hasIP localIPs []"
  by (simp add: hasIP_def)

end
