(* ===== verification/Node_Role.thy ===== *)
theory Node_Role
  imports Cloud_Init Net_IP
begin

text \<open>
  The guards of the two APIs that only one kind of node serves: \<^verbatim>\<open>internal/handler/mold/node_role.go\<close>
  and \<^verbatim>\<open>internal/handler/glue/scvm_guard.go\<close>. Both find out what the node is, from the environment,
  from a file, or from the addresses in the cluster document; they are two copies that differ in the
  order of the last part. The copies share the functions here that do not differ.
\<close>

section \<open>Detection\<close>

record NodeRoleStatus =
  nr_Role :: string
  nr_Source :: string
  nr_Own :: bool
  nr_Reason :: string

text \<open>
  What a node sees: its environment, its files, the document at a path, and the addresses of its
  interfaces (none if they cannot be listed).
\<close>

record node_view =
  nv_getenv :: getenv
  nv_readFile :: "string \<Rightarrow> string option"
  nv_document :: "string \<Rightarrow> doc_state"
  nv_addrs :: "string list"

definition ccvm_names :: "string list" where
  "ccvm_names = [''ccvm'', ''cloud'', ''cloud-vm'', ''cloud_vm'']"

definition scvm_names :: "string list" where
  "scvm_names = [''scvm'', ''storage'', ''storage-vm'', ''storage_vm'']"

definition host_role_names :: "string list" where
  "host_role_names = [''host'', ''ablecube'', ''cube'', ''physical'', ''node'']"

definition mold_normalizeNodeRole :: "string \<Rightarrow> string \<times> bool" where
  "mold_normalizeNodeRole raw =
     (let role = to_lower (trim_space raw)
      in if role \<in> set ccvm_names then (''ccvm'', True)
         else if role \<in> set scvm_names then (''scvm'', False)
         else if role \<in> set host_role_names then (''host'', False)
         else (role, False))"

definition glue_normalizeNodeRole :: "string \<Rightarrow> string \<times> bool" where
  "glue_normalizeNodeRole raw =
     (let role = to_lower (trim_space raw)
      in if role \<in> set scvm_names then (''scvm'', True)
         else if role \<in> set ccvm_names then (''ccvm'', False)
         else if role \<in> set host_role_names then (''host'', False)
         else (role, False))"

definition named_role :: "(string \<Rightarrow> string \<times> bool) \<Rightarrow> string \<Rightarrow> string \<Rightarrow> string \<Rightarrow> NodeRoleStatus" where
  "named_role classify source origin value =
     (let (role, own) = classify value in \<lparr>nr_Role = role, nr_Source = source, nr_Own = own, nr_Reason = origin @ ''='' @ value\<rparr>)"

definition detectNodeRoleFromEnv :: "(string \<Rightarrow> string \<times> bool) \<Rightarrow> node_view \<Rightarrow> NodeRoleStatus option" where
  "detectNodeRoleFromEnv classify nv =
     (let raw = trim_space (nv_getenv nv ''ABLESTACK_NODE_ROLE'')
      in if raw = [] then None else Some (named_role classify ''env'' ''ABLESTACK_NODE_ROLE'' raw))"

definition role_file :: "node_view \<Rightarrow> string" where
  "role_file nv =
     (let path = trim_space (nv_getenv nv ''ABLESTACK_NODE_ROLE_FILE'') in if path = [] then ''/etc/ablestack/node-role'' else path)"

definition detectNodeRoleFromFile :: "(string \<Rightarrow> string \<times> bool) \<Rightarrow> node_view \<Rightarrow> NodeRoleStatus option" where
  "detectNodeRoleFromFile classify nv =
     (case nv_readFile nv (role_file nv) of
        None \<Rightarrow> None
      | Some raw \<Rightarrow>
          (let value = trim_space raw in if value = [] then None else Some (named_role classify ''file'' (role_file nv) value)))"

definition role_document_path :: "node_view \<Rightarrow> string" where
  "role_document_path nv =
     (let path = trim_space (nv_getenv nv ''ABLESTACK_CLUSTER_JSON''); base = trim_space (nv_getenv nv ''ABLESTACK_CONFIG_PATH'')
      in if path \<noteq> [] then path
         else path_join [if base = [] then ''/etc/ablestack'' else base, ''properties'', ''cluster.json''])"

text \<open>
  The section of the normalised document; the guards decode fewer fields of a host, but those left out
  are strings in a normalised document.
\<close>

definition role_section :: "node_view \<Rightarrow> ClusterConfigSection option" where
  "role_section nv = LoadClusterConfigSection (nv_document nv (role_document_path nv))"

definition by_address :: "string \<Rightarrow> bool \<Rightarrow> string \<Rightarrow> NodeRoleStatus" where
  "by_address role own reason = \<lparr>nr_Role = role, nr_Source = ''cluster.json'', nr_Own = own, nr_Reason = reason\<rparr>"

definition ccvm_by_address :: "bool \<Rightarrow> ip list \<Rightarrow> ClusterConfigSection \<Rightarrow> NodeRoleStatus option" where
  "ccvm_by_address own localIPs cfg =
     (if hasIP localIPs [sec_CCVM_IP cfg] then Some (by_address ''ccvm'' own ''local IP matches clusterConfig.ccvm.ip'') else None)"

definition scvm_by_address :: "bool \<Rightarrow> ip list \<Rightarrow> ClusterConfigSection \<Rightarrow> NodeRoleStatus option" where
  "scvm_by_address own localIPs cfg =
     (case List.find (\<lambda>host. hasIP localIPs [ScvmMngt host, Scvm host]) (sec_Hosts cfg) of
        None \<Rightarrow> None
      | Some host \<Rightarrow> Some (by_address ''scvm'' own (''local IP matches hosts[].scvmMngt/scvm for '' @ trim_space (Hostname host))))"

definition host_by_address :: "ip list \<Rightarrow> ClusterConfigSection \<Rightarrow> NodeRoleStatus option" where
  "host_by_address localIPs cfg =
     (case List.find (\<lambda>host. hasIP localIPs [Ablecube host]) (sec_Hosts cfg) of
        None \<Rightarrow> None
      | Some host \<Rightarrow> Some (by_address ''host'' False (''local IP matches hosts[].ablecube for '' @ trim_space (Hostname host))))"

fun first_status :: "NodeRoleStatus option list \<Rightarrow> NodeRoleStatus option" where
  "first_status [] = None"
| "first_status (Some status # rest) = Some status"
| "first_status (None # rest) = first_status rest"

definition mold_detectNodeRoleFromClusterJSON :: "node_view \<Rightarrow> NodeRoleStatus option" where
  "mold_detectNodeRoleFromClusterJSON nv =
     (case role_section nv of
        None \<Rightarrow> None
      | Some cfg \<Rightarrow>
          (let localIPs = localIPSet (nv_addrs nv)
           in first_status [ccvm_by_address True localIPs cfg, scvm_by_address False localIPs cfg, host_by_address localIPs cfg]))"

definition glue_detectNodeRoleFromClusterJSON :: "node_view \<Rightarrow> NodeRoleStatus option" where
  "glue_detectNodeRoleFromClusterJSON nv =
     (case role_section nv of
        None \<Rightarrow> None
      | Some cfg \<Rightarrow>
          (let localIPs = localIPSet (nv_addrs nv)
           in first_status [scvm_by_address True localIPs cfg, host_by_address localIPs cfg, ccvm_by_address False localIPs cfg]))"

definition unknown_role :: "string \<Rightarrow> NodeRoleStatus" where
  "unknown_role own =
     \<lparr>nr_Role = ''unknown'', nr_Source = ''none'', nr_Own = False,
      nr_Reason = ''ABLESTACK_NODE_ROLE, node-role file, and cluster.json did not identify this node as '' @ own\<rparr>"

definition mold_DetectNodeRole :: "node_view \<Rightarrow> NodeRoleStatus" where
  "mold_DetectNodeRole nv =
     (case first_status [detectNodeRoleFromEnv mold_normalizeNodeRole nv, detectNodeRoleFromFile mold_normalizeNodeRole nv,
                         mold_detectNodeRoleFromClusterJSON nv] of
        Some status \<Rightarrow> status
      | None \<Rightarrow> unknown_role ''ccvm'')"

definition glue_DetectNodeRole :: "node_view \<Rightarrow> NodeRoleStatus" where
  "glue_DetectNodeRole nv =
     (case first_status [detectNodeRoleFromEnv glue_normalizeNodeRole nv, detectNodeRoleFromFile glue_normalizeNodeRole nv,
                         glue_detectNodeRoleFromClusterJSON nv] of
        Some status \<Rightarrow> status
      | None \<Rightarrow> unknown_role ''scvm'')"

text \<open>What the gate does: pass the request on, or answer it with a code, a message and the status.\<close>

type_synonym role_gate = "(nat \<times> string \<times> NodeRoleStatus) option"

definition RequireCCVM :: "node_view \<Rightarrow> role_gate" where
  "RequireCCVM nv =
     (let status = mold_DetectNodeRole nv in if nr_Own status then None else Some (403, ''mold api is only available on ccvm'', status))"

definition RequireSCVM :: "node_view \<Rightarrow> role_gate" where
  "RequireSCVM nv =
     (let status = glue_DetectNodeRole nv in if nr_Own status then None else Some (403, ''glue api is only available on scvm'', status))"

definition IsCCVMNode :: "node_view \<Rightarrow> bool" where
  "IsCCVMNode nv = nr_Own (mold_DetectNodeRole nv)"

section \<open>The contract of a guard\<close>

text \<open>A guard opens exactly on the nodes whose detected role is its own.\<close>

locale role_guard =
  fixes own :: string and detect :: "node_view \<Rightarrow> NodeRoleStatus" and gate :: "node_view \<Rightarrow> role_gate"
  assumes flag: "nr_Own (detect nv) \<longleftrightarrow> nr_Role (detect nv) = own"
    and gated: "gate nv = None \<longleftrightarrow> nr_Own (detect nv)"
begin

lemma opens: "gate nv = None \<longleftrightarrow> nr_Role (detect nv) = own"
  by (simp add: flag gated)

lemma refuses: "nr_Role (detect nv) \<noteq> own \<Longrightarrow> gate nv \<noteq> None"
  by (simp add: opens)

end

lemmas role_lists = ccvm_names_def scvm_names_def host_role_names_def

lemma normalized_roles:
  "snd (mold_normalizeNodeRole raw) \<longleftrightarrow> fst (mold_normalizeNodeRole raw) = ''ccvm''"
  "snd (glue_normalizeNodeRole raw) \<longleftrightarrow> fst (glue_normalizeNodeRole raw) = ''scvm''"
  "fst (mold_normalizeNodeRole raw) = fst (glue_normalizeNodeRole raw)"
  by (auto simp: mold_normalizeNodeRole_def glue_normalizeNodeRole_def role_lists Let_def)

lemma named_role_fields:
  "nr_Role (named_role classify source origin v) = fst (classify v)"
  "nr_Own (named_role classify source origin v) = snd (classify v)"
  "nr_Source (named_role classify source origin v) = source"
  by (simp_all add: named_role_def split: prod.split)

lemmas role_parts =
  detectNodeRoleFromEnv_def detectNodeRoleFromFile_def mold_detectNodeRoleFromClusterJSON_def glue_detectNodeRoleFromClusterJSON_def
  ccvm_by_address_def scvm_by_address_def host_by_address_def by_address_def unknown_role_def Let_def

interpretation mold_guard: role_guard "''ccvm''" mold_DetectNodeRole RequireCCVM
  by unfold_locales
    (auto simp: mold_DetectNodeRole_def RequireCCVM_def role_parts named_role_fields normalized_roles(1) split: option.splits)

interpretation glue_guard: role_guard "''scvm''" glue_DetectNodeRole RequireSCVM
  by unfold_locales
    (auto simp: glue_DetectNodeRole_def RequireSCVM_def role_parts named_role_fields normalized_roles(2) split: option.splits)

section \<open>Two guards, one node\<close>

text \<open>Neither the environment nor the file names a role.\<close>

definition unnamed :: "node_view \<Rightarrow> bool" where
  "unnamed nv \<longleftrightarrow> detectNodeRoleFromEnv mold_normalizeNodeRole nv = None \<and> detectNodeRoleFromFile mold_normalizeNodeRole nv = None"

text \<open>Whether the node has the address of the CCVM, and an address of a host that satisfies the selection.\<close>

definition has_ccvm :: "node_view \<Rightarrow> bool" where
  "has_ccvm nv \<longleftrightarrow>
     (case role_section nv of None \<Rightarrow> False | Some cfg \<Rightarrow> hasIP (localIPSet (nv_addrs nv)) [sec_CCVM_IP cfg])"

definition has_host :: "(ClusterHost \<Rightarrow> string list) \<Rightarrow> node_view \<Rightarrow> bool" where
  "has_host sel nv \<longleftrightarrow>
     (case role_section nv of None \<Rightarrow> False | Some cfg \<Rightarrow> list_ex (\<lambda>h. hasIP (localIPSet (nv_addrs nv)) (sel h)) (sec_Hosts cfg))"

lemma list_ex_find: "list_ex P xs \<longleftrightarrow> List.find P xs \<noteq> None"
  by (auto simp: find_None_iff list_ex_iff)

lemma detections:
  "detectNodeRoleFromEnv mold_normalizeNodeRole nv = None \<longleftrightarrow> detectNodeRoleFromEnv glue_normalizeNodeRole nv = None"
  "detectNodeRoleFromFile mold_normalizeNodeRole nv = None \<longleftrightarrow> detectNodeRoleFromFile glue_normalizeNodeRole nv = None"
  by (auto simp: detectNodeRoleFromEnv_def detectNodeRoleFromFile_def Let_def split: option.split)

lemma mold_role:
  "unnamed nv \<Longrightarrow> nr_Role (mold_DetectNodeRole nv) =
     (if has_ccvm nv then ''ccvm'' else if has_host (\<lambda>h. [ScvmMngt h, Scvm h]) nv then ''scvm''
      else if has_host (\<lambda>h. [Ablecube h]) nv then ''host'' else ''unknown'')"
  by (auto simp: mold_DetectNodeRole_def unnamed_def has_ccvm_def has_host_def list_ex_find mold_detectNodeRoleFromClusterJSON_def
      ccvm_by_address_def scvm_by_address_def host_by_address_def by_address_def unknown_role_def Let_def split: option.splits)

lemma glue_role:
  "unnamed nv \<Longrightarrow> nr_Role (glue_DetectNodeRole nv) =
     (if has_host (\<lambda>h. [ScvmMngt h, Scvm h]) nv then ''scvm'' else if has_host (\<lambda>h. [Ablecube h]) nv then ''host''
      else if has_ccvm nv then ''ccvm'' else ''unknown'')"
  by (auto simp: glue_DetectNodeRole_def unnamed_def detections has_ccvm_def has_host_def list_ex_find
      glue_detectNodeRoleFromClusterJSON_def ccvm_by_address_def scvm_by_address_def host_by_address_def by_address_def unknown_role_def
      Let_def split: option.splits)

lemma named_agree:
  "\<not> unnamed nv \<Longrightarrow> nr_Role (mold_DetectNodeRole nv) = nr_Role (glue_DetectNodeRole nv)"
  by (auto simp: unnamed_def mold_DetectNodeRole_def glue_DetectNodeRole_def detectNodeRoleFromEnv_def detectNodeRoleFromFile_def
      named_role_fields normalized_roles(3) Let_def split: option.splits if_splits)

text \<open>
  C39. The two guards see one node alike: each opens exactly if the role that its own detection finds is its
  own, which for a node without a named role means that the node has the address of the CCVM, or one of a storage
  VM. They find different roles exactly if no role is named and the node has both the address of the CCVM and one of
  a host, and a node serves both APIs exactly if it has the address of the CCVM and one of a storage VM.
  So on a node without an address of the CCVM the cloud API stays closed, whatever an empty address in the
  document is.
\<close>

theorem node_guards_agree:
  "(RequireCCVM nv = None \<longleftrightarrow> nr_Role (mold_DetectNodeRole nv) = ''ccvm'')
   \<and> (RequireSCVM nv = None \<longleftrightarrow> nr_Role (glue_DetectNodeRole nv) = ''scvm'')
   \<and> (RequireCCVM nv = None \<longleftrightarrow> (if unnamed nv then has_ccvm nv else nr_Role (mold_DetectNodeRole nv) = ''ccvm''))
   \<and> (RequireSCVM nv = None \<longleftrightarrow>
        (if unnamed nv then has_host (\<lambda>h. [ScvmMngt h, Scvm h]) nv else nr_Role (mold_DetectNodeRole nv) = ''scvm''))
   \<and> (nr_Role (mold_DetectNodeRole nv) \<noteq> nr_Role (glue_DetectNodeRole nv)
      \<longleftrightarrow> unnamed nv \<and> has_ccvm nv \<and> (has_host (\<lambda>h. [ScvmMngt h, Scvm h]) nv \<or> has_host (\<lambda>h. [Ablecube h]) nv))
   \<and> (RequireCCVM nv = None \<and> RequireSCVM nv = None \<longleftrightarrow> unnamed nv \<and> has_ccvm nv \<and> has_host (\<lambda>h. [ScvmMngt h, Scvm h]) nv)
   \<and> \<not> (unnamed nv \<and> RequireCCVM nv = None \<and> (case role_section nv of None \<Rightarrow> True | Some cfg \<Rightarrow> blank (sec_CCVM_IP cfg)))"
proof (cases "unnamed nv")
  case True
  have "\<not> has_ccvm nv" if "case role_section nv of None \<Rightarrow> True | Some cfg \<Rightarrow> blank (sec_CCVM_IP cfg)"
    using that by (auto simp: has_ccvm_def hasIP_blank split: option.splits)
  then show ?thesis using True by (auto simp: mold_guard.opens glue_guard.opens mold_role glue_role)
next
  case False
  then show ?thesis using named_agree [OF False] by (auto simp: mold_guard.opens glue_guard.opens)
qed

end
