(* ===== verification/Cluster_Section.thy ===== *)
theory Cluster_Section
  imports Deploy_Steps Net_IP Cluster_Apply_Facts
begin

text \<open>
  What the handlers of \<^verbatim>\<open>internal/handler/cube\<close> read of the cluster document and derive from it on
  their own: the section itself (\<^verbatim>\<open>common.go\<close>), the configuration of the time server
  (\<^verbatim>\<open>time_server.go\<close>) and the targets of a health check (\<^verbatim>\<open>cluster_config.go\<close>). The sizes of
  the file system in the section are left out; nothing here reads them.
\<close>

section \<open>Loading the section\<close>

record ClusterSection = DeployConfig +
  cs_HostType :: string
  cs_BackupPath :: string
  cs_CCVM :: ClusterCCVMConfig
  cs_PCSCluster :: ClusterPCSClusterConfig
  cs_ExternalTimeserver :: string

definition decode_ccvm :: "goval \<Rightarrow> ClusterCCVMConfig option" where
  "decode_ccvm v =
     Option.bind (item_map v) (\<lambda>m.
     Option.bind (decode_string (mget m ''ip'')) (\<lambda>ip.
     Option.bind (decode_string (mget m ''cidr'')) (\<lambda>cidr.
     Option.bind (decode_string (mget m ''gw'')) (\<lambda>gw.
     Option.bind (decode_string (mget m ''dns'')) (\<lambda>dns.
       Some \<lparr>CCVM_IP = ip, CCVM_CIDR = cidr, CCVM_GW = gw, CCVM_DNS = dns\<rparr>)))))"

definition decode_nic :: "goval \<Rightarrow> ClusterMngtNicConfig option" where
  "decode_nic v =
     Option.bind (item_map v) (\<lambda>m.
     Option.bind (decode_string (mget m ''cidr'')) (\<lambda>cidr.
     Option.bind (decode_string (mget m ''gw'')) (\<lambda>gw.
     Option.bind (decode_string (mget m ''dns'')) (\<lambda>dns.
       Some \<lparr>Nic_CIDR = cidr, Nic_GW = gw, Nic_DNS = dns\<rparr>))))"

definition decode_host_list :: "goval \<Rightarrow> ClusterHost list option" where
  "decode_host_list v = (case v of VNil \<Rightarrow> Some [] | VArr vs \<Rightarrow> decode_hosts vs | _ \<Rightarrow> None)"

definition decode_pcs :: "goval \<Rightarrow> ClusterPCSClusterConfig option" where
  "decode_pcs v = (case pcs_UnmarshalJSON v of Inl err \<Rightarrow> None | Inr c \<Rightarrow> Some c)"

text \<open>\<^verbatim>\<open>ClusterConfigSection.UnmarshalJSON\<close>, with the old name of the storage network.\<close>

definition decode_cluster_section :: "goval \<Rightarrow> ClusterSection option" where
  "decode_cluster_section v =
     Option.bind (item_map v) (\<lambda>m.
     Option.bind (decode_string (mget m ''type'')) (\<lambda>typ.
     Option.bind (decode_string (mget m ''hostType'')) (\<lambda>hostType.
     Option.bind (decode_string (mget m ''backup_path'')) (\<lambda>backup.
     Option.bind (decode_ccvm (mget m ''ccvm'')) (\<lambda>ccvm.
     Option.bind (decode_nic (mget m ''mngtNic'')) (\<lambda>nic.
     Option.bind (decode_pcs (mget m ''pcsCluster'')) (\<lambda>pcs.
     Option.bind (decode_host_list (mget m ''hosts'')) (\<lambda>hosts.
     Option.bind (decode_string (mget m ''external_timeserver'')) (\<lambda>timeserver.
     Option.bind (decode_string (mget m ''storage_network'')) (\<lambda>storage.
     Option.bind (decode_string (mget m ''iscsi_storage'')) (\<lambda>iscsi.
       Some \<lparr>sec_Type = typ, sec_CCVM_IP = CCVM_IP ccvm, sec_Hosts = hosts, dc_StorageNetwork = or_else storage iscsi, dc_MngtNic = nic,
             cs_HostType = hostType, cs_BackupPath = backup, cs_CCVM = ccvm, cs_PCSCluster = pcs,
             cs_ExternalTimeserver = timeserver\<rparr>)))))))))))"

definition loadClusterConfigSection :: "doc_state \<Rightarrow> ClusterSection option" where
  "loadClusterConfigSection d =
     (case d of
        Doc root \<Rightarrow> Option.bind (fmlookup (NormalizeClusterJSON root) ''clusterConfig'') (\<lambda>raw. decode_cluster_section (reload raw))
      | _ \<Rightarrow> None)"

text \<open>Trimmed, without blanks and repetitions.\<close>

fun dedupe_hosts :: "string list \<Rightarrow> string list \<Rightarrow> string list" where
  "dedupe_hosts seen [] = []"
| "dedupe_hosts seen (h # hosts) =
     (let host = trim_space h
      in if host = [] \<or> host \<in> set seen then dedupe_hosts seen hosts else host # dedupe_hosts (host # seen) hosts)"

definition dedupeHosts :: "string list \<Rightarrow> string list" where
  "dedupeHosts = dedupe_hosts []"

section \<open>The time server\<close>

record TimeServerRequest =
  tq_TimeServers :: "string list"
  tq_ExternalTimeserver :: string

record TimeServerConfig =
  tc_ConfigPath :: string
  tc_Mode :: string
  tc_SelfIndex :: string
  tc_TimeServers :: "string list"
  tc_AppliedTimeServers :: "string list"
  tc_ExternalTimeserver :: string
  tc_LocalStratumEnabled :: bool
  tc_Restarted :: bool

definition normalizeTimeServerRequest :: "TimeServerRequest \<Rightarrow> TimeServerRequest" where
  "normalizeTimeServerRequest req =
     \<lparr>tq_TimeServers = dedupeHosts (tq_TimeServers req), tq_ExternalTimeserver = trim_space (tq_ExternalTimeserver req)\<rparr>"

text \<open>The last host of an index wins; the indexes are read in their order.\<close>

definition time_slot :: "ClusterHost \<Rightarrow> (string, string) fmap \<Rightarrow> (string, string) fmap" where
  "time_slot host byIndex =
     (let index = trim_space (Index host); target = firstNonEmpty [Ablecube host, Hostname host]
      in if index \<noteq> ''1'' \<and> index \<noteq> ''2'' \<or> target = [] then byIndex else fmupd index target byIndex)"

definition defaultTimeServersFromClusterConfig :: "ClusterSection \<Rightarrow> string list" where
  "defaultTimeServersFromClusterConfig cfg =
     List.map_filter (fmlookup (fold time_slot (sec_Hosts cfg) fmempty)) [''1'', ''2'']"

definition self_targets :: "ClusterHost option \<Rightarrow> string list" where
  "self_targets selfHost =
     (case selfHost of
        None \<Rightarrow> []
      | Some h \<Rightarrow> filter (\<lambda>t. t \<noteq> []) (map trim_space [Ablecube h, Hostname h, ScvmMngt h, AblecubePn h, Scvm h, ScvmCn h]))"

definition appliedTimeServersForSelf :: "string list \<Rightarrow> string list \<Rightarrow> ClusterHost option \<Rightarrow> string list" where
  "appliedTimeServersForSelf addrs timeServers selfHost =
     dedupeHosts (filter (\<lambda>server. server \<noteq> [] \<and> server \<notin> set (self_targets selfHost) \<and> \<not> isLocalTarget addrs server)
       (map trim_space timeServers))"

definition newline :: string where "newline = [CHR 0x0A]"

fun chrony_servers :: "nat \<Rightarrow> string list \<Rightarrow> string" where
  "chrony_servers i [] = []"
| "chrony_servers i (server # servers) =
     ''server '' @ server @ (if i = 1 then '' prefer iburst minpoll 4 maxpoll 6'' else '' iburst minpoll 4 maxpoll 6'') @ newline
     @ chrony_servers (Suc i) servers"

definition chrony_lines :: "string list \<Rightarrow> string" where
  "chrony_lines ls = concat (map (\<lambda>l. l @ newline) ls)"

definition buildChronyConfigText :: "string \<Rightarrow> string list \<Rightarrow> bool \<Rightarrow> string" where
  "buildChronyConfigText externalTimeserver timeServers localStratum =
     chrony_lines
       [''# These servers were defined in the installation:'',
        ''# Use public servers from the pool.ntp.org project.'',
        ''# Please consider joining the pool (http://www.pool.ntp.org/join.html).'']
     @ (if externalTimeserver = [] then [] else chrony_lines [''server '' @ externalTimeserver @ '' iburst''])
     @ chrony_servers 0 timeServers
     @ chrony_lines
       [[],
        ''# Record the rate at which the system clock gains/losses time.'',
        ''driftfile /var/lib/chrony/drift'', [],
        ''# Allow the system clock to be stepped in the first three updates'',
        ''# if its offset is larger than 1 second.'',
        ''makestep 1.0 3'', [],
        ''# Enable kernel synchronization of the real-time clock (RTC).'',
        ''rtcsync'', [],
        ''# Enable hardware timestamping on all interfaces that support it.'',
        ''#hwtimestamp *'', [],
        ''# Increase the minimum number of selectable sources required to adjust'',
        ''# the system clock.'',
        ''#minsources 2'', [],
        ''# Allow NTP client access from local network.'',
        ''allow 0.0.0.0/0'', [],
        ''# Serve time even if not synchronized to a time source.'',
        (if localStratum then ''local stratum 10'' else ''#local stratum 10''), [],
        ''# Specify file containing keys for NTP authentication.'',
        ''keyfile /etc/chrony.keys'', [],
        ''# Get TAI-UTC offset and leap seconds from the system tz database.'',
        ''leapsectz right/UTC'', [],
        ''# Specify directory for log files.'',
        ''logdir /var/log/chrony'', [],
        ''# Select which information is logged.'',
        ''#log measurements statistics tracking'']"

definition timeServerChronyPath :: string where "timeServerChronyPath = ''/etc/chrony.conf''"

definition buildTimeServerConfig :: "string \<Rightarrow> string list \<Rightarrow> ClusterSection \<Rightarrow> TimeServerRequest \<Rightarrow> TimeServerConfig \<times> string" where
  "buildTimeServerConfig osName addrs cfg req =
     (let selfHost = (case findSelfHost osName (isLocalTarget addrs) (Some (DeployConfig.truncate cfg)) of Inl err \<Rightarrow> None | Inr host \<Rightarrow> Some host);
          external = (if trim_space (tq_ExternalTimeserver req) = [] then trim_space (cs_ExternalTimeserver cfg)
                      else trim_space (tq_ExternalTimeserver req));
          timeServers = dedupeHosts (if tq_TimeServers req = [] then defaultTimeServersFromClusterConfig cfg else tq_TimeServers req);
          applied = appliedTimeServersForSelf addrs timeServers selfHost
      in (\<lparr>tc_ConfigPath = timeServerChronyPath,
           tc_Mode = (if applied \<noteq> [] then ''internal'' else if external \<noteq> [] then ''external'' else ''none''),
           tc_SelfIndex = (case selfHost of None \<Rightarrow> [] | Some host \<Rightarrow> trim_space (Index host)),
           tc_TimeServers = timeServers, tc_AppliedTimeServers = applied, tc_ExternalTimeserver = external,
           tc_LocalStratumEnabled = (applied \<noteq> []), tc_Restarted = False\<rparr>,
          buildChronyConfigText external applied (applied \<noteq> [])))"

text \<open>
  Writing the file may fail with a text and leave something behind, changing its mode may fail; the
  restart gives its output, whether it timed out, and an error. The cause is left out of the text for a
  document that cannot be read.
\<close>

record chrony_site =
  ch_write :: "(string \<times> string option) option"
  ch_chmod :: "string option"
  ch_output :: string
  ch_timed_out :: bool
  ch_error :: "string option"

definition applyTimeServerConfig ::
  "string \<Rightarrow> string list \<Rightarrow> chrony_site \<Rightarrow> doc_state \<Rightarrow> TimeServerRequest \<Rightarrow> string option \<Rightarrow> TimeServerConfig outcome \<times> string option" where
  "applyTimeServerConfig osName addrs ch d req0 conf =
     (let req = normalizeTimeServerRequest req0
      in case loadClusterConfigSection d of
           None \<Rightarrow> (Inl ''failed to read cluster.json'', conf)
         | Some cfg \<Rightarrow>
             (let (result, text) = buildTimeServerConfig osName addrs cfg req
              in case ch_write ch of
                   Some (err, left) \<Rightarrow> (Inl err, left)
                 | None \<Rightarrow>
                     ((case ch_chmod ch of
                         Some err \<Rightarrow> Inl err
                       | None \<Rightarrow>
                           if ch_timed_out ch then Inl ''chronyd restart timed out''
                           else (case ch_error ch of
                                   Some err \<Rightarrow> Inl (firstNonEmpty [trim_space (ch_output ch), err])
                                 | None \<Rightarrow> Inr (result\<lparr>tc_Restarted := True\<rparr>))), Some text)))"

section \<open>The targets of a health check\<close>

record healthTarget =
  hl_Role :: string
  hl_Hostname :: string
  hl_Target :: string

record ClusterHealthTargetResult = healthTarget +
  hl_Code :: nat
  hl_Message :: string

fun health_options_loop :: "string list \<Rightarrow> string list \<Rightarrow> string list outcome" where
  "health_options_loop seen [] = Inr []"
| "health_options_loop seen (part # parts) =
     (let option = to_lower (trim_space part)
      in if option = [] then health_options_loop seen parts
         else if option \<notin> {''host'', ''scvm'', ''ccvm''} then Inl ''invalid option''
         else if option \<in> set seen then health_options_loop seen parts
         else (case health_options_loop (option # seen) parts of Inl err \<Rightarrow> Inl err | Inr options \<Rightarrow> Inr (option # options)))"

definition normalizeHealthOptions :: "string \<Rightarrow> string list outcome" where
  "normalizeHealthOptions raw =
     (case health_options_loop [] (split_on CHR '','' raw) of
        Inl err \<Rightarrow> Inl err
      | Inr options \<Rightarrow> if options = [] then Inl ''invalid option'' else Inr options)"

definition parseTargetHostnames :: "string \<Rightarrow> string list" where
  "parseTargetHostnames raw = (if blank raw then [] else dedupeHosts (split_on CHR '','' (trim_space raw)))"

definition matchHealthTargetName :: "string \<Rightarrow> string list \<Rightarrow> bool" where
  "matchHealthTargetName name targetNames \<longleftrightarrow>
     targetNames = [] \<or> list_ex (\<lambda>targetName. equal_fold (trim_space targetName) name) targetNames"

definition scvmHealthName :: "ClusterHost \<Rightarrow> string" where
  "scvmHealthName host = (let index = trim_space (Index host) in if index = [] then [] else ''scvm'' @ index)"

definition isSCVMHealthTargetName :: "string \<Rightarrow> bool" where
  "isSCVMHealthTargetName name0 \<longleftrightarrow>
     (let name = to_lower (trim_space name0); index = trim_prefix name ''scvm''
      in has_prefix name ''scvm'' \<and> index \<noteq> [] \<and> list_all is_digit index)"

definition role_targets :: "string \<Rightarrow> (ClusterHost \<Rightarrow> string) \<Rightarrow> (ClusterHost \<Rightarrow> string) \<Rightarrow> ClusterHost list \<Rightarrow> string list \<Rightarrow> healthTarget list" where
  "role_targets role name address hosts targetNames =
     map (\<lambda>h. \<lparr>hl_Role = role, hl_Hostname = name h, hl_Target = trim_space (address h)\<rparr>)
       (filter (\<lambda>h. name h \<noteq> [] \<and> \<not> blank (address h) \<and> matchHealthTargetName (name h) targetNames) hosts)"

definition buildHostHealthTargets :: "ClusterHost list \<Rightarrow> string list \<Rightarrow> healthTarget list" where
  "buildHostHealthTargets = role_targets ''host'' (\<lambda>h. trim_space (Hostname h)) Ablecube"

definition buildSCVMHealthTargets :: "ClusterHost list \<Rightarrow> string list \<Rightarrow> healthTarget list" where
  "buildSCVMHealthTargets = role_targets ''scvm'' scvmHealthName ScvmMngt"

definition buildCCVMHealthTarget :: "ClusterSection \<Rightarrow> string list \<Rightarrow> healthTarget list outcome" where
  "buildCCVMHealthTarget cfg targetNames =
     (let ip = trim_space (CCVM_IP (cs_CCVM cfg))
      in if ip = [] then Inl ''ccvm ip required''
         else Inr (if matchHealthTargetName ''ccvm'' targetNames then [\<lparr>hl_Role = ''ccvm'', hl_Hostname = ''ccvm'', hl_Target = ip\<rparr>] else []))"

definition health_key :: "healthTarget \<Rightarrow> string" where
  "health_key t = hl_Role t @ ''|'' @ hl_Hostname t @ ''|'' @ hl_Target t"

fun dedupe_targets :: "string list \<Rightarrow> healthTarget list \<Rightarrow> healthTarget list" where
  "dedupe_targets seen [] = []"
| "dedupe_targets seen (t # ts) =
     (if health_key t \<in> set seen then dedupe_targets seen ts else t # dedupe_targets (health_key t # seen) ts)"

definition dedupeHealthTargets :: "healthTarget list \<Rightarrow> healthTarget list" where
  "dedupeHealthTargets = dedupe_targets []"

definition scvm_health_part :: "ClusterSection \<Rightarrow> string list \<Rightarrow> healthTarget list outcome" where
  "scvm_health_part cfg names =
     (if isHCITarget (sec_Type cfg) then Inr (buildSCVMHealthTargets (sec_Hosts cfg) names) else Inl ''unsupported cluster type'')"

definition option_targets :: "ClusterSection \<Rightarrow> string list \<Rightarrow> string \<Rightarrow> healthTarget list outcome" where
  "option_targets cfg names option =
     (if option = ''host'' then Inr (buildHostHealthTargets (sec_Hosts cfg) names)
      else if option = ''scvm'' then scvm_health_part cfg names
      else if option = ''ccvm'' then buildCCVMHealthTarget cfg names
      else Inr [])"

definition name_targets :: "ClusterSection \<Rightarrow> string \<Rightarrow> healthTarget list outcome" where
  "name_targets cfg name =
     (if equal_fold (trim_space name) ''ccvm'' then buildCCVMHealthTarget cfg [name]
      else if isSCVMHealthTargetName name then scvm_health_part cfg [name]
      else Inr (buildHostHealthTargets (sec_Hosts cfg) [name]))"

fun collect_targets :: "('a \<Rightarrow> healthTarget list outcome) \<Rightarrow> 'a list \<Rightarrow> healthTarget list outcome" where
  "collect_targets f [] = Inr []"
| "collect_targets f (x # xs) =
     (case f x of
        Inl err \<Rightarrow> Inl err
      | Inr ts \<Rightarrow> (case collect_targets f xs of Inl err \<Rightarrow> Inl err | Inr others \<Rightarrow> Inr (ts @ others)))"

definition buildHealthTargetsByName :: "ClusterSection \<Rightarrow> string list \<Rightarrow> healthTarget list outcome" where
  "buildHealthTargetsByName cfg names =
     (case collect_targets (name_targets cfg) names of
        Inl err \<Rightarrow> Inl err
      | Inr ts \<Rightarrow> if ts = [] then Inl ''target_hostname not found'' else Inr (dedupeHealthTargets ts))"

definition buildHealthTargets :: "string list \<Rightarrow> ClusterSection \<Rightarrow> string list \<Rightarrow> healthTarget list outcome" where
  "buildHealthTargets options cfg names =
     (if options = [] then buildHealthTargetsByName cfg names
      else (case collect_targets (option_targets cfg names) options of
              Inl err \<Rightarrow> Inl err
            | Inr ts \<Rightarrow> if ts = [] \<and> names \<noteq> [] then Inl ''target_hostname not found'' else Inr (dedupeHealthTargets ts)))"

text \<open>The targets are asked one after the other; \<open>ask\<close> is the request to a node.\<close>

fun checkHealthTargets ::
  "(string \<Rightarrow> 's \<Rightarrow> unit outcome \<times> 's) \<Rightarrow> healthTarget list \<Rightarrow> 's \<Rightarrow> ClusterHealthTargetResult list \<times> 's" where
  "checkHealthTargets ask [] s = ([], s)"
| "checkHealthTargets ask (t # ts) s =
     (let (answer, s1) = ask (hl_Target t) s;
          (code, message) = (case answer of Inl err \<Rightarrow> (500, err) | Inr _ \<Rightarrow> (200, ''ok''));
          (results, s2) = checkHealthTargets ask ts s1
      in (\<lparr>hl_Role = hl_Role t, hl_Hostname = hl_Hostname t, hl_Target = hl_Target t, hl_Code = code, hl_Message = message\<rparr> # results, s2))"

datatype health_reply = Alive | Rejected nat string | Checked nat string "ClusterHealthTargetResult list"

definition check_cluster ::
  "(string \<Rightarrow> 's \<Rightarrow> unit outcome \<times> 's) \<Rightarrow> doc_state \<Rightarrow> string list \<Rightarrow> string list \<Rightarrow> 's \<Rightarrow> health_reply \<times> 's" where
  "check_cluster ask d options names s =
     (case loadClusterConfigSection d of
        None \<Rightarrow> (Rejected 500 ''failed to read cluster.json'', s)
      | Some cfg \<Rightarrow>
          (case buildHealthTargets options cfg names of
             Inl err \<Rightarrow> (Rejected 400 err, s)
           | Inr targets \<Rightarrow>
               if targets = [] then (Rejected 400 ''no targets to apply'', s)
               else (let (results, s1) = checkHealthTargets ask targets s
                     in if list_ex (\<lambda>r. hl_Code r \<noteq> 200) results then (Checked 500 ''health check failed'' results, s1)
                        else (Checked 200 ''health check success'' results, s1))))"

definition ClusterHealth ::
  "(string \<Rightarrow> 's \<Rightarrow> unit outcome \<times> 's) \<Rightarrow> doc_state \<Rightarrow> string \<Rightarrow> string \<Rightarrow> 's \<Rightarrow> health_reply \<times> 's" where
  "ClusterHealth ask d option0 target_hostname s =
     (let option = trim_space option0; names = parseTargetHostnames target_hostname
      in if option = [] \<and> names = [] then (Alive, s)
         else if option = [] then check_cluster ask d [] names s
         else (case normalizeHealthOptions option of
                 Inl err \<Rightarrow> (Rejected 400 err, s)
               | Inr options \<Rightarrow> check_cluster ask d options names s))"

section \<open>A normalised document decodes\<close>

definition pcs_of :: "string list \<Rightarrow> ClusterPCSClusterConfig" where
  "pcs_of hostnames =
     \<lparr>Hostname1 = pcsHostnameAt hostnames 0, Hostname2 = pcsHostnameAt hostnames 1, Hostname3 = pcsHostnameAt hostnames 2,
      Hostnames = hostnames\<rparr>"

lemma HostnameList_pcs_of: "HostnameList (pcs_of ys) = NormalizePCSClusterList ys"
  by (simp add: pcs_of_def HostnameList_clean [unfolded One_nat_def])

lemma decode_written_pcs:
  "decode_pcs (VMap (fmmap reload (normalizePCSClusterMap m))) = Some (pcs_of (collectPCSClusterValues m))"
proof -
  let ?w = "writePCSClusterValues m (collectPCSClusterValues m)"
  have "slot_values pcsStringFromAny (fmmap reload ?w) = slot_values getString ?w"
    unfolding slot_values_def
    by (rule map_filter_cong)
      (auto simp: fmlookup_writePCS fmlookup_fill_slots cleared_slot pcsStringFromAny_def simp del: upt_Suc)
  then have "NormalizePCSClusterList (pcs_raw_values (fmmap reload ?w)) = collectPCSClusterValues ?w"
    by (simp add: pcs_raw_values_def collectPCSClusterValues_def fmlookup_writePCS)
  also have "\<dots> = collectPCSClusterValues m" by (simp add: collect_writePCS) (simp add: collectPCSClusterValues_def)
  finally show ?thesis
    by (simp add: decode_pcs_def pcs_UnmarshalJSON_def normalizePCSClusterMap_def Let_def pcs_of_def)
qed

lemma decode_cluster_ordered:
  "decode_cluster_section (reload (orderedClusterConfig cfg)) =
     Some \<lparr>sec_Type = gets cfg ''type'', sec_CCVM_IP = gets (submap cfg ''ccvm'') ''ip'',
           sec_Hosts = map (section_host (isHCIClusterType (gets cfg ''type''))) (getHosts cfg),
           dc_StorageNetwork = normalizeStorageNetwork (first_of cfg ''storage_network'' ''iscsi_storage''),
           dc_MngtNic = \<lparr>Nic_CIDR = gets (merged_nic cfg) ''cidr'', Nic_GW = gets (merged_nic cfg) ''gw'', Nic_DNS = gets (merged_nic cfg) ''dns''\<rparr>,
           cs_HostType = gets cfg ''hostType'', cs_BackupPath = gets cfg ''backup_path'',
           cs_CCVM = \<lparr>CCVM_IP = gets (submap cfg ''ccvm'') ''ip'', CCVM_CIDR = [], CCVM_GW = [], CCVM_DNS = []\<rparr>,
           cs_PCSCluster = pcs_of (collectPCSClusterValues (submap cfg ''pcsCluster'')),
           cs_ExternalTimeserver = first_of cfg ''external_timeserver'' ''extenal_timeserver''\<rparr>"
proof -
  have hosts: "decode_hosts (map reload (buildOrderedHosts cfg)) = Some (map (section_host (isHCIClusterType (gets cfg ''type''))) (getHosts cfg))"
    by (cases "isHCIClusterType (gets cfg ''type'')") (simp_all add: buildOrderedHosts_def comp_def decode_ordered_host decode_hosts_map)
  obtain fs where fs: "orderedClusterConfig cfg = VRec fs" using orderedClusterConfig_VRec by blast
  let ?m = "fmap_of_list (map (map_prod id reload) fs)"
  let ?nic = "merged_nic cfg"
  have m: "mget ?m ''type'' = VStr (gets cfg ''type'')" "decode_string (mget ?m ''hostType'') = Some (gets cfg ''hostType'')"
      "mget ?m ''backup_path'' = VStr (gets cfg ''backup_path'')"
      "mget ?m ''ccvm'' = reload (VRec [(''ip'', VStr (gets (submap cfg ''ccvm'') ''ip''))])"
      "mget ?m ''mngtNic'' = reload (VRec [(''cidr'', VStr (gets ?nic ''cidr'')), (''gw'', VStr (gets ?nic ''gw'')), (''dns'', VStr (gets ?nic ''dns''))])"
      "mget ?m ''pcsCluster'' = VMap (fmmap reload (normalizePCSClusterMap (submap cfg ''pcsCluster'')))"
      "mget ?m ''hosts'' = VArr (map reload (buildOrderedHosts cfg))"
      "mget ?m ''external_timeserver'' = VStr (first_of cfg ''external_timeserver'' ''extenal_timeserver'')"
      "mget ?m ''storage_network'' = VStr (normalizeStorageNetwork (first_of cfg ''storage_network'' ''iscsi_storage''))"
      "mget ?m ''iscsi_storage'' = VNil"
    using fs by (auto simp: orderedClusterConfig_def Let_def opt_field_def mget_fields decode_string_def simp del: list.map map_append reload.simps(8))
  have ccvm: "decode_ccvm (reload (VRec [(''ip'', VStr i)])) = Some \<lparr>CCVM_IP = i, CCVM_CIDR = [], CCVM_GW = [], CCVM_DNS = []\<rparr>" for i
    by (simp add: decode_ccvm_def item_map_def mget_fields decode_string_def del: list.map)
  have nic: "decode_nic (reload (VRec [(''cidr'', VStr c), (''gw'', VStr g), (''dns'', VStr d)])) = Some \<lparr>Nic_CIDR = c, Nic_GW = g, Nic_DNS = d\<rparr>"
    for c g d
    by (simp add: decode_nic_def item_map_def mget_fields decode_string_def del: list.map)
  have storage: "or_else (normalizeStorageNetwork v) [] = normalizeStorageNetwork v" for v
    by (simp add: or_else_def)
  have str: "decode_string (VStr v) = Some v" "decode_string VNil = Some []" for v by (simp_all add: decode_string_def)
  have item: "item_map (reload (VRec fs)) = Some ?m" by (simp add: item_map_def)
  have lst: "decode_host_list (VArr (map reload (buildOrderedHosts cfg))) = Some (map (section_host (isHCIClusterType (gets cfg ''type''))) (getHosts cfg))"
    by (simp add: decode_host_list_def hosts)
  show ?thesis
    unfolding fs decode_cluster_section_def item Option.bind.bind_lunit m str ccvm nic decode_written_pcs lst storage by simp
qed

lemma loadClusterConfigSection_map:
  assumes "as_map (mget root ''clusterConfig'') = Some cfg"
  shows "loadClusterConfigSection (Doc root) = decode_cluster_section (reload (orderedClusterConfig cfg))"
  by (simp add: loadClusterConfigSection_def fmlookup_normalized [OF assms] Let_def)

text \<open>The section that the bootstrap of the cloud manager reads is a part of this one.\<close>

lemma section_extends:
  "loadClusterConfigSection (Doc root) = Some cfg \<Longrightarrow> as_map (mget root ''clusterConfig'') \<noteq> None
     \<Longrightarrow> LoadClusterConfigSection (Doc root) = Some (ClusterConfigSection.truncate cfg)"
  by (auto simp: LoadClusterConfigSection_map loadClusterConfigSection_map decode_cluster_ordered ClusterConfigSection.truncate_def)

section \<open>A node does not follow itself\<close>

lemma dedupe_hosts_spec: "dedupe_hosts seen xs = filter (\<lambda>v. v \<notin> set seen) (clean_list xs)"
proof (induction seen xs rule: dedupe_hosts.induct)
  case (2 seen h hosts)
  then show ?case by (auto simp: Let_def clean_list_skip clean_list_keep)
qed (simp add: clean_list_def)

lemma dedupeHosts_clean: "dedupeHosts xs = clean_list xs"
  by (simp add: dedupeHosts_def dedupe_hosts_spec)

lemma clean_list_filter: "clean_list (filter P (clean_list xs)) = filter P (clean_list xs)"
  by (rule clean_list_id) (auto dest: clean_list_trimmed)

text \<open>
  The servers a node follows are the servers of the cluster without the node itself, in their order;
  it serves its own clock exactly if it follows one of them.
\<close>

lemma time_servers_exclude_self:
  assumes "buildTimeServerConfig osName addrs cfg req = (tc, text)"
    and "selfHost = (case findSelfHost osName (isLocalTarget addrs) (Some (DeployConfig.truncate cfg)) of Inl err \<Rightarrow> None | Inr host \<Rightarrow> Some host)"
  shows "tc_AppliedTimeServers tc =
      filter (\<lambda>server. server \<notin> set (self_targets selfHost) \<and> \<not> isLocalTarget addrs server) (tc_TimeServers tc)
    \<and> tc_LocalStratumEnabled tc = (tc_AppliedTimeServers tc \<noteq> [])
    \<and> text = buildChronyConfigText (tc_ExternalTimeserver tc) (tc_AppliedTimeServers tc) (tc_LocalStratumEnabled tc)"
proof -
  have "filter (\<lambda>server. server \<noteq> [] \<and> P server) (map trim_space (clean_list xs)) = filter P (clean_list xs)" for P xs
  proof -
    have "map trim_space (clean_list xs) = clean_list xs" by (rule map_idI) (auto dest: clean_list_trimmed)
    moreover have "filter (\<lambda>server. server \<noteq> [] \<and> P server) (clean_list xs) = filter P (clean_list xs)"
      by (rule filter_cong) (auto dest: clean_list_trimmed)
    ultimately show ?thesis by simp
  qed
  then show ?thesis
    using assms by (auto simp: buildTimeServerConfig_def appliedTimeServersForSelf_def dedupeHosts_clean clean_list_filter Let_def)
qed

end
