(* ===== verification/Cluster_Orchestrate.thy ===== *)
theory Cluster_Orchestrate
  imports Cluster_Section Auth_Service
begin

text \<open>
  Applying a configuration to a whole cluster: \<^verbatim>\<open>cluster_config.go\<close> and
  \<^verbatim>\<open>deploy_cluster_apply.go\<close> of \<^verbatim>\<open>internal/handler/cube\<close>. One node completes the request,
  makes sure there is an internal token, works out the addresses and sends the request to each; every
  node runs it behind the gate of \<open>Auth_Service\<close> with the actions of \<open>Cluster_Apply\<close>. The scan for SSH
  keys that an insert schedules in the background is left out.
\<close>

section \<open>Actions\<close>

definition isResetAction :: "string \<Rightarrow> bool" where
  "isResetAction action \<longleftrightarrow> equal_fold (trim_space action) ''reset''"

definition isRemoveAction :: "string \<Rightarrow> bool" where
  "isRemoveAction action \<longleftrightarrow> equal_fold (trim_space action) ''remove''"

definition isInsertAction :: "string \<Rightarrow> bool" where
  "isInsertAction action \<longleftrightarrow> has_prefix (to_lower (trim_space action)) ''insert''"

definition isCheckAction :: "string \<Rightarrow> bool" where
  "isCheckAction action \<longleftrightarrow> equal_fold (trim_space action) ''check''"

definition isInsertAddAction :: "string \<Rightarrow> string \<Rightarrow> bool" where
  "isInsertAddAction action option \<longleftrightarrow> equal_fold (trim_space action) ''insert'' \<and> equal_fold (trim_space option) ''add''"

definition normalizeOption :: "string \<Rightarrow> string" where
  "normalizeOption option = filter (\<lambda>c. c \<notin> set ''-_ '') (to_lower (trim_space option))"

definition normalizeLocalAction :: "string \<Rightarrow> string" where
  "normalizeLocalAction action =
     (let a = to_lower action
      in if a \<in> {''insert'', ''remove'', ''reset'', ''check''} then a
         else if a \<in> {''insertallhost'', ''insertscvmhost''} then ''insert'' else [])"

definition splitHostnameList :: "string \<Rightarrow> string list" where
  "splitHostnameList value = fields_func (\<lambda>c. c \<in> {CHR '','', CHR '' '', CHR 0x09, CHR 0x0A, CHR 0x0D}) [] value"

section \<open>Completing a request\<close>

definition requireInsertFields :: "ClusterApplyRequest \<Rightarrow> unit outcome" where
  "requireInsertFields req =
     (if \<not> equal_fold (trim_space (Action req)) ''insert'' then Inr ()
      else if blank (Type req) then Inl ''type required''
      else if (case CCVM req of None \<Rightarrow> True | Some c \<Rightarrow> blank (CCVM_IP c)) then Inl ''ccvm required''
      else if blank (StorageNetwork req) then Inl ''storage_network required''
      else Inr ())"

definition minPCSClusterHosts :: "string \<Rightarrow> nat" where
  "minPCSClusterHosts clusterType =
     (if equal_fold (trim_space clusterType) ''ablestack-standalone'' then 0 else if isHCITarget clusterType then 3 else 1)"

definition requirePCSClusterList :: "ClusterApplyRequest \<Rightarrow> unit outcome" where
  "requirePCSClusterList req =
     (if has_prefix (to_lower (trim_space (Action req))) ''insert''
      then ValidatePCSClusterList (PCSClusterList req) (minPCSClusterHosts (Type req)) else Inr ())"

text \<open>The position of each name, the later one for a repeated name; blank names have none.\<close>

fun index_hosts :: "nat \<Rightarrow> ClusterHost list \<Rightarrow> (string, nat) fmap \<Rightarrow> (string, nat) fmap" where
  "index_hosts i [] m = m"
| "index_hosts i (h # hosts) m = index_hosts (Suc i) hosts (if blank (Hostname h) then m else fmupd (Hostname h) i m)"

fun merge_hosts :: "ClusterHost list \<Rightarrow> ClusterHost list \<Rightarrow> (string, nat) fmap \<Rightarrow> ClusterHost list" where
  "merge_hosts [] merged indexByName = merged"
| "merge_hosts (h # hosts) merged indexByName =
     (if blank (Hostname h) then merge_hosts hosts (merged @ [h]) indexByName
      else (case fmlookup indexByName (Hostname h) of
              Some idx \<Rightarrow> merge_hosts hosts (merged[idx := h]) indexByName
            | None \<Rightarrow> merge_hosts hosts (merged @ [h]) (fmupd (Hostname h) (length merged) indexByName)))"

definition fill_network :: "ClusterSection \<Rightarrow> ClusterApplyRequest \<Rightarrow> ClusterApplyRequest" where
  "fill_network cfg req =
     req\<lparr>CCVM := Some (case CCVM req of None \<Rightarrow> cs_CCVM cfg | Some c \<Rightarrow> c),
         MngtNic := Some (case MngtNic req of None \<Rightarrow> dc_MngtNic cfg | Some n \<Rightarrow> n)\<rparr>"

definition fill_type :: "ClusterSection \<Rightarrow> ClusterApplyRequest \<Rightarrow> ClusterApplyRequest" where
  "fill_type cfg req = (if blank (Type req) then req\<lparr>Type := sec_Type cfg\<rparr> else req)"

definition add_context :: "ClusterSection \<Rightarrow> ClusterApplyRequest \<Rightarrow> ClusterApplyRequest" where
  "add_context cfg req =
     (let req1 = fill_network cfg (fill_type cfg req)
      in req1\<lparr>Hosts := (if sec_Hosts cfg = [] then Hosts req
                         else merge_hosts (Hosts req) (sec_Hosts cfg) (index_hosts 0 (sec_Hosts cfg) fmempty)),
              ExistingHostnames := filter (\<lambda>name. \<not> blank name) (map Hostname (sec_Hosts cfg))\<rparr>)"

text \<open>What needs the document and cannot read it has no result.\<close>

definition with_section :: "doc_state \<Rightarrow> bool \<Rightarrow> (ClusterSection \<Rightarrow> ClusterApplyRequest) \<Rightarrow> ClusterApplyRequest \<Rightarrow> ClusterApplyRequest option" where
  "with_section d needed f req = (if needed then map_option f (loadClusterConfigSection d) else Some req)"

definition ensureInsertAddContext :: "doc_state \<Rightarrow> ClusterApplyRequest \<Rightarrow> ClusterApplyRequest option" where
  "ensureInsertAddContext d req = with_section d (isInsertAddAction (Action req) (Option req)) (\<lambda>cfg. Normalize (add_context cfg req)) req"

definition ensureInsertAllHosts :: "doc_state \<Rightarrow> ClusterApplyRequest \<Rightarrow> ClusterApplyRequest option" where
  "ensureInsertAllHosts d req =
     with_section d (isInsertAction (Action req) \<and> normalizeOption (Option req) = ''all'' \<and> Hosts req = [])
       (\<lambda>cfg. Normalize (fill_network cfg (req\<lparr>Hosts := sec_Hosts cfg\<rparr>))) req"

definition ensureHostsFromClusterConfig :: "doc_state \<Rightarrow> ClusterApplyRequest \<Rightarrow> ClusterApplyRequest option" where
  "ensureHostsFromClusterConfig d req =
     with_section d (isCheckAction (Action req))
       (\<lambda>cfg. let req1 = fill_network cfg (fill_type cfg req)
              in Normalize (if Hosts req1 = [] then req1\<lparr>Hosts := sec_Hosts cfg\<rparr> else req1)) req"

definition ensureTypeFromClusterConfig :: "doc_state \<Rightarrow> ClusterApplyRequest \<Rightarrow> ClusterApplyRequest option" where
  "ensureTypeFromClusterConfig d req =
     with_section d (blank (Type req) \<and> isRemoveAction (Action req)) (\<lambda>cfg. req\<lparr>Type := sec_Type cfg\<rparr>) req"

text \<open>A refusal with its code and text.\<close>

definition or_refuse :: "nat \<Rightarrow> string \<Rightarrow> 'a option \<Rightarrow> (nat \<times> string) + 'a" where
  "or_refuse code text x = (case x of None \<Rightarrow> Inl (code, text) | Some v \<Rightarrow> Inr v)"

definition refused :: "nat \<Rightarrow> unit outcome \<Rightarrow> (nat \<times> string) + unit" where
  "refused code x = (case x of Inl err \<Rightarrow> Inl (code, err) | Inr u \<Rightarrow> Inr u)"

definition and_then :: "'e + 'a \<Rightarrow> ('a \<Rightarrow> 'e + 'b) \<Rightarrow> 'e + 'b" where
  "and_then x f = (case x of Inl e \<Rightarrow> Inl e | Inr v \<Rightarrow> f v)"

text \<open>The steps before the token; only the orchestrator fills in all hosts.\<close>

definition complete_request :: "bool \<Rightarrow> doc_state \<Rightarrow> ClusterApplyRequest \<Rightarrow> (nat \<times> string) + ClusterApplyRequest" where
  "complete_request all_hosts d req0 =
     (let req = Normalize req0; read = or_refuse 500 ''failed to read cluster.json''
      in and_then (refused 400 (requireInsertFields req)) (\<lambda>_.
         and_then (read (ensureInsertAddContext d req)) (\<lambda>req1.
         and_then (if all_hosts then read (ensureInsertAllHosts d req1) else Inr req1) (\<lambda>req2.
         and_then (refused 400 (requirePCSClusterList req2)) (\<lambda>_.
         and_then (read (ensureHostsFromClusterConfig d req2)) (\<lambda>req3.
           read (ensureTypeFromClusterConfig d req3)))))))"

definition ensureClusterInternalToken ::
  "getenv \<Rightarrow> string option \<Rightarrow> save_fault option \<Rightarrow> ClusterApplyRequest \<Rightarrow> store \<Rightarrow> (token_error + ClusterApplyRequest) \<times> store" where
  "ensureClusterInternalToken getenv gen fault req st =
     (if \<not> isInsertAction (Action req) then (Inr req, st)
      else (case map_option trim_space (Security req) of
              Some (c # token) \<Rightarrow>
                (case SetInternalToken getenv fault (c # token) st of
                   (Inl err, st1) \<Rightarrow> (Inl err, st1)
                 | (Inr _, st1) \<Rightarrow> (Inr (req\<lparr>Security := Some (c # token)\<rparr>), st1))
            | _ \<Rightarrow>
                (case EnsureInternalToken getenv gen fault st of
                   (Inl err, st1) \<Rightarrow> (Inl err, st1)
                 | (Inr (token, _), st1) \<Rightarrow>
                     (Inr (if blank token then req else req\<lparr>Security := Some (trim_space token)\<rparr>), st1))))"

section \<open>Targets\<close>

definition shouldIncludeScvm :: "ClusterApplyRequest \<Rightarrow> bool" where
  "shouldIncludeScvm req \<longleftrightarrow>
     (if isResetAction (Action req) then False
      else if isCheckAction (Action req) then normalizeOption (Option req) \<noteq> ''hostonly''
      else if isInsertAddAction (Action req) (Option req) then isHCITarget (Type req)
      else \<not> has_prefix (to_lower (trim_space (Action req))) ''insert'')"

definition shouldIncludeCcvm :: "ClusterApplyRequest \<Rightarrow> bool" where
  "shouldIncludeCcvm req \<longleftrightarrow>
     (if isResetAction (Action req) then False
      else if isCheckAction (Action req) then normalizeOption (Option req) \<in> {''all'', []}
      else if isInsertAddAction (Action req) (Option req) then True
      else \<not> has_prefix (to_lower (trim_space (Action req))) ''insert'')"

definition existing_names :: "ClusterApplyRequest \<Rightarrow> string list" where
  "existing_names req =
     (if isInsertAddAction (Action req) (Option req) then filter (\<lambda>name. \<not> blank name) (ExistingHostnames req) else [])"

definition new_names :: "ClusterApplyRequest \<Rightarrow> string list" where
  "new_names req =
     (if isInsertAddAction (Action req) (Option req) \<and> \<not> blank (NewHostname req)
      then filter (\<lambda>name. \<not> blank name) (splitHostnameList (NewHostname req)) else [])"

definition scvm_included :: "ClusterApplyRequest \<Rightarrow> ClusterHost \<Rightarrow> bool" where
  "scvm_included req host \<longleftrightarrow>
     shouldIncludeScvm req \<and> isHCITarget (Type req) \<and> ScvmMngt host \<noteq> []
     \<and> \<not> (ExcludeHostname req \<noteq> [] \<and> ExcludeHostname req = Hostname host)
     \<and> \<not> (new_names req \<noteq> [] \<and> Hostname host \<in> set (new_names req))
     \<and> \<not> (existing_names req \<noteq> [] \<and> Hostname host \<notin> set (existing_names req))"

text \<open>The keys of the target map in the order they are first stored; Go picks the order of the iteration.\<close>

definition host_targets :: "ClusterApplyRequest \<Rightarrow> ClusterHost \<Rightarrow> string list" where
  "host_targets req host =
     (if Ablecube host \<noteq> [] then [Ablecube host] else []) @ (if scvm_included req host then [ScvmMngt host] else [])"

definition target_keys :: "ClusterApplyRequest \<Rightarrow> string list" where
  "target_keys req =
     first_occ (concat (map (host_targets req) (Hosts req))
       @ (if shouldIncludeCcvm req \<and> CCVMMngtIP req \<noteq> [] then [CCVMMngtIP req] else []))"

definition buildClusterTargets :: "(string list \<Rightarrow> string list) \<Rightarrow> ClusterApplyRequest \<Rightarrow> string list" where
  "buildClusterTargets order req = order (target_keys req)"

definition empty_request :: ClusterApplyRequest where
  "empty_request =
     \<lparr>Action = [], Option = [], Type = [], CCVM = None, MngtNic = None, Security = None, CCVMMngtIP = [], MngtNicCIDR = [],
      MngtNicGW = [], MngtNicDNS = [], PCSClusterList = [], JSONString = None, CopyOption = [], ExcludeHostname = [],
      RemoveHostname = [], TargetHostname = [], NewHostname = [], ExternalTimeserver = [], DeprecatedExtenalTimeserver = [],
      StorageNetwork = [], DeprecatedIscsiStorage = [], Hosts = [], ExistingHostnames = []\<rparr>"

definition buildClusterTargetsFromClusterConfig :: "(string list \<Rightarrow> string list) \<Rightarrow> doc_state \<Rightarrow> string \<Rightarrow> string list option" where
  "buildClusterTargetsFromClusterConfig order d action =
     map_option (\<lambda>cfg. buildClusterTargets order (Normalize (empty_request\<lparr>Action := action, Type := sec_Type cfg, Hosts := sec_Hosts cfg,
                         CCVM := Some (cs_CCVM cfg), MngtNic := Some (dc_MngtNic cfg)\<rparr>)))
       (loadClusterConfigSection d)"

definition localTarget :: string where "localTarget = ''127.0.0.1''"

definition apply_targets :: "(string list \<Rightarrow> string list) \<Rightarrow> doc_state \<Rightarrow> ClusterApplyRequest \<Rightarrow> string list option" where
  "apply_targets order d req =
     (let targets = buildClusterTargets order req;
          found = (if targets = [] \<and> (isResetAction (Action req) \<or> isRemoveAction (Action req) \<or> isCheckAction (Action req))
                   then buildClusterTargetsFromClusterConfig order d (Action req) else Some targets)
      in map_option (\<lambda>ts. if isInsertAction (Action req) \<and> normalizeOption (Option req) = ''local'' then [localTarget] else ts) found)"

section \<open>The request on the wire\<close>

definition marshal_ccvm :: "ClusterCCVMConfig \<Rightarrow> goval" where
  "marshal_ccvm c =
     VRec ([(''ip'', VStr (CCVM_IP c))] @ opt_field ''cidr'' (CCVM_CIDR c) @ opt_field ''gw'' (CCVM_GW c) @ opt_field ''dns'' (CCVM_DNS c))"

definition marshal_nic :: "ClusterMngtNicConfig \<Rightarrow> goval" where
  "marshal_nic n = VRec [(''cidr'', VStr (Nic_CIDR n)), (''gw'', VStr (Nic_GW n)), (''dns'', VStr (Nic_DNS n))]"

definition opt_struct :: "string \<Rightarrow> ('a \<Rightarrow> goval) \<Rightarrow> 'a option \<Rightarrow> (string \<times> goval) list" where
  "opt_struct key enc x = (case x of None \<Rightarrow> [] | Some v \<Rightarrow> [(key, enc v)])"

definition marshal_request :: "ClusterApplyRequest \<Rightarrow> goval" where
  "marshal_request req =
     VRec ([(''action'', VStr (Action req))] @ opt_field ''option'' (Option req) @ [(''type'', VStr (Type req))]
       @ opt_struct ''ccvm'' marshal_ccvm (CCVM req) @ opt_struct ''mngtNic'' marshal_nic (MngtNic req)
       @ opt_struct ''security'' (\<lambda>t. VRec (opt_field ''internal_token'' t)) (Security req)
       @ [(''pcs_cluster_list'', VArr (map VStr (PCSClusterList req))), (''exclude_hostname'', VStr (ExcludeHostname req)),
          (''remove_hostname'', VStr (RemoveHostname req))]
       @ opt_field ''target_hostname'' (TargetHostname req) @ opt_field ''new_hostname'' (NewHostname req)
       @ [(''external_timeserver'', VStr (ExternalTimeserver req))] @ opt_field ''extenal_timeserver'' (DeprecatedExtenalTimeserver req)
       @ [(''storage_network'', VStr (StorageNetwork req))] @ opt_field ''iscsi_storage'' (DeprecatedIscsiStorage req)
       @ [(''hosts'', VArr (map marshal_host (Hosts req)))])"

definition decode_opt :: "(goval \<Rightarrow> 'a option) \<Rightarrow> goval \<Rightarrow> 'a option option" where
  "decode_opt dec v = (if v = VNil then Some None else map_option Some (dec v))"

definition decode_token :: "goval \<Rightarrow> string option" where
  "decode_token v = Option.bind (item_map v) (\<lambda>m. decode_string (mget m ''internal_token''))"

fun decode_strings :: "goval list \<Rightarrow> string list option" where
  "decode_strings [] = Some []"
| "decode_strings (v # vs) = Option.bind (decode_string v) (\<lambda>s. map_option ((#) s) (decode_strings vs))"

definition decode_string_list :: "goval \<Rightarrow> string list option" where
  "decode_string_list v = (case v of VNil \<Rightarrow> Some [] | VArr vs \<Rightarrow> decode_strings vs | _ \<Rightarrow> None)"

text \<open>Binding the body: the fields without a JSON name stay empty, and what is null or absent, too.\<close>

definition decode_request :: "goval \<Rightarrow> ClusterApplyRequest option" where
  "decode_request v =
     Option.bind (item_map v) (\<lambda>m. let str = (\<lambda>key. decode_string (mget m key)) in
     Option.bind (str ''action'') (\<lambda>action. Option.bind (str ''option'') (\<lambda>option. Option.bind (str ''type'') (\<lambda>typ.
     Option.bind (decode_opt decode_ccvm (mget m ''ccvm'')) (\<lambda>ccvm. Option.bind (decode_opt decode_nic (mget m ''mngtNic'')) (\<lambda>nic.
     Option.bind (decode_opt decode_token (mget m ''security'')) (\<lambda>token.
     Option.bind (decode_string_list (mget m ''pcs_cluster_list'')) (\<lambda>pcs.
     Option.bind (str ''exclude_hostname'') (\<lambda>exclude. Option.bind (str ''remove_hostname'') (\<lambda>remove.
     Option.bind (str ''target_hostname'') (\<lambda>target. Option.bind (str ''new_hostname'') (\<lambda>new_hostname.
     Option.bind (str ''external_timeserver'') (\<lambda>timeserver. Option.bind (str ''extenal_timeserver'') (\<lambda>old_timeserver.
     Option.bind (str ''storage_network'') (\<lambda>storage. Option.bind (str ''iscsi_storage'') (\<lambda>iscsi.
     Option.bind (decode_host_list (mget m ''hosts'')) (\<lambda>hosts.
       Some (empty_request\<lparr>Action := action, Option := option, Type := typ, CCVM := ccvm, MngtNic := nic, Security := token,
              PCSClusterList := pcs, ExcludeHostname := exclude, RemoveHostname := remove, TargetHostname := target,
              NewHostname := new_hostname, ExternalTimeserver := timeserver, DeprecatedExtenalTimeserver := old_timeserver,
              StorageNetwork := storage, DeprecatedIscsiStorage := iscsi, Hosts := hosts\<rparr>))))))))))))))))))"

section \<open>One node\<close>

text \<open>
  What stays the same on a machine while a request runs (its environment, the outcome of the random
  source, of a save and of the time server, the texts of the token errors), and the state of the node.
  The store in the system of the machine is replaced by that of the node.
\<close>

record machine =
  ma_env :: env
  ma_system :: system
  ma_gen :: "string option"
  ma_fault :: "save_fault option"
  ma_net :: network
  ma_addrs :: "string list"
  ma_chrony :: chrony_site
  ma_token_text :: "token_error \<Rightarrow> string"

record node =
  no_world :: world
  no_tmp :: bool
  no_private :: bool
  no_chrony :: "string option"

definition node_store :: "node \<Rightarrow> store" where
  "node_store nd = \<lparr>s_doc = w_doc (no_world nd), s_tmp = no_tmp nd, s_private = no_private nd\<rparr>"

definition put_store :: "store \<Rightarrow> node \<Rightarrow> node" where
  "put_store st nd = nd\<lparr>no_world := (no_world nd)\<lparr>w_doc := s_doc st\<rparr>, no_tmp := s_tmp st, no_private := s_private st\<rparr>"

definition node_doc :: "node \<Rightarrow> doc_state" where
  "node_doc nd = w_doc (no_world nd)"

text \<open>An error answer, or the answer 200 that carries the result of the action, whatever its code.\<close>

datatype local_reply = Refused nat string | Answered Result

definition reply_status :: "local_reply \<Rightarrow> nat" where
  "reply_status r = (case r of Refused code text \<Rightarrow> code | Answered result \<Rightarrow> 200)"

definition token_step :: "machine \<Rightarrow> ClusterApplyRequest \<Rightarrow> node \<Rightarrow> ((nat \<times> string) + ClusterApplyRequest) \<times> node" where
  "token_step m req nd =
     (let (res, st) = ensureClusterInternalToken (y_env (ma_system m)) (ma_gen m) (ma_fault m) req (node_store nd)
      in ((case res of Inl err \<Rightarrow> Inl (500, ma_token_text m err) | Inr req1 \<Rightarrow> Inr req1), put_store st nd))"

text \<open>After a successful insert the time server is set up from the new document.\<close>

definition local_action :: "machine \<Rightarrow> ClusterApplyRequest \<Rightarrow> node \<Rightarrow> local_reply \<times> node" where
  "local_action m req nd =
     (let action = normalizeLocalAction (Action req)
      in if action = [] then (Refused 400 ''unsupported action'', nd)
         else (let (result, w) = ApplyLocal (ma_env m) (ma_net m) action (req\<lparr>CopyOption := ''hostOnly''\<rparr>) (no_world nd);
                   nd1 = nd\<lparr>no_world := w\<rparr>
               in if isInsertAction (Action req) \<and> Code result = 200
                  then (let (time, conf) = applyTimeServerConfig (e_hostname (ma_env m)) (ma_addrs m) (ma_chrony m) (w_doc w)
                              \<lparr>tq_TimeServers = [], tq_ExternalTimeserver = []\<rparr> (no_chrony nd1);
                            nd2 = nd1\<lparr>no_chrony := conf\<rparr>
                        in ((case time of Inl err \<Rightarrow> Refused 500 (''time server configure failed: '' @ err) | Inr _ \<Rightarrow> Answered result), nd2))
                  else (Answered result, nd1)))"

definition ApplyClusterConfigLocal :: "machine \<Rightarrow> ClusterApplyRequest option \<Rightarrow> node \<Rightarrow> local_reply \<times> node" where
  "ApplyClusterConfigLocal m body nd =
     (case body of
        None \<Rightarrow> (Refused 400 ''invalid request'', nd)
      | Some req0 \<Rightarrow>
          (case complete_request False (node_doc nd) req0 of
             Inl (code, text) \<Rightarrow> (Refused code text, nd)
           | Inr req \<Rightarrow>
               (case token_step m req nd of
                  (Inl (code, text), nd1) \<Rightarrow> (Refused code text, nd1)
                | (Inr req1, nd1) \<Rightarrow> local_action m req1 nd1)))"

section \<open>The whole cluster\<close>

text \<open>
  A request is lost, or it is delivered and its answer comes too late for the client, or is received.
  An address belongs to a machine; the order in which Go iterates over the targets is free.
\<close>

datatype transmission = Lost string | Late string | Delivered

record fabric =
  fb_home :: "string \<Rightarrow> string"
  fb_machine :: "string \<Rightarrow> machine"
  fb_delivery :: "string \<Rightarrow> transmission"
  fb_order :: "string list \<Rightarrow> string list"
  fb_url_error :: "string \<Rightarrow> string option"

type_synonym fleet = "string \<Rightarrow> node"

definition system_of :: "machine \<Rightarrow> node \<Rightarrow> system" where
  "system_of m nd = (ma_system m)\<lparr>y_store := node_store nd\<rparr>"

definition apply_path :: string where "apply_path = ''/api/v1/cube/cluster/apply-local''"

definition bound_body :: "request \<Rightarrow> ClusterApplyRequest option" where
  "bound_body rq = (case r_body rq of Some (JDoc v) \<Rightarrow> decode_request v | _ \<Rightarrow> None)"

text \<open>A request passes the gate of the node and then its handler.\<close>

definition serve :: "machine \<Rightarrow> request \<Rightarrow> node \<Rightarrow> nat \<times> node" where
  "serve m rq nd =
     (case Middleware (system_of m nd) rq of
        Abort code \<Rightarrow> (code, nd)
      | Next \<Rightarrow> (let (reply, nd1) = ApplyClusterConfigLocal m (bound_body rq) nd in (reply_status reply, nd1)))"

definition apply_request :: "string option \<Rightarrow> ClusterApplyRequest \<Rightarrow> request" where
  "apply_request token req =
     \<lparr>r_method = ''POST'', r_path = apply_path,
      r_headers = (case token of None \<Rightarrow> [] | Some t \<Rightarrow> [(InternalTokenHeader, [t])]) @ [(''Content-Type'', [''application/json''])],
      r_body = Some (JDoc (reload (marshal_request req)))\<rparr>"

definition attached_token :: "machine \<Rightarrow> node \<Rightarrow> string option" where
  "attached_token m nd =
     (case GetInternalToken (y_env (ma_system m)) (node_store nd) of
        Inl err \<Rightarrow> None | Inr token \<Rightarrow> if blank token then None else Some token)"

definition status_line :: "nat \<Rightarrow> string" where
  "status_line code =
     show_nat code @ '' '' @ (case map_of [(400, ''Bad Request''), (401, ''Unauthorized''), (403, ''Forbidden''), (500, ''Internal Server Error'')] code of
        Some text \<Rightarrow> text | None \<Rightarrow> [])"

definition callApplyLocal :: "fabric \<Rightarrow> string \<Rightarrow> string \<Rightarrow> ClusterApplyRequest \<Rightarrow> fleet \<Rightarrow> string option \<times> fleet" where
  "callApplyLocal fb self target req fl =
     (let own = fb_machine fb self; url = buildTargetURL (y_env (ma_system own)) target @ apply_path; rq = apply_request (attached_token own (fl self)) req;
          home = fb_home fb target; (status, nd) = serve (fb_machine fb home) rq (fl home)
      in case fb_url_error fb url of
           Some err \<Rightarrow> (Some err, fl)
         | None \<Rightarrow>
             (case fb_delivery fb target of
                Lost err \<Rightarrow> (Some err, fl)
              | Late err \<Rightarrow> (Some err, fl(home := nd))
              | Delivered \<Rightarrow> (if status \<ge> 300 then Some (''apply-local failed: '' @ status_line status) else None, fl(home := nd))))"

record ClusterApplyResult =
  ar_Target :: string
  ar_Code :: nat
  ar_Message :: string

record ClusterApplyResponse =
  ca_Code :: nat
  ca_Message :: string
  ca_Results :: "ClusterApplyResult list"

fun applyWithoutProbe :: "fabric \<Rightarrow> string \<Rightarrow> ClusterApplyRequest \<Rightarrow> string list \<Rightarrow> fleet \<Rightarrow> ClusterApplyResult list \<times> fleet" where
  "applyWithoutProbe fb self req [] fl = ([], fl)"
| "applyWithoutProbe fb self req (target # targets) fl =
     (let (err, fl1) = callApplyLocal fb self target req fl; (results, fl2) = applyWithoutProbe fb self req targets fl1
      in ((case err of None \<Rightarrow> \<lparr>ar_Target = target, ar_Code = 200, ar_Message = ''ok''\<rparr>
                     | Some text \<Rightarrow> \<lparr>ar_Target = target, ar_Code = 500, ar_Message = text\<rparr>) # results, fl2))"

definition refusal :: "nat \<Rightarrow> string \<Rightarrow> ClusterApplyResponse" where
  "refusal code text = \<lparr>ca_Code = code, ca_Message = text, ca_Results = []\<rparr>"

definition apply_response :: "ClusterApplyResult list \<Rightarrow> ClusterApplyResponse" where
  "apply_response results =
     (if list_ex (\<lambda>r. ar_Code r \<noteq> 200) results then \<lparr>ca_Code = 500, ca_Message = ''apply failed'', ca_Results = results\<rparr>
      else \<lparr>ca_Code = 200, ca_Message = ''apply success'', ca_Results = results\<rparr>)"

definition runClusterConfigApplyForDeploy :: "fabric \<Rightarrow> string \<Rightarrow> ClusterApplyRequest \<Rightarrow> fleet \<Rightarrow> ClusterApplyResponse \<times> fleet" where
  "runClusterConfigApplyForDeploy fb self req0 fl =
     (case complete_request True (node_doc (fl self)) req0 of
        Inl (code, text) \<Rightarrow> (refusal code text, fl)
      | Inr req \<Rightarrow>
          (case token_step (fb_machine fb self) req (fl self) of
             (Inl (code, text), nd) \<Rightarrow> (refusal code text, fl(self := nd))
           | (Inr req1, nd) \<Rightarrow>
               (let fl1 = fl(self := nd)
                in case apply_targets (fb_order fb) (node_doc nd) req1 of
                     None \<Rightarrow> (refusal 500 ''failed to read cluster.json'', fl1)
                   | Some targets \<Rightarrow>
                       if targets = [] then (refusal 400 ''no targets to apply'', fl1)
                       else (let (results, fl2) = applyWithoutProbe fb self (req1\<lparr>CopyOption := ''hostOnly''\<rparr>) targets fl1
                             in (apply_response results, fl2)))))"

definition ApplyClusterConfig :: "fabric \<Rightarrow> string \<Rightarrow> ClusterApplyRequest option \<Rightarrow> fleet \<Rightarrow> ClusterApplyResponse \<times> fleet" where
  "ApplyClusterConfig fb self body fl =
     (case body of None \<Rightarrow> (refusal 400 ''invalid request'', fl) | Some req \<Rightarrow> runClusterConfigApplyForDeploy fb self req fl)"

end
