(* ===== verification/Host_Removal.thy ===== *)
theory Host_Removal
  imports Cloud_Host_Remove Cluster_Orchestrate
begin

text \<open>
  The removal of a host from the cluster: \<^verbatim>\<open>internal/handler/cube/host_remove.go\<close>. A job goes through
  the parts of the program in turn: the health of the host, the cloud manager (\<open>Cloud_Host_Remove\<close>),
  pacemaker, the storage cluster, its storage VM, the cluster document on every node
  (\<open>Cluster_Orchestrate\<close>) and the monitoring. The commands, the script of the storage cluster and the
  local part of the monitoring are functions of the outside.
\<close>

section \<open>Data\<close>

record HostRemoveRequest =
  hm_Hostname :: string
  hm_Username :: string
  hm_Password :: string
  hm_Domain :: string
  hm_Force :: bool

datatype removal_output =
    NoOutput
  | HealthReport step_output
  | MoldResult RemoveHostResult
  | CallResult response
  | ApplyResult ClusterApplyResponse
  | PcsResult "string option" "(string \<times> string) list"
  | Removed string nat

text \<open>A moment is none for the zero time.\<close>

record HostRemoveStep =
  hs_Name :: string
  hs_Status :: string
  hs_Message :: string
  hs_StartedAt :: "nat option"
  hs_FinishedAt :: "nat option"
  hs_DurationMS :: nat
  hs_Output :: removal_output

record HostRemoveJob =
  hj_JobID :: string
  hj_Hostname :: string
  hj_ClusterType :: string
  hj_Status :: string
  hj_CurrentStep :: string
  hj_Message :: string
  hj_CreatedAt :: "nat option"
  hj_StartedAt :: "nat option"
  hj_FinishedAt :: "nat option"
  hj_Steps :: "HostRemoveStep list"

definition zero_job :: HostRemoveJob where
  "zero_job =
     \<lparr>hj_JobID = [], hj_Hostname = [], hj_ClusterType = [], hj_Status = [], hj_CurrentStep = [], hj_Message = [], hj_CreatedAt = None,
      hj_StartedAt = None, hj_FinishedAt = None, hj_Steps = []\<rparr>"

section \<open>The store\<close>

definition hostRemoveJobLimit :: nat where "hostRemoveJobLimit = 50"

record hostRemoveJobStore =
  rj_jobs :: "(string, HostRemoveJob) fmap"
  rj_order :: "string list"

definition newHostRemoveJobStore :: hostRemoveJobStore where
  "newHostRemoveJobStore = \<lparr>rj_jobs = fmempty, rj_order = []\<rparr>"

definition pending_step :: "string \<Rightarrow> HostRemoveStep" where
  "pending_step name =
     \<lparr>hs_Name = name, hs_Status = ''pending'', hs_Message = [], hs_StartedAt = None, hs_FinishedAt = None, hs_DurationMS = 0,
      hs_Output = NoOutput\<rparr>"

definition new_removal :: "string \<Rightarrow> nat \<Rightarrow> HostRemoveRequest \<Rightarrow> string \<Rightarrow> string list \<Rightarrow> HostRemoveJob" where
  "new_removal jobID now req clusterType steps =
     \<lparr>hj_JobID = jobID, hj_Hostname = hm_Hostname req, hj_ClusterType = clusterType, hj_Status = ''queued'', hj_CurrentStep = [],
      hj_Message = ''queued'', hj_CreatedAt = Some now, hj_StartedAt = None, hj_FinishedAt = None, hj_Steps = map pending_step steps\<rparr>"

text \<open>One job is dropped when there are too many.\<close>

definition put_removal :: "string \<Rightarrow> HostRemoveJob \<Rightarrow> hostRemoveJobStore \<Rightarrow> hostRemoveJobStore" where
  "put_removal jobID job s =
     (let m = fmupd jobID job (rj_jobs s); ids = rj_order s @ [jobID]
      in if length ids > hostRemoveJobLimit then \<lparr>rj_jobs = fmdrop (hd ids) m, rj_order = tl ids\<rparr>
         else \<lparr>rj_jobs = m, rj_order = ids\<rparr>)"

definition create_removal ::
  "string \<Rightarrow> nat \<Rightarrow> HostRemoveRequest \<Rightarrow> string \<Rightarrow> string list \<Rightarrow> hostRemoveJobStore \<Rightarrow> HostRemoveJob \<times> hostRemoveJobStore" where
  "create_removal jobID now req clusterType steps s =
     (let job = new_removal jobID now req clusterType steps in (job, put_removal jobID job s))"

definition get_removal :: "string \<Rightarrow> hostRemoveJobStore \<Rightarrow> HostRemoveJob option" where
  "get_removal jobID s = fmlookup (rj_jobs s) jobID"

text \<open>A missing key reads as the zero value, here and in an update.\<close>

definition removal_at :: "string \<Rightarrow> hostRemoveJobStore \<Rightarrow> HostRemoveJob" where
  "removal_at jobID s = (case fmlookup (rj_jobs s) jobID of None \<Rightarrow> zero_job | Some job \<Rightarrow> job)"

definition list_removals :: "hostRemoveJobStore \<Rightarrow> HostRemoveJob list" where
  "list_removals s = map (\<lambda>jobID. removal_at jobID s) (rev (rj_order s))"

definition update_removal :: "string \<Rightarrow> (HostRemoveJob \<Rightarrow> HostRemoveJob) \<Rightarrow> hostRemoveJobStore \<Rightarrow> hostRemoveJobStore" where
  "update_removal jobID f s = s\<lparr>rj_jobs := fmupd jobID (f (removal_at jobID s)) (rj_jobs s)\<rparr>"

text \<open>The edits: every step of the name is changed. A step that was not started has run for the longest duration.\<close>

definition removal_started :: "nat \<Rightarrow> HostRemoveJob \<Rightarrow> HostRemoveJob" where
  "removal_started now job = job\<lparr>hj_Status := ''running'', hj_StartedAt := Some now, hj_Message := ''running''\<rparr>"

definition edit_named :: "string \<Rightarrow> (HostRemoveStep \<Rightarrow> HostRemoveStep) \<Rightarrow> HostRemoveJob \<Rightarrow> HostRemoveJob" where
  "edit_named name f job = job\<lparr>hj_Steps := map (\<lambda>st. if hs_Name st = name then f st else st) (hj_Steps job)\<rparr>"

definition stepRunning :: "nat \<Rightarrow> string \<Rightarrow> HostRemoveJob \<Rightarrow> HostRemoveJob" where
  "stepRunning now name job =
     edit_named name (\<lambda>st. st\<lparr>hs_Status := ''running'', hs_StartedAt := Some now\<rparr>) (job\<lparr>hj_CurrentStep := name\<rparr>)"

definition longest_ms :: nat where "longest_ms = 9223372036854"

definition finished_step :: "nat \<Rightarrow> removal_output \<Rightarrow> string option \<Rightarrow> HostRemoveStep \<Rightarrow> HostRemoveStep" where
  "finished_step now out err st =
     st\<lparr>hs_FinishedAt := Some now,
        hs_DurationMS := (case hs_StartedAt st of None \<Rightarrow> longest_ms | Some t \<Rightarrow> (now - t) div 1000000),
        hs_Output := out,
        hs_Status := (if err = None then ''succeeded'' else ''failed''),
        hs_Message := (case err of None \<Rightarrow> ''ok'' | Some e \<Rightarrow> e)\<rparr>"

definition stepFinished :: "nat \<Rightarrow> string \<Rightarrow> removal_output \<Rightarrow> string option \<Rightarrow> HostRemoveJob \<Rightarrow> HostRemoveJob" where
  "stepFinished now name out err = edit_named name (finished_step now out err)"

definition finish_removal :: "nat \<Rightarrow> bool \<Rightarrow> string \<Rightarrow> HostRemoveJob \<Rightarrow> HostRemoveJob" where
  "finish_removal now ok message job =
     job\<lparr>hj_CurrentStep := [], hj_FinishedAt := Some now, hj_Message := message, hj_Status := (if ok then ''succeeded'' else ''failed'')\<rparr>"

section \<open>Accepting a request\<close>

definition findClusterHostByName :: "ClusterHost list \<Rightarrow> string \<Rightarrow> ClusterHost option" where
  "findClusterHostByName hosts hostname = List.find (\<lambda>host. equal_fold (trim_space (Hostname host)) hostname) hosts"

definition minimum_hosts :: "string \<Rightarrow> nat" where
  "minimum_hosts clusterType = (if isHCITarget clusterType then 3 else 1)"

definition validateHostRemoval :: "string list \<Rightarrow> ClusterSection \<Rightarrow> ClusterHost \<Rightarrow> unit outcome" where
  "validateHostRemoval addrs cfg host =
     (let minimum = minimum_hosts (sec_Type cfg)
      in if length (sec_Hosts cfg) \<le> minimum
         then Inl (sec_Type cfg @ '' requires at least '' @ show_nat minimum @ '' remaining hosts'')
         else if isLocalTarget addrs (Ablecube host)
         then Inl ''cannot remove the API controller host itself; run the removal from another remaining host''
         else Inr ())"

definition hostRemoveStepNames :: "string \<Rightarrow> string list" where
  "hostRemoveStepNames clusterType =
     [''precheck'', ''remove_mold_host'']
     @ (if normalizeDeployOSType clusterType \<in> {''ablestack-vm'', ''ablestack-hci-filesystem''} then [''remove_pcs_node''] else [])
     @ (if isHCITarget clusterType then [''remove_ceph_host'', ''delete_scvm''] else [])
     @ [''update_cluster_files'', ''update_monitoring'', ''final_verify'']"

text \<open>The status code, the store, and what the goroutine of an accepted request is given.\<close>

definition StartHostRemove ::
  "string list \<Rightarrow> doc_state \<Rightarrow> HostRemoveRequest option \<Rightarrow> string \<Rightarrow> nat \<Rightarrow> hostRemoveJobStore \<Rightarrow>
     nat \<times> hostRemoveJobStore \<times> (HostRemoveRequest \<times> ClusterSection \<times> ClusterHost) option" where
  "StartHostRemove addrs d body jobID now s =
     (case body of
        None \<Rightarrow> (400, s, None)
      | Some req0 \<Rightarrow>
          (let req = req0\<lparr>hm_Hostname := trim_space (hm_Hostname req0)\<rparr>
           in if hm_Hostname req = [] then (400, s, None)
              else (case loadClusterConfigSection d of
                      None \<Rightarrow> (500, s, None)
                    | Some cfg \<Rightarrow>
                        (case findClusterHostByName (sec_Hosts cfg) (hm_Hostname req) of
                           None \<Rightarrow> (400, s, None)
                         | Some host \<Rightarrow>
                             (case validateHostRemoval addrs cfg host of
                                Inl err \<Rightarrow> (400, s, None)
                              | Inr _ \<Rightarrow>
                                  (202, snd (create_removal jobID now req (sec_Type cfg) (hostRemoveStepNames (sec_Type cfg)) s),
                                   Some (req, cfg, host)))))))"

definition GetHostRemoveJob :: "string \<Rightarrow> hostRemoveJobStore \<Rightarrow> nat \<times> HostRemoveJob option" where
  "GetHostRemoveJob param s =
     (case get_removal (trim_space param) s of None \<Rightarrow> (404, None) | Some job \<Rightarrow> (200, Some job))"

definition ListHostRemoveJobs :: "hostRemoveJobStore \<Rightarrow> HostRemoveJob list" where
  "ListHostRemoveJobs s = list_removals s"

section \<open>The surroundings of a job\<close>

text \<open>The target of a script of the storage cluster, and what the monitoring is told.\<close>

record bootstrapScriptTarget =
  bt_Role :: string
  bt_Action :: string
  bt_Hostname :: string
  bt_Target :: string
  bt_Domain :: string
  bt_Args :: "string list"

record MonitoringTargets =
  mq_Action :: string
  mq_CCVM :: "string list"
  mq_Cube :: "string list"
  mq_SCVM :: "string list"
  mq_ClusterType :: string

text \<open>What a job does to the cluster, apart from the cloud manager and questions.\<close>

datatype teardown =
    Command "string list"
  | Script bootstrapScriptTarget
  | DeleteSCVM string
  | UpdateFiles ClusterApplyRequest
  | UpdateMonitoring "string option" MonitoringTargets

text \<open>
  The services of the outside, the cloud manager, the machines of the cluster and which of them runs the
  job. A command gives its output, whether it timed out, and an error; a script and the local monitoring
  give a response. A document that cannot be read has its text. The site holds the clock.
\<close>

record ('c, 'w) removal_env =
  re_services :: "'w services"
  re_removal :: "'c removal"
  re_fabric :: fabric
  re_self :: string
  re_command :: "string list \<Rightarrow> 'w \<Rightarrow> (string \<times> bool \<times> string option) \<times> nat \<times> 'w"
  re_script :: "bootstrapScriptTarget \<Rightarrow> 'w \<Rightarrow> response \<times> nat \<times> 'w"
  re_monitor :: "MonitoringTargets \<Rightarrow> 'w \<Rightarrow> response \<times> nat \<times> 'w"
  re_doc_error :: "doc_state \<Rightarrow> string"

record ('c, 'w) removal_world =
  rw_net :: "'c net"
  rw_fleet :: fleet
  rw_site :: "'w site"
  rw_done :: "teardown list"

definition self_doc :: "('c, 'w) removal_env \<Rightarrow> ('c, 'w) removal_world \<Rightarrow> doc_state" where
  "self_doc e w = node_doc (rw_fleet w (re_self e))"

definition self_addrs :: "('c, 'w) removal_env \<Rightarrow> string list" where
  "self_addrs e = ma_addrs (fb_machine (re_fabric e) (re_self e))"

text \<open>The services see the token of the node, the cloud manager its document and its clock.\<close>

definition own_services :: "('c, 'w) removal_env \<Rightarrow> ('c, 'w) removal_world \<Rightarrow> 'w services" where
  "own_services e w =
     (re_services e)\<lparr>sv_token := (\<lambda>x. case GetInternalToken (y_env (ma_system (fb_machine (re_fabric e) (re_self e))))
                                             (node_store (rw_fleet w (re_self e))) of Inl err \<Rightarrow> None | Inr token \<Rightarrow> Some token)\<rparr>"

definition own_removal :: "('c, 'w) removal_env \<Rightarrow> ('c, 'w) removal_world \<Rightarrow> 'c removal" where
  "own_removal e w =
     (let rv = re_removal e
      in rv\<lparr>rv_env := (rv_env rv)\<lparr>me_doc := self_doc e w\<rparr>, rv_deadline := si_time (rw_site w) + (4 * hour + seconds 600)\<rparr>)"

definition own_net :: "('c, 'w) removal_world \<Rightarrow> 'c net" where
  "own_net w = (rw_net w)\<lparr>k_time := si_time (rw_site w)\<rparr>"

definition put_net :: "'c net \<Rightarrow> ('c, 'w) removal_world \<Rightarrow> ('c, 'w) removal_world" where
  "put_net k w = w\<lparr>rw_net := k, rw_site := (rw_site w)\<lparr>si_time := k_time k\<rparr>\<rparr>"

definition act :: "teardown \<Rightarrow> ('w \<Rightarrow> 'a \<times> nat \<times> 'w) \<Rightarrow> ('c, 'w) removal_world \<Rightarrow> 'a \<times> ('c, 'w) removal_world" where
  "act what run w =
     (let (a, t, x) = run (si_world (rw_site w))
      in (a, w\<lparr>rw_site := (rw_site w)\<lparr>si_world := x, si_time := si_time (rw_site w) + t\<rparr>, rw_done := rw_done w @ [what]\<rparr>))"

definition on_site :: "('w site \<Rightarrow> 'a \<times> 'w site) \<Rightarrow> ('c, 'w) removal_world \<Rightarrow> 'a \<times> ('c, 'w) removal_world" where
  "on_site f w = (let (a, s) = f (rw_site w) in (a, w\<lparr>rw_site := s\<rparr>))"

section \<open>The steps\<close>

type_synonym ('c, 'w) removal_step = "('c, 'w) removal_world \<Rightarrow> (removal_output \<times> string option) \<times> ('c, 'w) removal_world"

definition precheck :: "('c, 'w) removal_env \<Rightarrow> ClusterHost \<Rightarrow> ('c, 'w) removal_step" where
  "precheck e host w =
     (let ((health, err), w1) = on_site (waitDeployRunAPIHealthWithPolicy (own_services e w) (Ablecube host) 5 20) w
      in ((HealthReport health, err), w1))"

definition remove_mold_host :: "('c, 'w) removal_env \<Rightarrow> HostRemoveRequest \<Rightarrow> ClusterHost \<Rightarrow> ('c, 'w) removal_step" where
  "remove_mold_host e req host w =
     (let auth = \<lparr>ac_Username = hm_Username req, ac_Password = hm_Password req, ac_Domain = hm_Domain req, ac_Response = []\<rparr>;
          (res, k) = RemoveHost (own_removal e w) auth (Hostname host) (Ablecube host) (hm_Force req) (own_net w)
      in ((case res of Inl (result, err) \<Rightarrow> (MoldResult result, Some err) | Inr result \<Rightarrow> (MoldResult result, None)), put_net k w))"

definition firstRemainingClusterHost :: "ClusterHost list \<Rightarrow> string \<Rightarrow> ClusterHost option" where
  "firstRemainingClusterHost hosts removedHostname =
     List.find (\<lambda>candidate. \<not> equal_fold (trim_space (Hostname candidate)) (trim_space removedHostname)) hosts"

definition by_code :: "string \<Rightarrow> response \<Rightarrow> removal_output \<times> string option" where
  "by_code what resp = (CallResult resp, if rs_Code resp \<noteq> 200 then Some (what @ '' failed: '' @ rs_Message resp) else None)"

definition ceph_target :: "HostRemoveRequest \<Rightarrow> ClusterHost \<Rightarrow> ClusterHost \<Rightarrow> bootstrapScriptTarget" where
  "ceph_target req master host =
     \<lparr>bt_Role = ''scvm'', bt_Action = ''remove_host'', bt_Hostname = licenseApplySCVMHostname master, bt_Target = Ablecube master,
      bt_Domain = ''scvm'', bt_Args = [''remove-host'', licenseApplySCVMHostname host, if hm_Force req then ''true'' else ''false'']\<rparr>"

definition remove_ceph_host :: "('c, 'w) removal_env \<Rightarrow> HostRemoveRequest \<Rightarrow> ClusterSection \<Rightarrow> ClusterHost \<Rightarrow> ('c, 'w) removal_step" where
  "remove_ceph_host e req cfg host w =
     (case firstRemainingClusterHost (sec_Hosts cfg) (Hostname host) of
        None \<Rightarrow> ((NoOutput, Some ''remaining Ceph management host not found''), w)
      | Some master \<Rightarrow>
          (let target = ceph_target req master host; (resp, w1) = act (Script target) (re_script e target) w
           in (by_code ''Ceph host removal'' resp, w1)))"

definition delete_payload :: goval where
  "delete_payload = VMap (fmupd ''action'' (VStr ''delete'') fmempty)"

definition delete_scvm :: "('c, 'w) removal_env \<Rightarrow> ClusterHost \<Rightarrow> ('c, 'w) removal_step" where
  "delete_scvm e host w =
     (let (answer, w1) = on_site (callSCVMUpdateRemote (own_services e w) (Ablecube host) delete_payload) w;
          w2 = w1\<lparr>rw_done := rw_done w1 @ [DeleteSCVM (Ablecube host)]\<rparr>
      in ((case answer of Inl err \<Rightarrow> (NoOutput, Some err) | Inr resp \<Rightarrow> by_code ''SCVM delete'' resp), w2))"

definition runGFSManageCommand ::
  "('c, 'w) removal_env \<Rightarrow> string \<Rightarrow> string list \<Rightarrow> ('c, 'w) removal_world \<Rightarrow> (string \<times> string option) \<times> ('c, 'w) removal_world" where
  "runGFSManageCommand e command args w =
     (let ((out, timedOut, err), w1) = act (Command (command # args)) (re_command e (command # args)) w;
          line = command @ '' '' @ join_with '' '' args
      in ((out, if timedOut then Some (line @ '' timed out after '' @ duration_text 300)
                else (case err of None \<Rightarrow> None | Some er \<Rightarrow> Some (line @ '' failed: '' @ firstNonEmpty [trim_space out, er]))), w1))"

text \<open>The entry of the node list at the place of the host in the host list, if the list is that long.\<close>

fun pcs_node_loop :: "string \<Rightarrow> string list \<Rightarrow> nat \<Rightarrow> ClusterHost list \<Rightarrow> string \<Rightarrow> string" where
  "pcs_node_loop name n i [] node = node"
| "pcs_node_loop name n i (candidate # hosts) node =
     pcs_node_loop name n (Suc i) hosts (if Hostname candidate = name \<and> i < length n then n ! i else node)"

definition pcs_node :: "ClusterSection \<Rightarrow> ClusterHost \<Rightarrow> string" where
  "pcs_node cfg host =
     (let n = NormalizePCSClusterList (HostnameList (cs_PCSCluster cfg))
      in if blank (Index host) \<or> n = [] then trim_space (Ablecube host)
         else pcs_node_loop (Hostname host) n 0 (sec_Hosts cfg) (trim_space (Ablecube host)))"

definition harmless_pcs_error :: "string \<Rightarrow> bool" where
  "harmless_pcs_error out \<longleftrightarrow> contains_str (to_lower out) ''does not exist'' \<or> contains_str (to_lower out) ''unable to find''"

fun pcs_commands ::
  "('c, 'w) removal_env \<Rightarrow> string list list \<Rightarrow> (string \<times> string) list \<Rightarrow> ('c, 'w) removal_world \<Rightarrow>
     ((string \<times> string) list \<times> string option) \<times> ('c, 'w) removal_world" where
  "pcs_commands e [] results w = ((results, None), w)"
| "pcs_commands e (args # commands) results w =
     (let ((out, err), w1) = runGFSManageCommand e ''pcs'' args w; results1 = results @ [(''pcs '' @ join_with '' '' args, out)]
      in if err \<noteq> None \<and> \<not> harmless_pcs_error out then ((results1, err), w1) else pcs_commands e commands results1 w1)"

definition removeHostPCSNode :: "('c, 'w) removal_env \<Rightarrow> ClusterSection \<Rightarrow> ClusterHost \<Rightarrow> bool \<Rightarrow> ('c, 'w) removal_step" where
  "removeHostPCSNode e cfg host force w =
     (let node = pcs_node cfg host;
          ((results, err), w1) = pcs_commands e [[''stonith'', ''delete'', ''fence-'' @ Hostname host],
            [''cluster'', ''node'', ''remove'', node] @ (if force then [''--force''] else [])] [] w
      in if err \<noteq> None then ((PcsResult None results, err), w1)
         else (let ((status, err1), w2) = runGFSManageCommand e ''pcs'' [''status''] w1
               in ((PcsResult (Some node) (results @ [(''pcs status'', status)]), err1), w2)))"

definition removal_apply :: "ClusterSection \<Rightarrow> ClusterHost \<Rightarrow> ClusterApplyRequest" where
  "removal_apply cfg host =
     empty_request\<lparr>Action := ''remove'', Type := sec_Type cfg, RemoveHostname := Hostname host, ExcludeHostname := Hostname host,
       Hosts := sec_Hosts cfg, CCVM := Some (cs_CCVM cfg), MngtNic := Some (dc_MngtNic cfg)\<rparr>"

definition update_cluster_files :: "('c, 'w) removal_env \<Rightarrow> ClusterSection \<Rightarrow> ClusterHost \<Rightarrow> ('c, 'w) removal_step" where
  "update_cluster_files e cfg host w =
     (let req = removal_apply cfg host; (resp, fl) = runClusterConfigApplyForDeploy (re_fabric e) (re_self e) req (rw_fleet w)
      in ((ApplyResult resp, if ca_Code resp \<noteq> 200 then Some (''cluster file update failed: '' @ ca_Message resp) else None),
          w\<lparr>rw_fleet := fl, rw_done := rw_done w @ [UpdateFiles req]\<rparr>))"

definition buildCCVMMonitoringConfigRequest :: "ClusterSection \<Rightarrow> MonitoringTargets" where
  "buildCCVMMonitoringConfigRequest cfg =
     (let hosts = (if equal_fold (trim_space (sec_Type cfg)) ''ablestack-standalone'' \<and> length (sec_Hosts cfg) > 1
                   then take 1 (sec_Hosts cfg) else sec_Hosts cfg)
      in \<lparr>mq_Action = ''update'', mq_CCVM = [trim_space (CCVM_IP (cs_CCVM cfg))], mq_Cube = map (\<lambda>h. trim_space (Ablecube h)) hosts,
          mq_SCVM = (if isHCITarget (sec_Type cfg) then map (\<lambda>h. trim_space (ScvmMngt h)) hosts else []),
          mq_ClusterType = trim_space (sec_Type cfg)\<rparr>)"

definition opt_list :: "string \<Rightarrow> string list \<Rightarrow> (string \<times> goval) list" where
  "opt_list key vs = (if vs = [] then [] else [(key, VArr (map VStr vs))])"

definition marshal_monitoring :: "MonitoringTargets \<Rightarrow> goval" where
  "marshal_monitoring m =
     VRec (opt_field ''action'' (mq_Action m) @ opt_list ''ccvm'' (mq_CCVM m) @ opt_list ''cube'' (mq_Cube m) @ opt_list ''scvm'' (mq_SCVM m)
       @ opt_field ''cluster_type'' (mq_ClusterType m))"

definition callCCVMMonitoringConfigRemote ::
  "'w services \<Rightarrow> string \<Rightarrow> MonitoringTargets \<Rightarrow> 'w site \<Rightarrow> (response \<times> string option) \<times> 'w site" where
  "callCCVMMonitoringConfigRemote sv target m s =
     (let url = buildTargetURL (sv_getenv sv) target @ ''/api/v1/cube/ccvm/monitoring/config''
      in case sv_url_error sv url of
           Some err \<Rightarrow> ((zero_response, Some err), s)
         | None \<Rightarrow>
             (let (answer, s1) = perform (Http \<lparr>hq_Method = ''POST'', hq_URL = url, hq_Token = attachInternalToken sv s,
                                               hq_LocalHeader = True, hq_Payload = marshal_monitoring m\<rparr>) (sv_http sv) s
              in (case answer of
                    NoResponse err \<Rightarrow> (zero_response, Some err)
                  | Response status text raw decoded \<Rightarrow>
                      (case decoded of
                         Inl err \<Rightarrow> (zero_response, Some err)
                       | Inr resp \<Rightarrow>
                           (resp, if status \<ge> 300 then Some (firstNonEmpty [rs_Message resp, rs_ValText resp, text]) else None)), s1)))"

definition update_monitoring :: "('c, 'w) removal_env \<Rightarrow> ('c, 'w) removal_step" where
  "update_monitoring e w =
     (case loadClusterConfigSection (self_doc e w) of
        None \<Rightarrow> ((NoOutput, Some (re_doc_error e (self_doc e w))), w)
      | Some updated \<Rightarrow>
          (let m = buildCCVMMonitoringConfigRequest updated; target = CCVM_IP (cs_CCVM updated);
               ((resp, err), w1) =
                 (if isLocalTarget (self_addrs e) target
                  then (let (resp, w1) = act (UpdateMonitoring None m) (re_monitor e m) w in ((resp, None), w1))
                  else (let (ret, w1) = on_site (callCCVMMonitoringConfigRemote (own_services e w) target m) w
                        in (ret, w1\<lparr>rw_done := rw_done w1 @ [UpdateMonitoring (Some target) m]\<rparr>)))
           in ((if err \<noteq> None then (CallResult resp, err) else by_code ''monitoring update'' resp), w1)))"

definition final_verify :: "('c, 'w) removal_env \<Rightarrow> ClusterHost \<Rightarrow> ('c, 'w) removal_step" where
  "final_verify e host w =
     (case loadClusterConfigSection (self_doc e w) of
        None \<Rightarrow> ((NoOutput, Some (re_doc_error e (self_doc e w))), w)
      | Some updated \<Rightarrow>
          (if findClusterHostByName (sec_Hosts updated) (Hostname host) \<noteq> None
           then ((NoOutput, Some ''removed host still exists in cluster.json''), w)
           else ((Removed (Hostname host) (length (sec_Hosts updated)), None), w)))"

definition executeHostRemoveStep ::
  "('c, 'w) removal_env \<Rightarrow> HostRemoveRequest \<Rightarrow> ClusterSection \<Rightarrow> ClusterHost \<Rightarrow> string \<Rightarrow> ('c, 'w) removal_step" where
  "executeHostRemoveStep e req cfg host step w =
     (if step = ''precheck'' then precheck e host w
      else if step = ''remove_mold_host'' then remove_mold_host e req host w
      else if step = ''remove_ceph_host'' then remove_ceph_host e req cfg host w
      else if step = ''delete_scvm'' then delete_scvm e host w
      else if step = ''remove_pcs_node'' then removeHostPCSNode e cfg host (hm_Force req) w
      else if step = ''update_cluster_files'' then update_cluster_files e cfg host w
      else if step = ''update_monitoring'' then update_monitoring e w
      else if step = ''final_verify'' then final_verify e host w
      else ((NoOutput, Some (''unsupported host removal step: '' @ step)), w))"

section \<open>A job\<close>

definition now_of :: "('c, 'w) removal_world \<Rightarrow> nat" where
  "now_of w = si_time (rw_site w)"

fun run_removal_steps ::
  "('c, 'w) removal_env \<Rightarrow> string \<Rightarrow> HostRemoveRequest \<Rightarrow> ClusterSection \<Rightarrow> ClusterHost \<Rightarrow> string list \<Rightarrow>
     hostRemoveJobStore \<times> ('c, 'w) removal_world \<Rightarrow> hostRemoveJobStore \<times> ('c, 'w) removal_world" where
  "run_removal_steps e jobID req cfg host [] (st, w) =
     (update_removal jobID (finish_removal (now_of w) True ''host removal succeeded'') st, w)"
| "run_removal_steps e jobID req cfg host (step # steps) (st, w) =
     (let st1 = update_removal jobID (stepRunning (now_of w) step) st;
          ((out, err), w1) = executeHostRemoveStep e req cfg host step w;
          st2 = update_removal jobID (stepFinished (now_of w1) step out err) st1
      in case err of
           Some er \<Rightarrow> (update_removal jobID (finish_removal (now_of w1) False er) st2, w1)
         | None \<Rightarrow> run_removal_steps e jobID req cfg host steps (st2, w1))"

definition runHostRemoveJob ::
  "('c, 'w) removal_env \<Rightarrow> string \<Rightarrow> HostRemoveRequest \<Rightarrow> ClusterSection \<Rightarrow> ClusterHost \<Rightarrow>
     hostRemoveJobStore \<times> ('c, 'w) removal_world \<Rightarrow> hostRemoveJobStore \<times> ('c, 'w) removal_world" where
  "runHostRemoveJob e jobID req cfg host sw =
     run_removal_steps e jobID req cfg host (hostRemoveStepNames (sec_Type cfg))
       (update_removal jobID (removal_started (now_of (snd sw))) (fst sw), snd sw)"

end
