(* ===== verification/Cluster_Orchestrate_Facts.thy ===== *)
theory Cluster_Orchestrate_Facts
  imports Cluster_Orchestrate
begin

text \<open>
  What holds of applying a configuration to a cluster: the request survives the wire, adding hosts
  keeps the others, every node that took part in an insert shares the token, and what the answer of the
  orchestrator does and does not say.
\<close>

section \<open>The request survives the wire\<close>

lemma map_of_opt_field: "map_of (opt_field key s) k = (if k = key \<and> s \<noteq> [] then Some (VStr s) else None)"
  by (simp add: opt_field_def)

lemma map_of_opt_struct: "map_of (opt_struct key enc x) k = (if k = key then map_option enc x else None)"
  by (simp add: opt_struct_def split: option.split)

lemma map_of_fields: "map_of (xs @ ys) k = (case map_of xs k of Some v \<Rightarrow> Some v | None \<Rightarrow> map_of ys k)"
  by (simp add: map_add_def split: option.split)

text \<open>The value of a field of an encoded struct, and how it decodes.\<close>

definition field :: "(string \<times> goval) list \<Rightarrow> string \<Rightarrow> goval" where
  "field fs key = (case map_of fs key of Some v \<Rightarrow> reload v | None \<Rightarrow> VNil)"

lemma mget_field: "mget (fmap_of_list (map (map_prod id reload) fs)) key = field fs key"
  by (simp add: mget_fields field_def split: option.split)

lemma decode_field:
  "map_of fs key = Some (VStr s) \<or> map_of fs key = None \<and> s = [] \<Longrightarrow> decode_string (field fs key) = Some s"
  by (auto simp: field_def decode_string_def)

lemma item_map_rec: "item_map (reload (VRec fs)) = Some (fmap_of_list (map (map_prod id reload) fs))"
  by (simp add: item_map_def)

lemmas struct_fields = map_of_fields map_of_opt_field map_of_opt_struct mget_field item_map_rec

lemma decode_marshal_host: "decode_host (reload (marshal_host h)) = Some h"
proof -
  let ?fs = "[(''index'', VStr (Index h)), (''hostname'', VStr (Hostname h)), (''ablecube'', VStr (Ablecube h))]
     @ opt_field ''scvmMngt'' (ScvmMngt h) @ opt_field ''ablecubePn'' (AblecubePn h) @ opt_field ''scvm'' (Scvm h) @ opt_field ''scvmCn'' (ScvmCn h)"
  have f: "decode_string (field ?fs ''index'') = Some (Index h)" "decode_string (field ?fs ''hostname'') = Some (Hostname h)"
      "decode_string (field ?fs ''ablecube'') = Some (Ablecube h)" "decode_string (field ?fs ''scvmMngt'') = Some (ScvmMngt h)"
      "decode_string (field ?fs ''ablecubePn'') = Some (AblecubePn h)" "decode_string (field ?fs ''scvm'') = Some (Scvm h)"
      "decode_string (field ?fs ''scvmCn'') = Some (ScvmCn h)"
    by (auto intro!: decode_field simp: struct_fields simp del: map_of_append split: if_splits)
  show ?thesis
    unfolding marshal_host_def decode_host_def item_map_rec Option.bind.bind_lunit mget_field f by simp
qed

lemma decode_marshal_ccvm: "decode_ccvm (reload (marshal_ccvm c)) = Some c"
proof -
  let ?fs = "[(''ip'', VStr (CCVM_IP c))] @ opt_field ''cidr'' (CCVM_CIDR c) @ opt_field ''gw'' (CCVM_GW c) @ opt_field ''dns'' (CCVM_DNS c)"
  have f: "decode_string (field ?fs ''ip'') = Some (CCVM_IP c)" "decode_string (field ?fs ''cidr'') = Some (CCVM_CIDR c)"
      "decode_string (field ?fs ''gw'') = Some (CCVM_GW c)" "decode_string (field ?fs ''dns'') = Some (CCVM_DNS c)"
    by (auto intro!: decode_field simp: struct_fields simp del: map_of_append split: if_splits)
  show ?thesis unfolding marshal_ccvm_def decode_ccvm_def item_map_rec Option.bind.bind_lunit mget_field f by simp
qed

lemma decode_marshal_nic: "decode_nic (reload (marshal_nic n)) = Some n"
proof -
  let ?fs = "[(''cidr'', VStr (Nic_CIDR n)), (''gw'', VStr (Nic_GW n)), (''dns'', VStr (Nic_DNS n))]"
  have f: "decode_string (field ?fs ''cidr'') = Some (Nic_CIDR n)" "decode_string (field ?fs ''gw'') = Some (Nic_GW n)"
      "decode_string (field ?fs ''dns'') = Some (Nic_DNS n)"
    by (auto intro!: decode_field)
  show ?thesis unfolding marshal_nic_def decode_nic_def item_map_rec Option.bind.bind_lunit mget_field f by simp
qed

lemma decode_marshal_token: "decode_token (reload (VRec (opt_field ''internal_token'' t))) = Some t"
proof -
  have f: "decode_string (field (opt_field ''internal_token'' t) ''internal_token'') = Some t"
    by (auto intro!: decode_field simp: struct_fields simp del: map_of_append split: if_splits)
  show ?thesis unfolding decode_token_def item_map_rec Option.bind.bind_lunit mget_field f ..
qed

lemma decode_strings_map: "decode_strings (map VStr ss) = Some ss"
  by (induction ss) (simp_all add: decode_string_def)

lemma reload_struct: "reload (VRec fs) \<noteq> VNil"
  by simp

lemma decode_opt_struct:
  assumes "map_of fs key = map_option enc x" and "\<And>v. dec (reload (enc v)) = Some v" and "\<And>v. reload (enc v) \<noteq> VNil"
  shows "decode_opt dec (field fs key) = Some x"
  using assms by (cases x) (simp_all add: field_def decode_opt_def)

text \<open>What the receiver binds: the request without the fields that have no JSON name.\<close>

definition on_wire :: "ClusterApplyRequest \<Rightarrow> ClusterApplyRequest" where
  "on_wire req =
     req\<lparr>CCVMMngtIP := [], MngtNicCIDR := [], MngtNicGW := [], MngtNicDNS := [], JSONString := None, CopyOption := [],
         ExistingHostnames := []\<rparr>"

lemma wire_roundtrip:
  "decode_request (reload (marshal_request req)) = Some (on_wire req)"
proof -
  obtain fs where fs: "marshal_request req = VRec fs" and fs_def: "fs =
      [(''action'', VStr (Action req))] @ opt_field ''option'' (Option req) @ [(''type'', VStr (Type req))]
       @ opt_struct ''ccvm'' marshal_ccvm (CCVM req) @ opt_struct ''mngtNic'' marshal_nic (MngtNic req)
       @ opt_struct ''security'' (\<lambda>t. VRec (opt_field ''internal_token'' t)) (Security req)
       @ [(''pcs_cluster_list'', VArr (map VStr (PCSClusterList req))), (''exclude_hostname'', VStr (ExcludeHostname req)),
          (''remove_hostname'', VStr (RemoveHostname req))]
       @ opt_field ''target_hostname'' (TargetHostname req) @ opt_field ''new_hostname'' (NewHostname req)
       @ [(''external_timeserver'', VStr (ExternalTimeserver req))] @ opt_field ''extenal_timeserver'' (DeprecatedExtenalTimeserver req)
       @ [(''storage_network'', VStr (StorageNetwork req))] @ opt_field ''iscsi_storage'' (DeprecatedIscsiStorage req)
       @ [(''hosts'', VArr (map marshal_host (Hosts req)))]"
    by (simp add: marshal_request_def)
  have strs: "decode_string (field fs ''action'') = Some (Action req)" "decode_string (field fs ''option'') = Some (Option req)"
      "decode_string (field fs ''type'') = Some (Type req)" "decode_string (field fs ''exclude_hostname'') = Some (ExcludeHostname req)"
      "decode_string (field fs ''remove_hostname'') = Some (RemoveHostname req)" "decode_string (field fs ''target_hostname'') = Some (TargetHostname req)"
      "decode_string (field fs ''new_hostname'') = Some (NewHostname req)" "decode_string (field fs ''external_timeserver'') = Some (ExternalTimeserver req)"
      "decode_string (field fs ''extenal_timeserver'') = Some (DeprecatedExtenalTimeserver req)"
      "decode_string (field fs ''storage_network'') = Some (StorageNetwork req)" "decode_string (field fs ''iscsi_storage'') = Some (DeprecatedIscsiStorage req)"
    unfolding fs_def by (auto intro!: decode_field simp: struct_fields simp del: map_of_append split: if_splits)
  have "map_of fs ''ccvm'' = map_option marshal_ccvm (CCVM req)" "map_of fs ''mngtNic'' = map_option marshal_nic (MngtNic req)"
      "map_of fs ''security'' = map_option (\<lambda>t. VRec (opt_field ''internal_token'' t)) (Security req)"
    unfolding fs_def by (simp_all add: struct_fields del: map_of_append split: option.split)
  then have opts: "decode_opt decode_ccvm (field fs ''ccvm'') = Some (CCVM req)" "decode_opt decode_nic (field fs ''mngtNic'') = Some (MngtNic req)"
      "decode_opt decode_token (field fs ''security'') = Some (Security req)"
    by (auto intro!: decode_opt_struct decode_marshal_ccvm decode_marshal_nic decode_marshal_token
        simp: marshal_ccvm_def marshal_nic_def simp del: reload.simps(8)) (simp_all add: marshal_ccvm_def marshal_nic_def)
  have "map_of fs ''pcs_cluster_list'' = Some (VArr (map VStr (PCSClusterList req)))" "map_of fs ''hosts'' = Some (VArr (map marshal_host (Hosts req)))"
    unfolding fs_def by (simp_all add: struct_fields del: map_of_append split: option.split)
  moreover have "decode_hosts (map (reload \<circ> marshal_host) (Hosts req)) = Some (Hosts req)"
    using decode_hosts_map [of "Hosts req" "reload \<circ> marshal_host" id] decode_marshal_host by simp
  ultimately have lists: "decode_string_list (field fs ''pcs_cluster_list'') = Some (PCSClusterList req)"
      "decode_host_list (field fs ''hosts'') = Some (Hosts req)"
    by (simp_all add: field_def decode_string_list_def decode_host_list_def decode_strings_map comp_def)
  show ?thesis
    unfolding fs decode_request_def item_map_rec mget_field Let_def Option.bind.bind_lunit strs opts lists
    by (simp add: on_wire_def empty_request_def)
qed

text \<open>
  A configuration request survives the wire: whatever a node sends, the receiver binds the same
  request, without the internal fields that have no JSON name, empty strings and missing parts included.
\<close>

theorem request_roundtrip:
  "decode_request (reload (marshal_request req)) = Some (on_wire req)"
  by (rule wire_roundtrip)

section \<open>Adding hosts keeps the others\<close>

lemma norm_aliases_keeps:
  "Hosts (norm_aliases r) = Hosts r" "Action (norm_aliases r) = Action r" "Option (norm_aliases r) = Option r" "Type (norm_aliases r) = Type r"
  "Security (norm_aliases r) = Security r" "CCVM (norm_aliases r) = CCVM r" "PCSClusterList (norm_aliases r) = PCSClusterList r"
  "ExistingHostnames (norm_aliases r) = ExistingHostnames r" "JSONString (norm_aliases r) = JSONString r"
  by (simp_all add: norm_aliases_def Let_def)

lemma norm_ccvm_keeps:
  "Hosts (norm_ccvm r) = Hosts r" "Action (norm_ccvm r) = Action r" "Option (norm_ccvm r) = Option r" "Type (norm_ccvm r) = Type r"
  "Security (norm_ccvm r) = Security r" "CCVM (norm_ccvm r) = CCVM r" "PCSClusterList (norm_ccvm r) = PCSClusterList r"
  "ExistingHostnames (norm_ccvm r) = ExistingHostnames r" "JSONString (norm_ccvm r) = JSONString r"
  by (cases "CCVM r"; simp add: norm_ccvm_def)+

lemma norm_mngt_nic_keeps:
  "Hosts (norm_mngt_nic r) = Hosts r" "Action (norm_mngt_nic r) = Action r" "Option (norm_mngt_nic r) = Option r" "Type (norm_mngt_nic r) = Type r"
  "Security (norm_mngt_nic r) = Security r" "CCVM (norm_mngt_nic r) = CCVM r" "PCSClusterList (norm_mngt_nic r) = PCSClusterList r"
  "ExistingHostnames (norm_mngt_nic r) = ExistingHostnames r" "JSONString (norm_mngt_nic r) = JSONString r"
  by (cases "MngtNic r"; simp add: norm_mngt_nic_def)+

lemmas norm_keeps = norm_aliases_keeps norm_ccvm_keeps norm_mngt_nic_keeps

lemma Normalize_keeps [simp]:
  "Hosts (Normalize r) = Hosts r" "Action (Normalize r) = Action r" "Option (Normalize r) = Option r" "Type (Normalize r) = Type r"
  "Security (Normalize r) = Security r" "CCVM (Normalize r) = CCVM r" "PCSClusterList (Normalize r) = PCSClusterList r"
  "ExistingHostnames (Normalize r) = ExistingHostnames r"
  by (simp_all add: Normalize_def Let_def norm_keeps)

lemma JSONString_Normalize:
  "JSONString (Normalize r) = (if JSONString r = None \<and> Hosts r \<noteq> [] then Some (map (\<lambda>h. reload (marshal_host h)) (Hosts r)) else JSONString r)"
  by (simp add: Normalize_def Let_def norm_keeps)

text \<open>The index says where each host stands that has a name.\<close>

definition indexed :: "ClusterHost list \<Rightarrow> (string, nat) fmap \<Rightarrow> bool" where
  "indexed merged m \<longleftrightarrow>
     (\<forall>name j. fmlookup m name = Some j \<longleftrightarrow> j < length merged \<and> Hostname (merged ! j) = name \<and> \<not> blank name)"

lemma indexed_lookup: "indexed merged m \<Longrightarrow> fmlookup m name = Some j \<Longrightarrow> j < length merged \<and> Hostname (merged ! j) = name"
  by (simp add: indexed_def)

lemma indexed_missing:
  assumes "indexed merged m" and "fmlookup m name = None" and "\<not> blank name"
  shows "name \<notin> Hostname ` set merged"
proof
  assume "name \<in> Hostname ` set merged"
  then obtain j where "j < length merged" "Hostname (merged ! j) = name" by (auto simp: in_set_conv_nth)
  then have "fmlookup m name = Some j" using assms(1,3) by (simp add: indexed_def)
  then show False using assms(2) by simp
qed

lemma index_hosts_lookup:
  assumes "distinct (map Hostname hosts)" and "\<And>h. h \<in> set hosts \<Longrightarrow> \<not> blank (Hostname h)"
  shows "fmlookup (index_hosts i hosts m) name = Some j \<longleftrightarrow>
    i \<le> j \<and> j < i + length hosts \<and> Hostname (hosts ! (j - i)) = name \<or> name \<notin> Hostname ` set hosts \<and> fmlookup m name = Some j"
  using assms
proof (induction hosts arbitrary: i m)
  case (Cons h hosts)
  have IH: "fmlookup (index_hosts (Suc i) hosts (fmupd (Hostname h) i m)) name = Some j \<longleftrightarrow>
      Suc i \<le> j \<and> j < Suc i + length hosts \<and> Hostname (hosts ! (j - Suc i)) = name
      \<or> name \<notin> Hostname ` set hosts \<and> fmlookup (fmupd (Hostname h) i m) name = Some j"
    using Cons.prems by (intro Cons.IH) simp_all
  have "\<not> blank (Hostname h)" using Cons.prems(2) by simp
  moreover have "Hostname h \<notin> Hostname ` set hosts" using Cons.prems(1) by simp
  moreover have "Hostname (hosts ! k) \<in> Hostname ` set hosts" if "k < length hosts" for k using that by simp
  moreover have "j = i \<or> j < i \<or> (\<exists>k. j = Suc (i + k))" by (metis less_iff_Suc_add not_less_iff_gr_or_eq)
  ultimately show ?case using IH by (elim disjE exE) auto
qed auto

lemma index_hosts_indexed:
  "distinct (map Hostname hosts) \<Longrightarrow> (\<And>h. h \<in> set hosts \<Longrightarrow> \<not> blank (Hostname h)) \<Longrightarrow> indexed hosts (index_hosts 0 hosts fmempty)"
  by (auto simp: indexed_def index_hosts_lookup)

text \<open>A host with what the request says of its name.\<close>

definition replaced :: "ClusterHost list \<Rightarrow> ClusterHost \<Rightarrow> ClusterHost" where
  "replaced reqs h = (case List.find (\<lambda>r. Hostname r = Hostname h) reqs of Some r \<Rightarrow> r | None \<Rightarrow> h)"

lemma replaced_Cons: "replaced (r # reqs) h = (if Hostname r = Hostname h then r else replaced reqs h)"
  by (simp add: replaced_def)

lemma replaced_other: "Hostname h \<notin> Hostname ` set reqs \<Longrightarrow> replaced reqs h = h"
  by (induction reqs) (auto simp: replaced_Cons, simp add: replaced_def)

lemma merge_hosts_spec:
  assumes "indexed merged m" and "distinct (map Hostname merged)" and "distinct (map Hostname reqs)"
    and "\<And>r. r \<in> set reqs \<Longrightarrow> \<not> blank (Hostname r)"
  shows "merge_hosts reqs merged m = map (replaced reqs) merged @ filter (\<lambda>r. Hostname r \<notin> Hostname ` set merged) reqs"
  using assms
proof (induction reqs arbitrary: merged m)
  case Nil
  then show ?case by (simp add: replaced_other map_idI)
next
  case (Cons r reqs)
  have r: "\<not> blank (Hostname r)" and fresh: "Hostname r \<notin> Hostname ` set reqs" "distinct (map Hostname reqs)" using Cons.prems by simp_all
  show ?case
  proof (cases "fmlookup m (Hostname r)")
    case (Some idx)
    let ?merged = "merged[idx := r]"
    have idx: "idx < length merged" "Hostname (merged ! idx) = Hostname r" using indexed_lookup [OF Cons.prems(1) Some] by simp_all
    then have names: "map Hostname ?merged = map Hostname merged" by (simp add: map_update list_update_same_conv)
    then have names_at: "Hostname (?merged ! j) = Hostname (merged ! j)" if "j < length merged" for j
      using that by (metis length_list_update nth_map)
    then have "indexed ?merged m" using Cons.prems(1) by (auto simp: indexed_def)
    moreover have "Hostname ` set ?merged = Hostname ` set merged" using names by (metis set_map)
    ultimately have "merge_hosts reqs ?merged m = map (replaced reqs) ?merged @ filter (\<lambda>r. Hostname r \<notin> Hostname ` set merged) reqs"
      using Cons.IH [of ?merged m] Cons.prems names fresh by simp
    moreover have "map (replaced reqs) ?merged = map (replaced (r # reqs)) merged"
    proof (rule nth_equalityI)
      fix j assume "j < length (map (replaced reqs) ?merged)"
      then have j: "j < length merged" by simp
      have "Hostname r = Hostname (merged ! j) \<longleftrightarrow> j = idx"
        using idx j Cons.prems(2) nth_eq_iff_index_eq [of "map Hostname merged" j idx] by auto
      then show "map (replaced reqs) ?merged ! j = map (replaced (r # reqs)) merged ! j"
        using j by (cases "j = idx") (auto simp: replaced_Cons replaced_other [OF fresh(1)])
    qed simp
    moreover have "Hostname r \<in> Hostname ` set merged" using idx by (metis imageI nth_mem)
    ultimately show ?thesis using r Some by simp
  next
    case None
    let ?merged = "merged @ [r]"
    have absent: "Hostname r \<notin> Hostname ` set merged" by (rule indexed_missing [OF Cons.prems(1) None r])
    have "j < length merged \<Longrightarrow> Hostname (merged ! j) \<noteq> Hostname r" for j using absent by (metis imageI nth_mem)
    then have "indexed ?merged (fmupd (Hostname r) (length merged) m)"
      using Cons.prems(1) r by (auto simp: indexed_def nth_append less_Suc_eq)
    moreover have "distinct (map Hostname ?merged)" using Cons.prems(2) absent by simp
    ultimately have "merge_hosts reqs ?merged (fmupd (Hostname r) (length merged) m) =
        map (replaced reqs) ?merged @ filter (\<lambda>q. Hostname q \<notin> Hostname ` set ?merged) reqs"
      using Cons.IH Cons.prems fresh by simp
    moreover have "map (replaced reqs) ?merged = map (replaced (r # reqs)) merged @ [r]"
      using absent by (auto simp: replaced_Cons replaced_other [OF fresh(1)] image_iff)
    moreover have "filter (\<lambda>q. Hostname q \<notin> Hostname ` set ?merged) reqs = filter (\<lambda>q. Hostname q \<notin> Hostname ` set merged) reqs"
      using fresh(1) by (intro filter_cong) (auto simp: image_iff)
    ultimately show ?thesis using r None absent by simp
  qed
qed

definition added_host :: ClusterHost where
  "added_host =
     \<lparr>Index = ''2'', Hostname = ''cube9'', Ablecube = ''10.0.0.2'', ScvmMngt = [], AblecubePn = [], Scvm = [], ScvmCn = []\<rparr>"

text \<open>
  C27. Adding hosts keeps the cluster: a request to add hosts with names is completed to all hosts of the
  document in their places, each replaced by what the request says of its name, followed by the
  new hosts in the order of the request; and the hosts that were there are named as existing.
\<close>

theorem add_keeps_hosts:
  assumes "isInsertAddAction (Action req) (Option req)" and "loadClusterConfigSection d = Some cfg"
    and "distinct (map Hostname (sec_Hosts cfg))" and "\<And>h. h \<in> set (sec_Hosts cfg) \<Longrightarrow> \<not> blank (Hostname h)"
    and "distinct (map Hostname (Hosts req))" and "\<And>h. h \<in> set (Hosts req) \<Longrightarrow> \<not> blank (Hostname h)"
  shows "\<exists>req'. ensureInsertAddContext d req = Some req' \<and> ExistingHostnames req' = map Hostname (sec_Hosts cfg)
     \<and> Hosts req' = map (replaced (Hosts req)) (sec_Hosts cfg) @ filter (\<lambda>r. Hostname r \<notin> Hostname ` set (sec_Hosts cfg)) (Hosts req)"
proof -
  have "merge_hosts (Hosts req) (sec_Hosts cfg) (index_hosts 0 (sec_Hosts cfg) fmempty) =
      map (replaced (Hosts req)) (sec_Hosts cfg) @ filter (\<lambda>r. Hostname r \<notin> Hostname ` set (sec_Hosts cfg)) (Hosts req)"
    using assms(3-6) by (intro merge_hosts_spec index_hosts_indexed) auto
  moreover have "filter (\<lambda>name. \<not> blank name) (map Hostname (sec_Hosts cfg)) = map Hostname (sec_Hosts cfg)"
    using assms(4) by (auto simp: filter_id_conv)
  ultimately show ?thesis
    using assms(1,2) by (auto simp: ensureInsertAddContext_def with_section_def add_context_def Let_def)
qed

theorem add_keeps_hosts_witness:
  "\<exists>req'. ensureInsertAddContext (Doc (sample_root ''ablestack-hci''))
         (empty_request\<lparr>Action := ''insert'', Option := ''add'', Hosts := [added_host]\<rparr>) = Some req'
     \<and> map Hostname (Hosts req') = [''cube1'', ''cube9'']"
proof -
  let ?req = "empty_request\<lparr>Action := ''insert'', Option := ''add'', Hosts := [added_host]\<rparr>"
  let ?host = "section_host (isHCIClusterType ''ablestack-hci'') sample_host"
  obtain cfg where cfg: "loadClusterConfigSection (Doc (sample_root ''ablestack-hci'')) = Some cfg" "sec_Hosts cfg = [?host]"
    by (simp add: loadClusterConfigSection_map [OF sample_section(1)] decode_cluster_ordered sample_section(2,5))
  have name: "Hostname ?host = ''cube1''" by (simp add: section_host_def host_param_def sample_host_def)
  have add: "isInsertAddAction (Action ?req) (Option ?req)" by (simp, code_simp)
  have filled: "\<not> blank ''cube1''" "\<not> blank ''cube9''" by code_simp+
  have "Hosts ?req = [added_host]" "Hostname added_host = ''cube9''" by (simp_all add: added_host_def)
  then show ?thesis
    using add_keeps_hosts [OF add cfg(1)] cfg(2) name filled by (auto simp: replaced_def)
qed

end
