(* ===== verification/Cluster_Token.thy ===== *)
theory Cluster_Token
  imports Cluster_Orchestrate_Facts
begin

text \<open>
  The internal token while a configuration is applied to a cluster: no action of an insert loses it, and
  every node that took part in a successful insert ends with the token of the orchestrator, so that
  the nodes accept each other's calls.
\<close>

section \<open>A document that holds a token\<close>

definition has_token :: "doc_state \<Rightarrow> string \<Rightarrow> bool" where
  "has_token d tok \<longleftrightarrow>
     (\<exists>root sec. d = Doc root \<and> fmlookup root ''security'' = Some (VMap sec) \<and> fmlookup sec ''internal_token'' = Some (VStr tok))"

lemma has_token_stored:
  assumes "fmlookup r ''security'' = Some (VMap sec)" and "fmlookup sec ''internal_token'' = Some (VStr tok)" and "tok \<noteq> []"
  shows "has_token (Doc (stored r)) tok"
proof (cases "as_map (mget r ''clusterConfig'')")
  case None
  then show ?thesis using assms by (simp add: has_token_def stored_def NormalizeClusterJSON_def)
next
  case (Some cfg)
  let ?r1 = "fmupd ''clusterConfig'' (orderedClusterConfig cfg) r"
  have "submap ?r1 ''security'' = sec" using assms(1) by (simp add: submap_def mget_def)
  then have "submap (fst (collect_profile ?r1)) ''security'' = sec"
    using assms(2,3) by (simp add: fst_collect_profile_security inherit_token_def mget_def [of sec] split: option.splits)
  then show ?thesis
    using assms(2) by (simp add: has_token_def stored_def fmlookup_normalized [OF Some] Let_def default_token_def)
qed

lemma has_token_get:
  assumes "has_token (s_doc st) tok" and "tok \<noteq> []" and "trim_space tok = tok" and "envInternalToken getenv = []"
  shows "GetInternalToken getenv st = Inr tok"
proof -
  obtain root sec where root: "s_doc st = Doc root" "fmlookup root ''security'' = Some (VMap sec)"
      "fmlookup sec ''internal_token'' = Some (VStr tok)"
    using assms(1) by (auto simp: has_token_def)
  have "mget sec ''internal_token'' = VStr tok" using root(3) by (simp add: mget_def)
  then have "internalTokenFromRoot (NormalizeClusterJSON root) = trim_space tok"
    by (rule normalize_keeps_token [OF root(2) _ assms(2)])
  then show ?thesis using assms(3,4) root(1) by (simp add: GetInternalToken_def loadClusterRoot_def)
qed

lemma saved_token:
  assumes "saveInternalToken fault root tok st = (res, st')" and "trim_space tok = tok" and "tok \<noteq> []"
  shows "s_doc st' = s_doc st \<or> has_token (s_doc st') tok" and "res = Inr u \<Longrightarrow> has_token (s_doc st') tok"
proof -
  have "has_token (Doc (stored (edit_map ''security'' (puts ''internal_token'' tok) root))) tok"
    by (rule has_token_stored [where sec = "puts ''internal_token'' tok (submap root ''security'')"]) (simp_all add: assms(3))
  with assms(1,2) show "s_doc st' = s_doc st \<or> has_token (s_doc st') tok" "res = Inr u \<Longrightarrow> has_token (s_doc st') tok"
    by (auto simp: saveInternalToken_def saveClusterRoot_def Let_def split: option.splits save_fault.splits)
qed

section \<open>Inserts keep the token\<close>

lemma put_same_token:
  assumes "fmlookup root ''security'' = Some (VMap sec)" and "fmlookup sec ''internal_token'' = Some (VStr tok)" and "trim_space tok = tok"
  shows "\<exists>sec'. fmlookup (put_token tok root) ''security'' = Some (VMap sec') \<and> fmlookup sec' ''internal_token'' = Some (VStr tok)"
  using assms by (simp add: put_token_def)

text \<open>
  What a token can come to: as long as no write of the document breaks off (\<open>b\<close>) it stays where it
  is, and otherwise it stays or the document is the blank or unreadable rest of such a write.
\<close>

definition token_kept :: "bool \<Rightarrow> string \<Rightarrow> world \<Rightarrow> bool" where
  "token_kept b tok w \<longleftrightarrow> has_token (w_doc w) tok \<and> (b \<longrightarrow> unbroken w) \<or> \<not> b \<and> torn (w_doc w)"

lemma token_kept_frame:
  "w_doc w' = w_doc w \<Longrightarrow> w_doc_writes w' = w_doc_writes w \<Longrightarrow> token_kept b tok w' \<longleftrightarrow> token_kept b tok w"
  by (simp add: token_kept_def)

lemma token_kept_cases:
  assumes "token_kept b tok w"
  obtains (torn) "\<not> b" "w_doc w \<in> {BlankDoc, BadDoc}"
    | (held) root sec where "w_doc w = Doc root" "fmlookup root ''security'' = Some (VMap sec)"
        "fmlookup sec ''internal_token'' = Some (VStr tok)" "b \<longrightarrow> unbroken w"
  using assms by (auto simp: token_kept_def torn_def has_token_def)

lemma write_keeps:
  assumes "token_kept b tok w" and "has_token (Doc doc) tok"
  shows "write_doc doc w = Inl w' \<Longrightarrow> token_kept b tok w'" and "write_doc doc w = Inr w' \<Longrightarrow> token_kept b tok w'"
  using assms write_doc_failed [of doc w w'] write_doc_saved [of doc w w'] write_doc_unbroken [of w doc w']
  by (auto simp: token_kept_def)

lemma reset_keeps_token:
  assumes "token_kept b tok w" and "tok \<noteq> []" and "resetClusterConfig e w = (res, w')"
  shows "token_kept b tok w'"
  using assms(1)
proof (cases rule: token_kept_cases)
  case torn
  then show ?thesis using assms(1,3) by (auto simp: resetClusterConfig_def loadClusterJSON_def)
next
  case (held root sec)
  then have "has_token (Doc (stored (fmupd ''clusterConfig'' (VMap cfg) root))) tok" for cfg
    using assms(2) by (intro has_token_stored) simp_all
  then show ?thesis
    using assms(1,3) held(1)
    by (auto simp: resetClusterConfig_def loadClusterJSON_Doc saveClusterJSON_def intro: write_keeps split: sum.splits)
qed

lemma insert_keeps_token:
  assumes "token_kept b tok w" and "tok \<noteq> []" and "trim_space tok = tok" and "aInternalToken args = tok"
    and "insert_config e args w = (res, w')"
  shows "token_kept b tok w'"
proof -
  let ?w = "applyNetworkFilter e w"
  have w: "token_kept b tok ?w" using assms(1) by (simp add: token_kept_frame [of ?w w] frames)
  then show ?thesis
  proof (cases rule: token_kept_cases)
    case torn
    then have "loadClusterJSON ?w = None" by (auto simp: loadClusterJSON_def)
    then show ?thesis using assms(5) w by (auto simp: insert_config_def Let_def split: sum.splits)
  next
    case (held root sec)
    have put: "has_token (Doc (stored (fmupd ''clusterConfig'' (VMap cfg) (put_token tok (fmupd ''clusterConfig'' (VMap c) root))))) tok" for cfg c
      using put_same_token [of "fmupd ''clusterConfig'' (VMap c) root" sec tok] held(2,3) assms(2,3)
      by (auto intro!: has_token_stored)
    let ?doc = "\<lambda>cfg. stored (fmupd ''clusterConfig'' (VMap cfg) (put_token tok (fmupd ''clusterConfig'' (VMap (submap root ''clusterConfig'')) root)))"
    have kept: "token_kept b tok w2"
      if "write_doc (?doc cfg) ?w = Inr w1" "retryHostsApply e args action (enable_timer ct w1) = (r, w2)" for cfg action ct w1 w2 r
    proof -
      have "token_kept b tok w1" by (rule write_keeps(2) [OF w put that(1)])
      then show ?thesis using retry_frame [of e args action "enable_timer ct w1"] that(2) by (simp add: frames token_kept_frame [of w2 w1])
    qed
    have failed: "token_kept b tok w1" if "write_doc (?doc cfg) ?w = Inl w1" for cfg w1 by (rule write_keeps(1) [OF w put that])
    show ?thesis
      using assms(5) w
      by (auto simp: insert_config_def Let_def loadClusterJSON_Doc [OF held(1)] saveClusterJSON_def assms(4)
          split: sum.splits if_splits prod.splits dest: kept failed)
  qed
qed

lemma applyArgs_keeps_token:
  assumes "token_kept b tok w" and "tok \<noteq> []" and "trim_space tok = tok" and "aInternalToken args = tok"
    and "aAction args = ''insert''" and "applyArgs e net args w = (res, w')"
  shows "token_kept b tok w'"
proof -
  obtain reset w1 where r: "resetClusterConfig e (ensureHugePageFS w) = (reset, w1)" by (metis prod.exhaust)
  have "token_kept b tok (ensureHugePageFS w)"
    using assms(1) by (simp add: token_kept_frame [of "ensureHugePageFS w" w] frames)
  from reset_keeps_token [OF this assms(2) r] show ?thesis
    using assms(5,6) r insert_keeps_token [OF _ assms(2-4)] by (auto simp: applyArgs_def Let_def split: if_splits)
qed

section \<open>A node that serves an insert\<close>

lemma completion_keeps:
  "ensureInsertAddContext d req = Some req' \<Longrightarrow> Security req' = Security req \<and> Action req' = Action req"
  "ensureInsertAllHosts d req = Some req' \<Longrightarrow> Security req' = Security req \<and> Action req' = Action req"
  "ensureHostsFromClusterConfig d req = Some req' \<Longrightarrow> Security req' = Security req \<and> Action req' = Action req"
  "ensureTypeFromClusterConfig d req = Some req' \<Longrightarrow> Security req' = Security req \<and> Action req' = Action req"
  by (auto simp: ensureInsertAddContext_def ensureInsertAllHosts_def ensureHostsFromClusterConfig_def ensureTypeFromClusterConfig_def
      with_section_def add_context_def fill_network_def fill_type_def Let_def split: if_splits)

lemma complete_request_keeps:
  assumes "complete_request b d req0 = Inr req"
  shows "Security req = Security req0 \<and> Action req = Action req0"
proof -
  obtain req1 req2 req3 where "ensureInsertAddContext d (Normalize req0) = Some req1"
      "(if b then ensureInsertAllHosts d req1 else Some req1) = Some req2"
      "ensureHostsFromClusterConfig d req2 = Some req3" "ensureTypeFromClusterConfig d req3 = Some req"
    using assms by (auto simp: complete_request_def and_then_def or_refuse_def refused_def Let_def split: sum.splits option.splits if_splits)
  then show ?thesis using completion_keeps by (metis Normalize_keeps(2,5) option.inject)
qed

lemma completion_codes: "complete_request b d req = Inl (code, msg) \<Longrightarrow> code = 400 \<or> code = 500"
  by (auto simp: complete_request_def and_then_def or_refuse_def refused_def Let_def split: sum.splits option.splits if_splits)

lemma token_step_codes: "token_step m req nd = (Inl (code, msg), nd') \<Longrightarrow> code = 500"
  by (auto simp: token_step_def Let_def split: prod.splits sum.splits)

text \<open>A run of the orchestrator that ends in a success has gone through all its parts.\<close>

lemma apply_success:
  assumes "runClusterConfigApplyForDeploy fb self req fl = (resp, fl')" and "ca_Code resp = 200"
  obtains req1 req2 nd targets results where
    "complete_request True (node_doc (fl self)) req = Inr req1"
    "token_step (fb_machine fb self) req1 (fl self) = (Inr req2, nd)"
    "apply_targets (fb_order fb) (node_doc nd) req2 = Some targets" "targets \<noteq> []"
    "applyWithoutProbe fb self (req2\<lparr>CopyOption := ''hostOnly''\<rparr>) targets (fl(self := nd)) = (results, fl')"
    "ca_Results resp = results" "\<forall>r \<in> set results. ar_Code r = 200"
proof -
  obtain req1 where 1: "complete_request True (node_doc (fl self)) req = Inr req1"
    using assms completion_codes [of True "node_doc (fl self)" req]
    by (cases "complete_request True (node_doc (fl self)) req") (auto simp: runClusterConfigApplyForDeploy_def refusal_def)
  obtain res nd where step: "token_step (fb_machine fb self) req1 (fl self) = (res, nd)" by (metis prod.exhaust)
  obtain req2 where 2: "res = Inr req2"
    using assms 1 step token_step_codes [of "fb_machine fb self" req1 "fl self" _ _ nd]
    by (cases res) (auto simp: runClusterConfigApplyForDeploy_def refusal_def)
  obtain targets where 3: "apply_targets (fb_order fb) (node_doc nd) req2 = Some targets" "targets \<noteq> []"
    using assms 1 step 2 by (auto simp: runClusterConfigApplyForDeploy_def refusal_def Let_def split: option.splits if_splits)
  obtain results fl2 where 4: "applyWithoutProbe fb self (req2\<lparr>CopyOption := ''hostOnly''\<rparr>) targets (fl(self := nd)) = (results, fl2)"
    by (metis prod.exhaust)
  have 5: "resp = apply_response results" "fl2 = fl'"
    using assms(1) 1 step 2 3 4 by (simp_all add: runClusterConfigApplyForDeploy_def Let_def)
  then have "ca_Results resp = results" "list_all (\<lambda>r. ar_Code r = 200) results"
    using assms(2) by (auto simp: apply_response_def list_ex_iff list_all_iff split: if_splits)
  then show ?thesis using that [OF 1 step [unfolded 2] 3 4 [unfolded 5(2)]] by (simp add: list_all_iff)
qed

lemma insert_actions: "isInsertAction ''insert''" "normalizeLocalAction ''insert'' = ''insert''"
  by code_simp+

text \<open>The requests that carry a token to a node: an insert with a token that is trimmed and not empty.\<close>

definition carries :: "string \<Rightarrow> ClusterApplyRequest \<Rightarrow> bool" where
  "carries tok req \<longleftrightarrow> Action req = ''insert'' \<and> Security req = Some tok \<and> tok \<noteq> [] \<and> trim_space tok = tok"

lemma token_step_sets:
  assumes "carries tok req" and "envInternalToken (y_env (ma_system m)) = []" and "token_step m req nd = (res, nd')"
  shows "node_doc nd' = node_doc nd \<or> has_token (node_doc nd') tok" and "res = Inr req1 \<Longrightarrow> req1 = req \<and> has_token (node_doc nd') tok"
    and "w_doc_writes (no_world nd') = w_doc_writes (no_world nd)"
proof -
  obtain c t where tok: "tok = c # t" "trim_space (c # t) = c # t" "Security req = Some tok" "isInsertAction (Action req)"
    using assms(1) insert_actions by (cases tok) (auto simp: carries_def)
  obtain set_res st where set_tok: "SetInternalToken (y_env (ma_system m)) (ma_fault m) tok (node_store nd) = (set_res, st)" by (metis prod.exhaust)
  have same: "req\<lparr>Security := Some tok\<rparr> = req" using tok(3) by simp
  have step: "token_step m req nd = ((case set_res of Inl err \<Rightarrow> Inl (500, ma_token_text m err) | Inr _ \<Rightarrow> Inr req), put_store st nd)"
    using tok set_tok same by (auto simp: token_step_def ensureClusterInternalToken_def Let_def split: sum.split)
  have doc: "node_doc (put_store st nd) = s_doc st" "s_doc (node_store nd) = node_doc nd"
    by (simp_all add: node_doc_def put_store_def node_store_def)
  have "s_doc st = node_doc nd \<or> has_token (s_doc st) tok" "set_res = Inr u \<Longrightarrow> has_token (s_doc st) tok" for u
  proof -
    consider "st = node_store nd" "\<exists>err. set_res = Inl err" | root where "saveInternalToken (ma_fault m) root tok (node_store nd) = (set_res, st)"
      using set_tok assms(2) tok(1,2) by (auto simp: SetInternalToken_def split: option.splits)
    then show "s_doc st = node_doc nd \<or> has_token (s_doc st) tok" "set_res = Inr u \<Longrightarrow> has_token (s_doc st) tok"
      using saved_token [of "ma_fault m" _ tok "node_store nd" set_res st] tok(1,2) doc(2) by (cases; auto)+
  qed
  then show "node_doc nd' = node_doc nd \<or> has_token (node_doc nd') tok" "res = Inr req1 \<Longrightarrow> req1 = req \<and> has_token (node_doc nd') tok"
    using assms(3) step doc by (auto split: sum.splits)
  show "w_doc_writes (no_world nd') = w_doc_writes (no_world nd)"
    using assms(3) step by (auto simp: put_store_def)
qed

abbreviation node_kept :: "bool \<Rightarrow> string \<Rightarrow> node \<Rightarrow> bool" where
  "node_kept b tok nd \<equiv> token_kept b tok (no_world nd)"

lemma token_step_kept:
  assumes "carries tok req" and "envInternalToken (y_env (ma_system m)) = []" and "token_step m req nd = (res, nd')"
  shows "node_kept b tok nd \<Longrightarrow> node_kept b tok nd'"
    and "res = Inr req1 \<Longrightarrow> (b \<longrightarrow> unbroken (no_world nd)) \<Longrightarrow> req1 = req \<and> node_kept b tok nd'"
  using token_step_sets(1,3) [OF assms] token_step_sets(2) [OF assms, of req1] by (auto simp: token_kept_def node_doc_def)

lemma local_action_keeps:
  assumes "carries tok req" and "node_kept b tok nd" and "local_action m req nd = (reply, nd')"
  shows "node_kept b tok nd'"
proof -
  let ?req = "req\<lparr>CopyOption := ''hostOnly''\<rparr>"
  obtain res w where w: "ApplyLocal (ma_env m) (ma_net m) ''insert'' ?req (no_world nd) = (res, w)" by (metis prod.exhaust)
  have "aInternalToken (request_args ''insert'' (Normalize ?req)) = tok" "aAction (request_args ''insert'' (Normalize ?req)) = ''insert''"
    using assms(1) by (simp_all add: request_args_def carries_def)
  then have "token_kept b tok w"
    using applyArgs_keeps_token [OF assms(2) _ _ _ _ w [unfolded ApplyLocal_def]] assms(1) by (simp add: carries_def)
  then show ?thesis
    using assms(1,3) w insert_actions by (auto simp: local_action_def carries_def Let_def split: if_splits prod.splits)
qed

lemma carries_on_wire: "carries tok req \<Longrightarrow> carries tok (on_wire req)"
  by (simp add: carries_def on_wire_def)

lemma bound_apply_request: "bound_body (apply_request t req) = Some (on_wire req)"
  by (simp add: bound_body_def apply_request_def wire_roundtrip)

lemma local_keeps:
  assumes "carries tok req" and "envInternalToken (y_env (ma_system m)) = []" and "ApplyClusterConfigLocal m (Some req) nd = (reply, nd')"
  shows "node_kept b tok nd \<Longrightarrow> node_kept b tok nd'"
    and "reply_status reply < 300 \<Longrightarrow> (b \<longrightarrow> unbroken (no_world nd)) \<Longrightarrow> node_kept b tok nd'"
    and "b \<longrightarrow> unbroken (no_world nd) \<Longrightarrow> b \<longrightarrow> unbroken (no_world nd')"
proof -
  have both: "(node_kept b tok nd \<longrightarrow> node_kept b tok nd') \<and>
      ((b \<longrightarrow> unbroken (no_world nd)) \<longrightarrow> node_kept b tok nd' \<or> \<not> reply_status reply < 300 \<and> w_doc_writes (no_world nd') = w_doc_writes (no_world nd))"
  proof (cases "complete_request False (node_doc nd) req")
    case (Inl e)
    obtain code msg where e: "e = (code, msg)" by (cases e)
    have "code = 400 \<or> code = 500" using completion_codes Inl e by simp
    then show ?thesis using assms(3) Inl e by (auto simp: ApplyClusterConfigLocal_def reply_status_def)
  next
    case (Inr req1)
    have c: "carries tok req1" using complete_request_keeps [OF Inr] assms(1) by (simp add: carries_def)
    obtain res nd1 where step: "token_step m req1 nd = (res, nd1)" by (metis prod.exhaust)
    show ?thesis
    proof (cases res)
      case e: (Inl e)
      obtain code msg where ct: "e = (code, msg)" by (cases e)
      have "code = 500" using token_step_codes step e ct by blast
      then show ?thesis
        using assms(3) Inr step e ct token_step_kept(1) [OF c assms(2) step] token_step_sets(3) [OF c assms(2) step]
        by (auto simp: ApplyClusterConfigLocal_def reply_status_def)
    next
      case r: (Inr req2)
      have "local_action m req2 nd1 = (reply, nd')" using assms(3) Inr step r by (simp add: ApplyClusterConfigLocal_def)
      moreover have "req2 = req1" using token_step_sets(2) [OF c assms(2) step] r by simp
      ultimately have "node_kept b tok nd1 \<Longrightarrow> node_kept b tok nd'" using local_action_keeps [OF c] by blast
      then show ?thesis using token_step_kept [OF c assms(2) step, where b = b] r by blast
    qed
  qed
  then show "node_kept b tok nd \<Longrightarrow> node_kept b tok nd'"
    "reply_status reply < 300 \<Longrightarrow> (b \<longrightarrow> unbroken (no_world nd)) \<Longrightarrow> node_kept b tok nd'"
    "b \<longrightarrow> unbroken (no_world nd) \<Longrightarrow> b \<longrightarrow> unbroken (no_world nd')"
    by (auto simp: token_kept_def)
qed

lemma gate_codes: "Middleware y rq = Abort code \<Longrightarrow> code = 401 \<or> code = 403"
  by (auto simp: Middleware_def split: if_splits sum.splits)

lemma serve_keeps:
  assumes "carries tok req" and "envInternalToken (y_env (ma_system m)) = []" and "serve m (apply_request t req) nd = (status, nd')"
  shows "node_kept b tok nd \<Longrightarrow> node_kept b tok nd'"
    and "status < 300 \<Longrightarrow> (b \<longrightarrow> unbroken (no_world nd)) \<Longrightarrow> node_kept b tok nd'"
    and "b \<longrightarrow> unbroken (no_world nd) \<Longrightarrow> b \<longrightarrow> unbroken (no_world nd')"
  using assms(3) local_keeps [OF carries_on_wire [OF assms(1)] assms(2)] gate_codes [of "system_of m nd" "apply_request t req"]
  by (auto simp: serve_def bound_apply_request Let_def split: gate.splits prod.splits)

section \<open>The nodes of an insert share the token\<close>

lemma call_keeps:
  assumes "carries tok req" and "envInternalToken (y_env (ma_system (fb_machine fb (fb_home fb target)))) = []"
    and "callApplyLocal fb self target req fl = (err, fl')"
  shows "node_kept b tok (fl n) \<Longrightarrow> node_kept b tok (fl' n)"
    and "err = None \<Longrightarrow> (b \<longrightarrow> unbroken (no_world (fl (fb_home fb target)))) \<Longrightarrow> node_kept b tok (fl' (fb_home fb target))"
    and "b \<longrightarrow> unbroken (no_world (fl n)) \<Longrightarrow> b \<longrightarrow> unbroken (no_world (fl' n))"
proof -
  let ?home = "fb_home fb target"
  obtain status nd where s: "serve (fb_machine fb ?home) (apply_request (attached_token (fb_machine fb self) (fl self)) req) (fl ?home) = (status, nd)"
    by (metis prod.exhaust)
  note kept = serve_keeps [OF assms(1,2) s, of b]
  have cases: "err \<noteq> None \<and> fl' = fl \<or> fl' = fl(?home := nd) \<and> (err = None \<longrightarrow> status < 300)"
    using assms(3) s by (auto simp: callApplyLocal_def Let_def split: option.splits transmission.splits if_splits)
  show "node_kept b tok (fl n) \<Longrightarrow> node_kept b tok (fl' n)" using cases kept(1) by (cases "n = ?home") auto
  show "err = None \<Longrightarrow> (b \<longrightarrow> unbroken (no_world (fl ?home))) \<Longrightarrow> node_kept b tok (fl' ?home)" using cases kept(2) by auto
  show "b \<longrightarrow> unbroken (no_world (fl n)) \<Longrightarrow> b \<longrightarrow> unbroken (no_world (fl' n))" using cases kept(3) by (cases "n = ?home") auto
qed

text \<open>Whether the writes of a node may break off is a fact \<open>b n\<close> of the fleet at the start.\<close>

lemma fan_out_keeps:
  assumes "carries tok req" and "\<And>t. t \<in> set targets \<Longrightarrow> envInternalToken (y_env (ma_system (fb_machine fb (fb_home fb t)))) = []"
    and "applyWithoutProbe fb self req targets fl = (results, fl')" and "\<And>n. b n \<longrightarrow> unbroken (no_world (fl n))"
  shows "(\<forall>n. node_kept (b n) tok (fl n) \<longrightarrow> node_kept (b n) tok (fl' n))
    \<and> (\<forall>r \<in> set results. ar_Code r = 200 \<longrightarrow> node_kept (b (fb_home fb (ar_Target r))) tok (fl' (fb_home fb (ar_Target r))))
    \<and> map ar_Target results = targets"
  using assms(2,3,4)
proof (induction targets arbitrary: fl results)
  case (Cons target targets)
  obtain err fl1 where c: "callApplyLocal fb self target req fl = (err, fl1)" by (metis prod.exhaust)
  obtain more_results where rest: "applyWithoutProbe fb self req targets fl1 = (more_results, fl')"
      "results = (case err of None \<Rightarrow> \<lparr>ar_Target = target, ar_Code = 200, ar_Message = ''ok''\<rparr>
                     | Some text \<Rightarrow> \<lparr>ar_Target = target, ar_Code = 500, ar_Message = text\<rparr>) # more_results"
    using Cons.prems(2) c by (auto simp: Let_def split: prod.splits)
  have env: "envInternalToken (y_env (ma_system (fb_machine fb (fb_home fb target)))) = []" using Cons.prems(1) by simp
  note kept = call_keeps [OF assms(1) env c]
  have "b n \<longrightarrow> unbroken (no_world (fl1 n))" for n using kept(3) Cons.prems(3) by blast
  from Cons.IH [OF Cons.prems(1) rest(1) this]
  have IH: "\<forall>n. node_kept (b n) tok (fl1 n) \<longrightarrow> node_kept (b n) tok (fl' n)"
      "\<forall>r \<in> set more_results. ar_Code r = 200 \<longrightarrow> node_kept (b (fb_home fb (ar_Target r))) tok (fl' (fb_home fb (ar_Target r)))"
      "map ar_Target more_results = targets"
    by auto
  show ?case
  proof (intro conjI allI ballI impI)
    show "node_kept (b n) tok (fl' n)" if "node_kept (b n) tok (fl n)" for n using kept(1) IH(1) that by blast
    show "node_kept (b (fb_home fb (ar_Target r))) tok (fl' (fb_home fb (ar_Target r)))" if "r \<in> set results" "ar_Code r = 200" for r
      using that IH(1,2) kept(2) Cons.prems(3) rest(2) by (auto split: option.splits)
    show "map ar_Target results = target # targets" using IH(3) rest(2) by (auto split: option.splits)
  qed
qed simp

text \<open>The token that the orchestrator sends along.\<close>

lemma ensured_not_blank:
  assumes "EnsureInternalToken getenv gen fault st = (Inr (token, fresh), st')" and "\<And>g. gen = Some g \<Longrightarrow> \<not> blank g"
  shows "\<not> blank token"
  using assms
  by (auto simp: EnsureInternalToken_def split: if_splits option.splits prod.splits sum.splits)

lemma orchestrator_token:
  assumes "token_step m req nd = (Inr req1, nd1)" and "Action req = ''insert''" and "\<And>g. ma_gen m = Some g \<Longrightarrow> \<not> blank g"
  shows "\<exists>tok. carries tok req1"
proof -
  obtain st where e: "ensureClusterInternalToken (y_env (ma_system m)) (ma_gen m) (ma_fault m) req (node_store nd) = (Inr req1, st)"
    using assms(1) by (auto simp: token_step_def Let_def split: prod.splits sum.splits)
  show ?thesis
  proof (cases "\<exists>c u. map_option trim_space (Security req) = Some (c # u)")
    case True
    then obtain c u where cu: "map_option trim_space (Security req) = Some (c # u)" by blast
    then obtain z where "Security req = Some z" "trim_space z = c # u" by auto
    then have "trim_space (c # u) = c # u" by (metis trim_space_idem)
    then show ?thesis
      using e cu assms(2) insert_actions
      by (intro exI [of _ "c # u"]) (auto simp: ensureClusterInternalToken_def carries_def split: sum.splits prod.splits)
  next
    case False
    have "\<exists>token fresh. EnsureInternalToken (y_env (ma_system m)) (ma_gen m) (ma_fault m) (node_store nd) = (Inr (token, fresh), st)
        \<and> req1 = (if blank token then req else req\<lparr>Security := Some (trim_space token)\<rparr>)"
      using e False assms(2) insert_actions
      by (auto simp: ensureClusterInternalToken_def split: sum.splits prod.splits option.splits list.splits if_splits)
    then show ?thesis using ensured_not_blank [OF _ assms(3)] assms(2) by (auto simp: carries_def)
  qed
qed

section \<open>Inserts on nodes without a hosts file\<close>

lemma write_doc_hosts:
  "write_doc doc w = Inl w' \<Longrightarrow> w_hosts w' = w_hosts w" "write_doc doc w = Inr w' \<Longrightarrow> w_hosts w' = w_hosts w"
  by (auto simp: write_doc_def Let_def split: list.splits write_fate.splits)

lemma retry_without_hosts:
  "w_hosts w = None \<Longrightarrow> Code (fst (retryHostsApply e args action w)) \<noteq> 200 \<and> snd (retryHostsApply e args action w) = w"
proof -
  assume w: "w_hosts w = None"
  have "Code (fst (runHostAction e args action w)) \<noteq> 200 \<and> snd (runHostAction e args action w) = w"
    using w by (auto simp: runHostAction_def applyHosts_def changeHosts_io_def resultError_def split: option.splits)
  then have "Code (fst (retry_hosts n e args action w)) \<noteq> 200 \<and> snd (retry_hosts n e args action w) = w" for n
    by (induction n) (auto simp: Let_def split_beta)
  then show ?thesis by (simp add: retryHostsApply_def)
qed

lemma insert_without_hosts:
  assumes "w_hosts w = None" and "applyArgs e net args w = (res, w')" and "aAction args = ''insert''"
  shows "w_hosts w' = None" and "Code res \<noteq> 200"
proof -
  have reset: "w_hosts w2 = None" if "resetClusterConfig e (ensureHugePageFS w) = (r, w2)" for r w2
    using that assms(1)
    by (auto simp: resetClusterConfig_def saveClusterJSON_def frames dest!: write_doc_hosts split: option.splits sum.splits)
  have hosts: "w_hosts w3 = None \<and> Code r \<noteq> 200" if "retryHostsApply e args action w2 = (r, w3)" "w_hosts w2 = None" for action r w2 w3
    using retry_without_hosts [OF that(2), of e args action] that by simp
  have insert: "w_hosts w3 = None \<and> Code r \<noteq> 200" if "insert_config e args w2 = (r, w3)" "w_hosts w2 = None" for r w2 w3
    using that
    by (auto simp: insert_config_def saveClusterJSON_def frames Let_def resultError_def
        split: sum.splits option.splits if_splits prod.splits dest!: hosts dest: write_doc_hosts)
  show "w_hosts w' = None" "Code res \<noteq> 200"
    using assms(2,3) insert reset by (auto simp: applyArgs_def Let_def split: prod.splits if_splits)
qed

lemma action_without_hosts:
  assumes "local_action m req nd = (answer, nd')" and "Action req = ''insert''" and "w_hosts (no_world nd) = None"
  shows "w_hosts (no_world nd') = None \<and> (\<exists>result. answer = Answered result \<and> Code result \<noteq> 200)"
proof -
  let ?req = "req\<lparr>CopyOption := ''hostOnly''\<rparr>"
  obtain res w where w: "ApplyLocal (ma_env m) (ma_net m) ''insert'' ?req (no_world nd) = (res, w)" by (metis prod.exhaust)
  have "aAction (request_args ''insert'' (Normalize ?req)) = ''insert''" by (simp add: request_args_def)
  note failed = insert_without_hosts [OF assms(3) w [unfolded ApplyLocal_def] this]
  then show ?thesis using assms(1,2) w insert_actions by (auto simp: local_action_def Let_def)
qed

lemma token_step_world: "token_step m req nd = (res, nd') \<Longrightarrow> w_hosts (no_world nd') = w_hosts (no_world nd)"
  by (auto simp: token_step_def put_store_def Let_def split: prod.splits)

lemma token_step_writes: "token_step m req nd = (res, nd') \<Longrightarrow> w_doc_writes (no_world nd') = w_doc_writes (no_world nd)"
  by (auto simp: token_step_def put_store_def Let_def split: prod.splits)

lemma token_step_action: "token_step m req nd = (Inr req1, nd') \<Longrightarrow> Action req1 = Action req"
  by (auto simp: token_step_def ensureClusterInternalToken_def Let_def split: prod.splits sum.splits if_splits option.splits list.splits)

subsection \<open>The document does not depend on the hosts file\<close>

text \<open>Two worlds, and two nodes, with the same document and the same fates of its writes.\<close>

definition same_save :: "world \<Rightarrow> world \<Rightarrow> bool" where
  "same_save w v \<longleftrightarrow> w_doc w = w_doc v \<and> w_doc_writes w = w_doc_writes v"

definition same_node :: "node \<Rightarrow> node \<Rightarrow> bool" where
  "same_node nd nd0 \<longleftrightarrow> same_save (no_world nd) (no_world nd0) \<and> no_tmp nd = no_tmp nd0 \<and> no_private nd = no_private nd0"

lemma write_doc_same: "same_save w v \<Longrightarrow> rel_sum same_save same_save (write_doc doc w) (write_doc doc v)"
  by (auto simp: write_doc_def same_save_def Let_def split: list.split write_fate.split)

lemma write_doc_both:
  assumes "same_save w v"
  obtains w1 v1 where "write_doc doc w = Inl w1" "write_doc doc v = Inl v1" "same_save w1 v1"
    | w1 v1 where "write_doc doc w = Inr w1" "write_doc doc v = Inr v1" "same_save w1 v1"
  using write_doc_same [OF assms, of doc] by (auto elim: rel_sum.cases)

lemma loadClusterJSON_same: "same_save w v \<Longrightarrow> loadClusterJSON w = loadClusterJSON v"
  by (simp add: loadClusterJSON_def same_save_def)

lemma reset_same:
  assumes "same_save w v"
  shows "fst (resetClusterConfig e w) = fst (resetClusterConfig e v) \<and> same_save (snd (resetClusterConfig e w)) (snd (resetClusterConfig e v))"
proof (cases "loadClusterJSON v")
  case (Some rc)
  obtain root cfg where rc: "rc = (root, cfg)" by (cases rc)
  show ?thesis
    by (rule write_doc_both [OF assms, of "stored (fmupd ''clusterConfig'' (VMap (reset_cfg cfg)) root)"])
      (simp_all add: resetClusterConfig_def loadClusterJSON_same [OF assms] Some rc saveClusterJSON_def)
qed (simp add: resetClusterConfig_def loadClusterJSON_same [OF assms] assms)

lemma insert_same:
  assumes "same_save w v"
  shows "same_save (snd (insert_config e args w)) (snd (insert_config e args v))"
proof -
  let ?w = "applyNetworkFilter e w" and ?v = "applyNetworkFilter e v"
  have start: "same_save ?w ?v" using assms by (simp add: same_save_def frames)
  have retried: "same_save (snd (retryHostsApply e args c (enable_timer t w1))) (snd (retryHostsApply e args c (enable_timer t v1)))"
    if "same_save w1 v1" for c t w1 v1
    using that by (simp add: same_save_def retry_frame frames)
  show ?thesis
  proof (cases "loadClusterJSON ?v")
    case None
    then show ?thesis using start by (auto simp: insert_config_def loadClusterJSON_same [OF start] Let_def split: sum.split)
  next
    case (Some rc)
    obtain root cfg where rc: "rc = (root, cfg)" by (cases rc)
    have "same_save (snd (case saveClusterJSON doc ?w of Inl w' \<Rightarrow> (resultError (e_doc_err e), w')
        | Inr w' \<Rightarrow> (let (result, w'') = retryHostsApply e args (aCopyOption args) (enable_timer (aType args) w')
             in if Code result \<noteq> 200 then (result, w'') else (resultOK ''Cluster Config insert Success'', w''))))
        (snd (case saveClusterJSON doc ?v of Inl w' \<Rightarrow> (resultError (e_doc_err e), w')
        | Inr w' \<Rightarrow> (let (result, w'') = retryHostsApply e args (aCopyOption args) (enable_timer (aType args) w')
             in if Code result \<noteq> 200 then (result, w'') else (resultOK ''Cluster Config insert Success'', w''))))" for doc
      by (rule write_doc_both [OF start, of "stored doc"])
        (auto simp: saveClusterJSON_def split_beta Let_def dest: retried)
    then show ?thesis
      using start by (simp add: insert_config_def loadClusterJSON_same [OF start] Some rc Let_def split: sum.split)
  qed
qed

lemma applyArgs_same:
  assumes "same_save w v" and "aAction args = ''insert''"
  shows "same_save (snd (applyArgs e net args w)) (snd (applyArgs e net args v))"
proof -
  have "same_save (ensureHugePageFS w) (ensureHugePageFS v)" using assms(1) by (simp add: same_save_def frames)
  from reset_same [OF this, of e] show ?thesis
    using insert_same [of "snd (resetClusterConfig e (ensureHugePageFS w))" "snd (resetClusterConfig e (ensureHugePageFS v))" e args]
    by (simp add: applyArgs_def assms(2) split_beta Let_def)
qed

lemma same_node_store: "same_node nd nd0 \<Longrightarrow> node_store nd = node_store nd0"
  by (simp add: same_node_def same_save_def node_store_def)

lemma token_step_same:
  assumes "same_node nd nd0"
  shows "fst (token_step m req nd) = fst (token_step m req nd0) \<and> same_node (snd (token_step m req nd)) (snd (token_step m req nd0))"
  using assms by (simp add: token_step_def same_node_store [OF assms] split_beta Let_def) (simp add: same_node_def same_save_def put_store_def)

lemma local_action_same:
  assumes "same_node nd nd0" and "Action req = ''insert''"
  shows "same_node (snd (local_action m req nd)) (snd (local_action m req nd0))"
proof -
  let ?args = "request_args ''insert'' (Normalize (req\<lparr>CopyOption := ''hostOnly''\<rparr>))"
  have "aAction ?args = ''insert''" by (simp add: request_args_def)
  then have "same_save (snd (applyArgs (ma_env m) (ma_net m) ?args (no_world nd))) (snd (applyArgs (ma_env m) (ma_net m) ?args (no_world nd0)))"
    using applyArgs_same assms(1) by (simp add: same_node_def)
  then show ?thesis
    using assms insert_actions by (simp add: local_action_def ApplyLocal_def same_node_def split_beta Let_def)
qed

text \<open>
  A node that would have served an insert and the same node without its hosts file: the second carries out
  nothing to the end, says so in its answer, and the status of the answer is a success all the same.
\<close>

lemma local_blind:
  assumes "same_node nd nd0" and "w_hosts (no_world nd0) = None" and "Action req = ''insert''"
    and "ApplyClusterConfigLocal m (Some req) nd = (reply, nd')" and "ApplyClusterConfigLocal m (Some req) nd0 = (reply0, nd0')"
  shows "same_node nd' nd0' \<and> w_hosts (no_world nd0') = None"
    and "reply_status reply < 300 \<Longrightarrow> \<exists>result. reply0 = Answered result \<and> Code result \<noteq> 200"
proof -
  have doc: "node_doc nd = node_doc nd0" using assms(1) by (simp add: same_node_def same_save_def node_doc_def)
  have "(same_node nd' nd0' \<and> w_hosts (no_world nd0') = None)
      \<and> (reply_status reply < 300 \<longrightarrow> (\<exists>result. reply0 = Answered result \<and> Code result \<noteq> 200))"
  proof (cases "complete_request False (node_doc nd0) req")
    case (Inl e)
    obtain code msg where e: "e = (code, msg)" by (cases e)
    have "code = 400 \<or> code = 500" using completion_codes Inl e by simp
    then show ?thesis using assms Inl e doc by (auto simp: ApplyClusterConfigLocal_def reply_status_def)
  next
    case (Inr req1)
    have ins: "Action req1 = ''insert''" using complete_request_keeps [OF Inr] assms(3) by simp
    obtain res nd1 where step: "token_step m req1 nd = (res, nd1)" by (metis prod.exhaust)
    obtain nd2 where step0: "token_step m req1 nd0 = (res, nd2)" "same_node nd1 nd2"
      using token_step_same [OF assms(1), of m req1] step by (metis fst_conv snd_conv prod.exhaust)
    have bare: "w_hosts (no_world nd2) = None" using token_step_world [OF step0(1)] assms(2) by simp
    show ?thesis
    proof (cases res)
      case e: (Inl e)
      obtain code msg where ct: "e = (code, msg)" by (cases e)
      have "code = 500" using token_step_codes step e ct by blast
      then show ?thesis using assms(4,5) Inr step step0 e ct doc bare by (auto simp: ApplyClusterConfigLocal_def reply_status_def)
    next
      case r: (Inr req2)
      have ins2: "Action req2 = ''insert''" using token_step_action step r ins by metis
      have acts: "local_action m req2 nd1 = (reply, nd')" "local_action m req2 nd2 = (reply0, nd0')"
        using assms(4,5) Inr step step0 r doc by (simp_all add: ApplyClusterConfigLocal_def)
      show ?thesis
        using local_action_same [OF step0(2) ins2, of m] action_without_hosts [OF acts(2) ins2 bare] acts by auto
    qed
  qed
  then show "same_node nd' nd0' \<and> w_hosts (no_world nd0') = None"
    "reply_status reply < 300 \<Longrightarrow> \<exists>result. reply0 = Answered result \<and> Code result \<noteq> 200" by blast+
qed

section \<open>A cluster of one node\<close>

definition sample_node :: node where
  "sample_node =
     \<lparr>no_world = (sample_world (fmupd ''security'' (VMap (puts ''internal_token'' ''tok'' fmempty)) fmempty))\<lparr>w_hosts := None\<rparr>,
      no_tmp = False, no_private = False, no_chrony = None\<rparr>"

definition sample_machine :: machine where
  "sample_machine =
     \<lparr>ma_env = sample_env, ma_system = sample_system fmempty, ma_gen = Some ''tok'', ma_fault = None, ma_net = sample_net, ma_addrs = [],
      ma_chrony = \<lparr>ch_write = None, ch_chmod = None, ch_output = [], ch_timed_out = False, ch_error = None\<rparr>,
      ma_token_text = (\<lambda>err. [])\<rparr>"

definition sample_fabric :: fabric where
  "sample_fabric =
     \<lparr>fb_home = (\<lambda>target. ''cube1''), fb_machine = (\<lambda>n. sample_machine), fb_delivery = (\<lambda>target. Delivered),
      fb_order = (\<lambda>ts. ts), fb_url_error = (\<lambda>url. None)\<rparr>"

definition sample_insert :: ClusterApplyRequest where
  "sample_insert =
     empty_request\<lparr>Action := ''insert'', Option := ''local'', Type := ''ablestack-standalone'',
       CCVM := Some \<lparr>CCVM_IP = ''10.0.0.9'', CCVM_CIDR = [], CCVM_GW = [], CCVM_DNS = []\<rparr>, StorageNetwork := ''10.0.1.0''\<rparr>"

lemma plain_insert_completes:
  assumes "requireInsertFields (Normalize req) = Inr ()" and "\<not> isInsertAddAction (Action req) (Option req)"
    and "normalizeOption (Option req) \<noteq> ''all''" and "requirePCSClusterList (Normalize req) = Inr ()"
    and "\<not> isCheckAction (Action req)" and "\<not> blank (Type (Normalize req))"
  shows "complete_request b d req = Inr (Normalize req)"
  using assms
  by (simp add: complete_request_def and_then_def refused_def or_refuse_def ensureInsertAddContext_def ensureInsertAllHosts_def
      ensureHostsFromClusterConfig_def ensureTypeFromClusterConfig_def with_section_def Let_def)

lemma sample_completes: "complete_request b d sample_insert = Inr (Normalize sample_insert)"
  by (rule plain_insert_completes; code_simp)

lemma sample_sent_completes:
  "complete_request b d (on_wire ((Normalize sample_insert)\<lparr>Security := Some ''tok'', CopyOption := c\<rparr>)) =
     Inr (Normalize (on_wire ((Normalize sample_insert)\<lparr>Security := Some ''tok'', CopyOption := c\<rparr>)))"
  by (rule plain_insert_completes; code_simp)

lemma trim_tok: "trim_space ''tok'' = ''tok''"
  by code_simp

lemma sample_has_token: "has_token (node_doc sample_node) ''tok''"
  by (simp add: has_token_def node_doc_def sample_node_def sample_world_def)

lemma sample_no_env: "envInternalToken (y_env (ma_system sample_machine)) = []"
  by (simp add: sample_machine_def sample_fields no_env)

lemma sample_token: "GetInternalToken (y_env (ma_system sample_machine)) (node_store sample_node) = Inr ''tok''"
  using sample_has_token trim_tok sample_no_env by (intro has_token_get) (simp_all add: node_store_def node_doc_def)

lemma sample_token_step:
  "token_step sample_machine (Normalize sample_insert) sample_node = (Inr ((Normalize sample_insert)\<lparr>Security := Some ''tok''\<rparr>), sample_node)"
proof -
  have "internalTokenFromRoot root = ''tok''" if "loadClusterRoot (s_doc (node_store sample_node)) = Some root" for root
    using sample_token sample_no_env that by (simp add: GetInternalToken_def)
  moreover have "\<exists>root. loadClusterRoot (s_doc (node_store sample_node)) = Some root"
    by (simp add: loadClusterRoot_def node_store_def sample_node_def sample_world_def)
  ultimately have "EnsureInternalToken (y_env (ma_system sample_machine)) gen fault (node_store sample_node) = (Inr (''tok'', False), node_store sample_node)"
    for gen fault
    using sample_no_env by (auto simp: EnsureInternalToken_def)
  moreover have "put_store (node_store sample_node) sample_node = sample_node" by (simp add: put_store_def node_store_def)
  moreover have "Security sample_insert = None" "Action sample_insert = ''insert''" by (simp_all add: sample_insert_def empty_request_def)
  ultimately show ?thesis
    using insert_actions trim_tok by (simp add: token_step_def ensureClusterInternalToken_def)
qed

lemma sample_gate: "Middleware (system_of sample_machine sample_node) (apply_request (Some ''tok'') req) = Next"
proof -
  let ?rq = "apply_request (Some ''tok'') req" and ?y = "system_of sample_machine sample_node"
  obtain secret where "ExistingSigningSecret (sample_system fmempty) = Inr secret" using sample_secret by blast
  then have secret: "ExistingSigningSecret ?y = Inr secret"
    by (simp add: ExistingSigningSecret_def system_of_def sample_machine_def)
  have path: "\<not> isPublicPath (r_path ?rq)" "r_method ?rq \<noteq> ''OPTIONS''"
    by (simp_all add: apply_request_def apply_path_def isPublicPath_def has_prefix_def)
  have "hasCubeInternalHeader (r_headers ?rq)"
    by (simp add: hasCubeInternalHeader_def InternalTokenHeader_def equal_fold_def apply_request_def)
  moreover have "get_header ?rq InternalTokenHeader = ''tok''" by (simp add: get_header_def InternalTokenHeader_def apply_request_def)
  then have "ValidateInternalToken (y_env ?y) (get_header ?rq InternalTokenHeader) (y_store ?y)"
    using sample_token trim_tok by (simp add: ValidateInternalToken_def system_of_def)
  ultimately show ?thesis using require_license_iff [OF path(1), of ?y] secret path by (auto simp: Middleware_def split: sum.splits)
qed

text \<open>The node answers with the failure of its insert, and the orchestrator reports a success.\<close>

lemma sample_serve:
  assumes "carries ''tok'' req" and "complete_request False (node_doc sample_node) (on_wire req) = Inr req1"
  shows "fst (serve sample_machine (apply_request (Some ''tok'') req) sample_node) = 200"
proof -
  have sent: "carries ''tok'' (on_wire req)" by (rule carries_on_wire [OF assms(1)])
  have sec: "Security req1 = Some ''tok''" "Action req1 = ''insert''"
    using complete_request_keeps [OF assms(2)] sent by (simp_all add: carries_def)
  have root: "loadClusterRoot (s_doc (node_store sample_node)) \<noteq> None"
    by (simp add: loadClusterRoot_def node_store_def sample_node_def sample_world_def)
  have "\<exists>u st. SetInternalToken (y_env (ma_system sample_machine)) (ma_fault sample_machine) ''tok'' (node_store sample_node) = (Inr u, st)"
    using root sample_no_env trim_tok
    by (auto simp: SetInternalToken_def saveInternalToken_def saveClusterRoot_def sample_machine_def split: option.splits)
  then obtain nd where step: "token_step sample_machine req1 sample_node = (Inr (req1\<lparr>Security := Some ''tok''\<rparr>), nd)"
    using sec insert_actions trim_tok by (auto simp: token_step_def ensureClusterInternalToken_def)
  obtain reply nd' where r: "ApplyClusterConfigLocal sample_machine (Some (on_wire req)) sample_node = (reply, nd')" by (metis prod.exhaust)
  have "w_hosts (no_world nd) = None" using token_step_world [OF step] by (simp add: sample_node_def)
  moreover have "local_action sample_machine (req1\<lparr>Security := Some ''tok''\<rparr>) nd = (reply, nd')"
    using r assms(2) step by (simp add: ApplyClusterConfigLocal_def)
  ultimately have "reply_status reply = 200"
    using action_without_hosts [of sample_machine "req1\<lparr>Security := Some ''tok''\<rparr>" nd reply nd'] sec(2) by (auto simp: reply_status_def)
  then show ?thesis using sample_gate r by (simp add: serve_def bound_apply_request)
qed

lemma sample_insert_succeeds:
  "ca_Code (fst (runClusterConfigApplyForDeploy sample_fabric ''cube1'' sample_insert (\<lambda>n. sample_node))) = 200"
proof -
  let ?fl = "\<lambda>n::string. sample_node" and ?req = "(Normalize sample_insert)\<lparr>Security := Some ''tok''\<rparr>"
  let ?sent = "?req\<lparr>CopyOption := ''hostOnly''\<rparr>"
  have insert: "Action sample_insert = ''insert''" "Option sample_insert = ''local''" by (simp_all add: sample_insert_def)
  have local_option: "normalizeOption ''local'' = ''local''" by code_simp
  have not_others: "\<not> isResetAction ''insert''" "\<not> isRemoveAction ''insert''" "\<not> isCheckAction ''insert''" by code_simp+
  have targets: "apply_targets (fb_order sample_fabric) d ?req = Some [localTarget]" for d
    using insert insert_actions local_option not_others by (simp add: apply_targets_def Let_def)
  have sent: "carries ''tok'' ?sent" using trim_tok insert by (simp add: carries_def)
  have same: "fb_machine sample_fabric n = sample_machine" "fb_home sample_fabric t = ''cube1''" "fb_url_error sample_fabric url = None"
      "fb_delivery sample_fabric t = Delivered" for n t url
    by (simp_all add: sample_fabric_def)
  have attached: "attached_token sample_machine sample_node = Some ''tok''"
    using trim_tok by (simp add: attached_token_def sample_token)
  have "fst (serve sample_machine (apply_request (Some ''tok'') ?sent) sample_node) = 200"
    by (rule sample_serve [OF sent sample_sent_completes])
  then have "fst (callApplyLocal sample_fabric ''cube1'' localTarget ?sent ?fl) = None"
    by (cases "serve sample_machine (apply_request (Some ''tok'') ?sent) sample_node") (simp add: callApplyLocal_def Let_def same attached)
  then obtain fl' where "callApplyLocal sample_fabric ''cube1'' localTarget ?sent ?fl = (None, fl')" by (metis prod.collapse)
  moreover have "?fl(''cube1'' := sample_node) = ?fl" by auto
  ultimately show ?thesis
    using targets sample_token_step
    by (simp add: runClusterConfigApplyForDeploy_def sample_completes same apply_response_def Let_def)
qed

lemma sample_insert_run:
  "\<exists>resp fl'. runClusterConfigApplyForDeploy sample_fabric ''cube1'' sample_insert (\<lambda>n. sample_node) = (resp, fl') \<and> ca_Code resp = 200"
  using sample_insert_succeeds by (metis prod.collapse)

text \<open>
  C5. An insert shares the token: when the answer to an insert is a success, every node that was asked
  holds one and the same token, presents it on its own calls and accepts exactly it, whatever the nodes
  held before. The only exception is a node whose document is left blank or unreadable by a write that
  broke off; without such a write there is none, however the nodes' own actions ended. No node takes its
  token from the environment here.
\<close>

theorem apply_shares_token:
  assumes "runClusterConfigApplyForDeploy fb self req fl = (resp, fl')" and "ca_Code resp = 200" and "Action req = ''insert''"
    and "\<And>target. envInternalToken (y_env (ma_system (fb_machine fb (fb_home fb target)))) = []"
    and "\<And>g. ma_gen (fb_machine fb self) = Some g \<Longrightarrow> \<not> blank g"
  shows "ca_Results resp \<noteq> [] \<and> (\<exists>tok. \<not> blank tok \<and> (\<forall>r \<in> set (ca_Results resp).
     let home = fb_home fb (ar_Target r); m = fb_machine fb home
     in attached_token m (fl' home) = Some tok
          \<and> (\<forall>actual. ValidateInternalToken (y_env (ma_system m)) actual (node_store (fl' home)) \<longleftrightarrow> trim_space actual = tok)
        \<or> torn (node_doc (fl' home)) \<and> \<not> unbroken (no_world (fl home))))"
proof -
  obtain req1 req2 nd targets results where run:
      "complete_request True (node_doc (fl self)) req = Inr req1" "token_step (fb_machine fb self) req1 (fl self) = (Inr req2, nd)"
      "apply_targets (fb_order fb) (node_doc nd) req2 = Some targets" "targets \<noteq> []"
      "applyWithoutProbe fb self (req2\<lparr>CopyOption := ''hostOnly''\<rparr>) targets (fl(self := nd)) = (results, fl')"
      "ca_Results resp = results" "\<forall>r \<in> set results. ar_Code r = 200"
    by (rule apply_success [OF assms(1,2)])
  define b where "b n = unbroken (no_world (fl n))" for n
  have "Action req1 = ''insert''" using complete_request_keeps [OF run(1)] assms(3) by simp
  then obtain tok where tok: "carries tok req2" using orchestrator_token [OF run(2) _ assms(5)] by blast
  then have sends: "carries tok (req2\<lparr>CopyOption := ''hostOnly''\<rparr>)" by (simp add: carries_def)
  have start: "b n \<longrightarrow> unbroken (no_world ((fl(self := nd)) n))" for n
    using token_step_writes [OF run(2)] by (simp add: b_def)
  note fan = fan_out_keeps [OF sends assms(4) run(5) start]
  have holds: "node_kept (b (fb_home fb (ar_Target r))) tok (fl' (fb_home fb (ar_Target r)))" if "r \<in> set results" for r
    using fan run(7) that by blast
  have ne: "results \<noteq> []" using fan run(4) by force
  have agrees: "attached_token (fb_machine fb (fb_home fb (ar_Target r))) (fl' (fb_home fb (ar_Target r))) = Some tok
      \<and> (\<forall>actual. ValidateInternalToken (y_env (ma_system (fb_machine fb (fb_home fb (ar_Target r))))) actual
            (node_store (fl' (fb_home fb (ar_Target r)))) \<longleftrightarrow> trim_space actual = tok)
      \<or> torn (node_doc (fl' (fb_home fb (ar_Target r)))) \<and> \<not> unbroken (no_world (fl (fb_home fb (ar_Target r))))"
    if r: "r \<in> set results" for r
  proof (cases "has_token (node_doc (fl' (fb_home fb (ar_Target r)))) tok")
    case True
    have "s_doc (node_store (fl' (fb_home fb (ar_Target r)))) = node_doc (fl' (fb_home fb (ar_Target r)))"
      by (simp add: node_store_def node_doc_def)
    then have "GetInternalToken (y_env (ma_system (fb_machine fb (fb_home fb (ar_Target r))))) (node_store (fl' (fb_home fb (ar_Target r)))) = Inr tok"
      using has_token_get True assms(4) tok by (simp add: carries_def)
    then show ?thesis using tok by (auto simp: attached_token_def ValidateInternalToken_def carries_def Let_def)
  next
    case False
    with holds [OF r] show ?thesis by (auto simp: token_kept_def node_doc_def b_def)
  qed
  have filled: "\<not> blank tok" using tok by (simp add: carries_def)
  show ?thesis unfolding Let_def run(6)
    apply (rule conjI, rule ne)
    apply (rule exI [of _ tok], rule conjI, rule filled)
    apply (rule ballI, rule agrees, assumption)
    done
qed

theorem apply_shares_token_witness:
  "\<exists>resp fl' tok. runClusterConfigApplyForDeploy sample_fabric ''cube1'' sample_insert (\<lambda>n. sample_node) = (resp, fl')
     \<and> ca_Results resp \<noteq> [] \<and> \<not> blank tok
     \<and> (\<forall>r \<in> set (ca_Results resp). attached_token sample_machine (fl' ''cube1'') = Some tok)"
proof -
  obtain resp fl' where run: "runClusterConfigApplyForDeploy sample_fabric ''cube1'' sample_insert (\<lambda>n. sample_node) = (resp, fl')"
      "ca_Code resp = 200"
    using sample_insert_run by blast
  have "Action sample_insert = ''insert''" by (simp add: sample_insert_def)
  moreover have same: "fb_machine sample_fabric n = sample_machine" "fb_home sample_fabric t = ''cube1''" for n t by (simp_all add: sample_fabric_def)
  moreover have "\<not> blank g" if "ma_gen sample_machine = Some g" for g using that trim_tok by (auto simp: sample_machine_def)
  moreover have "unbroken (no_world sample_node)" by (simp add: sample_node_def sample_world_def)
  ultimately show ?thesis using apply_shares_token [OF run] run(1) sample_no_env by (auto simp: Let_def)
qed

section \<open>A success that hides failures\<close>

text \<open>What the nodes answer to the calls of a fan-out, one after the other.\<close>

fun node_answers :: "fabric \<Rightarrow> string \<Rightarrow> ClusterApplyRequest \<Rightarrow> string list \<Rightarrow> fleet \<Rightarrow> local_reply list" where
  "node_answers fb self req [] fl = []"
| "node_answers fb self req (target # targets) fl =
     fst (ApplyClusterConfigLocal (fb_machine fb (fb_home fb target))
            (bound_body (apply_request (attached_token (fb_machine fb self) (fl self)) req)) (fl (fb_home fb target)))
     # node_answers fb self req targets (snd (callApplyLocal fb self target req fl))"

definition bare :: "node \<Rightarrow> node" where
  "bare nd = nd\<lparr>no_world := (no_world nd)\<lparr>w_hosts := None\<rparr>\<rparr>"

definition failed_answer :: "local_reply \<Rightarrow> bool" where
  "failed_answer reply \<longleftrightarrow> (\<exists>result. reply = Answered result \<and> Code result \<noteq> 200)"

abbreviation same_bare :: "node \<Rightarrow> node \<Rightarrow> bool" where
  "same_bare nd nd0 \<equiv> same_node nd nd0 \<and> w_hosts (no_world nd0) = None"

lemma same_node_gate: "same_node nd nd0 \<Longrightarrow> system_of m nd = system_of m nd0" "same_node nd nd0 \<Longrightarrow> attached_token m nd = attached_token m nd0"
  by (simp_all add: system_of_def attached_token_def same_node_store)

lemma call_blind:
  assumes "Action req = ''insert''" and "\<And>n. same_bare (fl n) (fl0 n)"
    and "callApplyLocal fb self target req fl = (None, fl1)" and "callApplyLocal fb self target req fl0 = (err, fl2)"
  shows "err = None \<and> same_bare (fl1 n) (fl2 n)
    \<and> failed_answer (fst (ApplyClusterConfigLocal (fb_machine fb (fb_home fb target))
          (bound_body (apply_request (attached_token (fb_machine fb self) (fl0 self)) req)) (fl0 (fb_home fb target))))"
proof -
  let ?home = "fb_home fb target" and ?m = "fb_machine fb (fb_home fb target)"
  let ?rq = "apply_request (attached_token (fb_machine fb self) (fl0 self)) req"
  have tok: "attached_token (fb_machine fb self) (fl self) = attached_token (fb_machine fb self) (fl0 self)"
    using same_node_gate(2) assms(2) by blast
  have gate: "Middleware (system_of ?m (fl ?home)) ?rq = Middleware (system_of ?m (fl0 ?home)) ?rq"
    using same_node_gate(1) assms(2) by metis
  obtain status nd where s: "serve ?m ?rq (fl ?home) = (status, nd)" by (metis prod.exhaust)
  obtain status0 nd0 where s0: "serve ?m ?rq (fl0 ?home) = (status0, nd0)" by (metis prod.exhaust)
  have sent: "fb_url_error fb (buildTargetURL (y_env (ma_system (fb_machine fb self))) target @ apply_path) = None" "fb_delivery fb target = Delivered"
      "status < 300" "fl1 = fl(?home := nd)"
    using assms(3) s tok by (auto simp: callApplyLocal_def Let_def split: option.splits transmission.splits if_splits)
  have open_gate: "Middleware (system_of ?m (fl0 ?home)) ?rq = Next"
    using s sent(3) gate gate_codes [of "system_of ?m (fl0 ?home)" ?rq] by (auto simp: serve_def split: gate.splits)
  obtain reply reply0 where r: "ApplyClusterConfigLocal ?m (Some (on_wire req)) (fl ?home) = (reply, nd)" "reply_status reply = status"
      and r0: "ApplyClusterConfigLocal ?m (Some (on_wire req)) (fl0 ?home) = (reply0, nd0)" "reply_status reply0 = status0"
    using s s0 open_gate gate by (auto simp: serve_def bound_apply_request Let_def split: prod.splits)
  have wired: "Action (on_wire req) = ''insert''" using assms(1) by (simp add: on_wire_def)
  note blind = local_blind [OF _ _ wired r(1) r0(1)]
  have "same_bare nd nd0" "failed_answer reply0"
    using blind assms(2) [of ?home] r(2) sent(3) by (auto simp: failed_answer_def)
  moreover from this have "status0 = 200" using r0(2) by (auto simp: failed_answer_def reply_status_def)
  ultimately show ?thesis
    using assms(2,4) s0 sent r0(1) by (auto simp: callApplyLocal_def bound_apply_request Let_def)
qed

lemma fan_out_blind:
  assumes "Action req = ''insert''" and "\<And>n. same_bare (fl n) (fl0 n)"
    and "applyWithoutProbe fb self req targets fl = (results, fl')" and "\<forall>r \<in> set results. ar_Code r = 200"
  shows "fst (applyWithoutProbe fb self req targets fl0) = results
    \<and> (\<forall>n. w_hosts (no_world (snd (applyWithoutProbe fb self req targets fl0) n)) = None)
    \<and> list_all failed_answer (node_answers fb self req targets fl0) \<and> map ar_Target results = targets"
  using assms(2,3,4)
proof (induction targets arbitrary: fl fl0 results)
  case (Cons target targets)
  obtain err fl1 where c: "callApplyLocal fb self target req fl = (err, fl1)" by (metis prod.exhaust)
  obtain err0 fl2 where c0: "callApplyLocal fb self target req fl0 = (err0, fl2)" by (metis prod.exhaust)
  obtain rest where rest: "applyWithoutProbe fb self req targets fl1 = (rest, fl')"
      "results = (case err of None \<Rightarrow> \<lparr>ar_Target = target, ar_Code = 200, ar_Message = ''ok''\<rparr>
                     | Some text \<Rightarrow> \<lparr>ar_Target = target, ar_Code = 500, ar_Message = text\<rparr>) # rest"
    using Cons.prems(2) c by (auto simp: Let_def split: prod.splits)
  then have ok: "err = None" using Cons.prems(3) by (cases err) auto
  note step = call_blind [OF assms(1) Cons.prems(1) c [unfolded ok] c0]
  then have "\<And>n. same_bare (fl1 n) (fl2 n)" by blast
  from Cons.IH [OF this rest(1)] show ?case
    using Cons.prems(3) rest(2) step ok c0 by (auto simp: Let_def split_beta)
qed simp

text \<open>
  C28. The answer hides failed nodes: take an insert that the cluster answers with a success, and let no
  node have a hosts file. Then the insert fails on every node that is asked, each node says so in its answer,
  and the cluster is told the very same success, node by node: the orchestrator looks at the status of an
  answer and not at the result in it.
\<close>

theorem insert_success_without_hosts:
  assumes "runClusterConfigApplyForDeploy fb self req fl = (resp, fl')" and "ca_Code resp = 200" and "Action req = ''insert''"
  shows "fst (runClusterConfigApplyForDeploy fb self req (\<lambda>n. bare (fl n))) = resp
    \<and> (\<forall>n. w_hosts (no_world (snd (runClusterConfigApplyForDeploy fb self req (\<lambda>n. bare (fl n))) n)) = None)
    \<and> (\<exists>req1 req2 nd. complete_request True (node_doc (fl self)) req = Inr req1
        \<and> token_step (fb_machine fb self) req1 (bare (fl self)) = (Inr req2, nd)
        \<and> ca_Results resp \<noteq> []
        \<and> list_all failed_answer (node_answers fb self (req2\<lparr>CopyOption := ''hostOnly''\<rparr>)
            (map ar_Target (ca_Results resp)) ((\<lambda>n. bare (fl n))(self := nd))))"
proof -
  obtain req1 req2 nd targets results where run:
      "complete_request True (node_doc (fl self)) req = Inr req1" "token_step (fb_machine fb self) req1 (fl self) = (Inr req2, nd)"
      "apply_targets (fb_order fb) (node_doc nd) req2 = Some targets" "targets \<noteq> []"
      "applyWithoutProbe fb self (req2\<lparr>CopyOption := ''hostOnly''\<rparr>) targets (fl(self := nd)) = (results, fl')"
      "ca_Results resp = results" "\<forall>r \<in> set results. ar_Code r = 200"
    by (rule apply_success [OF assms(1,2)])
  have same: "same_bare (fl n) (bare (fl n))" for n by (simp add: same_node_def same_save_def bare_def)
  obtain nd0 where step0: "token_step (fb_machine fb self) req1 (bare (fl self)) = (Inr req2, nd0)" "same_node nd nd0"
    using token_step_same [of "fl self" "bare (fl self)" "fb_machine fb self" req1] same [of self] run(2) by (metis fst_conv snd_conv prod.exhaust)
  have "w_hosts (no_world nd0) = None" using token_step_world [OF step0(1)] same by simp
  then have start: "\<And>n. same_bare ((fl(self := nd)) n) (((\<lambda>n. bare (fl n))(self := nd0)) n)" using same step0(2) by simp
  have ins: "Action (req2\<lparr>CopyOption := ''hostOnly''\<rparr>) = ''insert''"
    using complete_request_keeps [OF run(1)] token_step_action [OF run(2)] assms(3) by simp
  note blind = fan_out_blind [OF ins start run(5,7)]
  have docs: "node_doc (bare (fl self)) = node_doc (fl self)" "node_doc nd0 = node_doc nd"
    using step0(2) by (simp_all add: node_doc_def bare_def same_node_def same_save_def)
  have "runClusterConfigApplyForDeploy fb self req (\<lambda>n. bare (fl n)) =
      (resp, snd (applyWithoutProbe fb self (req2\<lparr>CopyOption := ''hostOnly''\<rparr>) targets ((\<lambda>n. bare (fl n))(self := nd0))))"
  proof -
    have "resp = apply_response results"
      using assms(1) run by (simp add: runClusterConfigApplyForDeploy_def Let_def)
    then show ?thesis
      using run(1,3,4) step0(1) docs blind by (simp add: runClusterConfigApplyForDeploy_def Let_def split_beta fun_upd_def)
  qed
  then show ?thesis using run(1,4,6) step0(1) blind by (auto simp: fun_upd_def)
qed

theorem insert_success_without_hosts_witness:
  "\<exists>resp fl'. runClusterConfigApplyForDeploy sample_fabric ''cube1'' sample_insert (\<lambda>n. sample_node) = (resp, fl')
     \<and> fst (runClusterConfigApplyForDeploy sample_fabric ''cube1'' sample_insert (\<lambda>n. bare sample_node)) = resp
     \<and> ca_Code resp = 200 \<and> ca_Results resp \<noteq> []"
proof -
  obtain resp fl' where run: "runClusterConfigApplyForDeploy sample_fabric ''cube1'' sample_insert (\<lambda>n. sample_node) = (resp, fl')"
      "ca_Code resp = 200"
    using sample_insert_run by blast
  have "Action sample_insert = ''insert''" by (simp add: sample_insert_def)
  then show ?thesis using insert_success_without_hosts [OF run] run by auto
qed

end
