(* ===== verification/Host_Removal_Facts.thy ===== *)
theory Host_Removal_Facts
  imports Host_Removal Cluster_Token
begin

text \<open>
  The removal of a host: nothing is torn down before the cloud manager has let the host go, what is
  torn down comes in the order of the steps, the report of a job is true, and a request is accepted
  without a look at the jobs that run.
\<close>

section \<open>What a step does\<close>

text \<open>The place of an action in the order of the steps, and of a step.\<close>

fun stage :: "teardown \<Rightarrow> nat" where
  "stage (Command args) = 2"
| "stage (Script target) = 3"
| "stage (DeleteSCVM target) = 4"
| "stage (UpdateFiles req) = 5"
| "stage (UpdateMonitoring target m) = 6"

definition step_order :: "string list" where
  "step_order = [''precheck'', ''remove_mold_host'', ''remove_pcs_node'', ''remove_ceph_host'', ''delete_scvm'', ''update_cluster_files'',
                 ''update_monitoring'', ''final_verify'']"

definition rank :: "string \<Rightarrow> nat" where
  "rank step = length (takeWhile (\<lambda>name. name \<noteq> step) step_order)"

text \<open>The actions between two worlds.\<close>

definition acted :: "nat \<Rightarrow> ('c, 'w) removal_world \<Rightarrow> ('c, 'w) removal_world \<Rightarrow> bool" where
  "acted n w w' \<longleftrightarrow> (\<exists>acts. rw_done w' = rw_done w @ acts \<and> (\<forall>a \<in> set acts. stage a = n))"

lemma acted_refl [simp]: "acted n w w"
  by (simp add: acted_def)

lemma acted_trans: "acted n w w1 \<Longrightarrow> acted n w1 w2 \<Longrightarrow> acted n w w2"
  unfolding acted_def by (elim exE conjE) (auto intro!: exI)

lemma acted_act: "acted (stage what) w (snd (act what run w))" "rw_fleet (snd (act what run w)) = rw_fleet w"
  by (simp_all add: act_def acted_def split_beta Let_def)

lemma on_site_frame [simp]: "rw_done (snd (on_site f w)) = rw_done w" "rw_fleet (snd (on_site f w)) = rw_fleet w"
  by (simp_all add: on_site_def split_beta Let_def)

lemma run_command_frame:
  "acted 2 w (snd (runGFSManageCommand e command args w))" "rw_fleet (snd (runGFSManageCommand e command args w)) = rw_fleet w"
  using acted_act [where what = "Command (command # args)" and w = w and run = "re_command e (command # args)"]
  by (simp_all add: runGFSManageCommand_def split_beta Let_def)

lemma pcs_commands_frame:
  "acted 2 w (snd (pcs_commands e commands results w)) \<and> rw_fleet (snd (pcs_commands e commands results w)) = rw_fleet w"
proof (induction e commands results w rule: pcs_commands.induct)
  case (2 e args commands results w)
  obtain out err w1 where c: "runGFSManageCommand e ''pcs'' args w = ((out, err), w1)" by (metis prod.exhaust)
  then have f: "acted 2 w w1" "rw_fleet w1 = rw_fleet w" using run_command_frame [where w = w and e = e and command = "''pcs''" and args = args] by simp_all
  show ?case
  proof (cases "err \<noteq> None \<and> \<not> harmless_pcs_error out")
    case True
    then show ?thesis using f c by (simp add: Let_def)
  next
    case False
    from 2 [OF c [symmetric] refl refl refl False] show ?thesis using f c False acted_trans [OF f(1)] by (auto simp: Let_def)
  qed
qed simp

lemma pcs_frame:
  "acted 2 w (snd (removeHostPCSNode e cfg host force w)) \<and> rw_fleet (snd (removeHostPCSNode e cfg host force w)) = rw_fleet w"
proof -
  obtain results err w1 where c: "pcs_commands e [[''stonith'', ''delete'', ''fence-'' @ Hostname host],
      [''cluster'', ''node'', ''remove'', pcs_node cfg host] @ (if force then [''--force''] else [])] [] w = ((results, err), w1)"
    by (metis prod.exhaust)
  then have f: "acted 2 w w1" "rw_fleet w1 = rw_fleet w"
    using pcs_commands_frame [where e = e and w = w and results = "[]" and commands = "[[''stonith'', ''delete'', ''fence-'' @ Hostname host],
      [''cluster'', ''node'', ''remove'', pcs_node cfg host] @ (if force then [''--force''] else [])]"] by simp_all
  then show ?thesis
    using run_command_frame [where w = w1 and e = e and command = "''pcs''" and args = "[''status'']"] c acted_trans [OF f(1)]
    by (auto simp: removeHostPCSNode_def Let_def split_beta simp del: pcs_commands.simps)
qed

lemma ceph_frame:
  "acted 3 w (snd (remove_ceph_host e req cfg host w)) \<and> rw_fleet (snd (remove_ceph_host e req cfg host w)) = rw_fleet w"
proof (cases "firstRemainingClusterHost (sec_Hosts cfg) (Hostname host)")
  case (Some master)
  then show ?thesis
    using acted_act [where what = "Script (ceph_target req master host)" and w = w and run = "re_script e (ceph_target req master host)"]
    by (simp add: remove_ceph_host_def Let_def split_beta)
qed (simp add: remove_ceph_host_def)

lemma delete_frame: "acted 4 w (snd (delete_scvm e host w)) \<and> rw_fleet (snd (delete_scvm e host w)) = rw_fleet w"
  by (simp add: delete_scvm_def acted_def Let_def split_beta)

lemma files_frame: "acted 5 w (snd (update_cluster_files e cfg host w))"
  by (simp add: update_cluster_files_def acted_def Let_def split_beta)

lemma monitoring_frame: "acted 6 w (snd (update_monitoring e w)) \<and> rw_fleet (snd (update_monitoring e w)) = rw_fleet w"
proof (cases "loadClusterConfigSection (self_doc e w)")
  case (Some updated)
  let ?m = "buildCCVMMonitoringConfigRequest updated"
  show ?thesis
    using Some acted_act [where what = "UpdateMonitoring None ?m" and w = w and run = "re_monitor e ?m"]
    by (auto simp: update_monitoring_def Let_def split_beta acted_def)
qed (simp add: update_monitoring_def)

lemma mold_frame: "rw_done (snd (remove_mold_host e req host w)) = rw_done w" "rw_fleet (snd (remove_mold_host e req host w)) = rw_fleet w"
  by (simp_all add: remove_mold_host_def put_net_def Let_def split_beta)

lemma precheck_frame: "rw_done (snd (precheck e host w)) = rw_done w" "rw_fleet (snd (precheck e host w)) = rw_fleet w"
  by (simp_all add: precheck_def Let_def split_beta)

lemma verify_frame [simp]: "snd (final_verify e host w) = w"
  by (simp add: final_verify_def split: option.split)

lemma ranks:
  "rank ''remove_pcs_node'' = 2" "rank ''remove_ceph_host'' = 3" "rank ''delete_scvm'' = 4" "rank ''update_cluster_files'' = 5"
  "rank ''update_monitoring'' = 6"
  by code_simp+

lemma step_frame:
  "acted (rank step) w (snd (executeHostRemoveStep e req cfg host step w))
   \<and> (step \<noteq> ''update_cluster_files'' \<longrightarrow> rw_fleet (snd (executeHostRemoveStep e req cfg host step w)) = rw_fleet w)"
  using pcs_frame [of w e cfg host "hm_Force req"] ceph_frame [of w e req cfg host] delete_frame [of w e host] files_frame [of w e cfg host]
    monitoring_frame [of w e] mold_frame [of e req host w] precheck_frame [of e host w]
  by (simp add: executeHostRemoveStep_def ranks acted_def)

section \<open>The order of a removal\<close>

lemma run_stores_nothing_else:
  assumes "run_removal_steps e jobID req cfg host (step # steps) (st, w) = (st', w')"
  obtains out err w1 st2 where "executeHostRemoveStep e req cfg host step w = ((out, err), w1)"
    "err = None \<longrightarrow> run_removal_steps e jobID req cfg host steps (st2, w1) = (st', w')" "err \<noteq> None \<longrightarrow> w' = w1"
proof -
  obtain out err w1 where x: "executeHostRemoveStep e req cfg host step w = ((out, err), w1)" by (metis prod.exhaust)
  show ?thesis
  proof (rule that [OF x])
    show "err = None \<longrightarrow> run_removal_steps e jobID req cfg host steps
        (update_removal jobID (stepFinished (now_of w1) step out err) (update_removal jobID (stepRunning (now_of w) step) st), w1) = (st', w')"
      using assms x by (auto simp: Let_def)
    show "err \<noteq> None \<longrightarrow> w' = w1" using assms x by (auto simp: Let_def)
  qed
qed

text \<open>What a run does comes in the order of its steps.\<close>

definition acts_after :: "nat \<Rightarrow> ('c, 'w) removal_world \<Rightarrow> ('c, 'w) removal_world \<Rightarrow> bool" where
  "acts_after n w w' \<longleftrightarrow> (\<exists>acts. rw_done w' = rw_done w @ acts \<and> sorted (map stage acts) \<and> (\<forall>a \<in> set acts. n \<le> stage a))"

lemma acts_after_refl [simp]: "acts_after n w w"
  by (simp add: acts_after_def)

lemma sorted_const: "\<forall>x \<in> set xs. x = (n::nat) \<Longrightarrow> sorted xs"
  by (induction xs) auto

lemma acts_after_step:
  assumes "acted n w w1" and "acts_after n1 w1 w'" and "m \<le> n" and "n \<le> n1"
  shows "acts_after m w w'"
proof -
  obtain xs ys where xs: "rw_done w1 = rw_done w @ xs" "\<forall>a \<in> set xs. stage a = n"
      and ys: "rw_done w' = rw_done w1 @ ys" "sorted (map stage ys)" "\<forall>a \<in> set ys. n1 \<le> stage a"
    using assms(1,2) by (auto simp: acted_def acts_after_def)
  have "sorted (map stage xs)" using xs(2) by (intro sorted_const) auto
  then have "sorted (map stage (xs @ ys))" using xs(2) ys(2,3) assms(4) by (fastforce simp: sorted_append)
  moreover have "\<forall>a \<in> set (xs @ ys). m \<le> stage a" using xs(2) ys(3) assms(3,4) by fastforce
  ultimately show ?thesis using xs(1) ys(1) by (auto simp: acts_after_def)
qed

lemma run_in_order:
  assumes "run_removal_steps e jobID req cfg host steps (st, w) = (st', w')" and "sorted (map rank steps)" and "\<forall>step \<in> set steps. n \<le> rank step"
  shows "acts_after n w w'"
  using assms
proof (induction steps arbitrary: st w n)
  case (Cons step steps)
  obtain out err w1 st2 where x: "executeHostRemoveStep e req cfg host step w = ((out, err), w1)"
      "err = None \<longrightarrow> run_removal_steps e jobID req cfg host steps (st2, w1) = (st', w')" "err \<noteq> None \<longrightarrow> w' = w1"
    by (rule run_stores_nothing_else [OF Cons.prems(1)])
  have first: "acted (rank step) w w1" using step_frame [of step w e req cfg host] x(1) by simp
  have "acts_after (rank step) w1 w'"
  proof (cases err)
    case None
    with x(2) show ?thesis using Cons.IH [of st2 w1 "rank step"] Cons.prems(2) by simp
  qed (use x(3) in simp)
  then show ?case using acts_after_step [OF first] Cons.prems(3) by simp
qed simp

lemma run_fleet:
  assumes "run_removal_steps e jobID req cfg host steps (st, w) = (st', w')" and "''update_cluster_files'' \<notin> set steps"
  shows "rw_fleet w' = rw_fleet w"
  using assms
proof (induction steps arbitrary: st w)
  case (Cons step steps)
  obtain out err w1 st2 where x: "executeHostRemoveStep e req cfg host step w = ((out, err), w1)"
      "err = None \<longrightarrow> run_removal_steps e jobID req cfg host steps (st2, w1) = (st', w')" "err \<noteq> None \<longrightarrow> w' = w1"
    by (rule run_stores_nothing_else [OF Cons.prems(1)])
  have "rw_fleet w1 = rw_fleet w" using step_frame [of step w e req cfg host] x(1) Cons.prems(2) by auto
  then show ?case using x(2,3) Cons.IH Cons.prems(2) by (cases err) auto
qed simp

lemma steps_in_order: "sorted (map rank (hostRemoveStepNames clusterType))" "distinct (hostRemoveStepNames clusterType)"
proof -
  have r: "rank ''precheck'' = 0" "rank ''remove_mold_host'' = 1" "rank ''final_verify'' = 7" by code_simp+
  show "sorted (map rank (hostRemoveStepNames clusterType))" by (simp add: hostRemoveStepNames_def ranks r)
  show "distinct (hostRemoveStepNames clusterType)" by (simp add: hostRemoveStepNames_def)
qed

text \<open>
  C11. Nothing is torn down before the cloud manager has let go: a job leaves pacemaker, the storage
  cluster, the storage VM, the monitoring and every cluster document alone unless the host was healthy and
  its removal from the cloud manager succeeded; and what it does comes in the order of the steps.
\<close>

theorem removal_guarded:
  "let w' = snd (runHostRemoveJob e jobID req cfg host (st, w))
   in (\<exists>acts. rw_done w' = rw_done w @ acts \<and> sorted (map stage acts))
     \<and> (rw_done w' = rw_done w \<and> rw_fleet w' = rw_fleet w
        \<or> (\<exists>health w1 auth result k. precheck e host w = ((health, None), w1)
             \<and> RemoveHost (own_removal e w1) auth (Hostname host) (Ablecube host) (hm_Force req) (own_net w1) = (Inr result, k)))"
proof -
  obtain st' w' where run: "runHostRemoveJob e jobID req cfg host (st, w) = (st', w')" by (metis prod.exhaust)
  obtain st0 where steps: "run_removal_steps e jobID req cfg host (hostRemoveStepNames (sec_Type cfg)) (st0, w) = (st', w')"
    using run by (auto simp: runHostRemoveJob_def)
  have order: "acts_after 0 w w'" using run_in_order [OF steps steps_in_order(1)] by simp
  obtain names where names: "hostRemoveStepNames (sec_Type cfg) = ''precheck'' # ''remove_mold_host'' # names"
    by (simp add: hostRemoveStepNames_def)
  obtain health err w1 st1 where pre: "executeHostRemoveStep e req cfg host ''precheck'' w = ((health, err), w1)"
      "err = None \<longrightarrow> run_removal_steps e jobID req cfg host (''remove_mold_host'' # names) (st1, w1) = (st', w')" "err \<noteq> None \<longrightarrow> w' = w1"
    by (rule run_stores_nothing_else [OF steps [unfolded names]])
  have check: "precheck e host w = ((health, err), w1)" using pre(1) by (simp add: executeHostRemoveStep_def)
  then have same: "rw_done w1 = rw_done w" "rw_fleet w1 = rw_fleet w" using precheck_frame [of e host w] by simp_all
  have "rw_done w' = rw_done w \<and> rw_fleet w' = rw_fleet w
      \<or> err = None \<and> (\<exists>auth result k. RemoveHost (own_removal e w1) auth (Hostname host) (Ablecube host) (hm_Force req) (own_net w1) = (Inr result, k))"
  proof (cases err)
    case None
    then have "run_removal_steps e jobID req cfg host (''remove_mold_host'' # names) (st1, w1) = (st', w')" using pre(2) by simp
    then obtain out err2 w2 st2 where mold: "executeHostRemoveStep e req cfg host ''remove_mold_host'' w1 = ((out, err2), w2)"
        "err2 = None \<longrightarrow> run_removal_steps e jobID req cfg host names (st2, w2) = (st', w')" "err2 \<noteq> None \<longrightarrow> w' = w2"
      by (rule run_stores_nothing_else)
    have "remove_mold_host e req host w1 = ((out, err2), w2)" using mold(1) by (simp add: executeHostRemoveStep_def)
    then show ?thesis
      using None mold(3) same mold_frame [of e req host w1] by (auto simp: remove_mold_host_def Let_def split: prod.splits sum.splits)
  next
    case (Some er)
    then show ?thesis using pre(3) same by simp
  qed
  then show ?thesis using order check by (auto simp: run Let_def acts_after_def)
qed

section \<open>The report of a job\<close>

definition statuses :: "HostRemoveJob \<Rightarrow> (string \<times> string) list" where
  "statuses job = map (\<lambda>s. (hs_Name s, hs_Status s)) (hj_Steps job)"

definition with_status :: "string \<Rightarrow> string list \<Rightarrow> (string \<times> string) list" where
  "with_status status names = map (\<lambda>name. (name, status)) names"

text \<open>The report of a job that did the first steps and, if others are left, failed at the first of them.\<close>

definition reports :: "HostRemoveJob \<Rightarrow> string list \<Rightarrow> string list \<Rightarrow> bool" where
  "reports job finished rest \<longleftrightarrow>
     hj_CurrentStep job = [] \<and> hj_FinishedAt job \<noteq> None
     \<and> (case rest of
          [] \<Rightarrow> hj_Status job = ''succeeded'' \<and> statuses job = with_status ''succeeded'' finished
        | name # names \<Rightarrow>
            hj_Status job = ''failed''
            \<and> statuses job = with_status ''succeeded'' finished @ (name, ''failed'') # with_status ''pending'' names
            \<and> (\<exists>s \<in> set (hj_Steps job). hs_Name s = name \<and> hs_Message s = hj_Message job))"

lemma statuses_edit:
  assumes "\<And>s. hs_Name (f s) = hs_Name s \<and> hs_Status (f s) = status"
  shows "statuses (edit_named name f job) = map (\<lambda>(n, s). if n = name then (n, status) else (n, s)) (statuses job)"
  using assms by (simp add: statuses_def edit_named_def)

lemma edit_with_status [simp]:
  "name \<notin> set names \<Longrightarrow> map (\<lambda>(n, s). if n = name then (n, status) else (n, s)) (with_status s0 names) = with_status s0 names"
  by (auto simp: with_status_def)

lemma with_status_simps [simp]:
  "with_status s [] = []" "with_status s (n # ns) = (n, s) # with_status s ns" "with_status s (ms @ ns) = with_status s ms @ with_status s ns"
  by (simp_all add: with_status_def)

lemma removal_at_update [simp]:
  "fmlookup (rj_jobs (update_removal jobID f st)) jobID = Some (f (removal_at jobID st))"
  "removal_at jobID (update_removal jobID f st) = f (removal_at jobID st)"
  by (simp_all add: update_removal_def removal_at_def)

lemma statuses_running:
  "statuses (stepRunning now name job) = map (\<lambda>(n, s). if n = name then (n, ''running'') else (n, s)) (statuses job)"
  unfolding stepRunning_def by (subst statuses_edit [where status = "''running''"]) (simp_all add: statuses_def)

lemma statuses_finished:
  "statuses (stepFinished now name out err job) =
     map (\<lambda>(n, s). if n = name then (n, if err = None then ''succeeded'' else ''failed'') else (n, s)) (statuses job)"
  unfolding stepFinished_def by (rule statuses_edit) (simp add: finished_step_def)

lemma finished_message:
  assumes "s \<in> set (hj_Steps (stepFinished now name out (Some er) job))" and "hs_Name s = name"
  shows "hs_Message s = er"
proof -
  have "s \<in> finished_step now out (Some er) ` (set (hj_Steps job) \<inter> {st. hs_Name st = name}) \<or> s \<in> set (hj_Steps job) \<and> hs_Name s \<noteq> name"
    using assms(1) by (simp add: stepFinished_def edit_named_def)
  then have "s \<in> finished_step now out (Some er) ` (set (hj_Steps job) \<inter> {st. hs_Name st = name})" using assms(2) by simp
  then obtain s0 where "s = finished_step now out (Some er) s0" by (rule imageE)
  then show ?thesis by (simp add: finished_step_def)
qed

lemma failed_reports:
  assumes "statuses job = with_status ''succeeded'' finished @ (name, ''failed'') # with_status ''pending'' names"
    and "\<And>s. s \<in> set (hj_Steps job) \<Longrightarrow> hs_Name s = name \<Longrightarrow> hs_Message s = er"
  shows "reports (finish_removal now False er job) finished (name # names)"
proof -
  have "name \<in> set (map fst (statuses job))" using assms(1) by simp
  then obtain s where s: "s \<in> set (hj_Steps job)" "hs_Name s = name" by (auto simp: statuses_def)
  let ?job = "finish_removal now False er job"
  have "hj_Steps ?job = hj_Steps job" "hj_Message ?job = er" "statuses ?job = statuses job" by (simp_all add: finish_removal_def statuses_def)
  moreover from this(1,2) have "\<exists>s \<in> set (hj_Steps ?job). hs_Name s = name \<and> hs_Message s = hj_Message ?job"
    using s assms(2) [OF s] by (intro bexI [of _ s]) simp_all
  moreover have "hj_CurrentStep ?job = []" "hj_FinishedAt ?job \<noteq> None" "hj_Status ?job = ''failed''" by (simp_all add: finish_removal_def)
  ultimately show ?thesis using assms(1) by (simp add: reports_def)
qed

lemma run_reports:
  assumes "run_removal_steps e jobID req cfg host steps (st, w) = (st', w')" and "distinct (before @ steps)"
    and "statuses (removal_at jobID st) = with_status ''succeeded'' before @ with_status ''pending'' steps"
  shows "\<exists>job finished rest. fmlookup (rj_jobs st') jobID = Some job \<and> before @ steps = finished @ rest \<and> reports job finished rest
     \<and> (rest = [] \<longrightarrow> (if steps = [] then w' = w
           else (\<exists>w0 out. executeHostRemoveStep e req cfg host (last steps) w0 = ((out, None), w'))))"
  using assms
proof (induction steps arbitrary: before st w)
  case Nil
  let ?job = "finish_removal (now_of w) True ''host removal succeeded'' (removal_at jobID st)"
  have "fmlookup (rj_jobs st') jobID = Some ?job" "w' = w" using Nil.prems(1) by auto
  moreover have "reports ?job before []" using Nil.prems(3) by (simp add: reports_def finish_removal_def statuses_def)
  ultimately show ?case by (intro exI [of _ ?job] exI [of _ before] exI [of _ "[]"]) simp
next
  case (Cons step steps)
  obtain out err w1 where x: "executeHostRemoveStep e req cfg host step w = ((out, err), w1)" by (metis prod.exhaust)
  let ?st1 = "update_removal jobID (stepRunning (now_of w) step) st"
  let ?st2 = "update_removal jobID (stepFinished (now_of w1) step out err) ?st1"
  have fresh: "step \<notin> set before" "step \<notin> set steps" using Cons.prems(2) by simp_all
  have two: "statuses (removal_at jobID ?st2) =
      with_status ''succeeded'' before @ (step, if err = None then ''succeeded'' else ''failed'') # with_status ''pending'' steps"
    using Cons.prems(3) fresh by (simp add: statuses_finished statuses_running)
  show ?case
  proof (cases err)
    case None
    then have run: "run_removal_steps e jobID req cfg host steps (?st2, w1) = (st', w')" using Cons.prems(1) x by (simp add: Let_def)
    obtain job finished rest where IH: "fmlookup (rj_jobs st') jobID = Some job" "(before @ [step]) @ steps = finished @ rest"
        "reports job finished rest"
        "rest = [] \<longrightarrow> (if steps = [] then w' = w1 else (\<exists>w0 out. executeHostRemoveStep e req cfg host (last steps) w0 = ((out, None), w')))"
      using Cons.IH [OF run, of "before @ [step]"] Cons.prems(2) two None by auto
    then show ?thesis using x None by (intro exI [of _ job] exI [of _ finished] exI [of _ rest]) auto
  next
    case (Some er)
    let ?job = "finish_removal (now_of w1) False er (removal_at jobID ?st2)"
    have "fmlookup (rj_jobs st') jobID = Some ?job" using Cons.prems(1) x Some by (auto simp: Let_def)
    moreover have "reports ?job before (step # steps)"
      by (rule failed_reports) (use two Some finished_message in \<open>simp_all\<close>)
    ultimately show ?thesis by (intro exI [of _ ?job] exI [of _ before] exI [of _ "step # steps"]) simp
  qed
qed

lemma put_removal_stores: "jobID \<notin> set (rj_order st) \<Longrightarrow> fmlookup (rj_jobs (put_removal jobID job st)) jobID = Some job"
  by (cases "rj_order st") (auto simp: put_removal_def Let_def hostRemoveJobLimit_def)

lemma final_verify_gone:
  "final_verify e host w = ((out, None), w') \<Longrightarrow>
     \<exists>cfg. loadClusterConfigSection (self_doc e w') = Some cfg \<and> findClusterHostByName (sec_Hosts cfg) (Hostname host) = None"
  by (auto simp: final_verify_def split: option.splits if_splits)

text \<open>
  C20. The report of a removal is true: a job that was stored for its request ends as succeeded or failed,
  with the steps that succeeded first, the one that failed with the message of the job, and the rest
  pending; and a job that succeeded has left a document without the host.
\<close>

theorem removal_reported:
  "\<exists>job finished rest st' w'.
     runHostRemoveJob e jobID req cfg host
       (st\<lparr>rj_jobs := fmupd jobID (new_removal jobID now req (sec_Type cfg) (hostRemoveStepNames (sec_Type cfg))) (rj_jobs st)\<rparr>, w) = (st', w')
     \<and> fmlookup (rj_jobs st') jobID = Some job \<and> hostRemoveStepNames (sec_Type cfg) = finished @ rest \<and> reports job finished rest
     \<and> (case rest of
            [] \<Rightarrow> (\<exists>updated. loadClusterConfigSection (self_doc e w') = Some updated \<and> findClusterHostByName (sec_Hosts updated) (Hostname host) = None)
          | step # steps \<Rightarrow> True)"
proof -
  let ?names = "hostRemoveStepNames (sec_Type cfg)"
  let ?job = "new_removal jobID now req (sec_Type cfg) ?names"
  let ?st = "st\<lparr>rj_jobs := fmupd jobID ?job (rj_jobs st)\<rparr>"
  let ?start = "update_removal jobID (removal_started (now_of w)) ?st"
  obtain st' w' where steps: "run_removal_steps e jobID req cfg host ?names (?start, w) = (st', w')" by (metis prod.exhaust)
  have run: "runHostRemoveJob e jobID req cfg host (?st, w) = (st', w')" by (simp add: runHostRemoveJob_def steps)
  have "removal_at jobID ?st = ?job" by (simp add: removal_at_def)
  then have "statuses (removal_at jobID ?start) = with_status ''succeeded'' [] @ with_status ''pending'' ?names"
    by (simp add: statuses_def removal_started_def new_removal_def with_status_def pending_step_def)
  moreover have "distinct ([] @ ?names)" using steps_in_order(2) by simp
  ultimately obtain job finished rest where r: "fmlookup (rj_jobs st') jobID = Some job" "[] @ ?names = finished @ rest" "reports job finished rest"
      "rest = [] \<longrightarrow> (if ?names = [] then w' = w else (\<exists>w0 out. executeHostRemoveStep e req cfg host (last ?names) w0 = ((out, None), w')))"
    using run_reports [OF steps, of "[]"] by blast
  have "?names \<noteq> []" "last ?names = ''final_verify''" by (simp_all add: hostRemoveStepNames_def)
  then have "rest \<noteq> [] \<or> (\<exists>w0 out. final_verify e host w0 = ((out, None), w'))"
    using r(4) by (auto simp: executeHostRemoveStep_def)
  then have "case rest of
      [] \<Rightarrow> (\<exists>updated. loadClusterConfigSection (self_doc e w') = Some updated \<and> findClusterHostByName (sec_Hosts updated) (Hostname host) = None)
    | step # steps \<Rightarrow> True"
    using final_verify_gone by (cases rest) (simp_all, blast)
  then show ?thesis using run r(1) r(2) [unfolded append_Nil] r(3) by (intro exI conjI) assumption+
qed

section \<open>Requests are accepted without a look at the jobs\<close>

lemma StartHostRemove_accepts:
  "fst (StartHostRemove addrs d body jobID now s) = 202 \<longleftrightarrow>
     (\<exists>req cfg host. body = Some req \<and> \<not> blank (hm_Hostname req) \<and> loadClusterConfigSection d = Some cfg
        \<and> findClusterHostByName (sec_Hosts cfg) (trim_space (hm_Hostname req)) = Some host
        \<and> minimum_hosts (sec_Type cfg) < length (sec_Hosts cfg) \<and> \<not> isLocalTarget addrs (Ablecube host))"
  by (auto simp: StartHostRemove_def validateHostRemoval_def Let_def split: option.splits sum.splits)

lemma find_member: "findClusterHostByName hosts name = Some h \<Longrightarrow> h \<in> set hosts"
  unfolding findClusterHostByName_def by (induction hosts) (auto split: if_splits)

lemma put_keeps_new:
  assumes "i = jobID \<or> i \<notin> set (rj_order s) \<and> get_removal i s = Some job' \<or> i = last (rj_order s) \<and> rj_order s \<noteq> [] \<and> i \<notin> set (butlast (rj_order s)) \<and> get_removal i s = Some job'"
    and "jobID \<notin> set (rj_order s)"
  shows "get_removal i (put_removal jobID job s) = (if i = jobID then Some job else Some job')"
proof -
  have "i \<noteq> hd (rj_order s @ [jobID])" if long: "length (rj_order s @ [jobID]) > hostRemoveJobLimit"
  proof -
    obtain x y ys where "rj_order s = x # y # ys" using long by (cases "rj_order s"; cases "tl (rj_order s)") (auto simp: hostRemoveJobLimit_def)
    then show ?thesis using assms by (auto split: if_splits)
  qed
  then show ?thesis using assms(1) by (auto simp: put_removal_def get_removal_def Let_def)
qed

text \<open>
  C38. Removals overlap: when a cluster has exactly one host more than its type needs, two requests for
  different hosts, none of which serves the request, are both accepted, one after the other, both jobs are
  queued, each for its host, and their goroutines get the same document; together they leave fewer hosts than the
  type needs. Each request is accepted whatever jobs are running.
\<close>

theorem removals_overlap:
  assumes "loadClusterConfigSection d = Some cfg" and "length (sec_Hosts cfg) = Suc (minimum_hosts (sec_Type cfg))"
    and "findClusterHostByName (sec_Hosts cfg) (trim_space (hm_Hostname req1)) = Some h1"
    and "findClusterHostByName (sec_Hosts cfg) (trim_space (hm_Hostname req2)) = Some h2" and "h1 \<noteq> h2"
    and "\<not> blank (hm_Hostname req1)" and "\<not> blank (hm_Hostname req2)"
    and "\<not> isLocalTarget addrs (Ablecube h1)" and "\<not> isLocalTarget addrs (Ablecube h2)"
    and "distinct [id1, id2]" and "id1 \<notin> set (rj_order s)" and "id2 \<notin> set (rj_order s)"
  shows "let (code1, s1, run1) = StartHostRemove addrs d (Some req1) id1 now1 s;
             (code2, s2, run2) = StartHostRemove addrs d (Some req2) id2 now2 s1
    in code1 = 202 \<and> code2 = 202
       \<and> (\<exists>r1 r2. run1 = Some (r1, cfg, h1) \<and> run2 = Some (r2, cfg, h2))
       \<and> (\<exists>job1 job2. get_removal id1 s2 = Some job1 \<and> get_removal id2 s2 = Some job2
            \<and> hj_Hostname job1 = trim_space (hm_Hostname req1) \<and> hj_Hostname job2 = trim_space (hm_Hostname req2)
            \<and> hj_Status job1 = ''queued'' \<and> hj_Status job2 = ''queued'')
       \<and> length (filter (\<lambda>h. h \<noteq> h1 \<and> h \<noteq> h2) (sec_Hosts cfg)) < minimum_hosts (sec_Type cfg)
       \<and> (\<forall>any. fst (StartHostRemove addrs d (Some req1) id1 now1 any) = 202)"
proof -
  let ?new = "\<lambda>id now req. new_removal id now (req\<lparr>hm_Hostname := trim_space (hm_Hostname req)\<rparr>) (sec_Type cfg) (hostRemoveStepNames (sec_Type cfg))"
  let ?s1 = "put_removal id1 (?new id1 now1 req1) s"
  let ?s2 = "put_removal id2 (?new id2 now2 req2) ?s1"
  have accepts: "StartHostRemove addrs d (Some req) id now any =
      (202, put_removal id (?new id now req) any, Some (req\<lparr>hm_Hostname := trim_space (hm_Hostname req)\<rparr>, cfg, h))"
    if "findClusterHostByName (sec_Hosts cfg) (trim_space (hm_Hostname req)) = Some h" "\<not> blank (hm_Hostname req)"
      "\<not> isLocalTarget addrs (Ablecube h)" for req id now any h
    using that assms(1,2) by (simp add: StartHostRemove_def validateHostRemoval_def create_removal_def Let_def)
  have first: "get_removal id1 ?s1 = Some (?new id1 now1 req1)" using put_keeps_new [of id1 id1 s] assms(11) by simp
  have order: "rj_order ?s1 = (if length (rj_order s) < hostRemoveJobLimit then rj_order s else tl (rj_order s)) @ [id1]"
    by (cases "rj_order s") (auto simp: put_removal_def Let_def hostRemoveJobLimit_def)
  moreover have "set (tl (rj_order s)) \<subseteq> set (rj_order s)" by (cases "rj_order s") auto
  ultimately have "id1 \<notin> set (butlast (rj_order ?s1))" "last (rj_order ?s1) = id1" "rj_order ?s1 \<noteq> []" "id2 \<notin> set (rj_order ?s1)"
    using assms(10-12) by (auto split: if_splits)
  then have both: "get_removal id1 ?s2 = Some (?new id1 now1 req1)" "get_removal id2 ?s2 = Some (?new id2 now2 req2)"
    using put_keeps_new [of id1 id2 ?s1 "?new id1 now1 req1"] put_keeps_new [of id2 id2 ?s1] first assms(10) by auto
  have "h1 \<in> set (sec_Hosts cfg)" "h2 \<in> set (sec_Hosts cfg)" using find_member assms(3,4) by blast+
  then obtain xs ys where split1: "sec_Hosts cfg = xs @ h1 # ys" by (meson split_list)
  then have "h2 \<in> set (xs @ ys)" using \<open>h2 \<in> set (sec_Hosts cfg)\<close> assms(5) by simp
  then have "length (filter (\<lambda>h. h \<noteq> h1 \<and> h \<noteq> h2) (xs @ ys)) < length (xs @ ys)"
    by (rule length_filter_less) simp
  then have "length (filter (\<lambda>h. h \<noteq> h1 \<and> h \<noteq> h2) (sec_Hosts cfg)) < minimum_hosts (sec_Type cfg)"
    using assms(2) split1 by simp
  moreover have "hj_Hostname (?new id now req) = trim_space (hm_Hostname req)" "hj_Status (?new id now req) = ''queued''" for id now req
    by (simp_all add: new_removal_def)
  ultimately show ?thesis
    unfolding accepts [OF assms(3,6,8)] accepts [OF assms(4,7,9)] Let_def prod.case fst_conv using both by blast
qed

text \<open>Two hosts of a virtual machine cluster, one to spare.\<close>

definition pair_root :: gomap where
  "pair_root =
     fmupd ''clusterConfig'' (VMap (setHosts [sample_host, puts ''hostname'' ''cube2'' (puts ''ablecube'' ''10.0.0.2'' sample_host)]
       (sample_cfg ''ablestack-vm''))) fmempty"

definition removal_of :: "string \<Rightarrow> HostRemoveRequest" where
  "removal_of name = \<lparr>hm_Hostname = name, hm_Username = [], hm_Password = [], hm_Domain = [], hm_Force = False\<rparr>"

theorem removals_overlap_witness:
  "let s1 = fst (snd (StartHostRemove [] (Doc pair_root) (Some (removal_of ''cube1'')) ''a'' 1 newHostRemoveJobStore))
   in fst (StartHostRemove [] (Doc pair_root) (Some (removal_of ''cube1'')) ''a'' 1 newHostRemoveJobStore) = 202
      \<and> fst (StartHostRemove [] (Doc pair_root) (Some (removal_of ''cube2'')) ''b'' 2 s1) = 202"
proof -
  let ?view = "\<lambda>cfg. (sec_Type cfg, map Hostname (sec_Hosts cfg), map Ablecube (sec_Hosts cfg))"
  have "map_option ?view (loadClusterConfigSection (Doc pair_root)) =
      Some (''ablestack-vm'', [''cube1'', ''cube2''], [''10.0.0.1'', ''10.0.0.2''])" by code_simp
  then obtain cfg where cfg: "loadClusterConfigSection (Doc pair_root) = Some cfg" "sec_Type cfg = ''ablestack-vm''"
      "map Hostname (sec_Hosts cfg) = [''cube1'', ''cube2'']" "map Ablecube (sec_Hosts cfg) = [''10.0.0.1'', ''10.0.0.2'']" by auto
  then obtain h1 h2 where hosts: "sec_Hosts cfg = [h1, h2]" "Hostname h1 = ''cube1''" "Hostname h2 = ''cube2''"
      "Ablecube h1 = ''10.0.0.1''" "Ablecube h2 = ''10.0.0.2''" by (auto simp: map_eq_Cons_conv)
  have words: "trim_space ''cube1'' = ''cube1''" "trim_space ''cube2'' = ''cube2''" "equal_fold ''cube1'' ''cube1''" "equal_fold ''cube2'' ''cube2''"
    "\<not> equal_fold ''cube1'' ''cube2''" "\<not> isHCITarget ''ablestack-vm''" "\<not> equal_fold ''10.0.0.1'' ''localhost''" "\<not> equal_fold ''10.0.0.2'' ''localhost''"
    by code_simp+
  then have remote: "\<not> isLocalTarget [] ''10.0.0.1''" "\<not> isLocalTarget [] ''10.0.0.2''" by (simp_all add: isLocalTarget_def split: option.split)
  have spare: "length (sec_Hosts cfg) = Suc (minimum_hosts (sec_Type cfg))" using cfg(2) hosts(1) words(6) by (simp add: minimum_hosts_def)
  have found: "findClusterHostByName (sec_Hosts cfg) (trim_space (hm_Hostname (removal_of ''cube1''))) = Some h1"
    "findClusterHostByName (sec_Hosts cfg) (trim_space (hm_Hostname (removal_of ''cube2''))) = Some h2"
    unfolding findClusterHostByName_def hosts(1) using hosts(2,3) words(1-5) by (simp_all add: removal_of_def)
  have named: "\<not> blank (hm_Hostname (removal_of ''cube1''))" "\<not> blank (hm_Hostname (removal_of ''cube2''))"
    using words(1,2) by (simp_all add: removal_of_def)
  have far: "h1 \<noteq> h2" "\<not> isLocalTarget [] (Ablecube h1)" "\<not> isLocalTarget [] (Ablecube h2)" using hosts remote by auto
  have ids: "distinct [''a'', ''b'']" "''a'' \<notin> set (rj_order newHostRemoveJobStore)" "''b'' \<notin> set (rj_order newHostRemoveJobStore)"
    by (simp_all add: newHostRemoveJobStore_def)
  from removals_overlap [OF cfg(1) spare found far(1) named far(2,3) ids, of 1 2] show ?thesis
    by (simp only: Let_def split_beta)
qed

section \<open>A job that was dropped\<close>

text \<open>
  A dropped job comes back empty: when the fifty-first job is created, the oldest one can no longer
  be queried; but the next edit of its goroutine stores a job without id, host and steps under its id, which
  a query finds, a list does not show, and no later creation drops.
\<close>

theorem dropped_removal_returns:
  assumes "rj_order st = jobID # ids" and "length ids = 49" and "distinct (jobID # ids @ [k])"
  shows "let st1 = put_removal k job st; st2 = update_removal jobID f st1
     in get_removal jobID st1 = None \<and> get_removal jobID st2 = Some (f zero_job) \<and> jobID \<notin> set (rj_order st2)
        \<and> list_removals st2 = list_removals st1
        \<and> (\<forall>k2 job2. k2 \<noteq> jobID \<longrightarrow> get_removal jobID (put_removal k2 job2 st2) = Some (f zero_job))"
proof -
  let ?st1 = "put_removal k job st"
  have order: "rj_order ?st1 = ids @ [k]" and gone: "fmlookup (rj_jobs ?st1) jobID = None"
    using assms by (simp_all add: put_removal_def Let_def hostRemoveJobLimit_def)
  have other: "removal_at i (update_removal jobID f ?st1) = removal_at i ?st1" if "i \<noteq> jobID" for i
    using that by (simp add: removal_at_def update_removal_def)
  have same: "list_removals (update_removal jobID f ?st1) = list_removals ?st1"
  proof -
    have "i \<noteq> jobID" if "i \<in> set (rev (rj_order ?st1))" for i using that assms(3) order by auto
    then have "map (\<lambda>i. removal_at i (update_removal jobID f ?st1)) (rev (rj_order ?st1)) = map (\<lambda>i. removal_at i ?st1) (rev (rj_order ?st1))"
      using other by (intro map_cong refl) blast
    moreover have "rj_order (update_removal jobID f ?st1) = rj_order ?st1" by (simp add: update_removal_def)
    ultimately show ?thesis by (simp add: list_removals_def)
  qed
  obtain i older where "ids = i # older" using assms(2) by (cases ids) auto
  then show ?thesis
    using assms order gone same
    by (auto simp: Let_def get_removal_def update_removal_def removal_at_def put_removal_def [of _ _ "_\<lparr>rj_jobs := _\<rparr>"] hostRemoveJobLimit_def)
qed

definition full_store :: hostRemoveJobStore where
  "full_store = \<lparr>rj_jobs = fmempty, rj_order = map (\<lambda>n. replicate n CHR ''x'') [0..<50]\<rparr>"

theorem dropped_removal_returns_witness:
  "get_removal [] (put_removal (replicate 50 CHR ''x'') zero_job full_store) = None
   \<and> get_removal [] (update_removal [] (finish_removal 7 True ''done'') (put_removal (replicate 50 CHR ''x'') zero_job full_store))
       = Some (zero_job\<lparr>hj_FinishedAt := Some 7, hj_Message := ''done'', hj_Status := ''succeeded''\<rparr>)"
proof -
  let ?ids = "map (\<lambda>n. replicate n CHR ''x'') [1..<50]"
  have order: "rj_order full_store = [] # ?ids" by (simp add: full_store_def upt_rec [of 0])
  have inj: "inj (\<lambda>n. replicate n CHR ''x'')" by (rule injI) (metis length_replicate)
  have "distinct ([] # ?ids @ [replicate 50 CHR ''x''])"
    using inj by (auto simp: distinct_map inj_on_def simp del: upt_Suc)
  from dropped_removal_returns [OF order _ this] show ?thesis by (simp add: Let_def zero_job_def finish_removal_def)
qed

section \<open>Pacemaker\<close>

definition pcs_sequence :: "ClusterHost \<Rightarrow> string \<Rightarrow> bool \<Rightarrow> string list list" where
  "pcs_sequence host node force =
     [[''pcs'', ''stonith'', ''delete'', ''fence-'' @ Hostname host],
      [''pcs'', ''cluster'', ''node'', ''remove'', node] @ (if force then [''--force''] else []), [''pcs'', ''status'']]"

lemma run_command_done:
  "runGFSManageCommand e command args w = (ret, w') \<Longrightarrow> rw_done w' = rw_done w @ [Command (command # args)]"
  by (auto simp: runGFSManageCommand_def act_def Let_def split: prod.splits)

lemma pcs_sends:
  assumes "removeHostPCSNode e cfg host force w = (ret, w')"
  shows "\<exists>k \<in> {1, 2, 3}. rw_done w' = rw_done w @ map Command (take k (pcs_sequence host (pcs_node cfg host) force))"
proof -
  let ?second = "[''cluster'', ''node'', ''remove'', pcs_node cfg host] @ (if force then [''--force''] else [])"
  obtain out1 err1 w1 where c1: "runGFSManageCommand e ''pcs'' [''stonith'', ''delete'', ''fence-'' @ Hostname host] w = ((out1, err1), w1)"
    by (metis prod.exhaust)
  obtain out2 err2 w2 where c2: "runGFSManageCommand e ''pcs'' ?second w1 = ((out2, err2), w2)" by (metis prod.exhaust)
  obtain out3 err3 w3 where c3: "runGFSManageCommand e ''pcs'' [''status''] w2 = ((out3, err3), w3)" by (metis prod.exhaust)
  have "w' = w1 \<or> w' = w2 \<or> w' = w3"
    using assms c1 c2 c3 by (auto simp: removeHostPCSNode_def Let_def split: if_splits)
  moreover have "rw_done w1 = rw_done w @ map Command (take 1 (pcs_sequence host (pcs_node cfg host) force))"
    "rw_done w2 = rw_done w @ map Command (take 2 (pcs_sequence host (pcs_node cfg host) force))"
    "rw_done w3 = rw_done w @ map Command (take 3 (pcs_sequence host (pcs_node cfg host) force))"
    using run_command_done [OF c1] run_command_done [OF c2] run_command_done [OF c3] by (simp_all add: pcs_sequence_def)
  ultimately show ?thesis by auto
qed

lemma pcs_node_loop_absent: "name \<notin> Hostname ` set hosts \<Longrightarrow> pcs_node_loop name n i hosts node = node"
  by (induction hosts arbitrary: i) auto

lemma pcs_node_loop_at:
  "distinct (map Hostname hosts) \<Longrightarrow> j < length hosts \<Longrightarrow>
     pcs_node_loop (Hostname (hosts ! j)) n i hosts node = (if i + j < length n then n ! (i + j) else node)"
proof (induction hosts arbitrary: i j node)
  case (Cons h hosts)
  show ?case
  proof (cases j)
    case 0
    then show ?thesis using Cons.prems by (simp add: pcs_node_loop_absent)
  next
    case (Suc k)
    then have "Hostname h \<noteq> Hostname (hosts ! k)" using Cons.prems by (metis distinct.simps(2) image_eqI length_Cons list.map(2) list.set_map nth_mem Suc_less_eq)
    then show ?thesis using Cons.IH [of k "Suc i" node] Cons.prems Suc by simp
  qed
qed simp

text \<open>
  C21. Pacemaker loses the node at the place of the host: the removal sends the deletion of the fence,
  the removal of one node and the question for the status, in this order, as far as it gets; and the node is
  the entry of the node list at the place that the host has in the host list, whatever that entry is.
\<close>

theorem pcs_node_by_place:
  assumes "removeHostPCSNode e cfg host force w = (ret, w')"
    and "distinct (map Hostname (sec_Hosts cfg))" and "j < length (sec_Hosts cfg)" and "host = sec_Hosts cfg ! j" and "\<not> blank (Index host)"
  shows "\<exists>k \<in> {1, 2, 3}. rw_done w' = rw_done w @ map Command (take k (pcs_sequence host
       (let n = NormalizePCSClusterList (HostnameList (cs_PCSCluster cfg)) in if j < length n then n ! j else trim_space (Ablecube host)) force))"
proof -
  have "pcs_node cfg host = (let n = NormalizePCSClusterList (HostnameList (cs_PCSCluster cfg)) in if j < length n then n ! j else trim_space (Ablecube host))"
    using pcs_node_loop_at [OF assms(2,3)] assms(4,5) by (simp add: pcs_node_def Let_def)
  then show ?thesis using pcs_sends [OF assms(1)] by simp
qed

text \<open>Four hosts, of which the third is not in pacemaker: its removal takes the fourth out.\<close>

definition place_host :: "string \<Rightarrow> string \<Rightarrow> ClusterHost" where
  "place_host name address =
     \<lparr>Index = ''1'', Hostname = name, Ablecube = address, ScvmMngt = [], AblecubePn = [], Scvm = [], ScvmCn = []\<rparr>"

definition place_cfg :: ClusterSection where
  "place_cfg =
     \<lparr>sec_Type = ''ablestack-hci-filesystem'', sec_CCVM_IP = [],
      sec_Hosts = [place_host ''cube1'' ''10.0.0.1'', place_host ''cube2'' ''10.0.0.2'', place_host ''cube3'' ''10.0.0.3'', place_host ''cube4'' ''10.0.0.4''],
      dc_StorageNetwork = [], dc_MngtNic = \<lparr>Nic_CIDR = [], Nic_GW = [], Nic_DNS = []\<rparr>, cs_HostType = [], cs_BackupPath = [],
      cs_CCVM = \<lparr>CCVM_IP = [], CCVM_CIDR = [], CCVM_GW = [], CCVM_DNS = []\<rparr>,
      cs_PCSCluster = \<lparr>Hostname1 = [], Hostname2 = [], Hostname3 = [], Hostnames = [''10.0.0.1'', ''10.0.0.2'', ''10.0.0.4'']\<rparr>,
      cs_ExternalTimeserver = []\<rparr>"

theorem pcs_node_by_place_witness:
  "\<forall>(e :: (unit, unit) removal_env) w. \<exists>k. rw_done (snd (removeHostPCSNode e place_cfg (place_host ''cube3'' ''10.0.0.3'') False w))
     = rw_done w @ map Command (take (Suc k) (pcs_sequence (place_host ''cube3'' ''10.0.0.3'') ''10.0.0.4'' False))"
proof (intro allI)
  fix e :: "(unit, unit) removal_env" and w
  let ?host = "place_host ''cube3'' ''10.0.0.3''"
  obtain ret w' where run: "removeHostPCSNode e place_cfg ?host False w = (ret, w')" by (metis prod.exhaust)
  have n: "NormalizePCSClusterList (HostnameList (cs_PCSCluster place_cfg)) = [''10.0.0.1'', ''10.0.0.2'', ''10.0.0.4'']" by code_simp
  have "distinct (map Hostname (sec_Hosts place_cfg))" "2 < length (sec_Hosts place_cfg)" "?host = sec_Hosts place_cfg ! 2" "\<not> blank (Index ?host)"
    by (simp_all add: place_cfg_def place_host_def) code_simp
  from pcs_node_by_place [OF run this] obtain k where "k \<in> {1, 2, 3}"
      "rw_done w' = rw_done w @ map Command (take k (pcs_sequence ?host ''10.0.0.4'' False))"
    by (auto simp: n Let_def)
  then show "\<exists>k. rw_done (snd (removeHostPCSNode e place_cfg ?host False w)) = rw_done w @ map Command (take (Suc k) (pcs_sequence ?host ''10.0.0.4'' False))"
    by (cases k) (auto simp: run)
qed

end
