(* ===== verification/System_Config.thy ===== *)
theory System_Config
  imports Cluster_Token
begin

text \<open>
  The system profile of the cluster document: \<^verbatim>\<open>internal/handler/cube/system_config.go\<close> and the
  helpers it uses in \<^verbatim>\<open>common.go\<close>. A request reads or edits the profile of a node, and can be
  sent on to every host of the cluster. A document is read as a JSON object; a text that is \<^verbatim>\<open>null\<close>
  is left out. The text of a decoding error is an argument.
\<close>

section \<open>The profile of a document\<close>

definition loadClusterJSONRoot :: "doc_state \<Rightarrow> gomap option" where
  "loadClusterJSONRoot d = (case d of Doc root \<Rightarrow> Some root | _ \<Rightarrow> None)"

text \<open>The normaliser edits the root in place, and the profile is put back into it.\<close>

definition ensureSystemProfileMap :: "gomap \<Rightarrow> (gomap \<times> gomap) option" where
  "ensureSystemProfileMap root =
     (let normalized = NormalizeClusterJSON root
      in map_option (\<lambda>profile. (profile, fmupd ''systemProfile'' (VMap profile) normalized))
           (item_map (reload (mget normalized ''systemProfile''))))"

record ClusterSystemProfile =
  sp_Bootstrap :: "(string \<times> string) list"
  sp_License :: "(string \<times> string) list"
  sp_SecurityPatch :: "(string \<times> string) list"

text \<open>A struct whose fields are all strings, in their order.\<close>

fun decode_text_fields :: "string list \<Rightarrow> gomap \<Rightarrow> (string \<times> string) list option" where
  "decode_text_fields [] m = Some []"
| "decode_text_fields (k # ks) m =
     Option.bind (decode_string (mget m k)) (\<lambda>s. map_option ((#) (k, s)) (decode_text_fields ks m))"

definition decode_text_struct :: "string list \<Rightarrow> goval \<Rightarrow> (string \<times> string) list option" where
  "decode_text_struct ks v = Option.bind (item_map v) (decode_text_fields ks)"

definition bootstrap_flags :: "string list" where
  "bootstrap_flags = [''scvm'', ''ccvm'', ''wall'', ''gfs_configure'', ''local_configure'']"

definition extractSystemProfile :: "gomap \<Rightarrow> ClusterSystemProfile option" where
  "extractSystemProfile root =
     Option.bind (item_map (reload (mget (NormalizeClusterJSON root) ''systemProfile''))) (\<lambda>m.
     Option.bind (decode_text_struct bootstrap_flags (mget m ''bootstrap'')) (\<lambda>bootstrap.
     Option.bind (decode_text_struct [''status'', ''type''] (mget m ''license'')) (\<lambda>license.
     Option.bind (decode_text_struct [''status''] (mget m ''security_patch'')) (\<lambda>patch.
       Some \<lparr>sp_Bootstrap = bootstrap, sp_License = license, sp_SecurityPatch = patch\<rparr>))))"

definition extractClusterType :: "gomap \<Rightarrow> string" where
  "extractClusterType root =
     (case Option.bind (fmlookup root ''clusterConfig'') (\<lambda>raw. decode_cluster_section (reload raw)) of
        None \<Rightarrow> [] | Some cfg \<Rightarrow> sec_Type cfg)"

text \<open>The document is written in place: on an error the file may be left old, new or cut off.\<close>

definition saveClusterJSONRoot :: "gomap \<Rightarrow> world \<Rightarrow> world + world" where
  "saveClusterJSONRoot root w = write_doc (fmmap reload (NormalizeClusterJSON root)) w"

section \<open>Requests\<close>

record SystemConfigRequest =
  sy_Action :: string
  sy_Option :: string
  sy_Depth1 :: string
  sy_Depth2 :: string
  sy_Value :: string

definition normalizeSystemConfigConvenienceRequest :: "SystemConfigRequest \<Rightarrow> SystemConfigRequest" where
  "normalizeSystemConfigConvenienceRequest req =
     (if to_lower (trim_space (sy_Action req)) \<in> {''gfs-configure'', ''gfs_configure''}
      then \<lparr>sy_Action = ''update'', sy_Option = ''all'', sy_Depth1 = ''bootstrap'', sy_Depth2 = ''gfs_configure'',
             sy_Value = (if blank (sy_Value req) then ''true'' else sy_Value req)\<rparr>
      else req)"

definition normalizeSystemAction :: "string \<Rightarrow> string" where
  "normalizeSystemAction action =
     (let a = to_lower (trim_space action) in if a \<in> {''status'', ''update'', ''allupdate'', ''reset''} then a else [])"

definition normalizeSystemOption :: "string \<Rightarrow> string" where
  "normalizeSystemOption option = (if to_lower (trim_space option) = ''all'' then ''all'' else [])"

definition buildSystemStatus :: "gomap \<Rightarrow> SystemConfigRequest \<Rightarrow> goval outcome" where
  "buildSystemStatus profile req =
     (if blank (sy_Depth1 req) then Inr (VMap profile)
      else (case fmlookup profile (sy_Depth1 req) of
              None \<Rightarrow> Inl ''invalid depth1''
            | Some section \<Rightarrow>
                if blank (sy_Depth2 req) then Inr (VMap (fmupd (sy_Depth1 req) section fmempty))
                else (case as_map section of
                        None \<Rightarrow> Inl ''invalid depth1''
                      | Some m \<Rightarrow>
                          (case fmlookup m (sy_Depth2 req) of
                             None \<Rightarrow> Inl ''invalid depth2''
                           | Some val \<Rightarrow> Inr (VMap (fmupd (sy_Depth2 req) val fmempty))))))"

definition updateSystemProfileValue :: "gomap \<Rightarrow> SystemConfigRequest \<Rightarrow> gomap outcome" where
  "updateSystemProfileValue profile req =
     (if blank (sy_Depth1 req) then Inl ''depth1 required''
      else if blank (sy_Depth2 req) then Inl ''depth2 required''
      else if blank (sy_Value req) then Inl ''value required''
      else Inr (edit_map (sy_Depth1 req) (puts (sy_Depth2 req) (sy_Value req)) profile))"

definition put_flags :: "string list \<Rightarrow> string \<Rightarrow> gomap \<Rightarrow> gomap" where
  "put_flags keys value m = fold (\<lambda>k. puts k value) keys m"

definition applySystemAllUpdate :: "gomap \<Rightarrow> gomap \<Rightarrow> gomap" where
  "applySystemAllUpdate root profile =
     (let typ = to_lower (trim_space (extractClusterType root));
          own = (if typ \<in> {''ablestack-hci'', ''ablestack-hci-filesystem''} then [''scvm'']
                 else if typ = ''ablestack-vm'' then [''gfs_configure''] else [])
      in edit_map ''bootstrap'' (put_flags (own @ [''ccvm'', ''wall'']) ''true'') profile)"

definition applySystemReset :: "gomap \<Rightarrow> gomap" where
  "applySystemReset profile = edit_map ''bootstrap'' (put_flags bootstrap_flags ''false'') profile"

definition buildSystemTargetsFromRoot :: "(goval \<Rightarrow> string) \<Rightarrow> (string list \<Rightarrow> string list) \<Rightarrow> gomap \<Rightarrow> string list outcome" where
  "buildSystemTargetsFromRoot json_error order root =
     (case fmlookup (NormalizeClusterJSON root) ''clusterConfig'' of
        None \<Rightarrow> Inl ''clusterConfig not found''
      | Some rawCfg \<Rightarrow>
          (case decode_cluster_section (reload rawCfg) of
             None \<Rightarrow> Inl (json_error (reload rawCfg))
           | Some cfg \<Rightarrow> Inr (order (first_occ (filter (\<lambda>t. \<not> blank t) (map Ablecube (sec_Hosts cfg)))))))"

section \<open>One node\<close>

datatype system_reply = SysRefused nat string | SysAnswered nat goval

definition change_profile :: "string \<Rightarrow> SystemConfigRequest \<Rightarrow> gomap \<Rightarrow> gomap \<Rightarrow> gomap outcome" where
  "change_profile action req root profile =
     (if action = ''update'' then updateSystemProfileValue profile req
      else if action = ''allupdate'' then Inr (applySystemAllUpdate root profile)
      else Inr (applySystemReset profile))"

text \<open>The part on the node: the answer, or the action, the request and the root that go to the hosts.\<close>

definition local_system ::
  "SystemConfigRequest option \<Rightarrow> node \<Rightarrow> (system_reply + (string \<times> SystemConfigRequest \<times> gomap)) \<times> node" where
  "local_system body nd =
     (case body of
        None \<Rightarrow> (Inl (SysRefused 400 ''invalid request''), nd)
      | Some req0 \<Rightarrow>
          (let req = normalizeSystemConfigConvenienceRequest req0; action = normalizeSystemAction (sy_Action req);
               spread = (normalizeSystemOption (sy_Option req) = ''all'')
           in if action = [] then (Inl (SysRefused 400 ''unsupported action''), nd)
              else (case loadClusterJSONRoot (node_doc nd) of
                      None \<Rightarrow> (Inl (SysRefused 500 ''failed to read cluster.json''), nd)
                    | Some loaded \<Rightarrow>
                        (case ensureSystemProfileMap loaded of
                           None \<Rightarrow> (Inl (SysRefused 500 ''failed to read system profile''), nd)
                         | Some (profile, root) \<Rightarrow>
                             if action = ''status''
                             then (if spread then (Inr (action, req, root), nd)
                                   else (case buildSystemStatus profile req of
                                           Inl err \<Rightarrow> (Inl (SysRefused 400 err), nd)
                                         | Inr val \<Rightarrow> (Inl (SysAnswered 200 val), nd)))
                             else (case change_profile action req root profile of
                                     Inl err \<Rightarrow> (Inl (SysRefused 400 err), nd)
                                   | Inr profile1 \<Rightarrow>
                                       (let root1 = fmupd ''systemProfile'' (VMap profile1) root
                                        in case saveClusterJSONRoot root1 (no_world nd) of
                                             Inl w \<Rightarrow> (Inl (SysRefused 500 ''failed to save cluster.json''), nd\<lparr>no_world := w\<rparr>)
                                           | Inr w \<Rightarrow>
                                               (if spread then Inr (action, req, root1) else Inl (SysAnswered 200 (VStr ''ok'')),
                                                nd\<lparr>no_world := w\<rparr>)))))))"

definition GetSystemConfig :: "doc_state \<Rightarrow> nat \<times> ClusterSystemProfile option" where
  "GetSystemConfig d =
     (case Option.bind (loadClusterJSONRoot d) extractSystemProfile of None \<Rightarrow> (500, None) | Some profile \<Rightarrow> (200, Some profile))"

section \<open>The request on the wire\<close>

definition marshal_system :: "SystemConfigRequest \<Rightarrow> goval" where
  "marshal_system req =
     VRec ([(''action'', VStr (sy_Action req))] @ opt_field ''option'' (sy_Option req) @ opt_field ''depth1'' (sy_Depth1 req)
       @ opt_field ''depth2'' (sy_Depth2 req) @ opt_field ''value'' (sy_Value req))"

definition decode_system :: "goval \<Rightarrow> SystemConfigRequest option" where
  "decode_system v =
     Option.bind (item_map v) (\<lambda>m. let str = (\<lambda>key. decode_string (mget m key)) in
     Option.bind (str ''action'') (\<lambda>action. Option.bind (str ''option'') (\<lambda>option. Option.bind (str ''depth1'') (\<lambda>depth1.
     Option.bind (str ''depth2'') (\<lambda>depth2. Option.bind (str ''value'') (\<lambda>val.
       Some \<lparr>sy_Action = action, sy_Option = option, sy_Depth1 = depth1, sy_Depth2 = depth2, sy_Value = val\<rparr>))))))"

definition system_path :: string where "system_path = ''/api/v1/cube/system/config''"

definition system_http :: "string option \<Rightarrow> SystemConfigRequest \<Rightarrow> request" where
  "system_http token req =
     \<lparr>r_method = ''POST'', r_path = system_path,
      r_headers = (case token of None \<Rightarrow> [] | Some t \<Rightarrow> [(InternalTokenHeader, [t])]) @ [(''Content-Type'', [''application/json''])],
      r_body = Some (JDoc (reload (marshal_system req)))\<rparr>"

definition system_body :: "request \<Rightarrow> SystemConfigRequest option" where
  "system_body rq = (case r_body rq of Some (JDoc v) \<Rightarrow> decode_system v | _ \<Rightarrow> None)"

text \<open>
  What a client sees: the status, and the code and the value it decodes from the body. A refusal has its
  code under another name. A request that is sent on asks for no further hosts.
\<close>

definition reply_seen :: "system_reply \<Rightarrow> nat \<times> nat \<times> goval" where
  "reply_seen reply = (case reply of SysRefused code text \<Rightarrow> (code, 0, VNil) | SysAnswered code val \<Rightarrow> (code, code, reload val))"

definition serve_system :: "machine \<Rightarrow> request \<Rightarrow> node \<Rightarrow> (nat \<times> nat \<times> goval) \<times> node" where
  "serve_system m rq nd =
     (case Middleware (system_of m nd) rq of
        Abort code \<Rightarrow> ((code, code, VNil), nd)
      | Next \<Rightarrow> (case local_system (system_body rq) nd of
                   (Inl reply, nd1) \<Rightarrow> (reply_seen reply, nd1) | (Inr sent_on, nd1) \<Rightarrow> ((200, 200, VNil), nd1)))"

text \<open>A call gives an error of the client, or what it saw.\<close>

definition call_system :: "fabric \<Rightarrow> string \<Rightarrow> string \<Rightarrow> SystemConfigRequest \<Rightarrow> fleet \<Rightarrow> (nat \<times> nat \<times> goval) outcome \<times> fleet" where
  "call_system fb self target req fl =
     (let own = fb_machine fb self; url = buildTargetURL (y_env (ma_system own)) target @ system_path;
          rq = system_http (attached_token own (fl self)) req;
          home = fb_home fb target; (answer, nd) = serve_system (fb_machine fb home) rq (fl home)
      in case fb_url_error fb url of
           Some err \<Rightarrow> (Inl err, fl)
         | None \<Rightarrow>
             (case fb_delivery fb target of
                Lost err \<Rightarrow> (Inl err, fl)
              | Late err \<Rightarrow> (Inl err, fl(home := nd))
              | Delivered \<Rightarrow> (Inr answer, fl(home := nd))))"

definition callSystemConfigRemote :: "fabric \<Rightarrow> string \<Rightarrow> string \<Rightarrow> SystemConfigRequest \<Rightarrow> fleet \<Rightarrow> string option \<times> fleet" where
  "callSystemConfigRemote fb self target req fl =
     (let (answer, fl1) = call_system fb self target req fl
      in (case answer of
            Inl err \<Rightarrow> Some err
          | Inr (status, code, val) \<Rightarrow> if status \<ge> 300 then Some (''system-config failed: '' @ status_line status) else None, fl1))"

record SystemConfigTargetResult =
  st_Target :: string
  st_Code :: nat
  st_Val :: goval
  st_Message :: string

definition callSystemConfigRemoteStatus ::
  "fabric \<Rightarrow> string \<Rightarrow> string \<Rightarrow> SystemConfigRequest \<Rightarrow> fleet \<Rightarrow> SystemConfigTargetResult \<times> fleet" where
  "callSystemConfigRemoteStatus fb self target req fl =
     (let (answer, fl1) = call_system fb self target req fl
      in (case answer of
            Inl err \<Rightarrow> \<lparr>st_Target = target, st_Code = 500, st_Val = VNil, st_Message = err\<rparr>
          | Inr (status, code, val) \<Rightarrow>
              \<lparr>st_Target = target, st_Code = (if status \<ge> 300 \<and> code = 0 then status else code), st_Val = val, st_Message = []\<rparr>, fl1))"

section \<open>The whole cluster\<close>

fun applySystemConfigToTargets :: "fabric \<Rightarrow> string \<Rightarrow> SystemConfigRequest \<Rightarrow> string list \<Rightarrow> fleet \<Rightarrow> ClusterApplyResult list \<times> fleet" where
  "applySystemConfigToTargets fb self req [] fl = ([], fl)"
| "applySystemConfigToTargets fb self req (target # targets) fl =
     (let (err, fl1) = callSystemConfigRemote fb self target req fl; (results, fl2) = applySystemConfigToTargets fb self req targets fl1
      in ((case err of Some text \<Rightarrow> \<lparr>ar_Target = target, ar_Code = 500, ar_Message = text\<rparr>
                     | None \<Rightarrow> \<lparr>ar_Target = target, ar_Code = 200, ar_Message = ''ok''\<rparr>) # results, fl2))"

fun applySystemStatusToTargets ::
  "fabric \<Rightarrow> string \<Rightarrow> SystemConfigRequest \<Rightarrow> string list \<Rightarrow> fleet \<Rightarrow> SystemConfigTargetResult list \<times> fleet" where
  "applySystemStatusToTargets fb self req [] fl = ([], fl)"
| "applySystemStatusToTargets fb self req (target # targets) fl =
     (let (res, fl1) = callSystemConfigRemoteStatus fb self target req fl; (results, fl2) = applySystemStatusToTargets fb self req targets fl1
      in (res # results, fl2))"

definition marshal_apply_result :: "ClusterApplyResult \<Rightarrow> goval" where
  "marshal_apply_result r =
     VRec [(''target'', VStr (ar_Target r)), (''code'', VInt (int (ar_Code r))), (''message'', VStr (ar_Message r))]"

definition marshal_status_result :: "SystemConfigTargetResult \<Rightarrow> goval" where
  "marshal_status_result r =
     VRec ([(''target'', VStr (st_Target r)), (''code'', VInt (int (st_Code r)))]
       @ (if st_Val r = VNil then [] else [(''val'', st_Val r)]) @ opt_field ''message'' (st_Message r))"

definition spread_answer :: "string \<Rightarrow> string \<Rightarrow> bool \<Rightarrow> goval list \<Rightarrow> system_reply" where
  "spread_answer good bad hasFail results =
     SysAnswered (if hasFail then 500 else 200)
       (VMap (fmupd ''message'' (VStr (if hasFail then bad else good)) (fmupd ''results'' (VArr results) fmempty)))"

definition spread_system ::
  "(goval \<Rightarrow> string) \<Rightarrow> fabric \<Rightarrow> string \<Rightarrow> string \<Rightarrow> SystemConfigRequest \<Rightarrow> gomap \<Rightarrow> fleet \<Rightarrow> system_reply \<times> fleet" where
  "spread_system json_error fb self action req root fl =
     (case buildSystemTargetsFromRoot json_error (fb_order fb) root of
        Inl err \<Rightarrow> (SysRefused 500 err, fl)
      | Inr targets \<Rightarrow>
          if targets = [] then (SysRefused 400 ''no targets to apply'', fl)
          else if action = ''status''
          then (let (results, fl1) = applySystemStatusToTargets fb self (req\<lparr>sy_Option := []\<rparr>) targets fl
                in (spread_answer ''status'' ''status failed'' (list_ex (\<lambda>r. st_Code r \<noteq> 200) results) (map marshal_status_result results), fl1))
          else (let (results, fl1) = applySystemConfigToTargets fb self (req\<lparr>sy_Option := []\<rparr>) targets fl
                in (spread_answer ''apply success'' ''apply failed'' (list_ex (\<lambda>r. ar_Code r \<noteq> 200) results) (map marshal_apply_result results), fl1)))"

definition UpdateSystemConfig ::
  "(goval \<Rightarrow> string) \<Rightarrow> fabric \<Rightarrow> string \<Rightarrow> SystemConfigRequest option \<Rightarrow> fleet \<Rightarrow> system_reply \<times> fleet" where
  "UpdateSystemConfig json_error fb self body fl =
     (case local_system body (fl self) of
        (Inl reply, nd) \<Rightarrow> (reply, fl(self := nd))
      | (Inr (action, req, root), nd) \<Rightarrow> spread_system json_error fb self action req root (fl(self := nd)))"

end
