(* ===== verification/System_Config_Facts.thy ===== *)
theory System_Config_Facts
  imports System_Config
begin

text \<open>
  The system profile over a cluster: an update that succeeds has reached every host, for the flags of the
  bootstrap, and no action on the profile loses the internal token of a node. What an update writes
  outside the known sections is dropped by the next load.
\<close>

section \<open>The request survives the wire\<close>

lemma system_wire: "decode_system (reload (marshal_system req)) = Some req"
proof -
  let ?fs = "[(''action'', VStr (sy_Action req))] @ opt_field ''option'' (sy_Option req) @ opt_field ''depth1'' (sy_Depth1 req)
       @ opt_field ''depth2'' (sy_Depth2 req) @ opt_field ''value'' (sy_Value req)"
  have f: "decode_string (field ?fs ''action'') = Some (sy_Action req)" "decode_string (field ?fs ''option'') = Some (sy_Option req)"
      "decode_string (field ?fs ''depth1'') = Some (sy_Depth1 req)" "decode_string (field ?fs ''depth2'') = Some (sy_Depth2 req)"
      "decode_string (field ?fs ''value'') = Some (sy_Value req)"
    by (auto intro!: decode_field simp: struct_fields simp del: map_of_append split: if_splits)
  show ?thesis
    unfolding marshal_system_def decode_system_def item_map_rec Option.bind.bind_lunit mget_field Let_def f by simp
qed

lemma system_body_http: "system_body (system_http token req) = Some req"
  by (simp add: system_body_def system_http_def system_wire)

section \<open>The profile of a document that was saved\<close>

lemma normalized_cfg: "as_map (mget (NormalizeClusterJSON root) ''clusterConfig'') = None"
proof (cases "as_map (mget root ''clusterConfig'')")
  case None
  then show ?thesis by (simp add: NormalizeClusterJSON_def)
next
  case (Some cfg)
  obtain fs where "orderedClusterConfig cfg = VRec fs" using orderedClusterConfig_VRec by blast
  then have "mget (NormalizeClusterJSON root) ''clusterConfig'' = VRec fs"
    by (simp add: mget_def [of "NormalizeClusterJSON root"] fmlookup_normalized [OF Some] Let_def)
  then show ?thesis by simp
qed

lemma edited_normal:
  "NormalizeClusterJSON (fmupd ''systemProfile'' v (NormalizeClusterJSON root)) = fmupd ''systemProfile'' v (NormalizeClusterJSON root)"
  using normalized_cfg [of root] by (simp add: NormalizeClusterJSON_def [of "fmupd _ _ _"])

text \<open>A flag in a section, and in a profile.\<close>

definition flagged :: "gomap \<Rightarrow> string \<Rightarrow> string \<Rightarrow> bool" where
  "flagged profile k v \<longleftrightarrow> (\<exists>m. fmlookup profile ''bootstrap'' = Some (VMap m) \<and> fmlookup m k = Some (VStr v))"

lemma flagged_mget: "flagged profile k v \<Longrightarrow> mget (submap profile ''bootstrap'') k = VStr v"
  by (auto simp: flagged_def submap_def mget_def)

lemma flagged_adopt: "flagged (snd rp) k v \<Longrightarrow> flagged (snd (adopt_section key rp)) k v"
  by (cases rp) (auto simp: adopt_section_def flagged_def split: option.split)

lemma flagged_monitoring: "flagged (snd rp) k v \<Longrightarrow> v \<noteq> [] \<Longrightarrow> flagged (snd (adopt_monitoring rp)) k v"
  by (cases rp) (auto simp: adopt_monitoring_def flagged_def adopt_wall_def edit_map_eq submap_def mget_def split: option.split)

lemma flagged_collect:
  assumes "flagged (submap root ''systemProfile'') k v" and "v \<noteq> []"
  shows "flagged (snd (collect_profile root)) k v"
proof -
  have "flagged (snd (take_legacy_security (fmupd ''systemProfile'' (VMap (submap root ''systemProfile'')) root, submap root ''systemProfile''))) k v"
    using assms(1) by (auto simp: take_legacy_security_def flagged_def split: option.split)
  then show ?thesis
    unfolding collect_profile_def ensureMap_def Let_def prod.case
    by (intro flagged_monitoring flagged_adopt assms(2))
qed

lemma bool_texts: "normalizeBoolString (VStr ''true'') d = ''true''" "normalizeBoolString (VStr ''false'') d = ''false''"
proof -
  have "trim_space ''true'' = ''true''" "trim_space ''false'' = ''false''" "to_lower ''true'' = ''true''" "to_lower ''false'' = ''false''"
    by code_simp+
  then show "normalizeBoolString (VStr ''true'') d = ''true''" "normalizeBoolString (VStr ''false'') d = ''false''"
    by (simp_all add: normalizeBoolString_def)
qed

lemma flagged_ordered:
  assumes "flagged profile k v" and "k \<in> set bootstrap_flags" and "v \<in> {''true'', ''false''}"
  shows "\<exists>m. reload (orderedBootstrap profile) = VMap m \<and> fmlookup m k = Some (VStr v)"
proof -
  let ?pruned = "fmdrop ''pfmp'' (submap profile ''bootstrap'')"
  define b where "b = (case as_map (mget profile ''monitoring'') of None \<Rightarrow> ?pruned | Some monitoring \<Rightarrow> adopt_wall monitoring ?pruned)"
  have "k \<noteq> ''pfmp''" "v \<noteq> []" using assms(2,3) by (auto simp: bootstrap_flags_def)
  then have "mget b k = VStr v"
    using flagged_mget [OF assms(1)] by (auto simp: b_def adopt_wall_def split: option.split)
  then have v: "normalizeBoolString (mget b k) ''false'' = v" using assms(3) bool_texts by auto
  have "orderedBootstrap profile = VRec (map (\<lambda>k. (k, VStr (normalizeBoolString (mget b k) ''false''))) bootstrap_flags)"
    by (simp add: orderedBootstrap_def b_def bootstrap_flags_def Let_def)
  then show ?thesis
    using v assms(2) by (auto simp: fmlookup_fields bootstrap_flags_def)
qed

definition flag_in :: "gomap \<Rightarrow> string \<Rightarrow> string \<Rightarrow> bool" where
  "flag_in root k v \<longleftrightarrow> (\<exists>profile root'. ensureSystemProfileMap root = Some (profile, root') \<and> flagged profile k v)"

lemma flag_saved:
  assumes "flagged profile k v" and "k \<in> set bootstrap_flags" and "v \<in> {''true'', ''false''}"
  shows "flag_in (fmmap reload (fmupd ''systemProfile'' (VMap profile) root)) k v"
proof -
  let ?r = "fmmap reload (fmupd ''systemProfile'' (VMap profile) root)"
  have flag: "flagged (fmmap reload profile) k v" using assms(1) by (auto simp: flagged_def)
  have sys: "submap ?r ''systemProfile'' = fmmap reload profile" by (simp add: submap_def mget_def)
  show ?thesis
  proof (cases "as_map (mget ?r ''clusterConfig'')")
    case None
    then have "NormalizeClusterJSON ?r = ?r" by (simp add: NormalizeClusterJSON_def)
    moreover have "mget ?r ''systemProfile'' = VMap (fmmap reload profile)" by (simp add: mget_def)
    ultimately have "ensureSystemProfileMap ?r = Some (fmmap reload (fmmap reload profile), fmupd ''systemProfile'' (VMap (fmmap reload (fmmap reload profile))) ?r)"
      by (simp add: ensureSystemProfileMap_def item_map_def Let_def)
    moreover have "flagged (fmmap reload (fmmap reload profile)) k v" using flag by (auto simp: flagged_def)
    ultimately show ?thesis by (auto simp: flag_in_def)
  next
    case (Some cfg)
    let ?r1 = "fmupd ''clusterConfig'' (orderedClusterConfig cfg) ?r" and ?p = "snd (collect_profile (fmupd ''clusterConfig'' (orderedClusterConfig cfg) ?r))"
    have "submap ?r1 ''systemProfile'' = fmmap reload profile" using sys by (simp add: submap_def)
    then have "flagged ?p k v" using flagged_collect [of ?r1 k v] flag assms(3) by auto
    then obtain m where m: "reload (orderedBootstrap ?p) = VMap m" "fmlookup m k = Some (VStr v)"
      using flagged_ordered assms(2,3) by blast
    have "mget (NormalizeClusterJSON ?r) ''systemProfile'' = orderedSystemProfile ?p"
      by (simp add: mget_def [of "NormalizeClusterJSON ?r"] fmlookup_normalized [OF Some] Let_def)
    then obtain p' where p': "reload (mget (NormalizeClusterJSON ?r) ''systemProfile'') = VMap p'" "fmlookup p' ''bootstrap'' = Some (VMap m)"
      using m(1) by (simp add: orderedSystemProfile_def)
    then have "flagged p' k v" using m(2) by (simp add: flagged_def)
    then show ?thesis using p'(1) by (auto simp: flag_in_def ensureSystemProfileMap_def item_map_def Let_def)
  qed
qed

section \<open>An update on a node\<close>

definition asks_for :: "string \<Rightarrow> string \<Rightarrow> SystemConfigRequest \<Rightarrow> bool" where
  "asks_for k v req \<longleftrightarrow>
     normalizeSystemAction (sy_Action req) = ''update'' \<and> sy_Depth1 req = ''bootstrap'' \<and> sy_Depth2 req = k \<and> sy_Value req = v"

definition holds_flag :: "node \<Rightarrow> string \<Rightarrow> string \<Rightarrow> bool" where
  "holds_flag nd k v \<longleftrightarrow> (\<exists>root. node_doc nd = Doc root \<and> flag_in root k v)"

lemma update_is_plain: "normalizeSystemAction (sy_Action req) = ''update'' \<Longrightarrow> normalizeSystemConfigConvenienceRequest req = req"
  by (auto simp: normalizeSystemConfigConvenienceRequest_def normalizeSystemAction_def Let_def split: if_splits)

lemma convenience_idem: "normalizeSystemConfigConvenienceRequest (normalizeSystemConfigConvenienceRequest req) = normalizeSystemConfigConvenienceRequest req"
proof -
  have "to_lower (trim_space ''update'') = ''update''" by code_simp
  then show ?thesis by (simp add: normalizeSystemConfigConvenienceRequest_def)
qed

lemma flag_not_blank: "k \<in> set bootstrap_flags \<Longrightarrow> \<not> blank k" "\<not> blank ''bootstrap''" "v \<in> {''true'', ''false''} \<Longrightarrow> \<not> blank v"
proof -
  have "list_all (\<lambda>k. \<not> blank k) (bootstrap_flags @ [''bootstrap'', ''true'', ''false''])" by code_simp
  then show "k \<in> set bootstrap_flags \<Longrightarrow> \<not> blank k" "\<not> blank ''bootstrap''" "v \<in> {''true'', ''false''} \<Longrightarrow> \<not> blank v"
    by (auto simp: list_all_iff)
qed

lemma update_flags: "flagged (edit_map ''bootstrap'' (puts k v) profile) k v"
  by (simp add: flagged_def edit_map_eq)

lemma local_update:
  assumes "asks_for k v req" and "k \<in> set bootstrap_flags" and "v \<in> {''true'', ''false''}" and "local_system (Some req) nd = (out, nd')"
  shows "holds_flag nd' k v \<or> (\<exists>code text. out = Inl (SysRefused code text) \<and> 300 \<le> code)"
proof -
  have a: "normalizeSystemConfigConvenienceRequest req = req" "normalizeSystemAction (sy_Action req) = ''update''"
    using assms(1) update_is_plain by (simp_all add: asks_for_def)
  have change: "updateSystemProfileValue profile req = Inr (edit_map ''bootstrap'' (puts k v) profile)" for profile
    using assms(1) flag_not_blank assms(2,3) by (simp add: updateSystemProfileValue_def asks_for_def)
  show ?thesis
    using assms(4) update_flags [of k v, THEN flag_saved [OF _ assms(2,3)]]
    by (auto simp: local_system_def a change change_profile_def saveClusterJSONRoot_def ensureSystemProfileMap_def edited_normal
        holds_flag_def node_doc_def Let_def split: option.splits if_splits sum.splits dest: write_doc_saved)
qed

text \<open>What is sent on asks for no further hosts.\<close>

lemma no_option: "normalizeSystemOption [] = []"
  by code_simp

lemma sent_on_ends: "normalizeSystemOption (sy_Option (normalizeSystemConfigConvenienceRequest req)) \<noteq> ''all'' \<Longrightarrow> fst (local_system (Some req) nd) \<noteq> Inr out"
  by (auto simp: local_system_def Let_def split: option.splits sum.splits)

definition status_request :: "string \<Rightarrow> SystemConfigRequest" where
  "status_request k = \<lparr>sy_Action = ''status'', sy_Option = [], sy_Depth1 = ''bootstrap'', sy_Depth2 = k, sy_Value = []\<rparr>"

lemma flag_reported:
  assumes "holds_flag nd k v" and "k \<in> set bootstrap_flags"
  shows "local_system (Some (status_request k)) nd = (Inl (SysAnswered 200 (VMap (fmupd k (VStr v) fmempty))), nd)"
proof -
  obtain root profile root' m where r: "node_doc nd = Doc root" "ensureSystemProfileMap root = Some (profile, root')"
      "fmlookup profile ''bootstrap'' = Some (VMap m)" "fmlookup m k = Some (VStr v)"
    using assms(1) by (auto simp: holds_flag_def flag_in_def flagged_def)
  have "normalizeSystemAction ''status'' = ''status''" "normalizeSystemConfigConvenienceRequest (status_request k) = status_request k"
  proof -
    have "to_lower (trim_space ''status'') = ''status''" by code_simp
    then show "normalizeSystemAction ''status'' = ''status''" "normalizeSystemConfigConvenienceRequest (status_request k) = status_request k"
      by (simp_all add: normalizeSystemAction_def normalizeSystemConfigConvenienceRequest_def status_request_def)
  qed
  then show ?thesis
    using r flag_not_blank assms(2) no_option
    by (simp add: local_system_def loadClusterJSONRoot_def buildSystemStatus_def Let_def) (simp add: status_request_def)
qed

section \<open>An update over the cluster\<close>

lemma reply_seen_refused: "reply_seen (SysRefused code text) = (code, 0, VNil)"
  by (simp add: reply_seen_def)

lemma serve_update:
  assumes "asks_for k v req" and "k \<in> set bootstrap_flags" and "v \<in> {''true'', ''false''}"
    and "serve_system m (system_http token req) nd = ((status, code, val), nd')"
  shows "holds_flag nd' k v \<or> 300 \<le> status"
proof (cases "Middleware (system_of m nd) (system_http token req)")
  case Next
  obtain out nd1 where l: "local_system (Some req) nd = (out, nd1)" by (metis prod.exhaust)
  show ?thesis
    using assms(4) Next l local_update [OF assms(1-3) l]
    by (auto simp: serve_system_def system_body_http reply_seen_refused split: sum.splits)
next
  case (Abort c)
  then show ?thesis using assms(4) gate_codes [OF Abort] by (auto simp: serve_system_def)
qed

lemma call_update:
  assumes "asks_for k v req" and "k \<in> set bootstrap_flags" and "v \<in> {''true'', ''false''}"
    and "callSystemConfigRemote fb self target req fl = (err, fl')"
  shows "err = None \<Longrightarrow> holds_flag (fl n) k v \<Longrightarrow> holds_flag (fl' n) k v" and "err = None \<Longrightarrow> holds_flag (fl' (fb_home fb target)) k v"
proof -
  let ?home = "fb_home fb target"
  obtain status code val nd where s: "serve_system (fb_machine fb ?home)
      (system_http (attached_token (fb_machine fb self) (fl self)) req) (fl ?home) = ((status, code, val), nd)"
    by (metis prod.exhaust)
  note kept = serve_update [OF assms(1-3) s]
  show "err = None \<Longrightarrow> holds_flag (fl n) k v \<Longrightarrow> holds_flag (fl' n) k v" "err = None \<Longrightarrow> holds_flag (fl' ?home) k v"
    using assms(4) s kept
    by (auto simp: callSystemConfigRemote_def call_system_def Let_def split: option.splits transmission.splits if_splits)
qed

lemma spread_update:
  assumes "asks_for k v req" and "k \<in> set bootstrap_flags" and "v \<in> {''true'', ''false''}"
    and "applySystemConfigToTargets fb self req targets fl = (results, fl')"
    and "\<forall>r \<in> set results. ar_Code r = 200"
  shows "(\<forall>n. holds_flag (fl n) k v \<longrightarrow> holds_flag (fl' n) k v) \<and> (\<forall>t \<in> set targets. holds_flag (fl' (fb_home fb t)) k v)"
  using assms(4,5)
proof (induction targets arbitrary: fl results)
  case (Cons target targets)
  obtain err fl1 where c: "callSystemConfigRemote fb self target req fl = (err, fl1)" by (metis prod.exhaust)
  obtain others where rest: "applySystemConfigToTargets fb self req targets fl1 = (others, fl')"
      "results = (case err of Some text \<Rightarrow> \<lparr>ar_Target = target, ar_Code = 500, ar_Message = text\<rparr>
                     | None \<Rightarrow> \<lparr>ar_Target = target, ar_Code = 200, ar_Message = ''ok''\<rparr>) # others"
    using Cons.prems(1) c by (auto simp: Let_def split: prod.splits)
  have ok: "err = None" "\<forall>r \<in> set others. ar_Code r = 200" using Cons.prems(2) rest(2) by (auto split: option.splits)
  show ?case using Cons.IH [OF rest(1) ok(2)] call_update [OF assms(1-3) c] ok(1) by auto
qed simp

text \<open>What the part on the node hands over.\<close>

lemma local_hands_over:
  assumes "local_system (Some req) nd = (Inr (action, r, root), nd')"
  shows "r = normalizeSystemConfigConvenienceRequest req \<and> action = normalizeSystemAction (sy_Action r)
    \<and> (\<exists>loaded p. node_doc nd = Doc loaded \<and> root = fmupd ''systemProfile'' (VMap p) (NormalizeClusterJSON loaded))"
  using assms
  by (auto simp: local_system_def loadClusterJSONRoot_def ensureSystemProfileMap_def Let_def
      split: option.splits sum.splits if_splits doc_state.splits)

lemma system_targets:
  assumes "buildSystemTargetsFromRoot json_error order (fmupd ''systemProfile'' v (NormalizeClusterJSON loaded)) = Inr targets"
    and "\<And>ts. set (order ts) = set ts"
  shows "\<exists>cfg. loadClusterConfigSection (Doc loaded) = Some cfg \<and> set targets = {t \<in> Ablecube ` set (sec_Hosts cfg). \<not> blank t}"
  using assms
  by (auto simp: buildSystemTargetsFromRoot_def edited_normal loadClusterConfigSection_def split: option.splits)

text \<open>
  C22. An update that succeeds has reached every host: when the answer to an update of a flag of the
  bootstrap over the cluster is a success, the cluster document named a host, and every host that it names
  an address for answers a question for the flag with the value, like the node that was asked, whatever
  the documents held before.
\<close>

theorem update_reaches_hosts:
  assumes "UpdateSystemConfig json_error fb self (Some req) fl = (SysAnswered 200 val, fl')"
    and "asks_for k v (normalizeSystemConfigConvenienceRequest req)"
    and "normalizeSystemOption (sy_Option (normalizeSystemConfigConvenienceRequest req)) = ''all''"
    and "k \<in> set bootstrap_flags" and "v \<in> {''true'', ''false''}" and "\<And>ts. set (fb_order fb ts) = set ts"
  shows "\<exists>cfg. loadClusterConfigSection (node_doc (fl self)) = Some cfg \<and> (\<exists>h \<in> set (sec_Hosts cfg). \<not> blank (Ablecube h))
    \<and> (\<forall>n. n = self \<or> (\<exists>h \<in> set (sec_Hosts cfg). \<not> blank (Ablecube h) \<and> n = fb_home fb (Ablecube h)) \<longrightarrow>
          local_system (Some (status_request k)) (fl' n) = (Inl (SysAnswered 200 (VMap (fmupd k (VStr v) fmempty))), fl' n))"
proof -
  let ?req = "normalizeSystemConfigConvenienceRequest req"
  obtain out nd where l: "local_system (Some req) (fl self) = (out, nd)" by (metis prod.exhaust)
  then have l1: "local_system (Some ?req) (fl self) = (out, nd)" by (simp add: local_system_def convenience_idem)
  have action: "normalizeSystemAction (sy_Action ?req) = ''update''" using assms(2) by (simp add: asks_for_def)
  have "out \<noteq> Inl (SysAnswered 200 val)"
    using l action assms(3) by (auto simp: local_system_def Let_def split: option.splits sum.splits)
  moreover have "out = Inl (SysAnswered 200 val)" if "out = Inl reply" for reply
    using assms(1) l that by (simp add: UpdateSystemConfig_def)
  ultimately obtain a r root where inr: "out = Inr (a, r, root)" by (metis prod.exhaust sum.exhaust)
  then have out: "out = Inr (''update'', ?req, root)" using local_hands_over [of req "fl self" a r root nd] l action by simp
  obtain loaded p where doc: "node_doc (fl self) = Doc loaded" "root = fmupd ''systemProfile'' (VMap p) (NormalizeClusterJSON loaded)"
    using local_hands_over [of req "fl self"] l out by blast
  have flag: "holds_flag nd k v" using local_update [OF assms(2,4,5) l1] out by auto
  have spread: "spread_system json_error fb self ''update'' ?req root (fl(self := nd)) = (SysAnswered 200 val, fl')"
    using assms(1) l out by (simp add: UpdateSystemConfig_def)
  then obtain targets results where t: "buildSystemTargetsFromRoot json_error (fb_order fb) root = Inr targets" "targets \<noteq> []"
      "applySystemConfigToTargets fb self (?req\<lparr>sy_Option := []\<rparr>) targets (fl(self := nd)) = (results, fl')"
      "\<forall>r \<in> set results. ar_Code r = 200"
    by (auto simp: spread_system_def spread_answer_def list_ex_iff Let_def split: sum.splits if_splits prod.splits)
  have "asks_for k v (?req\<lparr>sy_Option := []\<rparr>)" using assms(2) by (simp add: asks_for_def)
  note all = spread_update [OF this assms(4,5) t(3,4)]
  obtain cfg where cfg: "loadClusterConfigSection (Doc loaded) = Some cfg" "set targets = {t \<in> Ablecube ` set (sec_Hosts cfg). \<not> blank t}"
    using system_targets [OF t(1) [unfolded doc(2)] assms(6)] by blast
  have "hd targets \<in> {t \<in> Ablecube ` set (sec_Hosts cfg). \<not> blank t}" unfolding cfg(2) [symmetric] using t(2) by simp
  then have some: "\<exists>h \<in> set (sec_Hosts cfg). \<not> blank (Ablecube h)" by auto
  have reached: "holds_flag (fl' (fb_home fb (Ablecube h))) k v" if "h \<in> set (sec_Hosts cfg)" "\<not> blank (Ablecube h)" for h
  proof -
    have "Ablecube h \<in> set targets" unfolding cfg(2) using that by simp
    then show ?thesis using all by blast
  qed
  have "holds_flag (fl' self) k v" using all flag by simp
  then have "holds_flag (fl' n) k v" if "n = self \<or> (\<exists>h \<in> set (sec_Hosts cfg). \<not> blank (Ablecube h) \<and> n = fb_home fb (Ablecube h))" for n
    using that reached by blast
  then show ?thesis using some cfg(1) doc(1) flag_reported [OF _ assms(4)] by (intro exI [of _ cfg]) simp
qed

section \<open>The token\<close>

lemma profile_loads:
  assumes "as_map (mget root ''clusterConfig'') = Some cfg"
  shows "\<exists>profile root'. ensureSystemProfileMap root = Some (profile, root')"
  by (auto simp: ensureSystemProfileMap_def mget_def [of "NormalizeClusterJSON root"] fmlookup_normalized [OF assms] orderedSystemProfile_def
      item_map_def Let_def)

lemma normalized_token:
  assumes "fmlookup r ''security'' = Some (VMap sec)" and "fmlookup sec ''internal_token'' = Some (VStr tok)" and "tok \<noteq> []"
  shows "\<exists>sec'. fmlookup (NormalizeClusterJSON r) ''security'' = Some (VMap sec') \<and> fmlookup sec' ''internal_token'' = Some (VStr tok)"
proof (cases "as_map (mget r ''clusterConfig'')")
  case None
  then show ?thesis using assms by (simp add: NormalizeClusterJSON_def)
next
  case (Some cfg)
  let ?r1 = "fmupd ''clusterConfig'' (orderedClusterConfig cfg) r"
  have "submap ?r1 ''security'' = sec" using assms(1) by (simp add: submap_def mget_def)
  then have "submap (fst (collect_profile ?r1)) ''security'' = sec"
    using assms(2,3) by (simp add: fst_collect_profile_security inherit_token_def mget_def [of sec] split: option.splits)
  then show ?thesis using assms(2) by (simp add: fmlookup_normalized [OF Some] Let_def default_token_def)
qed

lemma local_keeps_token:
  assumes "node_kept b tok nd" and "tok \<noteq> []"
  shows "node_kept b tok (snd (local_system body nd))"
  using assms(1)
proof (cases rule: token_kept_cases)
  case torn
  then have "loadClusterJSONRoot (node_doc nd) = None" by (auto simp: loadClusterJSONRoot_def node_doc_def)
  then show ?thesis using assms(1) by (auto simp: local_system_def Let_def split: option.split)
next
  case (held loaded sec)
  obtain sec' where sec': "fmlookup (NormalizeClusterJSON loaded) ''security'' = Some (VMap sec')" "fmlookup sec' ''internal_token'' = Some (VStr tok)"
    using normalized_token [OF held(2,3) assms(2)] by blast
  have "has_token (Doc (fmmap reload (fmupd ''systemProfile'' (VMap p) (NormalizeClusterJSON loaded)))) tok" for p
    using sec' by (simp add: has_token_def)
  note written = write_keeps [OF assms(1) this]
  show ?thesis
    using assms(1) held(1)
    by (auto simp: local_system_def loadClusterJSONRoot_def ensureSystemProfileMap_def saveClusterJSONRoot_def edited_normal node_doc_def Let_def
        split: option.splits sum.splits dest: written)
qed

lemma serve_keeps_token: "node_kept b tok nd \<Longrightarrow> tok \<noteq> [] \<Longrightarrow> node_kept b tok (snd (serve_system m rq nd))"
  using local_keeps_token [of b tok nd "system_body rq"] by (auto simp: serve_system_def split: gate.split prod.splits sum.splits)

lemma call_keeps_token:
  "node_kept b tok (fl n) \<Longrightarrow> tok \<noteq> [] \<Longrightarrow> node_kept b tok (snd (call_system fb self target req fl) n)"
  using serve_keeps_token [of b tok "fl (fb_home fb target)" "fb_machine fb (fb_home fb target)"
      "system_http (attached_token (fb_machine fb self) (fl self)) req"]
  by (auto simp: call_system_def Let_def split: option.split transmission.split prod.split)

lemma spread_keeps_token:
  assumes "tok \<noteq> []"
  shows "node_kept b tok (fl n) \<Longrightarrow> node_kept b tok (snd (applySystemConfigToTargets fb self req targets fl) n)"
    and "node_kept b tok (fl n) \<Longrightarrow> node_kept b tok (snd (applySystemStatusToTargets fb self req targets fl) n)"
proof (induction targets arbitrary: fl)
  case (Cons target targets)
  { case 1
    have "node_kept b tok (snd (callSystemConfigRemote fb self target req fl) n)"
      using call_keeps_token [where fl = fl and n = n, OF 1 assms] by (simp add: callSystemConfigRemote_def split_beta Let_def)
    then show ?case using Cons.IH(1) by (simp add: split_beta Let_def)
  next
    case 2
    have "node_kept b tok (snd (callSystemConfigRemoteStatus fb self target req fl) n)"
      using call_keeps_token [where fl = fl and n = n, OF 2 assms] by (simp add: callSystemConfigRemoteStatus_def split_beta Let_def)
    then show ?case using Cons.IH(2) by (simp add: split_beta Let_def) }
qed simp_all

text \<open>
  C23. No request for the system profile loses a token, whatever is asked of one node or of the whole
  cluster and however it ends, as long as no write of the document breaks off: a node that holds an
  internal token still holds it, or a write on that very node was cut off and its document is now blank or
  unreadable.
\<close>

theorem profile_keeps_token:
  assumes "has_token (node_doc (fl n)) tok" and "tok \<noteq> []"
  shows "let after = snd (UpdateSystemConfig json_error fb self body fl) n
    in has_token (node_doc after) tok \<or> torn (node_doc after) \<and> \<not> unbroken (no_world (fl n))"
proof -
  let ?b = "unbroken (no_world (fl n))" and ?fl = "fl(self := snd (local_system body (fl self)))"
  have "node_kept ?b tok (fl n)" using assms(1) by (simp add: token_kept_def node_doc_def)
  then have one: "node_kept ?b tok (?fl n)"
    using local_keeps_token [of ?b tok "fl self" body] assms(2) by (cases "n = self") simp_all
  have "node_kept ?b tok (snd (UpdateSystemConfig json_error fb self body fl) n)"
    using one spread_keeps_token [where fl = ?fl and n = n and b = ?b, OF assms(2) one]
    by (auto simp: UpdateSystemConfig_def spread_system_def split_beta Let_def split: sum.split prod.split)
  then show ?thesis by (auto simp: token_kept_def node_doc_def Let_def)
qed


section \<open>Sections that are not known\<close>

text \<open>
  C24. An update outside the known sections is lost although it succeeds: the node answers that the update
  is done, and the next question for the section answers that there is no such section.
\<close>

theorem unknown_section_lost:
  assumes "local_system (Some req) nd = (Inl (SysAnswered 200 val), nd')" and "normalizeSystemAction (sy_Action req) = ''update''"
    and "sy_Depth1 req \<notin> {''bootstrap'', ''license'', ''security_patch''}"
    and "node_doc nd = Doc loaded" and "as_map (mget loaded ''clusterConfig'') \<noteq> None"
  shows "val = VStr ''ok'' \<and> local_system (Some (req\<lparr>sy_Action := ''status'', sy_Option := []\<rparr>)) nd' = (Inl (SysRefused 400 ''invalid depth1''), nd')"
proof -
  obtain cfg where cfg: "as_map (mget loaded ''clusterConfig'') = Some cfg" using assms(5) by blast
  have plain: "normalizeSystemConfigConvenienceRequest req = req" by (rule update_is_plain [OF assms(2)])
  obtain p where saved: "val = VStr ''ok''" "node_doc nd' = Doc (fmmap reload (fmupd ''systemProfile'' (VMap p) (NormalizeClusterJSON loaded)))"
      and depth: "\<not> blank (sy_Depth1 req)"
    using assms(1,2,4) plain
    by (auto simp: local_system_def loadClusterJSONRoot_def ensureSystemProfileMap_def saveClusterJSONRoot_def edited_normal node_doc_def
        change_profile_def updateSystemProfileValue_def Let_def split: option.splits sum.splits if_splits dest: write_doc_saved)
  let ?r = "fmmap reload (fmupd ''systemProfile'' (VMap p) (NormalizeClusterJSON loaded))"
  obtain fs where "orderedClusterConfig cfg = VRec fs" using orderedClusterConfig_VRec by blast
  then have r: "as_map (mget ?r ''clusterConfig'') = Some (fmap_of_list (map (map_prod id reload) fs))"
    by (simp add: mget_def fmlookup_normalized [OF cfg] Let_def)
  obtain profile root' q where profile: "ensureSystemProfileMap ?r = Some (profile, root')" "VMap profile = reload (orderedSystemProfile q)"
    by (auto simp: ensureSystemProfileMap_def mget_def [of "NormalizeClusterJSON ?r"] fmlookup_normalized [OF r] orderedSystemProfile_def
        item_map_def Let_def)
  have none: "fmlookup profile (sy_Depth1 req) = None" using profile(2) assms(3) by (auto simp: orderedSystemProfile_def)
  have st: "to_lower (trim_space ''status'') = ''status''" by code_simp
  show ?thesis
    using saved depth profile(1) none no_option
    by (simp add: local_system_def loadClusterJSONRoot_def buildSystemStatus_def normalizeSystemConfigConvenienceRequest_def
        normalizeSystemAction_def st Let_def)
qed


section \<open>A cluster of one host\<close>

definition profile_node :: node where
  "profile_node =
     sample_node\<lparr>no_world := sample_world (fmupd ''security'' (VMap (puts ''internal_token'' ''tok'' fmempty)) (sample_root ''ablestack-vm''))\<rparr>"

definition configure_request :: SystemConfigRequest where
  "configure_request = \<lparr>sy_Action = ''GFS-configure'', sy_Option = [], sy_Depth1 = [], sy_Depth2 = [], sy_Value = []\<rparr>"

lemma configure_normal:
  "normalizeSystemConfigConvenienceRequest configure_request =
     \<lparr>sy_Action = ''update'', sy_Option = ''all'', sy_Depth1 = ''bootstrap'', sy_Depth2 = ''gfs_configure'', sy_Value = ''true''\<rparr>"
  by code_simp

lemma update_action: "normalizeSystemAction ''update'' = ''update''" "normalizeSystemOption ''all'' = ''all''"
  by code_simp+

lemma profile_doc:
  "\<exists>root cfg. node_doc profile_node = Doc root \<and> as_map (mget root ''clusterConfig'') = Some cfg \<and> cfg = sample_cfg ''ablestack-vm''"
  by (simp add: profile_node_def node_doc_def sample_world_def sample_root_def)

lemma profile_token: "has_token (node_doc profile_node) ''tok''"
  by (simp add: has_token_def node_doc_def profile_node_def sample_world_def)

lemma update_done:
  assumes "asks_for k v req" and "k \<in> set bootstrap_flags" and "v \<in> {''true'', ''false''}"
    and "node_doc nd = Doc root" and "ensureSystemProfileMap root = Some (profile, root')" and "w_doc_writable (no_world nd)"
  shows "\<exists>w. local_system (Some req) nd =
      ((if normalizeSystemOption (sy_Option req) = ''all''
        then Inr (''update'', req, fmupd ''systemProfile'' (VMap (edit_map ''bootstrap'' (puts k v) profile)) root') else Inl (SysAnswered 200 (VStr ''ok''))),
       nd\<lparr>no_world := w\<rparr>) \<and> w_doc_writable w"
proof -
  have a: "normalizeSystemConfigConvenienceRequest req = req" "normalizeSystemAction (sy_Action req) = ''update''"
    using assms(1) update_is_plain by (simp_all add: asks_for_def)
  have change: "updateSystemProfileValue profile req = Inr (edit_map ''bootstrap'' (puts k v) profile)"
    using assms(1) flag_not_blank assms(2,3) by (simp add: updateSystemProfileValue_def asks_for_def)
  let ?w = "(no_world nd)\<lparr>w_doc := Doc (fmmap reload (NormalizeClusterJSON (fmupd ''systemProfile''
      (VMap (edit_map ''bootstrap'' (puts k v) profile)) root')))\<rparr>"
  show ?thesis
    by (rule exI [of _ ?w])
      (simp add: local_system_def a change change_profile_def saveClusterJSONRoot_def assms(4,5,6) loadClusterJSONRoot_def Let_def)
qed

text \<open>A node with a token lets a call with the token pass.\<close>

lemma token_gate:
  assumes "has_token (node_doc nd) ''tok''"
  shows "Middleware (system_of sample_machine nd) (system_http (attached_token sample_machine nd) req) = Next"
proof -
  let ?y = "system_of sample_machine nd"
  have get: "GetInternalToken (y_env (ma_system sample_machine)) (node_store nd) = Inr ''tok''"
    using assms trim_tok sample_no_env by (intro has_token_get) (simp_all add: node_store_def node_doc_def)
  then have attached: "attached_token sample_machine nd = Some ''tok''" using trim_tok by (simp add: attached_token_def)
  let ?rq = "system_http (Some ''tok'') req"
  obtain secret where "ExistingSigningSecret (sample_system fmempty) = Inr secret" using sample_secret by blast
  then have secret: "ExistingSigningSecret ?y = Inr secret" by (simp add: ExistingSigningSecret_def system_of_def sample_machine_def)
  have path: "\<not> isPublicPath (r_path ?rq)" "r_method ?rq \<noteq> ''OPTIONS''"
    by (simp_all add: system_http_def system_path_def isPublicPath_def has_prefix_def)
  have "hasCubeInternalHeader (r_headers ?rq)"
    by (simp add: hasCubeInternalHeader_def InternalTokenHeader_def equal_fold_def system_http_def)
  moreover have "get_header ?rq InternalTokenHeader = ''tok''" by (simp add: get_header_def InternalTokenHeader_def system_http_def)
  then have "ValidateInternalToken (y_env ?y) (get_header ?rq InternalTokenHeader) (y_store ?y)"
    using get trim_tok by (simp add: ValidateInternalToken_def system_of_def)
  ultimately show ?thesis
    using require_license_iff [OF path(1), of ?y] secret path by (auto simp: Middleware_def attached split: sum.splits)
qed

lemma sample_targets:
  assumes "as_map (mget root ''clusterConfig'') = Some (sample_cfg ''ablestack-vm'')"
  shows "buildSystemTargetsFromRoot json_error (\<lambda>ts. ts) (fmupd ''systemProfile'' v (NormalizeClusterJSON root)) = Inr [''10.0.0.1'']"
proof -
  obtain cfg where cfg: "decode_cluster_section (reload (orderedClusterConfig (sample_cfg ''ablestack-vm''))) = Some cfg" "map Ablecube (sec_Hosts cfg) = [''10.0.0.1'']"
  proof -
    have "map_option (\<lambda>cfg. map Ablecube (sec_Hosts cfg)) (decode_cluster_section (reload (orderedClusterConfig (sample_cfg ''ablestack-vm'')))) = Some [''10.0.0.1'']"
      by code_simp
    then show ?thesis using that by auto
  qed
  have "\<not> blank ''10.0.0.1''" by code_simp
  then show ?thesis
    using cfg by (simp add: buildSystemTargetsFromRoot_def edited_normal fmlookup_normalized [OF assms] Let_def)
qed

lemma configure_succeeds:
  "\<exists>val fl'. UpdateSystemConfig json_error sample_fabric ''cube1'' (Some configure_request) (\<lambda>n. profile_node) = (SysAnswered 200 val, fl')"
proof -
  let ?req = "normalizeSystemConfigConvenienceRequest configure_request" and ?k = "''gfs_configure''"
  have asks: "asks_for ?k ''true'' ?req" "asks_for ?k ''true'' (?req\<lparr>sy_Option := []\<rparr>)"
    using update_action by (simp_all add: asks_for_def configure_normal)
  have k: "?k \<in> set bootstrap_flags" by (simp add: bootstrap_flags_def)
  obtain root where root: "node_doc profile_node = Doc root" "as_map (mget root ''clusterConfig'') = Some (sample_cfg ''ablestack-vm'')"
    using profile_doc by blast
  obtain profile root' where p: "ensureSystemProfileMap root = Some (profile, root')" using profile_loads [OF root(2)] by blast
  have writable: "w_doc_writable (no_world profile_node)" by (simp add: profile_node_def sample_world_def)
  obtain w where first: "local_system (Some ?req) profile_node =
      (Inr (''update'', ?req, fmupd ''systemProfile'' (VMap (edit_map ''bootstrap'' (puts ?k ''true'') profile)) root'), profile_node\<lparr>no_world := w\<rparr>)"
      "w_doc_writable w"
    using update_done [OF asks(1) k _ root(1) p writable] update_action by (auto simp: configure_normal)
  let ?nd = "profile_node\<lparr>no_world := w\<rparr>"
  have l: "local_system (Some configure_request) profile_node = local_system (Some ?req) profile_node" by (simp add: local_system_def convenience_idem)
  obtain q where q: "fmupd ''systemProfile'' (VMap (edit_map ''bootstrap'' (puts ?k ''true'') profile)) root' = fmupd ''systemProfile'' (VMap q) (NormalizeClusterJSON root)"
    using p by (auto simp: ensureSystemProfileMap_def Let_def)
  have targets: "buildSystemTargetsFromRoot json_error (fb_order sample_fabric) (fmupd ''systemProfile'' (VMap q) (NormalizeClusterJSON root)) = Inr [''10.0.0.1'']"
    using sample_targets [OF root(2)] by (simp add: sample_fabric_def)
  have "holds_flag ?nd ?k ''true''" using local_update [OF asks(1) k _ first(1)] by auto
  then obtain r2 p2 r2' where again: "node_doc ?nd = Doc r2" "ensureSystemProfileMap r2 = Some (p2, r2')" by (auto simp: holds_flag_def flag_in_def)
  obtain w2 where second: "local_system (Some (?req\<lparr>sy_Option := []\<rparr>)) ?nd = (Inl (SysAnswered 200 (VStr ''ok'')), ?nd\<lparr>no_world := w2\<rparr>)"
    using update_done [OF asks(2) k _ again] first(2) no_option by auto
  have "node_kept True ''tok'' profile_node" using profile_token writable by (simp add: token_kept_def node_doc_def)
  then have "node_kept True ''tok'' ?nd" using local_keeps_token [of True "''tok''" profile_node "Some ?req"] first(1) by simp
  then have tok: "has_token (node_doc ?nd) ''tok''" by (simp add: token_kept_def node_doc_def)
  let ?fl = "(\<lambda>n. profile_node)(''cube1'' := ?nd)"
  have same: "fb_machine sample_fabric n = sample_machine" "fb_home sample_fabric t = ''cube1''" "fb_url_error sample_fabric url = None"
      "fb_delivery sample_fabric t = Delivered" for n t url
    by (simp_all add: sample_fabric_def)
  have "serve_system sample_machine (system_http (attached_token sample_machine ?nd) (?req\<lparr>sy_Option := []\<rparr>)) ?nd
      = ((200, 200, VStr ''ok''), ?nd\<lparr>no_world := w2\<rparr>)"
    using token_gate [OF tok] second by (simp add: serve_system_def system_body_http reply_seen_def)
  then have "callSystemConfigRemote sample_fabric ''cube1'' ''10.0.0.1'' (?req\<lparr>sy_Option := []\<rparr>) ?fl = (None, ?fl(''cube1'' := ?nd\<lparr>no_world := w2\<rparr>))"
    by (simp add: callSystemConfigRemote_def call_system_def same Let_def)
  then show ?thesis
    using l first(1) targets q by (simp add: UpdateSystemConfig_def spread_system_def spread_answer_def Let_def)
qed

theorem update_reaches_hosts_witness:
  "\<exists>val fl'. UpdateSystemConfig (\<lambda>v. []) sample_fabric ''cube1'' (Some configure_request) (\<lambda>n. profile_node) = (SysAnswered 200 val, fl')
     \<and> local_system (Some (status_request ''gfs_configure'')) (fl' ''cube1'') = (Inl (SysAnswered 200 (VMap (puts ''gfs_configure'' ''true'' fmempty))), fl' ''cube1'')"
proof -
  obtain val fl' where run: "UpdateSystemConfig (\<lambda>v. []) sample_fabric ''cube1'' (Some configure_request) (\<lambda>n. profile_node) = (SysAnswered 200 val, fl')"
    using configure_succeeds by blast
  have "asks_for ''gfs_configure'' ''true'' (normalizeSystemConfigConvenienceRequest configure_request)"
    "normalizeSystemOption (sy_Option (normalizeSystemConfigConvenienceRequest configure_request)) = ''all''"
    "''gfs_configure'' \<in> set bootstrap_flags" "''true'' \<in> {''true'', ''false''}" "set (fb_order sample_fabric ts) = set ts" for ts
    using update_action by (simp_all add: asks_for_def configure_normal bootstrap_flags_def sample_fabric_def)
  from update_reaches_hosts [OF run this] run show ?thesis by blast
qed

theorem profile_keeps_token_witness:
  "has_token (node_doc (snd (UpdateSystemConfig (\<lambda>v. []) sample_fabric ''cube1'' (Some configure_request) (\<lambda>n. profile_node)) ''cube1'')) ''tok''"
  using profile_keeps_token [of "\<lambda>n. profile_node" "''cube1''" "''tok''" "\<lambda>v. []" sample_fabric "''cube1''" "Some configure_request"] profile_token
  by (simp add: Let_def) (simp add: profile_node_def sample_world_def)



definition unknown_request :: SystemConfigRequest where
  "unknown_request = \<lparr>sy_Action = ''update'', sy_Option = [], sy_Depth1 = ''wall'', sy_Depth2 = ''status'', sy_Value = ''true''\<rparr>"

theorem unknown_section_lost_witness:
  "\<exists>nd'. local_system (Some unknown_request) profile_node = (Inl (SysAnswered 200 (VStr ''ok'')), nd')
     \<and> fst (local_system (Some (unknown_request\<lparr>sy_Action := ''status'', sy_Option := []\<rparr>)) nd') = Inl (SysRefused 400 ''invalid depth1'')"
proof -
  obtain root where root: "node_doc profile_node = Doc root" "as_map (mget root ''clusterConfig'') = Some (sample_cfg ''ablestack-vm'')"
    using profile_doc by blast
  obtain profile root' where p: "ensureSystemProfileMap root = Some (profile, root')" using profile_loads [OF root(2)] by blast
  have req: "normalizeSystemAction (sy_Action unknown_request) = ''update''" "sy_Depth1 unknown_request \<notin> {''bootstrap'', ''license'', ''security_patch''}"
    using update_action by (simp_all add: unknown_request_def)
  have plain: "normalizeSystemConfigConvenienceRequest unknown_request = unknown_request" by (rule update_is_plain [OF req(1)])
  have filled: "\<not> blank ''wall''" "\<not> blank ''status''" "\<not> blank ''true''" by code_simp+
  then have "\<exists>p1. updateSystemProfileValue profile unknown_request = Inr p1" by (simp add: updateSystemProfileValue_def unknown_request_def)
  moreover have "w_doc_writable (no_world profile_node)" by (simp add: profile_node_def sample_world_def)
  moreover have "normalizeSystemOption (sy_Option unknown_request) = []" using no_option by (simp add: unknown_request_def)
  ultimately obtain nd' where run: "local_system (Some unknown_request) profile_node = (Inl (SysAnswered 200 (VStr ''ok'')), nd')"
    using root(1) p req(1) plain
    by (auto simp: local_system_def loadClusterJSONRoot_def saveClusterJSONRoot_def change_profile_def Let_def)
  from unknown_section_lost [OF run req root(1)] root(2) run show ?thesis by auto
qed

end
