(* ===== verification/License_Apply.thy ===== *)
theory License_Apply
  imports System_Config_Facts
begin

text \<open>
  Licences over a cluster: the handler of a node, \<^verbatim>\<open>internal/handler/cube/license.go\<close>, and the
  distribution to the nodes, \<^verbatim>\<open>license_apply.go\<close>, over \<open>License_Service\<close>, \<open>Auth_Service\<close> and
  \<open>System_Config\<close>. Clocks stand still while a request runs. The answers carry Korean texts; they are
  values here, and their texts are an argument; the errors of reading and saving the document are named by what failed.
\<close>

section \<open>Data\<close>

record boundLicenseRequest =
  bl_Action :: string
  bl_LicenseContent :: string
  bl_Filename :: string

record LicenseStatus =
  ls_Status :: bool
  ls_Text :: string
  ls_Expired :: string
  ls_Issued :: string
  ls_OEM :: string
  ls_FilePath :: string

datatype license_val =
    NothingSaid
  | Registered
  | NoneRegistered
  | Unreadable string
  | Unusable string
  | InvalidContent
  | FilenameRequired
  | UnsupportedAction
  | StatusOf LicenseStatus

record LicenseResponse =
  lr_Code :: nat
  lr_Val :: license_val

text \<open>A node with its licences, and what stays the same on its machine besides \<open>machine\<close>.\<close>

record lnode =
  ln_node :: node
  ln_dir :: license_dir

record lmachine =
  lm_machine :: machine
  lm_fault :: "register_fault option"
  lm_keep :: "string \<Rightarrow> bool"
  lm_nano :: nat

definition lm_crypto :: "lmachine \<Rightarrow> crypto" where "lm_crypto m = y_crypto (ma_system (lm_machine m))"
definition lm_id :: "lmachine \<Rightarrow> string option" where "lm_id m = y_machine (ma_system (lm_machine m))"
definition lm_today :: "lmachine \<Rightarrow> date" where "lm_today m = y_today (ma_system (lm_machine m))"

definition lsystem :: "lmachine \<Rightarrow> lnode \<Rightarrow> system" where
  "lsystem m ln = (system_of (lm_machine m) (ln_node ln))\<lparr>y_dir := ln_dir ln\<rparr>"

section \<open>Binding a request\<close>

definition maxLicenseUploadBytes :: nat where "maxLicenseUploadBytes = 10 * 1024 * 1024"

definition defaultLicenseFilename :: string where "defaultLicenseFilename = ''license.lic''"

text \<open>A field of a form: missing, not readable, or a file with its name and its content.\<close>

datatype form_file = MissingFile | FormError string | FormFile string "string outcome"

fun first_file :: "string list \<Rightarrow> (string \<Rightarrow> form_file) \<Rightarrow> form_file" where
  "first_file [] form = MissingFile"
| "first_file (f # fs) form = (if form f = MissingFile then first_file fs form else form f)"

definition licenseFormFile :: "(string \<Rightarrow> form_file) \<Rightarrow> form_file" where
  "licenseFormFile = first_file [''license_file'', ''file'']"

definition encodeLicenseUpload :: "string outcome \<Rightarrow> string outcome" where
  "encodeLicenseUpload file =
     (case file of
        Inl err \<Rightarrow> Inl err
      | Inr content \<Rightarrow>
          if length content > maxLicenseUploadBytes then Inl (''license file exceeds '' @ show_nat maxLicenseUploadBytes @ '' bytes'')
          else if blank content then Inl ''license file is empty''
          else Inr (std_encode content))"

text \<open>A body of JSON, if it could be decoded, or a form with its action and its files.\<close>

datatype license_body = JsonBody "(string \<times> string) option" | FormBody string "string \<Rightarrow> form_file"

definition bindLicenseRequest :: "license_body \<Rightarrow> boundLicenseRequest outcome" where
  "bindLicenseRequest body =
     (case body of
        JsonBody None \<Rightarrow> Inl ''invalid request''
      | JsonBody (Some (action, content)) \<Rightarrow>
          Inr \<lparr>bl_Action = action, bl_LicenseContent = content, bl_Filename = defaultLicenseFilename\<rparr>
      | FormBody action form \<Rightarrow>
          (case licenseFormFile form of
             MissingFile \<Rightarrow> Inr \<lparr>bl_Action = trim_space action, bl_LicenseContent = [], bl_Filename = []\<rparr>
           | FormError err \<Rightarrow> Inl err
           | FormFile name file \<Rightarrow>
               (case encodeLicenseUpload file of
                  Inl err \<Rightarrow> Inl err
                | Inr encoded \<Rightarrow>
                    Inr \<lparr>bl_Action = (if blank action then ''register'' else trim_space action), bl_LicenseContent = encoded,
                          bl_Filename = name\<rparr>)))"

definition normalizeLicenseAction :: "string \<Rightarrow> string" where
  "normalizeLicenseAction action =
     (let a = to_lower (trim_space action)
      in if a = ''status'' then ''status'' else if a \<in> {''register'', ''update'', ''create''} then ''register'' else [])"

section \<open>One node\<close>

definition isLicenseInputError :: "license_error \<Rightarrow> bool" where
  "isLicenseInputError err =
     (case err of ErrExpired \<Rightarrow> True | ErrInactive \<Rightarrow> True | ErrInvalid _ \<Rightarrow> True | ErrLicenseKey \<Rightarrow> True | ErrNotYetValid \<Rightarrow> True | _ \<Rightarrow> False)"

definition getLicenseStatus :: "lmachine \<Rightarrow> lnode \<Rightarrow> LicenseResponse" where
  "getLicenseStatus m ln =
     (case CurrentStatus (lm_crypto m) (lm_id m) (lm_today m) (ln_dir ln) of
        Inl ErrNoLicense \<Rightarrow> \<lparr>lr_Code = 404, lr_Val = NoneRegistered\<rparr>
      | Inl err \<Rightarrow> \<lparr>lr_Code = 500, lr_Val = Unreadable (error_text err)\<rparr>
      | Inr st \<Rightarrow>
          \<lparr>lr_Code = 200, lr_Val = StatusOf \<lparr>ls_Status = Active st, ls_Text = StatusText st, ls_Expired = StExpired st,
             ls_Issued = StIssued st, ls_OEM = StOEM st, ls_FilePath = FilePath st\<rparr>\<rparr>)"

text \<open>The profile of the document is told of the licence; there may be no document.\<close>

definition syncLicenseSystemProfile :: "Status \<Rightarrow> node \<Rightarrow> unit outcome \<times> node" where
  "syncLicenseSystemProfile status nd =
     (case loadClusterJSONRoot (node_doc nd) of
        None \<Rightarrow> (if node_doc nd = NoDoc then Inr () else Inl ''cluster.json'', nd)
      | Some loaded \<Rightarrow>
          (case ensureSystemProfileMap loaded of
             None \<Rightarrow> (Inl ''systemProfile'', nd)
           | Some (profile, root) \<Rightarrow>
               (let profile1 = edit_map ''license'' (\<lambda>license. puts ''type'' (trim_space (StOEM status)) (puts ''status'' ''true'' license)) profile
                in case saveClusterJSONRoot (fmupd ''systemProfile'' (VMap profile1) root) (no_world nd) of
                     Inl w \<Rightarrow> (Inl ''cluster.json'', nd\<lparr>no_world := w\<rparr>)
                   | Inr w \<Rightarrow> (Inr (), nd\<lparr>no_world := w\<rparr>))))"

text \<open>The registration proper, then the token of the node and the profile.\<close>

definition register_on_node :: "lmachine \<Rightarrow> string \<Rightarrow> string \<Rightarrow> lnode \<Rightarrow> LicenseResponse outcome \<times> lnode" where
  "register_on_node m content filename ln =
     (let mm = lm_machine m;
          (res, dir) = Register (lm_crypto m) (lm_id m) (lm_today m) (lm_fault m) (lm_keep m) (lm_nano m) content filename (ln_dir ln);
          ln1 = ln\<lparr>ln_dir := dir\<rparr>
      in case res of
           Inl err \<Rightarrow> (Inr \<lparr>lr_Code = (if isLicenseInputError err then 400 else 500), lr_Val = Unusable (error_text err)\<rparr>, ln1)
         | Inr status \<Rightarrow>
             (let (token, st) = EnsureInternalToken (y_env (ma_system mm)) (ma_gen mm) (ma_fault mm) (node_store (ln_node ln1));
                  ln2 = ln1\<lparr>ln_node := put_store st (ln_node ln1)\<rparr>
              in case token of
                   Inl err \<Rightarrow> (Inl (ma_token_text mm err), ln2)
                 | Inr _ \<Rightarrow>
                     (let (synced, nd) = syncLicenseSystemProfile status (ln_node ln2); ln3 = ln2\<lparr>ln_node := nd\<rparr>
                      in case synced of Inl err \<Rightarrow> (Inl err, ln3) | Inr _ \<Rightarrow> (Inr \<lparr>lr_Code = 200, lr_Val = Registered\<rparr>, ln3))))"

definition registerLicense :: "lmachine \<Rightarrow> string \<Rightarrow> string \<Rightarrow> lnode \<Rightarrow> LicenseResponse outcome \<times> lnode" where
  "registerLicense m content filename ln =
     (if blank content then (Inr \<lparr>lr_Code = 400, lr_Val = InvalidContent\<rparr>, ln)
      else if blank filename then (Inr \<lparr>lr_Code = 400, lr_Val = FilenameRequired\<rparr>, ln)
      else register_on_node m content filename ln)"

text \<open>The status of an answer, and the code and the value that a client decodes from its body.\<close>

datatype license_reply = LicRefused nat string | LicUnauthorized | LicAnswer LicenseResponse

definition lic_seen :: "license_reply \<Rightarrow> nat \<times> nat \<times> license_val" where
  "lic_seen reply =
     (case reply of
        LicRefused code text \<Rightarrow> (code, 0, NothingSaid)
      | LicUnauthorized \<Rightarrow> (401, 401, NothingSaid)
      | LicAnswer resp \<Rightarrow> (if lr_Code resp < 100 \<or> lr_Code resp > 599 then 500 else lr_Code resp, lr_Code resp, lr_Val resp))"

definition may_replace :: "lmachine \<Rightarrow> request \<Rightarrow> lnode \<Rightarrow> bool" where
  "may_replace m rq ln \<longleftrightarrow>
     (if HasActiveLicense (lm_crypto m) (lm_id m) (lm_today m) (ln_dir ln)
      then (case ClaimsFromRequest (lsystem m ln) rq of
              Inl err \<Rightarrow> ValidateInternalToken (y_env (ma_system (lm_machine m))) (get_header rq InternalTokenHeader) (node_store (ln_node ln))
            | Inr claim \<Rightarrow> True)
      else True)"

definition LicenseControl :: "lmachine \<Rightarrow> request \<Rightarrow> license_body \<Rightarrow> lnode \<Rightarrow> license_reply \<times> lnode" where
  "LicenseControl m rq body ln =
     (case bindLicenseRequest body of
        Inl err \<Rightarrow> (LicRefused 400 err, ln)
      | Inr req \<Rightarrow>
          (let action = normalizeLicenseAction (bl_Action req)
           in if action = [] then (LicRefused 400 ''unsupported action'', ln)
              else if action = ''status'' then (LicAnswer (getLicenseStatus m ln), ln)
              else if \<not> may_replace m rq ln then (LicUnauthorized, ln)
              else (let (res, ln1) = registerLicense m (bl_LicenseContent req) (bl_Filename req) ln
                    in ((case res of Inl err \<Rightarrow> LicRefused 500 err | Inr resp \<Rightarrow> LicAnswer resp), ln1))))"

section \<open>The targets of a distribution\<close>

record ClusterLicenseRequest = LicenseApplyRequest +
  lq_Targets :: "string list"
  lq_TargetHostnames :: "string list"

record licenseApplyTarget =
  lt_Role :: string
  lt_Hostname :: string
  lt_Target :: string
  lt_Host :: "ClusterHost option"

definition normalizeLicenseApplyAction :: "string \<Rightarrow> string" where
  "normalizeLicenseApplyAction action =
     (let a = to_lower (trim_space action)
      in if a \<in> {[], ''register'', ''update'', ''create''} then ''register'' else if a = ''status'' then ''status'' else [])"

definition role_names :: "string \<Rightarrow> string list option" where
  "role_names part =
     (let p = to_lower (trim_space part)
      in if p = ''all'' then Some [''ablecube'', ''scvm'', ''ccvm'']
         else if p \<in> {''ablecube'', ''host'', ''hosts'', ''node'', ''nodes'', ''physical''} then Some [''ablecube'']
         else if p \<in> {''scvm'', ''storage'', ''storage-vm'', ''storage_vm''} then Some [''scvm'']
         else if p \<in> {''ccvm'', ''cloud'', ''cloud-vm'', ''cloud_vm''} then Some [''ccvm'']
         else None)"

fun roles_of :: "string list \<Rightarrow> string list outcome" where
  "roles_of [] = Inr []"
| "roles_of (part # parts) =
     (case role_names part of
        None \<Rightarrow> Inl (''unsupported license target role: '' @ part)
      | Some names \<Rightarrow> (case roles_of parts of Inl err \<Rightarrow> Inl err | Inr roles \<Rightarrow> Inr (names @ roles)))"

definition normalizeLicenseApplyRoles :: "string list \<Rightarrow> string list outcome" where
  "normalizeLicenseApplyRoles vals =
     (let parts = splitLicenseApplyValues vals
      in if parts = [] then Inr [''ablecube''] else (case roles_of parts of Inl err \<Rightarrow> Inl err | Inr roles \<Rightarrow> Inr (first_occ roles)))"

definition target_selected :: "string list \<Rightarrow> licenseApplyTarget \<Rightarrow> bool" where
  "target_selected selection t \<longleftrightarrow>
     (case lt_Host t of
        Some host \<Rightarrow> licenseApplyTargetMatchesFilter (lt_Role t) (lt_Hostname t) host selection
      | None \<Rightarrow> selection = [] \<or> list_ex (\<lambda>candidate. to_lower (trim_space candidate) \<in> set selection)
                   ([lt_Hostname t, lt_Role t] @ (if lt_Role t = ''ccvm'' then [''ccvm''] else [])))"

definition role_candidates :: "ClusterSection \<Rightarrow> string \<Rightarrow> licenseApplyTarget list" where
  "role_candidates cfg role =
     (let trimmed = (\<lambda>hostname target host. \<lparr>lt_Role = role, lt_Hostname = trim_space hostname, lt_Target = trim_space target, lt_Host = host\<rparr>)
      in if role = ''ablecube'' then map (\<lambda>h. trimmed (Hostname h) (Ablecube h) (Some h)) (sec_Hosts cfg)
         else if role = ''scvm''
         then map (\<lambda>h. trimmed (licenseApplySCVMHostname h) (firstNonEmpty [ScvmMngt h, Scvm h]) (Some h)) (sec_Hosts cfg)
         else if role = ''ccvm'' then [trimmed ''ccvm'' (CCVM_IP (cs_CCVM cfg)) None]
         else [])"

fun add_targets :: "string list \<Rightarrow> string list \<Rightarrow> licenseApplyTarget list \<Rightarrow> licenseApplyTarget list" where
  "add_targets selection seen [] = []"
| "add_targets selection seen (t # ts) =
     (if lt_Target t = [] \<or> \<not> target_selected selection t \<or> lt_Target t \<in> set seen then add_targets selection seen ts
      else t # add_targets selection (lt_Target t # seen) ts)"

definition buildLicenseApplyTargets :: "ClusterLicenseRequest \<Rightarrow> ClusterSection option \<Rightarrow> licenseApplyTarget list outcome" where
  "buildLicenseApplyTargets req cfg0 =
     (if lq_Targets req \<noteq> []
      then Inr (map (\<lambda>target. \<lparr>lt_Role = ''custom'', lt_Hostname = [], lt_Target = target, lt_Host = None\<rparr>) (dedupeHosts (lq_Targets req)))
      else (case cfg0 of
              None \<Rightarrow> Inl ''clusterConfig required''
            | Some cfg \<Rightarrow>
                (case normalizeLicenseApplyRoles (la_Roles req) of
                   Inl err \<Rightarrow> Inl err
                 | Inr roles \<Rightarrow>
                     (let selection = licenseApplyHostnameFilter (lq_TargetHostnames req);
                          targets = add_targets selection [] (concat (map (role_candidates cfg) roles))
                      in if selection \<noteq> [] \<and> targets = [] then Inl ''target_hostname not found'' else Inr targets))))"

section \<open>The licence of a target\<close>

text \<open>Go picks the order in which the keys are tried without regard to case.\<close>

definition licenseMapValue :: "(string list \<Rightarrow> string list) \<Rightarrow> (string, string) fmap \<Rightarrow> string \<Rightarrow> string" where
  "licenseMapValue order vals key0 =
     (let key = trim_space key0; exact = trim_space (case fmlookup vals key of None \<Rightarrow> [] | Some v \<Rightarrow> v)
      in if key = [] then []
         else if exact \<noteq> [] then exact
         else (case List.find (\<lambda>raw. to_lower (trim_space raw) = to_lower key) (order (sorted_list_of_set (fset (fmdom vals)))) of
                 None \<Rightarrow> []
               | Some raw \<Rightarrow> trim_space (case fmlookup vals raw of None \<Rightarrow> [] | Some v \<Rightarrow> v)))"

definition license_keys :: "licenseApplyTarget \<Rightarrow> string list" where
  "license_keys t =
     [lt_Hostname t, lt_Target t, lt_Role t] @ (if lt_Role t \<noteq> [] \<and> lt_Hostname t \<noteq> [] then [lt_Role t @ '':'' @ lt_Hostname t] else [])
     @ (case lt_Host t of
          None \<Rightarrow> []
        | Some h \<Rightarrow>
            [Hostname h, Ablecube h, ScvmMngt h, Scvm h, Index h]
            @ (if lt_Role t = ''ablecube'' then [''ablecube'' @ trim_space (Index h)] else [])
            @ (if lt_Role t = ''scvm'' then [''scvm'' @ trim_space (Index h)] else []))"

definition licenseContentForTarget ::
  "(string list \<Rightarrow> string list) \<Rightarrow> ClusterLicenseRequest \<Rightarrow> licenseApplyTarget \<Rightarrow> string \<Rightarrow> string" where
  "licenseContentForTarget order req t defaultContent =
     (if la_Licenses req = fmempty then trim_space defaultContent
      else (case List.find (\<lambda>v. v \<noteq> []) (map (licenseMapValue order (la_Licenses req)) (license_keys t)) of
              Some v \<Rightarrow> v
            | None \<Rightarrow> trim_space defaultContent))"

definition currentLocalLicenseContent :: "lmachine \<Rightarrow> lnode \<Rightarrow> string outcome" where
  "currentLocalLicenseContent m ln =
     (case selected_file (lm_id m) (ln_dir ln) of
        Inl err \<Rightarrow> Inl (error_text err)
      | Inr (hostUUID, name) \<Rightarrow>
          (case fmlookup (l_files (ln_dir ln)) name of
             None \<Rightarrow> Inl ''read file''
           | Some raw \<Rightarrow> if blank raw then Inl ''current license file is empty'' else Inr (std_encode raw)))"

section \<open>Waiting for the CCVM\<close>

definition ccvmLicenseReadyAttempts :: nat where "ccvmLicenseReadyAttempts = 6"

text \<open>What pacemaker and libvirt tell at an attempt; a command gives its output and an error.\<close>

record pcs_answer =
  pa_Code :: nat
  pa_Message :: string
  pa_ValText :: string
  pa_Role :: string
  pa_Started :: string

record ccvm_probe =
  cp_pcs :: "nat \<Rightarrow> pcs_answer"
  cp_domstate :: "nat \<Rightarrow> string \<times> string option"

definition resetCloudCenterIsStandalone :: "ClusterSection \<Rightarrow> bool" where
  "resetCloudCenterIsStandalone cfg \<longleftrightarrow> equal_fold (trim_space (sec_Type cfg)) ''ablestack-standalone''"

definition readLocalCCVMState :: "string \<times> string option \<Rightarrow> (string \<times> bool) outcome" where
  "readLocalCCVMState answer =
     (let state = trim_space (fst answer)
      in case snd answer of
           None \<Rightarrow> Inr (state, True)
         | Some err \<Rightarrow>
             if contains_str (to_lower state) ''failed to get domain'' \<or> contains_str (to_lower state) ''domain not found''
             then Inr ([], False) else Inl err)"

definition ccvmSecondaryResizePCSStatus :: "pcs_answer \<Rightarrow> (string \<times> string) outcome" where
  "ccvmSecondaryResizePCSStatus a =
     (if pa_Code a \<noteq> 200 then Inl (firstNonEmpty [pa_Message a, pa_ValText a])
      else if blank (pa_Role a) then Inl ''cloudcenter_res status parse failed''
      else Inr (pa_Role a, pa_Started a))"

definition ccvmLicensePCSReady :: "string \<times> string \<Rightarrow> bool" where
  "ccvmLicensePCSReady status \<longleftrightarrow> equal_fold (trim_space (fst status)) ''Started'' \<and> \<not> blank (snd status)"

definition ccvmLicenseRuntimeReady :: "ccvm_probe \<Rightarrow> ClusterSection \<Rightarrow> nat \<Rightarrow> bool outcome" where
  "ccvmLicenseRuntimeReady p cfg attempt =
     (if resetCloudCenterIsStandalone cfg
      then (case readLocalCCVMState (cp_domstate p attempt) of
              Inl err \<Rightarrow> Inl err
            | Inr (state, known) \<Rightarrow> Inr (known \<and> equal_fold (trim_space state) ''running''))
      else (case ccvmSecondaryResizePCSStatus (cp_pcs p attempt) of Inl err \<Rightarrow> Inl err | Inr status \<Rightarrow> Inr (ccvmLicensePCSReady status)))"

fun ready_loop :: "(nat \<Rightarrow> bool outcome) \<Rightarrow> nat \<Rightarrow> nat \<Rightarrow> string \<Rightarrow> nat \<times> string option" where
  "ready_loop ready 0 attempt lastErr =
     (ccvmLicenseReadyAttempts,
      Some (''ccvm runtime readiness check failed after '' @ show_nat ccvmLicenseReadyAttempts @ '' attempts at 30s intervals: '' @ lastErr))"
| "ready_loop ready (Suc left) attempt lastErr =
     (case ready attempt of
        Inr True \<Rightarrow> (attempt, None)
      | Inr False \<Rightarrow> ready_loop ready left (Suc attempt) ''ccvm runtime is not started''
      | Inl err \<Rightarrow> ready_loop ready left (Suc attempt) err)"

definition waitCCVMLicenseTargetReady :: "ccvm_probe \<Rightarrow> ClusterSection option \<Rightarrow> string \<Rightarrow> nat \<times> string option" where
  "waitCCVMLicenseTargetReady p cfg0 target =
     (if blank target then (0, Some ''ccvm license readiness target is empty'')
      else (case cfg0 of
              None \<Rightarrow> (0, Some ''ccvm license readiness cluster config is empty'')
            | Some cfg \<Rightarrow> ready_loop (ccvmLicenseRuntimeReady p cfg) ccvmLicenseReadyAttempts 1 []))"

section \<open>A target\<close>

text \<open>The fleet with its licences; \<open>lf_say\<close> gives the text of an answer.\<close>

record lfabric =
  lf_fabric :: fabric
  lf_machine :: "string \<Rightarrow> lmachine"
  lf_probe :: ccvm_probe
  lf_say :: "license_val \<Rightarrow> string"

type_synonym lfleet = "string \<Rightarrow> lnode"

definition license_path_of :: string where "license_path_of = ''/api/v1/cube/license''"

definition marshal_license :: "string \<Rightarrow> string \<Rightarrow> goval" where
  "marshal_license action content = VRec ([(''action'', VStr action)] @ opt_field ''license_content'' content)"

definition decode_license :: "goval \<Rightarrow> (string \<times> string) option" where
  "decode_license v =
     Option.bind (item_map v) (\<lambda>m. Option.bind (decode_string (mget m ''action'')) (\<lambda>action.
     Option.bind (decode_string (mget m ''license_content'')) (\<lambda>content. Some (action, content))))"

definition license_http :: "string option \<Rightarrow> string \<Rightarrow> string \<Rightarrow> string \<Rightarrow> request" where
  "license_http token authHeader action content =
     \<lparr>r_method = ''POST'', r_path = license_path_of,
      r_headers = (case token of None \<Rightarrow> [] | Some t \<Rightarrow> [(InternalTokenHeader, [t])])
        @ (if blank authHeader then [] else [(''Authorization'', [authHeader])]) @ [(''Content-Type'', [''application/json''])],
      r_body = Some (JDoc (reload (marshal_license action content)))\<rparr>"

definition license_body_of :: "request \<Rightarrow> license_body" where
  "license_body_of rq = JsonBody (case r_body rq of Some (JDoc v) \<Rightarrow> decode_license v | _ \<Rightarrow> None)"

definition serve_license :: "lmachine \<Rightarrow> request \<Rightarrow> lnode \<Rightarrow> (nat \<times> nat \<times> license_val) \<times> lnode" where
  "serve_license m rq ln =
     (case Middleware (lsystem m ln) rq of
        Abort code \<Rightarrow> ((code, code, NothingSaid), ln)
      | Next \<Rightarrow> (let (reply, ln1) = LicenseControl m rq (license_body_of rq) ln in (lic_seen reply, ln1)))"

definition callLicenseRemote ::
  "lfabric \<Rightarrow> string \<Rightarrow> string \<Rightarrow> ClusterLicenseRequest \<Rightarrow> string \<Rightarrow> string \<Rightarrow> lfleet \<Rightarrow> LicenseResponse outcome \<times> lfleet" where
  "callLicenseRemote lf self target req content authHeader fl =
     (let fb = lf_fabric lf; own = lm_machine (lf_machine lf self);
          url = buildTargetURL (y_env (ma_system own)) target @ license_path_of;
          rq = license_http (attached_token own (ln_node (fl self))) authHeader (la_Action req) content;
          home = fb_home fb target; ((status, code, val), ln) = serve_license (lf_machine lf home) rq (fl home);
          resp = \<lparr>lr_Code = (if code = 0 then status else code), lr_Val = val\<rparr>
      in case fb_url_error fb url of
           Some err \<Rightarrow> (Inl err, fl)
         | None \<Rightarrow>
             (case fb_delivery fb target of
                Lost err \<Rightarrow> (Inl err, fl)
              | Late err \<Rightarrow> (Inl err, fl(home := ln))
              | Delivered \<Rightarrow> (Inr resp, fl(home := ln))))"

definition applyLicenseLocal :: "lmachine \<Rightarrow> ClusterLicenseRequest \<Rightarrow> string \<Rightarrow> lnode \<Rightarrow> LicenseResponse outcome \<times> lnode" where
  "applyLicenseLocal m req content ln =
     (if la_Action req = ''status'' then (Inr (getLicenseStatus m ln), ln)
      else if la_Action req = ''register'' then register_on_node m content (la_Filename req) ln
      else (Inr \<lparr>lr_Code = 400, lr_Val = UnsupportedAction\<rparr>, ln))"

record LicenseApplyTargetResult =
  lx_Role :: string
  lx_Hostname :: string
  lx_Target :: string
  lx_Code :: nat
  lx_Message :: string
  lx_Attempts :: nat
  lx_Val :: license_val

definition target_result :: "licenseApplyTarget \<Rightarrow> nat \<Rightarrow> string \<Rightarrow> nat \<Rightarrow> license_val \<Rightarrow> LicenseApplyTargetResult" where
  "target_result t code message attempts val =
     \<lparr>lx_Role = lt_Role t, lx_Hostname = lt_Hostname t, lx_Target = lt_Target t, lx_Code = code, lx_Message = message,
      lx_Attempts = attempts, lx_Val = val\<rparr>"

definition licenseApplyMessage :: "(license_val \<Rightarrow> string) \<Rightarrow> LicenseResponse \<Rightarrow> string" where
  "licenseApplyMessage say resp =
     (if lr_Code resp = 200 then ''ok'' else if lr_Val resp = NothingSaid then [] else say (lr_Val resp))"

definition applyLicenseOnTarget ::
  "lfabric \<Rightarrow> string \<Rightarrow> licenseApplyTarget \<Rightarrow> ClusterLicenseRequest \<Rightarrow> string \<Rightarrow> string \<Rightarrow> lfleet \<Rightarrow> LicenseApplyTargetResult \<times> lfleet" where
  "applyLicenseOnTarget lf self t req content authHeader fl =
     (if la_Action req = ''register'' \<and> blank content then (target_result t 400 ''license_content required'' 0 NothingSaid, fl)
      else (let (res, fl1) = (if isLocalTarget (ma_addrs (lm_machine (lf_machine lf self))) (lt_Target t)
                              then (let (res, ln) = applyLicenseLocal (lf_machine lf self) req content (fl self) in (res, fl(self := ln)))
                              else callLicenseRemote lf self (lt_Target t) req content authHeader fl)
            in ((case res of
                   Inl err \<Rightarrow> target_result t 500 err 0 NothingSaid
                 | Inr resp \<Rightarrow> target_result t (if lr_Code resp = 0 then 200 else lr_Code resp) (licenseApplyMessage (lf_say lf) resp) 0 (lr_Val resp)), fl1)))"

section \<open>The distribution\<close>

record LicenseApplyResponse =
  ly_Code :: nat
  ly_Message :: string
  ly_Results :: "LicenseApplyTargetResult list"

fun apply_licenses ::
  "lfabric \<Rightarrow> string \<Rightarrow> ClusterLicenseRequest \<Rightarrow> ClusterSection option \<Rightarrow> string \<Rightarrow> string \<Rightarrow> licenseApplyTarget list \<Rightarrow> lfleet \<Rightarrow>
     LicenseApplyTargetResult list \<times> lfleet" where
  "apply_licenses lf self req cfg authHeader defaultContent [] fl = ([], fl)"
| "apply_licenses lf self req cfg authHeader defaultContent (t # ts) fl =
     (let (attempts, err) = (if la_Action req = ''register'' \<and> la_WaitForReady req \<and> lt_Role t = ''ccvm''
                             then waitCCVMLicenseTargetReady (lf_probe lf) cfg (lt_Target t) else (0, None));
          (result, fl1) =
            (case err of
               Some e \<Rightarrow> (target_result t 500 e attempts NothingSaid, fl)
             | None \<Rightarrow>
                 (let (r, fl1) = applyLicenseOnTarget lf self t req
                        (licenseContentForTarget (fb_order (lf_fabric lf)) req t defaultContent) authHeader fl
                  in (r\<lparr>lx_Attempts := attempts\<rparr>, fl1)));
          (results, fl2) = apply_licenses lf self req cfg authHeader defaultContent ts fl1
      in (result # results, fl2))"

definition firstFailedLicenseApplyResult :: "LicenseApplyTargetResult list \<Rightarrow> LicenseApplyTargetResult option" where
  "firstFailedLicenseApplyResult results = List.find (\<lambda>r. lx_Code r \<noteq> 200) results"

definition plain_response :: "nat \<Rightarrow> string \<Rightarrow> LicenseApplyResponse" where
  "plain_response code message = \<lparr>ly_Code = code, ly_Message = message, ly_Results = []\<rparr>"

definition default_content :: "lmachine \<Rightarrow> ClusterLicenseRequest \<Rightarrow> lnode \<Rightarrow> string outcome" where
  "default_content m req ln =
     (if la_Action req = ''register'' \<and> blank (la_LicenseContent req) \<and> la_Licenses req = fmempty
      then (case currentLocalLicenseContent m ln of Inl err \<Rightarrow> Inl (''license_content required: '' @ err) | Inr content \<Rightarrow> Inr content)
      else Inr (trim_space (la_LicenseContent req)))"

definition runLicenseApply ::
  "lfabric \<Rightarrow> string \<Rightarrow> ClusterLicenseRequest \<Rightarrow> ClusterSection option \<Rightarrow> string \<Rightarrow> lfleet \<Rightarrow> LicenseApplyResponse \<times> lfleet" where
  "runLicenseApply lf self req0 cfg authHeader fl =
     (let action = normalizeLicenseApplyAction (la_Action req0);
          req = req0\<lparr>la_Action := action, la_Filename := firstNonEmpty [la_Filename req0, defaultLicenseFilename]\<rparr>
      in if action = [] then (plain_response 400 ''unsupported action'', fl)
         else (case buildLicenseApplyTargets req cfg of
                 Inl err \<Rightarrow> (plain_response 400 err, fl)
               | Inr targets \<Rightarrow>
                   if targets = [] then (plain_response 400 ''no targets to apply'', fl)
                   else (case default_content (lf_machine lf self) req (fl self) of
                           Inl err \<Rightarrow> (plain_response 400 err, fl)
                         | Inr defaultContent \<Rightarrow>
                             (let (results, fl1) = apply_licenses lf self req cfg authHeader defaultContent targets fl
                              in ((case firstFailedLicenseApplyResult results of
                                     Some failed \<Rightarrow> \<lparr>ly_Code = 500, ly_Message = firstNonEmpty [lx_Message failed, ''license apply failed''], ly_Results = results\<rparr>
                                   | None \<Rightarrow> \<lparr>ly_Code = 200, ly_Message = ''license apply success'', ly_Results = results\<rparr>), fl1)))))"

definition statusCodeFromLicenseApplyResponse :: "LicenseApplyResponse \<Rightarrow> nat" where
  "statusCodeFromLicenseApplyResponse resp = (if ly_Code resp = 200 then 200 else if ly_Code resp = 400 then 400 else 500)"

text \<open>The body is absent, cannot be bound, or is a request.\<close>

datatype apply_body = NoApplyBody | BadApplyBody | ApplyBody ClusterLicenseRequest

definition register_all :: ClusterLicenseRequest where
  "register_all =
     \<lparr>la_Action = ''register'', la_LicenseContent = [], la_Licenses = fmempty, la_Filename = [], la_Roles = [], la_WaitForReady = False,
      lq_Targets = [], lq_TargetHostnames = []\<rparr>"

definition ApplyLicenseToCluster ::
  "lfabric \<Rightarrow> string \<Rightarrow> apply_body \<Rightarrow> string \<Rightarrow> lfleet \<Rightarrow> (nat \<times> LicenseApplyResponse option) \<times> lfleet" where
  "ApplyLicenseToCluster lf self body authHeader fl =
     (let run = (\<lambda>req. (let cfg = loadClusterConfigSection (node_doc (ln_node (fl self)))
                        in if cfg = None \<and> lq_Targets req = [] then ((500, None), fl)
                           else (let (resp, fl1) = runLicenseApply lf self req cfg authHeader fl
                                 in ((statusCodeFromLicenseApplyResponse resp, Some resp), fl1))))
      in case body of BadApplyBody \<Rightarrow> ((400, None), fl) | NoApplyBody \<Rightarrow> run register_all | ApplyBody req \<Rightarrow> run req)"

end
