(* ===== verification/License_Apply_Facts.thy ===== *)
theory License_Apply_Facts
  imports License_Apply
begin

text \<open>
  Licences over a cluster: after a distribution that succeeds the nodes sign with the same secret, an
  active licence is replaced only by a caller that is known, and the name of the file is lost on the way.
\<close>

section \<open>A registration\<close>

lemma Register_listable: "l_listable (snd (Register c machine today fault keep nano encoded filename dir)) = l_listable dir"
  by (auto simp: Register_def write_license_def Let_def split: sum.splits option.splits register_fault.splits prod.splits)

text \<open>A node whose current licence is the one of a content, under a name.\<close>

definition licensed :: "string \<Rightarrow> lmachine \<Rightarrow> lnode \<Rightarrow> bool" where
  "licensed content m ln \<longleftrightarrow>
     (\<exists>body info path. DecodeContent content = Inr body \<and> DecryptInfo (lm_crypto m) body = Inr info
        \<and> ValidateActive (lm_today m) info = Inr () \<and> CurrentInfo (lm_crypto m) (lm_id m) (ln_dir ln) = Inr (info, path))"

definition file_name_of :: "string \<Rightarrow> string" where
  "file_name_of filename = (if blank filename then [] else path_base (trim_space filename))"

lemma Register_gives:
  assumes "Register c machine today fault keep nano encoded filename dir = (Inr st, dir')" and "l_listable dir" and "\<And>n. \<not> keep n"
  shows "\<exists>body info uuid. DecodeContent encoded = Inr body \<and> DecryptInfo c body = Inr info \<and> ValidateActive today info = Inr ()
     \<and> ReadMachineID machine = Inr uuid \<and> CurrentInfo c machine dir' = Inr (info, license_path uuid (file_name_of filename))
     \<and> CurrentLicenseFile machine dir' = Inr (license_path uuid (file_name_of filename))"
proof -
  obtain body info uuid where r: "DecodeContent encoded = Inr body" "DecryptInfo c body = Inr info"
      "ValidateActive today info = Inr ()" "ReadMachineID machine = Inr uuid"
      "write_license fault keep nano (file_name_of filename) body (dir\<lparr>l_exists := True\<rparr>) = (Inr (), dir')"
    using assms(1) by (auto simp: Register_def file_name_of_def Let_def split: sum.splits prod.splits if_splits)
  have files: "l_files dir' = fmupd (file_name_of filename) body fmempty" "l_listable dir'" "l_exists dir'"
    using write_license_ok [OF r(5)] assms(2,3) by simp_all
  have sel: "selected_file machine dir' = Inr (uuid, file_name_of filename)" by (rule selected_single [OF files(1,3,2) r(4)])
  show ?thesis
    using r by (simp add: CurrentInfo_def CurrentLicenseFile_def sel files DecodeContent_trimmed [OF r(1)])
qed

lemma register_dir:
  "ln_dir (snd (register_on_node m content filename ln)) =
     snd (Register (lm_crypto m) (lm_id m) (lm_today m) (lm_fault m) (lm_keep m) (lm_nano m) content filename (ln_dir ln))"
  by (auto simp: register_on_node_def Let_def split: prod.splits sum.splits)

lemma register_done:
  assumes "register_on_node m content filename ln = (Inr resp, ln')" and "lr_Code resp = 200"
  shows "\<exists>st. Register (lm_crypto m) (lm_id m) (lm_today m) (lm_fault m) (lm_keep m) (lm_nano m) content filename (ln_dir ln) = (Inr st, ln_dir ln')"
proof -
  obtain res dir where r: "Register (lm_crypto m) (lm_id m) (lm_today m) (lm_fault m) (lm_keep m) (lm_nano m) content filename (ln_dir ln) = (res, dir)"
    by (metis prod.exhaust)
  have "ln_dir ln' = dir" using register_dir [of m content filename ln] assms(1) r by simp
  moreover have "\<exists>st. res = Inr st"
    using assms r by (cases res) (auto simp: register_on_node_def Let_def split: if_splits)
  ultimately show ?thesis using r by auto
qed

lemma register_licenses:
  assumes "register_on_node m content filename ln = (Inr resp, ln')" and "lr_Code resp = 200"
    and "l_listable (ln_dir ln)" and "\<And>n. \<not> lm_keep m n"
  shows "licensed content m ln'"
    and "\<exists>uuid. ReadMachineID (lm_id m) = Inr uuid \<and> CurrentLicenseFile (lm_id m) (ln_dir ln') = Inr (license_path uuid (file_name_of filename))"
proof -
  obtain st where "Register (lm_crypto m) (lm_id m) (lm_today m) (lm_fault m) (lm_keep m) (lm_nano m) content filename (ln_dir ln) = (Inr st, ln_dir ln')"
    using register_done [OF assms(1,2)] by blast
  from Register_gives [OF this assms(3,4)] show "licensed content m ln'"
    "\<exists>uuid. ReadMachineID (lm_id m) = Inr uuid \<and> CurrentLicenseFile (lm_id m) (ln_dir ln') = Inr (license_path uuid (file_name_of filename))"
    by (auto simp: licensed_def)
qed

section \<open>A node\<close>

text \<open>
  C25. An active licence is replaced only by a known caller: if the request for a licence changes anything
  on a node with an active licence, its licence files, its document or its token, then it carried an
  access token that the node accepts or the internal token of the node, although its path is open to all.
\<close>

theorem licence_replaced_by_known:
  assumes "LicenseControl m rq body ln = (reply, ln')" and "ln' \<noteq> ln"
    and "HasActiveLicense (lm_crypto m) (lm_id m) (lm_today m) (ln_dir ln)"
  shows "isPublicPath ''/api/v1/cube/license''
     \<and> ((\<exists>claim. ClaimsFromRequest (lsystem m ln) rq = Inr claim)
        \<or> ValidateInternalToken (y_env (ma_system (lm_machine m))) (get_header rq InternalTokenHeader) (node_store (ln_node ln)))"
proof -
  have "may_replace m rq ln"
    using assms(1,2) by (auto simp: LicenseControl_def Let_def split: sum.splits if_splits)
  then show ?thesis using assms(3) by (auto simp: may_replace_def isPublicPath_def split: sum.splits)
qed

lemma control_register:
  assumes "LicenseControl m rq (JsonBody (Some (''register'', content))) ln = (reply, ln')"
    and "lic_seen reply = (status, code, val)" and "code = 200 \<or> code = 0 \<and> status = 200"
  shows "\<exists>resp. register_on_node m content defaultLicenseFilename ln = (Inr resp, ln') \<and> lr_Code resp = 200"
proof -
  have a: "normalizeLicenseAction ''register'' = ''register''" "\<not> blank defaultLicenseFilename" by code_simp+
  show ?thesis
    using assms a
    by (auto simp: LicenseControl_def bindLicenseRequest_def lic_seen_def registerLicense_def Let_def
        split: if_splits prod.splits sum.splits license_reply.splits)
qed

lemma control_listable: "l_listable (ln_dir (snd (LicenseControl m rq body ln))) = l_listable (ln_dir ln)"
  by (auto simp: LicenseControl_def registerLicense_def Let_def register_dir [symmetric] Register_listable
      split: sum.splits prod.splits) (metis Register_listable register_dir snd_conv)+

section \<open>A target\<close>

lemma license_wire: "decode_license (reload (marshal_license action content)) = Some (action, content)"
proof -
  let ?fs = "[(''action'', VStr action)] @ opt_field ''license_content'' content"
  have f: "decode_string (field ?fs ''action'') = Some action" "decode_string (field ?fs ''license_content'') = Some content"
    by (auto intro!: decode_field simp: struct_fields simp del: map_of_append split: if_splits)
  show ?thesis unfolding marshal_license_def decode_license_def item_map_rec Option.bind.bind_lunit mget_field f by simp
qed

lemma license_body_http: "license_body_of (license_http token auth action content) = JsonBody (Some (action, content))"
  by (simp add: license_body_of_def license_http_def license_wire)

lemma remote_register:
  assumes "callLicenseRemote lf self target req content auth fl = (Inr resp, fl')" and "lr_Code resp = 200" and "la_Action req = ''register''"
  shows "\<exists>r. register_on_node (lf_machine lf (fb_home (lf_fabric lf) target)) content defaultLicenseFilename (fl (fb_home (lf_fabric lf) target))
      = (Inr r, fl' (fb_home (lf_fabric lf) target)) \<and> lr_Code r = 200"
    and "n \<noteq> fb_home (lf_fabric lf) target \<Longrightarrow> fl' n = fl n"
proof -
  let ?home = "fb_home (lf_fabric lf) target"
  let ?m = "lf_machine lf ?home"
  let ?rq = "license_http (attached_token (lm_machine (lf_machine lf self)) (ln_node (fl self))) auth ''register'' content"
  obtain status code val ln where s: "serve_license ?m ?rq (fl ?home) = ((status, code, val), ln)" by (metis prod.exhaust)
  have fl': "fl' = fl(?home := ln)" and code: "code = 200 \<or> code = 0 \<and> status = 200"
    using assms s by (auto simp: callLicenseRemote_def Let_def split: option.splits transmission.splits if_splits)
  have "\<exists>reply. LicenseControl ?m ?rq (JsonBody (Some (''register'', content))) (fl ?home) = (reply, ln) \<and> lic_seen reply = (status, code, val)"
    using s code gate_codes [of "lsystem ?m (fl ?home)" ?rq]
    by (auto simp: serve_license_def license_body_http Let_def split: gate.splits prod.splits)
  then show "\<exists>r. register_on_node ?m content defaultLicenseFilename (fl ?home) = (Inr r, fl' ?home) \<and> lr_Code r = 200"
    using control_register code fl' by fastforce
  show "n \<noteq> ?home \<Longrightarrow> fl' n = fl n" using fl' by simp
qed

lemma control_code:
  assumes "LicenseControl m rq body ln = (reply, ln')" and "lic_seen reply = (status, code, val)"
  shows "code \<noteq> 0 \<or> status \<noteq> 0"
proof -
  have "lr_Code r \<noteq> 0" if "registerLicense m c f ln = (Inr r, ln')" for c f r
    using that by (auto simp: registerLicense_def register_on_node_def Let_def split: sum.splits prod.splits if_splits)
  then show ?thesis
    using assms
    by (auto simp: LicenseControl_def lic_seen_def getLicenseStatus_def Let_def split: sum.splits prod.splits if_splits license_error.splits)
qed

lemma remote_code:
  assumes "callLicenseRemote lf self target req content auth fl = (Inr resp, fl')"
  shows "lr_Code resp \<noteq> 0"
proof -
  let ?home = "fb_home (lf_fabric lf) target"
  let ?rq = "license_http (attached_token (lm_machine (lf_machine lf self)) (ln_node (fl self))) auth (la_Action req) content"
  obtain status code val ln where s: "serve_license (lf_machine lf ?home) ?rq (fl ?home) = ((status, code, val), ln)" by (metis prod.exhaust)
  have "code \<noteq> 0 \<or> status \<noteq> 0"
    using s control_code [of "lf_machine lf ?home" ?rq "license_body_of ?rq" "fl ?home"] gate_codes [of "lsystem (lf_machine lf ?home) (fl ?home)" ?rq]
    by (auto simp: serve_license_def Let_def split: gate.splits prod.splits)
  then show ?thesis
    using assms s by (auto simp: callLicenseRemote_def Let_def split: option.splits transmission.splits if_splits)
qed

definition license_home :: "lfabric \<Rightarrow> string \<Rightarrow> string \<Rightarrow> string" where
  "license_home lf self target =
     (if isLocalTarget (ma_addrs (lm_machine (lf_machine lf self))) target then self else fb_home (lf_fabric lf) target)"

lemma on_target:
  assumes "applyLicenseOnTarget lf self t req content auth fl = (r, fl')" and "lx_Code r = 200" and "la_Action req = ''register''"
  shows "\<exists>filename resp. register_on_node (lf_machine lf (license_home lf self (lt_Target t))) content filename (fl (license_home lf self (lt_Target t)))
      = (Inr resp, fl' (license_home lf self (lt_Target t))) \<and> lr_Code resp = 200"
    and "n \<noteq> license_home lf self (lt_Target t) \<Longrightarrow> fl' n = fl n"
proof -
  have codes: "lr_Code resp = 200" if "register_on_node m c f ln = (Inr resp, ln')" "(if lr_Code resp = 0 then 200 else lr_Code resp) = 200" for m c f ln resp ln'
    using that by (auto simp: register_on_node_def Let_def split: sum.splits prod.splits if_splits)
  have not_zero: "lr_Code resp \<noteq> 0" if "callLicenseRemote lf self target req content auth fl = (Inr resp, fl1)" for resp target fl1
    by (rule remote_code [OF that])
  have "(\<exists>filename resp. register_on_node (lf_machine lf (license_home lf self (lt_Target t))) content filename (fl (license_home lf self (lt_Target t)))
      = (Inr resp, fl' (license_home lf self (lt_Target t))) \<and> lr_Code resp = 200)
    \<and> (\<forall>n. n \<noteq> license_home lf self (lt_Target t) \<longrightarrow> fl' n = fl n)"
  proof (cases "isLocalTarget (ma_addrs (lm_machine (lf_machine lf self))) (lt_Target t)")
    case True
    obtain res ln where l: "register_on_node (lf_machine lf self) content (la_Filename req) (fl self) = (res, ln)" by (metis prod.exhaust)
    have x: "fl' = fl(self := ln) \<and> (\<exists>resp. res = Inr resp \<and> (if lr_Code resp = 0 then 200 else lr_Code resp) = 200)"
      using assms True l
      by (auto simp: applyLicenseOnTarget_def applyLicenseLocal_def target_result_def Let_def split: if_splits sum.splits)
    then obtain resp where "res = Inr resp" "lr_Code resp = 200" using codes l by blast
    then show ?thesis using x l True by (auto simp: license_home_def)
  next
    case False
    obtain res fl1 where c: "callLicenseRemote lf self (lt_Target t) req content auth fl = (res, fl1)" by (metis prod.exhaust)
    have same: "fl' = fl1" "\<exists>resp. res = Inr resp \<and> (if lr_Code resp = 0 then 200 else lr_Code resp) = 200"
      using assms False c by (auto simp: applyLicenseOnTarget_def target_result_def Let_def split: if_splits sum.splits)
    then obtain resp where r: "res = Inr resp" "(if lr_Code resp = 0 then 200 else lr_Code resp) = 200" by blast
    have "lr_Code resp = 200" using r(2) not_zero [OF c [unfolded r(1)]] by simp
    then show ?thesis
      using remote_register [OF c [unfolded r(1)] _ assms(3)] same(1) False by (auto simp: license_home_def)
  qed
  then show "\<exists>filename resp. register_on_node (lf_machine lf (license_home lf self (lt_Target t))) content filename (fl (license_home lf self (lt_Target t)))
      = (Inr resp, fl' (license_home lf self (lt_Target t))) \<and> lr_Code resp = 200"
    "n \<noteq> license_home lf self (lt_Target t) \<Longrightarrow> fl' n = fl n"
    by simp_all
qed

section \<open>The whole cluster\<close>

lemma find_failed: "firstFailedLicenseApplyResult results = None \<Longrightarrow> \<forall>r \<in> set results. lx_Code r = 200"
  by (auto simp: firstFailedLicenseApplyResult_def find_None_iff)

lemma target_kept:
  assumes "applyLicenseOnTarget lf self t req content auth fl = (r, fl')"
  shows "lx_Target r = lt_Target t"
  using assms by (auto simp: applyLicenseOnTarget_def target_result_def Let_def split: if_splits prod.splits sum.splits)

lemma licenses_applied:
  assumes "apply_licenses lf self req cfg auth content ts fl = (results, fl')" and "\<forall>r \<in> set results. lx_Code r = 200"
    and "la_Action req = ''register''" and "la_Licenses req = fmempty"
    and "\<And>n. l_listable (ln_dir (fl n))" and "\<And>n name. \<not> lm_keep (lf_machine lf n) name"
  shows "(\<forall>n. licensed (trim_space content) (lf_machine lf n) (fl n) \<longrightarrow> licensed (trim_space content) (lf_machine lf n) (fl' n))
    \<and> (\<forall>r \<in> set results. licensed (trim_space content) (lf_machine lf (license_home lf self (lx_Target r))) (fl' (license_home lf self (lx_Target r))))
    \<and> length results = length ts"
  using assms(1,2,5)
proof (induction ts arbitrary: fl results)
  case (Cons t ts)
  let ?home = "license_home lf self (lt_Target t)"
  have content: "licenseContentForTarget (fb_order (lf_fabric lf)) req t content = trim_space content"
    using assms(4) by (simp add: licenseContentForTarget_def)
  obtain r fl1 where a: "applyLicenseOnTarget lf self t req (trim_space content) auth fl = (r, fl1)" by (metis prod.exhaust)
  obtain attempts err where w: "(if la_Action req = ''register'' \<and> la_WaitForReady req \<and> lt_Role t = ''ccvm''
      then waitCCVMLicenseTargetReady (lf_probe lf) cfg (lt_Target t) else (0, None)) = (attempts, err)"
    by (metis prod.exhaust)
  have ready: "err = None"
  proof (rule ccontr)
    assume "err \<noteq> None"
    then obtain e where "err = Some e" by blast
    then have "\<exists>x \<in> set results. lx_Code x = 500"
      using Cons.prems(1) w by (auto simp: target_result_def Let_def split: prod.splits)
    then show False using Cons.prems(2) by auto
  qed
  obtain others where rest: "apply_licenses lf self req cfg auth content ts fl1 = (others, fl')" "results = r\<lparr>lx_Attempts := attempts\<rparr> # others"
    using Cons.prems(1) w ready a content by (auto simp: Let_def split: prod.splits)
  have ok: "lx_Code r = 200" using Cons.prems(2) rest(2) by simp
  obtain filename resp where reg: "register_on_node (lf_machine lf ?home) (trim_space content) filename (fl ?home) = (Inr resp, fl1 ?home)" "lr_Code resp = 200"
    using on_target(1) [OF a ok assms(3)] by blast
  have same: "fl1 n = fl n" if "n \<noteq> ?home" for n by (rule on_target(2) [OF a ok assms(3) that])
  have lic: "licensed (trim_space content) (lf_machine lf ?home) (fl1 ?home)" by (rule register_licenses(1) [OF reg Cons.prems(3) assms(6)])
  have "l_listable (ln_dir (fl1 ?home))"
    using Cons.prems(3) [of ?home] Register_listable register_dir [of "lf_machine lf ?home" "trim_space content" filename "fl ?home"] reg(1) by simp
  then have tidy: "l_listable (ln_dir (fl1 n))" for n using same [of n] Cons.prems(3) [of n] by (cases "n = ?home") auto
  have "\<forall>x \<in> set others. lx_Code x = 200" using Cons.prems(2) rest(2) by simp
  note IH = Cons.IH [OF rest(1) this tidy]
  have kept: "licensed (trim_space content) (lf_machine lf n) (fl1 n)" if "licensed (trim_space content) (lf_machine lf n) (fl n)" for n
    using that lic same [of n] by (cases "n = ?home") auto
  show ?case using IH kept lic rest(2) target_kept [OF a] by auto
qed simp

lemma licensed_secret:
  assumes "licensed content m ln" and "lm_crypto m = c" and "DecodeContent content = Inr body" and "DecryptInfo c body = Inr info"
  shows "HasActiveLicense (lm_crypto m) (lm_id m) (lm_today m) (ln_dir ln) \<and> ExistingSigningSecret (lsystem m ln) = map_sum LicenseRequired id (DeriveAuthSecret c (LicenseKey info))"
proof -
  obtain path where p: "ValidateActive (lm_today m) info = Inr ()" "CurrentInfo (lm_crypto m) (lm_id m) (ln_dir ln) = Inr (info, path)"
    using assms by (auto simp: licensed_def)
  have "\<not> blank (LicenseKey info)" using p(1) by (auto simp: ValidateActive_def split: if_splits)
  then show ?thesis
    using p assms(2)
    by (simp add: HasActiveLicense_def CurrentAuthSecret_def ExistingSigningSecret_def lsystem_def lm_crypto_def lm_id_def lm_today_def system_of_def
        DeriveAuthSecret_def)
qed

text \<open>
  C6. A distribution that succeeds makes the nodes sign alike: when one licence was registered on every
  target, with directories that can be listed and cleaned, then every node that was asked has an active
  licence, and all of them derive one and the same signing secret, so that each accepts the access
  tokens of the others, whatever licences they had before.
\<close>

theorem apply_shares_secret:
  assumes "runLicenseApply lf self req cfg auth fl = (resp, fl')" and "ly_Code resp = 200"
    and "normalizeLicenseApplyAction (la_Action req) = ''register''" and "la_Licenses req = fmempty"
    and "\<And>n. l_listable (ln_dir (fl n))" and "\<And>n name. \<not> lm_keep (lf_machine lf n) name" and "\<And>n. lm_crypto (lf_machine lf n) = c"
  shows "ly_Results resp \<noteq> [] \<and> (\<exists>secret. \<forall>r \<in> set (ly_Results resp).
     let home = license_home lf self (lx_Target r); m = lf_machine lf home
     in HasActiveLicense c (lm_id m) (lm_today m) (ln_dir (fl' home)) \<and> ExistingSigningSecret (lsystem m (fl' home)) = Inr secret)"
proof -
  let ?req = "req\<lparr>la_Action := ''register'', la_Filename := firstNonEmpty [la_Filename req, defaultLicenseFilename]\<rparr>"
  obtain targets content results where run: "targets \<noteq> []" "apply_licenses lf self ?req cfg auth content targets fl = (results, fl')"
      "ly_Results resp = results" "firstFailedLicenseApplyResult results = None"
    using assms(1-3)
    by (auto simp: runLicenseApply_def plain_response_def Let_def split: sum.splits if_splits option.splits prod.splits)
  have "la_Action ?req = ''register''" "la_Licenses ?req = fmempty" using assms(4) by simp_all
  note all = licenses_applied [OF run(2) find_failed [OF run(4)] this assms(5,6)]
  then have ne: "results \<noteq> []" using run(1) by force
  have lic: "licensed (trim_space content) (lf_machine lf (license_home lf self (lx_Target r))) (fl' (license_home lf self (lx_Target r)))" if "r \<in> set results" for r
    using all that by blast
  obtain body info where body: "DecodeContent (trim_space content) = Inr body" "DecryptInfo c body = Inr info" "\<not> blank (LicenseKey info)"
  proof -
    from lic [of "hd results"] ne assms(7) have "\<exists>body info. DecodeContent (trim_space content) = Inr body \<and> DecryptInfo c body = Inr info \<and> \<not> blank (LicenseKey info)"
      by (auto simp: licensed_def ValidateActive_def split: if_splits)
    then show ?thesis using that by blast
  qed
  have "HasActiveLicense c (lm_id (lf_machine lf (license_home lf self (lx_Target r)))) (lm_today (lf_machine lf (license_home lf self (lx_Target r))))
        (ln_dir (fl' (license_home lf self (lx_Target r))))
      \<and> ExistingSigningSecret (lsystem (lf_machine lf (license_home lf self (lx_Target r))) (fl' (license_home lf self (lx_Target r))))
        = Inr (raw_url_encode (c_hmac c (trim_space (LicenseKey info)) authSecretContext))" if "r \<in> set results" for r
    using licensed_secret [OF lic [OF that] assms(7) body(1,2)] body(3) assms(7) by (simp add: DeriveAuthSecret_def)
  then show ?thesis unfolding Let_def run(3) using ne by blast
qed

text \<open>
  The name of the licence file is lost on the way: a licence that was registered on another node is
  the current licence there under the name \<^verbatim>\<open>license.lic\<close>, whatever name the request gives
  for saving it on the targets.
\<close>

theorem remote_name_is_fixed:
  assumes "callLicenseRemote lf self target req content auth fl = (Inr resp, fl')" and "lr_Code resp = 200" and "la_Action req = ''register''"
    and "l_listable (ln_dir (fl (fb_home (lf_fabric lf) target)))" and "\<And>name. \<not> lm_keep (lf_machine lf (fb_home (lf_fabric lf) target)) name"
  shows "\<exists>uuid. CurrentLicenseFile (lm_id (lf_machine lf (fb_home (lf_fabric lf) target))) (ln_dir (fl' (fb_home (lf_fabric lf) target)))
     = Inr (''/usr/share/'' @ uuid @ ''/license.lic'')"
proof -
  obtain r where reg: "register_on_node (lf_machine lf (fb_home (lf_fabric lf) target)) content defaultLicenseFilename (fl (fb_home (lf_fabric lf) target))
      = (Inr r, fl' (fb_home (lf_fabric lf) target))" "lr_Code r = 200"
    using remote_register(1) [OF assms(1-3)] by blast
  have "file_name_of defaultLicenseFilename = ''license.lic''" by code_simp
  then show ?thesis using register_licenses(2) [OF reg assms(4,5)] by (auto simp: license_path_def)
qed

section \<open>A cluster of one node\<close>

definition sample_lmachine :: lmachine where
  "sample_lmachine = \<lparr>lm_machine = sample_machine, lm_fault = None, lm_keep = (\<lambda>name. False), lm_nano = 1\<rparr>"

definition sample_lnode :: "license_dir \<Rightarrow> lnode" where
  "sample_lnode dir = \<lparr>ln_node = sample_node, ln_dir = dir\<rparr>"

definition sample_lfabric :: lfabric where
  "sample_lfabric =
     \<lparr>lf_fabric = sample_fabric, lf_machine = (\<lambda>n. sample_lmachine),
      lf_probe = \<lparr>cp_pcs = (\<lambda>i. \<lparr>pa_Code = 500, pa_Message = [], pa_ValText = [], pa_Role = [], pa_Started = []\<rparr>), cp_domstate = (\<lambda>i. ([], None))\<rparr>,
      lf_say = (\<lambda>v. [])\<rparr>"

definition sample_distribution :: ClusterLicenseRequest where
  "sample_distribution =
     register_all\<lparr>la_LicenseContent := sample_content, la_Filename := ''mine.lic'', lq_Targets := [''10.0.0.1'']\<rparr>"

lemma lm_fields: "lm_crypto sample_lmachine = sample_crypto" "lm_id sample_lmachine = Some ''id''" "lm_today sample_lmachine = (2024, 2, 29)"
  by (simp_all add: lm_crypto_def lm_id_def lm_today_def sample_lmachine_def sample_machine_def sample_system_def)

lemma default_name: "trim_space ''license.lic'' = ''license.lic''" "path_base ''license.lic'' = ''license.lic''" "trim_space sample_content = sample_content"
  by code_simp+

lemma sample_registers:
  assumes "l_listable dir" and "''license.lic'' \<notin> set (l_subdirs dir)"
  shows "\<exists>ln'. register_on_node sample_lmachine sample_content ''license.lic'' (sample_lnode dir) = (Inr \<lparr>lr_Code = 200, lr_Val = Registered\<rparr>, ln')
    \<and> l_files (ln_dir ln') = fmupd ''license.lic'' (std_encode (replicate 16 (CHR 0x10))) fmempty"
proof -
  obtain st dir' where reg: "Register sample_crypto (Some ''id'') (2024, 2, 29) None (\<lambda>name. False) 1 sample_content ''license.lic'' dir = (Inr st, dir')"
      "l_files dir' = fmupd ''license.lic'' (std_encode (replicate 16 (CHR 0x10))) fmempty"
  proof -
    have keep: "fmfilter (\<lambda>name. name = ''license.lic'') (fmupd ''license.lic'' v m) = fmupd ''license.lic'' v fmempty" for v m
      by (rule fmap_ext) auto
    have "\<exists>st dir'. Register sample_crypto (Some ''id'') (2024, 2, 29) None (\<lambda>name. False) 1 sample_content ''license.lic'' dir = (Inr st, dir')
        \<and> l_files dir' = fmupd ''license.lic'' (std_encode (replicate 16 (CHR 0x10))) fmempty"
      using assms keep by (simp add: Register_def sample_license default_name ReadMachineID_def write_license_def Let_def)
    then show ?thesis using that by blast
  qed
  let ?m = "sample_machine"
  have tok: "EnsureInternalToken (y_env (ma_system ?m)) (ma_gen ?m) (ma_fault ?m) (node_store sample_node) = (Inr (''tok'', False), node_store sample_node)"
  proof -
    have "internalTokenFromRoot root = ''tok''" if "loadClusterRoot (s_doc (node_store sample_node)) = Some root" for root
      using sample_token sample_no_env that by (simp add: GetInternalToken_def)
    moreover have "\<exists>root. loadClusterRoot (s_doc (node_store sample_node)) = Some root"
      by (simp add: loadClusterRoot_def node_store_def sample_node_def sample_world_def)
    ultimately show ?thesis using sample_no_env by (auto simp: EnsureInternalToken_def)
  qed
  have same: "put_store (node_store sample_node) sample_node = sample_node" by (simp add: put_store_def node_store_def)
  have sync: "\<exists>nd. syncLicenseSystemProfile st sample_node = (Inr (), nd)"
    by (simp add: syncLicenseSystemProfile_def loadClusterJSONRoot_def ensureSystemProfileMap_def node_doc_def sample_node_def sample_world_def
        NormalizeClusterJSON_def [of "fmupd _ _ fmempty"] item_map_def saveClusterJSONRoot_def Let_def)
  then obtain nd where "syncLicenseSystemProfile st sample_node = (Inr (), nd)" by blast
  then show ?thesis
    using reg tok same lm_fields
    by (simp add: register_on_node_def sample_lnode_def sample_lmachine_def Let_def)
qed

lemma sample_replaces: "may_replace sample_lmachine rq (sample_lnode sample_dir)"
proof -
  have "CurrentAuthSecret sample_crypto (Some ''id'') (2024, 2, 29) sample_dir \<noteq> Inr x" for x
  proof -
    have "selected_file (Some ''id'') sample_dir = Inr (''id'', ''old.lic'')"
      by (rule selected_single [where content = "''old''"]) (simp_all add: sample_dir_def ReadMachineID_def sample_license)
    moreover have "\<exists>err. DecryptInfo sample_crypto (trim_space ''old'') = Inl err"
    proof -
      have "case DecryptInfo sample_crypto (trim_space ''old'') of Inl err \<Rightarrow> True | Inr i \<Rightarrow> False" by code_simp
      then show ?thesis by (auto split: sum.splits)
    qed
    ultimately show ?thesis by (auto simp: CurrentAuthSecret_def CurrentInfo_def sample_dir_def)
  qed
  then have "\<not> HasActiveLicense sample_crypto (Some ''id'') (2024, 2, 29) sample_dir"
    by (auto simp: HasActiveLicense_def split: sum.splits)
  then show ?thesis using lm_fields by (simp add: may_replace_def sample_lnode_def)
qed

lemma public_gate: "Middleware y (license_http token auth action content) = Next"
  by (simp add: Middleware_def license_http_def license_path_of_def isPublicPath_def)

lemma sample_call:
  "\<exists>fl'. callLicenseRemote sample_lfabric ''cube1'' ''10.0.0.1'' (sample_distribution\<lparr>la_Filename := name\<rparr>) sample_content [] (\<lambda>n. sample_lnode sample_dir)
     = (Inr \<lparr>lr_Code = 200, lr_Val = Registered\<rparr>, fl')"
proof -
  obtain ln' where r: "register_on_node sample_lmachine sample_content ''license.lic'' (sample_lnode sample_dir) = (Inr \<lparr>lr_Code = 200, lr_Val = Registered\<rparr>, ln')"
    using sample_registers [of sample_dir] by (auto simp: sample_dir_def)
  have a: "normalizeLicenseAction ''register'' = ''register''" "\<not> blank ''license.lic''" "\<not> blank sample_content" by code_simp+
  have "LicenseControl sample_lmachine rq (JsonBody (Some (''register'', sample_content))) (sample_lnode sample_dir) = (LicAnswer \<lparr>lr_Code = 200, lr_Val = Registered\<rparr>, ln')" for rq
    using a r sample_replaces
    by (simp add: LicenseControl_def bindLicenseRequest_def registerLicense_def defaultLicenseFilename_def Let_def)
  then have "serve_license sample_lmachine (license_http token [] ''register'' sample_content) (sample_lnode sample_dir) = ((200, 200, Registered), ln')" for token
    by (simp add: serve_license_def public_gate license_body_http lic_seen_def)
  moreover have "la_Action (sample_distribution\<lparr>la_Filename := name\<rparr>) = ''register''" by (simp add: sample_distribution_def register_all_def)
  ultimately show ?thesis
    by (simp add: callLicenseRemote_def sample_lfabric_def sample_fabric_def Let_def)
qed

lemma sample_distributes:
  "\<exists>resp fl'. runLicenseApply sample_lfabric ''cube1'' sample_distribution None [] (\<lambda>n. sample_lnode sample_dir) = (resp, fl') \<and> ly_Code resp = 200"
proof -
  let ?req = "sample_distribution\<lparr>la_Action := ''register'', la_Filename := ''mine.lic''\<rparr>" and ?fl = "\<lambda>n::string. sample_lnode sample_dir"
  have req: "la_Action sample_distribution = ''register''" "la_Licenses sample_distribution = fmempty" "lq_Targets sample_distribution = [''10.0.0.1'']"
      "la_LicenseContent sample_distribution = sample_content" "la_WaitForReady sample_distribution = False"
      "la_Filename sample_distribution = ''mine.lic''"
    by (simp_all add: sample_distribution_def register_all_def)
  have norm: "normalizeLicenseApplyAction ''register'' = ''register''" "firstNonEmpty [''mine.lic'', defaultLicenseFilename] = ''mine.lic''"
      "dedupeHosts [''10.0.0.1''] = [''10.0.0.1'']" "\<not> blank sample_content" "\<not> equal_fold ''10.0.0.1'' ''localhost''"
    by code_simp+
  then have remote: "\<not> isLocalTarget [] ''10.0.0.1''" by (simp add: isLocalTarget_def split: option.split)
  let ?t = "\<lparr>lt_Role = ''custom'', lt_Hostname = [], lt_Target = ''10.0.0.1'', lt_Host = None\<rparr>"
  have targets: "buildLicenseApplyTargets ?req None = Inr [?t]" using req norm by (simp add: buildLicenseApplyTargets_def)
  obtain fl' where call: "callLicenseRemote sample_lfabric ''cube1'' ''10.0.0.1'' ?req sample_content [] ?fl = (Inr \<lparr>lr_Code = 200, lr_Val = Registered\<rparr>, fl')"
    using sample_call [of "''mine.lic''"] by (auto simp: sample_distribution_def register_all_def)
  have addrs: "ma_addrs (lm_machine (lf_machine sample_lfabric ''cube1'')) = []"
    by (simp add: sample_lfabric_def sample_lmachine_def sample_machine_def)
  have "applyLicenseOnTarget sample_lfabric ''cube1'' ?t ?req sample_content [] ?fl = (target_result ?t 200 ''ok'' 0 Registered, fl')"
    using call norm addrs remote by (simp add: applyLicenseOnTarget_def licenseApplyMessage_def)
  moreover have "licenseContentForTarget order ?req ?t sample_content = sample_content" for order
    using req default_name by (simp add: licenseContentForTarget_def)
  ultimately have "apply_licenses sample_lfabric ''cube1'' ?req None [] sample_content [?t] ?fl = ([target_result ?t 200 ''ok'' 0 Registered], fl')"
    using req by (simp add: target_result_def)
  moreover have "default_content (lf_machine sample_lfabric ''cube1'') ?req (?fl ''cube1'') = Inr sample_content"
    using req norm default_name by (simp add: default_content_def)
  ultimately show ?thesis
    using req norm targets
    by (simp add: runLicenseApply_def firstFailedLicenseApplyResult_def target_result_def Let_def del: apply_licenses.simps)
qed

theorem apply_shares_secret_witness:
  "\<exists>resp fl'. runLicenseApply sample_lfabric ''cube1'' sample_distribution None [] (\<lambda>n. sample_lnode sample_dir) = (resp, fl') \<and> ly_Results resp \<noteq> []"
proof -
  obtain resp fl' where run: "runLicenseApply sample_lfabric ''cube1'' sample_distribution None [] (\<lambda>n. sample_lnode sample_dir) = (resp, fl')" "ly_Code resp = 200"
    using sample_distributes by blast
  have "normalizeLicenseApplyAction (la_Action sample_distribution) = ''register''"
  proof -
    have "normalizeLicenseApplyAction ''register'' = ''register''" by code_simp
    then show ?thesis by (simp add: sample_distribution_def register_all_def)
  qed
  moreover have "la_Licenses sample_distribution = fmempty" by (simp add: sample_distribution_def register_all_def)
  moreover have "l_listable (ln_dir (sample_lnode sample_dir))" by (simp add: sample_lnode_def sample_dir_def)
  moreover have "\<not> lm_keep (lf_machine sample_lfabric n) name" "lm_crypto (lf_machine sample_lfabric n) = sample_crypto" for n name
    using lm_fields by (simp_all add: sample_lfabric_def sample_lmachine_def)
  ultimately show ?thesis using apply_shares_secret [OF run] run(1) by blast
qed

theorem remote_name_is_fixed_witness:
  "\<exists>resp fl' uuid. callLicenseRemote sample_lfabric ''cube1'' ''10.0.0.1'' (sample_distribution\<lparr>la_Filename := ''mine.lic''\<rparr>) sample_content []
        (\<lambda>n. sample_lnode sample_dir) = (Inr resp, fl')
     \<and> CurrentLicenseFile (Some ''id'') (ln_dir (fl' ''cube1'')) = Inr (''/usr/share/'' @ uuid @ ''/license.lic'')"
proof -
  obtain fl' where call: "callLicenseRemote sample_lfabric ''cube1'' ''10.0.0.1'' (sample_distribution\<lparr>la_Filename := ''mine.lic''\<rparr>) sample_content []
      (\<lambda>n. sample_lnode sample_dir) = (Inr \<lparr>lr_Code = 200, lr_Val = Registered\<rparr>, fl')"
    using sample_call by blast
  have home: "fb_home (lf_fabric sample_lfabric) t = ''cube1''" "lf_machine sample_lfabric n = sample_lmachine" for t n
    by (simp_all add: sample_lfabric_def sample_fabric_def)
  have "la_Action (sample_distribution\<lparr>la_Filename := ''mine.lic''\<rparr>) = ''register''" "l_listable (ln_dir (sample_lnode sample_dir))"
      "\<not> lm_keep sample_lmachine name" for name
    by (simp_all add: sample_distribution_def register_all_def sample_lnode_def sample_dir_def sample_lmachine_def)
  then show ?thesis using remote_name_is_fixed [OF call] call lm_fields home by simp
qed

definition licensed_dir :: license_dir where
  "licensed_dir = y_dir (sample_system fmempty)"

theorem licence_replaced_by_known_witness:
  "\<exists>reply ln'. LicenseControl sample_lmachine (license_http (Some ''tok'') [] ''register'' sample_content)
        (JsonBody (Some (''register'', sample_content))) (sample_lnode licensed_dir) = (reply, ln') \<and> ln' \<noteq> sample_lnode licensed_dir
     \<and> ((\<exists>claim. ClaimsFromRequest (lsystem sample_lmachine (sample_lnode licensed_dir)) (license_http (Some ''tok'') [] ''register'' sample_content) = Inr claim)
        \<or> ValidateInternalToken (y_env (ma_system sample_machine)) (get_header (license_http (Some ''tok'') [] ''register'' sample_content) InternalTokenHeader)
             (node_store sample_node))"
proof -
  let ?rq = "license_http (Some ''tok'') [] ''register'' sample_content" and ?ln = "sample_lnode licensed_dir"
  have dir: "l_listable licensed_dir" "''license.lic'' \<notin> set (l_subdirs licensed_dir)" "l_files licensed_dir = fmupd ''a.lic'' (std_encode (replicate 16 (CHR 0x10))) fmempty"
    by (simp_all add: licensed_dir_def sample_system_def)
  obtain ln' where r: "register_on_node sample_lmachine sample_content ''license.lic'' ?ln = (Inr \<lparr>lr_Code = 200, lr_Val = Registered\<rparr>, ln')"
      "l_files (ln_dir ln') = fmupd ''license.lic'' (std_encode (replicate 16 (CHR 0x10))) fmempty"
    using sample_registers [OF dir(1,2)] by blast
  have header: "get_header ?rq InternalTokenHeader = ''tok''" by (simp add: get_header_def license_http_def)
  have valid: "ValidateInternalToken (y_env (ma_system sample_machine)) ''tok'' (node_store sample_node)"
    using sample_token trim_tok by (simp add: ValidateInternalToken_def)
  then have "may_replace sample_lmachine ?rq ?ln"
    using header by (auto simp: may_replace_def sample_lmachine_def sample_lnode_def split: sum.split)
  moreover have a: "normalizeLicenseAction ''register'' = ''register''" "\<not> blank ''license.lic''" "\<not> blank sample_content" by code_simp+
  ultimately have run: "LicenseControl sample_lmachine ?rq (JsonBody (Some (''register'', sample_content))) ?ln = (LicAnswer \<lparr>lr_Code = 200, lr_Val = Registered\<rparr>, ln')"
    using r by (simp add: LicenseControl_def bindLicenseRequest_def registerLicense_def defaultLicenseFilename_def Let_def)
  have "fmlookup (l_files (ln_dir ln')) ''a.lic'' \<noteq> fmlookup (l_files (ln_dir ?ln)) ''a.lic''"
    using r(2) dir(3) by (simp add: sample_lnode_def)
  then have ne: "ln' \<noteq> ?ln" by auto
  obtain secret where "ExistingSigningSecret (sample_system fmempty) = Inr secret" using sample_secret by blast
  then have "HasActiveLicense (lm_crypto sample_lmachine) (lm_id sample_lmachine) (lm_today sample_lmachine) (ln_dir ?ln)"
    using lm_fields
    by (auto simp: ExistingSigningSecret_def HasActiveLicense_def sample_lnode_def licensed_dir_def sample_system_def split: sum.splits)
  from licence_replaced_by_known [OF run ne this] run ne show ?thesis by (simp add: sample_lmachine_def sample_lnode_def)
qed

end
