(* ===== verification/Ccvm_Snapshot.thy ===== *)
theory Ccvm_Snapshot
  imports License_Apply
begin

text \<open>
  Snapshots of the CCVM, \<^verbatim>\<open>internal/handler/cube/ccvm_snap.go\<close>, and their daily backup,
  \<^verbatim>\<open>ccvm_snap_scheduler.go\<close>. The commands \<^verbatim>\<open>virsh\<close>, \<^verbatim>\<open>rbd\<close> and \<^verbatim>\<open>pcs\<close> act on an outside world that all
  nodes share; a \<open>scene\<close> holds it with a record of what was run, on which node and with which answer. The mutex
  of a node has no effect on a request that runs alone. The cluster section is never missing here.
\<close>

section \<open>Data\<close>

record CCVMSnapRequest =
  cnq_Action :: string
  cnq_SnapName :: string

record CCVMSnapResponse =
  cnr_Code :: nat
  cnr_Val :: goval
  cnr_Message :: string
  cnr_Target :: string
  cnr_Action :: string
  cnr_SnapName :: string
  cnr_Deleted :: "string list"

record ccvmSnapPCSTarget =
  cpt_Hostname :: string
  cpt_PCSIP :: string
  cpt_Target :: string

record ccvmSnapPCSResourceStatus =
  prs_Role :: string
  prs_StartedNode :: string

text \<open>Of the status of pacemaker, what is read from its resources and of its coordinator.\<close>

record ccvmSnapPCSResource =
  psr_ID :: string
  psr_Role :: string
  psr_NodeName :: string

record ccvmSnapPCSClone =
  psc_Resource :: "ccvmSnapPCSResource list"
  psc_Group :: "ccvmSnapPCSResource list list"

record ccvmSnapPCSStatusXML =
  pss_CurrentDC :: string
  pss_Resource :: "ccvmSnapPCSResource list"
  pss_Clone :: "ccvmSnapPCSClone list"

text \<open>A command answers its output, whether it ran out of time, and its error.\<close>

type_synonym command_answer = "string \<times> bool \<times> string option"

type_synonym command_log = "(string \<times> string list \<times> command_answer) list"

record 'w scene =
  sce_world :: 'w
  sce_log :: command_log

text \<open>
  The machines of the cluster and their nodes, the names of the hosts, what a command does when a node runs it, the
  readers of JSON and XML, the texts of their errors and of the gate, the printed time, and the health of a target.
\<close>

record 'w snap_env =
  sne_fabric :: fabric
  sne_fleet :: fleet
  sne_hostname :: "string \<Rightarrow> string option"
  sne_run :: "string \<Rightarrow> string list \<Rightarrow> 'w \<Rightarrow> command_answer \<times> 'w"
  sne_json :: "string \<Rightarrow> goval outcome"
  sne_mismatch :: "goval \<Rightarrow> string"
  sne_xml :: "string \<Rightarrow> ccvmSnapPCSStatusXML outcome"
  sne_refusal :: "string \<Rightarrow> nat \<Rightarrow> string"
  sne_stamp :: "string \<Rightarrow> 'w \<Rightarrow> string"
  sne_health :: "string \<Rightarrow> string \<Rightarrow> 'w \<Rightarrow> string option"

definition local_to :: "'w snap_env \<Rightarrow> string \<Rightarrow> string \<Rightarrow> bool" where
  "local_to e self target \<longleftrightarrow> isLocalTarget (ma_addrs (fb_machine (sne_fabric e) self)) target"

section \<open>Requests\<close>

definition normalizeCCVMSnapRequest :: "CCVMSnapRequest \<Rightarrow> CCVMSnapRequest outcome" where
  "normalizeCCVMSnapRequest req =
     (let action = to_lower (trim_space (cnq_Action req)); name = trim_space (cnq_SnapName req)
      in if action \<notin> {''list'', ''backup'', ''rollback''} then Inl ''unsupported action''
         else if action = ''rollback'' \<and> name = [] then Inl ''snap_name required''
         else if name \<noteq> [] \<and> (CHR ''/'' \<in> set name \<or> CHR ''@'' \<in> set name) then Inl ''invalid snap_name''
         else Inr \<lparr>cnq_Action = action, cnq_SnapName = name\<rparr>)"

definition ccvmSnapLocalHeader :: string where "ccvmSnapLocalHeader = ''X-Cube-CCVM-Snap-Local''"
definition ccvmSnapResolveHeader :: string where "ccvmSnapResolveHeader = ''X-Cube-CCVM-Snap-Resolve''"
definition ccvmSnapStartedHeader :: string where "ccvmSnapStartedHeader = ''X-Cube-CCVM-Snap-Started''"

text \<open>Headers are kept, set and read under their canonical key: capitals at the start and after a hyphen.\<close>

definition upper_byte :: "char \<Rightarrow> char" where
  "upper_byte c = (let n = of_char c :: nat in if 97 \<le> n \<and> n \<le> 122 then char_of (n - 32) else c)"

fun canonical_from :: "bool \<Rightarrow> string \<Rightarrow> string" where
  "canonical_from start [] = []"
| "canonical_from start (c # cs) = (if start then upper_byte c else lower_byte c) # canonical_from (c = CHR ''-'') cs"

definition canonical_key :: "string \<Rightarrow> string" where "canonical_key = canonical_from True"

definition is_one :: "request \<Rightarrow> string \<Rightarrow> bool" where
  "is_one rq header \<longleftrightarrow> equal_fold (trim_space (get_header rq (canonical_key header))) ''1''"

definition isCCVMSnapLocalRequest :: "request \<Rightarrow> bool" where "isCCVMSnapLocalRequest rq \<longleftrightarrow> is_one rq ccvmSnapLocalHeader"
definition isCCVMSnapResolveRequest :: "request \<Rightarrow> bool" where "isCCVMSnapResolveRequest rq \<longleftrightarrow> is_one rq ccvmSnapResolveHeader"
definition isCCVMSnapStartedRequest :: "request \<Rightarrow> bool" where "isCCVMSnapStartedRequest rq \<longleftrightarrow> is_one rq ccvmSnapStartedHeader"

definition statusCodeFromCCVMSnapResponse :: "CCVMSnapResponse \<Rightarrow> nat" where
  "statusCodeFromCCVMSnapResponse resp = (if cnr_Code resp = 200 then 200 else if cnr_Code resp = 400 then 400 else 500)"

definition ccvmSnapError :: "CCVMSnapRequest \<Rightarrow> string \<Rightarrow> CCVMSnapResponse" where
  "ccvmSnapError req message =
     \<lparr>cnr_Code = 500, cnr_Val = VStr message, cnr_Message = message, cnr_Target = [], cnr_Action = cnq_Action req,
      cnr_SnapName = cnq_SnapName req, cnr_Deleted = []\<rparr>"

definition ccvmSnapLocalError :: "CCVMSnapRequest \<Rightarrow> string \<Rightarrow> string \<Rightarrow> CCVMSnapResponse" where
  "ccvmSnapLocalError req target message = (ccvmSnapError req message)\<lparr>cnr_Target := target\<rparr>"

section \<open>Commands\<close>

text \<open>A whole number of seconds, at least one, as Go prints a duration.\<close>

definition show_seconds :: "nat \<Rightarrow> string" where
  "show_seconds s =
     (if s < 60 then show_nat s @ ''s''
      else if s < 3600 then show_nat (s div 60) @ ''m'' @ show_nat (s mod 60) @ ''s''
      else show_nat (s div 3600) @ ''h'' @ show_nat (s mod 3600 div 60) @ ''m'' @ show_nat (s mod 60) @ ''s'')"

definition ccvmSnapCommandTimeout :: nat where "ccvmSnapCommandTimeout = 30 * 60"
definition ccvmSnapShortCommandTimeout :: nat where "ccvmSnapShortCommandTimeout = 10"

definition runCommandOutputWithEnv :: "'w snap_env \<Rightarrow> string \<Rightarrow> string list \<Rightarrow> 'w scene \<Rightarrow> command_answer \<times> 'w scene" where
  "runCommandOutputWithEnv e self command sc =
     (let (answer, w) = sne_run e self command (sce_world sc)
      in (answer, \<lparr>sce_world = w, sce_log = sce_log sc @ [(self, command, answer)]\<rparr>))"

definition runCCVMSnapCommand :: "'w snap_env \<Rightarrow> string \<Rightarrow> nat \<Rightarrow> string list \<Rightarrow> 'w scene \<Rightarrow> string outcome \<times> 'w scene" where
  "runCCVMSnapCommand e self timeout command sc =
     (let ((out, timedOut, err), sc1) = runCommandOutputWithEnv e self command sc; line = join_with '' '' command
      in (if timedOut then Inl (line @ '' timed out after '' @ show_seconds timeout)
          else (case err of
                  None \<Rightarrow> Inr out
                | Some text \<Rightarrow> Inl (line @ '' failed: '' @ (if blank out then text else trim_space out))), sc1))"

definition ccvmSnapName :: string where "ccvmSnapName = ''ccvm''"

definition ccvmSnapImageRef :: string where "ccvmSnapImageRef = ''rbd'' @ ''/'' @ ''ccvm''"

definition ccvmSnapRef :: "string \<Rightarrow> string" where
  "ccvmSnapRef snapName = ccvmSnapImageRef @ ''@'' @ snapName"

definition snap_list_command :: "string list" where
  "snap_list_command = [''rbd'', ''snap'', ''list'', ccvmSnapImageRef, ''--format'', ''json'']"

definition snap_rollback_command :: "string \<Rightarrow> string list" where
  "snap_rollback_command name = [''rbd'', ''snap'', ''rollback'', ''--no-progress'', ccvmSnapRef name]"

definition snap_create_command :: "string \<Rightarrow> string list" where
  "snap_create_command name = [''rbd'', ''snap'', ''create'', ccvmSnapRef name]"

definition snap_rm_command :: "string \<Rightarrow> string list" where
  "snap_rm_command name = [''rbd'', ''snap'', ''rm'', ccvmSnapRef name]"

definition suspend_command :: "string list" where "suspend_command = [''virsh'', ''suspend'', ccvmSnapName]"
definition resume_command :: "string list" where "resume_command = [''virsh'', ''resume'', ccvmSnapName]"
definition domstate_command :: "string list" where "domstate_command = [''virsh'', ''domstate'', ccvmSnapName]"
definition pcs_status_command :: "string list" where "pcs_status_command = [''pcs'', ''status'', ''xml'']"

definition suspendLocalCCVM :: "'w snap_env \<Rightarrow> string \<Rightarrow> 'w scene \<Rightarrow> string outcome \<times> 'w scene" where
  "suspendLocalCCVM e self = runCCVMSnapCommand e self ccvmSnapShortCommandTimeout suspend_command"

definition resumeLocalCCVM :: "'w snap_env \<Rightarrow> string \<Rightarrow> 'w scene \<Rightarrow> string outcome \<times> 'w scene" where
  "resumeLocalCCVM e self = runCCVMSnapCommand e self ccvmSnapShortCommandTimeout resume_command"

text \<open>The state, whether the machine is known, and the error, which comes with what was printed.\<close>

definition localCCVMState :: "'w snap_env \<Rightarrow> string \<Rightarrow> 'w scene \<Rightarrow> (string \<times> bool \<times> string option) \<times> 'w scene" where
  "localCCVMState e self sc =
     (let ((out, timedOut, err), sc1) = runCommandOutputWithEnv e self domstate_command sc; state = trim_space out
      in ((case err of
             None \<Rightarrow> (state, True, None)
           | Some text \<Rightarrow>
               if contains_str (to_lower state) ''failed to get domain'' \<or> contains_str (to_lower state) ''domain not found''
               then ([], False, None) else (state, False, Some text)), sc1))"

section \<open>Snapshots\<close>

text \<open>A list of objects, or null; an object that is null has no fields.\<close>

definition decode_snapshots :: "goval \<Rightarrow> gomap list option" where
  "decode_snapshots v =
     (case v of VNil \<Rightarrow> Some [] | VArr vs \<Rightarrow> (if list_all (\<lambda>x. item_map x \<noteq> None) vs then Some (map (the \<circ> item_map) vs) else None) | _ \<Rightarrow> None)"

definition listCCVMSnapshots :: "'w snap_env \<Rightarrow> string \<Rightarrow> 'w scene \<Rightarrow> (goval \<times> gomap list) outcome \<times> 'w scene" where
  "listCCVMSnapshots e self sc =
     (let (res, sc1) = runCCVMSnapCommand e self ccvmSnapShortCommandTimeout snap_list_command sc
      in (case res of
            Inl err \<Rightarrow> Inl err
          | Inr out \<Rightarrow>
              (case sne_json e out of
                 Inl err \<Rightarrow> Inl (''failed to parse rbd snapshot list: '' @ err)
               | Inr v \<Rightarrow> (case decode_snapshots v of
                             None \<Rightarrow> Inl (''failed to parse rbd snapshot list: '' @ sne_mismatch e v)
                           | Some snapshots \<Rightarrow> Inr (v, snapshots))), sc1))"

definition rollbackCCVMSnapshot :: "'w snap_env \<Rightarrow> string \<Rightarrow> string \<Rightarrow> 'w scene \<Rightarrow> string outcome \<times> 'w scene" where
  "rollbackCCVMSnapshot e self snapName = runCCVMSnapCommand e self ccvmSnapCommandTimeout (snap_rollback_command snapName)"

definition isAutoCCVMSnapshotName :: "string \<Rightarrow> bool" where
  "isAutoCCVMSnapshotName snapName \<longleftrightarrow> has_prefix (trim_space snapName) ''auto-''"

text \<open>A name that is absent or not a string is empty.\<close>

definition snapshot_name :: "gomap \<Rightarrow> string" where
  "snapshot_name snapshot = trim_space (case mget snapshot ''name'' of VStr s \<Rightarrow> s | _ \<Rightarrow> [])"

definition ccvmSnapshotExists :: "'w snap_env \<Rightarrow> string \<Rightarrow> string \<Rightarrow> 'w scene \<Rightarrow> bool outcome \<times> 'w scene" where
  "ccvmSnapshotExists e self snapName sc =
     (let (res, sc1) = listCCVMSnapshots e self sc
      in (case res of Inl err \<Rightarrow> Inl err | Inr (v, snapshots) \<Rightarrow> Inr (list_ex (\<lambda>s. snapshot_name s = snapName) snapshots), sc1))"

definition ccvmSnapLimit :: nat where "ccvmSnapLimit = 10"

text \<open>The snapshots removed so far come with an error.\<close>

fun remove_snapshots :: "'w snap_env \<Rightarrow> string \<Rightarrow> gomap list \<Rightarrow> string list \<Rightarrow> 'w scene \<Rightarrow> (string list \<times> string option) \<times> 'w scene" where
  "remove_snapshots e self [] deleted sc = ((deleted, None), sc)"
| "remove_snapshots e self (s # ss) deleted sc =
     (let name = snapshot_name s
      in if name = [] then remove_snapshots e self ss deleted sc
         else (let (res, sc1) = runCCVMSnapCommand e self ccvmSnapCommandTimeout (snap_rm_command name) sc
               in case res of
                    Inl err \<Rightarrow> ((deleted, Some err), sc1)
                  | Inr out \<Rightarrow> remove_snapshots e self ss (deleted @ [name]) sc1))"

definition cleanupOldCCVMSnapshots :: "'w snap_env \<Rightarrow> string \<Rightarrow> 'w scene \<Rightarrow> (string list \<times> string option) \<times> 'w scene" where
  "cleanupOldCCVMSnapshots e self sc =
     (let (res, sc1) = listCCVMSnapshots e self sc
      in case res of
           Inl err \<Rightarrow> (([], Some err), sc1)
         | Inr (v, snapshots) \<Rightarrow>
             if length snapshots \<le> ccvmSnapLimit then (([], None), sc1)
             else remove_snapshots e self (take (length snapshots - ccvmSnapLimit) snapshots) [] sc1)"

definition backup_failed :: string where "backup_failed = ''CCVM Snapshot Backup Create Fail. ''"

text \<open>The snapshot itself: a CCVM that was suspended is resumed, whatever the creation answered.\<close>

definition take_snapshot :: "'w snap_env \<Rightarrow> string \<Rightarrow> string \<Rightarrow> bool \<Rightarrow> 'w scene \<Rightarrow> (string list \<times> string option) \<times> 'w scene" where
  "take_snapshot e self snapName suspended sc =
     (let (created, sc1) = runCCVMSnapCommand e self ccvmSnapCommandTimeout (snap_create_command snapName) sc;
          (resumed, sc2) = (if suspended then resumeLocalCCVM e self sc1 else (Inr [], sc1))
      in case created of
           Inl err \<Rightarrow> (([], Some (backup_failed @ err)), sc2)
         | Inr out \<Rightarrow> (case resumed of Inl err \<Rightarrow> (([], Some (backup_failed @ err)), sc2) | Inr _ \<Rightarrow> cleanupOldCCVMSnapshots e self sc2))"

definition suspend_and_take :: "'w snap_env \<Rightarrow> string \<Rightarrow> string \<Rightarrow> bool \<Rightarrow> 'w scene \<Rightarrow> (string list \<times> string option) \<times> 'w scene" where
  "suspend_and_take e self snapName expectStarted sc =
     (let ((state, known, err), sc1) = localCCVMState e self sc
      in if expectStarted \<and> (err \<noteq> None \<or> \<not> known \<or> \<not> equal_fold state ''running'')
         then (([], Some (backup_failed @ ''failed to confirm running ccvm'' @ (case err of None \<Rightarrow> [] | Some text \<Rightarrow> '': '' @ text))), sc1)
         else if equal_fold state ''running''
         then (let (suspended, sc2) = suspendLocalCCVM e self sc1
               in case suspended of Inl err \<Rightarrow> (([], Some err), sc2) | Inr _ \<Rightarrow> take_snapshot e self snapName True sc2)
         else take_snapshot e self snapName False sc1)"

definition createCCVMSnapshot :: "'w snap_env \<Rightarrow> string \<Rightarrow> string \<Rightarrow> bool \<Rightarrow> 'w scene \<Rightarrow> (string list \<times> string option) \<times> 'w scene" where
  "createCCVMSnapshot e self snapName expectStarted sc =
     (if isAutoCCVMSnapshotName snapName
      then (let (found, sc1) = ccvmSnapshotExists e self snapName sc
            in case found of
                 Inl err \<Rightarrow> (([], Some err), sc1)
               | Inr True \<Rightarrow> (([], None), sc1)
               | Inr False \<Rightarrow> suspend_and_take e self snapName expectStarted sc1)
      else suspend_and_take e self snapName expectStarted sc)"

section \<open>On a node\<close>

definition resolveLocalCCVMEditTarget :: "'w snap_env \<Rightarrow> string \<Rightarrow> ClusterSection \<Rightarrow> string" where
  "resolveLocalCCVMEditTarget e self cfg =
     (case List.find (\<lambda>target. target \<noteq> [] \<and> local_to e self target) (map (\<lambda>h. trim_space (Ablecube h)) (sec_Hosts cfg)) of
        Some target \<Rightarrow> target
      | None \<Rightarrow> (case sne_hostname e self of Some name \<Rightarrow> if blank name then ''local'' else trim_space name | None \<Rightarrow> ''local''))"

definition rollback_failed :: string where "rollback_failed = ''CCVM Snapshot Rollback Fail. Check if ccvm is Stopped''"

definition snap_done :: "CCVMSnapRequest \<Rightarrow> string \<Rightarrow> goval \<Rightarrow> string \<Rightarrow> string \<Rightarrow> string list \<Rightarrow> CCVMSnapResponse" where
  "snap_done req target val message snapName deleted =
     \<lparr>cnr_Code = 200, cnr_Val = val, cnr_Message = message, cnr_Target = target, cnr_Action = cnq_Action req,
      cnr_SnapName = snapName, cnr_Deleted = deleted\<rparr>"

definition runCCVMSnapLocal :: "'w snap_env \<Rightarrow> string \<Rightarrow> ClusterSection \<Rightarrow> CCVMSnapRequest \<Rightarrow> bool \<Rightarrow> 'w scene \<Rightarrow> CCVMSnapResponse \<times> 'w scene" where
  "runCCVMSnapLocal e self cfg req expectStarted sc =
     (let target = resolveLocalCCVMEditTarget e self cfg
      in if cnq_Action req = ''list''
         then (let (res, sc1) = listCCVMSnapshots e self sc
               in (case res of
                     Inl err \<Rightarrow> ccvmSnapLocalError req target err
                   | Inr (v, snapshots) \<Rightarrow> snap_done req target v ''CCVM Snapshot List Success'' [] [], sc1))
         else if cnq_Action req = ''rollback''
         then (let (res, sc1) = rollbackCCVMSnapshot e self (cnq_SnapName req) sc; text = ''CCVM Snapshot Rollback Success''
               in (case res of
                     Inl err \<Rightarrow> ccvmSnapLocalError req target rollback_failed
                   | Inr out \<Rightarrow> snap_done req target (VStr text) text (cnq_SnapName req) [], sc1))
         else if cnq_Action req = ''backup''
         then (let snapName = (if cnq_SnapName req = [] then sne_stamp e self (sce_world sc) else cnq_SnapName req);
                   ((deleted, err), sc1) = createCCVMSnapshot e self snapName expectStarted sc; text = ''CCVM Snapshot Backup Create Success''
               in (case err of
                     Some message \<Rightarrow> ccvmSnapLocalError req target message
                   | None \<Rightarrow> snap_done req target (VStr text) text snapName deleted, sc1))
         else (ccvmSnapLocalError req target ''unsupported action'', sc))"

section \<open>What pacemaker says\<close>

definition loadCCVMPcsStatusXML :: "'w snap_env \<Rightarrow> string \<Rightarrow> 'w scene \<Rightarrow> ccvmSnapPCSStatusXML outcome \<times> 'w scene" where
  "loadCCVMPcsStatusXML e self sc =
     (let (res, sc1) = runCCVMSnapCommand e self ccvmSnapShortCommandTimeout pcs_status_command sc
      in (case res of
            Inl err \<Rightarrow> Inl err
          | Inr out \<Rightarrow> (case sne_xml e out of Inl err \<Rightarrow> Inl (''failed to parse pcs status xml: '' @ err) | Inr status \<Rightarrow> Inr status), sc1))"

definition collectCCVMSnapPCSResources :: "ccvmSnapPCSStatusXML \<Rightarrow> ccvmSnapPCSResource list" where
  "collectCCVMSnapPCSResources status =
     pss_Resource status @ concat (map (\<lambda>clone. psc_Resource clone @ concat (psc_Group clone)) (pss_Clone status))"

definition ccvmSnapPCSResourceID :: string where "ccvmSnapPCSResourceID = ''cloudcenter_res''"

definition ccvm_resource :: "ccvmSnapPCSStatusXML \<Rightarrow> ccvmSnapPCSResourceStatus" where
  "ccvm_resource status =
     (case List.find (\<lambda>r. trim_space (psr_ID r) = ccvmSnapPCSResourceID) (collectCCVMSnapPCSResources status) of
        Some r \<Rightarrow> \<lparr>prs_Role = trim_space (psr_Role r), prs_StartedNode = trim_space (psr_NodeName r)\<rparr>
      | None \<Rightarrow> \<lparr>prs_Role = ''Stopped'', prs_StartedNode = []\<rparr>)"

definition loadCCVMPcsResourceStatus :: "'w snap_env \<Rightarrow> string \<Rightarrow> 'w scene \<Rightarrow> ccvmSnapPCSResourceStatus outcome \<times> 'w scene" where
  "loadCCVMPcsResourceStatus e self sc =
     (let (res, sc1) = loadCCVMPcsStatusXML e self sc in (case res of Inl err \<Rightarrow> Inl err | Inr status \<Rightarrow> Inr (ccvm_resource status), sc1))"

definition loadCCVMPcsCurrentDC :: "'w snap_env \<Rightarrow> string \<Rightarrow> 'w scene \<Rightarrow> string outcome \<times> 'w scene" where
  "loadCCVMPcsCurrentDC e self sc =
     (let (res, sc1) = loadCCVMPcsStatusXML e self sc in (case res of Inl err \<Rightarrow> Inl err | Inr status \<Rightarrow> Inr (trim_space (pss_CurrentDC status)), sc1))"

section \<open>Targets\<close>

definition ccvmHostAPITarget :: "ClusterSection \<Rightarrow> ClusterHost \<Rightarrow> string" where
  "ccvmHostAPITarget cfg host =
     (if equal_fold (trim_space (sec_Type cfg)) ''ablestack-vm'' \<and> equal_fold (trim_space (dc_StorageNetwork cfg)) ''true''
         \<and> \<not> blank (AblecubePn host)
      then trim_space (AblecubePn host) else trim_space (Ablecube host))"

definition named_by :: "string \<Rightarrow> ClusterHost \<Rightarrow> bool" where
  "named_by name host \<longleftrightarrow> trim_space (AblecubePn host) = name \<or> trim_space (Ablecube host) = name \<or> trim_space (Hostname host) = name"

definition findCCVMSnapHostByPCSIP :: "ClusterSection \<Rightarrow> string \<Rightarrow> ClusterHost option" where
  "findCCVMSnapHostByPCSIP cfg pcsIP = List.find (named_by (trim_space pcsIP)) (sec_Hosts cfg)"

fun pcs_targets :: "ClusterSection \<Rightarrow> string list \<Rightarrow> string list \<Rightarrow> ccvmSnapPCSTarget list" where
  "pcs_targets cfg used [] = []"
| "pcs_targets cfg used (pcsIP # pcsIPs) =
     (if pcsIP = [] then pcs_targets cfg used pcsIPs
      else (case findCCVMSnapHostByPCSIP cfg pcsIP of
              None \<Rightarrow> pcs_targets cfg used pcsIPs
            | Some host \<Rightarrow>
                (let target = ccvmHostAPITarget cfg host
                 in if target = [] \<or> target \<in> set used then pcs_targets cfg used pcsIPs
                    else \<lparr>cpt_Hostname = trim_space (Hostname host), cpt_PCSIP = pcsIP, cpt_Target = target\<rparr>
                         # pcs_targets cfg (target # used) pcsIPs)))"

definition buildCCVMSnapPCSTargets :: "ClusterSection \<Rightarrow> ccvmSnapPCSTarget list" where
  "buildCCVMSnapPCSTargets cfg = pcs_targets cfg [] (HostnameList (cs_PCSCluster cfg))"

definition resolveCCVMSnapStartedTarget :: "ClusterSection \<Rightarrow> string \<Rightarrow> ccvmSnapPCSTarget option" where
  "resolveCCVMSnapStartedTarget cfg nodeName =
     (if blank nodeName then None
      else map_option (\<lambda>host. \<lparr>cpt_Hostname = trim_space (Hostname host), cpt_PCSIP = trim_space (AblecubePn host), cpt_Target = ccvmHostAPITarget cfg host\<rparr>)
             (List.find (named_by (trim_space nodeName)) (sec_Hosts cfg)))"

section \<open>Routing\<close>

text \<open>
  A call to another node: the caller, the target, the request, the header that sets the mode of the node, and
  whether it has to find the CCVM running. It is an argument here; below it is the handler of the other node.
\<close>

type_synonym 'w snap_call = "string \<Rightarrow> string \<Rightarrow> CCVMSnapRequest \<Rightarrow> string \<Rightarrow> bool \<Rightarrow> 'w scene \<Rightarrow> CCVMSnapResponse outcome \<times> 'w scene"

definition health_failed :: "string \<Rightarrow> string \<Rightarrow> string" where
  "health_failed target err = target @ '' health check failed: '' @ err"

definition backup_started ::
  "'w snap_call \<Rightarrow> 'w snap_env \<Rightarrow> string \<Rightarrow> ClusterSection \<Rightarrow> CCVMSnapRequest \<Rightarrow> string \<Rightarrow> 'w scene \<Rightarrow> CCVMSnapResponse \<times> 'w scene" where
  "backup_started forward e self cfg req node sc =
     (case resolveCCVMSnapStartedTarget cfg node of
        None \<Rightarrow> (ccvmSnapError req (''cloudcenter_res started node not found in cluster.json: '' @ node), sc)
      | Some t \<Rightarrow>
          (let target = cpt_Target t
           in if blank target then (ccvmSnapError req (''cloudcenter_res started node not found in cluster.json: '' @ node), sc)
              else if local_to e self target then runCCVMSnapLocal e self cfg req True sc
              else (case sne_health e self target (sce_world sc) of
                      Some err \<Rightarrow> (ccvmSnapError req (health_failed target err), sc)
                    | None \<Rightarrow>
                        (let (answer, sc1) = forward self target req ccvmSnapLocalHeader True sc
                         in (case answer of Inl err \<Rightarrow> ccvmSnapError req err | Inr resp \<Rightarrow> resp, sc1)))))"

definition runCCVMSnapResolvedFromPCS ::
  "'w snap_call \<Rightarrow> 'w snap_env \<Rightarrow> string \<Rightarrow> ClusterSection \<Rightarrow> CCVMSnapRequest \<Rightarrow> 'w scene \<Rightarrow> CCVMSnapResponse \<times> 'w scene" where
  "runCCVMSnapResolvedFromPCS forward e self cfg req sc =
     (if cnq_Action req = ''list'' then runCCVMSnapLocal e self cfg req False sc
      else (let (res, sc1) = loadCCVMPcsResourceStatus e self sc
            in case res of
                 Inl err \<Rightarrow> (ccvmSnapError req err, sc1)
               | Inr status \<Rightarrow>
                   (let started = equal_fold (prs_Role status) ''Started''
                    in if cnq_Action req = ''rollback''
                       then (if started then (ccvmSnapError req rollback_failed, sc1) else runCCVMSnapLocal e self cfg req False sc1)
                       else if \<not> started \<or> blank (prs_StartedNode status) then runCCVMSnapLocal e self cfg req False sc1
                       else backup_started forward e self cfg req (prs_StartedNode status) sc1)))"

text \<open>The first target that is this node or that answers; the last error otherwise.\<close>

fun via_targets ::
  "'w snap_call \<Rightarrow> 'w snap_env \<Rightarrow> string \<Rightarrow> ClusterSection \<Rightarrow> CCVMSnapRequest \<Rightarrow> string list \<Rightarrow> string option \<Rightarrow> 'w scene \<Rightarrow>
     CCVMSnapResponse \<times> 'w scene" where
  "via_targets forward e self cfg req [] lastErr sc =
     (ccvmSnapError req (case lastErr of Some err \<Rightarrow> err | None \<Rightarrow> ''healthy pcs cluster host not found''), sc)"
| "via_targets forward e self cfg req (target # targets) lastErr sc =
     (if local_to e self target then runCCVMSnapResolvedFromPCS forward e self cfg req sc
      else (case sne_health e self target (sce_world sc) of
              Some err \<Rightarrow> via_targets forward e self cfg req targets (Some (health_failed target err)) sc
            | None \<Rightarrow>
                (let (answer, sc1) = forward self target req ccvmSnapResolveHeader False sc
                 in case answer of
                      Inl err \<Rightarrow> via_targets forward e self cfg req targets (Some err) sc1
                    | Inr resp \<Rightarrow> (resp, sc1))))"

definition runCCVMSnapViaPCS ::
  "'w snap_call \<Rightarrow> 'w snap_env \<Rightarrow> string \<Rightarrow> ClusterSection \<Rightarrow> CCVMSnapRequest \<Rightarrow> 'w scene \<Rightarrow> CCVMSnapResponse \<times> 'w scene" where
  "runCCVMSnapViaPCS forward e self cfg req sc =
     (let targets = buildCCVMSnapPCSTargets cfg
      in if targets = [] then (ccvmSnapError req ''pcs cluster host not found'', sc)
         else via_targets forward e self cfg req (map cpt_Target targets) None sc)"

section \<open>The handler\<close>

definition snap_path :: string where "snap_path = ''/api/v1/cube/ccvm/snap''"

definition marshal_snap :: "CCVMSnapRequest \<Rightarrow> goval" where
  "marshal_snap req = VRec ([(''action'', VStr (cnq_Action req))] @ opt_field ''snap_name'' (cnq_SnapName req))"

definition decode_snap :: "goval \<Rightarrow> CCVMSnapRequest option" where
  "decode_snap v =
     Option.bind (item_map v) (\<lambda>m. Option.bind (decode_string (mget m ''action'')) (\<lambda>action.
     Option.bind (decode_string (mget m ''snap_name'')) (\<lambda>name. Some \<lparr>cnq_Action = action, cnq_SnapName = name\<rparr>)))"

definition snap_body :: "request \<Rightarrow> CCVMSnapRequest option" where
  "snap_body rq = (case r_body rq of Some (JDoc v) \<Rightarrow> decode_snap v | _ \<Rightarrow> None)"

datatype snap_reply = SnapRefused nat string | SnapAnswered CCVMSnapResponse

definition route_snap ::
  "'w snap_call \<Rightarrow> 'w snap_env \<Rightarrow> string \<Rightarrow> request \<Rightarrow> ClusterSection \<Rightarrow> CCVMSnapRequest \<Rightarrow> 'w scene \<Rightarrow> CCVMSnapResponse \<times> 'w scene" where
  "route_snap forward e self rq cfg req sc =
     (if isCCVMSnapLocalRequest rq then runCCVMSnapLocal e self cfg req (isCCVMSnapStartedRequest rq) sc
      else if isCCVMSnapResolveRequest rq then runCCVMSnapResolvedFromPCS forward e self cfg req sc
      else runCCVMSnapViaPCS forward e self cfg req sc)"

definition CCVMSnap :: "'w snap_call \<Rightarrow> 'w snap_env \<Rightarrow> string \<Rightarrow> request \<Rightarrow> 'w scene \<Rightarrow> snap_reply \<times> 'w scene" where
  "CCVMSnap forward e self rq sc =
     (case snap_body rq of
        None \<Rightarrow> (SnapRefused 400 ''invalid request'', sc)
      | Some req0 \<Rightarrow>
          (case normalizeCCVMSnapRequest req0 of
             Inl err \<Rightarrow> (SnapRefused 400 err, sc)
           | Inr req \<Rightarrow>
               (case loadClusterConfigSection (node_doc (sne_fleet e self)) of
                  None \<Rightarrow> (SnapRefused 500 ''failed to read cluster.json'', sc)
                | Some cfg \<Rightarrow>
                    if \<not> isHCITarget (sec_Type cfg) then (SnapRefused 400 ''unsupported cluster type'', sc)
                    else (let (resp, sc1) = route_snap forward e self rq cfg req sc in (SnapAnswered resp, sc1)))))"

section \<open>Calls between the nodes\<close>

text \<open>The status and what a client decodes; a refusal has its code under another name.\<close>

definition refusal_seen :: "nat \<Rightarrow> string \<Rightarrow> CCVMSnapResponse" where
  "refusal_seen code message =
     \<lparr>cnr_Code = code, cnr_Val = VNil, cnr_Message = message, cnr_Target = [], cnr_Action = [], cnr_SnapName = [], cnr_Deleted = []\<rparr>"

definition snap_seen :: "snap_reply \<Rightarrow> nat \<times> CCVMSnapResponse" where
  "snap_seen reply =
     (case reply of
        SnapRefused code text \<Rightarrow> (code, refusal_seen 0 text)
      | SnapAnswered resp \<Rightarrow> (statusCodeFromCCVMSnapResponse resp, resp\<lparr>cnr_Val := reload (cnr_Val resp)\<rparr>))"

text \<open>A request passes the gate of the node and then its handler.\<close>

definition serve_snap :: "'w snap_call \<Rightarrow> 'w snap_env \<Rightarrow> string \<Rightarrow> request \<Rightarrow> 'w scene \<Rightarrow> (nat \<times> CCVMSnapResponse) \<times> 'w scene" where
  "serve_snap forward e self rq sc =
     (case Middleware (system_of (fb_machine (sne_fabric e) self) (sne_fleet e self)) rq of
        Abort code \<Rightarrow> ((code, refusal_seen code (sne_refusal e self code)), sc)
      | Next \<Rightarrow> (let (reply, sc1) = CCVMSnap forward e self rq sc in (snap_seen reply, sc1)))"

definition snap_http :: "string option \<Rightarrow> CCVMSnapRequest \<Rightarrow> string \<Rightarrow> bool \<Rightarrow> request" where
  "snap_http token req modeHeader expectStarted =
     \<lparr>r_method = ''POST'', r_path = snap_path,
      r_headers = (case token of None \<Rightarrow> [] | Some t \<Rightarrow> [(InternalTokenHeader, [t])]) @ [(''Content-Type'', [''application/json''])]
        @ (if modeHeader = [] then [] else [(canonical_key modeHeader, [''1''])])
        @ (if expectStarted then [(canonical_key ccvmSnapStartedHeader, [''1''])] else []),
      r_body = Some (JDoc (reload (marshal_snap req)))\<rparr>"

definition client_view :: "string \<Rightarrow> nat \<times> CCVMSnapResponse \<Rightarrow> CCVMSnapResponse" where
  "client_view target answer =
     (let out = snd answer
      in out\<lparr>cnr_Code := (if cnr_Code out = 0 then fst answer else cnr_Code out),
             cnr_Target := (if blank (cnr_Target out) then target else cnr_Target out)\<rparr>)"

definition snap_exchange ::
  "(string \<Rightarrow> request \<Rightarrow> 'w scene \<Rightarrow> (nat \<times> CCVMSnapResponse) \<times> 'w scene) \<Rightarrow> 'w snap_env \<Rightarrow> 'w snap_call" where
  "snap_exchange server e self target req modeHeader expectStarted sc =
     (let fb = sne_fabric e; own = fb_machine fb self; url = buildTargetURL (y_env (ma_system own)) target @ snap_path;
          rq = snap_http (attached_token own (sne_fleet e self)) req modeHeader expectStarted;
          (answer, sc1) = server (fb_home fb target) rq sc
      in case fb_url_error fb url of
           Some err \<Rightarrow> (Inl err, sc)
         | None \<Rightarrow>
             (case fb_delivery fb target of
                Lost err \<Rightarrow> (Inl err, sc)
              | Late err \<Rightarrow> (Inl err, sc1)
              | Delivered \<Rightarrow> (Inr (client_view target answer), sc1)))"

text \<open>With a bound on the further calls; two calls are enough, and the bound is never met.\<close>

primrec callCCVMSnapRemote :: "nat \<Rightarrow> 'w snap_env \<Rightarrow> 'w snap_call" where
  "callCCVMSnapRemote 0 e = (\<lambda>self target req modeHeader expectStarted sc. (Inl ''no further call'', sc))"
| "callCCVMSnapRemote (Suc n) e = snap_exchange (serve_snap (callCCVMSnapRemote n e) e) e"

definition serve_snapshot :: "'w snap_env \<Rightarrow> string \<Rightarrow> request \<Rightarrow> 'w scene \<Rightarrow> (nat \<times> CCVMSnapResponse) \<times> 'w scene" where
  "serve_snapshot e = serve_snap (callCCVMSnapRemote 2 e) e"

section \<open>The daily backup\<close>

text \<open>The time at a node: the date and the seconds since midnight, in a zone whose days have 24 hours.\<close>

definition next_day :: "date \<Rightarrow> date" where
  "next_day d =
     (case d of (y, m, k) \<Rightarrow> if k < days_in m y then (y, m, Suc k) else if m < 12 then (y, Suc m, 1) else (Suc y, 1, 1))"

definition autoCCVMSnapHour :: nat where "autoCCVMSnapHour = 1"
definition autoCCVMSnapMinute :: nat where "autoCCVMSnapMinute = 0"

definition nextAutoCCVMSnapTime :: "date \<times> nat \<Rightarrow> date \<times> nat" where
  "nextAutoCCVMSnapTime now =
     (let at = autoCCVMSnapHour * 3600 + autoCCVMSnapMinute * 60 in if snd now < at then (fst now, at) else (next_day (fst now), at))"

definition pad_to :: "nat \<Rightarrow> string \<Rightarrow> string" where
  "pad_to n s = replicate (n - length s) CHR ''0'' @ s"

definition format_date :: "date \<Rightarrow> string" where
  "format_date d = (case d of (y, m, k) \<Rightarrow> pad_to 4 (show_nat y) @ ''-'' @ pad_to 2 (show_nat m) @ ''-'' @ pad_to 2 (show_nat k))"

definition auto_snap_name :: "date \<Rightarrow> string" where "auto_snap_name d = ''auto-'' @ format_date d"

definition isBootstrapFlagTrue :: "string \<Rightarrow> bool" where
  "isBootstrapFlagTrue value \<longleftrightarrow> equal_fold (trim_space value) ''true''"

definition isLocalAutoCCVMSnapOwner :: "'w snap_env \<Rightarrow> string \<Rightarrow> ClusterSection \<Rightarrow> 'w scene \<Rightarrow> bool \<times> 'w scene" where
  "isLocalAutoCCVMSnapOwner e self cfg sc =
     (let (res, sc1) = loadCCVMPcsCurrentDC e self sc
      in (case res of
            Inl err \<Rightarrow> False
          | Inr currentDC \<Rightarrow>
              if blank currentDC then False
              else (case resolveCCVMSnapStartedTarget cfg currentDC of
                      Some t \<Rightarrow> if blank (cpt_Target t) then local_to e self currentDC else local_to e self (cpt_Target t)
                    | None \<Rightarrow> local_to e self currentDC), sc1))"

datatype auto_result = AutoFailed string | AutoSkipped | AutoDone CCVMSnapResponse

definition triggerAutoCCVMSnapshotBackup :: "'w snap_call \<Rightarrow> 'w snap_env \<Rightarrow> string \<Rightarrow> date \<Rightarrow> 'w scene \<Rightarrow> auto_result \<times> 'w scene" where
  "triggerAutoCCVMSnapshotBackup forward e self day sc =
     (let doc = node_doc (sne_fleet e self)
      in case loadClusterJSONRoot doc of
           None \<Rightarrow> (AutoFailed ''failed to read cluster.json'', sc)
         | Some root \<Rightarrow>
             (case extractSystemProfile root of
                None \<Rightarrow> (AutoFailed ''failed to read systemProfile'', sc)
              | Some profile \<Rightarrow>
                  if \<not> isBootstrapFlagTrue (case map_of (sp_Bootstrap profile) ''ccvm'' of Some v \<Rightarrow> v | None \<Rightarrow> []) then (AutoSkipped, sc)
                  else if \<not> isHCITarget (extractClusterType (NormalizeClusterJSON root)) then (AutoSkipped, sc)
                  else (case loadClusterConfigSection doc of
                          None \<Rightarrow> (AutoFailed ''failed to load clusterConfig'', sc)
                        | Some cfg \<Rightarrow>
                            (let (owner, sc1) = isLocalAutoCCVMSnapOwner e self cfg sc
                             in if \<not> owner then (AutoSkipped, sc1)
                                else (let (resp, sc2) = runCCVMSnapResolvedFromPCS forward e self cfg
                                            \<lparr>cnq_Action = ''backup'', cnq_SnapName = auto_snap_name day\<rparr> sc1
                                      in (AutoDone resp, sc2))))))"

text \<open>The loop, over the times at which it looks at the clock and over what happens to the world until it wakes up.\<close>

fun runAutoCCVMSnapScheduler ::
  "'w snap_call \<Rightarrow> 'w snap_env \<Rightarrow> string \<Rightarrow> ((date \<times> nat) \<times> ('w scene \<Rightarrow> 'w scene)) list \<Rightarrow> 'w scene \<Rightarrow>
     (date \<times> auto_result) list \<times> 'w scene" where
  "runAutoCCVMSnapScheduler forward e self [] sc = ([], sc)"
| "runAutoCCVMSnapScheduler forward e self ((now, meanwhile) # rounds) sc =
     (let day = fst (nextAutoCCVMSnapTime now);
          (result, sc1) = triggerAutoCCVMSnapshotBackup forward e self day (meanwhile sc);
          (results, sc2) = runAutoCCVMSnapScheduler forward e self rounds sc1
      in ((day, result) # results, sc2))"

end
