(* ===== verification/Ccvm_Snapshot_Facts.thy ===== *)
theory Ccvm_Snapshot_Facts
  imports Ccvm_Snapshot
begin

text \<open>
  What the record of commands shows of a snapshot request, wherever it is carried out: the locale \<open>log_rule\<close> is the
  contract of a property of records that a request keeps, interpreted for the suspension of the CCVM and for the check
  before a rollback. Then the bound on the calls between nodes, the retention of snapshots and the daily backup.
\<close>

section \<open>The record of a command\<close>

fun went_well :: "command_answer \<Rightarrow> bool" where
  "went_well (out, timedOut, err) \<longleftrightarrow> \<not> timedOut \<and> err = None"

definition answer_to :: "'w snap_env \<Rightarrow> string \<Rightarrow> string list \<Rightarrow> 'w scene \<Rightarrow> command_answer" where
  "answer_to e self c sc = fst (sne_run e self c (sce_world sc))"

lemma run_log [simp]: "sce_log (snd (runCCVMSnapCommand e self t c sc)) = sce_log sc @ [(self, c, answer_to e self c sc)]"
  by (simp add: runCCVMSnapCommand_def runCommandOutputWithEnv_def answer_to_def Let_def split_beta)

lemma run_world [simp]: "sce_world (snd (runCCVMSnapCommand e self t c sc)) = snd (sne_run e self c (sce_world sc))"
  by (simp add: runCCVMSnapCommand_def runCommandOutputWithEnv_def Let_def split_beta)

lemma run_result: "(\<exists>out. fst (runCCVMSnapCommand e self t c sc) = Inr out) \<longleftrightarrow> went_well (answer_to e self c sc)"
  by (cases "answer_to e self c sc")
    (auto simp: runCCVMSnapCommand_def runCommandOutputWithEnv_def answer_to_def Let_def split_beta split: option.split)

lemma run_output: "fst (runCCVMSnapCommand e self t c sc) = Inr out \<Longrightarrow> fst (answer_to e self c sc) = out"
  by (auto simp: runCCVMSnapCommand_def runCommandOutputWithEnv_def answer_to_def Let_def split_beta split: option.splits if_splits)

lemma run_done: "went_well (answer_to e self c sc) \<Longrightarrow> fst (runCCVMSnapCommand e self t c sc) = Inr (fst (answer_to e self c sc))"
  using run_result [of e self t c sc] run_output [of e self t c sc] by auto

definition quiet :: "string list \<Rightarrow> bool" where
  "quiet c \<longleftrightarrow> c \<noteq> suspend_command \<and> take 3 c \<noteq> [''rbd'', ''snap'', ''rollback'']"

text \<open>Pacemaker answered, and did not show the CCVM as started.\<close>

definition told_stopped :: "'w snap_env \<Rightarrow> command_answer \<Rightarrow> bool" where
  "told_stopped e answer \<longleftrightarrow> went_well answer
     \<and> (case sne_xml e (fst answer) of Inl err \<Rightarrow> False | Inr status \<Rightarrow> \<not> equal_fold (prs_Role (ccvm_resource status)) ''Started'')"

definition grows :: "(command_log \<Rightarrow> bool) \<Rightarrow> 'w scene \<Rightarrow> 'w scene \<Rightarrow> bool" where
  "grows P sc sc' \<longleftrightarrow> take (length (sce_log sc)) (sce_log sc') = sce_log sc \<and> P (drop (length (sce_log sc)) (sce_log sc'))"

lemma grows_iff: "grows P sc sc' \<longleftrightarrow> (\<exists>more. sce_log sc' = sce_log sc @ more \<and> P more)"
proof
  assume g: "grows P sc sc'"
  let ?n = "length (sce_log sc)"
  have "sce_log sc' = take ?n (sce_log sc') @ drop ?n (sce_log sc')" by (rule append_take_drop_id [symmetric])
  with g show "\<exists>more. sce_log sc' = sce_log sc @ more \<and> P more" unfolding grows_def by metis
qed (auto simp: grows_def)

lemma quiet_commands:
  "quiet snap_list_command" "quiet domstate_command" "quiet pcs_status_command" "quiet resume_command"
  "quiet (snap_create_command name)" "quiet (snap_rm_command name)"
  by (simp_all add: quiet_def snap_list_command_def domstate_command_def pcs_status_command_def resume_command_def suspend_command_def
      snap_create_command_def snap_rm_command_def)

definition asks_rollback :: "CCVMSnapRequest \<Rightarrow> bool" where
  "asks_rollback req \<longleftrightarrow> to_lower (trim_space (cnq_Action req)) = ''rollback''"

lemma action_words: "to_lower (trim_space ''list'') = ''list''" "to_lower (trim_space ''backup'') = ''backup''" "to_lower (trim_space ''rollback'') = ''rollback''"
  by code_simp+

lemma normalized_action: "normalizeCCVMSnapRequest req0 = Inr req \<Longrightarrow> cnq_Action req \<in> {''list'', ''backup'', ''rollback''}"
  by (auto simp: normalizeCCVMSnapRequest_def Let_def split: if_splits)

lemma asks_rollback_normal: "cnq_Action req \<in> {''list'', ''backup'', ''rollback''} \<Longrightarrow> asks_rollback req \<longleftrightarrow> cnq_Action req = ''rollback''"
  using action_words by (auto simp: asks_rollback_def)

lemma normalized_rollback: "normalizeCCVMSnapRequest req0 = Inr req \<Longrightarrow> cnq_Action req = ''rollback'' \<longleftrightarrow> asks_rollback req0"
  by (auto simp: normalizeCCVMSnapRequest_def asks_rollback_def Let_def split: if_splits)

section \<open>Requests on the wire\<close>

lemma snap_body_http [simp]: "snap_body (snap_http token req modeHeader started) = Some req"
  by (simp add: snap_body_def snap_http_def marshal_snap_def decode_snap_def item_map_def mget_fields opt_field_def decode_string_def)

lemma header_keys:
  "canonical_key ccvmSnapLocalHeader = ''X-Cube-Ccvm-Snap-Local''" "canonical_key ccvmSnapResolveHeader = ''X-Cube-Ccvm-Snap-Resolve''"
  "canonical_key ccvmSnapStartedHeader = ''X-Cube-Ccvm-Snap-Started''"
  by code_simp+

lemma value_one: "equal_fold (trim_space ''1'') ''1''" "\<not> equal_fold (trim_space []) ''1''"
  by code_simp+

lemma header_names: "ccvmSnapLocalHeader \<noteq> []" "ccvmSnapResolveHeader \<noteq> []"
  by (simp_all add: ccvmSnapLocalHeader_def ccvmSnapResolveHeader_def)

lemma mode_http:
  "isCCVMSnapLocalRequest (snap_http token req ccvmSnapLocalHeader started)"
  "\<not> isCCVMSnapLocalRequest (snap_http token req ccvmSnapResolveHeader started)"
  "isCCVMSnapResolveRequest (snap_http token req ccvmSnapResolveHeader started)"
  using value_one header_names
  by (auto simp: isCCVMSnapLocalRequest_def isCCVMSnapResolveRequest_def is_one_def get_header_def snap_http_def header_keys InternalTokenHeader_def
      split: option.splits)

section \<open>What every request keeps of the record\<close>

text \<open>A call keeps the rule, unless it asks another node for a rollback without a look at pacemaker.\<close>

definition call_keeps :: "(command_log \<Rightarrow> bool) \<Rightarrow> bool \<Rightarrow> 'w snap_call \<Rightarrow> bool" where
  "call_keeps P free f \<longleftrightarrow>
     (\<forall>self target req modeHeader started sc. modeHeader \<in> {ccvmSnapLocalHeader, ccvmSnapResolveHeader} \<longrightarrow>
        free \<or> modeHeader = ccvmSnapResolveHeader \<or> \<not> asks_rollback req \<longrightarrow> grows P sc (snd (f self target req modeHeader started sc)))"

definition may_rollback :: "request \<Rightarrow> bool" where
  "may_rollback rq \<longleftrightarrow> isCCVMSnapLocalRequest rq \<and> (case snap_body rq of Some req \<Rightarrow> asks_rollback req | None \<Rightarrow> False)"

text \<open>
  The rule holds of a quiet command, of a suspension that failed, of the three commands of a snapshot of a running CCVM, and
  of a rollback after a look at pacemaker; if it is \<open>free\<close>, of every rollback.
\<close>

locale log_rule =
  fixes e :: "'w snap_env" and P :: "command_log \<Rightarrow> bool" and free :: bool
  assumes start: "P []"
    and join: "P l1 \<Longrightarrow> P l2 \<Longrightarrow> P (l1 @ l2)"
    and quiet_one: "quiet c \<Longrightarrow> P [(n, c, a)]"
    and not_suspended: "\<not> went_well a \<Longrightarrow> P [(n, suspend_command, a)]"
    and snapshot_three: "P [(n, suspend_command, a), (n, snap_create_command name, a1), (n, resume_command, a2)]"
    and rollback_two: "told_stopped e a \<Longrightarrow> P [(n, pcs_status_command, a), (n, snap_rollback_command name, a1)]"
    and rollback_one: "free \<Longrightarrow> P [(n, snap_rollback_command name, a)]"
begin

lemma same: "grows P (sc :: 'w scene) sc"
  unfolding grows_def by (simp add: start)

lemma trans: "grows P sc sc1 \<Longrightarrow> grows P sc1 sc2 \<Longrightarrow> grows P sc sc2"
  using join by (auto simp: grows_iff)

lemma run: "quiet c \<Longrightarrow> grows P sc (snd (runCCVMSnapCommand e self t c sc))"
  using quiet_one by (auto simp: grows_iff)

lemma state: "grows P sc (snd (localCCVMState e self sc))"
  using quiet_one [OF quiet_commands(2)] by (auto simp: grows_iff localCCVMState_def runCommandOutputWithEnv_def Let_def split_beta)

lemma list: "grows P sc (snd (listCCVMSnapshots e self sc))"
  using run [OF quiet_commands(1)] by (simp add: listCCVMSnapshots_def Let_def split_beta)

lemma exists: "grows P sc (snd (ccvmSnapshotExists e self name sc))"
  using list by (simp add: ccvmSnapshotExists_def Let_def split_beta)

lemma remove: "grows P sc (snd (remove_snapshots e self ss deleted sc))"
proof (induction ss arbitrary: deleted sc)
  case Nil
  then show ?case by (simp add: same)
next
  case (Cons s ss)
  let ?r = "runCCVMSnapCommand e self ccvmSnapCommandTimeout (snap_rm_command (snapshot_name s)) sc"
  have "grows P sc (snd ?r)" by (rule run) (rule quiet_commands)
  then have "grows P sc (snd (remove_snapshots e self ss deleted' (snd ?r)))" for deleted' by (rule trans) (rule Cons)
  with \<open>grows P sc (snd ?r)\<close> Cons show ?case by (auto simp: Let_def split_beta split: sum.split)
qed

lemma cleanup: "grows P sc (snd (cleanupOldCCVMSnapshots e self sc))"
  using list [of sc self] trans [OF list [of sc self] remove] by (auto simp: cleanupOldCCVMSnapshots_def Let_def split_beta split: sum.split)

lemma taken:
  "snd (take_snapshot e self name suspended sc) = sc2 \<or> snd (take_snapshot e self name suspended sc) = snd (cleanupOldCCVMSnapshots e self sc2)"
  if "sc2 = (let sc1 = snd (runCCVMSnapCommand e self ccvmSnapCommandTimeout (snap_create_command name) sc)
             in if suspended then snd (resumeLocalCCVM e self sc1) else sc1)"
  using that by (auto simp: take_snapshot_def Let_def split_beta split: sum.split)

lemma take_running:
  assumes "grows P sc0 sc" and "grows P sc0 (snd (resumeLocalCCVM e self (snd (runCCVMSnapCommand e self ccvmSnapCommandTimeout (snap_create_command name) sc1))))"
  shows "grows P sc0 (snd (take_snapshot e self name True sc1))"
  using taken [where suspended = True, OF refl] assms(2) trans [OF assms(2) cleanup] by (metis (full_types))

lemma take_stopped: "grows P sc (snd (take_snapshot e self name False sc))"
  using taken [where suspended = False, OF refl, of self name sc] run [OF quiet_commands(5)] trans [OF run [OF quiet_commands(5)] cleanup]
  by (metis (full_types))

lemma suspend_take:
  assumes "suspendLocalCCVM e self sc = (Inr out, sc1)"
  shows "grows P sc (snd (take_snapshot e self name True sc1))"
proof -
  have "sce_log sc1 = sce_log sc @ [(self, suspend_command, answer_to e self suspend_command sc)]"
    using assms run_log [of e self ccvmSnapShortCommandTimeout suspend_command sc] by (simp add: suspendLocalCCVM_def)
  then have "grows P sc (snd (resumeLocalCCVM e self (snd (runCCVMSnapCommand e self ccvmSnapCommandTimeout (snap_create_command name) sc1))))"
    using snapshot_three by (auto simp: grows_iff resumeLocalCCVM_def)
  then show ?thesis by (rule take_running [OF same])
qed

lemma suspend_fails:
  assumes "suspendLocalCCVM e self sc = (Inl err, sc1)"
  shows "grows P sc sc1"
proof -
  have "\<not> went_well (answer_to e self suspend_command sc)"
    using assms run_result [of e self ccvmSnapShortCommandTimeout suspend_command sc] by (auto simp: suspendLocalCCVM_def)
  moreover have "sce_log sc1 = sce_log sc @ [(self, suspend_command, answer_to e self suspend_command sc)]"
    using assms run_log [of e self ccvmSnapShortCommandTimeout suspend_command sc] by (simp add: suspendLocalCCVM_def)
  ultimately show ?thesis using not_suspended by (auto simp: grows_iff)
qed

lemma suspend_and_take: "grows P sc (snd (suspend_and_take e self name expected sc))"
proof -
  obtain state known err sc1 where s: "localCCVMState e self sc = ((state, known, err), sc1)" by (cases "localCCVMState e self sc") auto
  then have g: "grows P sc sc1" using state [of sc self] by simp
  show ?thesis
    using g trans [OF g take_stopped] trans [OF g suspend_fails] trans [OF g suspend_take]
    by (auto simp: suspend_and_take_def s Let_def split: sum.split prod.split)
qed

lemma create: "grows P sc (snd (createCCVMSnapshot e self name expected sc))"
  using suspend_and_take [of sc] exists [of sc self name] trans [OF exists [of sc self name] suspend_and_take]
  by (auto simp: createCCVMSnapshot_def Let_def split_beta split: sum.split bool.split)

lemma local_run:
  assumes "free \<or> cnq_Action req \<noteq> ''rollback''"
  shows "grows P sc (snd (runCCVMSnapLocal e self cfg req expected sc))"
proof -
  have "grows P sc (snd (rollbackCCVMSnapshot e self name sc))" if free for name
    using rollback_one [OF that] by (auto simp: grows_iff rollbackCCVMSnapshot_def)
  then show ?thesis using assms list create same by (auto simp: runCCVMSnapLocal_def Let_def split_beta)
qed

lemma pcs_xml: "grows P sc (snd (loadCCVMPcsStatusXML e self sc))"
  using run [OF quiet_commands(3)] by (simp add: loadCCVMPcsStatusXML_def Let_def split_beta)

lemma pcs_status: "grows P sc (snd (loadCCVMPcsResourceStatus e self sc))"
  using pcs_xml by (simp add: loadCCVMPcsResourceStatus_def Let_def split_beta)

lemma checked_rollback:
  assumes "loadCCVMPcsResourceStatus e self sc = (Inr status, sc1)" and "\<not> equal_fold (prs_Role status) ''Started''"
  shows "grows P sc (snd (rollbackCCVMSnapshot e self name sc1))"
proof -
  let ?a = "answer_to e self pcs_status_command sc"
  have log: "sce_log sc1 = sce_log sc @ [(self, pcs_status_command, ?a)]"
    using assms(1) run_log [of e self ccvmSnapShortCommandTimeout pcs_status_command sc]
    by (auto simp: loadCCVMPcsResourceStatus_def loadCCVMPcsStatusXML_def Let_def split_beta)
  have "told_stopped e ?a"
    using assms run_result [of e self ccvmSnapShortCommandTimeout pcs_status_command sc] run_output [of e self ccvmSnapShortCommandTimeout pcs_status_command sc]
    by (auto simp: loadCCVMPcsResourceStatus_def loadCCVMPcsStatusXML_def told_stopped_def Let_def split_beta split: sum.splits)
  with rollback_two log show ?thesis by (auto simp: grows_iff rollbackCCVMSnapshot_def)
qed

lemma started:
  assumes "call_keeps P free f" and "\<not> asks_rollback req" and "cnq_Action req \<noteq> ''rollback''"
  shows "grows P sc (snd (backup_started f e self cfg req node sc))"
proof -
  have "grows P sc (snd (f self target req ccvmSnapLocalHeader True sc))" for target using assms(1,2) by (auto simp: call_keeps_def)
  then show ?thesis using assms(3) local_run same by (auto simp: backup_started_def Let_def split_beta split: option.split)
qed

lemma resolved:
  assumes "call_keeps P free f" and "cnq_Action req \<in> {''list'', ''backup'', ''rollback''}"
  shows "grows P sc (snd (runCCVMSnapResolvedFromPCS f e self cfg req sc))"
proof -
  obtain res sc1 where s: "loadCCVMPcsResourceStatus e self sc = (res, sc1)" by (cases "loadCCVMPcsResourceStatus e self sc")
  then have g: "grows P sc sc1" using pcs_status [of sc self] by simp
  consider "cnq_Action req = ''list''" | "cnq_Action req = ''rollback''" | "cnq_Action req = ''backup''" using assms(2) by blast
  then show ?thesis
  proof cases
    case 1
    then show ?thesis using local_run by (simp add: runCCVMSnapResolvedFromPCS_def)
  next
    case 2
    then show ?thesis
      using checked_rollback g s by (auto simp: runCCVMSnapResolvedFromPCS_def runCCVMSnapLocal_def Let_def split_beta split: sum.split)
  next
    case 3
    then have plain: "\<not> asks_rollback req" using asks_rollback_normal assms(2) by auto
    have "grows P sc (snd (runCCVMSnapLocal e self cfg req expected sc1))" for expected
      by (rule trans [OF g local_run]) (simp add: 3)
    moreover have "grows P sc (snd (backup_started f e self cfg req node sc1))" for node
      by (rule trans [OF g started]) (simp_all add: 3 assms(1) plain)
    ultimately show ?thesis using 3 g by (simp add: runCCVMSnapResolvedFromPCS_def s Let_def split: sum.split)
  qed
qed

lemma via:
  assumes "call_keeps P free f" and "cnq_Action req \<in> {''list'', ''backup'', ''rollback''}"
  shows "grows P sc (snd (via_targets f e self cfg req targets lastErr sc))"
proof (induction targets arbitrary: lastErr sc)
  case Nil
  then show ?case by (simp add: same)
next
  case (Cons target targets)
  let ?r = "f self target req ccvmSnapResolveHeader False sc"
  have g: "grows P sc (snd ?r)" using assms(1) by (auto simp: call_keeps_def)
  have "grows P sc (snd (via_targets f e self cfg req targets err (snd ?r)))" for err by (rule trans [OF g Cons])
  with g Cons resolved [OF assms] show ?case by (auto simp: Let_def split_beta split: option.split sum.split)
qed

lemma route:
  assumes "call_keeps P free f" and "cnq_Action req \<in> {''list'', ''backup'', ''rollback''}"
    and "free \<or> \<not> isCCVMSnapLocalRequest rq \<or> cnq_Action req \<noteq> ''rollback''"
  shows "grows P sc (snd (route_snap f e self rq cfg req sc))"
  using assms local_run resolved [OF assms(1,2)] via [OF assms(1,2)] same
  by (auto simp: route_snap_def runCCVMSnapViaPCS_def Let_def)

lemma served:
  assumes "call_keeps P free f" and "free \<or> \<not> may_rollback rq"
  shows "grows P sc (snd (serve_snap f e self rq sc))"
proof -
  have "grows P sc (snd (CCVMSnap f e self rq sc))"
  proof (cases "snap_body rq")
    case None
    then show ?thesis by (simp add: CCVMSnap_def same)
  next
    case (Some req0)
    show ?thesis
    proof (cases "normalizeCCVMSnapRequest req0")
      case (Inl err)
      then show ?thesis by (simp add: CCVMSnap_def Some same)
    next
      case (Inr req)
      have "free \<or> \<not> isCCVMSnapLocalRequest rq \<or> cnq_Action req \<noteq> ''rollback''"
        using assms(2) Some normalized_rollback [OF Inr] by (auto simp: may_rollback_def)
      then have "grows P sc (snd (route_snap f e self rq cfg req sc))" for cfg
        by (rule route [OF assms(1) normalized_action [OF Inr]])
      then show ?thesis by (auto simp: CCVMSnap_def Some Inr same Let_def split_beta split: option.split)
    qed
  qed
  then show ?thesis using same by (auto simp: serve_snap_def Let_def split_beta split: gate.split)
qed

lemma exchanged:
  assumes "call_keeps P free f"
  shows "call_keeps P free (snap_exchange (serve_snap f e) e)"
proof -
  have "grows P sc (snd (serve_snap f e home (snap_http token req modeHeader started) sc))"
    if "modeHeader \<in> {ccvmSnapLocalHeader, ccvmSnapResolveHeader}" "free \<or> modeHeader = ccvmSnapResolveHeader \<or> \<not> asks_rollback req"
    for home token req modeHeader started sc
    using that mode_http(2) by (intro served [OF assms]) (auto simp: may_rollback_def)
  then show ?thesis using same by (simp add: call_keeps_def snap_exchange_def Let_def split_beta split: option.split transmission.split)
qed

lemma remote: "call_keeps P free (callCCVMSnapRemote n e)"
proof (induction n)
  case 0
  then show ?case by (simp add: call_keeps_def same)
next
  case (Suc n)
  then show ?case using exchanged by simp
qed

lemma request: "free \<or> \<not> may_rollback rq \<Longrightarrow> grows P sc (snd (serve_snapshot e self rq sc))"
  using served [OF remote] by (simp add: serve_snapshot_def)

lemma automatic: "grows P sc (snd (triggerAutoCCVMSnapshotBackup (callCCVMSnapRemote 2 e) e self day sc))"
proof -
  have owner: "grows P sc (snd (isLocalAutoCCVMSnapOwner e self cfg sc))" for cfg
    using pcs_xml by (simp add: isLocalAutoCCVMSnapOwner_def loadCCVMPcsCurrentDC_def Let_def split_beta)
  let ?req = "\<lparr>cnq_Action = ''backup'', cnq_SnapName = auto_snap_name day\<rparr>"
  have "grows P sc (snd (runCCVMSnapResolvedFromPCS (callCCVMSnapRemote 2 e) e self cfg ?req (snd (isLocalAutoCCVMSnapOwner e self cfg sc))))" for cfg
    by (rule trans [OF owner resolved [OF remote]]) simp
  with owner same show ?thesis by (simp add: triggerAutoCCVMSnapshotBackup_def Let_def split_beta split: option.split)
qed

end

section \<open>A suspended CCVM is resumed\<close>

text \<open>Right after a suspension that went well come the snapshot and the resumption, on the same node.\<close>

fun paused_briefly :: "command_log \<Rightarrow> bool" where
  "paused_briefly [] \<longleftrightarrow> True"
| "paused_briefly ((n, c, a) # log) \<longleftrightarrow>
     (if c = suspend_command \<and> went_well a
      then (case log of
              (n1, c1, a1) # (n2, c2, a2) # rest \<Rightarrow> n1 = n \<and> take 3 c1 = [''rbd'', ''snap'', ''create''] \<and> n2 = n \<and> c2 = resume_command
            | _ \<Rightarrow> False)
      else True) \<and> paused_briefly log"

lemma paused_briefly_append: "paused_briefly l1 \<Longrightarrow> paused_briefly l2 \<Longrightarrow> paused_briefly (l1 @ l2)"
  by (induction l1 rule: paused_briefly.induct) (auto split: list.splits if_splits)

lemma suspend_other: "resume_command \<noteq> suspend_command" "snap_create_command name \<noteq> suspend_command" "snap_rollback_command name \<noteq> suspend_command"
  "pcs_status_command \<noteq> suspend_command"
  by (simp_all add: resume_command_def suspend_command_def snap_create_command_def snap_rollback_command_def pcs_status_command_def)

interpretation pause: log_rule e paused_briefly True for e :: "'w snap_env"
  by unfold_locales
    (use suspend_other in \<open>auto simp: quiet_def paused_briefly_append snap_create_command_def\<close>)

section \<open>A rollback is checked\<close>

fun rollbacks_checked :: "'w snap_env \<Rightarrow> (string \<times> string list \<times> command_answer) option \<Rightarrow> command_log \<Rightarrow> bool" where
  "rollbacks_checked e before [] \<longleftrightarrow> True"
| "rollbacks_checked e before ((n, c, a) # log) \<longleftrightarrow>
     (if take 3 c = [''rbd'', ''snap'', ''rollback'']
      then (case before of Some (n1, c1, a1) \<Rightarrow> n1 = n \<and> c1 = pcs_status_command \<and> told_stopped e a1 | None \<Rightarrow> False)
      else True) \<and> rollbacks_checked e (Some (n, c, a)) log"

lemma rollbacks_checked_mono: "rollbacks_checked e None log \<Longrightarrow> rollbacks_checked e before log"
  by (cases log) auto

lemma rollbacks_checked_append: "rollbacks_checked e before l1 \<Longrightarrow> rollbacks_checked e None l2 \<Longrightarrow> rollbacks_checked e before (l1 @ l2)"
  by (induction l1 arbitrary: before) (auto intro: rollbacks_checked_mono)

interpretation checked: log_rule e "rollbacks_checked e None" False for e :: "'w snap_env"
  by unfold_locales
    (auto simp: quiet_def rollbacks_checked_append suspend_command_def resume_command_def snap_create_command_def snap_rollback_command_def
      pcs_status_command_def)

text \<open>
  C12. A CCVM that a request or the automatic backup suspends is resumed: whatever the commands answer, and on whichever node they
  run, each suspension that went well is followed at once by one snapshot and by the resumption, on the same node.
\<close>

theorem suspended_is_resumed:
  "grows paused_briefly sc (snd (serve_snapshot e self rq sc))
   \<and> grows paused_briefly sc (snd (triggerAutoCCVMSnapshotBackup (callCCVMSnapRemote 2 e) e self day sc))"
  using pause.request pause.automatic by blast

text \<open>
  C13. A rollback is never run while pacemaker shows the CCVM as started: unless the request carries the internal token, each
  rollback that it causes, on any node, comes right after a status of pacemaker, on that node, that could be read and did not show it started.
\<close>

theorem rollback_is_checked:
  assumes "r_method rq = ''POST''" and "r_path rq = snap_path"
    and "\<not> ValidateInternalToken (y_env (ma_system (fb_machine (sne_fabric e) self))) (get_header rq InternalTokenHeader) (node_store (sne_fleet e self))"
  shows "grows (rollbacks_checked e None) sc (snd (serve_snapshot e self rq sc))"
proof (cases "may_rollback rq")
  case False
  then show ?thesis by (simp add: checked.request)
next
  case True
  let ?y = "system_of (fb_machine (sne_fabric e) self) (sne_fleet e self)"
  have "isCCVMSnapLocalRequest rq" using True by (simp add: may_rollback_def)
  then obtain v vs where v: "map_of (r_headers rq) ''X-Cube-Ccvm-Snap-Local'' = Some (v # vs)" "equal_fold (trim_space v) ''1''"
    using value_one by (auto simp: isCCVMSnapLocalRequest_def is_one_def get_header_def header_keys split: option.splits list.splits)
  have "trim_space v \<noteq> []" using v(2) value_one by auto
  moreover have "has_prefix (to_lower ''X-Cube-Ccvm-Snap-Local'') ''x-cube-''" by code_simp
  ultimately have internal: "hasCubeInternalHeader (r_headers rq)"
    using map_of_SomeD [OF v(1)] by (force simp: hasCubeInternalHeader_def list_ex_iff)
  have "\<not> ValidateInternalToken (y_env ?y) (get_header rq InternalTokenHeader) (y_store ?y)" using assms(3) by (simp add: system_of_def)
  moreover have "\<not> allowClusterApplyLocalBootstrap ?y rq" using assms(2) by (simp add: allowClusterApplyLocalBootstrap_def snap_path_def)
  ultimately have "Middleware ?y rq \<noteq> Next"
    using assms(1,2) internal by (auto simp: Middleware_def isPublicPath_def has_prefix_def snap_path_def split: sum.splits)
  then show ?thesis using checked.same by (auto simp: serve_snapshot_def serve_snap_def split: gate.split)
qed

section \<open>Witness\<close>

definition silent_env :: "unit snap_env" where
  "silent_env =
     \<lparr>sne_fabric = sample_fabric, sne_fleet = (\<lambda>n. sample_node), sne_hostname = (\<lambda>n. None), sne_run = (\<lambda>n c w. (([], False, None), w)),
      sne_json = (\<lambda>out. Inr VNil), sne_mismatch = (\<lambda>v. []), sne_xml = (\<lambda>out. Inl ''EOF''), sne_refusal = (\<lambda>n code. []),
      sne_stamp = (\<lambda>n w. []), sne_health = (\<lambda>n target w. None)\<rparr>"

definition rollback_rq :: request where
  "rollback_rq = snap_http None \<lparr>cnq_Action = ''rollback'', cnq_SnapName = ''auto-2025-01-02''\<rparr> ccvmSnapLocalHeader False"

theorem rollback_is_checked_witness:
  "grows (rollbacks_checked silent_env None) \<lparr>sce_world = (), sce_log = []\<rparr>
     (snd (serve_snapshot silent_env ''cube1'' rollback_rq \<lparr>sce_world = (), sce_log = []\<rparr>))"
proof (rule rollback_is_checked)
  have "get_header rollback_rq InternalTokenHeader = []"
    by (simp add: rollback_rq_def get_header_def snap_http_def InternalTokenHeader_def header_keys split: option.split)
  moreover have "GetInternalToken (y_env (ma_system sample_machine)) (node_store sample_node) = Inr ''tok''" by (rule sample_token)
  ultimately show "\<not> ValidateInternalToken (y_env (ma_system (fb_machine (sne_fabric silent_env) ''cube1'')))
      (get_header rollback_rq InternalTokenHeader) (node_store (sne_fleet silent_env ''cube1''))"
    by (simp add: ValidateInternalToken_def silent_env_def sample_fabric_def trim_space_def)
qed (simp_all add: rollback_rq_def snap_http_def)

end
