(* ===== verification/Ccvm_Snapshot_Retention.thy ===== *)
theory Ccvm_Snapshot_Retention
  imports Ccvm_Snapshot_Facts
begin

text \<open>
  What a backup leaves in the pool, for a pool that behaves as \<^verbatim>\<open>rbd\<close> documents it; the bound on the calls between the nodes; an
  answer that is lost; and the days of the automatic backup.
\<close>

section \<open>The pool\<close>

text \<open>
  A list shows the snapshots in the order of their creation, a name exists once, creation appends, removal takes out,
  and \<^verbatim>\<open>virsh\<close> does not touch the pool. Nothing is said of commands that fail.
\<close>

definition rbd_pool :: "'w snap_env \<Rightarrow> ('w \<Rightarrow> string list) \<Rightarrow> bool" where
  "rbd_pool e pool \<longleftrightarrow>
     (\<forall>n w out w1. sne_run e n snap_list_command w = ((out, False, None), w1) \<longrightarrow>
        pool w1 = pool w \<and> (\<exists>v ss. sne_json e out = Inr v \<and> decode_snapshots v = Some ss \<and> map snapshot_name ss = map trim_space (pool w)))
   \<and> (\<forall>n w out w1 name. sne_run e n (snap_create_command name) w = ((out, False, None), w1) \<longrightarrow>
        name \<notin> set (pool w) \<and> pool w1 = pool w @ [name])
   \<and> (\<forall>n w out w1 name. sne_run e n (snap_rm_command name) w = ((out, False, None), w1) \<longrightarrow> pool w1 = remove1 name (pool w))
   \<and> (\<forall>n w c. c \<in> {domstate_command, suspend_command, resume_command} \<longrightarrow> pool (snd (sne_run e n c w)) = pool w)"

text \<open>The names of a pool: each once, none blank, none with spaces around it.\<close>

definition proper_names :: "string list \<Rightarrow> bool" where
  "proper_names names \<longleftrightarrow> distinct names \<and> (\<forall>n\<in>set names. n \<noteq> [] \<and> trim_space n = n)"

lemma run_succeeds:
  assumes "runCCVMSnapCommand e self t c sc = (Inr out, sc1)"
  obtains w1 where "sne_run e self c (sce_world sc) = ((out, False, None), w1)" and "sce_world sc1 = w1"
proof -
  have "went_well (answer_to e self c sc)" using run_result [of e self t c sc] assms by auto
  moreover have "fst (answer_to e self c sc) = out" using run_output [of e self t c sc] assms by simp
  ultimately have "fst (sne_run e self c (sce_world sc)) = (out, False, None)"
    by (cases "fst (sne_run e self c (sce_world sc))") (auto simp: answer_to_def)
  then have "sne_run e self c (sce_world sc) = ((out, False, None), sce_world sc1)"
    using assms run_world [of e self t c sc] by (cases "sne_run e self c (sce_world sc)") auto
  then show thesis using that by blast
qed

lemma listed:
  assumes "rbd_pool e pool" and "listCCVMSnapshots e self sc = (Inr (v, ss), sc1)"
  shows "map snapshot_name ss = map trim_space (pool (sce_world sc))" and "pool (sce_world sc1) = pool (sce_world sc)"
proof -
  obtain out where r: "runCCVMSnapCommand e self ccvmSnapShortCommandTimeout snap_list_command sc = (Inr out, sc1)"
      "sne_json e out = Inr v" "decode_snapshots v = Some ss"
    using assms(2) by (auto simp: listCCVMSnapshots_def Let_def split_beta prod_eq_iff split: sum.splits option.splits)
  from r(1) obtain w1 where w: "sne_run e self snap_list_command (sce_world sc) = ((out, False, None), w1)" "sce_world sc1 = w1"
    by (rule run_succeeds)
  with assms(1) r(2,3) show "map snapshot_name ss = map trim_space (pool (sce_world sc))" "pool (sce_world sc1) = pool (sce_world sc)"
    unfolding rbd_pool_def by fastforce+
qed

lemma proper_trim: "proper_names names \<Longrightarrow> map trim_space names = names"
  by (auto simp: proper_names_def intro: map_idI)

lemma removed:
  assumes "rbd_pool e pool" and "remove_snapshots e self ss deleted sc = ((deleted', None), sc1)"
    and "pool (sce_world sc) = map snapshot_name ss @ rest" and "proper_names (map snapshot_name ss @ rest)"
  shows "deleted' = deleted @ map snapshot_name ss \<and> pool (sce_world sc1) = rest"
  using assms(2,3,4)
proof (induction ss arbitrary: deleted sc)
  case Nil
  then show ?case by simp
next
  case (Cons s ss)
  let ?name = "snapshot_name s"
  have name: "?name \<noteq> []" "proper_names (map snapshot_name ss @ rest)" using Cons.prems(3) by (auto simp: proper_names_def)
  obtain out sc2 where r: "runCCVMSnapCommand e self ccvmSnapCommandTimeout (snap_rm_command ?name) sc = (Inr out, sc2)"
      "remove_snapshots e self ss (deleted @ [?name]) sc2 = ((deleted', None), sc1)"
    using Cons.prems(1) name by (auto simp: Let_def split_beta prod_eq_iff split: sum.splits)
  from r(1) obtain w1 where "sne_run e self (snap_rm_command ?name) (sce_world sc) = ((out, False, None), w1)" "sce_world sc2 = w1"
    by (rule run_succeeds)
  then have "pool (sce_world sc2) = remove1 ?name (pool (sce_world sc))" using assms(1) unfolding rbd_pool_def by blast
  then have "pool (sce_world sc2) = map snapshot_name ss @ rest" using Cons.prems(2) by simp
  from Cons.IH [OF r(2) this name(2)] show ?case by simp
qed

lemma cleaned:
  assumes "rbd_pool e pool" and "cleanupOldCCVMSnapshots e self sc = ((deleted, None), sc1)" and "proper_names (pool (sce_world sc))"
  defines "k \<equiv> length (pool (sce_world sc)) - ccvmSnapLimit"
  shows "deleted = take k (pool (sce_world sc)) \<and> pool (sce_world sc1) = drop k (pool (sce_world sc))"
proof -
  let ?names = "pool (sce_world sc)"
  obtain v ss sc2 where l: "listCCVMSnapshots e self sc = (Inr (v, ss), sc2)"
    using assms(2) by (cases "listCCVMSnapshots e self sc") (auto simp: cleanupOldCCVMSnapshots_def split: sum.splits)
  have names: "map snapshot_name ss = ?names" "pool (sce_world sc2) = ?names"
    using listed [OF assms(1) l] proper_trim [OF assms(3)] by simp_all
  then have len: "length ss = length ?names" by (metis length_map)
  show ?thesis
  proof (cases "length ss \<le> ccvmSnapLimit")
    case True
    then show ?thesis using assms(2) names len by (simp add: cleanupOldCCVMSnapshots_def l k_def)
  next
    case False
    have split: "?names = map snapshot_name (take k ss) @ drop k ?names" by (metis append_take_drop_id names(1) take_map)
    have "remove_snapshots e self (take k ss) [] sc2 = ((deleted, None), sc1)"
      using assms(2) False len by (simp add: cleanupOldCCVMSnapshots_def l k_def)
    moreover have "pool (sce_world sc2) = map snapshot_name (take k ss) @ drop k ?names" using split names(2) by simp
    moreover have "proper_names (map snapshot_name (take k ss) @ drop k ?names)" using split assms(3) by simp
    ultimately have "deleted = [] @ map snapshot_name (take k ss) \<and> pool (sce_world sc1) = drop k ?names" by (rule removed [OF assms(1)])
    then show ?thesis by (metis append_Nil names(1) take_map)
  qed
qed

text \<open>What a backup that created a snapshot leaves: the ten newest, the new one among them.\<close>

definition kept_ten :: "string list \<Rightarrow> string list \<Rightarrow> string list \<Rightarrow> bool" where
  "kept_ten names deleted left \<longleftrightarrow> (let k = length names - ccvmSnapLimit in deleted = take k names \<and> left = drop k names)"

lemma taken_pool:
  assumes "rbd_pool e pool" and "take_snapshot e self name suspended sc = ((deleted, None), sc1)"
    and "proper_names (pool (sce_world sc))" and "name \<noteq> []" and "trim_space name = name"
  shows "kept_ten (pool (sce_world sc) @ [name]) deleted (pool (sce_world sc1))"
proof -
  let ?names = "pool (sce_world sc)"
  obtain out sc2 where c: "runCCVMSnapCommand e self ccvmSnapCommandTimeout (snap_create_command name) sc = (Inr out, sc2)"
    using assms(2) by (cases "runCCVMSnapCommand e self ccvmSnapCommandTimeout (snap_create_command name) sc")
      (auto simp: take_snapshot_def Let_def split_beta split: sum.splits)
  from c obtain w1 where "sne_run e self (snap_create_command name) (sce_world sc) = ((out, False, None), w1)" "sce_world sc2 = w1"
    by (rule run_succeeds)
  then have new: "name \<notin> set ?names" "pool (sce_world sc2) = ?names @ [name]" using assms(1) unfolding rbd_pool_def by blast+
  let ?sc3 = "if suspended then snd (resumeLocalCCVM e self sc2) else sc2"
  have clean: "cleanupOldCCVMSnapshots e self ?sc3 = ((deleted, None), sc1)"
    using assms(2) c by (auto simp: take_snapshot_def Let_def split_beta split: sum.splits if_splits)
  have same: "pool (sce_world ?sc3) = ?names @ [name]" using assms(1) new(2) by (auto simp: rbd_pool_def resumeLocalCCVM_def)
  have "proper_names (pool (sce_world ?sc3))" using assms(3-5) new(1) unfolding same by (auto simp: proper_names_def)
  from cleaned [OF assms(1) clean this] show ?thesis unfolding same by (simp add: kept_ten_def Let_def)
qed

lemma suspended_pool:
  assumes "rbd_pool e pool" and "suspend_and_take e self name expected sc = ((deleted, None), sc1)"
    and "proper_names (pool (sce_world sc))" and "name \<noteq> []" and "trim_space name = name"
  shows "kept_ten (pool (sce_world sc) @ [name]) deleted (pool (sce_world sc1))"
proof -
  obtain state known err sc2 where s: "localCCVMState e self sc = ((state, known, err), sc2)" by (cases "localCCVMState e self sc") auto
  then have "sce_world sc2 = snd (sne_run e self domstate_command (sce_world sc))"
    by (auto simp: localCCVMState_def runCommandOutputWithEnv_def Let_def split_beta)
  then have p2: "pool (sce_world sc2) = pool (sce_world sc)" using assms(1) by (simp add: rbd_pool_def)
  let ?s = "suspendLocalCCVM e self sc2"
  have p3: "pool (sce_world (snd ?s)) = pool (sce_world sc)" using assms(1) p2 by (simp add: rbd_pool_def suspendLocalCCVM_def)
  have "take_snapshot e self name True (snd ?s) = ((deleted, None), sc1) \<or> take_snapshot e self name False sc2 = ((deleted, None), sc1)"
    using assms(2) by (auto simp: suspend_and_take_def s Let_def split_beta split: sum.splits if_splits)
  then show ?thesis using taken_pool [OF assms(1) _ _ assms(4,5)] assms(3) p2 p3 by metis
qed

text \<open>
  C14. A backup keeps the ten newest snapshots: when it answers a success, the pool holds the snapshots it held and the new one
  after them, without the oldest ones beyond ten, and those are the ones that the answer names as deleted. An automatic
  backup whose snapshot exists already changes nothing.
\<close>

theorem backup_keeps_ten:
  assumes "rbd_pool e pool" and "proper_names (pool (sce_world sc))" and "cnq_Action req = ''backup''"
    and "runCCVMSnapLocal e self cfg req expected sc = (resp, sc')" and "cnr_Code resp = 200"
    and "cnr_SnapName resp \<noteq> []" and "trim_space (cnr_SnapName resp) = cnr_SnapName resp"
  shows "let before = pool (sce_world sc); name = cnr_SnapName resp; after = pool (sce_world sc')
    in if isAutoCCVMSnapshotName name \<and> name \<in> set before then after = before \<and> cnr_Deleted resp = []
       else kept_ten (before @ [name]) (cnr_Deleted resp) after \<and> name \<in> set after \<and> length after \<le> 10"
proof -
  let ?name = "cnr_SnapName resp" and ?before = "pool (sce_world sc)"
  have made: "createCCVMSnapshot e self ?name expected sc = ((cnr_Deleted resp, None), sc')"
    using assms(3-5) by (auto simp: runCCVMSnapLocal_def snap_done_def ccvmSnapLocalError_def ccvmSnapError_def Let_def split_beta prod_eq_iff
        split: option.splits if_splits)
  have kept: "name \<in> set after \<and> length after \<le> 10" if "kept_ten (before @ [name]) deleted after" for name before deleted after
    using that by (auto simp: kept_ten_def ccvmSnapLimit_def Let_def)
  show ?thesis
  proof (cases "isAutoCCVMSnapshotName ?name")
    case False
    then have "suspend_and_take e self ?name expected sc = ((cnr_Deleted resp, None), sc')" using made by (simp add: createCCVMSnapshot_def)
    from suspended_pool [OF assms(1) this assms(2,6,7)] show ?thesis using kept False by (simp add: Let_def)
  next
    case True
    obtain v ss sc1 where l: "listCCVMSnapshots e self sc = (Inr (v, ss), sc1)"
      using made True by (cases "listCCVMSnapshots e self sc") (auto simp: createCCVMSnapshot_def ccvmSnapshotExists_def split: sum.splits)
    have names: "map snapshot_name ss = ?before" "pool (sce_world sc1) = ?before"
      using listed [OF assms(1) l] proper_trim [OF assms(2)] by simp_all
    then have found: "list_ex (\<lambda>s. snapshot_name s = ?name) ss \<longleftrightarrow> ?name \<in> set ?before" unfolding names(1) [symmetric] list_ex_iff set_map by (metis imageE image_eqI)
    show ?thesis
    proof (cases "?name \<in> set ?before")
      case True
      with \<open>isAutoCCVMSnapshotName ?name\<close> show ?thesis
        using made found names(2) by (auto simp: createCCVMSnapshot_def ccvmSnapshotExists_def l Let_def)
    next
      case False
      with True have "suspend_and_take e self ?name expected sc1 = ((cnr_Deleted resp, None), sc')"
        using made found by (simp add: createCCVMSnapshot_def ccvmSnapshotExists_def l)
      from suspended_pool [OF assms(1) this _ assms(6,7)] show ?thesis using kept False names(2) assms(2) by (simp add: Let_def)
    qed
  qed
qed

section \<open>Two calls are enough\<close>

definition agree_on :: "string list \<Rightarrow> 'w snap_call \<Rightarrow> 'w snap_call \<Rightarrow> bool" where
  "agree_on headers f g \<longleftrightarrow> (\<forall>self target req modeHeader started sc. modeHeader \<in> set headers \<longrightarrow>
     f self target req modeHeader started sc = g self target req modeHeader started sc)"

lemma started_agree: "agree_on [ccvmSnapLocalHeader] f g \<Longrightarrow> backup_started f = backup_started g"
  by (intro ext) (simp add: backup_started_def agree_on_def Let_def split: option.split)

lemma resolved_agree: "agree_on [ccvmSnapLocalHeader] f g \<Longrightarrow> runCCVMSnapResolvedFromPCS f = runCCVMSnapResolvedFromPCS g"
  by (drule started_agree, intro ext) (simp add: runCCVMSnapResolvedFromPCS_def Let_def split_beta split: sum.split)

lemma via_agree: "agree_on [ccvmSnapLocalHeader, ccvmSnapResolveHeader] f g
    \<Longrightarrow> via_targets f e self cfg req targets err sc = via_targets g e self cfg req targets err sc"
  using resolved_agree [of f g] by (induction targets arbitrary: err sc) (auto simp: agree_on_def Let_def split_beta split: option.split sum.split)

lemma route_agree:
  "isCCVMSnapLocalRequest rq \<Longrightarrow> route_snap f e self rq = route_snap g e self rq"
  "isCCVMSnapResolveRequest rq \<Longrightarrow> agree_on [ccvmSnapLocalHeader] f g \<Longrightarrow> route_snap f e self rq = route_snap g e self rq"
  "agree_on [ccvmSnapLocalHeader, ccvmSnapResolveHeader] f g \<Longrightarrow> route_snap f e self rq = route_snap g e self rq"
  using resolved_agree [of f g] via_agree [of f g]
  by (auto intro!: ext simp: route_snap_def runCCVMSnapViaPCS_def agree_on_def Let_def)

lemma serve_agree:
  assumes "route_snap f e self rq = route_snap g e self rq"
  shows "serve_snap f e self rq sc = serve_snap g e self rq sc"
proof -
  have "CCVMSnap f e self rq sc = CCVMSnap g e self rq sc" by (simp add: CCVMSnap_def assms split: option.split sum.split)
  then show ?thesis by (simp only: serve_snap_def)
qed

lemma exchange_local: "agree_on [ccvmSnapLocalHeader] (snap_exchange (serve_snap f e) e) (snap_exchange (serve_snap g e) e)"
  using serve_agree [OF route_agree(1) [OF mode_http(1)], of f e _ _ _ _ _ g] by (simp add: agree_on_def snap_exchange_def Let_def)

lemma exchange_resolve:
  assumes "agree_on [ccvmSnapLocalHeader] f g"
  shows "agree_on [ccvmSnapResolveHeader] (snap_exchange (serve_snap f e) e) (snap_exchange (serve_snap g e) e)"
  using serve_agree [OF route_agree(2) [OF mode_http(3) assms]] by (simp add: agree_on_def snap_exchange_def Let_def)

text \<open>
  C32. A request is passed on at most twice: with any larger bound on the calls between the nodes the answer and what was done
  are the same, so that no request goes round in circles.
\<close>

theorem two_calls_enough: "serve_snap (callCCVMSnapRemote (n + 2) e) e self rq sc = serve_snapshot e self rq sc"
proof -
  have one: "agree_on [ccvmSnapLocalHeader] (callCCVMSnapRemote (Suc i) e) (callCCVMSnapRemote (Suc j) e)" for i j
    using exchange_local by simp
  have "agree_on [ccvmSnapResolveHeader] (callCCVMSnapRemote (n + 2) e) (callCCVMSnapRemote 2 e)"
    using exchange_resolve [OF one [of n 0]] by (simp add: numeral_2_eq_2)
  moreover have "agree_on [ccvmSnapLocalHeader] (callCCVMSnapRemote (n + 2) e) (callCCVMSnapRemote 2 e)"
    using one [of "Suc n" "Suc 0"] by (simp add: numeral_2_eq_2)
  ultimately have "agree_on [ccvmSnapLocalHeader, ccvmSnapResolveHeader] (callCCVMSnapRemote (n + 2) e) (callCCVMSnapRemote 2 e)"
    by (auto simp: agree_on_def)
  then show ?thesis unfolding serve_snapshot_def by (rule serve_agree [OF route_agree(3)])
qed

section \<open>An answer that is lost\<close>

text \<open>
  A node that a request for a rollback reaches and that carries it out: it is another node, healthy, with an
  address and an open gate, it knows its cluster, and pacemaker shows it that the CCVM is not started.
\<close>

definition rolls_back :: "'w snap_env \<Rightarrow> string \<Rightarrow> CCVMSnapRequest \<Rightarrow> string \<Rightarrow> bool" where
  "rolls_back e self req target \<longleftrightarrow>
     (let fb = sne_fabric e; own = fb_machine fb self; home = fb_home fb target
      in \<not> local_to e self target \<and> (\<forall>w. sne_health e self target w = None)
         \<and> fb_url_error fb (buildTargetURL (y_env (ma_system own)) target @ snap_path) = None
         \<and> Middleware (system_of (fb_machine fb home) (sne_fleet e home))
              (snap_http (attached_token own (sne_fleet e self)) req ccvmSnapResolveHeader False) = Next
         \<and> (\<exists>cfg. loadClusterConfigSection (node_doc (sne_fleet e home)) = Some cfg \<and> isHCITarget (sec_Type cfg))
         \<and> (\<forall>sc. told_stopped e (answer_to e home pcs_status_command sc)))"

definition commands_run :: "command_log \<Rightarrow> (string \<times> string list) list" where
  "commands_run log = map (\<lambda>(n, c, a). (n, c)) log"

lemma stopped_status:
  assumes "told_stopped e (answer_to e n pcs_status_command sc)"
  obtains status sc1 where "loadCCVMPcsResourceStatus e n sc = (Inr status, sc1)" "\<not> equal_fold (prs_Role status) ''Started''"
    "sce_log sc1 = sce_log sc @ [(n, pcs_status_command, answer_to e n pcs_status_command sc)]"
proof -
  have "went_well (answer_to e n pcs_status_command sc)" using assms by (simp add: told_stopped_def)
  note out = run_done [OF this, of ccvmSnapShortCommandTimeout]
  obtain x where x: "sne_xml e (fst (answer_to e n pcs_status_command sc)) = Inr x" "\<not> equal_fold (prs_Role (ccvm_resource x)) ''Started''"
    using assms by (auto simp: told_stopped_def split: sum.splits)
  show ?thesis
    by (rule that [of "ccvm_resource x" "snd (runCCVMSnapCommand e n ccvmSnapShortCommandTimeout pcs_status_command sc)"])
      (simp_all add: loadCCVMPcsResourceStatus_def loadCCVMPcsStatusXML_def out x Let_def split_beta)
qed

lemma rolled_back:
  assumes "rolls_back e self req target" and "normalizeCCVMSnapRequest req = Inr req" and "cnq_Action req = ''rollback''"
    and "rq = snap_http (attached_token (fb_machine (sne_fabric e) self) (sne_fleet e self)) req ccvmSnapResolveHeader False"
  shows "commands_run (sce_log (snd (serve_snap f e (fb_home (sne_fabric e) target) rq sc))) = commands_run (sce_log sc)
    @ [(fb_home (sne_fabric e) target, pcs_status_command), (fb_home (sne_fabric e) target, snap_rollback_command (cnq_SnapName req))]"
proof -
  let ?home = "fb_home (sne_fabric e) target"
  obtain cfg where cfg: "loadClusterConfigSection (node_doc (sne_fleet e ?home)) = Some cfg" "isHCITarget (sec_Type cfg)"
    using assms(1) by (auto simp: rolls_back_def Let_def)
  have gate: "Middleware (system_of (fb_machine (sne_fabric e) ?home) (sne_fleet e ?home)) rq = Next"
    using assms(1,4) by (simp add: rolls_back_def Let_def)
  have "told_stopped e (answer_to e ?home pcs_status_command sc)" using assms(1) by (simp add: rolls_back_def Let_def)
  then obtain status sc1 where status: "loadCCVMPcsResourceStatus e ?home sc = (Inr status, sc1)" "\<not> equal_fold (prs_Role status) ''Started''"
      "sce_log sc1 = sce_log sc @ [(?home, pcs_status_command, answer_to e ?home pcs_status_command sc)]"
    by (rule stopped_status)
  have "sce_log (snd (CCVMSnap f e ?home rq sc)) = sce_log sc1 @ [(?home, snap_rollback_command (cnq_SnapName req),
      answer_to e ?home (snap_rollback_command (cnq_SnapName req)) sc1)]"
    using status(2) assms(2,3) cfg
    by (simp add: CCVMSnap_def assms(4) route_snap_def mode_http runCCVMSnapResolvedFromPCS_def status(1) runCCVMSnapLocal_def
        rollbackCCVMSnapshot_def split_beta Let_def)
  then show ?thesis using status(3) by (simp add: serve_snap_def gate split_beta Let_def commands_run_def)
qed

text \<open>
  C33. A request whose answer is lost is carried out again: when a rollback reaches nodes that carry it out, but
  whose answers come too late, it is run on each of them in turn and then once more on the first node whose answer arrives, each time
  after a look at pacemaker.
\<close>

theorem lost_answer_repeats:
  assumes "normalizeCCVMSnapRequest req = Inr req" and "cnq_Action req = ''rollback''"
    and "map cpt_Target (buildCCVMSnapPCSTargets cfg) = late @ target # others"
    and "\<And>t. t \<in> set (late @ [target]) \<Longrightarrow> rolls_back e self req t"
    and "\<And>t. t \<in> set late \<Longrightarrow> \<exists>err. fb_delivery (sne_fabric e) t = Late err" and "fb_delivery (sne_fabric e) target = Delivered"
  shows "let home = fb_home (sne_fabric e); (resp, sc') = runCCVMSnapViaPCS (callCCVMSnapRemote 2 e) e self cfg req sc
    in commands_run (sce_log sc') = commands_run (sce_log sc)
         @ concat (map (\<lambda>t. [(home t, pcs_status_command), (home t, snap_rollback_command (cnq_SnapName req))]) (late @ [target]))"
proof -
  let ?two = "\<lambda>t. [(fb_home (sne_fabric e) t, pcs_status_command), (fb_home (sne_fabric e) t, snap_rollback_command (cnq_SnapName req))]"
  let ?rq = "snap_http (attached_token (fb_machine (sne_fabric e) self) (sne_fleet e self)) req ccvmSnapResolveHeader False"
  have sent: "callCCVMSnapRemote 2 e self t req ccvmSnapResolveHeader False sc1 =
      (let (answer, sc2) = serve_snap (callCCVMSnapRemote 1 e) e (fb_home (sne_fabric e) t) ?rq sc1
       in ((case fb_delivery (sne_fabric e) t of Delivered \<Rightarrow> Inr (client_view t answer) | Late err \<Rightarrow> Inl err), sc2))"
    if "rolls_back e self req t" "fb_delivery (sne_fabric e) t = Delivered \<or> (\<exists>err. fb_delivery (sne_fabric e) t = Late err)" for t sc1
    using that by (auto simp: rolls_back_def numeral_2_eq_2 snap_exchange_def Let_def split_beta)
  have reached: "\<not> local_to e self t" "sne_health e self t w = None" if "rolls_back e self req t" for t w
    using that by (simp_all add: rolls_back_def Let_def)
  have "commands_run (sce_log (snd (via_targets (callCCVMSnapRemote 2 e) e self cfg req (ls @ target # others) lastErr sc1))) =
      commands_run (sce_log sc1) @ concat (map ?two (ls @ [target]))" if "set ls \<subseteq> set late" for ls lastErr sc1
    using that
  proof (induction ls arbitrary: lastErr sc1)
    case Nil
    have r: "rolls_back e self req target" using assms(4) by simp
    show ?case using rolled_back [OF r assms(1,2) refl, of "callCCVMSnapRemote 1 e" sc1]
      by (simp add: reached [OF r] sent [OF r] assms(6) split_beta Let_def)
  next
    case (Cons l ls)
    have r: "rolls_back e self req l" using assms(4) Cons.prems by simp
    obtain err where d: "fb_delivery (sne_fabric e) l = Late err" using assms(5) Cons.prems by auto
    show ?case using rolled_back [OF r assms(1,2) refl, of "callCCVMSnapRemote 1 e" sc1] Cons
      by (simp add: reached [OF r] sent [OF r] d split_beta Let_def)
  qed
  from this [of late None sc] show ?thesis using assms(3) by (auto simp: runCCVMSnapViaPCS_def Let_def split_beta)
qed

section \<open>The days of the automatic backup\<close>

definition valid_date :: "date \<Rightarrow> bool" where
  "valid_date d \<longleftrightarrow> (case d of (y, m, k) \<Rightarrow> y < 10000 \<and> 1 \<le> m \<and> m \<le> 12 \<and> 1 \<le> k \<and> k \<le> days_in m y)"

lemma length_show_nat: "n < 10 ^ Suc k \<Longrightarrow> length (show_nat n) \<le> Suc k"
proof (induction k arbitrary: n)
  case 0
  then show ?case by (simp add: show_nat.simps [of n])
next
  case (Suc k)
  then have "n div 10 < 10 ^ Suc k" by (simp add: less_mult_imp_div_less)
  with Suc.IH [of "n div 10"] show ?case by (subst show_nat.simps) simp
qed

lemma parse_zeros: "parse_digits (replicate k CHR ''0'' @ s) = parse_digits s"
  by (induction k) (simp_all add: parse_digits_def digit_val_def)

lemma pad_digits:
  assumes "n < 10 ^ Suc k"
  shows "length (pad_to (Suc k) (show_nat n)) = Suc k" and "list_all is_digit (pad_to (Suc k) (show_nat n))"
    and "parse_digits (pad_to (Suc k) (show_nat n)) = n"
proof -
  show "length (pad_to (Suc k) (show_nat n)) = Suc k" using length_show_nat [OF assms] by (simp add: pad_to_def)
  show "list_all is_digit (pad_to (Suc k) (show_nat n))" using show_nat_digits [of n] by (auto simp: pad_to_def list_all_iff is_digit_def)
qed (simp add: pad_to_def parse_zeros)

lemma days_in_le: "days_in m y \<le> 31"
  by (simp add: days_in_def)

lemma parse_format_date:
  assumes "valid_date d"
  shows "parse_date (format_date d) = Some d"
proof -
  obtain y m k where d: "d = (y, m, k)" by (cases d)
  have bounds: "y < 10 ^ Suc 3" "m < 10 ^ Suc 1" "k < 10 ^ Suc 1" "1 \<le> m" "m \<le> 12" "1 \<le> k" "k \<le> days_in m y"
    using assms days_in_le [of m y] by (auto simp: valid_date_def d)
  obtain y1 y2 y3 y4 where ys: "pad_to 4 (show_nat y) = [y1, y2, y3, y4]"
    using pad_digits(1) [OF bounds(1)] by (auto simp: length_Suc_conv numeral_eq_Suc)
  obtain m1 m2 where ms: "pad_to 2 (show_nat m) = [m1, m2]"
    using pad_digits(1) [OF bounds(2)] by (auto simp: length_Suc_conv numeral_eq_Suc)
  obtain k1 k2 where ks: "pad_to 2 (show_nat k) = [k1, k2]"
    using pad_digits(1) [OF bounds(3)] by (auto simp: length_Suc_conv numeral_eq_Suc)
  have "format_date d = [y1, y2, y3, y4, CHR ''-'', m1, m2, CHR ''-'', k1, k2]" by (simp add: format_date_def d ys ms ks)
  moreover have "list_all is_digit [y1, y2, y3, y4]" "list_all is_digit [m1, m2]" "list_all is_digit [k1, k2]"
    using pad_digits(2) [OF bounds(1)] pad_digits(2) [OF bounds(2)] pad_digits(2) [OF bounds(3)] ys ms ks by (simp_all add: numeral_eq_Suc)
  moreover have "parse_digits [y1, y2, y3, y4] = y" "parse_digits [m1, m2] = m" "parse_digits [k1, k2] = k"
    using pad_digits(3) [OF bounds(1)] pad_digits(3) [OF bounds(2)] pad_digits(3) [OF bounds(3)] ys ms ks by (simp_all add: numeral_eq_Suc)
  ultimately show ?thesis using bounds(4-7) by (simp add: parse_date_def d)
qed

lemma auto_name_inj:
  assumes "valid_date d" and "valid_date d'" and "auto_snap_name d = auto_snap_name d'"
  shows "d = d'"
proof -
  have "format_date d = format_date d'" using assms(3) by (simp only: auto_snap_name_def append_same_eq same_append_eq)
  then have "Some d = Some d'" using parse_format_date [OF assms(1)] parse_format_date [OF assms(2)] by metis
  then show ?thesis by simp
qed

lemma next_day_later: "date_before d (next_day d)"
  by (cases d) (auto simp: next_day_def)

lemma date_before_trans: "date_before a b \<Longrightarrow> date_before b c \<Longrightarrow> date_before a c"
  by (cases a; cases b; cases c) auto

lemma date_before_irrefl: "\<not> date_before a a"
  by (cases a) simp

text \<open>One time is before another.\<close>

fun time_before :: "date \<times> nat \<Rightarrow> date \<times> nat \<Rightarrow> bool" where
  "time_before (d, t) (d', t') \<longleftrightarrow> date_before d d' \<or> d = d' \<and> t < t'"

lemma next_time_later: "time_before now (nextAutoCCVMSnapTime now)"
  using next_day_later by (cases now) (simp add: nextAutoCCVMSnapTime_def Let_def)

text \<open>The scheduler looks at the clock again only after the time for which it slept.\<close>

fun clock_runs :: "(date \<times> nat) list \<Rightarrow> bool" where
  "clock_runs (now # next # nows) \<longleftrightarrow> \<not> time_before next (nextAutoCCVMSnapTime now) \<and> clock_runs (next # nows)"
| "clock_runs nows \<longleftrightarrow> True"

lemma auto_time: "snd (nextAutoCCVMSnapTime now) = 3600"
  by (simp add: nextAutoCCVMSnapTime_def autoCCVMSnapHour_def autoCCVMSnapMinute_def Let_def)

lemma auto_day_later:
  assumes "\<not> time_before now2 (nextAutoCCVMSnapTime now1)"
  shows "date_before (fst (nextAutoCCVMSnapTime now1)) (fst (nextAutoCCVMSnapTime now2))"
proof -
  obtain d t where n1: "nextAutoCCVMSnapTime now1 = (d, 3600)"
    by (metis auto_time prod.collapse)
  obtain d2 t2 where n2: "now2 = (d2, t2)" by (cases now2)
  have "date_before d d2 \<or> d = d2 \<and> 3600 \<le> t2"
    using assms unfolding n1 n2 by (cases d; cases d2) auto
  then have "date_before d (fst (nextAutoCCVMSnapTime now2))"
    using next_day_later [of d2] date_before_trans [of d d2 "next_day d2"]
    by (auto simp: n2 nextAutoCCVMSnapTime_def autoCCVMSnapHour_def autoCCVMSnapMinute_def Let_def)
  then show ?thesis by (simp add: n1)
qed

lemma auto_days:
  "map fst (fst (runAutoCCVMSnapScheduler f e self rounds sc)) = map (\<lambda>now. fst (nextAutoCCVMSnapTime now)) (map fst rounds)"
proof (induction rounds arbitrary: sc)
  case (Cons round rounds)
  then show ?case by (cases round) (simp add: Let_def split_beta)
qed simp

lemma clock_days:
  "clock_runs (now # nows) \<Longrightarrow> \<forall>now'\<in>set nows. date_before (fst (nextAutoCCVMSnapTime now)) (fst (nextAutoCCVMSnapTime now'))"
proof (induction nows arbitrary: now)
  case (Cons now2 nows)
  have step: "date_before (fst (nextAutoCCVMSnapTime now)) (fst (nextAutoCCVMSnapTime now2))"
    by (rule auto_day_later) (use Cons.prems in simp)
  have "\<forall>now'\<in>set nows. date_before (fst (nextAutoCCVMSnapTime now2)) (fst (nextAutoCCVMSnapTime now'))"
    by (rule Cons.IH) (use Cons.prems in simp)
  with step date_before_trans [OF step] show ?case by simp
qed simp

lemma clock_distinct: "clock_runs nows \<Longrightarrow> distinct (map (\<lambda>now. fst (nextAutoCCVMSnapTime now)) nows)"
proof (induction nows rule: clock_runs.induct)
  case (1 now nxt nows)
  have "fst (nextAutoCCVMSnapTime now) \<noteq> fst (nextAutoCCVMSnapTime now')" if "now' \<in> set (nxt # nows)" for now'
    using clock_days [OF "1.prems"] that date_before_irrefl by metis
  then have "fst (nextAutoCCVMSnapTime now) \<notin> set (map (\<lambda>now. fst (nextAutoCCVMSnapTime now)) (nxt # nows))"
    unfolding set_map by blast
  with 1 show ?case by simp
qed simp_all

text \<open>
  The automatic backup has one snapshot a day: while the clock runs on, the rounds of the scheduler belong to different
  days, and the snapshots of different days have different names.
\<close>

theorem automatic_names_differ:
  assumes "clock_runs (map fst rounds)"
    and "\<forall>now\<in>set (map fst rounds). valid_date (fst (nextAutoCCVMSnapTime now))"
  shows "distinct (map (\<lambda>(day, result). auto_snap_name day) (fst (runAutoCCVMSnapScheduler f e self rounds sc)))"
proof -
  let ?days = "map fst (fst (runAutoCCVMSnapScheduler f e self rounds sc))"
  have "distinct ?days" unfolding auto_days by (rule clock_distinct [OF assms(1)])
  moreover have "inj_on auto_snap_name (set ?days)"
  proof (rule inj_onI)
    fix d d' assume "d \<in> set ?days" "d' \<in> set ?days" and same: "auto_snap_name d = auto_snap_name d'"
    then have "valid_date d" "valid_date d'" using assms(2) unfolding auto_days set_map by blast+
    then show "d = d'" using same by (rule auto_name_inj)
  qed
  ultimately have "distinct (map auto_snap_name ?days)" unfolding distinct_map [of auto_snap_name] by (rule conjI)
  moreover have "map (\<lambda>(day, result). auto_snap_name day) xs = map auto_snap_name (map fst xs)" for xs :: "(date \<times> auto_result) list"
    by (simp add: case_prod_unfold)
  ultimately show ?thesis by (simp only:)
qed

section \<open>Witnesses\<close>

text \<open>A pool whose snapshots are numbered: the world is the first number and the next one; a list prints as many letters.\<close>

definition numbered :: "nat \<times> nat \<Rightarrow> string list" where
  "numbered w = map show_nat [fst w ..< snd w]"

definition numbered_run :: "string \<Rightarrow> string list \<Rightarrow> nat \<times> nat \<Rightarrow> command_answer \<times> nat \<times> nat" where
  "numbered_run n c w =
     (if c = snap_list_command then ((replicate (fst w) CHR ''a'' @ replicate (snd w - fst w) CHR ''b'', False, None), w)
      else if c = snap_create_command (show_nat (snd w)) \<and> fst w \<le> snd w then (([], False, None), (fst w, Suc (snd w)))
      else if c = snap_rm_command (show_nat (fst w)) \<and> fst w < snd w then (([], False, None), (Suc (fst w), snd w))
      else if take 1 c = [''virsh''] then ((''running'', False, None), w)
      else (([], False, Some ''refused''), w))"

definition numbered_json :: "string \<Rightarrow> goval outcome" where
  "numbered_json out =
     (let n = length (filter (\<lambda>c. c = CHR ''a'') out); k = length (filter (\<lambda>c. c = CHR ''b'') out)
      in Inr (VArr (map (\<lambda>i. VMap (fmupd ''name'' (VStr (show_nat i)) fmempty)) [n ..< n + k])))"

definition numbered_env :: "(nat \<times> nat) snap_env" where
  "numbered_env =
     \<lparr>sne_fabric = sample_fabric, sne_fleet = (\<lambda>n. sample_node), sne_hostname = (\<lambda>n. Some ''cube1''),
      sne_run = numbered_run, sne_json = numbered_json, sne_mismatch = (\<lambda>v. []), sne_xml = (\<lambda>out. Inl ''EOF''),
      sne_refusal = (\<lambda>n code. []), sne_stamp = (\<lambda>n w. []), sne_health = (\<lambda>n target w. None)\<rparr>"

definition numbered_cfg :: ClusterSection where
  "numbered_cfg =
     \<lparr>sec_Type = ''ablestack-hci'', sec_CCVM_IP = [], sec_Hosts = [], dc_StorageNetwork = [], dc_MngtNic = \<lparr>Nic_CIDR = [], Nic_GW = [], Nic_DNS = []\<rparr>,
      cs_HostType = [], cs_BackupPath = [], cs_CCVM = \<lparr>CCVM_IP = [], CCVM_CIDR = [], CCVM_GW = [], CCVM_DNS = []\<rparr>,
      cs_PCSCluster = pcs_of [], cs_ExternalTimeserver = []\<rparr>"

definition ten_snapshots :: "(nat \<times> nat) scene" where
  "ten_snapshots = \<lparr>sce_world = (0, 10), sce_log = []\<rparr>"

definition backup_request :: CCVMSnapRequest where
  "backup_request = \<lparr>cnq_Action = ''backup'', cnq_SnapName = ''10''\<rparr>"

lemma ref_inj: "ccvmSnapRef a = ccvmSnapRef b \<longleftrightarrow> a = b"
  by (simp add: ccvmSnapRef_def)

lemma numbered_decodes:
  "decode_snapshots (VArr (map (\<lambda>i. VMap (fmupd ''name'' (VStr (show_nat i)) fmempty)) is)) = Some (map (\<lambda>i. fmupd ''name'' (VStr (show_nat i)) fmempty) is)"
  by (simp add: decode_snapshots_def list_all_iff item_map_def comp_def)

lemma numbered_name: "snapshot_name (fmupd ''name'' (VStr (show_nat i)) fmempty) = show_nat i"
  by (simp add: snapshot_name_def mget_def)

lemma numbered_lists:
  assumes "sne_run numbered_env n snap_list_command w = ((out, False, None), w1)"
  shows "numbered w1 = numbered w
    \<and> (\<exists>v ss. sne_json numbered_env out = Inr v \<and> decode_snapshots v = Some ss \<and> map snapshot_name ss = map trim_space (numbered w))"
proof -
  have out: "out = replicate (fst w) CHR ''a'' @ replicate (snd w - fst w) CHR ''b''" "w1 = w"
    using assms by (auto simp: numbered_env_def numbered_run_def)
  have "[fst w ..< fst w + (snd w - fst w)] = [fst w ..< snd w]" by (cases "fst w \<le> snd w") simp_all
  then show ?thesis
    by (simp add: out numbered_env_def numbered_json_def numbered_def Let_def numbered_decodes numbered_name comp_def)
qed

lemma commands_differ:
  "snap_create_command name \<noteq> snap_list_command" "snap_rm_command name \<noteq> snap_list_command" "snap_rm_command name \<noteq> snap_create_command name'"
  "snap_create_command name = snap_create_command name' \<longleftrightarrow> name = name'" "snap_rm_command name = snap_rm_command name' \<longleftrightarrow> name = name'"
  "snap_create_command name' \<noteq> snap_rm_command name" "take 1 (snap_create_command name) \<noteq> [''virsh'']" "take 1 (snap_rm_command name) \<noteq> [''virsh'']"
  by (simp_all add: snap_create_command_def snap_rm_command_def snap_list_command_def ref_inj)

lemma numbered_creates:
  assumes "sne_run numbered_env n (snap_create_command name) w = ((out, False, None), w1)"
  shows "name \<notin> set (numbered w) \<and> numbered w1 = numbered w @ [name]"
  using assms commands_differ
  by (auto simp: numbered_env_def numbered_run_def numbered_def show_nat_inj split: if_splits)

lemma numbered_removes:
  assumes "sne_run numbered_env n (snap_rm_command name) w = ((out, False, None), w1)"
  shows "numbered w1 = remove1 name (numbered w)"
  using assms commands_differ
  by (auto simp: numbered_env_def numbered_run_def numbered_def upt_conv_Cons split: if_splits)

lemma numbered_virsh: "c \<in> {domstate_command, suspend_command, resume_command} \<Longrightarrow> numbered (snd (sne_run numbered_env n c w)) = numbered w"
  by (auto simp: numbered_env_def numbered_run_def domstate_command_def suspend_command_def resume_command_def
      snap_list_command_def snap_create_command_def snap_rm_command_def)

lemma numbered_pool: "rbd_pool numbered_env numbered"
  unfolding rbd_pool_def using numbered_lists numbered_creates numbered_removes numbered_virsh by blast

lemma numbered_proper: "proper_names (numbered w)"
  by (auto simp: proper_names_def numbered_def distinct_map show_nat_inj intro!: inj_onI)

lemma numbered_backup:
  "cnr_Code (fst (runCCVMSnapLocal numbered_env ''cube1'' numbered_cfg backup_request True ten_snapshots)) = 200
   \<and> cnr_SnapName (fst (runCCVMSnapLocal numbered_env ''cube1'' numbered_cfg backup_request True ten_snapshots)) = ''10''"
  by code_simp

theorem backup_keeps_ten_witness:
  "let sc' = snd (runCCVMSnapLocal numbered_env ''cube1'' numbered_cfg backup_request True ten_snapshots)
   in ''10'' \<in> set (numbered (sce_world sc')) \<and> length (numbered (sce_world sc')) \<le> 10"
proof -
  obtain resp sc' where run: "runCCVMSnapLocal numbered_env ''cube1'' numbered_cfg backup_request True ten_snapshots = (resp, sc')"
    by (cases "runCCVMSnapLocal numbered_env ''cube1'' numbered_cfg backup_request True ten_snapshots")
  then have code: "cnr_Code resp = 200" "cnr_SnapName resp = ''10''" using numbered_backup by simp_all
  have name: "trim_space ''10'' = ''10''" "\<not> isAutoCCVMSnapshotName ''10''" by code_simp+
  have "cnq_Action backup_request = ''backup''" by (simp add: backup_request_def)
  from backup_keeps_ten [OF numbered_pool numbered_proper this run code(1)] show ?thesis
    using code(2) name by (simp add: Let_def run)
qed

text \<open>Two hosts of a hyper-converged cluster whose CCVM is stopped; the answers of the first come too late.\<close>

definition member_node :: node where
  "member_node =
     sample_node\<lparr>no_world := sample_world (fmupd ''security'' (VMap (puts ''internal_token'' ''tok'' fmempty)) (sample_root ''ablestack-hci''))\<rparr>"

definition stopped_env :: "unit snap_env" where
  "stopped_env =
     silent_env\<lparr>sne_fabric := sample_fabric\<lparr>fb_delivery := (\<lambda>t. if t = ''10.0.0.2'' then Late ''timeout'' else Delivered)\<rparr>,
       sne_fleet := (\<lambda>n. member_node), sne_xml := (\<lambda>out. Inr \<lparr>pss_CurrentDC = [], pss_Resource = [], pss_Clone = []\<rparr>)\<rparr>"

definition two_hosts :: ClusterSection where
  "two_hosts = numbered_cfg\<lparr>cs_PCSCluster := pcs_of [''10.0.0.2'', ''10.0.0.3''],
     sec_Hosts := [(host_param sample_host)\<lparr>Ablecube := ''10.0.0.2'', AblecubePn := ''10.0.0.2''\<rparr>,
                   (host_param sample_host)\<lparr>Ablecube := ''10.0.0.3'', AblecubePn := ''10.0.0.3''\<rparr>]\<rparr>"

definition rollback_request :: CCVMSnapRequest where
  "rollback_request = \<lparr>cnq_Action = ''rollback'', cnq_SnapName = ''s1''\<rparr>"

lemma member_token: "has_token (node_doc member_node) ''tok''"
  by (simp add: has_token_def node_doc_def member_node_def sample_world_def)

lemma member_section: "\<exists>cfg. loadClusterConfigSection (node_doc member_node) = Some cfg \<and> isHCITarget (sec_Type cfg)"
proof -
  have "map_option (\<lambda>cfg. isHCITarget (sec_Type cfg)) (loadClusterConfigSection (node_doc member_node)) = Some True" by code_simp
  then show ?thesis by auto
qed

lemma member_gate: "Middleware (system_of sample_machine member_node) (snap_http (attached_token sample_machine member_node) req ccvmSnapResolveHeader False) = Next"
proof -
  let ?y = "system_of sample_machine member_node"
  have get: "GetInternalToken (y_env (ma_system sample_machine)) (node_store member_node) = Inr ''tok''"
    using member_token trim_tok sample_no_env by (intro has_token_get) (simp_all add: node_store_def node_doc_def)
  then have attached: "attached_token sample_machine member_node = Some ''tok''" using trim_tok by (simp add: attached_token_def)
  let ?rq = "snap_http (Some ''tok'') req ccvmSnapResolveHeader False"
  obtain secret where "ExistingSigningSecret (sample_system fmempty) = Inr secret" using sample_secret by blast
  then have secret: "ExistingSigningSecret ?y = Inr secret" by (simp add: ExistingSigningSecret_def system_of_def sample_machine_def)
  have path: "\<not> isPublicPath (r_path ?rq)" "r_method ?rq \<noteq> ''OPTIONS''"
    by (simp_all add: snap_http_def snap_path_def isPublicPath_def has_prefix_def)
  have "hasCubeInternalHeader (r_headers ?rq)"
    by (simp add: hasCubeInternalHeader_def InternalTokenHeader_def equal_fold_def snap_http_def)
  moreover have "get_header ?rq InternalTokenHeader = ''tok''" by (simp add: get_header_def InternalTokenHeader_def snap_http_def)
  then have "ValidateInternalToken (y_env ?y) (get_header ?rq InternalTokenHeader) (y_store ?y)"
    using get trim_tok by (simp add: ValidateInternalToken_def system_of_def)
  ultimately show ?thesis
    using require_license_iff [OF path(1), of ?y] secret path by (auto simp: Middleware_def attached split: sum.splits)
qed

theorem lost_answer_repeats_witness:
  "let (resp, sc') = runCCVMSnapViaPCS (callCCVMSnapRemote 2 stopped_env) stopped_env ''cube9'' two_hosts rollback_request \<lparr>sce_world = (), sce_log = []\<rparr>
   in commands_run (sce_log sc') = [(''cube1'', pcs_status_command), (''cube1'', snap_rollback_command ''s1''),
        (''cube1'', pcs_status_command), (''cube1'', snap_rollback_command ''s1'')]"
proof -
  have req: "normalizeCCVMSnapRequest rollback_request = Inr rollback_request" "cnq_Action rollback_request = ''rollback''" by code_simp+
  have targets: "map cpt_Target (buildCCVMSnapPCSTargets two_hosts) = [''10.0.0.2''] @ ''10.0.0.3'' # []" by code_simp
  have far: "\<not> equal_fold ''10.0.0.2'' ''localhost''" "\<not> equal_fold ''10.0.0.3'' ''localhost''" "\<not> equal_fold ''Stopped'' ''Started''" by code_simp+
  have stopped: "told_stopped stopped_env (answer_to stopped_env n c sc)" for n c sc
    using far(3) by (simp add: told_stopped_def answer_to_def stopped_env_def silent_env_def ccvm_resource_def collectCCVMSnapPCSResources_def)
  have "\<not> local_to stopped_env ''cube9'' t" if "t \<in> {''10.0.0.2'', ''10.0.0.3''}" for t
    using that far by (auto simp: local_to_def isLocalTarget_def stopped_env_def silent_env_def sample_fabric_def sample_machine_def split: option.split)
  then have rolls: "rolls_back stopped_env ''cube9'' rollback_request t" if "t \<in> set ([''10.0.0.2''] @ [''10.0.0.3''])" for t
    using that member_gate member_section stopped by (simp add: rolls_back_def Let_def) (simp add: stopped_env_def silent_env_def sample_fabric_def)
  have "fb_delivery (sne_fabric stopped_env) ''10.0.0.2'' = Late ''timeout''" "fb_delivery (sne_fabric stopped_env) ''10.0.0.3'' = Delivered"
    "fb_home (sne_fabric stopped_env) t = ''cube1''" for t
    by (simp_all add: stopped_env_def silent_env_def sample_fabric_def)
  then show ?thesis
    using lost_answer_repeats [OF req targets rolls, where sc = "\<lparr>sce_world = (), sce_log = []\<rparr>"]
    by (simp add: Let_def split_beta commands_run_def) (simp add: rollback_request_def)
qed

theorem automatic_names_differ_witness:
  "distinct (map (\<lambda>(day, result). auto_snap_name day)
     (fst (runAutoCCVMSnapScheduler (callCCVMSnapRemote 2 numbered_env) numbered_env ''cube1''
       [(((2024, 12, 31), 3600), id), (((2025, 1, 1), 3600), id)] ten_snapshots)))"
  by (rule automatic_names_differ) (simp_all add: nextAutoCCVMSnapTime_def autoCCVMSnapHour_def autoCCVMSnapMinute_def next_day_def days_in_def
      valid_date_def Let_def)

end
