(* ===== verification/Spec2Isabelle.thy ===== *)
theory Spec2Isabelle
  imports Cluster_Apply_Facts Auth_Service Glue_Validation Controller_Sched Bootstrap_Run Deploy_Run Cloud_Host_Remove Node_Role Host_Removal_Facts License_Apply_Facts Ccvm_Snapshot_Retention
begin

text \<open>
  \<^bold>\<open>The ABLESTACK management API.\<close> The program is a Go HTTP server that runs on every node of a
  cluster. It keeps the cluster's configuration in one JSON document (\<^verbatim>\<open>cluster.json\<close>),
  derives \<^verbatim>\<open>/etc/hosts\<close> from it, lets nodes call each other with a shared internal token,
  lets people log in with Linux accounts once a licence is registered, runs status handlers in the
  background, drives the deployment of a cluster and the bootstrap of the cloud manager as background
  jobs, and wraps the storage commands behind input checks.

  \<^bold>\<open>How the parts interact.\<close> A request passes the gate of \<^verbatim>\<open>internal/handler/auth\<close>, which asks
  \<^verbatim>\<open>service/licenseservice\<close> for an active licence and accepts either the internal token, which
  \<^verbatim>\<open>service/security\<close> reads from \<^verbatim>\<open>cluster.json\<close>, or an access token of
  \<^verbatim>\<open>service/authservice\<close>, signed with a secret derived from the licence. The configuration
  actions of \<^verbatim>\<open>service/clusterconfig\<close> load the document, edit it, normalise and save it, and
  rewrite the hosts file from it; fan-out actions send the same request to the other nodes. The
  first insert on a fresh node brings the token along, through an exception of the gate.

  \<^bold>\<open>Theories\<close>, in the order of their imports.
  \<^item> \<open>Go_Prelude\<close>, \<open>Go_Value\<close>, \<open>Go_Base64\<close>: what the sources use of Go: byte strings with the
    \<^verbatim>\<open>strings\<close> and \<^verbatim>\<open>strconv\<close> functions, dynamic JSON values, base64. Collections \<open>go_str\<close> and
    \<open>go_val\<close> carry the automation.
  \<^item> \<open>Pcs_Cluster\<close> (\<^verbatim>\<open>model/cube/cluster_config.go\<close>): the node list, its slot encoding with the
    locale \<open>slot_codec\<close>, its bounds, the normalisation of an apply request.
  \<^item> \<open>Cluster_Normalize\<close> (\<^verbatim>\<open>NormalizeClusterJSON\<close> and its helpers in
    \<^verbatim>\<open>service/clusterconfig/cluster_config.go\<close>): a stored document is a fixed point of load and
    save, the token survives, what is not managed is kept.
  \<^item> \<open>Hosts_File\<close> (\<^verbatim>\<open>changeHosts\<close>, \<^verbatim>\<open>filterHostsLines\<close> and the line functions of the same file):
    the locale \<open>hosts_table\<close> is the contract of one host's entries, interpreted for both cluster
    types; names of the cluster resolve after a rebuild.
  \<^item> \<open>Cluster_Apply\<close>, \<open>Cluster_Apply_Facts\<close> (\<^verbatim>\<open>parseArgs\<close>, \<^verbatim>\<open>insert\<close>, \<^verbatim>\<open>removeHost\<close>,
    \<^verbatim>\<open>resetClusterConfig\<close>, \<^verbatim>\<open>applyArgs\<close>, \<^verbatim>\<open>ApplyLocal\<close>, the fan-out): state passing over \<open>world\<close>,
    which holds the document, the hosts file, \<^verbatim>\<open>fstab\<close>, \<^verbatim>\<open>sysctl\<close> and the commands run. The document and
    the hosts file are written with \<^verbatim>\<open>os.WriteFile\<close>, which truncates first: \<open>world\<close> carries the fate of the
    writes to come (done, refused, cut off after some bytes, done but not confirmed), and an error carries
    the state it leaves. An insert is described for hyper-converged and for virtual machine types alike.
  \<^item> \<open>Internal_Token\<close> (\<^verbatim>\<open>service/security/security.go\<close>): reading, validating, rotating, masking and
    saving the token; the locale \<open>token_store\<close> is interpreted on the cluster document.
  \<^item> \<open>License_Service\<close> (\<^verbatim>\<open>service/licenseservice/license.go\<close>) and \<open>Auth_Service\<close>
    (\<^verbatim>\<open>service/authservice/authservice.go\<close>, \<^verbatim>\<open>handler/auth/auth.go\<close>): licences, access tokens, the
    shadow file, the gate, login and the rotation of the token across peers.
  \<^item> \<open>Glue_Validation\<close> (\<^verbatim>\<open>service/glueservice/validation.go\<close>): the input checks; the locale
    \<open>word_check\<close> is interpreted on each name check.
  \<^item> \<open>Controller_Sched\<close> (\<^verbatim>\<open>service/controller/controller.go\<close>): the scheduler and its workers as an
    interleaving step relation, made of the scheduler's own steps, the ticks and the callers; no handler
    overlaps itself, after a stop the own steps are bounded by a rank and the ticks that still win, a pass
    refines the sequential dispatch.
  \<^item> \<open>Bootstrap_Plan\<close> (\<^verbatim>\<open>service/moldservice/bootstrap_plan.go\<close>, \<^verbatim>\<open>bootstrap_request.go\<close>,
    \<^verbatim>\<open>cluster_config.go\<close>): the request of a bootstrap, its defaults from the document, the plan.
  \<^item> \<open>Job_Store\<close>: the locale \<open>job_store\<close>, the contract of a bounded store of jobs, interpreted on the
    store of the bootstraps and on that of the deployments. \<open>Polling\<close>: the locale \<open>bounded_poll\<close>, the
    contract of a loop with a deadline, interpreted on the three loops that wait.
  \<^item> \<open>Bootstrap_Jobs\<close> (\<^verbatim>\<open>handler/mold/bootstrap_job.go\<close>): the job store and the job goroutines as
    an interleaving step relation; statuses are true, steps run in order, the store is bounded.
  \<^item> \<open>Mold_Client\<close> (\<^verbatim>\<open>service/moldservice/mold.go\<close>): the client of the cloud manager's API over a
    server that is any function of its own state; when a call succeeds, and what a login gives.
  \<^item> \<open>Ssh_Trust\<close> (\<^verbatim>\<open>service/sshtrust\<close>, \<^verbatim>\<open>handler/cube/ssh_trust.go\<close>): the authorised keys of a host;
    a registration is exact, visible and idempotent.
  \<^item> \<open>Bootstrap_Execute\<close>, \<open>Bootstrap_Run\<close> (\<^verbatim>\<open>service/moldservice/bootstrap_execute.go\<close>): the steps
    of a bootstrap as functions of a runtime. The steps that ensure one resource share \<open>reconcile\<close>;
    the relation \<open>within\<close> bounds what a piece of a step may send. The handler's run of a job refines
    the process model and always ends.
  \<^item> \<open>Cloud_Host_Remove\<close> (\<^verbatim>\<open>service/moldservice/host_remove.go\<close>): the removal of a host from the
    cloud manager under a context with a deadline; one deletion at most, and only in maintenance.
  \<^item> \<open>Storage_Requests\<close> (the checks of \<^verbatim>\<open>handler/cube/gfs_manage.go\<close>, \<^verbatim>\<open>rbd_manage.go\<close>,
    \<^verbatim>\<open>local_manage.go\<close>) and \<open>Cloud_Init\<close> (\<^verbatim>\<open>gencloudinit.go\<close>, \<^verbatim>\<open>ccvm_cloudinit.go\<close>,
    \<^verbatim>\<open>scvm_cloudinit.go\<close>): the requests of the storage operations and of the images of the virtual
    machines, their normal forms, the network and the files of an image.
  \<^item> \<open>Deploy_Jobs\<close>, \<open>Deploy_Steps\<close>, \<open>Deploy_Run\<close> (\<^verbatim>\<open>handler/cube/deploy_run.go\<close>): the selection of the
    steps, the store with its one active job and the goroutines as an interleaving step relation; the
    steps as functions of a \<open>site\<close> that records the calls made; reports are true, every call belongs to a
    selected step that was earned, a run always ends and refines the process model.
  \<^item> \<open>Net_IP\<close>, \<open>Node_Role\<close> (\<^verbatim>\<open>handler/mold/node_role.go\<close>, \<^verbatim>\<open>handler/glue/scvm_guard.go\<close>): the values of
    addresses and the guards that keep an API to one kind of node; the locale \<open>role_guard\<close> is their
    contract, interpreted on both, and the two agree up to a node with the addresses of both kinds.
  \<^item> \<open>Cluster_Section\<close>, \<open>Cluster_Orchestrate\<close>, \<open>Cluster_Orchestrate_Facts\<close>, \<open>Cluster_Token\<close>
    (\<^verbatim>\<open>handler/cube/cluster_config.go\<close>, \<^verbatim>\<open>deploy_cluster_apply.go\<close>, \<^verbatim>\<open>time_server.go\<close> and the loader in
    \<^verbatim>\<open>common.go\<close>): what the handlers read of the document, the health check, the time server, and an
    apply request over the cluster. A \<open>fleet\<close> gives each machine its node; one node completes the request and
    sends it, encoded and decoded, through the gate of \<open>Auth_Service\<close> to the actions of \<open>Cluster_Apply\<close> of
    each. The wire keeps a request, adding hosts keeps the others, a successful insert leaves every
    node with the same token unless a write on it broke off, and a success is the same when the insert
    fails on every node.
  \<^item> \<open>Host_Removal\<close>, \<open>Host_Removal_Facts\<close> (\<^verbatim>\<open>handler/cube/host_remove.go\<close>): the jobs that remove a host.
    A step is a function of a \<open>removal_world\<close>, which holds the cloud manager, the fleet, the outside and a
    record of what was done; the steps use \<open>Cloud_Host_Remove\<close> and \<open>Cluster_Orchestrate\<close>. Nothing is torn down
    before the cloud manager has let go, reports are true, and two defects are shown: two removals are accepted
    where only one host can be spared, and the pacemaker node is found by its place in a list.
  \<^item> \<open>System_Config\<close>, \<open>System_Config_Facts\<close> (\<^verbatim>\<open>handler/cube/system_config.go\<close>): the system profile of the
    document on a node and over the fleet. A flag that was updated with success is held by every host,
    the token survives every request whose writes do not break off and is lost when one does, and a section that is not known is lost in spite of the answer.
  \<^item> \<open>License_Apply\<close>, \<open>License_Apply_Facts\<close> (\<^verbatim>\<open>handler/cube/license.go\<close>, \<^verbatim>\<open>license_apply.go\<close>): the licence
    handler of a node and the distribution over a fleet whose nodes hold licences. A distribution
    makes the nodes sign with one secret, and an active licence is replaced only by a known caller.
  \<^item> \<open>Ccvm_Snapshot\<close>, \<open>Ccvm_Snapshot_Facts\<close>, \<open>Ccvm_Snapshot_Retention\<close> (\<^verbatim>\<open>handler/cube/ccvm_snap.go\<close>,
    \<^verbatim>\<open>ccvm_snap_scheduler.go\<close>): snapshots of the CCVM. Commands act on a world that the nodes share, and a \<open>scene\<close>
    records what was run where. The locale \<open>log_rule\<close> is the contract of a property of such records, interpreted
    twice: what is suspended is resumed at once, and a rollback follows a look at pacemaker. Backups keep
    the ten newest snapshots, a request is passed on at most twice, and a rollback whose answers come late is run again on each further node.
  \<^item> This theory: properties that span components: an insert closes the gate's exception behind
    itself, makes the cluster's names resolve, for both kinds of cluster, and prepares the bootstrap; a bootstrap makes the hosts
    trust the CCVM.

  \<^bold>\<open>Bounds and totality.\<close> Every function is total and needs no fuel: loops are structural recursions
  over the data the source ranges over; the pruning loops of the job stores and the waiting loops
  have termination proofs, the latter by the time left to their deadline. Calls between nodes that call
  again carry a bound, two, which is proved to be enough. Durations are 64-bit words with wrap-around; ports and sizes are unbounded integers with
  the checks of the source; numbers in a document are taken within the exact range of
  \<^verbatim>\<open>float64\<close>. Interleavings are arbitrary; after a stop every own step of the scheduler lowers a rank that
  only a tick can raise, and only by one.

  \<^bold>\<open>Parameters.\<close> Remote nodes, the output of commands, the environment, the random source, the clock,
  password hashing, the block cipher, the key derivation and JSON decoding of licences and claims
  are arguments of the definitions. Where a property needs their behaviour it is a named
  hypothesis (for example that decoding a claim inverts encoding it, or that the key parser does not mind
  space around a line without carriage returns), and its witness instantiates
  them.

  \<^bold>\<open>Not modelled.\<close> The handlers that run operating system, pacemaker, libvirt, ceph and ssh
  commands and present their output, logging and routing: their behaviour is that of the commands,
  and what they compute on their own are parsers of texts for presentation. The scan for SSH keys that
  follows an insert, the cached copy of the document behind its lock, the status pages and the generated API description are left out, too.
\<close>

section \<open>An insert and the token gate\<close>

text \<open>A string token that an insert writes is the token the next load reads.\<close>

lemma inserted_token:
  assumes "trim_space t \<noteq> []" and "w_doc w = Doc (stored (fmupd ''clusterConfig'' (VMap cfg) (put_token t root)))"
  shows "\<exists>r. loadClusterRoot (w_doc w) = Some r \<and> internalTokenFromRoot r = trim_space t"
proof -
  let ?r = "fmupd ''clusterConfig'' (VMap cfg) (put_token t root)"
  let ?r1 = "fmupd ''clusterConfig'' (orderedClusterConfig cfg) ?r"
  let ?sec = "submap ?r ''security''"
  have cfg: "as_map (mget ?r ''clusterConfig'') = Some cfg" by simp
  have sec: "fmlookup ?sec ''internal_token'' = Some (VStr (trim_space t))" using assms(1) by (simp add: put_token_def)
  have "submap (fst (collect_profile ?r1)) ''security'' = ?sec"
    using sec assms(1) by (simp add: fst_collect_profile_security inherit_token_def mget_def [of "submap _ _"] split: option.splits)
  then have "fmlookup (stored ?r) ''security'' = Some (VMap (fmmap reload ?sec))"
    using sec by (simp add: stored_def fmlookup_normalized [OF cfg] Let_def default_token_def)
  moreover have "mget (fmmap reload ?sec) ''internal_token'' = VStr (trim_space t)"
    using sec by (simp add: mget_def)
  ultimately have "internalTokenFromRoot (NormalizeClusterJSON (stored ?r)) = trim_space (trim_space t)"
    using assms(1) by (intro normalize_keeps_token)
  with assms(2) show ?thesis by (simp add: loadClusterRoot_def)
qed

lemma insert_config_saved:
  assumes "insert_config e args w = (res, w')" and "Code res = 200"
  shows "\<exists>cfg root. w_doc w' = Doc (stored (fmupd ''clusterConfig'' (VMap cfg) (put_token (aInternalToken args) root)))"
proof -
  obtain root cfg cfg' w1 where *: "saveClusterJSON (fmupd ''clusterConfig'' (VMap cfg') (put_token (aInternalToken args) root)) (applyNetworkFilter e w) = Inr w1"
      "w' = snd (retryHostsApply e args (aCopyOption args) (enable_timer (aType args) w1))"
    using assms
    by (auto simp: insert_config_def Let_def resultError_def split: sum.splits option.splits prod.splits if_splits)
  then have "w_doc w' = w_doc w1" by (simp add: retry_frame frames)
  also have "\<dots> = Doc (stored (fmupd ''clusterConfig'' (VMap cfg') (put_token (aInternalToken args) root)))"
    using *(1) by (auto simp: saveClusterJSON_def dest: write_doc_saved)
  finally show ?thesis by blast
qed


lemma applyArgs_insert_saved:
  assumes "aAction args = ''insert''" and "applyArgs e net args w = (res, w')" and "Code res = 200"
  shows "\<exists>cfg root. w_doc w' = Doc (stored (fmupd ''clusterConfig'' (VMap cfg) (put_token (aInternalToken args) root)))"
proof -
  obtain w1 where "insert_config e args w1 = (res, w')"
    using assms by (auto simp: applyArgs_def Let_def split: prod.splits if_splits)
  then show ?thesis using assms(3) by (rule insert_config_saved)
qed

text \<open>
  C1. The first insert closes the exception of the request gate behind itself: once an insert that
  brings a token has succeeded on a node whose environment sets none, no further request passes by the
  exception, and the gate accepts exactly that token.
\<close>

theorem insert_closes_bootstrap:
  assumes "aAction args = ''insert''" and "applyArgs e net args w = (res, w')" and "Code res = 200"
    and "trim_space (aInternalToken args) \<noteq> []"
    and "s_doc (y_store y) = w_doc w'" and "envInternalToken (y_env y) = []"
  shows "\<not> allowClusterApplyLocalBootstrap y req
     \<and> (ValidateInternalToken (y_env y) actual (y_store y) \<longleftrightarrow> trim_space actual = trim_space (aInternalToken args))"
proof -
  obtain cfg root where "w_doc w' = Doc (stored (fmupd ''clusterConfig'' (VMap cfg) (put_token (aInternalToken args) root)))"
    using applyArgs_insert_saved [OF assms(1-3)] by blast
  then obtain r where r: "loadClusterRoot (w_doc w') = Some r" "internalTokenFromRoot r = trim_space (aInternalToken args)"
    using inserted_token [OF assms(4)] by blast
  then have get: "GetInternalToken (y_env y) (y_store y) = Inr (trim_space (aInternalToken args))"
    using assms(5,6) by (simp add: GetInternalToken_def)
  with assms(4) show ?thesis
    by (auto simp: allowClusterApplyLocalBootstrap_def ValidateInternalToken_def Let_def)
qed

definition token_args :: Args where
  "token_args = (sample_args ''insert'')\<lparr>aInternalToken := ''0123456789abcdef''\<rparr>"

lemma token_args_fields:
  "aAction token_args = ''insert''" "aType token_args = ''ablestack-hci''" "aCopyOption token_args = ''hostOnly''"
  "aInternalToken token_args = ''0123456789abcdef''" "aCCVMMngtIP token_args = ''10.0.0.10''" "aStorageNetwork token_args = []"
  by (simp_all add: token_args_def sample_args_def empty_args_def)

lemma token_args_params: "parseHostParams (aJSONString token_args) = Some [host_param sample_host]"
  by (simp add: token_args_def sample_args_def parseHostParams_def item_map_def List.map_filter_def)

lemma token_args_pcs: "validatePCSClusterInput token_args = Inr ()"
  using sample_pcs [of "''insert''"] by (simp add: validatePCSClusterInput_def token_args_def)

lemma sample_world_fields:
  "w_doc (sample_world r) = Doc r" "w_doc_writable (sample_world r)" "w_hosts (sample_world r) = Some ''127.0.0.1 localhost''"
  "w_hosts_writable (sample_world r)"
  by (simp_all add: sample_world_def)

lemma token_insert:
  "\<exists>w'. applyArgs sample_env sample_net token_args (sample_world fmempty) = (resultOK ''Cluster Config insert Success'', w')"
  using insert_hci_result [of token_args "sample_world fmempty" fmempty "''127.0.0.1 localhost''" "[host_param sample_host]" sample_env sample_net]
    token_args_fields token_args_params token_args_pcs sample_types sample_world_fields by auto

theorem insert_closes_bootstrap_witness:
  "\<exists>w'. applyArgs sample_env sample_net token_args (sample_world fmempty) = (resultOK ''Cluster Config insert Success'', w')
     \<and> \<not> allowClusterApplyLocalBootstrap ((sample_system fmempty)\<lparr>y_store := \<lparr>s_doc = w_doc w', s_tmp = False, s_private = True\<rparr>\<rparr>)
          (sample_request [])
     \<and> ValidateInternalToken (\<lambda>_. []) ''0123456789abcdef'' \<lparr>s_doc = w_doc w', s_tmp = False, s_private = True\<rparr>"
proof -
  obtain w' where w': "applyArgs sample_env sample_net token_args (sample_world fmempty) = (resultOK ''Cluster Config insert Success'', w')"
    using token_insert by blast
  let ?y = "(sample_system fmempty)\<lparr>y_store := \<lparr>s_doc = w_doc w', s_tmp = False, s_private = True\<rparr>\<rparr>"
  have "trim_space ''0123456789abcdef'' = ''0123456789abcdef''" by code_simp
  then show ?thesis
    using insert_closes_bootstrap [OF token_args_fields(1) w', of ?y "sample_request []" "''0123456789abcdef''"] w'
    by (simp add: resultOK_def token_args_fields no_env sample_fields)
qed

section \<open>An insert and the names of the cluster\<close>

text \<open>
  C2. An insert makes the cluster reachable by name: after an insert with well-formed and distinct names
  and addresses, of which no later one clashes with the entries of an earlier one, every host name resolves
  through the hosts file of the node to the address given for it, whatever the file held before. The
  cluster is hyper-converged, or of a virtual machine type with a storage network, without which such an
  insert takes no new hosts; the document and the hosts file can be read and written.
\<close>

theorem insert_resolves_hosts:
  assumes "aAction args = ''insert''" and "storable args"
    and "w_doc w = Doc root" and "w_doc_writable w" and "w_hosts w = Some content" and "w_hosts_writable w"
    and "aCopyOption args = ''hostOnly''"
    and "aPCSClusterList args = [] \<or> validatePCSClusterInput args = Inr ()"
    and "parseHostParams (aJSONString args) = Some params" and "distinct (map Hostname params)"
    and "one_line (aCCVMMngtIP args)"
    and "hosts = map (stored_host (aType args)) params"
    and "\<And>h. h \<in> set hosts \<Longrightarrow> good_entries (host_entries (aType args) (e_hostname e) h)"
    and "sorted_wrt (\<lambda>h h'. \<forall>en \<in> set (host_entries (aType args) (e_hostname e) h).
           spares (aType args) (aStorageNetwork args) h' (entry_line en)) hosts"
  shows "\<exists>w' content'. applyArgs e net args w = (resultOK ''Cluster Config insert Success'', w') \<and> w_hosts w' = Some content'
     \<and> (\<forall>p \<in> set params. resolve (readHostsLines content') (Hostname p) = Some (Ablecube p))"
proof -
  obtain w' doc cfg where ins: "applyArgs e net args w = (resultOK ''Cluster Config insert Success'', w')"
      "cfg = submap doc ''clusterConfig''" "getHosts cfg = hosts" "gets (submap cfg ''ccvm'') ''ip'' = aCCVMMngtIP args"
      "w_hosts w' = Some (changeHosts (aType args) (aStorageNetwork args) (e_hostname e) cfg content)"
    using insert_result [OF assms(1-10), of e net] unfolding assms(12) by (elim exE conjE)
  have private_address: "gets h ''ablecubePn'' = []" if "is_vm_type (aType args)" "h \<in> set hosts" for h
    using that assms(12) by (auto simp: stored_host_def vm_fields_def)
  have "resolve (readHostsLines (changeHosts (aType args) (aStorageNetwork args) (e_hostname e) cfg content)) (Hostname p) = Some (Ablecube p)"
    if p: "p \<in> set params" for p
    using changeHosts_own_name [of cfg "aType args" "e_hostname e" "aStorageNetwork args" "stored_host (aType args) p" content]
      ins(3,4) assms(11-14) private_address p by simp
  with ins show ?thesis by blast
qed

lemma token_entries:
  "hci_entries ''cube1'' (hci_fields (host_param sample_host) fmempty) =
      [(''10.0.0.1'', [''cube1'', ''ablecube'']), (''10.0.0.11'', [''scvm1-mngt'', ''scvm-mngt'']),
       (''100.0.0.1'', [''pn-ablecube1'', ''pn-ablecube'']), (''100.0.0.11'', [''scvm1'', ''scvm'']),
       (''100.1.0.11'', [''cn-scvm1'', ''cn-scvm''])]"
  by (simp add: hci_entries_def hci_fields_def sample_host_def host_param_def Let_def)

definition vm_args :: Args where
  "vm_args = token_args\<lparr>aType := ''ablestack-vm'', aStorageNetwork := ''true''\<rparr>"

lemma insert_types: "storable token_args" "storable vm_args" "is_vm_type ''ablestack-vm''"
proof -
  have types: "is_vm_type ''ablestack-vm''" "\<not> isHCIClusterType ''ablestack-vm''" by code_simp+
  show "storable token_args" "storable vm_args" "is_vm_type ''ablestack-vm''"
    using sample_types types token_args_fields by (simp_all add: storable_def vm_args_def)
qed

lemma vm_args_pcs: "validatePCSClusterInput vm_args = Inr ()"
proof -
  have "ValidatePCSClusterList [''cube1'', ''cube2'', ''cube3''] (minPCSClusterHostsForType ''ablestack-vm'') = Inr ()"
    by code_simp
  then show ?thesis by (simp add: validatePCSClusterInput_def vm_args_def token_args_def sample_args_def)
qed

theorem insert_resolves_hosts_witness:
  "(\<exists>w' content'. applyArgs sample_env sample_net token_args (sample_world fmempty) = (resultOK ''Cluster Config insert Success'', w')
     \<and> w_hosts w' = Some content' \<and> resolve (readHostsLines content') ''cube1'' = Some ''10.0.0.1'')
   \<and> (\<exists>w' content'. applyArgs sample_env sample_net vm_args (sample_world fmempty) = (resultOK ''Cluster Config insert Success'', w')
     \<and> w_hosts w' = Some content' \<and> resolve (readHostsLines content') ''cube1'' = Some ''10.0.0.1'')"
proof -
  let ?p = "host_param sample_host"
  have good: "good_entries (hci_entries ''cube1'' (hci_fields ?p fmempty))"
    unfolding token_entries by code_simp
  have entries: "vm_entries ''cube1'' (vm_fields [] ?p fmempty) = [(''10.0.0.1'', [''cube1'', ''ablecube''])]"
    by (simp add: vm_entries_def vm_fields_def sample_host_def host_param_def)
  have good_vm: "good_entries (vm_entries ''cube1'' (vm_fields [] ?p fmempty))"
    unfolding entries by code_simp
  have p: "Hostname ?p = ''cube1''" "Ablecube ?p = ''10.0.0.1''" by (simp_all add: sample_host_def host_param_def)
  have line: "one_line ''10.0.0.10''" by (simp add: one_line_def)
  have node: "e_hostname sample_env = ''cube1''" by (simp add: sample_env_def)
  have vm: "aAction vm_args = ''insert''" "aCopyOption vm_args = ''hostOnly''" "aCCVMMngtIP vm_args = ''10.0.0.10''"
      "aType vm_args = ''ablestack-vm''" "parseHostParams (aJSONString vm_args) = Some [?p]"
    using token_args_fields token_args_params by (simp_all add: vm_args_def)
  show ?thesis
    using insert_resolves_hosts [of token_args "sample_world fmempty" fmempty "''127.0.0.1 localhost''" "[?p]"
        "[stored_host (aType token_args) ?p]" sample_env sample_net]
      insert_resolves_hosts [of vm_args "sample_world fmempty" fmempty "''127.0.0.1 localhost''" "[?p]"
        "[stored_host (aType vm_args) ?p]" sample_env sample_net]
      good good_vm p line node vm insert_types vm_args_pcs token_args_fields token_args_params token_args_pcs sample_types sample_world_fields
    by (simp add: host_entries_def stored_host_def)
qed

section \<open>An insert and the bootstrap of the cloud manager\<close>

text \<open>
  C3. An insert leaves a document from which the bootstrap can start: after an insert with a CCVM address,
  of a type the bootstrap supports, the defaults apply, the hosts to add are the inserted ones with an
  address, in order, and the plan is ready exactly if the caller gives the zone, pod, public range and
  cluster inputs, some host has an address, and a requested staging store has its URL; the inputs of the
  zone and the pod alone are not enough.
\<close>

theorem insert_prepares_bootstrap:
  assumes "aAction args = ''insert''" and "storable args"
    and "w_doc w = Doc root" and "w_doc_writable w" and "w_hosts w = Some content" and "w_hosts_writable w"
    and "aCopyOption args = ''hostOnly''"
    and "aPCSClusterList args = [] \<or> validatePCSClusterInput args = Inr ()"
    and "parseHostParams (aJSONString args) = Some params" and "distinct (map Hostname params)"
    and "supported_type (aType args)" and "\<not> blank (aCCVMMngtIP args)"
  shows "\<exists>w' req'. applyArgs e net args w = (resultOK ''Cluster Config insert Success'', w')
     \<and> PrepareBootstrapRequest req (w_doc w') = Inr req'
     \<and> map hr_URL (q_Hosts req') = map (\<lambda>p. ''http://'' @ trim_space (Ablecube p)) (filter (\<lambda>p. \<not> blank (Ablecube p)) params)
     \<and> (v_Ready (BuildBootstrapPlan req') \<longleftrightarrow> list_all (\<lambda>v. \<not> blank v) (user_inputs req)
          \<and> list_ex (\<lambda>p. \<not> blank (Ablecube p)) params
          \<and> (\<forall>staging. q_SecondaryStagingStore req = Some staging \<longrightarrow> \<not> blank (sg_URL staging)))"
proof -
  obtain w' doc cfg where ins: "applyArgs e net args w = (resultOK ''Cluster Config insert Success'', w')" "w_doc w' = Doc doc"
      "cfg = submap doc ''clusterConfig''" "getHosts cfg = map (stored_host (aType args)) params" "gets cfg ''type'' = aType args"
      "gets (submap cfg ''ccvm'') ''ip'' = aCCVMMngtIP args"
    using insert_result [OF assms(1-10), of e net] by (elim exE conjE)
  have "aType args \<noteq> []" using assms(2) by (auto simp: storable_def isHCIClusterType_def is_vm_type_def equal_fold_def)
  then have cfg: "as_map (mget doc ''clusterConfig'') = Some cfg"
    using ins(3,5) by (cases "as_map (mget doc ''clusterConfig'')") (simp_all add: submap_def)
  let ?host = "\<lambda>p. section_host (isHCIClusterType (aType args)) (stored_host (aType args) p)"
  let ?sec = "\<lparr>sec_Type = aType args, sec_CCVM_IP = aCCVMMngtIP args, sec_Hosts = map ?host params\<rparr>"
  have load: "LoadClusterConfigSection (w_doc w') = Some ?sec"
    using LoadClusterConfigSection_map [OF cfg] ins(2,4-6) by (simp add: comp_def)
  obtain req' where req': "ApplyClusterBootstrapDefaults req (Some ?sec) = Inr req'"
    using defaults_succeed [of req ?sec] assms(11,12) by auto
  have addr: "Ablecube (?host p) = Ablecube p" for p by (simp add: section_host_def host_param_def)
  have "map hr_URL (q_Hosts req') = map (\<lambda>p. ''http://'' @ trim_space (Ablecube p)) (filter (\<lambda>p. \<not> blank (Ablecube p)) params)"
    by (simp add: defaults_hosts [OF req'] default_hosts_fst filter_map comp_def addr)
  moreover have "list_ex (\<lambda>h. \<not> blank (Ablecube h)) (sec_Hosts ?sec) = list_ex (\<lambda>p. \<not> blank (Ablecube p)) params"
    by (simp add: list_ex_iff addr)
  ultimately show ?thesis
    using ins(1) load req' defaults_ready [OF req'] by (auto simp: PrepareBootstrapRequest_def)
qed

theorem insert_prepares_bootstrap_witness:
  "\<exists>w' req'. applyArgs sample_env sample_net token_args (sample_world fmempty) = (resultOK ''Cluster Config insert Success'', w')
     \<and> PrepareBootstrapRequest sample_bootstrap (w_doc w') = Inr req' \<and> v_Ready (BuildBootstrapPlan req')"
proof -
  have "Ablecube (host_param sample_host) = ''10.0.0.1''" by (simp add: sample_host_def host_param_def)
  moreover have "to_lower (trim_space ''ablestack-hci'') = ''ablestack-hci''" by code_simp
  ultimately show ?thesis
    using insert_prepares_bootstrap [of token_args "sample_world fmempty" fmempty "''127.0.0.1 localhost''" "[host_param sample_host]"
        sample_env sample_net sample_bootstrap]
      token_args_fields token_args_params token_args_pcs insert_types(1) sample_world_fields sample_inputs sample_section(6,7) by auto
qed

section \<open>The bootstrap and the keys of the hosts\<close>

text \<open>The answer of a host whose trust handler runs on its own files.\<close>

definition host_answer :: "((int \<times> string) + SSHTrustResponse) \<times> key_files \<Rightarrow> trust_answer" where
  "host_answer p = (case fst p of Inl (code, msg) \<Rightarrow> Answer code msg None [] | Inr resp \<Rightarrow> Answer 200 [] (Some resp) [])"

definition ensure_body :: "string \<Rightarrow> SSHTrustRequest" where
  "ensure_body publicKey = \<lparr>sq_Action = ''ensure'', sq_PublicKey = publicKey, sq_Identifier = DefaultIdentifier\<rparr>"

definition trust_url :: "'c tools \<Rightarrow> moldHostTrustTarget \<Rightarrow> string" where
  "trust_url t target = moldHostAPIURL (t_env t) (ht_Target target) @ ''/api/v1/cube/ssh/trust''"

lemma trust_loop_all: "trust_loop f ok targets = (results, None) \<Longrightarrow> target \<in> set targets \<Longrightarrow> ok (f target)"
  by (induction targets arbitrary: results) (auto simp: Let_def split: if_splits prod.splits)

lemma SSHTrust_code: "SSHTrust lib body fs = (Inl (code, msg), fs') \<Longrightarrow> code = 400 \<or> code = 500"
  by (auto simp: SSHTrust_def Let_def trust_reply_def split: option.splits if_splits sum.splits prod.splits)

lemma ensure_action: "SSHTrust lib (Some (ensure_body key)) fs = (Inr resp, fs') \<Longrightarrow> sr_Action resp = ''ensure''"
proof -
  have "trim_space ''ensure'' = ''ensure''" "to_lower ''ensure'' = ''ensure''" by code_simp+
  then show "SSHTrust lib (Some (ensure_body key)) fs = (Inr resp, fs') \<Longrightarrow> sr_Action resp = ''ensure''"
    by (auto simp: SSHTrust_def ensure_body_def Let_def trust_reply_def split: if_splits sum.splits prod.splits)
qed

lemma answered_ok:
  assumes "t_post t (trust_url t target) token (ensure_body key) = host_answer (SSHTrust lib (Some (ensure_body key)) fs)"
    and "hx_Code (ensureMoldHostTrust t target key token) < 300"
  shows "\<exists>resp fs'. SSHTrust lib (Some (ensure_body key)) fs = (Inr resp, fs')"
proof (cases "SSHTrust lib (Some (ensure_body key)) fs")
  case (Pair a fs')
  show ?thesis
  proof (cases a)
    case (Inl e)
    then obtain code msg where e: "a = Inl (code, msg)" by (cases e) auto
    then have "code = 400 \<or> code = 500" using SSHTrust_code Pair by blast
    moreover have "hx_Code (ensureMoldHostTrust t target key token) = code"
      using assms(1) Pair e
      by (simp add: ensureMoldHostTrust_def trust_url_def ensure_body_def host_answer_def Let_def)
    ultimately show ?thesis using assms(2) by auto
  qed (use Pair in auto)
qed

text \<open>
  C4. When the trust step of a bootstrap succeeds, every host of the cluster trusts the CCVM: on each
  host whose handler answered the request, the authorised keys then hold exactly one entry for the
  CCVM, the management key that was read, and all other entries as before. The file has carriage
  returns only before line feeds.
\<close>

theorem bootstrap_trusts_hosts:
  assumes "ssh_laws (t_lib t)"
    and "reconcileHostSSHTrust t = (registered, verified, None)"
    and "loadMoldHostTrustTargets t = Inr targets" and "target \<in> set targets"
    and "\<And>token req. t_post t (trust_url t target) token req = host_answer (SSHTrust (t_lib t) (Some req) fs)"
    and "plain_lines (key_content DefaultAuthorizedKeysPath fs)"
  shows "\<exists>key publicKey fp. ReadManagementPublicKey (t_lib t) (t_readFile t) (ManagementPublicKeyPath (t_joinPath t) (me_getenv (t_env t))) = Inr (publicKey, fp)
     \<and> publicKey = key_line (t_lib t) key
     \<and> filter (managed (t_lib t)) (entries (key_content DefaultAuthorizedKeysPath (snd (SSHTrust (t_lib t) (Some (ensure_body publicKey)) fs)))) = [publicKey]
     \<and> filter (\<lambda>l. \<not> managed (t_lib t) l) (entries (key_content DefaultAuthorizedKeysPath (snd (SSHTrust (t_lib t) (Some (ensure_body publicKey)) fs))))
         = filter (\<lambda>l. \<not> managed (t_lib t) l) (entries (key_content DefaultAuthorizedKeysPath fs))"
proof -
  let ?lib = "t_lib t"
  obtain publicKey fp where pk: "ReadManagementPublicKey ?lib (t_readFile t) (ManagementPublicKeyPath (t_joinPath t) (me_getenv (t_env t))) = Inr (publicKey, fp)"
    using assms(2) by (auto simp: reconcileHostSSHTrust_def split: sum.splits)
  then obtain key where key: "publicKey = key_line ?lib key"
    by (auto simp: ReadManagementPublicKey_def NormalizePublicKey_def key_line_def identifier_trimmed split: sum.splits)
  obtain token results where reg: "trust_loop (\<lambda>target. let result = ensureMoldHostTrust t target publicKey token
        in if hx_Fingerprint result = [] then result\<lparr>hx_Fingerprint := fp\<rparr> else result)
      (\<lambda>result. 200 \<le> hx_Code result \<and> hx_Code result < 300) targets = (results, None)"
    using assms(2,3) pk by (auto simp: reconcileHostSSHTrust_def Let_def split: sum.splits if_splits prod.splits option.splits)
  have "hx_Code (ensureMoldHostTrust t target publicKey token) < 300"
    using trust_loop_all [OF reg assms(4)] by (auto simp: Let_def split: if_splits)
  then obtain resp fs' where s: "SSHTrust ?lib (Some (ensure_body publicKey)) fs = (Inr resp, fs')"
    using answered_ok [OF assms(5)] by blast
  obtain key' c where k: "ssh_parse ?lib (trim_space publicKey) = Inr (key', c)"
      "\<And>fs. SSHTrust ?lib (Some (ensure_body publicKey)) fs =
          (let (res, fs') = updateAuthorizedKeys ?lib DefaultAuthorizedKeysPath DefaultIdentifier (key_line ?lib key') (ssh_fingerprint ?lib key') False fs
           in (trust_reply ''ensure'' DefaultIdentifier res, fs'))"
    using ensure_request [OF s ensure_action [OF s]] by (auto simp: ensure_body_def)
  obtain res where u: "updateAuthorizedKeys ?lib DefaultAuthorizedKeysPath DefaultIdentifier (key_line ?lib key') (ssh_fingerprint ?lib key') False fs = (Inr res, fs')"
    using s unfolding k(2) by (auto simp: trust_reply_def Let_def split: prod.splits sum.splits)
  have "key' = key"
    using k(1) key_line_facts(1,3) [OF assms(1), of key] unfolding key by (auto simp: line_key_def split: if_splits)
  with update_spec [OF assms(1) u _ assms(6), of key] pk key s show ?thesis
    by (intro exI [of _ key] exI [of _ publicKey] exI [of _ fp] conjI) simp_all
qed

definition trust_tools :: "unit tools" where
  "trust_tools =
     sample_tools\<lparr>t_env := sample_mold\<lparr>me_getenv := (\<lambda>k. if k = ''CUBE_INTERNAL_TOKEN'' then ''t'' else [])\<rparr>, t_lib := sample_ssh,
       t_readFile := (\<lambda>_. Inr ''kcd cloud@ccvm''),
       t_hosts := Inr [host_param sample_host], t_post := (\<lambda>_ _ req. host_answer (SSHTrust sample_ssh (Some req) sample_files)),
       t_keyscan := (\<lambda>_ _. (None, ''key''))\<rparr>"

theorem bootstrap_trusts_hosts_witness:
  "\<exists>key publicKey fp. ReadManagementPublicKey sample_ssh (\<lambda>_. Inr ''kcd cloud@ccvm'') (ManagementPublicKeyPath (t_joinPath trust_tools) (me_getenv (t_env trust_tools)))
       = Inr (publicKey, fp)
     \<and> filter (managed sample_ssh) (entries (key_content DefaultAuthorizedKeysPath (snd (SSHTrust sample_ssh (Some (ensure_body publicKey)) sample_files)))) = [publicKey]"
proof -
  have lib: "t_lib trust_tools = sample_ssh" "t_readFile trust_tools = (\<lambda>_. Inr ''kcd cloud@ccvm'')"
    "\<And>u token req. t_post trust_tools u token req = host_answer (SSHTrust (t_lib trust_tools) (Some req) sample_files)"
    by (simp_all add: trust_tools_def)
  have ok: "snd (snd (reconcileHostSSHTrust trust_tools)) = None" by code_simp
  then obtain a b where r: "reconcileHostSSHTrust trust_tools = (a, b, None)" by (metis prod.collapse)
  have "loadMoldHostTrustTargets trust_tools = Inr [\<lparr>ht_Hostname = ''cube1'', ht_Target = ''10.0.0.1''\<rparr>]" by code_simp
  moreover have "plain_lines (key_content DefaultAuthorizedKeysPath sample_files)" by code_simp
  ultimately show ?thesis
    using bootstrap_trusts_hosts [OF _ r _ list.set_intros(1) lib(3)] sample_laws
    unfolding lib(1,2) by blast
qed

end
